(* ===== verification/ApiTypes.thy ===== *)
theory ApiTypes
  imports GoJson "HOL-Library.Word"
begin

text \<open>
  The wire types of \<open>pkg/apicompat/types.go\<close>: one record per struct, its zero value, and, for the
  structs the package itself marshals or unmarshals, the encoder and decoder that their JSON tags
  determine. Fields carry a short prefix because record fields share one name space. A \<open>*float64\<close> is
  only ever passed on, so it is kept as the bits of the number.
\<close>

type_synonym float64 = "64 word"

section \<open>Anthropic Messages\<close>

record AnthropicOutputConfig =
  aoc_Effort :: go_string

record AnthropicThinking =
  ath_Type :: go_string
  ath_BudgetTokens :: int

record AnthropicMessage =
  am_Role :: go_string
  am_Content :: RawMessage

record AnthropicCacheControl =
  cc_Type :: go_string
  cc_TTL :: go_string

record AnthropicImageSource =
  src_Type :: go_string
  src_MediaType :: go_string
  src_Data :: go_string

record AnthropicContentBlock =
  blk_Type :: go_string
  blk_CacheControl :: "AnthropicCacheControl option"
  blk_Text :: go_string
  blk_Thinking :: go_string
  blk_Source :: "AnthropicImageSource option"
  blk_ID :: go_string
  blk_Name :: go_string
  blk_Input :: RawMessage
  blk_ToolUseID :: go_string
  blk_Content :: RawMessage
  blk_IsError :: bool

definition zero_block :: AnthropicContentBlock where
  "zero_block = \<lparr>blk_Type = [], blk_CacheControl = None, blk_Text = [], blk_Thinking = [],
     blk_Source = None, blk_ID = [], blk_Name = [], blk_Input = [], blk_ToolUseID = [],
     blk_Content = [], blk_IsError = False\<rparr>"

record AnthropicTool =
  at_Type :: go_string
  at_Name :: go_string
  at_Description :: go_string
  at_InputSchema :: RawMessage
  at_CacheControl :: "AnthropicCacheControl option"

definition zero_tool :: AnthropicTool where
  "zero_tool = \<lparr>at_Type = [], at_Name = [], at_Description = [], at_InputSchema = [],
     at_CacheControl = None\<rparr>"

record AnthropicRequest =
  areq_Model :: go_string
  areq_MaxTokens :: int
  areq_System :: RawMessage
  areq_Messages :: "AnthropicMessage list"
  areq_Tools :: "AnthropicTool list"
  areq_Stream :: bool
  areq_Temperature :: "float64 option"
  areq_TopP :: "float64 option"
  areq_StopSeqs :: "go_string list"
  areq_Thinking :: "AnthropicThinking option"
  areq_ToolChoice :: RawMessage
  areq_Metadata :: RawMessage
  areq_OutputConfig :: "AnthropicOutputConfig option"

definition zero_AnthropicRequest :: AnthropicRequest where
  "zero_AnthropicRequest = \<lparr>areq_Model = [], areq_MaxTokens = 0, areq_System = [],
     areq_Messages = [], areq_Tools = [], areq_Stream = False, areq_Temperature = None,
     areq_TopP = None, areq_StopSeqs = [], areq_Thinking = None, areq_ToolChoice = [],
     areq_Metadata = [], areq_OutputConfig = None\<rparr>"

record AnthropicUsage =
  au_InputTokens :: int
  au_OutputTokens :: int
  au_CacheCreationInputTokens :: int
  au_CacheReadInputTokens :: int

definition zero_AnthropicUsage :: AnthropicUsage where
  "zero_AnthropicUsage = \<lparr>au_InputTokens = 0, au_OutputTokens = 0,
     au_CacheCreationInputTokens = 0, au_CacheReadInputTokens = 0\<rparr>"

record AnthropicResponse =
  aresp_ID :: go_string
  aresp_Type :: go_string
  aresp_Role :: go_string
  aresp_Content :: "AnthropicContentBlock list"
  aresp_Model :: go_string
  aresp_StopReason :: go_string
  aresp_StopSequence :: "go_string option"
  aresp_Usage :: AnthropicUsage

definition zero_AnthropicResponse :: AnthropicResponse where
  "zero_AnthropicResponse = \<lparr>aresp_ID = [], aresp_Type = [], aresp_Role = [], aresp_Content = [],
     aresp_Model = [], aresp_StopReason = [], aresp_StopSequence = None,
     aresp_Usage = zero_AnthropicUsage\<rparr>"

record AnthropicDelta =
  ad_Type :: go_string
  ad_Text :: go_string
  ad_PartialJSON :: go_string
  ad_Thinking :: go_string
  ad_Signature :: go_string
  ad_StopReason :: go_string
  ad_StopSequence :: "go_string option"

definition zero_AnthropicDelta :: AnthropicDelta where
  "zero_AnthropicDelta = \<lparr>ad_Type = [], ad_Text = [], ad_PartialJSON = [], ad_Thinking = [],
     ad_Signature = [], ad_StopReason = [], ad_StopSequence = None\<rparr>"

record AnthropicStreamEvent =
  ase_Type :: go_string
  ase_Message :: "AnthropicResponse option"
  ase_Index :: "int option"
  ase_ContentBlock :: "AnthropicContentBlock option"
  ase_Delta :: "AnthropicDelta option"
  ase_Usage :: "AnthropicUsage option"

definition zero_ase :: AnthropicStreamEvent where
  "zero_ase = \<lparr>ase_Type = [], ase_Message = None, ase_Index = None, ase_ContentBlock = None,
     ase_Delta = None, ase_Usage = None\<rparr>"

subsection \<open>Encoders\<close>

definition enc_AnthropicCacheControl :: "AnthropicCacheControl \<Rightarrow> string option" where
  "enc_AnthropicCacheControl c =
     marshal_struct [f_str ''type'' (cc_Type c), f_str_omit ''ttl'' (cc_TTL c)]"

definition enc_AnthropicImageSource :: "AnthropicImageSource \<Rightarrow> string option" where
  "enc_AnthropicImageSource s =
     marshal_struct [f_str ''type'' (src_Type s), f_str ''media_type'' (src_MediaType s),
       f_str ''data'' (src_Data s)]"

text \<open>
  \<open>AnthropicContentBlock.MarshalJSON\<close>: for a text block the outer \<open>text\<close> field hides the embedded one
  and comes first, so an empty text is still written; likewise for thinking.
\<close>

definition block_fields :: "bool \<Rightarrow> bool \<Rightarrow> AnthropicContentBlock \<Rightarrow> enc_field list" where
  "block_fields with_text with_thinking b =
     [f_str ''type'' (blk_Type b), f_ptr_omit ''cache_control'' enc_AnthropicCacheControl (blk_CacheControl b)]
     @ (if with_text then [f_str_omit ''text'' (blk_Text b)] else [])
     @ (if with_thinking then [f_str_omit ''thinking'' (blk_Thinking b)] else [])
     @ [f_ptr_omit ''source'' enc_AnthropicImageSource (blk_Source b),
        f_str_omit ''id'' (blk_ID b), f_str_omit ''name'' (blk_Name b),
        f_raw_omit ''input'' (blk_Input b), f_str_omit ''tool_use_id'' (blk_ToolUseID b),
        f_raw_omit ''content'' (blk_Content b), f_bool_omit ''is_error'' (blk_IsError b)]"

definition enc_AnthropicContentBlock :: "AnthropicContentBlock \<Rightarrow> string option" where
  "enc_AnthropicContentBlock b =
     (if blk_Type b = ''text'' then
        marshal_struct (f_str ''text'' (blk_Text b) # block_fields False True b)
      else if blk_Type b = ''thinking'' then
        marshal_struct (f_str ''thinking'' (blk_Thinking b) # block_fields True False b)
      else marshal_struct (block_fields True True b))"

definition enc_AnthropicUsage :: "AnthropicUsage \<Rightarrow> string option" where
  "enc_AnthropicUsage u =
     marshal_struct [f_int ''input_tokens'' (au_InputTokens u),
       f_int ''output_tokens'' (au_OutputTokens u),
       f_int ''cache_creation_input_tokens'' (au_CacheCreationInputTokens u),
       f_int ''cache_read_input_tokens'' (au_CacheReadInputTokens u)]"

definition enc_AnthropicResponse :: "AnthropicResponse \<Rightarrow> string option" where
  "enc_AnthropicResponse r =
     marshal_struct [f_str ''id'' (aresp_ID r), f_str ''type'' (aresp_Type r),
       f_str ''role'' (aresp_Role r),
       f_val ''content'' (map_option jarr (mapM_opt enc_AnthropicContentBlock (aresp_Content r))),
       f_str ''model'' (aresp_Model r), f_str ''stop_reason'' (aresp_StopReason r),
       f_ptr_omit ''stop_sequence'' (Some \<circ> jstr) (aresp_StopSequence r),
       f_val ''usage'' (enc_AnthropicUsage (aresp_Usage r))]"

definition enc_AnthropicDelta :: "AnthropicDelta \<Rightarrow> string option" where
  "enc_AnthropicDelta d =
     marshal_struct [f_str_omit ''type'' (ad_Type d), f_str_omit ''text'' (ad_Text d),
       f_str_omit ''partial_json'' (ad_PartialJSON d), f_str_omit ''thinking'' (ad_Thinking d),
       f_str_omit ''signature'' (ad_Signature d), f_str_omit ''stop_reason'' (ad_StopReason d),
       f_ptr_omit ''stop_sequence'' (Some \<circ> jstr) (ad_StopSequence d)]"

definition enc_AnthropicStreamEvent :: "AnthropicStreamEvent \<Rightarrow> string option" where
  "enc_AnthropicStreamEvent e =
     marshal_struct [f_str ''type'' (ase_Type e),
       f_ptr_omit ''message'' enc_AnthropicResponse (ase_Message e),
       f_ptr_omit ''index'' (Some \<circ> Itoa) (ase_Index e),
       f_ptr_omit ''content_block'' enc_AnthropicContentBlock (ase_ContentBlock e),
       f_ptr_omit ''delta'' enc_AnthropicDelta (ase_Delta e),
       f_ptr_omit ''usage'' enc_AnthropicUsage (ase_Usage e)]"

subsection \<open>Decoders\<close>

definition dec_AnthropicCacheControl ::
    "AnthropicCacheControl \<Rightarrow> RawMessage \<Rightarrow> AnthropicCacheControl option" where
  "dec_AnthropicCacheControl old = dec_struct (\<lambda>kvs. do {
     t \<leftarrow> dec_field dec_string (cc_Type old) ''type'' kvs;
     ttl \<leftarrow> dec_field dec_string (cc_TTL old) ''ttl'' kvs;
     Some \<lparr>cc_Type = t, cc_TTL = ttl\<rparr> }) old"

definition dec_AnthropicImageSource ::
    "AnthropicImageSource \<Rightarrow> RawMessage \<Rightarrow> AnthropicImageSource option" where
  "dec_AnthropicImageSource old = dec_struct (\<lambda>kvs. do {
     t \<leftarrow> dec_field dec_string (src_Type old) ''type'' kvs;
     m \<leftarrow> dec_field dec_string (src_MediaType old) ''media_type'' kvs;
     d \<leftarrow> dec_field dec_string (src_Data old) ''data'' kvs;
     Some \<lparr>src_Type = t, src_MediaType = m, src_Data = d\<rparr> }) old"

definition dec_AnthropicContentBlock :: "RawMessage \<Rightarrow> AnthropicContentBlock option" where
  "dec_AnthropicContentBlock = dec_struct (\<lambda>kvs. do {
     t \<leftarrow> dec_field dec_string [] ''type'' kvs;
     cc \<leftarrow> dec_field (dec_ptr dec_AnthropicCacheControl \<lparr>cc_Type = [], cc_TTL = []\<rparr>) None
            ''cache_control'' kvs;
     txt \<leftarrow> dec_field dec_string [] ''text'' kvs;
     th \<leftarrow> dec_field dec_string [] ''thinking'' kvs;
     src \<leftarrow> dec_field (dec_ptr dec_AnthropicImageSource
              \<lparr>src_Type = [], src_MediaType = [], src_Data = []\<rparr>) None ''source'' kvs;
     i \<leftarrow> dec_field dec_string [] ''id'' kvs;
     n \<leftarrow> dec_field dec_string [] ''name'' kvs;
     inp \<leftarrow> dec_field dec_raw [] ''input'' kvs;
     tu \<leftarrow> dec_field dec_string [] ''tool_use_id'' kvs;
     c \<leftarrow> dec_field dec_raw [] ''content'' kvs;
     e \<leftarrow> dec_field dec_bool False ''is_error'' kvs;
     Some \<lparr>blk_Type = t, blk_CacheControl = cc, blk_Text = txt, blk_Thinking = th,
       blk_Source = src, blk_ID = i, blk_Name = n, blk_Input = inp, blk_ToolUseID = tu,
       blk_Content = c, blk_IsError = e\<rparr> }) zero_block"

section \<open>OpenAI Responses\<close>

record ResponsesReasoning =
  rr_Effort :: go_string
  rr_Summary :: go_string

record ResponsesText =
  rt_Verbosity :: go_string

record ResponsesTool =
  rtool_Type :: go_string
  rtool_Name :: go_string
  rtool_Description :: go_string
  rtool_Parameters :: RawMessage
  rtool_Strict :: "bool option"

definition zero_rtool :: ResponsesTool where
  "zero_rtool = \<lparr>rtool_Type = [], rtool_Name = [], rtool_Description = [], rtool_Parameters = [],
     rtool_Strict = None\<rparr>"

record ResponsesRequest =
  rreq_Model :: go_string
  rreq_Instructions :: go_string
  rreq_Input :: RawMessage
  rreq_MaxOutputTokens :: "int option"
  rreq_Temperature :: "float64 option"
  rreq_TopP :: "float64 option"
  rreq_Stream :: bool
  rreq_Tools :: "ResponsesTool list"
  rreq_Include :: "go_string list"
  rreq_Store :: "bool option"
  rreq_ParallelToolCalls :: "bool option"
  rreq_Reasoning :: "ResponsesReasoning option"
  rreq_Text :: "ResponsesText option"
  rreq_ToolChoice :: RawMessage
  rreq_ServiceTier :: go_string
  rreq_PromptCacheKey :: go_string
  rreq_PreviousResponseID :: go_string

definition zero_ResponsesRequest :: ResponsesRequest where
  "zero_ResponsesRequest = \<lparr>rreq_Model = [], rreq_Instructions = [], rreq_Input = [],
     rreq_MaxOutputTokens = None, rreq_Temperature = None, rreq_TopP = None, rreq_Stream = False,
     rreq_Tools = [], rreq_Include = [], rreq_Store = None, rreq_ParallelToolCalls = None,
     rreq_Reasoning = None, rreq_Text = None, rreq_ToolChoice = [], rreq_ServiceTier = [],
     rreq_PromptCacheKey = [], rreq_PreviousResponseID = []\<rparr>"

record ResponsesInputItem =
  ri_Type :: go_string
  ri_Role :: go_string
  ri_Content :: RawMessage
  ri_CallID :: go_string
  ri_Name :: go_string
  ri_Arguments :: go_string
  ri_ID :: go_string
  ri_Output :: go_string

definition zero_item :: ResponsesInputItem where
  "zero_item = \<lparr>ri_Type = [], ri_Role = [], ri_Content = [], ri_CallID = [], ri_Name = [],
     ri_Arguments = [], ri_ID = [], ri_Output = []\<rparr>"

record ResponsesContentPart =
  rp_Type :: go_string
  rp_Text :: go_string
  rp_ImageURL :: go_string

record WebSearchAction =
  wsa_Type :: go_string
  wsa_Query :: go_string

record ResponsesSummary =
  rs_Type :: go_string
  rs_Text :: go_string

record ResponsesOutput =
  ro_Type :: go_string
  ro_ID :: go_string
  ro_Role :: go_string
  ro_Content :: "ResponsesContentPart list"
  ro_Status :: go_string
  ro_EncryptedContent :: go_string
  ro_Summary :: "ResponsesSummary list"
  ro_CallID :: go_string
  ro_Name :: go_string
  ro_Arguments :: go_string
  ro_Action :: "WebSearchAction option"

definition zero_output :: ResponsesOutput where
  "zero_output = \<lparr>ro_Type = [], ro_ID = [], ro_Role = [], ro_Content = [], ro_Status = [],
     ro_EncryptedContent = [], ro_Summary = [], ro_CallID = [], ro_Name = [], ro_Arguments = [],
     ro_Action = None\<rparr>"

record ResponsesInputTokensDetails =
  ritd_CachedTokens :: int

record ResponsesOutputTokensDetails =
  rotd_ReasoningTokens :: int

record ResponsesUsage =
  ru_InputTokens :: int
  ru_OutputTokens :: int
  ru_TotalTokens :: int
  ru_InputTokensDetails :: "ResponsesInputTokensDetails option"
  ru_OutputTokensDetails :: "ResponsesOutputTokensDetails option"

record ResponsesIncompleteDetails =
  rid_Reason :: go_string

record ResponsesError =
  rerr_Code :: go_string
  rerr_Message :: go_string

record ResponsesResponse =
  rresp_ID :: go_string
  rresp_Object :: go_string
  rresp_Model :: go_string
  rresp_Status :: go_string
  rresp_Output :: "ResponsesOutput list"
  rresp_Usage :: "ResponsesUsage option"
  rresp_IncompleteDetails :: "ResponsesIncompleteDetails option"
  rresp_Error :: "ResponsesError option"

definition zero_ResponsesResponse :: ResponsesResponse where
  "zero_ResponsesResponse = \<lparr>rresp_ID = [], rresp_Object = [], rresp_Model = [], rresp_Status = [],
     rresp_Output = [], rresp_Usage = None, rresp_IncompleteDetails = None, rresp_Error = None\<rparr>"

record ResponsesStreamEvent =
  rse_Type :: go_string
  rse_Response :: "ResponsesResponse option"
  rse_Usage :: "ResponsesUsage option"
  rse_Item :: "ResponsesOutput option"
  rse_OutputIndex :: int
  rse_ContentIndex :: int
  rse_Delta :: go_string
  rse_Text :: go_string
  rse_ItemID :: go_string
  rse_CallID :: go_string
  rse_Name :: go_string
  rse_Arguments :: go_string
  rse_SummaryIndex :: int
  rse_Code :: go_string
  rse_Param :: go_string
  rse_SequenceNumber :: int

definition zero_rse :: ResponsesStreamEvent where
  "zero_rse = \<lparr>rse_Type = [], rse_Response = None, rse_Usage = None, rse_Item = None,
     rse_OutputIndex = 0, rse_ContentIndex = 0, rse_Delta = [], rse_Text = [], rse_ItemID = [],
     rse_CallID = [], rse_Name = [], rse_Arguments = [], rse_SummaryIndex = 0, rse_Code = [],
     rse_Param = [], rse_SequenceNumber = 0\<rparr>"

text \<open>The floor for \<open>max_output_tokens\<close>.\<close>

definition minMaxOutputTokens :: int where
  "minMaxOutputTokens = 128"

subsection \<open>Encoders\<close>

definition enc_ResponsesContentPart :: "ResponsesContentPart \<Rightarrow> string option" where
  "enc_ResponsesContentPart p =
     marshal_struct [f_str ''type'' (rp_Type p), f_str_omit ''text'' (rp_Text p),
       f_str_omit ''image_url'' (rp_ImageURL p)]"

definition enc_ResponsesInputItem :: "ResponsesInputItem \<Rightarrow> string option" where
  "enc_ResponsesInputItem i =
     marshal_struct [f_str_omit ''type'' (ri_Type i), f_str_omit ''role'' (ri_Role i),
       f_raw_omit ''content'' (ri_Content i), f_str_omit ''call_id'' (ri_CallID i),
       f_str_omit ''name'' (ri_Name i), f_str_omit ''arguments'' (ri_Arguments i),
       f_str_omit ''id'' (ri_ID i), f_str_omit ''output'' (ri_Output i)]"

definition enc_WebSearchAction :: "WebSearchAction \<Rightarrow> string option" where
  "enc_WebSearchAction a =
     marshal_struct [f_str_omit ''type'' (wsa_Type a), f_str_omit ''query'' (wsa_Query a)]"

definition enc_ResponsesSummary :: "ResponsesSummary \<Rightarrow> string option" where
  "enc_ResponsesSummary s = marshal_struct [f_str ''type'' (rs_Type s), f_str ''text'' (rs_Text s)]"

definition enc_ResponsesOutput :: "ResponsesOutput \<Rightarrow> string option" where
  "enc_ResponsesOutput o' =
     marshal_struct [f_str ''type'' (ro_Type o'), f_str_omit ''id'' (ro_ID o'),
       f_str_omit ''role'' (ro_Role o'),
       f_list_omit ''content'' enc_ResponsesContentPart (ro_Content o'),
       f_str_omit ''status'' (ro_Status o'),
       f_str_omit ''encrypted_content'' (ro_EncryptedContent o'),
       f_list_omit ''summary'' enc_ResponsesSummary (ro_Summary o'),
       f_str_omit ''call_id'' (ro_CallID o'), f_str_omit ''name'' (ro_Name o'),
       f_str_omit ''arguments'' (ro_Arguments o'),
       f_ptr_omit ''action'' enc_WebSearchAction (ro_Action o')]"

definition enc_ResponsesUsage :: "ResponsesUsage \<Rightarrow> string option" where
  "enc_ResponsesUsage u =
     marshal_struct [f_int ''input_tokens'' (ru_InputTokens u),
       f_int ''output_tokens'' (ru_OutputTokens u), f_int ''total_tokens'' (ru_TotalTokens u),
       f_ptr_omit ''input_tokens_details''
         (\<lambda>d. marshal_struct [f_int_omit ''cached_tokens'' (ritd_CachedTokens d)])
         (ru_InputTokensDetails u),
       f_ptr_omit ''output_tokens_details''
         (\<lambda>d. marshal_struct [f_int_omit ''reasoning_tokens'' (rotd_ReasoningTokens d)])
         (ru_OutputTokensDetails u)]"

definition enc_ResponsesResponse :: "ResponsesResponse \<Rightarrow> string option" where
  "enc_ResponsesResponse r =
     marshal_struct [f_str ''id'' (rresp_ID r), f_str ''object'' (rresp_Object r),
       f_str ''model'' (rresp_Model r), f_str ''status'' (rresp_Status r),
       f_val ''output'' (map_option jarr (mapM_opt enc_ResponsesOutput (rresp_Output r))),
       f_ptr_omit ''usage'' enc_ResponsesUsage (rresp_Usage r),
       f_ptr_omit ''incomplete_details'' (\<lambda>d. marshal_struct [f_str ''reason'' (rid_Reason d)])
         (rresp_IncompleteDetails r),
       f_ptr_omit ''error''
         (\<lambda>e. marshal_struct [f_str ''code'' (rerr_Code e), f_str ''message'' (rerr_Message e)])
         (rresp_Error r)]"

definition enc_ResponsesStreamEvent :: "ResponsesStreamEvent \<Rightarrow> string option" where
  "enc_ResponsesStreamEvent e =
     marshal_struct [f_str ''type'' (rse_Type e),
       f_ptr_omit ''response'' enc_ResponsesResponse (rse_Response e),
       f_ptr_omit ''usage'' enc_ResponsesUsage (rse_Usage e),
       f_ptr_omit ''item'' enc_ResponsesOutput (rse_Item e),
       f_int_omit ''output_index'' (rse_OutputIndex e),
       f_int_omit ''content_index'' (rse_ContentIndex e),
       f_str_omit ''delta'' (rse_Delta e), f_str_omit ''text'' (rse_Text e),
       f_str_omit ''item_id'' (rse_ItemID e), f_str_omit ''call_id'' (rse_CallID e),
       f_str_omit ''name'' (rse_Name e), f_str_omit ''arguments'' (rse_Arguments e),
       f_int_omit ''summary_index'' (rse_SummaryIndex e), f_str_omit ''code'' (rse_Code e),
       f_str_omit ''param'' (rse_Param e), f_int_omit ''sequence_number'' (rse_SequenceNumber e)]"

subsection \<open>Decoders\<close>

definition dec_ResponsesContentPart :: "RawMessage \<Rightarrow> ResponsesContentPart option" where
  "dec_ResponsesContentPart = dec_struct (\<lambda>kvs. do {
     t \<leftarrow> dec_field dec_string [] ''type'' kvs;
     x \<leftarrow> dec_field dec_string [] ''text'' kvs;
     u \<leftarrow> dec_field dec_string [] ''image_url'' kvs;
     Some \<lparr>rp_Type = t, rp_Text = x, rp_ImageURL = u\<rparr> })
     \<lparr>rp_Type = [], rp_Text = [], rp_ImageURL = []\<rparr>"

definition dec_ResponsesInputItem :: "RawMessage \<Rightarrow> ResponsesInputItem option" where
  "dec_ResponsesInputItem = dec_struct (\<lambda>kvs. do {
     t \<leftarrow> dec_field dec_string [] ''type'' kvs;
     r \<leftarrow> dec_field dec_string [] ''role'' kvs;
     c \<leftarrow> dec_field dec_raw [] ''content'' kvs;
     cid \<leftarrow> dec_field dec_string [] ''call_id'' kvs;
     n \<leftarrow> dec_field dec_string [] ''name'' kvs;
     a \<leftarrow> dec_field dec_string [] ''arguments'' kvs;
     i \<leftarrow> dec_field dec_string [] ''id'' kvs;
     out \<leftarrow> dec_field dec_string [] ''output'' kvs;
     Some \<lparr>ri_Type = t, ri_Role = r, ri_Content = c, ri_CallID = cid, ri_Name = n,
       ri_Arguments = a, ri_ID = i, ri_Output = out\<rparr> }) zero_item"

text \<open>
  \<open>ResponsesUsage.UnmarshalJSON\<close>: the Chat Completions names of the counters are accepted where the
  Responses names gave nothing, and a missing total is the sum.
\<close>

definition dec_input_details ::
    "ResponsesInputTokensDetails \<Rightarrow> RawMessage \<Rightarrow> ResponsesInputTokensDetails option" where
  "dec_input_details old = dec_struct (\<lambda>kvs. do {
     n \<leftarrow> dec_field dec_int (ritd_CachedTokens old) ''cached_tokens'' kvs;
     Some \<lparr>ritd_CachedTokens = n\<rparr> }) old"

definition dec_output_details ::
    "ResponsesOutputTokensDetails \<Rightarrow> RawMessage \<Rightarrow> ResponsesOutputTokensDetails option" where
  "dec_output_details old = dec_struct (\<lambda>kvs. do {
     n \<leftarrow> dec_field dec_int (rotd_ReasoningTokens old) ''reasoning_tokens'' kvs;
     Some \<lparr>rotd_ReasoningTokens = n\<rparr> }) old"

abbreviation dec_input_details_ptr where
  "dec_input_details_ptr \<equiv> dec_ptr dec_input_details \<lparr>ritd_CachedTokens = 0\<rparr>"

abbreviation dec_output_details_ptr where
  "dec_output_details_ptr \<equiv> dec_ptr dec_output_details \<lparr>rotd_ReasoningTokens = 0\<rparr>"

record usage_aux =
  aux_Usage :: ResponsesUsage
  aux_PromptTokens :: int
  aux_CompletionTokens :: int
  aux_PromptTokensDetails :: "ResponsesInputTokensDetails option"
  aux_CompletionTokensDetails :: "ResponsesOutputTokensDetails option"

definition zero_ResponsesUsage :: ResponsesUsage where
  "zero_ResponsesUsage = \<lparr>ru_InputTokens = 0, ru_OutputTokens = 0, ru_TotalTokens = 0,
     ru_InputTokensDetails = None, ru_OutputTokensDetails = None\<rparr>"

definition dec_usage_aux :: "RawMessage \<Rightarrow> usage_aux option" where
  "dec_usage_aux = dec_struct (\<lambda>kvs. do {
     i \<leftarrow> dec_field dec_int 0 ''input_tokens'' kvs;
     out \<leftarrow> dec_field dec_int 0 ''output_tokens'' kvs;
     t \<leftarrow> dec_field dec_int 0 ''total_tokens'' kvs;
     di \<leftarrow> dec_field dec_input_details_ptr None ''input_tokens_details'' kvs;
     do' \<leftarrow> dec_field dec_output_details_ptr None ''output_tokens_details'' kvs;
     p \<leftarrow> dec_field dec_int 0 ''prompt_tokens'' kvs;
     c \<leftarrow> dec_field dec_int 0 ''completion_tokens'' kvs;
     dp \<leftarrow> dec_field dec_input_details_ptr None ''prompt_tokens_details'' kvs;
     dc \<leftarrow> dec_field dec_output_details_ptr None ''completion_tokens_details'' kvs;
     Some \<lparr>aux_Usage = \<lparr>ru_InputTokens = i, ru_OutputTokens = out, ru_TotalTokens = t,
             ru_InputTokensDetails = di, ru_OutputTokensDetails = do'\<rparr>,
           aux_PromptTokens = p, aux_CompletionTokens = c,
           aux_PromptTokensDetails = dp, aux_CompletionTokensDetails = dc\<rparr> })
     \<lparr>aux_Usage = zero_ResponsesUsage, aux_PromptTokens = 0, aux_CompletionTokens = 0,
      aux_PromptTokensDetails = None, aux_CompletionTokensDetails = None\<rparr>"

definition usage_from_aux :: "usage_aux \<Rightarrow> ResponsesUsage" where
  "usage_from_aux aux =
     (let u = aux_Usage aux;
          u = (if ru_InputTokens u = 0 \<and> aux_PromptTokens aux \<noteq> 0
               then u\<lparr>ru_InputTokens := aux_PromptTokens aux\<rparr> else u);
          u = (if ru_OutputTokens u = 0 \<and> aux_CompletionTokens aux \<noteq> 0
               then u\<lparr>ru_OutputTokens := aux_CompletionTokens aux\<rparr> else u);
          u = (if ru_InputTokensDetails u = None \<and> aux_PromptTokensDetails aux \<noteq> None
               then u\<lparr>ru_InputTokensDetails := aux_PromptTokensDetails aux\<rparr> else u);
          u = (if ru_OutputTokensDetails u = None \<and> aux_CompletionTokensDetails aux \<noteq> None
               then u\<lparr>ru_OutputTokensDetails := aux_CompletionTokensDetails aux\<rparr> else u);
          u = (if ru_TotalTokens u = 0 \<and> (ru_InputTokens u \<noteq> 0 \<or> ru_OutputTokens u \<noteq> 0)
               then u\<lparr>ru_TotalTokens := wrap64 (ru_InputTokens u + ru_OutputTokens u)\<rparr> else u)
      in u)"

definition ResponsesUsage_UnmarshalJSON :: "RawMessage \<Rightarrow> ResponsesUsage option" where
  "ResponsesUsage_UnmarshalJSON data' = map_option usage_from_aux (dec_usage_aux data')"

section \<open>OpenAI Chat Completions\<close>

record ChatStreamOptions =
  cso_IncludeUsage :: bool

record ChatFunctionCall =
  cfc_Name :: go_string
  cfc_Arguments :: go_string

record ChatToolCall =
  ctc_Index :: "int option"
  ctc_ID :: go_string
  ctc_Type :: go_string
  ctc_Function :: ChatFunctionCall

record ChatMessage =
  cm_Role :: go_string
  cm_Content :: RawMessage
  cm_ReasoningContent :: go_string
  cm_Name :: go_string
  cm_ToolCalls :: "ChatToolCall list"
  cm_ToolCallID :: go_string
  cm_FunctionCall :: "ChatFunctionCall option"

definition zero_ChatMessage :: ChatMessage where
  "zero_ChatMessage = \<lparr>cm_Role = [], cm_Content = [], cm_ReasoningContent = [], cm_Name = [],
     cm_ToolCalls = [], cm_ToolCallID = [], cm_FunctionCall = None\<rparr>"

record ChatImageURL =
  ciu_URL :: go_string
  ciu_Detail :: go_string

record ChatContentPart =
  ccp_Type :: go_string
  ccp_Text :: go_string
  ccp_ImageURL :: "ChatImageURL option"

record ChatFunction =
  cf_Name :: go_string
  cf_Description :: go_string
  cf_Parameters :: RawMessage
  cf_Strict :: "bool option"

record ChatTool =
  ct_Type :: go_string
  ct_Function :: "ChatFunction option"

record ChatCompletionsRequest =
  creq_Model :: go_string
  creq_Messages :: "ChatMessage list"
  creq_Instructions :: go_string
  creq_MaxTokens :: "int option"
  creq_MaxCompletionTokens :: "int option"
  creq_Temperature :: "float64 option"
  creq_TopP :: "float64 option"
  creq_Stream :: bool
  creq_StreamOptions :: "ChatStreamOptions option"
  creq_Tools :: "ChatTool list"
  creq_ToolChoice :: RawMessage
  creq_ReasoningEffort :: go_string
  creq_ServiceTier :: go_string
  creq_Stop :: RawMessage
  creq_Functions :: "ChatFunction list"
  creq_FunctionCall :: RawMessage

definition zero_ChatCompletionsRequest :: ChatCompletionsRequest where
  "zero_ChatCompletionsRequest = \<lparr>creq_Model = [], creq_Messages = [], creq_Instructions = [],
     creq_MaxTokens = None, creq_MaxCompletionTokens = None, creq_Temperature = None,
     creq_TopP = None, creq_Stream = False, creq_StreamOptions = None, creq_Tools = [],
     creq_ToolChoice = [], creq_ReasoningEffort = [], creq_ServiceTier = [], creq_Stop = [],
     creq_Functions = [], creq_FunctionCall = []\<rparr>"

record ChatTokenDetails =
  ctd_CachedTokens :: int

record ChatUsage =
  cu_PromptTokens :: int
  cu_CompletionTokens :: int
  cu_TotalTokens :: int
  cu_PromptTokensDetails :: "ChatTokenDetails option"

record ChatChoice =
  cch_Index :: int
  cch_Message :: ChatMessage
  cch_FinishReason :: go_string

record ChatCompletionsResponse =
  cresp_ID :: go_string
  cresp_Object :: go_string
  cresp_Created :: int
  cresp_Model :: go_string
  cresp_Choices :: "ChatChoice list"
  cresp_Usage :: "ChatUsage option"
  cresp_SystemFingerprint :: go_string
  cresp_ServiceTier :: go_string

record ChatDelta =
  cd_Role :: go_string
  cd_Content :: "go_string option"
  cd_ReasoningContent :: "go_string option"
  cd_ToolCalls :: "ChatToolCall list"

definition zero_ChatDelta :: ChatDelta where
  "zero_ChatDelta = \<lparr>cd_Role = [], cd_Content = None, cd_ReasoningContent = None, cd_ToolCalls = []\<rparr>"

record ChatChunkChoice =
  ccc_Index :: int
  ccc_Delta :: ChatDelta
  ccc_FinishReason :: "go_string option"

record ChatCompletionsChunk =
  chunk_ID :: go_string
  chunk_Object :: go_string
  chunk_Created :: int
  chunk_Model :: go_string
  chunk_Choices :: "ChatChunkChoice list"
  chunk_Usage :: "ChatUsage option"
  chunk_SystemFingerprint :: go_string
  chunk_ServiceTier :: go_string

subsection \<open>Encoders\<close>

definition enc_ChatFunctionCall :: "ChatFunctionCall \<Rightarrow> string option" where
  "enc_ChatFunctionCall f =
     marshal_struct [f_str ''name'' (cfc_Name f), f_str ''arguments'' (cfc_Arguments f)]"

definition enc_ChatToolCall :: "ChatToolCall \<Rightarrow> string option" where
  "enc_ChatToolCall t =
     marshal_struct [f_ptr_omit ''index'' (Some \<circ> Itoa) (ctc_Index t), f_str_omit ''id'' (ctc_ID t),
       f_str_omit ''type'' (ctc_Type t), f_val ''function'' (enc_ChatFunctionCall (ctc_Function t))]"

definition enc_ChatImageURL :: "ChatImageURL \<Rightarrow> string option" where
  "enc_ChatImageURL u =
     marshal_struct [f_str ''url'' (ciu_URL u), f_str_omit ''detail'' (ciu_Detail u)]"

definition enc_ChatContentPart :: "ChatContentPart \<Rightarrow> string option" where
  "enc_ChatContentPart p =
     marshal_struct [f_str ''type'' (ccp_Type p), f_str_omit ''text'' (ccp_Text p),
       f_ptr_omit ''image_url'' enc_ChatImageURL (ccp_ImageURL p)]"

definition enc_ChatUsage :: "ChatUsage \<Rightarrow> string option" where
  "enc_ChatUsage u =
     marshal_struct [f_int ''prompt_tokens'' (cu_PromptTokens u),
       f_int ''completion_tokens'' (cu_CompletionTokens u), f_int ''total_tokens'' (cu_TotalTokens u),
       f_ptr_omit ''prompt_tokens_details''
         (\<lambda>d. marshal_struct [f_int_omit ''cached_tokens'' (ctd_CachedTokens d)])
         (cu_PromptTokensDetails u)]"

definition enc_ChatDelta :: "ChatDelta \<Rightarrow> string option" where
  "enc_ChatDelta d =
     marshal_struct [f_str_omit ''role'' (cd_Role d), f_ptr_omit ''content'' (Some \<circ> jstr) (cd_Content d),
       f_ptr_omit ''reasoning_content'' (Some \<circ> jstr) (cd_ReasoningContent d),
       f_list_omit ''tool_calls'' enc_ChatToolCall (cd_ToolCalls d)]"

definition enc_ChatChunkChoice :: "ChatChunkChoice \<Rightarrow> string option" where
  "enc_ChatChunkChoice c =
     marshal_struct [f_int ''index'' (ccc_Index c), f_val ''delta'' (enc_ChatDelta (ccc_Delta c)),
       f_val ''finish_reason''
         (Some (case ccc_FinishReason c of None \<Rightarrow> ''null'' | Some r \<Rightarrow> jstr r))]"

definition enc_ChatCompletionsChunk :: "ChatCompletionsChunk \<Rightarrow> string option" where
  "enc_ChatCompletionsChunk c =
     marshal_struct [f_str ''id'' (chunk_ID c), f_str ''object'' (chunk_Object c),
       f_int ''created'' (chunk_Created c), f_str ''model'' (chunk_Model c),
       f_val ''choices'' (map_option jarr (mapM_opt enc_ChatChunkChoice (chunk_Choices c))),
       f_ptr_omit ''usage'' enc_ChatUsage (chunk_Usage c),
       f_str_omit ''system_fingerprint'' (chunk_SystemFingerprint c),
       f_str_omit ''service_tier'' (chunk_ServiceTier c)]"

subsection \<open>Decoders\<close>

definition dec_ChatImageURL :: "ChatImageURL \<Rightarrow> RawMessage \<Rightarrow> ChatImageURL option" where
  "dec_ChatImageURL old = dec_struct (\<lambda>kvs. do {
     u \<leftarrow> dec_field dec_string (ciu_URL old) ''url'' kvs;
     d \<leftarrow> dec_field dec_string (ciu_Detail old) ''detail'' kvs;
     Some \<lparr>ciu_URL = u, ciu_Detail = d\<rparr> }) old"

definition dec_ChatContentPart :: "RawMessage \<Rightarrow> ChatContentPart option" where
  "dec_ChatContentPart = dec_struct (\<lambda>kvs. do {
     t \<leftarrow> dec_field dec_string [] ''type'' kvs;
     x \<leftarrow> dec_field dec_string [] ''text'' kvs;
     u \<leftarrow> dec_field (dec_ptr dec_ChatImageURL \<lparr>ciu_URL = [], ciu_Detail = []\<rparr>) None ''image_url'' kvs;
     Some \<lparr>ccp_Type = t, ccp_Text = x, ccp_ImageURL = u\<rparr> })
     \<lparr>ccp_Type = [], ccp_Text = [], ccp_ImageURL = None\<rparr>"

end
