(* ===== verification/AnthToResp.thy ===== *)
theory AnthToResp
  imports ApiTypes
begin

text \<open>
  \<open>pkg/apicompat/anthropic_to_responses.go\<close>: an Anthropic Messages request becomes a Responses
  request. One definition per function, named as in the source; a loop with an early \<open>continue\<close> is a
  map, filter or concatenation over the list it ranges over.
\<close>

text \<open>The error of \<open>encoding/json\<close>; its text is not modelled, only that there is one.\<close>

definition json_err :: go_error where
  "json_err = ''json''"

definition of_json :: "'v option \<Rightarrow> 'v result" where
  "of_json x = (case x of None \<Rightarrow> Inl json_err | Some v \<Rightarrow> Inr v)"

lemma of_json_simps [simp]: "of_json None = Inl json_err" "of_json (Some v) = Inr v"
  by (simp_all add: of_json_def)

definition unmarshal_blocks :: "RawMessage \<Rightarrow> AnthropicContentBlock list option" where
  "unmarshal_blocks raw = dec_slice dec_AnthropicContentBlock raw"

definition marshal_parts :: "ResponsesContentPart list \<Rightarrow> string option" where
  "marshal_parts ps = map_option jslice (mapM_opt enc_ResponsesContentPart ps)"

definition marshal_items :: "ResponsesInputItem list \<Rightarrow> string option" where
  "marshal_items ps = map_option jslice (mapM_opt enc_ResponsesInputItem ps)"

abbreviation text_part :: "go_string \<Rightarrow> go_string \<Rightarrow> ResponsesContentPart" where
  "text_part t s \<equiv> \<lparr>rp_Type = t, rp_Text = s, rp_ImageURL = []\<rparr>"

abbreviation image_part :: "go_string \<Rightarrow> ResponsesContentPart" where
  "image_part u \<equiv> \<lparr>rp_Type = ''input_image'', rp_Text = [], rp_ImageURL = u\<rparr>"

section \<open>Small helpers\<close>

definition isAnthropicBillingHeaderText :: "go_string \<Rightarrow> bool" where
  "isAnthropicBillingHeaderText t \<longleftrightarrow> HasPrefix t ''x-anthropic-billing-header: ''"

definition toResponsesCallID :: "go_string \<Rightarrow> go_string" where
  "toResponsesCallID i = i"

definition fromResponsesCallID :: "go_string \<Rightarrow> go_string" where
  "fromResponsesCallID i =
     (case CutPrefix i ''fc_'' of (after, ok) \<Rightarrow>
        if ok \<and> (HasPrefix after ''toolu_'' \<or> HasPrefix after ''call_'') then after else i)"

definition anthropicImageToDataURI :: "AnthropicImageSource option \<Rightarrow> go_string" where
  "anthropicImageToDataURI src =
     (case src of None \<Rightarrow> []
      | Some s \<Rightarrow>
          if src_Data s = [] then []
          else (let mediaType = (if src_MediaType s = [] then ''image/png'' else src_MediaType s)
                in ''data:'' @ mediaType @ '';base64,'' @ src_Data s))"

definition mapAnthropicEffortToResponses :: "go_string \<Rightarrow> go_string" where
  "mapAnthropicEffortToResponses effort = (if effort = ''max'' then ''xhigh'' else effort)"

definition isReasoningModel :: "go_string \<Rightarrow> bool" where
  "isReasoningModel model = HasPrefix model ''gpt-5''"

definition extractAnthropicTextFromBlocks :: "AnthropicContentBlock list \<Rightarrow> go_string" where
  "extractAnthropicTextFromBlocks blocks =
     Join (map blk_Text (filter (\<lambda>b. blk_Type b = ''text'' \<and> blk_Text b \<noteq> []) blocks))
       (newline @ newline)"

section \<open>Tools\<close>

definition empty_schema :: RawMessage where
  "empty_schema = jobj [(''type'', jstr ''object''), (''properties'', ''{}'')]"

definition normalizeToolParameters :: "RawMessage \<Rightarrow> RawMessage" where
  "normalizeToolParameters schema =
     (if schema = [] \<or> schema = ''null'' then empty_schema
      else (case unmarshal_object schema of
              None \<Rightarrow> schema
            | Some m \<Rightarrow>
                if map_get m ''type'' \<noteq> jstr ''object'' then schema
                else if map_has m ''properties'' then schema
                else (case marshal_map (m @ [(''properties'', ''{}'')]) of
                        None \<Rightarrow> schema | Some out \<Rightarrow> out)))"

definition convertAnthropicToolsToResponses :: "AnthropicTool list \<Rightarrow> ResponsesTool list" where
  "convertAnthropicToolsToResponses tools =
     map (\<lambda>t. if HasPrefix (at_Type t) ''web_search''
              then zero_rtool\<lparr>rtool_Type := ''web_search''\<rparr>
              else \<lparr>rtool_Type = ''function'', rtool_Name = at_Name t,
                    rtool_Description = at_Description t,
                    rtool_Parameters = normalizeToolParameters (at_InputSchema t),
                    rtool_Strict = Some False\<rparr>) tools"

text \<open>The anonymous struct of the source: type and name of a tool choice.\<close>

definition dec_tool_choice :: "RawMessage \<Rightarrow> (go_string \<times> go_string) option" where
  "dec_tool_choice = dec_struct (\<lambda>kvs. do {
     t \<leftarrow> dec_field dec_string [] ''type'' kvs;
     n \<leftarrow> dec_field dec_string [] ''name'' kvs;
     Some (t, n) }) ([], [])"

definition convertAnthropicToolChoiceToResponses :: "RawMessage \<Rightarrow> RawMessage result" where
  "convertAnthropicToolChoiceToResponses raw =
     (case dec_tool_choice raw of
        None \<Rightarrow> Inl json_err
      | Some (typ, name) \<Rightarrow>
          if typ = ''auto'' then Inr (jstr ''auto'')
          else if typ = ''any'' then Inr (jstr ''required'')
          else if typ = ''none'' then Inr (jstr ''none'')
          else if typ = ''tool'' then
            Inr (jobj [(''name'', jstr name), (''type'', jstr ''function'')])
          else Inr raw)"

section \<open>Messages\<close>

definition parseAnthropicSystemContentParts :: "RawMessage \<Rightarrow> ResponsesContentPart list result" where
  "parseAnthropicSystemContentParts raw =
     (case unmarshal_string raw of
        Some s \<Rightarrow>
          if isAnthropicBillingHeaderText s \<or> s = [] then Inr []
          else Inr [text_part ''input_text'' s]
      | None \<Rightarrow>
          (case unmarshal_blocks raw of
             None \<Rightarrow> Inl json_err
           | Some blocks \<Rightarrow>
               Inr (map (\<lambda>b. text_part ''input_text'' (blk_Text b))
                     (filter (\<lambda>b. blk_Type b = ''text'' \<and> blk_Text b \<noteq> []
                        \<and> \<not> isAnthropicBillingHeaderText (blk_Text b)) blocks))))"

text \<open>The content parts one block adds: its image, and for a user message also its text.\<close>

definition image_parts_of :: "AnthropicContentBlock \<Rightarrow> ResponsesContentPart list" where
  "image_parts_of b =
     (if blk_Type b = ''image'' \<and> anthropicImageToDataURI (blk_Source b) \<noteq> []
      then [image_part (anthropicImageToDataURI (blk_Source b))] else [])"

definition user_parts_of :: "AnthropicContentBlock \<Rightarrow> ResponsesContentPart list" where
  "user_parts_of b =
     (if blk_Type b = ''text''
      then (if blk_Text b \<noteq> [] then [text_part ''input_text'' (blk_Text b)] else [])
      else image_parts_of b)"

definition convertToolResultOutput ::
    "AnthropicContentBlock \<Rightarrow> go_string \<times> ResponsesContentPart list" where
  "convertToolResultOutput b =
     (if blk_Content b = [] then (''(empty)'', [])
      else (case unmarshal_string (blk_Content b) of
              Some s \<Rightarrow> (if s = [] then ''(empty)'' else s, [])
            | None \<Rightarrow>
                (case unmarshal_blocks (blk_Content b) of
                   None \<Rightarrow> (''(empty)'', [])
                 | Some inner \<Rightarrow>
                     (let text = extractAnthropicTextFromBlocks inner
                      in (if text = [] then ''(empty)'' else text,
                          concat (map image_parts_of inner))))))"

definition tool_results :: "AnthropicContentBlock list \<Rightarrow> AnthropicContentBlock list" where
  "tool_results = filter (\<lambda>b. blk_Type b = ''tool_result'')"

definition message_item :: "go_string \<Rightarrow> RawMessage \<Rightarrow> ResponsesInputItem" where
  "message_item role content =
     zero_item\<lparr>ri_Type := ''message'', ri_Role := role, ri_Content := content\<rparr>"

definition anthropicUserToResponses :: "RawMessage \<Rightarrow> ResponsesInputItem list result" where
  "anthropicUserToResponses raw =
     (case unmarshal_string raw of
        Some s \<Rightarrow>
          bind_res (of_json (marshal_parts [text_part ''input_text'' s])) (\<lambda>partsJSON.
            Inr [message_item ''user'' partsJSON])
      | None \<Rightarrow>
          bind_res (of_json (unmarshal_blocks raw)) (\<lambda>blocks.
            let out = map (\<lambda>b. zero_item\<lparr>ri_Type := ''function_call_output'',
                          ri_CallID := toResponsesCallID (blk_ToolUseID b),
                          ri_Output := fst (convertToolResultOutput b)\<rparr>) (tool_results blocks);
                toolResultImageParts =
                  concat (map (\<lambda>b. snd (convertToolResultOutput b)) (tool_results blocks));
                parts = concat (map user_parts_of blocks) @ toolResultImageParts
            in if parts \<noteq> [] then
                 bind_res (of_json (marshal_parts parts)) (\<lambda>content.
                   Inr (out @ [message_item ''user'' content]))
               else Inr out))"

definition function_call_item :: "AnthropicContentBlock \<Rightarrow> ResponsesInputItem" where
  "function_call_item b =
     zero_item\<lparr>ri_Type := ''function_call'', ri_CallID := toResponsesCallID (blk_ID b),
       ri_Name := blk_Name b,
       ri_Arguments := (if blk_Input b \<noteq> [] then blk_Input b else ''{}'')\<rparr>"

definition anthropicAssistantToResponses :: "RawMessage \<Rightarrow> ResponsesInputItem list result" where
  "anthropicAssistantToResponses raw =
     (case unmarshal_string raw of
        Some s \<Rightarrow>
          bind_res (of_json (marshal_parts [text_part ''output_text'' s])) (\<lambda>partsJSON.
            Inr [message_item ''assistant'' partsJSON])
      | None \<Rightarrow>
          bind_res (of_json (unmarshal_blocks raw)) (\<lambda>blocks.
            let text = extractAnthropicTextFromBlocks blocks;
                calls = map function_call_item (filter (\<lambda>b. blk_Type b = ''tool_use'') blocks)
            in if text \<noteq> [] then
                 bind_res (of_json (marshal_parts [text_part ''output_text'' text])) (\<lambda>partsJSON.
                   Inr (message_item ''assistant'' partsJSON # calls))
               else Inr calls))"

definition anthropicMsgToResponsesItems :: "AnthropicMessage \<Rightarrow> ResponsesInputItem list result" where
  "anthropicMsgToResponsesItems m =
     (if am_Role m = ''user'' then anthropicUserToResponses (am_Content m)
      else if am_Role m = ''assistant'' then anthropicAssistantToResponses (am_Content m)
      else anthropicUserToResponses (am_Content m))"

definition convertAnthropicToResponsesInput ::
    "RawMessage \<Rightarrow> AnthropicMessage list \<Rightarrow> ResponsesInputItem list result" where
  "convertAnthropicToResponsesInput system msgs =
     bind_res
       (if system \<noteq> [] then
          bind_res (parseAnthropicSystemContentParts system) (\<lambda>sysParts.
            if sysParts \<noteq> [] then
              (let content = (case marshal_parts sysParts of None \<Rightarrow> [] | Some c \<Rightarrow> c)
               in Inr [message_item ''developer'' content])
            else Inr [])
        else Inr [])
       (\<lambda>out. bind_res (mapM_res anthropicMsgToResponsesItems msgs) (\<lambda>itemss. Inr (out @ concat itemss)))"

section \<open>The request\<close>

definition AnthropicToResponses :: "AnthropicRequest \<Rightarrow> ResponsesRequest result" where
  "AnthropicToResponses req =
     bind_res (convertAnthropicToResponsesInput (areq_System req) (areq_Messages req)) (\<lambda>input.
     bind_res (of_json (marshal_items input)) (\<lambda>inputJSON.
       let out = zero_ResponsesRequest\<lparr>rreq_Model := areq_Model req, rreq_Input := inputJSON,
                   rreq_Stream := areq_Stream req,
                   rreq_Include := [''reasoning.encrypted_content'']\<rparr>;
           out = (if \<not> isReasoningModel (areq_Model req)
                  then out\<lparr>rreq_Temperature := areq_Temperature req, rreq_TopP := areq_TopP req\<rparr>
                  else out);
           out = out\<lparr>rreq_Store := Some False, rreq_ParallelToolCalls := Some True,
                   rreq_Text := Some \<lparr>rt_Verbosity = ''medium''\<rparr>\<rparr>;
           out = (if areq_MaxTokens req > 0
                  then out\<lparr>rreq_MaxOutputTokens :=
                         Some (if areq_MaxTokens req < minMaxOutputTokens then minMaxOutputTokens
                               else areq_MaxTokens req)\<rparr>
                  else out);
           out = (if areq_Tools req \<noteq> []
                  then out\<lparr>rreq_Tools := convertAnthropicToolsToResponses (areq_Tools req)\<rparr>
                  else out);
           effort = (case areq_OutputConfig req of
                       Some c \<Rightarrow> (if aoc_Effort c \<noteq> [] then aoc_Effort c else ''medium'')
                     | None \<Rightarrow> ''medium'');
           out = out\<lparr>rreq_Reasoning := Some \<lparr>rr_Effort = mapAnthropicEffortToResponses effort,
                       rr_Summary = ''auto''\<rparr>\<rparr>
       in if areq_ToolChoice req \<noteq> [] then
            bind_res (wrap_err ''convert tool_choice''
                       (convertAnthropicToolChoiceToResponses (areq_ToolChoice req)))
              (\<lambda>tc. Inr (out\<lparr>rreq_ToolChoice := tc\<rparr>))
          else Inr out))"

end
