(* ===== verification/RespToAnth.thy ===== *)
theory RespToAnth
  imports AnthToResp
begin

text \<open>
  \<open>pkg/apicompat/responses_to_anthropic.go\<close>: a Responses response becomes an Anthropic response, whole
  or as a stream. The stream converter is a state machine: every handler takes the event and the state
  and returns the new state with the Anthropic events it emits, in the order of the source's
  assignments. \<open>OutputIndexToBlockIdx\<close> is a HOL map.
\<close>

section \<open>Whole responses\<close>

definition sanitizeAnthropicToolUseInput :: "go_string \<Rightarrow> go_string \<Rightarrow> RawMessage" where
  "sanitizeAnthropicToolUseInput name raw =
     (if name \<noteq> ''Read'' \<or> raw = [] then raw
      else (case unmarshal_object raw of
              None \<Rightarrow> raw
            | Some input \<Rightarrow>
                if \<not> map_has input ''pages'' \<or> map_get input ''pages'' \<noteq> jstr [] then raw
                else (case marshal_map (filter (\<lambda>kv. fst kv \<noteq> ''pages'') input) of
                        None \<Rightarrow> raw | Some sanitized \<Rightarrow> sanitized)))"

definition anthropicUsageFromResponsesUsage :: "ResponsesUsage option \<Rightarrow> AnthropicUsage" where
  "anthropicUsageFromResponsesUsage usage =
     (case usage of None \<Rightarrow> zero_AnthropicUsage
      | Some u \<Rightarrow>
          (let cachedTokens = (case ru_InputTokensDetails u of None \<Rightarrow> 0 | Some d \<Rightarrow> ritd_CachedTokens d);
               inputTokens = wrap64 (ru_InputTokens u - cachedTokens);
               inputTokens = (if inputTokens < 0 then 0 else inputTokens)
           in zero_AnthropicUsage\<lparr>au_InputTokens := inputTokens, au_OutputTokens := ru_OutputTokens u,
                au_CacheReadInputTokens := cachedTokens\<rparr>))"

definition containsAnthropicToolUseBlock :: "AnthropicContentBlock list \<Rightarrow> bool" where
  "containsAnthropicToolUseBlock blocks = list_ex (\<lambda>b. blk_Type b = ''tool_use'') blocks"

definition responsesStatusToAnthropicStopReason ::
    "go_string \<Rightarrow> ResponsesIncompleteDetails option \<Rightarrow> AnthropicContentBlock list \<Rightarrow> go_string" where
  "responsesStatusToAnthropicStopReason status details blocks =
     (if status = ''incomplete'' then
        (case details of
           Some d \<Rightarrow> (if rid_Reason d = ''max_output_tokens'' then ''max_tokens'' else ''end_turn'')
         | None \<Rightarrow> ''end_turn'')
      else if status = ''completed'' then
        (if containsAnthropicToolUseBlock blocks then ''tool_use'' else ''end_turn'')
      else ''end_turn'')"

definition web_search_blocks :: "ResponsesOutput \<Rightarrow> AnthropicContentBlock \<times> AnthropicContentBlock" where
  "web_search_blocks item =
     (let toolUseID = ''srvtoolu_'' @ ro_ID item;
          query = (case ro_Action item of None \<Rightarrow> [] | Some a \<Rightarrow> wsa_Query a)
      in (zero_block\<lparr>blk_Type := ''server_tool_use'', blk_ID := toolUseID, blk_Name := ''web_search'',
            blk_Input := jobj [(''query'', jstr query)]\<rparr>,
          zero_block\<lparr>blk_Type := ''web_search_tool_result'', blk_ToolUseID := toolUseID,
            blk_Content := ''[]''\<rparr>))"

definition blocks_of_output :: "ResponsesOutput \<Rightarrow> AnthropicContentBlock list" where
  "blocks_of_output item =
     (if ro_Type item = ''reasoning'' then
        (let summaryText = concat (map rs_Text
               (filter (\<lambda>s. rs_Type s = ''summary_text'' \<and> rs_Text s \<noteq> []) (ro_Summary item)))
         in if summaryText \<noteq> []
            then [zero_block\<lparr>blk_Type := ''thinking'', blk_Thinking := summaryText\<rparr>] else [])
      else if ro_Type item = ''message'' then
        map (\<lambda>p. zero_block\<lparr>blk_Type := ''text'', blk_Text := rp_Text p\<rparr>)
          (filter (\<lambda>p. rp_Type p = ''output_text'' \<and> rp_Text p \<noteq> []) (ro_Content item))
      else if ro_Type item = ''function_call'' then
        [zero_block\<lparr>blk_Type := ''tool_use'', blk_ID := fromResponsesCallID (ro_CallID item),
           blk_Name := ro_Name item,
           blk_Input := sanitizeAnthropicToolUseInput (ro_Name item) (ro_Arguments item)\<rparr>]
      else if ro_Type item = ''web_search_call'' then
        [fst (web_search_blocks item), snd (web_search_blocks item)]
      else [])"

definition ResponsesToAnthropic :: "ResponsesResponse \<Rightarrow> go_string \<Rightarrow> AnthropicResponse" where
  "ResponsesToAnthropic resp model =
     (let blocks = concat (map blocks_of_output (rresp_Output resp));
          blocks = (if blocks = [] then [zero_block\<lparr>blk_Type := ''text''\<rparr>] else blocks);
          out = zero_AnthropicResponse\<lparr>aresp_ID := rresp_ID resp, aresp_Type := ''message'',
                  aresp_Role := ''assistant'', aresp_Model := model, aresp_Content := blocks,
                  aresp_StopReason := responsesStatusToAnthropicStopReason (rresp_Status resp)
                    (rresp_IncompleteDetails resp) blocks\<rparr>
      in if rresp_Usage resp \<noteq> None
         then out\<lparr>aresp_Usage := anthropicUsageFromResponsesUsage (rresp_Usage resp)\<rparr> else out)"

section \<open>The stream state\<close>

record ResponsesEventToAnthropicState =
  ra_MessageStartSent :: bool
  ra_MessageStopSent :: bool
  ra_ContentBlockIndex :: int
  ra_ContentBlockOpen :: bool
  ra_CurrentBlockType :: go_string
  ra_CurrentToolName :: go_string
  ra_CurrentToolArgs :: go_string
  ra_CurrentToolHadDelta :: bool
  ra_HasToolCall :: bool
  ra_OutputIndexToBlockIdx :: "int \<rightharpoonup> int"
  ra_InputTokens :: int
  ra_OutputTokens :: int
  ra_CacheReadInputTokens :: int
  ra_ResponseID :: go_string
  ra_Model :: go_string
  ra_Created :: int

text \<open>\<open>now\<close> is the clock reading of \<open>time.Now().Unix()\<close>.\<close>

definition NewResponsesEventToAnthropicState :: "int \<Rightarrow> ResponsesEventToAnthropicState" where
  "NewResponsesEventToAnthropicState now =
     \<lparr>ra_MessageStartSent = False, ra_MessageStopSent = False, ra_ContentBlockIndex = 0,
      ra_ContentBlockOpen = False, ra_CurrentBlockType = [], ra_CurrentToolName = [],
      ra_CurrentToolArgs = [], ra_CurrentToolHadDelta = False, ra_HasToolCall = False,
      ra_OutputIndexToBlockIdx = Map.empty, ra_InputTokens = 0, ra_OutputTokens = 0,
      ra_CacheReadInputTokens = 0, ra_ResponseID = [], ra_Model = [], ra_Created = now\<rparr>"

type_synonym ra_step = "ResponsesEventToAnthropicState \<times> AnthropicStreamEvent list"

abbreviation block_start :: "int \<Rightarrow> AnthropicContentBlock \<Rightarrow> AnthropicStreamEvent" where
  "block_start i b \<equiv>
     zero_ase\<lparr>ase_Type := ''content_block_start'', ase_Index := Some i, ase_ContentBlock := Some b\<rparr>"

abbreviation block_delta :: "int \<Rightarrow> AnthropicDelta \<Rightarrow> AnthropicStreamEvent" where
  "block_delta i d \<equiv>
     zero_ase\<lparr>ase_Type := ''content_block_delta'', ase_Index := Some i, ase_Delta := Some d\<rparr>"

abbreviation block_stop :: "int \<Rightarrow> AnthropicStreamEvent" where
  "block_stop i \<equiv> zero_ase\<lparr>ase_Type := ''content_block_stop'', ase_Index := Some i\<rparr>"

section \<open>Handlers\<close>

definition closeCurrentBlock :: "ResponsesEventToAnthropicState \<Rightarrow> ra_step" where
  "closeCurrentBlock state =
     (if \<not> ra_ContentBlockOpen state then (state, [])
      else (let idx = ra_ContentBlockIndex state in
            (state\<lparr>ra_ContentBlockOpen := False, ra_ContentBlockIndex := ra_ContentBlockIndex state + 1,
                   ra_CurrentToolName := [], ra_CurrentToolArgs := [],
                   ra_CurrentToolHadDelta := False\<rparr>,
             [block_stop idx])))"

definition resToAnthHandleCreated ::
    "ResponsesStreamEvent \<Rightarrow> ResponsesEventToAnthropicState \<Rightarrow> ra_step" where
  "resToAnthHandleCreated evt state =
     (let state = (case rse_Response evt of
                     None \<Rightarrow> state
                   | Some r \<Rightarrow>
                       (let s = state\<lparr>ra_ResponseID := rresp_ID r\<rparr>
                        in if ra_Model s = [] then s\<lparr>ra_Model := rresp_Model r\<rparr> else s))
      in if ra_MessageStartSent state then (state, [])
         else (state\<lparr>ra_MessageStartSent := True\<rparr>,
               [zero_ase\<lparr>ase_Type := ''message_start'',
                  ase_Message := Some (zero_AnthropicResponse\<lparr>aresp_ID := ra_ResponseID state,
                    aresp_Type := ''message'', aresp_Role := ''assistant'',
                    aresp_Model := ra_Model state\<rparr>)\<rparr>]))"

definition resToAnthHandleOutputItemAdded ::
    "ResponsesStreamEvent \<Rightarrow> ResponsesEventToAnthropicState \<Rightarrow> ra_step" where
  "resToAnthHandleOutputItemAdded evt state =
     (case rse_Item evt of
        None \<Rightarrow> (state, [])
      | Some item \<Rightarrow>
          if ro_Type item = ''function_call'' then
            (case closeCurrentBlock state of (state, events) \<Rightarrow>
              let idx = ra_ContentBlockIndex state;
                  state = state\<lparr>
                    ra_OutputIndexToBlockIdx := (ra_OutputIndexToBlockIdx state)(rse_OutputIndex evt \<mapsto> idx),
                    ra_ContentBlockOpen := True, ra_CurrentBlockType := ''tool_use'',
                    ra_CurrentToolName := ro_Name item, ra_CurrentToolArgs := [],
                    ra_CurrentToolHadDelta := False, ra_HasToolCall := True\<rparr>
              in (state, events @ [block_start idx
                    (zero_block\<lparr>blk_Type := ''tool_use'', blk_ID := fromResponsesCallID (ro_CallID item),
                       blk_Name := ro_Name item, blk_Input := ''{}''\<rparr>)]))
          else if ro_Type item = ''reasoning'' then
            (case closeCurrentBlock state of (state, events) \<Rightarrow>
              let idx = ra_ContentBlockIndex state;
                  state = state\<lparr>
                    ra_OutputIndexToBlockIdx := (ra_OutputIndexToBlockIdx state)(rse_OutputIndex evt \<mapsto> idx),
                    ra_ContentBlockOpen := True, ra_CurrentBlockType := ''thinking''\<rparr>
              in (state, events @ [block_start idx (zero_block\<lparr>blk_Type := ''thinking''\<rparr>)]))
          else (state, []))"

definition resToAnthHandleTextDelta ::
    "ResponsesStreamEvent \<Rightarrow> ResponsesEventToAnthropicState \<Rightarrow> ra_step" where
  "resToAnthHandleTextDelta evt state =
     (if rse_Delta evt = [] then (state, [])
      else (case (if \<not> ra_ContentBlockOpen state \<or> ra_CurrentBlockType state \<noteq> ''text'' then
                    (case closeCurrentBlock state of (state, events) \<Rightarrow>
                      let idx = ra_ContentBlockIndex state
                      in (state\<lparr>ra_ContentBlockOpen := True, ra_CurrentBlockType := ''text''\<rparr>,
                          events @ [block_start idx (zero_block\<lparr>blk_Type := ''text''\<rparr>)]))
                  else (state, []))
            of (state, events) \<Rightarrow>
              (state, events @ [block_delta (ra_ContentBlockIndex state)
                 (zero_AnthropicDelta\<lparr>ad_Type := ''text_delta'', ad_Text := rse_Delta evt\<rparr>)])))"

definition json_delta :: "go_string \<Rightarrow> AnthropicDelta" where
  "json_delta s = zero_AnthropicDelta\<lparr>ad_Type := ''input_json_delta'', ad_PartialJSON := s\<rparr>"

definition resToAnthHandleFuncArgsDelta ::
    "ResponsesStreamEvent \<Rightarrow> ResponsesEventToAnthropicState \<Rightarrow> ra_step" where
  "resToAnthHandleFuncArgsDelta evt state =
     (if rse_Delta evt = [] then (state, [])
      else if ra_CurrentBlockType state = ''tool_use'' \<and> ra_CurrentToolName state = ''Read'' then
        (state\<lparr>ra_CurrentToolArgs := ra_CurrentToolArgs state @ rse_Delta evt\<rparr>, [])
      else (let state = (if ra_CurrentBlockType state = ''tool_use''
                         then state\<lparr>ra_CurrentToolHadDelta := True\<rparr> else state)
            in case ra_OutputIndexToBlockIdx state (rse_OutputIndex evt) of
                 None \<Rightarrow> (state, [])
               | Some blockIdx \<Rightarrow> (state, [block_delta blockIdx (json_delta (rse_Delta evt))])))"

definition resToAnthHandleBlockDone :: "ResponsesEventToAnthropicState \<Rightarrow> ra_step" where
  "resToAnthHandleBlockDone state =
     (if \<not> ra_ContentBlockOpen state then (state, []) else closeCurrentBlock state)"

definition resToAnthHandleFuncArgsDone ::
    "ResponsesStreamEvent \<Rightarrow> ResponsesEventToAnthropicState \<Rightarrow> ra_step" where
  "resToAnthHandleFuncArgsDone evt state =
     (if ra_CurrentBlockType state \<noteq> ''tool_use'' then resToAnthHandleBlockDone state
      else (let raw = (if rse_Arguments evt = [] then ra_CurrentToolArgs state else rse_Arguments evt)
            in if raw = [] \<or> ra_CurrentToolHadDelta state then closeCurrentBlock state
               else (let raw' = (if ra_CurrentToolName state = ''Read''
                                 then sanitizeAnthropicToolUseInput (ra_CurrentToolName state) raw
                                 else raw)
                     in if ra_CurrentToolName state = ''Read'' \<and> raw' = [] then closeCurrentBlock state
                        else (case closeCurrentBlock state of (state', events) \<Rightarrow>
                                (state', block_delta (ra_ContentBlockIndex state) (json_delta raw') # events)))))"

definition resToAnthHandleReasoningDelta ::
    "ResponsesStreamEvent \<Rightarrow> ResponsesEventToAnthropicState \<Rightarrow> ra_step" where
  "resToAnthHandleReasoningDelta evt state =
     (if rse_Delta evt = [] then (state, [])
      else (case ra_OutputIndexToBlockIdx state (rse_OutputIndex evt) of
              None \<Rightarrow> (state, [])
            | Some blockIdx \<Rightarrow>
                (state, [block_delta blockIdx
                   (zero_AnthropicDelta\<lparr>ad_Type := ''thinking_delta'', ad_Thinking := rse_Delta evt\<rparr>)])))"

definition resToAnthHandleWebSearchDone ::
    "ResponsesOutput \<Rightarrow> ResponsesEventToAnthropicState \<Rightarrow> ra_step" where
  "resToAnthHandleWebSearchDone item state =
     (case closeCurrentBlock state of (state, events) \<Rightarrow>
       let idx1 = ra_ContentBlockIndex state;
           state1 = state\<lparr>ra_ContentBlockIndex := ra_ContentBlockIndex state + 1\<rparr>;
           idx2 = ra_ContentBlockIndex state1
       in (state1\<lparr>ra_ContentBlockIndex := ra_ContentBlockIndex state1 + 1\<rparr>,
           events @ [block_start idx1 (fst (web_search_blocks item)), block_stop idx1,
                     block_start idx2 (snd (web_search_blocks item)), block_stop idx2]))"

definition resToAnthHandleOutputItemDone ::
    "ResponsesStreamEvent \<Rightarrow> ResponsesEventToAnthropicState \<Rightarrow> ra_step" where
  "resToAnthHandleOutputItemDone evt state =
     (case rse_Item evt of
        None \<Rightarrow> (state, [])
      | Some item \<Rightarrow>
          if ro_Type item = ''web_search_call'' \<and> ro_Status item = ''completed''
          then resToAnthHandleWebSearchDone item state
          else if ra_ContentBlockOpen state then closeCurrentBlock state else (state, []))"

definition set_usage ::
    "ResponsesUsage option \<Rightarrow> ResponsesEventToAnthropicState \<Rightarrow> ResponsesEventToAnthropicState" where
  "set_usage usage state =
     (if usage = None then state
      else (let u = anthropicUsageFromResponsesUsage usage
            in state\<lparr>ra_InputTokens := au_InputTokens u, ra_OutputTokens := au_OutputTokens u,
                 ra_CacheReadInputTokens := au_CacheReadInputTokens u\<rparr>))"

definition message_end :: "ResponsesEventToAnthropicState \<Rightarrow> go_string \<Rightarrow> AnthropicStreamEvent list" where
  "message_end state stopReason =
     [zero_ase\<lparr>ase_Type := ''message_delta'',
        ase_Delta := Some (zero_AnthropicDelta\<lparr>ad_StopReason := stopReason\<rparr>),
        ase_Usage := Some (zero_AnthropicUsage\<lparr>au_InputTokens := ra_InputTokens state,
          au_OutputTokens := ra_OutputTokens state,
          au_CacheReadInputTokens := ra_CacheReadInputTokens state\<rparr>)\<rparr>,
      zero_ase\<lparr>ase_Type := ''message_stop''\<rparr>]"

definition resToAnthHandleCompleted ::
    "ResponsesStreamEvent \<Rightarrow> ResponsesEventToAnthropicState \<Rightarrow> ra_step" where
  "resToAnthHandleCompleted evt state =
     (if ra_MessageStopSent state then (state, [])
      else (case closeCurrentBlock state of (state, events) \<Rightarrow>
        let state = set_usage (rse_Usage evt) state;
            state = (case rse_Response evt of None \<Rightarrow> state | Some r \<Rightarrow> set_usage (rresp_Usage r) state);
            stopReason =
              (case rse_Response evt of
                 None \<Rightarrow> ''end_turn''
               | Some r \<Rightarrow>
                   if rresp_Status r = ''incomplete'' then
                     (case rresp_IncompleteDetails r of
                        Some d \<Rightarrow> (if rid_Reason d = ''max_output_tokens'' then ''max_tokens'' else ''end_turn'')
                      | None \<Rightarrow> ''end_turn'')
                   else if rresp_Status r = ''completed'' \<and> ra_HasToolCall state then ''tool_use''
                   else ''end_turn'')
        in (state\<lparr>ra_MessageStopSent := True\<rparr>, events @ message_end state stopReason)))"

definition ResponsesEventToAnthropicEvents ::
    "ResponsesStreamEvent \<Rightarrow> ResponsesEventToAnthropicState \<Rightarrow> ra_step" where
  "ResponsesEventToAnthropicEvents evt state =
     (let t = rse_Type evt in
      if t = ''response.created'' then resToAnthHandleCreated evt state
      else if t = ''response.output_item.added'' then resToAnthHandleOutputItemAdded evt state
      else if t = ''response.output_text.delta'' then resToAnthHandleTextDelta evt state
      else if t = ''response.output_text.done'' then resToAnthHandleBlockDone state
      else if t = ''response.function_call_arguments.delta'' then resToAnthHandleFuncArgsDelta evt state
      else if t = ''response.function_call_arguments.done'' then resToAnthHandleFuncArgsDone evt state
      else if t = ''response.output_item.done'' then resToAnthHandleOutputItemDone evt state
      else if t = ''response.reasoning_summary_text.delta'' then resToAnthHandleReasoningDelta evt state
      else if t = ''response.reasoning_summary_text.done'' then resToAnthHandleBlockDone state
      else if t = ''response.completed'' \<or> t = ''response.done'' \<or> t = ''response.incomplete''
           \<or> t = ''response.failed'' then resToAnthHandleCompleted evt state
      else (state, []))"

definition FinalizeResponsesAnthropicStream :: "ResponsesEventToAnthropicState \<Rightarrow> ra_step" where
  "FinalizeResponsesAnthropicStream state =
     (if \<not> ra_MessageStartSent state \<or> ra_MessageStopSent state then (state, [])
      else (case closeCurrentBlock state of (state, events) \<Rightarrow>
        let stopReason = (if ra_HasToolCall state then ''tool_use'' else ''end_turn'')
        in (state\<lparr>ra_MessageStopSent := True\<rparr>, events @ message_end state stopReason)))"

definition sse_block :: "go_string \<Rightarrow> string \<Rightarrow> go_string" where
  "sse_block typ data' = ''event: '' @ typ @ newline @ ''data: '' @ data' @ newline @ newline"

definition ResponsesAnthropicEventToSSE :: "AnthropicStreamEvent \<Rightarrow> go_string result" where
  "ResponsesAnthropicEventToSSE evt =
     bind_res (of_json (enc_AnthropicStreamEvent evt)) (\<lambda>data'. Inr (sse_block (ase_Type evt) data'))"

text \<open>A caller feeds the events of the upstream one after the other and sends what comes back.\<close>

fun ra_run :: "ResponsesStreamEvent list \<Rightarrow> ResponsesEventToAnthropicState \<Rightarrow> ra_step" where
  "ra_run [] state = (state, [])"
| "ra_run (e # es) state =
     (case ResponsesEventToAnthropicEvents e state of (state', out) \<Rightarrow>
        case ra_run es state' of (state'', out') \<Rightarrow> (state'', out @ out'))"

end
