(* ===== verification/RespToAnthFacts.thy ===== *)
theory RespToAnthFacts
  imports RespToAnth
begin

text \<open>
  Properties of \<open>responses_to_anthropic.go\<close>: the shape of the Anthropic event stream, what text and
  tool arguments reach the client, and the usage arithmetic.
\<close>

section \<open>The Anthropic stream protocol\<close>

text \<open>
  A reader of the stream: the index the next block must have and whether a block is open. Starts and
  stops must nest and count up from the given index; with \<open>strict\<close> a delta must name the open block.
\<close>

fun anth_check :: "bool \<Rightarrow> int \<times> bool \<Rightarrow> AnthropicStreamEvent list \<Rightarrow> (int \<times> bool) option" where
  "anth_check strict st [] = Some st"
| "anth_check strict (n, op) (e # es) =
     (if ase_Type e = ''content_block_start'' then
        (if \<not> op \<and> ase_Index e = Some n then anth_check strict (n, True) es else None)
      else if ase_Type e = ''content_block_stop'' then
        (if op \<and> ase_Index e = Some n then anth_check strict (n + 1, False) es else None)
      else if ase_Type e = ''content_block_delta'' then
        (if \<not> strict \<or> (op \<and> ase_Index e = Some n) then anth_check strict (n, op) es else None)
      else anth_check strict (n, op) es)"

lemma anth_check_append:
  "anth_check strict st (xs @ ys) = Option.bind (anth_check strict st xs) (\<lambda>st'. anth_check strict st' ys)"
  by (induction strict st xs rule: anth_check.induct) auto

definition ev_count :: "go_string \<Rightarrow> AnthropicStreamEvent list \<Rightarrow> nat" where
  "ev_count t es = length (filter (\<lambda>e. ase_Type e = t) es)"

lemma ev_count_simps [simp]:
  "ev_count t [] = 0"
  "ev_count t (e # es) = (if ase_Type e = t then 1 else 0) + ev_count t es"
  "ev_count t (xs @ ys) = ev_count t xs + ev_count t ys"
  by (simp_all add: ev_count_def)

lemma zero_ase_sel [simp]:
  "ase_Type zero_ase = []" "ase_Index zero_ase = None" "ase_Delta zero_ase = None"
  by (simp_all add: zero_ase_def)

text \<open>The reader's state after the events so far is the converter's own index and open flag.\<close>

abbreviation ra_pos :: "ResponsesEventToAnthropicState \<Rightarrow> int \<times> bool" where
  "ra_pos s \<equiv> (ra_ContentBlockIndex s, ra_ContentBlockOpen s)"

lemmas ra_handler_defs = closeCurrentBlock_def resToAnthHandleCreated_def
  resToAnthHandleOutputItemAdded_def resToAnthHandleTextDelta_def resToAnthHandleFuncArgsDelta_def
  resToAnthHandleBlockDone_def resToAnthHandleFuncArgsDone_def resToAnthHandleReasoningDelta_def
  resToAnthHandleWebSearchDone_def resToAnthHandleOutputItemDone_def resToAnthHandleCompleted_def
  message_end_def set_usage_def

lemma set_usage_sel [simp]:
  "ra_ContentBlockIndex (set_usage u s) = ra_ContentBlockIndex s"
  "ra_ContentBlockOpen (set_usage u s) = ra_ContentBlockOpen s"
  "ra_MessageStartSent (set_usage u s) = ra_MessageStartSent s"
  "ra_MessageStopSent (set_usage u s) = ra_MessageStopSent s"
  "ra_HasToolCall (set_usage u s) = ra_HasToolCall s"
  by (simp_all add: set_usage_def Let_def)

text \<open>A handler is well behaved when its events lead the reader from its old to its new position.\<close>

definition ra_brackets :: "ResponsesEventToAnthropicState \<Rightarrow> ra_step \<Rightarrow> bool" where
  "ra_brackets s r \<longleftrightarrow> anth_check False (ra_pos s) (snd r) = Some (ra_pos (fst r))"

lemma message_end_check [simp]: "anth_check strict st (message_end s r) = Some st"
  by (cases st) (simp add: message_end_def)

lemma brackets_close: "ra_brackets s (closeCurrentBlock s)"
  by (simp add: ra_brackets_def closeCurrentBlock_def Let_def)

lemma brackets_created: "ra_brackets s (resToAnthHandleCreated e s)"
  by (simp add: ra_brackets_def resToAnthHandleCreated_def Let_def split: option.split)

lemma brackets_added: "ra_brackets s (resToAnthHandleOutputItemAdded e s)"
  by (simp add: ra_brackets_def resToAnthHandleOutputItemAdded_def closeCurrentBlock_def Let_def
      split: option.split)

lemma brackets_text: "ra_brackets s (resToAnthHandleTextDelta e s)"
  by (simp add: ra_brackets_def resToAnthHandleTextDelta_def closeCurrentBlock_def Let_def)

lemma brackets_args: "ra_brackets s (resToAnthHandleFuncArgsDelta e s)"
  by (simp add: ra_brackets_def resToAnthHandleFuncArgsDelta_def Let_def split: option.split)

lemma brackets_blockdone: "ra_brackets s (resToAnthHandleBlockDone s)"
  by (simp add: ra_brackets_def resToAnthHandleBlockDone_def closeCurrentBlock_def Let_def)

lemma brackets_argsdone: "ra_brackets s (resToAnthHandleFuncArgsDone e s)"
  by (simp add: ra_brackets_def resToAnthHandleFuncArgsDone_def resToAnthHandleBlockDone_def
      closeCurrentBlock_def Let_def)

lemma brackets_reasoning: "ra_brackets s (resToAnthHandleReasoningDelta e s)"
  by (simp add: ra_brackets_def resToAnthHandleReasoningDelta_def split: option.split)

lemma brackets_itemdone: "ra_brackets s (resToAnthHandleOutputItemDone e s)"
  by (simp add: ra_brackets_def resToAnthHandleOutputItemDone_def resToAnthHandleWebSearchDone_def
      closeCurrentBlock_def Let_def split: option.split)

lemma brackets_completed: "ra_brackets s (resToAnthHandleCompleted e s)"
  by (cases "rse_Response e")
    (simp_all add: ra_brackets_def resToAnthHandleCompleted_def closeCurrentBlock_def Let_def)

lemma brackets_finalize: "ra_brackets s (FinalizeResponsesAnthropicStream s)"
  by (simp add: ra_brackets_def FinalizeResponsesAnthropicStream_def closeCurrentBlock_def Let_def)

lemma brackets_step: "ra_brackets s (ResponsesEventToAnthropicEvents e s)"
  unfolding ResponsesEventToAnthropicEvents_def Let_def
  by (simp add: brackets_created brackets_added brackets_text brackets_args brackets_blockdone
      brackets_argsdone brackets_reasoning brackets_itemdone brackets_completed)
    (simp add: ra_brackets_def)

lemma brackets_run: "ra_brackets s (ra_run es s)"
proof (induction es arbitrary: s)
  case Nil
  show ?case by (simp add: ra_brackets_def)
next
  case (Cons e es)
  show ?case
    using brackets_step [of s e] Cons.IH [of "fst (ResponsesEventToAnthropicEvents e s)"]
    by (simp add: ra_brackets_def anth_check_append case_prod_beta)
qed

lemma ra_run_append:
  "ra_run (xs @ ys) s =
     (fst (ra_run ys (fst (ra_run xs s))), snd (ra_run xs s) @ snd (ra_run ys (fst (ra_run xs s))))"
  by (induction xs arbitrary: s) (simp_all add: case_prod_beta)

section \<open>Start and stop of the message\<close>

text \<open>The flags count the events: what a handler adds to the output it adds to its flag.\<close>

definition ra_counts :: "ResponsesEventToAnthropicState \<Rightarrow> ra_step \<Rightarrow> bool" where
  "ra_counts s r \<longleftrightarrow>
     of_bool (ra_MessageStartSent (fst r)) = of_bool (ra_MessageStartSent s) + ev_count ''message_start'' (snd r)
     \<and> of_bool (ra_MessageStopSent (fst r)) = of_bool (ra_MessageStopSent s) + ev_count ''message_stop'' (snd r)"

lemma message_end_counts [simp]:
  "ev_count ''message_start'' (message_end s r) = 0"
  "ev_count ''message_stop'' (message_end s r) = 1"
  by (simp_all add: message_end_def)

lemma close_flags [simp]:
  "ra_MessageStartSent (fst (closeCurrentBlock s)) = ra_MessageStartSent s"
  "ra_MessageStopSent (fst (closeCurrentBlock s)) = ra_MessageStopSent s"
  "ra_HasToolCall (fst (closeCurrentBlock s)) = ra_HasToolCall s"
  "ev_count ''message_start'' (snd (closeCurrentBlock s)) = 0"
  "ev_count ''message_stop'' (snd (closeCurrentBlock s)) = 0"
  by (simp_all add: closeCurrentBlock_def Let_def)

lemma counts_close [simp]: "ra_counts s (closeCurrentBlock s)"
  by (simp add: ra_counts_def)

lemma counts_created: "ra_counts s (resToAnthHandleCreated e s)"
  by (simp add: ra_counts_def resToAnthHandleCreated_def Let_def split: option.split)

lemma counts_added: "ra_counts s (resToAnthHandleOutputItemAdded e s)"
  by (simp add: ra_counts_def resToAnthHandleOutputItemAdded_def case_prod_beta Let_def
      split: option.split)

lemma counts_text: "ra_counts s (resToAnthHandleTextDelta e s)"
  by (simp add: ra_counts_def resToAnthHandleTextDelta_def case_prod_beta Let_def)

lemma counts_args: "ra_counts s (resToAnthHandleFuncArgsDelta e s)"
  by (simp add: ra_counts_def resToAnthHandleFuncArgsDelta_def Let_def split: option.split)

lemma counts_blockdone: "ra_counts s (resToAnthHandleBlockDone s)"
  by (simp add: ra_counts_def resToAnthHandleBlockDone_def case_prod_beta Let_def)

lemma counts_delta_close:
  "ra_counts s (fst (closeCurrentBlock s), block_delta i d # snd (closeCurrentBlock s))"
  by (simp add: ra_counts_def)

lemma counts_argsdone: "ra_counts s (resToAnthHandleFuncArgsDone e s)"
  unfolding resToAnthHandleFuncArgsDone_def Let_def case_prod_beta
  by (auto simp: counts_blockdone counts_delta_close)

lemma counts_reasoning: "ra_counts s (resToAnthHandleReasoningDelta e s)"
  by (simp add: ra_counts_def resToAnthHandleReasoningDelta_def split: option.split)

lemma counts_websearch: "ra_counts s (resToAnthHandleWebSearchDone item s)"
  by (simp add: ra_counts_def resToAnthHandleWebSearchDone_def case_prod_beta Let_def)

lemma counts_itemdone: "ra_counts s (resToAnthHandleOutputItemDone e s)"
  unfolding resToAnthHandleOutputItemDone_def
  by (auto simp: counts_websearch ra_counts_def [of s "(s, [])"] split: option.split)

lemma counts_completed: "ra_counts s (resToAnthHandleCompleted e s)"
  by (cases "rse_Response e")
    (simp_all add: ra_counts_def resToAnthHandleCompleted_def case_prod_beta Let_def)

lemma counts_finalize: "ra_counts s (FinalizeResponsesAnthropicStream s)"
  by (simp add: ra_counts_def FinalizeResponsesAnthropicStream_def case_prod_beta Let_def)

lemma counts_step: "ra_counts s (ResponsesEventToAnthropicEvents e s)"
  unfolding ResponsesEventToAnthropicEvents_def Let_def
  by (simp add: counts_created counts_added counts_text counts_args counts_blockdone
      counts_argsdone counts_reasoning counts_itemdone counts_completed)
    (simp add: ra_counts_def)

lemma counts_run: "ra_counts s (ra_run es s)"
proof (induction es arbitrary: s)
  case Nil
  show ?case by (simp add: ra_counts_def)
next
  case (Cons e es)
  show ?case
    using counts_step [of s e] Cons.IH [of "fst (ResponsesEventToAnthropicEvents e s)"]
    by (simp add: ra_counts_def case_prod_beta)
qed

text \<open>The converter followed by the finaliser, as the callers use it.\<close>

definition ra_stream :: "ResponsesStreamEvent list \<Rightarrow> ResponsesEventToAnthropicState \<Rightarrow> ra_step" where
  "ra_stream es s =
     (case ra_run es s of (s', out) \<Rightarrow>
        case FinalizeResponsesAnthropicStream s' of (s'', out') \<Rightarrow> (s'', out @ out'))"

lemma finalize_flags:
  "ra_MessageStartSent s \<or> ra_MessageStopSent s \<Longrightarrow>
     ra_MessageStopSent (fst (FinalizeResponsesAnthropicStream s))"
  "ra_MessageStartSent (fst (FinalizeResponsesAnthropicStream s)) = ra_MessageStartSent s"
  by (auto simp: FinalizeResponsesAnthropicStream_def closeCurrentBlock_def Let_def)

lemma started_by_created:
  "ra_MessageStartSent (fst (resToAnthHandleCreated e s))"
  by (simp add: resToAnthHandleCreated_def Let_def)

lemma started_mono: "ra_MessageStartSent s \<Longrightarrow> ra_MessageStartSent (fst (ra_run es s))"
  using counts_run [of s es] by (auto simp: ra_counts_def of_bool_def split: if_splits)

text \<open>
C1. For every sequence of upstream events, in any order, the Anthropic stream nests: blocks are
started and stopped one after the other, their indices count up from 0 without a gap, at most one
block is open at any time, and the converter's own state says which.
\<close>
theorem stream_blocks_nest:
  "anth_check False (0, False) (snd (ra_run es (NewResponsesEventToAnthropicState now)))
     = Some (ra_ContentBlockIndex (fst (ra_run es (NewResponsesEventToAnthropicState now))),
             ra_ContentBlockOpen (fst (ra_run es (NewResponsesEventToAnthropicState now))))"
  using brackets_run [of "NewResponsesEventToAnthropicState now" es]
  by (simp add: ra_brackets_def NewResponsesEventToAnthropicState_def)

lemma ra_stream_Nil_state:
  "ra_MessageStartSent (NewResponsesEventToAnthropicState now) = False"
  "ra_MessageStopSent (NewResponsesEventToAnthropicState now) = False"
  by (simp_all add: NewResponsesEventToAnthropicState_def)

text \<open>
When the first upstream event is \<open>response.created\<close>, whatever follows, the converter and its
finaliser together send exactly one \<open>message_start\<close>, exactly one \<open>message_stop\<close>, and a finaliser
run again sends nothing.
\<close>
theorem stream_one_start_one_stop:
  assumes "rse_Type e = ''response.created''"
  shows "ev_count ''message_start'' (snd (ra_stream (e # es) (NewResponsesEventToAnthropicState now))) = 1
       \<and> ev_count ''message_stop'' (snd (ra_stream (e # es) (NewResponsesEventToAnthropicState now))) = 1
       \<and> snd (FinalizeResponsesAnthropicStream
              (fst (ra_stream (e # es) (NewResponsesEventToAnthropicState now)))) = []"
proof -
  let ?init = "NewResponsesEventToAnthropicState now"
  let ?s = "fst (ra_run (e # es) ?init)"
  have "ra_MessageStartSent (fst (ResponsesEventToAnthropicEvents e ?init))"
    by (simp add: ResponsesEventToAnthropicEvents_def assms started_by_created)
  then have started: "ra_MessageStartSent ?s"
    by (simp add: case_prod_beta started_mono)
  have run: "ra_counts ?init (ra_run (e # es) ?init)"
    by (rule counts_run)
  have fin: "ra_counts ?s (FinalizeResponsesAnthropicStream ?s)"
    by (rule counts_finalize)
  show ?thesis
    using started run fin finalize_flags [of ?s]
    by (simp add: ra_stream_def case_prod_beta ra_counts_def ra_stream_Nil_state
        FinalizeResponsesAnthropicStream_def [of "fst (FinalizeResponsesAnthropicStream _)"]
        del: ra_run.simps)
qed

theorem stream_one_start_one_stop_witness:
  "ev_count ''message_start'' (snd (ra_stream [zero_rse\<lparr>rse_Type := ''response.created''\<rparr>]
       (NewResponsesEventToAnthropicState 7))) = 1
   \<and> ev_count ''message_stop'' (snd (ra_stream [zero_rse\<lparr>rse_Type := ''response.created''\<rparr>]
       (NewResponsesEventToAnthropicState 7))) = 1
   \<and> snd (FinalizeResponsesAnthropicStream (fst (ra_stream [zero_rse\<lparr>rse_Type := ''response.created''\<rparr>]
       (NewResponsesEventToAnthropicState 7)))) = []"
  by (rule stream_one_start_one_stop) simp

section \<open>Text\<close>

definition delta_texts :: "AnthropicStreamEvent list \<Rightarrow> go_string" where
  "delta_texts es = concat (map (\<lambda>e. case ase_Delta e of None \<Rightarrow> []
     | Some d \<Rightarrow> (if ad_Type d = ''text_delta'' then ad_Text d else [])) es)"

definition upstream_text :: "ResponsesStreamEvent list \<Rightarrow> go_string" where
  "upstream_text es = concat (map (\<lambda>e. if rse_Type e = ''response.output_text.delta''
     then rse_Delta e else []) es)"

lemma delta_texts_simps [simp]:
  "delta_texts [] = []"
  "delta_texts (e # es) = (case ase_Delta e of None \<Rightarrow> []
     | Some d \<Rightarrow> (if ad_Type d = ''text_delta'' then ad_Text d else [])) @ delta_texts es"
  "delta_texts (xs @ ys) = delta_texts xs @ delta_texts ys"
  by (simp_all add: delta_texts_def)

lemma zero_delta_sel [simp]: "ad_Type zero_AnthropicDelta = []" "ad_Text zero_AnthropicDelta = []"
  "ad_PartialJSON zero_AnthropicDelta = []"
  by (simp_all add: zero_AnthropicDelta_def)

lemma json_delta_sel [simp]:
  "ad_Type (json_delta s) = ''input_json_delta''" "ad_PartialJSON (json_delta s) = s"
  by (simp_all add: json_delta_def)

lemma text_close [simp]: "delta_texts (snd (closeCurrentBlock s)) = []"
  by (simp add: closeCurrentBlock_def Let_def)

text \<open>What each handler adds to the text: only the text handler adds any, and exactly the delta.\<close>

lemma texts_created: "delta_texts (snd (resToAnthHandleCreated e s)) = []"
  by (simp add: resToAnthHandleCreated_def Let_def)

lemma texts_added: "delta_texts (snd (resToAnthHandleOutputItemAdded e s)) = []"
  by (simp add: resToAnthHandleOutputItemAdded_def closeCurrentBlock_def Let_def split: option.split)

lemma texts_text: "delta_texts (snd (resToAnthHandleTextDelta e s)) = rse_Delta e"
  by (simp add: resToAnthHandleTextDelta_def closeCurrentBlock_def Let_def)

lemma texts_args: "delta_texts (snd (resToAnthHandleFuncArgsDelta e s)) = []"
  by (simp add: resToAnthHandleFuncArgsDelta_def Let_def split: option.split)

lemma texts_blockdone: "delta_texts (snd (resToAnthHandleBlockDone s)) = []"
  by (simp add: resToAnthHandleBlockDone_def)

lemma texts_argsdone: "delta_texts (snd (resToAnthHandleFuncArgsDone e s)) = []"
  by (simp add: resToAnthHandleFuncArgsDone_def texts_blockdone closeCurrentBlock_def Let_def)

lemma texts_reasoning: "delta_texts (snd (resToAnthHandleReasoningDelta e s)) = []"
  by (simp add: resToAnthHandleReasoningDelta_def split: option.split)

lemma texts_itemdone: "delta_texts (snd (resToAnthHandleOutputItemDone e s)) = []"
  by (simp add: resToAnthHandleOutputItemDone_def resToAnthHandleWebSearchDone_def
      closeCurrentBlock_def Let_def split: option.split)

lemma texts_completed: "delta_texts (snd (resToAnthHandleCompleted e s)) = []"
  by (simp add: resToAnthHandleCompleted_def closeCurrentBlock_def message_end_def Let_def)

lemma texts_finalize: "delta_texts (snd (FinalizeResponsesAnthropicStream s)) = []"
  by (simp add: FinalizeResponsesAnthropicStream_def closeCurrentBlock_def message_end_def Let_def)

lemma texts_step:
  "delta_texts (snd (ResponsesEventToAnthropicEvents e s)) = upstream_text [e]"
  unfolding ResponsesEventToAnthropicEvents_def Let_def
  by (simp add: texts_created texts_added texts_text texts_args texts_blockdone texts_argsdone
      texts_reasoning texts_itemdone texts_completed upstream_text_def)

lemma texts_run: "delta_texts (snd (ra_run es s)) = upstream_text es"
  by (induction es arbitrary: s) (simp_all add: case_prod_beta texts_step, simp_all add: upstream_text_def)

text \<open>
C2. No text is lost, repeated or reordered: over the whole stream the client receives, in text
deltas, exactly the concatenation of the upstream's text deltas.
\<close>
theorem stream_text_preserved: "delta_texts (snd (ra_stream es s)) = upstream_text es"
  by (simp add: ra_stream_def case_prod_beta texts_run texts_finalize)

section \<open>Deltas name the open block\<close>

text \<open>
  The order in which a Responses upstream sends the events of its output items: a function call or a
  summary is added, gets its deltas and its \<open>done\<close> event before the next item that carries a block;
  text deltas come when neither is open; nothing follows the terminal event.
\<close>

datatype upstream = Idle | InItem int go_string | Ended

definition upstream_next :: "upstream \<Rightarrow> ResponsesStreamEvent \<Rightarrow> upstream option" where
  "upstream_next op e =
     (let t = rse_Type e; here = (\<lambda>k. op = InItem (rse_OutputIndex e) k) in
      if op = Ended then None
      else if t = ''response.output_item.added'' then
        (case rse_Item e of
           None \<Rightarrow> Some op
         | Some item \<Rightarrow>
             if ro_Type item = ''function_call'' \<or> ro_Type item = ''reasoning'' then
               (if op = Idle then Some (InItem (rse_OutputIndex e) (ro_Type item)) else None)
             else Some op)
      else if t = ''response.output_text.delta'' \<or> t = ''response.output_text.done'' then
        (if op = Idle then Some Idle else None)
      else if t = ''response.function_call_arguments.delta'' then
        (if here ''function_call'' then Some op else None)
      else if t = ''response.function_call_arguments.done'' then
        (if here ''function_call'' then Some Idle else None)
      else if t = ''response.reasoning_summary_text.delta'' then
        (if here ''reasoning'' then Some op else None)
      else if t = ''response.reasoning_summary_text.done'' then
        (if here ''reasoning'' then Some Idle else None)
      else if t = ''response.output_item.done'' then
        (if rse_Item e = None then Some op else Some Idle)
      else if t = ''response.completed'' \<or> t = ''response.done'' \<or> t = ''response.incomplete''
           \<or> t = ''response.failed'' then Some Ended
      else Some op)"

fun upstream_ok :: "upstream \<Rightarrow> ResponsesStreamEvent list \<Rightarrow> bool" where
  "upstream_ok op [] = True"
| "upstream_ok op (e # es) = (case upstream_next op e of None \<Rightarrow> False | Some op' \<Rightarrow> upstream_ok op' es)"

text \<open>How the open item shows in the converter's state.\<close>

fun item_open :: "upstream \<Rightarrow> ResponsesEventToAnthropicState \<Rightarrow> bool" where
  "item_open Idle s \<longleftrightarrow> \<not> ra_MessageStopSent s \<and> (ra_ContentBlockOpen s \<longrightarrow> ra_CurrentBlockType s = ''text'')"
| "item_open (InItem i k) s \<longleftrightarrow>
     \<not> ra_MessageStopSent s \<and> ra_ContentBlockOpen s
     \<and> ra_OutputIndexToBlockIdx s i = Some (ra_ContentBlockIndex s)
     \<and> (k = ''function_call'' \<longrightarrow> ra_CurrentBlockType s = ''tool_use'')
     \<and> (k = ''reasoning'' \<longrightarrow> ra_CurrentBlockType s = ''thinking'')"
| "item_open Ended s \<longleftrightarrow> True"

definition strict_step :: "upstream \<Rightarrow> ResponsesEventToAnthropicState \<Rightarrow> ra_step \<Rightarrow> bool" where
  "strict_step op s r \<longleftrightarrow> anth_check True (ra_pos s) (snd r) = Some (ra_pos (fst r)) \<and> item_open op (fst r)"

lemma strict_created: "item_open op s \<Longrightarrow> strict_step op s (resToAnthHandleCreated e s)"
  by (cases op) (auto simp: strict_step_def resToAnthHandleCreated_def Let_def split: option.split)

lemma strict_stay: "item_open op s \<Longrightarrow> strict_step op s (s, [])"
  by (simp add: strict_step_def)

lemma strict_added:
  assumes "item_open Idle s" "rse_Item e = Some item"
    "ro_Type item = ''function_call'' \<or> ro_Type item = ''reasoning''"
  shows "strict_step (InItem (rse_OutputIndex e) (ro_Type item)) s (resToAnthHandleOutputItemAdded e s)"
  using assms
  by (auto simp: strict_step_def resToAnthHandleOutputItemAdded_def closeCurrentBlock_def Let_def)

lemma strict_added_other:
  assumes "item_open op s" "rse_Item e = Some item"
    "ro_Type item \<noteq> ''function_call''" "ro_Type item \<noteq> ''reasoning''"
  shows "strict_step op s (resToAnthHandleOutputItemAdded e s)"
  using assms by (simp add: strict_step_def resToAnthHandleOutputItemAdded_def)

lemma strict_text: "item_open Idle s \<Longrightarrow> strict_step Idle s (resToAnthHandleTextDelta e s)"
  by (auto simp: strict_step_def resToAnthHandleTextDelta_def closeCurrentBlock_def Let_def)

lemma strict_close:
  "\<not> ra_MessageStopSent s \<Longrightarrow> strict_step Idle s (closeCurrentBlock s)"
  by (simp add: strict_step_def closeCurrentBlock_def Let_def)

lemma strict_blockdone:
  "\<not> ra_MessageStopSent s \<Longrightarrow> strict_step Idle s (resToAnthHandleBlockDone s)"
  by (simp add: resToAnthHandleBlockDone_def strict_close) (simp add: strict_step_def)

lemma strict_delta_close:
  assumes "\<not> ra_MessageStopSent s" "ra_ContentBlockOpen s"
  shows "strict_step Idle s
    (fst (closeCurrentBlock s), block_delta (ra_ContentBlockIndex s) d # snd (closeCurrentBlock s))"
  using strict_close [OF assms(1)] assms by (simp add: strict_step_def)

lemma strict_argsdone:
  "item_open (InItem i ''function_call'') s \<Longrightarrow> strict_step Idle s (resToAnthHandleFuncArgsDone e s)"
  unfolding resToAnthHandleFuncArgsDone_def Let_def case_prod_beta
  by (auto simp: strict_close strict_delta_close)

lemma strict_args:
  assumes "item_open (InItem (rse_OutputIndex e) ''function_call'') s"
  shows "strict_step (InItem (rse_OutputIndex e) ''function_call'') s (resToAnthHandleFuncArgsDelta e s)"
  using assms by (simp add: strict_step_def resToAnthHandleFuncArgsDelta_def)

lemma strict_reasoning:
  assumes "item_open (InItem (rse_OutputIndex e) ''reasoning'') s"
  shows "strict_step (InItem (rse_OutputIndex e) ''reasoning'') s (resToAnthHandleReasoningDelta e s)"
  using assms by (simp add: strict_step_def resToAnthHandleReasoningDelta_def)

lemma strict_websearch:
  "\<not> ra_MessageStopSent s \<Longrightarrow> strict_step Idle s (resToAnthHandleWebSearchDone item s)"
  by (simp add: strict_step_def resToAnthHandleWebSearchDone_def closeCurrentBlock_def Let_def)

lemma strict_itemdone:
  assumes "\<not> ra_MessageStopSent s" "rse_Item e = Some item"
  shows "strict_step Idle s (resToAnthHandleOutputItemDone e s)"
  unfolding resToAnthHandleOutputItemDone_def
  using assms by (auto simp: strict_websearch strict_close) (simp_all add: strict_step_def)

lemma strict_completed:
  "\<not> ra_MessageStopSent s \<Longrightarrow> strict_step Ended s (resToAnthHandleCompleted e s)"
  by (cases "rse_Response e")
    (simp_all add: strict_step_def resToAnthHandleCompleted_def closeCurrentBlock_def Let_def)

lemma item_open_not_stopped: "item_open op s \<Longrightarrow> op \<noteq> Ended \<Longrightarrow> \<not> ra_MessageStopSent s"
  by (cases op) auto

lemma strict_noitem:
  assumes "item_open op s" "rse_Item e = None"
  shows "strict_step op s (resToAnthHandleOutputItemAdded e s)"
    "strict_step op s (resToAnthHandleOutputItemDone e s)"
  using assms
  by (simp_all add: strict_stay resToAnthHandleOutputItemAdded_def resToAnthHandleOutputItemDone_def)

lemma strict_added_kinds:
  assumes "item_open Idle s" "rse_Item e = Some item"
  shows "ro_Type item = ''function_call'' \<Longrightarrow>
      strict_step (InItem (rse_OutputIndex e) ''function_call'') s (resToAnthHandleOutputItemAdded e s)"
    "ro_Type item = ''reasoning'' \<Longrightarrow>
      strict_step (InItem (rse_OutputIndex e) ''reasoning'') s (resToAnthHandleOutputItemAdded e s)"
  using strict_added [OF assms] by simp_all

lemma strict_next:
  assumes "item_open op s" "upstream_next op e = Some op'"
  shows "strict_step op' s (ResponsesEventToAnthropicEvents e s)"
proof -
  have op: "op \<noteq> Ended"
    using assms(2) by (auto simp: upstream_next_def)
  then have stop: "\<not> ra_MessageStopSent s"
    using assms(1) by (rule item_open_not_stopped [rotated])
  show ?thesis
    using assms op stop
    unfolding ResponsesEventToAnthropicEvents_def upstream_next_def Let_def
    by (auto simp: strict_created strict_text strict_blockdone strict_args strict_argsdone
        strict_reasoning strict_itemdone strict_completed strict_stay strict_noitem
        strict_added_kinds strict_added_other simp del: item_open.simps
        split: if_splits option.splits)
qed

lemma strict_run:
  assumes "item_open op s" "upstream_ok op es"
  shows "anth_check True (ra_pos s) (snd (ra_run es s)) = Some (ra_pos (fst (ra_run es s)))"
  using assms
proof (induction es arbitrary: op s)
  case Nil
  show ?case by simp
next
  case (Cons e es)
  obtain op' where op': "upstream_next op e = Some op'" "upstream_ok op' es"
    using Cons.prems(2) by (auto split: option.splits)
  from strict_next [OF Cons.prems(1) op'(1)] Cons.IH [OF _ op'(2)]
  show ?case
    by (simp add: strict_step_def anth_check_append case_prod_beta)
qed

text \<open>
When the upstream keeps to its item order, every delta the client receives names the block that
is open at that moment: none refers to a block that is closed or not yet started.
\<close>
theorem deltas_name_open_block:
  assumes "upstream_ok Idle es"
  shows "anth_check True (0, False) (snd (ra_run es (NewResponsesEventToAnthropicState now))) \<noteq> None"
  using strict_run [of Idle "NewResponsesEventToAnthropicState now" es] assms
  by (simp add: NewResponsesEventToAnthropicState_def)

abbreviation call_added :: "int \<Rightarrow> go_string \<Rightarrow> go_string \<Rightarrow> ResponsesStreamEvent" where
  "call_added i callID name \<equiv>
     zero_rse\<lparr>rse_Type := ''response.output_item.added'', rse_OutputIndex := i,
       rse_Item := Some (zero_output\<lparr>ro_Type := ''function_call'', ro_CallID := callID, ro_Name := name\<rparr>)\<rparr>"

abbreviation args_delta :: "int \<Rightarrow> go_string \<Rightarrow> ResponsesStreamEvent" where
  "args_delta i d \<equiv>
     zero_rse\<lparr>rse_Type := ''response.function_call_arguments.delta'', rse_OutputIndex := i, rse_Delta := d\<rparr>"

abbreviation args_done :: "int \<Rightarrow> go_string \<Rightarrow> ResponsesStreamEvent" where
  "args_done i a \<equiv>
     zero_rse\<lparr>rse_Type := ''response.function_call_arguments.done'', rse_OutputIndex := i, rse_Arguments := a\<rparr>"

abbreviation summary_added :: "int \<Rightarrow> ResponsesStreamEvent" where
  "summary_added i \<equiv>
     zero_rse\<lparr>rse_Type := ''response.output_item.added'', rse_OutputIndex := i,
       rse_Item := Some (zero_output\<lparr>ro_Type := ''reasoning''\<rparr>)\<rparr>"

abbreviation summary_delta :: "int \<Rightarrow> go_string \<Rightarrow> ResponsesStreamEvent" where
  "summary_delta i d \<equiv>
     zero_rse\<lparr>rse_Type := ''response.reasoning_summary_text.delta'', rse_OutputIndex := i, rse_Delta := d\<rparr>"

abbreviation summary_done :: "int \<Rightarrow> ResponsesStreamEvent" where
  "summary_done i \<equiv>
     zero_rse\<lparr>rse_Type := ''response.reasoning_summary_text.done'', rse_OutputIndex := i\<rparr>"

lemma zero_rse_sel [simp]:
  "rse_Type zero_rse = []" "rse_Response zero_rse = None" "rse_Usage zero_rse = None"
  "rse_Item zero_rse = None" "rse_Delta zero_rse = []" "rse_Arguments zero_rse = []"
  "rse_OutputIndex zero_rse = 0"
  by (simp_all add: zero_rse_def)

lemma zero_output_sel [simp]:
  "ro_Type zero_output = []" "ro_Name zero_output = []" "ro_CallID zero_output = []"
  "ro_Status zero_output = []" "ro_Arguments zero_output = []" "ro_Summary zero_output = []"
  "ro_Content zero_output = []"
  by (simp_all add: zero_output_def)

theorem deltas_name_open_block_witness:
  "anth_check True (0, False) (snd (ra_run
     [summary_added 0, summary_delta 0 ''hm'', summary_done 0,
      call_added 1 ''call_1'' ''Bash'', args_delta 1 ''{}'', args_done 1 ''{}'']
     (NewResponsesEventToAnthropicState 7))) \<noteq> None"
  by (rule deltas_name_open_block) (simp add: upstream_next_def)

text \<open>
A summary of two parts breaks the nesting: the \<open>done\<close> event of the first part closes the thinking
block, and the deltas of the second part still name it.
\<close>
theorem second_summary_part_after_stop:
  "anth_check True (0, False) (snd (ra_run
     [summary_added 0, summary_delta 0 ''first'', summary_done 0, summary_delta 0 ''second'', summary_done 0]
     (NewResponsesEventToAnthropicState now))) = None"
  by (simp add: NewResponsesEventToAnthropicState_def ResponsesEventToAnthropicEvents_def
      ra_handler_defs)

section \<open>Tool arguments\<close>

definition delta_json :: "AnthropicStreamEvent list \<Rightarrow> go_string" where
  "delta_json es = concat (map (\<lambda>e. case ase_Delta e of None \<Rightarrow> []
     | Some d \<Rightarrow> (if ad_Type d = ''input_json_delta'' then ad_PartialJSON d else [])) es)"

lemma delta_json_simps [simp]:
  "delta_json [] = []"
  "delta_json (e # es) = (case ase_Delta e of None \<Rightarrow> []
     | Some d \<Rightarrow> (if ad_Type d = ''input_json_delta'' then ad_PartialJSON d else [])) @ delta_json es"
  "delta_json (xs @ ys) = delta_json xs @ delta_json ys"
  by (simp_all add: delta_json_def)

text \<open>Inside a call: the block is a tool block, and the item's index is known.\<close>

definition in_call :: "int \<Rightarrow> go_string \<Rightarrow> ResponsesEventToAnthropicState \<Rightarrow> bool" where
  "in_call i name s \<longleftrightarrow> ra_ContentBlockOpen s \<and> ra_CurrentBlockType s = ''tool_use''
     \<and> ra_CurrentToolName s = name \<and> ra_OutputIndexToBlockIdx s i \<noteq> None"

lemma args_deltas_passed:
  assumes "in_call i name s" "name \<noteq> ''Read''"
  shows "in_call i name (fst (ra_run (map (args_delta i) ds) s))
     \<and> delta_json (snd (ra_run (map (args_delta i) ds) s)) = concat ds
     \<and> ra_CurrentToolArgs (fst (ra_run (map (args_delta i) ds) s)) = ra_CurrentToolArgs s
     \<and> ra_CurrentToolHadDelta (fst (ra_run (map (args_delta i) ds) s))
         = (ra_CurrentToolHadDelta s \<or> concat ds \<noteq> [])"
  using assms(1)
proof (induction ds arbitrary: s)
  case Nil
  then show ?case by simp
next
  case (Cons d ds)
  let ?r = "ResponsesEventToAnthropicEvents (args_delta i d) s"
  have step: "in_call i name (fst ?r) \<and> delta_json (snd ?r) = d
      \<and> ra_CurrentToolArgs (fst ?r) = ra_CurrentToolArgs s
      \<and> ra_CurrentToolHadDelta (fst ?r) = (ra_CurrentToolHadDelta s \<or> d \<noteq> [])"
    using Cons.prems assms(2)
    by (auto simp: in_call_def ResponsesEventToAnthropicEvents_def resToAnthHandleFuncArgsDelta_def Let_def)
  then show ?case
    using Cons.IH [of "fst ?r"] by (auto simp: case_prod_beta)
qed

lemma args_deltas_kept:
  assumes "in_call i ''Read'' s"
  shows "in_call i ''Read'' (fst (ra_run (map (args_delta i) ds) s))
     \<and> delta_json (snd (ra_run (map (args_delta i) ds) s)) = []
     \<and> ra_CurrentToolArgs (fst (ra_run (map (args_delta i) ds) s)) = ra_CurrentToolArgs s @ concat ds
     \<and> ra_CurrentToolHadDelta (fst (ra_run (map (args_delta i) ds) s)) = ra_CurrentToolHadDelta s"
  using assms
proof (induction ds arbitrary: s)
  case Nil
  then show ?case by simp
next
  case (Cons d ds)
  let ?r = "ResponsesEventToAnthropicEvents (args_delta i d) s"
  have step: "in_call i ''Read'' (fst ?r) \<and> delta_json (snd ?r) = []
      \<and> ra_CurrentToolArgs (fst ?r) = ra_CurrentToolArgs s @ d
      \<and> ra_CurrentToolHadDelta (fst ?r) = ra_CurrentToolHadDelta s"
    using Cons.prems
    by (auto simp: in_call_def ResponsesEventToAnthropicEvents_def resToAnthHandleFuncArgsDelta_def Let_def)
  then show ?case
    using Cons.IH [of "fst ?r"] by (auto simp: case_prod_beta)
qed

lemma call_added_state:
  "in_call i name (fst (ResponsesEventToAnthropicEvents (call_added i callID name) s))"
  "delta_json (snd (ResponsesEventToAnthropicEvents (call_added i callID name) s)) = []"
  "ra_CurrentToolArgs (fst (ResponsesEventToAnthropicEvents (call_added i callID name) s)) = []"
  "ra_CurrentToolHadDelta (fst (ResponsesEventToAnthropicEvents (call_added i callID name) s)) = False"
  by (simp_all add: in_call_def ResponsesEventToAnthropicEvents_def resToAnthHandleOutputItemAdded_def
      closeCurrentBlock_def Let_def)

lemma close_json [simp]: "delta_json (snd (closeCurrentBlock s)) = []"
  by (simp add: closeCurrentBlock_def Let_def)

lemma args_done_json:
  assumes "in_call i name s"
  shows "delta_json (snd (ResponsesEventToAnthropicEvents (args_done i a) s)) =
    (let raw = (if a = [] then ra_CurrentToolArgs s else a)
     in if ra_CurrentToolHadDelta s \<or> raw = [] then []
        else if name = ''Read'' then sanitizeAnthropicToolUseInput name raw else raw)"
  using assms
  by (auto simp: in_call_def ResponsesEventToAnthropicEvents_def resToAnthHandleFuncArgsDone_def Let_def
      case_prod_beta)

text \<open>
The arguments of a tool call reach the client once: those of the deltas when there are any, else
those of the \<open>done\<close> event. For the tool \<open>Read\<close> nothing is sent before the call is complete, and what
is sent then has an empty \<open>pages\<close> removed.
\<close>
theorem tool_call_arguments:
  "delta_json (snd (ra_run (call_added i callID name # map (args_delta i) ds @ [args_done i a]) s)) =
     (if name = ''Read'' then
        (let raw = (if a = [] then concat ds else a)
         in if raw = [] then [] else sanitizeAnthropicToolUseInput name raw)
      else (if concat ds \<noteq> [] then concat ds else a))"
proof (cases "name = ''Read''")
  case True
  let ?s1 = "fst (ResponsesEventToAnthropicEvents (call_added i callID name) s)"
  let ?s2 = "fst (ra_run (map (args_delta i) ds) ?s1)"
  have "in_call i ''Read'' ?s1"
    using call_added_state(1) [of i name callID s] True by simp
  from args_deltas_kept [OF this, of ds] show ?thesis
    using True args_done_json [of i name ?s2 a]
    by (simp add: case_prod_beta ra_run_append call_added_state Let_def) auto
next
  case False
  let ?s1 = "fst (ResponsesEventToAnthropicEvents (call_added i callID name) s)"
  let ?s2 = "fst (ra_run (map (args_delta i) ds) ?s1)"
  from args_deltas_passed [OF call_added_state(1) [of i name callID s] False, of ds] show ?thesis
    using False args_done_json [of i name ?s2 a]
    by (simp add: case_prod_beta ra_run_append call_added_state Let_def)
qed

section \<open>Usage and stop reason\<close>

text \<open>
Usage arithmetic: whatever the upstream reports, input tokens never come out negative, and fresh and
cached tokens add up to the upstream's input tokens, or to its cached tokens where it reports more of
them than of input tokens.
\<close>
theorem usage_split:
  assumes "0 \<le> ru_InputTokens u" "int64 (ru_InputTokens u)" "0 \<le> cached" "int64 cached"
    "ru_InputTokensDetails u = Some \<lparr>ritd_CachedTokens = cached\<rparr>"
  shows "0 \<le> au_InputTokens (anthropicUsageFromResponsesUsage (Some u))
    \<and> au_InputTokens (anthropicUsageFromResponsesUsage (Some u))
        + au_CacheReadInputTokens (anthropicUsageFromResponsesUsage (Some u)) = max (ru_InputTokens u) cached"
proof -
  have "int64 (ru_InputTokens u - cached)"
    using assms by (simp add: int64_def)
  then show ?thesis
    using assms(5) by (simp add: anthropicUsageFromResponsesUsage_def Let_def zero_AnthropicUsage_def)
qed

theorem usage_split_witness:
  "0 \<le> au_InputTokens (anthropicUsageFromResponsesUsage (Some \<lparr>ru_InputTokens = 7, ru_OutputTokens = 3,
        ru_TotalTokens = 10, ru_InputTokensDetails = Some \<lparr>ritd_CachedTokens = 9\<rparr>, ru_OutputTokensDetails = None\<rparr>))
   \<and> au_InputTokens (anthropicUsageFromResponsesUsage (Some \<lparr>ru_InputTokens = 7, ru_OutputTokens = 3,
        ru_TotalTokens = 10, ru_InputTokensDetails = Some \<lparr>ritd_CachedTokens = 9\<rparr>, ru_OutputTokensDetails = None\<rparr>))
     + au_CacheReadInputTokens (anthropicUsageFromResponsesUsage (Some \<lparr>ru_InputTokens = 7, ru_OutputTokens = 3,
        ru_TotalTokens = 10, ru_InputTokensDetails = Some \<lparr>ritd_CachedTokens = 9\<rparr>, ru_OutputTokensDetails = None\<rparr>))
     = 9"
  using usage_split [of "\<lparr>ru_InputTokens = 7, ru_OutputTokens = 3, ru_TotalTokens = 10,
      ru_InputTokensDetails = Some \<lparr>ritd_CachedTokens = 9\<rparr>, ru_OutputTokensDetails = None\<rparr>" 9]
  by (simp add: int64_def)

lemma tool_use_blocks:
  "containsAnthropicToolUseBlock (blocks_of_output item) \<longleftrightarrow> ro_Type item = ''function_call''"
  by (auto simp: containsAnthropicToolUseBlock_def blocks_of_output_def Let_def zero_block_def
      web_search_blocks_def list_ex_iff)

text \<open>
A whole response always has content, and it asks the client to run tools exactly when it is
completed and has a function call among its output items.
\<close>
theorem response_stop_reason:
  "aresp_Content (ResponsesToAnthropic resp model) \<noteq> []
   \<and> (aresp_StopReason (ResponsesToAnthropic resp model) = ''tool_use''
      \<longleftrightarrow> rresp_Status resp = ''completed''
          \<and> list_ex (\<lambda>item. ro_Type item = ''function_call'') (rresp_Output resp))"
proof -
  let ?bs = "concat (map blocks_of_output (rresp_Output resp))"
  have "containsAnthropicToolUseBlock ?bs
      \<longleftrightarrow> list_ex (\<lambda>item. containsAnthropicToolUseBlock (blocks_of_output item)) (rresp_Output resp)"
    by (induction "rresp_Output resp") (auto simp: containsAnthropicToolUseBlock_def list_ex_iff)
  then have tool: "containsAnthropicToolUseBlock ?bs
      \<longleftrightarrow> list_ex (\<lambda>item. ro_Type item = ''function_call'') (rresp_Output resp)"
    by (simp add: tool_use_blocks)
  have none: "containsAnthropicToolUseBlock [zero_block\<lparr>blk_Type := ''text''\<rparr>] = False"
    by (simp add: containsAnthropicToolUseBlock_def)
  have empty: "?bs = [] \<Longrightarrow> \<not> list_ex (\<lambda>item. ro_Type item = ''function_call'') (rresp_Output resp)"
  proof -
    assume b: "?bs = []"
    have "containsAnthropicToolUseBlock ?bs = containsAnthropicToolUseBlock []"
      by (rule arg_cong [OF b])
    then have "\<not> containsAnthropicToolUseBlock ?bs"
      by (simp add: containsAnthropicToolUseBlock_def)
    then show ?thesis
      using tool by simp
  qed
  show ?thesis
    using tool none empty
    by (auto simp: ResponsesToAnthropic_def Let_def responsesStatusToAnthropicStopReason_def
        split: option.splits)
qed

section \<open>Streaming agrees with whole responses\<close>

text \<open>
  A client: it keeps the blocks received so far, each with the argument text that came for it, and adds a delta to the
  block of its index. A block for which argument text came has that text as its input.
\<close>

definition extend_block :: "AnthropicDelta \<Rightarrow> AnthropicContentBlock \<times> string \<Rightarrow> AnthropicContentBlock \<times> string" where
  "extend_block d g =
     (case g of (b, json) \<Rightarrow>
        if ad_Type d = ''text_delta'' then (b\<lparr>blk_Text := blk_Text b @ ad_Text d\<rparr>, json)
        else if ad_Type d = ''thinking_delta'' then (b\<lparr>blk_Thinking := blk_Thinking b @ ad_Thinking d\<rparr>, json)
        else if ad_Type d = ''input_json_delta'' then (b, json @ ad_PartialJSON d)
        else (b, json))"

definition client :: "(AnthropicContentBlock \<times> string) list \<Rightarrow> AnthropicStreamEvent \<Rightarrow> (AnthropicContentBlock \<times> string) list" where
  "client bs e =
     (case ase_ContentBlock e of
        Some b \<Rightarrow> bs @ [(b, [])]
      | None \<Rightarrow>
          (case (ase_Delta e, ase_Index e) of
             (Some d, Some i) \<Rightarrow> if 0 \<le> i \<and> nat i < length bs then bs[nat i := extend_block d (bs ! nat i)] else bs
           | _ \<Rightarrow> bs))"

definition put_together :: "AnthropicStreamEvent list \<Rightarrow> AnthropicContentBlock list" where
  "put_together es = map (\<lambda>(b, json). if json = [] then b else b\<lparr>blk_Input := json\<rparr>) (foldl client [] es)"

text \<open>
  The events of an upstream for one finished output item. Texts, summaries and arguments come in any number of deltas,
  also empty ones, and fields that are not mentioned are arbitrary. A reasoning item has one summary part, which is
  not empty; a call has arguments, which come as deltas, whole at the end, or both ways; a search is completed.
\<close>

definition delta_stream :: "go_string \<Rightarrow> int \<Rightarrow> ResponsesStreamEvent list \<Rightarrow> go_string \<Rightarrow> bool" where
  "delta_stream t i es text' \<longleftrightarrow> list_all (\<lambda>e. rse_Type e = t \<and> rse_OutputIndex e = i) es \<and> concat (map rse_Delta es) = text'"

definition part_stream :: "int \<Rightarrow> ResponsesContentPart \<Rightarrow> ResponsesStreamEvent list \<Rightarrow> bool" where
  "part_stream i p es \<longleftrightarrow>
     (if rp_Type p = ''output_text''
      then \<exists>ds e. es = ds @ [e] \<and> delta_stream ''response.output_text.delta'' i ds (rp_Text p) \<and> rse_Type e = ''response.output_text.done''
      else es = [])"

definition body_stream :: "int \<Rightarrow> ResponsesOutput \<Rightarrow> ResponsesStreamEvent list \<Rightarrow> bool" where
  "body_stream i item es \<longleftrightarrow>
     (if ro_Type item = ''reasoning'' then
        (\<exists>ds e t. es = ds @ [e] \<and> ro_Summary item = [\<lparr>rs_Type = ''summary_text'', rs_Text = t\<rparr>] \<and> t \<noteq> []
           \<and> delta_stream ''response.reasoning_summary_text.delta'' i ds t \<and> rse_Type e = ''response.reasoning_summary_text.done'')
      else if ro_Type item = ''message'' then
        (\<exists>ess. es = concat ess \<and> list_all2 (part_stream i) (ro_Content item) ess)
      else if ro_Type item = ''function_call'' then
        (\<exists>ds e t. es = ds @ [e] \<and> ro_Arguments item \<noteq> [] \<and> delta_stream ''response.function_call_arguments.delta'' i ds t
           \<and> rse_Type e = ''response.function_call_arguments.done''
           \<and> (t = ro_Arguments item \<and> rse_Arguments e \<in> {[], t} \<or> t = [] \<and> rse_Arguments e = ro_Arguments item))
      else es = [] \<and> (ro_Type item \<noteq> ''web_search_call'' \<or> ro_Status item = ''completed''))"

definition item_stream :: "int \<Rightarrow> ResponsesOutput \<Rightarrow> ResponsesStreamEvent list \<Rightarrow> bool" where
  "item_stream i item es \<longleftrightarrow>
     (\<exists>a new body b. es = a # body @ [b] \<and> rse_Type a = ''response.output_item.added'' \<and> rse_OutputIndex a = i
        \<and> rse_Item a = Some new \<and> ro_Type new = ro_Type item \<and> ro_CallID new = ro_CallID item \<and> ro_Name new = ro_Name item
        \<and> body_stream i item body \<and> rse_Type b = ''response.output_item.done'' \<and> rse_Item b = Some item)"

fun items_stream :: "int \<Rightarrow> ResponsesOutput list \<Rightarrow> ResponsesStreamEvent list \<Rightarrow> bool" where
  "items_stream i [] es \<longleftrightarrow> es = []"
| "items_stream i (item # items) es \<longleftrightarrow> (\<exists>xs ys. es = xs @ ys \<and> item_stream i item xs \<and> items_stream (i + 1) items ys)"

text \<open>The whole stream; events of other types, which say what is in progress, may come anywhere.\<close>

definition handled_event :: "ResponsesStreamEvent \<Rightarrow> bool" where
  "handled_event e \<longleftrightarrow> rse_Type e \<in> {''response.created'', ''response.output_item.added'', ''response.output_text.delta'',
     ''response.output_text.done'', ''response.function_call_arguments.delta'', ''response.function_call_arguments.done'',
     ''response.output_item.done'', ''response.reasoning_summary_text.delta'', ''response.reasoning_summary_text.done'',
     ''response.completed'', ''response.done'', ''response.incomplete'', ''response.failed''}"

definition response_stream :: "ResponsesResponse \<Rightarrow> ResponsesStreamEvent list \<Rightarrow> bool" where
  "response_stream resp es \<longleftrightarrow>
     (\<exists>c body d. filter handled_event es = c # body @ [d] \<and> rse_Type c = ''response.created''
        \<and> items_stream 0 (rresp_Output resp) body
        \<and> rse_Type d \<in> {''response.completed'', ''response.done'', ''response.incomplete'', ''response.failed''})"

lemma run_handled: "ra_run (filter handled_event es) s = ra_run es s"
proof (induction es arbitrary: s)
  case (Cons e es)
  have "\<not> handled_event e \<Longrightarrow> ResponsesEventToAnthropicEvents e s = (s, [])"
    by (simp add: handled_event_def ResponsesEventToAnthropicEvents_def Let_def)
  then show ?case using Cons by simp
qed simp

lemma zero_ase_block [simp]: "ase_ContentBlock zero_ase = None" "ase_Delta zero_ase = None"
  by (simp_all add: zero_ase_def)

lemma zero_block_sel [simp]: "blk_Text zero_block = []" "blk_Thinking zero_block = []"
  by (simp_all add: zero_block_def)

lemma client_at:
  "client bs (block_start i b) = bs @ [(b, [])]"
  "client (bs @ [g]) (block_delta (int (length bs)) d) = bs @ [extend_block d g]"
  "client bs (block_stop i) = bs"
  by (simp_all add: client_def del: split_paired_All)

lemma sanitize_other [simp]: "name \<noteq> ''Read'' \<Longrightarrow> sanitizeAnthropicToolUseInput name raw = raw"
  by (simp add: sanitizeAnthropicToolUseInput_def)

lemma sanitize_nonempty [simp]: "raw \<noteq> [] \<Longrightarrow> sanitizeAnthropicToolUseInput name raw \<noteq> []"
  by (auto simp: sanitizeAnthropicToolUseInput_def marshal_map_def jobj_def split: option.split)

lemmas ra_dispatch = ResponsesEventToAnthropicEvents_def Let_def

text \<open>Deltas that only add to the block that is open.\<close>

lemma gather:
  fixes P :: "ResponsesEventToAnthropicState \<Rightarrow> bool" and bs :: "(AnthropicContentBlock \<times> string) list"
  assumes "\<And>e s bs g. e \<in> set es \<Longrightarrow> P s \<Longrightarrow> ra_ContentBlockIndex s = int (length bs) \<Longrightarrow>
      P (fst (ResponsesEventToAnthropicEvents e s))
      \<and> ra_ContentBlockIndex (fst (ResponsesEventToAnthropicEvents e s)) = int (length bs)
      \<and> foldl client (bs @ [g]) (snd (ResponsesEventToAnthropicEvents e s)) = bs @ [add (rse_Delta e) g]"
    "\<And>g. add [] g = g" "\<And>x y g. add (x @ y) g = add y (add x g)" "P s" "ra_ContentBlockIndex s = int (length bs)"
  shows "P (fst (ra_run es s)) \<and> ra_ContentBlockIndex (fst (ra_run es s)) = int (length bs)
    \<and> foldl client (bs @ [g]) (snd (ra_run es s)) = bs @ [add (concat (map rse_Delta es)) g]"
  using assms(1,4,5)
proof (induction es arbitrary: s g)
  case (Cons e es)
  let ?s = "fst (ResponsesEventToAnthropicEvents e s)" and ?g = "add (rse_Delta e) g"
  have one: "P ?s \<and> ra_ContentBlockIndex ?s = int (length bs) \<and> foldl client (bs @ [g]) (snd (ResponsesEventToAnthropicEvents e s)) = bs @ [?g]"
    by (rule Cons.prems(1) [OF _ Cons.prems(2,3)]) simp
  have "P (fst (ra_run es ?s)) \<and> ra_ContentBlockIndex (fst (ra_run es ?s)) = int (length bs)
      \<and> foldl client (bs @ [?g]) (snd (ra_run es ?s)) = bs @ [add (concat (map rse_Delta es)) ?g]"
    by (rule Cons.IH) (use Cons.prems(1) one in auto)
  then show ?case using one by (simp add: case_prod_beta assms(3))
qed (simp add: assms(2))

definition got_block :: "AnthropicContentBlock \<times> string \<Rightarrow> AnthropicContentBlock" where
  "got_block g = (case g of (b, json) \<Rightarrow> if json = [] then b else b\<lparr>blk_Input := json\<rparr>)"

text \<open>Events that lead from a state without an open block to such a state and add the blocks \<open>new\<close>.\<close>

definition adds_blocks :: "AnthropicContentBlock list \<Rightarrow> ResponsesStreamEvent list \<Rightarrow> bool" where
  "adds_blocks new es \<longleftrightarrow> (\<forall>s bs. \<not> ra_ContentBlockOpen s \<longrightarrow> ra_ContentBlockIndex s = int (length bs) \<longrightarrow>
     \<not> ra_ContentBlockOpen (fst (ra_run es s)) \<and> ra_ContentBlockIndex (fst (ra_run es s)) = int (length bs + length new)
     \<and> (\<exists>gs. foldl client bs (snd (ra_run es s)) = bs @ gs \<and> map got_block gs = new))"

lemma adds_Nil: "adds_blocks [] []"
  by (simp add: adds_blocks_def)

lemma adds_append:
  assumes "adds_blocks xs es" "adds_blocks ys fs"
  shows "adds_blocks (xs @ ys) (es @ fs)"
  unfolding adds_blocks_def
proof (intro allI impI)
  fix s :: ResponsesEventToAnthropicState and bs :: "(AnthropicContentBlock \<times> string) list"
  assume s: "\<not> ra_ContentBlockOpen s" "ra_ContentBlockIndex s = int (length bs)"
  let ?s = "fst (ra_run es s)"
  obtain gs where gs: "\<not> ra_ContentBlockOpen ?s" "ra_ContentBlockIndex ?s = int (length bs + length xs)"
    "foldl client bs (snd (ra_run es s)) = bs @ gs" "map got_block gs = xs"
    using assms(1) s unfolding adds_blocks_def by blast
  then have "ra_ContentBlockIndex ?s = int (length (bs @ gs))" by (auto dest: arg_cong [where f = length])
  then obtain hs where "\<not> ra_ContentBlockOpen (fst (ra_run fs ?s))"
    "ra_ContentBlockIndex (fst (ra_run fs ?s)) = int (length (bs @ gs) + length ys)"
    "foldl client (bs @ gs) (snd (ra_run fs ?s)) = (bs @ gs) @ hs" "map got_block hs = ys"
    using assms(2) gs(1) unfolding adds_blocks_def by blast
  then show "\<not> ra_ContentBlockOpen (fst (ra_run (es @ fs) s))
      \<and> ra_ContentBlockIndex (fst (ra_run (es @ fs) s)) = int (length bs + length (xs @ ys))
      \<and> (\<exists>gs. foldl client bs (snd (ra_run (es @ fs) s)) = bs @ gs \<and> map got_block gs = xs @ ys)"
    using gs(3,4) by (auto simp: ra_run_append intro!: exI [of _ "gs @ hs"])
qed

lemma adds_none:
  assumes "\<And>s. \<not> ra_ContentBlockOpen s \<Longrightarrow> ResponsesEventToAnthropicEvents e s = (s, [])"
  shows "adds_blocks [] [e]"
  using assms by (simp add: adds_blocks_def)

lemma adds_item_done: "rse_Type b = ''response.output_item.done'' \<Longrightarrow> rse_Item b = Some item \<Longrightarrow> ro_Type item \<noteq> ''web_search_call'' \<Longrightarrow> adds_blocks [] [b]"
  by (rule adds_none) (simp add: ra_dispatch resToAnthHandleOutputItemDone_def)

lemma reasoning_run:
  assumes "rse_Type a = ''response.output_item.added''" "rse_OutputIndex a = i" "rse_Item a = Some new" "ro_Type new = ''reasoning''"
    "delta_stream ''response.reasoning_summary_text.delta'' i ds t" "rse_Type e = ''response.reasoning_summary_text.done''"
  shows "adds_blocks [zero_block\<lparr>blk_Type := ''thinking'', blk_Thinking := t\<rparr>] (a # ds @ [e])"
  unfolding adds_blocks_def
proof (intro allI impI)
  fix s :: ResponsesEventToAnthropicState and bs :: "(AnthropicContentBlock \<times> string) list"
  assume s: "\<not> ra_ContentBlockOpen s" "ra_ContentBlockIndex s = int (length bs)"
  let ?s = "s\<lparr>ra_OutputIndexToBlockIdx := (ra_OutputIndexToBlockIdx s)(i \<mapsto> ra_ContentBlockIndex s), ra_ContentBlockOpen := True,
      ra_CurrentBlockType := ''thinking''\<rparr>"
  let ?P = "\<lambda>s. ra_ContentBlockOpen s \<and> ra_OutputIndexToBlockIdx s i = Some (ra_ContentBlockIndex s)"
  let ?add = "\<lambda>t g. (fst g\<lparr>blk_Thinking := blk_Thinking (fst g) @ t\<rparr>, snd g)"
  have start: "ResponsesEventToAnthropicEvents a s = (?s, [block_start (int (length bs)) (zero_block\<lparr>blk_Type := ''thinking''\<rparr>)])"
    using assms(1-4) s by (simp add: ra_dispatch resToAnthHandleOutputItemAdded_def closeCurrentBlock_def)
  have run: "?P (fst (ra_run ds ?s)) \<and> ra_ContentBlockIndex (fst (ra_run ds ?s)) = int (length bs)
      \<and> foldl client (bs @ [g]) (snd (ra_run ds ?s)) = bs @ [?add (concat (map rse_Delta ds)) g]" for g
  proof (rule gather [where P = ?P and add = ?add])
    fix x g and s' :: ResponsesEventToAnthropicState and bs' :: "(AnthropicContentBlock \<times> string) list"
    assume x: "x \<in> set ds" "?P s'" "ra_ContentBlockIndex s' = int (length bs')"
    then have "rse_Type x = ''response.reasoning_summary_text.delta''" "rse_OutputIndex x = i"
      using assms(5) by (auto simp: delta_stream_def list_all_iff)
    then show "?P (fst (ResponsesEventToAnthropicEvents x s'))
        \<and> ra_ContentBlockIndex (fst (ResponsesEventToAnthropicEvents x s')) = int (length bs')
        \<and> foldl client (bs' @ [g]) (snd (ResponsesEventToAnthropicEvents x s')) = bs' @ [?add (rse_Delta x) g]"
      using x(2,3) by (cases g) (auto simp: ra_dispatch resToAnthHandleReasoningDelta_def client_at extend_block_def)
  qed (use s in simp_all)
  have stop: "ResponsesEventToAnthropicEvents e s' = (fst (closeCurrentBlock s'), [block_stop (ra_ContentBlockIndex s')])
      \<and> \<not> ra_ContentBlockOpen (fst (closeCurrentBlock s')) \<and> ra_ContentBlockIndex (fst (closeCurrentBlock s')) = ra_ContentBlockIndex s' + 1"
    if "ra_ContentBlockOpen s'" for s'
    using that assms(6) by (simp add: ra_dispatch resToAnthHandleBlockDone_def closeCurrentBlock_def)
  have "concat (map rse_Delta ds) = t" using assms(5) by (simp add: delta_stream_def)
  then show "\<not> ra_ContentBlockOpen (fst (ra_run (a # ds @ [e]) s))
      \<and> ra_ContentBlockIndex (fst (ra_run (a # ds @ [e]) s)) = int (length bs + length [zero_block\<lparr>blk_Type := ''thinking'', blk_Thinking := t\<rparr>])
      \<and> (\<exists>gs. foldl client bs (snd (ra_run (a # ds @ [e]) s)) = bs @ gs \<and> map got_block gs = [zero_block\<lparr>blk_Type := ''thinking'', blk_Thinking := t\<rparr>])"
    using run stop [of "fst (ra_run ds ?s)"] by (simp add: start ra_run_append case_prod_beta client_at got_block_def)
qed

text \<open>A call: the deltas are passed on, or kept back when the tool is \<open>Read\<close>.\<close>

lemma call_run:
  assumes "rse_Type a = ''response.output_item.added''" "rse_OutputIndex a = i" "rse_Item a = Some new" "ro_Type new = ''function_call''"
    "delta_stream ''response.function_call_arguments.delta'' i ds t" "rse_Type e = ''response.function_call_arguments.done''"
    "args \<noteq> []" "t = args \<and> rse_Arguments e \<in> {[], t} \<or> t = [] \<and> rse_Arguments e = args"
  shows "adds_blocks [zero_block\<lparr>blk_Type := ''tool_use'', blk_ID := fromResponsesCallID (ro_CallID new), blk_Name := ro_Name new,
      blk_Input := sanitizeAnthropicToolUseInput (ro_Name new) args\<rparr>] (a # ds @ [e])" (is "adds_blocks [?block] _")
  unfolding adds_blocks_def
proof (intro allI impI)
  fix s :: ResponsesEventToAnthropicState and bs :: "(AnthropicContentBlock \<times> string) list"
  assume s: "\<not> ra_ContentBlockOpen s" "ra_ContentBlockIndex s = int (length bs)"
  let ?s = "s\<lparr>ra_OutputIndexToBlockIdx := (ra_OutputIndexToBlockIdx s)(i \<mapsto> ra_ContentBlockIndex s), ra_ContentBlockOpen := True,
      ra_CurrentBlockType := ''tool_use'', ra_CurrentToolName := ro_Name new, ra_CurrentToolArgs := [], ra_CurrentToolHadDelta := False,
      ra_HasToolCall := True\<rparr>"
  let ?b = "zero_block\<lparr>blk_Type := ''tool_use'', blk_ID := fromResponsesCallID (ro_CallID new), blk_Name := ro_Name new, blk_Input := ''{}''\<rparr>"
  have start: "ResponsesEventToAnthropicEvents a s = (?s, [block_start (int (length bs)) ?b])"
    using assms(1-4) s by (simp add: ra_dispatch resToAnthHandleOutputItemAdded_def closeCurrentBlock_def)
  have sort: "rse_Type x = ''response.function_call_arguments.delta''" "rse_OutputIndex x = i" if "x \<in> set ds" for x
    using assms(5) that by (auto simp: delta_stream_def list_all_iff)
  have t: "concat (map rse_Delta ds) = t" using assms(5) by (simp add: delta_stream_def)
  let ?Q = "\<lambda>s. ra_ContentBlockOpen s \<and> ra_CurrentBlockType s = ''tool_use'' \<and> ra_CurrentToolName s = ro_Name new
      \<and> ra_OutputIndexToBlockIdx s i = Some (ra_ContentBlockIndex s)"
  show "\<not> ra_ContentBlockOpen (fst (ra_run (a # ds @ [e]) s))
      \<and> ra_ContentBlockIndex (fst (ra_run (a # ds @ [e]) s)) = int (length bs + length [?block])
      \<and> (\<exists>gs. foldl client bs (snd (ra_run (a # ds @ [e]) s)) = bs @ gs \<and> map got_block gs = [?block])"
  proof (cases "ro_Name new = ''Read''")
    case True
    have kept: "fst (ra_run ds s') = s'\<lparr>ra_CurrentToolArgs := ra_CurrentToolArgs s' @ concat (map rse_Delta ds)\<rparr> \<and> snd (ra_run ds s') = []"
      if "?Q s'" for s'
      using that sort
    proof (induction ds arbitrary: s')
      case (Cons x xs)
      have x: "ResponsesEventToAnthropicEvents x s' = (s'\<lparr>ra_CurrentToolArgs := ra_CurrentToolArgs s' @ rse_Delta x\<rparr>, [])"
        using Cons.prems True by (simp add: ra_dispatch resToAnthHandleFuncArgsDelta_def)
      show ?case
        using Cons.IH [of "s'\<lparr>ra_CurrentToolArgs := ra_CurrentToolArgs s' @ rse_Delta x\<rparr>"] Cons.prems by (simp add: x case_prod_beta)
    qed simp
    have fin: "ResponsesEventToAnthropicEvents e (?s\<lparr>ra_CurrentToolArgs := t\<rparr>) =
        (fst (closeCurrentBlock (?s\<lparr>ra_CurrentToolArgs := t\<rparr>)),
         [block_delta (int (length bs)) (json_delta (sanitizeAnthropicToolUseInput (ro_Name new) args)), block_stop (int (length bs))])"
      using assms(6-8) s True sanitize_nonempty [OF assms(7), of "ro_Name new"]
      by (auto simp: ra_dispatch resToAnthHandleFuncArgsDone_def closeCurrentBlock_def)
    show ?thesis
      using kept [of ?s] fin s t
      by (simp add: start ra_run_append case_prod_beta client_at json_delta_def extend_block_def got_block_def closeCurrentBlock_def
          sanitize_nonempty [OF assms(7)])
  next
    case False
    let ?P = "\<lambda>s. ?Q s"
    let ?add = "\<lambda>t g. (fst g, snd g @ t)"
    have run: "?P (fst (ra_run ds ?s)) \<and> ra_ContentBlockIndex (fst (ra_run ds ?s)) = int (length bs)
        \<and> foldl client (bs @ [g]) (snd (ra_run ds ?s)) = bs @ [?add (concat (map rse_Delta ds)) g]" for g
    proof (rule gather [where P = ?P and add = ?add])
      fix x g and s' :: ResponsesEventToAnthropicState and bs' :: "(AnthropicContentBlock \<times> string) list"
      assume x: "x \<in> set ds" "?P s'" "ra_ContentBlockIndex s' = int (length bs')"
      then show "?P (fst (ResponsesEventToAnthropicEvents x s'))
          \<and> ra_ContentBlockIndex (fst (ResponsesEventToAnthropicEvents x s')) = int (length bs')
          \<and> foldl client (bs' @ [g]) (snd (ResponsesEventToAnthropicEvents x s')) = bs' @ [?add (rse_Delta x) g]"
        using x(2,3) sort [OF x(1)] False
        by (cases g) (auto simp: ra_dispatch resToAnthHandleFuncArgsDelta_def client_at extend_block_def json_delta_def)
    qed (use s in simp_all)
    have had: "(ra_CurrentToolHadDelta (fst (ra_run ds s')) \<longleftrightarrow> ra_CurrentToolHadDelta s' \<or> concat (map rse_Delta ds) \<noteq> [])
      \<and> ra_CurrentToolArgs (fst (ra_run ds s')) = ra_CurrentToolArgs s'" if "?Q s'" for s'
      using that sort
    proof (induction ds arbitrary: s')
      case (Cons x xs)
      have x: "?Q (fst (ResponsesEventToAnthropicEvents x s'))" "ra_CurrentToolArgs (fst (ResponsesEventToAnthropicEvents x s')) = ra_CurrentToolArgs s'"
        "ra_CurrentToolHadDelta (fst (ResponsesEventToAnthropicEvents x s')) \<longleftrightarrow> ra_CurrentToolHadDelta s' \<or> rse_Delta x \<noteq> []"
        using Cons.prems False by (auto simp: ra_dispatch resToAnthHandleFuncArgsDelta_def)
      show ?case using Cons.IH [OF x(1)] Cons.prems(2,3) x(2,3) by (simp add: case_prod_beta)
    qed simp
    let ?s' = "fst (ra_run ds ?s)"
    have state: "ra_ContentBlockOpen ?s'" "ra_CurrentBlockType ?s' = ''tool_use''" "ra_CurrentToolName ?s' = ro_Name new"
      "ra_ContentBlockIndex ?s' = int (length bs)" "ra_CurrentToolHadDelta ?s' \<longleftrightarrow> t \<noteq> []" "ra_CurrentToolArgs ?s' = []"
      using run had [of ?s] t by auto
    have fin: "ResponsesEventToAnthropicEvents e ?s' =
        (fst (closeCurrentBlock ?s'), (if t = [] then [block_delta (int (length bs)) (json_delta args)] else []) @ [block_stop (int (length bs))])"
      using assms(6-8) state False by (auto simp: ra_dispatch resToAnthHandleFuncArgsDone_def closeCurrentBlock_def)
    have args: "t \<noteq> [] \<Longrightarrow> t = args" using assms(8) by blast
    show ?thesis
      using run fin state args t assms(7) False
      by (simp add: start ra_run_append case_prod_beta client_at json_delta_def extend_block_def got_block_def closeCurrentBlock_def)
  qed
qed

text \<open>A text part: its block begins with the first delta that is not empty.\<close>

abbreviation plain_text_block :: "go_string \<Rightarrow> AnthropicContentBlock" where
  "plain_text_block t \<equiv> zero_block\<lparr>blk_Type := ''text'', blk_Text := t\<rparr>"

lemma text_run:
  assumes "list_all (\<lambda>e. rse_Type e = ''response.output_text.delta'') ds" "\<not> ra_ContentBlockOpen s" "ra_ContentBlockIndex s = int (length bs)"
  shows "if concat (map rse_Delta ds) = [] then ra_run ds s = (s, [])
    else ra_ContentBlockOpen (fst (ra_run ds s)) \<and> ra_ContentBlockIndex (fst (ra_run ds s)) = int (length bs)
      \<and> foldl client bs (snd (ra_run ds s)) = bs @ [(plain_text_block (concat (map rse_Delta ds)), [])]"
  using assms(1)
proof (induction ds)
  case (Cons e es)
  have e: "rse_Type e = ''response.output_text.delta''" using Cons.prems by simp
  show ?case
  proof (cases "rse_Delta e = []")
    case True
    then have "ResponsesEventToAnthropicEvents e s = (s, [])" using e by (simp add: ra_dispatch resToAnthHandleTextDelta_def)
    then show ?thesis using Cons True by simp
  next
    case False
    let ?s = "s\<lparr>ra_ContentBlockOpen := True, ra_CurrentBlockType := ''text''\<rparr>"
    let ?P = "\<lambda>s. ra_ContentBlockOpen s \<and> ra_CurrentBlockType s = ''text''"
    let ?add = "\<lambda>t g. (fst g\<lparr>blk_Text := blk_Text (fst g) @ t\<rparr>, snd g)"
    have start: "ResponsesEventToAnthropicEvents e s = (?s, [block_start (int (length bs)) (zero_block\<lparr>blk_Type := ''text''\<rparr>),
        block_delta (int (length bs)) (zero_AnthropicDelta\<lparr>ad_Type := ''text_delta'', ad_Text := rse_Delta e\<rparr>)])"
      using e False assms(2,3) by (simp add: ra_dispatch resToAnthHandleTextDelta_def closeCurrentBlock_def)
    have "?P (fst (ra_run es ?s)) \<and> ra_ContentBlockIndex (fst (ra_run es ?s)) = int (length bs)
        \<and> foldl client (bs @ [g]) (snd (ra_run es ?s)) = bs @ [?add (concat (map rse_Delta es)) g]" for g
    proof (rule gather [where P = ?P and add = ?add])
      fix x g and s' :: ResponsesEventToAnthropicState and bs' :: "(AnthropicContentBlock \<times> string) list"
      assume x: "x \<in> set es" "?P s'" "ra_ContentBlockIndex s' = int (length bs')"
      then have "rse_Type x = ''response.output_text.delta''" using Cons.prems by (simp add: list_all_iff)
      then show "?P (fst (ResponsesEventToAnthropicEvents x s'))
          \<and> ra_ContentBlockIndex (fst (ResponsesEventToAnthropicEvents x s')) = int (length bs')
          \<and> foldl client (bs' @ [g]) (snd (ResponsesEventToAnthropicEvents x s')) = bs' @ [?add (rse_Delta x) g]"
        using x(2,3) by (cases g) (auto simp: ra_dispatch resToAnthHandleTextDelta_def client_at extend_block_def)
    qed (use assms(3) in simp_all)
    then show ?thesis using False by (simp add: start case_prod_beta client_at extend_block_def)
  qed
qed simp

lemma part_run:
  assumes "part_stream i p es"
  shows "adds_blocks (if rp_Type p = ''output_text'' \<and> rp_Text p \<noteq> [] then [plain_text_block (rp_Text p)] else []) es"
proof (cases "rp_Type p = ''output_text''")
  case True
  then obtain ds e where es: "es = ds @ [e]" "delta_stream ''response.output_text.delta'' i ds (rp_Text p)" "rse_Type e = ''response.output_text.done''"
    using assms by (auto simp: part_stream_def)
  then have ds: "list_all (\<lambda>e. rse_Type e = ''response.output_text.delta'') ds" "concat (map rse_Delta ds) = rp_Text p"
    by (auto simp: delta_stream_def list_all_iff)
  show ?thesis
    unfolding adds_blocks_def
  proof (intro allI impI)
    fix s :: ResponsesEventToAnthropicState and bs :: "(AnthropicContentBlock \<times> string) list"
    assume s: "\<not> ra_ContentBlockOpen s" "ra_ContentBlockIndex s = int (length bs)"
    show "\<not> ra_ContentBlockOpen (fst (ra_run es s))
        \<and> ra_ContentBlockIndex (fst (ra_run es s)) = int (length bs + length (if rp_Type p = ''output_text'' \<and> rp_Text p \<noteq> [] then [plain_text_block (rp_Text p)] else []))
        \<and> (\<exists>gs. foldl client bs (snd (ra_run es s)) = bs @ gs
            \<and> map got_block gs = (if rp_Type p = ''output_text'' \<and> rp_Text p \<noteq> [] then [plain_text_block (rp_Text p)] else []))"
      using text_run [OF ds(1) s] ds(2) es(3) s True
      by (cases "rp_Text p = []") (simp_all add: es(1) ra_run_append case_prod_beta ra_dispatch resToAnthHandleBlockDone_def
          closeCurrentBlock_def client_at got_block_def)
  qed
next
  case False
  then have "es = []" using assms by (simp add: part_stream_def)
  then show ?thesis using False by (simp add: adds_Nil)
qed

lemma parts_run:
  "list_all2 (part_stream i) ps ess \<Longrightarrow>
   adds_blocks (map (\<lambda>p. plain_text_block (rp_Text p)) (filter (\<lambda>p. rp_Type p = ''output_text'' \<and> rp_Text p \<noteq> []) ps)) (concat ess)"
proof (induction rule: list_all2_induct)
  case (Cons p ps es ess)
  from adds_append [OF part_run [OF Cons(1)] Cons.IH] show ?case by (auto split: if_splits)
qed (simp add: adds_Nil)

lemma search_run:
  assumes "rse_Type b = ''response.output_item.done''" "rse_Item b = Some item" "ro_Type item = ''web_search_call''" "ro_Status item = ''completed''"
  shows "adds_blocks (blocks_of_output item) [b]"
  using assms
  by (auto simp: adds_blocks_def ra_dispatch resToAnthHandleOutputItemDone_def resToAnthHandleWebSearchDone_def closeCurrentBlock_def
      client_at got_block_def blocks_of_output_def)

lemma added_nothing:
  assumes "rse_Type a = ''response.output_item.added''" "rse_Item a = Some new" "ro_Type new \<noteq> ''reasoning''" "ro_Type new \<noteq> ''function_call''"
  shows "adds_blocks [] [a]"
  by (rule adds_none) (use assms in \<open>simp add: ra_dispatch resToAnthHandleOutputItemAdded_def\<close>)

lemma item_adds:
  assumes "item_stream i item es"
  shows "adds_blocks (blocks_of_output item) es"
proof -
  obtain a new body b where es: "es = a # body @ [b]" "rse_Type a = ''response.output_item.added''" "rse_OutputIndex a = i"
    "rse_Item a = Some new" "ro_Type new = ro_Type item" "ro_CallID new = ro_CallID item" "ro_Name new = ro_Name item"
    "body_stream i item body" "rse_Type b = ''response.output_item.done''" "rse_Item b = Some item"
    using assms by (auto simp: item_stream_def)
  consider "ro_Type item = ''reasoning''" | "ro_Type item = ''message''" | "ro_Type item = ''function_call''"
    | "ro_Type item \<notin> {''reasoning'', ''message'', ''function_call''}" by blast
  then show ?thesis
  proof cases
    case 1
    then obtain ds e t where b: "body = ds @ [e]" "ro_Summary item = [\<lparr>rs_Type = ''summary_text'', rs_Text = t\<rparr>]" "t \<noteq> []"
      "delta_stream ''response.reasoning_summary_text.delta'' i ds t" "rse_Type e = ''response.reasoning_summary_text.done''"
      using es(8) by (auto simp: body_stream_def)
    have "ro_Type new = ''reasoning''" using es(5) 1 by simp
    from adds_append [OF reasoning_run [OF es(2-4) this b(4,5)] adds_item_done [OF es(9,10)]] show ?thesis
      using 1 b(1-3) es(1) by (simp add: blocks_of_output_def)
  next
    case 2
    then obtain ess where b: "body = concat ess" "list_all2 (part_stream i) (ro_Content item) ess"
      using es(8) by (auto simp: body_stream_def)
    have "adds_blocks [] [a]" by (rule added_nothing [OF es(2,4)]) (simp_all add: es(5) 2)
    from adds_append [OF this adds_append [OF parts_run [OF b(2)] adds_item_done [OF es(9,10)]]] show ?thesis
      using 2 b(1) es(1) by (simp add: blocks_of_output_def)
  next
    case 3
    then obtain ds e t where b: "body = ds @ [e]" "ro_Arguments item \<noteq> []" "delta_stream ''response.function_call_arguments.delta'' i ds t"
      "rse_Type e = ''response.function_call_arguments.done''"
      "t = ro_Arguments item \<and> rse_Arguments e \<in> {[], t} \<or> t = [] \<and> rse_Arguments e = ro_Arguments item"
      using es(8) by (auto simp: body_stream_def)
    have "ro_Type new = ''function_call''" using es(5) 3 by simp
    from adds_append [OF call_run [OF es(2-4) this b(3,4,2,5)] adds_item_done [OF es(9,10)]] show ?thesis
      using 3 b(1) es(1,6,7) by (simp add: blocks_of_output_def)
  next
    case 4
    then have b: "body = []" "ro_Type item \<noteq> ''web_search_call'' \<or> ro_Status item = ''completed''"
      using es(8) by (auto simp: body_stream_def)
    have a: "adds_blocks [] [a]" by (rule added_nothing [OF es(2,4)]) (use 4 es(5) in simp_all)
    have "adds_blocks (blocks_of_output item) [b]"
    proof (cases "ro_Type item = ''web_search_call''")
      case True
      then show ?thesis using b(2) search_run [OF es(9,10)] by simp
    next
      case False
      then show ?thesis using 4 adds_item_done [OF es(9,10)] by (simp add: blocks_of_output_def)
    qed
    from adds_append [OF a this] show ?thesis using b(1) es(1) by simp
  qed
qed

lemma items_run: "items_stream i items es \<Longrightarrow> adds_blocks (concat (map blocks_of_output items)) es"
proof (induction items arbitrary: i es)
  case (Cons item items)
  then obtain xs ys where "es = xs @ ys" "item_stream i item xs" "items_stream (i + 1) items ys" by auto
  then show ?case using adds_append [OF item_adds Cons.IH] by simp
qed (simp add: adds_Nil)

text \<open>
C20. Streaming and whole responses agree: when an upstream streams a response, a client that puts the events of the
converter together, each delta in the block of its index, ends with exactly the content blocks of the converted whole
response (which has an empty text block when there are none). The stream says that the response is created, then the
output items one after the other, from their addition to their end, with texts, summaries and arguments in any number of
deltas, and then that it is over; events the converter does not handle may come anywhere between. The items are: messages
with any parts, reasoning items with one summary part that is not empty, calls with arguments that are not empty,
which come in deltas, whole at the end, or both ways, completed searches, and items of unknown types.
\<close>
theorem stream_agrees_with_whole:
  assumes "response_stream resp es"
  shows "aresp_Content (ResponsesToAnthropic resp model) =
    (let bs = put_together (snd (ra_run es (NewResponsesEventToAnthropicState now)))
     in if bs = [] then [zero_block\<lparr>blk_Type := ''text''\<rparr>] else bs)"
proof -
  obtain c body d where es: "filter handled_event es = c # body @ [d]" "rse_Type c = ''response.created''"
    "items_stream 0 (rresp_Output resp) body"
    "rse_Type d \<in> {''response.completed'', ''response.done'', ''response.incomplete'', ''response.failed''}"
    using assms by (auto simp: response_stream_def)
  let ?s0 = "NewResponsesEventToAnthropicState now"
  let ?s1 = "fst (ResponsesEventToAnthropicEvents c ?s0)" and ?bs = "concat (map blocks_of_output (rresp_Output resp))"
  have created: "\<not> ra_ContentBlockOpen ?s1" "ra_ContentBlockIndex ?s1 = int (length [])"
    "foldl client [] (snd (ResponsesEventToAnthropicEvents c ?s0)) = []"
    using es(2) by (auto simp: ra_dispatch resToAnthHandleCreated_def NewResponsesEventToAnthropicState_def client_def split: option.splits)
  obtain gs where gs: "\<not> ra_ContentBlockOpen (fst (ra_run body ?s1))" "foldl client [] (snd (ra_run body ?s1)) = gs" "map got_block gs = ?bs"
    using items_run [OF es(3)] created(1,2) unfolding adds_blocks_def by fastforce
  have over: "foldl client hs (snd (ResponsesEventToAnthropicEvents d s)) = hs" if "\<not> ra_ContentBlockOpen s" for hs s
    using es(4) that by (auto simp: ra_dispatch resToAnthHandleCompleted_def closeCurrentBlock_def message_end_def client_def)
  have "snd (ra_run es ?s0) = snd (ra_run (c # body @ [d]) ?s0)" using run_handled [of es ?s0] es(1) by simp
  then have "foldl client [] (snd (ra_run es ?s0)) = gs"
    using created(3) gs(1,2) over by (simp add: ra_run_append case_prod_beta)
  then have "put_together (snd (ra_run es ?s0)) = ?bs"
    using gs(3) unfolding put_together_def by (simp add: got_block_def [abs_def])
  then show ?thesis by (simp add: ResponsesToAnthropic_def Let_def)
qed

definition demo_response :: ResponsesResponse where
  "demo_response = zero_ResponsesResponse\<lparr>rresp_Status := ''completed'', rresp_Output :=
     [zero_output\<lparr>ro_Type := ''message'', ro_Content := [\<lparr>rp_Type = ''output_text'', rp_Text = ''hi'', rp_ImageURL = []\<rparr>]\<rparr>,
      zero_output\<lparr>ro_Type := ''function_call'', ro_CallID := ''call_1'', ro_Name := ''Bash'', ro_Arguments := ''{}''\<rparr>]\<rparr>"

text \<open>Its stream: the text in two deltas, the arguments whole at the end, and a progress event between.\<close>

definition demo_stream :: "ResponsesStreamEvent list" where
  "demo_stream =
     (let ev = (\<lambda>t i. zero_rse\<lparr>rse_Type := t, rse_OutputIndex := i\<rparr>);
          message = rresp_Output demo_response ! 0; call = rresp_Output demo_response ! 1 in
      [ev ''response.created'' 0, ev ''response.in_progress'' 0,
       (ev ''response.output_item.added'' 0)\<lparr>rse_Item := Some (message\<lparr>ro_Content := []\<rparr>)\<rparr>,
       (ev ''response.output_text.delta'' 0)\<lparr>rse_Delta := ''h''\<rparr>, (ev ''response.output_text.delta'' 0)\<lparr>rse_Delta := ''i''\<rparr>,
       ev ''response.output_text.done'' 0, (ev ''response.output_item.done'' 0)\<lparr>rse_Item := Some message\<rparr>,
       (ev ''response.output_item.added'' 1)\<lparr>rse_Item := Some (call\<lparr>ro_Arguments := []\<rparr>)\<rparr>,
       (ev ''response.function_call_arguments.done'' 1)\<lparr>rse_Arguments := ''{}''\<rparr>,
       (ev ''response.output_item.done'' 1)\<lparr>rse_Item := Some call\<rparr>, ev ''response.completed'' 0])"

lemma demo_streamed: "response_stream demo_response demo_stream"
proof -
  let ?es = "filter handled_event demo_stream"
  let ?m = "take 5 (drop 1 ?es)" and ?c = "take 3 (drop 6 ?es)"
  note d = demo_stream_def Let_def handled_event_def demo_response_def
  have "?es = hd ?es # (?m @ ?c) @ [last ?es]" "rse_Type (hd ?es) = ''response.created''" "rse_Type (last ?es) = ''response.completed''"
    by (simp_all add: d)
  moreover have "list_all2 (part_stream 0) (ro_Content (rresp_Output demo_response ! 0)) [take 3 (drop 2 ?es)]"
  proof -
    have "take 3 (drop 2 ?es) = take 2 (drop 2 ?es) @ [?es ! 4]" by (simp add: d)
    moreover have "delta_stream ''response.output_text.delta'' 0 (take 2 (drop 2 ?es)) ''hi''" "rse_Type (?es ! 4) = ''response.output_text.done''"
      by (simp_all add: d delta_stream_def)
    ultimately show ?thesis by (auto simp: part_stream_def demo_response_def)
  qed
  then have "body_stream 0 (rresp_Output demo_response ! 0) (take 3 (drop 2 ?es))"
    by (auto simp: body_stream_def demo_response_def intro!: exI [of _ "[take 3 (drop 2 ?es)]"])
  then have "item_stream 0 (rresp_Output demo_response ! 0) ?m"
    unfolding item_stream_def by (intro exI [of _ "?es ! 1"] exI [of _ "take 3 (drop 2 ?es)"] exI [of _ "?es ! 5"]) (simp add: d)
  moreover have "body_stream 1 (rresp_Output demo_response ! 1) [?es ! 7]"
    unfolding body_stream_def by (auto simp: d delta_stream_def)
  then have "item_stream 1 (rresp_Output demo_response ! 1) ?c"
    unfolding item_stream_def by (intro exI [of _ "?es ! 6"] exI [of _ "[?es ! 7]"] exI [of _ "?es ! 8"]) (simp add: d)
  ultimately show ?thesis
    unfolding response_stream_def
    by (intro exI [of _ "hd ?es"] exI [of _ "?m @ ?c"] exI [of _ "last ?es"]) (auto simp: demo_response_def)
qed

theorem stream_agrees_with_whole_witness:
  "aresp_Content (ResponsesToAnthropic demo_response ''m'') =
    (let bs = put_together (snd (ra_run demo_stream (NewResponsesEventToAnthropicState 7)))
     in if bs = [] then [zero_block\<lparr>blk_Type := ''text''\<rparr>] else bs)"
  by (rule stream_agrees_with_whole [OF demo_streamed])

end
