(* ===== verification/AnthToRespResp.thy ===== *)
theory AnthToRespResp
  imports RespToAnth
begin

text \<open>
  \<open>pkg/apicompat/anthropic_to_responses_response.go\<close>: an Anthropic response becomes a Responses
  response, whole or as a stream. \<open>crypto/rand\<close> is the parameter \<open>rand\<close>: \<open>rand n\<close> is the 12 bytes of
  the n-th read, and a definition that makes ids takes and returns the number of reads so far (in the
  stream states the field \<open>Reads\<close>, the only one that is not a field of the source's struct).
\<close>

type_synonym entropy = "nat \<Rightarrow> string"

definition generateResponsesID :: "entropy \<Rightarrow> nat \<Rightarrow> go_string" where
  "generateResponsesID rand n = ''resp_'' @ hex_encode (rand n)"

definition generateItemID :: "entropy \<Rightarrow> nat \<Rightarrow> go_string" where
  "generateItemID rand n = ''item_'' @ hex_encode (rand n)"

lemma generateItemID_nonempty [simp]: "generateItemID rand n \<noteq> []"
  by (simp add: generateItemID_def)

section \<open>Whole responses\<close>

definition anthropicStopReasonToResponsesStatus ::
    "go_string \<Rightarrow> AnthropicContentBlock list \<Rightarrow> go_string" where
  "anthropicStopReasonToResponsesStatus stopReason blocks =
     (if stopReason = ''max_tokens'' then ''incomplete'' else ''completed'')"

text \<open>One iteration of the loop over the content blocks.\<close>

definition response_block :: "entropy \<Rightarrow> ResponsesOutput list \<times> ResponsesContentPart list \<times> nat
    \<Rightarrow> AnthropicContentBlock \<Rightarrow> ResponsesOutput list \<times> ResponsesContentPart list \<times> nat" where
  "response_block rand acc block =
     (case acc of (outputs, msgParts, n) \<Rightarrow>
        if blk_Type block = ''thinking'' then
          (if blk_Thinking block \<noteq> [] then
             (outputs @ [zero_output\<lparr>ro_Type := ''reasoning'', ro_ID := generateItemID rand n,
                ro_Summary := [\<lparr>rs_Type = ''summary_text'', rs_Text = blk_Thinking block\<rparr>]\<rparr>],
              msgParts, n + 1)
           else acc)
        else if blk_Type block = ''text'' then
          (if blk_Text block \<noteq> []
           then (outputs, msgParts @ [text_part ''output_text'' (blk_Text block)], n) else acc)
        else if blk_Type block = ''tool_use'' then
          (outputs @ [zero_output\<lparr>ro_Type := ''function_call'', ro_ID := generateItemID rand n,
             ro_CallID := toResponsesCallID (blk_ID block), ro_Name := blk_Name block,
             ro_Arguments := (if blk_Input block \<noteq> [] then blk_Input block else ''{}''),
             ro_Status := ''completed''\<rparr>],
           msgParts, n + 1)
        else acc)"

definition message_output :: "go_string \<Rightarrow> ResponsesContentPart list \<Rightarrow> ResponsesOutput" where
  "message_output itemID parts =
     zero_output\<lparr>ro_Type := ''message'', ro_ID := itemID, ro_Role := ''assistant'',
       ro_Content := parts, ro_Status := ''completed''\<rparr>"

text \<open>The usage of a response: the total is the 64-bit sum, cached tokens only when positive.\<close>

definition responses_usage :: "int \<Rightarrow> int \<Rightarrow> int \<Rightarrow> ResponsesUsage" where
  "responses_usage inp out cached =
     \<lparr>ru_InputTokens = inp, ru_OutputTokens = out, ru_TotalTokens = wrap64 (inp + out),
      ru_InputTokensDetails = (if cached > 0 then Some \<lparr>ritd_CachedTokens = cached\<rparr> else None),
      ru_OutputTokensDetails = None\<rparr>"

definition AnthropicToResponsesResponse ::
    "entropy \<Rightarrow> nat \<Rightarrow> AnthropicResponse \<Rightarrow> ResponsesResponse \<times> nat" where
  "AnthropicToResponsesResponse rand n resp =
     (let (i, n) = (if aresp_ID resp = [] then (generateResponsesID rand n, n + 1)
                    else (aresp_ID resp, n));
          (outputs, msgParts, n) = foldl (response_block rand) ([], [], n) (aresp_Content resp);
          (outputs, n) = (if msgParts \<noteq> []
                          then (outputs @ [message_output (generateItemID rand n) msgParts], n + 1)
                          else (outputs, n));
          (outputs, n) = (if outputs = []
                          then ([message_output (generateItemID rand n) [text_part ''output_text'' []]],
                                n + 1)
                          else (outputs, n));
          status = anthropicStopReasonToResponsesStatus (aresp_StopReason resp) (aresp_Content resp);
          u = aresp_Usage resp
      in (zero_ResponsesResponse\<lparr>rresp_ID := i, rresp_Object := ''response'',
            rresp_Model := aresp_Model resp, rresp_Status := status, rresp_Output := outputs,
            rresp_IncompleteDetails :=
              (if status = ''incomplete'' then Some \<lparr>rid_Reason = ''max_output_tokens''\<rparr> else None),
            rresp_Usage := Some (responses_usage (au_InputTokens u) (au_OutputTokens u)
              (au_CacheReadInputTokens u))\<rparr>, n))"

section \<open>The stream state\<close>

record AnthropicEventToResponsesState =
  ar_ResponseID :: go_string
  ar_Model :: go_string
  ar_Created :: int
  ar_SequenceNumber :: int
  ar_CreatedSent :: bool
  ar_CompletedSent :: bool
  ar_OutputIndex :: int
  ar_CurrentItemID :: go_string
  ar_CurrentItemType :: go_string
  ar_ContentIndex :: int
  ar_CurrentCallID :: go_string
  ar_CurrentName :: go_string
  ar_InputTokens :: int
  ar_OutputTokens :: int
  ar_CacheReadInputTokens :: int
  ar_Reads :: nat

definition NewAnthropicEventToResponsesState :: "int \<Rightarrow> AnthropicEventToResponsesState" where
  "NewAnthropicEventToResponsesState now =
     \<lparr>ar_ResponseID = [], ar_Model = [], ar_Created = now, ar_SequenceNumber = 0,
      ar_CreatedSent = False, ar_CompletedSent = False, ar_OutputIndex = 0, ar_CurrentItemID = [],
      ar_CurrentItemType = [], ar_ContentIndex = 0, ar_CurrentCallID = [], ar_CurrentName = [],
      ar_InputTokens = 0, ar_OutputTokens = 0, ar_CacheReadInputTokens = 0, ar_Reads = 0\<rparr>"

type_synonym ar_step = "AnthropicEventToResponsesState \<times> ResponsesStreamEvent list"

section \<open>Event constructors\<close>

definition makeResponsesEvent :: "AnthropicEventToResponsesState \<Rightarrow> go_string \<Rightarrow> ResponsesStreamEvent
    \<Rightarrow> AnthropicEventToResponsesState \<times> ResponsesStreamEvent" where
  "makeResponsesEvent state eventType template =
     (state\<lparr>ar_SequenceNumber := ar_SequenceNumber state + 1\<rparr>,
      template\<lparr>rse_Type := eventType, rse_SequenceNumber := ar_SequenceNumber state\<rparr>)"

definition makeResponsesCreatedEvent ::
    "AnthropicEventToResponsesState \<Rightarrow> AnthropicEventToResponsesState \<times> ResponsesStreamEvent" where
  "makeResponsesCreatedEvent state =
     (state\<lparr>ar_SequenceNumber := ar_SequenceNumber state + 1\<rparr>,
      zero_rse\<lparr>rse_Type := ''response.created'', rse_SequenceNumber := ar_SequenceNumber state,
        rse_Response := Some (zero_ResponsesResponse\<lparr>rresp_ID := ar_ResponseID state,
          rresp_Object := ''response'', rresp_Model := ar_Model state,
          rresp_Status := ''in_progress''\<rparr>)\<rparr>)"

definition makeResponsesCompletedEvent ::
    "AnthropicEventToResponsesState \<Rightarrow> go_string \<Rightarrow> ResponsesIncompleteDetails option
     \<Rightarrow> AnthropicEventToResponsesState \<times> ResponsesStreamEvent" where
  "makeResponsesCompletedEvent state status incompleteDetails =
     (state\<lparr>ar_SequenceNumber := ar_SequenceNumber state + 1\<rparr>,
      zero_rse\<lparr>rse_Type := ''response.completed'', rse_SequenceNumber := ar_SequenceNumber state,
        rse_Response := Some (zero_ResponsesResponse\<lparr>rresp_ID := ar_ResponseID state,
          rresp_Object := ''response'', rresp_Model := ar_Model state, rresp_Status := status,
          rresp_Usage := Some (responses_usage (ar_InputTokens state) (ar_OutputTokens state)
            (ar_CacheReadInputTokens state)),
          rresp_IncompleteDetails := incompleteDetails\<rparr>)\<rparr>)"

abbreviation one_event :: "'s \<times> 'e \<Rightarrow> 's \<times> 'e list" where
  "one_event r \<equiv> (fst r, [snd r])"

definition closeCurrentResponsesItem :: "AnthropicEventToResponsesState \<Rightarrow> ar_step" where
  "closeCurrentResponsesItem state =
     (if ar_CurrentItemType state = [] then (state, [])
      else (let itemType = ar_CurrentItemType state;
                itemID = ar_CurrentItemID state;
                state = state\<lparr>ar_CurrentItemType := [], ar_CurrentItemID := [], ar_CurrentCallID := [],
                          ar_CurrentName := [], ar_OutputIndex := ar_OutputIndex state + 1,
                          ar_ContentIndex := 0\<rparr>
            in one_event (makeResponsesEvent state ''response.output_item.done''
                 (zero_rse\<lparr>rse_OutputIndex := ar_OutputIndex state - 1,
                    rse_Item := Some (zero_output\<lparr>ro_Type := itemType, ro_ID := itemID,
                      ro_Status := ''completed''\<rparr>)\<rparr>))))"

section \<open>Handlers\<close>

definition anthToResHandleMessageStart ::
    "AnthropicStreamEvent \<Rightarrow> AnthropicEventToResponsesState \<Rightarrow> ar_step" where
  "anthToResHandleMessageStart evt state =
     (let state = (case ase_Message evt of
                     None \<Rightarrow> state
                   | Some m \<Rightarrow>
                       (let s = state\<lparr>ar_ResponseID := aresp_ID m\<rparr>;
                            s = (if ar_Model s = [] then s\<lparr>ar_Model := aresp_Model m\<rparr> else s)
                        in if au_InputTokens (aresp_Usage m) > 0
                           then s\<lparr>ar_InputTokens := au_InputTokens (aresp_Usage m)\<rparr> else s))
      in if ar_CreatedSent state then (state, [])
         else one_event (makeResponsesCreatedEvent (state\<lparr>ar_CreatedSent := True\<rparr>)))"

definition anthToResHandleContentBlockStart ::
    "entropy \<Rightarrow> AnthropicStreamEvent \<Rightarrow> AnthropicEventToResponsesState \<Rightarrow> ar_step" where
  "anthToResHandleContentBlockStart rand evt state =
     (case ase_ContentBlock evt of
        None \<Rightarrow> (state, [])
      | Some block \<Rightarrow>
          if blk_Type block = ''thinking'' then
            (let state = state\<lparr>ar_CurrentItemID := generateItemID rand (ar_Reads state),
                           ar_Reads := ar_Reads state + 1,
                           ar_CurrentItemType := ''reasoning'', ar_ContentIndex := 0\<rparr>
             in one_event (makeResponsesEvent state ''response.output_item.added''
                  (zero_rse\<lparr>rse_OutputIndex := ar_OutputIndex state,
                     rse_Item := Some (zero_output\<lparr>ro_Type := ''reasoning'',
                       ro_ID := ar_CurrentItemID state\<rparr>)\<rparr>)))
          else if blk_Type block = ''text'' then
            (if ar_CurrentItemType state \<noteq> ''message'' then
               (let state = state\<lparr>ar_CurrentItemID := generateItemID rand (ar_Reads state),
                              ar_Reads := ar_Reads state + 1,
                              ar_CurrentItemType := ''message'', ar_ContentIndex := 0\<rparr>
                in one_event (makeResponsesEvent state ''response.output_item.added''
                     (zero_rse\<lparr>rse_OutputIndex := ar_OutputIndex state,
                        rse_Item := Some (zero_output\<lparr>ro_Type := ''message'',
                          ro_ID := ar_CurrentItemID state, ro_Role := ''assistant'',
                          ro_Status := ''in_progress''\<rparr>)\<rparr>)))
             else (state, []))
          else if blk_Type block = ''tool_use'' then
            (case closeCurrentResponsesItem state of (state, events) \<Rightarrow>
              let state = state\<lparr>ar_CurrentItemID := generateItemID rand (ar_Reads state),
                            ar_Reads := ar_Reads state + 1,
                            ar_CurrentItemType := ''function_call'',
                            ar_CurrentCallID := toResponsesCallID (blk_ID block),
                            ar_CurrentName := blk_Name block\<rparr>;
                  (state, evt) = makeResponsesEvent state ''response.output_item.added''
                     (zero_rse\<lparr>rse_OutputIndex := ar_OutputIndex state,
                        rse_Item := Some (zero_output\<lparr>ro_Type := ''function_call'',
                          ro_ID := ar_CurrentItemID state, ro_CallID := ar_CurrentCallID state,
                          ro_Name := ar_CurrentName state, ro_Status := ''in_progress''\<rparr>)\<rparr>)
              in (state, events @ [evt]))
          else (state, []))"

definition anthToResHandleContentBlockDelta ::
    "AnthropicStreamEvent \<Rightarrow> AnthropicEventToResponsesState \<Rightarrow> ar_step" where
  "anthToResHandleContentBlockDelta evt state =
     (case ase_Delta evt of
        None \<Rightarrow> (state, [])
      | Some d \<Rightarrow>
          if ad_Type d = ''text_delta'' then
            (if ad_Text d = [] then (state, [])
             else one_event (makeResponsesEvent state ''response.output_text.delta''
                    (zero_rse\<lparr>rse_OutputIndex := ar_OutputIndex state,
                       rse_ContentIndex := ar_ContentIndex state, rse_Delta := ad_Text d,
                       rse_ItemID := ar_CurrentItemID state\<rparr>)))
          else if ad_Type d = ''thinking_delta'' then
            (if ad_Thinking d = [] then (state, [])
             else one_event (makeResponsesEvent state ''response.reasoning_summary_text.delta''
                    (zero_rse\<lparr>rse_OutputIndex := ar_OutputIndex state, rse_SummaryIndex := 0,
                       rse_Delta := ad_Thinking d, rse_ItemID := ar_CurrentItemID state\<rparr>)))
          else if ad_Type d = ''input_json_delta'' then
            (if ad_PartialJSON d = [] then (state, [])
             else one_event (makeResponsesEvent state ''response.function_call_arguments.delta''
                    (zero_rse\<lparr>rse_OutputIndex := ar_OutputIndex state, rse_Delta := ad_PartialJSON d,
                       rse_ItemID := ar_CurrentItemID state, rse_CallID := ar_CurrentCallID state,
                       rse_Name := ar_CurrentName state\<rparr>)))
          else (state, []))"

definition anthToResHandleContentBlockStop ::
    "AnthropicStreamEvent \<Rightarrow> AnthropicEventToResponsesState \<Rightarrow> ar_step" where
  "anthToResHandleContentBlockStop evt state =
     (if ar_CurrentItemType state = ''reasoning'' then
        (case makeResponsesEvent state ''response.reasoning_summary_text.done''
                (zero_rse\<lparr>rse_OutputIndex := ar_OutputIndex state, rse_SummaryIndex := 0,
                   rse_ItemID := ar_CurrentItemID state\<rparr>)
         of (state, e) \<Rightarrow>
           case closeCurrentResponsesItem state of (state, events) \<Rightarrow> (state, e # events))
      else if ar_CurrentItemType state = ''function_call'' then
        (case makeResponsesEvent state ''response.function_call_arguments.done''
                (zero_rse\<lparr>rse_OutputIndex := ar_OutputIndex state,
                   rse_ItemID := ar_CurrentItemID state, rse_CallID := ar_CurrentCallID state,
                   rse_Name := ar_CurrentName state\<rparr>)
         of (state, e) \<Rightarrow>
           case closeCurrentResponsesItem state of (state, events) \<Rightarrow> (state, e # events))
      else if ar_CurrentItemType state = ''message'' then
        one_event (makeResponsesEvent state ''response.output_text.done''
          (zero_rse\<lparr>rse_OutputIndex := ar_OutputIndex state, rse_ContentIndex := ar_ContentIndex state,
             rse_ItemID := ar_CurrentItemID state\<rparr>))
      else (state, []))"

definition anthToResHandleMessageDelta ::
    "AnthropicStreamEvent \<Rightarrow> AnthropicEventToResponsesState \<Rightarrow> ar_step" where
  "anthToResHandleMessageDelta evt state =
     (case ase_Usage evt of
        None \<Rightarrow> (state, [])
      | Some u \<Rightarrow>
          (let state = state\<lparr>ar_OutputTokens := au_OutputTokens u\<rparr>
           in (if au_CacheReadInputTokens u > 0
               then state\<lparr>ar_CacheReadInputTokens := au_CacheReadInputTokens u\<rparr> else state, [])))"

definition anthToResHandleMessageStop :: "AnthropicEventToResponsesState \<Rightarrow> ar_step" where
  "anthToResHandleMessageStop state =
     (if ar_CompletedSent state then (state, [])
      else (case closeCurrentResponsesItem state of (state, events) \<Rightarrow>
            case makeResponsesCompletedEvent state ''completed'' None of (state, e) \<Rightarrow>
              (state\<lparr>ar_CompletedSent := True\<rparr>, events @ [e])))"

definition AnthropicEventToResponsesEvents ::
    "entropy \<Rightarrow> AnthropicStreamEvent \<Rightarrow> AnthropicEventToResponsesState \<Rightarrow> ar_step" where
  "AnthropicEventToResponsesEvents rand evt state =
     (let t = ase_Type evt in
      if t = ''message_start'' then anthToResHandleMessageStart evt state
      else if t = ''content_block_start'' then anthToResHandleContentBlockStart rand evt state
      else if t = ''content_block_delta'' then anthToResHandleContentBlockDelta evt state
      else if t = ''content_block_stop'' then anthToResHandleContentBlockStop evt state
      else if t = ''message_delta'' then anthToResHandleMessageDelta evt state
      else if t = ''message_stop'' then anthToResHandleMessageStop state
      else (state, []))"

definition FinalizeAnthropicResponsesStream :: "AnthropicEventToResponsesState \<Rightarrow> ar_step" where
  "FinalizeAnthropicResponsesStream state =
     (if \<not> ar_CreatedSent state \<or> ar_CompletedSent state then (state, [])
      else (case closeCurrentResponsesItem state of (state, events) \<Rightarrow>
            case makeResponsesCompletedEvent state ''completed'' None of (state, e) \<Rightarrow>
              (state\<lparr>ar_CompletedSent := True\<rparr>, events @ [e])))"

definition ResponsesEventToSSE :: "ResponsesStreamEvent \<Rightarrow> go_string result" where
  "ResponsesEventToSSE evt =
     bind_res (of_json (enc_ResponsesStreamEvent evt)) (\<lambda>data'. Inr (sse_block (rse_Type evt) data'))"

text \<open>A caller feeds the events of the upstream one after the other and sends what comes back.\<close>

fun ar_run :: "entropy \<Rightarrow> AnthropicStreamEvent list \<Rightarrow> AnthropicEventToResponsesState \<Rightarrow> ar_step" where
  "ar_run rand [] state = (state, [])"
| "ar_run rand (e # es) state =
     (case AnthropicEventToResponsesEvents rand e state of (state', out) \<Rightarrow>
        case ar_run rand es state' of (state'', out') \<Rightarrow> (state'', out @ out'))"

end
