(* ===== verification/AnthToRespRespFacts.thy ===== *)
theory AnthToRespRespFacts
  imports AnthToRespResp RespToAnthFacts
begin

text \<open>
  Properties of \<open>anthropic_to_responses_response.go\<close>: the numbering and shape of the Responses event
  stream, what of the upstream reaches it, and the way back from a whole response.
\<close>

section \<open>Sequence numbers\<close>

text \<open>Events numbered one after the other from n.\<close>

definition numbered :: "int \<Rightarrow> ResponsesStreamEvent list \<Rightarrow> bool" where
  "numbered n es \<longleftrightarrow> map rse_SequenceNumber es = map (\<lambda>k. n + int k) [0..<length es]"

lemma numbered_Nil [simp]: "numbered n []"
  by (simp add: numbered_def)

lemma numbered_append:
  "numbered n (xs @ ys) \<longleftrightarrow> numbered n xs \<and> numbered (n + int (length xs)) ys"
proof -
  have "map (\<lambda>k. n + int k) [0..<length xs + length ys]
      = map (\<lambda>k. n + int k) [0..<length xs] @ map (\<lambda>k. n + int (length xs) + int k) [0..<length ys]"
    by (rule nth_equalityI) (auto simp: nth_append)
  then show ?thesis
    by (auto simp: numbered_def)
qed

lemma numbered_Cons [simp]:
  "numbered n (e # es) \<longleftrightarrow> rse_SequenceNumber e = n \<and> numbered (n + 1) es"
  using numbered_append [of n "[e]" es] by (simp add: numbered_def)

definition rse_count :: "go_string \<Rightarrow> ResponsesStreamEvent list \<Rightarrow> nat" where
  "rse_count t es = length (filter (\<lambda>e. rse_Type e = t) es)"

lemma rse_count_simps [simp]:
  "rse_count t [] = 0"
  "rse_count t (e # es) = (if rse_Type e = t then 1 else 0) + rse_count t es"
  "rse_count t (xs @ ys) = rse_count t xs + rse_count t ys"
  by (simp_all add: rse_count_def)

text \<open>
  What every handler keeps: its events carry the next numbers, and the two flags count the created and
  completed events.
\<close>

definition ar_counts :: "AnthropicEventToResponsesState \<Rightarrow> ar_step \<Rightarrow> bool" where
  "ar_counts s r \<longleftrightarrow>
     numbered (ar_SequenceNumber s) (snd r)
     \<and> ar_SequenceNumber (fst r) = ar_SequenceNumber s + int (length (snd r))
     \<and> of_bool (ar_CreatedSent (fst r)) = of_bool (ar_CreatedSent s) + rse_count ''response.created'' (snd r)
     \<and> of_bool (ar_CompletedSent (fst r)) = of_bool (ar_CompletedSent s) + rse_count ''response.completed'' (snd r)"

lemma ar_counts_stay [simp]: "ar_counts s (s, [])"
  by (simp add: ar_counts_def)

lemma ar_counts_seq:
  "ar_counts s r \<Longrightarrow> ar_counts (fst r) q \<Longrightarrow> ar_counts s (fst q, snd r @ snd q)"
  by (auto simp: ar_counts_def numbered_append)

lemma ar_counts_make:
  assumes "ar_SequenceNumber s' = ar_SequenceNumber s" "ar_CreatedSent s' = ar_CreatedSent s"
    "ar_CompletedSent s' = ar_CompletedSent s" "t \<noteq> ''response.created''" "t \<noteq> ''response.completed''"
  shows "ar_counts s (one_event (makeResponsesEvent s' t tmpl))"
  using assms by (simp add: ar_counts_def makeResponsesEvent_def)

lemma ar_counts_close: "ar_counts s (closeCurrentResponsesItem s)"
  by (simp add: ar_counts_def closeCurrentResponsesItem_def makeResponsesEvent_def Let_def)

lemma ar_counts_message_start: "ar_counts s (anthToResHandleMessageStart e s)"
  by (simp add: ar_counts_def anthToResHandleMessageStart_def makeResponsesCreatedEvent_def Let_def
      split: option.split)

lemma close_ar_sel [simp]:
  "ar_CreatedSent (fst (closeCurrentResponsesItem s)) = ar_CreatedSent s"
  "ar_CompletedSent (fst (closeCurrentResponsesItem s)) = ar_CompletedSent s"
  "ar_InputTokens (fst (closeCurrentResponsesItem s)) = ar_InputTokens s"
  "ar_CurrentItemType (fst (closeCurrentResponsesItem s)) = []"
  by (simp_all add: closeCurrentResponsesItem_def makeResponsesEvent_def Let_def)

lemma ar_counts_block_start: "ar_counts s (anthToResHandleContentBlockStart rand e s)"
proof (cases "ase_ContentBlock e")
  case None
  then show ?thesis by (simp add: anthToResHandleContentBlockStart_def)
next
  case (Some block)
  show ?thesis
  proof (cases "blk_Type block = ''tool_use''")
    case True
    then show ?thesis
      using Some ar_counts_seq [OF ar_counts_close [of s] ar_counts_make]
      by (simp add: anthToResHandleContentBlockStart_def Let_def case_prod_beta)
  next
    case False
    then show ?thesis
      using Some by (simp add: anthToResHandleContentBlockStart_def Let_def ar_counts_make)
  qed
qed

lemma ar_counts_block_delta: "ar_counts s (anthToResHandleContentBlockDelta e s)"
  by (simp add: ar_counts_def anthToResHandleContentBlockDelta_def makeResponsesEvent_def Let_def
      split: option.split)

lemma ar_counts_block_stop: "ar_counts s (anthToResHandleContentBlockStop e s)"
proof -
  let ?s = "s\<lparr>ar_SequenceNumber := ar_SequenceNumber s + 1\<rparr>"
  from ar_counts_close [of ?s] show ?thesis
    by (auto simp: ar_counts_def anthToResHandleContentBlockStop_def makeResponsesEvent_def Let_def
        case_prod_beta)
qed

lemma ar_counts_message_delta: "ar_counts s (anthToResHandleMessageDelta e s)"
  by (simp add: ar_counts_def anthToResHandleMessageDelta_def Let_def split: option.split)

lemma ar_counts_message_stop: "ar_counts s (anthToResHandleMessageStop s)"
  using ar_counts_close [of s]
  by (auto simp: ar_counts_def anthToResHandleMessageStop_def makeResponsesCompletedEvent_def Let_def
      case_prod_beta numbered_append)

lemma ar_counts_finalize: "ar_counts s (FinalizeAnthropicResponsesStream s)"
  using ar_counts_close [of s]
  by (auto simp: ar_counts_def FinalizeAnthropicResponsesStream_def makeResponsesCompletedEvent_def
      Let_def case_prod_beta numbered_append)

lemma ar_counts_step: "ar_counts s (AnthropicEventToResponsesEvents rand e s)"
  unfolding AnthropicEventToResponsesEvents_def Let_def
  by (simp add: ar_counts_message_start ar_counts_block_start ar_counts_block_delta
      ar_counts_block_stop ar_counts_message_delta ar_counts_message_stop)

lemma ar_counts_run: "ar_counts s (ar_run rand es s)"
proof (induction es arbitrary: s)
  case Nil
  show ?case by simp
next
  case (Cons e es)
  show ?case
    using ar_counts_seq [OF ar_counts_step Cons.IH] by (simp add: case_prod_beta)
qed

text \<open>The converter followed by the finaliser.\<close>

definition ar_stream :: "entropy \<Rightarrow> AnthropicStreamEvent list \<Rightarrow> AnthropicEventToResponsesState \<Rightarrow> ar_step"
where
  "ar_stream rand es s =
     (case ar_run rand es s of (s', out) \<Rightarrow>
        case FinalizeAnthropicResponsesStream s' of (s'', out') \<Rightarrow> (s'', out @ out'))"

lemma ar_counts_stream: "ar_counts s (ar_stream rand es s)"
  using ar_counts_seq [OF ar_counts_run ar_counts_finalize] by (simp add: ar_stream_def case_prod_beta)

text \<open>
C21. Sequence numbers: whatever the upstream sends, the events of the Responses stream are numbered
0, 1, 2, ... without a gap or a repetition, the finaliser's events included.
\<close>
theorem sequence_numbers_consecutive:
  "map rse_SequenceNumber (snd (ar_stream rand es (NewAnthropicEventToResponsesState now)))
     = map int [0..<length (snd (ar_stream rand es (NewAnthropicEventToResponsesState now)))]"
  using ar_counts_stream [of "NewAnthropicEventToResponsesState now" rand es]
  by (simp add: ar_counts_def numbered_def NewAnthropicEventToResponsesState_def)

lemma created_mono: "ar_CreatedSent s \<Longrightarrow> ar_CreatedSent (fst (ar_run rand es s))"
  using ar_counts_run [of s rand es] by (auto simp: ar_counts_def of_bool_def split: if_splits)

lemma finalize_completes:
  "ar_CreatedSent s \<Longrightarrow> ar_CompletedSent (fst (FinalizeAnthropicResponsesStream s))"
  by (simp add: FinalizeAnthropicResponsesStream_def makeResponsesCompletedEvent_def Let_def case_prod_beta)

text \<open>
A stream that begins with \<open>message_start\<close> yields exactly one \<open>response.created\<close> and exactly one
\<open>response.completed\<close>, whether or not \<open>message_stop\<close> ever arrives.
\<close>
theorem one_created_one_completed:
  assumes "ase_Type e = ''message_start''"
  shows "rse_count ''response.created'' (snd (ar_stream rand (e # es) (NewAnthropicEventToResponsesState now))) = 1
       \<and> rse_count ''response.completed'' (snd (ar_stream rand (e # es) (NewAnthropicEventToResponsesState now))) = 1"
proof -
  let ?init = "NewAnthropicEventToResponsesState now"
  let ?last = "fst (ar_run rand (e # es) ?init)"
  have "ar_CreatedSent (fst (AnthropicEventToResponsesEvents rand e ?init))"
    by (simp add: AnthropicEventToResponsesEvents_def assms anthToResHandleMessageStart_def
        makeResponsesCreatedEvent_def Let_def)
  then have created: "ar_CreatedSent ?last"
    by (simp add: case_prod_beta created_mono)
  have "ar_CompletedSent (fst (ar_stream rand (e # es) ?init))"
    using finalize_completes [OF created] by (simp add: ar_stream_def case_prod_beta del: ar_run.simps)
  moreover have "ar_CreatedSent (fst (ar_stream rand (e # es) ?init))"
    using ar_counts_finalize [of ?last] created
    by (auto simp: ar_stream_def case_prod_beta ar_counts_def of_bool_def simp del: ar_run.simps
        split: if_splits)
  ultimately show ?thesis
    using ar_counts_stream [of ?init rand "e # es"]
    by (simp add: ar_counts_def NewAnthropicEventToResponsesState_def del: ar_run.simps)
qed

theorem one_created_one_completed_witness:
  "rse_count ''response.created'' (snd (ar_stream (\<lambda>n. ''r'') [zero_ase\<lparr>ase_Type := ''message_start''\<rparr>]
       (NewAnthropicEventToResponsesState 7))) = 1
   \<and> rse_count ''response.completed'' (snd (ar_stream (\<lambda>n. ''r'') [zero_ase\<lparr>ase_Type := ''message_start''\<rparr>]
       (NewAnthropicEventToResponsesState 7))) = 1"
  by (rule one_created_one_completed) simp

section \<open>Deltas\<close>

definition rs_deltas :: "go_string \<Rightarrow> ResponsesStreamEvent list \<Rightarrow> go_string" where
  "rs_deltas t es = concat (map (\<lambda>e. if rse_Type e = t then rse_Delta e else []) es)"

lemma rs_deltas_simps [simp]:
  "rs_deltas t [] = []"
  "rs_deltas t (e # es) = (if rse_Type e = t then rse_Delta e else []) @ rs_deltas t es"
  "rs_deltas t (xs @ ys) = rs_deltas t xs @ rs_deltas t ys"
  by (simp_all add: rs_deltas_def)

text \<open>What the delta events of one kind carry, read off the upstream.\<close>

definition anth_deltas :: "go_string \<Rightarrow> (AnthropicDelta \<Rightarrow> go_string) \<Rightarrow> AnthropicStreamEvent list \<Rightarrow> go_string"
where
  "anth_deltas kind field es = concat (map (\<lambda>e.
     if ase_Type e = ''content_block_delta'' then
       (case ase_Delta e of None \<Rightarrow> [] | Some d \<Rightarrow> (if ad_Type d = kind then field d else []))
     else []) es)"

lemma anth_deltas_simps [simp]:
  "anth_deltas kind field [] = []"
  "anth_deltas kind field (e # es) =
     (if ase_Type e = ''content_block_delta'' then
        (case ase_Delta e of None \<Rightarrow> [] | Some d \<Rightarrow> (if ad_Type d = kind then field d else []))
      else []) @ anth_deltas kind field es"
  by (simp_all add: anth_deltas_def)

definition no_deltas :: "ResponsesStreamEvent list \<Rightarrow> bool" where
  "no_deltas es \<longleftrightarrow> list_all (\<lambda>e. rse_Delta e = []) es"

lemma no_deltas_rs [simp]: "no_deltas es \<Longrightarrow> rs_deltas t es = []"
  by (induction es) (auto simp: no_deltas_def)

lemma no_deltas_close: "no_deltas (snd (closeCurrentResponsesItem s))"
  by (simp add: no_deltas_def closeCurrentResponsesItem_def makeResponsesEvent_def Let_def)

lemma no_deltas_message_start: "no_deltas (snd (anthToResHandleMessageStart e s))"
  by (simp add: no_deltas_def anthToResHandleMessageStart_def makeResponsesCreatedEvent_def Let_def)

lemma no_deltas_block_start: "no_deltas (snd (anthToResHandleContentBlockStart rand e s))"
  using no_deltas_close [of s]
  by (auto simp: no_deltas_def anthToResHandleContentBlockStart_def makeResponsesEvent_def Let_def
      case_prod_beta split: option.split)

lemma no_deltas_block_stop: "no_deltas (snd (anthToResHandleContentBlockStop e s))"
  using no_deltas_close [of "s\<lparr>ar_SequenceNumber := ar_SequenceNumber s + 1\<rparr>"]
  by (simp add: no_deltas_def anthToResHandleContentBlockStop_def makeResponsesEvent_def Let_def
      case_prod_beta)

lemma no_deltas_message_delta: "no_deltas (snd (anthToResHandleMessageDelta e s))"
  by (simp add: no_deltas_def anthToResHandleMessageDelta_def Let_def split: option.split)

lemma no_deltas_message_stop: "no_deltas (snd (anthToResHandleMessageStop s))"
  using no_deltas_close [of s]
  by (simp add: no_deltas_def anthToResHandleMessageStop_def makeResponsesCompletedEvent_def Let_def
      case_prod_beta)

lemma no_deltas_finalize: "no_deltas (snd (FinalizeAnthropicResponsesStream s))"
  using no_deltas_close [of s]
  by (simp add: no_deltas_def FinalizeAnthropicResponsesStream_def makeResponsesCompletedEvent_def
      Let_def case_prod_beta)

lemmas no_deltas_handlers = no_deltas_message_start no_deltas_block_start no_deltas_block_stop
  no_deltas_message_delta no_deltas_message_stop

lemma deltas_block_delta:
  assumes "ase_Type e = ''content_block_delta''"
  shows "rs_deltas ''response.output_text.delta'' (snd (anthToResHandleContentBlockDelta e s))
      = anth_deltas ''text_delta'' ad_Text [e]"
    "rs_deltas ''response.reasoning_summary_text.delta'' (snd (anthToResHandleContentBlockDelta e s))
      = anth_deltas ''thinking_delta'' ad_Thinking [e]"
    "rs_deltas ''response.function_call_arguments.delta'' (snd (anthToResHandleContentBlockDelta e s))
      = anth_deltas ''input_json_delta'' ad_PartialJSON [e]"
  using assms
  by (simp_all add: anthToResHandleContentBlockDelta_def makeResponsesEvent_def split: option.split)

lemma deltas_step:
  "rs_deltas ''response.output_text.delta'' (snd (AnthropicEventToResponsesEvents rand e s))
     = anth_deltas ''text_delta'' ad_Text [e]"
  "rs_deltas ''response.reasoning_summary_text.delta'' (snd (AnthropicEventToResponsesEvents rand e s))
     = anth_deltas ''thinking_delta'' ad_Thinking [e]"
  "rs_deltas ''response.function_call_arguments.delta'' (snd (AnthropicEventToResponsesEvents rand e s))
     = anth_deltas ''input_json_delta'' ad_PartialJSON [e]"
  unfolding AnthropicEventToResponsesEvents_def Let_def
  by (simp_all add: no_deltas_handlers deltas_block_delta del: anth_deltas_simps(2))
    (simp_all add: anth_deltas_def)

lemma deltas_run:
  "rs_deltas ''response.output_text.delta'' (snd (ar_run rand es s)) = anth_deltas ''text_delta'' ad_Text es"
  "rs_deltas ''response.reasoning_summary_text.delta'' (snd (ar_run rand es s))
     = anth_deltas ''thinking_delta'' ad_Thinking es"
  "rs_deltas ''response.function_call_arguments.delta'' (snd (ar_run rand es s))
     = anth_deltas ''input_json_delta'' ad_PartialJSON es"
  by (induction es arbitrary: s) (simp_all add: case_prod_beta deltas_step)

text \<open>
Nothing the model says is lost, repeated or reordered: text, thinking and tool argument deltas
reach the Responses client as text, summary and argument deltas with the same concatenation.
\<close>
theorem deltas_preserved:
  "rs_deltas ''response.output_text.delta'' (snd (ar_stream rand es s)) = anth_deltas ''text_delta'' ad_Text es
   \<and> rs_deltas ''response.reasoning_summary_text.delta'' (snd (ar_stream rand es s))
       = anth_deltas ''thinking_delta'' ad_Thinking es
   \<and> rs_deltas ''response.function_call_arguments.delta'' (snd (ar_stream rand es s))
       = anth_deltas ''input_json_delta'' ad_PartialJSON es"
  by (simp add: ar_stream_def case_prod_beta deltas_run no_deltas_finalize)

section \<open>Output items\<close>

text \<open>
  A reader of the Responses stream: the output index the next item must have and whether an item is
  open. Items open and close one after the other and deltas name the open item.
\<close>

fun resp_check :: "int \<times> bool \<Rightarrow> ResponsesStreamEvent list \<Rightarrow> (int \<times> bool) option" where
  "resp_check st [] = Some st"
| "resp_check (n, op) (e # es) =
     (if rse_Type e = ''response.output_item.added'' then
        (if \<not> op \<and> rse_OutputIndex e = n then resp_check (n, True) es else None)
      else if rse_Type e = ''response.output_item.done'' then
        (if op \<and> rse_OutputIndex e = n then resp_check (n + 1, False) es else None)
      else if rse_Type e = ''response.created'' \<or> rse_Type e = ''response.completed'' then
        resp_check (n, op) es
      else if op \<and> rse_OutputIndex e = n then resp_check (n, op) es else None)"

lemma resp_check_append:
  "resp_check st (xs @ ys) = Option.bind (resp_check st xs) (\<lambda>st'. resp_check st' ys)"
  by (induction st xs rule: resp_check.induct) auto

text \<open>
  The order of an Anthropic stream: blocks start and stop one after the other and deltas fit the open
  block; a thinking block does not follow a text block directly.
\<close>

datatype anthropic = Before | InBlock go_string | AfterText | Stopped

definition anthropic_next :: "anthropic \<Rightarrow> AnthropicStreamEvent \<Rightarrow> anthropic option" where
  "anthropic_next st e =
     (let t = ase_Type e in
      if st = Stopped then None
      else if t = ''content_block_start'' then
        (case ase_ContentBlock e of
           None \<Rightarrow> Some st
         | Some b \<Rightarrow>
             if blk_Type b = ''thinking'' then (if st = Before then Some (InBlock ''thinking'') else None)
             else if blk_Type b = ''text'' \<or> blk_Type b = ''tool_use'' then
               (if st = Before \<or> st = AfterText then Some (InBlock (blk_Type b)) else None)
             else None)
      else if t = ''content_block_delta'' then
        (case ase_Delta e of
           None \<Rightarrow> Some st
         | Some d \<Rightarrow>
             if (ad_Type d = ''text_delta'' \<and> st = InBlock ''text'')
                \<or> (ad_Type d = ''thinking_delta'' \<and> st = InBlock ''thinking'')
                \<or> (ad_Type d = ''input_json_delta'' \<and> st = InBlock ''tool_use'')
                \<or> ad_Type d = ''signature_delta'' then Some st else None)
      else if t = ''content_block_stop'' then
        (if st = InBlock ''text'' then Some AfterText
         else if st = InBlock ''thinking'' \<or> st = InBlock ''tool_use'' then Some Before
         else None)
      else if t = ''message_stop'' then Some Stopped
      else Some st)"

fun anthropic_ok :: "anthropic \<Rightarrow> AnthropicStreamEvent list \<Rightarrow> bool" where
  "anthropic_ok st [] = True"
| "anthropic_ok st (e # es) =
     (case anthropic_next st e of None \<Rightarrow> False | Some st' \<Rightarrow> anthropic_ok st' es)"

text \<open>The item type the converter's state has in each of these situations.\<close>

fun open_item :: "anthropic \<Rightarrow> go_string" where
  "open_item Before = []"
| "open_item (InBlock k) =
     (if k = ''text'' then ''message'' else if k = ''thinking'' then ''reasoning'' else ''function_call'')"
| "open_item AfterText = ''message''"
| "open_item Stopped = []"

abbreviation ar_pos :: "AnthropicEventToResponsesState \<Rightarrow> int \<times> bool" where
  "ar_pos s \<equiv> (ar_OutputIndex s, ar_CurrentItemType s \<noteq> [])"

definition item_step :: "anthropic \<Rightarrow> AnthropicEventToResponsesState \<Rightarrow> ar_step \<Rightarrow> bool" where
  "item_step st s r \<longleftrightarrow> resp_check (ar_pos s) (snd r) = Some (ar_pos (fst r))
     \<and> ar_CurrentItemType (fst r) = open_item st \<and> (ar_CompletedSent (fst r) \<longleftrightarrow> st = Stopped)"

lemma zero_rse_index [simp]: "rse_ContentIndex zero_rse = 0"
  by (simp add: zero_rse_def)

lemma item_step_next:
  assumes "ar_CurrentItemType s = open_item st" "anthropic_next st e = Some st'"
    "ar_CompletedSent s \<longleftrightarrow> st = Stopped"
  shows "item_step st' s (AnthropicEventToResponsesEvents rand e s)"
proof -
  consider "ase_Type e = ''content_block_start''" | "ase_Type e = ''content_block_delta''"
    | "ase_Type e = ''content_block_stop''" | "ase_Type e = ''message_stop''"
    | "ase_Type e = ''message_start''" | "ase_Type e = ''message_delta''"
    | "ase_Type e \<notin> set [''content_block_start'', ''content_block_delta'', ''content_block_stop'',
          ''message_stop'', ''message_start'', ''message_delta'']"
    by auto
  then show ?thesis
  proof cases
    case 1
    then show ?thesis
      using assms
      by (auto simp: item_step_def anthropic_next_def AnthropicEventToResponsesEvents_def
          anthToResHandleContentBlockStart_def closeCurrentResponsesItem_def makeResponsesEvent_def Let_def
          split: option.splits if_splits)
  next
    case 2
    show ?thesis
    proof (cases "ase_Delta e")
      case None
      then have "st' = st"
        using 2 assms(2) by (simp add: anthropic_next_def Let_def split: if_splits)
      then show ?thesis
        using 2 None assms
        by (simp add: item_step_def AnthropicEventToResponsesEvents_def anthToResHandleContentBlockDelta_def Let_def)
    next
      case (Some d)
      then have "st' = st" and "ad_Type d = ''signature_delta'' \<or> open_item st \<noteq> []" and "st \<noteq> Stopped"
        using 2 assms(2) by (auto simp: anthropic_next_def Let_def split: if_splits)
      then show ?thesis
        using 2 Some assms(1,3)
        by (simp add: item_step_def AnthropicEventToResponsesEvents_def
            anthToResHandleContentBlockDelta_def makeResponsesEvent_def Let_def) auto
    qed
  next
    case 3
    then show ?thesis
      using assms
      by (auto simp: item_step_def anthropic_next_def AnthropicEventToResponsesEvents_def
          anthToResHandleContentBlockStop_def closeCurrentResponsesItem_def makeResponsesEvent_def Let_def
          split: if_splits)
  next
    case 4
    then show ?thesis
      using assms
      by (auto simp: item_step_def anthropic_next_def AnthropicEventToResponsesEvents_def
          anthToResHandleMessageStop_def closeCurrentResponsesItem_def makeResponsesEvent_def
          makeResponsesCompletedEvent_def Let_def split: if_splits)
  next
    case 5
    then show ?thesis
      using assms
      by (auto simp: item_step_def anthropic_next_def AnthropicEventToResponsesEvents_def
          anthToResHandleMessageStart_def makeResponsesCreatedEvent_def Let_def split: if_splits option.splits)
  next
    case 6
    then show ?thesis
      using assms
      by (auto simp: item_step_def anthropic_next_def AnthropicEventToResponsesEvents_def
          anthToResHandleMessageDelta_def Let_def split: if_splits option.splits)
  next
    case 7
    then show ?thesis
      using assms
      by (auto simp: item_step_def anthropic_next_def AnthropicEventToResponsesEvents_def Let_def
          split: if_splits)
  qed
qed

lemma item_run:
  assumes "ar_CurrentItemType s = open_item st" "anthropic_ok st es" "ar_CompletedSent s \<longleftrightarrow> st = Stopped"
  shows "resp_check (ar_pos s) (snd (ar_run rand es s)) = Some (ar_pos (fst (ar_run rand es s)))"
  using assms
proof (induction es arbitrary: s st)
  case Nil
  show ?case by simp
next
  case (Cons e es)
  obtain st' where st': "anthropic_next st e = Some st'" "anthropic_ok st' es"
    using Cons.prems(2) by (auto split: option.splits)
  from item_step_next [OF Cons.prems(1) st'(1) Cons.prems(3), of rand] Cons.IH [OF _ st'(2)]
  show ?case
    by (simp add: item_step_def resp_check_append case_prod_beta)
qed

lemma item_finalize:
  "resp_check (ar_pos s) (snd (FinalizeAnthropicResponsesStream s))
     = Some (ar_pos (fst (FinalizeAnthropicResponsesStream s)))"
  by (simp add: FinalizeAnthropicResponsesStream_def closeCurrentResponsesItem_def makeResponsesEvent_def
      makeResponsesCompletedEvent_def Let_def)

text \<open>
For an Anthropic stream in order, in which no thinking block follows a text block directly, the
output items of the Responses stream open and close one after the other, numbered from 0, and every
delta names the open item.
\<close>
theorem output_items_nest:
  assumes "anthropic_ok Before es"
  shows "resp_check (0, False) (snd (ar_stream rand es (NewAnthropicEventToResponsesState now))) \<noteq> None"
proof -
  let ?init = "NewAnthropicEventToResponsesState now"
  have "ar_CurrentItemType ?init = open_item Before" "ar_CompletedSent ?init \<longleftrightarrow> Before = Stopped"
    and "ar_pos ?init = (0, False)"
    by (simp_all add: NewAnthropicEventToResponsesState_def)
  from item_run [OF this(1) assms this(2), of rand] this(3) item_finalize
  show ?thesis
    by (simp add: ar_stream_def case_prod_beta resp_check_append)
qed

abbreviation block_start_ev :: "go_string \<Rightarrow> AnthropicStreamEvent" where
  "block_start_ev t \<equiv> zero_ase\<lparr>ase_Type := ''content_block_start'',
     ase_ContentBlock := Some (zero_block\<lparr>blk_Type := t\<rparr>)\<rparr>"

abbreviation block_stop_ev :: AnthropicStreamEvent where
  "block_stop_ev \<equiv> zero_ase\<lparr>ase_Type := ''content_block_stop''\<rparr>"

theorem output_items_nest_witness:
  "resp_check (0, False) (snd (ar_stream (\<lambda>n. ''r'')
     [zero_ase\<lparr>ase_Type := ''message_start''\<rparr>, block_start_ev ''thinking'', block_stop_ev,
      block_start_ev ''text'', block_stop_ev, block_start_ev ''tool_use'', block_stop_ev,
      zero_ase\<lparr>ase_Type := ''message_stop''\<rparr>]
     (NewAnthropicEventToResponsesState 7))) \<noteq> None"
  by (rule output_items_nest) (simp add: anthropic_next_def)

text \<open>
A thinking block after a text block breaks this: the open message item is neither closed nor
finished, and the summary item is added under the same output index.
\<close>
theorem thinking_after_text_reuses_index:
  "resp_check (0, False) (snd (ar_run rand
     [block_start_ev ''text'', block_stop_ev, block_start_ev ''thinking'']
     (NewAnthropicEventToResponsesState now))) = None"
  by (simp add: NewAnthropicEventToResponsesState_def AnthropicEventToResponsesEvents_def
      anthToResHandleContentBlockStart_def anthToResHandleContentBlockStop_def makeResponsesEvent_def Let_def)

end
