(* ===== verification/AnthToRespRespTrip.thy ===== *)
theory AnthToRespRespTrip
  imports AnthToRespRespFacts
begin

text \<open>
  Whole responses from Anthropic to Responses and back, and where the stream disagrees with them.
\<close>

section \<open>The terminal status\<close>

definition completed_statuses :: "ResponsesStreamEvent list \<Rightarrow> go_string list" where
  "completed_statuses es = map (\<lambda>e. case rse_Response e of None \<Rightarrow> [] | Some r \<Rightarrow> rresp_Status r)
     (filter (\<lambda>e. rse_Type e = ''response.completed'') es)"

lemma completed_statuses_simps [simp]:
  "completed_statuses [] = []"
  "completed_statuses (e # es) = (if rse_Type e = ''response.completed''
     then [case rse_Response e of None \<Rightarrow> [] | Some r \<Rightarrow> rresp_Status r] else []) @ completed_statuses es"
  "completed_statuses (xs @ ys) = completed_statuses xs @ completed_statuses ys"
  by (simp_all add: completed_statuses_def)

definition max_tokens_stream :: "AnthropicStreamEvent list" where
  "max_tokens_stream =
     [zero_ase\<lparr>ase_Type := ''message_start''\<rparr>,
      zero_ase\<lparr>ase_Type := ''message_delta'',
        ase_Delta := Some (zero_AnthropicDelta\<lparr>ad_StopReason := ''max_tokens''\<rparr>)\<rparr>,
      zero_ase\<lparr>ase_Type := ''message_stop''\<rparr>]"

lemma whole_status:
  "rresp_Status (fst (AnthropicToResponsesResponse rand n r))
     = (if aresp_StopReason r = ''max_tokens'' then ''incomplete'' else ''completed'')"
  by (simp add: AnthropicToResponsesResponse_def Let_def case_prod_beta
      anthropicStopReasonToResponsesStatus_def)

text \<open>
An answer cut off at the token limit is reported as incomplete when it is converted whole, but as
completed when it is streamed: the stream converter never looks at the stop reason.
\<close>
theorem truncated_stream_reported_completed:
  "completed_statuses (snd (ar_stream rand max_tokens_stream (NewAnthropicEventToResponsesState now)))
     = [''completed'']
   \<and> rresp_Status (fst (AnthropicToResponsesResponse rand n
        (zero_AnthropicResponse\<lparr>aresp_StopReason := ''max_tokens''\<rparr>))) = ''incomplete''"
  by (simp add: whole_status zero_AnthropicResponse_def ar_stream_def max_tokens_stream_def zero_ase_def
      NewAnthropicEventToResponsesState_def AnthropicEventToResponsesEvents_def
      anthToResHandleMessageStart_def anthToResHandleMessageDelta_def anthToResHandleMessageStop_def
      closeCurrentResponsesItem_def FinalizeAnthropicResponsesStream_def
      makeResponsesCreatedEvent_def makeResponsesCompletedEvent_def Let_def)

section \<open>Round trip\<close>

text \<open>
  What is left of a content block: thinking and text unless they are empty, without a signature, and tool calls, with an
  identifier that is unwrapped when it looks wrapped, and \<open>{}\<close> for an input that is missing; from the input
  of the tool \<open>Read\<close> an empty \<open>pages\<close> is removed. Blocks of other types are lost.
\<close>

definition unwrapped :: "go_string \<Rightarrow> go_string" where
  "unwrapped i = (if HasPrefix i ''fc_toolu_'' \<or> HasPrefix i ''fc_call_'' then drop 3 i else i)"

definition carried :: "AnthropicContentBlock \<Rightarrow> AnthropicContentBlock list" where
  "carried b =
     (if blk_Type b = ''thinking'' \<and> blk_Thinking b \<noteq> [] then [zero_block\<lparr>blk_Type := ''thinking'', blk_Thinking := blk_Thinking b\<rparr>]
      else if blk_Type b = ''text'' \<and> blk_Text b \<noteq> [] then [zero_block\<lparr>blk_Type := ''text'', blk_Text := blk_Text b\<rparr>]
      else if blk_Type b = ''tool_use'' then
        (let inp = (if blk_Input b = [] then ''{}'' else blk_Input b) in
         [zero_block\<lparr>blk_Type := ''tool_use'', blk_ID := unwrapped (blk_ID b), blk_Name := blk_Name b,
            blk_Input := (if blk_Name b = ''Read'' then sanitizeAnthropicToolUseInput ''Read'' inp else inp)\<rparr>])
      else [])"

lemma fc_prefixes:
  "HasPrefix i ''fc_toolu_'' \<longleftrightarrow> HasPrefix i ''fc_'' \<and> HasPrefix (drop 3 i) ''toolu_''"
  "HasPrefix i ''fc_call_'' \<longleftrightarrow> HasPrefix i ''fc_'' \<and> HasPrefix (drop 3 i) ''call_''"
  by (auto simp: HasPrefix_iff)

lemma from_unwrapped: "fromResponsesCallID i = unwrapped i"
  using fc_prefixes [of i] by (simp add: fromResponsesCallID_def unwrapped_def CutPrefix_def numeral_3_eq_3)

text \<open>A block that consists of one of these alone comes back as it is.\<close>

definition plain_block :: "AnthropicContentBlock \<Rightarrow> bool" where
  "plain_block b \<longleftrightarrow>
     (\<exists>t. t \<noteq> [] \<and> b = zero_block\<lparr>blk_Type := ''thinking'', blk_Thinking := t\<rparr>)
     \<or> (\<exists>t. t \<noteq> [] \<and> b = zero_block\<lparr>blk_Type := ''text'', blk_Text := t\<rparr>)
     \<or> (\<exists>i nm inp. inp \<noteq> [] \<and> nm \<noteq> ''Read'' \<and> \<not> HasPrefix i ''fc_''
         \<and> b = zero_block\<lparr>blk_Type := ''tool_use'', blk_ID := i, blk_Name := nm, blk_Input := inp\<rparr>)"

lemma plain_carried: "plain_block b \<Longrightarrow> carried b = [b]"
  unfolding plain_block_def by (elim disjE exE conjE) (simp_all add: carried_def unwrapped_def fc_prefixes)

definition is_text :: "AnthropicContentBlock \<Rightarrow> bool" where
  "is_text b \<longleftrightarrow> blk_Type b = ''text''"

definition part_blocks :: "ResponsesContentPart list \<Rightarrow> AnthropicContentBlock list" where
  "part_blocks ps = map (\<lambda>p. zero_block\<lparr>blk_Type := ''text'', blk_Text := rp_Text p\<rparr>)
     (filter (\<lambda>p. rp_Type p = ''output_text'' \<and> rp_Text p \<noteq> []) ps)"

lemma response_block_step:
  assumes "response_block rand (outs, parts, n) b = (outs', parts', n')"
  shows "concat (map blocks_of_output outs') = concat (map blocks_of_output outs) @ (if is_text b then [] else carried b)
    \<and> part_blocks parts' = part_blocks parts @ (if is_text b then carried b else [])"
  using assms
  by (auto simp: response_block_def blocks_of_output_def part_blocks_def is_text_def toResponsesCallID_def carried_def
      from_unwrapped Let_def split: if_splits)

lemma response_blocks_fold:
  assumes "foldl (response_block rand) (outs, parts, n) bs = (outs', parts', n')"
  shows "concat (map blocks_of_output outs') = concat (map blocks_of_output outs) @ concat (map carried (filter (\<lambda>b. \<not> is_text b) bs))
    \<and> part_blocks parts' = part_blocks parts @ concat (map carried (filter is_text bs))"
  using assms
proof (induction bs arbitrary: outs parts n)
  case Nil
  then show ?case by simp
next
  case (Cons b bs)
  obtain o1 p1 n1 where step: "response_block rand (outs, parts, n) b = (o1, p1, n1)"
    by (cases "response_block rand (outs, parts, n) b") auto
  from response_block_step [OF this] Cons.IH [of o1 p1 n1] Cons.prems step
  show ?case by auto
qed

lemma message_blocks [simp]: "blocks_of_output (message_output i ps) = part_blocks ps"
  by (simp add: message_output_def blocks_of_output_def part_blocks_def)

lemma zero_ResponsesResponse_output [simp]: "rresp_Output zero_ResponsesResponse = []"
  by (simp add: zero_ResponsesResponse_def)

lemma part_blocks_none [simp]: "part_blocks [] = []" "part_blocks [text_part t []] = []"
  by (simp_all add: part_blocks_def)

text \<open>
C22. Round trip of a whole answer: any Anthropic answer, converted to Responses and back, has what can be carried of its
content blocks, thinking and tool calls first and in their order, then the texts in their order, or an empty text
block when nothing is left. What can be carried: the text of thinking and text blocks that are not empty (a signature is
lost), and every tool call with its name, its input (\<open>{}\<close> when there is none; for the tool \<open>Read\<close> as the converter
sanitizes it), and its identifier, less the prefix \<open>fc_\<close> when what follows it begins with \<open>toolu_\<close> or \<open>call_\<close>.
Empty blocks and blocks of other types are lost.
\<close>
theorem response_roundtrip:
  "aresp_Content (ResponsesToAnthropic (fst (AnthropicToResponsesResponse rand n r)) model) =
    (let bs = concat (map carried (filter (\<lambda>b. \<not> is_text b) (aresp_Content r))) @ concat (map carried (filter is_text (aresp_Content r)))
     in if bs = [] then [zero_block\<lparr>blk_Type := ''text''\<rparr>] else bs)"
proof -
  let ?m = "snd (if aresp_ID r = [] then (generateResponsesID rand n, n + 1) else (aresp_ID r, n))"
  obtain outs parts k where fold: "foldl (response_block rand) ([], [], ?m) (aresp_Content r) = (outs, parts, k)"
    by (cases "foldl (response_block rand) ([], [], ?m) (aresp_Content r)") auto
  have res: "concat (map blocks_of_output outs) = concat (map carried (filter (\<lambda>b. \<not> is_text b) (aresp_Content r)))"
      "part_blocks parts = concat (map carried (filter is_text (aresp_Content r)))"
    using response_blocks_fold [OF fold] by simp_all
  have outs: "concat (map blocks_of_output (rresp_Output (fst (AnthropicToResponsesResponse rand n r))))
      = concat (map blocks_of_output outs) @ part_blocks parts"
    using fold by (auto simp: AnthropicToResponsesResponse_def Let_def case_prod_beta)
  then show ?thesis
    unfolding res by (simp add: ResponsesToAnthropic_def Let_def del: concat_eq_Nil_conv append_is_Nil_conv)
qed

end
