(* ===== verification/GoJsonFacts.thy ===== *)
theory GoJsonFacts
  imports GoJson
begin

text \<open>
  What the writer writes, the scanner gives back. The scanner is a push-down automaton, so a value
  read with an empty stack is read the same way inside any container (\<open>jrun_frame\<close>): every composite
  fact below follows from this one. \<open>jtext\<close> collects what is true of every text the writer writes.
\<close>

named_theorems jtext_intros \<open>texts that \<open>json.Marshal\<close> writes\<close>

lemmas jstep_defs = start_value_def end_value_def exp_or_end_def dot_or_exp_def

section \<open>Runs of the automaton\<close>

lemma jstep_frame: "jstep q s c = Some (q', s') \<Longrightarrow> jstep q (s @ t) c = Some (q', s' @ t)"
  by (cases q) (auto simp: jstep_defs split: if_splits list.splits jctx.splits)

lemma jrun_frame: "jrun q s v = Some (q', s') \<Longrightarrow> jrun q (s @ t) v = Some (q', s' @ t)"
proof (induction v arbitrary: q s)
  case (Cons c v)
  then obtain q1 s1 where "jstep q s c = Some (q1, s1)" and "jrun q1 s1 v = Some (q', s')"
    by (auto split: option.splits)
  with Cons.IH show ?case
    by (simp add: jstep_frame)
qed simp

lemma jrun_append:
  "jrun q s (u @ v) = (case jrun q s u of None \<Rightarrow> None | Some (q', s') \<Rightarrow> jrun q' s' v)"
  by (induction u arbitrary: q s) (auto split: option.splits)

lemma no_separator_outside:
  "\<not> in_string q \<Longrightarrow> c = CHR '','' \<or> c = CHR '':'' \<Longrightarrow> jstep q [] c = None"
  by (elim disjE; hypsubst; cases q)
    (simp_all add: jstep_defs in_string_def is_ws_def is_digit_def is_hex_def split: list.splits)

lemma jsegs_value:
  "jrun q s v = Some (q', s') \<Longrightarrow>
     jsegs q (s @ [x]) cur (v @ rest) = jsegs q' (s' @ [x]) (rev v @ cur) rest"
proof (induction v arbitrary: q s cur)
  case (Cons c v)
  then obtain q1 s1 where st: "jstep q s c = Some (q1, s1)" and run: "jrun q1 s1 v = Some (q', s')"
    by (auto split: option.splits)
  have "\<not> is_sep q (s @ [x]) c"
    using st no_separator_outside [of q c] by (cases s) (auto simp: is_sep_def split: list.splits)
  with st Cons.IH [OF run] jstep_frame [OF st, of "[x]"] show ?case
    by simp
qed simp

lemma jstep_ended:
  "jended q \<Longrightarrow> c = CHR '','' \<or> c = CHR '']'' \<or> c = CHR ''}'' \<Longrightarrow> jstep q stk c = end_value c stk"
  by (auto simp: jended_def jstep_defs is_digit_def)

section \<open>Valid, tight and compact texts\<close>

definition tight :: "string \<Rightarrow> bool" where
  "tight p \<longleftrightarrow> p \<noteq> [] \<and> \<not> is_ws (hd p) \<and> \<not> is_ws (last p)"

definition compacted :: "string \<Rightarrow> bool" where
  "compacted p \<longleftrightarrow> (\<forall>r. compact_go False False (p @ r) = p @ compact_go False False r)"

definition jtext :: "string \<Rightarrow> bool" where
  "jtext p \<longleftrightarrow> json_valid p \<and> tight p \<and> compacted p"

lemma jtextD:
  "jtext p \<Longrightarrow> json_valid p" "jtext p \<Longrightarrow> tight p" "jtext p \<Longrightarrow> compacted p" "jtext p \<Longrightarrow> p \<noteq> []"
  by (auto simp: jtext_def tight_def)

lemma trim_ws_tight [simp]: "tight p \<Longrightarrow> trim_ws p = p"
proof -
  assume t: "tight p"
  then have "dropWhile is_ws p = p"
    by (cases p) (auto simp: tight_def)
  moreover have "dropWhile is_ws (rev p) = rev p"
    using t by (cases p rule: rev_cases) (auto simp: tight_def)
  ultimately show ?thesis
    by (simp add: trim_ws_def)
qed

lemma json_validE:
  assumes "json_valid v"
  obtains q where "jrun JBegin [] v = Some (q, [])" and "jended q"
  using assms by (auto simp: json_valid_def split: option.splits prod.splits list.splits)

lemma json_valid_run:
  assumes "json_valid v"
  obtains q where "jended q" and "\<And>stk. jrun JBegin stk v = Some (q, stk)"
    and "\<And>x cur rest. jsegs JBegin [x] cur (v @ rest) = jsegs q [x] (rev v @ cur) rest"
proof -
  obtain q where q: "jrun JBegin [] v = Some (q, [])" "jended q"
    using assms by (rule json_validE)
  show thesis
    using that [OF q(2)] jrun_frame [OF q(1)] jsegs_value [OF q(1)] by simp
qed

lemma compacted_append: "compacted p \<Longrightarrow> compacted q \<Longrightarrow> compacted (p @ q)"
  by (simp add: compacted_def)

lemma compacted_Join: "\<forall>v \<in> set vs. compacted v \<Longrightarrow> compacted sep \<Longrightarrow> compacted (Join vs sep)"
proof (induction vs)
  case (Cons v vs)
  then show ?case
    by (cases "vs = []") (auto simp: Join_Cons intro!: compacted_append)
qed (simp add: compacted_def)

lemma compacted_plain:
  "list_all (\<lambda>c. \<not> html_char c \<and> \<not> is_ws c \<and> c \<noteq> quote_char \<and> byte c < 128) p \<Longrightarrow> compacted p"
  unfolding compacted_def
  by (induction p) (auto simp: compact_go.simps(2) is_line_sep_def split: list.splits)

lemma compacted_delim:
  "compacted '',''" "compacted '':''" "compacted ''[''" "compacted '']''" "compacted ''{''" "compacted ''}''"
  by (rule compacted_plain; simp add: html_char_def is_ws_def)+

lemma json_compact_jtext: "jtext p \<Longrightarrow> json_compact p = Some p"
proof -
  assume p: "jtext p"
  then have "compact_go False False (p @ []) = p @ compact_go False False []"
    unfolding jtext_def compacted_def by blast
  with p show ?thesis
    by (simp add: json_compact_def jtext_def)
qed

lemma marshal_raw_jtext [simp]: "jtext p \<Longrightarrow> marshal_raw p = Some p"
  by (auto simp: marshal_raw_def json_compact_jtext jtext_def tight_def)

section \<open>Strings\<close>

lemma hex_digit_plain:
  assumes "n < 16"
  shows "is_hex (hex_digit n)" and "\<not> html_char (hex_digit n)" and "hex_digit n \<noteq> quote_char"
    and "hex_digit n \<noteq> backslash" and "byte (hex_digit n) < 128" and "hex_val (hex_digit n) = n"
proof -
  have b: "byte (hex_digit n) = (if n < 10 then 48 + n else 87 + n)"
    using assms by (auto simp: hex_digit_def of_char_of)
  show "is_hex (hex_digit n)"
    using assms b by (auto simp: is_hex_def is_digit_def)
  show "byte (hex_digit n) < 128"
    using assms b by simp
  have ne: "hex_digit n \<noteq> d" if "byte d < 48 \<or> 57 < byte d \<and> byte d < 97" for d
    using that assms b by (auto split: if_splits)
  show "\<not> html_char (hex_digit n)"
    using ne [of "CHR ''<''"] ne [of "CHR ''>''"] ne [of "CHR ''&''"] by (simp add: html_char_def)
  show "hex_digit n \<noteq> quote_char" "hex_digit n \<noteq> backslash"
    using ne [of quote_char] ne [of backslash] by simp_all
  show "hex_val (hex_digit n) = n"
    using assms b by (auto simp: hex_val_def)
qed

lemma byte_less_256: "byte c < 256"
  by (metis of_char_mod_256 mod_less_divisor zero_less_numeral)

lemma byte_eq_iff: "byte c = byte d \<longleftrightarrow> c = d"
  by simp

lemma byte_ge_128_plain:
  assumes "\<not> byte c < 128"
  shows "\<not> html_char c" "c \<noteq> quote_char" "c \<noteq> backslash" "\<not> is_ws c"
  using assms by (auto simp: html_char_def is_ws_def)

lemma jrun_str_plain:
  "c \<noteq> quote_char \<Longrightarrow> c \<noteq> backslash \<Longrightarrow> \<not> byte c < 32 \<Longrightarrow>
     jrun (JStr b) stk (c # r) = jrun (JStr b) stk r"
  by simp

lemma jrun_str_high:
  "list_all (\<lambda>c. \<not> byte c < 128) p \<Longrightarrow> jrun (JStr b) stk (p @ r) = jrun (JStr b) stk r"
  by (induction p) (auto dest: byte_ge_128_plain)

text \<open>The three ways an ASCII byte is written: a two-byte escape, a \<open>u00\<close> escape, or itself.\<close>

lemma control_chars:
  "char_of (8 :: nat) = CHR 0x08" "char_of (12 :: nat) = CHR 0x0C" "char_of (10 :: nat) = CHR 0x0A"
  "char_of (13 :: nat) = CHR 0x0D" "char_of (9 :: nat) = CHR 0x09"
  by code_simp+

lemma quote_ascii_cases:
  obtains (escape) e where "quote_ascii c = [backslash, e]" "e \<noteq> CHR ''u''" "\<not> html_char e"
      "byte e < 128" "unescape e = c" "e \<in> set ''bfnrt/'' \<or> e = backslash \<or> e = quote_char"
  | (unicode) "quote_ascii c = u00 c"
  | (plain) "quote_ascii c = [c]" "c \<noteq> quote_char" "c \<noteq> backslash" "\<not> byte c < 32" "\<not> html_char c"
proof -
  have esc: thesis
    if "byte c = n" "quote_ascii (char_of n) = [backslash, e]" "unescape e = char_of n"
      "e \<in> set ''bfnrt''" for n :: nat and e
  proof -
    from that(1) have "c = char_of n"
      by (metis char_of_char)
    with that show thesis
      by (intro escape [of e]) (auto simp: html_char_def)
  qed
  consider "c = quote_char \<or> c = backslash" | "byte c = 8" | "byte c = 12" | "byte c = 10"
    | "byte c = 13" | "byte c = 9"
    | "c \<noteq> quote_char" "c \<noteq> backslash" "byte c \<notin> {8, 12, 10, 13, 9}"
    by auto
  then show thesis
  proof cases
    case 1
    then show thesis
      by (intro escape [of c]) (auto simp: quote_ascii_def html_char_def unescape_def)
  next
    case 2 then show thesis by (rule esc [where e = "CHR ''b''"]) (simp_all add: quote_ascii_def unescape_def control_chars)
  next
    case 3 then show thesis by (rule esc [where e = "CHR ''f''"]) (simp_all add: quote_ascii_def unescape_def control_chars)
  next
    case 4 then show thesis by (rule esc [where e = "CHR ''n''"]) (simp_all add: quote_ascii_def unescape_def control_chars)
  next
    case 5 then show thesis by (rule esc [where e = "CHR ''r''"]) (simp_all add: quote_ascii_def unescape_def control_chars)
  next
    case 6 then show thesis by (rule esc [where e = "CHR ''t''"]) (simp_all add: quote_ascii_def unescape_def control_chars)
  next
    case 7
    then show thesis
      using unicode plain by (cases "byte c < 32 \<or> html_char c") (auto simp: quote_ascii_def)
  qed
qed

lemma byte_div_16: "byte c div 16 < 16"
  by (rule less_mult_imp_div_less) (simp add: byte_less_256)

lemma byte_mod_16: "byte c mod 16 < 16"
  by simp

lemmas hex_digit_hi = hex_digit_plain [OF byte_div_16]
lemmas hex_digit_lo = hex_digit_plain [OF byte_mod_16]

lemma jrun_hex: "is_hex c \<Longrightarrow> jrun (JHex b n) stk (c # r) = jrun (if n \<le> 1 then JStr b else JHex b (n - 1)) stk r"
  by simp

lemma html_lits:
  "\<not> html_char CHR ''0''" "\<not> html_char CHR ''u''" "\<not> html_char CHR ''2''" "\<not> html_char CHR ''f''"
  "\<not> html_char CHR ''d''" "\<not> html_char quote_char" "\<not> html_char backslash"
  by (simp_all add: html_char_def)

lemma hex_lits:
  "is_hex CHR ''0''" "is_hex CHR ''2''" "is_hex CHR ''f''" "is_hex CHR ''d''"
  by (simp_all add: is_hex_def is_digit_def)

lemma jrun_quote_ascii: "jrun (JStr b) stk (quote_ascii c @ r) = jrun (JStr b) stk r"
proof (cases c rule: quote_ascii_cases)
  case (escape e)
  then show ?thesis by auto
next
  case unicode
  then show ?thesis
    by (simp add: u00_def hex_digit_hi hex_digit_lo hex_lits)
next
  case plain
  then show ?thesis by simp
qed

text \<open>The bytes of a valid UTF-8 sequence after its lead byte, by cases on its length.\<close>

lemma utf8_len_cases:
  assumes "utf8_len (c # cs) \<noteq> 0" and "\<not> byte c < 128"
  obtains d ds where "cs = d # ds" "utf8_len (c # cs) = 2" "second_ok (byte c) d" "byte c < 0xE0"
    | d e ds where "cs = d # e # ds" "utf8_len (c # cs) = 3" "second_ok (byte c) d" "cont_byte e"
    | d e f ds where "cs = d # e # f # ds" "utf8_len (c # cs) = 4" "second_ok (byte c) d" "cont_byte e"
        "cont_byte f" "0xF0 \<le> byte c"
proof -
  note l = utf8_len_def [of "c # cs", simplified, unfolded Let_def]
  consider "0xC2 \<le> byte c" "byte c < 0xE0" | "0xE0 \<le> byte c" "byte c < 0xF0" | "0xF0 \<le> byte c" "byte c < 0xF5"
    using assms(1) by (simp add: l split: if_splits)
  then show thesis
  proof cases
    case 1
    with assms(1) obtain d ds where "cs = d # ds"
      by (auto simp: l split: list.splits)
    with 1 assms(1) show thesis
      by (intro that(1) [of d ds]) (auto simp: utf8_len_def Let_def split: if_splits)
  next
    case 2
    with assms(1) obtain d e ds where "cs = d # e # ds"
      by (auto simp: l split: list.splits)
    with 2 assms(1) show thesis
      by (intro that(2) [of d e ds]) (auto simp: utf8_len_def Let_def split: if_splits)
  next
    case 3
    with assms(1) obtain d e f ds where "cs = d # e # f # ds"
      by (auto simp: l split: list.splits)
    with 3 assms(1) show thesis
      by (intro that(3) [of d e f ds]) (auto simp: utf8_len_def Let_def split: if_splits)
  qed
qed

lemma utf8_len_append:
  assumes "utf8_len (c # cs) = n" and "n \<noteq> 0"
  shows "utf8_len (c # take (n - 1) cs @ r) = n" and "length (take (n - 1) cs) = n - 1"
  using assms by (auto simp: utf8_len_def Let_def split: list.splits if_splits)

lemma utf8_bytes_high:
  assumes "utf8_len (c # cs) = n" and "n \<noteq> 0"
  shows "list_all (\<lambda>c. \<not> byte c < 128) (c # take (n - 1) cs)"
  using assms
  by (auto simp: utf8_len_def Let_def second_ok_def cont_byte_def split: list.splits if_splits)

lemma jrun_quote_body: "jrun (JStr b) stk (quote_body s @ r) = jrun (JStr b) stk r"
proof (induction s rule: quote_body.induct)
  case (2 c cs)
  show ?case
  proof (cases "byte c < 128")
    case True
    with 2 show ?thesis
      by (simp add: jrun_quote_ascii)
  next
    case high: False
    consider "utf8_len (c # cs) = 0" | "utf8_len (c # cs) \<noteq> 0" "is_line_sep (c # cs)"
      | "utf8_len (c # cs) \<noteq> 0" "\<not> is_line_sep (c # cs)"
      by blast
    then show ?thesis
    proof cases
      case 1
      with high "2.IH"(2) [OF high refl] show ?thesis
        by (simp add: hex_lits)
    next
      case 2
      with high "2.IH"(3) [OF high refl] show ?thesis
        by (simp add: line_sep_escape_def hex_digit_lo hex_lits)
    next
      case 3
      then show ?thesis
        using high "2.IH"(4) [OF high refl] utf8_bytes_high [OF refl, of c cs]
          jrun_str_high [of "c # take (utf8_len (c # cs) - 1) cs" b stk]
        by (simp add: Let_def)
    qed
  qed
qed simp

lemma jrun_jstr_key: "jrun JKey stk (jstr s @ r) = jrun JColon stk r"
  by (simp add: jstr_def is_ws_def jrun_quote_body)

lemma jrun_jstr_value: "jrun JBegin stk (jstr s @ r) = jrun JEnd stk r"
  by (simp add: jstr_def is_ws_def start_value_def jrun_quote_body)

lemma json_valid_jstr: "json_valid (jstr s)"
  using jrun_jstr_value [of "[]" s "[]"] by (simp add: json_valid_def jended_def)

lemma tight_jstr [simp]: "tight (jstr s)"
  by (simp add: tight_def jstr_def is_ws_def)

declare compact_go.simps(2) [simp del]

lemma not_line_sep: "byte c \<noteq> 0xE2 \<Longrightarrow> \<not> is_line_sep (c # cs)"
  by (simp add: is_line_sep_def split: list.split)

lemma compact_in:
  "\<not> html_char c \<Longrightarrow> \<not> is_line_sep (c # cs) \<Longrightarrow> compact_go True esc (c # cs)
     = c # compact_go (esc \<or> c \<noteq> quote_char) (\<not> esc \<and> c = backslash) cs"
  by (simp add: compact_go.simps(2))

lemma compact_out:
  "\<not> html_char c \<Longrightarrow> \<not> is_ws c \<Longrightarrow> byte c \<noteq> 0xE2 \<Longrightarrow>
     compact_go False esc (c # cs) = c # compact_go (c = quote_char) False cs"
  by (simp add: compact_go.simps(2) not_line_sep)

lemma compact_high:
  "list_all (\<lambda>c. \<not> byte c < 128 \<and> byte c \<noteq> 0xE2) p \<Longrightarrow>
     compact_go True False (p @ r) = p @ compact_go True False r"
  by (induction p) (simp_all add: compact_in not_line_sep byte_ge_128_plain)

lemma compact_plain_in:
  "\<not> html_char c \<Longrightarrow> c \<noteq> quote_char \<Longrightarrow> c \<noteq> backslash \<Longrightarrow> byte c < 128 \<Longrightarrow>
     compact_go True False (c # r) = c # compact_go True False r"
  by (simp add: compact_in not_line_sep)

lemma compact_escape_in:
  "\<not> html_char e \<Longrightarrow> byte e < 128 \<Longrightarrow>
     compact_go True False (backslash # e # r) = backslash # e # compact_go True False r"
  by (simp add: compact_in not_line_sep html_char_def)

lemma compact_quote_ascii:
  assumes "byte c < 128"
  shows "compact_go True False (quote_ascii c @ r) = quote_ascii c @ compact_go True False r"
proof (cases c rule: quote_ascii_cases)
  case (escape e)
  then show ?thesis by (simp add: compact_escape_in)
next
  case unicode
  then show ?thesis
    by (simp add: u00_def hex_digit_hi hex_digit_lo compact_escape_in compact_plain_in html_lits)
next
  case plain
  with assms show ?thesis by (simp add: compact_plain_in)
qed

lemma compact_utf8:
  assumes n: "utf8_len (c # cs) = n" "n \<noteq> 0" and high: "\<not> byte c < 128"
    and nls: "\<not> is_line_sep (c # cs)"
  shows "compact_go True False ((c # take (n - 1) cs) @ r)
    = (c # take (n - 1) cs) @ compact_go True False r"
proof -
  have n0: "utf8_len (c # cs) \<noteq> 0"
    using n by simp
  have nls': "\<not> is_line_sep (c # take (n - 1) cs @ r)"
  proof (cases rule: utf8_len_cases [OF n0 high])
    case (1 d ds)
    then show ?thesis by (simp add: not_line_sep)
  next
    case (2 d e ds)
    with n nls show ?thesis by (simp add: is_line_sep_def)
  next
    case (3 d e f ds)
    then show ?thesis by (simp add: not_line_sep)
  qed
  have "list_all (\<lambda>d. \<not> byte d < 128 \<and> byte d \<noteq> 0xE2) (take (n - 1) cs)"
    by (cases rule: utf8_len_cases [OF n0 high]) (use n in \<open>auto simp: second_ok_def cont_byte_def\<close>)
  then have "compact_go True False (take (n - 1) cs @ r) = take (n - 1) cs @ compact_go True False r"
    by (rule compact_high)
  with nls' byte_ge_128_plain [OF high] show ?thesis
    by (simp add: compact_in)
qed

lemma compact_quote_body:
  "compact_go True False (quote_body s @ r) = quote_body s @ compact_go True False r"
proof (induction s rule: quote_body.induct)
  case (2 c cs)
  show ?case
  proof (cases "byte c < 128")
    case True
    with 2 show ?thesis
      by (simp add: compact_quote_ascii)
  next
    case high: False
    consider "utf8_len (c # cs) = 0" | "utf8_len (c # cs) \<noteq> 0" "is_line_sep (c # cs)"
      | "utf8_len (c # cs) \<noteq> 0" "\<not> is_line_sep (c # cs)"
      by blast
    then show ?thesis
    proof cases
      case 1
      with high "2.IH"(2) [OF high refl] show ?thesis
        by (simp add: compact_escape_in compact_plain_in html_lits)
    next
      case 2
      with high "2.IH"(3) [OF high refl] show ?thesis
        by (simp add: line_sep_escape_def compact_escape_in compact_plain_in html_lits
            hex_digit_lo)
    next
      case 3
      with high "2.IH"(4) [OF high refl] compact_utf8 [OF refl _ high, of cs] show ?thesis
        by (simp add: Let_def)
    qed
  qed
qed simp

lemma compacted_jstr: "compacted (jstr s)"
  by (simp add: compacted_def jstr_def compact_out compact_in not_line_sep compact_quote_body
      html_char_def is_ws_def)

lemma jtext_jstr [jtext_intros, simp]: "jtext (jstr s)"
  by (simp add: jtext_def json_valid_jstr compacted_jstr)

end
