(* ===== verification/GoJsonTrip.thy ===== *)
theory GoJsonTrip
  imports GoJsonFacts
begin

text \<open>
  Round trips through \<open>json.Marshal\<close> and \<open>json.Unmarshal\<close>: strings, integers, arrays and objects
  written by the writer are read back unchanged, and every written text is a \<open>jtext\<close>, so that it
  survives being embedded as a RawMessage. The locale \<open>json_codec\<close> is the interface between a struct's
  encoder and its decoder.
\<close>

section \<open>Strings\<close>

lemma byte_enc_rune_low: "n < 128 \<Longrightarrow> enc_rune n = [char_of n]"
  by (simp add: enc_rune_def bytes_def)

lemma hex4_u00: "hex4 (CHR ''0'' # CHR ''0'' # hex_digit (byte c div 16) # hex_digit (byte c mod 16) # r) = byte c"
  by (simp add: hex4_def hex_digit_hi hex_digit_lo hex_val_def [of "CHR ''0''"])

lemma unquote_escape:
  "e \<noteq> CHR ''u'' \<Longrightarrow> unquote_body (backslash # e # r) = unescape e # unquote_body r"
  by simp

lemma unquote_plain:
  "c \<noteq> backslash \<Longrightarrow> byte c < 128 \<Longrightarrow> unquote_body (c # r) = c # unquote_body r"
  by simp

lemma unquote_u00:
  assumes "byte c < 128"
  shows "unquote_body (u00 c @ r) = c # unquote_body r"
  using assms by (simp add: u00_def hex4_u00 byte_enc_rune_low Let_def)

lemma unquote_quote_ascii:
  assumes "byte c < 128"
  shows "unquote_body (quote_ascii c @ r) = c # unquote_body r"
proof (cases c rule: quote_ascii_cases)
  case (escape e)
  then show ?thesis by (simp add: unquote_escape del: unquote_body.simps)
next
  case unicode
  with assms show ?thesis by (simp add: unquote_u00 del: unquote_body.simps)
next
  case plain
  with assms show ?thesis by (simp add: unquote_plain del: unquote_body.simps)
qed

lemma enc_rune_2028: "enc_rune 0x2028 = bytes [0xE2, 0x80, 0xA8]" "enc_rune 0x2029 = bytes [0xE2, 0x80, 0xA9]"
  by (simp_all add: enc_rune_def)

lemma line_sepD:
  assumes "is_line_sep (c # cs)"
  obtains e ds where "cs = CHR 0x80 # e # ds" "c = CHR 0xE2" "e = CHR 0xA8 \<or> e = CHR 0xA9"
proof -
  obtain d e ds where cs: "cs = d # e # ds" and "byte c = 0xE2" "byte d = 0x80" "byte e = 0xA8 \<or> byte e = 0xA9"
    using assms by (auto simp: is_line_sep_def split: list.splits)
  moreover have "x = char_of (byte x)" for x :: char
    by simp
  ultimately have "c = char_of (0xE2 :: nat)" "d = char_of (0x80 :: nat)"
    "e = char_of (0xA8 :: nat) \<or> e = char_of (0xA9 :: nat)"
    by metis+
  moreover have "char_of (0xE2 :: nat) = CHR 0xE2" "char_of (0x80 :: nat) = CHR 0x80"
    "char_of (0xA8 :: nat) = CHR 0xA8" "char_of (0xA9 :: nat) = CHR 0xA9"
    by code_simp+
  ultimately show thesis
    using cs that by simp
qed

lemma unquote_line_sep:
  assumes "is_line_sep (c # cs)"
  shows "unquote_body (line_sep_escape (cs ! 1) @ r) = c # take 2 cs @ unquote_body r"
proof -
  obtain e ds where e: "cs = CHR 0x80 # e # ds" "c = CHR 0xE2" "e = CHR 0xA8 \<or> e = CHR 0xA9"
    using assms by (rule line_sepD)
  have "char_of (0xE2 :: nat) = CHR 0xE2" "char_of (0x80 :: nat) = CHR 0x80"
    "char_of (0xA8 :: nat) = CHR 0xA8" "char_of (0xA9 :: nat) = CHR 0xA9"
    "hex_digit 8 = CHR ''8''" "hex_digit 9 = CHR ''9''"
    by code_simp+
  with e show ?thesis
    by (auto simp: line_sep_escape_def hex4_def hex_val_def enc_rune_2028 bytes_def)
qed

lemma line_sep_len: "is_line_sep (c # cs) \<Longrightarrow> utf8_len (c # cs) = 3"
  by (auto elim!: line_sepD simp: utf8_len_def second_ok_def cont_byte_def)

lemma unquote_utf8:
  assumes "utf8_len (c # cs) = n" "n \<noteq> 0" "\<not> byte c < 128"
  shows "unquote_body ((c # take (n - 1) cs) @ r) = (c # take (n - 1) cs) @ unquote_body r"
  using assms utf8_len_append [OF assms(1,2)] byte_ge_128_plain [OF assms(3)]
  by (simp add: Let_def)

lemma take_drop_append: "take n cs @ drop n cs @ r = cs @ r"
  by (simp flip: append_assoc)

lemma unquote_quote_body: "utf8_ok s \<Longrightarrow> unquote_body (quote_body s @ r) = s @ unquote_body r"
proof (induction s rule: quote_body.induct)
  case (2 c cs)
  show ?case
  proof (cases "byte c < 128")
    case True
    with 2 show ?thesis
      by (simp add: unquote_quote_ascii del: unquote_body.simps)
  next
    case high: False
    with "2.prems" have n0: "utf8_len (c # cs) \<noteq> 0" and ok: "utf8_ok (drop (utf8_len (c # cs) - 1) cs)"
      by (auto simp: Let_def)
    show ?thesis
    proof (cases "is_line_sep (c # cs)")
      case True
      then have n3: "utf8_len (c # cs) = 3"
        by (rule line_sep_len)
      with "2.IH"(3) [OF high refl n0 True] ok high True show ?thesis
        by (simp add: unquote_line_sep [OF True, unfolded One_nat_def] take_drop_append
            del: unquote_body.simps)
    next
      case False
      with "2.IH"(4) [OF high refl n0 False] ok high n0 unquote_utf8 [OF refl n0 high] show ?thesis
        by (simp add: Let_def take_drop_append del: unquote_body.simps)
    qed
  qed
qed simp

lemma junquote_jstr [simp]: "utf8_ok s \<Longrightarrow> junquote (jstr s) = s"
  using unquote_quote_body [of s "[]"] by (simp add: junquote_def jstr_def)

lemma utf8_ok_ascii: "list_all (\<lambda>c. byte c < 128) s \<Longrightarrow> utf8_ok s"
  by (induction s) auto

section \<open>Scanning what was written\<close>

lemma json_scan_jstr [simp]:
  assumes "utf8_ok s"
  shows "json_scan (jstr s) = Some (VStr s)"
proof -
  obtain r where r: "jstr s = quote_char # r"
    by (simp add: jstr_def)
  show ?thesis
    using trim_ws_tight [OF tight_jstr, of s] json_valid_jstr [of s] junquote_jstr [OF assms]
    by (simp add: json_scan_def r)
qed

lemma scan_literals [simp]:
  "json_scan ''null'' = Some VNull" "json_scan ''true'' = Some (VBool True)"
  "json_scan ''false'' = Some (VBool False)"
  by code_simp+

lemma jtext_literals [simp, jtext_intros]: "jtext ''null''" "jtext ''true''" "jtext ''false''"
  by (auto simp: jtext_def tight_def is_ws_def html_char_def intro!: compacted_plain) code_simp+

lemma unmarshal_string_jstr [simp]: "utf8_ok s \<Longrightarrow> unmarshal_string (jstr s) = Some s"
  by (simp add: unmarshal_string_def dec_string_def)

lemma dec_string_jstr [simp]: "utf8_ok s \<Longrightarrow> dec_string old (jstr s) = Some s"
  by (simp add: dec_string_def)

lemma end_value_simps [simp]:
  "end_value CHR '','' (CArr # r) = Some (JBegin, CArr # r)"
  "end_value CHR '','' (CObj # r) = Some (JKey, CObj # r)"
  "end_value CHR '']'' (CArr # r) = Some (JEnd, r)"
  "end_value CHR ''}'' (CObj # r) = Some (JEnd, r)"
  by (simp_all add: end_value_def is_ws_def)

lemma is_sep_comma: "jended q \<Longrightarrow> is_sep q [x] CHR '',''"
  by (auto simp: is_sep_def in_string_def jended_def)

lemma jrun_elems:
  assumes "\<forall>v \<in> set vs. jtext v" and "vs \<noteq> []"
  shows "\<exists>q. jended q \<and> jrun JBegin (CArr # r) (Join vs '','') = Some (q, CArr # r)"
  using assms
proof (induction vs)
  case (Cons v vs)
  then obtain q where q: "jended q" "\<And>stk. jrun JBegin stk v = Some (q, stk)"
    by (metis json_valid_run jtextD(1) list.set_intros(1))
  show ?case
  proof (cases "vs = []")
    case True
    with q show ?thesis by simp
  next
    case False
    with Cons q show ?thesis
      by (simp add: Join_Cons jrun_append jstep_ended)
  qed
qed simp

lemma jsegs_elems:
  assumes "\<forall>v \<in> set vs. jtext v" and "vs \<noteq> []"
  shows "jsegs JBegin [CArr] [] (Join vs '','') = vs"
  using assms
proof (induction vs)
  case (Cons v vs)
  then obtain q where q: "jended q"
    "\<And>x cur rest. jsegs JBegin [x] cur (v @ rest) = jsegs q [x] (rev v @ cur) rest"
    by (metis json_valid_run jtextD(1) list.set_intros(1))
  show ?case
  proof (cases "vs = []")
    case True
    with q(2) [of CArr "[]" "[]"] show ?thesis by simp
  next
    case False
    with Cons q show ?thesis
      by (simp add: Join_Cons jstep_ended is_sep_comma)
  qed
qed simp

text \<open>The first byte of a value starts it as well after an opening bracket.\<close>

lemma begin_or_end:
  assumes "jtext v"
  shows "jrun JBeginOrEnd stk (v @ r) = jrun JBegin stk (v @ r)"
    and "jsegs JBeginOrEnd stk cur (v @ r) = jsegs JBegin stk cur (v @ r)"
proof -
  from assms obtain c u where v: "v = c # u" and c: "\<not> is_ws c"
    by (cases v) (auto simp: jtext_def tight_def)
  have "start_value c [] \<noteq> None"
    using assms v c by (auto simp: jtext_def json_valid_def split: option.splits)
  then have "c \<noteq> CHR '']''"
    by (auto simp: start_value_def is_digit_def)
  then show "jrun JBeginOrEnd stk (v @ r) = jrun JBegin stk (v @ r)"
    and "jsegs JBeginOrEnd stk cur (v @ r) = jsegs JBegin stk cur (v @ r)"
    using v c by (simp_all add: is_sep_def in_string_def split: list.splits option.split)
qed

lemma Join_hd:
  assumes "vs \<noteq> []"
  obtains r where "Join vs sep = hd vs @ r"
  using assms by (cases vs; cases "tl vs") auto

lemma tight_brackets:
  "tight (CHR ''['' # p @ '']'')" "tight (CHR ''{'' # p @ ''}'')"
  by (simp_all add: tight_def is_ws_def)

lemma json_valid_jarr: "\<forall>v \<in> set vs. jtext v \<Longrightarrow> json_valid (jarr vs)"
proof (cases "vs = []")
  case True
  then show ?thesis by (simp add: jarr_def) code_simp
next
  case False
  assume vs: "\<forall>v \<in> set vs. jtext v"
  obtain r where r: "Join vs '','' = hd vs @ r"
    using False by (rule Join_hd)
  obtain q where q: "jended q" "jrun JBegin [CArr] (Join vs '','') = Some (q, [CArr])"
    using jrun_elems [OF vs False] by blast
  have "jtext (hd vs)"
    using vs False by simp
  then have "jrun JBeginOrEnd [CArr] (Join vs '','' @ '']'') = jrun JBegin [CArr] (Join vs '','' @ '']'')"
    by (simp add: r begin_or_end)
  with q show ?thesis
    by (simp add: json_valid_def jarr_def is_ws_def start_value_def jrun_append jstep_ended)
      (simp add: jended_def)
qed

lemma map_trim_jtext: "\<forall>v \<in> set vs. jtext v \<Longrightarrow> map trim_ws vs = vs"
  by (induction vs) (auto dest: jtextD)

lemma jelems_jarr:
  assumes "\<forall>v \<in> set vs. jtext v"
  shows "jelems JBeginOrEnd CArr (Join vs '','') = vs"
proof (cases "vs = []")
  case True
  then show ?thesis by (simp add: jelems_def trim_ws_def)
next
  case False
  obtain r where r: "Join vs '','' = hd vs @ r"
    using False by (rule Join_hd)
  have "jtext (hd vs)" and "vs \<noteq> [[]]"
    using assms False by (auto dest: jtextD(4))
  moreover have "map trim_ws (jsegs JBegin [CArr] [] (Join vs '','')) = vs"
    by (simp add: jsegs_elems [OF assms False] map_trim_jtext [OF assms])
  ultimately show ?thesis
    by (simp add: jelems_def r begin_or_end(2))
qed

lemma json_scan_jarr [simp]: "\<forall>v \<in> set vs. jtext v \<Longrightarrow> json_scan (jarr vs) = Some (VArr vs)"
  using json_valid_jarr [of vs] jelems_jarr [of vs]
  by (simp add: json_scan_def jarr_def tight_brackets)

lemma jtext_jarr [jtext_intros]: "\<forall>v \<in> set vs. jtext v \<Longrightarrow> jtext (jarr vs)"
  using compacted_append [OF compacted_delim(3) compacted_append [OF compacted_Join compacted_delim(4)]]
    compacted_delim(1)
  by (auto simp: jtext_def json_valid_jarr) (auto simp: jarr_def tight_brackets)

section \<open>Numbers\<close>

lemma jstep_digit: "is_digit c \<Longrightarrow> jstep JInt stk c = Some (JInt, stk)"
  by simp

lemma digit_char_start:
  assumes "0 < n" "n < 10"
  shows "jstep JBegin stk (digit_char n) = Some (JInt, stk)" "jstep JNeg stk (digit_char n) = Some (JInt, stk)"
proof -
  have d: "is_digit (digit_char n)" and b: "byte (digit_char n) = 48 + n"
    using assms by (simp_all add: of_char_digit_char)
  have ne: "digit_char n \<noteq> c" if "\<not> is_digit c \<or> c = CHR ''0''" for c
    using that d b assms by auto
  show "jstep JBegin stk (digit_char n) = Some (JInt, stk)"
    using d b ne [of "CHR ''{''"] ne [of "CHR ''[''"] ne [of quote_char] ne [of "CHR ''-''"]
      ne [of "CHR ''0''"] ne [of "CHR ''t''"] ne [of "CHR ''f''"] ne [of "CHR ''n''"]
    by (simp add: is_ws_def start_value_def is_digit_def)
  show "jstep JNeg stk (digit_char n) = Some (JInt, stk)"
    using d ne [of "CHR ''0''"] by simp
qed

lemma jrun_nat_dec:
  "0 < n \<Longrightarrow> jrun JBegin stk (nat_dec n) = Some (JInt, stk)"
  "0 < n \<Longrightarrow> jrun JNeg stk (nat_dec n) = Some (JInt, stk)"
proof (induction n rule: nat_dec.induct)
  case (1 n)
  {
    case 1
    then show ?case
      using "1.IH"(1)
      by (cases "n < 10") (simp_all add: nat_dec.simps [of n] digit_char_start jrun_append jstep_digit
          del: jstep.simps)
  next
    case 2
    then show ?case
      using "1.IH"(2)
      by (cases "n < 10") (simp_all add: nat_dec.simps [of n] digit_char_start jrun_append jstep_digit
          del: jstep.simps)
  }
qed

lemma nat_dec_0: "nat_dec 0 = ''0''"
  by code_simp

lemma json_valid_Itoa: "json_valid (Itoa x)"
proof (cases "x = 0")
  case True
  then show ?thesis by (simp add: Itoa_def nat_dec_0) code_simp
next
  case False
  then show ?thesis
    by (simp add: Itoa_def json_valid_def jrun_nat_dec is_ws_def start_value_def jended_def)
qed

lemma digit_plain: "is_digit c \<Longrightarrow> \<not> html_char c \<and> \<not> is_ws c \<and> c \<noteq> quote_char \<and> byte c < 128"
  by (auto simp: is_digit_def html_char_def is_ws_def)

lemma Itoa_plain: "list_all (\<lambda>c. \<not> html_char c \<and> \<not> is_ws c \<and> c \<noteq> quote_char \<and> byte c < 128) (Itoa x)"
proof -
  have "list_all (\<lambda>c. \<not> html_char c \<and> \<not> is_ws c \<and> c \<noteq> quote_char \<and> byte c < 128) (nat_dec n)" for n
    using nat_dec_digits [of n] digit_plain by (simp add: list_all_iff)
  moreover have "\<not> html_char CHR ''-''" "\<not> is_ws CHR ''-''"
    by (simp_all add: html_char_def is_ws_def)
  ultimately show ?thesis
    by (simp add: Itoa_def)
qed

lemma jtext_Itoa [simp, jtext_intros]: "jtext (Itoa x)"
proof -
  have "Itoa x \<noteq> []"
    by (simp add: Itoa_def)
  then have "tight (Itoa x)"
    using Itoa_plain [of x] unfolding tight_def list_all_iff by (meson hd_in_set last_in_set)
  then show ?thesis
    using json_valid_Itoa compacted_plain [OF Itoa_plain] by (simp add: jtext_def)
qed

lemma Itoa_hd: "Itoa x \<noteq> [] \<and> (hd (Itoa x) = CHR ''-'' \<or> is_digit (hd (Itoa x)))"
proof -
  have "is_digit (hd (nat_dec n))" for n
    using nat_dec_digits [of n] hd_in_set [OF nat_dec_nonempty] by blast
  then show ?thesis
    by (simp add: Itoa_def)
qed

lemma json_scan_Itoa [simp]: "json_scan (Itoa x) = Some (VNum (Itoa x))"
proof -
  obtain c r where cr: "Itoa x = c # r" "c = CHR ''-'' \<or> is_digit c"
    using Itoa_hd [of x] by (cases "Itoa x") auto
  have "c \<noteq> CHR ''{''" "c \<noteq> CHR ''[''" "c \<noteq> quote_char" "c \<noteq> CHR ''t''" "c \<noteq> CHR ''f''" "c \<noteq> CHR ''n''"
    using cr(2) by (auto simp: is_digit_def)
  then show ?thesis
    using trim_ws_tight [of "Itoa x"] json_valid_Itoa [of x] jtextD(2) [OF jtext_Itoa, of x]
    by (simp add: json_scan_def cr(1))
qed

lemma parse_int_Itoa [simp]: "int64 x \<Longrightarrow> parse_int (Itoa x) = Some x"
proof -
  assume x: "int64 x"
  have "take 1 (nat_dec n) \<noteq> ''-''" for n
    using nat_dec_digits [of n] by (cases "nat_dec n") (auto simp: is_digit_def)
  moreover have "list_all is_digit (nat_dec n)" for n
    using nat_dec_digits by (simp add: list_all_iff)
  ultimately show ?thesis
    using x by (auto simp: parse_int_def Itoa_def Let_def)
qed

lemma dec_int_Itoa [simp]: "int64 x \<Longrightarrow> dec_int old (Itoa x) = Some x"
  by (simp add: dec_int_def)

section \<open>Objects\<close>

lemma jrun_jfield:
  assumes "jtext v"
  obtains q where "jended q"
    "\<And>r. jrun JKey (CObj # r) (jfield (k, v)) = Some (q, CObj # r)"
    "\<And>cur rest. jsegs JKey [CObj] cur (jfield (k, v) @ rest)
       = rev (rev (jstr k) @ cur) # jsegs q [CObj] (rev v) rest"
proof -
  obtain q where q: "jended q" "\<And>stk. jrun JBegin stk v = Some (q, stk)"
    "\<And>x cur rest. jsegs JBegin [x] cur (v @ rest) = jsegs q [x] (rev v @ cur) rest"
    using assms by (metis json_valid_run jtextD(1))
  have key: "jrun JKey [] (jstr k) = Some (JColon, [])"
    using jrun_jstr_key [of "[]" k "[]"] by simp
  show thesis
  proof (rule that [OF q(1)])
    show "jrun JKey (CObj # r) (jfield (k, v)) = Some (q, CObj # r)" for r
      by (simp add: jfield_def jrun_jstr_key q(2) is_ws_def)
    show "jsegs JKey [CObj] cur (jfield (k, v) @ rest)
       = rev (rev (jstr k) @ cur) # jsegs q [CObj] (rev v) rest" for cur rest
      using jsegs_value [OF key, of CObj cur "CHR '':'' # v @ rest"]
      by (simp add: jfield_def q(3) is_ws_def is_sep_def in_string_def)
  qed
qed

definition flat :: "(go_string \<times> string) list \<Rightarrow> string list" where
  "flat kvs = concat (map (\<lambda>(k, v). [jstr k, v]) kvs)"

lemma jrun_fields:
  assumes "\<forall>kv \<in> set kvs. jtext (snd kv)" and "kvs \<noteq> []"
  shows "\<exists>q. jended q \<and> jrun JKey (CObj # r) (Join (map jfield kvs) '','') = Some (q, CObj # r)"
  using assms
proof (induction kvs)
  case (Cons kv kvs)
  obtain k v where kv: "kv = (k, v)" by force
  with Cons.prems have "jtext v" by simp
  then obtain q where q: "jended q" "\<And>r. jrun JKey (CObj # r) (jfield (k, v)) = Some (q, CObj # r)"
    using jrun_jfield by metis
  show ?case
  proof (cases "kvs = []")
    case True
    with q kv show ?thesis by simp
  next
    case False
    with Cons q kv show ?thesis
      by (simp add: Join_Cons jrun_append jstep_ended)
  qed
qed simp

lemma jsegs_fields:
  assumes "\<forall>kv \<in> set kvs. jtext (snd kv)" and "kvs \<noteq> []"
  shows "jsegs JKey [CObj] [] (Join (map jfield kvs) '','') = flat kvs"
  using assms
proof (induction kvs)
  case (Cons kv kvs)
  obtain k v where kv: "kv = (k, v)" by force
  with Cons.prems have "jtext v" by simp
  then obtain q where q: "jended q" "\<And>cur rest. jsegs JKey [CObj] cur (jfield (k, v) @ rest)
       = rev (rev (jstr k) @ cur) # jsegs q [CObj] (rev v) rest"
    using jrun_jfield by metis
  show ?case
  proof (cases "kvs = []")
    case True
    with q(2) [of "[]" "[]"] kv show ?thesis by (simp add: flat_def)
  next
    case False
    with Cons q kv show ?thesis
      by (simp add: Join_Cons jstep_ended is_sep_comma flat_def)
  qed
qed simp

lemma key_or_end:
  "jrun JKeyOrEnd stk (jfield kv @ r) = jrun JKey stk (jfield kv @ r)"
  "jsegs JKeyOrEnd stk cur (jfield kv @ r) = jsegs JKey stk cur (jfield kv @ r)"
  by (simp_all add: jfield_def jstr_def is_ws_def is_sep_def split: list.splits)

lemma json_valid_jobj: "\<forall>kv \<in> set kvs. jtext (snd kv) \<Longrightarrow> json_valid (jobj kvs)"
proof (cases "kvs = []")
  case True
  then show ?thesis by (simp add: jobj_def) code_simp
next
  case False
  assume kvs: "\<forall>kv \<in> set kvs. jtext (snd kv)"
  from False obtain r where r: "Join (map jfield kvs) '','' = jfield (hd kvs) @ r"
    by (metis Join_hd hd_map map_is_Nil_conv)
  obtain q where q: "jended q" "jrun JKey [CObj] (Join (map jfield kvs) '','') = Some (q, [CObj])"
    using jrun_fields [OF kvs False] by blast
  have "jrun JKeyOrEnd [CObj] (Join (map jfield kvs) '','' @ ''}'')
      = jrun JKey [CObj] (Join (map jfield kvs) '','' @ ''}'')"
    by (simp add: r key_or_end)
  with q show ?thesis
    by (simp add: json_valid_def jobj_def is_ws_def start_value_def jrun_append jstep_ended)
      (simp add: jended_def)
qed

lemma pair_up_flat: "pair_up (flat kvs) = map (\<lambda>(k, v). (jstr k, v)) kvs"
  by (induction kvs) (auto simp: flat_def)

lemma map_trim_flat: "\<forall>kv \<in> set kvs. jtext (snd kv) \<Longrightarrow> map trim_ws (flat kvs) = flat kvs"
  by (rule map_trim_jtext) (auto simp: flat_def)

lemma jelems_jobj:
  assumes "\<forall>kv \<in> set kvs. jtext (snd kv)"
  shows "jelems JKeyOrEnd CObj (Join (map jfield kvs) '','') = flat kvs"
proof (cases "kvs = []")
  case True
  then show ?thesis by (simp add: jelems_def trim_ws_def flat_def)
next
  case False
  then obtain r where r: "Join (map jfield kvs) '','' = jfield (hd kvs) @ r"
    by (metis Join_hd hd_map map_is_Nil_conv)
  have "flat kvs \<noteq> [[]]"
    using False by (cases kvs) (auto simp: flat_def)
  moreover have "map trim_ws (jsegs JKey [CObj] [] (Join (map jfield kvs) '','')) = flat kvs"
    by (simp add: jsegs_fields [OF assms False] map_trim_flat [OF assms])
  ultimately show ?thesis
    by (simp add: jelems_def r key_or_end(2))
qed

lemma json_scan_jobj [simp]:
  assumes "\<forall>kv \<in> set kvs. jtext (snd kv) \<and> utf8_ok (fst kv)"
  shows "json_scan (jobj kvs) = Some (VObj kvs)"
proof -
  have v: "json_valid (jobj kvs)" and e: "jelems JKeyOrEnd CObj (Join (map jfield kvs) '','') = flat kvs"
    using assms by (simp_all add: json_valid_jobj jelems_jobj)
  have "map ((\<lambda>(k, v). (junquote k, v)) \<circ> (\<lambda>(k, v). (jstr k, v))) kvs = kvs"
    using assms by (intro map_idI) auto
  with v e show ?thesis
    by (simp add: json_scan_def jobj_def tight_brackets pair_up_flat)
qed

lemma compacted_jfield: "jtext (snd kv) \<Longrightarrow> compacted (jfield kv)"
  unfolding jfield_def
  by (intro compacted_append compacted_jstr compacted_delim(2)) (rule jtextD)

lemma jtext_jobj [jtext_intros]: "\<forall>kv \<in> set kvs. jtext (snd kv) \<Longrightarrow> jtext (jobj kvs)"
proof -
  assume kvs: "\<forall>kv \<in> set kvs. jtext (snd kv)"
  then have "compacted (Join (map jfield kvs) '','')"
    by (intro compacted_Join) (auto simp: compacted_jfield compacted_delim)
  then have "compacted (''{'' @ Join (map jfield kvs) '','' @ ''}'')"
    by (intro compacted_append compacted_delim)
  then show ?thesis
    using json_valid_jobj [OF kvs] by (simp add: jtext_def jobj_def tight_brackets)
qed

section \<open>Structs\<close>

text \<open>
  An encoder and a decoder of one type agree on the values that \<open>wf\<close> describes: the text is valid
  wherever it is embedded, it is not \<open>null\<close>, and decoding gives the value back. The interface lifts to
  slices; every struct with both an encoder and a decoder interprets it.
\<close>

locale json_codec =
  fixes enc :: "'v \<Rightarrow> string option"
    and dec :: "RawMessage \<Rightarrow> 'v option"
    and wf :: "'v \<Rightarrow> bool"
  assumes enc_total: "wf v \<Longrightarrow> \<exists>t. enc v = Some t \<and> jtext t"
    and dec_enc: "wf v \<Longrightarrow> enc v = Some t \<Longrightarrow> dec t = Some v"
begin

lemma enc_list:
  assumes "\<forall>v \<in> set vs. wf v"
  shows "\<exists>ts. mapM_opt enc vs = Some ts \<and> length ts = length vs \<and> (\<forall>t \<in> set ts. jtext t)
    \<and> mapM_opt dec ts = Some vs"
  using assms
proof (induction vs)
  case (Cons v vs)
  then obtain ts where "mapM_opt enc vs = Some ts" "length ts = length vs" "\<forall>t \<in> set ts. jtext t"
    "mapM_opt dec ts = Some vs"
    by auto
  moreover obtain t where "enc v = Some t" "jtext t" "dec t = Some v"
    using Cons.prems enc_total [of v] dec_enc [of v] by auto
  ultimately show ?case by simp
qed simp

lemma slice_roundtrip:
  assumes "\<forall>v \<in> set vs. wf v"
  obtains ts where "mapM_opt enc vs = Some ts" "jtext (jarr ts)" "dec_slice dec (jarr ts) = Some vs"
    "length ts = length vs"
  using enc_list [OF assms]
  by (auto simp: dec_slice_def unmarshal_array_def jtext_jarr)

end

lemma jslice_jarr: "ts \<noteq> [] \<Longrightarrow> jslice ts = jarr ts"
  by (simp add: jslice_def)

lemma unmarshal_string_jarr [simp]: "\<forall>v \<in> set vs. jtext v \<Longrightarrow> unmarshal_string (jarr vs) = None"
  by (simp add: unmarshal_string_def dec_string_def)

end
