(* ===== verification/ApiCodec.thy ===== *)
theory ApiCodec
  imports ApiTypes GoJsonTrip
begin

text \<open>
  The structs that the converters write and read again keep their values: content parts, input items
  and content blocks interpret \<open>json_codec\<close>. The well-formedness of a value says that its strings are
  UTF-8 and that its raw parts are texts as the encoder writes them (or absent).
\<close>

section \<open>Fields\<close>

lemma fold_names [simp]:
  "fold_name ''type'' = ''TYPE''" "fold_name ''text'' = ''TEXT''" "fold_name ''image_url'' = ''IMAGE_URL''"
  "fold_name ''role'' = ''ROLE''" "fold_name ''content'' = ''CONTENT''" "fold_name ''call_id'' = ''CALL_ID''"
  "fold_name ''name'' = ''NAME''" "fold_name ''arguments'' = ''ARGUMENTS''" "fold_name ''id'' = ''ID''"
  "fold_name ''output'' = ''OUTPUT''" "fold_name ''cache_control'' = ''CACHE_CONTROL''"
  "fold_name ''thinking'' = ''THINKING''" "fold_name ''source'' = ''SOURCE''"
  "fold_name ''input'' = ''INPUT''" "fold_name ''tool_use_id'' = ''TOOL_USE_ID''"
  "fold_name ''is_error'' = ''IS_ERROR''" "fold_name ''ttl'' = ''TTL''"
  "fold_name ''media_type'' = ''MEDIA_TYPE''" "fold_name ''data'' = ''DATA''"
  by code_simp+

lemma field_raws_simps [simp]:
  "field_raws n [] = []"
  "field_raws n ((k, v) # r) = (if fold_name k = fold_name n then v # field_raws n r else field_raws n r)"
  "field_raws n (xs @ ys) = field_raws n xs @ field_raws n ys"
  by (simp_all add: field_raws_def)

definition okey :: "go_string \<Rightarrow> bool \<Rightarrow> string \<Rightarrow> (go_string \<times> string) list" where
  "okey k present v = (if present then [(k, v)] else [])"

lemma field_raws_okey [simp]:
  "field_raws n (okey k p v) = (if fold_name k = fold_name n \<and> p then [v] else [])"
  by (simp add: okey_def)

text \<open>A member whose key is UTF-8 and whose value is a text of the encoder.\<close>

definition kv_ok :: "go_string \<times> string \<Rightarrow> bool" where
  "kv_ok kv \<longleftrightarrow> jtext (snd kv) \<and> utf8_ok (fst kv)"

lemma kv_ok_okey [simp]: "list_all kv_ok (okey k p v) \<longleftrightarrow> (p \<longrightarrow> jtext v \<and> utf8_ok k)"
  by (simp add: okey_def kv_ok_def)

lemma kv_ok_pair [simp]: "kv_ok (k, v) \<longleftrightarrow> jtext v \<and> utf8_ok k"
  by (simp add: kv_ok_def)

lemma jtext_jobj_ok: "list_all kv_ok kvs \<Longrightarrow> jtext (jobj kvs)"
  by (rule jtext_jobj) (simp add: list_all_iff kv_ok_def)

lemma json_scan_jobj_ok: "list_all kv_ok kvs \<Longrightarrow> json_scan (jobj kvs) = Some (VObj kvs)"
  by (rule json_scan_jobj) (simp add: list_all_iff kv_ok_def)

lemma dec_field_none [simp]: "field_raws n kvs = [] \<Longrightarrow> dec_field dec z n kvs = Some z"
  by (simp add: dec_field_def)

lemma dec_field_one: "field_raws n kvs = [v] \<Longrightarrow> dec_field dec z n kvs = dec z v"
  by (simp add: dec_field_def)

lemma dec_field_str [simp]:
  "field_raws n kvs = [jstr s] \<Longrightarrow> utf8_ok s \<Longrightarrow> dec_field dec_string z n kvs = Some s"
  by (simp add: dec_field_one)

lemma dec_field_str_opt:
  "field_raws n kvs = (if s \<noteq> [] then [jstr s] else []) \<Longrightarrow> utf8_ok s
     \<Longrightarrow> dec_field dec_string [] n kvs = Some s"
  by (cases "s = []") simp_all

lemma dec_field_raw_opt:
  "field_raws n kvs = (if s \<noteq> [] then [s] else []) \<Longrightarrow> dec_field dec_raw [] n kvs = Some s"
  by (cases "s = []") (simp_all add: dec_field_one dec_raw_def)

lemma dec_field_bool_opt:
  "field_raws n kvs = (if b then [''true''] else []) \<Longrightarrow> dec_field dec_bool False n kvs = Some b"
  by (cases b) (simp_all add: dec_field_one dec_bool_def)

lemma dec_field_ptr_opt:
  assumes "field_raws n kvs = (case p of None \<Rightarrow> [] | Some x \<Rightarrow> [t x])"
    and "\<And>x. p = Some x \<Longrightarrow> json_scan (t x) \<noteq> Some VNull \<and> dec z (t x) = Some x"
  shows "dec_field (dec_ptr dec z) None n kvs = Some p"
  using assms by (cases p) (simp_all add: dec_field_one dec_ptr_def)

text \<open>The field encoders on well-formed values.\<close>

definition raw_ok :: "RawMessage \<Rightarrow> bool" where
  "raw_ok r \<longleftrightarrow> r = [] \<or> jtext r"

lemma enc_field_values:
  "f_str k s = Some [(k, jstr s)]"
  "f_str_omit k s = Some (okey k (s \<noteq> []) (jstr s))"
  "raw_ok r \<Longrightarrow> f_raw_omit k r = Some (okey k (r \<noteq> []) r)"
  "f_bool_omit k b = Some (okey k b ''true'')"
  by (auto simp: enc_field_defs okey_def raw_ok_def)

lemma f_ptr_omit_value:
  "(\<And>x. p = Some x \<Longrightarrow> enc x = Some (t x)) \<Longrightarrow>
     f_ptr_omit k enc p = Some (case p of None \<Rightarrow> [] | Some x \<Rightarrow> [(k, t x)])"
  by (cases p) (simp_all add: f_ptr_omit_def f_val_def)

lemma marshal_struct_Some:
  "marshal_struct (map Some fs) = Some (jobj (concat fs))"
proof -
  have "mapM_opt id (map Some fs) = Some fs"
    by (induction fs) simp_all
  then show ?thesis
    by (simp add: marshal_struct_def)
qed

lemmas marshal_struct_Somes =
  marshal_struct_Some [of "[_]", simplified]
  marshal_struct_Some [of "[_, _]", simplified]
  marshal_struct_Some [of "[_, _, _]", simplified]
  marshal_struct_Some [of "[_, _, _, _, _, _, _, _]", simplified]
  marshal_struct_Some [of "[_, _, _, _, _, _, _, _, _, _, _]", simplified]

lemma utf8_keys [simp]:
  "utf8_ok ''type''" "utf8_ok ''text''" "utf8_ok ''image_url''" "utf8_ok ''role''" "utf8_ok ''content''"
  "utf8_ok ''call_id''" "utf8_ok ''name''" "utf8_ok ''arguments''" "utf8_ok ''id''" "utf8_ok ''output''"
  "utf8_ok ''cache_control''" "utf8_ok ''thinking''" "utf8_ok ''source''" "utf8_ok ''input''"
  "utf8_ok ''tool_use_id''" "utf8_ok ''is_error''" "utf8_ok ''ttl''" "utf8_ok ''media_type''" "utf8_ok ''data''"
  "utf8_ok []"
  by simp_all

section \<open>Content parts and input items\<close>

definition wf_part :: "ResponsesContentPart \<Rightarrow> bool" where
  "wf_part p \<longleftrightarrow> utf8_ok (rp_Type p) \<and> utf8_ok (rp_Text p) \<and> utf8_ok (rp_ImageURL p)"

definition part_kvs :: "ResponsesContentPart \<Rightarrow> (go_string \<times> string) list" where
  "part_kvs p = (''type'', jstr (rp_Type p)) # okey ''text'' (rp_Text p \<noteq> []) (jstr (rp_Text p))
     @ okey ''image_url'' (rp_ImageURL p \<noteq> []) (jstr (rp_ImageURL p))"

lemma enc_part: "enc_ResponsesContentPart p = Some (jobj (part_kvs p))"
  by (simp add: enc_ResponsesContentPart_def enc_field_values marshal_struct_Somes part_kvs_def)

lemma part_kvs_ok: "list_all kv_ok (part_kvs p)"
  by (simp add: part_kvs_def)

lemma part_field_raws:
  "field_raws ''type'' (part_kvs p) = [jstr (rp_Type p)]"
  "field_raws ''text'' (part_kvs p) = (if rp_Text p \<noteq> [] then [jstr (rp_Text p)] else [])"
  "field_raws ''image_url'' (part_kvs p) = (if rp_ImageURL p \<noteq> [] then [jstr (rp_ImageURL p)] else [])"
  by (simp_all add: part_kvs_def)

lemma dec_part: "wf_part p \<Longrightarrow> dec_ResponsesContentPart (jobj (part_kvs p)) = Some p"
  by (simp add: dec_ResponsesContentPart_def dec_struct_def json_scan_jobj_ok [OF part_kvs_ok] wf_part_def
      dec_field_str [OF part_field_raws(1)] dec_field_str_opt [OF part_field_raws(2)]
      dec_field_str_opt [OF part_field_raws(3)])

interpretation part_codec: json_codec enc_ResponsesContentPart dec_ResponsesContentPart wf_part
  by unfold_locales (auto simp: enc_part dec_part jtext_jobj_ok part_kvs_ok)

definition wf_item :: "ResponsesInputItem \<Rightarrow> bool" where
  "wf_item i \<longleftrightarrow> utf8_ok (ri_Type i) \<and> utf8_ok (ri_Role i) \<and> raw_ok (ri_Content i)
     \<and> utf8_ok (ri_CallID i) \<and> utf8_ok (ri_Name i) \<and> utf8_ok (ri_Arguments i) \<and> utf8_ok (ri_ID i)
     \<and> utf8_ok (ri_Output i)"

definition item_kvs :: "ResponsesInputItem \<Rightarrow> (go_string \<times> string) list" where
  "item_kvs i = okey ''type'' (ri_Type i \<noteq> []) (jstr (ri_Type i))
     @ okey ''role'' (ri_Role i \<noteq> []) (jstr (ri_Role i))
     @ okey ''content'' (ri_Content i \<noteq> []) (ri_Content i)
     @ okey ''call_id'' (ri_CallID i \<noteq> []) (jstr (ri_CallID i))
     @ okey ''name'' (ri_Name i \<noteq> []) (jstr (ri_Name i))
     @ okey ''arguments'' (ri_Arguments i \<noteq> []) (jstr (ri_Arguments i))
     @ okey ''id'' (ri_ID i \<noteq> []) (jstr (ri_ID i))
     @ okey ''output'' (ri_Output i \<noteq> []) (jstr (ri_Output i))"

lemma enc_item: "wf_item i \<Longrightarrow> enc_ResponsesInputItem i = Some (jobj (item_kvs i))"
  by (simp add: enc_ResponsesInputItem_def enc_field_values marshal_struct_Somes item_kvs_def wf_item_def)

lemma item_kvs_ok: "wf_item i \<Longrightarrow> list_all kv_ok (item_kvs i)"
  by (auto simp: item_kvs_def wf_item_def raw_ok_def)

lemma item_field_raws:
  "field_raws ''type'' (item_kvs i) = (if ri_Type i \<noteq> [] then [jstr (ri_Type i)] else [])"
  "field_raws ''role'' (item_kvs i) = (if ri_Role i \<noteq> [] then [jstr (ri_Role i)] else [])"
  "field_raws ''content'' (item_kvs i) = (if ri_Content i \<noteq> [] then [ri_Content i] else [])"
  "field_raws ''call_id'' (item_kvs i) = (if ri_CallID i \<noteq> [] then [jstr (ri_CallID i)] else [])"
  "field_raws ''name'' (item_kvs i) = (if ri_Name i \<noteq> [] then [jstr (ri_Name i)] else [])"
  "field_raws ''arguments'' (item_kvs i) = (if ri_Arguments i \<noteq> [] then [jstr (ri_Arguments i)] else [])"
  "field_raws ''id'' (item_kvs i) = (if ri_ID i \<noteq> [] then [jstr (ri_ID i)] else [])"
  "field_raws ''output'' (item_kvs i) = (if ri_Output i \<noteq> [] then [jstr (ri_Output i)] else [])"
  by (simp_all add: item_kvs_def)

lemma dec_item:
  assumes "wf_item i"
  shows "dec_ResponsesInputItem (jobj (item_kvs i)) = Some i"
proof -
  note w = assms [unfolded wf_item_def]
  note f = item_field_raws [of i]
  have "dec_field dec_string [] ''type'' (item_kvs i) = Some (ri_Type i)"
    "dec_field dec_string [] ''role'' (item_kvs i) = Some (ri_Role i)"
    "dec_field dec_string [] ''call_id'' (item_kvs i) = Some (ri_CallID i)"
    "dec_field dec_string [] ''name'' (item_kvs i) = Some (ri_Name i)"
    "dec_field dec_string [] ''arguments'' (item_kvs i) = Some (ri_Arguments i)"
    "dec_field dec_string [] ''id'' (item_kvs i) = Some (ri_ID i)"
    "dec_field dec_string [] ''output'' (item_kvs i) = Some (ri_Output i)"
    using w dec_field_str_opt [OF f(1)] dec_field_str_opt [OF f(2)] dec_field_str_opt [OF f(4)]
      dec_field_str_opt [OF f(5)] dec_field_str_opt [OF f(6)] dec_field_str_opt [OF f(7)]
      dec_field_str_opt [OF f(8)] by simp_all
  then show ?thesis
    by (simp add: dec_ResponsesInputItem_def dec_struct_def json_scan_jobj_ok [OF item_kvs_ok [OF assms]]
        dec_field_raw_opt [OF f(3)])
qed

interpretation item_codec: json_codec enc_ResponsesInputItem dec_ResponsesInputItem wf_item
  by unfold_locales (auto simp: enc_item dec_item jtext_jobj_ok item_kvs_ok)

section \<open>Content blocks\<close>

definition wf_cc :: "AnthropicCacheControl \<Rightarrow> bool" where
  "wf_cc c \<longleftrightarrow> utf8_ok (cc_Type c) \<and> utf8_ok (cc_TTL c)"

definition wf_src :: "AnthropicImageSource \<Rightarrow> bool" where
  "wf_src s \<longleftrightarrow> utf8_ok (src_Type s) \<and> utf8_ok (src_MediaType s) \<and> utf8_ok (src_Data s)"

definition cc_kvs :: "AnthropicCacheControl \<Rightarrow> (go_string \<times> string) list" where
  "cc_kvs c = (''type'', jstr (cc_Type c)) # okey ''ttl'' (cc_TTL c \<noteq> []) (jstr (cc_TTL c))"

definition src_kvs :: "AnthropicImageSource \<Rightarrow> (go_string \<times> string) list" where
  "src_kvs s = [(''type'', jstr (src_Type s)), (''media_type'', jstr (src_MediaType s)),
     (''data'', jstr (src_Data s))]"

lemma enc_cc: "enc_AnthropicCacheControl c = Some (jobj (cc_kvs c))"
  by (simp add: enc_AnthropicCacheControl_def enc_field_values marshal_struct_Somes cc_kvs_def)

lemma enc_src: "enc_AnthropicImageSource s = Some (jobj (src_kvs s))"
  by (simp add: enc_AnthropicImageSource_def enc_field_values marshal_struct_Somes src_kvs_def)

lemma cc_kvs_ok: "list_all kv_ok (cc_kvs c)"
  by (simp add: cc_kvs_def)

lemma src_kvs_ok: "list_all kv_ok (src_kvs c)"
  by (simp add: src_kvs_def)

lemma cc_field_raws:
  "field_raws ''type'' (cc_kvs c) = [jstr (cc_Type c)]"
  "field_raws ''ttl'' (cc_kvs c) = (if cc_TTL c \<noteq> [] then [jstr (cc_TTL c)] else [])"
  by (simp_all add: cc_kvs_def)

lemma src_field_raws:
  "field_raws ''type'' (src_kvs s) = [jstr (src_Type s)]"
  "field_raws ''media_type'' (src_kvs s) = [jstr (src_MediaType s)]"
  "field_raws ''data'' (src_kvs s) = [jstr (src_Data s)]"
  by (simp_all add: src_kvs_def)

lemma dec_cc: "wf_cc c \<Longrightarrow> dec_AnthropicCacheControl \<lparr>cc_Type = [], cc_TTL = []\<rparr> (jobj (cc_kvs c)) = Some c"
  by (simp add: dec_AnthropicCacheControl_def dec_struct_def json_scan_jobj_ok [OF cc_kvs_ok] wf_cc_def
      dec_field_str [OF cc_field_raws(1)] dec_field_str_opt [OF cc_field_raws(2)])

lemma dec_src:
  "wf_src s \<Longrightarrow> dec_AnthropicImageSource \<lparr>src_Type = [], src_MediaType = [], src_Data = []\<rparr>
     (jobj (src_kvs s)) = Some s"
  by (simp add: dec_AnthropicImageSource_def dec_struct_def json_scan_jobj_ok [OF src_kvs_ok] wf_src_def
      dec_field_str [OF src_field_raws(1)] dec_field_str [OF src_field_raws(2)]
      dec_field_str [OF src_field_raws(3)])

definition wf_block :: "AnthropicContentBlock \<Rightarrow> bool" where
  "wf_block b \<longleftrightarrow> utf8_ok (blk_Type b) \<and> (\<forall>c. blk_CacheControl b = Some c \<longrightarrow> wf_cc c)
     \<and> utf8_ok (blk_Text b) \<and> utf8_ok (blk_Thinking b) \<and> (\<forall>s. blk_Source b = Some s \<longrightarrow> wf_src s)
     \<and> utf8_ok (blk_ID b) \<and> utf8_ok (blk_Name b) \<and> raw_ok (blk_Input b) \<and> utf8_ok (blk_ToolUseID b)
     \<and> raw_ok (blk_Content b)"

definition ptr_kvs :: "go_string \<Rightarrow> ('v \<Rightarrow> (go_string \<times> string) list) \<Rightarrow> 'v option
    \<Rightarrow> (go_string \<times> string) list" where
  "ptr_kvs k f p = (case p of None \<Rightarrow> [] | Some x \<Rightarrow> [(k, jobj (f x))])"

lemma field_raws_ptr [simp]:
  "field_raws n (ptr_kvs k f p)
     = (if fold_name k = fold_name n then (case p of None \<Rightarrow> [] | Some x \<Rightarrow> [jobj (f x)]) else [])"
  by (simp add: ptr_kvs_def split: option.split)

definition tail_kvs :: "AnthropicContentBlock \<Rightarrow> (go_string \<times> string) list" where
  "tail_kvs b = ptr_kvs ''source'' src_kvs (blk_Source b)
     @ okey ''id'' (blk_ID b \<noteq> []) (jstr (blk_ID b)) @ okey ''name'' (blk_Name b \<noteq> []) (jstr (blk_Name b))
     @ okey ''input'' (blk_Input b \<noteq> []) (blk_Input b)
     @ okey ''tool_use_id'' (blk_ToolUseID b \<noteq> []) (jstr (blk_ToolUseID b))
     @ okey ''content'' (blk_Content b \<noteq> []) (blk_Content b) @ okey ''is_error'' (blk_IsError b) ''true''"

definition block_kvs :: "AnthropicContentBlock \<Rightarrow> (go_string \<times> string) list" where
  "block_kvs b =
     (let head = (''type'', jstr (blk_Type b)) # ptr_kvs ''cache_control'' cc_kvs (blk_CacheControl b);
          txt = okey ''text'' (blk_Text b \<noteq> []) (jstr (blk_Text b));
          th = okey ''thinking'' (blk_Thinking b \<noteq> []) (jstr (blk_Thinking b))
      in if blk_Type b = ''text'' then (''text'', jstr (blk_Text b)) # head @ th @ tail_kvs b
         else if blk_Type b = ''thinking''
           then (''thinking'', jstr (blk_Thinking b)) # head @ txt @ tail_kvs b
         else head @ txt @ th @ tail_kvs b)"

lemma f_ptr_cc: "f_ptr_omit ''cache_control'' enc_AnthropicCacheControl p = Some (ptr_kvs ''cache_control'' cc_kvs p)"
  by (cases p) (simp_all add: f_ptr_omit_def f_val_def enc_cc ptr_kvs_def)

lemma f_ptr_src: "f_ptr_omit ''source'' enc_AnthropicImageSource p = Some (ptr_kvs ''source'' src_kvs p)"
  by (cases p) (simp_all add: f_ptr_omit_def f_val_def enc_src ptr_kvs_def)

lemma kv_ok_ptr:
  "utf8_ok k \<Longrightarrow> (\<And>x. list_all kv_ok (f x)) \<Longrightarrow> list_all kv_ok (ptr_kvs k f p)"
  by (cases p) (simp_all add: ptr_kvs_def jtext_jobj_ok)

lemma enc_block:
  assumes "wf_block b"
  shows "enc_AnthropicContentBlock b = Some (jobj (block_kvs b))"
proof -
  have "raw_ok (blk_Input b)" "raw_ok (blk_Content b)"
    using assms by (simp_all add: wf_block_def)
  then show ?thesis
    by (simp add: enc_AnthropicContentBlock_def block_fields_def enc_field_values f_ptr_cc f_ptr_src
        marshal_struct_Somes block_kvs_def tail_kvs_def)
qed

lemma block_kvs_ok: "wf_block b \<Longrightarrow> list_all kv_ok (block_kvs b)"
  by (auto simp: block_kvs_def tail_kvs_def wf_block_def raw_ok_def Let_def intro!: kv_ok_ptr cc_kvs_ok src_kvs_ok)

lemma block_field_raws:
  "field_raws ''type'' (block_kvs b) = [jstr (blk_Type b)]"
  "field_raws ''cache_control'' (block_kvs b)
     = (case blk_CacheControl b of None \<Rightarrow> [] | Some x \<Rightarrow> [jobj (cc_kvs x)])"
  "field_raws ''text'' (block_kvs b)
     = (if blk_Type b = ''text'' \<or> blk_Text b \<noteq> [] then [jstr (blk_Text b)] else [])"
  "field_raws ''thinking'' (block_kvs b)
     = (if blk_Type b = ''thinking'' \<or> blk_Thinking b \<noteq> [] then [jstr (blk_Thinking b)] else [])"
  "field_raws ''source'' (block_kvs b)
     = (case blk_Source b of None \<Rightarrow> [] | Some x \<Rightarrow> [jobj (src_kvs x)])"
  "field_raws ''id'' (block_kvs b) = (if blk_ID b \<noteq> [] then [jstr (blk_ID b)] else [])"
  "field_raws ''name'' (block_kvs b) = (if blk_Name b \<noteq> [] then [jstr (blk_Name b)] else [])"
  "field_raws ''input'' (block_kvs b) = (if blk_Input b \<noteq> [] then [blk_Input b] else [])"
  "field_raws ''tool_use_id'' (block_kvs b) = (if blk_ToolUseID b \<noteq> [] then [jstr (blk_ToolUseID b)] else [])"
  "field_raws ''content'' (block_kvs b) = (if blk_Content b \<noteq> [] then [blk_Content b] else [])"
  "field_raws ''is_error'' (block_kvs b) = (if blk_IsError b then [''true''] else [])"
  by (simp_all add: block_kvs_def tail_kvs_def Let_def)

lemma dec_field_str_either:
  "field_raws n kvs = (if c \<or> s \<noteq> [] then [jstr s] else []) \<Longrightarrow> utf8_ok s
     \<Longrightarrow> dec_field dec_string [] n kvs = Some s"
  by (cases "c \<or> s \<noteq> []") simp_all

lemma dec_block: "wf_block b \<Longrightarrow> dec_AnthropicContentBlock (jobj (block_kvs b)) = Some b"
proof -
  assume wf: "wf_block b"
  note w = wf [unfolded wf_block_def]
  note f = block_field_raws [of b]
  have cc: "dec_field (dec_ptr dec_AnthropicCacheControl \<lparr>cc_Type = [], cc_TTL = []\<rparr>) None
      ''cache_control'' (block_kvs b) = Some (blk_CacheControl b)"
    by (rule dec_field_ptr_opt [OF f(2)]) (use w in \<open>simp add: json_scan_jobj_ok cc_kvs_ok dec_cc\<close>)
  have src: "dec_field (dec_ptr dec_AnthropicImageSource
      \<lparr>src_Type = [], src_MediaType = [], src_Data = []\<rparr>) None ''source'' (block_kvs b) = Some (blk_Source b)"
    by (rule dec_field_ptr_opt [OF f(5)]) (use w in \<open>simp add: json_scan_jobj_ok src_kvs_ok dec_src\<close>)
  have strs: "dec_field dec_string [] ''type'' (block_kvs b) = Some (blk_Type b)"
    "dec_field dec_string [] ''text'' (block_kvs b) = Some (blk_Text b)"
    "dec_field dec_string [] ''thinking'' (block_kvs b) = Some (blk_Thinking b)"
    "dec_field dec_string [] ''id'' (block_kvs b) = Some (blk_ID b)"
    "dec_field dec_string [] ''name'' (block_kvs b) = Some (blk_Name b)"
    "dec_field dec_string [] ''tool_use_id'' (block_kvs b) = Some (blk_ToolUseID b)"
    using w dec_field_str [OF f(1)] dec_field_str_either [OF f(3)] dec_field_str_either [OF f(4)]
      dec_field_str_opt [OF f(6)] dec_field_str_opt [OF f(7)] dec_field_str_opt [OF f(9)]
    by simp_all
  show ?thesis
    by (simp add: dec_AnthropicContentBlock_def dec_struct_def json_scan_jobj_ok [OF block_kvs_ok [OF wf]] strs cc src
        dec_field_raw_opt [OF f(8)] dec_field_raw_opt [OF f(10)] dec_field_bool_opt [OF f(11)])
qed

interpretation block_codec: json_codec enc_AnthropicContentBlock dec_AnthropicContentBlock wf_block
  by unfold_locales (auto simp: enc_block dec_block jtext_jobj_ok block_kvs_ok)

end
