(* ===== verification/RespToAnthReq.thy ===== *)
theory RespToAnthReq
  imports AnthToResp
begin

text \<open>
  \<open>pkg/apicompat/responses_to_anthropic_request.go\<close>: a Responses request becomes an Anthropic
  Messages request. \<open>json.Marshal\<close> calls whose error the source drops give nil where they fail.
\<close>

definition or_nil :: "string option \<Rightarrow> RawMessage" where
  "or_nil x = (case x of None \<Rightarrow> [] | Some v \<Rightarrow> v)"

definition marshal_blocks :: "AnthropicContentBlock list \<Rightarrow> string option" where
  "marshal_blocks bs = map_option jslice (mapM_opt enc_AnthropicContentBlock bs)"

definition unmarshal_parts :: "RawMessage \<Rightarrow> ResponsesContentPart list option" where
  "unmarshal_parts raw = dec_slice dec_ResponsesContentPart raw"

definition unmarshal_items :: "RawMessage \<Rightarrow> ResponsesInputItem list option" where
  "unmarshal_items raw = dec_slice dec_ResponsesInputItem raw"

abbreviation text_block :: "go_string \<Rightarrow> AnthropicContentBlock" where
  "text_block t \<equiv> zero_block\<lparr>blk_Type := ''text'', blk_Text := t\<rparr>"

section \<open>Small helpers\<close>

definition defaultThinkingBudget :: "go_string \<Rightarrow> int" where
  "defaultThinkingBudget effort =
     (if effort = ''low'' then 1024 else if effort = ''medium'' then 4096
      else if effort = ''high'' then 10240 else if effort = ''max'' then 32768 else 10240)"

definition mapResponsesEffortToAnthropic :: "go_string \<Rightarrow> go_string" where
  "mapResponsesEffortToAnthropic effort = (if effort = ''xhigh'' then ''max'' else effort)"

definition fromResponsesCallIDToAnthropic :: "go_string \<Rightarrow> go_string" where
  "fromResponsesCallIDToAnthropic i =
     (case CutPrefix i ''fc_'' of (after, ok) \<Rightarrow>
        if ok \<and> (HasPrefix after ''toolu_'' \<or> HasPrefix after ''call_'') then after
        else if \<not> HasPrefix i ''toolu_'' \<and> \<not> HasPrefix i ''call_'' then ''toolu_'' @ i
        else i)"

definition dataURIToAnthropicImageSource :: "go_string \<Rightarrow> AnthropicImageSource option" where
  "dataURIToAnthropicImageSource dataURI =
     (if \<not> HasPrefix dataURI ''data:'' then None
      else (let rest = TrimPrefix dataURI ''data:'' in
            case IndexByte rest CHR '';'' of
              None \<Rightarrow> None
            | Some semicolonIdx \<Rightarrow>
                (let mediaType = take semicolonIdx rest;
                     rest = drop (semicolonIdx + 1) rest
                 in if \<not> HasPrefix rest ''base64,'' then None
                    else Some \<lparr>src_Type = ''base64'', src_MediaType = mediaType,
                           src_Data = TrimPrefix rest ''base64,''\<rparr>)))"

definition parseContentBlocks :: "RawMessage \<Rightarrow> AnthropicContentBlock list" where
  "parseContentBlocks raw =
     (case unmarshal_blocks raw of
        Some blocks \<Rightarrow> blocks
      | None \<Rightarrow> (case unmarshal_string raw of Some s \<Rightarrow> [text_block s] | None \<Rightarrow> []))"

text \<open>
  The loop of \<open>mergeConsecutiveMessages\<close>: \<open>merged\<close> is kept reversed, its head is the last message.
\<close>

fun merge_step :: "AnthropicMessage list \<Rightarrow> AnthropicMessage \<Rightarrow> AnthropicMessage list" where
  "merge_step [] msg = [msg]"
| "merge_step (prev # r) msg =
     (if am_Role prev \<noteq> am_Role msg then msg # prev # r
      else prev\<lparr>am_Content := or_nil (marshal_blocks
             (parseContentBlocks (am_Content prev) @ parseContentBlocks (am_Content msg)))\<rparr> # r)"

definition mergeConsecutiveMessages :: "AnthropicMessage list \<Rightarrow> AnthropicMessage list" where
  "mergeConsecutiveMessages messages =
     (if length messages \<le> 1 then messages else rev (foldl merge_step [] messages))"

section \<open>Content\<close>

definition extractTextFromContent :: "RawMessage \<Rightarrow> go_string" where
  "extractTextFromContent raw =
     (if raw = [] then []
      else (case unmarshal_string raw of
              Some s \<Rightarrow> s
            | None \<Rightarrow>
                (case unmarshal_parts raw of
                   Some parts \<Rightarrow>
                     Join (map rp_Text (filter (\<lambda>p. (rp_Type p = ''input_text'' \<or> rp_Type p = ''output_text''
                        \<or> rp_Type p = ''text'') \<and> rp_Text p \<noteq> []) parts)) (newline @ newline)
                 | None \<Rightarrow> [])))"

definition user_blocks_of :: "ResponsesContentPart \<Rightarrow> AnthropicContentBlock list" where
  "user_blocks_of p =
     (if rp_Type p = ''input_text'' \<or> rp_Type p = ''text''
      then (if rp_Text p \<noteq> [] then [text_block (rp_Text p)] else [])
      else if rp_Type p = ''input_image'' then
        (case dataURIToAnthropicImageSource (rp_ImageURL p) of
           None \<Rightarrow> []
         | Some src \<Rightarrow> [zero_block\<lparr>blk_Type := ''image'', blk_Source := Some src\<rparr>])
      else [])"

definition convertResponsesUserToAnthropicContent :: "RawMessage \<Rightarrow> RawMessage result" where
  "convertResponsesUserToAnthropicContent raw =
     (if raw = [] then Inr (jstr [])
      else (case unmarshal_string raw of
              Some s \<Rightarrow> Inr (jstr s)
            | None \<Rightarrow>
                (case unmarshal_parts raw of
                   None \<Rightarrow> Inr raw
                 | Some parts \<Rightarrow>
                     (let blocks = concat (map user_blocks_of parts)
                      in if blocks = [] then Inr (jstr []) else of_json (marshal_blocks blocks)))))"

definition assistant_blocks_of :: "ResponsesContentPart \<Rightarrow> AnthropicContentBlock list" where
  "assistant_blocks_of p =
     (if (rp_Type p = ''output_text'' \<or> rp_Type p = ''text'') \<and> rp_Text p \<noteq> []
      then [text_block (rp_Text p)] else [])"

definition convertResponsesAssistantToAnthropicContent :: "RawMessage \<Rightarrow> RawMessage result" where
  "convertResponsesAssistantToAnthropicContent raw =
     (if raw = [] then of_json (marshal_blocks [text_block []])
      else (case unmarshal_string raw of
              Some s \<Rightarrow> of_json (marshal_blocks [text_block s])
            | None \<Rightarrow>
                (case unmarshal_parts raw of
                   None \<Rightarrow> Inr raw
                 | Some parts \<Rightarrow>
                     (let blocks = concat (map assistant_blocks_of parts)
                      in of_json (marshal_blocks (if blocks = [] then [text_block []] else blocks))))))"

section \<open>Input\<close>

text \<open>One iteration of the loop over the input items: the system text set so far and the messages.\<close>

definition convert_item :: "RawMessage \<Rightarrow> AnthropicMessage list \<Rightarrow> ResponsesInputItem
    \<Rightarrow> (RawMessage \<times> AnthropicMessage list) result" where
  "convert_item system messages item =
     (if ri_Role item = ''system'' then
        (let text = extractTextFromContent (ri_Content item)
         in Inr (if text \<noteq> [] then jstr text else system, messages))
      else if ri_Type item = ''function_call'' then
        (let input = (if ri_Arguments item \<noteq> [] then ri_Arguments item else ''{}'');
             block = zero_block\<lparr>blk_Type := ''tool_use'',
                       blk_ID := fromResponsesCallIDToAnthropic (ri_CallID item),
                       blk_Name := ri_Name item, blk_Input := input\<rparr>
         in Inr (system, messages @ [\<lparr>am_Role = ''assistant'', am_Content = or_nil (marshal_blocks [block])\<rparr>]))
      else if ri_Type item = ''function_call_output'' then
        (let outputContent = (if ri_Output item = [] then ''(empty)'' else ri_Output item);
             block = zero_block\<lparr>blk_Type := ''tool_result'',
                       blk_ToolUseID := fromResponsesCallIDToAnthropic (ri_CallID item),
                       blk_Content := jstr outputContent\<rparr>
         in Inr (system, messages @ [\<lparr>am_Role = ''user'', am_Content = or_nil (marshal_blocks [block])\<rparr>]))
      else if ri_Role item = ''user'' then
        bind_res (convertResponsesUserToAnthropicContent (ri_Content item)) (\<lambda>content.
          Inr (system, messages @ [\<lparr>am_Role = ''user'', am_Content = content\<rparr>]))
      else if ri_Role item = ''assistant'' then
        bind_res (convertResponsesAssistantToAnthropicContent (ri_Content item)) (\<lambda>content.
          Inr (system, messages @ [\<lparr>am_Role = ''assistant'', am_Content = content\<rparr>]))
      else if ri_Content item \<noteq> [] then
        Inr (system, messages @ [\<lparr>am_Role = ''user'', am_Content = ri_Content item\<rparr>])
      else Inr (system, messages))"

fun convert_items :: "RawMessage \<Rightarrow> AnthropicMessage list \<Rightarrow> ResponsesInputItem list
    \<Rightarrow> (RawMessage \<times> AnthropicMessage list) result" where
  "convert_items system messages [] = Inr (system, messages)"
| "convert_items system messages (item # items) =
     bind_res (convert_item system messages item) (\<lambda>(system', messages').
       convert_items system' messages' items)"

definition convertResponsesInputToAnthropic ::
    "RawMessage \<Rightarrow> (RawMessage \<times> AnthropicMessage list) result" where
  "convertResponsesInputToAnthropic inputRaw =
     (case unmarshal_string inputRaw of
        Some inputStr \<Rightarrow> Inr ([], [\<lparr>am_Role = ''user'', am_Content = jstr inputStr\<rparr>])
      | None \<Rightarrow>
          (case unmarshal_items inputRaw of
             None \<Rightarrow> Inl (''parse responses input: '' @ json_err)
           | Some items \<Rightarrow>
               bind_res (convert_items [] [] items) (\<lambda>(system, messages).
                 Inr (system, mergeConsecutiveMessages messages))))"

section \<open>Tools\<close>

definition normalizeAnthropicInputSchema :: "RawMessage \<Rightarrow> RawMessage" where
  "normalizeAnthropicInputSchema schema =
     (if schema = [] \<or> schema = ''null'' then empty_schema else schema)"

definition convertResponsesToAnthropicTools :: "ResponsesTool list \<Rightarrow> AnthropicTool list" where
  "convertResponsesToAnthropicTools tools =
     map (\<lambda>t. if rtool_Type t = ''web_search'' \<or> rtool_Type t = ''google_search''
                \<or> rtool_Type t = ''web_search_20250305''
              then zero_tool\<lparr>at_Type := ''web_search_20250305'', at_Name := ''web_search''\<rparr>
              else if rtool_Type t = ''function'' then
                zero_tool\<lparr>at_Name := rtool_Name t, at_Description := rtool_Description t,
                  at_InputSchema := normalizeAnthropicInputSchema (rtool_Parameters t)\<rparr>
              else zero_tool\<lparr>at_Type := rtool_Type t, at_Name := rtool_Name t,
                  at_Description := rtool_Description t, at_InputSchema := rtool_Parameters t\<rparr>) tools"

definition dec_function_name :: "go_string \<Rightarrow> RawMessage \<Rightarrow> go_string option" where
  "dec_function_name old = dec_struct (\<lambda>kvs. dec_field dec_string old ''name'' kvs) old"

definition dec_function_choice :: "RawMessage \<Rightarrow> (go_string \<times> go_string \<times> go_string) option" where
  "dec_function_choice = dec_struct (\<lambda>kvs. do {
     t \<leftarrow> dec_field dec_string [] ''type'' kvs;
     n \<leftarrow> dec_field dec_string [] ''name'' kvs;
     f \<leftarrow> dec_field dec_function_name [] ''function'' kvs;
     Some (t, n, f) }) ([], [], [])"

definition convertResponsesToAnthropicToolChoice :: "RawMessage \<Rightarrow> RawMessage result" where
  "convertResponsesToAnthropicToolChoice raw =
     (case unmarshal_string raw of
        Some s \<Rightarrow>
          if s = ''auto'' then Inr (jobj [(''type'', jstr ''auto'')])
          else if s = ''required'' then Inr (jobj [(''type'', jstr ''any'')])
          else if s = ''none'' then Inr (jobj [(''type'', jstr ''none'')])
          else Inr raw
      | None \<Rightarrow>
          (case dec_function_choice raw of
             Some (typ, n, f) \<Rightarrow>
               if typ = ''function'' then
                 (let name = TrimSpace n;
                      name = (if name = [] then TrimSpace f else name)
                  in if name = [] then Inr raw
                     else Inr (jobj [(''name'', jstr name), (''type'', jstr ''tool'')]))
               else Inr raw
           | None \<Rightarrow> Inr raw))"

section \<open>The request\<close>

definition ResponsesToAnthropicRequest :: "ResponsesRequest \<Rightarrow> AnthropicRequest result" where
  "ResponsesToAnthropicRequest req =
     bind_res (convertResponsesInputToAnthropic (rreq_Input req)) (\<lambda>(system, messages).
       let out = zero_AnthropicRequest\<lparr>areq_Model := rreq_Model req, areq_Messages := messages,
                   areq_Temperature := rreq_Temperature req, areq_TopP := rreq_TopP req,
                   areq_Stream := rreq_Stream req\<rparr>;
           out = (if system \<noteq> [] then out\<lparr>areq_System := system\<rparr> else out);
           out = (case rreq_MaxOutputTokens req of
                    Some n \<Rightarrow> (if n > 0 then out\<lparr>areq_MaxTokens := n\<rparr> else out)
                  | None \<Rightarrow> out);
           out = (if areq_MaxTokens out = 0 then out\<lparr>areq_MaxTokens := 8192\<rparr> else out);
           out = (if rreq_Tools req \<noteq> []
                  then out\<lparr>areq_Tools := convertResponsesToAnthropicTools (rreq_Tools req)\<rparr> else out)
       in bind_res
            (if rreq_ToolChoice req \<noteq> [] then
               bind_res (wrap_err ''convert tool_choice''
                          (convertResponsesToAnthropicToolChoice (rreq_ToolChoice req)))
                 (\<lambda>tc. Inr (out\<lparr>areq_ToolChoice := tc\<rparr>))
             else Inr out)
            (\<lambda>out.
              case rreq_Reasoning req of
                Some r \<Rightarrow>
                  if rr_Effort r \<noteq> [] then
                    (let effort = mapResponsesEffortToAnthropic (rr_Effort r);
                         out = out\<lparr>areq_OutputConfig := Some \<lparr>aoc_Effort = effort\<rparr>\<rparr>
                     in Inr (if effort \<noteq> ''low''
                             then out\<lparr>areq_Thinking := Some \<lparr>ath_Type = ''enabled'',
                                        ath_BudgetTokens = defaultThinkingBudget effort\<rparr>\<rparr>
                             else out))
                  else Inr out
              | None \<Rightarrow> Inr out))"

end
