(* ===== verification/RequestFacts.thy ===== *)
theory RequestFacts
  imports ApiCodec RespToAnthReq
begin

text \<open>
  Properties of the request converters \<open>anthropic_to_responses.go\<close> and
  \<open>responses_to_anthropic_request.go\<close>: merging of messages, the round trip of a conversation and of a
  request, tool choices, ids, images and schemas.
\<close>

section \<open>Slices as text\<close>

context json_codec
begin

lemma slice_text:
  assumes "\<forall>v \<in> set vs. wf v" "vs \<noteq> []"
  obtains t where "map_option jslice (mapM_opt enc vs) = Some t" "jtext t" "t \<noteq> []"
    "unmarshal_string t = None" "dec_slice dec t = Some vs"
proof -
  obtain ts where ts: "mapM_opt enc vs = Some ts" "jtext (jarr ts)" "dec_slice dec (jarr ts) = Some vs"
    "length ts = length vs"
    using slice_roundtrip [OF assms(1)] by blast
  have "\<forall>t \<in> set ts. jtext t"
    using enc_list [OF assms(1)] ts(1) by auto
  then have "unmarshal_string (jarr ts) = None" by simp
  moreover have "ts \<noteq> []" using ts(4) assms(2) by auto
  ultimately show ?thesis
    using that [of "jarr ts"] ts by (simp add: jslice_jarr jarr_def)
qed

end

text \<open>The JSON text of a list of content blocks and what reading it gives.\<close>

definition blocks_text :: "AnthropicContentBlock list \<Rightarrow> RawMessage" where
  "blocks_text bs = or_nil (marshal_blocks bs)"

lemma unmarshal_null [simp]: "unmarshal_blocks ''null'' = Some []"
  by (simp add: unmarshal_blocks_def dec_slice_def unmarshal_array_def)

lemma blocks_text:
  assumes "list_all wf_block bs" "bs \<noteq> []"
  shows "marshal_blocks bs = Some (blocks_text bs)" "jtext (blocks_text bs)" "blocks_text bs \<noteq> []"
    "unmarshal_string (blocks_text bs) = None" "unmarshal_blocks (blocks_text bs) = Some bs"
proof -
  obtain t where "marshal_blocks bs = Some t" "jtext t" "t \<noteq> []" "unmarshal_string t = None"
    "unmarshal_blocks t = Some bs"
    using block_codec.slice_text [of bs] assms
    by (auto simp: list_all_iff marshal_blocks_def unmarshal_blocks_def)
  then show "marshal_blocks bs = Some (blocks_text bs)" "jtext (blocks_text bs)" "blocks_text bs \<noteq> []"
    "unmarshal_string (blocks_text bs) = None" "unmarshal_blocks (blocks_text bs) = Some bs"
    by (simp_all add: blocks_text_def or_nil_def)
qed

lemma parse_blocks_text [simp]: "list_all wf_block bs \<Longrightarrow> parseContentBlocks (blocks_text bs) = bs"
  by (cases "bs = []")
    (simp_all add: parseContentBlocks_def blocks_text(5), simp add: blocks_text_def marshal_blocks_def
      or_nil_def jslice_def)

text \<open>
C25. What is sent is what is read: input items and content blocks, marshalled as a JSON array and unmarshalled again,
are the same values, when their strings are valid UTF-8 and their raw JSON fields are absent or already in the form the
encoder writes: valid, without space between the tokens, and with \<open><\<close>, \<open>>\<close>, \<open>&\<close>, U+2028 and U+2029 escaped. (The encoder
replaces invalid bytes and brings other raw JSON into this form, so such values come back changed.)
\<close>
theorem json_roundtrip:
  assumes "list_all wf_item items" "list_all wf_block blocks"
  shows "Option.bind (marshal_items items) unmarshal_items = Some items
    \<and> Option.bind (marshal_blocks blocks) unmarshal_blocks = Some blocks"
proof
  show "Option.bind (marshal_items items) unmarshal_items = Some items"
  proof (cases "items = []")
    case False
    then obtain raw where "marshal_items items = Some raw" "unmarshal_items raw = Some items"
      using item_codec.slice_text [of items] assms(1)
      unfolding marshal_items_def unmarshal_items_def list_all_iff by blast
    then show ?thesis by simp
  next
    case True
    have "unmarshal_array ''null'' = Some []" by code_simp
    then show ?thesis using True by (simp add: marshal_items_def unmarshal_items_def jslice_def dec_slice_def)
  qed
  show "Option.bind (marshal_blocks blocks) unmarshal_blocks = Some blocks"
    using assms(2) by (cases "blocks = []") (simp_all add: blocks_text, simp add: marshal_blocks_def jslice_def)
qed

theorem json_roundtrip_witness:
  "Option.bind (marshal_items [zero_item\<lparr>ri_Type := ''message'', ri_Content := jstr ''hi''\<rparr>]) unmarshal_items
     = Some [zero_item\<lparr>ri_Type := ''message'', ri_Content := jstr ''hi''\<rparr>]
   \<and> Option.bind (marshal_blocks [text_block ''hi'']) unmarshal_blocks = Some [text_block ''hi'']"
  by (rule json_roundtrip)
    (simp_all add: wf_item_def zero_item_def raw_ok_def jtext_jstr wf_block_def zero_block_def utf8_ok_ascii)

section \<open>Merging consecutive messages\<close>

definition msg_blocks :: "AnthropicMessage \<Rightarrow> AnthropicContentBlock list" where
  "msg_blocks m = parseContentBlocks (am_Content m)"

definition tagged :: "AnthropicMessage list \<Rightarrow> (go_string \<times> AnthropicContentBlock) list" where
  "tagged ms = concat (map (\<lambda>m. map (Pair (am_Role m)) (msg_blocks m)) ms)"

lemma tagged_simps [simp]:
  "tagged [] = []"
  "tagged (m # ms) = map (Pair (am_Role m)) (msg_blocks m) @ tagged ms"
  "tagged (xs @ ys) = tagged xs @ tagged ys"
  by (simp_all add: tagged_def)

lemma merge_same:
  "am_Role prev = am_Role msg \<Longrightarrow>
     merge_step (prev # r) msg = \<lparr>am_Role = am_Role msg, am_Content = blocks_text (msg_blocks prev @ msg_blocks msg)\<rparr> # r"
  by (simp add: blocks_text_def msg_blocks_def)

abbreviation alternating :: "AnthropicMessage list \<Rightarrow> bool" where
  "alternating ms \<equiv> successively (\<lambda>a b. am_Role a \<noteq> am_Role b) ms"

lemma merge_step_keeps:
  assumes "list_all (\<lambda>m. list_all wf_block (msg_blocks m)) acc" "list_all wf_block (msg_blocks msg)" "alternating acc"
  shows "list_all (\<lambda>m. list_all wf_block (msg_blocks m)) (merge_step acc msg)
    \<and> tagged (rev (merge_step acc msg)) = tagged (rev acc) @ tagged [msg]
    \<and> alternating (merge_step acc msg)"
proof (cases acc)
  case Nil
  then show ?thesis using assms by simp
next
  case (Cons prev r)
  show ?thesis
  proof (cases "am_Role prev = am_Role msg")
    case True
    have wf: "list_all wf_block (msg_blocks prev @ msg_blocks msg)"
      using assms Cons by simp
    then have "msg_blocks \<lparr>am_Role = am_Role msg, am_Content = blocks_text (msg_blocks prev @ msg_blocks msg)\<rparr>
        = msg_blocks prev @ msg_blocks msg"
      by (simp add: msg_blocks_def)
    then show ?thesis
      using assms Cons True wf
      by (simp add: merge_same del: merge_step.simps) (cases r; simp)
  next
    case False
    then show ?thesis
      using assms Cons by (simp add: eq_commute)
  qed
qed

lemma merge_fold_keeps:
  assumes "list_all (\<lambda>m. list_all wf_block (msg_blocks m)) acc" "list_all (\<lambda>m. list_all wf_block (msg_blocks m)) ms" "alternating acc"
  shows "tagged (rev (foldl merge_step acc ms)) = tagged (rev acc) @ tagged ms
    \<and> alternating (foldl merge_step acc ms)"
  using assms
proof (induction ms arbitrary: acc)
  case Nil
  then show ?case by simp
next
  case (Cons m ms)
  then show ?case
    using merge_step_keeps [of acc m] Cons.IH [of "merge_step acc m"] by auto
qed

lemma alternating_rev: "alternating (rev ms) \<longleftrightarrow> alternating ms"
proof -
  have "(\<lambda>(a :: AnthropicMessage) (b :: AnthropicMessage). am_Role b \<noteq> am_Role a) = (\<lambda>a b. am_Role a \<noteq> am_Role b)" by (intro ext) auto
  then show ?thesis
    unfolding successively_rev by (rule arg_cong [where f = "\<lambda>P. successively P ms"])
qed

text \<open>
C23. Merging consecutive messages: the result alternates between roles, and the content blocks, each
with the role it was said in, are the same and in the same order.
\<close>
theorem merge_alternates_and_keeps:
  assumes "list_all (\<lambda>m. list_all wf_block (msg_blocks m)) ms"
  shows "alternating (mergeConsecutiveMessages ms) \<and> tagged (mergeConsecutiveMessages ms) = tagged ms"
proof (cases "length ms \<le> 1")
  case True
  then show ?thesis
    by (cases ms) (auto simp: mergeConsecutiveMessages_def)
next
  case False
  then show ?thesis
    using merge_fold_keeps [of "[]" ms] assms by (simp add: mergeConsecutiveMessages_def alternating_rev del: successively_rev)
qed

definition to_msg :: "go_string \<Rightarrow> AnthropicContentBlock list \<Rightarrow> AnthropicMessage" where
  "to_msg role bs = \<lparr>am_Role = role, am_Content = blocks_text bs\<rparr>"

lemma to_msg_sel [simp]: "am_Role (to_msg r bs) = r" "am_Content (to_msg r bs) = blocks_text bs"
  by (simp_all add: to_msg_def)

theorem merge_alternates_and_keeps_witness:
  "alternating (mergeConsecutiveMessages [to_msg ''user'' [text_block ''a''], to_msg ''user'' [text_block ''b'']])
   \<and> tagged (mergeConsecutiveMessages [to_msg ''user'' [text_block ''a''], to_msg ''user'' [text_block ''b'']])
     = tagged [to_msg ''user'' [text_block ''a''], to_msg ''user'' [text_block ''b'']]"
  by (rule merge_alternates_and_keeps)
    (simp add: msg_blocks_def wf_block_def zero_block_def raw_ok_def)

text \<open>Messages of one role, one per list of blocks, melt into one.\<close>

lemma merge_group:
  assumes "list_all wf_block bs" "list_all (list_all wf_block) bss"
  shows "foldl merge_step (to_msg r bs # rest) (map (to_msg r) bss) = to_msg r (bs @ concat bss) # rest"
  using assms
proof (induction bss arbitrary: bs)
  case Nil
  then show ?case by simp
next
  case (Cons b bss)
  have "merge_step (to_msg r bs # rest) (to_msg r b) = to_msg r (bs @ b) # rest"
    using Cons.prems by (simp add: merge_same msg_blocks_def to_msg_def del: merge_step.simps)
  then show ?case
    using Cons.IH [of "bs @ b"] Cons.prems by (simp del: merge_step.simps)
qed

type_synonym group = "go_string \<times> AnthropicContentBlock list list"

definition group_msgs :: "group \<Rightarrow> AnthropicMessage list" where
  "group_msgs g = map (to_msg (fst g)) (snd g)"

definition group_msg :: "group \<Rightarrow> AnthropicMessage" where
  "group_msg g = to_msg (fst g) (concat (snd g))"

definition wf_group :: "group \<Rightarrow> bool" where
  "wf_group g \<longleftrightarrow> snd g \<noteq> [] \<and> list_all (list_all wf_block) (snd g)"

lemma merge_groups_fold:
  assumes "list_all wf_group gs" "successively (\<lambda>a b. fst a \<noteq> fst b) gs"
    "acc = [] \<or> gs = [] \<or> am_Role (hd acc) \<noteq> fst (hd gs)"
  shows "foldl merge_step acc (concat (map group_msgs gs)) = rev (map group_msg gs) @ acc"
  using assms
proof (induction gs arbitrary: acc)
  case Nil
  then show ?case by simp
next
  case (Cons g gs)
  obtain r b bss where g: "g = (r, b # bss)"
    using Cons.prems(1) by (cases g; cases "snd g") (auto simp: wf_group_def)
  have "merge_step acc (to_msg r b) = to_msg r b # acc"
    using Cons.prems(3) g by (cases acc) auto
  then have "foldl merge_step acc (group_msgs g) = to_msg r (b @ concat bss) # acc"
    using Cons.prems(1) g merge_group [of b bss r acc]
    by (simp add: group_msgs_def wf_group_def del: merge_step.simps)
  then have "foldl merge_step acc (concat (map group_msgs (g # gs)))
      = foldl merge_step (group_msg g # acc) (concat (map group_msgs gs))"
    using g by (simp add: group_msg_def)
  also have "\<dots> = rev (map group_msg gs) @ group_msg g # acc"
    using Cons.prems by (intro Cons.IH) (cases gs; simp add: group_msg_def)+
  finally show ?case by simp
qed

lemma merge_groups:
  assumes "list_all wf_group gs" "successively (\<lambda>a b. fst a \<noteq> fst b) gs"
  shows "mergeConsecutiveMessages (concat (map group_msgs gs)) = map group_msg gs"
proof (cases "length (concat (map group_msgs gs)) \<le> 1")
  case False
  then show ?thesis
    using merge_groups_fold [OF assms, of "[]"] by (simp add: mergeConsecutiveMessages_def)
next
  case True
  have "gs = [] \<or> (\<exists>r b. gs = [(r, [b])])"
  proof (cases gs)
    case (Cons g gs')
    obtain r b bss where g: "g = (r, b # bss)"
      using assms(1) Cons by (cases g; cases "snd g") (auto simp: wf_group_def)
    have "gs' = []"
    proof (rule ccontr)
      assume "gs' \<noteq> []"
      then obtain h hs where "gs' = h # hs" by (cases gs') auto
      moreover from this have "snd h \<noteq> []" using assms(1) Cons by (simp add: wf_group_def)
      ultimately show False using True Cons g by (cases h; cases "snd h") (auto simp: group_msgs_def)
    qed
    then show ?thesis using True Cons g by (simp add: group_msgs_def)
  qed simp
  then show ?thesis
    by (auto simp: mergeConsecutiveMessages_def group_msgs_def group_msg_def)
qed

section \<open>Round trip of a conversation\<close>

text \<open>
  The turns of a conversation that both APIs can say: the user answers tool calls and says text and
  images, the assistant says one text and calls tools.
\<close>

datatype said = Said go_string | Showed go_string go_string

datatype turn = UserTurn "(go_string \<times> go_string) list" "said list"
  | AssistantTurn go_string "(go_string \<times> go_string \<times> RawMessage) list"

definition result_block :: "go_string \<times> go_string \<Rightarrow> AnthropicContentBlock" where
  "result_block x = zero_block\<lparr>blk_Type := ''tool_result'', blk_ToolUseID := fst x, blk_Content := jstr (snd x)\<rparr>"

fun said_block :: "said \<Rightarrow> AnthropicContentBlock" where
  "said_block (Said t) = text_block t"
| "said_block (Showed mt d) = zero_block\<lparr>blk_Type := ''image'',
     blk_Source := Some \<lparr>src_Type = ''base64'', src_MediaType = mt, src_Data = d\<rparr>\<rparr>"

definition call_block :: "go_string \<times> go_string \<times> RawMessage \<Rightarrow> AnthropicContentBlock" where
  "call_block x = zero_block\<lparr>blk_Type := ''tool_use'', blk_ID := fst x, blk_Name := fst (snd x),
     blk_Input := snd (snd x)\<rparr>"

fun turn_blocks :: "turn \<Rightarrow> AnthropicContentBlock list" where
  "turn_blocks (UserTurn xs ys) = map result_block xs @ map said_block ys"
| "turn_blocks (AssistantTurn t zs) = (if t = [] then [] else [text_block t]) @ map call_block zs"

fun turn_role :: "turn \<Rightarrow> go_string" where
  "turn_role (UserTurn _ _) = ''user''"
| "turn_role (AssistantTurn _ _) = ''assistant''"

definition turn_msg :: "turn \<Rightarrow> AnthropicMessage" where
  "turn_msg t = to_msg (turn_role t) (turn_blocks t)"

definition ok_id :: "go_string \<Rightarrow> bool" where
  "ok_id i \<longleftrightarrow> utf8_ok i \<and> (HasPrefix i ''toolu_'' \<or> HasPrefix i ''call_'')"

fun ok_said :: "said \<Rightarrow> bool" where
  "ok_said (Said t) \<longleftrightarrow> t \<noteq> [] \<and> utf8_ok t"
| "ok_said (Showed mt d) \<longleftrightarrow> mt \<noteq> [] \<and> CHR '';'' \<notin> set mt \<and> d \<noteq> [] \<and> utf8_ok mt \<and> utf8_ok d
     \<and> utf8_ok (''data:'' @ mt @ '';base64,'' @ d)"

fun ok_turn :: "turn \<Rightarrow> bool" where
  "ok_turn (UserTurn xs ys) \<longleftrightarrow> (xs \<noteq> [] \<or> ys \<noteq> [])
     \<and> list_all (\<lambda>x. ok_id (fst x) \<and> snd x \<noteq> [] \<and> utf8_ok (snd x)) xs \<and> list_all ok_said ys"
| "ok_turn (AssistantTurn t zs) \<longleftrightarrow> (t \<noteq> [] \<or> zs \<noteq> []) \<and> utf8_ok t
     \<and> list_all (\<lambda>x. ok_id (fst x) \<and> utf8_ok (fst (snd x)) \<and> jtext (snd (snd x)) \<and> utf8_ok (snd (snd x))) zs"

text \<open>The input items of a turn, and the parts of what the user says.\<close>

fun said_part :: "said \<Rightarrow> ResponsesContentPart" where
  "said_part (Said t) = text_part ''input_text'' t"
| "said_part (Showed mt d) = image_part (''data:'' @ mt @ '';base64,'' @ d)"

definition parts_text :: "ResponsesContentPart list \<Rightarrow> RawMessage" where
  "parts_text ps = or_nil (marshal_parts ps)"

definition result_item :: "go_string \<times> go_string \<Rightarrow> ResponsesInputItem" where
  "result_item x = zero_item\<lparr>ri_Type := ''function_call_output'', ri_CallID := fst x, ri_Output := snd x\<rparr>"

definition call_item :: "go_string \<times> go_string \<times> RawMessage \<Rightarrow> ResponsesInputItem" where
  "call_item x = zero_item\<lparr>ri_Type := ''function_call'', ri_CallID := fst x, ri_Name := fst (snd x),
     ri_Arguments := snd (snd x)\<rparr>"

fun turn_items :: "turn \<Rightarrow> ResponsesInputItem list" where
  "turn_items (UserTurn xs ys) = map result_item xs
     @ (if ys = [] then [] else [message_item ''user'' (parts_text (map said_part ys))])"
| "turn_items (AssistantTurn t zs) =
     (if t = [] then [] else [message_item ''assistant'' (parts_text [text_part ''output_text'' t])])
     @ map call_item zs"

lemma parts_text:
  assumes "list_all wf_part ps" "ps \<noteq> []"
  shows "marshal_parts ps = Some (parts_text ps)" "jtext (parts_text ps)" "parts_text ps \<noteq> []"
    "unmarshal_string (parts_text ps) = None" "unmarshal_parts (parts_text ps) = Some ps"
proof -
  obtain t where "marshal_parts ps = Some t" "jtext t" "t \<noteq> []" "unmarshal_string t = None"
    "unmarshal_parts t = Some ps"
    using part_codec.slice_text [of ps] assms
    by (auto simp: list_all_iff marshal_parts_def unmarshal_parts_def)
  then show "marshal_parts ps = Some (parts_text ps)" "jtext (parts_text ps)" "parts_text ps \<noteq> []"
    "unmarshal_string (parts_text ps) = None" "unmarshal_parts (parts_text ps) = Some ps"
    by (simp_all add: parts_text_def or_nil_def)
qed

lemma wf_blocks:
  "ok_id (fst x) \<and> utf8_ok (snd x) \<Longrightarrow> wf_block (result_block x)"
  "ok_said y \<Longrightarrow> wf_block (said_block y)"
  "ok_id (fst z) \<and> utf8_ok (fst (snd z)) \<and> jtext (snd (snd z)) \<Longrightarrow> wf_block (call_block z)"
  "utf8_ok t \<Longrightarrow> wf_block (text_block t)"
  by (cases y; auto simp: wf_block_def wf_src_def zero_block_def raw_ok_def ok_id_def result_block_def
      call_block_def jtext_jstr)+

lemma wf_said_part: "ok_said y \<Longrightarrow> wf_part (said_part y)"
  by (cases y) (auto simp: wf_part_def)

lemma turn_blocks_ok: "ok_turn t \<Longrightarrow> list_all wf_block (turn_blocks t) \<and> turn_blocks t \<noteq> []"
  by (cases t) (auto simp: list_all_iff intro!: wf_blocks)

subsection \<open>There\<close>

lemma result_block_sel [simp]:
  "blk_Type (result_block x) = ''tool_result''" "blk_ToolUseID (result_block x) = fst x"
  "blk_Content (result_block x) = jstr (snd x)"
  by (simp_all add: result_block_def)

lemma call_block_sel [simp]:
  "blk_Type (call_block z) = ''tool_use''" "blk_ID (call_block z) = fst z"
  "blk_Name (call_block z) = fst (snd z)" "blk_Input (call_block z) = snd (snd z)"
  by (simp_all add: call_block_def)

lemma said_block_type [simp]: "blk_Type (said_block y) \<noteq> ''tool_result''"
  by (cases y) simp_all

lemma jstr_nonempty [simp]: "jstr s \<noteq> []"
  by (simp add: jstr_def)

lemma tool_result_output:
  "snd x \<noteq> [] \<Longrightarrow> utf8_ok (snd x) \<Longrightarrow> convertToolResultOutput (result_block x) = (snd x, [])"
  by (simp add: convertToolResultOutput_def)

lemma user_parts_said: "ok_said y \<Longrightarrow> user_parts_of (said_block y) = [said_part y]"
  by (cases y) (auto simp: user_parts_of_def image_parts_of_def anthropicImageToDataURI_def zero_block_def)

lemma user_parts_result: "user_parts_of (result_block x) = []"
  by (simp add: user_parts_of_def image_parts_of_def)

lemma tool_results_turn: "tool_results (map result_block xs @ map said_block ys) = map result_block xs"
proof -
  have "filter (\<lambda>b. blk_Type b = ''tool_result'') (map said_block ys) = []"
    by (simp add: filter_empty_conv)
  moreover have "filter (\<lambda>b. blk_Type b = ''tool_result'') (map result_block xs) = map result_block xs"
    by (simp add: filter_id_conv)
  ultimately show ?thesis by (simp add: tool_results_def)
qed

lemma user_turn_items:
  assumes "ok_turn (UserTurn xs ys)"
  shows "anthropicMsgToResponsesItems (turn_msg (UserTurn xs ys)) = Inr (turn_items (UserTurn xs ys))"
proof -
  let ?bs = "map result_block xs @ map said_block ys"
  have bs: "list_all wf_block ?bs" "?bs \<noteq> []"
    using turn_blocks_ok [OF assms] by simp_all
  have out: "map (\<lambda>b. zero_item\<lparr>ri_Type := ''function_call_output'', ri_CallID := toResponsesCallID (blk_ToolUseID b),
      ri_Output := fst (convertToolResultOutput b)\<rparr>) (map result_block xs) = map result_item xs"
    using assms by (auto simp: list_all_iff tool_result_output result_item_def toResponsesCallID_def)
  have none: "concat (map (\<lambda>b. snd (convertToolResultOutput b)) (map result_block xs)) = []"
    using assms by (auto simp: list_all_iff tool_result_output)
  have parts: "concat (map user_parts_of ?bs) = map said_part ys"
  proof -
    have "concat (map user_parts_of (map result_block xs)) = []"
      by (simp add: user_parts_result)
    moreover have "list_all ok_said ys \<Longrightarrow> concat (map user_parts_of (map said_block ys)) = map said_part ys"
      by (induction ys) (auto simp: user_parts_said)
    ultimately show ?thesis using assms by simp
  qed
  have marshal: "ys \<noteq> [] \<Longrightarrow> marshal_parts (map said_part ys) = Some (parts_text (map said_part ys))"
    using assms by (intro parts_text) (auto simp: list_all_iff wf_said_part)
  have "anthropicUserToResponses (blocks_text ?bs) =
      (if map said_part ys @ [] \<noteq> [] then
         bind_res (of_json (marshal_parts (map said_part ys @ []))) (\<lambda>content.
           Inr (map result_item xs @ [message_item ''user'' content]))
       else Inr (map result_item xs))"
    by (simp only: anthropicUserToResponses_def blocks_text(4,5) [OF bs] option.case of_json_simps
        bind_res_simps Let_def tool_results_turn out none parts)
  then show ?thesis
    using marshal by (simp add: anthropicMsgToResponsesItems_def turn_msg_def)
qed

lemma extract_text:
  "t \<noteq> [] \<Longrightarrow> extractAnthropicTextFromBlocks (text_block t # map call_block zs) = t"
  "extractAnthropicTextFromBlocks (map call_block zs) = []"
proof -
  have "filter (\<lambda>b. blk_Type b = ''text'' \<and> blk_Text b \<noteq> []) (map call_block zs) = []"
    by (simp add: filter_empty_conv)
  then show "t \<noteq> [] \<Longrightarrow> extractAnthropicTextFromBlocks (text_block t # map call_block zs) = t"
    "extractAnthropicTextFromBlocks (map call_block zs) = []"
    by (simp_all add: extractAnthropicTextFromBlocks_def)
qed

lemma assistant_turn_items:
  assumes "ok_turn (AssistantTurn t zs)"
  shows "anthropicMsgToResponsesItems (turn_msg (AssistantTurn t zs)) = Inr (turn_items (AssistantTurn t zs))"
proof -
  let ?bs = "(if t = [] then [] else [text_block t]) @ map call_block zs"
  have bs: "list_all wf_block ?bs" "?bs \<noteq> []"
    using turn_blocks_ok [OF assms] by simp_all
  have calls: "filter (\<lambda>b. blk_Type b = ''tool_use'') ?bs = map call_block zs"
    by (auto simp: filter_id_conv)
  have items: "map function_call_item (map call_block zs) = map call_item zs"
    using assms by (auto simp: list_all_iff function_call_item_def call_item_def toResponsesCallID_def dest: jtextD(4))
  have "t \<noteq> [] \<Longrightarrow> marshal_parts [text_part ''output_text'' t] = Some (parts_text [text_part ''output_text'' t])"
    using assms by (intro parts_text) (auto simp: wf_part_def)
  then show ?thesis
    using blocks_text [OF bs] calls items extract_text
    by (simp add: anthropicMsgToResponsesItems_def turn_msg_def anthropicAssistantToResponses_def Let_def
        del: map_map)
qed

lemma turn_to_items: "ok_turn t \<Longrightarrow> anthropicMsgToResponsesItems (turn_msg t) = Inr (turn_items t)"
  by (cases t) (simp_all only: user_turn_items assistant_turn_items)

subsection \<open>And back\<close>

fun turn_group :: "turn \<Rightarrow> group" where
  "turn_group (UserTurn xs ys) = (''user'', map (\<lambda>x. [result_block x]) xs
     @ (if ys = [] then [] else [map said_block ys]))"
| "turn_group (AssistantTurn t zs) = (''assistant'', (if t = [] then [] else [[text_block t]])
     @ map (\<lambda>z. [call_block z]) zs)"

lemma group_msg_turn: "group_msg (turn_group t) = turn_msg t"
  by (cases t) (auto simp: group_msg_def turn_msg_def)

lemma fst_turn_group [simp]: "fst (turn_group t) = turn_role t"
  by (cases t) auto

lemma wf_turn_group: "ok_turn t \<Longrightarrow> wf_group (turn_group t)"
  by (cases t) (auto simp: wf_group_def list_all_iff intro!: wf_blocks)

lemma ok_id_back: "ok_id i \<Longrightarrow> fromResponsesCallIDToAnthropic i = i"
  by (auto simp: ok_id_def fromResponsesCallIDToAnthropic_def CutPrefix_def HasPrefix_iff)

lemma image_source_back:
  "CHR '';'' \<notin> set mt \<Longrightarrow> dataURIToAnthropicImageSource (''data:'' @ mt @ '';base64,'' @ d)
     = Some \<lparr>src_Type = ''base64'', src_MediaType = mt, src_Data = d\<rparr>"
  using IndexByte_append [of "CHR '';''" mt "''base64,'' @ d"]
    HasPrefix_append [of "''data:''" "mt @ '';base64,'' @ d"]
    TrimPrefix_append [of "''data:''" "mt @ '';base64,'' @ d"]
    HasPrefix_append [of "''base64,''" d] TrimPrefix_append [of "''base64,''" d]
  by (simp add: dataURIToAnthropicImageSource_def Let_def del: append_Cons append_Nil HasPrefix_append
      TrimPrefix_append) simp

lemma said_block_back: "ok_said y \<Longrightarrow> user_blocks_of (said_part y) = [said_block y]"
  by (cases y) (auto simp: user_blocks_of_def image_source_back [simplified])

lemma said_blocks_back: "list_all ok_said ys \<Longrightarrow> concat (map user_blocks_of (map said_part ys)) = map said_block ys"
  by (induction ys) (auto simp: said_block_back)

lemma zero_item_sel [simp]:
  "ri_Role zero_item = []" "ri_Type zero_item = []" "ri_Content zero_item = []"
  by (simp_all add: zero_item_def)

lemma convert_result_item:
  assumes "ok_id (fst x)" "snd x \<noteq> []"
  shows "convert_item system ms (result_item x) = Inr (system, ms @ [to_msg ''user'' [result_block x]])"
  using assms by (simp add: convert_item_def result_item_def ok_id_back to_msg_def blocks_text_def result_block_def)

lemma convert_call_item:
  assumes "ok_id (fst z)" "snd (snd z) \<noteq> []"
  shows "convert_item system ms (call_item z) = Inr (system, ms @ [to_msg ''assistant'' [call_block z]])"
  using assms by (simp add: convert_item_def call_item_def ok_id_back to_msg_def blocks_text_def call_block_def)

lemma convert_user_item:
  assumes "list_all ok_said ys" "ys \<noteq> []"
  shows "convert_item system ms (message_item ''user'' (parts_text (map said_part ys)))
       = Inr (system, ms @ [to_msg ''user'' (map said_block ys)])"
proof -
  have "list_all wf_part (map said_part ys)" "map said_part ys \<noteq> []"
    using assms by (auto simp: list_all_iff wf_said_part)
  note p = parts_text [OF this]
  have b: "marshal_blocks (map said_block ys) = Some (blocks_text (map said_block ys))"
    using assms by (intro blocks_text) (auto simp: list_all_iff wf_blocks)
  have "convertResponsesUserToAnthropicContent (parts_text (map said_part ys)) = Inr (blocks_text (map said_block ys))"
    using p(3) assms(2)
    by (simp only: convertResponsesUserToAnthropicContent_def p(4,5) option.case if_False Let_def
        said_blocks_back [OF assms(1)] b of_json_simps) simp
  then show ?thesis
    by (simp add: convert_item_def message_item_def to_msg_def)
qed

lemma convert_assistant_item:
  assumes "t \<noteq> []" "utf8_ok t"
  shows "convert_item system ms (message_item ''assistant'' (parts_text [text_part ''output_text'' t]))
       = Inr (system, ms @ [to_msg ''assistant'' [text_block t]])"
proof -
  have "list_all wf_part [text_part ''output_text'' t]" "[text_part ''output_text'' t] \<noteq> []"
    using assms by (auto simp: wf_part_def)
  note p = parts_text [OF this]
  have b: "marshal_blocks [text_block t] = Some (blocks_text [text_block t])"
    using assms by (intro blocks_text) (auto simp: wf_blocks)
  have "convertResponsesAssistantToAnthropicContent (parts_text [text_part ''output_text'' t]) = Inr (blocks_text [text_block t])"
    using p(3) assms(1) b
    by (simp add: convertResponsesAssistantToAnthropicContent_def p(4,5) assistant_blocks_of_def)
  then show ?thesis
    by (simp add: convert_item_def message_item_def to_msg_def)
qed

lemma convert_items_append:
  "convert_items system ms (xs @ ys) =
     bind_res (convert_items system ms xs) (\<lambda>(system', ms'). convert_items system' ms' ys)"
  by (induction xs arbitrary: system ms) (auto simp: bind_res_def split: sum.split)

lemma convert_items_map:
  assumes "\<And>x system ms. x \<in> set xs \<Longrightarrow> convert_item system ms (f x) = Inr (system, ms @ [g x])"
  shows "convert_items system ms (map f xs) = Inr (system, ms @ map g xs)"
  using assms by (induction xs arbitrary: ms) auto

lemma convert_turn:
  assumes "ok_turn t"
  shows "convert_items system ms (turn_items t) = Inr (system, ms @ group_msgs (turn_group t))"
proof (cases t)
  case (UserTurn xs ys)
  have "convert_items system ms (map result_item xs) = Inr (system, ms @ map (\<lambda>x. to_msg ''user'' [result_block x]) xs)"
    using assms UserTurn by (intro convert_items_map convert_result_item) (auto simp: list_all_iff)
  then show ?thesis
    using assms UserTurn
    by (auto simp: convert_items_append convert_user_item group_msgs_def o_def)
next
  case (AssistantTurn u zs)
  have calls: "\<And>ms. convert_items system ms (map call_item zs) = Inr (system, ms @ map (\<lambda>z. to_msg ''assistant'' [call_block z]) zs)"
    using assms AssistantTurn by (intro convert_items_map convert_call_item) (auto simp: list_all_iff dest: jtextD(4))
  show ?thesis
    using assms AssistantTurn
    by (auto simp: convert_assistant_item calls group_msgs_def o_def)
qed

lemma convert_turns:
  assumes "list_all ok_turn ts"
  shows "convert_items system ms (concat (map turn_items ts)) = Inr (system, ms @ concat (map (group_msgs \<circ> turn_group) ts))"
  using assms by (induction ts arbitrary: ms) (auto simp: convert_items_append convert_turn)

lemma wf_turn_items: "ok_turn t \<Longrightarrow> list_all wf_item (turn_items t) \<and> turn_items t \<noteq> []"
proof (cases t)
  case (UserTurn xs ys)
  assume t: "ok_turn t"
  have "ys \<noteq> [] \<Longrightarrow> jtext (parts_text (map said_part ys))"
    using t UserTurn by (intro parts_text) (auto simp: list_all_iff wf_said_part)
  then show ?thesis
    using t UserTurn
    by (auto simp: list_all_iff wf_item_def result_item_def message_item_def zero_item_def raw_ok_def ok_id_def)
next
  case (AssistantTurn u zs)
  assume t: "ok_turn t"
  have "u \<noteq> [] \<Longrightarrow> jtext (parts_text [text_part ''output_text'' u])"
    using t AssistantTurn by (intro parts_text) (auto simp: wf_part_def)
  then show ?thesis
    using t AssistantTurn
    by (auto simp: list_all_iff wf_item_def call_item_def message_item_def zero_item_def raw_ok_def ok_id_def)
qed

text \<open>Roles alternate from turn to turn.\<close>

abbreviation conversation :: "turn list \<Rightarrow> bool" where
  "conversation ts \<equiv> ts \<noteq> [] \<and> list_all ok_turn ts \<and> successively (\<lambda>a b. turn_role a \<noteq> turn_role b) ts"

lemma items_of_turns:
  "list_all ok_turn ts \<Longrightarrow> mapM_res anthropicMsgToResponsesItems (map turn_msg ts) = Inr (map turn_items ts)"
  by (induction ts) (auto simp: turn_to_items)

lemma turns_marshal:
  assumes "conversation ts"
  obtains raw where "marshal_items (concat (map turn_items ts)) = Some raw" "raw \<noteq> []"
    "unmarshal_string raw = None" "unmarshal_items raw = Some (concat (map turn_items ts))"
proof -
  have "\<forall>i \<in> set (concat (map turn_items ts)). wf_item i" "concat (map turn_items ts) \<noteq> []"
    using assms wf_turn_items by (cases ts; fastforce simp: list_all_iff)+
  then show ?thesis
    using that item_codec.slice_text [of "concat (map turn_items ts)"]
    by (metis marshal_items_def unmarshal_items_def)
qed

lemma turns_back:
  assumes "conversation ts" "unmarshal_string raw = None" "unmarshal_items raw = Some (concat (map turn_items ts))"
  shows "convertResponsesInputToAnthropic raw = Inr ([], map turn_msg ts)"
proof -
  have "successively (\<lambda>a b. fst a \<noteq> fst b) (map turn_group ts)"
    using assms(1) by (simp add: successively_map)
  moreover have "list_all wf_group (map turn_group ts)"
    using assms(1) by (auto simp: list_all_iff wf_turn_group)
  ultimately have "mergeConsecutiveMessages (concat (map group_msgs (map turn_group ts))) = map group_msg (map turn_group ts)"
    by (rule merge_groups [rotated])
  then show ?thesis
    using assms by (simp add: convertResponsesInputToAnthropic_def convert_turns group_msg_turn o_def)
qed

text \<open>
Round trip of a conversation: turns written as Anthropic messages, converted to Responses input,
sent as JSON and converted back give the same Anthropic messages, byte for byte.
\<close>
theorem conversation_roundtrip:
  assumes "conversation ts"
  shows "bind_res (convertAnthropicToResponsesInput [] (map turn_msg ts)) (\<lambda>items.
           bind_res (of_json (marshal_items items)) convertResponsesInputToAnthropic) = Inr ([], map turn_msg ts)"
proof -
  obtain raw where "marshal_items (concat (map turn_items ts)) = Some raw"
    "unmarshal_string raw = None" "unmarshal_items raw = Some (concat (map turn_items ts))"
    using turns_marshal [OF assms] .
  then show ?thesis
    using assms turns_back [OF assms]
    by (simp add: convertAnthropicToResponsesInput_def items_of_turns)
qed

definition demo_turns :: "turn list" where
  "demo_turns = [UserTurn [] [Said ''hi'', Showed ''image/png'' ''AAAA''],
     AssistantTurn ''ok'' [(''toolu_1'', ''Bash'', ''{}'')],
     UserTurn [(''toolu_1'', ''done'')] [Said ''thanks'']]"

lemma demo_conversation: "conversation demo_turns"
  by (simp add: demo_turns_def ok_id_def HasPrefix_def utf8_ok_ascii jtext_jobj [of "[]", unfolded jobj_def, simplified])

theorem conversation_roundtrip_witness:
  "bind_res (convertAnthropicToResponsesInput [] (map turn_msg demo_turns)) (\<lambda>items.
     bind_res (of_json (marshal_items items)) convertResponsesInputToAnthropic) = Inr ([], map turn_msg demo_turns)"
  by (rule conversation_roundtrip) (rule demo_conversation)

section \<open>Tool choices\<close>

definition choice :: "go_string \<Rightarrow> RawMessage" where
  "choice t = jobj [(''type'', jstr t)]"

definition tool_choice :: "go_string \<Rightarrow> RawMessage" where
  "tool_choice n = jobj [(''name'', jstr n), (''type'', jstr ''tool'')]"

lemma dec_choice: "utf8_ok t \<Longrightarrow> dec_tool_choice (choice t) = Some (t, [])"
  by (simp add: dec_tool_choice_def choice_def dec_struct_def json_scan_jobj jtext_jstr
      dec_field_str [where s = t] field_raws_def)

lemma fold_function [simp]: "fold_name ''function'' = ''FUNCTION''"
  by code_simp

lemma scan_named:
  "utf8_ok t \<Longrightarrow> utf8_ok n \<Longrightarrow> json_scan (jobj [(''name'', jstr n), (''type'', jstr t)])
     = Some (VObj [(''name'', jstr n), (''type'', jstr t)])"
  by (simp add: json_scan_jobj jtext_jstr)

lemma dec_tool_named:
  "utf8_ok n \<Longrightarrow> dec_tool_choice (tool_choice n) = Some (''tool'', n)"
  by (simp add: dec_tool_choice_def tool_choice_def dec_struct_def scan_named
      dec_field_str [where s = n] dec_field_str [where s = "''tool''"])

lemma dec_function_named:
  "utf8_ok n \<Longrightarrow> dec_function_choice (jobj [(''name'', jstr n), (''type'', jstr ''function'')])
     = Some (''function'', n, [])"
  by (simp add: dec_function_choice_def dec_struct_def scan_named
      dec_field_str [where s = n] dec_field_str [where s = "''function''"])

lemma named_not_string:
  "utf8_ok n \<Longrightarrow> unmarshal_string (jobj [(''name'', jstr n), (''type'', jstr ''function'')]) = None"
  by (simp add: unmarshal_string_def dec_string_def scan_named)

definition choice_back :: "RawMessage \<Rightarrow> RawMessage result" where
  "choice_back raw = bind_res (convertAnthropicToolChoiceToResponses raw) convertResponsesToAnthropicToolChoice"

lemma choice_back_mode:
  "t = ''auto'' \<or> t = ''any'' \<or> t = ''none'' \<Longrightarrow> choice_back (choice t) = Inr (choice t)"
  by (elim disjE) (simp_all add: choice_back_def convertAnthropicToolChoiceToResponses_def dec_choice
      convertResponsesToAnthropicToolChoice_def, simp_all add: choice_def)

lemma choice_back_tool:
  assumes "utf8_ok n" "n \<noteq> []" "TrimSpace n = n"
  shows "choice_back (tool_choice n) = Inr (tool_choice n)"
  using assms
  by (simp add: choice_back_def convertAnthropicToolChoiceToResponses_def dec_tool_named
      convertResponsesToAnthropicToolChoice_def named_not_string dec_function_named Let_def)
    (simp add: tool_choice_def)

text \<open>
Tool choices survive the way to Responses and back: the three modes and a named tool come back
byte for byte.
\<close>
theorem tool_choice_roundtrip:
  assumes "utf8_ok n" "n \<noteq> []" "TrimSpace n = n"
  shows "choice_back (choice ''auto'') = Inr (choice ''auto'') \<and> choice_back (choice ''any'') = Inr (choice ''any'')
    \<and> choice_back (choice ''none'') = Inr (choice ''none'') \<and> choice_back (tool_choice n) = Inr (tool_choice n)"
  using choice_back_mode choice_back_tool [OF assms] by simp

theorem tool_choice_roundtrip_witness:
  "choice_back (choice ''auto'') = Inr (choice ''auto'') \<and> choice_back (choice ''any'') = Inr (choice ''any'')
    \<and> choice_back (choice ''none'') = Inr (choice ''none'') \<and> choice_back (tool_choice ''Bash'') = Inr (tool_choice ''Bash'')"
proof (rule tool_choice_roundtrip)
  show "utf8_ok ''Bash''" by (simp add: utf8_ok_ascii)
  show "TrimSpace ''Bash'' = ''Bash''" by code_simp
qed simp

section \<open>Tool schemas\<close>


definition sorted_members :: "(go_string \<times> RawMessage) list \<Rightarrow> (go_string \<times> RawMessage) list" where
  "sorted_members kvs = map (\<lambda>k. (k, map_get kvs k)) (sort (remdups (map fst kvs)))"

lemma map_get_in:
  assumes "list_all kv_ok kvs" "k \<in> fst ` set kvs"
  shows "jtext (map_get kvs k)" "utf8_ok k"
proof -
  obtain v where v: "map_of (rev kvs) k = Some v"
    using assms(2) by (metis (no_types, lifting) map_of_eq_None_iff not_None_eq set_rev)
  then have "(k, v) \<in> set kvs"
    using map_of_SomeD by fastforce
  then have "kv_ok (k, v)"
    using assms(1) unfolding list_all_iff by blast
  then show "jtext (map_get kvs k)" "utf8_ok k"
    using v by (simp_all add: map_get_def)
qed

lemma marshal_map_ok:
  assumes "list_all kv_ok kvs"
  shows "marshal_map kvs = Some (jobj (sorted_members kvs))"
proof -
  have "mapM_opt (\<lambda>k. map_option (Pair k) (marshal_raw (map_get kvs k))) ks = Some (map (\<lambda>k. (k, map_get kvs k)) ks)"
    if "set ks \<subseteq> fst ` set kvs" for ks
    using that by (induction ks) (auto simp: map_get_in [OF assms])
  then show ?thesis
    by (simp add: marshal_map_def sorted_members_def)
qed

lemma map_get_sorted: "map_get (sorted_members kvs) k = map_get kvs k"
proof (cases "k \<in> fst ` set kvs")
  case True
  let ?ks = "sort (remdups (map fst kvs))"
  have "distinct (map fst (rev (sorted_members kvs)))"
    by (simp add: sorted_members_def rev_map o_def)
  moreover have "(k, map_get kvs k) \<in> set (rev (sorted_members kvs))"
    using True by (auto simp: sorted_members_def)
  ultimately show ?thesis
    by (simp add: map_get_def [of "sorted_members kvs"] map_of_is_SomeI)
next
  case False
  then have "map_of (rev (sorted_members kvs)) k = None" "map_of (rev kvs) k = None"
    unfolding map_of_eq_None_iff by (simp_all add: sorted_members_def image_image)
  then show ?thesis by (simp add: map_get_def)
qed

lemma kv_ok_sorted: "list_all kv_ok kvs \<Longrightarrow> list_all kv_ok (sorted_members kvs)"
  by (auto simp: list_all_iff sorted_members_def map_get_in [unfolded list_all_iff])

text \<open>
A tool schema of type object without properties gets empty properties, and every other member
keeps its value.
\<close>
theorem tool_schema_gets_properties:
  assumes "list_all kv_ok kvs" "map_get kvs ''type'' = jstr ''object''" "\<not> map_has kvs ''properties''"
  shows "\<exists>kvs'. unmarshal_object (normalizeToolParameters (jobj kvs)) = Some kvs'
    \<and> (\<lambda>k. map_get kvs' k) = (\<lambda>k. if k = ''properties'' then ''{}'' else map_get kvs k)"
proof -
  let ?m = "kvs @ [(''properties'', ''{}'')]"
  have m: "list_all kv_ok ?m"
    using assms(1) jtext_jobj [of "[]"] by (simp add: jobj_def utf8_ok_ascii)
  have "unmarshal_object (jobj kvs) = Some kvs"
    using assms(1) by (simp add: unmarshal_object_def json_scan_jobj_ok)
  then have "normalizeToolParameters (jobj kvs) = jobj (sorted_members ?m)"
    using assms(2,3) marshal_map_ok [OF m] by (simp add: normalizeToolParameters_def jobj_def)
  then have "unmarshal_object (normalizeToolParameters (jobj kvs)) = Some (sorted_members ?m)"
    using kv_ok_sorted [OF m] by (simp add: unmarshal_object_def json_scan_jobj_ok)
  moreover have "map_get ?m k = (if k = ''properties'' then ''{}'' else map_get kvs k)" for k
    by (simp add: map_get_def)
  ultimately show ?thesis
    by (auto simp: map_get_sorted)
qed

theorem tool_schema_gets_properties_witness:
  "\<exists>kvs'. unmarshal_object (normalizeToolParameters (jobj [(''type'', jstr ''object'')])) = Some kvs'
    \<and> (\<lambda>k. map_get kvs' k) = (\<lambda>k. if k = ''properties'' then ''{}'' else map_get [(''type'', jstr ''object'')] k)"
  by (rule tool_schema_gets_properties) (simp_all add: map_get_def map_has_def utf8_ok_ascii jtext_jstr)

section \<open>Errors\<close>

definition readable :: "RawMessage \<Rightarrow> bool" where
  "readable raw \<longleftrightarrow> unmarshal_string raw \<noteq> None \<or> unmarshal_blocks raw \<noteq> None"

lemma marshal_parts_total: "\<exists>t. marshal_parts ps = Some t \<and> jtext t"
proof -
  have "mapM_opt enc_ResponsesContentPart ps = Some (map (\<lambda>p. jobj (part_kvs p)) ps)"
    by (induction ps) (auto simp: enc_part)
  then have "marshal_parts ps = Some (jslice (map (\<lambda>p. jobj (part_kvs p)) ps))"
    by (simp add: marshal_parts_def)
  moreover have "jtext (jslice (map (\<lambda>p. jobj (part_kvs p)) ps))"
    by (auto simp: jslice_def intro!: jtext_jarr jtext_jobj_ok part_kvs_ok)
  ultimately show ?thesis by blast
qed

lemma enc_item_total: "raw_ok (ri_Content i) \<Longrightarrow> enc_ResponsesInputItem i = Some (jobj (item_kvs i))"
  by (simp add: enc_ResponsesInputItem_def enc_field_values marshal_struct_Somes item_kvs_def)

lemma marshal_items_total:
  "list_all (\<lambda>i. raw_ok (ri_Content i)) is \<Longrightarrow> \<exists>t. marshal_items is = Some t"
proof -
  assume "list_all (\<lambda>i. raw_ok (ri_Content i)) is"
  then have "mapM_opt enc_ResponsesInputItem is = Some (map (\<lambda>i. jobj (item_kvs i)) is)"
    by (induction "is") (auto simp: enc_item_total)
  then show ?thesis by (simp add: marshal_items_def)
qed

lemma of_json_marshal_parts:
  obtains t where "of_json (marshal_parts ps) = Inr t" "jtext t"
  using marshal_parts_total [of ps] by auto

lemma message_item_sel [simp]: "ri_Content (message_item r c) = c"
  by (simp add: message_item_def)

lemma user_total:
  "(case anthropicUserToResponses raw of Inl _ \<Rightarrow> \<not> readable raw
    | Inr items \<Rightarrow> readable raw \<and> list_all (\<lambda>i. raw_ok (ri_Content i)) items)"
proof (cases "unmarshal_string raw")
  case (Some u)
  obtain t where "of_json (marshal_parts [text_part ''input_text'' u]) = Inr t" "jtext t"
    by (rule of_json_marshal_parts)
  then show ?thesis
    using Some by (simp add: anthropicUserToResponses_def readable_def raw_ok_def)
next
  case None
  show ?thesis
  proof (cases "unmarshal_blocks raw")
    case None
    then show ?thesis
      using \<open>unmarshal_string raw = None\<close> by (simp add: anthropicUserToResponses_def readable_def)
  next
    case (Some blocks)
    let ?ps = "concat (map user_parts_of blocks)
      @ concat (map (\<lambda>b. snd (convertToolResultOutput b)) (tool_results blocks))"
    obtain t where t: "of_json (marshal_parts ?ps) = Inr t" "jtext t"
      by (rule of_json_marshal_parts)
    show ?thesis
      using None Some t
      unfolding anthropicUserToResponses_def readable_def
      by (simp only: option.case of_json_simps bind_res_simps Let_def)
        (simp add: raw_ok_def list_all_iff)
  qed
qed

lemma assistant_total:
  "(case anthropicAssistantToResponses raw of Inl _ \<Rightarrow> \<not> readable raw
    | Inr items \<Rightarrow> readable raw \<and> list_all (\<lambda>i. raw_ok (ri_Content i)) items)"
proof (cases "unmarshal_string raw")
  case (Some u)
  obtain t where "of_json (marshal_parts [text_part ''output_text'' u]) = Inr t" "jtext t"
    by (rule of_json_marshal_parts)
  then show ?thesis
    using Some by (simp add: anthropicAssistantToResponses_def readable_def raw_ok_def)
next
  case None
  show ?thesis
  proof (cases "unmarshal_blocks raw")
    case None
    then show ?thesis
      using \<open>unmarshal_string raw = None\<close> by (simp add: anthropicAssistantToResponses_def readable_def)
  next
    case (Some blocks)
    obtain t where "of_json (marshal_parts [text_part ''output_text'' (extractAnthropicTextFromBlocks blocks)]) = Inr t"
      "jtext t" by (rule of_json_marshal_parts)
    then show ?thesis
      using None Some
      by (simp add: anthropicAssistantToResponses_def readable_def raw_ok_def list_all_iff Let_def
          function_call_item_def)
  qed
qed

lemma msg_total:
  "(case anthropicMsgToResponsesItems m of Inl _ \<Rightarrow> \<not> readable (am_Content m)
    | Inr items \<Rightarrow> readable (am_Content m) \<and> list_all (\<lambda>i. raw_ok (ri_Content i)) items)"
  using user_total [of "am_Content m"] assistant_total [of "am_Content m"]
  by (simp add: anthropicMsgToResponsesItems_def)

lemma msgs_total:
  "(case mapM_res anthropicMsgToResponsesItems ms of Inl _ \<Rightarrow> \<not> list_all (readable \<circ> am_Content) ms
    | Inr itemss \<Rightarrow> list_all (readable \<circ> am_Content) ms \<and> list_all (\<lambda>i. raw_ok (ri_Content i)) (concat itemss))"
proof (induction ms)
  case Nil
  then show ?case by simp
next
  case (Cons m ms)
  then show ?case
    using msg_total [of m]
    by (auto split: sum.splits simp: bind_res_def list_all_iff)
qed

lemma system_total:
  "(case parseAnthropicSystemContentParts raw of Inl _ \<Rightarrow> \<not> readable raw | Inr _ \<Rightarrow> readable raw)"
  by (simp add: parseAnthropicSystemContentParts_def readable_def split: option.split)

lemma input_total:
  "(case convertAnthropicToResponsesInput system ms of
      Inl _ \<Rightarrow> \<not> ((system = [] \<or> readable system) \<and> list_all (readable \<circ> am_Content) ms)
    | Inr items \<Rightarrow> (system = [] \<or> readable system) \<and> list_all (readable \<circ> am_Content) ms
        \<and> list_all (\<lambda>i. raw_ok (ri_Content i)) items)"
proof -
  have sys: "(case (if system \<noteq> [] then
          bind_res (parseAnthropicSystemContentParts system) (\<lambda>sysParts.
            if sysParts \<noteq> [] then
              (let content = (case marshal_parts sysParts of None \<Rightarrow> [] | Some c \<Rightarrow> c)
               in Inr [message_item ''developer'' content])
            else Inr [])
        else Inr []) of Inl _ \<Rightarrow> \<not> (system = [] \<or> readable system)
      | Inr out \<Rightarrow> (system = [] \<or> readable system) \<and> list_all (\<lambda>i. raw_ok (ri_Content i)) out)"
  proof (cases "parseAnthropicSystemContentParts system")
    case (Inl e)
    then show ?thesis using system_total [of system] by simp
  next
    case (Inr ps)
    then show ?thesis
      using system_total [of system] marshal_parts_total [of ps] by (auto simp: raw_ok_def Let_def)
  qed
  then show ?thesis
    using msgs_total [of ms]
    unfolding convertAnthropicToResponsesInput_def
    by (auto simp: bind_res_def split: sum.splits)
qed

lemma tool_choice_total:
  "(case convertAnthropicToolChoiceToResponses raw of Inl _ \<Rightarrow> dec_tool_choice raw = None
    | Inr _ \<Rightarrow> dec_tool_choice raw \<noteq> None)"
  by (auto simp: convertAnthropicToolChoiceToResponses_def split: option.split prod.split)

text \<open>
The conversion of an Anthropic request fails exactly on unreadable input: a system prompt or
message content that is neither a JSON string nor an array of blocks, or a malformed tool choice.
\<close>
theorem request_fails_only_on_unreadable:
  "(\<exists>out. AnthropicToResponses req = Inr out) \<longleftrightarrow>
     (areq_System req = [] \<or> readable (areq_System req))
     \<and> list_all (readable \<circ> am_Content) (areq_Messages req)
     \<and> (areq_ToolChoice req = [] \<or> (\<exists>p. dec_tool_choice (areq_ToolChoice req) = Some p))"
proof (cases "convertAnthropicToResponsesInput (areq_System req) (areq_Messages req)")
  case (Inl e)
  then show ?thesis
    using input_total [of "areq_System req" "areq_Messages req"] by (auto simp: AnthropicToResponses_def)
next
  case (Inr items)
  then have ok: "areq_System req = [] \<or> readable (areq_System req)"
      "list_all (readable \<circ> am_Content) (areq_Messages req)" "list_all (\<lambda>i. raw_ok (ri_Content i)) items"
    using input_total [of "areq_System req" "areq_Messages req"] by simp_all
  obtain t where "marshal_items items = Some t"
    using marshal_items_total [OF ok(3)] by blast
  then have "(\<exists>out. AnthropicToResponses req = Inr out) \<longleftrightarrow>
      areq_ToolChoice req = [] \<or> (\<exists>tc. convertAnthropicToolChoiceToResponses (areq_ToolChoice req) = Inr tc)"
    using Inr
    by (cases "convertAnthropicToolChoiceToResponses (areq_ToolChoice req)") (auto simp: AnthropicToResponses_def Let_def)
  then show ?thesis
    using ok tool_choice_total [of "areq_ToolChoice req"] by (auto split: sum.splits)
qed

section \<open>Request settings\<close>

text \<open>The converted request, field by field.\<close>

definition request_of :: "AnthropicRequest \<Rightarrow> RawMessage \<Rightarrow> RawMessage \<Rightarrow> ResponsesRequest" where
  "request_of req raw tc =
     \<lparr>rreq_Model = areq_Model req, rreq_Instructions = [], rreq_Input = raw,
      rreq_MaxOutputTokens = (if areq_MaxTokens req > 0 then Some (max 128 (areq_MaxTokens req)) else None),
      rreq_Temperature = (if isReasoningModel (areq_Model req) then None else areq_Temperature req),
      rreq_TopP = (if isReasoningModel (areq_Model req) then None else areq_TopP req),
      rreq_Stream = areq_Stream req, rreq_Tools = convertAnthropicToolsToResponses (areq_Tools req),
      rreq_Include = [''reasoning.encrypted_content''], rreq_Store = Some False,
      rreq_ParallelToolCalls = Some True,
      rreq_Reasoning = Some \<lparr>rr_Effort = mapAnthropicEffortToResponses
        (case areq_OutputConfig req of Some c \<Rightarrow> (if aoc_Effort c \<noteq> [] then aoc_Effort c else ''medium'')
         | None \<Rightarrow> ''medium''), rr_Summary = ''auto''\<rparr>,
      rreq_Text = Some \<lparr>rt_Verbosity = ''medium''\<rparr>, rreq_ToolChoice = tc, rreq_ServiceTier = [],
      rreq_PromptCacheKey = [], rreq_PreviousResponseID = []\<rparr>"

lemma request_result:
  assumes "convertAnthropicToResponsesInput (areq_System req) (areq_Messages req) = Inr items"
    "marshal_items items = Some raw"
  shows "AnthropicToResponses req =
    (if areq_ToolChoice req = [] then Inr (request_of req raw [])
     else bind_res (wrap_err ''convert tool_choice'' (convertAnthropicToolChoiceToResponses (areq_ToolChoice req)))
            (\<lambda>tc. Inr (request_of req raw tc)))"
  using assms
  by (cases "convertAnthropicToolChoiceToResponses (areq_ToolChoice req)")
    (simp_all add: AnthropicToResponses_def Let_def request_of_def zero_ResponsesRequest_def
      minMaxOutputTokens_def convertAnthropicToolsToResponses_def)

lemma request_succeeds:
  assumes "AnthropicToResponses req = Inr out"
  obtains raw tc where "out = request_of req raw tc"
proof -
  obtain items raw where "convertAnthropicToResponsesInput (areq_System req) (areq_Messages req) = Inr items"
      "marshal_items items = Some raw"
    using assms by (auto simp: AnthropicToResponses_def bind_res_eq_Inr of_json_def split: option.splits)
  from request_result [OF this] assms that show ?thesis
    by (cases "convertAnthropicToolChoiceToResponses (areq_ToolChoice req)") (auto split: if_splits)
qed

text \<open>
What a converted request asks for: the limit on output tokens is never below 128 and otherwise
the client's, reasoning models get no sampling parameters, the answer is never stored upstream, and
there is one tool for each tool of the client.
\<close>
theorem request_settings:
  assumes "AnthropicToResponses req = Inr out"
  shows "rreq_MaxOutputTokens out = (if areq_MaxTokens req > 0 then Some (max 128 (areq_MaxTokens req)) else None)
    \<and> rreq_Temperature out = (if isReasoningModel (areq_Model req) then None else areq_Temperature req)
    \<and> rreq_TopP out = (if isReasoningModel (areq_Model req) then None else areq_TopP req)
    \<and> rreq_Store out = Some False \<and> rreq_Model out = areq_Model req \<and> rreq_Stream out = areq_Stream req
    \<and> length (rreq_Tools out) = length (areq_Tools req)"
proof -
  obtain raw tc where "out = request_of req raw tc"
    using request_succeeds [OF assms] .
  then show ?thesis
    by (simp add: request_of_def convertAnthropicToolsToResponses_def)
qed

lemma input_empty: "convertAnthropicToResponsesInput [] [] = Inr []" "marshal_items [] = Some ''null''"
  by (simp_all add: convertAnthropicToResponsesInput_def marshal_items_def jslice_def)

definition demo_request :: AnthropicRequest where
  "demo_request = zero_AnthropicRequest\<lparr>areq_Model := ''gpt-5'', areq_MaxTokens := 100,
     areq_Messages := map turn_msg demo_turns, areq_ToolChoice := choice ''any'',
     areq_Tools := [zero_tool\<lparr>at_Name := ''Bash'', at_InputSchema := empty_schema\<rparr>]\<rparr>"

section \<open>Round trip of a request\<close>

text \<open>
  A tool of the client that is a plain function with a complete schema, and the tool choices that both
  sides know.
\<close>

definition plain_tool :: "AnthropicTool \<Rightarrow> bool" where
  "plain_tool t \<longleftrightarrow> at_Type t = [] \<and> at_CacheControl t = None
     \<and> normalizeToolParameters (at_InputSchema t) = at_InputSchema t
     \<and> normalizeAnthropicInputSchema (at_InputSchema t) = at_InputSchema t"

definition plain_choice :: "RawMessage \<Rightarrow> bool" where
  "plain_choice tc \<longleftrightarrow> tc = [] \<or> tc = choice ''auto'' \<or> tc = choice ''any'' \<or> tc = choice ''none''
     \<or> (\<exists>n. utf8_ok n \<and> n \<noteq> [] \<and> TrimSpace n = n \<and> tc = tool_choice n)"

lemma tools_back:
  "list_all plain_tool ts \<Longrightarrow> convertResponsesToAnthropicTools (convertAnthropicToolsToResponses ts) = ts"
  by (induction ts)
    (auto simp: convertResponsesToAnthropicTools_def convertAnthropicToolsToResponses_def plain_tool_def
      HasPrefix_def zero_tool_def)

lemma choice_back_plain:
  assumes "plain_choice tc" "tc \<noteq> []"
  obtains tc' where "convertAnthropicToolChoiceToResponses tc = Inr tc'" "tc' \<noteq> []"
    "convertResponsesToAnthropicToolChoice tc' = Inr tc"
proof -
  have ret: "choice_back tc = Inr tc"
    using assms choice_back_mode choice_back_tool by (auto simp: plain_choice_def)
  then obtain tc' where tc': "convertAnthropicToolChoiceToResponses tc = Inr tc'"
      "convertResponsesToAnthropicToolChoice tc' = Inr tc"
    by (auto simp: choice_back_def bind_res_eq_Inr)
  moreover have "tc' \<noteq> []"
    using tc'(1) assms(2)
    by (auto simp: convertAnthropicToolChoiceToResponses_def jobj_def split: option.splits if_splits)
  ultimately show ?thesis using that by blast
qed

lemma request_back:
  assumes "convertResponsesInputToAnthropic raw = Inr ([], ms)" "list_all plain_tool (areq_Tools req)"
    "tc = [] \<and> atc = [] \<or> tc \<noteq> [] \<and> convertResponsesToAnthropicToolChoice tc = Inr atc"
  shows "\<exists>req'. ResponsesToAnthropicRequest (request_of req raw tc) = Inr req'
    \<and> areq_Model req' = areq_Model req \<and> areq_Messages req' = ms \<and> areq_System req' = []
    \<and> areq_Stream req' = areq_Stream req \<and> areq_Tools req' = areq_Tools req \<and> areq_ToolChoice req' = atc
    \<and> areq_MaxTokens req' = (if areq_MaxTokens req > 0 then max 128 (areq_MaxTokens req) else 8192)"
  using assms tools_back [OF assms(2)]
  by (auto simp: ResponsesToAnthropicRequest_def request_of_def Let_def zero_AnthropicRequest_def
      convertAnthropicToolsToResponses_def convertResponsesToAnthropicTools_def)

text \<open>
C24. Round trip of a request in a form both APIs can say: converted to a Responses request and back, it keeps its model,
conversation, tools, tool choice and streaming flag; the token limit comes back raised to 128, or as 8192 when there
was none. The request has no system prompt, and the roles of its messages alternate. A message of the user is an array of
results of tool calls and then of texts and \<open>base64\<close> images, one of the assistant an array of at most one text and
then of tool calls; neither is empty, and no text, result or image in them is. Strings are valid UTF-8, the
identifiers of calls begin with \<open>toolu_\<close> or \<open>call_\<close>, a media type has no semicolon, and the input of a call is JSON in the form
the encoder writes. A tool has no type and no cache control, and its schema is one that both normalisations leave as it is; the
tool choice is absent, or \<open>auto\<close>, \<open>any\<close>, \<open>none\<close> or a name without surrounding space, as the converter writes it.
\<close>
theorem request_roundtrip:
  assumes "conversation ts" "areq_System req = []" "areq_Messages req = map turn_msg ts"
    "list_all plain_tool (areq_Tools req)" "plain_choice (areq_ToolChoice req)"
  shows "\<exists>req'. bind_res (AnthropicToResponses req) ResponsesToAnthropicRequest = Inr req'
    \<and> areq_Model req' = areq_Model req \<and> areq_Messages req' = areq_Messages req \<and> areq_System req' = []
    \<and> areq_Stream req' = areq_Stream req \<and> areq_Tools req' = areq_Tools req
    \<and> areq_ToolChoice req' = areq_ToolChoice req
    \<and> areq_MaxTokens req' = (if areq_MaxTokens req > 0 then max 128 (areq_MaxTokens req) else 8192)"
proof -
  obtain raw where raw: "marshal_items (concat (map turn_items ts)) = Some raw"
    "unmarshal_string raw = None" "unmarshal_items raw = Some (concat (map turn_items ts))"
    using turns_marshal [OF assms(1)] .
  have input: "convertAnthropicToResponsesInput (areq_System req) (areq_Messages req) = Inr (concat (map turn_items ts))"
    using assms by (simp add: convertAnthropicToResponsesInput_def items_of_turns)
  note there = request_result [OF input raw(1)]
  note ret = request_back [OF turns_back [OF assms(1) raw(2,3)] assms(4)]
  show ?thesis
  proof (cases "areq_ToolChoice req = []")
    case True
    then show ?thesis
      using there ret [of "[]" "[]"] assms(3) by simp
  next
    case False
    obtain tc' where tc': "convertAnthropicToolChoiceToResponses (areq_ToolChoice req) = Inr tc'" "tc' \<noteq> []"
      "convertResponsesToAnthropicToolChoice tc' = Inr (areq_ToolChoice req)"
      using choice_back_plain [OF assms(5) False] .
    show ?thesis
      using there False tc' ret [of tc' "areq_ToolChoice req"] assms(3) by simp
  qed
qed

lemma empty_schema_plain: "normalizeToolParameters empty_schema = empty_schema"
proof -
  have "json_scan empty_schema = Some (VObj [(''type'', jstr ''object''), (''properties'', ''{}'')])"
    unfolding empty_schema_def
    by (rule json_scan_jobj) (use jtext_jobj [of "[]"] in \<open>simp add: jobj_def utf8_ok_ascii jtext_jstr\<close>)
  then show ?thesis
    by (simp add: normalizeToolParameters_def unmarshal_object_def map_has_def)
qed

lemma demo_request_plain: "list_all plain_tool (areq_Tools demo_request)"
  by (simp add: demo_request_def plain_tool_def zero_tool_def empty_schema_plain
      normalizeAnthropicInputSchema_def)

theorem request_roundtrip_witness:
  "\<exists>req'. bind_res (AnthropicToResponses demo_request) ResponsesToAnthropicRequest = Inr req'
    \<and> areq_Model req' = areq_Model demo_request \<and> areq_Messages req' = areq_Messages demo_request
    \<and> areq_System req' = [] \<and> areq_Stream req' = areq_Stream demo_request
    \<and> areq_Tools req' = areq_Tools demo_request \<and> areq_ToolChoice req' = areq_ToolChoice demo_request
    \<and> areq_MaxTokens req' = (if areq_MaxTokens demo_request > 0 then max 128 (areq_MaxTokens demo_request) else 8192)"
proof (rule request_roundtrip [OF demo_conversation])
  show "list_all plain_tool (areq_Tools demo_request)"
    by (rule demo_request_plain)
qed (simp_all add: demo_request_def zero_AnthropicRequest_def plain_choice_def)

lemma demo_request_converts: "\<exists>out. AnthropicToResponses demo_request = Inr out"
proof -
  obtain raw where raw: "marshal_items (concat (map turn_items demo_turns)) = Some raw"
    using turns_marshal [OF demo_conversation] .
  have "convertAnthropicToResponsesInput (areq_System demo_request) (areq_Messages demo_request)
      = Inr (concat (map turn_items demo_turns))"
    using demo_conversation
    by (simp add: demo_request_def zero_AnthropicRequest_def convertAnthropicToResponsesInput_def items_of_turns)
  from request_result [OF this raw] show ?thesis
    by (simp add: demo_request_def convertAnthropicToolChoiceToResponses_def dec_choice utf8_ok_ascii)
qed

theorem request_settings_witness:
  "\<exists>out. AnthropicToResponses demo_request = Inr out \<and> rreq_MaxOutputTokens out = Some 128
    \<and> rreq_Temperature out = None \<and> rreq_Store out = Some False \<and> length (rreq_Tools out) = 1"
proof -
  obtain out where out: "AnthropicToResponses demo_request = Inr out"
    using demo_request_converts by blast
  from request_settings [OF out] show ?thesis
    by (intro exI [of _ out] conjI out) (simp_all add: demo_request_def isReasoningModel_def HasPrefix_def)
qed

section \<open>System prompts on the way back\<close>

text \<open>
A system prompt does not survive the way to Responses and back: it comes out as a message of the
user, whose content is still the Responses part list, and the system prompt is gone.
\<close>
theorem developer_message_becomes_user_message:
  assumes "s \<noteq> []" "utf8_ok s" "\<not> isAnthropicBillingHeaderText s"
  shows "bind_res (convertAnthropicToResponsesInput (jstr s) []) (\<lambda>items.
           bind_res (of_json (marshal_items items)) convertResponsesInputToAnthropic)
       = Inr ([], [\<lparr>am_Role = ''user'', am_Content = parts_text [text_part ''input_text'' s]\<rparr>])"
proof -
  let ?ps = "[text_part ''input_text'' s]"
  let ?item = "message_item ''developer'' (parts_text ?ps)"
  have p: "marshal_parts ?ps = Some (parts_text ?ps)" "jtext (parts_text ?ps)" "parts_text ?ps \<noteq> []"
    using assms by (intro parts_text; simp add: wf_part_def)+
  have there: "convertAnthropicToResponsesInput (jstr s) [] = Inr [?item]"
    using assms p by (simp add: convertAnthropicToResponsesInput_def parseAnthropicSystemContentParts_def)
  have "\<forall>i \<in> set [?item]. wf_item i"
    using p by (simp add: wf_item_def message_item_def zero_item_def raw_ok_def utf8_ok_ascii)
  then obtain raw where raw: "marshal_items [?item] = Some raw" "unmarshal_string raw = None"
      "unmarshal_items raw = Some [?item]"
    using item_codec.slice_text [of "[?item]"] unfolding marshal_items_def unmarshal_items_def by blast
  have "convert_item [] [] ?item = Inr ([], [\<lparr>am_Role = ''user'', am_Content = parts_text ?ps\<rparr>])"
    using p(3) by (simp add: convert_item_def message_item_def)
  then show ?thesis
    using there raw by (simp add: convertResponsesInputToAnthropic_def mergeConsecutiveMessages_def)
qed

theorem developer_message_becomes_user_message_witness:
  "bind_res (convertAnthropicToResponsesInput (jstr ''Be brief.'') []) (\<lambda>items.
     bind_res (of_json (marshal_items items)) convertResponsesInputToAnthropic)
   = Inr ([], [\<lparr>am_Role = ''user'', am_Content = parts_text [text_part ''input_text'' ''Be brief.'']\<rparr>])"
  by (rule developer_message_becomes_user_message)
    (simp_all add: utf8_ok_ascii isAnthropicBillingHeaderText_def HasPrefix_def)

end
