(* ===== verification/RespToChat.thy ===== *)
theory RespToChat
  imports AnthToRespResp
begin

text \<open>
  \<open>pkg/apicompat/responses_to_chatcompletions.go\<close>: a Responses response becomes a Chat Completions
  response, whole or as a stream of chunks, and the accumulator that rebuilds the output of a
  buffered response from its delta events.
\<close>

definition generateChatCmplID :: "entropy \<Rightarrow> nat \<Rightarrow> go_string" where
  "generateChatCmplID rand n = ''chatcmpl-'' @ hex_encode (rand n)"

section \<open>Whole responses\<close>

definition responsesStatusToChatFinishReason ::
    "go_string \<Rightarrow> ResponsesIncompleteDetails option \<Rightarrow> ChatToolCall list \<Rightarrow> go_string" where
  "responsesStatusToChatFinishReason status details toolCalls =
     (if status = ''incomplete'' then
        (case details of
           Some d \<Rightarrow> (if rid_Reason d = ''max_output_tokens'' then ''length'' else ''stop'')
         | None \<Rightarrow> ''stop'')
      else if status = ''completed'' then (if toolCalls \<noteq> [] then ''tool_calls'' else ''stop'')
      else ''stop'')"

definition chatUsageFromResponsesUsage :: "ResponsesUsage \<Rightarrow> ChatUsage" where
  "chatUsageFromResponsesUsage u =
     \<lparr>cu_PromptTokens = ru_InputTokens u, cu_CompletionTokens = ru_OutputTokens u,
      cu_TotalTokens = wrap64 (ru_InputTokens u + ru_OutputTokens u),
      cu_PromptTokensDetails =
        (case ru_InputTokensDetails u of
           None \<Rightarrow> None
         | Some d \<Rightarrow> (if ritd_CachedTokens d > 0 then Some \<lparr>ctd_CachedTokens = ritd_CachedTokens d\<rparr>
                      else None))\<rparr>"

text \<open>What the loop over the output items collects.\<close>

definition output_text :: "ResponsesOutput list \<Rightarrow> go_string" where
  "output_text items =
     concat (map (\<lambda>item. if ro_Type item = ''message''
               then concat (map rp_Text (filter (\<lambda>p. rp_Type p = ''output_text'' \<and> rp_Text p \<noteq> [])
                      (ro_Content item)))
               else []) items)"

definition output_reasoning :: "ResponsesOutput list \<Rightarrow> go_string" where
  "output_reasoning items =
     concat (map (\<lambda>item. if ro_Type item = ''reasoning''
               then concat (map rs_Text (filter (\<lambda>s. rs_Type s = ''summary_text'' \<and> rs_Text s \<noteq> [])
                      (ro_Summary item)))
               else []) items)"

definition output_calls :: "ResponsesOutput list \<Rightarrow> ChatToolCall list" where
  "output_calls items =
     map (\<lambda>item. \<lparr>ctc_Index = None, ctc_ID = ro_CallID item, ctc_Type = ''function'',
            ctc_Function = \<lparr>cfc_Name = ro_Name item, cfc_Arguments = ro_Arguments item\<rparr>\<rparr>)
       (filter (\<lambda>item. ro_Type item = ''function_call'') items)"

definition ResponsesToChatCompletions ::
    "entropy \<Rightarrow> nat \<Rightarrow> int \<Rightarrow> ResponsesResponse \<Rightarrow> go_string \<Rightarrow> ChatCompletionsResponse" where
  "ResponsesToChatCompletions rand n now resp model =
     (let i = (if rresp_ID resp = [] then generateChatCmplID rand n else rresp_ID resp);
          contentText = output_text (rresp_Output resp);
          reasoningText = output_reasoning (rresp_Output resp);
          toolCalls = output_calls (rresp_Output resp);
          msg = zero_ChatMessage\<lparr>cm_Role := ''assistant'', cm_ToolCalls := toolCalls\<rparr>;
          msg = (if contentText \<noteq> [] then msg\<lparr>cm_Content := jstr contentText\<rparr> else msg);
          msg = (if reasoningText \<noteq> [] then msg\<lparr>cm_ReasoningContent := reasoningText\<rparr> else msg);
          finishReason = responsesStatusToChatFinishReason (rresp_Status resp)
            (rresp_IncompleteDetails resp) toolCalls
      in \<lparr>cresp_ID = i, cresp_Object = ''chat.completion'', cresp_Created = now,
          cresp_Model = model,
          cresp_Choices = [\<lparr>cch_Index = 0, cch_Message = msg, cch_FinishReason = finishReason\<rparr>],
          cresp_Usage = map_option chatUsageFromResponsesUsage (rresp_Usage resp),
          cresp_SystemFingerprint = [], cresp_ServiceTier = []\<rparr>)"

section \<open>The stream\<close>

record ResponsesEventToChatState =
  rc_ID :: go_string
  rc_Model :: go_string
  rc_Created :: int
  rc_SentRole :: bool
  rc_SawToolCall :: bool
  rc_SawText :: bool
  rc_Finalized :: bool
  rc_NextToolCallIndex :: int
  rc_OutputIndexToToolIndex :: "int \<rightharpoonup> int"
  rc_IncludeUsage :: bool
  rc_Usage :: "ChatUsage option"

definition NewResponsesEventToChatState ::
    "entropy \<Rightarrow> nat \<Rightarrow> int \<Rightarrow> ResponsesEventToChatState" where
  "NewResponsesEventToChatState rand n now =
     \<lparr>rc_ID = generateChatCmplID rand n, rc_Model = [], rc_Created = now, rc_SentRole = False,
      rc_SawToolCall = False, rc_SawText = False, rc_Finalized = False, rc_NextToolCallIndex = 0,
      rc_OutputIndexToToolIndex = Map.empty, rc_IncludeUsage = False, rc_Usage = None\<rparr>"

type_synonym rc_step = "ResponsesEventToChatState \<times> ChatCompletionsChunk list"

definition chat_chunk ::
    "ResponsesEventToChatState \<Rightarrow> ChatChunkChoice list \<Rightarrow> ChatUsage option \<Rightarrow> ChatCompletionsChunk" where
  "chat_chunk state choices usage =
     \<lparr>chunk_ID = rc_ID state, chunk_Object = ''chat.completion.chunk'', chunk_Created = rc_Created state,
      chunk_Model = rc_Model state, chunk_Choices = choices, chunk_Usage = usage,
      chunk_SystemFingerprint = [], chunk_ServiceTier = []\<rparr>"

definition makeChatDeltaChunk :: "ResponsesEventToChatState \<Rightarrow> ChatDelta \<Rightarrow> ChatCompletionsChunk" where
  "makeChatDeltaChunk state delta =
     chat_chunk state [\<lparr>ccc_Index = 0, ccc_Delta = delta, ccc_FinishReason = None\<rparr>] None"

definition makeChatFinishChunk :: "ResponsesEventToChatState \<Rightarrow> go_string \<Rightarrow> ChatCompletionsChunk" where
  "makeChatFinishChunk state finishReason =
     chat_chunk state [\<lparr>ccc_Index = 0, ccc_Delta = zero_ChatDelta\<lparr>cd_Content := Some []\<rparr>,
       ccc_FinishReason = Some finishReason\<rparr>] None"

definition usage_chunks :: "ResponsesEventToChatState \<Rightarrow> ChatCompletionsChunk list" where
  "usage_chunks state =
     (if rc_IncludeUsage state \<and> rc_Usage state \<noteq> None then [chat_chunk state [] (rc_Usage state)]
      else [])"

definition FinalizeResponsesChatStream :: "ResponsesEventToChatState \<Rightarrow> rc_step" where
  "FinalizeResponsesChatStream state =
     (if rc_Finalized state then (state, [])
      else (let state = state\<lparr>rc_Finalized := True\<rparr>;
                finishReason = (if rc_SawToolCall state then ''tool_calls'' else ''stop'')
            in (state, makeChatFinishChunk state finishReason # usage_chunks state)))"

definition ChatChunkToSSE :: "ChatCompletionsChunk \<Rightarrow> go_string result" where
  "ChatChunkToSSE chunk =
     bind_res (of_json (enc_ChatCompletionsChunk chunk)) (\<lambda>data'.
       Inr (''data: '' @ data' @ newline @ newline))"

definition resToChatHandleCreated ::
    "ResponsesStreamEvent \<Rightarrow> ResponsesEventToChatState \<Rightarrow> rc_step" where
  "resToChatHandleCreated evt state =
     (let state = (case rse_Response evt of
                     None \<Rightarrow> state
                   | Some r \<Rightarrow>
                       (let s = (if rresp_ID r \<noteq> [] then state\<lparr>rc_ID := rresp_ID r\<rparr> else state)
                        in if rc_Model s = [] \<and> rresp_Model r \<noteq> []
                           then s\<lparr>rc_Model := rresp_Model r\<rparr> else s))
      in if rc_SentRole state then (state, [])
         else (let state = state\<lparr>rc_SentRole := True\<rparr>
               in (state, [makeChatDeltaChunk state (zero_ChatDelta\<lparr>cd_Role := ''assistant''\<rparr>)])))"

definition resToChatHandleTextDelta ::
    "ResponsesStreamEvent \<Rightarrow> ResponsesEventToChatState \<Rightarrow> rc_step" where
  "resToChatHandleTextDelta evt state =
     (if rse_Delta evt = [] then (state, [])
      else (let state = state\<lparr>rc_SawText := True\<rparr>
            in (state, [makeChatDeltaChunk state (zero_ChatDelta\<lparr>cd_Content := Some (rse_Delta evt)\<rparr>)])))"

definition resToChatHandleOutputItemAdded ::
    "ResponsesStreamEvent \<Rightarrow> ResponsesEventToChatState \<Rightarrow> rc_step" where
  "resToChatHandleOutputItemAdded evt state =
     (case rse_Item evt of
        None \<Rightarrow> (state, [])
      | Some item \<Rightarrow>
          if ro_Type item \<noteq> ''function_call'' then (state, [])
          else (let idx = rc_NextToolCallIndex state;
                    state = state\<lparr>rc_SawToolCall := True,
                      rc_OutputIndexToToolIndex :=
                        (rc_OutputIndexToToolIndex state)(rse_OutputIndex evt \<mapsto> idx),
                      rc_NextToolCallIndex := rc_NextToolCallIndex state + 1\<rparr>
                in (state, [makeChatDeltaChunk state (zero_ChatDelta\<lparr>cd_ToolCalls :=
                     [\<lparr>ctc_Index = Some idx, ctc_ID = ro_CallID item, ctc_Type = ''function'',
                       ctc_Function = \<lparr>cfc_Name = ro_Name item, cfc_Arguments = []\<rparr>\<rparr>]\<rparr>)])))"

definition resToChatHandleFuncArgsDelta ::
    "ResponsesStreamEvent \<Rightarrow> ResponsesEventToChatState \<Rightarrow> rc_step" where
  "resToChatHandleFuncArgsDelta evt state =
     (if rse_Delta evt = [] then (state, [])
      else (case rc_OutputIndexToToolIndex state (rse_OutputIndex evt) of
              None \<Rightarrow> (state, [])
            | Some idx \<Rightarrow>
                (state, [makeChatDeltaChunk state (zero_ChatDelta\<lparr>cd_ToolCalls :=
                   [\<lparr>ctc_Index = Some idx, ctc_ID = [], ctc_Type = [],
                     ctc_Function = \<lparr>cfc_Name = [], cfc_Arguments = rse_Delta evt\<rparr>\<rparr>]\<rparr>)])))"

definition resToChatHandleReasoningDelta ::
    "ResponsesStreamEvent \<Rightarrow> ResponsesEventToChatState \<Rightarrow> rc_step" where
  "resToChatHandleReasoningDelta evt state =
     (if rse_Delta evt = [] then (state, [])
      else (state, [makeChatDeltaChunk state
             (zero_ChatDelta\<lparr>cd_ReasoningContent := Some (rse_Delta evt)\<rparr>)]))"

definition completed_finish_reason ::
    "ResponsesStreamEvent \<Rightarrow> ResponsesEventToChatState \<Rightarrow> go_string" where
  "completed_finish_reason evt state =
     (case rse_Response evt of
        Some r \<Rightarrow>
          if rresp_Status r = ''incomplete'' then
            (case rresp_IncompleteDetails r of
               Some d \<Rightarrow> (if rid_Reason d = ''max_output_tokens'' then ''length'' else ''stop'')
             | None \<Rightarrow> ''stop'')
          else if rresp_Status r = ''completed'' \<and> rc_SawToolCall state then ''tool_calls''
          else ''stop''
      | None \<Rightarrow> (if rc_SawToolCall state then ''tool_calls'' else ''stop''))"

definition resToChatHandleCompleted ::
    "ResponsesStreamEvent \<Rightarrow> ResponsesEventToChatState \<Rightarrow> rc_step" where
  "resToChatHandleCompleted evt state =
     (let state = state\<lparr>rc_Finalized := True\<rparr>;
          state = (case rse_Usage evt of
                     None \<Rightarrow> state | Some u \<Rightarrow> state\<lparr>rc_Usage := Some (chatUsageFromResponsesUsage u)\<rparr>);
          state = (case Option.bind (rse_Response evt) rresp_Usage of
                     None \<Rightarrow> state | Some u \<Rightarrow> state\<lparr>rc_Usage := Some (chatUsageFromResponsesUsage u)\<rparr>)
      in (state, makeChatFinishChunk state (completed_finish_reason evt state) # usage_chunks state))"

definition ResponsesEventToChatChunks ::
    "ResponsesStreamEvent \<Rightarrow> ResponsesEventToChatState \<Rightarrow> rc_step" where
  "ResponsesEventToChatChunks evt state =
     (let t = rse_Type evt in
      if t = ''response.created'' then resToChatHandleCreated evt state
      else if t = ''response.output_text.delta'' then resToChatHandleTextDelta evt state
      else if t = ''response.output_item.added'' then resToChatHandleOutputItemAdded evt state
      else if t = ''response.function_call_arguments.delta'' then resToChatHandleFuncArgsDelta evt state
      else if t = ''response.reasoning_summary_text.delta'' then resToChatHandleReasoningDelta evt state
      else if t = ''response.reasoning_summary_text.done'' then (state, [])
      else if t = ''response.completed'' \<or> t = ''response.done'' \<or> t = ''response.incomplete''
           \<or> t = ''response.failed'' then resToChatHandleCompleted evt state
      else (state, []))"

fun rc_run :: "ResponsesStreamEvent list \<Rightarrow> ResponsesEventToChatState \<Rightarrow> rc_step" where
  "rc_run [] state = (state, [])"
| "rc_run (e # es) state =
     (case ResponsesEventToChatChunks e state of (state', out) \<Rightarrow>
        case rc_run es state' of (state'', out') \<Rightarrow> (state'', out @ out'))"

section \<open>The accumulator\<close>

text \<open>
  A \<open>strings.Builder\<close> remembers at its first write where it lies and panics when a later write finds
  it elsewhere. The builders of the function calls lie in a slice that \<open>append\<close> moves when it is full:
  \<open>ba_Array\<close> counts the moves, \<open>bf_Addr\<close> is the count at the first write. How far \<open>append\<close> grows a full
  slice is left open by the language, so it is the parameter \<open>grow\<close>: the new capacity for an old one.
  A panic is \<open>None\<close>. The two builders \<open>text\<close> and \<open>reasoning\<close> never move.
\<close>

record bufferedFuncCall =
  bf_CallID :: go_string
  bf_Name :: go_string
  bf_Args :: go_string
  bf_Addr :: "nat option"

record BufferedResponseAccumulator =
  ba_text :: go_string
  ba_reasoning :: go_string
  ba_funcCalls :: "bufferedFuncCall list"
  ba_outputIndexToFuncIdx :: "int \<rightharpoonup> nat"
  ba_Capacity :: nat
  ba_Array :: nat

definition NewBufferedResponseAccumulator :: BufferedResponseAccumulator where
  "NewBufferedResponseAccumulator =
     \<lparr>ba_text = [], ba_reasoning = [], ba_funcCalls = [], ba_outputIndexToFuncIdx = Map.empty,
      ba_Capacity = 0, ba_Array = 0\<rparr>"

definition append_call :: "(nat \<Rightarrow> nat) \<Rightarrow> bufferedFuncCall \<Rightarrow> BufferedResponseAccumulator
    \<Rightarrow> BufferedResponseAccumulator" where
  "append_call grow f a =
     (let a = (if length (ba_funcCalls a) < ba_Capacity a then a
               else a\<lparr>ba_Capacity := grow (ba_Capacity a), ba_Array := ba_Array a + 1\<rparr>)
      in a\<lparr>ba_funcCalls := ba_funcCalls a @ [f]\<rparr>)"

definition write_args :: "nat \<Rightarrow> go_string \<Rightarrow> BufferedResponseAccumulator
    \<Rightarrow> BufferedResponseAccumulator option" where
  "write_args idx s a =
     (if idx < length (ba_funcCalls a) then
        (let f = ba_funcCalls a ! idx in
         if bf_Addr f = None \<or> bf_Addr f = Some (ba_Array a) then
           Some (a\<lparr>ba_funcCalls := (ba_funcCalls a)[idx :=
                     f\<lparr>bf_Args := bf_Args f @ s, bf_Addr := Some (ba_Array a)\<rparr>]\<rparr>)
         else None)
      else None)"

definition ProcessEvent :: "(nat \<Rightarrow> nat) \<Rightarrow> ResponsesStreamEvent \<Rightarrow> BufferedResponseAccumulator
    \<Rightarrow> BufferedResponseAccumulator option" where
  "ProcessEvent grow event a =
     (if rse_Type event = ''response.output_text.delta'' then
        Some (if rse_Delta event \<noteq> [] then a\<lparr>ba_text := ba_text a @ rse_Delta event\<rparr> else a)
      else if rse_Type event = ''response.output_item.added'' then
        (case rse_Item event of
           None \<Rightarrow> Some a
         | Some item \<Rightarrow>
             if ro_Type item = ''function_call'' then
               (let idx = length (ba_funcCalls a);
                    a = a\<lparr>ba_outputIndexToFuncIdx :=
                          (ba_outputIndexToFuncIdx a)(rse_OutputIndex event \<mapsto> idx)\<rparr>
                in Some (append_call grow \<lparr>bf_CallID = ro_CallID item, bf_Name = ro_Name item,
                           bf_Args = [], bf_Addr = None\<rparr> a))
             else Some a)
      else if rse_Type event = ''response.function_call_arguments.delta'' then
        (if rse_Delta event \<noteq> [] then
           (case ba_outputIndexToFuncIdx a (rse_OutputIndex event) of
              None \<Rightarrow> Some a
            | Some idx \<Rightarrow> write_args idx (rse_Delta event) a)
         else Some a)
      else if rse_Type event = ''response.reasoning_summary_text.delta'' then
        Some (if rse_Delta event \<noteq> [] then a\<lparr>ba_reasoning := ba_reasoning a @ rse_Delta event\<rparr> else a)
      else Some a)"

definition HasContent :: "BufferedResponseAccumulator \<Rightarrow> bool" where
  "HasContent a \<longleftrightarrow> ba_text a \<noteq> [] \<or> ba_funcCalls a \<noteq> [] \<or> ba_reasoning a \<noteq> []"

definition BuildOutput :: "BufferedResponseAccumulator \<Rightarrow> ResponsesOutput list" where
  "BuildOutput a =
     (if ba_reasoning a \<noteq> [] then
        [zero_output\<lparr>ro_Type := ''reasoning'',
           ro_Summary := [\<lparr>rs_Type = ''summary_text'', rs_Text = ba_reasoning a\<rparr>]\<rparr>] else [])
     @ (if ba_text a \<noteq> [] then
          [zero_output\<lparr>ro_Type := ''message'', ro_Role := ''assistant'',
             ro_Content := [text_part ''output_text'' (ba_text a)]\<rparr>] else [])
     @ map (\<lambda>f. zero_output\<lparr>ro_Type := ''function_call'', ro_CallID := bf_CallID f,
              ro_Name := bf_Name f, ro_Arguments := bf_Args f\<rparr>) (ba_funcCalls a)"

definition SupplementResponseOutput ::
    "BufferedResponseAccumulator \<Rightarrow> ResponsesResponse option \<Rightarrow> ResponsesResponse option" where
  "SupplementResponseOutput a resp =
     (case resp of
        None \<Rightarrow> None
      | Some r \<Rightarrow>
          if rresp_Output r \<noteq> [] \<or> \<not> HasContent a then Some r
          else Some (r\<lparr>rresp_Output := BuildOutput a\<rparr>))"

fun ba_run :: "(nat \<Rightarrow> nat) \<Rightarrow> ResponsesStreamEvent list \<Rightarrow> BufferedResponseAccumulator
    \<Rightarrow> BufferedResponseAccumulator option" where
  "ba_run grow [] a = Some a"
| "ba_run grow (e # es) a =
     (case ProcessEvent grow e a of None \<Rightarrow> None | Some a' \<Rightarrow> ba_run grow es a')"

end
