(* ===== verification/ChatFacts.thy ===== *)
theory ChatFacts
  imports RespToChat AnthToRespRespFacts
begin

text \<open>
  Properties of \<open>responses_to_chatcompletions.go\<close>: the chunk stream, the accumulator for buffered
  responses and how the two agree.
\<close>

section \<open>The chunk stream\<close>

definition chunk_deltas :: "(ChatDelta \<Rightarrow> go_string option) \<Rightarrow> ChatCompletionsChunk list \<Rightarrow> go_string" where
  "chunk_deltas field cs = concat (map (\<lambda>c. concat (map (\<lambda>ch.
     case field (ccc_Delta ch) of None \<Rightarrow> [] | Some s \<Rightarrow> s) (chunk_Choices c))) cs)"

lemma chunk_deltas_simps [simp]:
  "chunk_deltas f [] = []"
  "chunk_deltas f (c # cs) = concat (map (\<lambda>ch. case f (ccc_Delta ch) of None \<Rightarrow> [] | Some s \<Rightarrow> s)
     (chunk_Choices c)) @ chunk_deltas f cs"
  "chunk_deltas f (xs @ ys) = chunk_deltas f xs @ chunk_deltas f ys"
  by (simp_all add: chunk_deltas_def)

definition upstream_reasoning :: "ResponsesStreamEvent list \<Rightarrow> go_string" where
  "upstream_reasoning es = concat (map (\<lambda>e. if rse_Type e = ''response.reasoning_summary_text.delta''
     then rse_Delta e else []) es)"

lemma zero_chat_delta_sel [simp]:
  "cd_Content zero_ChatDelta = None" "cd_ReasoningContent zero_ChatDelta = None"
  "cd_ToolCalls zero_ChatDelta = []" "cd_Role zero_ChatDelta = []"
  by (simp_all add: zero_ChatDelta_def)

lemma chunk_sel [simp]:
  "chunk_Choices (makeChatDeltaChunk s d) = [\<lparr>ccc_Index = 0, ccc_Delta = d, ccc_FinishReason = None\<rparr>]"
  "chunk_Choices (makeChatFinishChunk s r)
     = [\<lparr>ccc_Index = 0, ccc_Delta = zero_ChatDelta\<lparr>cd_Content := Some []\<rparr>, ccc_FinishReason = Some r\<rparr>]"
  "chunk_Choices (chat_chunk s cs u) = cs"
  by (simp_all add: makeChatDeltaChunk_def makeChatFinishChunk_def chat_chunk_def)

text \<open>
  What a chunk shows of the protocol: roles, finish reasons, and the indices under which tool calls
  are opened (a chunk that opens one names the type \<open>function\<close>).
\<close>

definition finish_count :: "ChatCompletionsChunk list \<Rightarrow> nat" where
  "finish_count cs = length (filter (\<lambda>ch. ccc_FinishReason ch \<noteq> None) (concat (map chunk_Choices cs)))"

definition role_count :: "ChatCompletionsChunk list \<Rightarrow> nat" where
  "role_count cs = length (filter (\<lambda>ch. cd_Role (ccc_Delta ch) \<noteq> []) (concat (map chunk_Choices cs)))"

definition opened_calls :: "ChatCompletionsChunk list \<Rightarrow> int list" where
  "opened_calls cs = List.map_filter (\<lambda>tc. if ctc_Type tc = ''function'' then ctc_Index tc else None)
     (concat (map (\<lambda>ch. cd_ToolCalls (ccc_Delta ch)) (concat (map chunk_Choices cs))))"

lemma map_filter_append [simp]: "List.map_filter f (xs @ ys) = List.map_filter f xs @ List.map_filter f ys"
  by (simp add: List.map_filter_def)

lemma finish_count_simps [simp]:
  "finish_count [] = 0"
  "finish_count (c # cs) = length (filter (\<lambda>ch. ccc_FinishReason ch \<noteq> None) (chunk_Choices c)) + finish_count cs"
  "finish_count (xs @ ys) = finish_count xs + finish_count ys"
  by (simp_all add: finish_count_def)

lemma role_count_simps [simp]:
  "role_count [] = 0"
  "role_count (c # cs) = length (filter (\<lambda>ch. cd_Role (ccc_Delta ch) \<noteq> []) (chunk_Choices c)) + role_count cs"
  "role_count (xs @ ys) = role_count xs + role_count ys"
  by (simp_all add: role_count_def)

lemma opened_calls_simps [simp]:
  "opened_calls [] = []"
  "opened_calls (c # cs) = List.map_filter (\<lambda>tc. if ctc_Type tc = ''function'' then ctc_Index tc else None)
     (concat (map (\<lambda>ch. cd_ToolCalls (ccc_Delta ch)) (chunk_Choices c))) @ opened_calls cs"
  "opened_calls (xs @ ys) = opened_calls xs @ opened_calls ys"
  by (simp_all add: opened_calls_def List.map_filter_simps)

definition terminal :: "ResponsesStreamEvent \<Rightarrow> bool" where
  "terminal e \<longleftrightarrow> rse_Type e \<in> set [''response.completed'', ''response.done'', ''response.incomplete'',
     ''response.failed'']"

text \<open>What one step adds, for all of these at once.\<close>

definition rc_effect :: "ResponsesStreamEvent \<Rightarrow> ResponsesEventToChatState \<Rightarrow> rc_step \<Rightarrow> bool" where
  "rc_effect e s r \<longleftrightarrow>
     chunk_deltas cd_Content (snd r) = upstream_text [e]
     \<and> chunk_deltas cd_ReasoningContent (snd r) = upstream_reasoning [e]
     \<and> finish_count (snd r) = of_bool (terminal e)
     \<and> of_bool (rc_SentRole (fst r)) = of_bool (rc_SentRole s) + role_count (snd r)
     \<and> (rc_Finalized (fst r) \<longleftrightarrow> rc_Finalized s \<or> terminal e)
     \<and> (\<exists>k. opened_calls (snd r) = map (\<lambda>j. rc_NextToolCallIndex s + int j) [0..<k]
          \<and> rc_NextToolCallIndex (fst r) = rc_NextToolCallIndex s + int k)"

lemma no_calls: "\<exists>k::nat. [] = map (\<lambda>j. n + int j) [0..<k] \<and> n = n + int k"
  by (intro exI [of _ 0]) simp

lemma one_call: "\<exists>k::nat. [n] = map (\<lambda>j. n + int j) [0..<k] \<and> n + 1 = n + int k"
  by (intro exI [of _ 1]) simp

lemmas rc_stream_defs = upstream_text_def upstream_reasoning_def terminal_def List.map_filter_simps

lemma usage_chunks_none [simp]:
  "chunk_deltas f (usage_chunks s) = []" "finish_count (usage_chunks s) = 0"
  "role_count (usage_chunks s) = 0" "opened_calls (usage_chunks s) = []"
  by (simp_all add: usage_chunks_def List.map_filter_simps)

lemma effect_created: "rse_Type e = ''response.created'' \<Longrightarrow> rc_effect e s (resToChatHandleCreated e s)"
  by (simp add: rc_effect_def resToChatHandleCreated_def Let_def rc_stream_defs no_calls split: option.split)

lemma effect_text: "rse_Type e = ''response.output_text.delta'' \<Longrightarrow> rc_effect e s (resToChatHandleTextDelta e s)"
  by (simp add: rc_effect_def resToChatHandleTextDelta_def Let_def rc_stream_defs no_calls)

lemma effect_added:
  "rse_Type e = ''response.output_item.added'' \<Longrightarrow> rc_effect e s (resToChatHandleOutputItemAdded e s)"
  by (simp add: rc_effect_def resToChatHandleOutputItemAdded_def Let_def rc_stream_defs no_calls one_call
      split: option.split)

lemma effect_args:
  "rse_Type e = ''response.function_call_arguments.delta'' \<Longrightarrow> rc_effect e s (resToChatHandleFuncArgsDelta e s)"
  by (simp add: rc_effect_def resToChatHandleFuncArgsDelta_def rc_stream_defs no_calls split: option.split)

lemma effect_reasoning:
  "rse_Type e = ''response.reasoning_summary_text.delta'' \<Longrightarrow> rc_effect e s (resToChatHandleReasoningDelta e s)"
  by (simp add: rc_effect_def resToChatHandleReasoningDelta_def rc_stream_defs no_calls)

lemma effect_completed: "terminal e \<Longrightarrow> rc_effect e s (resToChatHandleCompleted e s)"
  by (cases "rse_Usage e"; cases "Option.bind (rse_Response e) rresp_Usage")
    (auto simp: rc_effect_def resToChatHandleCompleted_def Let_def rc_stream_defs no_calls)

lemma effect_step: "rc_effect e s (ResponsesEventToChatChunks e s)"
proof (cases "terminal e")
  case True
  then have "ResponsesEventToChatChunks e s = resToChatHandleCompleted e s"
    by (auto simp: ResponsesEventToChatChunks_def terminal_def)
  then show ?thesis
    using effect_completed [OF True] by simp
next
  case False
  then show ?thesis
    unfolding ResponsesEventToChatChunks_def Let_def
    by (simp add: effect_created effect_text effect_added effect_args effect_reasoning terminal_def)
      (simp add: rc_effect_def rc_stream_defs no_calls)
qed

definition rc_effects :: "ResponsesStreamEvent list \<Rightarrow> ResponsesEventToChatState \<Rightarrow> rc_step \<Rightarrow> bool" where
  "rc_effects es s r \<longleftrightarrow>
     chunk_deltas cd_Content (snd r) = upstream_text es
     \<and> chunk_deltas cd_ReasoningContent (snd r) = upstream_reasoning es
     \<and> finish_count (snd r) = length (filter terminal es)
     \<and> of_bool (rc_SentRole (fst r)) = of_bool (rc_SentRole s) + role_count (snd r)
     \<and> (rc_Finalized (fst r) \<longleftrightarrow> rc_Finalized s \<or> list_ex terminal es)
     \<and> (\<exists>k. opened_calls (snd r) = map (\<lambda>j. rc_NextToolCallIndex s + int j) [0..<k]
          \<and> rc_NextToolCallIndex (fst r) = rc_NextToolCallIndex s + int k)"

lemma upstream_Cons:
  "upstream_text (e # es) = upstream_text [e] @ upstream_text es"
  "upstream_reasoning (e # es) = upstream_reasoning [e] @ upstream_reasoning es"
  by (simp_all add: upstream_text_def upstream_reasoning_def)

lemma calls_seq:
  assumes "\<exists>k. xs = map (\<lambda>j. n + int j) [0..<k] \<and> m = n + int k"
    "\<exists>k. ys = map (\<lambda>j. m + int j) [0..<k] \<and> l = m + int k"
  shows "\<exists>k. xs @ ys = map (\<lambda>j. n + int j) [0..<k] \<and> l = n + int k"
proof -
  obtain i k where ik: "xs = map (\<lambda>j. n + int j) [0..<i]" "m = n + int i"
      "ys = map (\<lambda>j. m + int j) [0..<k]" "l = m + int k"
    using assms by blast
  have "xs @ ys = map (\<lambda>j. n + int j) [0..<i + k]"
    by (rule nth_equalityI) (auto simp: ik nth_append)
  then show ?thesis
    using ik by (intro exI [of _ "i + k"]) simp
qed

lemma effects_run: "rc_effects es s (rc_run es s)"
proof (induction es arbitrary: s)
  case Nil
  show ?case by (simp add: rc_effects_def rc_stream_defs no_calls)
next
  case (Cons e es)
  let ?r = "ResponsesEventToChatChunks e s"
  have e: "rc_effect e s ?r" by (rule effect_step)
  have es: "rc_effects es (fst ?r) (rc_run es (fst ?r))" by (rule Cons.IH)
  have calls: "\<exists>k. opened_calls (snd ?r @ snd (rc_run es (fst ?r))) = map (\<lambda>j. rc_NextToolCallIndex s + int j) [0..<k]
      \<and> rc_NextToolCallIndex (fst (rc_run es (fst ?r))) = rc_NextToolCallIndex s + int k"
    using e es unfolding rc_effect_def rc_effects_def opened_calls_simps by (intro calls_seq) auto
  show ?case
    using e es calls
    by (auto simp: rc_effect_def rc_effects_def case_prod_beta upstream_Cons [of e es])
qed

definition rc_stream :: "ResponsesStreamEvent list \<Rightarrow> ResponsesEventToChatState \<Rightarrow> rc_step" where
  "rc_stream es s =
     (case rc_run es s of (s', out) \<Rightarrow>
        case FinalizeResponsesChatStream s' of (s'', out') \<Rightarrow> (s'', out @ out'))"

lemma finalize_chat:
  "chunk_deltas cd_Content (snd (FinalizeResponsesChatStream s)) = []"
  "chunk_deltas cd_ReasoningContent (snd (FinalizeResponsesChatStream s)) = []"
  "finish_count (snd (FinalizeResponsesChatStream s)) = of_bool (\<not> rc_Finalized s)"
  "role_count (snd (FinalizeResponsesChatStream s)) = 0"
  "opened_calls (snd (FinalizeResponsesChatStream s)) = []"
  "rc_Finalized (fst (FinalizeResponsesChatStream s))"
  by (auto simp: FinalizeResponsesChatStream_def Let_def List.map_filter_simps)

text \<open>
  The tool calls of an upstream: the items that are added, each with the arguments that come for its output index
  until another call is added under that index.
\<close>

definition adds_call :: "ResponsesStreamEvent \<Rightarrow> bool" where
  "adds_call e \<longleftrightarrow> rse_Type e = ''response.output_item.added'' \<and> (\<exists>item. rse_Item e = Some item \<and> ro_Type item = ''function_call'')"

definition args_for :: "int \<Rightarrow> ResponsesStreamEvent \<Rightarrow> go_string" where
  "args_for i e = (if rse_Type e = ''response.function_call_arguments.delta'' \<and> rse_OutputIndex e = i then rse_Delta e else [])"

definition args_until :: "int \<Rightarrow> ResponsesStreamEvent list \<Rightarrow> go_string" where
  "args_until i es = concat (map (args_for i) (takeWhile (\<lambda>e. \<not> (adds_call e \<and> rse_OutputIndex e = i)) es))"

fun upstream_calls :: "ResponsesStreamEvent list \<Rightarrow> (go_string \<times> go_string \<times> go_string) list" where
  "upstream_calls [] = []"
| "upstream_calls (e # es) =
     (if adds_call e then [(ro_CallID (the (rse_Item e)), ro_Name (the (rse_Item e)), args_until (rse_OutputIndex e) es)] else [])
     @ upstream_calls es"

text \<open>What a client puts together: a call that is opened is new, any other piece belongs to the call of its index.\<close>

definition call_pieces :: "ChatCompletionsChunk list \<Rightarrow> ChatToolCall list" where
  "call_pieces cs = concat (map (\<lambda>ch. cd_ToolCalls (ccc_Delta ch)) (concat (map chunk_Choices cs)))"

definition chat_client :: "(go_string \<times> go_string \<times> go_string) list \<Rightarrow> ChatToolCall \<Rightarrow> (go_string \<times> go_string \<times> go_string) list" where
  "chat_client calls tc =
     (if ctc_Type tc = ''function'' then calls @ [(ctc_ID tc, cfc_Name (ctc_Function tc), cfc_Arguments (ctc_Function tc))]
      else (case ctc_Index tc of
              None \<Rightarrow> calls
            | Some k \<Rightarrow> if 0 \<le> k \<and> nat k < length calls
                then calls[nat k := apsnd (apsnd (\<lambda>a. a @ cfc_Arguments (ctc_Function tc))) (calls ! nat k)] else calls))"

lemma call_pieces_simps [simp]:
  "call_pieces [] = []"
  "call_pieces (c # cs) = concat (map (\<lambda>ch. cd_ToolCalls (ccc_Delta ch)) (chunk_Choices c)) @ call_pieces cs"
  "call_pieces (xs @ ys) = call_pieces xs @ call_pieces ys"
  by (simp_all add: call_pieces_def)

lemma opened_pieces: "opened_calls cs = List.map_filter (\<lambda>tc. if ctc_Type tc = ''function'' then ctc_Index tc else None) (call_pieces cs)"
  by (simp add: opened_calls_def call_pieces_def)

text \<open>The position of the last call that was added under an output index.\<close>

fun last_call :: "int \<Rightarrow> ResponsesStreamEvent list \<Rightarrow> nat option" where
  "last_call i [] = None"
| "last_call i (e # es) =
     (case last_call i es of
        Some k \<Rightarrow> Some (if adds_call e then k + 1 else k)
      | None \<Rightarrow> if adds_call e \<and> rse_OutputIndex e = i then Some 0 else None)"

lemma last_call_None: "last_call i es = None \<longleftrightarrow> \<not> list_ex (\<lambda>e. adds_call e \<and> rse_OutputIndex e = i) es"
  by (induction es) (auto split: option.splits)

lemma last_call_less: "last_call i es = Some k \<Longrightarrow> k < length (upstream_calls es)"
  by (induction es arbitrary: k) (auto split: option.splits if_splits)

lemma last_call_snoc:
  "last_call i (es @ [e]) = (if adds_call e \<and> rse_OutputIndex e = i then Some (length (upstream_calls es)) else last_call i es)"
  by (induction es) (auto split: option.splits)

lemma args_until_snoc:
  "args_until i (es @ [e]) = args_until i es @ (if last_call i es = None \<and> \<not> (adds_call e \<and> rse_OutputIndex e = i) then args_for i e else [])"
  by (induction es) (auto simp: args_until_def split: option.splits)

lemma args_for_added: "adds_call e \<Longrightarrow> args_for i e = []"
  by (simp add: adds_call_def args_for_def)

lemma upstream_calls_snoc:
  "upstream_calls (es @ [e]) =
     (if adds_call e then upstream_calls es @ [(ro_CallID (the (rse_Item e)), ro_Name (the (rse_Item e)), [])]
      else (case last_call (rse_OutputIndex e) es of
              None \<Rightarrow> upstream_calls es
            | Some k \<Rightarrow> (upstream_calls es)[k := apsnd (apsnd (\<lambda>a. a @ args_for (rse_OutputIndex e) e)) (upstream_calls es ! k)]))"
proof (induction es)
  case Nil
  show ?case by (simp add: args_until_def)
next
  case (Cons f es)
  have other: "args_for i e = []" if "i \<noteq> rse_OutputIndex e" for i using that by (simp add: args_for_def)
  show ?case
  proof (cases "adds_call e")
    case True
    then show ?thesis using Cons by (simp add: args_until_snoc args_for_added)
  next
    case False
    then show ?thesis
      using Cons other [of "rse_OutputIndex f"] by (auto simp: args_until_snoc split: option.splits)
  qed
qed

lemma rc_run_snoc:
  "rc_run (es @ [e]) s = (fst (ResponsesEventToChatChunks e (fst (rc_run es s))),
     snd (rc_run es s) @ snd (ResponsesEventToChatChunks e (fst (rc_run es s))))"
  by (induction es arbitrary: s) (simp_all add: case_prod_beta)

lemma usage_no_calls [simp]: "call_pieces (usage_chunks s) = []"
  by (simp add: usage_chunks_def)

text \<open>What one event does to the calls.\<close>

lemma added_pieces:
  assumes "adds_call e"
  shows "call_pieces (snd (ResponsesEventToChatChunks e s)) = [\<lparr>ctc_Index = Some (rc_NextToolCallIndex s),
      ctc_ID = ro_CallID (the (rse_Item e)), ctc_Type = ''function'', ctc_Function = \<lparr>cfc_Name = ro_Name (the (rse_Item e)), cfc_Arguments = []\<rparr>\<rparr>]"
    "rc_NextToolCallIndex (fst (ResponsesEventToChatChunks e s)) = rc_NextToolCallIndex s + 1"
    "rc_OutputIndexToToolIndex (fst (ResponsesEventToChatChunks e s)) = (rc_OutputIndexToToolIndex s)(rse_OutputIndex e \<mapsto> rc_NextToolCallIndex s)"
  using assms by (auto simp: adds_call_def ResponsesEventToChatChunks_def resToChatHandleOutputItemAdded_def Let_def)

lemma other_pieces:
  assumes "\<not> adds_call e"
  shows "call_pieces (snd (ResponsesEventToChatChunks e s)) =
      (case rc_OutputIndexToToolIndex s (rse_OutputIndex e) of
         Some k \<Rightarrow> if args_for (rse_OutputIndex e) e = [] then [] else
           [\<lparr>ctc_Index = Some k, ctc_ID = [], ctc_Type = [], ctc_Function = \<lparr>cfc_Name = [], cfc_Arguments = args_for (rse_OutputIndex e) e\<rparr>\<rparr>]
       | None \<Rightarrow> [])"
    "rc_NextToolCallIndex (fst (ResponsesEventToChatChunks e s)) = rc_NextToolCallIndex s"
    "rc_OutputIndexToToolIndex (fst (ResponsesEventToChatChunks e s)) = rc_OutputIndexToToolIndex s"
  using assms
  by (auto simp: adds_call_def args_for_def ResponsesEventToChatChunks_def resToChatHandleCreated_def resToChatHandleTextDelta_def
      resToChatHandleOutputItemAdded_def resToChatHandleFuncArgsDelta_def resToChatHandleReasoningDelta_def
      resToChatHandleCompleted_def Let_def split: option.splits)

lemma calls_run:
  fixes s :: ResponsesEventToChatState
  assumes "rc_NextToolCallIndex s = 0" "rc_OutputIndexToToolIndex s = Map.empty"
  shows "foldl chat_client [] (call_pieces (snd (rc_run es s))) = upstream_calls es
    \<and> opened_calls (snd (rc_run es s)) = map int [0..<length (upstream_calls es)]
    \<and> rc_NextToolCallIndex (fst (rc_run es s)) = int (length (upstream_calls es))
    \<and> rc_OutputIndexToToolIndex (fst (rc_run es s)) = (\<lambda>i. map_option int (last_call i es))"
proof (induction es rule: rev_induct)
  case Nil
  show ?case using assms by (simp add: fun_eq_iff)
next
  case (snoc e es)
  let ?s = "fst (rc_run es s)"
  show ?case
  proof (cases "adds_call e")
    case True
    then show ?thesis
      using snoc by (auto simp: rc_run_snoc added_pieces upstream_calls_snoc last_call_snoc chat_client_def opened_pieces
          List.map_filter_simps fun_eq_iff)
  next
    case False
    show ?thesis
    proof (cases "last_call (rse_OutputIndex e) es")
      case None
      then show ?thesis
        using snoc False by (simp add: rc_run_snoc other_pieces upstream_calls_snoc last_call_snoc opened_pieces List.map_filter_simps)
    next
      case (Some k)
      have "k < length (upstream_calls es)" using last_call_less [OF Some] .
      then show ?thesis
        using snoc False Some
        by (simp add: rc_run_snoc other_pieces upstream_calls_snoc last_call_snoc opened_pieces List.map_filter_simps chat_client_def
            apsnd_def map_prod_def case_prod_beta)
    qed
  qed
qed

text \<open>
C26. The chunks of a Chat Completions stream carry exactly the text and the reasoning the upstream sent, and exactly its
tool calls: a client that puts the pieces together by their index has the calls that were added, in that order, each
with its identifier, its name and the concatenation of the argument deltas for its output index (until another call is
added under it), and the calls are opened under the indices 0, 1, 2, ..., one for each that was added.
\<close>
theorem chat_stream_content:
  "chunk_deltas cd_Content (snd (rc_stream es (NewResponsesEventToChatState rand n now))) = upstream_text es
   \<and> chunk_deltas cd_ReasoningContent (snd (rc_stream es (NewResponsesEventToChatState rand n now)))
       = upstream_reasoning es
   \<and> foldl chat_client [] (call_pieces (snd (rc_stream es (NewResponsesEventToChatState rand n now)))) = upstream_calls es
   \<and> opened_calls (snd (rc_stream es (NewResponsesEventToChatState rand n now))) = map int [0..<length (upstream_calls es)]"
proof -
  let ?init = "NewResponsesEventToChatState rand n now"
  have "call_pieces (snd (FinalizeResponsesChatStream s)) = []" for s
    by (simp add: FinalizeResponsesChatStream_def Let_def)
  then show ?thesis
    using effects_run [of es ?init] calls_run [of ?init es]
    by (auto simp: rc_effects_def rc_stream_def case_prod_beta finalize_chat NewResponsesEventToChatState_def)
qed

text \<open>
A chunk stream has at most one role chunk, and at least one chunk with a finish reason: one for
each terminal event of the upstream, or one from the finaliser when there was none.
\<close>
theorem chat_stream_finishes:
  "role_count (snd (rc_stream es (NewResponsesEventToChatState rand n now))) \<le> 1
   \<and> finish_count (snd (rc_stream es (NewResponsesEventToChatState rand n now)))
       = max 1 (length (filter terminal es))"
proof -
  let ?init = "NewResponsesEventToChatState rand n now"
  have e: "rc_effects es ?init (rc_run es ?init)" by (rule effects_run)
  have roles: "role_count (snd (rc_run es ?init)) \<le> 1"
    using e by (auto simp: rc_effects_def of_bool_def split: if_splits)
  have "list_ex terminal es \<longleftrightarrow> filter terminal es \<noteq> []"
    by (auto simp: list_ex_iff filter_empty_conv)
  then have "finish_count (snd (rc_run es ?init)) + of_bool (\<not> rc_Finalized (fst (rc_run es ?init)))
      = max 1 (length (filter terminal es))"
    using e by (cases "filter terminal es") (auto simp: rc_effects_def NewResponsesEventToChatState_def)
  then show ?thesis
    using roles by (simp add: rc_stream_def case_prod_beta finalize_chat)
qed

section \<open>The accumulator\<close>

lemma zero_output_action [simp]: "ro_Role zero_output = []"
  by (simp add: zero_output_def)

lemma build_output_text [simp]:
  "output_text (BuildOutput a) = ba_text a" "output_reasoning (BuildOutput a) = ba_reasoning a"
proof -
  have calls: "concat (map (\<lambda>item. if ro_Type item = ''message'' then f item else [])
        (map (\<lambda>f. zero_output\<lparr>ro_Type := ''function_call'', ro_CallID := bf_CallID f,
              ro_Name := bf_Name f, ro_Arguments := bf_Args f\<rparr>) fs)) = []"
      "concat (map (\<lambda>item. if ro_Type item = ''reasoning'' then f item else [])
        (map (\<lambda>f. zero_output\<lparr>ro_Type := ''function_call'', ro_CallID := bf_CallID f,
              ro_Name := bf_Name f, ro_Arguments := bf_Args f\<rparr>) fs)) = []" for f :: "ResponsesOutput \<Rightarrow> string" and fs
    by (induction fs) auto
  show "output_text (BuildOutput a) = ba_text a"
    using calls(1) by (simp add: output_text_def BuildOutput_def)
  show "output_reasoning (BuildOutput a) = ba_reasoning a"
    using calls(2) by (simp add: output_reasoning_def BuildOutput_def)
qed

lemma append_call_text [simp]:
  "ba_text (append_call grow f a) = ba_text a" "ba_reasoning (append_call grow f a) = ba_reasoning a"
  by (simp_all add: append_call_def Let_def)

lemma write_args_text:
  "write_args i s a = Some a' \<Longrightarrow> ba_text a' = ba_text a \<and> ba_reasoning a' = ba_reasoning a"
  by (auto simp: write_args_def Let_def split: if_splits)

lemma process_text:
  assumes "ProcessEvent grow e a = Some a'"
  shows "ba_text a' = ba_text a @ upstream_text [e] \<and> ba_reasoning a' = ba_reasoning a @ upstream_reasoning [e]"
  using assms write_args_text
  by (auto simp: ProcessEvent_def rc_stream_defs Let_def split: if_splits option.splits)

lemma ba_run_text:
  assumes "ba_run grow es a = Some a'"
  shows "ba_text a' = ba_text a @ upstream_text es \<and> ba_reasoning a' = ba_reasoning a @ upstream_reasoning es"
  using assms
proof (induction es arbitrary: a)
  case Nil
  then show ?case by (simp add: rc_stream_defs)
next
  case (Cons e es)
  then show ?case
    using process_text [of grow e a] by (auto simp: upstream_Cons [of e es] split: option.splits)
qed

text \<open>
Buffered and streamed answers agree: when the terminal response carries no output, the text the
accumulator puts into the whole response is the text the chunk stream delivers, and likewise for the
reasoning.
\<close>
theorem buffered_agrees_with_stream:
  assumes "ba_run grow es NewBufferedResponseAccumulator = Some a" "rresp_Output resp = []"
  shows "map_option (output_text \<circ> rresp_Output) (SupplementResponseOutput a (Some resp))
      = Some (chunk_deltas cd_Content (snd (rc_stream es (NewResponsesEventToChatState rand n now))))
    \<and> map_option (output_reasoning \<circ> rresp_Output) (SupplementResponseOutput a (Some resp))
      = Some (chunk_deltas cd_ReasoningContent (snd (rc_stream es (NewResponsesEventToChatState rand n now))))"
proof -
  have acc: "ba_text a = upstream_text es" "ba_reasoning a = upstream_reasoning es"
    using ba_run_text [OF assms(1)] by (simp_all add: NewBufferedResponseAccumulator_def)
  have "chunk_deltas cd_Content (snd (rc_stream es (NewResponsesEventToChatState rand n now))) = upstream_text es"
    "chunk_deltas cd_ReasoningContent (snd (rc_stream es (NewResponsesEventToChatState rand n now))) = upstream_reasoning es"
    using effects_run [of es "NewResponsesEventToChatState rand n now"]
    by (simp_all add: rc_effects_def rc_stream_def case_prod_beta finalize_chat)
  then show ?thesis
    using acc assms(2)
    by (auto simp: SupplementResponseOutput_def HasContent_def output_text_def [of "[]"] output_reasoning_def [of "[]"])
qed

theorem buffered_agrees_with_stream_witness:
  "map_option (output_text \<circ> rresp_Output) (SupplementResponseOutput
       (NewBufferedResponseAccumulator\<lparr>ba_text := ''hi''\<rparr>) (Some zero_ResponsesResponse))
      = Some (chunk_deltas cd_Content (snd (rc_stream
          [zero_rse\<lparr>rse_Type := ''response.output_text.delta'', rse_Delta := ''hi''\<rparr>]
          (NewResponsesEventToChatState (\<lambda>n. ''r'') 0 7))))
   \<and> map_option (output_reasoning \<circ> rresp_Output) (SupplementResponseOutput
       (NewBufferedResponseAccumulator\<lparr>ba_text := ''hi''\<rparr>) (Some zero_ResponsesResponse))
      = Some (chunk_deltas cd_ReasoningContent (snd (rc_stream
          [zero_rse\<lparr>rse_Type := ''response.output_text.delta'', rse_Delta := ''hi''\<rparr>]
          (NewResponsesEventToChatState (\<lambda>n. ''r'') 0 7))))"
  by (rule buffered_agrees_with_stream [of "\<lambda>n. n + 1"])
    (simp_all add: ProcessEvent_def NewBufferedResponseAccumulator_def zero_ResponsesResponse_def)

section \<open>Writing to moved builders\<close>

text \<open>The upstream finishes the arguments of a call before it adds the next one.\<close>

fun sequential_calls :: "int option \<Rightarrow> ResponsesStreamEvent list \<Rightarrow> bool" where
  "sequential_calls cur [] = True"
| "sequential_calls cur (e # es) =
     (if adds_call e then sequential_calls (Some (rse_OutputIndex e)) es
      else if rse_Type e = ''response.function_call_arguments.delta'' then
        cur = Some (rse_OutputIndex e) \<and> sequential_calls cur es
      else sequential_calls cur es)"

definition current_call :: "int option \<Rightarrow> BufferedResponseAccumulator \<Rightarrow> bool" where
  "current_call cur a \<longleftrightarrow>
     (case cur of
        None \<Rightarrow> True
      | Some i \<Rightarrow> ba_funcCalls a \<noteq> [] \<and> ba_outputIndexToFuncIdx a i = Some (length (ba_funcCalls a) - 1)
          \<and> (bf_Addr (last (ba_funcCalls a)) = None \<or> bf_Addr (last (ba_funcCalls a)) = Some (ba_Array a)))"

lemma current_added:
  assumes "adds_call e"
  shows "\<exists>a'. ProcessEvent grow e a = Some a' \<and> current_call (Some (rse_OutputIndex e)) a'"
  using assms
  by (auto simp: adds_call_def ProcessEvent_def append_call_def current_call_def Let_def split: option.splits)

lemma current_args:
  assumes "rse_Type e = ''response.function_call_arguments.delta''" "current_call (Some (rse_OutputIndex e)) a"
  shows "\<exists>a'. ProcessEvent grow e a = Some a' \<and> current_call (Some (rse_OutputIndex e)) a'"
  using assms
  by (auto simp: ProcessEvent_def write_args_def current_call_def Let_def last_conv_nth nth_list_update)

lemma current_other:
  assumes "\<not> adds_call e" "rse_Type e \<noteq> ''response.function_call_arguments.delta''" "current_call cur a"
  shows "\<exists>a'. ProcessEvent grow e a = Some a' \<and> current_call cur a'"
  using assms
  by (auto simp: adds_call_def ProcessEvent_def current_call_def split: option.splits)

lemma sequential_run:
  "sequential_calls cur es \<Longrightarrow> current_call cur a \<Longrightarrow> ba_run grow es a \<noteq> None"
proof (induction es arbitrary: cur a)
  case Nil
  then show ?case by simp
next
  case (Cons e es)
  show ?case
  proof (cases "adds_call e")
    case True
    then show ?thesis
      using current_added [OF True, of grow a] Cons by auto
  next
    case False
    show ?thesis
    proof (cases "rse_Type e = ''response.function_call_arguments.delta''")
      case True
      then show ?thesis
        using False Cons.prems current_args [OF True, of a grow] Cons.IH by auto
    next
      case other: False
      then show ?thesis
        using False Cons.prems current_other [OF False other, of cur a grow] Cons.IH by auto
    qed
  qed
qed

text \<open>
When the upstream finishes the arguments of each call before it adds the next one, the
accumulator never panics, however \<open>append\<close> grows the slice of calls.
\<close>
theorem accumulator_safe_when_sequential:
  assumes "sequential_calls None es"
  shows "ba_run grow es NewBufferedResponseAccumulator \<noteq> None"
  using sequential_run [OF assms] by (simp add: current_call_def)

theorem accumulator_safe_when_sequential_witness:
  "ba_run (\<lambda>n. n + 1) [call_added 0 ''c0'' ''f'', args_delta 0 ''{}'', call_added 1 ''c1'' ''g'', args_delta 1 ''{}'']
     NewBufferedResponseAccumulator \<noteq> None"
  by (rule accumulator_safe_when_sequential) (simp add: adds_call_def)

text \<open>
  The growth of the Go runtime for small slices of this element size: one, then doubling.
\<close>

definition doubling :: "nat \<Rightarrow> nat" where
  "doubling n = (if n = 0 then 1 else 2 * n)"

text \<open>
With interleaved arguments it does panic: the second call moves the builder of the first one,
which has been written to, and the next write to it hits the copy check of \<open>strings.Builder\<close>.
\<close>
theorem accumulator_panics_when_interleaved:
  "ba_run doubling [call_added 0 ''c0'' ''f'', args_delta 0 ''{'', call_added 1 ''c1'' ''g'', args_delta 0 ''}'']
     NewBufferedResponseAccumulator = None"
  by (simp add: NewBufferedResponseAccumulator_def ProcessEvent_def append_call_def write_args_def doubling_def
      Let_def)

end
