(* ===== verification/ChatBridge.thy ===== *)
theory ChatBridge
  imports AnthToRespResp "HOL-Library.AList"
begin

text \<open>
  \<open>pkg/apicompat/chatcompletions_responses_bridge.go\<close>: the bridge for upstreams that only speak Chat
  Completions. A Responses request becomes a Chat Completions request; the answer, whole or as a
  stream of chunks, becomes a Responses answer. Arguments the source tests for nil are options.
\<close>

section \<open>Raw JSON helpers\<close>

definition bytesTrimSpace :: "RawMessage \<Rightarrow> RawMessage" where
  "bytesTrimSpace raw = TrimSpace raw"

definition rawString :: "RawMessage \<Rightarrow> go_string" where
  "rawString raw =
     (let raw = bytesTrimSpace raw
      in if raw = [] \<or> raw = ''null'' then []
         else (case unmarshal_string raw of Some s \<Rightarrow> s | None \<Rightarrow> []))"

definition rawNestedString :: "RawMessage \<Rightarrow> go_string \<Rightarrow> go_string" where
  "rawNestedString raw key =
     (case unmarshal_object raw of None \<Rightarrow> [] | Some obj \<Rightarrow> rawString (map_get obj key))"

definition nonEmpty :: "go_string \<Rightarrow> go_string \<Rightarrow> go_string" where
  "nonEmpty value fallback = (if value \<noteq> [] then value else fallback)"

section \<open>Requests\<close>

definition chatCompletionsBridgeRole :: "go_string \<Rightarrow> go_string" where
  "chatCompletionsBridgeRole role =
     (let trimmed = TrimSpace role
      in if trimmed = [] then ''user''
         else if EqualFoldASCII trimmed ''developer'' then ''system''
         else role)"

definition marshal_chat_parts :: "ChatContentPart list \<Rightarrow> string option" where
  "marshal_chat_parts ps = map_option jslice (mapM_opt enc_ChatContentPart ps)"

definition chat_image_part :: "go_string \<Rightarrow> ChatContentPart" where
  "chat_image_part url = \<lparr>ccp_Type = ''image_url'', ccp_Text = [],
     ccp_ImageURL = Some \<lparr>ciu_URL = url, ciu_Detail = []\<rparr>\<rparr>"

definition part_image_url :: "(go_string \<times> RawMessage) list \<Rightarrow> go_string" where
  "part_image_url part =
     (let imageURL = rawString (map_get part ''image_url'')
      in if imageURL = [] then rawNestedString (map_get part ''image_url'') ''url'' else imageURL)"

definition chatContentFromSingleResponsesPart ::
    "go_string \<Rightarrow> (go_string \<times> RawMessage) list \<Rightarrow> RawMessage result" where
  "chatContentFromSingleResponsesPart partType part =
     (if partType = ''input_image'' \<or> partType = ''image_url'' then
        of_json (marshal_chat_parts [chat_image_part (part_image_url part)])
      else Inr (jstr (rawString (map_get part ''text''))))"

text \<open>One iteration of the loop over the parts: texts, chat parts, whether a non-text part was seen.\<close>

definition bridge_part :: "go_string list \<times> ChatContentPart list \<times> bool \<Rightarrow> RawMessage
    \<Rightarrow> go_string list \<times> ChatContentPart list \<times> bool" where
  "bridge_part acc rawPart =
     (case acc of (textParts, chatParts, hasNonText) \<Rightarrow>
        case unmarshal_object rawPart of
          None \<Rightarrow> acc
        | Some part \<Rightarrow>
            (let partType = rawString (map_get part ''type'') in
             if partType = ''input_text'' \<or> partType = ''output_text'' \<or> partType = ''text''
                \<or> partType = [] then
               (let text = rawString (map_get part ''text'')
                in if text = [] then acc
                   else (textParts @ [text],
                         chatParts @ [\<lparr>ccp_Type = ''text'', ccp_Text = text, ccp_ImageURL = None\<rparr>],
                         hasNonText))
             else if partType = ''input_image'' \<or> partType = ''image_url'' then
               (let imageURL = part_image_url part
                in if imageURL = [] then acc
                   else (textParts, chatParts @ [chat_image_part imageURL], True))
             else acc))"

definition responsesContentPartsToChatContent ::
    "RawMessage list \<Rightarrow> go_string \<Rightarrow> RawMessage result" where
  "responsesContentPartsToChatContent rawParts role =
     (case foldl bridge_part ([], [], False) rawParts of (textParts, chatParts, hasNonText) \<Rightarrow>
        if \<not> hasNonText then Inr (jstr (Join textParts (newline @ newline)))
        else if role \<noteq> ''user'' then Inr (jstr (Join textParts (newline @ newline)))
        else if chatParts = [] then Inr (jstr [])
        else of_json (marshal_chat_parts chatParts))"

definition responsesContentToChatContent :: "RawMessage \<Rightarrow> go_string \<Rightarrow> RawMessage result" where
  "responsesContentToChatContent raw role =
     (let raw = bytesTrimSpace raw in
      if raw = [] \<or> raw = ''null'' then Inr (jstr [])
      else case unmarshal_string raw of
        Some _ \<Rightarrow> Inr raw
      | None \<Rightarrow>
          (case unmarshal_array raw of
             Some rawParts \<Rightarrow> responsesContentPartsToChatContent rawParts role
           | None \<Rightarrow>
               (case unmarshal_object raw of
                  Some obj \<Rightarrow>
                    chatContentFromSingleResponsesPart (rawString (map_get obj ''type'')) obj
                | None \<Rightarrow> Inr raw)))"

definition user_message :: "RawMessage \<Rightarrow> ChatMessage" where
  "user_message content = zero_ChatMessage\<lparr>cm_Role := ''user'', cm_Content := content\<rparr>"

text \<open>The messages one input item adds.\<close>

definition bridge_item :: "RawMessage \<Rightarrow> ChatMessage list result" where
  "bridge_item raw =
     (let raw = bytesTrimSpace raw in
      if raw = [] \<or> raw = ''null'' then Inr []
      else case unmarshal_object raw of
        None \<Rightarrow>
          (case unmarshal_string raw of
             Some text \<Rightarrow> Inr [user_message (jstr text)]
           | None \<Rightarrow> Inl (''parse responses input item: '' @ json_err))
      | Some item \<Rightarrow>
          (let role = chatCompletionsBridgeRole (rawString (map_get item ''role''));
               itemType = rawString (map_get item ''type'')
           in if itemType = ''function_call'' then
                (let arguments = rawString (map_get item ''arguments'');
                     arguments = (if TrimSpace arguments = [] then ''{}'' else arguments)
                 in Inr [zero_ChatMessage\<lparr>cm_Role := ''assistant'',
                      cm_ToolCalls := [\<lparr>ctc_Index = None,
                        ctc_ID = rawString (map_get item ''call_id''), ctc_Type = ''function'',
                        ctc_Function = \<lparr>cfc_Name = rawString (map_get item ''name''),
                          cfc_Arguments = arguments\<rparr>\<rparr>]\<rparr>])
              else if itemType = ''function_call_output'' then
                Inr [zero_ChatMessage\<lparr>cm_Role := ''tool'',
                  cm_ToolCallID := rawString (map_get item ''call_id''),
                  cm_Content := jstr (rawString (map_get item ''output''))\<rparr>]
              else if itemType = ''input_text'' \<or> itemType = ''text'' then
                Inr [user_message (jstr (rawString (map_get item ''text'')))]
              else if itemType = ''input_image'' then
                bind_res (chatContentFromSingleResponsesPart itemType item) (\<lambda>content.
                  Inr [user_message content])
              else
                (let content = map_get item ''content'';
                     content = (if bytesTrimSpace content = []
                                then (let text = rawString (map_get item ''text'')
                                      in if text \<noteq> [] then jstr text else content)
                                else content)
                 in bind_res (responsesContentToChatContent content role) (\<lambda>chatContent.
                      Inr [zero_ChatMessage\<lparr>cm_Role := role, cm_Content := chatContent\<rparr>]))))"

definition responsesInputToChatMessages :: "go_string \<Rightarrow> RawMessage \<Rightarrow> ChatMessage list result" where
  "responsesInputToChatMessages instructions inputRaw =
     (let messages = (if TrimSpace instructions \<noteq> []
                      then [zero_ChatMessage\<lparr>cm_Role := ''system'', cm_Content := jstr instructions\<rparr>]
                      else []);
          inputRaw = bytesTrimSpace inputRaw
      in if inputRaw = [] \<or> inputRaw = ''null'' then Inr messages
         else case unmarshal_string inputRaw of
           Some inputText \<Rightarrow> Inr (messages @ [user_message (jstr inputText)])
         | None \<Rightarrow>
             (case unmarshal_array inputRaw of
                None \<Rightarrow> Inl (''parse responses input: '' @ json_err)
              | Some rawItems \<Rightarrow>
                  bind_res (mapM_res bridge_item rawItems) (\<lambda>ms. Inr (messages @ concat ms))))"

definition responsesToolsToChatTools :: "ResponsesTool list \<Rightarrow> ChatTool list" where
  "responsesToolsToChatTools tools =
     map (\<lambda>tool. \<lparr>ct_Type = ''function'',
            ct_Function = Some \<lparr>cf_Name = rtool_Name tool, cf_Description = rtool_Description tool,
              cf_Parameters = rtool_Parameters tool, cf_Strict = rtool_Strict tool\<rparr>\<rparr>)
       (filter (\<lambda>tool. rtool_Type tool = ''function'') tools)"

definition responsesToolChoiceToChatToolChoice :: "RawMessage \<Rightarrow> RawMessage" where
  "responsesToolChoiceToChatToolChoice raw =
     (case unmarshal_object raw of
        None \<Rightarrow> raw
      | Some choice \<Rightarrow>
          if rawString (map_get choice ''type'') \<noteq> ''function'' then raw
          else (let name = rawString (map_get choice ''name'');
                    name = (if name = [] then rawNestedString (map_get choice ''function'') ''name''
                            else name)
                in if name = [] then raw
                   else jobj [(''function'', jobj [(''name'', jstr name)]),
                              (''type'', jstr ''function'')]))"

definition ResponsesToChatCompletionsRequest ::
    "ResponsesRequest option \<Rightarrow> ChatCompletionsRequest result" where
  "ResponsesToChatCompletionsRequest r =
     (case r of
        None \<Rightarrow> Inl ''responses request is nil''
      | Some req \<Rightarrow>
          bind_res (responsesInputToChatMessages (rreq_Instructions req) (rreq_Input req)) (\<lambda>messages.
            let out = zero_ChatCompletionsRequest\<lparr>creq_Model := rreq_Model req,
                        creq_Messages := messages,
                        creq_MaxCompletionTokens := rreq_MaxOutputTokens req,
                        creq_Temperature := rreq_Temperature req, creq_TopP := rreq_TopP req,
                        creq_Stream := rreq_Stream req, creq_ServiceTier := rreq_ServiceTier req\<rparr>;
                out = (case rreq_Reasoning req of
                         None \<Rightarrow> out | Some x \<Rightarrow> out\<lparr>creq_ReasoningEffort := rr_Effort x\<rparr>);
                out = (if rreq_Tools req \<noteq> []
                       then out\<lparr>creq_Tools := responsesToolsToChatTools (rreq_Tools req)\<rparr> else out);
                out = (if rreq_ToolChoice req \<noteq> []
                       then out\<lparr>creq_ToolChoice :=
                              responsesToolChoiceToChatToolChoice (rreq_ToolChoice req)\<rparr>
                       else out)
            in Inr out))"

section \<open>Whole responses\<close>

definition ChatUsageToResponsesUsage :: "ChatUsage option \<Rightarrow> ResponsesUsage option" where
  "ChatUsageToResponsesUsage usage =
     map_option (\<lambda>u.
       \<lparr>ru_InputTokens = cu_PromptTokens u, ru_OutputTokens = cu_CompletionTokens u,
        ru_TotalTokens = (if cu_TotalTokens u = 0
                          then wrap64 (cu_PromptTokens u + cu_CompletionTokens u)
                          else cu_TotalTokens u),
        ru_InputTokensDetails =
          (case cu_PromptTokensDetails u of
             None \<Rightarrow> None
           | Some d \<Rightarrow> (if ctd_CachedTokens d > 0 then Some \<lparr>ritd_CachedTokens = ctd_CachedTokens d\<rparr>
                        else None)),
        ru_OutputTokensDetails = None\<rparr>) usage"

definition chatMessageContentText :: "RawMessage \<Rightarrow> go_string" where
  "chatMessageContentText raw =
     (let raw = bytesTrimSpace raw in
      if raw = [] \<or> raw = ''null'' then []
      else case unmarshal_string raw of
        Some text \<Rightarrow> text
      | None \<Rightarrow>
          (case dec_slice dec_ChatContentPart raw of
             Some parts \<Rightarrow>
               Join (map ccp_Text (filter (\<lambda>p. ccp_Type p = ''text'' \<and> ccp_Text p \<noteq> []) parts))
                 (newline @ newline)
           | None \<Rightarrow> []))"

definition emptyResponsesMessageOutput :: "entropy \<Rightarrow> nat \<Rightarrow> ResponsesOutput" where
  "emptyResponsesMessageOutput rand n =
     message_output (generateItemID rand n) [text_part ''output_text'' []]"

definition reasoning_output :: "go_string \<Rightarrow> go_string \<Rightarrow> ResponsesOutput" where
  "reasoning_output itemID text =
     zero_output\<lparr>ro_Type := ''reasoning'', ro_ID := itemID,
       ro_Summary := [\<lparr>rs_Type = ''summary_text'', rs_Text = text\<rparr>]\<rparr>"

definition call_output :: "go_string \<Rightarrow> ChatToolCall \<Rightarrow> ResponsesOutput" where
  "call_output itemID toolCall =
     zero_output\<lparr>ro_Type := ''function_call'', ro_ID := itemID, ro_CallID := ctc_ID toolCall,
       ro_Name := cfc_Name (ctc_Function toolCall),
       ro_Arguments := (if TrimSpace (cfc_Arguments (ctc_Function toolCall)) = [] then ''{}''
                        else cfc_Arguments (ctc_Function toolCall)),
       ro_Status := ''completed''\<rparr>"

text \<open>The loop over tool calls: each output takes one id.\<close>

fun call_outputs :: "entropy \<Rightarrow> nat \<Rightarrow> ChatToolCall list \<Rightarrow> ResponsesOutput list \<times> nat" where
  "call_outputs rand n [] = ([], n)"
| "call_outputs rand n (tc # tcs) =
     (case call_outputs rand (n + 1) tcs of (os, m) \<Rightarrow>
        (call_output (generateItemID rand n) tc # os, m))"

definition chatMessageToResponsesOutput ::
    "entropy \<Rightarrow> nat \<Rightarrow> ChatMessage \<Rightarrow> ResponsesOutput list \<times> nat" where
  "chatMessageToResponsesOutput rand n message =
     (let (reasoning, n) = (if cm_ReasoningContent message \<noteq> []
            then ([reasoning_output (generateItemID rand n) (cm_ReasoningContent message)], n + 1)
            else ([], n));
          text = chatMessageContentText (cm_Content message);
          (msg, n) = (if text \<noteq> [] \<or> cm_ToolCalls message = []
            then ([message_output (generateItemID rand n) [text_part ''output_text'' text]], n + 1)
            else ([], n));
          (calls, n) = call_outputs rand n (cm_ToolCalls message)
      in (reasoning @ msg @ calls, n))"

definition ChatCompletionsResponseToResponses ::
    "entropy \<Rightarrow> nat \<Rightarrow> ChatCompletionsResponse option \<Rightarrow> go_string \<Rightarrow> ResponsesResponse \<times> nat" where
  "ChatCompletionsResponseToResponses rand n resp model =
     (let i = (case resp of None \<Rightarrow> [] | Some r \<Rightarrow> cresp_ID r);
          (i, n) = (if i = [] then (generateResponsesID rand n, n + 1) else (i, n));
          out = zero_ResponsesResponse\<lparr>rresp_ID := i, rresp_Object := ''response'',
                  rresp_Model := model, rresp_Status := ''completed''\<rparr>
      in case resp of
           None \<Rightarrow> (out\<lparr>rresp_Output := [emptyResponsesMessageOutput rand n]\<rparr>, n + 1)
         | Some r \<Rightarrow>
             (let out = (if model = [] then out\<lparr>rresp_Model := cresp_Model r\<rparr> else out);
                  (out, n) =
                    (case cresp_Choices r of
                       [] \<Rightarrow> (out, n)
                     | choice # _ \<Rightarrow>
                         (case chatMessageToResponsesOutput rand n (cch_Message choice) of (os, n) \<Rightarrow>
                            let out = out\<lparr>rresp_Output := os\<rparr>
                            in (if cch_FinishReason choice = ''length''
                                then out\<lparr>rresp_Status := ''incomplete'',
                                       rresp_IncompleteDetails :=
                                         Some \<lparr>rid_Reason = ''max_output_tokens''\<rparr>\<rparr>
                                else out, n)));
                  (out, n) = (if rresp_Output out = []
                              then (out\<lparr>rresp_Output := [emptyResponsesMessageOutput rand n]\<rparr>, n + 1)
                              else (out, n))
              in (out\<lparr>rresp_Usage := ChatUsageToResponsesUsage (cresp_Usage r)\<rparr>, n)))"

section \<open>The stream\<close>

text \<open>
  The map \<open>ToolCalls\<close> is an association list with distinct keys; each call is reached only through it.
\<close>

record ChatCompletionsToResponsesStreamState =
  cs_ResponseID :: go_string
  cs_Model :: go_string
  cs_Created :: int
  cs_SequenceNumber :: int
  cs_CreatedSent :: bool
  cs_CompletedSent :: bool
  cs_MessageItemID :: go_string
  cs_Text :: go_string
  cs_Reasoning :: go_string
  cs_ToolCalls :: "(int \<times> ChatToolCall) list"
  cs_FinishReason :: go_string
  cs_Usage :: "ResponsesUsage option"
  cs_Reads :: nat

definition NewChatCompletionsToResponsesStreamState ::
    "entropy \<Rightarrow> nat \<Rightarrow> int \<Rightarrow> go_string \<Rightarrow> ChatCompletionsToResponsesStreamState" where
  "NewChatCompletionsToResponsesStreamState rand n now model =
     \<lparr>cs_ResponseID = generateResponsesID rand n, cs_Model = model, cs_Created = now,
      cs_SequenceNumber = 0, cs_CreatedSent = False, cs_CompletedSent = False, cs_MessageItemID = [],
      cs_Text = [], cs_Reasoning = [], cs_ToolCalls = [], cs_FinishReason = [], cs_Usage = None,
      cs_Reads = n + 1\<rparr>"

type_synonym cs_step = "ChatCompletionsToResponsesStreamState \<times> ResponsesStreamEvent list"

definition chatToResponsesEvent ::
    "ChatCompletionsToResponsesStreamState \<Rightarrow> go_string \<Rightarrow> ResponsesStreamEvent
     \<Rightarrow> ChatCompletionsToResponsesStreamState \<times> ResponsesStreamEvent" where
  "chatToResponsesEvent state eventType template =
     (state\<lparr>cs_SequenceNumber := cs_SequenceNumber state + 1\<rparr>,
      template\<lparr>rse_Type := eventType, rse_SequenceNumber := cs_SequenceNumber state\<rparr>)"

definition ensureChatToResponsesCreated :: "ChatCompletionsToResponsesStreamState \<Rightarrow> cs_step" where
  "ensureChatToResponsesCreated state =
     (if cs_CreatedSent state then (state, [])
      else (let state = state\<lparr>cs_CreatedSent := True\<rparr>
            in one_event (chatToResponsesEvent state ''response.created''
                 (zero_rse\<lparr>rse_Response := Some (zero_ResponsesResponse\<lparr>
                    rresp_ID := cs_ResponseID state, rresp_Object := ''response'',
                    rresp_Model := cs_Model state, rresp_Status := ''in_progress''\<rparr>)\<rparr>))))"

definition ensureChatToResponsesMessageItem :: "entropy \<Rightarrow> ChatCompletionsToResponsesStreamState \<Rightarrow> cs_step"
where
  "ensureChatToResponsesMessageItem rand state =
     (if cs_MessageItemID state \<noteq> [] then (state, [])
      else (let state = state\<lparr>cs_MessageItemID := generateItemID rand (cs_Reads state),
                          cs_Reads := cs_Reads state + 1\<rparr>
            in one_event (chatToResponsesEvent state ''response.output_item.added''
                 (zero_rse\<lparr>rse_OutputIndex := 0,
                    rse_Item := Some (zero_output\<lparr>ro_Type := ''message'',
                      ro_ID := cs_MessageItemID state, ro_Role := ''assistant'',
                      ro_Status := ''in_progress''\<rparr>)\<rparr>))))"

text \<open>The loop over the stored tool calls: the indices 0 to one less than their number, where present.\<close>

definition indexed_calls :: "(int \<times> ChatToolCall) list \<Rightarrow> ChatToolCall list" where
  "indexed_calls calls = List.map_filter (map_of calls) (map int [0..<length calls])"

definition chatOutput :: "entropy \<Rightarrow> ChatCompletionsToResponsesStreamState
    \<Rightarrow> ResponsesOutput list \<times> ChatCompletionsToResponsesStreamState" where
  "chatOutput rand state =
     (let n = cs_Reads state;
          (reasoning, n) = (if cs_Reasoning state \<noteq> []
            then ([reasoning_output (generateItemID rand n) (cs_Reasoning state)], n + 1) else ([], n));
          (msg, n) = (if cs_MessageItemID state \<noteq> [] \<or> cs_ToolCalls state = []
            then ([message_output (nonEmpty (cs_MessageItemID state) (generateItemID rand n))
                     [text_part ''output_text'' (cs_Text state)]], n + 1)
            else ([], n));
          (calls, n) = call_outputs rand n (indexed_calls (cs_ToolCalls state))
      in (reasoning @ msg @ calls, state\<lparr>cs_Reads := n\<rparr>))"

text \<open>
  The body of the loop over the tool calls of a delta: the stored call of the index, a new one or the
  updated old one, then its arguments. A new call is a copy of the whole delta, arguments included,
  before the arguments are appended to it.
\<close>

definition bridge_new_call :: "entropy \<Rightarrow> int \<Rightarrow> ChatToolCall \<Rightarrow> ChatCompletionsToResponsesStreamState
    \<Rightarrow> ChatToolCall \<times> cs_step" where
  "bridge_new_call rand idx toolCall state =
     (let (copyCall, state) =
            (if ctc_ID toolCall = []
             then (toolCall\<lparr>ctc_ID := generateItemID rand (cs_Reads state)\<rparr>,
                   state\<lparr>cs_Reads := cs_Reads state + 1\<rparr>)
             else (toolCall, state));
          copyCall = copyCall\<lparr>ctc_Type := ''function''\<rparr>;
          itemID = generateItemID rand (cs_Reads state);
          state = state\<lparr>cs_Reads := cs_Reads state + 1\<rparr>
      in (copyCall, one_event (chatToResponsesEvent state ''response.output_item.added''
            (zero_rse\<lparr>rse_OutputIndex := idx + 1,
               rse_Item := Some (zero_output\<lparr>ro_Type := ''function_call'',
                 ro_ID := itemID, ro_CallID := ctc_ID copyCall,
                 ro_Name := cfc_Name (ctc_Function copyCall),
                 ro_Status := ''in_progress''\<rparr>)\<rparr>))))"

definition bridge_old_call :: "ChatToolCall \<Rightarrow> ChatToolCall \<Rightarrow> ChatToolCall" where
  "bridge_old_call toolCall stored =
     (let stored = (if ctc_ID toolCall \<noteq> [] then stored\<lparr>ctc_ID := ctc_ID toolCall\<rparr> else stored)
      in if cfc_Name (ctc_Function toolCall) \<noteq> []
         then stored\<lparr>ctc_Function := (ctc_Function stored)\<lparr>
                cfc_Name := cfc_Name (ctc_Function toolCall)\<rparr>\<rparr>
         else stored)"

definition bridge_args :: "int \<Rightarrow> go_string \<Rightarrow> ChatToolCall \<Rightarrow> ChatCompletionsToResponsesStreamState
    \<Rightarrow> cs_step" where
  "bridge_args idx args stored state =
     (if args \<noteq> [] then
        (let stored = stored\<lparr>ctc_Function := (ctc_Function stored)\<lparr>
                        cfc_Arguments := cfc_Arguments (ctc_Function stored) @ args\<rparr>\<rparr>
         in one_event (chatToResponsesEvent
              (state\<lparr>cs_ToolCalls := AList.update idx stored (cs_ToolCalls state)\<rparr>)
              ''response.function_call_arguments.delta''
              (zero_rse\<lparr>rse_OutputIndex := idx + 1, rse_Delta := args,
                 rse_CallID := ctc_ID stored, rse_Name := cfc_Name (ctc_Function stored)\<rparr>)))
      else (state\<lparr>cs_ToolCalls := AList.update idx stored (cs_ToolCalls state)\<rparr>, []))"

definition bridge_tool_call ::
    "entropy \<Rightarrow> ChatToolCall \<Rightarrow> ChatCompletionsToResponsesStreamState \<Rightarrow> cs_step" where
  "bridge_tool_call rand toolCall state =
     (let idx = (case ctc_Index toolCall of None \<Rightarrow> 0 | Some i \<Rightarrow> i);
          (stored, state, events) =
            (case map_of (cs_ToolCalls state) idx of
               None \<Rightarrow> bridge_new_call rand idx toolCall state
             | Some stored \<Rightarrow> (bridge_old_call toolCall stored, state, []));
          (state, events') = bridge_args idx (cfc_Arguments (ctc_Function toolCall)) stored state
      in (state, events @ events'))"

fun seq_steps :: "('a \<Rightarrow> 's \<Rightarrow> 's \<times> 'e list) \<Rightarrow> 'a list \<Rightarrow> 's \<Rightarrow> 's \<times> 'e list" where
  "seq_steps f [] state = (state, [])"
| "seq_steps f (x # xs) state =
     (case f x state of (state', out) \<Rightarrow>
        case seq_steps f xs state' of (state'', out') \<Rightarrow> (state'', out @ out'))"

definition bridge_text :: "entropy \<Rightarrow> go_string option \<Rightarrow> ChatCompletionsToResponsesStreamState \<Rightarrow> cs_step"
where
  "bridge_text rand content state =
     (case content of
        None \<Rightarrow> (state, [])
      | Some s \<Rightarrow>
          (case ensureChatToResponsesMessageItem rand state of (state, events) \<Rightarrow>
             let state = state\<lparr>cs_Text := cs_Text state @ s\<rparr>;
                 (state, e) = chatToResponsesEvent state ''response.output_text.delta''
                   (zero_rse\<lparr>rse_OutputIndex := 0, rse_ContentIndex := 0, rse_Delta := s,
                      rse_ItemID := cs_MessageItemID state\<rparr>)
             in (state, events @ [e])))"

definition bridge_reasoning :: "go_string option \<Rightarrow> ChatCompletionsToResponsesStreamState \<Rightarrow> cs_step" where
  "bridge_reasoning content state =
     (case content of
        None \<Rightarrow> (state, [])
      | Some s \<Rightarrow>
          one_event (chatToResponsesEvent (state\<lparr>cs_Reasoning := cs_Reasoning state @ s\<rparr>)
            ''response.reasoning_summary_text.delta''
            (zero_rse\<lparr>rse_OutputIndex := 0, rse_SummaryIndex := 0, rse_Delta := s\<rparr>)))"

definition bridge_finish :: "go_string option \<Rightarrow> ChatCompletionsToResponsesStreamState
    \<Rightarrow> ChatCompletionsToResponsesStreamState" where
  "bridge_finish finish state =
     (case finish of
        None \<Rightarrow> state | Some r \<Rightarrow> (if r \<noteq> [] then state\<lparr>cs_FinishReason := r\<rparr> else state))"

definition bridge_choice ::
    "entropy \<Rightarrow> ChatChunkChoice \<Rightarrow> ChatCompletionsToResponsesStreamState \<Rightarrow> cs_step" where
  "bridge_choice rand choice state =
     (let delta = ccc_Delta choice;
          (state, textEvents) = bridge_text rand (cd_Content delta) state;
          (state, reasoningEvents) = bridge_reasoning (cd_ReasoningContent delta) state;
          (state, callEvents) = seq_steps (bridge_tool_call rand) (cd_ToolCalls delta) state
      in (bridge_finish (ccc_FinishReason choice) state, textEvents @ reasoningEvents @ callEvents))"

definition ChatCompletionsChunkToResponsesEvents ::
    "entropy \<Rightarrow> ChatCompletionsChunk option \<Rightarrow> ChatCompletionsToResponsesStreamState \<Rightarrow> cs_step" where
  "ChatCompletionsChunkToResponsesEvents rand c state =
     (case c of
        None \<Rightarrow> (state, [])
      | Some chunk \<Rightarrow>
          (let state = (if chunk_ID chunk \<noteq> [] then state\<lparr>cs_ResponseID := chunk_ID chunk\<rparr> else state);
               state = (if cs_Model state = [] \<and> chunk_Model chunk \<noteq> []
                        then state\<lparr>cs_Model := chunk_Model chunk\<rparr> else state);
               state = (if chunk_Usage chunk \<noteq> None
                        then state\<lparr>cs_Usage := ChatUsageToResponsesUsage (chunk_Usage chunk)\<rparr>
                        else state);
               (state, created) = ensureChatToResponsesCreated state;
               (state, events) = seq_steps (bridge_choice rand) (chunk_Choices chunk) state
           in (state, created @ events)))"

text \<open>The two events that close a message item.\<close>

definition closing_events :: "ChatCompletionsToResponsesStreamState \<Rightarrow> cs_step" where
  "closing_events state =
     (if cs_MessageItemID state \<noteq> [] then
        (let (state, e1) = chatToResponsesEvent state ''response.output_text.done''
               (zero_rse\<lparr>rse_OutputIndex := 0, rse_ContentIndex := 0,
                  rse_Text := cs_Text state, rse_ItemID := cs_MessageItemID state\<rparr>);
             (state, e2) = chatToResponsesEvent state ''response.output_item.done''
               (zero_rse\<lparr>rse_OutputIndex := 0,
                  rse_Item := Some (zero_output\<lparr>ro_Type := ''message'',
                    ro_ID := cs_MessageItemID state, ro_Role := ''assistant'',
                    ro_Status := ''completed''\<rparr>)\<rparr>)
         in (state, [e1, e2]))
      else (state, []))"

definition FinalizeChatCompletionsResponsesStream ::
    "entropy \<Rightarrow> ChatCompletionsToResponsesStreamState \<Rightarrow> cs_step" where
  "FinalizeChatCompletionsResponsesStream rand state =
     (if cs_CompletedSent state then (state, [])
      else
        (let (state, created) = ensureChatToResponsesCreated state;
             (state, closing) = closing_events state;
             status = (if cs_FinishReason state = ''length'' then ''incomplete'' else ''completed'');
             details = (if cs_FinishReason state = ''length''
                        then Some \<lparr>rid_Reason = ''max_output_tokens''\<rparr> else None);
             (outputs, state) = chatOutput rand (state\<lparr>cs_CompletedSent := True\<rparr>);
             (state, e) = chatToResponsesEvent state ''response.completed''
               (zero_rse\<lparr>rse_Response := Some (zero_ResponsesResponse\<lparr>
                  rresp_ID := cs_ResponseID state, rresp_Object := ''response'',
                  rresp_Model := cs_Model state, rresp_Status := status, rresp_Output := outputs,
                  rresp_Usage := cs_Usage state, rresp_IncompleteDetails := details\<rparr>)\<rparr>)
         in (state, created @ closing @ [e])))"

definition cs_run ::
    "entropy \<Rightarrow> ChatCompletionsChunk list \<Rightarrow> ChatCompletionsToResponsesStreamState \<Rightarrow> cs_step" where
  "cs_run rand chunks = seq_steps (\<lambda>c. ChatCompletionsChunkToResponsesEvents rand (Some c)) chunks"

end
