(* ===== verification/ChatBridgeFacts.thy ===== *)
theory ChatBridgeFacts
  imports ChatBridge ChatFacts
begin

text \<open>
  Properties of \<open>chatcompletions_responses_bridge.go\<close>: the Responses event stream built from chunks,
  what becomes of tool calls, and the usage.
\<close>

section \<open>The event stream\<close>

definition cs_counts :: "ChatCompletionsToResponsesStreamState \<Rightarrow> cs_step \<Rightarrow> bool" where
  "cs_counts s r \<longleftrightarrow>
     numbered (cs_SequenceNumber s) (snd r)
     \<and> cs_SequenceNumber (fst r) = cs_SequenceNumber s + int (length (snd r))
     \<and> of_bool (cs_CreatedSent (fst r)) = of_bool (cs_CreatedSent s) + rse_count ''response.created'' (snd r)
     \<and> of_bool (cs_CompletedSent (fst r)) = of_bool (cs_CompletedSent s) + rse_count ''response.completed'' (snd r)"

lemma cs_counts_stay [simp]: "cs_counts s (s, [])"
  by (simp add: cs_counts_def)

lemma cs_counts_seq:
  "cs_counts s r \<Longrightarrow> cs_counts (fst r) q \<Longrightarrow> cs_counts s (fst q, snd r @ snd q)"
  by (auto simp: cs_counts_def numbered_append)

text \<open>The part of the state the counting is about; updates elsewhere do not matter.\<close>

definition same_counts ::
    "ChatCompletionsToResponsesStreamState \<Rightarrow> ChatCompletionsToResponsesStreamState \<Rightarrow> bool" where
  "same_counts s s' \<longleftrightarrow> cs_SequenceNumber s' = cs_SequenceNumber s \<and> cs_CreatedSent s' = cs_CreatedSent s
     \<and> cs_CompletedSent s' = cs_CompletedSent s"

lemma same_counts_refl [simp]: "same_counts s s"
  by (simp add: same_counts_def)

lemma cs_counts_before: "same_counts s s' \<Longrightarrow> cs_counts s' r \<Longrightarrow> cs_counts s r"
  by (simp add: same_counts_def cs_counts_def)

lemma cs_counts_after: "cs_counts s (s', es) \<Longrightarrow> same_counts s' s'' \<Longrightarrow> cs_counts s (s'', es)"
  by (simp add: same_counts_def cs_counts_def)

lemma cs_counts_event:
  assumes "t \<noteq> ''response.created''" "t \<noteq> ''response.completed''"
  shows "cs_counts s (fst (chatToResponsesEvent s t tmpl), [snd (chatToResponsesEvent s t tmpl)])"
  using assms by (simp add: cs_counts_def chatToResponsesEvent_def)

lemma cs_counts_created: "cs_counts s (ensureChatToResponsesCreated s)"
  by (simp add: cs_counts_def ensureChatToResponsesCreated_def chatToResponsesEvent_def Let_def)

lemma cs_counts_message_item: "cs_counts s (ensureChatToResponsesMessageItem rand s)"
  by (simp add: cs_counts_def ensureChatToResponsesMessageItem_def chatToResponsesEvent_def Let_def)

lemma cs_counts_text: "cs_counts s (bridge_text rand content s)"
proof (cases content)
  case None
  then show ?thesis by (simp add: bridge_text_def)
next
  case (Some t)
  let ?r = "ensureChatToResponsesMessageItem rand s"
  let ?s = "(fst ?r)\<lparr>cs_Text := cs_Text (fst ?r) @ t\<rparr>"
  have "cs_counts (fst ?r) (fst (chatToResponsesEvent ?s ''response.output_text.delta'' tmpl),
      [snd (chatToResponsesEvent ?s ''response.output_text.delta'' tmpl)])" for tmpl
    by (rule cs_counts_before [OF _ cs_counts_event]) (simp_all add: same_counts_def)
  from cs_counts_seq [OF cs_counts_message_item this] show ?thesis
    using Some by (simp add: bridge_text_def case_prod_beta Let_def)
qed

lemma cs_counts_reasoning: "cs_counts s (bridge_reasoning content s)"
  by (simp add: cs_counts_def bridge_reasoning_def chatToResponsesEvent_def split: option.split)

lemma cs_counts_new_call: "cs_counts s (snd (bridge_new_call rand i tc s))"
  by (simp add: cs_counts_def bridge_new_call_def chatToResponsesEvent_def Let_def)

lemma cs_counts_args: "cs_counts s (bridge_args i args stored s)"
  by (simp add: cs_counts_def bridge_args_def chatToResponsesEvent_def Let_def)

lemma cs_counts_tool_call: "cs_counts s (bridge_tool_call rand tc s)"
proof (cases "map_of (cs_ToolCalls s) (case ctc_Index tc of None \<Rightarrow> 0 | Some i \<Rightarrow> i)")
  case None
  then show ?thesis
    using cs_counts_seq [OF cs_counts_new_call cs_counts_args]
    by (simp add: bridge_tool_call_def Let_def case_prod_beta)
next
  case (Some stored)
  then show ?thesis
    using cs_counts_args by (simp add: bridge_tool_call_def Let_def case_prod_beta)
qed

lemma cs_counts_steps:
  assumes "\<And>x s. cs_counts s (f x s)"
  shows "cs_counts s (seq_steps f xs s)"
proof (induction xs arbitrary: s)
  case Nil
  show ?case by simp
next
  case (Cons x xs)
  show ?case
    using cs_counts_seq [OF assms Cons.IH, of s x] by (simp add: case_prod_beta)
qed

lemma cs_counts_choice: "cs_counts s (bridge_choice rand ch s)"
proof -
  let ?d = "ccc_Delta ch"
  let ?t = "bridge_text rand (cd_Content ?d) s"
  let ?r = "bridge_reasoning (cd_ReasoningContent ?d) (fst ?t)"
  let ?c = "seq_steps (bridge_tool_call rand) (cd_ToolCalls ?d) (fst ?r)"
  have "cs_counts s (fst ?c, snd ?t @ snd ?r @ snd ?c)"
    using cs_counts_seq [OF cs_counts_text cs_counts_seq [OF cs_counts_reasoning
        cs_counts_steps [OF cs_counts_tool_call]]] by simp
  moreover have "same_counts (fst ?c) (bridge_finish (ccc_FinishReason ch) (fst ?c))"
    by (simp add: same_counts_def bridge_finish_def split: option.split)
  ultimately have "cs_counts s (bridge_finish (ccc_FinishReason ch) (fst ?c), snd ?t @ snd ?r @ snd ?c)"
    by (rule cs_counts_after)
  then show ?thesis
    by (simp add: bridge_choice_def Let_def case_prod_beta)
qed

lemma cs_counts_chunk: "cs_counts s (ChatCompletionsChunkToResponsesEvents rand c s)"
proof (cases c)
  case None
  then show ?thesis by (simp add: ChatCompletionsChunkToResponsesEvents_def)
next
  case (Some k)
  let ?s1 = "if chunk_ID k \<noteq> [] then s\<lparr>cs_ResponseID := chunk_ID k\<rparr> else s"
  let ?s2 = "if cs_Model ?s1 = [] \<and> chunk_Model k \<noteq> [] then ?s1\<lparr>cs_Model := chunk_Model k\<rparr> else ?s1"
  let ?s3 = "if chunk_Usage k \<noteq> None then ?s2\<lparr>cs_Usage := ChatUsageToResponsesUsage (chunk_Usage k)\<rparr> else ?s2"
  have "same_counts s ?s3"
    by (simp add: same_counts_def)
  from cs_counts_before [OF this cs_counts_seq [OF cs_counts_created cs_counts_steps [OF cs_counts_choice]]]
  show ?thesis
    unfolding Some ChatCompletionsChunkToResponsesEvents_def Let_def case_prod_beta option.case .
qed

lemma cs_counts_run: "cs_counts s (cs_run rand chunks s)"
  unfolding cs_run_def by (rule cs_counts_steps) (rule cs_counts_chunk)

lemma chatOutput_same: "same_counts s (snd (chatOutput rand s))"
  by (simp add: same_counts_def chatOutput_def Let_def case_prod_beta)

text \<open>The converter followed by the finaliser.\<close>

definition cs_stream ::
    "entropy \<Rightarrow> ChatCompletionsChunk list \<Rightarrow> ChatCompletionsToResponsesStreamState \<Rightarrow> cs_step" where
  "cs_stream rand chunks s =
     (case cs_run rand chunks s of (s', out) \<Rightarrow>
        case FinalizeChatCompletionsResponsesStream rand s' of (s'', out') \<Rightarrow> (s'', out @ out'))"

lemma cs_counts_closing: "cs_counts s (closing_events s)"
  by (simp add: cs_counts_def closing_events_def chatToResponsesEvent_def Let_def)

lemma cs_counts_finalize: "cs_counts s (FinalizeChatCompletionsResponsesStream rand s)"
proof (cases "cs_CompletedSent s")
  case True
  then show ?thesis by (simp add: FinalizeChatCompletionsResponsesStream_def)
next
  case False
  let ?a = "ensureChatToResponsesCreated s"
  let ?b = "closing_events (fst ?a)"
  let ?s = "snd (chatOutput rand ((fst ?b)\<lparr>cs_CompletedSent := True\<rparr>))"
  have ab: "cs_counts s (fst ?b, snd ?a @ snd ?b)"
    by (rule cs_counts_seq [OF cs_counts_created cs_counts_closing])
  have open_: "\<not> cs_CompletedSent (fst ?b)"
    using False by (simp add: closing_events_def chatToResponsesEvent_def ensureChatToResponsesCreated_def Let_def)
  have same: "same_counts ((fst ?b)\<lparr>cs_CompletedSent := True\<rparr>) ?s"
    by (rule chatOutput_same)
  have "cs_counts (fst ?b) (fst (chatToResponsesEvent ?s ''response.completed'' tmpl),
      [snd (chatToResponsesEvent ?s ''response.completed'' tmpl)])" for tmpl
    using same open_ by (simp add: cs_counts_def same_counts_def chatToResponsesEvent_def)
  from cs_counts_seq [OF ab, simplified, OF this] show ?thesis
    using False by (simp add: FinalizeChatCompletionsResponsesStream_def Let_def case_prod_beta)
qed

lemma cs_counts_stream: "cs_counts s (cs_stream rand chunks s)"
  using cs_counts_seq [OF cs_counts_run cs_counts_finalize] by (simp add: cs_stream_def case_prod_beta)

lemma flags_sel [simp]:
  "cs_CreatedSent (fst (ensureChatToResponsesCreated s))"
  "cs_CreatedSent (fst (closing_events s)) = cs_CreatedSent s"
  "cs_CreatedSent (snd (chatOutput rand s)) = cs_CreatedSent s"
  "cs_CompletedSent (snd (chatOutput rand s)) = cs_CompletedSent s"
  using chatOutput_same [of s rand]
  by (simp_all add: ensureChatToResponsesCreated_def closing_events_def chatToResponsesEvent_def Let_def same_counts_def)

lemma event_flags [simp]:
  "cs_CreatedSent (fst (chatToResponsesEvent s t e)) = cs_CreatedSent s"
  "cs_CompletedSent (fst (chatToResponsesEvent s t e)) = cs_CompletedSent s"
  by (simp_all add: chatToResponsesEvent_def)

lemma finalize_flags_chat:
  "cs_CompletedSent (fst (FinalizeChatCompletionsResponsesStream rand s))"
  "\<not> cs_CompletedSent s \<Longrightarrow> cs_CreatedSent (fst (FinalizeChatCompletionsResponsesStream rand s))"
  by (simp_all add: FinalizeChatCompletionsResponsesStream_def Let_def case_prod_beta)

lemma new_state_flags:
  "cs_SequenceNumber (NewChatCompletionsToResponsesStreamState rand n now model) = 0"
  "\<not> cs_CreatedSent (NewChatCompletionsToResponsesStreamState rand n now model)"
  "\<not> cs_CompletedSent (NewChatCompletionsToResponsesStreamState rand n now model)"
  "cs_Text (NewChatCompletionsToResponsesStreamState rand n now model) = []"
  by (simp_all add: NewChatCompletionsToResponsesStreamState_def)

text \<open>What a piece does to the text: it grows by t, t is what the deltas carry, and a message item exists.\<close>

definition has_item :: "ChatCompletionsToResponsesStreamState \<Rightarrow> bool" where
  "has_item s \<longleftrightarrow> cs_MessageItemID s = [] \<longrightarrow> cs_Text s = []"

definition cs_says :: "ChatCompletionsToResponsesStreamState \<Rightarrow> go_string \<Rightarrow> cs_step \<Rightarrow> bool" where
  "cs_says s t r \<longleftrightarrow> cs_Text (fst r) = cs_Text s @ t \<and> rs_deltas ''response.output_text.delta'' (snd r) = t
     \<and> (has_item s \<longrightarrow> has_item (fst r)) \<and> cs_CompletedSent (fst r) = cs_CompletedSent s"

lemma cs_says_stay [simp]: "cs_says s [] (s, [])"
  by (simp add: cs_says_def)

lemma cs_says_seq: "cs_says s t r \<Longrightarrow> cs_says (fst r) u q \<Longrightarrow> cs_says s (t @ u) (fst q, snd r @ snd q)"
  by (auto simp: cs_says_def)

lemma zero_rse_delta [simp]: "rse_Text zero_rse = []"
  by (simp add: zero_rse_def)

lemma says_created: "cs_says s [] (ensureChatToResponsesCreated s)"
  by (simp add: cs_says_def ensureChatToResponsesCreated_def chatToResponsesEvent_def has_item_def Let_def)

lemma says_text: "cs_says s (case content of None \<Rightarrow> [] | Some t \<Rightarrow> t) (bridge_text rand content s)"
  by (simp add: cs_says_def bridge_text_def ensureChatToResponsesMessageItem_def chatToResponsesEvent_def
      has_item_def Let_def split: option.split)

lemma says_reasoning: "cs_says s [] (bridge_reasoning content s)"
  by (simp add: cs_says_def bridge_reasoning_def chatToResponsesEvent_def has_item_def split: option.split)

lemma says_new_call: "cs_says s [] (snd (bridge_new_call rand i tc s))"
  by (simp add: cs_says_def bridge_new_call_def chatToResponsesEvent_def has_item_def Let_def)

lemma says_args: "cs_says s [] (bridge_args i args stored s)"
  by (simp add: cs_says_def bridge_args_def chatToResponsesEvent_def has_item_def Let_def)

lemma says_tool_call: "cs_says s [] (bridge_tool_call rand tc s)"
proof (cases "map_of (cs_ToolCalls s) (case ctc_Index tc of None \<Rightarrow> 0 | Some i \<Rightarrow> i)")
  case None
  then show ?thesis
    using cs_says_seq [OF says_new_call says_args]
    by (simp add: bridge_tool_call_def Let_def case_prod_beta)
next
  case (Some stored)
  then show ?thesis
    using says_args by (simp add: bridge_tool_call_def Let_def case_prod_beta)
qed

lemma says_steps:
  assumes "\<And>x s. cs_says s (t x) (f x s)"
  shows "cs_says s (concat (map t xs)) (seq_steps f xs s)"
proof (induction xs arbitrary: s)
  case Nil
  show ?case by simp
next
  case (Cons x xs)
  show ?case
    using cs_says_seq [OF assms Cons.IH, of s x] by (simp add: case_prod_beta)
qed

lemma concat_nils [simp]: "concat (map (\<lambda>_. []) xs) = []"
  by (induction xs) simp_all

lemma says_calls: "cs_says s [] (seq_steps (bridge_tool_call rand) tcs s)"
  using says_steps [where t = "\<lambda>_. []" and f = "bridge_tool_call rand" and xs = tcs and s = s, OF says_tool_call]
  by (simp only: concat_nils)

lemma cs_says_before:
  assumes "cs_says s' t r" "cs_Text s' = cs_Text s" "cs_CompletedSent s' = cs_CompletedSent s"
    "cs_MessageItemID s' = cs_MessageItemID s"
  shows "cs_says s t r"
proof -
  have "has_item s' = has_item s"
    using assms by (simp add: has_item_def)
  then show ?thesis
    using assms by (simp add: cs_says_def)
qed

lemma cs_says_after:
  assumes "cs_says s t (s', es)" "cs_Text s'' = cs_Text s'" "cs_CompletedSent s'' = cs_CompletedSent s'"
    "cs_MessageItemID s'' = cs_MessageItemID s'"
  shows "cs_says s t (s'', es)"
proof -
  have "has_item s'' = has_item s'"
    using assms by (simp add: has_item_def)
  then show ?thesis
    using assms by (simp add: cs_says_def)
qed

lemma says_choice:
  "cs_says s (case cd_Content (ccc_Delta ch) of None \<Rightarrow> [] | Some t \<Rightarrow> t) (bridge_choice rand ch s)"
proof -
  let ?d = "ccc_Delta ch"
  let ?t = "bridge_text rand (cd_Content ?d) s"
  let ?r = "bridge_reasoning (cd_ReasoningContent ?d) (fst ?t)"
  let ?c = "seq_steps (bridge_tool_call rand) (cd_ToolCalls ?d) (fst ?r)"
  have "cs_says s (case cd_Content ?d of None \<Rightarrow> [] | Some t \<Rightarrow> t) (fst ?c, snd ?t @ snd ?r @ snd ?c)"
    using cs_says_seq [OF says_text [of s _ rand] cs_says_seq [OF says_reasoning
        says_calls [of _ rand "cd_ToolCalls ?d"]]] by simp
  then have "cs_says s (case cd_Content ?d of None \<Rightarrow> [] | Some t \<Rightarrow> t)
      (bridge_finish (ccc_FinishReason ch) (fst ?c), snd ?t @ snd ?r @ snd ?c)"
    by (rule cs_says_after) (simp_all add: bridge_finish_def split: option.split)
  then show ?thesis
    by (simp add: bridge_choice_def Let_def case_prod_beta)
qed

lemma says_chunk: "cs_says s (chunk_deltas cd_Content [k]) (ChatCompletionsChunkToResponsesEvents rand (Some k) s)"
proof -
  let ?s1 = "if chunk_ID k \<noteq> [] then s\<lparr>cs_ResponseID := chunk_ID k\<rparr> else s"
  let ?s2 = "if cs_Model ?s1 = [] \<and> chunk_Model k \<noteq> [] then ?s1\<lparr>cs_Model := chunk_Model k\<rparr> else ?s1"
  let ?s3 = "if chunk_Usage k \<noteq> None then ?s2\<lparr>cs_Usage := ChatUsageToResponsesUsage (chunk_Usage k)\<rparr> else ?s2"
  have "cs_says ?s3 ([] @ concat (map (\<lambda>ch. case cd_Content (ccc_Delta ch) of None \<Rightarrow> [] | Some t \<Rightarrow> t) (chunk_Choices k)))
      (ChatCompletionsChunkToResponsesEvents rand (Some k) s)"
    unfolding ChatCompletionsChunkToResponsesEvents_def Let_def case_prod_beta option.case
    by (rule cs_says_seq [OF says_created says_steps]) (rule says_choice)
  then have "cs_says s ([] @ concat (map (\<lambda>ch. case cd_Content (ccc_Delta ch) of None \<Rightarrow> [] | Some t \<Rightarrow> t) (chunk_Choices k)))
      (ChatCompletionsChunkToResponsesEvents rand (Some k) s)"
    by (rule cs_says_before) simp_all
  then show ?thesis
    by (simp add: chunk_deltas_def)
qed

lemma says_run: "cs_says s (chunk_deltas cd_Content chunks) (cs_run rand chunks s)"
proof -
  have "cs_says s (concat (map (\<lambda>k. chunk_deltas cd_Content [k]) chunks)) (cs_run rand chunks s)"
    unfolding cs_run_def by (rule says_steps) (rule says_chunk)
  then show ?thesis
    by (simp add: chunk_deltas_def)
qed

text \<open>
C27. The Responses events built from Chat Completions chunks are numbered 0, 1, 2, ... without a gap;
with the finaliser there is exactly one \<open>response.created\<close> and exactly one \<open>response.completed\<close>.
\<close>
theorem bridge_stream_shape:
  "map rse_SequenceNumber (snd (cs_stream rand chunks (NewChatCompletionsToResponsesStreamState rand n now model)))
     = map int [0..<length (snd (cs_stream rand chunks (NewChatCompletionsToResponsesStreamState rand n now model)))]
   \<and> rse_count ''response.created''
       (snd (cs_stream rand chunks (NewChatCompletionsToResponsesStreamState rand n now model))) = 1
   \<and> rse_count ''response.completed''
       (snd (cs_stream rand chunks (NewChatCompletionsToResponsesStreamState rand n now model))) = 1"
proof -
  let ?init = "NewChatCompletionsToResponsesStreamState rand n now model"
  have c: "cs_counts ?init (cs_stream rand chunks ?init)"
    by (rule cs_counts_stream)
  have "\<not> cs_CompletedSent (fst (cs_run rand chunks ?init))"
    using says_run [of ?init chunks rand]
    by (simp add: cs_says_def new_state_flags)
  then have "cs_CreatedSent (fst (cs_stream rand chunks ?init))" "cs_CompletedSent (fst (cs_stream rand chunks ?init))"
    by (simp_all add: cs_stream_def case_prod_beta finalize_flags_chat)
  then show ?thesis
    using c by (simp add: cs_counts_def numbered_def new_state_flags)
qed

definition completed_outputs :: "ResponsesStreamEvent list \<Rightarrow> ResponsesOutput list list" where
  "completed_outputs es = map (\<lambda>e. case rse_Response e of None \<Rightarrow> [] | Some r \<Rightarrow> rresp_Output r)
     (filter (\<lambda>e. rse_Type e = ''response.completed'') es)"

lemma completed_outputs_simps [simp]:
  "completed_outputs [] = []"
  "completed_outputs (e # es) = (if rse_Type e = ''response.completed''
     then [case rse_Response e of None \<Rightarrow> [] | Some r \<Rightarrow> rresp_Output r] else []) @ completed_outputs es"
  "completed_outputs (xs @ ys) = completed_outputs xs @ completed_outputs ys"
  by (simp_all add: completed_outputs_def)

lemma completed_outputs_none: "rse_count ''response.completed'' es = 0 \<Longrightarrow> completed_outputs es = []"
  by (induction es) (auto split: if_splits)

lemma output_text_simps [simp]:
  "output_text [] = []"
  "output_text (xs @ ys) = output_text xs @ output_text ys"
  "output_text [message_output i [text_part ''output_text'' t]] = t"
  "output_text [reasoning_output i t] = []"
  "output_text (reasoning_output i t # os) = output_text os"
  "output_text (message_output i [text_part ''output_text'' t] # os) = t @ output_text os"
  by (simp_all add: output_text_def message_output_def reasoning_output_def)

lemma call_outputs_text: "output_text (fst (call_outputs rand n tcs)) = []"
proof (induction tcs arbitrary: n)
  case (Cons tc tcs)
  have "output_text (call_output i tc # os) = output_text os" for i os
    by (simp add: output_text_def call_output_def)
  then show ?case
    using Cons.IH by (simp add: case_prod_beta)
qed simp

lemma chatOutput_text:
  assumes "has_item s"
  shows "output_text (fst (chatOutput rand s)) = cs_Text s"
proof -
  have empty: "cs_MessageItemID s = [] \<Longrightarrow> cs_Text s = []"
    using assms by (simp add: has_item_def)
  show ?thesis
    by (cases "cs_Reasoning s = []"; cases "cs_MessageItemID s = []"; cases "cs_ToolCalls s = []")
      (simp_all only: chatOutput_def Let_def case_prod_beta empty if_True if_False fst_conv snd_conv simp_thms
        append.simps output_text_simps call_outputs_text append_Nil2)
qed

lemma closing_sel [simp]:
  "cs_Text (fst (closing_events s)) = cs_Text s" "cs_MessageItemID (fst (closing_events s)) = cs_MessageItemID s"
  "rs_deltas ''response.output_text.delta'' (snd (closing_events s)) = []"
  "completed_outputs (snd (closing_events s)) = []"
  by (simp_all add: closing_events_def chatToResponsesEvent_def Let_def)

lemma created_sel [simp]:
  "cs_Text (fst (ensureChatToResponsesCreated s)) = cs_Text s"
  "cs_MessageItemID (fst (ensureChatToResponsesCreated s)) = cs_MessageItemID s"
  "rs_deltas ''response.output_text.delta'' (snd (ensureChatToResponsesCreated s)) = []"
  "completed_outputs (snd (ensureChatToResponsesCreated s)) = []"
  by (simp_all add: ensureChatToResponsesCreated_def chatToResponsesEvent_def Let_def)

lemma finalize_text:
  assumes "\<not> cs_CompletedSent s" "has_item s"
  shows "rs_deltas ''response.output_text.delta'' (snd (FinalizeChatCompletionsResponsesStream rand s)) = []
    \<and> map output_text (completed_outputs (snd (FinalizeChatCompletionsResponsesStream rand s))) = [cs_Text s]"
proof -
  let ?b = "fst (closing_events (fst (ensureChatToResponsesCreated s)))"
  have "has_item (?b\<lparr>cs_CompletedSent := True\<rparr>)"
    using assms(2) by (simp add: has_item_def)
  from chatOutput_text [OF this, of rand] show ?thesis
    using assms(1)
    by (simp add: FinalizeChatCompletionsResponsesStream_def chatToResponsesEvent_def Let_def case_prod_beta)
qed

text \<open>
The text of the chunks arrives: as the concatenation of the text deltas, and once more as the text
of the output in the final \<open>response.completed\<close>.
\<close>
theorem bridge_stream_text:
  "rs_deltas ''response.output_text.delta''
     (snd (cs_stream rand chunks (NewChatCompletionsToResponsesStreamState rand n now model)))
     = chunk_deltas cd_Content chunks
   \<and> map output_text (completed_outputs
       (snd (cs_stream rand chunks (NewChatCompletionsToResponsesStreamState rand n now model))))
     = [chunk_deltas cd_Content chunks]"
proof -
  let ?init = "NewChatCompletionsToResponsesStreamState rand n now model"
  let ?s = "fst (cs_run rand chunks ?init)"
  have says: "cs_says ?init (chunk_deltas cd_Content chunks) (cs_run rand chunks ?init)"
    by (rule says_run)
  moreover have "has_item ?init"
    by (simp add: has_item_def new_state_flags)
  ultimately have s: "\<not> cs_CompletedSent ?s" "has_item ?s" "cs_Text ?s = chunk_deltas cd_Content chunks"
    by (simp_all add: cs_says_def new_state_flags)
  have "rse_count ''response.completed'' (snd (cs_run rand chunks ?init)) = 0"
    using cs_counts_run [of ?init rand chunks] s(1)
    by (simp add: cs_counts_def new_state_flags)
  then show ?thesis
    using says finalize_text [OF s(1,2), of rand] s(3)
    by (simp add: cs_stream_def case_prod_beta cs_says_def completed_outputs_none)
qed

section \<open>Tool calls\<close>

definition call_chunk :: "int \<Rightarrow> go_string \<Rightarrow> go_string \<Rightarrow> go_string \<Rightarrow> ChatCompletionsChunk" where
  "call_chunk i callID name args =
     \<lparr>chunk_ID = [], chunk_Object = [], chunk_Created = 0, chunk_Model = [],
      chunk_Choices = [\<lparr>ccc_Index = 0, ccc_Delta = zero_ChatDelta\<lparr>cd_ToolCalls :=
        [\<lparr>ctc_Index = Some i, ctc_ID = callID, ctc_Type = ''function'',
          ctc_Function = \<lparr>cfc_Name = name, cfc_Arguments = args\<rparr>\<rparr>]\<rparr>, ccc_FinishReason = None\<rparr>],
      chunk_Usage = None, chunk_SystemFingerprint = [], chunk_ServiceTier = []\<rparr>"

definition final_arguments :: "ResponsesStreamEvent list \<Rightarrow> go_string list" where
  "final_arguments es = map ro_Arguments (filter (\<lambda>o'. ro_Type o' = ''function_call'') (concat (completed_outputs es)))"

lemmas bridge_run_defs = cs_stream_def cs_run_def ChatCompletionsChunkToResponsesEvents_def
  NewChatCompletionsToResponsesStreamState_def ensureChatToResponsesCreated_def chatToResponsesEvent_def
  bridge_choice_def bridge_text_def bridge_reasoning_def bridge_finish_def bridge_tool_call_def
  bridge_new_call_def bridge_args_def FinalizeChatCompletionsResponsesStream_def closing_events_def chatOutput_def
  call_output_def call_chunk_def final_arguments_def

lemma indexed_first [simp]: "indexed_calls [(0, c)] = [c]"
  by (simp add: indexed_calls_def List.map_filter_simps)

lemma indexed_gap: "i \<noteq> 0 \<Longrightarrow> indexed_calls [(i, c)] = []"
  by (simp add: indexed_calls_def List.map_filter_simps)

text \<open>
Arguments that arrive with the chunk that opens a call are doubled: the final output carries them
twice, although the argument deltas carry them once.
\<close>
theorem first_arguments_doubled:
  assumes "TrimSpace (args @ args) \<noteq> []" "args \<noteq> []" "callID \<noteq> []"
  shows "final_arguments (snd (cs_stream rand [call_chunk 0 callID name args]
       (NewChatCompletionsToResponsesStreamState rand n now model))) = [args @ args]
    \<and> rs_deltas ''response.function_call_arguments.delta'' (snd (cs_stream rand [call_chunk 0 callID name args]
       (NewChatCompletionsToResponsesStreamState rand n now model))) = args"
  using assms by (simp add: bridge_run_defs Let_def case_prod_beta)

theorem first_arguments_doubled_witness:
  "final_arguments (snd (cs_stream (\<lambda>n. ''r'') [call_chunk 0 ''call_1'' ''f'' ''{}'']
       (NewChatCompletionsToResponsesStreamState (\<lambda>n. ''r'') 0 7 ''m''))) = [''{}'' @ ''{}'']
    \<and> rs_deltas ''response.function_call_arguments.delta'' (snd (cs_stream (\<lambda>n. ''r'') [call_chunk 0 ''call_1'' ''f'' ''{}'']
       (NewChatCompletionsToResponsesStreamState (\<lambda>n. ''r'') 0 7 ''m''))) = ''{}''"
proof (rule first_arguments_doubled)
  show "TrimSpace (''{}'' @ ''{}'') \<noteq> []" by code_simp
qed simp_all

text \<open>
A call whose index leaves a gap is streamed but forgotten: the argument deltas carry its arguments,
the output of the final \<open>response.completed\<close> does not contain it.
\<close>
theorem sparse_index_dropped:
  assumes "i \<noteq> 0" "callID \<noteq> []"
  shows "final_arguments (snd (cs_stream rand [call_chunk i callID name args]
       (NewChatCompletionsToResponsesStreamState rand n now model))) = []
    \<and> rs_deltas ''response.function_call_arguments.delta'' (snd (cs_stream rand [call_chunk i callID name args]
       (NewChatCompletionsToResponsesStreamState rand n now model))) = args"
  using assms by (cases "args = []") (simp_all add: bridge_run_defs indexed_gap Let_def case_prod_beta)

theorem sparse_index_dropped_witness:
  "final_arguments (snd (cs_stream (\<lambda>n. ''r'') [call_chunk 1 ''call_1'' ''f'' ''{}'']
       (NewChatCompletionsToResponsesStreamState (\<lambda>n. ''r'') 0 7 ''m''))) = []
    \<and> rs_deltas ''response.function_call_arguments.delta'' (snd (cs_stream (\<lambda>n. ''r'') [call_chunk 1 ''call_1'' ''f'' ''{}'']
       (NewChatCompletionsToResponsesStreamState (\<lambda>n. ''r'') 0 7 ''m''))) = ''{}''"
  by (rule sparse_index_dropped) simp_all

end
