(* ===== verification/ChatToResp.thy ===== *)
theory ChatToResp
  imports AnthToResp
begin

text \<open>
  \<open>pkg/apicompat/chatcompletions_to_responses.go\<close>: a Chat Completions request becomes a Responses
  request.
\<close>

record chatMessageContent =
  cmc_Text :: "go_string option"
  cmc_Parts :: "ChatContentPart list"

section \<open>Content\<close>

text \<open>\<open>json.Unmarshal\<close> into \<open>[]map[string]any\<close>; the values stay raw and are read by type assertion.\<close>

definition unmarshal_any_maps :: "RawMessage \<Rightarrow> (go_string \<times> RawMessage) list list option" where
  "unmarshal_any_maps raw =
     (if any_number_overflow raw then None else dec_slice unmarshal_object raw)"

definition any_string :: "RawMessage \<Rightarrow> go_string" where
  "any_string raw = (case json_scan raw of Some (VStr s) \<Rightarrow> s | _ \<Rightarrow> [])"

definition assistant_part_text :: "(go_string \<times> RawMessage) list \<Rightarrow> go_string" where
  "assistant_part_text p =
     (let typ = any_string (map_get p ''type'');
          text = any_string (map_get p ''text'');
          thinking = any_string (map_get p ''thinking'')
      in if typ = ''thinking'' \<or> typ = ''reasoning'' then
           (if thinking \<noteq> [] then ''<thinking>'' @ thinking @ ''</thinking>''
            else if text \<noteq> [] then ''<thinking>'' @ text @ ''</thinking>''
            else [])
         else text)"

definition parseAssistantContent :: "RawMessage \<Rightarrow> go_string result" where
  "parseAssistantContent raw =
     (if raw = [] then Inr []
      else (case unmarshal_string raw of
              Some s \<Rightarrow> Inr s
            | None \<Rightarrow>
                (case unmarshal_any_maps raw of
                   None \<Rightarrow> Inr []
                 | Some parts \<Rightarrow> Inr (concat (map assistant_part_text parts)))))"

definition parseChatMessageContent :: "RawMessage \<Rightarrow> chatMessageContent result" where
  "parseChatMessageContent raw =
     (if raw = [] then Inr \<lparr>cmc_Text = Some [], cmc_Parts = []\<rparr>
      else (case unmarshal_string raw of
              Some s \<Rightarrow> Inr \<lparr>cmc_Text = Some s, cmc_Parts = []\<rparr>
            | None \<Rightarrow>
                (case dec_slice dec_ChatContentPart raw of
                   Some parts \<Rightarrow> Inr \<lparr>cmc_Text = None, cmc_Parts = parts\<rparr>
                 | None \<Rightarrow> Inl ''parse content as string or parts array'')))"

definition flattenChatContentParts :: "ChatContentPart list \<Rightarrow> go_string" where
  "flattenChatContentParts parts =
     Join (map ccp_Text (filter (\<lambda>p. ccp_Type p = ''text'' \<and> ccp_Text p \<noteq> []) parts)) []"

definition parseChatContent :: "RawMessage \<Rightarrow> go_string result" where
  "parseChatContent raw =
     bind_res (parseChatMessageContent raw) (\<lambda>parsed.
       case cmc_Text parsed of
         Some t \<Rightarrow> Inr t
       | None \<Rightarrow> Inr (flattenChatContentParts (cmc_Parts parsed)))"

definition isEmptyBase64DataURI :: "go_string \<Rightarrow> bool" where
  "isEmptyBase64DataURI raw =
     (if \<not> HasPrefix raw ''data:'' then False
      else (let rest = TrimPrefix raw ''data:'' in
            case IndexByte rest CHR '';'' of
              None \<Rightarrow> False
            | Some semicolonIdx \<Rightarrow>
                (let rest = drop (semicolonIdx + 1) rest
                 in if \<not> HasPrefix rest ''base64,'' then False
                    else TrimSpace (TrimPrefix rest ''base64,'') = [])))"

definition response_part_of :: "ChatContentPart \<Rightarrow> ResponsesContentPart list" where
  "response_part_of p =
     (if ccp_Type p = ''text'' then
        (if ccp_Text p \<noteq> [] then [text_part ''input_text'' (ccp_Text p)] else [])
      else if ccp_Type p = ''image_url'' then
        (case ccp_ImageURL p of
           None \<Rightarrow> []
         | Some u \<Rightarrow>
             if ciu_URL u \<noteq> [] \<and> \<not> isEmptyBase64DataURI (ciu_URL u)
             then [image_part (ciu_URL u)] else [])
      else [])"

definition convertChatContentPartsToResponses ::
    "ChatContentPart list \<Rightarrow> ResponsesContentPart list" where
  "convertChatContentPartsToResponses parts = concat (map response_part_of parts)"

definition marshalChatInputContent :: "chatMessageContent \<Rightarrow> RawMessage result" where
  "marshalChatInputContent content =
     (case cmc_Text content of
        Some t \<Rightarrow> Inr (jstr t)
      | None \<Rightarrow>
          (let parts = convertChatContentPartsToResponses (cmc_Parts content)
           in if parts = [] then Inr (jstr []) else of_json (marshal_parts parts)))"

section \<open>Messages\<close>

definition chatSystemToResponses :: "ChatMessage \<Rightarrow> ResponsesInputItem list result" where
  "chatSystemToResponses m =
     bind_res (parseChatMessageContent (cm_Content m)) (\<lambda>parsed.
     bind_res (marshalChatInputContent parsed) (\<lambda>content.
       Inr [zero_item\<lparr>ri_Role := ''system'', ri_Content := content\<rparr>]))"

definition chatUserToResponses :: "ChatMessage \<Rightarrow> ResponsesInputItem list result" where
  "chatUserToResponses m =
     bind_res (wrap_err ''parse user content'' (parseChatMessageContent (cm_Content m))) (\<lambda>parsed.
     bind_res (marshalChatInputContent parsed) (\<lambda>content.
       Inr [zero_item\<lparr>ri_Role := ''user'', ri_Content := content\<rparr>]))"

definition chat_call_item :: "ChatToolCall \<Rightarrow> ResponsesInputItem" where
  "chat_call_item tc =
     zero_item\<lparr>ri_Type := ''function_call'', ri_CallID := ctc_ID tc,
       ri_Name := cfc_Name (ctc_Function tc),
       ri_Arguments := (if cfc_Arguments (ctc_Function tc) = [] then ''{}''
                        else cfc_Arguments (ctc_Function tc))\<rparr>"

definition chatAssistantToResponses :: "ChatMessage \<Rightarrow> ResponsesInputItem list result" where
  "chatAssistantToResponses m =
     (let content = (if cm_ReasoningContent m \<noteq> []
                     then ''<thinking>'' @ cm_ReasoningContent m @ ''</thinking>'' else [])
      in bind_res
           (if cm_Content m \<noteq> [] then
              bind_res (parseAssistantContent (cm_Content m)) (\<lambda>s.
                Inr (if s \<noteq> [] then (if content \<noteq> [] then content @ newline else content) @ s
                     else content))
            else Inr content)
           (\<lambda>content.
              let calls = map chat_call_item (cm_ToolCalls m)
              in if content \<noteq> [] then
                   bind_res (of_json (marshal_parts [text_part ''output_text'' content])) (\<lambda>partsJSON.
                     Inr (zero_item\<lparr>ri_Role := ''assistant'', ri_Content := partsJSON\<rparr> # calls))
                 else Inr calls))"

definition output_item :: "go_string \<Rightarrow> go_string \<Rightarrow> ResponsesInputItem" where
  "output_item callID output =
     zero_item\<lparr>ri_Type := ''function_call_output'', ri_CallID := callID,
       ri_Output := (if output = [] then ''(empty)'' else output)\<rparr>"

definition chatToolToResponses :: "ChatMessage \<Rightarrow> ResponsesInputItem list result" where
  "chatToolToResponses m =
     bind_res (parseChatContent (cm_Content m)) (\<lambda>output. Inr [output_item (cm_ToolCallID m) output])"

definition chatFunctionToResponses :: "ChatMessage \<Rightarrow> ResponsesInputItem list result" where
  "chatFunctionToResponses m =
     bind_res (parseChatContent (cm_Content m)) (\<lambda>output. Inr [output_item (cm_Name m) output])"

definition chatMessageToResponsesItems :: "ChatMessage \<Rightarrow> ResponsesInputItem list result" where
  "chatMessageToResponsesItems m =
     (if cm_Role m = ''system'' then chatSystemToResponses m
      else if cm_Role m = ''user'' then chatUserToResponses m
      else if cm_Role m = ''assistant'' then chatAssistantToResponses m
      else if cm_Role m = ''tool'' then chatToolToResponses m
      else if cm_Role m = ''function'' then chatFunctionToResponses m
      else chatUserToResponses m)"

definition convertChatMessagesToResponsesInput ::
    "ChatMessage list \<Rightarrow> ResponsesInputItem list result" where
  "convertChatMessagesToResponsesInput msgs =
     bind_res (mapM_res chatMessageToResponsesItems msgs) (\<lambda>itemss. Inr (concat itemss))"

section \<open>Tools\<close>

definition function_tool :: "ChatFunction \<Rightarrow> ResponsesTool" where
  "function_tool f =
     \<lparr>rtool_Type = ''function'', rtool_Name = cf_Name f, rtool_Description = cf_Description f,
      rtool_Parameters = cf_Parameters f, rtool_Strict = cf_Strict f\<rparr>"

definition chat_tool_of :: "ChatTool \<Rightarrow> ResponsesTool list" where
  "chat_tool_of t =
     (case ct_Function t of
        None \<Rightarrow> []
      | Some f \<Rightarrow> (if ct_Type t \<noteq> ''function'' then [] else [function_tool f]))"

definition convertChatToolsToResponses ::
    "ChatTool list \<Rightarrow> ChatFunction list \<Rightarrow> ResponsesTool list" where
  "convertChatToolsToResponses tools functions =
     concat (map chat_tool_of tools) @ map function_tool functions"

definition convertChatFunctionCallToToolChoice :: "RawMessage \<Rightarrow> RawMessage result" where
  "convertChatFunctionCallToToolChoice raw =
     (case unmarshal_string raw of
        Some s \<Rightarrow> Inr (jstr s)
      | None \<Rightarrow>
          bind_res (of_json (dec_struct (dec_field dec_string [] ''name'') [] raw)) (\<lambda>name.
            Inr (jobj [(''name'', jstr name), (''type'', jstr ''function'')])))"

section \<open>The request\<close>

definition ChatCompletionsToResponses :: "ChatCompletionsRequest \<Rightarrow> ResponsesRequest result" where
  "ChatCompletionsToResponses req =
     bind_res (convertChatMessagesToResponsesInput (creq_Messages req)) (\<lambda>input.
     bind_res (of_json (marshal_items input)) (\<lambda>inputJSON.
       let out = zero_ResponsesRequest\<lparr>rreq_Model := creq_Model req,
                   rreq_Instructions := creq_Instructions req, rreq_Input := inputJSON,
                   rreq_Stream := True, rreq_Include := [''reasoning.encrypted_content''],
                   rreq_ServiceTier := creq_ServiceTier req\<rparr>;
           out = (if \<not> isReasoningModel (creq_Model req)
                  then out\<lparr>rreq_Temperature := creq_Temperature req, rreq_TopP := creq_TopP req\<rparr>
                  else out);
           out = out\<lparr>rreq_Store := Some False\<rparr>;
           maxTokens = (case creq_MaxTokens req of None \<Rightarrow> 0 | Some n \<Rightarrow> n);
           maxTokens = (case creq_MaxCompletionTokens req of None \<Rightarrow> maxTokens | Some n \<Rightarrow> n);
           out = (if maxTokens > 0
                  then out\<lparr>rreq_MaxOutputTokens :=
                         Some (if maxTokens < minMaxOutputTokens then minMaxOutputTokens else maxTokens)\<rparr>
                  else out);
           out = (if creq_ReasoningEffort req \<noteq> []
                  then out\<lparr>rreq_Reasoning := Some \<lparr>rr_Effort = creq_ReasoningEffort req,
                             rr_Summary = ''auto''\<rparr>\<rparr>
                  else out);
           out = (if creq_Tools req \<noteq> [] \<or> creq_Functions req \<noteq> []
                  then out\<lparr>rreq_Tools := convertChatToolsToResponses (creq_Tools req)
                             (creq_Functions req)\<rparr>
                  else out)
       in if creq_ToolChoice req \<noteq> [] then Inr (out\<lparr>rreq_ToolChoice := creq_ToolChoice req\<rparr>)
          else if creq_FunctionCall req \<noteq> [] then
            bind_res (wrap_err ''convert function_call''
                       (convertChatFunctionCallToToolChoice (creq_FunctionCall req)))
              (\<lambda>tc. Inr (out\<lparr>rreq_ToolChoice := tc\<rparr>))
          else Inr out))"

end
