(* ===== verification/Idempotency.thy ===== *)
theory Idempotency
  imports GoJson
begin

text \<open>
  \<open>service/idempotency.go\<close> with the application errors of \<open>pkg/errors/errors.go\<close> it uses: the
  coordinator that lets a write request with an idempotency key run once and replays its answer.
  \<open>Execute\<close> is cut at its repository calls: \<open>claim_step\<close> makes exactly one call and says how the
  code goes on, \<open>claim\<close> runs the steps up to the call of the executor, \<open>finish\<close> is the rest. Times
  and durations are integers in nanoseconds. Metrics and audit log calls are left out. \<open>sha256\<close> is
  the digest of \<open>crypto/sha256\<close>; \<open>RedactText\<close> is the text redaction of \<open>util/logredact\<close>.
\<close>

section \<open>Application errors\<close>

record ApplicationError =
  ae_Code :: int
  ae_Reason :: go_string
  ae_Message :: go_string
  ae_Metadata :: "(go_string \<times> go_string) list option"

text \<open>
  An error value: an application error, or another error that may wrap one. The cause attached by
  \<open>WithCause\<close> is not kept: nothing here reads it.
\<close>

datatype error_value = App ApplicationError | Other go_string "ApplicationError option"

fun errors_As :: "error_value \<Rightarrow> ApplicationError option" where
  "errors_As (App e) = Some e"
| "errors_As (Other _ w) = w"

definition app_error :: "int \<Rightarrow> go_string \<Rightarrow> go_string \<Rightarrow> ApplicationError" where
  "app_error code reason message =
     \<lparr>ae_Code = code, ae_Reason = reason, ae_Message = message, ae_Metadata = None\<rparr>"

definition WithMetadata ::
    "ApplicationError \<Rightarrow> (go_string \<times> go_string) list \<Rightarrow> ApplicationError" where
  "WithMetadata e md = e\<lparr>ae_Metadata := Some md\<rparr>"

definition Reason :: "error_value \<Rightarrow> go_string" where
  "Reason e = (case errors_As e of None \<Rightarrow> [] | Some a \<Rightarrow> ae_Reason a)"

definition ErrIdempotencyKeyRequired where
  "ErrIdempotencyKeyRequired =
     app_error 400 ''IDEMPOTENCY_KEY_REQUIRED'' ''idempotency key is required''"

definition ErrIdempotencyKeyInvalid where
  "ErrIdempotencyKeyInvalid =
     app_error 400 ''IDEMPOTENCY_KEY_INVALID'' ''idempotency key is invalid''"

definition ErrIdempotencyKeyConflict where
  "ErrIdempotencyKeyConflict =
     app_error 409 ''IDEMPOTENCY_KEY_CONFLICT'' ''idempotency key reused with different payload''"

definition ErrIdempotencyInProgress where
  "ErrIdempotencyInProgress =
     app_error 409 ''IDEMPOTENCY_IN_PROGRESS'' ''idempotent request is still processing''"

definition ErrIdempotencyRetryBackoff where
  "ErrIdempotencyRetryBackoff =
     app_error 409 ''IDEMPOTENCY_RETRY_BACKOFF'' ''idempotent request is in retry backoff window''"

definition ErrIdempotencyStoreUnavail where
  "ErrIdempotencyStoreUnavail =
     app_error 503 ''IDEMPOTENCY_STORE_UNAVAILABLE'' ''idempotency store unavailable''"

definition ErrIdempotencyInvalidPayload where
  "ErrIdempotencyInvalidPayload =
     app_error 400 ''IDEMPOTENCY_PAYLOAD_INVALID'' ''failed to normalize request payload''"

definition ErrIdempotencyExecutorNil where
  "ErrIdempotencyExecutorNil =
     app_error 500 ''IDEMPOTENCY_EXECUTOR_NIL'' ''idempotency executor is nil''"

definition ErrIdempotencyScopeRequired where
  "ErrIdempotencyScopeRequired =
     app_error 400 ''IDEMPOTENCY_SCOPE_REQUIRED'' ''idempotency scope is required''"

section \<open>Records and the repository interface\<close>

definition IdempotencyStatusProcessing :: go_string where
  "IdempotencyStatusProcessing = ''processing''"

definition IdempotencyStatusSucceeded :: go_string where
  "IdempotencyStatusSucceeded = ''succeeded''"

definition IdempotencyStatusFailedRetryable :: go_string where
  "IdempotencyStatusFailedRetryable = ''failed_retryable''"

lemmas status_defs = IdempotencyStatusProcessing_def IdempotencyStatusSucceeded_def
  IdempotencyStatusFailedRetryable_def

record IdempotencyRecord =
  idr_ID :: int
  idr_Scope :: go_string
  idr_IdempotencyKeyHash :: go_string
  idr_RequestFingerprint :: go_string
  idr_Status :: go_string
  idr_ResponseStatus :: "int option"
  idr_ResponseBody :: "go_string option"
  idr_ErrorReason :: "go_string option"
  idr_LockedUntil :: "int option"
  idr_ExpiresAt :: int
  idr_CreatedAt :: int
  idr_UpdatedAt :: int

text \<open>
  The interface \<open>IdempotencyRepository\<close> over a store of type \<open>'s\<close>: every method returns its result,
  or an error, and the new store. \<open>CreateProcessing\<close> also fills in the record it is given.
\<close>

record 's IdempotencyRepository =
  CreateProcessing :: "IdempotencyRecord \<Rightarrow> 's \<Rightarrow> (bool \<times> IdempotencyRecord) result \<times> 's"
  GetByScopeAndKeyHash :: "go_string \<Rightarrow> go_string \<Rightarrow> 's \<Rightarrow> IdempotencyRecord option result \<times> 's"
  TryReclaim :: "int \<Rightarrow> go_string \<Rightarrow> int \<Rightarrow> int \<Rightarrow> int \<Rightarrow> 's \<Rightarrow> bool result \<times> 's"
  ExtendProcessingLock :: "int \<Rightarrow> go_string \<Rightarrow> int \<Rightarrow> int \<Rightarrow> 's \<Rightarrow> bool result \<times> 's"
  MarkSucceeded :: "int \<Rightarrow> int \<Rightarrow> go_string \<Rightarrow> int \<Rightarrow> 's \<Rightarrow> unit result \<times> 's"
  MarkFailedRetryable :: "int \<Rightarrow> go_string \<Rightarrow> int \<Rightarrow> int \<Rightarrow> 's \<Rightarrow> unit result \<times> 's"
  DeleteExpired :: "int \<Rightarrow> int \<Rightarrow> 's \<Rightarrow> int result \<times> 's"

record IdempotencyConfig =
  cfg_DefaultTTL :: int
  cfg_SystemOperationTTL :: int
  cfg_ProcessingTimeout :: int
  cfg_FailedRetryBackoff :: int
  cfg_MaxStoredResponseLen :: int
  cfg_ObserveOnly :: bool

definition second :: int where
  "second = 1000000000"

definition DefaultIdempotencyConfig :: IdempotencyConfig where
  "DefaultIdempotencyConfig =
     \<lparr>cfg_DefaultTTL = 24 * 3600 * second, cfg_SystemOperationTTL = 3600 * second,
      cfg_ProcessingTimeout = 30 * second, cfg_FailedRetryBackoff = 5 * second,
      cfg_MaxStoredResponseLen = 64 * 1024, cfg_ObserveOnly = True\<rparr>"

text \<open>The configuration of the default coordinator, when one is set.\<close>

definition DefaultWriteIdempotencyTTL :: "IdempotencyConfig option \<Rightarrow> int" where
  "DefaultWriteIdempotencyTTL coordinator =
     (case coordinator of
        Some cfg \<Rightarrow> (if cfg_DefaultTTL cfg > 0 then cfg_DefaultTTL cfg
                     else cfg_DefaultTTL DefaultIdempotencyConfig)
      | None \<Rightarrow> cfg_DefaultTTL DefaultIdempotencyConfig)"

definition DefaultSystemOperationIdempotencyTTL :: "IdempotencyConfig option \<Rightarrow> int" where
  "DefaultSystemOperationIdempotencyTTL coordinator =
     (case coordinator of
        Some cfg \<Rightarrow> (if cfg_SystemOperationTTL cfg > 0 then cfg_SystemOperationTTL cfg
                     else cfg_SystemOperationTTL DefaultIdempotencyConfig)
      | None \<Rightarrow> cfg_SystemOperationTTL DefaultIdempotencyConfig)"

text \<open>\<open>opts_Payload\<close> is what \<open>json.Marshal\<close> gives for the payload, \<open>None\<close> where it fails.\<close>

record IdempotencyExecuteOptions =
  opts_Scope :: go_string
  opts_ActorScope :: go_string
  opts_Method :: go_string
  opts_Route :: go_string
  opts_IdempotencyKey :: go_string
  opts_Payload :: "string option"
  opts_TTL :: int
  opts_RequireKey :: bool

text \<open>
  The data of a result: the executor's own value, the decoded body of the stored answer (kept as its
  JSON text), or the empty map that stands for an empty body.
\<close>

datatype 'd idem_data = Fresh 'd | Stored RawMessage | EmptyMap

record 'd IdempotencyExecuteResult =
  res_Data :: "'d idem_data"
  res_Replayed :: bool

type_synonym 'd outcome = "error_value + 'd IdempotencyExecuteResult"

section \<open>Keys and fingerprints\<close>

definition NormalizeIdempotencyKey :: "go_string \<Rightarrow> ApplicationError + go_string" where
  "NormalizeIdempotencyKey raw =
     (let key = TrimSpace raw
      in if key = [] then Inr []
         else if length key > 128 then Inl ErrIdempotencyKeyInvalid
         else if list_ex (\<lambda>c. byte c < 33 \<or> byte c > 126) key then Inl ErrIdempotencyKeyInvalid
         else Inr key)"

definition HashIdempotencyKey :: "(string \<Rightarrow> string) \<Rightarrow> go_string \<Rightarrow> go_string" where
  "HashIdempotencyKey sha256 key = hex_encode (sha256 key)"

text \<open>The method is upper-cased letter by letter: HTTP methods are ASCII.\<close>

definition BuildIdempotencyFingerprint :: "(string \<Rightarrow> string) \<Rightarrow> go_string \<Rightarrow> go_string \<Rightarrow> go_string
    \<Rightarrow> string option \<Rightarrow> ApplicationError + go_string" where
  "BuildIdempotencyFingerprint sha256 method route actorScope payload =
     (let method = (if method = [] then ''POST'' else method);
          route = (if route = [] then ''/'' else route);
          actorScope = (if actorScope = [] then ''anonymous'' else actorScope)
      in case payload of
           None \<Rightarrow> Inl ErrIdempotencyInvalidPayload
         | Some raw \<Rightarrow>
             Inr (hex_encode (sha256 (map to_upper_byte method @ newline @ route @ newline
                    @ actorScope @ newline @ raw))))"

text \<open>\<open>strconv.Atoi\<close>: an optional sign and decimal digits that fit 64 bits.\<close>

definition Atoi :: "string \<Rightarrow> int option" where
  "Atoi s =
     (let signed = (take 1 s = ''-'' \<or> take 1 s = ''+''); ds = (if signed then tl s else s);
          v = (if take 1 s = ''-'' then - int (dec_val ds) else int (dec_val ds))
      in if ds \<noteq> [] \<and> list_all is_digit ds \<and> int64 v then Some v else None)"

definition RetryAfterSecondsFromError :: "error_value \<Rightarrow> int" where
  "RetryAfterSecondsFromError err =
     (case Option.bind (errors_As err) ae_Metadata of
        None \<Rightarrow> 0
      | Some md \<Rightarrow>
          (let v = TrimSpace (case map_of md ''retry_after'' of None \<Rightarrow> [] | Some x \<Rightarrow> x)
           in if v = [] then 0
              else (case Atoi v of
                      None \<Rightarrow> 0 | Some seconds \<Rightarrow> (if seconds \<le> 0 then 0 else seconds))))"

section \<open>Stored answers\<close>

definition conflictWithRetryAfter :: "ApplicationError \<Rightarrow> int option \<Rightarrow> int \<Rightarrow> error_value" where
  "conflictWithRetryAfter base lockedUntil now =
     (case lockedUntil of
        None \<Rightarrow> App base
      | Some l \<Rightarrow>
          (let sec = (l - now) div second;
               sec = (if sec \<le> 0 then 1 else sec)
           in App (WithMetadata base [(''retry_after'', Itoa sec)])))"

definition marshalStoredResponse ::
    "(string \<Rightarrow> string) \<Rightarrow> IdempotencyConfig \<Rightarrow> string option \<Rightarrow> go_string option" where
  "marshalStoredResponse RedactText cfg data' =
     (case data' of
        None \<Rightarrow> None
      | Some raw \<Rightarrow>
          (let redacted = RedactText raw
           in if cfg_MaxStoredResponseLen cfg > 0 \<and> int (length redacted) > cfg_MaxStoredResponseLen cfg
              then Some (take (nat (cfg_MaxStoredResponseLen cfg)) redacted @ ''...(truncated)'')
              else Some redacted))"

definition decodeStoredResponse :: "go_string option \<Rightarrow> 'd idem_data option" where
  "decodeStoredResponse stored =
     (case stored of
        None \<Rightarrow> Some EmptyMap
      | Some s \<Rightarrow>
          if TrimSpace s = [] then Some EmptyMap else map_option Stored (unmarshal_any s))"

section \<open>Claiming the key\<close>

text \<open>What one call of \<open>Execute\<close> has computed before its first repository call.\<close>

record claim_env =
  env_cfg :: IdempotencyConfig
  env_scope :: go_string
  env_keyHash :: go_string
  env_fingerprint :: go_string
  env_now :: int
  env_lockedUntil :: int
  env_expiresAt :: int

definition new_record :: "claim_env \<Rightarrow> IdempotencyRecord" where
  "new_record env =
     \<lparr>idr_ID = 0, idr_Scope = env_scope env, idr_IdempotencyKeyHash = env_keyHash env,
      idr_RequestFingerprint = env_fingerprint env, idr_Status = IdempotencyStatusProcessing,
      idr_ResponseStatus = None, idr_ResponseBody = None, idr_ErrorReason = None,
      idr_LockedUntil = Some (env_lockedUntil env), idr_ExpiresAt = env_expiresAt env,
      idr_CreatedAt = 0, idr_UpdatedAt = 0\<rparr>"

text \<open>
  Where a call stands: the repository call it makes next, the record it has claimed and executes for,
  or its outcome.
\<close>

datatype 'd phase = Creating | Getting | ReclaimingExpired IdempotencyRecord | GettingLatest
  | ReclaimingFailed IdempotencyRecord | Claimed int | Done "'d outcome"

definition store_unavailable :: "'d phase" where
  "store_unavailable = Done (Inl (App ErrIdempotencyStoreUnavail))"

definition claimed :: "int \<Rightarrow> 'd phase" where
  "claimed i = (if i = 0 then store_unavailable else Claimed i)"

definition status_switch :: "claim_env \<Rightarrow> IdempotencyRecord \<Rightarrow> 'd phase" where
  "status_switch env existing =
     (if idr_Status existing = IdempotencyStatusSucceeded then
        (case decodeStoredResponse (idr_ResponseBody existing) of
           None \<Rightarrow> store_unavailable
         | Some data' \<Rightarrow> Done (Inr \<lparr>res_Data = data', res_Replayed = True\<rparr>))
      else if idr_Status existing = IdempotencyStatusProcessing then
        Done (Inl (conflictWithRetryAfter ErrIdempotencyInProgress (idr_LockedUntil existing)
          (env_now env)))
      else if idr_Status existing = IdempotencyStatusFailedRetryable then
        (case idr_LockedUntil existing of
           Some l \<Rightarrow>
             (if l > env_now env
              then Done (Inl (conflictWithRetryAfter ErrIdempotencyRetryBackoff (Some l) (env_now env)))
              else ReclaimingFailed existing)
         | None \<Rightarrow> ReclaimingFailed existing)
      else Done (Inl (App ErrIdempotencyKeyConflict)))"

definition claim_step :: "'s IdempotencyRepository \<Rightarrow> claim_env \<Rightarrow> 'd phase \<Rightarrow> 's \<Rightarrow> 'd phase \<times> 's" where
  "claim_step repo env p s =
     (case p of
        Creating \<Rightarrow>
          (case CreateProcessing repo (new_record env) s of
             (Inl _, s') \<Rightarrow> (store_unavailable, s')
           | (Inr (owner, record'), s') \<Rightarrow>
               (if owner then claimed (idr_ID record') else Getting, s'))
      | Getting \<Rightarrow>
          (case GetByScopeAndKeyHash repo (env_scope env) (env_keyHash env) s of
             (Inl _, s') \<Rightarrow> (store_unavailable, s')
           | (Inr None, s') \<Rightarrow> (store_unavailable, s')
           | (Inr (Some existing), s') \<Rightarrow>
               (if idr_RequestFingerprint existing \<noteq> env_fingerprint env
                then Done (Inl (App ErrIdempotencyKeyConflict))
                else if \<not> idr_ExpiresAt existing > env_now env then ReclaimingExpired existing
                else status_switch env existing, s'))
      | ReclaimingExpired existing \<Rightarrow>
          (case TryReclaim repo (idr_ID existing) (idr_Status existing) (env_now env)
                  (env_lockedUntil env) (env_expiresAt env) s of
             (Inl _, s') \<Rightarrow> (store_unavailable, s')
           | (Inr taken, s') \<Rightarrow> (if taken then claimed (idr_ID existing) else GettingLatest, s'))
      | GettingLatest \<Rightarrow>
          (case GetByScopeAndKeyHash repo (env_scope env) (env_keyHash env) s of
             (Inl _, s') \<Rightarrow> (store_unavailable, s')
           | (Inr None, s') \<Rightarrow> (store_unavailable, s')
           | (Inr (Some latest), s') \<Rightarrow>
               (if idr_RequestFingerprint latest \<noteq> env_fingerprint env
                then Done (Inl (App ErrIdempotencyKeyConflict))
                else status_switch env latest, s'))
      | ReclaimingFailed existing \<Rightarrow>
          (case TryReclaim repo (idr_ID existing) IdempotencyStatusFailedRetryable (env_now env)
                  (env_lockedUntil env) (env_expiresAt env) s of
             (Inl _, s') \<Rightarrow> (store_unavailable, s')
           | (Inr taken, s') \<Rightarrow>
               (if taken then claimed (idr_ID existing)
                else Done (Inl (conflictWithRetryAfter ErrIdempotencyInProgress
                       (idr_LockedUntil existing) (env_now env))), s'))
      | Claimed _ \<Rightarrow> (p, s)
      | Done _ \<Rightarrow> (p, s))"

fun claim_steps :: "'s IdempotencyRepository \<Rightarrow> claim_env \<Rightarrow> nat \<Rightarrow> 'd phase \<Rightarrow> 's \<Rightarrow> 'd phase \<times> 's" where
  "claim_steps repo env 0 p s = (p, s)"
| "claim_steps repo env (Suc n) p s =
     (case claim_step repo env p s of (p', s') \<Rightarrow> claim_steps repo env n p' s')"

text \<open>No path makes more than five repository calls before it executes or returns.\<close>

definition claim :: "'s IdempotencyRepository \<Rightarrow> claim_env \<Rightarrow> 's \<Rightarrow> 'd phase \<times> 's" where
  "claim repo env s = claim_steps repo env 5 Creating s"

section \<open>Executing\<close>

text \<open>
  The executor runs on the whole state and returns its value together with the text \<open>json.Marshal\<close>
  gives for it, or an error. \<open>later\<close> is the clock when it has returned.
\<close>

type_synonym ('d, 's) executor = "'s \<Rightarrow> (error_value + 'd \<times> string option) \<times> 's"

definition finish :: "(string \<Rightarrow> string) \<Rightarrow> 's IdempotencyRepository \<Rightarrow> claim_env \<Rightarrow> int \<Rightarrow> int
    \<Rightarrow> (error_value + 'd \<times> string option) \<Rightarrow> 's \<Rightarrow> 'd outcome \<times> 's" where
  "finish RedactText repo env later i got s =
     (case got of
        Inl execErr \<Rightarrow>
          (let backoffUntil = later + cfg_FailedRetryBackoff (env_cfg env);
               reason = (if Reason execErr = [] then ''EXECUTION_FAILED'' else Reason execErr)
           in (Inl execErr, snd (MarkFailedRetryable repo i reason backoffUntil (env_expiresAt env) s)))
      | Inr (data', json) \<Rightarrow>
          (case marshalStoredResponse RedactText (env_cfg env) json of
             None \<Rightarrow> (Inl (App ErrIdempotencyStoreUnavail), s)
           | Some storedBody \<Rightarrow>
               (case MarkSucceeded repo i 200 storedBody (env_expiresAt env) s of
                  (Inl _, s') \<Rightarrow> (Inl (App ErrIdempotencyStoreUnavail), s')
                | (Inr _, s') \<Rightarrow> (Inr \<lparr>res_Data = Fresh data', res_Replayed = False\<rparr>, s'))))"

definition make_env :: "(string \<Rightarrow> string) \<Rightarrow> IdempotencyConfig \<Rightarrow> IdempotencyExecuteOptions \<Rightarrow> int
    \<Rightarrow> go_string \<Rightarrow> go_string \<Rightarrow> claim_env" where
  "make_env sha256 cfg opts now key fingerprint =
     (let ttl = (if opts_TTL opts \<le> 0 then cfg_DefaultTTL cfg else opts_TTL opts)
      in \<lparr>env_cfg = cfg, env_scope = opts_Scope opts, env_keyHash = HashIdempotencyKey sha256 key,
          env_fingerprint = fingerprint, env_now = now,
          env_lockedUntil = now + cfg_ProcessingTimeout cfg, env_expiresAt = now + ttl\<rparr>)"

definition run_plain :: "('d, 's) executor \<Rightarrow> 's \<Rightarrow> 'd outcome \<times> 's" where
  "run_plain execute s =
     (case execute s of
        (Inl e, s') \<Rightarrow> (Inl e, s')
      | (Inr (data', _), s') \<Rightarrow> (Inr \<lparr>res_Data = Fresh data', res_Replayed = False\<rparr>, s'))"

definition Execute :: "(string \<Rightarrow> string) \<Rightarrow> (string \<Rightarrow> string) \<Rightarrow> 's IdempotencyRepository option
    \<Rightarrow> IdempotencyConfig \<Rightarrow> int \<Rightarrow> int \<Rightarrow> IdempotencyExecuteOptions \<Rightarrow> ('d, 's) executor option \<Rightarrow> 's
    \<Rightarrow> 'd outcome \<times> 's" where
  "Execute sha256 RedactText repo' cfg now later opts execute' s =
     (case execute' of
        None \<Rightarrow> (Inl (App ErrIdempotencyExecutorNil), s)
      | Some execute \<Rightarrow>
      (case NormalizeIdempotencyKey (opts_IdempotencyKey opts) of
         Inl e \<Rightarrow> (Inl (App e), s)
       | Inr key \<Rightarrow>
           if key = [] then
             (if opts_RequireKey opts \<and> \<not> cfg_ObserveOnly cfg
              then (Inl (App ErrIdempotencyKeyRequired), s) else run_plain execute s)
           else (case repo' of
             None \<Rightarrow> (Inl (App ErrIdempotencyStoreUnavail), s)
           | Some repo \<Rightarrow>
               if opts_Scope opts = [] then (Inl (App ErrIdempotencyScopeRequired), s)
               else (case BuildIdempotencyFingerprint sha256 (opts_Method opts) (opts_Route opts)
                            (opts_ActorScope opts) (opts_Payload opts) of
                 Inl e \<Rightarrow> (Inl (App e), s)
               | Inr fingerprint \<Rightarrow>
                   (let env = make_env sha256 cfg opts now key fingerprint
                    in case claim repo env s of
                         (Claimed i, s') \<Rightarrow>
                           (case execute s' of (got, s'') \<Rightarrow> finish RedactText repo env later i got s'')
                       | (Done out, s') \<Rightarrow> (out, s')
                       | (_, s') \<Rightarrow> (Inl (App ErrIdempotencyStoreUnavail), s'))))))"

end
