(* ===== verification/IdempotencyRepo.thy ===== *)
theory IdempotencyRepo
  imports Idempotency
begin

text \<open>
  \<open>repository/idempotency_repo.go\<close>: the repository on the table \<open>idempotency_records\<close> of
  \<open>migrations/057_add_idempotency_records.sql\<close>. The state is the table with the sequence behind its
  \<open>BIGSERIAL\<close> column and the clock behind \<open>NOW()\<close>. Each statement is atomic. A statement may fail:
  \<open>db_faults\<close> says, statement by statement, whether it works, fails before it has done anything, or
  does its work and loses the answer. \<open>db_world\<close> is the rest of the database, which the executors work on.
\<close>

record 'w idem_db =
  db_rows :: "IdempotencyRecord list"
  db_seq :: int
  db_clock :: int
  db_faults :: "fault list"
  db_world :: 'w

definition sql_err :: go_error where
  "sql_err = ''sql''"

text \<open>One statement: its effect and result, subject to the next fault.\<close>

definition statement :: "('w idem_db \<Rightarrow> 'r result \<times> 'w idem_db) \<Rightarrow> 'w idem_db \<Rightarrow> 'r result \<times> 'w idem_db" where
  "statement run db =
     (case db_faults db of
        [] \<Rightarrow> run db
      | f # fs \<Rightarrow>
          (let db = db\<lparr>db_faults := fs\<rparr> in
           case f of
             Works \<Rightarrow> run db
           | FailsBefore \<Rightarrow> (Inl sql_err, db)
           | FailsAfter \<Rightarrow> (Inl sql_err, snd (run db))))"

text \<open>A \<open>VARCHAR(n)\<close> column takes at most n characters, that is n bytes that start one.\<close>

definition varchar :: "nat \<Rightarrow> string \<Rightarrow> bool" where
  "varchar n s \<longleftrightarrow> length (filter (\<lambda>c. \<not> cont_byte c) s) \<le> n"

definition has_key :: "go_string \<Rightarrow> go_string \<Rightarrow> IdempotencyRecord \<Rightarrow> bool" where
  "has_key scope keyHash r \<longleftrightarrow> idr_Scope r = scope \<and> idr_IdempotencyKeyHash r = keyHash"

text \<open>
  \<open>INSERT ... ON CONFLICT DO NOTHING RETURNING\<close>: the sequence advances in either case; without a
  row returned the record is left as it was.
\<close>

definition sql_CreateProcessing ::
    "IdempotencyRecord \<Rightarrow> 'w idem_db \<Rightarrow> (bool \<times> IdempotencyRecord) result \<times> 'w idem_db" where
  "sql_CreateProcessing record' =
     statement (\<lambda>db.
       if varchar 128 (idr_Scope record') \<and> varchar 64 (idr_IdempotencyKeyHash record')
          \<and> varchar 64 (idr_RequestFingerprint record') \<and> varchar 32 (idr_Status record') then
         (let i = db_seq db + 1; db = db\<lparr>db_seq := i\<rparr> in
          if list_ex (has_key (idr_Scope record') (idr_IdempotencyKeyHash record')) (db_rows db)
          then (Inr (False, record'), db)
          else (let r = record'\<lparr>idr_ID := i, idr_CreatedAt := db_clock db,
                                 idr_UpdatedAt := db_clock db\<rparr>;
                    row = r\<lparr>idr_ResponseStatus := None, idr_ResponseBody := None,
                            idr_ErrorReason := None\<rparr>
                in (Inr (True, r), db\<lparr>db_rows := db_rows db @ [row]\<rparr>)))
       else (Inl sql_err, db))"

definition sql_GetByScopeAndKeyHash ::
    "go_string \<Rightarrow> go_string \<Rightarrow> 'w idem_db \<Rightarrow> IdempotencyRecord option result \<times> 'w idem_db" where
  "sql_GetByScopeAndKeyHash scope keyHash =
     statement (\<lambda>db. (Inr (find (has_key scope keyHash) (db_rows db)), db))"

text \<open>An \<open>UPDATE\<close>: the rows that satisfy the condition are changed and counted.\<close>

definition update_rows :: "(IdempotencyRecord \<Rightarrow> bool) \<Rightarrow> (IdempotencyRecord \<Rightarrow> IdempotencyRecord)
    \<Rightarrow> 'w idem_db \<Rightarrow> nat \<times> 'w idem_db" where
  "update_rows P f db =
     (length (filter P (db_rows db)),
      db\<lparr>db_rows := map (\<lambda>r. if P r then f r else r) (db_rows db)\<rparr>)"

definition sql_TryReclaim ::
    "int \<Rightarrow> go_string \<Rightarrow> int \<Rightarrow> int \<Rightarrow> int \<Rightarrow> 'w idem_db \<Rightarrow> bool result \<times> 'w idem_db" where
  "sql_TryReclaim i fromStatus now newLockedUntil newExpiresAt =
     statement (\<lambda>db.
       case update_rows
              (\<lambda>r. idr_ID r = i \<and> idr_Status r = fromStatus
                 \<and> (case idr_LockedUntil r of None \<Rightarrow> True | Some l \<Rightarrow> l \<le> now))
              (\<lambda>r. r\<lparr>idr_Status := IdempotencyStatusProcessing, idr_LockedUntil := Some newLockedUntil,
                     idr_ErrorReason := None, idr_UpdatedAt := db_clock db,
                     idr_ExpiresAt := newExpiresAt\<rparr>) db
       of (affected, db) \<Rightarrow> (Inr (affected > 0), db))"

definition sql_ExtendProcessingLock ::
    "int \<Rightarrow> go_string \<Rightarrow> int \<Rightarrow> int \<Rightarrow> 'w idem_db \<Rightarrow> bool result \<times> 'w idem_db" where
  "sql_ExtendProcessingLock i requestFingerprint newLockedUntil newExpiresAt =
     statement (\<lambda>db.
       case update_rows
              (\<lambda>r. idr_ID r = i \<and> idr_Status r = IdempotencyStatusProcessing
                 \<and> idr_RequestFingerprint r = requestFingerprint)
              (\<lambda>r. r\<lparr>idr_LockedUntil := Some newLockedUntil, idr_ExpiresAt := newExpiresAt,
                     idr_UpdatedAt := db_clock db\<rparr>) db
       of (affected, db) \<Rightarrow> (Inr (affected > 0), db))"

definition sql_MarkSucceeded ::
    "int \<Rightarrow> int \<Rightarrow> go_string \<Rightarrow> int \<Rightarrow> 'w idem_db \<Rightarrow> unit result \<times> 'w idem_db" where
  "sql_MarkSucceeded i responseStatus responseBody expiresAt =
     statement (\<lambda>db.
       (Inr (), snd (update_rows (\<lambda>r. idr_ID r = i)
          (\<lambda>r. r\<lparr>idr_Status := IdempotencyStatusSucceeded, idr_ResponseStatus := Some responseStatus,
                 idr_ResponseBody := Some responseBody, idr_ErrorReason := None,
                 idr_LockedUntil := None, idr_ExpiresAt := expiresAt,
                 idr_UpdatedAt := db_clock db\<rparr>) db)))"

definition sql_MarkFailedRetryable ::
    "int \<Rightarrow> go_string \<Rightarrow> int \<Rightarrow> int \<Rightarrow> 'w idem_db \<Rightarrow> unit result \<times> 'w idem_db" where
  "sql_MarkFailedRetryable i errorReason lockedUntil expiresAt =
     statement (\<lambda>db.
       if list_ex (\<lambda>r. idr_ID r = i) (db_rows db) \<and> \<not> varchar 128 errorReason then (Inl sql_err, db)
       else (Inr (), snd (update_rows (\<lambda>r. idr_ID r = i)
          (\<lambda>r. r\<lparr>idr_Status := IdempotencyStatusFailedRetryable, idr_ErrorReason := Some errorReason,
                 idr_LockedUntil := Some lockedUntil, idr_ExpiresAt := expiresAt,
                 idr_UpdatedAt := db_clock db\<rparr>) db)))"

definition sql_DeleteExpired :: "int \<Rightarrow> int \<Rightarrow> 'w idem_db \<Rightarrow> int result \<times> 'w idem_db" where
  "sql_DeleteExpired now limit =
     statement (\<lambda>db.
       let limit = (if limit \<le> 0 then 500 else limit);
           victims = take (nat limit) (map idr_ID (sort_key idr_ExpiresAt
             (filter (\<lambda>r. idr_ExpiresAt r \<le> now) (db_rows db))))
       in (Inr (int (length (filter (\<lambda>r. idr_ID r \<in> set victims) (db_rows db)))),
           db\<lparr>db_rows := filter (\<lambda>r. idr_ID r \<notin> set victims) (db_rows db)\<rparr>))"

definition NewIdempotencyRepository :: "'w idem_db IdempotencyRepository" where
  "NewIdempotencyRepository =
     \<lparr>CreateProcessing = sql_CreateProcessing, GetByScopeAndKeyHash = sql_GetByScopeAndKeyHash,
      TryReclaim = sql_TryReclaim, ExtendProcessingLock = sql_ExtendProcessingLock,
      MarkSucceeded = sql_MarkSucceeded, MarkFailedRetryable = sql_MarkFailedRetryable,
      DeleteExpired = sql_DeleteExpired\<rparr>"

end
