(* ===== verification/IdempotencyRace.thy ===== *)
theory IdempotencyRace
  imports IdempotencyRepo
begin

text \<open>
  What the coordinator relies on of its repository is the locale \<open>idempotency_store\<close>; its client
  lemmas are about callers that race for a key, in any order of their repository calls. The SQL
  repository satisfies the laws, also when statements fail or lose their answer.
\<close>

section \<open>Callers that race\<close>

text \<open>
  A caller is one call of \<open>Execute\<close> past its argument checks. A step is one repository call of a
  caller, the end of an execution with the call that records it, or anything elsewhere in the database.
\<close>

record ('d, 's) race =
  callers :: "nat \<Rightarrow> 'd phase"
  store :: 's

inductive race_step :: "(string \<Rightarrow> string) \<Rightarrow> 's IdempotencyRepository \<Rightarrow> ('s \<Rightarrow> 's \<Rightarrow> bool)
    \<Rightarrow> (nat \<Rightarrow> claim_env) \<Rightarrow> ('d, 's) race \<Rightarrow> ('d, 's) race \<Rightarrow> bool"
  for RedactText repo other env where
  call: "claim_step repo (env k) (callers w k) (store w) = (p, s) \<Longrightarrow>
     race_step RedactText repo other env w (w\<lparr>callers := (callers w)(k := p), store := s\<rparr>)"
| return: "callers w k = Claimed i \<Longrightarrow> finish RedactText repo (env k) later i got (store w) = (out, s) \<Longrightarrow>
     race_step RedactText repo other env w (w\<lparr>callers := (callers w)(k := Done out), store := s\<rparr>)"
| elsewhere: "other (store w) s \<Longrightarrow> race_step RedactText repo other env w (w\<lparr>store := s\<rparr>)"

inductive_cases race_stepE: "race_step RedactText repo other env w w'"

definition race_start :: "'s \<Rightarrow> ('d, 's) race" where
  "race_start s = \<lparr>callers = \<lambda>_. Creating, store = s\<rparr>"

definition same_key :: "claim_env \<Rightarrow> claim_env \<Rightarrow> bool" where
  "same_key e f \<longleftrightarrow> env_scope e = env_scope f \<and> env_keyHash e = env_keyHash f"

definition executing :: "'d phase \<Rightarrow> bool" where
  "executing p \<longleftrightarrow> (\<exists>i. p = Claimed i)"

definition succeeded :: "'d phase \<Rightarrow> bool" where
  "succeeded p \<longleftrightarrow> (\<exists>d. p = Done (Inr \<lparr>res_Data = Fresh d, res_Replayed = False\<rparr>))"

text \<open>The callers fall into one lock window: none starts after the lock of another has run out.\<close>

definition lock_window :: "(nat \<Rightarrow> claim_env) \<Rightarrow> bool" where
  "lock_window env \<longleftrightarrow> (\<forall>j k. env_now (env j) < env_lockedUntil (env k))"

definition ttl_window :: "(nat \<Rightarrow> claim_env) \<Rightarrow> bool" where
  "ttl_window env \<longleftrightarrow> (\<forall>j k. env_now (env j) < env_expiresAt (env k))"

definition fresh_row :: "(nat \<Rightarrow> claim_env) \<Rightarrow> IdempotencyRecord \<Rightarrow> bool" where
  "fresh_row env x \<longleftrightarrow> (\<forall>k. env_now (env k) < idr_ExpiresAt x)"

section \<open>The contract of a repository\<close>

definition same_slot :: "IdempotencyRecord \<Rightarrow> IdempotencyRecord \<Rightarrow> bool" where
  "same_slot x y \<longleftrightarrow> idr_Scope y = idr_Scope x \<and> idr_IdempotencyKeyHash y = idr_IdempotencyKeyHash x"

definition locked_at :: "IdempotencyRecord \<Rightarrow> int \<Rightarrow> bool" where
  "locked_at x now \<longleftrightarrow> (case idr_LockedUntil x of None \<Rightarrow> False | Some l \<Rightarrow> now < l)"

locale idempotency_store =
  fixes repo :: "'s IdempotencyRepository"
    and wf :: "'s \<Rightarrow> bool"
    and row :: "'s \<Rightarrow> int \<Rightarrow> IdempotencyRecord option"
    and other :: "'s \<Rightarrow> 's \<Rightarrow> bool"
  assumes row_slot: "wf s \<Longrightarrow> row s i = Some x \<Longrightarrow> row s j = Some y \<Longrightarrow> same_slot x y \<Longrightarrow> i = j"
    and create: "wf s \<Longrightarrow> CreateProcessing repo x s = (r, s') \<Longrightarrow> wf s' \<and>
      (row s' = row s \<and> (\<forall>y. r \<noteq> Inr (True, y))
       \<or> (\<exists>i y. row s i = None \<and> row s' = (row s)(i \<mapsto> y) \<and> same_slot x y
            \<and> idr_Status y = idr_Status x \<and> idr_LockedUntil y = idr_LockedUntil x
            \<and> idr_ExpiresAt y = idr_ExpiresAt x \<and> (\<forall>z. r = Inr (True, z) \<longrightarrow> idr_ID z = i)))"
    and get: "wf s \<Longrightarrow> GetByScopeAndKeyHash repo scope key s = (rg, s') \<Longrightarrow> wf s' \<and> row s' = row s \<and>
      (\<forall>x. rg = Inr (Some x) \<longrightarrow> row s (idr_ID x) = Some x \<and> has_key scope key x)"
    and reclaim: "wf s \<Longrightarrow> TryReclaim repo i from now l e s = (rr, s') \<Longrightarrow> wf s' \<and>
      (row s' = row s \<and> rr \<noteq> Inr True
       \<or> (\<exists>x y. row s i = Some x \<and> idr_Status x = from \<and> \<not> locked_at x now \<and> row s' = (row s)(i \<mapsto> y)
            \<and> same_slot x y \<and> idr_Status y = IdempotencyStatusProcessing \<and> idr_LockedUntil y = Some l
            \<and> idr_ExpiresAt y = e))"
    and succeed: "wf s \<Longrightarrow> row s i = Some x \<Longrightarrow> MarkSucceeded repo i st body e s = (rs, s') \<Longrightarrow> wf s' \<and>
      (row s' = row s \<and> rs \<noteq> Inr ()
       \<or> (\<exists>y. row s' = (row s)(i \<mapsto> y) \<and> same_slot x y \<and> idr_Status y = IdempotencyStatusSucceeded
            \<and> idr_ExpiresAt y = e))"
    and fail: "wf s \<Longrightarrow> row s i = Some x \<Longrightarrow> MarkFailedRetryable repo i reason l e s = (rf, s') \<Longrightarrow> wf s' \<and>
      (row s' = row s
       \<or> (\<exists>y. row s' = (row s)(i \<mapsto> y) \<and> same_slot x y \<and> idr_Status y = IdempotencyStatusFailedRetryable
            \<and> idr_ExpiresAt y = e))"
    and other: "wf s \<Longrightarrow> other s s' \<Longrightarrow> wf s' \<and> row s' = row s"
begin

definition record_known :: "'s \<Rightarrow> claim_env \<Rightarrow> int \<Rightarrow> bool" where
  "record_known s e i \<longleftrightarrow> (\<exists>y. row s i = Some y \<and> has_key (env_scope e) (env_keyHash e) y)"

definition phase_ok :: "'s \<Rightarrow> claim_env \<Rightarrow> 'd phase \<Rightarrow> bool" where
  "phase_ok s e p = (case p of ReclaimingExpired x \<Rightarrow> record_known s e (idr_ID x)
     | ReclaimingFailed x \<Rightarrow> record_known s e (idr_ID x) | _ \<Rightarrow> True)"

definition rows_kept :: "'s \<Rightarrow> 's \<Rightarrow> bool" where
  "rows_kept s s' \<longleftrightarrow> (\<forall>i x. row s i = Some x \<longrightarrow> (\<exists>y. row s' i = Some y \<and> same_slot x y))"

text \<open>A claim puts a locked row where there was none, or one whose lock is over.\<close>

definition takes :: "claim_env \<Rightarrow> bool \<Rightarrow> 's \<Rightarrow> 's \<Rightarrow> int \<Rightarrow> bool" where
  "takes e expired s s' i \<longleftrightarrow> (\<exists>y. row s' = (row s)(i \<mapsto> y) \<and> has_key (env_scope e) (env_keyHash e) y
     \<and> idr_Status y = IdempotencyStatusProcessing \<and> idr_LockedUntil y = Some (env_lockedUntil e)
     \<and> idr_ExpiresAt y = env_expiresAt e
     \<and> (row s i = None \<or> (\<exists>x. row s i = Some x \<and> same_slot x y \<and> \<not> locked_at x (env_now e)
          \<and> (idr_Status x = IdempotencyStatusFailedRetryable \<or> expired))))"

definition claim_effect :: "claim_env \<Rightarrow> 'd phase \<Rightarrow> 's \<Rightarrow> 'd phase \<Rightarrow> 's \<Rightarrow> bool" where
  "claim_effect e p s p' s' \<longleftrightarrow> wf s' \<and> phase_ok s' e p' \<and> (succeeded p' \<longrightarrow> p' = p)
     \<and> (row s' = row s \<and> (executing p' \<longrightarrow> p' = p)
        \<or> (\<exists>i. takes e (\<exists>x. p = ReclaimingExpired x) s s' i \<and> (\<forall>m. p' = Claimed m \<longrightarrow> m = i)))
     \<and> (\<forall>x. p' = ReclaimingExpired x \<longrightarrow> row s' (idr_ID x) = Some x \<and> idr_ExpiresAt x \<le> env_now e)"

lemma takes_kept: "takes e b s s' i \<Longrightarrow> rows_kept s s'"
  by (auto simp: takes_def rows_kept_def same_slot_def)

lemma known_kept: "rows_kept s s' \<Longrightarrow> record_known s e i \<Longrightarrow> record_known s' e i"
  by (fastforce simp: rows_kept_def record_known_def same_slot_def has_key_def)

lemma quiet_phase [simp]: "phase_ok s e (store_unavailable :: 'd phase)" "phase_ok s e (claimed i)"
  "\<not> executing (store_unavailable :: 'd phase)" "\<not> succeeded (store_unavailable :: 'd phase)"
  "\<not> succeeded (claimed i)" "store_unavailable \<noteq> Claimed j" "Claimed j \<noteq> store_unavailable" "store_unavailable \<noteq> ReclaimingExpired x"
  "claimed i \<noteq> ReclaimingExpired x" "ReclaimingExpired x \<noteq> store_unavailable" "ReclaimingExpired x \<noteq> claimed i"
  by (auto simp: store_unavailable_def claimed_def phase_ok_def executing_def succeeded_def)

lemma plain_phase [simp]:
  "phase_ok s e Creating" "phase_ok s e Getting" "phase_ok s e GettingLatest" "phase_ok s e (Claimed i)"
  "phase_ok s e (Done out)" "\<not> succeeded Creating" "\<not> succeeded Getting" "\<not> succeeded GettingLatest"
  "\<not> succeeded (Claimed i)" "\<not> succeeded (Done (Inl er))"
  "\<not> succeeded (ReclaimingExpired x)" "\<not> succeeded (ReclaimingFailed x)"
  by (simp_all add: phase_ok_def succeeded_def)

lemma claimed_index: "claimed i = Claimed j \<Longrightarrow> j = i"
  by (simp add: claimed_def store_unavailable_def split: if_splits)

lemma status_switch_phase:
  assumes "row s (idr_ID x) = Some x" "has_key (env_scope e) (env_keyHash e) x"
  shows "phase_ok s e (status_switch e x :: 'd phase)" "\<not> executing (status_switch e x :: 'd phase)"
    "\<not> succeeded (status_switch e x :: 'd phase)" "status_switch e x \<noteq> (ReclaimingExpired z :: 'd phase)"
proof -
  have stored: "decodeStoredResponse b \<noteq> Some (Fresh d)" for b and d :: 'd
    by (auto simp: decodeStoredResponse_def split: option.splits)
  have "record_known s e (idr_ID x)"
    using assms by (auto simp: record_known_def)
  then show "phase_ok s e (status_switch e x :: 'd phase)"
    by (auto simp: status_switch_def phase_ok_def store_unavailable_def split: option.splits if_splits)
  show "\<not> executing (status_switch e x :: 'd phase)" "status_switch e x \<noteq> (ReclaimingExpired z :: 'd phase)"
    by (auto simp: status_switch_def executing_def store_unavailable_def split: option.splits if_splits)
  show "\<not> succeeded (status_switch e x :: 'd phase)"
    using stored by (auto simp: status_switch_def succeeded_def store_unavailable_def split: option.splits if_splits)
qed

text \<open>The effect of one repository call, phase by phase.\<close>

lemma creating_effect:
  assumes "wf s" "claim_step repo e Creating s = (p', s')"
  shows "claim_effect e Creating s p' s'"
proof -
  obtain r where r: "CreateProcessing repo (new_record e) s = (r, s')"
    and p': "p' = (case r of Inl _ \<Rightarrow> store_unavailable
      | Inr (owner, y) \<Rightarrow> if owner then claimed (idr_ID y) else Getting)"
    using assms(2) by (auto simp: claim_step_def split: prod.splits sum.splits)
  have quiet: "phase_ok s' e p'" "\<not> succeeded p'" "\<forall>x. p' \<noteq> ReclaimingExpired x"
    unfolding p' by (auto split: sum.splits)
  from create [OF assms(1) r] have wf: "wf s'"
    and cases: "row s' = row s \<and> (\<forall>y. r \<noteq> Inr (True, y))
      \<or> (\<exists>i. takes e False s s' i \<and> (\<forall>z. r = Inr (True, z) \<longrightarrow> idr_ID z = i))"
    by (auto simp: takes_def new_record_def same_slot_def has_key_def)
  from cases show ?thesis
  proof
    assume "row s' = row s \<and> (\<forall>y. r \<noteq> Inr (True, y))"
    moreover from this have "\<not> executing p'"
      unfolding p' by (auto simp: executing_def split: sum.splits)
    ultimately show ?thesis
      using quiet wf by (simp add: claim_effect_def)
  next
    assume "\<exists>i. takes e False s s' i \<and> (\<forall>z. r = Inr (True, z) \<longrightarrow> idr_ID z = i)"
    moreover have "\<exists>z. r = Inr (True, z) \<and> m = idr_ID z" if "p' = Claimed m" for m
      using that claimed_index unfolding p' by (auto split: sum.splits if_splits)
    ultimately show ?thesis
      using quiet wf unfolding claim_effect_def by fastforce
  qed
qed

lemma reading_effect:
  assumes "wf s" "claim_step repo e p s = (p', s')" "p = Getting \<or> p = GettingLatest"
  shows "claim_effect e p s p' s'"
proof -
  obtain r where r: "GetByScopeAndKeyHash repo (env_scope e) (env_keyHash e) s = (r, s')"
    and p': "p' = store_unavailable \<or> (\<exists>x. r = Inr (Some x) \<and> (p' = Done (Inl (App ErrIdempotencyKeyConflict))
       \<or> p' = ReclaimingExpired x \<and> \<not> env_now e < idr_ExpiresAt x \<or> p' = status_switch e x))"
    using assms(2,3) by (auto simp: claim_step_def split: prod.splits sum.splits option.splits if_splits)
  from get [OF assms(1) r] have wf: "wf s'" and same: "row s' = row s"
    and found: "\<And>x. r = Inr (Some x) \<Longrightarrow> row s' (idr_ID x) = Some x \<and> has_key (env_scope e) (env_keyHash e) x"
    by auto
  from p' show ?thesis
  proof (elim disjE exE conjE)
    assume "p' = store_unavailable"
    then show ?thesis using wf same by (simp add: claim_effect_def)
  next
    fix x assume "p' = Done (Inl (App ErrIdempotencyKeyConflict))"
    then show ?thesis using wf same by (simp add: claim_effect_def phase_ok_def succeeded_def executing_def)
  next
    fix x assume "r = Inr (Some x)" "p' = ReclaimingExpired x" "\<not> env_now e < idr_ExpiresAt x"
    then show ?thesis
      using wf same found [of x]
      by (auto simp: claim_effect_def phase_ok_def succeeded_def executing_def record_known_def)
  next
    fix x assume "r = Inr (Some x)" "p' = status_switch e x"
    then show ?thesis
      using wf same found [of x] status_switch_phase [of s' x e] by (auto simp: claim_effect_def)
  qed
qed

lemma reclaiming_effect:
  assumes "wf s" "phase_ok s e p" "claim_step repo e p s = (p', s')"
    "p = ReclaimingExpired x \<or> p = ReclaimingFailed x"
  shows "claim_effect e p s p' s'"
proof -
  let ?from = "case p of ReclaimingFailed _ \<Rightarrow> IdempotencyStatusFailedRetryable | _ \<Rightarrow> idr_Status x"
  obtain r where r: "TryReclaim repo (idr_ID x) ?from (env_now e) (env_lockedUntil e) (env_expiresAt e) s = (r, s')"
    and p': "p' = (if r = Inr True then claimed (idr_ID x) else p')"
      "p' = store_unavailable \<or> p' = GettingLatest \<or> p' = claimed (idr_ID x)
       \<or> p' = Done (Inl (conflictWithRetryAfter ErrIdempotencyInProgress (idr_LockedUntil x) (env_now e)))"
    and taken: "r \<noteq> Inr True \<Longrightarrow> \<not> executing p'"
    using assms(3,4)
    by (auto simp: claim_step_def executing_def store_unavailable_def split: prod.splits sum.splits if_splits)
  have quiet: "phase_ok s' e p'" "\<not> succeeded p'" "\<forall>z. p' \<noteq> ReclaimingExpired z"
    using p'(2) by auto
  from assms(2,4) have record_known: "record_known s e (idr_ID x)"
    by (auto simp: phase_ok_def)
  from reclaim [OF assms(1) r] show ?thesis
  proof (elim conjE disjE exE)
    assume "wf s'" "row s' = row s" "r \<noteq> Inr True"
    then show ?thesis using quiet taken by (simp add: claim_effect_def)
  next
    fix u y assume wf: "wf s'" and y: "row s (idr_ID x) = Some u" "idr_Status u = ?from"
      "\<not> locked_at u (env_now e)" "row s' = (row s)(idr_ID x \<mapsto> y)" "same_slot u y"
      "idr_Status y = IdempotencyStatusProcessing" "idr_LockedUntil y = Some (env_lockedUntil e)"
      "idr_ExpiresAt y = env_expiresAt e"
    have "has_key (env_scope e) (env_keyHash e) y"
      using record_known y by (auto simp: record_known_def has_key_def same_slot_def)
    then have "takes e (\<exists>x. p = ReclaimingExpired x) s s' (idr_ID x)"
      using y assms(4) by (auto simp: takes_def)
    moreover have "m = idr_ID x" if "p' = Claimed m" for m
      using that p'(2) by (auto dest: claimed_index claimed_index [OF sym])
    ultimately show ?thesis
      using quiet wf by (auto simp: claim_effect_def)
  qed
qed

lemma claim_step_effect:
  assumes "wf s" "phase_ok s e p" "claim_step repo e p s = (p', s')"
  shows "claim_effect e p s p' s'"
proof (cases p)
  case Creating
  then show ?thesis using creating_effect [OF assms(1)] assms(3) by simp
next
  case Getting
  then show ?thesis using reading_effect [OF assms(1,3)] by simp
next
  case GettingLatest
  then show ?thesis using reading_effect [OF assms(1,3)] by simp
next
  case (ReclaimingExpired x)
  then show ?thesis using reclaiming_effect [OF assms] by simp
next
  case (ReclaimingFailed x)
  then show ?thesis using reclaiming_effect [OF assms] by simp
qed (use assms in \<open>auto simp: claim_step_def claim_effect_def\<close>)

lemma finish_effect:
  assumes "wf s" "row s i = Some x" "finish RedactText repo e later i got s = (out, s')"
  shows "wf s' \<and> (row s' = row s \<and> \<not> succeeded (Done out)
    \<or> (\<exists>y. row s' = (row s)(i \<mapsto> y) \<and> same_slot x y \<and> idr_ExpiresAt y = env_expiresAt e
         \<and> (succeeded (Done out) \<longrightarrow> idr_Status y = IdempotencyStatusSucceeded)))"
proof (cases got)
  case (Inl err)
  then obtain r l reason where "MarkFailedRetryable repo i reason l (env_expiresAt e) s = (r, s')" "out = Inl err"
    using assms(3) by (auto simp: finish_def Let_def prod_eq_iff)
  then show ?thesis
    using fail [OF assms(1,2)] by fastforce
next
  case (Inr a)
  obtain data' json where a: "a = (data', json)" by (cases a)
  show ?thesis
  proof (cases "marshalStoredResponse RedactText (env_cfg e) json")
    case None
    then show ?thesis using assms Inr a by (auto simp: finish_def)
  next
    case (Some body)
    obtain r where r: "MarkSucceeded repo i 200 body (env_expiresAt e) s = (r, s')"
      and out: "out = (case r of Inl _ \<Rightarrow> Inl (App ErrIdempotencyStoreUnavail)
        | Inr _ \<Rightarrow> Inr \<lparr>res_Data = Fresh data', res_Replayed = False\<rparr>)"
      using assms(3) Inr a Some by (auto simp: finish_def split: prod.splits sum.splits)
    have "\<not> succeeded (Done out)" if "r \<noteq> Inr ()"
      using that out by (cases r) auto
    then show ?thesis
      using succeed [OF assms(1,2) r] by blast
  qed
qed

text \<open>One lock window: whoever executes holds a row of its key whose lock stops everyone else.\<close>

definition holds :: "(nat \<Rightarrow> claim_env) \<Rightarrow> 's \<Rightarrow> nat \<Rightarrow> int \<Rightarrow> bool" where
  "holds env s k i \<longleftrightarrow> (\<exists>x. row s i = Some x \<and> has_key (env_scope (env k)) (env_keyHash (env k)) x
     \<and> idr_Status x = IdempotencyStatusProcessing \<and> (\<forall>j. locked_at x (env_now (env j))))"

definition lock_inv :: "(nat \<Rightarrow> claim_env) \<Rightarrow> ('d, 's) race \<Rightarrow> bool" where
  "lock_inv env w \<longleftrightarrow> wf (store w) \<and> (\<forall>k. phase_ok (store w) (env k) (callers w k))
     \<and> (\<forall>k i. callers w k = Claimed i \<longrightarrow> holds env (store w) k i)
     \<and> (\<forall>j k i. callers w j = Claimed i \<longrightarrow> callers w k = Claimed i \<longrightarrow> j = k)"

lemma phase_kept: "rows_kept s s' \<Longrightarrow> phase_ok s e p \<Longrightarrow> phase_ok s' e p"
  by (auto simp: phase_ok_def known_kept split: phase.splits)

lemma row_kept: "row s' = row s \<Longrightarrow> rows_kept s s'"
  by (simp add: rows_kept_def same_slot_def)

lemma holds_other: "holds env s k i \<Longrightarrow> row s' = (row s)(m \<mapsto> y) \<Longrightarrow> m \<noteq> i \<Longrightarrow> holds env s' k i"
  by (simp add: holds_def)

lemma holds_same: "holds env s k i \<Longrightarrow> row s' = row s \<Longrightarrow> holds env s' k i"
  by (simp add: holds_def)

lemma takes_not_held:
  assumes "takes (env j) b s s' i" "holds env s k m"
  shows "m \<noteq> i"
  using assms by (auto simp: takes_def holds_def)

lemma takes_holds: "lock_window env \<Longrightarrow> takes (env j) b s s' i \<Longrightarrow> holds env s' j i"
  by (auto simp: takes_def holds_def locked_at_def lock_window_def)

lemma lock_invD:
  assumes "lock_inv env w"
  shows "wf (store w)" "phase_ok (store w) (env k) (callers w k)"
    "callers w k = Claimed i \<Longrightarrow> holds env (store w) k i"
    "callers w j = Claimed i \<Longrightarrow> callers w k = Claimed i \<Longrightarrow> j = k"
  using assms by (auto simp: lock_inv_def)

text \<open>When one caller moves on and the rows change, the invariant is about that caller and the others.\<close>

lemma lock_inv_move:
  assumes inv: "lock_inv env w" and "wf s" "phase_ok s (env k) p" "rows_kept (store w) s"
    and mine: "\<And>i. p = Claimed i \<Longrightarrow> holds env s k i"
    and alone: "\<And>i j. p = Claimed i \<Longrightarrow> j \<noteq> k \<Longrightarrow> callers w j \<noteq> Claimed i"
    and others: "\<And>i j. j \<noteq> k \<Longrightarrow> callers w j = Claimed i \<Longrightarrow> holds env s j i"
  shows "lock_inv env (w\<lparr>callers := (callers w)(k := p), store := s\<rparr>)"
proof -
  let ?c = "(callers w)(k := p)"
  have "phase_ok s (env j) (?c j)" for j
    using assms(3) phase_kept [OF assms(4) lock_invD(2) [OF inv]] by simp
  moreover have "holds env s j i" if "?c j = Claimed i" for j i
    using that mine others by (cases "j = k") auto
  moreover have "j = l" if "?c j = Claimed i" "?c l = Claimed i" for j l i
  proof (cases "j = k \<or> l = k")
    case True
    then show ?thesis using that alone [of i j] alone [of i l] by (auto split: if_splits)
  next
    case False
    then show ?thesis using that lock_invD(4) [OF inv] by simp
  qed
  moreover have "callers (w\<lparr>callers := ?c, store := s\<rparr>) = ?c" "store (w\<lparr>callers := ?c, store := s\<rparr>) = s"
    by simp_all
  ultimately show ?thesis
    using assms(2) unfolding lock_inv_def by metis
qed

lemma lock_inv_start: "wf s \<Longrightarrow> lock_inv env (race_start s)"
  by (simp add: lock_inv_def race_start_def)

lemma lock_inv_call:
  assumes win: "lock_window env" and inv: "lock_inv env w"
    and step: "claim_step repo (env k) (callers w k) (store w) = (p, s)"
  shows "lock_inv env (w\<lparr>callers := (callers w)(k := p), store := s\<rparr>)"
proof -
  have eff: "claim_effect (env k) (callers w k) (store w) p s"
    by (rule claim_step_effect [OF lock_invD(1,2) [OF inv] step])
  then have ok: "wf s" "phase_ok s (env k) p"
    by (simp_all add: claim_effect_def)
  consider (same) "row s = row (store w)" "executing p \<longrightarrow> p = callers w k"
    | (take) b i where "takes (env k) b (store w) s i" "\<forall>m. p = Claimed m \<longrightarrow> m = i"
    using eff unfolding claim_effect_def by blast
  then show ?thesis
  proof cases
    case same
    show ?thesis
    proof (rule lock_inv_move [OF inv ok row_kept [OF same(1)]])
      fix i assume p: "p = Claimed i"
      with same(2) have c: "callers w k = Claimed i" by (simp add: executing_def)
      show "holds env s k i" by (rule holds_same [OF lock_invD(3) [OF inv c] same(1)])
      show "callers w j \<noteq> Claimed i" if "j \<noteq> k" for j
        using that lock_invD(4) [OF inv c] by blast
    next
      fix i j assume "callers w j = Claimed i"
      from holds_same [OF lock_invD(3) [OF inv this] same(1)] show "holds env s j i" .
    qed
  next
    case take
    have away: "m \<noteq> i" if "callers w j = Claimed m" for j m
      by (rule takes_not_held [OF take(1) lock_invD(3) [OF inv that]])
    from take(1) obtain y where y: "row s = (row (store w))(i \<mapsto> y)" by (auto simp: takes_def)
    show ?thesis
    proof (rule lock_inv_move [OF inv ok takes_kept [OF take(1)]])
      fix m assume "p = Claimed m"
      with take(2) have m: "m = i" by simp
      show "holds env s k m" unfolding m by (rule takes_holds [OF win take(1)])
      show "callers w j \<noteq> Claimed m" for j
        using away m by blast
    next
      fix m j assume c: "callers w j = Claimed m"
      from holds_other [OF lock_invD(3) [OF inv c] y] away [OF c] show "holds env s j m" by blast
    qed
  qed
qed

lemma lock_inv_return:
  assumes inv: "lock_inv env w" and c: "callers w k = Claimed i"
    and step: "finish RedactText repo (env k) later i got (store w) = (out, s)"
  shows "lock_inv env (w\<lparr>callers := (callers w)(k := Done out), store := s\<rparr>)"
proof -
  obtain x where x: "row (store w) i = Some x"
    using lock_invD(3) [OF inv c] by (auto simp: holds_def)
  from finish_effect [OF lock_invD(1) [OF inv] x step] have wf: "wf s"
    and "row s = row (store w) \<or> (\<exists>y. row s = (row (store w))(i \<mapsto> y) \<and> same_slot x y)"
    by blast+
  then consider (same) "row s = row (store w)"
    | (mark) y where "row s = (row (store w))(i \<mapsto> y)" "same_slot x y" by blast
  then show ?thesis
  proof cases
    case same
    show ?thesis
      by (rule lock_inv_move [OF inv wf _ row_kept [OF same]])
        (simp_all add: holds_same [OF lock_invD(3) [OF inv] same])
  next
    case mark
    have kept: "rows_kept (store w) s"
      using mark x by (auto simp: rows_kept_def same_slot_def)
    show ?thesis
    proof (rule lock_inv_move [OF inv wf _ kept])
      fix m j assume "j \<noteq> k" "callers w j = Claimed m"
      moreover from this have "i \<noteq> m" using lock_invD(4) [OF inv c] by blast
      ultimately show "holds env s j m"
        using holds_other [OF lock_invD(3) [OF inv] mark(1)] by simp
    qed simp_all
  qed
qed

lemma lock_inv_elsewhere:
  assumes inv: "lock_inv env w" and "other (store w) s"
  shows "lock_inv env (w\<lparr>store := s\<rparr>)"
proof -
  have "wf s" "row s = row (store w)"
    using other [OF lock_invD(1) [OF inv] assms(2)] by auto
  then have "phase_ok s (env k) (callers w k)" "callers w k = Claimed i \<Longrightarrow> holds env s k i" for k i
    using phase_kept [OF row_kept lock_invD(2) [OF inv]] holds_same [OF lock_invD(3) [OF inv]] by auto
  then show ?thesis
    using \<open>wf s\<close> inv by (simp add: lock_inv_def)
qed

lemma lock_inv_run:
  assumes "(race_step RedactText repo other env)\<^sup>*\<^sup>* (race_start s) w" "wf s" "lock_window env"
  shows "lock_inv env w"
  using assms(1)
proof (induction rule: rtranclp_induct)
  case base
  show ?case by (rule lock_inv_start [OF assms(2)])
next
  case (step w w')
  from step(2) show ?case
    by (elim race_stepE)
      (simp_all only: lock_inv_call [OF assms(3) step.IH] lock_inv_return [OF step.IH] lock_inv_elsewhere [OF step.IH])
qed

lemma one_holder:
  assumes "lock_inv env w" "callers w j = Claimed i" "callers w k = Claimed m" "same_key (env j) (env k)"
  shows "j = k"
proof -
  obtain x y where "row (store w) i = Some x" "row (store w) m = Some y" "same_slot x y"
    using lock_invD(3) [OF assms(1,2)] lock_invD(3) [OF assms(1,3)] assms(4)
    by (auto simp: holds_def has_key_def same_slot_def same_key_def)
  then have "i = m"
    using row_slot lock_invD(1) [OF assms(1)] by blast
  then show ?thesis
    using lock_invD(4) [OF assms(1)] assms(2,3) by blast
qed

text \<open>Where nothing expires either, a success is final.\<close>

definition once_inv :: "(nat \<Rightarrow> claim_env) \<Rightarrow> ('d, 's) race \<Rightarrow> bool" where
  "once_inv env w \<longleftrightarrow> lock_inv env w
     \<and> (\<forall>i x. row (store w) i = Some x \<longrightarrow> fresh_row env x)
     \<and> (\<forall>k x. callers w k \<noteq> ReclaimingExpired x)
     \<and> (\<forall>k. succeeded (callers w k) \<longrightarrow> (\<exists>i x. row (store w) i = Some x
          \<and> has_key (env_scope (env k)) (env_keyHash (env k)) x \<and> idr_Status x = IdempotencyStatusSucceeded))
     \<and> (\<forall>j k. succeeded (callers w j) \<longrightarrow> succeeded (callers w k) \<longrightarrow> same_key (env j) (env k) \<longrightarrow> j = k)"

lemma once_invD:
  assumes "once_inv env w"
  shows "lock_inv env w" "row (store w) i = Some x \<Longrightarrow> fresh_row env x" "callers w k \<noteq> ReclaimingExpired x"
    "succeeded (callers w k) \<Longrightarrow> \<exists>i x. row (store w) i = Some x
       \<and> has_key (env_scope (env k)) (env_keyHash (env k)) x \<and> idr_Status x = IdempotencyStatusSucceeded"
    "succeeded (callers w j) \<Longrightarrow> succeeded (callers w k) \<Longrightarrow> same_key (env j) (env k) \<Longrightarrow> j = k"
  using assms unfolding once_inv_def by blast+

lemma once_inv_move:
  assumes inv: "once_inv env w" and lock: "lock_inv env (w\<lparr>callers := (callers w)(k := p), store := s\<rparr>)"
    and fresh: "\<And>i x. row s i = Some x \<Longrightarrow> fresh_row env x" and no_exp: "\<And>x. p \<noteq> ReclaimingExpired x"
    and stays: "\<And>i x. row (store w) i = Some x \<Longrightarrow> idr_Status x = IdempotencyStatusSucceeded \<Longrightarrow> row s i = Some x"
    and mine: "succeeded p \<Longrightarrow> \<not> succeeded (callers w k) \<Longrightarrow> (\<exists>i x. row s i = Some x
       \<and> has_key (env_scope (env k)) (env_keyHash (env k)) x \<and> idr_Status x = IdempotencyStatusSucceeded)
       \<and> (\<forall>j. succeeded (callers w j) \<longrightarrow> \<not> same_key (env j) (env k))"
  shows "once_inv env (w\<lparr>callers := (callers w)(k := p), store := s\<rparr>)"
proof -
  let ?c = "(callers w)(k := p)"
  have sym: "same_key e f \<Longrightarrow> same_key f e" for e f by (simp add: same_key_def)
  have row: "\<exists>i x. row s i = Some x \<and> has_key (env_scope (env j)) (env_keyHash (env j)) x
      \<and> idr_Status x = IdempotencyStatusSucceeded" if "succeeded (?c j)" for j
  proof (cases "succeeded (callers w j)")
    case True
    then show ?thesis using once_invD(4) [OF inv] stays by blast
  next
    case False
    then have "j = k" using that by (auto split: if_splits)
    then show ?thesis using that False mine by auto
  qed
  have one: "i = j" if "succeeded (?c i)" "succeeded (?c j)" "same_key (env i) (env j)" for i j
  proof (cases "succeeded (callers w i) \<and> succeeded (callers w j)")
    case True
    then show ?thesis using once_invD(5) [OF inv] that(3) by blast
  next
    case False
    then show ?thesis using that mine sym by (auto split: if_splits)
  qed
  have upd: "callers (w\<lparr>callers := ?c, store := s\<rparr>) = ?c" "store (w\<lparr>callers := ?c, store := s\<rparr>) = s"
    by simp_all
  have exp: "?c j \<noteq> ReclaimingExpired x" for j x
    using no_exp once_invD(3) [OF inv] by simp
  show ?thesis
    unfolding once_inv_def upd using lock fresh row one exp by blast
qed

lemma once_inv_call:
  assumes win: "lock_window env" "ttl_window env" and inv: "once_inv env w"
    and step: "claim_step repo (env k) (callers w k) (store w) = (p, s)"
  shows "once_inv env (w\<lparr>callers := (callers w)(k := p), store := s\<rparr>)"
proof -
  note lock = once_invD(1) [OF inv]
  have eff: "claim_effect (env k) (callers w k) (store w) p s"
    by (rule claim_step_effect [OF lock_invD(1,2) [OF lock] step])
  have cases: "row s = row (store w) \<or> (\<exists>i. takes (env k) False (store w) s i)"
    using eff once_invD(3) [OF inv, of k] unfolding claim_effect_def by auto
  have fresh: "fresh_row env x" if "row s i = Some x" for i x
    using cases that once_invD(2) [OF inv] win(2)
    by (auto simp: takes_def fresh_row_def ttl_window_def split: if_splits)
  show ?thesis
  proof (rule once_inv_move [OF inv lock_inv_call [OF win(1) lock step] fresh])
    show "p \<noteq> ReclaimingExpired x" for x
    proof
      assume "p = ReclaimingExpired x"
      then have "row s (idr_ID x) = Some x" "idr_ExpiresAt x \<le> env_now (env k)"
        using eff unfolding claim_effect_def by blast+
      moreover from this have "env_now (env k) < idr_ExpiresAt x"
        using fresh by (simp add: fresh_row_def)
      ultimately show False by simp
    qed
    show "row s i = Some x"
      if "row (store w) i = Some x" "idr_Status x = IdempotencyStatusSucceeded" for i x
      using cases that by (auto simp: takes_def status_defs)
    show "(\<exists>i x. row s i = Some x \<and> has_key (env_scope (env k)) (env_keyHash (env k)) x
        \<and> idr_Status x = IdempotencyStatusSucceeded)
      \<and> (\<forall>j. succeeded (callers w j) \<longrightarrow> \<not> same_key (env j) (env k))"
      if "succeeded p" "\<not> succeeded (callers w k)"
      using eff that by (auto simp: claim_effect_def)
  qed simp
qed

lemma once_inv_return:
  assumes win: "ttl_window env" and inv: "once_inv env w" and c: "callers w k = Claimed i"
    and step: "finish RedactText repo (env k) later i got (store w) = (out, s)"
  shows "once_inv env (w\<lparr>callers := (callers w)(k := Done out), store := s\<rparr>)"
proof -
  note lock = once_invD(1) [OF inv]
  obtain x where x: "row (store w) i = Some x" "has_key (env_scope (env k)) (env_keyHash (env k)) x"
    "idr_Status x = IdempotencyStatusProcessing"
    using lock_invD(3) [OF lock c] by (auto simp: holds_def)
  have eff: "row s = row (store w) \<and> \<not> succeeded (Done out)
    \<or> (\<exists>y. row s = (row (store w))(i \<mapsto> y) \<and> same_slot x y \<and> idr_ExpiresAt y = env_expiresAt (env k)
         \<and> (succeeded (Done out) \<longrightarrow> idr_Status y = IdempotencyStatusSucceeded))"
    using finish_effect [OF lock_invD(1) [OF lock] x(1) step] by blast
  have unique: "\<not> same_key (env j) (env k)" if suc: "succeeded (callers w j)" for j
  proof
    assume "same_key (env j) (env k)"
    then obtain m z where z: "row (store w) m = Some z" "same_slot x z" "idr_Status z = IdempotencyStatusSucceeded"
      using once_invD(4) [OF inv suc] x(2) by (auto simp: has_key_def same_slot_def same_key_def)
    then have "i = m" using row_slot [OF lock_invD(1) [OF lock] x(1)] by blast
    then show False using x z by (simp add: status_defs)
  qed
  show ?thesis
  proof (rule once_inv_move [OF inv lock_inv_return [OF lock c step]])
    show "fresh_row env z" if "row s m = Some z" for m z
      using eff that once_invD(2) [OF inv] win
      by (auto simp: fresh_row_def ttl_window_def split: if_splits)
    show "row s m = Some z" if "row (store w) m = Some z" "idr_Status z = IdempotencyStatusSucceeded" for m z
      using eff that x by (auto simp: status_defs)
    show "(\<exists>i x. row s i = Some x \<and> has_key (env_scope (env k)) (env_keyHash (env k)) x
        \<and> idr_Status x = IdempotencyStatusSucceeded)
      \<and> (\<forall>j. succeeded (callers w j) \<longrightarrow> \<not> same_key (env j) (env k))"
      if "succeeded (Done out)"
      using eff that x unique by (auto simp: has_key_def same_slot_def)
  qed simp_all
qed

lemma once_inv_run:
  assumes "(race_step RedactText repo other env)\<^sup>*\<^sup>* (race_start s) w" "wf s" "lock_window env" "ttl_window env"
    "\<And>i x. row s i = Some x \<Longrightarrow> fresh_row env x"
  shows "once_inv env w"
  using assms(1)
proof (induction rule: rtranclp_induct)
  case base
  show ?case
    using lock_inv_start [OF assms(2)] assms(5) by (auto simp: once_inv_def race_start_def)
next
  case (step w w')
  have elsewhere: "once_inv env (w\<lparr>store := s'\<rparr>)" if "other (store w) s'" for s'
    using lock_inv_elsewhere [OF once_invD(1) [OF step.IH] that] step.IH
      other [OF lock_invD(1) [OF once_invD(1) [OF step.IH]] that]
    by (simp add: once_inv_def)
  from step(2) show ?case
    by (elim race_stepE)
      (simp_all only: once_inv_call [OF assms(3,4) step.IH] once_inv_return [OF assms(4) step.IH] elsewhere)
qed

lemma one_executes_or_succeeded:
  assumes inv: "once_inv env w" and "executing (callers w j) \<or> succeeded (callers w j)"
    "executing (callers w k) \<or> succeeded (callers w k)" "same_key (env j) (env k)"
  shows "j = k"
proof -
  have mixed: "\<not> same_key (env b) (env a)" if ex: "executing (callers w a)" and suc: "succeeded (callers w b)" for a b
  proof
    assume same: "same_key (env b) (env a)"
    from ex obtain i where "callers w a = Claimed i" by (auto simp: executing_def)
    from lock_invD(3) [OF once_invD(1) [OF inv] this] obtain x where x: "row (store w) i = Some x"
      "has_key (env_scope (env a)) (env_keyHash (env a)) x" "idr_Status x = IdempotencyStatusProcessing"
      by (auto simp: holds_def)
    obtain m z where z: "row (store w) m = Some z" "same_slot x z" "idr_Status z = IdempotencyStatusSucceeded"
      using once_invD(4) [OF inv suc] x(2) same by (auto simp: has_key_def same_slot_def same_key_def)
    then have "i = m" using row_slot [OF lock_invD(1) [OF once_invD(1) [OF inv]] x(1)] by blast
    then show False using x z by (simp add: status_defs)
  qed
  have "same_key (env k) (env j)"
    using assms(4) by (simp add: same_key_def)
  then show ?thesis
    using mixed assms(2-4) once_invD(5) [OF inv] one_holder [OF once_invD(1) [OF inv]]
    unfolding executing_def by blast
qed

end

section \<open>The SQL repository satisfies the contract\<close>

definition wf_db :: "'w idem_db \<Rightarrow> bool" where
  "wf_db db \<longleftrightarrow> 0 \<le> db_seq db \<and> distinct (map idr_ID (db_rows db))
     \<and> list_all (\<lambda>i. 0 < i \<and> i \<le> db_seq db) (map idr_ID (db_rows db))
     \<and> distinct (map (\<lambda>x. (idr_Scope x, idr_IdempotencyKeyHash x)) (db_rows db))"

definition db_row :: "'w idem_db \<Rightarrow> int \<Rightarrow> IdempotencyRecord option" where
  "db_row db i = find (\<lambda>x. idr_ID x = i) (db_rows db)"

text \<open>Elsewhere the clock runs, statements begin to fail or work again, and the other tables change.\<close>

definition db_other :: "'w idem_db \<Rightarrow> 'w idem_db \<Rightarrow> bool" where
  "db_other db db' \<longleftrightarrow> db_rows db' = db_rows db \<and> db_seq db' = db_seq db"

lemma db_row_Some: "db_row db i = Some x \<Longrightarrow> x \<in> set (db_rows db) \<and> idr_ID x = i"
  by (auto simp: db_row_def find_Some_iff)

lemma db_row_in:
  assumes "wf_db db" "x \<in> set (db_rows db)"
  shows "db_row db (idr_ID x) = Some x"
proof -
  have "find (\<lambda>y. idr_ID y = idr_ID x) xs = Some x" if "distinct (map idr_ID xs)" "x \<in> set xs" for xs
    using that by (induction xs) auto
  then show ?thesis using assms by (simp add: wf_db_def db_row_def)
qed

lemma wf_db_cong: "db_rows db' = db_rows db \<Longrightarrow> db_seq db' = db_seq db \<Longrightarrow> wf_db db' = wf_db db"
  by (simp add: wf_db_def)

lemma db_row_cong: "db_rows db' = db_rows db \<Longrightarrow> db_row db' = db_row db"
  by (simp add: db_row_def fun_eq_iff)

text \<open>A statement does its work on the database with its faults used up, or not, and tells so or not.\<close>

lemma statement_cases:
  assumes "statement run db = (r, db')"
  obtains (works) d where "db_rows d = db_rows db" "db_seq d = db_seq db" "run d = (r, db')"
    | (before) "db_rows db' = db_rows db" "db_seq db' = db_seq db" "r = Inl sql_err"
    | (after) d r' where "db_rows d = db_rows db" "db_seq d = db_seq db" "run d = (r', db')" "r = Inl sql_err"
proof (cases "db_faults db")
  case Nil
  then show ?thesis using assms works [of db] by (simp add: statement_def)
next
  case (Cons f fs)
  let ?d = "db\<lparr>db_faults := fs\<rparr>"
  show ?thesis
  proof (cases f)
    case Works
    then show ?thesis using assms Cons works [of ?d] by (simp add: statement_def Let_def)
  next
    case FailsBefore
    then show ?thesis using assms Cons before by (auto simp: statement_def Let_def)
  next
    case FailsAfter
    then show ?thesis
      using assms Cons after [of ?d "fst (run ?d)"] by (auto simp: statement_def Let_def prod_eq_iff)
  qed
qed

lemma statement_law:
  assumes "statement run db = (r, db')" "wf_db db"
    and run: "\<And>d r d'. wf_db d \<Longrightarrow> db_row d = db_row db \<Longrightarrow> run d = (r, d') \<Longrightarrow>
      wf_db d' \<and> (db_row d' = db_row db \<and> stay r \<or> moved r (db_row d'))"
    and err: "stay (Inl sql_err)" "\<And>r rows. moved r rows \<Longrightarrow> moved (Inl sql_err) rows"
  shows "wf_db db' \<and> (db_row db' = db_row db \<and> stay r \<or> moved r (db_row db'))"
  using assms(1)
proof (cases rule: statement_cases)
  case (works d)
  then show ?thesis using run wf_db_cong db_row_cong assms(2) by metis
next
  case before
  then show ?thesis using err(1) wf_db_cong db_row_cong assms(2) by metis
next
  case (after d r')
  then have "wf_db db' \<and> (db_row db' = db_row db \<and> stay r' \<or> moved r' (db_row db'))"
    using run wf_db_cong db_row_cong assms(2) by metis
  then show ?thesis using err after(4) by blast
qed

lemma wf_db_map:
  assumes "map idr_ID (db_rows d') = map idr_ID (db_rows d)" "db_seq d' = db_seq d"
    "map (\<lambda>x. (idr_Scope x, idr_IdempotencyKeyHash x)) (db_rows d')
      = map (\<lambda>x. (idr_Scope x, idr_IdempotencyKeyHash x)) (db_rows d)"
  shows "wf_db d' = wf_db d"
  by (simp only: wf_db_def assms)

lemma update_one:
  assumes wf: "wf_db d" and upd: "update_rows P f d = (n, d')"
    and one: "\<And>x. P x \<Longrightarrow> idr_ID x = i"
    and keep: "\<And>x. idr_ID (f x) = idr_ID x" "\<And>x. same_slot x (f x)"
  shows "wf_db d' \<and> (n = 0 \<and> db_row d' = db_row d \<and> (\<forall>x. db_row d i = Some x \<longrightarrow> \<not> P x)
    \<or> (\<exists>x. 0 < n \<and> db_row d i = Some x \<and> P x \<and> db_row d' = (db_row d)(i \<mapsto> f x)))"
proof -
  let ?g = "\<lambda>x. if P x then f x else x"
  have n: "n = length (filter P (db_rows d))" and d': "db_rows d' = map ?g (db_rows d)" "db_seq d' = db_seq d"
    using upd by (auto simp: update_rows_def)
  have ids: "map idr_ID (db_rows d') = map idr_ID (db_rows d)"
    unfolding d' map_map by (rule map_cong) (simp_all add: keep)
  have "(\<lambda>x. (idr_Scope x, idr_IdempotencyKeyHash x)) (?g x) = (idr_Scope x, idr_IdempotencyKeyHash x)" for x
    using keep(2) [of x] by (simp add: same_slot_def)
  then have slots: "map (\<lambda>x. (idr_Scope x, idr_IdempotencyKeyHash x)) (db_rows d')
      = map (\<lambda>x. (idr_Scope x, idr_IdempotencyKeyHash x)) (db_rows d)"
    unfolding d' map_map by (intro map_cong) (simp_all only: comp_def)
  have wf': "wf_db d'"
    using wf unfolding wf_db_map [OF ids d'(2) slots] .
  have "find (\<lambda>x. idr_ID x = j) (map ?g xs) = map_option ?g (find (\<lambda>x. idr_ID x = j) xs)" for j xs
    using keep(1) by (induction xs) auto
  then have row: "db_row d' j = map_option ?g (db_row d j)" for j
    by (simp add: db_row_def d')
  show ?thesis
  proof (cases "\<exists>x. db_row d i = Some x \<and> P x")
    case True
    then obtain x where x: "db_row d i = Some x" "P x" by blast
    then have "0 < n"
      using db_row_Some [OF x(1)] by (auto simp: n filter_empty_conv length_greater_0_conv)
    moreover have "db_row d' = (db_row d)(i \<mapsto> f x)"
    proof
      fix j show "db_row d' j = ((db_row d)(i \<mapsto> f x)) j"
      proof (cases "j = i")
        case True
        then show ?thesis using x by (simp add: row)
      next
        case False
        then have "\<not> P z" if "db_row d j = Some z" for z
          using one [of z] db_row_Some [OF that] by blast
        then show ?thesis using False by (cases "db_row d j") (simp_all add: row)
      qed
    qed
    ultimately show ?thesis using wf' x by blast
  next
    case False
    then have no: "\<not> P x" if "x \<in> set (db_rows d)" for x
      using one db_row_in [OF wf that] by metis
    then have "n = 0" by (simp add: n)
    moreover have "db_row d' = db_row d"
    proof
      fix j show "db_row d' j = db_row d j"
        using no db_row_Some [of d j] by (cases "db_row d j") (auto simp: row)
    qed
    ultimately show ?thesis using wf' False by blast
  qed
qed

lemma find_none_key: "\<not> list_ex P xs \<Longrightarrow> find P xs = None"
  by (induction xs) auto

lemma db_row_append:
  assumes "\<not> (\<exists>y \<in> set (db_rows d). idr_ID y = idr_ID x)" "db_rows d' = db_rows d @ [x]"
  shows "db_row d' = (db_row d)(idr_ID x \<mapsto> x) \<and> db_row d (idr_ID x) = None"
proof -
  have "find (\<lambda>y. idr_ID y = i) (xs @ [x]) = (case find (\<lambda>y. idr_ID y = i) xs of
      Some y \<Rightarrow> Some y | None \<Rightarrow> (if idr_ID x = i then Some x else None))" for i xs
    by (induction xs) auto
  moreover have "find (\<lambda>y. idr_ID y = idr_ID x) (db_rows d) = None"
    using assms(1) by (auto simp: find_None_iff)
  ultimately show ?thesis
    using assms(2) by (auto simp: db_row_def fun_eq_iff split: option.split)
qed

definition created :: "IdempotencyRecord \<Rightarrow> (int \<Rightarrow> IdempotencyRecord option)
    \<Rightarrow> (bool \<times> IdempotencyRecord) result \<Rightarrow> (int \<Rightarrow> IdempotencyRecord option) \<Rightarrow> bool" where
  "created x old r new \<longleftrightarrow> (\<exists>i y. old i = None \<and> new = old(i \<mapsto> y) \<and> same_slot x y
     \<and> idr_Status y = idr_Status x \<and> idr_LockedUntil y = idr_LockedUntil x
     \<and> idr_ExpiresAt y = idr_ExpiresAt x \<and> (\<forall>z. r = Inr (True, z) \<longrightarrow> idr_ID z = i))"

lemma insert_wf:
  assumes wf: "wf_db d" and new: "\<not> list_ex (has_key (idr_Scope x) (idr_IdempotencyKeyHash x)) (db_rows d)"
    and i: "idr_ID x = db_seq d + 1" and d': "db_rows d' = db_rows d @ [x]" "db_seq d' = db_seq d + 1"
  shows "wf_db d' \<and> db_row d' = (db_row d)(idr_ID x \<mapsto> x) \<and> db_row d (idr_ID x) = None"
proof -
  have ids: "idr_ID y \<le> db_seq d \<and> 0 < idr_ID y" if "y \<in> set (db_rows d)" for y
    using wf that by (auto simp: wf_db_def list_all_iff)
  then have "\<not> (\<exists>y \<in> set (db_rows d). idr_ID y = idr_ID x)"
    using i by fastforce
  moreover have "wf_db d'"
    using wf new i d' ids by (fastforce simp: wf_db_def list_all_iff list_ex_iff has_key_def)
  ultimately show ?thesis
    using db_row_append d'(1) by blast
qed

lemma sql_create_law:
  fixes db :: "'w idem_db"
  assumes "wf_db db" "sql_CreateProcessing x db = (r, db')"
  shows "wf_db db' \<and> (db_row db' = db_row db \<and> (\<forall>y. r \<noteq> Inr (True, y)) \<or> created x (db_row db) r (db_row db'))"
proof (rule statement_law [OF assms(2) [unfolded sql_CreateProcessing_def] assms(1)])
  fix d d' :: "'w idem_db" and r
  let ?d = "d\<lparr>db_seq := db_seq d + 1\<rparr>"
  let ?row = "x\<lparr>idr_ID := db_seq d + 1, idr_CreatedAt := db_clock d, idr_UpdatedAt := db_clock d,
    idr_ResponseStatus := None, idr_ResponseBody := None, idr_ErrorReason := None\<rparr>"
  assume wf: "wf_db d" and row: "db_row d = db_row db"
    and run: "(if varchar 128 (idr_Scope x) \<and> varchar 64 (idr_IdempotencyKeyHash x)
        \<and> varchar 64 (idr_RequestFingerprint x) \<and> varchar 32 (idr_Status x)
      then let i = db_seq d + 1; d = d\<lparr>db_seq := i\<rparr>
           in if list_ex (has_key (idr_Scope x) (idr_IdempotencyKeyHash x)) (db_rows d) then (Inr (False, x), d)
              else let r = x\<lparr>idr_ID := i, idr_CreatedAt := db_clock d, idr_UpdatedAt := db_clock d\<rparr>;
                       row = r\<lparr>idr_ResponseStatus := None, idr_ResponseBody := None, idr_ErrorReason := None\<rparr>
                   in (Inr (True, r), d\<lparr>db_rows := db_rows d @ [row]\<rparr>)
      else (Inl sql_err, d)) = (r, d')"
  have seq: "wf_db ?d" "db_row ?d = db_row d"
    using wf by (auto simp: wf_db_def list_all_iff db_row_def fun_eq_iff)
  show "wf_db d' \<and> (db_row d' = db_row db \<and> (\<forall>y. r \<noteq> Inr (True, y)) \<or> created x (db_row db) r (db_row d'))"
  proof (cases "\<exists>y. r = Inr (True, y)")
    case False
    then show ?thesis using run wf seq row by (auto simp: Let_def split: if_splits)
  next
    case True
    then have new: "\<not> list_ex (has_key (idr_Scope x) (idr_IdempotencyKeyHash x)) (db_rows d)"
      and r: "\<forall>y. r = Inr (True, y) \<longrightarrow> idr_ID y = db_seq d + 1"
      and d': "db_rows d' = db_rows d @ [?row]" "db_seq d' = db_seq d + 1"
      using run by (auto simp: Let_def split: if_splits)
    have "wf_db d' \<and> db_row d' = (db_row d)(db_seq d + 1 \<mapsto> ?row) \<and> db_row d (db_seq d + 1) = None"
      using insert_wf [OF wf _ _ d'] new by simp
    moreover have "created x (db_row db) r (db_row d')"
      unfolding created_def
      by (intro exI [of _ "db_seq d + 1"] exI [of _ ?row]) (use calculation r row in \<open>simp add: same_slot_def\<close>)
    ultimately show ?thesis by blast
  qed
qed (auto simp: created_def)

definition changed :: "(IdempotencyRecord \<Rightarrow> IdempotencyRecord \<Rightarrow> bool) \<Rightarrow> int
    \<Rightarrow> (int \<Rightarrow> IdempotencyRecord option) \<Rightarrow> (int \<Rightarrow> IdempotencyRecord option) \<Rightarrow> bool" where
  "changed rel i old new \<longleftrightarrow> (\<exists>x y. old i = Some x \<and> new = old(i \<mapsto> y) \<and> same_slot x y \<and> rel x y)"

lemma changedD: "changed rel i old new \<Longrightarrow> old i = Some x \<Longrightarrow> \<exists>y. new = old(i \<mapsto> y) \<and> same_slot x y \<and> rel x y"
  by (auto simp: changed_def)

lemma update_changed:
  assumes "wf_db d" "update_rows P f d = (n, d')" "\<And>x. P x \<Longrightarrow> idr_ID x = i"
    "\<And>x. idr_ID (f x) = idr_ID x" "\<And>x. same_slot x (f x)" "\<And>x. P x \<Longrightarrow> rel x (f x)"
  shows "wf_db d' \<and> (n = 0 \<and> db_row d' = db_row d \<and> (\<forall>x. db_row d i = Some x \<longrightarrow> \<not> P x)
    \<or> 0 < n \<and> changed rel i (db_row d) (db_row d'))"
  using update_one [OF assms(1-5)] assms(5,6) unfolding changed_def by blast

lemma find_sound: "find P xs = Some x \<Longrightarrow> x \<in> set xs \<and> P x"
  by (induction xs) (auto split: if_splits)

lemma sql_get_law:
  fixes db :: "'w idem_db"
  assumes "wf_db db" "sql_GetByScopeAndKeyHash scope key db = (r, db')"
  shows "wf_db db' \<and> db_row db' = db_row db \<and> (\<forall>x. r = Inr (Some x) \<longrightarrow>
    db_row db (idr_ID x) = Some x \<and> has_key scope key x)"
proof -
  have "wf_db db' \<and> (db_row db' = db_row db \<and> (\<forall>x. r = Inr (Some x) \<longrightarrow>
    db_row db (idr_ID x) = Some x \<and> has_key scope key x) \<or> False)"
  proof (rule statement_law [OF assms(2) [unfolded sql_GetByScopeAndKeyHash_def] assms(1)])
    fix d d' :: "'w idem_db" and r
    assume "wf_db d" "db_row d = db_row db" "(Inr (find (has_key scope key) (db_rows d)), d) = (r, d')"
    then show "wf_db d' \<and> (db_row d' = db_row db \<and> (\<forall>x. r = Inr (Some x) \<longrightarrow>
        db_row db (idr_ID x) = Some x \<and> has_key scope key x) \<or> False)"
      using db_row_in [of d] find_sound [of "has_key scope key" "db_rows d"] by auto
  qed auto
  then show ?thesis by blast
qed

lemma sql_reclaim_law:
  fixes db :: "'w idem_db"
  assumes "wf_db db" "sql_TryReclaim i from now l e db = (r, db')"
  shows "wf_db db' \<and> (db_row db' = db_row db \<and> r \<noteq> Inr True
    \<or> changed (\<lambda>x y. idr_Status x = from \<and> \<not> locked_at x now \<and> idr_Status y = IdempotencyStatusProcessing
        \<and> idr_LockedUntil y = Some l \<and> idr_ExpiresAt y = e) i (db_row db) (db_row db'))"
proof (rule statement_law [OF assms(2) [unfolded sql_TryReclaim_def] assms(1)])
  fix d d' :: "'w idem_db" and r
  let ?P = "\<lambda>x. idr_ID x = i \<and> idr_Status x = from \<and> (case idr_LockedUntil x of None \<Rightarrow> True | Some l \<Rightarrow> l \<le> now)"
  let ?f = "\<lambda>x. x\<lparr>idr_Status := IdempotencyStatusProcessing, idr_LockedUntil := Some l, idr_ErrorReason := None,
    idr_UpdatedAt := db_clock d, idr_ExpiresAt := e\<rparr>"
  assume wf: "wf_db d" and row: "db_row d = db_row db"
    and run: "(case update_rows ?P ?f d of (affected, db) \<Rightarrow> (Inr (affected > 0), db)) = (r, d')"
  then obtain n where n: "update_rows ?P ?f d = (n, d')" "r = Inr (n > 0)"
    by (auto split: prod.splits)
  from update_changed [OF wf n(1), where i = i and rel = "\<lambda>x y. idr_Status x = from \<and> \<not> locked_at x now
      \<and> idr_Status y = IdempotencyStatusProcessing \<and> idr_LockedUntil y = Some l \<and> idr_ExpiresAt y = e"]
  show "wf_db d' \<and> (db_row d' = db_row db \<and> r \<noteq> Inr True
    \<or> changed (\<lambda>x y. idr_Status x = from \<and> \<not> locked_at x now \<and> idr_Status y = IdempotencyStatusProcessing
        \<and> idr_LockedUntil y = Some l \<and> idr_ExpiresAt y = e) i (db_row db) (db_row d'))"
    using n(2) row by (auto simp: same_slot_def locked_at_def split: option.splits)
qed auto

lemma sql_succeed_law:
  fixes db :: "'w idem_db"
  assumes "wf_db db" "db_row db i = Some x" "sql_MarkSucceeded i st body e db = (r, db')"
  shows "wf_db db' \<and> (db_row db' = db_row db \<and> r \<noteq> Inr ()
    \<or> changed (\<lambda>x y. idr_Status y = IdempotencyStatusSucceeded \<and> idr_ExpiresAt y = e) i (db_row db) (db_row db'))"
proof (rule statement_law [OF assms(3) [unfolded sql_MarkSucceeded_def] assms(1)])
  fix d d' :: "'w idem_db" and r
  let ?f = "\<lambda>r. r\<lparr>idr_Status := IdempotencyStatusSucceeded, idr_ResponseStatus := Some st,
    idr_ResponseBody := Some body, idr_ErrorReason := None, idr_LockedUntil := None, idr_ExpiresAt := e,
    idr_UpdatedAt := db_clock d\<rparr>"
  assume wf: "wf_db d" and row: "db_row d = db_row db"
    and run: "(Inr (), snd (update_rows (\<lambda>r. idr_ID r = i) ?f d)) = (r, d')"
  then obtain n where n: "update_rows (\<lambda>r. idr_ID r = i) ?f d = (n, d')"
    by (auto simp: prod_eq_iff)
  from update_changed [OF wf n, where i = i
      and rel = "\<lambda>x y. idr_Status y = IdempotencyStatusSucceeded \<and> idr_ExpiresAt y = e"]
  show "wf_db d' \<and> (db_row d' = db_row db \<and> r \<noteq> Inr ()
    \<or> changed (\<lambda>x y. idr_Status y = IdempotencyStatusSucceeded \<and> idr_ExpiresAt y = e) i (db_row db) (db_row d'))"
    using row db_row_Some [of d i x] assms(2) by (auto simp: same_slot_def)
qed auto

lemma sql_fail_law:
  fixes db :: "'w idem_db"
  assumes "wf_db db" "db_row db i = Some x" "sql_MarkFailedRetryable i reason l e db = (r, db')"
  shows "wf_db db' \<and> (db_row db' = db_row db \<and> r \<noteq> Inr () \<or> changed (\<lambda>x y. idr_Status y
    = IdempotencyStatusFailedRetryable \<and> idr_ExpiresAt y = e) i (db_row db) (db_row db'))"
proof (rule statement_law [OF assms(3) [unfolded sql_MarkFailedRetryable_def] assms(1)])
  fix d d' :: "'w idem_db" and r
  let ?f = "\<lambda>r. r\<lparr>idr_Status := IdempotencyStatusFailedRetryable, idr_ErrorReason := Some reason,
    idr_LockedUntil := Some l, idr_ExpiresAt := e, idr_UpdatedAt := db_clock d\<rparr>"
  assume wf: "wf_db d" and row: "db_row d = db_row db"
    and run: "(if list_ex (\<lambda>r. idr_ID r = i) (db_rows d) \<and> \<not> varchar 128 reason then (Inl sql_err, d)
      else (Inr (), snd (update_rows (\<lambda>r. idr_ID r = i) ?f d))) = (r, d')"
  show "wf_db d' \<and> (db_row d' = db_row db \<and> r \<noteq> Inr () \<or> changed (\<lambda>x y. idr_Status y
    = IdempotencyStatusFailedRetryable \<and> idr_ExpiresAt y = e) i (db_row db) (db_row d'))"
  proof (cases "r = Inl sql_err")
    case True
    then show ?thesis using run wf row by (auto split: if_splits)
  next
    case False
    then obtain n where n: "update_rows (\<lambda>r. idr_ID r = i) ?f d = (n, d')"
      using run by (auto simp: prod_eq_iff split: if_splits)
    from update_changed [OF wf n, where i = i
        and rel = "\<lambda>x y. idr_Status y = IdempotencyStatusFailedRetryable \<and> idr_ExpiresAt y = e"]
    show ?thesis
      using row db_row_Some [of d i x] assms(2) by (auto simp: same_slot_def)
  qed
qed auto

interpretation sql: idempotency_store NewIdempotencyRepository wf_db db_row db_other
proof
  fix s s' :: "'w idem_db" and i j x y
  assume wf: "wf_db s" and xy: "db_row s i = Some x" "db_row s j = Some y" "same_slot x y"
  have "x = y"
    using wf xy(3) db_row_Some [OF xy(1)] db_row_Some [OF xy(2)]
    by (auto simp: wf_db_def same_slot_def distinct_map inj_on_def)
  then show "i = j"
    using db_row_Some [OF xy(1)] db_row_Some [OF xy(2)] by simp
next
  fix s s' :: "'w idem_db" and x r
  assume "wf_db s" "CreateProcessing NewIdempotencyRepository x s = (r, s')"
  then show "wf_db s' \<and> (db_row s' = db_row s \<and> (\<forall>y. r \<noteq> Inr (True, y))
       \<or> (\<exists>i y. db_row s i = None \<and> db_row s' = (db_row s)(i \<mapsto> y) \<and> same_slot x y
            \<and> idr_Status y = idr_Status x \<and> idr_LockedUntil y = idr_LockedUntil x
            \<and> idr_ExpiresAt y = idr_ExpiresAt x \<and> (\<forall>z. r = Inr (True, z) \<longrightarrow> idr_ID z = i)))"
    using sql_create_law [of s x r s'] unfolding created_def by (simp add: NewIdempotencyRepository_def)
next
  fix s s' :: "'w idem_db" and scope key r
  assume "wf_db s" "GetByScopeAndKeyHash NewIdempotencyRepository scope key s = (r, s')"
  then show "wf_db s' \<and> db_row s' = db_row s \<and> (\<forall>x. r = Inr (Some x) \<longrightarrow>
      db_row s (idr_ID x) = Some x \<and> has_key scope key x)"
    using sql_get_law [of s scope key r s'] by (simp add: NewIdempotencyRepository_def)
next
  fix s s' :: "'w idem_db" and i from' now l e r
  assume "wf_db s" "TryReclaim NewIdempotencyRepository i from' now l e s = (r, s')"
  then show "wf_db s' \<and> (db_row s' = db_row s \<and> r \<noteq> Inr True
       \<or> (\<exists>x y. db_row s i = Some x \<and> idr_Status x = from' \<and> \<not> locked_at x now
            \<and> db_row s' = (db_row s)(i \<mapsto> y) \<and> same_slot x y
            \<and> idr_Status y = IdempotencyStatusProcessing \<and> idr_LockedUntil y = Some l
            \<and> idr_ExpiresAt y = e))"
    using sql_reclaim_law [of s i from' now l e r s'] changedD [of _ i "db_row s" "db_row s'"]
    by (simp add: NewIdempotencyRepository_def changed_def) blast
next
  fix s s' :: "'w idem_db" and i x st body e r
  assume "wf_db s" "db_row s i = Some x" "MarkSucceeded NewIdempotencyRepository i st body e s = (r, s')"
  then show "wf_db s' \<and> (db_row s' = db_row s \<and> r \<noteq> Inr ()
       \<or> (\<exists>y. db_row s' = (db_row s)(i \<mapsto> y) \<and> same_slot x y \<and> idr_Status y = IdempotencyStatusSucceeded
            \<and> idr_ExpiresAt y = e))"
    using sql_succeed_law [of s i x st body e r s'] by (auto simp: NewIdempotencyRepository_def dest: changedD)
next
  fix s s' :: "'w idem_db" and i x reason l e r
  assume "wf_db s" "db_row s i = Some x" "MarkFailedRetryable NewIdempotencyRepository i reason l e s = (r, s')"
  then show "wf_db s' \<and> (db_row s' = db_row s
       \<or> (\<exists>y. db_row s' = (db_row s)(i \<mapsto> y) \<and> same_slot x y
            \<and> idr_Status y = IdempotencyStatusFailedRetryable \<and> idr_ExpiresAt y = e))"
    using sql_fail_law [of s i x reason l e r s'] by (auto simp: NewIdempotencyRepository_def dest: changedD)
next
  fix s s' :: "'w idem_db"
  assume "wf_db s" "db_other s s'"
  then show "wf_db s' \<and> db_row s' = db_row s"
    using wf_db_cong [of s' s] db_row_cong [of s' s] by (simp add: db_other_def)
qed

section \<open>Callers of one key\<close>

text \<open>A schedule, to run races on concrete input.\<close>

datatype 'd race_act = Call nat | Return nat int "error_value + 'd \<times> string option"

fun race_do :: "(string \<Rightarrow> string) \<Rightarrow> 's IdempotencyRepository \<Rightarrow> (nat \<Rightarrow> claim_env) \<Rightarrow> 'd race_act list
    \<Rightarrow> (nat \<Rightarrow> 'd phase) \<times> 's \<Rightarrow> (nat \<Rightarrow> 'd phase) \<times> 's" where
  "race_do RedactText repo env [] w = w"
| "race_do RedactText repo env (Call k # acts) (c, s) =
     (case claim_step repo (env k) (c k) s of (p, s') \<Rightarrow> race_do RedactText repo env acts (c(k := p), s'))"
| "race_do RedactText repo env (Return k later got # acts) (c, s) =
     (case c k of
        Claimed i \<Rightarrow> (case finish RedactText repo (env k) later i got s of (out, s') \<Rightarrow>
          race_do RedactText repo env acts (c(k := Done out), s'))
      | _ \<Rightarrow> race_do RedactText repo env acts (c, s))"

lemma race_do_reach:
  "(race_step RedactText repo other env)\<^sup>*\<^sup>* \<lparr>callers = c, store = s\<rparr>
     (case race_do RedactText repo env acts (c, s) of (c', s') \<Rightarrow> \<lparr>callers = c', store = s'\<rparr>)"
proof (induction acts arbitrary: c s)
  case Nil
  show ?case by simp
next
  case (Cons a acts)
  show ?case
  proof (cases a)
    case (Call k)
    obtain p s' where p: "claim_step repo (env k) (c k) s = (p, s')" by fastforce
    have "race_step RedactText repo other env \<lparr>callers = c, store = s\<rparr> \<lparr>callers = c(k := p), store = s'\<rparr>"
      using race_step.call [of repo env k "\<lparr>callers = c, store = s\<rparr>" p s' RedactText other] p by simp
    from converse_rtranclp_into_rtranclp [OF this Cons.IH] show ?thesis
      unfolding Call race_do.simps p prod.case .
  next
    case (Return k later got)
    show ?thesis
    proof (cases "\<exists>i. c k = Claimed i")
      case True
      then obtain i out s' where i: "c k = Claimed i" "finish RedactText repo (env k) later i got s = (out, s')"
        by fastforce
      have "race_step RedactText repo other env \<lparr>callers = c, store = s\<rparr>
          \<lparr>callers = c(k := Done out), store = s'\<rparr>"
        using race_step.return [of "\<lparr>callers = c, store = s\<rparr>" k i RedactText repo env later got out s' other] i
        by simp
      from converse_rtranclp_into_rtranclp [OF this Cons.IH] show ?thesis
        unfolding Return race_do.simps i phase.case prod.case .
    next
      case False
      then have "race_do RedactText repo env (a # acts) (c, s) = race_do RedactText repo env acts (c, s)"
        by (cases "c k") (simp_all add: Return)
      then show ?thesis using Cons.IH by simp
    qed
  qed
qed

text \<open>
C11. At most one caller at a time: as long as no caller starts after the lock of another has run out,
no two calls of \<open>Execute\<close> with the same key run their executor at once. This holds for every interleaving
of their statements, and when statements fail or lose their answer.
\<close>
theorem one_caller_per_key:
  assumes "wf_db s" "lock_window env"
    "(race_step RedactText NewIdempotencyRepository db_other env)\<^sup>*\<^sup>* (race_start s) w"
    "executing (callers w j)" "executing (callers w k)" "same_key (env j) (env k)"
  shows "j = k"
  using sql.one_holder [OF sql.lock_inv_run [OF assms(3,1,2)]] assms(4-6) by (auto simp: executing_def)

definition demo_config :: IdempotencyConfig where
  "demo_config = \<lparr>cfg_DefaultTTL = 100, cfg_SystemOperationTTL = 100, cfg_ProcessingTimeout = 30,
     cfg_FailedRetryBackoff = 5, cfg_MaxStoredResponseLen = 20, cfg_ObserveOnly = False\<rparr>"

definition demo_env :: "int \<Rightarrow> claim_env" where
  "demo_env now = \<lparr>env_cfg = demo_config, env_scope = ''s'', env_keyHash = ''k'', env_fingerprint = ''f'',
     env_now = now, env_lockedUntil = now + 30, env_expiresAt = now + 100\<rparr>"

definition demo_records :: "IdempotencyRecord list \<Rightarrow> unit idem_db" where
  "demo_records rows = \<lparr>db_rows = rows, db_seq = 7, db_clock = 0, db_faults = [], db_world = ()\<rparr>"

definition demo_run :: "int \<Rightarrow> IdempotencyRecord list \<Rightarrow> unit race_act list
    \<Rightarrow> (nat \<Rightarrow> unit phase) \<times> unit idem_db" where
  "demo_run now rows acts =
     race_do (\<lambda>s. s) NewIdempotencyRepository (\<lambda>_. demo_env now) acts (\<lambda>_. Creating, demo_records rows)"

lemmas demo_defs = demo_run_def demo_env_def demo_records_def demo_config_def claim_step_def new_record_def
  claimed_def store_unavailable_def status_switch_def finish_def marshalStoredResponse_def
  conflictWithRetryAfter_def NewIdempotencyRepository_def sql_CreateProcessing_def
  sql_GetByScopeAndKeyHash_def sql_TryReclaim_def sql_MarkSucceeded_def statement_def update_rows_def
  varchar_def has_key_def status_defs second_def

lemma demo_reach:
  "(race_step (\<lambda>s. s) NewIdempotencyRepository db_other (\<lambda>_. demo_env now))\<^sup>*\<^sup>* (race_start (demo_records rows))
     \<lparr>callers = fst (demo_run now rows acts), store = snd (demo_run now rows acts)\<rparr>"
  using race_do_reach [of "\<lambda>s. s" NewIdempotencyRepository db_other "\<lambda>_. demo_env now" "\<lambda>_. Creating"
      "demo_records rows" acts]
  by (simp add: demo_run_def race_start_def case_prod_beta)

theorem one_caller_per_key_witness:
  "executing (fst (demo_run 0 [] [Call 0, Call 1, Call 1]) 0)
   \<and> \<not> executing (fst (demo_run 0 [] [Call 0, Call 1, Call 1]) 1)"
proof
  let ?c = "fst (demo_run 0 [] [Call 0, Call 1, Call 1])"
  show first: "executing (?c 0)"
    by (simp add: demo_defs executing_def Let_def)
  show "\<not> executing (?c 1)"
  proof
    assume "executing (?c 1)"
    with one_caller_per_key [OF _ _ demo_reach [of 0 "[]" "[Call 0, Call 1, Call 1]"], of 0 1] first
    have "(0 :: nat) = 1"
      by (simp add: wf_db_def demo_records_def lock_window_def demo_env_def same_key_def)
    then show False by simp
  qed
qed

text \<open>
C12. At most one success: when in addition no record of the key expires meanwhile, one call at most
executes or has succeeded. A success is final, a failed execution makes way for another call.
\<close>
theorem at_most_one_success:
  assumes "wf_db s" "lock_window env" "ttl_window env" "\<forall>x \<in> set (db_rows s). fresh_row env x"
    "(race_step RedactText NewIdempotencyRepository db_other env)\<^sup>*\<^sup>* (race_start s) w"
    "executing (callers w j) \<or> succeeded (callers w j)" "executing (callers w k) \<or> succeeded (callers w k)"
    "same_key (env j) (env k)"
  shows "j = k"
proof -
  have "fresh_row env x" if "db_row s i = Some x" for i x
    using assms(4) db_row_Some [OF that] by blast
  from sql.once_inv_run [OF assms(5,1,2,3) this] show ?thesis
    by (rule sql.one_executes_or_succeeded [OF _ assms(6-8)])
qed

theorem at_most_one_success_witness:
  "succeeded (fst (demo_run 0 [] [Call 0, Return 0 1 (Inr ((), Some ''{}'')), Call 1, Call 1]) 0)
   \<and> \<not> succeeded (fst (demo_run 0 [] [Call 0, Return 0 1 (Inr ((), Some ''{}'')), Call 1, Call 1]) 1)"
proof
  let ?acts = "[Call 0, Return 0 1 (Inr ((), Some ''{}'')), Call 1, Call 1]"
  let ?c = "fst (demo_run 0 [] ?acts)"
  show first: "succeeded (?c 0)"
    by (simp add: demo_defs succeeded_def Let_def)
  show "\<not> succeeded (?c 1)"
  proof
    assume "succeeded (?c 1)"
    with at_most_one_success [OF _ _ _ _ demo_reach [of 0 "[]" ?acts], of 0 1] first
    have "(0 :: nat) = 1"
      by (simp add: wf_db_def demo_records_def lock_window_def ttl_window_def demo_env_def same_key_def)
    then show False by simp
  qed
qed

section \<open>A record that has expired\<close>

lemma create_again:
  assumes "db_faults s = []" "list_ex (has_key (env_scope e) (env_keyHash e)) (db_rows s)"
    "varchar 128 (env_scope e)" "varchar 64 (env_keyHash e)" "varchar 64 (env_fingerprint e)"
  shows "claim_step NewIdempotencyRepository e Creating s = (Getting, s\<lparr>db_seq := db_seq s + 1\<rparr>)"
  using assms
  by (simp add: claim_step_def NewIdempotencyRepository_def sql_CreateProcessing_def statement_def new_record_def Let_def
      status_defs varchar_def)

lemma get_expired:
  assumes "db_faults s = []" "find (has_key (env_scope e) (env_keyHash e)) (db_rows s) = Some x"
    "idr_RequestFingerprint x = env_fingerprint e" "idr_ExpiresAt x \<le> env_now e"
  shows "claim_step NewIdempotencyRepository e Getting s = (ReclaimingExpired x, s)"
  using assms by (simp add: claim_step_def NewIdempotencyRepository_def sql_GetByScopeAndKeyHash_def statement_def)

lemma updated_in:
  assumes "y \<in> set (db_rows s)"
  shows "(if P y then f y else y) \<in> set (db_rows (snd (update_rows P f s)))"
proof -
  have "(\<lambda>r. if P r then f r else r) y \<in> set (map (\<lambda>r. if P r then f r else r) (db_rows s))"
    using assms unfolding set_map by (rule imageI)
  moreover have "db_rows (snd (update_rows P f s)) = map (\<lambda>r. if P r then f r else r) (db_rows s)"
    by (simp add: update_rows_def)
  ultimately show ?thesis by (simp only:)
qed

lemma update_faults [simp]: "db_faults (snd (update_rows P f s)) = db_faults s"
  by (simp add: update_rows_def)

lemma reclaim_open:
  assumes "db_faults s = []" "y \<in> set (db_rows s)" "idr_ID y = idr_ID x" "idr_Status y = idr_Status x" "idr_LockedUntil y = None"
    "idr_ID x \<noteq> 0"
  shows "\<exists>s'. claim_step NewIdempotencyRepository e (ReclaimingExpired x) s = (Claimed (idr_ID x), s')
    \<and> db_faults s' = [] \<and> (\<exists>z\<in>set (db_rows s'). idr_ID z = idr_ID x)"
proof -
  let ?p = "\<lambda>r. idr_ID r = idr_ID x \<and> idr_Status r = idr_Status x
    \<and> (case idr_LockedUntil r of None \<Rightarrow> True | Some l \<Rightarrow> l \<le> env_now e)"
  let ?f = "\<lambda>r. r\<lparr>idr_Status := IdempotencyStatusProcessing, idr_LockedUntil := Some (env_lockedUntil e),
      idr_ErrorReason := None, idr_UpdatedAt := db_clock s, idr_ExpiresAt := env_expiresAt e\<rparr>"
  have "y \<in> set (filter ?p (db_rows s))" using assms by simp
  then have "0 < fst (update_rows ?p ?f s)" unfolding update_rows_def fst_conv by (rule length_pos_if_in_set)
  then have "claim_step NewIdempotencyRepository e (ReclaimingExpired x) s = (Claimed (idr_ID x), snd (update_rows ?p ?f s))"
    using assms(1,6)
    by (simp add: claim_step_def NewIdempotencyRepository_def sql_TryReclaim_def statement_def claimed_def case_prod_beta)
  moreover have "idr_ID (if ?p y then ?f y else y) = idr_ID x" using assms(3) by simp
  moreover have "db_faults (snd (update_rows ?p ?f s)) = []" using assms(1) by simp
  ultimately show ?thesis using updated_in [OF assms(2), of ?p ?f] by (intro exI conjI bexI)
qed

lemma finish_well:
  assumes "db_faults s = []" "y \<in> set (db_rows s)" "idr_ID y = i" "marshalStoredResponse RedactText (env_cfg e) (Some json) = Some body"
  shows "\<exists>s'. finish RedactText NewIdempotencyRepository e later i (Inr (d, Some json)) s =
      (Inr \<lparr>res_Data = Fresh d, res_Replayed = False\<rparr>, s') \<and> db_faults s' = []
    \<and> (\<exists>z\<in>set (db_rows s'). idr_ID z = i \<and> idr_Status z = IdempotencyStatusSucceeded \<and> idr_LockedUntil z = None)"
proof -
  let ?p = "\<lambda>r. idr_ID r = i"
  let ?f = "\<lambda>r. r\<lparr>idr_Status := IdempotencyStatusSucceeded, idr_ResponseStatus := Some 200,
      idr_ResponseBody := Some body, idr_ErrorReason := None, idr_LockedUntil := None,
      idr_ExpiresAt := env_expiresAt e, idr_UpdatedAt := db_clock s\<rparr>"
  have "finish RedactText NewIdempotencyRepository e later i (Inr (d, Some json)) s =
      (Inr \<lparr>res_Data = Fresh d, res_Replayed = False\<rparr>, snd (update_rows ?p ?f s))"
    using assms(1,4) by (simp add: finish_def NewIdempotencyRepository_def sql_MarkSucceeded_def statement_def)
  moreover have "?f y \<in> set (db_rows (snd (update_rows ?p ?f s)))"
    using updated_in [OF assms(2), of ?p ?f] assms(3) by simp
  moreover have "idr_ID (?f y) = i" "idr_Status (?f y) = IdempotencyStatusSucceeded" "idr_LockedUntil (?f y) = None"
    using assms(3) by simp_all
  moreover have "db_faults (snd (update_rows ?p ?f s)) = []" using assms(1) by simp
  ultimately show ?thesis by (intro exI conjI bexI)
qed

text \<open>
C13. Two callers after one expired success: whatever the database and the calls are, when the record of a key
says succeeded and has expired, two calls with its key and fingerprint can both read it; then the first one
reclaims, executes and records its success, and the second one still reclaims and executes as well, because its
\<open>UPDATE\<close> only asks for the status it has read and a lock that is over. Both report a fresh success, although
no statement fails, and however short the time between the two is.
\<close>
theorem stale_reclaim_executes_twice:
  fixes a b :: 'd
  assumes "wf_db s" "db_faults s = []" "x \<in> set (db_rows s)" "idr_Status x = IdempotencyStatusSucceeded" "idr_LockedUntil x = None"
    "j \<noteq> k" "\<And>c. c \<in> {env j, env k} \<Longrightarrow> has_key (env_scope c) (env_keyHash c) x \<and> idr_RequestFingerprint x = env_fingerprint c
      \<and> idr_ExpiresAt x \<le> env_now c \<and> varchar 128 (env_scope c) \<and> varchar 64 (env_keyHash c) \<and> varchar 64 (env_fingerprint c)
      \<and> marshalStoredResponse RedactText (env_cfg c) (Some json) \<noteq> None"
  shows "\<exists>w. (race_step RedactText NewIdempotencyRepository db_other env)\<^sup>*\<^sup>* (race_start s) w
    \<and> callers w j = Done (Inr \<lparr>res_Data = Fresh a, res_Replayed = False\<rparr>)
    \<and> callers w k = Done (Inr \<lparr>res_Data = Fresh b, res_Replayed = False\<rparr>)"
proof -
  note e = assms(7) [of "env j", simplified] assms(7) [of "env k", simplified]
  have same: "y = x" if "y \<in> set (db_rows s)" "has_key (env_scope (env j)) (env_keyHash (env j)) y" for y
    using assms(1,3) that e(1) by (auto simp: wf_db_def distinct_map inj_on_def has_key_def)
  have some: "list_ex (has_key (env_scope c) (env_keyHash c)) (db_rows s)" if "c \<in> {env j, env k}" for c
    using assms(3) assms(7) [OF that] by (auto simp: list_ex_iff)
  have key: "has_key (env_scope (env k)) (env_keyHash (env k)) = has_key (env_scope (env j)) (env_keyHash (env j))"
    using e by (auto simp: has_key_def fun_eq_iff)
  obtain y where y: "find (has_key (env_scope (env j)) (env_keyHash (env j))) (db_rows s) = Some y"
    using some [of "env j"] by (cases "find (has_key (env_scope (env j)) (env_keyHash (env j))) (db_rows s)") (auto simp: find_None_iff list_ex_iff)
  then have found: "find (has_key (env_scope c) (env_keyHash c)) (db_rows s) = Some x" if "c \<in> {env j, env k}" for c
    using that same [of y] key by (auto simp: find_Some_iff)
  have id: "idr_ID x \<noteq> 0" using assms(1,3) by (auto simp: wf_db_def list_all_iff)
  let ?s1 = "s\<lparr>db_seq := db_seq s + 1\<rparr>" and ?s2 = "s\<lparr>db_seq := 2 + db_seq s\<rparr>"
  have start: "claim_step NewIdempotencyRepository (env j) Creating s = (Getting, ?s1)"
    "claim_step NewIdempotencyRepository (env j) Getting ?s1 = (ReclaimingExpired x, ?s1)"
    "claim_step NewIdempotencyRepository (env k) Creating ?s1 = (Getting, ?s2)"
    "claim_step NewIdempotencyRepository (env k) Getting ?s2 = (ReclaimingExpired x, ?s2)"
    using create_again [of s "env j"] create_again [of ?s1 "env k"] get_expired [of ?s1 "env j" x] get_expired [of ?s2 "env k" x]
      some [of "env j"] some [of "env k"] found [of "env j"] found [of "env k"] assms(2) e by simp_all
  obtain s3 z3 where s3: "claim_step NewIdempotencyRepository (env j) (ReclaimingExpired x) ?s2 = (Claimed (idr_ID x) :: 'd phase, s3)"
    "db_faults s3 = []" "z3 \<in> set (db_rows s3)" "idr_ID z3 = idr_ID x"
    using reclaim_open [of ?s2 x x "env j"] assms(2,3,5) id by auto
  obtain s4 z4 where s4: "finish RedactText NewIdempotencyRepository (env j) l (idr_ID x) (Inr (a, Some json)) s3 =
      (Inr \<lparr>res_Data = Fresh a, res_Replayed = False\<rparr>, s4)"
    "db_faults s4 = []" "z4 \<in> set (db_rows s4)" "idr_ID z4 = idr_ID x" "idr_Status z4 = IdempotencyStatusSucceeded" "idr_LockedUntil z4 = None"
    using finish_well [OF s3(2-4), of RedactText "env j" json _ l a] e by auto
  obtain s5 z5 where s5: "claim_step NewIdempotencyRepository (env k) (ReclaimingExpired x) s4 = (Claimed (idr_ID x) :: 'd phase, s5)"
    "db_faults s5 = []" "z5 \<in> set (db_rows s5)" "idr_ID z5 = idr_ID x"
    using reclaim_open [OF s4(2-4), of "env k"] s4(5,6) assms(4) id by auto
  obtain s6 where s6: "finish RedactText NewIdempotencyRepository (env k) l (idr_ID x) (Inr (b, Some json)) s5 =
      (Inr \<lparr>res_Data = Fresh b, res_Replayed = False\<rparr>, s6)"
    using finish_well [OF s5(2-4), of RedactText "env k" json _ l b] e by auto
  let ?acts = "[Call j, Call j, Call k, Call k, Call j, Return j l (Inr (a, Some json)), Call k, Return k l (Inr (b, Some json))]"
  have "\<exists>c. race_do RedactText NewIdempotencyRepository env ?acts (\<lambda>_. Creating, s) = (c, s6)
      \<and> c j = Done (Inr \<lparr>res_Data = Fresh a, res_Replayed = False\<rparr>) \<and> c k = Done (Inr \<lparr>res_Data = Fresh b, res_Replayed = False\<rparr>)"
    using assms(6) by (simp add: start s3(1) s4(1) s5(1) s6)
  then show ?thesis
    using race_do_reach [of RedactText NewIdempotencyRepository db_other env "\<lambda>_. Creating" s ?acts]
    by (auto simp: race_start_def)
qed

definition expired_row :: "go_string option \<Rightarrow> IdempotencyRecord" where
  "expired_row body = \<lparr>idr_ID = 1, idr_Scope = ''s'', idr_IdempotencyKeyHash = ''k'', idr_RequestFingerprint = ''f'',
     idr_Status = IdempotencyStatusSucceeded, idr_ResponseStatus = Some 200, idr_ResponseBody = body,
     idr_ErrorReason = None, idr_LockedUntil = None, idr_ExpiresAt = 50, idr_CreatedAt = 0, idr_UpdatedAt = 0\<rparr>"

theorem stale_reclaim_executes_twice_witness:
  "\<exists>w. (race_step (\<lambda>s. s) NewIdempotencyRepository db_other (\<lambda>_. demo_env 60))\<^sup>*\<^sup>* (race_start (demo_records [expired_row (Some ''1'')])) w
    \<and> callers w 0 = Done (Inr \<lparr>res_Data = Fresh (), res_Replayed = False\<rparr>)
    \<and> callers w 1 = Done (Inr \<lparr>res_Data = Fresh (), res_Replayed = False\<rparr>)"
proof (rule stale_reclaim_executes_twice [where x = "expired_row (Some ''1'')" and json = "''{}''"])
  show "wf_db (demo_records [expired_row (Some ''1'')])" by (simp add: wf_db_def demo_records_def expired_row_def)
  fix c assume "c \<in> {demo_env 60, demo_env 60}"
  then have "c = demo_env 60" by simp
  moreover have "varchar 128 ''s''" "varchar 64 ''k''" "varchar 64 ''f''" by code_simp+
  ultimately show "has_key (env_scope c) (env_keyHash c) (expired_row (Some ''1''))
      \<and> idr_RequestFingerprint (expired_row (Some ''1'')) = env_fingerprint c
      \<and> idr_ExpiresAt (expired_row (Some ''1'')) \<le> env_now c \<and> varchar 128 (env_scope c) \<and> varchar 64 (env_keyHash c)
      \<and> varchar 64 (env_fingerprint c) \<and> marshalStoredResponse (\<lambda>s. s) (env_cfg c) (Some ''{}'') \<noteq> None"
    by (simp add: demo_env_def demo_config_def expired_row_def has_key_def marshalStoredResponse_def Let_def)
qed (simp_all add: demo_records_def expired_row_def)

end
