(* ===== verification/IdempotencyFacts.thy ===== *)
theory IdempotencyFacts
  imports IdempotencyRace GoJsonFacts
begin

text \<open>
  The whole of \<open>Execute\<close>, one call after the other, on the SQL repository: it decides in a bounded number
  of repository calls, replays a stored answer, and what becomes of a truncated answer and of a record
  whose caller has died.
\<close>

text \<open>No path of \<open>Execute\<close> makes more than five repository calls before it executes or returns.\<close>

definition phase_settled :: "'d phase \<Rightarrow> bool" where
  "phase_settled p \<longleftrightarrow> (\<exists>i. p = Claimed i) \<or> (\<exists>out. p = Done out)"

lemma settled_simps [simp]: "phase_settled (Claimed i)" "phase_settled (Done out)" "phase_settled store_unavailable" "phase_settled (claimed i)"
  by (auto simp: phase_settled_def store_unavailable_def claimed_def)

lemma claim_steps_settled: "phase_settled p \<Longrightarrow> claim_steps repo env n p s = (p, s)"
  by (induction n) (auto simp: phase_settled_def claim_step_def)

text \<open>The rank of a phase bounds the calls that are left.\<close>

fun rank :: "'d phase \<Rightarrow> nat" where
  "rank Creating = 5"
| "rank Getting = 4"
| "rank (ReclaimingExpired _) = 3"
| "rank GettingLatest = 2"
| "rank (ReclaimingFailed _) = 1"
| "rank (Claimed _) = 0"
| "rank (Done _) = 0"

lemma rank_zero: "rank p = 0 \<longleftrightarrow> phase_settled p"
  by (cases p) (auto simp: phase_settled_def)

lemma rank_settled [simp]: "rank store_unavailable = 0" "rank (claimed i) = 0"
  by (simp_all add: rank_zero)

lemma rank_switch: "rank (status_switch env x) < 2" "rank (status_switch env x) < 4"
  by (auto simp: status_switch_def split: option.splits)

lemma rank_step: "rank p \<noteq> 0 \<Longrightarrow> rank (fst (claim_step repo env p s)) < rank p"
  by (cases p) (auto simp: claim_step_def rank_switch split: prod.splits sum.splits option.splits)

text \<open>
C10. Before it executes or returns, a call makes at most five repository calls, whatever the repository
answers: the claim always ends with a claimed record or an outcome.
\<close>
theorem claim_decides: "phase_settled (fst (claim repo env s))"
proof -
  have "rank (fst (claim_steps repo env n p s)) \<le> rank p - n" for n p s
  proof (induction n arbitrary: p s)
    case (Suc n)
    show ?case
    proof (cases "rank p = 0")
      case True
      then have "phase_settled p" by (simp add: rank_zero)
      then show ?thesis
        using True by (simp only: claim_steps_settled fst_conv)
    next
      case False
      with rank_step [of p repo env s] Suc.IH [of "fst (claim_step repo env p s)" "snd (claim_step repo env p s)"]
      show ?thesis by (simp add: case_prod_beta)
    qed
  qed simp
  from this [of 5 Creating s] show ?thesis
    by (simp add: claim_def rank_zero [symmetric])
qed

text \<open>A call with a usable key: what \<open>Execute\<close> comes down to.\<close>

definition usable_key :: "(string \<Rightarrow> string) \<Rightarrow> IdempotencyExecuteOptions \<Rightarrow> go_string \<Rightarrow> go_string \<Rightarrow> bool" where
  "usable_key sha256 opts key fingerprint \<longleftrightarrow> NormalizeIdempotencyKey (opts_IdempotencyKey opts) = Inr key \<and> key \<noteq> []
     \<and> opts_Scope opts \<noteq> [] \<and> BuildIdempotencyFingerprint sha256 (opts_Method opts) (opts_Route opts)
          (opts_ActorScope opts) (opts_Payload opts) = Inr fingerprint
     \<and> varchar 128 (opts_Scope opts) \<and> varchar 64 (HashIdempotencyKey sha256 key) \<and> varchar 64 fingerprint"

lemma Execute_usable:
  assumes "usable_key sha256 opts key fingerprint"
  shows "Execute sha256 RedactText (Some repo) cfg now later opts (Some execute) s =
    (let env = make_env sha256 cfg opts now key fingerprint
     in case claim repo env s of
          (Claimed i, s') \<Rightarrow> (case execute s' of (got, s'') \<Rightarrow> finish RedactText repo env later i got s'')
        | (Done out, s') \<Rightarrow> (out, s')
        | (_, s') \<Rightarrow> (Inl (App ErrIdempotencyStoreUnavail), s'))"
  using assms by (simp add: Execute_def usable_key_def)

lemma env_sel [simp]:
  "env_scope (make_env sha256 cfg opts now key fp) = opts_Scope opts"
  "env_keyHash (make_env sha256 cfg opts now key fp) = HashIdempotencyKey sha256 key"
  "env_fingerprint (make_env sha256 cfg opts now key fp) = fp"
  "env_now (make_env sha256 cfg opts now key fp) = now"
  "env_cfg (make_env sha256 cfg opts now key fp) = cfg"
  by (simp_all add: make_env_def Let_def)

abbreviation key_row :: "(string \<Rightarrow> string) \<Rightarrow> IdempotencyExecuteOptions \<Rightarrow> go_string \<Rightarrow> 'w idem_db
    \<Rightarrow> IdempotencyRecord option" where
  "key_row sha256 opts key db \<equiv> find (has_key (opts_Scope opts) (HashIdempotencyKey sha256 key)) (db_rows db)"

lemma claim_two:
  assumes "claim_step repo env Creating s = (p, s')" "claim_step repo env p s' = (q, s'')" "phase_settled q"
  shows "claim repo env s = (q, s'')"
  using assms claim_steps_settled [OF assms(3), of repo env 3 s''] by (simp add: claim_def numeral_eq_Suc)

lemma find_some_ex: "find P xs = Some x \<Longrightarrow> list_ex P xs"
  by (induction xs) (auto split: if_splits)

text \<open>A second call meets a record that has not expired.\<close>

lemma claim_existing:
  assumes "db_faults db = []" "usable_key sha256 opts key fp" "key_row sha256 opts key db = Some x"
    "now < idr_ExpiresAt x" "idr_RequestFingerprint x = fp"
    "phase_settled (status_switch (make_env sha256 cfg opts now key fp) x :: 'd phase)"
  shows "claim NewIdempotencyRepository (make_env sha256 cfg opts now key fp) db
    = (status_switch (make_env sha256 cfg opts now key fp) x :: 'd phase, db\<lparr>db_seq := db_seq db + 1\<rparr>)"
proof -
  let ?env = "make_env sha256 cfg opts now key fp"
  have "claim_step NewIdempotencyRepository ?env (Creating :: 'd phase) db = (Getting, db\<lparr>db_seq := db_seq db + 1\<rparr>)"
    using assms(1,2) find_some_ex [OF assms(3)]
    by (simp add: claim_step_def NewIdempotencyRepository_def sql_CreateProcessing_def statement_def usable_key_def
        new_record_def Let_def varchar_def status_defs)
  moreover have "claim_step NewIdempotencyRepository ?env (Getting :: 'd phase) (db\<lparr>db_seq := db_seq db + 1\<rparr>)
      = (status_switch ?env x, db\<lparr>db_seq := db_seq db + 1\<rparr>)"
    using assms(1,3,4,5)
    by (simp add: claim_step_def NewIdempotencyRepository_def sql_GetByScopeAndKeyHash_def statement_def)
  ultimately show ?thesis
    by (rule claim_two [OF _ _ assms(6)])
qed

definition works_on :: "('w \<Rightarrow> 'w) \<Rightarrow> 'd \<Rightarrow> string \<Rightarrow> ('d, 'w idem_db) executor" where
  "works_on work d json db = (Inr (d, Some json), db\<lparr>db_world := work (db_world db)\<rparr>)"

lemma claim_new:
  assumes "db_faults db = []" "usable_key sha256 opts key fp" "key_row sha256 opts key db = None" "wf_db db"
  shows "claim NewIdempotencyRepository (make_env sha256 cfg opts now key fp) db
    = (Claimed (db_seq db + 1), db\<lparr>db_seq := db_seq db + 1, db_rows := db_rows db @
        [(new_record (make_env sha256 cfg opts now key fp))\<lparr>idr_ID := db_seq db + 1,
           idr_CreatedAt := db_clock db, idr_UpdatedAt := db_clock db\<rparr>]\<rparr>)"
proof -
  let ?env = "make_env sha256 cfg opts now key fp"
  have "\<not> list_ex (has_key (opts_Scope opts) (HashIdempotencyKey sha256 key)) (db_rows db)"
    using assms(3) by (simp add: find_None_iff list_ex_iff)
  moreover have "db_seq db + 1 \<noteq> 0"
    using assms(4) by (simp add: wf_db_def)
  ultimately have step: "claim_step NewIdempotencyRepository ?env Creating db
    = (Claimed (db_seq db + 1), db\<lparr>db_seq := db_seq db + 1, db_rows := db_rows db @
        [(new_record ?env)\<lparr>idr_ID := db_seq db + 1, idr_CreatedAt := db_clock db, idr_UpdatedAt := db_clock db\<rparr>]\<rparr>)"
    using assms(1,2)
    by (simp add: claim_step_def NewIdempotencyRepository_def sql_CreateProcessing_def statement_def usable_key_def
        new_record_def Let_def varchar_def status_defs claimed_def)
  show ?thesis
    by (rule claim_two [OF step]) (simp_all add: claim_step_def)
qed

lemma repo_sel: "MarkSucceeded NewIdempotencyRepository = sql_MarkSucceeded"
  "MarkFailedRetryable NewIdempotencyRepository = sql_MarkFailedRetryable"
  by (simp_all add: NewIdempotencyRepository_def)

lemma first_success:
  assumes "db_faults db = []" "wf_db db" "usable_key sha256 opts key fp" "key_row sha256 opts key db = None"
    "marshalStoredResponse RedactText cfg (Some json) = Some stored"
    and run: "Execute sha256 RedactText (Some NewIdempotencyRepository) cfg now later opts
      (Some (works_on work d json)) db = (out, db1)"
  shows "out = Inr \<lparr>res_Data = Fresh d, res_Replayed = False\<rparr> \<and> db_world db1 = work (db_world db)
    \<and> db_faults db1 = [] \<and> (\<exists>x. key_row sha256 opts key db1 = Some x
      \<and> idr_Status x = IdempotencyStatusSucceeded \<and> idr_ResponseBody x = Some stored
      \<and> idr_RequestFingerprint x = fp
      \<and> idr_ExpiresAt x = env_expiresAt (make_env sha256 cfg opts now key fp))"
proof -
  let ?env = "make_env sha256 cfg opts now key fp"
  let ?row = "(new_record ?env)\<lparr>idr_ID := db_seq db + 1, idr_CreatedAt := db_clock db, idr_UpdatedAt := db_clock db\<rparr>"
  let ?f = "\<lambda>r. r\<lparr>idr_Status := IdempotencyStatusSucceeded, idr_ResponseStatus := Some 200,
      idr_ResponseBody := Some stored, idr_ErrorReason := None, idr_LockedUntil := None,
      idr_ExpiresAt := env_expiresAt ?env, idr_UpdatedAt := db_clock db\<rparr>"
  let ?g = "\<lambda>r. if idr_ID r = db_seq db + 1 then ?f r else r"
  have out: "out = Inr \<lparr>res_Data = Fresh d, res_Replayed = False\<rparr>"
    and db1: "db1 = db\<lparr>db_seq := db_seq db + 1, db_rows := map ?g (db_rows db @ [?row]),
      db_world := work (db_world db)\<rparr>"
    using run assms(1,5)
    by (auto simp: Execute_usable [OF assms(3)] claim_new [OF assms(1,3,4,2)] works_on_def finish_def
        repo_sel sql_MarkSucceeded_def statement_def update_rows_def Let_def)
  have "key_row sha256 opts key db1 = Some (?g ?row)"
    unfolding db1 using assms(4)
    by (simp add: find_map_same has_key_def find_append) (simp add: new_record_def)
  moreover have "?g ?row = ?f ?row" by simp
  ultimately show ?thesis
    using out db1 assms(1) by (simp add: new_record_def)
qed

lemma second_call:
  assumes "db_faults db = []" "usable_key sha256 opts key fp" "key_row sha256 opts key db = Some x"
    "now < idr_ExpiresAt x" "idr_RequestFingerprint x = fp"
    "status_switch (make_env sha256 cfg opts now key fp) x = Done out"
  shows "Execute sha256 RedactText (Some NewIdempotencyRepository) cfg now later opts (Some execute) db
    = (out, db\<lparr>db_seq := db_seq db + 1\<rparr>)"
proof -
  have "phase_settled (Done out)" by simp
  note claim = claim_existing [OF assms(1-5) this [folded assms(6)]]
  show ?thesis
    by (simp add: Execute_usable [OF assms(2)] Let_def claim assms(6))
qed

section \<open>Stored answers\<close>

definition demo_opts :: IdempotencyExecuteOptions where
  "demo_opts = \<lparr>opts_Scope = ''s'', opts_ActorScope = ''a'', opts_Method = ''POST'', opts_Route = ''/r'',
     opts_IdempotencyKey = ''k1'', opts_Payload = Some ''{}'', opts_TTL = 0, opts_RequireKey = True\<rparr>"

definition demo_call :: "int \<Rightarrow> (unit, unit idem_db) executor \<Rightarrow> unit idem_db \<Rightarrow> unit outcome \<times> unit idem_db" where
  "demo_call now execute db = Execute (\<lambda>s. ''h'') (\<lambda>s. s) (Some NewIdempotencyRepository) demo_config now (now + 1)
     demo_opts (Some execute) db"

definition demo_fails :: "(unit, unit idem_db) executor" where
  "demo_fails db = (Inl (Other [] None), db)"

lemma demo_usable: "usable_key (\<lambda>s. ''h'') demo_opts ''k1'' ''68''"
proof -
  have "NormalizeIdempotencyKey ''k1'' = Inr ''k1''" "hex_encode ''h'' = ''68''" by code_simp+
  then show ?thesis
    by (simp add: usable_key_def demo_opts_def BuildIdempotencyFingerprint_def HashIdempotencyKey_def varchar_def)
qed

lemma demo_start: "db_faults (demo_records []) = []" "wf_db (demo_records [])"
  "key_row (\<lambda>s. ''h'') demo_opts ''k1'' (demo_records []) = None"
  by (simp_all add: demo_records_def wf_db_def)

lemma demo_expiry: "env_expiresAt (make_env sha256 demo_config demo_opts now key fp) = now + 100"
  by (simp add: make_env_def demo_config_def demo_opts_def)

lemma paren_step: "jstep q stk (CHR '')'') = Some (q', stk') \<Longrightarrow> \<not> jended q'"
  by (cases q; cases stk; cases "hd stk")
    (auto simp: jended_def jstep_defs is_ws_def is_hex_def is_digit_def split: if_splits list.splits)

text \<open>No JSON text ends with a closing parenthesis.\<close>

lemma paren_not_json: "unmarshal_any (s @ '')'') = None"
proof -
  have "trim_ws (s @ '')'') = dropWhile is_ws s @ '')'' \<or> trim_ws (s @ '')'') = '')''"
    by (auto simp: trim_ws_def dropWhile_append is_ws_def)
  moreover have "\<not> json_valid (t @ '')'')" for t
    using paren_step by (fastforce simp: json_valid_def jrun_append split: option.splits prod.splits list.splits)
  from this this [of "[]"] have "\<not> json_valid (t @ '')'')" "\<not> json_valid '')''" for t by simp_all
  ultimately show ?thesis
    by (auto simp: unmarshal_any_def json_scan_def Let_def)
qed

lemma wide_no_paren: "w \<in> set wide_spaces \<Longrightarrow> w \<noteq> [] \<and> last w \<noteq> CHR '')''"
proof -
  have "list_all (\<lambda>w. w \<noteq> [] \<and> last w \<noteq> CHR '')'') wide_spaces" by code_simp
  then show "w \<in> set wide_spaces \<Longrightarrow> ?thesis" by (simp add: list_all_iff)
qed

lemma space_len_less:
  assumes "s \<noteq> []" "last s = CHR '')''"
  shows "space_len s < length s"
proof (cases s)
  case (Cons c r)
  show ?thesis
  proof (cases "find (HasPrefix s) wide_spaces")
    case None
    then show ?thesis
      using assms Cons by (cases r) (auto simp: space_len_def ascii_space_def)
  next
    case (Some w)
    then have w: "w \<in> set wide_spaces" "HasPrefix s w" using find_sound by force+
    then obtain r' where "s = w @ r'" unfolding HasPrefix_def by (metis append_take_drop_id)
    with wide_no_paren [OF w(1)] assms have "length w < length s" by auto
    then show ?thesis
      using assms Cons Some by (cases r) (auto simp: space_len_def ascii_space_def)
  qed
qed (use assms in simp)

lemma TrimLeftSpace_paren:
  "s \<noteq> [] \<Longrightarrow> last s = CHR '')'' \<Longrightarrow> TrimLeftSpace s \<noteq> [] \<and> last (TrimLeftSpace s) = CHR '')''"
proof (induction s rule: TrimLeftSpace.induct)
  case (1 s)
  show ?case
  proof (cases "space_len s = 0")
    case True
    then show ?thesis using 1(2,3) by (simp add: TrimLeftSpace_id)
  next
    case False
    have "drop (space_len s) s \<noteq> []" "last (drop (space_len s) s) = CHR '')''"
      using space_len_less [OF 1(2,3)] 1(3) by (auto simp: last_drop)
    with 1(1) 1(2) False show ?thesis
      by (subst (1 2) TrimLeftSpace.simps) simp
  qed
qed

lemma TrimSpace_paren: "TrimSpace (s @ '')'') \<noteq> []"
proof -
  have t: "TrimLeftSpace (s @ '')'') \<noteq> []" "last (TrimLeftSpace (s @ '')'')) = CHR '')''"
    using TrimLeftSpace_paren [of "s @ '')''"] by simp_all
  then have "space_len_end (TrimLeftSpace (s @ '')'')) = 0"
    by (simp add: space_len_end_def ascii_space_def)
  then show ?thesis
    using t(1) by (simp add: TrimSpace_def TrimRightSpace_id)
qed

definition replayed :: "IdempotencyConfig \<Rightarrow> go_string \<Rightarrow> 'd outcome" where
  "replayed cfg kept =
     (if 0 < cfg_MaxStoredResponseLen cfg \<and> cfg_MaxStoredResponseLen cfg < int (length kept)
      then Inl (App ErrIdempotencyStoreUnavail)
      else if TrimSpace kept = [] then Inr \<lparr>res_Data = EmptyMap, res_Replayed = True\<rparr>
      else (case unmarshal_any kept of None \<Rightarrow> Inl (App ErrIdempotencyStoreUnavail)
        | Some v \<Rightarrow> Inr \<lparr>res_Data = Stored v, res_Replayed = True\<rparr>))"

lemma switch_replayed:
  assumes "marshalStoredResponse RedactText cfg (Some json) = Some stored"
    "idr_Status x = IdempotencyStatusSucceeded" "idr_ResponseBody x = Some stored"
  shows "status_switch env x = Done (replayed cfg (RedactText json))"
proof (cases "0 < cfg_MaxStoredResponseLen cfg \<and> cfg_MaxStoredResponseLen cfg < int (length (RedactText json))")
  case True
  let ?cut = "take (nat (cfg_MaxStoredResponseLen cfg)) (RedactText json) @ ''...(truncated''"
  have "stored = ?cut @ '')''" using assms(1) True by (simp add: marshalStoredResponse_def)
  then show ?thesis
    using assms(2,3) True paren_not_json [of ?cut] TrimSpace_paren [of ?cut]
    by (simp add: status_switch_def decodeStoredResponse_def store_unavailable_def replayed_def del: append_assoc)
next
  case False
  then have "stored = RedactText json" using assms(1) by (auto simp: marshalStoredResponse_def Let_def split: if_splits)
  then show ?thesis
    using assms(2,3) False
    by (auto simp: status_switch_def decodeStoredResponse_def store_unavailable_def replayed_def split: option.splits)
qed

text \<open>
C40. Replay: after a first call with a new key has succeeded, a second call with the same key and payload before
the record expires does not run its executor, whatever that is, and nothing in the database changes but the
sequence of the ids. It answers what is kept of the first answer, its JSON text after redaction: an answer longer
than the configured length is lost, and the second call fails with the error of an unavailable store; a blank one
is answered as an empty map; any other is answered as decoded from its text, with the same error when redaction
has left no JSON. No statement fails during the two calls; the key and the texts fit their columns.
\<close>
theorem replay_after_success:
  assumes "db_faults db = []" "wf_db db" "usable_key sha256 opts key fp" "key_row sha256 opts key db = None"
    "Execute sha256 RedactText (Some NewIdempotencyRepository) cfg now later opts
       (Some (works_on work d json)) db = (out, db1)"
    "now2 < env_expiresAt (make_env sha256 cfg opts now key fp)"
  shows "out = Inr \<lparr>res_Data = Fresh d, res_Replayed = False\<rparr> \<and> db_world db1 = work (db_world db)
    \<and> Execute sha256 RedactText (Some NewIdempotencyRepository) cfg now2 later2 opts (Some execute) db1
       = (replayed cfg (RedactText json), db1\<lparr>db_seq := db_seq db1 + 1\<rparr>)"
proof -
  obtain stored where stored: "marshalStoredResponse RedactText cfg (Some json) = Some stored"
    by (cases "marshalStoredResponse RedactText cfg (Some json)") (auto simp: marshalStoredResponse_def Let_def split: if_splits)
  obtain x where x: "key_row sha256 opts key db1 = Some x" "idr_Status x = IdempotencyStatusSucceeded"
    "idr_ResponseBody x = Some stored" "idr_RequestFingerprint x = fp"
    "idr_ExpiresAt x = env_expiresAt (make_env sha256 cfg opts now key fp)"
    and first: "db_faults db1 = []" "out = Inr \<lparr>res_Data = Fresh d, res_Replayed = False\<rparr>"
      "db_world db1 = work (db_world db)"
    using first_success [OF assms(1-4) stored assms(5)] by blast
  from second_call [OF first(1) assms(3) x(1) _ x(4) switch_replayed [OF stored x(2,3)]] first x(5) assms(6)
  show ?thesis by simp
qed

theorem replay_after_success_witness:
  "demo_call 50 demo_fails (snd (demo_call 0 (works_on (\<lambda>_. ()) () ''{}'') (demo_records [])))
   = (Inr \<lparr>res_Data = Stored ''{}'', res_Replayed = True\<rparr>,
      (snd (demo_call 0 (works_on (\<lambda>_. ()) () ''{}'') (demo_records [])))\<lparr>db_seq :=
         db_seq (snd (demo_call 0 (works_on (\<lambda>_. ()) () ''{}'') (demo_records []))) + 1\<rparr>)"
proof -
  let ?run = "demo_call 0 (works_on (\<lambda>_. ()) () ''{}'') (demo_records [])"
  have "TrimSpace ''{}'' \<noteq> []" "unmarshal_any ''{}'' = Some ''{}''" by code_simp+
  then show ?thesis
    using replay_after_success [OF demo_start(1,2) demo_usable demo_start(3), of "\<lambda>s. s" demo_config 0 1
        "\<lambda>_. ()" "()" "''{}''" "fst ?run" "snd ?run" 50 51 demo_fails]
    by (simp add: demo_expiry demo_call_def replayed_def demo_config_def [THEN arg_cong [where f = cfg_MaxStoredResponseLen]])
qed

text \<open>
An answer longer than the limit is lost: the first call succeeds, but what is stored is cut and
followed by \<open>...(truncated)\<close>, which is not JSON. Until the record expires every repetition of the
request fails with \<open>IDEMPOTENCY_STORE_UNAVAILABLE\<close>.
\<close>
theorem truncated_answer_lost:
  assumes "db_faults db = []" "wf_db db" "usable_key sha256 opts key fp" "key_row sha256 opts key db = None"
    "0 < cfg_MaxStoredResponseLen cfg" "cfg_MaxStoredResponseLen cfg < int (length (RedactText json))"
    "Execute sha256 RedactText (Some NewIdempotencyRepository) cfg now later opts
       (Some (works_on work d json)) db = (out, db1)"
    "now2 < env_expiresAt (make_env sha256 cfg opts now key fp)"
  shows "out = Inr \<lparr>res_Data = Fresh d, res_Replayed = False\<rparr>
    \<and> Execute sha256 RedactText (Some NewIdempotencyRepository) cfg now2 later2 opts (Some execute) db1
       = (Inl (App ErrIdempotencyStoreUnavail), db1\<lparr>db_seq := db_seq db1 + 1\<rparr>)"
proof -
  let ?stored = "(take (nat (cfg_MaxStoredResponseLen cfg)) (RedactText json) @ ''...(truncated'') @ '')''"
  have stored: "marshalStoredResponse RedactText cfg (Some json) = Some ?stored"
    using assms(5,6) by (simp add: marshalStoredResponse_def)
  obtain x where x: "key_row sha256 opts key db1 = Some x" "idr_Status x = IdempotencyStatusSucceeded"
    "idr_ResponseBody x = Some ?stored" "idr_RequestFingerprint x = fp"
    "idr_ExpiresAt x = env_expiresAt (make_env sha256 cfg opts now key fp)"
    and first: "db_faults db1 = []" "out = Inr \<lparr>res_Data = Fresh d, res_Replayed = False\<rparr>"
    using first_success [OF assms(1-4) stored assms(7)] by blast
  have "status_switch (make_env sha256 cfg opts now2 key fp) x = Done (Inl (App ErrIdempotencyStoreUnavail))"
    using x(2,3) paren_not_json [of "take (nat (cfg_MaxStoredResponseLen cfg)) (RedactText json) @ ''...(truncated''"]
      TrimSpace_paren [of "take (nat (cfg_MaxStoredResponseLen cfg)) (RedactText json) @ ''...(truncated''"]
    by (simp add: status_switch_def decodeStoredResponse_def store_unavailable_def del: append_assoc)
  from second_call [OF first(1) assms(3) x(1) _ x(4) this] first x(5) assms(8) show ?thesis by simp
qed

theorem truncated_answer_lost_witness:
  "demo_call 50 demo_fails (snd (demo_call 0 (works_on (\<lambda>_. ()) () ''[1,2,3,4,5,6,7,8,9,10]'') (demo_records [])))
   = (Inl (App ErrIdempotencyStoreUnavail),
      (snd (demo_call 0 (works_on (\<lambda>_. ()) () ''[1,2,3,4,5,6,7,8,9,10]'') (demo_records [])))\<lparr>db_seq :=
         db_seq (snd (demo_call 0 (works_on (\<lambda>_. ()) () ''[1,2,3,4,5,6,7,8,9,10]'') (demo_records []))) + 1\<rparr>)"
proof -
  let ?run = "demo_call 0 (works_on (\<lambda>_. ()) () ''[1,2,3,4,5,6,7,8,9,10]'') (demo_records [])"
  have "0 < cfg_MaxStoredResponseLen demo_config"
    "cfg_MaxStoredResponseLen demo_config < int (length ''[1,2,3,4,5,6,7,8,9,10]'')"
    by (simp_all add: demo_config_def)
  then show ?thesis
    using truncated_answer_lost [OF demo_start(1,2) demo_usable demo_start(3), of demo_config "\<lambda>s. s"
        "''[1,2,3,4,5,6,7,8,9,10]''" 0 1 "\<lambda>_. ()" "()" "fst ?run" "snd ?run" 50 51 demo_fails]
    by (simp add: demo_expiry demo_call_def)
qed

text \<open>
When the process of a caller dies, its record stays in status \<open>processing\<close>: although the lock of the
record is over, every repetition of the request is refused as in progress, to be retried after one
second, until the record expires (by default a day later; the lock lasts 30 seconds).
\<close>
theorem dead_caller_blocks_key:
  assumes "db_faults db = []" "usable_key sha256 opts key fp" "key_row sha256 opts key db = Some x"
    "idr_RequestFingerprint x = fp" "idr_Status x = IdempotencyStatusProcessing"
    "idr_LockedUntil x = Some l" "l \<le> now" "now < idr_ExpiresAt x"
  shows "Execute sha256 RedactText (Some NewIdempotencyRepository) cfg now later opts (Some execute) db
    = (Inl (App (WithMetadata ErrIdempotencyInProgress [(''retry_after'', ''1'')])), db\<lparr>db_seq := db_seq db + 1\<rparr>)"
proof -
  have "(l - now) div second \<le> 0"
    using assms(7) div_nonpos_pos_le0 [of "l - now" second] by (simp add: second_def)
  moreover have "Itoa 1 = ''1''" by code_simp
  ultimately have "status_switch (make_env sha256 cfg opts now key fp) x
      = Done (Inl (App (WithMetadata ErrIdempotencyInProgress [(''retry_after'', ''1'')])))"
    using assms(5,6) by (simp add: status_switch_def conflictWithRetryAfter_def status_defs Let_def)
  from second_call [OF assms(1-3) assms(8) assms(4) this] show ?thesis .
qed

definition dead_row :: IdempotencyRecord where
  "dead_row = \<lparr>idr_ID = 1, idr_Scope = ''s'', idr_IdempotencyKeyHash = ''68'', idr_RequestFingerprint = ''68'',
     idr_Status = IdempotencyStatusProcessing, idr_ResponseStatus = None, idr_ResponseBody = None,
     idr_ErrorReason = None, idr_LockedUntil = Some 30, idr_ExpiresAt = 100, idr_CreatedAt = 0, idr_UpdatedAt = 0\<rparr>"

theorem dead_caller_blocks_key_witness:
  "demo_call 99 demo_fails (demo_records [dead_row])
   = (Inl (App (WithMetadata ErrIdempotencyInProgress [(''retry_after'', ''1'')])), (demo_records [dead_row])\<lparr>db_seq := 8\<rparr>)"
proof -
  have "key_row (\<lambda>s. ''h'') demo_opts ''k1'' (demo_records [dead_row]) = Some dead_row"
  proof -
    have "hex_encode ''h'' = ''68''" by code_simp
    then show ?thesis by (simp add: has_key_def demo_opts_def demo_records_def dead_row_def HashIdempotencyKey_def)
  qed
  from dead_caller_blocks_key [OF _ demo_usable this, of 30 99 "\<lambda>s. s" demo_config 100 demo_fails]
  show ?thesis by (simp add: demo_call_def demo_records_def dead_row_def)
qed

end
