(* ===== verification/Float64.thy ===== *)
theory Float64
  imports Prelude Complex_Main "HOL-Library.Log_Nat"
begin

text \<open>
  Go's \<open>float64\<close>: the finite values are rationals, the result of an operation is the exact result
  rounded to the nearest value of IEEE binary64, ties to even. The sign of zero is not kept: nothing
  the modelled code does tells the two zeros apart.
\<close>

datatype float64 = Finite rat | Infinite bool | NaN

definition pow2 :: "int \<Rightarrow> rat" where
  "pow2 e = (if 0 \<le> e then 2 ^ nat e else 1 / 2 ^ nat (- e))"

text \<open>The exponent of the leading binary digit of a positive rational.\<close>

definition leading :: "rat \<Rightarrow> int" where
  "leading q =
     (case quotient_of q of (a, b) \<Rightarrow>
        let d = bitlen a - bitlen b in if pow2 d \<le> q then d else d - 1)"

definition round_half_even :: "rat \<Rightarrow> int" where
  "round_half_even r =
     (let n = \<lfloor>r\<rfloor>; d = r - of_int n in
      if d < 1 / 2 then n else if 1 / 2 < d then n + 1 else if even n then n else n + 1)"

definition binary64 :: "rat \<Rightarrow> float64" where
  "binary64 q =
     (if q = 0 then Finite 0
      else
        (let e = max (leading \<bar>q\<bar> - 52) (- 1074);
             x = of_int (round_half_even (q / pow2 e)) * pow2 e
         in if 2 ^ 1024 \<le> \<bar>x\<bar> then Infinite (q < 0) else Finite x))"

section \<open>Rounding\<close>

lemma pow2_pos [simp]: "0 < pow2 e"
  by (simp add: pow2_def)

lemma pow2_nonneg [simp]: "0 \<le> pow2 e" "\<bar>pow2 e\<bar> = pow2 e"
  using pow2_pos [of e] by (simp_all add: less_imp_le)

lemma pow2_powr: "pow2 e = (2 :: rat) powi e"
  by (simp add: pow2_def power_int_def inverse_eq_divide power_one_over)

lemma pow2_add: "pow2 (d + e) = pow2 d * pow2 e"
  by (simp add: pow2_powr power_int_add)

lemma pow2_mono: "d \<le> e \<Longrightarrow> pow2 d \<le> pow2 e"
  by (simp add: pow2_powr power_int_increasing)

lemma pow2_nat [simp]: "pow2 (int n) = 2 ^ n"
  by (simp add: pow2_def)

lemma bitlen_between: "0 < a \<Longrightarrow> pow2 (bitlen a - 1) \<le> of_int a \<and> of_int a < pow2 (bitlen a)"
proof -
  assume a: "0 < a"
  then have b: "1 \<le> bitlen a"
    using bitlen_nonneg [of a] by (metis bitlen_def bitlen_eq_zero_iff linorder_not_le zero_less_iff_neq_zero less_le int_one_le_iff_zero_less)
  have "2 ^ nat (bitlen a - 1) \<le> a" "a < 2 ^ nat (bitlen a)"
    using bitlen_bounds [OF a] by auto
  then have "(2 :: rat) ^ nat (bitlen a - 1) \<le> of_int a" "of_int a < (2 :: rat) ^ nat (bitlen a)"
    by (metis of_int_le_iff of_int_numeral of_int_power, metis of_int_less_iff of_int_numeral of_int_power)
  then show ?thesis
    using b by (simp add: pow2_def)
qed

lemma leading_bounds:
  assumes "0 < q"
  shows "pow2 (leading q) \<le> q \<and> q < 2 * pow2 (leading q)"
proof -
  obtain a b where ab: "quotient_of q = (a, b)" by fastforce
  then have b: "0 < b" and q: "q = of_int a / of_int b"
    by (auto simp: quotient_of_denom_pos quotient_of_div)
  with assms have a: "0 < a" by (simp add: zero_less_divide_iff)
  let ?d = "bitlen a - bitlen b"
  have up: "q < 2 * pow2 ?d"
  proof -
    have "q * pow2 (bitlen b - 1) \<le> q * of_int b"
      using bitlen_between [OF b] assms by simp
    also have "\<dots> = of_int a" using b by (simp add: q)
    also have "\<dots> < pow2 (bitlen a)" using bitlen_between [OF a] by simp
    also have "\<dots> = 2 * pow2 ?d * pow2 (bitlen b - 1)"
      using pow2_add [of ?d "bitlen b"] pow2_add [of "bitlen b - 1" 1] by (simp add: pow2_def [of 1])
    finally show ?thesis
      using pow2_nonneg(1) by (rule mult_right_less_imp_less)
  qed
  have low: "pow2 (?d - 1) \<le> q"
  proof -
    have "pow2 (?d - 1) * of_int b \<le> pow2 (?d - 1) * pow2 (bitlen b)"
      using bitlen_between [OF b] by simp
    also have "\<dots> = pow2 (bitlen a - 1)" by (simp flip: pow2_add)
    also have "\<dots> \<le> of_int a" using bitlen_between [OF a] by simp
    also have "\<dots> = q * of_int b" using b by (simp add: q)
    finally show ?thesis using b by simp
  qed
  have "2 * pow2 (?d - 1) = pow2 ?d"
    using pow2_add [of "?d - 1" 1] by (simp add: pow2_def [of 1])
  with up low show ?thesis
    by (auto simp: leading_def ab Let_def)
qed

lemma pow2_unique: "pow2 d \<le> q \<Longrightarrow> q < 2 * pow2 d \<Longrightarrow> pow2 e \<le> q \<Longrightarrow> q < 2 * pow2 e \<Longrightarrow> d = e"
proof (rule ccontr)
  assume h: "pow2 d \<le> q" "q < 2 * pow2 d" "pow2 e \<le> q" "q < 2 * pow2 e" "d \<noteq> e"
  have two: "2 * pow2 x = pow2 (x + 1)" for x
    using pow2_add [of x 1] by (simp add: pow2_def [of 1])
  from h(5) have "d + 1 \<le> e \<or> e + 1 \<le> d" by arith
  then show False
    using h pow2_mono [of "d + 1" e] pow2_mono [of "e + 1" d] by (auto simp: two)
qed

text \<open>The rounding of a value of known magnitude, and of a value that needs no rounding.\<close>

lemma binary64_at:
  assumes "pow2 e * 2 ^ 52 \<le> \<bar>q\<bar>" "\<bar>q\<bar> < pow2 e * 2 ^ 53" "- 1074 \<le> e"
    "round_half_even (q / pow2 e) = n" "\<bar>of_int n\<bar> * pow2 e < 2 ^ 1024"
  shows "binary64 q = Finite (of_int n * pow2 e)"
proof -
  have q: "0 < \<bar>q\<bar>"
    using assms(1) pow2_pos [of e] by (metis le_less_trans less_le mult_pos_pos not_le zero_less_numeral zero_less_power)
  have "pow2 (e + 52) = pow2 e * 2 ^ 52"
    by (simp add: pow2_add pow2_def [of 52])
  then have "leading \<bar>q\<bar> = e + 52"
    using leading_bounds [OF q] assms(1,2) by (intro pow2_unique [of _ "\<bar>q\<bar>"]) auto
  then show ?thesis
    using q assms(3-5) by (auto simp: binary64_def Let_def abs_mult)
qed

lemma round_near: "\<bar>r - of_int n\<bar> < 1 / 2 \<Longrightarrow> round_half_even r = n"
proof -
  assume r: "\<bar>r - of_int n\<bar> < 1 / 2"
  show ?thesis
  proof (cases "of_int n \<le> r")
    case True
    with r have "\<lfloor>r\<rfloor> = n" by (simp add: floor_eq_iff)
    with r show ?thesis by (auto simp: round_half_even_def Let_def abs_less_iff)
  next
    case False
    with r have "\<lfloor>r\<rfloor> = n - 1" by (simp add: floor_eq_iff)
    with r False show ?thesis by (auto simp: round_half_even_def Let_def abs_less_iff)
  qed
qed

lemma binary64_near:
  assumes "pow2 e * 2 ^ 52 \<le> \<bar>q\<bar>" "\<bar>q\<bar> < pow2 e * 2 ^ 53" "- 1074 \<le> e"
    "\<bar>q / pow2 e - of_int n\<bar> < 1 / 2" "\<bar>of_int n\<bar> * pow2 e < 2 ^ 1024"
  shows "binary64 q = Finite (of_int n * pow2 e)"
  by (rule binary64_at [OF assms(1-3) round_near [OF assms(4)] assms(5)])

lemma binary64_int:
  assumes "\<bar>n\<bar> < 2 ^ 53"
  shows "binary64 (of_int n) = Finite (of_int n)"
proof (cases "n = 0")
  case False
  let ?q = "rat_of_int n" and ?l = "leading \<bar>rat_of_int n\<bar>"
  let ?k = "nat (52 - ?l)"
  have big: "1 \<le> \<bar>?q\<bar>" and small: "\<bar>?q\<bar> < 2 ^ 53"
    using False assms by (simp_all flip: of_int_abs)
  then have q: "0 < \<bar>?q\<bar>" by simp
  have "?l < 53"
  proof (rule ccontr)
    assume "\<not> ?l < 53"
    then have "pow2 53 \<le> \<bar>?q\<bar>"
      using leading_bounds [OF q] pow2_mono [of 53 ?l] by simp
    with small show False by (simp add: pow2_def)
  qed
  moreover have "0 \<le> ?l"
  proof (rule ccontr)
    assume "\<not> 0 \<le> ?l"
    then have "2 * pow2 ?l \<le> 2 * pow2 (- 1)"
      by (intro mult_left_mono pow2_mono) simp_all
    with leading_bounds [OF q] big show False by (simp add: pow2_def [of "- 1"])
  qed
  ultimately have "max (?l - 52) (- 1074) = - int ?k" by simp
  then obtain e k where e: "max (?l - 52) (- 1074) = e" and k: "e = - int k" by blast
  have scaled: "?q / pow2 e = of_int (n * 2 ^ k)"
    by (simp add: pow2_def k)
  then have r: "round_half_even (?q / pow2 e) = n * 2 ^ k"
    by (simp add: round_near)
  have exact: "of_int (n * 2 ^ k) * pow2 e = ?q"
    by (simp add: pow2_def k)
  show ?thesis
    using False small unfolding binary64_def Let_def e r exact by simp
qed (simp add: binary64_def)

section \<open>Operations\<close>

fun f_neg :: "float64 \<Rightarrow> float64" where
  "f_neg (Finite x) = Finite (- x)"
| "f_neg (Infinite s) = Infinite (\<not> s)"
| "f_neg NaN = NaN"

fun f_add :: "float64 \<Rightarrow> float64 \<Rightarrow> float64" where
  "f_add (Finite x) (Finite y) = binary64 (x + y)"
| "f_add NaN _ = NaN"
| "f_add _ NaN = NaN"
| "f_add (Infinite s) (Infinite t) = (if s = t then Infinite s else NaN)"
| "f_add (Infinite s) _ = Infinite s"
| "f_add _ (Infinite s) = Infinite s"

definition f_sub :: "float64 \<Rightarrow> float64 \<Rightarrow> float64" where
  "f_sub x y = f_add x (f_neg y)"

fun f_less :: "float64 \<Rightarrow> float64 \<Rightarrow> bool" where
  "f_less (Finite x) (Finite y) = (x < y)"
| "f_less NaN _ = False"
| "f_less _ NaN = False"
| "f_less (Infinite s) (Infinite t) = (s \<and> \<not> t)"
| "f_less (Infinite s) (Finite _) = s"
| "f_less (Finite _) (Infinite s) = (\<not> s)"

fun f_le :: "float64 \<Rightarrow> float64 \<Rightarrow> bool" where
  "f_le (Finite x) (Finite y) = (x \<le> y)"
| "f_le NaN _ = False"
| "f_le _ NaN = False"
| "f_le (Infinite s) (Infinite t) = (s \<or> \<not> t)"
| "f_le (Infinite s) (Finite _) = s"
| "f_le (Finite _) (Infinite s) = (\<not> s)"

text \<open>\<open>math.Abs\<close>, \<open>math.Min\<close>, \<open>math.IsNaN\<close> and \<open>math.IsInf(x, 0)\<close>.\<close>

fun f_abs :: "float64 \<Rightarrow> float64" where
  "f_abs (Finite x) = Finite \<bar>x\<bar>"
| "f_abs (Infinite _) = Infinite False"
| "f_abs NaN = NaN"

definition f_min :: "float64 \<Rightarrow> float64 \<Rightarrow> float64" where
  "f_min x y =
     (if x = Infinite True \<or> y = Infinite True then Infinite True
      else if x = NaN \<or> y = NaN then NaN
      else if f_less x y then x else y)"

definition IsNaN :: "float64 \<Rightarrow> bool" where
  "IsNaN x \<longleftrightarrow> x = NaN"

definition IsInf :: "float64 \<Rightarrow> bool" where
  "IsInf x \<longleftrightarrow> (\<exists>s. x = Infinite s)"

lemma IsInf_code [code]: "IsInf x = (case x of Infinite _ \<Rightarrow> True | _ \<Rightarrow> False)"
  by (auto simp: IsInf_def split: float64.splits)

text \<open>
  \<open>int(x)\<close>: towards zero. A value outside the range of \<open>int64\<close> gives what amd64 gives, the
  smallest integer (the language leaves it open).
\<close>

definition f_trunc :: "float64 \<Rightarrow> int" where
  "f_trunc x =
     (case x of
        Finite q \<Rightarrow> (let n = (if 0 \<le> q then \<lfloor>q\<rfloor> else \<lceil>q\<rceil>) in if int64 n then n else - (2 ^ 63))
      | _ \<Rightarrow> - (2 ^ 63))"

lemma f_less_asym: "f_less x y \<Longrightarrow> \<not> f_less y x"
  by (cases x; cases y) auto

lemma f_le_iff: "f_le x y \<longleftrightarrow> f_less x y \<or> x = y \<and> x \<noteq> NaN"
  by (cases x; cases y) auto

lemma f_less_trans: "f_less x y \<Longrightarrow> f_less y z \<Longrightarrow> f_less x z"
  by (cases x; cases y; cases z) auto

lemma f_not_less: "x \<noteq> NaN \<Longrightarrow> y \<noteq> NaN \<Longrightarrow> \<not> f_less x y \<longleftrightarrow> f_le y x"
  by (cases x; cases y) auto

lemma f_min_le: "x \<noteq> NaN \<Longrightarrow> y \<noteq> NaN \<Longrightarrow> f_le (f_min x y) x \<and> f_le (f_min x y) y"
  by (cases x; cases y) (auto simp: f_min_def)

lemma f_min_cases: "x \<noteq> NaN \<Longrightarrow> y \<noteq> NaN \<Longrightarrow> f_min x y = x \<or> f_min x y = y"
  by (auto simp: f_min_def)

end
