(* ===== verification/PayTypes.thy ===== *)
theory PayTypes
  imports Float64
begin

text \<open>
  The data of the payment system and the code that only computes on it: \<open>payment/types.go\<close>,
  \<open>payment/currency.go\<close>, \<open>service/payment_order_provider_snapshot.go\<close> and the pure functions of
  \<open>service/payment_service.go\<close>, \<open>service/payment_fulfillment.go\<close>, \<open>service/payment_refund.go\<close>,
  \<open>service/payment_order_lifecycle.go\<close> and \<open>service/redeem_code.go\<close>. Times are integers in
  nanoseconds. An error is the tree of its wrappings; where the source prints a number into the
  text of an error, the model keeps the number.
\<close>

section \<open>Errors\<close>

datatype pay_error =
    AppErr int go_string go_string
  | AppText int go_string pay_error
  | Wrapped go_string pay_error
  | Plain go_string
  | InvalidPaidAmount float64
  | AmountMismatch float64 float64
  | NotFoundErr
  | ConstraintErr
  | Unavailable

type_synonym 'a outcome = "pay_error + 'a"

abbreviation BadRequest :: "go_string \<Rightarrow> go_string \<Rightarrow> pay_error" where
  "BadRequest \<equiv> AppErr 400"

abbreviation Forbidden :: "go_string \<Rightarrow> go_string \<Rightarrow> pay_error" where
  "Forbidden \<equiv> AppErr 403"

abbreviation NotFound :: "go_string \<Rightarrow> go_string \<Rightarrow> pay_error" where
  "NotFound \<equiv> AppErr 404"

abbreviation Conflict :: "go_string \<Rightarrow> go_string \<Rightarrow> pay_error" where
  "Conflict \<equiv> AppErr 409"

abbreviation TooManyRequests :: "go_string \<Rightarrow> go_string \<Rightarrow> pay_error" where
  "TooManyRequests \<equiv> AppErr 429"

abbreviation InternalServer :: "go_string \<Rightarrow> go_string \<Rightarrow> pay_error" where
  "InternalServer \<equiv> AppErr 500"

text \<open>
  \<open>errors.Is\<close> along the wrappings; application errors are equal when code and reason are.
  \<open>AppText\<close> is an application error whose message is the text of another error.
\<close>

fun is_app :: "int \<Rightarrow> go_string \<Rightarrow> pay_error \<Rightarrow> bool" where
  "is_app c r (AppErr c' r' _) = (c = c' \<and> r = r')"
| "is_app c r (AppText c' r' _) = (c = c' \<and> r = r')"
| "is_app c r _ = False"

fun errors_Is :: "pay_error \<Rightarrow> pay_error \<Rightarrow> bool" where
  "errors_Is (Wrapped p e) t = (Wrapped p e = t \<or> errors_Is e t)"
| "errors_Is (AppErr c r m) t = is_app c r t"
| "errors_Is (AppText c r e) t = is_app c r t"
| "errors_Is e t = (e = t)"

definition IsNotFound :: "pay_error \<Rightarrow> bool" where
  "IsNotFound e = errors_Is e NotFoundErr"

definition ErrOrderNotFound :: pay_error where
  "ErrOrderNotFound = Plain ''payment order not found''"

definition ErrRedeemCodeNotFound :: pay_error where
  "ErrRedeemCodeNotFound = NotFound ''REDEEM_CODE_NOT_FOUND'' ''redeem code not found''"

definition ErrRedeemCodeUsed :: pay_error where
  "ErrRedeemCodeUsed = Conflict ''REDEEM_CODE_USED'' ''redeem code already used''"

definition ErrRedeemCodeExpired :: pay_error where
  "ErrRedeemCodeExpired = Conflict ''REDEEM_CODE_EXPIRED'' ''redeem code expired''"

definition ErrRedeemRateLimited :: pay_error where
  "ErrRedeemRateLimited =
     TooManyRequests ''REDEEM_RATE_LIMITED'' ''too many failed attempts, please try again later''"

definition ErrRedeemCodeLocked :: pay_error where
  "ErrRedeemCodeLocked =
     Conflict ''REDEEM_CODE_LOCKED'' ''redeem code is being processed, please try again''"

definition ErrUserNotFound :: pay_error where
  "ErrUserNotFound = NotFound ''USER_NOT_FOUND'' ''user not found''"

definition ErrAdjustWouldExpire :: pay_error where
  "ErrAdjustWouldExpire =
     BadRequest ''ADJUST_WOULD_EXPIRE'' ''adjustment would result in expired subscription (remaining days must be > 0)''"

section \<open>Strings\<close>

text \<open>
  \<open>strings.EqualFold\<close> on ASCII and the two letters that fold to an ASCII one (U+017F and U+212A);
  other letters are compared as they are. \<open>strings.ToUpper\<close> likewise, with U+0131 and U+017F.
\<close>

fun fold_case :: "string \<Rightarrow> string" where
  "fold_case (a # b # c # s) =
     (if [a, b, c] = bytes [0xE2, 0x84, 0xAA] then CHR ''K'' # fold_case s
      else if [a, b] = bytes [0xC5, 0xBF] then CHR ''S'' # fold_case (c # s)
      else to_upper_byte a # fold_case (b # c # s))"
| "fold_case [a, b] =
     (if [a, b] = bytes [0xC5, 0xBF] then ''S'' else [to_upper_byte a, to_upper_byte b])"
| "fold_case [a] = [to_upper_byte a]"
| "fold_case [] = []"

definition EqualFold :: "string \<Rightarrow> string \<Rightarrow> bool" where
  "EqualFold s t \<longleftrightarrow> fold_case s = fold_case t"

fun ToUpper :: "string \<Rightarrow> string" where
  "ToUpper (a # b # s) =
     (if [a, b] = bytes [0xC5, 0xBF] then CHR ''S'' # ToUpper s
      else if [a, b] = bytes [0xC4, 0xB1] then CHR ''I'' # ToUpper s
      else to_upper_byte a # ToUpper (b # s))"
| "ToUpper [a] = [to_upper_byte a]"
| "ToUpper [] = []"

fun Split :: "string \<Rightarrow> char \<Rightarrow> string list" where
  "Split [] c = [[]]"
| "Split (x # s) c =
     (if x = c then [] # Split s c
      else (case Split s c of t # ts \<Rightarrow> (x # t) # ts | [] \<Rightarrow> [[x]]))"

text \<open>\<open>strconv.ParseInt(s, 10, 64)\<close>.\<close>

definition ParseInt64 :: "string \<Rightarrow> int option" where
  "ParseInt64 s =
     (let minus = HasPrefix s ''-'';
          ds = (if minus \<or> HasPrefix s ''+'' then tl s else s);
          n = (if minus then - int (dec_val ds) else int (dec_val ds))
      in if ds \<noteq> [] \<and> list_all is_digit ds \<and> int64 n then Some n else None)"

section \<open>Orders\<close>

text \<open>
  The statuses of an order. The column is a string; the code writes only these.
\<close>

datatype OrderStatus =
    OrderStatusPending | OrderStatusPaid | OrderStatusRecharging | OrderStatusCompleted
  | OrderStatusExpired | OrderStatusCancelled | OrderStatusFailed | OrderStatusRefundRequested
  | OrderStatusRefunding | OrderStatusPartiallyRefunded | OrderStatusRefunded
  | OrderStatusRefundFailed

fun status_text :: "OrderStatus \<Rightarrow> go_string" where
  "status_text OrderStatusPending = ''PENDING''"
| "status_text OrderStatusPaid = ''PAID''"
| "status_text OrderStatusRecharging = ''RECHARGING''"
| "status_text OrderStatusCompleted = ''COMPLETED''"
| "status_text OrderStatusExpired = ''EXPIRED''"
| "status_text OrderStatusCancelled = ''CANCELLED''"
| "status_text OrderStatusFailed = ''FAILED''"
| "status_text OrderStatusRefundRequested = ''REFUND_REQUESTED''"
| "status_text OrderStatusRefunding = ''REFUNDING''"
| "status_text OrderStatusPartiallyRefunded = ''PARTIALLY_REFUNDED''"
| "status_text OrderStatusRefunded = ''REFUNDED''"
| "status_text OrderStatusRefundFailed = ''REFUND_FAILED''"

fun psIsRefundStatus :: "OrderStatus \<Rightarrow> bool" where
  "psIsRefundStatus OrderStatusRefundRequested = True"
| "psIsRefundStatus OrderStatusRefunding = True"
| "psIsRefundStatus OrderStatusPartiallyRefunded = True"
| "psIsRefundStatus OrderStatusRefunded = True"
| "psIsRefundStatus OrderStatusRefundFailed = True"
| "psIsRefundStatus _ = False"

definition OrderTypeBalance :: go_string where "OrderTypeBalance = ''balance''"

definition OrderTypeSubscription :: go_string where "OrderTypeSubscription = ''subscription''"

definition EntityStatusActive :: go_string where "EntityStatusActive = ''active''"

definition TypeAlipay :: go_string where "TypeAlipay = ''alipay''"

definition TypeWxpay :: go_string where "TypeWxpay = ''wxpay''"

definition TypeAlipayDirect :: go_string where "TypeAlipayDirect = ''alipay_direct''"

definition TypeWxpayDirect :: go_string where "TypeWxpayDirect = ''wxpay_direct''"

definition TypeStripe :: go_string where "TypeStripe = ''stripe''"

definition TypeCard :: go_string where "TypeCard = ''card''"

definition TypeLink :: go_string where "TypeLink = ''link''"

definition TypeEasyPay :: go_string where "TypeEasyPay = ''easypay''"

definition TypeAirwallex :: go_string where "TypeAirwallex = ''airwallex''"

lemmas payment_type_defs = TypeAlipay_def TypeWxpay_def TypeAlipayDirect_def TypeWxpayDirect_def
  TypeStripe_def TypeCard_def TypeLink_def TypeEasyPay_def TypeAirwallex_def

text \<open>A value of the JSON column \<open>provider_snapshot\<close>, as the type switches of the code see it.\<close>

datatype any_value = AnyString go_string | AnyInt int | AnyFloat float64 | AnyOther

record PaymentOrder =
  o_ID :: int
  o_UserID :: int
  o_Amount :: float64
  o_PayAmount :: float64
  o_RechargeCode :: go_string
  o_OutTradeNo :: go_string
  o_PaymentType :: go_string
  o_PaymentTradeNo :: go_string
  o_OrderType :: go_string
  o_SubscriptionGroupID :: "int option"
  o_SubscriptionDays :: "int option"
  o_ProviderInstanceID :: "go_string option"
  o_ProviderKey :: "go_string option"
  o_ProviderSnapshot :: "(go_string \<times> any_value) list"
  o_Status :: OrderStatus
  o_RefundAmount :: float64
  o_RefundReason :: "go_string option"
  o_RefundAt :: "int option"
  o_ForceRefund :: bool
  o_RefundRequestedAt :: "int option"
  o_RefundRequestReason :: "go_string option"
  o_RefundRequestedBy :: "go_string option"
  o_ExpiresAt :: int
  o_PaidAt :: "int option"
  o_CompletedAt :: "int option"
  o_FailedAt :: "int option"
  o_FailedReason :: "pay_error option"
  o_CreatedAt :: int
  o_UpdatedAt :: int

record PaymentProviderInstance =
  pi_ID :: int
  pi_ProviderKey :: go_string
  pi_Config :: go_string
  pi_SupportedTypes :: go_string
  pi_Enabled :: bool
  pi_PaymentMode :: go_string
  pi_SortOrder :: int
  pi_Limits :: go_string
  pi_RefundEnabled :: bool
  pi_AllowUserRefund :: bool

record PaymentNotification =
  n_TradeNo :: go_string
  n_OrderID :: go_string
  n_Amount :: float64
  n_Status :: go_string
  n_Metadata :: "(go_string \<times> go_string) list"

record CreatePaymentRequest =
  cp_OrderID :: go_string
  cp_Amount :: go_string
  cp_PaymentType :: go_string
  cp_Subject :: go_string
  cp_ReturnURL :: go_string
  cp_OpenID :: go_string
  cp_ClientIP :: go_string
  cp_IsMobile :: bool
  cp_InstanceSubMethods :: go_string

record CreatePaymentResponse =
  cr_TradeNo :: go_string
  cr_PayURL :: go_string
  cr_QRCode :: go_string
  cr_ClientSecret :: go_string
  cr_IntentID :: go_string
  cr_Currency :: go_string
  cr_CountryCode :: go_string
  cr_PaymentEnv :: go_string
  cr_ResultType :: go_string

record QueryOrderResponse =
  q_TradeNo :: go_string
  q_Status :: go_string
  q_Amount :: float64
  q_Metadata :: "(go_string \<times> go_string) list"

record RefundRequest =
  rr_TradeNo :: go_string
  rr_OrderID :: go_string
  rr_Amount :: go_string
  rr_Reason :: go_string

record RefundResponse =
  rp_RefundID :: go_string
  rp_Status :: go_string

definition NotificationStatusSuccess :: go_string where "NotificationStatusSuccess = ''success''"

definition ProviderStatusPending :: go_string where "ProviderStatusPending = ''pending''"

definition ProviderStatusPaid :: go_string where "ProviderStatusPaid = ''paid''"

definition ProviderStatusSuccess :: go_string where "ProviderStatusSuccess = ''success''"

definition ProviderStatusFailed :: go_string where "ProviderStatusFailed = ''failed''"

definition ProviderStatusRefunded :: go_string where "ProviderStatusRefunded = ''refunded''"

definition psStringValue :: "go_string option \<Rightarrow> go_string" where
  "psStringValue v = (case v of None \<Rightarrow> [] | Some s \<Rightarrow> s)"

definition GetBasePaymentType :: "go_string \<Rightarrow> go_string" where
  "GetBasePaymentType t =
     (if t = TypeEasyPay then TypeEasyPay
      else if t = TypeAirwallex then TypeAirwallex
      else if t = TypeStripe \<or> t = TypeCard \<or> t = TypeLink then TypeStripe
      else if HasPrefix t TypeAlipay then TypeAlipay
      else if HasPrefix t TypeWxpay then TypeWxpay
      else t)"

definition normalizeVisibleMethodSupportType :: "go_string \<Rightarrow> go_string" where
  "normalizeVisibleMethodSupportType paymentType =
     (let t = TrimSpace paymentType in
      if t = TypeAlipay \<or> t = TypeAlipayDirect then TypeAlipay
      else if t = TypeWxpay \<or> t = TypeWxpayDirect then TypeWxpay
      else t)"

definition InstanceSupportsType :: "go_string \<Rightarrow> go_string \<Rightarrow> bool" where
  "InstanceSupportsType supportedTypes target =
     (if supportedTypes = [] then True
      else list_ex (\<lambda>t. TrimSpace t = target
             \<or> normalizeVisibleMethodSupportType (TrimSpace t) = normalizeVisibleMethodSupportType target)
           (Split supportedTypes CHR '',''))"

section \<open>Currencies\<close>

record paymentCurrencyAmountUnit =
  apiMinorUnit :: nat
  maxFractionDigits :: nat

definition DefaultPaymentCurrency :: go_string where "DefaultPaymentCurrency = ''CNY''"

definition twoDecimalAmountUnit :: paymentCurrencyAmountUnit where
  "twoDecimalAmountUnit = \<lparr>apiMinorUnit = 2, maxFractionDigits = 2\<rparr>"

definition paymentCurrencyAmountUnits :: "(go_string \<times> paymentCurrencyAmountUnit) list" where
  "paymentCurrencyAmountUnits =
     map (\<lambda>c. (c, \<lparr>apiMinorUnit = 0, maxFractionDigits = 0\<rparr>))
       [''BIF'', ''CLP'', ''DJF'', ''GNF'', ''JPY'', ''KMF'', ''KRW'', ''MGA'', ''PYG'', ''RWF'',
        ''VND'', ''VUV'', ''XAF'', ''XOF'', ''XPF'']
     @ map (\<lambda>c. (c, \<lparr>apiMinorUnit = 2, maxFractionDigits = 0\<rparr>)) [''ISK'', ''UGX'']
     @ map (\<lambda>c. (c, \<lparr>apiMinorUnit = 3, maxFractionDigits = 3\<rparr>))
       [''BHD'', ''IQD'', ''JOD'', ''KWD'', ''LYD'', ''OMR'', ''TND'']"

definition is_upper :: "char \<Rightarrow> bool" where
  "is_upper c \<longleftrightarrow> 65 \<le> (of_char c :: nat) \<and> (of_char c :: nat) \<le> 90"

definition NormalizePaymentCurrency :: "go_string \<Rightarrow> go_string outcome" where
  "NormalizePaymentCurrency raw =
     (let currency = ToUpper (TrimSpace raw);
          bad = Inl (Plain ''payment currency must be a 3-letter ISO currency code'')
      in if currency = [] then Inr DefaultPaymentCurrency
         else if length currency \<noteq> 3 then bad
         else if list_all is_upper currency then Inr currency
         else bad)"

definition paymentCurrencyAmountUnitFor :: "go_string \<Rightarrow> paymentCurrencyAmountUnit" where
  "paymentCurrencyAmountUnitFor currency =
     (case NormalizePaymentCurrency currency of
        Inl _ \<Rightarrow> twoDecimalAmountUnit
      | Inr normalized \<Rightarrow>
          (case map_of paymentCurrencyAmountUnits normalized of
             Some u \<Rightarrow> u
           | None \<Rightarrow> twoDecimalAmountUnit))"

definition CurrencyMinorUnit :: "go_string \<Rightarrow> nat" where
  "CurrencyMinorUnit currency = apiMinorUnit (paymentCurrencyAmountUnitFor currency)"

definition CurrencyMaxFractionDigits :: "go_string \<Rightarrow> nat" where
  "CurrencyMaxFractionDigits currency = maxFractionDigits (paymentCurrencyAmountUnitFor currency)"

definition amountToleranceCNY :: float64 where
  "amountToleranceCNY = binary64 (1 / 100)"

text \<open>\<open>math.Pow10(-n) / 2\<close>: halving is exact.\<close>

definition paymentAmountToleranceForCurrency :: "go_string \<Rightarrow> float64" where
  "paymentAmountToleranceForCurrency currency =
     (let minorUnit = CurrencyMinorUnit currency in
      if minorUnit \<le> 2 then amountToleranceCNY
      else (case binary64 (1 / 10 ^ minorUnit) of Finite x \<Rightarrow> Finite (x / 2) | f \<Rightarrow> f))"

definition isValidProviderAmount :: "float64 \<Rightarrow> bool" where
  "isValidProviderAmount amount \<longleftrightarrow> f_less (Finite 0) amount \<and> \<not> IsNaN amount \<and> \<not> IsInf amount"

section \<open>The provider snapshot of an order\<close>

record paymentOrderProviderSnapshot =
  s_SchemaVersion :: int
  s_ProviderInstanceID :: go_string
  s_ProviderKey :: go_string
  s_PaymentMode :: go_string
  s_MerchantAppID :: go_string
  s_MerchantID :: go_string
  s_Currency :: go_string

fun psSnapshotStringValue :: "any_value option \<Rightarrow> go_string" where
  "psSnapshotStringValue (Some (AnyString s)) = TrimSpace s"
| "psSnapshotStringValue _ = []"

fun psSnapshotIntValue :: "any_value option \<Rightarrow> int" where
  "psSnapshotIntValue (Some (AnyInt n)) = n"
| "psSnapshotIntValue (Some (AnyFloat f)) = f_trunc f"
| "psSnapshotIntValue (Some (AnyString s)) =
     (case ParseInt64 (TrimSpace s) of Some n \<Rightarrow> n | None \<Rightarrow> 0)"
| "psSnapshotIntValue _ = 0"

definition psOrderProviderSnapshot :: "PaymentOrder \<Rightarrow> paymentOrderProviderSnapshot option" where
  "psOrderProviderSnapshot order =
     (if o_ProviderSnapshot order = [] then None
      else
        (let text = (\<lambda>k. psSnapshotStringValue (map_of (o_ProviderSnapshot order) k));
             snapshot = \<lparr>
               s_SchemaVersion = psSnapshotIntValue (map_of (o_ProviderSnapshot order) ''schema_version''),
               s_ProviderInstanceID = text ''provider_instance_id'',
               s_ProviderKey = text ''provider_key'',
               s_PaymentMode = text ''payment_mode'',
               s_MerchantAppID = text ''merchant_app_id'',
               s_MerchantID = text ''merchant_id'',
               s_Currency = text ''currency''\<rparr>
         in if s_SchemaVersion snapshot = 0 \<and> s_ProviderInstanceID snapshot = []
               \<and> s_ProviderKey snapshot = [] \<and> s_PaymentMode snapshot = []
               \<and> s_MerchantAppID snapshot = [] \<and> s_MerchantID snapshot = []
               \<and> s_Currency snapshot = []
            then None else Some snapshot))"

definition PaymentOrderCurrency :: "PaymentOrder \<Rightarrow> go_string" where
  "PaymentOrderCurrency order =
     (case psOrderProviderSnapshot order of
        Some snapshot \<Rightarrow>
          (case NormalizePaymentCurrency (s_Currency snapshot) of
             Inr currency \<Rightarrow> currency
           | Inl _ \<Rightarrow> DefaultPaymentCurrency)
      | None \<Rightarrow> DefaultPaymentCurrency)"

definition psHasPinnedProviderInstance :: "PaymentOrder \<Rightarrow> bool" where
  "psHasPinnedProviderInstance order \<longleftrightarrow>
     psOrderProviderSnapshot order \<noteq> None
     \<or> (case o_ProviderInstanceID order of None \<Rightarrow> False | Some i \<Rightarrow> TrimSpace i \<noteq> [])"

end
