(* ===== verification/Interference.thy ===== *)
theory Interference
  imports Prelude "HOL-Library.State_Monad"
begin

text \<open>
  Code that works on a store it shares with other processes. A command is a state transformer
  (\<open>HOL-Library.State_Monad\<close>) on the store and a schedule. Each statement takes one entry of the
  schedule: what the other processes do to the store before it, and whether the statement works,
  fails before it has done anything, or does its work and loses the answer. An empty schedule means
  a quiet run without faults. The locale \<open>shared_store\<close> is the rely/guarantee reasoning about such
  commands: what every process keeps is a relation on stores, proved once for each kind of statement.
\<close>

section \<open>Commands\<close>

record 'd machine =
  db :: 'd
  sched :: "(('d \<Rightarrow> 'd) \<times> fault) list"

type_synonym ('d, 'a) cmd = "('d machine, 'a) state"

abbreviation ret :: "'a \<Rightarrow> ('d, 'a) cmd" where
  "ret \<equiv> State_Monad.return"

text \<open>One statement: \<open>lost\<close> is the error of a statement that fails.\<close>

definition stmt :: "'e \<Rightarrow> ('d \<Rightarrow> ('e + 'a) \<times> 'd) \<Rightarrow> ('d, 'e + 'a) cmd" where
  "stmt lost run =
     State (\<lambda>m.
       case sched m of
         [] \<Rightarrow> (case run (db m) of (x, d) \<Rightarrow> (x, m\<lparr>db := d\<rparr>))
       | (others, f) # rest \<Rightarrow>
           (let d0 = others (db m); m = m\<lparr>sched := rest\<rparr> in
            case f of
              Works \<Rightarrow> (case run d0 of (x, d) \<Rightarrow> (x, m\<lparr>db := d\<rparr>))
            | FailsBefore \<Rightarrow> (Inl lost, m\<lparr>db := d0\<rparr>)
            | FailsAfter \<Rightarrow> (Inl lost, m\<lparr>db := snd (run d0)\<rparr>)))"

text \<open>Reading without a statement: the clock, or what is in memory.\<close>

definition peek :: "('d \<Rightarrow> 'a) \<Rightarrow> ('d, 'a) cmd" where
  "peek f = State (\<lambda>m. (f (db m), m))"

text \<open>
  A transaction: its statements see and change the store as it is at the beginning, the others act
  before or after it, and \<open>undo before after\<close> is the store after a rollback. \<open>begin_err\<close> and
  \<open>commit_err\<close> are the errors of the two ends.
\<close>

definition quiet :: "('d \<Rightarrow> 'd) \<times> fault \<Rightarrow> ('d \<Rightarrow> 'd) \<times> fault" where
  "quiet e = (id, snd e)"

text \<open>The end of a transaction that began on \<open>m\<close>, with the result of its body.\<close>

definition settle :: "('d \<Rightarrow> 'd \<Rightarrow> 'd) \<Rightarrow> 'e \<Rightarrow> 'd machine \<Rightarrow> ('e + 'a) \<times> 'd machine
    \<Rightarrow> ('e + 'a) \<times> 'd machine" where
  "settle undo commit_err m r =
     (case r of (x, m') \<Rightarrow>
        let rest = drop (length (sched m) - length (sched m')) (sched m);
            undone = undo (db m) (db m')
        in case x of
             Inl e \<Rightarrow> (Inl e, m\<lparr>db := undone, sched := rest\<rparr>)
           | Inr y \<Rightarrow>
               (case map snd (take 1 rest) of
                  [FailsBefore] \<Rightarrow> (Inl commit_err, m\<lparr>db := undone, sched := tl rest\<rparr>)
                | [FailsAfter] \<Rightarrow> (Inl commit_err, m\<lparr>db := db m', sched := tl rest\<rparr>)
                | _ \<Rightarrow> (Inr y, m\<lparr>db := db m', sched := tl rest\<rparr>)))"

definition transaction ::
    "('d \<Rightarrow> 'd \<Rightarrow> 'd) \<Rightarrow> 'e \<Rightarrow> 'e \<Rightarrow> ('d, 'e + 'a) cmd \<Rightarrow> ('d, 'e + 'a) cmd" where
  "transaction undo begin_err commit_err body = do {
     begun \<leftarrow> stmt begin_err (\<lambda>d. (Inr (), d));
     case begun of Inl e \<Rightarrow> ret (Inl e)
     | Inr _ \<Rightarrow> State (\<lambda>m. settle undo commit_err m
                            (run_state body (m\<lparr>sched := map quiet (sched m)\<rparr>)))
   }"

lemma settle_cases:
  assumes "settle undo c m (x, m') = (y, n)"
  obtains (undone) e k where "y = Inl e" "db n = undo (db m) (db m')" "sched n = drop k (sched m)"
  | (kept) z k where "x = Inr z" "db n = db m'" "sched n = drop k (sched m)" "y = Inl c \<or> y = Inr z"
proof -
  let ?k = "length (sched m) - length (sched m')"
  have tl: "tl (drop ?k (sched m)) = drop (Suc ?k) (sched m)"
    by (simp add: drop_Suc tl_drop)
  show ?thesis
    using assms that tl
    by (auto simp: settle_def Let_def split: sum.splits list.splits fault.splits)
qed

text \<open>Inside a transaction nobody else acts.\<close>

definition calm :: "'d machine \<Rightarrow> bool" where
  "calm m \<longleftrightarrow> list_all (\<lambda>e. fst e = id) (sched m)"

lemma stmt_calm:
  assumes "calm m" "run_state (stmt e run) m = (x, m')"
  obtains (fails) "calm m'" "x = Inl e" "db m' = db m \<or> db m' = snd (run (db m))"
  | (works) "calm m'" "x = fst (run (db m))" "db m' = snd (run (db m))"
  using assms by (auto simp: calm_def stmt_def Let_def split: list.splits fault.splits prod.splits)

section \<open>What every process keeps\<close>

text \<open>
  \<open>step d ms d'\<close>: one process takes the store from \<open>d\<close> to \<open>d'\<close>, with the effects \<open>ms\<close> to be
  accounted for. A run is a sequence of steps with all their effects.
\<close>

inductive run_of :: "('d \<Rightarrow> 'm list \<Rightarrow> 'd \<Rightarrow> bool) \<Rightarrow> 'd \<Rightarrow> 'm list \<Rightarrow> 'd \<Rightarrow> bool"
  for step where
  stay: "run_of step d [] d"
| move: "run_of step d ms d' \<Longrightarrow> step d' ns d'' \<Longrightarrow> run_of step d (ms @ ns) d''"

lemma run_of_one: "step d ms d' \<Longrightarrow> run_of step d ms d'"
  using run_of.move [OF run_of.stay] by fastforce

lemma run_of_trans:
  "run_of step d' ns d'' \<Longrightarrow> run_of step d ms d' \<Longrightarrow> run_of step d (ms @ ns) d''"
proof (induction rule: run_of.induct)
  case (move d' ns e ks f)
  then show ?case
    using run_of.move [of step d "ms @ ns" e ks f] by simp
qed simp

definition stable :: "('d \<Rightarrow> 'm list \<Rightarrow> 'd \<Rightarrow> bool) \<Rightarrow> ('d \<Rightarrow> bool) \<Rightarrow> bool" where
  "stable step P \<longleftrightarrow> (\<forall>d ms d'. P d \<longrightarrow> step d ms d' \<longrightarrow> P d')"

lemma stable_run: "run_of step d ms d' \<Longrightarrow> stable step P \<Longrightarrow> P d \<Longrightarrow> P d'"
  by (induction rule: run_of.induct) (auto simp: stable_def)

lemma stable_True [simp]: "stable step (\<lambda>_. True)"
  by (simp add: stable_def)

lemma stable_conj: "stable step P \<Longrightarrow> stable step Q \<Longrightarrow> stable step (\<lambda>d. P d \<and> Q d)"
  unfolding stable_def by blast

section \<open>Rely and guarantee\<close>

text \<open>
  All processes keep \<open>step\<close> and with it the invariant. A command that starts in \<open>P\<close>, with others
  that keep to \<open>step\<close> and any faults, only makes steps and ends in \<open>Q\<close>.
\<close>

locale shared_store =
  fixes step :: "'d \<Rightarrow> 'm list \<Rightarrow> 'd \<Rightarrow> bool"
    and inv :: "'d \<Rightarrow> bool"
  assumes inv_step: "inv d \<Longrightarrow> step d ms d' \<Longrightarrow> inv d'"
begin

definition reach :: "'d \<Rightarrow> 'd \<Rightarrow> bool" where
  "reach d d' \<longleftrightarrow> (\<exists>ms. run_of step d ms d')"

definition keeps :: "('d \<Rightarrow> bool) \<Rightarrow> bool" where
  "keeps P \<longleftrightarrow> (\<forall>d ms d'. inv d \<longrightarrow> P d \<longrightarrow> step d ms d' \<longrightarrow> P d')"

definition polite :: "(('d \<Rightarrow> 'd) \<times> fault) list \<Rightarrow> bool" where
  "polite es \<longleftrightarrow> (\<forall>e\<in>set es. \<forall>d. inv d \<longrightarrow> reach d (fst e d))"

definition rg :: "('d \<Rightarrow> bool) \<Rightarrow> ('d, 'a) cmd \<Rightarrow> ('a \<Rightarrow> 'd \<Rightarrow> bool) \<Rightarrow> bool" where
  "rg P c Q \<longleftrightarrow>
     (\<forall>m x m'. inv (db m) \<longrightarrow> polite (sched m) \<longrightarrow> P (db m) \<longrightarrow> run_state c m = (x, m')
        \<longrightarrow> polite (sched m') \<and> reach (db m) (db m') \<and> Q x (db m'))"

lemma reach_refl [simp]: "reach d d"
  unfolding reach_def using run_of.stay [of step d] by blast

lemma reach_step: "step d ms d' \<Longrightarrow> reach d d'"
  unfolding reach_def using run_of_one [of step d ms d'] by blast

lemma reach_trans: "reach d d' \<Longrightarrow> reach d' d'' \<Longrightarrow> reach d d''"
  unfolding reach_def using run_of_trans [of step d' _ d'' d] by blast

lemma inv_run: "run_of step d ms d' \<Longrightarrow> inv d \<Longrightarrow> inv d'"
  by (induction rule: run_of.induct) (auto intro: inv_step)

lemma inv_reach: "reach d d' \<Longrightarrow> inv d \<Longrightarrow> inv d'"
  unfolding reach_def using inv_run by blast

lemma keeps_run: "run_of step d ms d' \<Longrightarrow> keeps P \<Longrightarrow> inv d \<Longrightarrow> P d \<Longrightarrow> P d'"
proof (induction rule: run_of.induct)
  case (move d ms d' ns d'')
  then show ?case
    using inv_run [OF move.hyps(1)] unfolding keeps_def by blast
qed simp

lemma keeps_reach: "reach d d' \<Longrightarrow> keeps P \<Longrightarrow> inv d \<Longrightarrow> P d \<Longrightarrow> P d'"
  unfolding reach_def using keeps_run by blast

lemma keeps_True [simp]: "keeps (\<lambda>_. True)" "keeps (\<lambda>_. b)"
  by (simp_all add: keeps_def)

lemma keeps_conj: "keeps P \<Longrightarrow> keeps Q \<Longrightarrow> keeps (\<lambda>d. P d \<and> Q d)"
  unfolding keeps_def by blast

lemma rgD:
  "rg P c Q \<Longrightarrow> run_state c m = (x, m') \<Longrightarrow> inv (db m) \<Longrightarrow> polite (sched m) \<Longrightarrow> P (db m)
    \<Longrightarrow> polite (sched m') \<and> reach (db m) (db m') \<and> Q x (db m')"
  unfolding rg_def by blast

lemma rg_ret: "(\<And>d. P d \<Longrightarrow> Q x d) \<Longrightarrow> rg P (ret x) Q"
  by (simp add: rg_def)

lemma rg_peek: "(\<And>d. P d \<Longrightarrow> Q (f d) d) \<Longrightarrow> rg P (peek f) Q"
  by (auto simp: rg_def peek_def)

lemma rg_bind:
  assumes c: "rg P c R" and k: "\<And>x. rg (R x) (k x) Q"
  shows "rg P (State_Monad.bind c k) Q"
  unfolding rg_def
proof (intro allI impI)
  fix m x m''
  assume h: "inv (db m)" "polite (sched m)" "P (db m)" "run_state (State_Monad.bind c k) m = (x, m'')"
  obtain y m' where y: "run_state c m = (y, m')" by fastforce
  with h(4) have z: "run_state (k y) m' = (x, m'')" by simp
  have one: "polite (sched m')" "reach (db m) (db m')" "R y (db m')"
    using rgD [OF c y h(1-3)] by auto
  have "polite (sched m'') \<and> reach (db m') (db m'') \<and> Q x (db m'')"
    using rgD [OF k z inv_reach [OF one(2) h(1)] one(1,3)] by simp
  with one(2) show "polite (sched m'') \<and> reach (db m) (db m'') \<and> Q x (db m'')"
    using reach_trans by blast
qed

lemma rg_conseq: "rg P c Q \<Longrightarrow> (\<And>d. P' d \<Longrightarrow> P d) \<Longrightarrow> (\<And>x d. Q x d \<Longrightarrow> Q' x d) \<Longrightarrow> rg P' c Q'"
  unfolding rg_def by blast

lemma rg_frame:
  assumes "rg P c Q" "keeps R"
  shows "rg (\<lambda>d. P d \<and> R d) c (\<lambda>x d. Q x d \<and> R d)"
  using assms keeps_reach unfolding rg_def by blast

lemma rg_stmt:
  assumes P: "keeps P"
    and run: "\<And>d. inv d \<Longrightarrow> P d \<Longrightarrow> reach d (snd (run d)) \<and> Q (fst (run d)) (snd (run d))"
    and lost: "\<And>d. inv d \<Longrightarrow> P d \<Longrightarrow> Q (Inl e) d \<and> Q (Inl e) (snd (run d))"
  shows "rg P (stmt e run) Q"
  unfolding rg_def
proof (intro allI impI)
  fix m x m'
  assume h: "inv (db m)" "polite (sched m)" "P (db m)" "run_state (stmt e run) m = (x, m')"
  show "polite (sched m') \<and> reach (db m) (db m') \<and> Q x (db m')"
  proof (cases "sched m")
    case Nil
    with h run [OF h(1,3)] show ?thesis by (auto simp: stmt_def split: prod.splits)
  next
    case (Cons ev rest)
    obtain f o' where ev: "ev = (f, o')" by fastforce
    have rest: "polite rest" using h(2) Cons by (simp add: polite_def)
    have to: "reach (db m) (f (db m))"
      using h(1,2) Cons ev by (auto simp: polite_def)
    have d0: "inv (f (db m))" "P (f (db m))"
      using inv_reach [OF to h(1)] keeps_reach [OF to P h(1,3)] by auto
    show ?thesis
      using h(4) Cons ev rest to reach_trans [OF to] run [OF d0] lost [OF d0]
      by (auto simp: stmt_def Let_def split: fault.splits prod.splits)
  qed
qed

lemma polite_drop: "polite es \<Longrightarrow> polite (drop n es)"
  using set_drop_subset [of n es] unfolding polite_def by blast

text \<open>A transaction is one step when it commits; undone it must be a step too.\<close>

lemma rg_transaction:
  assumes P: "keeps P"
    and body: "\<And>m x m'. inv (db m) \<Longrightarrow> P (db m) \<Longrightarrow> calm m
      \<Longrightarrow> run_state body m = (x, m')
      \<Longrightarrow> reach (db m) (undo (db m) (db m')) \<and> (\<forall>y. x = Inr y \<longrightarrow> reach (db m) (db m') \<and> Q (Inr y) (db m'))"
    and bad: "\<And>e d. P d \<Longrightarrow> Q (Inl e) d" "\<And>e. keeps (Q (Inl e))"
  shows "rg P (transaction undo b c body) Q"
  unfolding transaction_def
proof (rule rg_bind [where R = "\<lambda>_. P"])
  show "rg P (stmt b (\<lambda>d. (Inr (), d))) (\<lambda>_. P)"
    using P by (intro rg_stmt) auto
  fix begun :: "'a + unit"
  have bad_later: "Q (Inl e) d'" if "P d" "inv d" "reach d d'" for d d' e
    using bad keeps_reach that by blast
  have "polite (sched n) \<and> reach (db m) (db n) \<and> Q y (db n)"
    if h: "inv (db m)" "polite (sched m)" "P (db m)"
      and n: "settle undo c m (run_state body (m\<lparr>sched := map quiet (sched m)\<rparr>)) = (y, n)" for m y n
  proof -
    obtain x m' where r: "run_state body (m\<lparr>sched := map quiet (sched m)\<rparr>) = (x, m')" by fastforce
    have "calm (m\<lparr>sched := map quiet (sched m)\<rparr>)"
      by (simp add: calm_def list_all_iff quiet_def)
    then have b: "reach (db m) (undo (db m) (db m'))"
      "\<And>z. x = Inr z \<Longrightarrow> reach (db m) (db m') \<and> Q (Inr z) (db m')"
      using body [of "m\<lparr>sched := map quiet (sched m)\<rparr>" x m'] h r by auto
    from n [unfolded r] show ?thesis
    proof (cases rule: settle_cases)
      case undone
      then show ?thesis using b(1) polite_drop [OF h(2)] bad_later [OF h(3,1)] by simp
    next
      case kept
      then show ?thesis using b(2) polite_drop [OF h(2)] bad_later [OF h(3,1)] by auto
    qed
  qed
  then have "rg P (State (\<lambda>m. settle undo c m (run_state body (m\<lparr>sched := map quiet (sched m)\<rparr>)))) Q"
    unfolding rg_def by simp
  then show "rg P (case begun of Inl e \<Rightarrow> ret (Inl e)
      | Inr _ \<Rightarrow> State (\<lambda>m. settle undo c m (run_state body (m\<lparr>sched := map quiet (sched m)\<rparr>)))) Q"
    using bad(1) by (cases begun) (auto intro: rg_ret)
qed

text \<open>A fallible command and the two ways to go on.\<close>

lemma rg_bind_sum:
  assumes "rg P c (\<lambda>x d. case x of Inl e \<Rightarrow> E e d | Inr y \<Rightarrow> R y d)"
    "\<And>e. rg (E e) (f e) Q" "\<And>y. rg (R y) (g y) Q"
  shows "rg P (State_Monad.bind c (\<lambda>x. case x of Inl e \<Rightarrow> f e | Inr y \<Rightarrow> g y)) Q"
  using assms(1)
proof (rule rg_bind)
  fix x
  show "rg (\<lambda>d. case x of Inl e \<Rightarrow> E e d | Inr y \<Rightarrow> R y d) (case x of Inl e \<Rightarrow> f e | Inr y \<Rightarrow> g y) Q"
    using assms(2,3) by (cases x) auto
qed

lemma rg_pure: "(\<phi> \<Longrightarrow> rg P c Q) \<Longrightarrow> rg (\<lambda>d. P d \<and> \<phi>) c Q"
  unfolding rg_def by blast

lemma rg_if: "(b \<Longrightarrow> rg P x Q) \<Longrightarrow> (\<not> b \<Longrightarrow> rg P y Q) \<Longrightarrow> rg P (if b then x else y) Q"
  by simp

end

end
