(* ===== verification/PayDb.thy ===== *)
theory PayDb
  imports PayTypes Interference
begin

text \<open>
  The database of the payment system: the tables \<open>payment_orders\<close>, \<open>payment_audit_logs\<close>,
  \<open>redeem_codes\<close>, \<open>users\<close> and \<open>payment_provider_instances\<close> with the statements the code issues on
  them (\<open>repository/redeem_code_repo.go\<close>, \<open>repository/user_repo.go\<close> and the queries written in the
  services), the clock, the rest of the database (\<open>'w\<close>: subscriptions, affiliates) and what is
  outside of it (\<open>'g\<close>: the payment gateways and the cache), which a rollback does not undo. Every
  statement may fail and other processes may act before it (\<open>Interference\<close>). Balances are the
  numbers of the column, in units of its scale; \<open>numeric\<close> is how driver and database convert.
  Columns the modelled code does not read (notes, names, links) are left out.
\<close>

section \<open>Rows\<close>

record PaymentAuditLog =
  a_OrderID :: int
  a_Action :: go_string
  a_Operator :: go_string
  a_CreatedAt :: int

record RedeemCode =
  rc_ID :: int
  rc_Code :: go_string
  rc_Type :: go_string
  rc_Value :: float64
  rc_Status :: go_string
  rc_UsedBy :: "int option"
  rc_UsedAt :: "int option"
  rc_ExpiresAt :: "int option"
  rc_GroupID :: "int option"
  rc_ValidityDays :: int

record User =
  u_ID :: int
  u_Balance :: int
  u_TotalRecharged :: int
  u_Concurrency :: int
  u_Status :: go_string

definition StatusUnused :: go_string where "StatusUnused = ''unused''"

definition StatusUsed :: go_string where "StatusUsed = ''used''"

definition StatusExpired :: go_string where "StatusExpired = ''expired''"

definition RedeemTypeBalance :: go_string where "RedeemTypeBalance = ''balance''"

definition RedeemTypeConcurrency :: go_string where "RedeemTypeConcurrency = ''concurrency''"

definition RedeemTypeSubscription :: go_string where "RedeemTypeSubscription = ''subscription''"

definition RedeemTypeInvitation :: go_string where "RedeemTypeInvitation = ''invitation''"

lemmas code_status_defs = StatusUnused_def StatusUsed_def StatusExpired_def

definition IsUsed :: "RedeemCode \<Rightarrow> bool" where
  "IsUsed r \<longleftrightarrow> rc_Status r = StatusUsed"

definition IsExpiredAt :: "int \<Rightarrow> RedeemCode \<Rightarrow> bool" where
  "IsExpiredAt now r \<longleftrightarrow>
     rc_Status r = StatusExpired
     \<or> rc_Status r = StatusUnused \<and> (case rc_ExpiresAt r of None \<Rightarrow> False | Some t \<Rightarrow> t \<le> now)"

definition CanUse :: "int \<Rightarrow> RedeemCode \<Rightarrow> bool" where
  "CanUse now r \<longleftrightarrow> rc_Status r = StatusUnused \<and> \<not> IsExpiredAt now r"

section \<open>The database\<close>

text \<open>
  How a \<open>float64\<close> parameter becomes a number of a \<open>decimal(20, s)\<close> column, in units of \<open>10 ^ - s\<close>,
  and how such a number is read back.
\<close>

record numeric =
  to_column :: "nat \<Rightarrow> float64 \<Rightarrow> int"
  from_column :: "nat \<Rightarrow> int \<Rightarrow> float64"

definition stored :: "numeric \<Rightarrow> nat \<Rightarrow> float64 \<Rightarrow> float64" where
  "stored num s x = from_column num s (to_column num s x)"

record ('w, 'g) pay_db =
  d_orders :: "PaymentOrder list"
  d_order_seq :: int
  d_audits :: "PaymentAuditLog list"
  d_codes :: "RedeemCode list"
  d_code_seq :: int
  d_users :: "User list"
  d_instances :: "PaymentProviderInstance list"
  d_clock :: int
  d_world :: 'w
  d_outside :: 'g

type_synonym ('w, 'g, 'a) pay = "(('w, 'g) pay_db, 'a) cmd"

text \<open>\<open>time.Now()\<close>.\<close>

definition time_Now :: "('w, 'g, int) pay" where
  "time_Now = peek d_clock"

definition rollback :: "('w, 'g) pay_db \<Rightarrow> ('w, 'g) pay_db \<Rightarrow> ('w, 'g) pay_db" where
  "rollback before after = before\<lparr>d_outside := d_outside after\<rparr>"

definition Tx :: "go_string \<Rightarrow> go_string \<Rightarrow> ('w, 'g, 'a outcome) pay \<Rightarrow> ('w, 'g, 'a outcome) pay" where
  "Tx begin_text commit_text =
     transaction rollback (Wrapped begin_text Unavailable) (Wrapped commit_text Unavailable)"

text \<open>A call of something outside the database: a gateway, the cache.\<close>

definition outside :: "('g \<Rightarrow> 'a outcome \<times> 'g) \<Rightarrow> ('w, 'g, 'a outcome) pay" where
  "outside run = stmt Unavailable (\<lambda>d. case run (d_outside d) of (x, g) \<Rightarrow> (x, d\<lparr>d_outside := g\<rparr>))"

text \<open>A call of another service on the rest of the database.\<close>

definition world :: "('w \<Rightarrow> 'a outcome \<times> 'w) \<Rightarrow> ('w, 'g, 'a outcome) pay" where
  "world run = stmt Unavailable (\<lambda>d. case run (d_world d) of (x, w) \<Rightarrow> (x, d\<lparr>d_world := w\<rparr>))"

section \<open>Orders\<close>

definition order_Get :: "int \<Rightarrow> ('w, 'g, PaymentOrder outcome) pay" where
  "order_Get i =
     stmt Unavailable (\<lambda>d.
       (case find (\<lambda>o'. o_ID o' = i) (d_orders d) of None \<Rightarrow> Inl NotFoundErr | Some o' \<Rightarrow> Inr o', d))"

text \<open>\<open>Query().Where(OutTradeNo(n)).Only(ctx)\<close>: exactly one.\<close>

definition order_Only :: "go_string \<Rightarrow> ('w, 'g, PaymentOrder outcome) pay" where
  "order_Only outTradeNo =
     stmt Unavailable (\<lambda>d.
       (case filter (\<lambda>o'. o_OutTradeNo o' = outTradeNo) (d_orders d) of
          [] \<Rightarrow> Inl NotFoundErr | [o'] \<Rightarrow> Inr o' | _ \<Rightarrow> Inl (Plain ''not singular''), d))"

text \<open>
  \<open>Update().Where(p).Set...Save(ctx)\<close>: every row that satisfies the condition is changed, its
  \<open>updated_at\<close> is set to the clock, and the rows are counted.
\<close>

definition touch :: "int \<Rightarrow> PaymentOrder \<Rightarrow> PaymentOrder" where
  "touch now o' = o'\<lparr>o_UpdatedAt := now\<rparr>"

definition set_orders :: "(PaymentOrder \<Rightarrow> bool) \<Rightarrow> (PaymentOrder \<Rightarrow> PaymentOrder)
    \<Rightarrow> ('w, 'g) pay_db \<Rightarrow> ('w, 'g) pay_db" where
  "set_orders p f d =
     d\<lparr>d_orders := map (\<lambda>o'. if p o' then touch (d_clock d) (f o') else o') (d_orders d)\<rparr>"

definition order_Update ::
    "(PaymentOrder \<Rightarrow> bool) \<Rightarrow> (PaymentOrder \<Rightarrow> PaymentOrder) \<Rightarrow> ('w, 'g, nat outcome) pay" where
  "order_Update p f =
     stmt Unavailable (\<lambda>d. (Inr (length (filter p (d_orders d))), set_orders p f d))"

definition order_UpdateOneID ::
    "int \<Rightarrow> (PaymentOrder \<Rightarrow> PaymentOrder) \<Rightarrow> ('w, 'g, unit outcome) pay" where
  "order_UpdateOneID i f =
     stmt Unavailable (\<lambda>d.
       if list_ex (\<lambda>o'. o_ID o' = i) (d_orders d)
       then (Inr (), set_orders (\<lambda>o'. o_ID o' = i) f d)
       else (Inl NotFoundErr, d))"

text \<open>
  A new row: the identifier is the next of the sequence, the times of creation and change are the
  clock, the amounts are rounded to the columns and numbers in the snapshot are read back as
  \<open>float64\<close>. ent refuses texts longer than the schema allows; a trade number is \<open>UNIQUE\<close> unless it is
  empty (migration 120).
\<close>

fun json_stored :: "any_value \<Rightarrow> any_value" where
  "json_stored (AnyInt n) = AnyFloat (binary64 (of_int n))"
| "json_stored v = v"

definition stored_order :: "numeric \<Rightarrow> int \<Rightarrow> int \<Rightarrow> PaymentOrder \<Rightarrow> PaymentOrder" where
  "stored_order num i now x =
     x\<lparr>o_ID := i, o_Amount := stored num 2 (o_Amount x), o_PayAmount := stored num 2 (o_PayAmount x),
       o_ProviderSnapshot := map (apsnd json_stored) (o_ProviderSnapshot x),
       o_CreatedAt := now, o_UpdatedAt := now\<rparr>"

definition storable_order :: "PaymentOrder \<Rightarrow> bool" where
  "storable_order x \<longleftrightarrow>
     length (o_RechargeCode x) \<le> 64 \<and> length (o_OutTradeNo x) \<le> 64 \<and> length (o_PaymentType x) \<le> 30
     \<and> length (o_OrderType x) \<le> 20 \<and> length (psStringValue (o_ProviderInstanceID x)) \<le> 64
     \<and> length (psStringValue (o_ProviderKey x)) \<le> 30"

definition order_Create :: "numeric \<Rightarrow> PaymentOrder \<Rightarrow> ('w, 'g, PaymentOrder outcome) pay" where
  "order_Create num x =
     (if \<not> storable_order x then ret (Inl (Plain ''validator failed''))
      else stmt Unavailable (\<lambda>d.
        let i = d_order_seq d + 1; row = stored_order num i (d_clock d) x; d = d\<lparr>d_order_seq := i\<rparr> in
        if o_OutTradeNo x \<noteq> [] \<and> list_ex (\<lambda>y. o_OutTradeNo y = o_OutTradeNo x) (d_orders d)
        then (Inl ConstraintErr, d)
        else (Inr (x\<lparr>o_ID := i\<rparr>), d\<lparr>d_orders := d_orders d @ [row]\<rparr>)))"

text \<open>\<open>UpdateOneID(i).Set...Save(ctx)\<close> with the row it reads back.\<close>

definition order_Save ::
    "int \<Rightarrow> (PaymentOrder \<Rightarrow> PaymentOrder) \<Rightarrow> ('w, 'g, PaymentOrder outcome) pay" where
  "order_Save i f =
     stmt Unavailable (\<lambda>d.
       let d' = set_orders (\<lambda>o'. o_ID o' = i) f d in
       case find (\<lambda>o'. o_ID o' = i) (d_orders d') of
         None \<Rightarrow> (Inl NotFoundErr, d) | Some o' \<Rightarrow> (Inr o', d'))"

definition order_All :: "(PaymentOrder \<Rightarrow> bool) \<Rightarrow> ('w, 'g, PaymentOrder list outcome) pay" where
  "order_All p = stmt Unavailable (\<lambda>d. (Inr (filter p (d_orders d)), d))"

section \<open>Audit log\<close>

text \<open>
  \<open>writeAuditLog\<close>: an order has at most one entry of an action (migration 131), a failing insert
  is only logged. The detail of an entry is not kept.
\<close>

definition has_audit :: "int \<Rightarrow> go_string \<Rightarrow> ('w, 'g) pay_db \<Rightarrow> bool" where
  "has_audit oid action d \<longleftrightarrow>
     list_ex (\<lambda>a. a_OrderID a = oid \<and> a_Action a = action) (d_audits d)"

definition add_audit :: "int \<Rightarrow> go_string \<Rightarrow> go_string \<Rightarrow> ('w, 'g) pay_db \<Rightarrow> ('w, 'g) pay_db" where
  "add_audit oid action op d =
     d\<lparr>d_audits := d_audits d @ [\<lparr>a_OrderID = oid, a_Action = action, a_Operator = op,
                                  a_CreatedAt = d_clock d\<rparr>]\<rparr>"

definition audit_Create :: "int \<Rightarrow> go_string \<Rightarrow> go_string \<Rightarrow> ('w, 'g, unit outcome) pay" where
  "audit_Create oid action op =
     stmt Unavailable (\<lambda>d.
       if has_audit oid action d then (Inl ConstraintErr, d) else (Inr (), add_audit oid action op d))"

definition writeAuditLog :: "int \<Rightarrow> go_string \<Rightarrow> go_string \<Rightarrow> ('w, 'g, unit) pay" where
  "writeAuditLog oid action op = do { _ \<leftarrow> audit_Create oid action op; ret () }"

definition hasAuditLog :: "int \<Rightarrow> go_string \<Rightarrow> ('w, 'g, bool) pay" where
  "hasAuditLog oid action = do {
     c \<leftarrow> stmt Unavailable (\<lambda>d. (Inr (has_audit oid action d), d));
     ret (case c of Inl _ \<Rightarrow> False | Inr b \<Rightarrow> b)
   }"

section \<open>Redeem codes\<close>

definition redeem_Create :: "numeric \<Rightarrow> RedeemCode \<Rightarrow> ('w, 'g, RedeemCode outcome) pay" where
  "redeem_Create num code =
     stmt Unavailable (\<lambda>d.
       let i = d_code_seq d + 1; d = d\<lparr>d_code_seq := i\<rparr>;
           row = code\<lparr>rc_ID := i, rc_Value := stored num 8 (rc_Value code)\<rparr>
       in if rc_Code code = [] \<or> 32 < length (rc_Code code)
             \<or> list_ex (\<lambda>r. rc_Code r = rc_Code code) (d_codes d)
          then (Inl ConstraintErr, d)
          else (Inr (code\<lparr>rc_ID := i\<rparr>), d\<lparr>d_codes := d_codes d @ [row]\<rparr>))"

definition redeem_GetByCode :: "go_string \<Rightarrow> ('w, 'g, RedeemCode outcome) pay" where
  "redeem_GetByCode code =
     stmt Unavailable (\<lambda>d.
       (case find (\<lambda>r. rc_Code r = code) (d_codes d) of
          None \<Rightarrow> Inl ErrRedeemCodeNotFound | Some r \<Rightarrow> Inr r, d))"

definition redeem_GetByID :: "int \<Rightarrow> ('w, 'g, RedeemCode outcome) pay" where
  "redeem_GetByID i =
     stmt Unavailable (\<lambda>d.
       (case find (\<lambda>r. rc_ID r = i) (d_codes d) of
          None \<Rightarrow> Inl ErrRedeemCodeNotFound | Some r \<Rightarrow> Inr r, d))"

definition usable :: "int \<Rightarrow> RedeemCode \<Rightarrow> bool" where
  "usable i r \<longleftrightarrow> rc_ID r = i \<and> rc_Status r = StatusUnused"

definition use_code :: "int \<Rightarrow> int \<Rightarrow> ('w, 'g) pay_db \<Rightarrow> ('w, 'g) pay_db" where
  "use_code i userID d =
     d\<lparr>d_codes := map (\<lambda>r. if usable i r
        then r\<lparr>rc_Status := StatusUsed, rc_UsedBy := Some userID, rc_UsedAt := Some (d_clock d)\<rparr>
        else r) (d_codes d)\<rparr>"

definition redeem_Use :: "int \<Rightarrow> int \<Rightarrow> ('w, 'g, unit outcome) pay" where
  "redeem_Use i userID =
     stmt Unavailable (\<lambda>d.
       (if list_ex (usable i) (d_codes d) then Inr () else Inl ErrRedeemCodeUsed, use_code i userID d))"

section \<open>Users\<close>

definition user_GetByID :: "int \<Rightarrow> ('w, 'g, User outcome) pay" where
  "user_GetByID i =
     stmt Unavailable (\<lambda>d.
       (case find (\<lambda>u. u_ID u = i) (d_users d) of None \<Rightarrow> Inl ErrUserNotFound | Some u \<Rightarrow> Inr u, d))"

definition set_users :: "int \<Rightarrow> (User \<Rightarrow> User) \<Rightarrow> ('w, 'g) pay_db \<Rightarrow> ('w, 'g) pay_db" where
  "set_users i f d = d\<lparr>d_users := map (\<lambda>u. if u_ID u = i then f u else u) (d_users d)\<rparr>"

definition user_update :: "int \<Rightarrow> (User \<Rightarrow> User) \<Rightarrow> ('w, 'g, unit outcome) pay" where
  "user_update i f =
     stmt Unavailable (\<lambda>d.
       (if list_ex (\<lambda>u. u_ID u = i) (d_users d) then Inr () else Inl ErrUserNotFound, set_users i f d))"

text \<open>A positive change of the balance is also added to the recharged total.\<close>

definition UpdateBalance :: "numeric \<Rightarrow> int \<Rightarrow> float64 \<Rightarrow> ('w, 'g, unit outcome) pay" where
  "UpdateBalance num i amount =
     user_update i (\<lambda>u.
       let n = to_column num 8 amount; u = u\<lparr>u_Balance := u_Balance u + n\<rparr> in
       if f_less (Finite 0) amount then u\<lparr>u_TotalRecharged := u_TotalRecharged u + n\<rparr> else u)"

definition DeductBalance :: "numeric \<Rightarrow> int \<Rightarrow> float64 \<Rightarrow> ('w, 'g, unit outcome) pay" where
  "DeductBalance num i amount =
     user_update i (\<lambda>u. u\<lparr>u_Balance := u_Balance u + to_column num 8 (f_neg amount)\<rparr>)"

definition UpdateConcurrency :: "int \<Rightarrow> int \<Rightarrow> ('w, 'g, unit outcome) pay" where
  "UpdateConcurrency i delta = user_update i (\<lambda>u. u\<lparr>u_Concurrency := u_Concurrency u + delta\<rparr>)"

section \<open>Provider instances\<close>

definition instance_Get :: "int \<Rightarrow> ('w, 'g, PaymentProviderInstance outcome) pay" where
  "instance_Get i =
     stmt Unavailable (\<lambda>d.
       (case find (\<lambda>p. pi_ID p = i) (d_instances d) of None \<Rightarrow> Inl NotFoundErr | Some p \<Rightarrow> Inr p, d))"

definition instance_All ::
    "(PaymentProviderInstance \<Rightarrow> bool) \<Rightarrow> ('w, 'g, PaymentProviderInstance list outcome) pay" where
  "instance_All p = stmt Unavailable (\<lambda>d. (Inr (filter p (d_instances d)), d))"

end
