(* ===== verification/PayRedeem.thy ===== *)
theory PayRedeem
  imports PayDb
begin

text \<open>
  \<open>service/redeem_service.go\<close>: creating and using a redeem code. The cache with the attempt counter
  and the lock is outside the database. The services a code may grant from (subscriptions,
  affiliates) are \<open>redeem_grants\<close>: their calls act on the rest of the database. Cache invalidation
  and logging are left out.
\<close>

record 'g RedeemCache =
  GetRedeemAttemptCount :: "int \<Rightarrow> 'g \<Rightarrow> int outcome \<times> 'g"
  IncrementRedeemAttemptCount :: "int \<Rightarrow> 'g \<Rightarrow> unit outcome \<times> 'g"
  AcquireRedeemLock :: "go_string \<Rightarrow> 'g \<Rightarrow> bool outcome \<times> 'g"
  ReleaseRedeemLock :: "go_string \<Rightarrow> 'g \<Rightarrow> unit outcome \<times> 'g"

text \<open>\<open>AssignOrExtendSubscription\<close> takes user, group, days and notes; the others likewise.\<close>

record 'w redeem_grants =
  AssignOrExtendSubscription :: "int \<Rightarrow> int \<Rightarrow> int \<Rightarrow> go_string \<Rightarrow> 'w \<Rightarrow> unit outcome \<times> 'w"
  reduceOrCancelSubscription :: "int \<Rightarrow> int \<Rightarrow> int \<Rightarrow> go_string \<Rightarrow> 'w \<Rightarrow> unit outcome \<times> 'w"
  AccrueInviteRebate :: "int \<Rightarrow> float64 \<Rightarrow> 'w \<Rightarrow> float64 outcome \<times> 'w"

record ('w, 'g) RedeemService =
  rs_numeric :: numeric
  rs_cache :: "'g RedeemCache option"
  rs_grants :: "'w redeem_grants"
  rs_affiliate :: bool

definition redeemMaxErrorsPerHour :: int where
  "redeemMaxErrorsPerHour = 20"

definition GetByCode :: "go_string \<Rightarrow> ('w, 'g, RedeemCode outcome) pay" where
  "GetByCode code = do {
     c \<leftarrow> redeem_GetByCode code;
     ret (case c of Inl e \<Rightarrow> Inl (Wrapped ''get redeem code: '' e) | Inr r \<Rightarrow> Inr r)
   }"

definition CreateCode :: "('w, 'g) RedeemService \<Rightarrow> RedeemCode \<Rightarrow> ('w, 'g, RedeemCode outcome) pay" where
  "CreateCode s code = do {
     now \<leftarrow> time_Now;
     let code = code\<lparr>rc_Code := TrimSpace (rc_Code code)\<rparr>;
     if rc_Code code = [] then ret (Inl (Plain ''code is required''))
     else do {
       let code = (if rc_Type code = [] then code\<lparr>rc_Type := RedeemTypeBalance\<rparr> else code);
       if rc_Type code \<noteq> RedeemTypeInvitation \<and> rc_Value code = Finite 0
       then ret (Inl (Plain ''value must not be zero''))
       else do {
         let code = (if rc_Status code = [] then code\<lparr>rc_Status := StatusUnused\<rparr> else code);
         if IsExpiredAt now code then ret (Inl ErrRedeemCodeExpired)
         else do {
           c \<leftarrow> redeem_Create (rs_numeric s) code;
           ret (case c of Inl e \<Rightarrow> Inl (Wrapped ''create redeem code: '' e) | Inr r \<Rightarrow> Inr r)
         }
       }
     }
   }"

definition checkRedeemRateLimit :: "('w, 'g) RedeemService \<Rightarrow> int \<Rightarrow> ('w, 'g, unit outcome) pay" where
  "checkRedeemRateLimit s userID =
     (case rs_cache s of None \<Rightarrow> ret (Inr ())
      | Some cache \<Rightarrow> do {
          c \<leftarrow> outside (GetRedeemAttemptCount cache userID);
          ret (case c of Inl _ \<Rightarrow> Inr ()
               | Inr count \<Rightarrow>
                   if redeemMaxErrorsPerHour \<le> count then Inl ErrRedeemRateLimited else Inr ())
        })"

definition incrementRedeemErrorCount :: "('w, 'g) RedeemService \<Rightarrow> int \<Rightarrow> ('w, 'g, unit) pay" where
  "incrementRedeemErrorCount s userID =
     (case rs_cache s of None \<Rightarrow> ret ()
      | Some cache \<Rightarrow> do { _ \<leftarrow> outside (IncrementRedeemAttemptCount cache userID); ret () })"

definition acquireRedeemLock :: "('w, 'g) RedeemService \<Rightarrow> go_string \<Rightarrow> ('w, 'g, bool) pay" where
  "acquireRedeemLock s code =
     (case rs_cache s of None \<Rightarrow> ret True
      | Some cache \<Rightarrow> do {
          c \<leftarrow> outside (AcquireRedeemLock cache code);
          ret (case c of Inl _ \<Rightarrow> True | Inr ok \<Rightarrow> ok)
        })"

definition releaseRedeemLock :: "('w, 'g) RedeemService \<Rightarrow> go_string \<Rightarrow> ('w, 'g, unit) pay" where
  "releaseRedeemLock s code =
     (case rs_cache s of None \<Rightarrow> ret ()
      | Some cache \<Rightarrow> do { _ \<leftarrow> outside (ReleaseRedeemLock cache code); ret () })"

text \<open>The grant of a used code, inside the transaction.\<close>

definition floor_balance :: "numeric \<Rightarrow> User \<Rightarrow> float64 \<Rightarrow> float64" where
  "floor_balance num u amount =
     (let balance = from_column num 8 (u_Balance u) in
      if f_less amount (Finite 0) \<and> f_less (f_add balance amount) (Finite 0)
      then f_neg balance else amount)"

text \<open>The note of the assigned subscription, in UTF-8.\<close>

definition redeem_note :: "go_string \<Rightarrow> go_string" where
  "redeem_note code =
     bytes [0xE9, 0x80, 0x9A, 0xE8, 0xBF, 0x87, 0xE5, 0x85, 0x91, 0xE6, 0x8D, 0xA2, 0xE7, 0xA0, 0x81, 0x20]
     @ code @ bytes [0x20, 0xE5, 0x85, 0x91, 0xE6, 0x8D, 0xA2]"

definition grant :: "('w, 'g) RedeemService \<Rightarrow> int \<Rightarrow> User \<Rightarrow> RedeemCode \<Rightarrow> ('w, 'g, unit outcome) pay" where
  "grant s userID user redeemCode =
     (if rc_Type redeemCode = RedeemTypeBalance then do {
        c \<leftarrow> UpdateBalance (rs_numeric s) userID (floor_balance (rs_numeric s) user (rc_Value redeemCode));
        ret (case c of Inl e \<Rightarrow> Inl (Wrapped ''update user balance: '' e) | Inr _ \<Rightarrow> Inr ())
      }
      else if rc_Type redeemCode = RedeemTypeConcurrency then do {
        let delta = f_trunc (rc_Value redeemCode);
        let delta = (if delta < 0 \<and> u_Concurrency user + delta < 0 then - u_Concurrency user else delta);
        c \<leftarrow> UpdateConcurrency userID delta;
        ret (case c of Inl e \<Rightarrow> Inl (Wrapped ''update user concurrency: '' e) | Inr _ \<Rightarrow> Inr ())
      }
      else if rc_Type redeemCode = RedeemTypeSubscription then
        (let group = (case rc_GroupID redeemCode of None \<Rightarrow> 0 | Some g \<Rightarrow> g);
             days = rc_ValidityDays redeemCode
         in if days < 0 then do {
              c \<leftarrow> world (reduceOrCancelSubscription (rs_grants s) userID group (- days) (rc_Code redeemCode));
              ret (case c of Inl e \<Rightarrow> Inl (Wrapped ''reduce or cancel subscription: '' e) | Inr _ \<Rightarrow> Inr ())
            }
            else do {
              c \<leftarrow> world (AssignOrExtendSubscription (rs_grants s) userID group
                     (if days = 0 then 30 else days) (redeem_note (rc_Code redeemCode)));
              ret (case c of Inl e \<Rightarrow> Inl (Wrapped ''assign or extend subscription: '' e) | Inr _ \<Rightarrow> Inr ())
            })
      else ret (Inl (Wrapped ''unsupported redeem type: '' (Plain (rc_Type redeemCode)))))"

definition use_and_grant ::
    "('w, 'g) RedeemService \<Rightarrow> int \<Rightarrow> User \<Rightarrow> RedeemCode \<Rightarrow> ('w, 'g, unit outcome) pay" where
  "use_and_grant s userID user redeemCode = do {
     c \<leftarrow> redeem_Use (rc_ID redeemCode) userID;
     case c of
       Inl e \<Rightarrow> ret (Inl (if errors_Is e ErrRedeemCodeNotFound \<or> errors_Is e ErrRedeemCodeUsed
                        then ErrRedeemCodeUsed else Wrapped ''mark code as used: '' e))
     | Inr _ \<Rightarrow> grant s userID user redeemCode
   }"

text \<open>
  The affiliate rebate of a code used by its owner. The payment code redeems with the context value
  that suppresses it.
\<close>

definition tryAccrueAffiliateRebateForRedeem ::
    "('w, 'g) RedeemService \<Rightarrow> bool \<Rightarrow> int \<Rightarrow> float64 \<Rightarrow> ('w, 'g, unit) pay" where
  "tryAccrueAffiliateRebateForRedeem s skip userID amount =
     (if skip \<or> \<not> rs_affiliate s then ret ()
      else do { _ \<leftarrow> world (AccrueInviteRebate (rs_grants s) userID amount); ret () })"

definition redeem_found ::
    "('w, 'g) RedeemService \<Rightarrow> bool \<Rightarrow> int \<Rightarrow> RedeemCode \<Rightarrow> ('w, 'g, RedeemCode outcome) pay" where
  "redeem_found s skip userID redeemCode = do {
     now \<leftarrow> time_Now;
     if IsExpiredAt now redeemCode then do {
       _ \<leftarrow> incrementRedeemErrorCount s userID; ret (Inl ErrRedeemCodeExpired) }
     else if \<not> CanUse now redeemCode then do {
       _ \<leftarrow> incrementRedeemErrorCount s userID; ret (Inl ErrRedeemCodeUsed) }
     else if rc_Type redeemCode = RedeemTypeSubscription \<and> rc_GroupID redeemCode = None then
       ret (Inl (BadRequest ''REDEEM_CODE_INVALID'' ''invalid subscription redeem code: missing group_id''))
     else do {
       user \<leftarrow> user_GetByID userID;
       case user of Inl e \<Rightarrow> ret (Inl (Wrapped ''get user: '' e))
       | Inr user \<Rightarrow> do {
           done \<leftarrow> Tx ''begin transaction: '' ''commit transaction: '' (use_and_grant s userID user redeemCode);
           case done of Inl e \<Rightarrow> ret (Inl e)
           | Inr _ \<Rightarrow> do {
               _ \<leftarrow> (if rc_Type redeemCode = RedeemTypeBalance \<and> f_less (Finite 0) (rc_Value redeemCode)
                     then tryAccrueAffiliateRebateForRedeem s skip userID (rc_Value redeemCode) else ret ());
               c \<leftarrow> redeem_GetByID (rc_ID redeemCode);
               ret (case c of Inl e \<Rightarrow> Inl (Wrapped ''get updated redeem code: '' e) | Inr r \<Rightarrow> Inr r)
             }
         }
     }
   }"

definition redeem_locked ::
    "('w, 'g) RedeemService \<Rightarrow> bool \<Rightarrow> int \<Rightarrow> go_string \<Rightarrow> ('w, 'g, RedeemCode outcome) pay" where
  "redeem_locked s skip userID code = do {
     c \<leftarrow> redeem_GetByCode code;
     case c of
       Inl e \<Rightarrow>
         (if errors_Is e ErrRedeemCodeNotFound then do {
            _ \<leftarrow> incrementRedeemErrorCount s userID; ret (Inl ErrRedeemCodeNotFound) }
          else ret (Inl (Wrapped ''get redeem code: '' e)))
     | Inr redeemCode \<Rightarrow> redeem_found s skip userID redeemCode
   }"

definition Redeem ::
    "('w, 'g) RedeemService \<Rightarrow> bool \<Rightarrow> int \<Rightarrow> go_string \<Rightarrow> ('w, 'g, RedeemCode outcome) pay" where
  "Redeem s skip userID code = do {
     limited \<leftarrow> checkRedeemRateLimit s userID;
     case limited of Inl e \<Rightarrow> ret (Inl e)
     | Inr _ \<Rightarrow> do {
         locked \<leftarrow> acquireRedeemLock s code;
         if \<not> locked then ret (Inl ErrRedeemCodeLocked)
         else do {
           r \<leftarrow> redeem_locked s skip userID code;
           _ \<leftarrow> releaseRedeemLock s code;
           ret r
         }
       }
   }"

end
