(* ===== verification/PayFulfill.thy ===== *)
theory PayFulfill
  imports PayRedeem
begin

text \<open>
  \<open>service/payment_fulfillment.go\<close>: what a payment notification does to an order, up to the credit
  of a balance order or the extension of a subscription, and the manual retry; with the choice of
  the provider instance of an order (\<open>payment_refund.go\<close>, \<open>payment_order_provider_snapshot.go\<close>).
  Notification emails and logging are left out. A gateway is a \<open>Provider\<close>: its calls act outside
  the database. Decrypting a configuration and building a provider from it is \<open>ps_createProvider\<close>.
\<close>

section \<open>The service\<close>

record 'g Provider =
  prov_ProviderKey :: go_string
  prov_CreatePayment :: "CreatePaymentRequest \<Rightarrow> 'g \<Rightarrow> CreatePaymentResponse outcome \<times> 'g"
  prov_QueryOrder :: "go_string \<Rightarrow> 'g \<Rightarrow> QueryOrderResponse outcome \<times> 'g"
  prov_VerifyNotification ::
    "go_string \<Rightarrow> (go_string \<times> go_string) list \<Rightarrow> 'g \<Rightarrow> PaymentNotification option outcome \<times> 'g"
  prov_Refund :: "RefundRequest \<Rightarrow> 'g \<Rightarrow> RefundResponse option outcome \<times> 'g"
  prov_CancelPayment :: "(go_string \<Rightarrow> 'g \<Rightarrow> unit outcome \<times> 'g) option"
  prov_MerchantIdentity :: "(go_string \<times> go_string) list option"

text \<open>
  \<open>ps_groupActive\<close>: \<open>groupRepo.GetByID\<close> and its status. \<open>ps_accrue\<close>: \<open>AccrueInviteRebateForOrder\<close>
  of user, amount and order, when there is an affiliate service. \<open>sub_Extend\<close>, \<open>sub_Revoke\<close> and
  \<open>sub_GetActive\<close>: the methods \<open>ExtendSubscription\<close>, \<open>RevokeSubscription\<close> and
  \<open>GetActiveSubscription\<close> of the subscription service.
\<close>

record 'w SubscriptionOps =
  sub_Extend :: "int \<Rightarrow> int \<Rightarrow> 'w \<Rightarrow> unit outcome \<times> 'w"
  sub_Revoke :: "int \<Rightarrow> 'w \<Rightarrow> unit outcome \<times> 'w"
  sub_GetActive :: "int \<Rightarrow> int \<Rightarrow> 'w \<Rightarrow> int option outcome \<times> 'w"

record ('w, 'g) PaymentService =
  ps_redeem :: "('w, 'g) RedeemService"
  ps_registry :: "go_string \<Rightarrow> 'g Provider option"
  ps_createProvider :: "PaymentProviderInstance \<Rightarrow> 'g Provider outcome"
  ps_groupActive :: "int \<Rightarrow> 'w \<Rightarrow> bool outcome \<times> 'w"
  ps_accrue :: "(int \<Rightarrow> float64 \<Rightarrow> int \<Rightarrow> 'w \<Rightarrow> float64 outcome \<times> 'w) option"
  ps_subs :: "'w SubscriptionOps"

definition GetProviderKey :: "('w, 'g) PaymentService \<Rightarrow> go_string \<Rightarrow> go_string" where
  "GetProviderKey s t = (case ps_registry s t of None \<Rightarrow> [] | Some p \<Rightarrow> prov_ProviderKey p)"

section \<open>The provider instance of an order\<close>

definition psLegacyOrderMatchesInstance :: "go_string \<Rightarrow> PaymentProviderInstance \<Rightarrow> bool" where
  "psLegacyOrderMatchesInstance orderPaymentType inst =
     (let baseType = GetBasePaymentType (TrimSpace orderPaymentType);
          key = TrimSpace (pi_ProviderKey inst)
      in if baseType = [] then False
         else if baseType = TypeStripe then key = TypeStripe
         else if key = TypeStripe then False
         else if key = baseType then True
         else InstanceSupportsType (pi_SupportedTypes inst) baseType)"

definition psFilterLegacyOrderProviderInstances ::
    "go_string \<Rightarrow> PaymentProviderInstance list \<Rightarrow> PaymentProviderInstance list" where
  "psFilterLegacyOrderProviderInstances orderPaymentType instances =
     (if TrimSpace orderPaymentType = [] then instances
      else filter (psLegacyOrderMatchesInstance orderPaymentType) instances)"

definition only_instance ::
    "go_string \<Rightarrow> PaymentProviderInstance list outcome \<Rightarrow> PaymentProviderInstance option outcome" where
  "only_instance paymentType c =
     (case c of Inl e \<Rightarrow> Inl e
      | Inr instances \<Rightarrow>
          (case psFilterLegacyOrderProviderInstances paymentType instances of
             [inst] \<Rightarrow> Inr (Some inst) | _ \<Rightarrow> Inr None))"

definition resolveUniqueLegacyOrderProviderInstance ::
    "PaymentOrder \<Rightarrow> ('w, 'g, PaymentProviderInstance option outcome) pay" where
  "resolveUniqueLegacyOrderProviderInstance o' =
     (let paymentType = GetBasePaymentType (TrimSpace (o_PaymentType o'));
          providerKey = TrimSpace (psStringValue (o_ProviderKey o'))
      in if providerKey \<noteq> [] then do {
           c \<leftarrow> instance_All (\<lambda>p. pi_ProviderKey p = providerKey);
           ret (only_instance paymentType c)
         }
         else if paymentType = [] then ret (Inr None)
         else do {
           c \<leftarrow> instance_All (\<lambda>_. True);
           ret (only_instance paymentType c)
         })"

definition order_error :: "PaymentOrder \<Rightarrow> go_string \<Rightarrow> pay_error" where
  "order_error o' msg = Plain (''order '' @ Itoa (o_ID o') @ msg)"

definition resolveSnapshotOrderProviderInstance ::
    "PaymentOrder \<Rightarrow> paymentOrderProviderSnapshot
      \<Rightarrow> ('w, 'g, PaymentProviderInstance option outcome) pay" where
  "resolveSnapshotOrderProviderInstance order snapshot =
     (let fromSnapshot = TrimSpace (s_ProviderInstanceID snapshot);
          column = TrimSpace (psStringValue (o_ProviderInstanceID order));
          i = (if fromSnapshot = [] then column else fromSnapshot)
      in if i = [] then ret (Inl (order_error order '' provider snapshot is missing provider_instance_id''))
         else if column \<noteq> [] \<and> s_ProviderInstanceID snapshot \<noteq> []
                 \<and> \<not> EqualFold column (s_ProviderInstanceID snapshot)
         then ret (Inl (order_error order ('' provider snapshot instance mismatch: snapshot='' @ s_ProviderInstanceID snapshot
                @ '' order='' @ column)))
         else (case ParseInt64 i of
           None \<Rightarrow> ret (Inl (order_error order ('' provider snapshot instance id is invalid: '' @ i)))
         | Some n \<Rightarrow> do {
             c \<leftarrow> instance_Get n;
             ret (case c of
               Inl e \<Rightarrow>
                 if IsNotFound e then Inl (order_error order ('' provider snapshot instance '' @ i @ '' is missing'')) else Inl e
             | Inr inst \<Rightarrow>
                 if s_ProviderKey snapshot \<noteq> []
                    \<and> \<not> EqualFold (TrimSpace (pi_ProviderKey inst)) (s_ProviderKey snapshot)
                 then Inl (order_error order ('' provider snapshot key mismatch: snapshot='' @ s_ProviderKey snapshot
                          @ '' instance='' @ pi_ProviderKey inst))
                 else Inr (Some inst))
           }))"

definition getOrderProviderInstance ::
    "PaymentOrder \<Rightarrow> ('w, 'g, PaymentProviderInstance option outcome) pay" where
  "getOrderProviderInstance o' =
     (case psOrderProviderSnapshot o' of
        Some snapshot \<Rightarrow> resolveSnapshotOrderProviderInstance o' snapshot
      | None \<Rightarrow>
          (let i = TrimSpace (psStringValue (o_ProviderInstanceID o')) in
           if i = [] then resolveUniqueLegacyOrderProviderInstance o'
           else (case ParseInt64 i of
                   None \<Rightarrow> ret (Inr None)
                 | Some n \<Rightarrow> do {
                     c \<leftarrow> instance_Get n;
                     ret (case c of Inl e \<Rightarrow> Inl e | Inr p \<Rightarrow> Inr (Some p)) })))"

definition expectedNotificationProviderKey ::
    "('w, 'g) PaymentService \<Rightarrow> go_string \<Rightarrow> go_string \<Rightarrow> go_string \<Rightarrow> go_string" where
  "expectedNotificationProviderKey s orderPaymentType orderProviderKey instanceProviderKey =
     (if TrimSpace instanceProviderKey \<noteq> [] then TrimSpace instanceProviderKey
      else if TrimSpace orderProviderKey \<noteq> [] then TrimSpace orderProviderKey
      else if TrimSpace (GetProviderKey s orderPaymentType) \<noteq> []
        then TrimSpace (GetProviderKey s orderPaymentType)
      else TrimSpace orderPaymentType)"

definition expectedNotificationProviderKeyForOrder ::
    "('w, 'g) PaymentService \<Rightarrow> PaymentOrder \<Rightarrow> go_string \<Rightarrow> go_string" where
  "expectedNotificationProviderKeyForOrder s order instanceProviderKey =
     (let orderProviderKey =
        (case psOrderProviderSnapshot order of
           Some snapshot \<Rightarrow>
             (if s_ProviderKey snapshot \<noteq> [] then s_ProviderKey snapshot
              else psStringValue (o_ProviderKey order))
         | None \<Rightarrow> psStringValue (o_ProviderKey order))
      in expectedNotificationProviderKey s (o_PaymentType order) orderProviderKey instanceProviderKey)"

section \<open>The metadata of a notification\<close>

text \<open>A field of the snapshot, when it has a value, must be in the metadata, up to case.\<close>

definition match_field :: "go_string \<Rightarrow> go_string \<Rightarrow> go_string \<Rightarrow> go_string \<Rightarrow> unit outcome" where
  "match_field missing mismatch expected actual =
     (if expected = [] then Inr ()
      else if actual = [] then Inl (Plain missing)
      else if \<not> EqualFold expected actual
        then Inl (Plain (mismatch @ '': expected '' @ expected @ '', got '' @ actual))
      else Inr ())"

text \<open>A field of the metadata, when it is there, must have a given value.\<close>

definition state_field :: "go_string \<Rightarrow> go_string \<Rightarrow> go_string \<Rightarrow> unit outcome" where
  "state_field mismatch wanted actual =
     (if actual \<noteq> [] \<and> \<not> EqualFold actual wanted
      then Inl (Plain (mismatch @ '': expected '' @ wanted @ '', got '' @ actual))
      else Inr ())"

fun all_ok :: "unit outcome list \<Rightarrow> unit outcome" where
  "all_ok [] = Inr ()"
| "all_ok (Inl e # cs) = Inl e"
| "all_ok (Inr _ # cs) = all_ok cs"

definition meta :: "(go_string \<times> go_string) list \<Rightarrow> go_string \<Rightarrow> go_string" where
  "meta metadata k = (case map_of metadata k of None \<Rightarrow> [] | Some v \<Rightarrow> TrimSpace v)"

definition snapshot_checks ::
    "paymentOrderProviderSnapshot \<Rightarrow> go_string \<Rightarrow> (go_string \<times> go_string) list \<Rightarrow> unit outcome list" where
  "snapshot_checks snapshot key metadata =
     (let app = TrimSpace (s_MerchantAppID snapshot); merchant = TrimSpace (s_MerchantID snapshot);
          currency = TrimSpace (s_Currency snapshot)
      in if key = TypeWxpay then
           [match_field ''wxpay notification missing appid'' ''wxpay appid mismatch'' app (meta metadata ''appid''),
            match_field ''wxpay notification missing mchid'' ''wxpay mchid mismatch'' merchant (meta metadata ''mchid''),
            match_field ''wxpay notification missing currency'' ''wxpay currency mismatch'' currency
              (ToUpper (meta metadata ''currency'')),
            state_field ''wxpay trade_state mismatch'' ''SUCCESS'' (meta metadata ''trade_state'')]
         else if key = TypeAlipay then
           [match_field ''alipay app_id missing'' ''alipay app_id mismatch'' app (meta metadata ''app_id'')]
         else if key = TypeEasyPay then
           [match_field ''easypay pid missing'' ''easypay pid mismatch'' merchant (meta metadata ''pid'')]
         else if key = TypeStripe then
           [match_field ''stripe notification missing currency'' ''stripe currency mismatch'' currency
              (ToUpper (meta metadata ''currency''))]
         else if key = TypeAirwallex then
           [match_field ''airwallex account_id missing'' ''airwallex account_id mismatch'' merchant
              (meta metadata ''account_id''),
            match_field ''airwallex notification missing currency'' ''airwallex currency mismatch'' currency
              (ToUpper (meta metadata ''currency'')),
            state_field ''airwallex status mismatch'' ''SUCCEEDED'' (meta metadata ''status'')]
         else [])"

definition validateProviderSnapshotMetadata ::
    "PaymentOrder \<Rightarrow> go_string \<Rightarrow> (go_string \<times> go_string) list \<Rightarrow> unit outcome" where
  "validateProviderSnapshotMetadata order providerKey metadata =
     (if metadata = [] then Inr ()
      else (case psOrderProviderSnapshot order of
              None \<Rightarrow> Inr ()
            | Some snapshot \<Rightarrow> all_ok (snapshot_checks snapshot (TrimSpace providerKey) metadata)))"

section \<open>Fulfilment of a balance order\<close>

datatype redeemAction = redeemActionCreate | redeemActionRedeem | redeemActionSkipCompleted

definition resolveRedeemAction :: "RedeemCode outcome \<Rightarrow> redeemAction" where
  "resolveRedeemAction existing =
     (case existing of
        Inl _ \<Rightarrow> redeemActionCreate
      | Inr r \<Rightarrow> if IsUsed r then redeemActionSkipCompleted else redeemActionRedeem)"

definition set_status :: "OrderStatus \<Rightarrow> PaymentOrder \<Rightarrow> PaymentOrder" where
  "set_status st o' = o'\<lparr>o_Status := st\<rparr>"

definition in_status :: "int \<Rightarrow> OrderStatus list \<Rightarrow> PaymentOrder \<Rightarrow> bool" where
  "in_status oid sts o' \<longleftrightarrow> o_ID o' = oid \<and> o_Status o' \<in> set sts"

definition markCompleted :: "PaymentOrder \<Rightarrow> go_string \<Rightarrow> ('w, 'g, unit outcome) pay" where
  "markCompleted o' auditAction = do {
     now \<leftarrow> time_Now;
     c \<leftarrow> order_Update (in_status (o_ID o') [OrderStatusRecharging])
            (\<lambda>x. (set_status OrderStatusCompleted x)\<lparr>o_CompletedAt := Some now\<rparr>);
     case c of
       Inl e \<Rightarrow> ret (Inl (Wrapped ''mark completed: '' e))
     | Inr _ \<Rightarrow> do { _ \<leftarrow> writeAuditLog (o_ID o') auditAction ''system''; ret (Inr ()) }
   }"

definition markFailed :: "int \<Rightarrow> pay_error \<Rightarrow> ('w, 'g, unit) pay" where
  "markFailed oid cause = do {
     now \<leftarrow> time_Now;
     c \<leftarrow> order_Update (in_status oid [OrderStatusRecharging])
            (\<lambda>x. (set_status OrderStatusFailed x)\<lparr>o_FailedAt := Some now, o_FailedReason := Some cause\<rparr>);
     case c of
       Inr n \<Rightarrow> if 0 < n then writeAuditLog oid ''FULFILLMENT_FAILED'' ''system'' else ret ()
     | Inl _ \<Rightarrow> ret ()
   }"

definition affiliate_claimed :: "int \<Rightarrow> ('w, 'g) pay_db \<Rightarrow> bool" where
  "affiliate_claimed oid d \<longleftrightarrow>
     has_audit oid ''AFFILIATE_REBATE_APPLIED'' d \<or> has_audit oid ''AFFILIATE_REBATE_SKIPPED'' d"

definition tryClaimAffiliateRebateAudit :: "int \<Rightarrow> ('w, 'g, bool outcome) pay" where
  "tryClaimAffiliateRebateAudit oid =
     stmt Unavailable (\<lambda>d.
       if affiliate_claimed oid d then (Inr False, d)
       else (Inr True, add_audit oid ''AFFILIATE_REBATE_APPLIED'' ''system'' d))"

definition updateClaimedAffiliateRebateAudit :: "int \<Rightarrow> go_string \<Rightarrow> ('w, 'g, unit outcome) pay" where
  "updateClaimedAffiliateRebateAudit oid action =
     stmt Unavailable (\<lambda>d.
       let claim = (\<lambda>a. a_OrderID a = oid \<and> a_Action a = ''AFFILIATE_REBATE_APPLIED'') in
       if list_ex claim (d_audits d)
       then (Inr (), d\<lparr>d_audits := map (\<lambda>a. if claim a
               then a\<lparr>a_Action := action, a_Operator := ''system''\<rparr> else a) (d_audits d)\<rparr>)
       else (Inl (Plain ''affiliate rebate claim log not found''), d))"

text \<open>The body of the transaction; \<open>Inl None\<close> is the return without an error and without a commit.\<close>

definition rebate_body ::
    "(int \<Rightarrow> float64 \<Rightarrow> int \<Rightarrow> 'w \<Rightarrow> float64 outcome \<times> 'w) \<Rightarrow> PaymentOrder
      \<Rightarrow> ('w, 'g, pay_error option + unit) pay" where
  "rebate_body accrue o' = do {
     claimed \<leftarrow> tryClaimAffiliateRebateAudit (o_ID o');
     case claimed of
       Inl e \<Rightarrow> ret (Inl (Some (Wrapped ''claim affiliate rebate audit: '' e)))
     | Inr claimed \<Rightarrow>
         if \<not> claimed then ret (Inl None)
         else do {
           r \<leftarrow> world (accrue (o_UserID o') (o_Amount o') (o_ID o'));
           case r of
             Inl e \<Rightarrow> ret (Inl (Some (Wrapped ''accrue affiliate rebate: '' e)))
           | Inr rebate \<Rightarrow>
               if f_le rebate (Finite 0) then do {
                 u \<leftarrow> updateClaimedAffiliateRebateAudit (o_ID o') ''AFFILIATE_REBATE_SKIPPED'';
                 ret (case u of Inl e \<Rightarrow> Inl (Some (Wrapped ''update affiliate rebate skipped audit: '' e))
                      | Inr _ \<Rightarrow> Inr ())
               }
               else do {
                 u \<leftarrow> updateClaimedAffiliateRebateAudit (o_ID o') ''AFFILIATE_REBATE_APPLIED'';
                 ret (case u of Inl e \<Rightarrow> Inl (Some (Wrapped ''update affiliate rebate applied audit: '' e))
                      | Inr _ \<Rightarrow> Inr ())
               }
         }
   }"

definition applyAffiliateRebateForOrder ::
    "('w, 'g) PaymentService \<Rightarrow> PaymentOrder \<Rightarrow> ('w, 'g, unit outcome) pay" where
  "applyAffiliateRebateForOrder s o' =
     (if o_OrderType o' \<noteq> OrderTypeBalance \<or> f_le (o_Amount o') (Finite 0) then ret (Inr ())
      else (case ps_accrue s of
              None \<Rightarrow> ret (Inr ())
            | Some accrue \<Rightarrow> do {
                r \<leftarrow> transaction rollback
                       (Some (Wrapped ''begin affiliate rebate tx: '' Unavailable))
                       (Some (Wrapped ''commit affiliate rebate tx: '' Unavailable))
                       (rebate_body accrue o');
                case r of
                  Inr _ \<Rightarrow> ret (Inr ())
                | Inl None \<Rightarrow> ret (Inr ())
                | Inl (Some e) \<Rightarrow> do {
                    _ \<leftarrow> writeAuditLog (o_ID o') ''AFFILIATE_REBATE_FAILED'' ''system''; ret (Inl e) }
              }))"

definition complete_balance ::
    "('w, 'g) PaymentService \<Rightarrow> PaymentOrder \<Rightarrow> ('w, 'g, unit outcome) pay" where
  "complete_balance s o' = do {
     r \<leftarrow> applyAffiliateRebateForOrder s o';
     case r of Inl e \<Rightarrow> ret (Inl e) | Inr _ \<Rightarrow> markCompleted o' ''RECHARGE_SUCCESS''
   }"

definition redeem_balance ::
    "('w, 'g) PaymentService \<Rightarrow> PaymentOrder \<Rightarrow> ('w, 'g, unit outcome) pay" where
  "redeem_balance s o' = do {
     r \<leftarrow> Redeem (ps_redeem s) True (o_UserID o') (o_RechargeCode o');
     case r of Inl e \<Rightarrow> ret (Inl (Wrapped ''redeem balance: '' e)) | Inr _ \<Rightarrow> complete_balance s o'
   }"

definition recharge_code :: "PaymentOrder \<Rightarrow> RedeemCode" where
  "recharge_code o' =
     \<lparr>rc_ID = 0, rc_Code = o_RechargeCode o', rc_Type = RedeemTypeBalance, rc_Value = o_Amount o',
      rc_Status = StatusUnused, rc_UsedBy = None, rc_UsedAt = None, rc_ExpiresAt = None,
      rc_GroupID = None, rc_ValidityDays = 0\<rparr>"

definition doBalance ::
    "('w, 'g) PaymentService \<Rightarrow> PaymentOrder \<Rightarrow> ('w, 'g, unit outcome) pay" where
  "doBalance s o' = do {
     existing \<leftarrow> GetByCode (o_RechargeCode o');
     case resolveRedeemAction existing of
       redeemActionSkipCompleted \<Rightarrow> complete_balance s o'
     | redeemActionCreate \<Rightarrow> do {
         c \<leftarrow> CreateCode (ps_redeem s) (recharge_code o');
         case c of Inl e \<Rightarrow> ret (Inl (Wrapped ''create redeem code: '' e)) | Inr _ \<Rightarrow> redeem_balance s o'
       }
     | redeemActionRedeem \<Rightarrow> redeem_balance s o'
   }"

text \<open>The checks and the lock that both kinds of fulfilment begin with; \<open>None\<close>: nothing to do.\<close>

definition fulfillable :: "PaymentOrder \<Rightarrow> bool outcome" where
  "fulfillable o' =
     (if o_Status o' = OrderStatusCompleted then Inr False
      else if psIsRefundStatus (o_Status o') then
        Inl (BadRequest ''INVALID_STATUS'' ''refund-related order cannot fulfill'')
      else if o_Status o' \<noteq> OrderStatusPaid \<and> o_Status o' \<noteq> OrderStatusFailed then
        Inl (BadRequest ''INVALID_STATUS'' (''order cannot fulfill in status '' @ status_text (o_Status o')))
      else Inr True)"

definition lock_and_run ::
    "PaymentOrder \<Rightarrow> ('w, 'g, unit outcome) pay \<Rightarrow> ('w, 'g, unit outcome) pay" where
  "lock_and_run o' work = do {
     c \<leftarrow> order_Update (in_status (o_ID o') [OrderStatusPaid, OrderStatusFailed])
            (set_status OrderStatusRecharging);
     case c of
       Inl e \<Rightarrow> ret (Inl (Wrapped ''lock: '' e))
     | Inr n \<Rightarrow>
         if n = 0 then ret (Inr ())
         else do {
           r \<leftarrow> work;
           case r of Inl e \<Rightarrow> do { _ \<leftarrow> markFailed (o_ID o') e; ret (Inl e) } | Inr _ \<Rightarrow> ret (Inr ())
         }
   }"

definition ExecuteBalanceFulfillment ::
    "('w, 'g) PaymentService \<Rightarrow> int \<Rightarrow> ('w, 'g, unit outcome) pay" where
  "ExecuteBalanceFulfillment s oid = do {
     c \<leftarrow> order_Get oid;
     case c of
       Inl _ \<Rightarrow> ret (Inl (NotFound ''NOT_FOUND'' ''order not found''))
     | Inr o' \<Rightarrow>
         (case fulfillable o' of
            Inl e \<Rightarrow> ret (Inl e)
          | Inr ready \<Rightarrow> if ready then lock_and_run o' (doBalance s o') else ret (Inr ()))
   }"

section \<open>Fulfilment of a subscription order\<close>

definition doSub ::
    "('w, 'g) PaymentService \<Rightarrow> PaymentOrder \<Rightarrow> int \<Rightarrow> int \<Rightarrow> ('w, 'g, unit outcome) pay" where
  "doSub s o' gid days = do {
     g \<leftarrow> world (ps_groupActive s gid);
     case g of
       Inl _ \<Rightarrow> ret (Inl (Plain (''group '' @ Itoa gid @ '' no longer exists or inactive'')))
     | Inr active \<Rightarrow>
         if \<not> active then ret (Inl (Plain (''group '' @ Itoa gid @ '' no longer exists or inactive'')))
         else do {
           already \<leftarrow> hasAuditLog (o_ID o') ''SUBSCRIPTION_SUCCESS'';
           if already then markCompleted o' ''SUBSCRIPTION_SUCCESS''
           else do {
             c \<leftarrow> world (AssignOrExtendSubscription (rs_grants (ps_redeem s)) (o_UserID o') gid days
                    (''payment order '' @ Itoa (o_ID o')));
             case c of
               Inl e \<Rightarrow> ret (Inl (Wrapped ''assign subscription: '' e))
             | Inr _ \<Rightarrow> markCompleted o' ''SUBSCRIPTION_SUCCESS''
           }
         }
   }"

definition ExecuteSubscriptionFulfillment ::
    "('w, 'g) PaymentService \<Rightarrow> int \<Rightarrow> ('w, 'g, unit outcome) pay" where
  "ExecuteSubscriptionFulfillment s oid = do {
     c \<leftarrow> order_Get oid;
     case c of
       Inl _ \<Rightarrow> ret (Inl (NotFound ''NOT_FOUND'' ''order not found''))
     | Inr o' \<Rightarrow>
         (case fulfillable o' of
            Inl e \<Rightarrow> ret (Inl e)
          | Inr ready \<Rightarrow>
              if \<not> ready then ret (Inr ())
              else (case (o_SubscriptionGroupID o', o_SubscriptionDays o') of
                      (Some gid, Some days) \<Rightarrow> lock_and_run o' (doSub s o' gid days)
                    | _ \<Rightarrow> ret (Inl (BadRequest ''INVALID_STATUS'' ''missing subscription info''))))
   }"

definition executeFulfillment ::
    "('w, 'g) PaymentService \<Rightarrow> int \<Rightarrow> ('w, 'g, unit outcome) pay" where
  "executeFulfillment s oid = do {
     c \<leftarrow> order_Get oid;
     case c of
       Inl e \<Rightarrow> ret (Inl (Wrapped ''get order: '' e))
     | Inr o' \<Rightarrow>
         if o_OrderType o' = OrderTypeSubscription then ExecuteSubscriptionFulfillment s oid
         else ExecuteBalanceFulfillment s oid
   }"

section \<open>Notifications\<close>

definition alreadyProcessed ::
    "('w, 'g) PaymentService \<Rightarrow> PaymentOrder \<Rightarrow> ('w, 'g, unit outcome) pay" where
  "alreadyProcessed s o' = do {
     c \<leftarrow> order_Get (o_ID o');
     case c of
       Inl _ \<Rightarrow> ret (Inr ())
     | Inr cur \<Rightarrow>
         (case o_Status cur of
            OrderStatusCompleted \<Rightarrow> ret (Inr ())
          | OrderStatusRefunded \<Rightarrow> ret (Inr ())
          | OrderStatusFailed \<Rightarrow> executeFulfillment s (o_ID o')
          | OrderStatusPaid \<Rightarrow> ret (Inl (order_error o' '' is being processed''))
          | OrderStatusRecharging \<Rightarrow> ret (Inl (order_error o' '' is being processed''))
          | OrderStatusExpired \<Rightarrow> do {
              _ \<leftarrow> writeAuditLog (o_ID o') ''PAYMENT_AFTER_EXPIRY'' ''system''; ret (Inr ()) }
          | _ \<Rightarrow> ret (Inr ()))
   }"

definition minute :: int where
  "minute = 60 * 1000000000"

definition paymentGraceMinutes :: int where
  "paymentGraceMinutes = 5"

definition payable :: "int \<Rightarrow> int \<Rightarrow> PaymentOrder \<Rightarrow> bool" where
  "payable oid grace o' \<longleftrightarrow>
     o_ID o' = oid
     \<and> (o_Status o' = OrderStatusPending \<or> o_Status o' = OrderStatusCancelled
        \<or> o_Status o' = OrderStatusExpired \<and> grace \<le> o_UpdatedAt o')"

definition set_paid :: "numeric \<Rightarrow> float64 \<Rightarrow> go_string \<Rightarrow> int \<Rightarrow> PaymentOrder \<Rightarrow> PaymentOrder" where
  "set_paid num paid tradeNo now o' =
     (set_status OrderStatusPaid o')
       \<lparr>o_PayAmount := stored num 2 paid, o_PaymentTradeNo := tradeNo, o_PaidAt := Some now,
        o_FailedAt := None, o_FailedReason := None\<rparr>"

definition toPaid ::
    "('w, 'g) PaymentService \<Rightarrow> PaymentOrder \<Rightarrow> go_string \<Rightarrow> float64 \<Rightarrow> go_string
      \<Rightarrow> ('w, 'g, unit outcome) pay" where
  "toPaid s o' tradeNo paid pk = do {
     now \<leftarrow> time_Now;
     c \<leftarrow> order_Update (payable (o_ID o') (now - paymentGraceMinutes * minute))
            (set_paid (rs_numeric (ps_redeem s)) paid tradeNo now);
     case c of
       Inl e \<Rightarrow> ret (Inl (Wrapped ''update to PAID: '' e))
     | Inr n \<Rightarrow>
         if n = 0 then alreadyProcessed s o'
         else do {
           _ \<leftarrow> (if o_Status o' = OrderStatusCancelled \<or> o_Status o' = OrderStatusExpired
                 then writeAuditLog (o_ID o') ''ORDER_RECOVERED'' pk else ret ());
           _ \<leftarrow> writeAuditLog (o_ID o') ''ORDER_PAID'' pk;
           executeFulfillment s (o_ID o')
         }
   }"

definition notification_check ::
    "('w, 'g) PaymentService \<Rightarrow> PaymentOrder \<Rightarrow> go_string \<Rightarrow> float64 \<Rightarrow> go_string
      \<Rightarrow> (go_string \<times> go_string) list \<Rightarrow> (go_string \<times> pay_error) option" where
  "notification_check s o' instanceKey paid pk metadata =
     (let expected = expectedNotificationProviderKeyForOrder s o' instanceKey in
      if expected \<noteq> [] \<and> TrimSpace pk \<noteq> [] \<and> \<not> EqualFold expected (TrimSpace pk) then
        Some (''PAYMENT_PROVIDER_MISMATCH'',
              Plain (''provider mismatch: expected '' @ expected @ '', got '' @ pk))
      else (case validateProviderSnapshotMetadata o' pk metadata of
              Inl e \<Rightarrow> Some (''PAYMENT_PROVIDER_METADATA_MISMATCH'', e)
            | Inr _ \<Rightarrow>
                if \<not> isValidProviderAmount paid then
                  Some (''PAYMENT_INVALID_AMOUNT'', InvalidPaidAmount paid)
                else if f_less (paymentAmountToleranceForCurrency (PaymentOrderCurrency o'))
                          (f_abs (f_sub paid (o_PayAmount o'))) then
                  Some (''PAYMENT_AMOUNT_MISMATCH'', AmountMismatch (o_PayAmount o') paid)
                else None))"

definition confirmPayment ::
    "('w, 'g) PaymentService \<Rightarrow> int \<Rightarrow> go_string \<Rightarrow> float64 \<Rightarrow> go_string
      \<Rightarrow> (go_string \<times> go_string) list \<Rightarrow> ('w, 'g, unit outcome) pay" where
  "confirmPayment s oid tradeNo paid pk metadata = do {
     c \<leftarrow> order_Get oid;
     case c of
       Inl _ \<Rightarrow> ret (Inr ())
     | Inr o' \<Rightarrow> do {
         inst \<leftarrow> getOrderProviderInstance o';
         let instanceKey = (case inst of Inr (Some p) \<Rightarrow> pi_ProviderKey p | _ \<Rightarrow> []);
         case notification_check s o' instanceKey paid pk metadata of
           Some (action, e) \<Rightarrow> do { _ \<leftarrow> writeAuditLog (o_ID o') action pk; ret (Inl e) }
         | None \<Rightarrow> toPaid s o' tradeNo paid pk
       }
   }"

definition orderIDPrefix :: go_string where
  "orderIDPrefix = ''sub2_''"

definition parseLegacyPaymentOrderID :: "go_string \<Rightarrow> pay_error \<Rightarrow> int option" where
  "parseLegacyPaymentOrderID orderID lookupErr =
     (let orderID = TrimSpace orderID; trimmed = TrimPrefix orderID orderIDPrefix in
      if \<not> IsNotFound lookupErr then None
      else if \<not> HasPrefix orderID orderIDPrefix then None
      else if trimmed = [] \<or> trimmed = orderID then None
      else (case ParseInt64 trimmed of
              None \<Rightarrow> None
            | Some oid \<Rightarrow> if oid \<le> 0 then None else Some oid))"

definition HandlePaymentNotification ::
    "('w, 'g) PaymentService \<Rightarrow> PaymentNotification \<Rightarrow> go_string \<Rightarrow> ('w, 'g, unit outcome) pay" where
  "HandlePaymentNotification s n pk =
     (if n_Status n \<noteq> NotificationStatusSuccess then ret (Inr ())
      else do {
        c \<leftarrow> order_Only (n_OrderID n);
        case c of
          Inr order \<Rightarrow> confirmPayment s (o_ID order) (n_TradeNo n) (n_Amount n) pk (n_Metadata n)
        | Inl e \<Rightarrow>
            (case parseLegacyPaymentOrderID (n_OrderID n) e of
               Some oid \<Rightarrow> confirmPayment s oid (n_TradeNo n) (n_Amount n) pk (n_Metadata n)
             | None \<Rightarrow>
                 if IsNotFound e then ret (Inl (Wrapped (''out_trade_no='' @ n_OrderID n) ErrOrderNotFound))
                 else ret (Inl (Wrapped (''lookup order failed for out_trade_no '' @ n_OrderID n @ '': '') e)))
      })"

definition RetryFulfillment ::
    "('w, 'g) PaymentService \<Rightarrow> int \<Rightarrow> ('w, 'g, unit outcome) pay" where
  "RetryFulfillment s oid = do {
     c \<leftarrow> order_Get oid;
     case c of
       Inl _ \<Rightarrow> ret (Inl (NotFound ''NOT_FOUND'' ''order not found''))
     | Inr o' \<Rightarrow>
         if o_PaidAt o' = None then ret (Inl (BadRequest ''INVALID_STATUS'' ''order is not paid''))
         else if psIsRefundStatus (o_Status o') then
           ret (Inl (BadRequest ''INVALID_STATUS'' ''refund-related order cannot retry''))
         else if o_Status o' = OrderStatusRecharging then
           ret (Inl (Conflict ''CONFLICT'' ''order is being processed''))
         else if o_Status o' = OrderStatusCompleted then
           ret (Inl (BadRequest ''INVALID_STATUS'' ''order already completed''))
         else if o_Status o' \<noteq> OrderStatusFailed \<and> o_Status o' \<noteq> OrderStatusPaid then
           ret (Inl (BadRequest ''INVALID_STATUS'' ''only paid and failed orders can retry''))
         else do {
           c \<leftarrow> order_Update (in_status oid [OrderStatusFailed, OrderStatusPaid])
                  (\<lambda>x. (set_status OrderStatusPaid x)\<lparr>o_FailedAt := None, o_FailedReason := None\<rparr>);
           case c of
             Inl e \<Rightarrow> ret (Inl (Wrapped ''reset for retry: '' e))
           | Inr _ \<Rightarrow> do {
               _ \<leftarrow> writeAuditLog oid ''RECHARGE_RETRY'' ''admin'';
               executeFulfillment s oid
             }
         }
   }"

end
