(* ===== verification/PayStep.thy ===== *)
theory PayStep
  imports PayFulfill
begin

text \<open>
  What may happen to the payment database: the step relation that every process keeps, with the
  money it moves, and the invariant. \<open>open_ledger\<close> says whether other parts of the system may change
  balances (usage, refunds, administrators); closed, the only source of money is the use of a code.
  The rest of the system is assumed to keep the columns that identify an order, to leave used codes
  alone, and to set an order to \<open>FAILED\<close> outside of fulfilment only while it is pending
  (\<open>CreateOrder\<close>, when the gateway refuses it; the source does not check that it still is, so this leaves
  out the run in which a notification has been faster).
\<close>

section \<open>The life of an order\<close>

text \<open>Once completed, an order stays among the statuses that follow completion.\<close>

definition settled :: "OrderStatus \<Rightarrow> bool" where
  "settled st \<longleftrightarrow> st = OrderStatusCompleted \<or> psIsRefundStatus st"

inductive status_step :: "OrderStatus \<Rightarrow> OrderStatus \<Rightarrow> bool" where
  same: "status_step st st"
| pay: "st \<in> {OrderStatusPending, OrderStatusCancelled, OrderStatusExpired, OrderStatusFailed}
     \<Longrightarrow> status_step st OrderStatusPaid"
| close: "st \<in> {OrderStatusCancelled, OrderStatusExpired, OrderStatusFailed}
     \<Longrightarrow> status_step OrderStatusPending st"
| lock: "st \<in> {OrderStatusPaid, OrderStatusFailed} \<Longrightarrow> status_step st OrderStatusRecharging"
| fail: "status_step OrderStatusRecharging OrderStatusFailed"
| complete: "status_step OrderStatusRecharging OrderStatusCompleted"
| refund: "settled st \<Longrightarrow> settled st' \<Longrightarrow> status_step st st'"

code_pred status_step .

inductive_cases from_settled: "status_step OrderStatusCompleted st"

definition same_order :: "PaymentOrder \<Rightarrow> PaymentOrder \<Rightarrow> bool" where
  "same_order x y \<longleftrightarrow>
     o_ID y = o_ID x \<and> o_UserID y = o_UserID x \<and> o_Amount y = o_Amount x
     \<and> o_RechargeCode y = o_RechargeCode x \<and> o_OrderType y = o_OrderType x"

definition code_used :: "go_string \<Rightarrow> ('w, 'g) pay_db \<Rightarrow> bool" where
  "code_used c d \<longleftrightarrow> list_ex (\<lambda>r. rc_Code r = c \<and> rc_Status r = StatusUsed) (d_codes d)"

text \<open>A balance order that settles has its code used.\<close>

definition order_move :: "('w, 'g) pay_db \<Rightarrow> PaymentOrder \<Rightarrow> PaymentOrder \<Rightarrow> bool" where
  "order_move d x y \<longleftrightarrow>
     same_order x y \<and> status_step (o_Status x) (o_Status y)
     \<and> (\<not> settled (o_Status x) \<longrightarrow> settled (o_Status y) \<longrightarrow> o_OrderType x \<noteq> OrderTypeSubscription
         \<longrightarrow> code_used (o_RechargeCode x) d)"

section \<open>Steps\<close>

datatype effect = Credited go_string int int | Moved int int

definition code_worth :: "numeric \<Rightarrow> User \<Rightarrow> RedeemCode \<Rightarrow> int" where
  "code_worth num u r = to_column num 8 (floor_balance num u (rc_Value r))"

definition same_balance :: "User \<Rightarrow> User \<Rightarrow> bool" where
  "same_balance u v \<longleftrightarrow> u_ID v = u_ID u \<and> u_Balance v = u_Balance u"

inductive pay_step ::
    "numeric \<Rightarrow> bool \<Rightarrow> ('w, 'g) pay_db \<Rightarrow> effect list \<Rightarrow> ('w, 'g) pay_db \<Rightarrow> bool"
  for num open_ledger where
  orders: "\<forall>x\<in>set (d_orders d). order_move d x (f x) \<Longrightarrow>
     pay_step num open_ledger d [] (d\<lparr>d_orders := map f (d_orders d)\<rparr>)"
| new_order: "o_ID x = d_order_seq d + 1 \<Longrightarrow> o_Status x = OrderStatusPending \<Longrightarrow>
     pay_step num open_ledger d []
       (d\<lparr>d_order_seq := d_order_seq d + 1, d_orders := d_orders d @ [x]\<rparr>)"
| order_seq: "pay_step num open_ledger d [] (d\<lparr>d_order_seq := d_order_seq d + 1\<rparr>)"
| audit: "pay_step num open_ledger d [] (d\<lparr>d_audits := as\<rparr>)"
| new_code: "rc_Code r \<notin> rc_Code ` set (d_codes d) \<Longrightarrow> rc_ID r = d_code_seq d + 1 \<Longrightarrow>
     rc_Status r \<noteq> StatusUsed \<Longrightarrow>
     pay_step num open_ledger d []
       (d\<lparr>d_code_seq := d_code_seq d + 1, d_codes := d_codes d @ [r]\<rparr>)"
| code_seq: "pay_step num open_ledger d [] (d\<lparr>d_code_seq := d_code_seq d + 1\<rparr>)"
| redeem: "r \<in> set (d_codes d) \<Longrightarrow> rc_Status r = StatusUnused \<Longrightarrow> rc_Type r = RedeemTypeBalance \<Longrightarrow>
     u \<in> set (d_users d) \<Longrightarrow> u_ID v = u_ID u \<Longrightarrow> n = code_worth num v r \<Longrightarrow>
     \<forall>w. u_ID (g w) = u_ID w \<and> u_Balance (g w) = u_Balance w + n \<Longrightarrow>
     pay_step num open_ledger d [Credited (rc_Code r) (u_ID u) n]
       (set_users (u_ID u) g (use_code (rc_ID r) (u_ID u) d))"
| redeem_other: "r \<in> set (d_codes d) \<Longrightarrow> rc_Status r = StatusUnused \<Longrightarrow> rc_Type r \<noteq> RedeemTypeBalance \<Longrightarrow>
     \<forall>u. same_balance u (g u) \<Longrightarrow>
     pay_step num open_ledger d [] (set_users i g (use_code (rc_ID r) j d)\<lparr>d_world := w\<rparr>)"
| balance: "open_ledger \<Longrightarrow> \<forall>w. u_ID (g w) = u_ID w \<and> u_Balance (g w) = u_Balance w + n \<Longrightarrow>
     pay_step num open_ledger d [Moved i n] (set_users i g d)"
| user: "\<forall>u. same_balance u (g u) \<Longrightarrow> pay_step num open_ledger d [] (set_users i g d)"
| elsewhere: "d_clock d \<le> t \<Longrightarrow>
     pay_step num open_ledger d []
       (d\<lparr>d_clock := t, d_instances := ps, d_world := w, d_outside := out\<rparr>)"

inductive_cases pay_stepE: "pay_step num open_ledger d ms d'"

section \<open>The invariant\<close>

definition settled_used :: "('w, 'g) pay_db \<Rightarrow> bool" where
  "settled_used d \<longleftrightarrow>
     (\<forall>x\<in>set (d_orders d). settled (o_Status x) \<longrightarrow> o_OrderType x \<noteq> OrderTypeSubscription
        \<longrightarrow> code_used (o_RechargeCode x) d)"

definition pay_inv :: "('w, 'g) pay_db \<Rightarrow> bool" where
  "pay_inv d \<longleftrightarrow>
     distinct (map o_ID (d_orders d)) \<and> distinct (map u_ID (d_users d))
     \<and> distinct (map rc_Code (d_codes d)) \<and> distinct (map rc_ID (d_codes d))
     \<and> (\<forall>r\<in>set (d_codes d). rc_ID r \<le> d_code_seq d)
     \<and> (\<forall>x\<in>set (d_orders d). o_ID x \<le> d_order_seq d) \<and> settled_used d"

lemma db_simps [simp]:
  "d_orders (use_code i u d) = d_orders d" "d_users (use_code i u d) = d_users d"
  "d_code_seq (use_code i u d) = d_code_seq d" "d_order_seq (use_code i u d) = d_order_seq d"
  "d_order_seq (set_users i g d) = d_order_seq d"
  "d_orders (set_users i g d) = d_orders d" "d_codes (set_users i g d) = d_codes d"
  "d_code_seq (set_users i g d) = d_code_seq d"
  "code_used c (set_users i g d) = code_used c d"
  by (simp_all add: use_code_def set_users_def code_used_def)

lemma use_code_keeps_used: "code_used c d \<Longrightarrow> code_used c (use_code i u d)"
  by (auto simp: code_used_def list_ex_iff use_code_def usable_def code_status_defs)

lemma step_keeps_used: "pay_step num b d ms d' \<Longrightarrow> code_used c d \<Longrightarrow> code_used c d'"
  by (induction rule: pay_step.induct) (auto simp: code_used_def list_ex_iff use_code_def usable_def code_status_defs)

lemma map_ids [simp]:
  "map rc_Code (d_codes (use_code i u d)) = map rc_Code (d_codes d)"
  "map rc_ID (d_codes (use_code i u d)) = map rc_ID (d_codes d)"
  by (simp_all add: use_code_def)

lemma set_users_ids: "\<forall>w. u_ID (g w) = u_ID w \<Longrightarrow> map u_ID (d_users (set_users i g d)) = map u_ID (d_users d)"
  by (simp add: set_users_def)

lemma use_code_seq:
  "\<forall>r\<in>set (d_codes d). rc_ID r \<le> n \<Longrightarrow> \<forall>r\<in>set (d_codes (use_code i u d)). rc_ID r \<le> n"
  by (auto simp: use_code_def)

lemma settled_used_step: "pay_step num b d ms d' \<Longrightarrow> settled_used d \<Longrightarrow> settled_used d'"
proof -
  assume step: "pay_step num b d ms d'" and used: "settled_used d"
  note keep = step_keeps_used [OF step]
  show ?thesis
    using step
  proof cases
    case (orders f)
    then show ?thesis
      using used keep by (fastforce simp: settled_used_def order_move_def same_order_def)
  next
    case (new_order x)
    then show ?thesis
      using used keep by (auto simp: settled_used_def settled_def)
  qed (use used keep in \<open>auto simp: settled_used_def\<close>)
qed

lemma pay_inv_step: "pay_inv d \<Longrightarrow> pay_step num b d ms d' \<Longrightarrow> pay_inv d'"
proof -
  assume inv: "pay_inv d" and step: "pay_step num b d ms d'"
  have used: "settled_used d'"
    using settled_used_step [OF step] inv by (simp add: pay_inv_def)
  show ?thesis
    using step
  proof cases
    case (orders f)
    then have ids: "map (o_ID \<circ> f) (d_orders d) = map o_ID (d_orders d)"
      by (simp add: order_move_def same_order_def)
    have "distinct (map (o_ID \<circ> f) (d_orders d))"
      unfolding ids using inv by (simp add: pay_inv_def)
    then show ?thesis
      using orders inv used by (simp add: pay_inv_def order_move_def same_order_def)
  next
    case (new_code r)
    then show ?thesis
      using inv used by (fastforce simp: pay_inv_def)
  qed (use inv used in \<open>fastforce simp: pay_inv_def set_users_ids use_code_seq same_balance_def\<close>)+
qed

interpretation pay: shared_store "pay_step num open_ledger" pay_inv for num open_ledger
  by unfold_locales (rule pay_inv_step)

end
