(* ===== verification/PayGuard.thy ===== *)
theory PayGuard
  imports PayStep
begin

text \<open>
  Every operation of fulfilment keeps to the step relation of \<open>PayStep\<close>, whatever the other processes
  do between its statements and whichever of them fail.
\<close>

section \<open>Facts that last\<close>

definition known :: "PaymentOrder \<Rightarrow> ('w, 'g) pay_db \<Rightarrow> bool" where
  "known o' d \<longleftrightarrow> (\<exists>x\<in>set (d_orders d). same_order o' x)"

definition same_code :: "RedeemCode \<Rightarrow> RedeemCode \<Rightarrow> bool" where
  "same_code r q \<longleftrightarrow>
     rc_ID q = rc_ID r \<and> rc_Code q = rc_Code r \<and> rc_Type q = rc_Type r \<and> rc_Value q = rc_Value r"

definition known_code :: "RedeemCode \<Rightarrow> ('w, 'g) pay_db \<Rightarrow> bool" where
  "known_code r d \<longleftrightarrow> (\<exists>q\<in>set (d_codes d). same_code r q)"

lemma known_mem: "x \<in> set (d_orders d) \<Longrightarrow> known x d"
  by (auto simp: known_def same_order_def)

lemma same_order_trans: "same_order x y \<Longrightarrow> same_order y z \<Longrightarrow> same_order x z"
  by (simp add: same_order_def)

lemma known_step: "pay_step num b d ms d' \<Longrightarrow> known o' d \<Longrightarrow> known o' d'"
proof (induction rule: pay_step.induct)
  case (orders d f)
  then obtain x where "x \<in> set (d_orders d)" "same_order o' x" "same_order x (f x)"
    by (auto simp: known_def order_move_def)
  then show ?case
    by (auto simp: known_def intro: same_order_trans)
qed (auto simp: known_def)

lemma bex_map: "(\<exists>y\<in>set (map h xs). Q y) \<longleftrightarrow> (\<exists>x\<in>set xs. Q (h x))"
  by auto

lemma known_code_simps [simp]:
  "known_code r (use_code i u d) = known_code r d"
  "known_code r (set_users j g d) = known_code r d"
  "known_code r (d\<lparr>d_world := w\<rparr>) = known_code r d"
proof -
  have "same_code r (if usable i q then q\<lparr>rc_Status := st, rc_UsedBy := ub, rc_UsedAt := ua\<rparr> else q) = same_code r q"
    for q st ub ua
    by (simp add: same_code_def)
  then show "known_code r (use_code i u d) = known_code r d"
    by (simp add: known_code_def use_code_def bex_map del: set_map)
qed (simp_all add: known_code_def)

lemma known_code_step: "pay_step num b d ms d' \<Longrightarrow> known_code r d \<Longrightarrow> known_code r d'"
proof (induction rule: pay_step.induct)
  case (new_code q d)
  then show ?case by (auto simp: known_code_def)
qed (simp_all, simp_all add: known_code_def)

lemma keeps_known [simp]: "pay.keeps num b (known o')"
  using known_step unfolding pay.keeps_def by blast

lemma keeps_known_code [simp]: "pay.keeps num b (known_code r)"
  using known_code_step unfolding pay.keeps_def by blast

lemma keeps_used [simp]: "pay.keeps num b (code_used c)"
  using step_keeps_used unfolding pay.keeps_def by blast

lemma keeps_and [simp]: "pay.keeps num b P \<Longrightarrow> pay.keeps num b Q \<Longrightarrow> pay.keeps num b (\<lambda>d. P d \<and> Q d)"
  by (rule pay.keeps_conj)

lemma known_row:
  "pay_inv d \<Longrightarrow> known o' d \<Longrightarrow> x \<in> set (d_orders d) \<Longrightarrow> o_ID x = o_ID o' \<Longrightarrow> same_order o' x"
proof -
  assume h: "pay_inv d" "known o' d" "x \<in> set (d_orders d)" "o_ID x = o_ID o'"
  then obtain y where y: "y \<in> set (d_orders d)" "same_order o' y" by (auto simp: known_def)
  have "inj_on o_ID (set (d_orders d))"
    using h(1) by (simp add: pay_inv_def distinct_map)
  with y h(3,4) have "x = y" by (metis inj_onD same_order_def)
  with y show ?thesis by simp
qed

section \<open>Safe commands\<close>

text \<open>A command is safe for a lasting fact when it makes only steps; the fact holds at its end.\<close>

definition safe :: "numeric \<Rightarrow> bool \<Rightarrow> (('w, 'g) pay_db \<Rightarrow> bool) \<Rightarrow> ('w, 'g, 'a) pay \<Rightarrow> bool" where
  "safe num b P c \<longleftrightarrow> pay.rg num b P c (\<lambda>_. P)"

named_theorems safe \<open>commands that make only steps of the payment database\<close>

lemma safe_ret [safe]: "safe num b P (ret x)"
  unfolding safe_def by (rule pay.rg_ret)

lemma safe_peek [safe]: "safe num b P (peek f)" "safe num b P time_Now"
  unfolding safe_def time_Now_def by (rule pay.rg_peek, assumption)+

lemma safe_bind [safe]: "safe num b P c \<Longrightarrow> (\<And>x. safe num b P (k x)) \<Longrightarrow> safe num b P (State_Monad.bind c k)"
  unfolding safe_def by (rule pay.rg_bind)

lemma safe_if [safe]: "(c \<Longrightarrow> safe num b P x) \<Longrightarrow> (\<not> c \<Longrightarrow> safe num b P y) \<Longrightarrow> safe num b P (if c then x else y)"
  by simp

lemma safe_sum [safe]:
  "(\<And>e. r = Inl e \<Longrightarrow> safe num b P (f e)) \<Longrightarrow> (\<And>x. r = Inr x \<Longrightarrow> safe num b P (g x))
    \<Longrightarrow> safe num b P (case r of Inl e \<Rightarrow> f e | Inr x \<Rightarrow> g x)"
  by (cases r) auto

lemma safe_option [safe]:
  "(r = None \<Longrightarrow> safe num b P f) \<Longrightarrow> (\<And>x. r = Some x \<Longrightarrow> safe num b P (g x))
    \<Longrightarrow> safe num b P (case r of None \<Rightarrow> f | Some x \<Rightarrow> g x)"
  by (cases r) auto

lemma safe_pair [safe]: "safe num b P (f (fst p) (snd p)) \<Longrightarrow> safe num b P (case p of (x, y) \<Rightarrow> f x y)"
  by (cases p) auto

lemma safe_stmt:
  assumes "pay.keeps num b P" "\<And>d. pay_inv d \<Longrightarrow> P d \<Longrightarrow> pay.reach num b d (snd (run d))"
  shows "safe num b P (stmt e run)"
  unfolding safe_def
proof (rule pay.rg_stmt [OF assms(1)])
  fix d assume d: "pay_inv d" "P d"
  then have "P (snd (run d))" using pay.keeps_reach [OF assms(2) assms(1)] by blast
  then show "pay.reach num b d (snd (run d)) \<and> P (snd (run d))" "P d \<and> P (snd (run d))"
    using assms(2) d by auto
qed

lemma safe_step:
  assumes "pay.keeps num b P"
    and "\<And>d. pay_inv d \<Longrightarrow> P d \<Longrightarrow> snd (run d) = d \<or> pay_step num b d (ms d) (snd (run d))"
  shows "safe num b P (stmt e run)"
proof (rule safe_stmt [OF assms(1)])
  fix d assume "pay_inv d" "P d"
  from assms(2) [OF this] show "pay.reach num b d (snd (run d))"
    by (auto intro: pay.reach_step)
qed

lemma elsewhere_step: "pay_step num b d [] (d\<lparr>d_world := w\<rparr>)" "pay_step num b d [] (d\<lparr>d_outside := out\<rparr>)"
  using pay_step.elsewhere [where d = d and t = "d_clock d" and ps = "d_instances d" and w = w
      and out = "d_outside d" and num = num and open_ledger = b]
    pay_step.elsewhere [where d = d and t = "d_clock d" and ps = "d_instances d" and w = "d_world d"
      and out = out and num = num and open_ledger = b] by simp_all

lemma safe_reads [safe]:
  assumes "pay.keeps num b P"
  shows "safe num b P (order_Get i)" "safe num b P (order_Only n)" "safe num b P (redeem_GetByCode c)"
    "safe num b P (redeem_GetByID i)" "safe num b P (user_GetByID i)" "safe num b P (instance_Get i)"
    "safe num b P (instance_All p)" "safe num b P (hasAuditLog i action)"
  using assms unfolding order_Get_def order_Only_def redeem_GetByCode_def redeem_GetByID_def
    user_GetByID_def instance_Get_def instance_All_def hasAuditLog_def
  by (auto intro!: safe_step safe_bind safe_ret)

lemma safe_elsewhere [safe]:
  assumes "pay.keeps num b P"
  shows "safe num b P (outside h)" "safe num b P (world k)"
  using assms unfolding outside_def world_def
  by (auto intro!: safe_step [where ms = "\<lambda>_. []"] elsewhere_step split: prod.splits)

lemma safe_audit [safe]:
  assumes "pay.keeps num b P"
  shows "safe num b P (writeAuditLog oid action op)"
  using assms unfolding writeAuditLog_def audit_Create_def
  by (auto intro!: safe_bind safe_ret safe_step [where ms = "\<lambda>_. []"] simp: add_audit_def pay_step.audit)

lemma safe_redeem_Create [safe]:
  assumes "pay.keeps num b P" "rc_Status r \<noteq> StatusUsed"
  shows "safe num b P (redeem_Create n r)"
  unfolding redeem_Create_def
  by (rule safe_step [OF assms(1), where ms = "\<lambda>_. []"], rule disjI2)
    (use assms(2) in \<open>auto simp: Let_def list_ex_iff intro!: pay_step.code_seq pay_step.new_code\<close>)

lemma order_move_touch [simp]: "order_move d x (touch t y) = order_move d x y"
  by (simp add: order_move_def same_order_def touch_def)

lemma order_move_refl [simp]: "order_move d x x"
  by (simp add: order_move_def same_order_def status_step.same)

lemma safe_order_Update:
  assumes "pay.keeps num b P"
    and "\<And>d x. pay_inv d \<Longrightarrow> P d \<Longrightarrow> x \<in> set (d_orders d) \<Longrightarrow> p x \<Longrightarrow> order_move d x (f x)"
  shows "safe num b P (order_Update p f)"
  unfolding order_Update_def set_orders_def
  by (rule safe_step [OF assms(1), where ms = "\<lambda>_. []"]) (auto intro!: pay_step.orders simp: assms(2))

section \<open>Redeeming\<close>

lemma set_users_id [simp]: "set_users i id d = d" "set_users i (\<lambda>u. u) d = d"
  by (simp_all add: set_users_def id_def map_idI)

text \<open>What a transaction that uses a code and succeeds has done.\<close>

lemma user_update_calm:
  assumes "calm m" "run_state (user_update i f) m = (Inr y, m')"
  shows "calm m' \<and> list_ex (\<lambda>u. u_ID u = i) (d_users (db m)) \<and> db m' = set_users i f (db m)"
  using assms(1) assms(2) [unfolded user_update_def]
  by (cases rule: stmt_calm) (simp_all split: if_splits)

lemma world_calm:
  assumes "calm m" "run_state (world k) m = (Inr y, m')"
  shows "calm m' \<and> (\<exists>w. db m' = (db m)\<lparr>d_world := w\<rparr>)"
  using assms(1) assms(2) [unfolded world_def]
  by (cases rule: stmt_calm) (auto split: prod.splits)

lemma grant_calm:
  assumes "calm m" "run_state (grant s i user r) m = (Inr y, m')"
  shows "(rc_Type r = RedeemTypeBalance \<and> list_ex (\<lambda>u. u_ID u = i) (d_users (db m))
      \<and> (\<exists>g. db m' = set_users i g (db m) \<and>
           (\<forall>w. u_ID (g w) = u_ID w \<and> u_Balance (g w) = u_Balance w + code_worth (rs_numeric s) user r)))
    \<or> (rc_Type r \<noteq> RedeemTypeBalance
      \<and> (\<exists>g w. db m' = (set_users i g (db m))\<lparr>d_world := w\<rparr> \<and> (\<forall>u. same_balance u (g u))))"
proof -
  consider "rc_Type r = RedeemTypeBalance"
    | "rc_Type r \<noteq> RedeemTypeBalance" "rc_Type r = RedeemTypeConcurrency"
    | "rc_Type r \<noteq> RedeemTypeBalance" "rc_Type r \<noteq> RedeemTypeConcurrency" "rc_Type r = RedeemTypeSubscription"
    using assms(2) by (auto simp: grant_def split: if_splits)
  then show ?thesis
  proof cases
    case 1
    let ?amount = "floor_balance (rs_numeric s) user (rc_Value r)"
    let ?g = "\<lambda>u. let n = to_column (rs_numeric s) 8 ?amount; u = u\<lparr>u_Balance := u_Balance u + n\<rparr> in
       if f_less (Finite 0) ?amount then u\<lparr>u_TotalRecharged := u_TotalRecharged u + n\<rparr> else u"
    have "\<exists>z. run_state (user_update i ?g) m = (Inr z, m')"
      using assms(2) 1 unfolding grant_def UpdateBalance_def by (auto split: prod.splits sum.splits)
    then have "list_ex (\<lambda>u. u_ID u = i) (d_users (db m)) \<and> db m' = set_users i ?g (db m)"
      using user_update_calm [OF assms(1)] by blast
    moreover have "\<forall>w. u_ID (?g w) = u_ID w \<and> u_Balance (?g w) = u_Balance w + code_worth (rs_numeric s) user r"
      by (simp add: code_worth_def Let_def)
    ultimately show ?thesis
      using 1 by blast
  next
    case 2
    then obtain z delta where "run_state (UpdateConcurrency i delta) m = (Inr z, m')"
      using assms(2) unfolding grant_def Let_def by (auto split: prod.splits sum.splits)
    from user_update_calm [OF assms(1) this [unfolded UpdateConcurrency_def]]
    have "db m' = (set_users i (\<lambda>u. u\<lparr>u_Concurrency := u_Concurrency u + delta\<rparr>) (db m))\<lparr>d_world := d_world (db m)\<rparr>"
      by (simp add: set_users_def)
    then show ?thesis
      using 2 by (intro disjI2 conjI exI) (auto simp: same_balance_def)
  next
    case 3
    then have "\<exists>k. run_state (world k) m = (Inr (), m')"
      using assms(2) unfolding grant_def Let_def
      by (cases "rc_ValidityDays r < 0") (auto split: prod.splits sum.splits simp del: ex_simps)
    then obtain k where "run_state (world k) m = (Inr (), m')" by blast
    from world_calm [OF assms(1) this] obtain w where "db m' = (set_users i id (db m))\<lparr>d_world := w\<rparr>"
      by auto
    then show ?thesis
      using 3 by (intro disjI2 conjI exI) (auto simp: same_balance_def)
  qed
qed

text \<open>The transaction is one step that uses the code and credits what it is worth.\<close>

lemma use_and_grant_step:
  assumes "pay_inv (db m)" "known_code r (db m)" "u_ID user = i" "calm m"
    "run_state (use_and_grant s i user r) m = (Inr y, m')"
  shows "(\<exists>ms. pay_step (rs_numeric s) b (db m) ms (db m')) \<and> code_used (rc_Code r) (db m')"
proof -
  obtain z n where z: "run_state (redeem_Use (rc_ID r) i) m = (Inr z, n)"
    and g: "run_state (grant s i user r) n = (Inr y, m')"
    using assms(5) unfolding use_and_grant_def by (auto split: prod.splits sum.splits)
  from assms(4) z [unfolded redeem_Use_def]
  have n: "calm n" "list_ex (usable (rc_ID r)) (d_codes (db m))" "db n = use_code (rc_ID r) i (db m)"
    by (cases rule: stmt_calm; simp split: if_splits)+
  obtain q where q: "q \<in> set (d_codes (db m))" "same_code r q" "rc_Status q = StatusUnused"
  proof -
    obtain p q where pq: "p \<in> set (d_codes (db m))" "rc_ID p = rc_ID r" "rc_Status p = StatusUnused"
      "q \<in> set (d_codes (db m))" "same_code r q"
      using n(2) assms(2) by (auto simp: list_ex_iff usable_def known_code_def)
    have "inj_on rc_ID (set (d_codes (db m)))"
      using assms(1) by (simp add: pay_inv_def distinct_map)
    with pq have "p = q" by (metis inj_onD same_code_def)
    with pq show ?thesis using that by blast
  qed
  have worth: "code_worth (rs_numeric s) user r = code_worth (rs_numeric s) user q"
    using q(2) by (simp add: code_worth_def same_code_def)
  have ids: "rc_ID r = rc_ID q" "rc_Type r = rc_Type q" "rc_Code r = rc_Code q"
    using q(2) by (simp_all add: same_code_def)
  have "code_used (rc_Code r) (use_code (rc_ID r) i (db m))"
    using q ids by (auto simp: code_used_def list_ex_iff use_code_def usable_def bex_map simp del: set_map
        intro!: bexI [of _ q])
  moreover from this have "code_used (rc_Code r) (db m')"
    using grant_calm [OF n(1) g] by (auto simp: n(3) code_used_def)
  moreover have "\<exists>ms. pay_step (rs_numeric s) b (db m) ms (db m')"
    using grant_calm [OF n(1) g]
  proof (elim disjE conjE exE)
    fix h assume h: "rc_Type r = RedeemTypeBalance" "list_ex (\<lambda>u. u_ID u = i) (d_users (db n))"
      "db m' = set_users i h (db n)"
      "\<forall>w. u_ID (h w) = u_ID w \<and> u_Balance (h w) = u_Balance w + code_worth (rs_numeric s) user r"
    then obtain u where "u \<in> set (d_users (db m))" "u_ID u = i"
      by (auto simp: list_ex_iff n(3))
    then show ?thesis
      using pay_step.redeem [where r = q and d = "db m" and u = u and v = user and g = h and num = "rs_numeric s"
          and n = "code_worth (rs_numeric s) user q" and open_ledger = b, OF q(1,3)]
        h assms(3) ids worth n(3) by auto
  next
    fix h w assume h: "rc_Type r \<noteq> RedeemTypeBalance" "db m' = (set_users i h (db n))\<lparr>d_world := w\<rparr>"
      "\<forall>u. same_balance u (h u)"
    then show ?thesis
      using pay_step.redeem_other [where r = q and d = "db m" and g = h and num = "rs_numeric s"
          and open_ledger = b and i = i and j = i and w = w, OF q(1,3) _ h(3)] ids n(3) by auto
  qed
  ultimately show ?thesis by blast
qed

lemma rollback_step: "pay.reach num b d (rollback d d')"
  by (auto simp: rollback_def intro!: pay.reach_step elsewhere_step)

lemma rg_use_and_grant:
  assumes "pay.keeps (rs_numeric s) b P" "u_ID user = i"
  shows "pay.rg (rs_numeric s) b (\<lambda>d. P d \<and> known_code r d)
     (Tx begin_text commit_text (use_and_grant s i user r))
     (\<lambda>x d. P d \<and> (\<forall>y. x = Inr y \<longrightarrow> code_used (rc_Code r) d))"
  unfolding Tx_def
proof (rule pay.rg_transaction)
  fix m :: "('a, 'b) pay_db machine" and x m'
  assume h: "pay_inv (db m)" "P (db m) \<and> known_code r (db m)" "calm m"
    "run_state (use_and_grant s i user r) m = (x, m')"
  have "pay.reach (rs_numeric s) b (db m) (db m') \<and> P (db m') \<and> code_used (rc_Code r) (db m')"
    if "x = Inr y" for y
  proof -
    have "(\<exists>ms. pay_step (rs_numeric s) b (db m) ms (db m')) \<and> code_used (rc_Code r) (db m')"
      using use_and_grant_step [OF h(1) _ assms(2) h(3)] h(2,4) that by auto
    then show ?thesis
      using pay.reach_step pay.keeps_reach [OF _ assms(1) h(1)] h(2) by blast
  qed
  then show "pay.reach (rs_numeric s) b (db m) (rollback (db m) (db m'))
      \<and> (\<forall>y. x = Inr y \<longrightarrow> pay.reach (rs_numeric s) b (db m) (db m')
          \<and> P (db m') \<and> (\<forall>y'. Inr y = Inr y' \<longrightarrow> code_used (rc_Code r) (db m')))"
    using rollback_step by auto
qed (use assms in auto)

lemma safe_rg: "safe num b P c \<Longrightarrow> (\<And>x d. P d \<Longrightarrow> Q x d) \<Longrightarrow> pay.rg num b P c Q"
  unfolding safe_def by (rule pay.rg_conseq)

lemma rg_safe: "pay.rg num b P c (\<lambda>x d. P d \<and> Q x d) \<Longrightarrow> safe num b P c"
  unfolding safe_def by (erule pay.rg_conseq) auto

text \<open>Reads that tell something that lasts.\<close>

lemma rg_order_Get:
  assumes "pay.keeps num b P"
  shows "pay.rg num b P (order_Get i)
    (\<lambda>x d. case x of Inl _ \<Rightarrow> P d | Inr o' \<Rightarrow> (P d \<and> known o' d) \<and> o_ID o' = i)"
  unfolding order_Get_def using assms
  by (rule pay.rg_stmt) (auto simp: known_def same_order_def find_Some_iff split: option.splits intro: nth_mem)

lemma rg_order_Only:
  assumes "pay.keeps num b P"
  shows "pay.rg num b P (order_Only n) (\<lambda>x d. case x of Inl _ \<Rightarrow> P d | Inr o' \<Rightarrow> P d)"
  by (rule safe_rg [OF safe_reads(2) [OF assms]]) (simp split: sum.splits)

lemma find_in: "find p xs = Some x \<Longrightarrow> x \<in> set xs \<and> p x"
  by (auto simp: find_Some_iff)

lemma rg_GetByCode:
  assumes "pay.keeps num b P"
  shows "pay.rg num b P (redeem_GetByCode c)
    (\<lambda>x d. case x of Inl _ \<Rightarrow> P d
       | Inr r \<Rightarrow> (P d \<and> known_code r d \<and> (IsUsed r \<longrightarrow> code_used c d)) \<and> rc_Code r = c)"
  unfolding redeem_GetByCode_def using assms
  by (rule pay.rg_stmt)
    (auto simp: known_code_def same_code_def IsUsed_def code_used_def list_ex_iff split: option.splits dest!: find_in)

lemma rg_user_GetByID:
  assumes "pay.keeps num b P"
  shows "pay.rg num b P (user_GetByID i) (\<lambda>x d. case x of Inl _ \<Rightarrow> P d | Inr u \<Rightarrow> P d \<and> u_ID u = i)"
  unfolding user_GetByID_def using assms
  by (rule pay.rg_stmt) (auto split: option.splits dest!: find_in)

lemma safe_cache [safe]:
  assumes "pay.keeps num b P"
  shows "safe num b P (checkRedeemRateLimit s i)" "safe num b P (incrementRedeemErrorCount s i)"
    "safe num b P (acquireRedeemLock s c)" "safe num b P (releaseRedeemLock s c)"
    "safe num b P (tryAccrueAffiliateRebateForRedeem s skip i a)"
  using assms unfolding checkRedeemRateLimit_def incrementRedeemErrorCount_def acquireRedeemLock_def
    releaseRedeemLock_def tryAccrueAffiliateRebateForRedeem_def
  by (auto intro!: safe split: option.splits)

lemma rg_redeem_found:
  assumes P: "pay.keeps (rs_numeric s) b P"
  shows "pay.rg (rs_numeric s) b (\<lambda>d. P d \<and> known_code r d) (redeem_found s skip i r)
    (\<lambda>x d. P d \<and> (\<forall>y. x = Inr y \<longrightarrow> code_used (rc_Code r) d))"
    (is "pay.rg ?num b ?P _ ?Q")
proof -
  have keeps: "pay.keeps ?num b ?P" using P by simp
  have after: "pay.keeps ?num b (\<lambda>d. P d \<and> code_used (rc_Code r) d)" using P by simp
  have fails: "pay.rg ?num b ?P (ret (Inl e)) ?Q" "pay.rg ?num b P (ret (Inl e)) ?Q" for e :: pay_error
    by (rule pay.rg_ret; simp)+
  have counted: "pay.rg ?num b ?P (do { _ \<leftarrow> incrementRedeemErrorCount s i; ret (Inl e) }) ?Q" for e :: pay_error
    by (rule pay.rg_bind [OF safe_rg [OF safe_cache(2) [OF keeps]] fails(1)])
  have redeemed: "pay.rg ?num b (\<lambda>d. P d \<and> code_used (rc_Code r) d)
      (do { _ \<leftarrow> (if rc_Type r = RedeemTypeBalance \<and> f_less (Finite 0) (rc_Value r)
                 then tryAccrueAffiliateRebateForRedeem s skip i (rc_Value r) else ret ());
            c \<leftarrow> redeem_GetByID (rc_ID r);
            ret (case c of Inl e \<Rightarrow> Inl (Wrapped ''get updated redeem code: '' e) | Inr r \<Rightarrow> Inr r) }) ?Q"
    by (rule safe_rg) (auto intro!: safe after)
  have main: "pay.rg ?num b ?P
      (do { done \<leftarrow> Tx ''begin transaction: '' ''commit transaction: '' (use_and_grant s i user r);
            case done of Inl e \<Rightarrow> ret (Inl e)
            | Inr _ \<Rightarrow> do { _ \<leftarrow> (if rc_Type r = RedeemTypeBalance \<and> f_less (Finite 0) (rc_Value r)
                 then tryAccrueAffiliateRebateForRedeem s skip i (rc_Value r) else ret ());
            c \<leftarrow> redeem_GetByID (rc_ID r);
            ret (case c of Inl e \<Rightarrow> Inl (Wrapped ''get updated redeem code: '' e) | Inr r \<Rightarrow> Inr r) } }) ?Q"
    if "u_ID user = i" for user
    by (rule pay.rg_bind_sum [OF pay.rg_conseq [OF rg_use_and_grant [OF P that]] fails(2) redeemed])
      (auto split: sum.splits)
  show ?thesis
    unfolding redeem_found_def
    by (rule pay.rg_bind [OF safe_rg [OF safe_peek(2)]], assumption,
        intro pay.rg_if counted fails pay.rg_bind_sum [OF rg_user_GetByID [OF keeps]] pay.rg_pure main)
qed

lemma rg_Redeem:
  assumes P: "pay.keeps (rs_numeric s) b P"
  shows "pay.rg (rs_numeric s) b P (Redeem s skip i c) (\<lambda>x d. P d \<and> (\<forall>y. x = Inr y \<longrightarrow> code_used c d))"
    (is "pay.rg ?num b P _ ?Q")
proof -
  have fails: "pay.rg ?num b P (ret (Inl e)) ?Q" for e :: pay_error
    by (rule pay.rg_ret) simp
  have counted: "pay.rg ?num b P (do { _ \<leftarrow> incrementRedeemErrorCount s i; ret (Inl e) }) ?Q" for e :: pay_error
    by (rule pay.rg_bind [OF safe_rg [OF safe_cache(2) [OF P]] fails])
  have found: "pay.rg ?num b ((\<lambda>d. P d \<and> known_code r d \<and> (IsUsed r \<longrightarrow> code_used c d))) (redeem_found s skip i r) ?Q"
    if "rc_Code r = c" for r
    by (rule pay.rg_conseq [OF rg_redeem_found [OF P]]) (use that in auto)
  have locked: "pay.rg ?num b P (redeem_locked s skip i c) ?Q"
    unfolding redeem_locked_def
    by (intro pay.rg_bind_sum [OF rg_GetByCode [OF P]] pay.rg_if counted fails pay.rg_pure found)
  have release: "pay.rg ?num b (?Q r) (do { _ \<leftarrow> releaseRedeemLock s c; ret r }) ?Q" for r
  proof -
    have "pay.keeps ?num b (?Q r)" using P by (cases r) auto
    then show ?thesis
      by (intro pay.rg_bind [OF safe_rg [OF safe_cache(4)]] pay.rg_ret)
  qed
  show ?thesis
    unfolding Redeem_def
    by (intro pay.rg_bind_sum [OF safe_rg [OF safe_cache(1) [OF P]], of "\<lambda>_. P" "\<lambda>_. P"]
        pay.rg_bind [OF safe_rg [OF safe_cache(3) [OF P]], of "\<lambda>_. P"] pay.rg_if fails
        pay.rg_bind [OF locked] release) (auto split: sum.splits)
qed

section \<open>The affiliate rebate\<close>

lemma rebate_calm:
  assumes "calm m" "run_state (rebate_body accrue o') m = (Inr y, m')"
  shows "\<exists>as w. db m' = (db m)\<lparr>d_audits := as, d_world := w\<rparr>"
proof -
  obtain n where n: "run_state (tryClaimAffiliateRebateAudit (o_ID o')) m = (Inr True, n)"
    using assms(2) unfolding rebate_body_def by (auto split: prod.splits sum.splits if_splits)
  with assms(2) obtain r n' where r: "run_state (world (accrue (o_UserID o') (o_Amount o') (o_ID o'))) n = (Inr r, n')"
    and u: "\<exists>z action. run_state (updateClaimedAffiliateRebateAudit (o_ID o') action) n' = (Inr z, m')"
    unfolding rebate_body_def by (auto split: prod.splits sum.splits if_splits)
  from assms(1) n [unfolded tryClaimAffiliateRebateAudit_def]
  have one: "calm n" "\<exists>as. db n = (db m)\<lparr>d_audits := as\<rparr>"
    by (cases rule: stmt_calm; simp add: add_audit_def split: if_splits; blast)+
  from world_calm [OF one(1) r] have two: "calm n'" "\<exists>w. db n' = (db n)\<lparr>d_world := w\<rparr>" by auto
  from u obtain z action where z: "run_state (updateClaimedAffiliateRebateAudit (o_ID o') action) n' = (Inr z, m')"
    by blast
  from two(1) z [unfolded updateClaimedAffiliateRebateAudit_def]
  have "\<exists>as. db m' = (db n')\<lparr>d_audits := as\<rparr>"
    by (cases rule: stmt_calm) (auto simp: Let_def split: if_splits intro: exI [of _ "d_audits (db n')"])
  then obtain as where "db m' = (db n')\<lparr>d_audits := as\<rparr>" ..
  moreover obtain w where "db n' = (db n)\<lparr>d_world := w\<rparr>" using two(2) ..
  moreover obtain as' where "db n = (db m)\<lparr>d_audits := as'\<rparr>" using one(2) ..
  ultimately have "db m' = (db m)\<lparr>d_audits := as, d_world := w\<rparr>" by simp
  then show ?thesis by blast
qed

lemma audit_world_reach: "pay.reach num b d (d\<lparr>d_audits := as, d_world := w\<rparr>)"
  by (rule pay.reach_trans [OF pay.reach_step [OF pay_step.audit [of num b d as]]])
    (auto intro!: pay.reach_step elsewhere_step)

lemma safe_affiliate [safe]:
  assumes P: "pay.keeps num b P"
  shows "safe num b P (applyAffiliateRebateForOrder s o')"
proof -
  have "safe num b P (transaction rollback e c (rebate_body accrue o'))" for e c accrue
    unfolding safe_def
  proof (rule pay.rg_transaction [OF P])
    fix m :: "('a, 'b) pay_db machine" and x m'
    assume h: "pay_inv (db m)" "P (db m)" "calm m" "run_state (rebate_body accrue o') m = (x, m')"
    have "pay.reach num b (db m) (db m')" if "x = Inr y" for y
      using rebate_calm [OF h(3)] h(4) that audit_world_reach by fastforce
    then show "pay.reach num b (db m) (rollback (db m) (db m'))
        \<and> (\<forall>y. x = Inr y \<longrightarrow> pay.reach num b (db m) (db m') \<and> P (db m'))"
      using rollback_step pay.keeps_reach [OF _ P h(1,2)] by blast
  qed (use P in auto)
  then show ?thesis
    unfolding applyAffiliateRebateForOrder_def using P by (auto intro!: safe split: option.splits)
qed

section \<open>Fulfilment\<close>

lemma keeps_imp [simp]: "pay.keeps num b P \<Longrightarrow> pay.keeps num b (\<lambda>d. \<phi> \<longrightarrow> P d)"
  by (cases \<phi>) simp_all

text \<open>What has to hold before an order is completed.\<close>

definition earned :: "PaymentOrder \<Rightarrow> ('w, 'g) pay_db \<Rightarrow> bool" where
  "earned o' d \<longleftrightarrow>
     known o' d \<and> (o_OrderType o' \<noteq> OrderTypeSubscription \<longrightarrow> code_used (o_RechargeCode o') d)"

lemma keeps_earned [simp]: "pay.keeps num b (earned o')"
  unfolding earned_def by simp

lemma same_order_set [simp]:
  "same_order x (set_status st y) = same_order x y"
  "same_order x (y\<lparr>o_CompletedAt := t\<rparr>) = same_order x y"
  "same_order x (y\<lparr>o_FailedAt := f\<rparr>) = same_order x y"
  "same_order x (y\<lparr>o_FailedReason := e\<rparr>) = same_order x y"
  "same_order x (y\<lparr>o_PaidAt := f\<rparr>) = same_order x y"
  "same_order x (y\<lparr>o_PayAmount := a\<rparr>) = same_order x y"
  "same_order x (y\<lparr>o_PaymentTradeNo := n\<rparr>) = same_order x y"
  "same_order x x" "o_Status (set_status st y) = st"
  by (simp_all add: same_order_def set_status_def)

lemma settled_status_simps [simp]:
  "settled OrderStatusCompleted" "\<not> settled OrderStatusPaid" "\<not> settled OrderStatusFailed"
  "\<not> settled OrderStatusRecharging" "\<not> settled OrderStatusPending" "\<not> settled OrderStatusExpired"
  "\<not> settled OrderStatusCancelled"
  by (simp_all add: settled_def)

lemma safe_markCompleted:
  assumes P: "pay.keeps num b P"
  shows "safe num b (\<lambda>d. P d \<and> earned o' d) (markCompleted o' action)"
proof -
  have "safe num b (\<lambda>d. P d \<and> earned o' d)
      (order_Update (in_status (o_ID o') [OrderStatusRecharging])
        (\<lambda>x. (set_status OrderStatusCompleted x)\<lparr>o_CompletedAt := Some now\<rparr>))" for now
  proof (rule safe_order_Update)
    fix d x assume h: "pay_inv d" "P d \<and> earned o' d" "x \<in> set (d_orders d)"
      "in_status (o_ID o') [OrderStatusRecharging] x"
    then have "same_order o' x"
      using known_row [OF h(1)] by (simp add: earned_def in_status_def)
    then have "o_OrderType x = o_OrderType o'" "o_RechargeCode x = o_RechargeCode o'"
      by (simp_all add: same_order_def)
    with h show "order_move d x ((set_status OrderStatusCompleted x)\<lparr>o_CompletedAt := Some now\<rparr>)"
      by (simp add: order_move_def earned_def in_status_def status_step.complete)
  qed (use P in simp)
  then show ?thesis
    unfolding markCompleted_def using P by (intro safe) auto
qed

lemma safe_markFailed [safe]:
  assumes P: "pay.keeps num b P"
  shows "safe num b P (markFailed oid e)"
proof -
  have "safe num b P (order_Update (in_status oid [OrderStatusRecharging])
      (\<lambda>x. (set_status OrderStatusFailed x)\<lparr>o_FailedAt := Some now, o_FailedReason := Some e\<rparr>))" for now
    by (rule safe_order_Update [OF P]) (auto simp: in_status_def order_move_def intro: status_step.fail)
  then show ?thesis
    unfolding markFailed_def using P by (intro safe) auto
qed

lemma safe_complete_balance:
  assumes P: "pay.keeps num b P"
  shows "safe num b (\<lambda>d. P d \<and> earned o' d) (complete_balance s o')"
  unfolding complete_balance_def using P by (intro safe safe_markCompleted) auto

lemma safe_CreateCode:
  assumes P: "pay.keeps num b P" and "rc_Status code \<noteq> StatusUsed"
  shows "safe num b P (CreateCode s code)"
proof -
  have "StatusUnused \<noteq> StatusUsed" by (simp add: code_status_defs)
  with assms show ?thesis
    unfolding CreateCode_def Let_def by (intro safe) (auto split: if_splits)
qed

lemma rg_redeem_balance:
  assumes P: "pay.keeps (rs_numeric (ps_redeem s)) b P"
  shows "safe (rs_numeric (ps_redeem s)) b (\<lambda>d. P d \<and> known o' d) (redeem_balance s o')"
    (is "safe ?num b ?P _")
proof -
  have keeps: "pay.keeps ?num b ?P" using P by simp
  have completes: "pay.rg ?num b (\<lambda>d. ?P d \<and> earned o' d) (complete_balance s o') (\<lambda>_. ?P)"
    by (rule safe_rg [OF safe_complete_balance [OF keeps]]) simp
  have redeemed: "pay.rg ?num b ?P (Redeem (ps_redeem s) True (o_UserID o') (o_RechargeCode o'))
      (\<lambda>x d. case x of Inl _ \<Rightarrow> ?P d | Inr _ \<Rightarrow> ?P d \<and> earned o' d)"
    by (rule pay.rg_conseq [OF rg_Redeem [OF keeps]]) (auto simp: earned_def split: sum.splits)
  show ?thesis
    unfolding safe_def redeem_balance_def
    by (rule pay.rg_bind_sum [OF redeemed _ completes]) (rule pay.rg_ret)
qed

lemma safe_doBalance:
  assumes P: "pay.keeps (rs_numeric (ps_redeem s)) b P"
  shows "safe (rs_numeric (ps_redeem s)) b (\<lambda>d. P d \<and> known o' d) (doBalance s o')"
    (is "safe ?num b ?P _")
proof -
  have keeps: "pay.keeps ?num b ?P" using P by simp
  have create: "safe ?num b ?P (do {
      c \<leftarrow> CreateCode (ps_redeem s) (recharge_code o');
      case c of Inl e \<Rightarrow> ret (Inl (Wrapped ''create redeem code: '' e)) | Inr _ \<Rightarrow> redeem_balance s o' })"
    by (intro safe safe_CreateCode rg_redeem_balance keeps P) (simp add: recharge_code_def code_status_defs)
  have skip: "pay.rg ?num b (\<lambda>d. ?P d \<and> code_used (o_RechargeCode o') d) (complete_balance s o') (\<lambda>_. ?P)"
    by (rule pay.rg_conseq [OF safe_complete_balance [OF keeps, unfolded safe_def]]) (auto simp: earned_def)
  have act: "pay.rg ?num b (\<lambda>d. ?P d \<and> (\<forall>r. c = Inr r \<and> IsUsed r \<longrightarrow> code_used (o_RechargeCode o') d))
      (case resolveRedeemAction c of
         redeemActionSkipCompleted \<Rightarrow> complete_balance s o'
       | redeemActionCreate \<Rightarrow> do {
           c \<leftarrow> CreateCode (ps_redeem s) (recharge_code o');
           case c of Inl e \<Rightarrow> ret (Inl (Wrapped ''create redeem code: '' e)) | Inr _ \<Rightarrow> redeem_balance s o' }
       | redeemActionRedeem \<Rightarrow> redeem_balance s o') (\<lambda>_. ?P)" for c
  proof (cases "resolveRedeemAction c")
    case redeemActionCreate
    then show ?thesis
      using create [unfolded safe_def] by (auto elim: pay.rg_conseq)
  next
    case redeemActionRedeem
    then show ?thesis
      using rg_redeem_balance [OF P, of o', unfolded safe_def] by (auto elim: pay.rg_conseq)
  next
    case redeemActionSkipCompleted
    then have "\<exists>r. c = Inr r \<and> IsUsed r"
      by (auto simp: resolveRedeemAction_def split: sum.splits if_splits)
    then show ?thesis
      unfolding redeemActionSkipCompleted by (auto intro: pay.rg_conseq [OF skip])
  qed
  have "pay.rg ?num b ?P (GetByCode (o_RechargeCode o'))
      (\<lambda>c d. ?P d \<and> (\<forall>r. c = Inr r \<and> IsUsed r \<longrightarrow> code_used (o_RechargeCode o') d))"
    unfolding GetByCode_def
    by (rule pay.rg_bind [OF rg_GetByCode [OF keeps]], rule pay.rg_ret) (auto split: sum.splits)
  then show ?thesis
    unfolding safe_def doBalance_def by (rule pay.rg_bind [OF _ act])
qed

lemma safe_lock_and_run:
  assumes P: "pay.keeps num b P" and work: "safe num b P work"
  shows "safe num b P (lock_and_run o' work)"
proof -
  have "safe num b P (order_Update (in_status (o_ID o') [OrderStatusPaid, OrderStatusFailed])
      (set_status OrderStatusRecharging))"
    by (rule safe_order_Update [OF P]) (auto simp: in_status_def order_move_def intro: status_step.lock)
  then show ?thesis
    unfolding lock_and_run_def using P work by (intro safe) auto
qed

lemma safe_ExecuteBalance [safe]:
  assumes P: "pay.keeps (rs_numeric (ps_redeem s)) b P"
  shows "safe (rs_numeric (ps_redeem s)) b P (ExecuteBalanceFulfillment s oid)"
    (is "safe ?num b P _")
proof -
  have run: "pay.rg ?num b (\<lambda>d. P d \<and> known o' d)
      (case fulfillable o' of Inl e \<Rightarrow> ret (Inl e)
       | Inr ready \<Rightarrow> if ready then lock_and_run o' (doBalance s o') else ret (Inr ())) (\<lambda>_. P)" for o'
    by (rule safe_rg, intro safe safe_lock_and_run safe_doBalance P) (simp_all add: P)
  show ?thesis
    unfolding safe_def ExecuteBalanceFulfillment_def
    by (intro pay.rg_bind_sum [OF rg_order_Get [OF P]] pay.rg_pure run pay.rg_ret)
qed

lemma rg_order_Get_known:
  assumes "pay.keeps num b P"
  shows "pay.rg num b (\<lambda>d. P d \<and> known o1 d) (order_Get (o_ID o1))
    (\<lambda>x d. case x of Inl _ \<Rightarrow> P d | Inr o' \<Rightarrow> (P d \<and> known o' d) \<and> same_order o1 o')"
  unfolding order_Get_def using assms
  by (intro pay.rg_stmt) (auto split: option.splits dest!: find_in intro: known_row known_mem)

lemma safe_doSub:
  assumes P: "pay.keeps num b P" and type: "o_OrderType o' = OrderTypeSubscription"
  shows "safe num b (\<lambda>d. P d \<and> known o' d) (doSub s o' gid days)"
proof -
  have "safe num b (\<lambda>d. P d \<and> known o' d) (markCompleted o' a)" for a
    using safe_markCompleted [OF P, of o'] type by (simp add: earned_def)
  then show ?thesis
    unfolding doSub_def using P by (intro safe) auto
qed

lemma safe_ExecuteSubscription:
  assumes P: "pay.keeps num b P" and type: "o_OrderType o1 = OrderTypeSubscription"
  shows "safe num b (\<lambda>d. P d \<and> known o1 d) (ExecuteSubscriptionFulfillment s (o_ID o1))"
proof -
  have keeps: "pay.keeps num b (\<lambda>d. P d \<and> known o1 d)" using P by simp
  have read: "pay.rg num b (\<lambda>d. P d \<and> known o1 d) (order_Get (o_ID o1))
      (\<lambda>x d. case x of Inl _ \<Rightarrow> P d \<and> known o1 d
         | Inr o' \<Rightarrow> ((P d \<and> known o1 d) \<and> known o' d) \<and> same_order o1 o')"
    by (rule pay.rg_conseq [OF rg_order_Get_known [OF keeps]]) auto
  have run: "pay.rg num b (\<lambda>d. (P d \<and> known o1 d) \<and> known o' d)
      (case fulfillable o' of Inl e \<Rightarrow> ret (Inl e)
       | Inr ready \<Rightarrow> if \<not> ready then ret (Inr ())
           else (case (o_SubscriptionGroupID o', o_SubscriptionDays o') of
                   (Some gid, Some days) \<Rightarrow> lock_and_run o' (doSub s o' gid days)
                 | _ \<Rightarrow> ret (Inl (BadRequest ''INVALID_STATUS'' ''missing subscription info''))))
      (\<lambda>_ d. P d \<and> known o1 d)" if "same_order o1 o'" for o'
    using that type
    by (intro safe_rg [where P = "\<lambda>d. (P d \<and> known o1 d) \<and> known o' d"] safe safe_lock_and_run safe_doSub keeps)
      (auto simp: same_order_def P)
  show ?thesis
    unfolding safe_def ExecuteSubscriptionFulfillment_def
    by (rule pay.rg_bind_sum [OF read], rule pay.rg_ret, assumption, rule pay.rg_pure, rule run)
qed

lemma safe_executeFulfillment [safe]:
  assumes P: "pay.keeps (rs_numeric (ps_redeem s)) b P"
  shows "safe (rs_numeric (ps_redeem s)) b P (executeFulfillment s oid)"
    (is "safe ?num b P _")
proof -
  have run: "pay.rg ?num b (\<lambda>d. P d \<and> known o' d)
      (if o_OrderType o' = OrderTypeSubscription then ExecuteSubscriptionFulfillment s oid
       else ExecuteBalanceFulfillment s oid) (\<lambda>_. P)" if "o_ID o' = oid" for o'
    using safe_ExecuteSubscription [OF P, of o' s] safe_ExecuteBalance [of s b "\<lambda>d. P d \<and> known o' d" oid] that P
    by (auto intro: safe_rg)
  show ?thesis
    unfolding safe_def executeFulfillment_def
    by (rule pay.rg_bind_sum [OF rg_order_Get [OF P]], rule pay.rg_ret, assumption, rule pay.rg_pure, rule run)
qed

section \<open>Notifications and the retry\<close>

lemma safe_alreadyProcessed [safe]:
  assumes "pay.keeps (rs_numeric (ps_redeem s)) b P"
  shows "safe (rs_numeric (ps_redeem s)) b P (alreadyProcessed s o')"
proof -
  have "safe (rs_numeric (ps_redeem s)) b P
      (case st of OrderStatusCompleted \<Rightarrow> ret (Inr ()) | OrderStatusRefunded \<Rightarrow> ret (Inr ())
       | OrderStatusFailed \<Rightarrow> executeFulfillment s (o_ID o')
       | OrderStatusPaid \<Rightarrow> ret (Inl (order_error o' '' is being processed''))
       | OrderStatusRecharging \<Rightarrow> ret (Inl (order_error o' '' is being processed''))
       | OrderStatusExpired \<Rightarrow> do {
           _ \<leftarrow> writeAuditLog (o_ID o') ''PAYMENT_AFTER_EXPIRY'' ''system''; ret (Inr ()) }
       | _ \<Rightarrow> ret (Inr ()))" for st
    using assms by (cases st) (auto intro!: safe)
  then show ?thesis
    unfolding alreadyProcessed_def using assms by (intro safe)
qed

lemma safe_toPaid [safe]:
  assumes P: "pay.keeps (rs_numeric (ps_redeem s)) b P"
  shows "safe (rs_numeric (ps_redeem s)) b P (toPaid s o' tradeNo paid pk)"
proof -
  have "safe (rs_numeric (ps_redeem s)) b P
      (order_Update (payable (o_ID o') grace) (set_paid num paid tradeNo now))" for grace num now
    by (rule safe_order_Update [OF P])
      (auto simp: payable_def order_move_def set_paid_def status_step.pay)
  then show ?thesis
    unfolding toPaid_def using P by (intro safe) auto
qed

lemma safe_instance [safe]:
  assumes "pay.keeps num b P"
  shows "safe num b P (getOrderProviderInstance o')"
  unfolding getOrderProviderInstance_def resolveSnapshotOrderProviderInstance_def
    resolveUniqueLegacyOrderProviderInstance_def Let_def
  using assms by (intro safe)

lemma safe_confirmPayment [safe]:
  assumes "pay.keeps (rs_numeric (ps_redeem s)) b P"
  shows "safe (rs_numeric (ps_redeem s)) b P (confirmPayment s oid tradeNo paid pk metadata)"
  unfolding confirmPayment_def Let_def using assms by (intro safe)

lemma safe_HandlePaymentNotification [safe]:
  assumes "pay.keeps (rs_numeric (ps_redeem s)) b P"
  shows "safe (rs_numeric (ps_redeem s)) b P (HandlePaymentNotification s n pk)"
  unfolding HandlePaymentNotification_def using assms by (intro safe)

lemma safe_RetryFulfillment [safe]:
  assumes P: "pay.keeps (rs_numeric (ps_redeem s)) b P"
  shows "safe (rs_numeric (ps_redeem s)) b P (RetryFulfillment s oid)"
proof -
  have "safe (rs_numeric (ps_redeem s)) b P (order_Update (in_status oid [OrderStatusFailed, OrderStatusPaid])
      (\<lambda>x. (set_status OrderStatusPaid x)\<lparr>o_FailedAt := None, o_FailedReason := None\<rparr>))"
    by (rule safe_order_Update [OF P])
      (auto simp: in_status_def order_move_def set_status_def same_order_def intro: status_step.pay status_step.same)
  then show ?thesis
    unfolding RetryFulfillment_def using P by (intro safe)
qed

end
