(* ===== verification/PayLifecycle.thy ===== *)
theory PayLifecycle
  imports PayFulfill
begin

text \<open>
  \<open>service/payment_order_lifecycle.go\<close>: cancelling and expiring orders, and asking the gateway
  whether an order was paid; with \<open>webhookRegistryFallbackAllowed\<close> of \<open>payment_webhook_provider.go\<close>.
  \<open>ps_registry\<close> is the registry as \<open>EnsureProviders\<close> has loaded it. The limit on cancellations
  (\<open>checkCancelRateLimit\<close>) is checked when an order is created: it is in \<open>PayOrder\<close>.
\<close>

section \<open>The provider of an order\<close>

definition webhookRegistryFallbackAllowed :: "go_string \<Rightarrow> ('w, 'g, bool) pay" where
  "webhookRegistryFallbackAllowed providerKey =
     (let key = TrimSpace providerKey in
      if key = [] then ret False
      else do {
        c \<leftarrow> instance_All (\<lambda>p. pi_ProviderKey p = key \<and> pi_Enabled p);
        ret (case c of Inl _ \<Rightarrow> False | Inr ps \<Rightarrow> length ps \<le> 1)
      })"

definition paymentOrderAllowsRegistryFallback :: "PaymentOrder \<Rightarrow> bool" where
  "paymentOrderAllowsRegistryFallback order \<longleftrightarrow>
     psOrderProviderSnapshot order = None
     \<and> TrimSpace (psStringValue (o_ProviderInstanceID order)) = []
     \<and> TrimSpace (psStringValue (o_ProviderKey order)) = []"

definition paymentOrderFallbackProviderKey ::
    "('w, 'g) PaymentService \<Rightarrow> PaymentOrder \<Rightarrow> go_string" where
  "paymentOrderFallbackProviderKey s order =
     (let key = TrimSpace (GetProviderKey s (o_PaymentType order)) in
      if key \<noteq> [] then key else TrimSpace (GetBasePaymentType (TrimSpace (o_PaymentType order))))"

definition ErrProviderNotFound :: pay_error where
  "ErrProviderNotFound = NotFound ''PROVIDER_NOT_FOUND'' ''payment provider not registered''"

definition GetProvider :: "('w, 'g) PaymentService \<Rightarrow> go_string \<Rightarrow> 'g Provider outcome" where
  "GetProvider s t = (case ps_registry s t of None \<Rightarrow> Inl ErrProviderNotFound | Some p \<Rightarrow> Inr p)"

definition getOrderProvider ::
    "('w, 'g) PaymentService \<Rightarrow> PaymentOrder \<Rightarrow> ('w, 'g, 'g Provider outcome) pay" where
  "getOrderProvider s o' = do {
     inst \<leftarrow> getOrderProviderInstance o';
     case inst of
       Inl e \<Rightarrow> ret (Inl (Wrapped ''load order provider instance: '' e))
     | Inr (Some p) \<Rightarrow> ret (ps_createProvider s p)
     | Inr None \<Rightarrow>
         (let key = paymentOrderFallbackProviderKey s o' in
          if \<not> paymentOrderAllowsRegistryFallback o' then
            ret (Inl (order_error o' '' provider instance is unresolved''))
          else if key = [] then ret (Inl (order_error o' '' provider fallback key is missing''))
          else do {
            allowed \<leftarrow> webhookRegistryFallbackAllowed key;
            ret (if \<not> allowed then Inl (order_error o' ('' provider fallback is ambiguous for '' @ key))
                 else GetProvider s (o_PaymentType o'))
          })
   }"

definition paymentOrderQueryReference :: "PaymentOrder \<Rightarrow> 'g Provider \<Rightarrow> go_string" where
  "paymentOrderQueryReference order prov =
     (let fromProvider = TrimSpace (prov_ProviderKey prov);
          fromSnapshot = (case psOrderProviderSnapshot order of
                            None \<Rightarrow> [] | Some snapshot \<Rightarrow> TrimSpace (s_ProviderKey snapshot));
          fromColumn = TrimSpace (psStringValue (o_ProviderKey order));
          key = (if fromProvider \<noteq> [] then fromProvider
                 else if fromSnapshot \<noteq> [] then fromSnapshot
                 else if fromColumn \<noteq> [] then fromColumn
                 else TrimSpace (o_PaymentType order))
      in if GetBasePaymentType key \<in> {TypeAlipay, TypeEasyPay, TypeWxpay} then TrimSpace (o_OutTradeNo order)
         else if TrimSpace (o_PaymentTradeNo order) \<noteq> [] then TrimSpace (o_PaymentTradeNo order)
         else TrimSpace (o_OutTradeNo order))"

definition paymentOrderShouldPersistUpstreamTradeNo :: "go_string \<Rightarrow> go_string \<Rightarrow> go_string \<Rightarrow> bool" where
  "paymentOrderShouldPersistUpstreamTradeNo queryRef upstream current \<longleftrightarrow>
     TrimSpace upstream \<noteq> []
     \<and> \<not> EqualFold (TrimSpace upstream) (TrimSpace current)
     \<and> \<not> EqualFold (TrimSpace upstream) (TrimSpace queryRef)"

section \<open>Asking the gateway\<close>

datatype checkPaidResult = NoAnswer | AlreadyPaid | Cancelled

definition requeryPaidOrderOnce ::
    "'g Provider \<Rightarrow> go_string \<Rightarrow> ('w, 'g, QueryOrderResponse option) pay" where
  "requeryPaidOrderOnce prov queryRef =
     (if TrimSpace queryRef = [] then ret None
      else do {
        c \<leftarrow> outside (prov_QueryOrder prov queryRef);
        ret (case c of
          Inl _ \<Rightarrow> None
        | Inr resp \<Rightarrow>
            if q_Status resp \<noteq> ProviderStatusPaid \<or> \<not> isValidProviderAmount (q_Amount resp)
            then None else Some resp)
      })"

definition set_trade_no :: "go_string \<Rightarrow> PaymentOrder \<Rightarrow> PaymentOrder" where
  "set_trade_no n o' = o'\<lparr>o_PaymentTradeNo := n\<rparr>"

text \<open>The gateway says the order is paid: keep its trade number and process it as a notification.\<close>

definition upstream_paid ::
    "('w, 'g) PaymentService \<Rightarrow> PaymentOrder \<Rightarrow> 'g Provider \<Rightarrow> go_string \<Rightarrow> QueryOrderResponse
      \<Rightarrow> ('w, 'g, checkPaidResult) pay" where
  "upstream_paid s o' prov queryRef resp = do {
     let upstream = TrimSpace (q_TradeNo resp);
     let persist = paymentOrderShouldPersistUpstreamTradeNo queryRef upstream (o_PaymentTradeNo o');
     _ \<leftarrow> (if persist then do {
             _ \<leftarrow> order_Update (\<lambda>x. o_ID x = o_ID o') (set_trade_no upstream); ret () }
           else ret ());
     _ \<leftarrow> HandlePaymentNotification s
            \<lparr>n_TradeNo = (if persist then upstream else o_PaymentTradeNo o'), n_OrderID = o_OutTradeNo o',
             n_Amount = q_Amount resp, n_Status = ProviderStatusSuccess, n_Metadata = q_Metadata resp\<rparr>
            (prov_ProviderKey prov);
     ret AlreadyPaid
   }"

definition checkPaidWithOptions ::
    "('w, 'g) PaymentService \<Rightarrow> PaymentOrder \<Rightarrow> bool \<Rightarrow> ('w, 'g, checkPaidResult) pay" where
  "checkPaidWithOptions s o' cancelIfUnpaid = do {
     p \<leftarrow> getOrderProvider s o';
     case p of
       Inl _ \<Rightarrow> ret NoAnswer
     | Inr prov \<Rightarrow>
         (let queryRef = paymentOrderQueryReference o' prov in
          if queryRef = [] then ret NoAnswer
          else do {
            c \<leftarrow> outside (prov_QueryOrder prov queryRef);
            case c of
              Inl _ \<Rightarrow> ret NoAnswer
            | Inr resp \<Rightarrow>
                if q_Status resp = ProviderStatusPaid then
                  (if isValidProviderAmount (q_Amount resp) then upstream_paid s o' prov queryRef resp
                   else do {
                     _ \<leftarrow> writeAuditLog (o_ID o') ''PAYMENT_INVALID_AMOUNT'' (prov_ProviderKey prov);
                     again \<leftarrow> requeryPaidOrderOnce prov queryRef;
                     case again of
                       None \<Rightarrow> ret NoAnswer
                     | Some resp \<Rightarrow> upstream_paid s o' prov queryRef resp
                   })
                else if \<not> cancelIfUnpaid then ret NoAnswer
                else (case prov_CancelPayment prov of
                        None \<Rightarrow> ret NoAnswer
                      | Some cancel \<Rightarrow> do { _ \<leftarrow> outside (cancel queryRef); ret NoAnswer })
          })
   }"

definition checkPaid :: "('w, 'g) PaymentService \<Rightarrow> PaymentOrder \<Rightarrow> ('w, 'g, checkPaidResult) pay" where
  "checkPaid s o' = checkPaidWithOptions s o' True"

definition reconcilePaid :: "('w, 'g) PaymentService \<Rightarrow> PaymentOrder \<Rightarrow> ('w, 'g, checkPaidResult) pay" where
  "reconcilePaid s o' = checkPaidWithOptions s o' False"

section \<open>Cancelling and expiring\<close>

definition close_order :: "PaymentOrder \<Rightarrow> OrderStatus \<Rightarrow> go_string \<Rightarrow> ('w, 'g, checkPaidResult outcome) pay" where
  "close_order o' fs op = do {
     c \<leftarrow> order_Update (in_status (o_ID o') [OrderStatusPending]) (set_status fs);
     case c of
       Inl e \<Rightarrow> ret (Inl (Wrapped ''update order status: '' e))
     | Inr n \<Rightarrow> do {
         _ \<leftarrow> (if 0 < n then writeAuditLog (o_ID o')
                 (if fs = OrderStatusExpired then ''ORDER_EXPIRED'' else ''ORDER_CANCELLED'') op
               else ret ());
         ret (Inr Cancelled)
       }
   }"

definition cancelCore ::
    "('w, 'g) PaymentService \<Rightarrow> PaymentOrder \<Rightarrow> OrderStatus \<Rightarrow> go_string
      \<Rightarrow> ('w, 'g, checkPaidResult outcome) pay" where
  "cancelCore s o' fs op = do {
     paid \<leftarrow> (if o_PaymentTradeNo o' \<noteq> [] \<or> o_PaymentType o' \<noteq> [] then checkPaid s o' else ret NoAnswer);
     if paid = AlreadyPaid then ret (Inr AlreadyPaid) else close_order o' fs op
   }"

definition CancelOrder ::
    "('w, 'g) PaymentService \<Rightarrow> int \<Rightarrow> int \<Rightarrow> ('w, 'g, checkPaidResult outcome) pay" where
  "CancelOrder s orderID userID = do {
     c \<leftarrow> order_Get orderID;
     case c of
       Inl _ \<Rightarrow> ret (Inl (NotFound ''NOT_FOUND'' ''order not found''))
     | Inr o' \<Rightarrow>
         if o_UserID o' \<noteq> userID then ret (Inl (Forbidden ''FORBIDDEN'' ''no permission for this order''))
         else if o_Status o' \<noteq> OrderStatusPending then
           ret (Inl (BadRequest ''INVALID_STATUS'' ''order cannot be cancelled in current status''))
         else cancelCore s o' OrderStatusCancelled (''user:'' @ Itoa userID)
   }"

definition AdminCancelOrder ::
    "('w, 'g) PaymentService \<Rightarrow> int \<Rightarrow> ('w, 'g, checkPaidResult outcome) pay" where
  "AdminCancelOrder s orderID = do {
     c \<leftarrow> order_Get orderID;
     case c of
       Inl _ \<Rightarrow> ret (Inl (NotFound ''NOT_FOUND'' ''order not found''))
     | Inr o' \<Rightarrow>
         if o_Status o' \<noteq> OrderStatusPending then
           ret (Inl (BadRequest ''INVALID_STATUS'' ''order cannot be cancelled in current status''))
         else cancelCore s o' OrderStatusCancelled ''admin''
   }"

definition order_Query :: "(int \<Rightarrow> PaymentOrder \<Rightarrow> bool) \<Rightarrow> ('w, 'g, PaymentOrder list outcome) pay" where
  "order_Query p = do {
     now \<leftarrow> time_Now;
     stmt Unavailable (\<lambda>d. (Inr (filter (p now) (d_orders d)), d))
   }"

primrec expire_each :: "('w, 'g) PaymentService \<Rightarrow> PaymentOrder list \<Rightarrow> nat \<Rightarrow> ('w, 'g, nat) pay" where
  "expire_each s [] n = ret n"
| "expire_each s (o' # os) n = do {
     outcome \<leftarrow> cancelCore s o' OrderStatusExpired ''system'';
     expire_each s os (case outcome of Inr Cancelled \<Rightarrow> n + 1 | _ \<Rightarrow> n)
   }"

definition ExpireTimedOutOrders :: "('w, 'g) PaymentService \<Rightarrow> ('w, 'g, nat outcome) pay" where
  "ExpireTimedOutOrders s = do {
     c \<leftarrow> order_Query (\<lambda>now x. o_Status x = OrderStatusPending \<and> o_ExpiresAt x \<le> now);
     case c of
       Inl e \<Rightarrow> ret (Inl (Wrapped ''query expired: '' e))
     | Inr os \<Rightarrow> do { n \<leftarrow> expire_each s os 0; ret (Inr n) }
   }"

definition wxpay_order :: "PaymentOrder \<Rightarrow> bool" where
  "wxpay_order x \<longleftrightarrow>
     o_PaymentType x = TypeWxpay \<or> HasPrefix (o_PaymentType x) (TypeWxpay @ ''_'')
     \<or> (case o_ProviderKey x of None \<Rightarrow> False
        | Some k \<Rightarrow> k = TypeWxpay \<or> HasPrefix k (TypeWxpay @ ''_''))"

definition pendingWxpayReconcileLimit :: nat where
  "pendingWxpayReconcileLimit = 20"

primrec reconcile_each :: "('w, 'g) PaymentService \<Rightarrow> PaymentOrder list \<Rightarrow> nat \<Rightarrow> ('w, 'g, nat) pay" where
  "reconcile_each s [] n = ret n"
| "reconcile_each s (o' # os) n = do {
     r \<leftarrow> reconcilePaid s o';
     reconcile_each s os (if r = AlreadyPaid then n + 1 else n)
   }"

definition ReconcilePendingWxpayOrders :: "('w, 'g) PaymentService \<Rightarrow> ('w, 'g, nat outcome) pay" where
  "ReconcilePendingWxpayOrders s = do {
     c \<leftarrow> order_Query (\<lambda>now x. o_Status x = OrderStatusPending \<and> now < o_ExpiresAt x \<and> wxpay_order x);
     case c of
       Inl e \<Rightarrow> ret (Inl (Wrapped ''query pending wxpay orders: '' e))
     | Inr os \<Rightarrow> do {
         n \<leftarrow> reconcile_each s (take pendingWxpayReconcileLimit (sort_key o_CreatedAt os)) 0;
         ret (Inr n)
       }
   }"

section \<open>Looking an order up\<close>

definition lookup_char :: "char \<Rightarrow> bool" where
  "lookup_char c \<longleftrightarrow>
     (let n = of_char c :: nat in
      97 \<le> n \<and> n \<le> 122 \<or> 65 \<le> n \<and> n \<le> 90 \<or> 48 \<le> n \<and> n \<le> 57 \<or> n = 95 \<or> n = 45)"

definition normalizeOrderLookupOutTradeNo :: "go_string \<Rightarrow> go_string outcome" where
  "normalizeOrderLookupOutTradeNo raw =
     (let outTradeNo = TrimSpace raw;
          invalid = Inl (BadRequest ''INVALID_OUT_TRADE_NO'' ''out_trade_no is invalid'')
      in if outTradeNo = [] then Inl (BadRequest ''INVALID_OUT_TRADE_NO'' ''out_trade_no is required'')
         else if 64 < length outTradeNo then invalid
         else if list_all lookup_char outTradeNo then Inr outTradeNo
         else invalid)"

definition VerifyOrderByOutTradeNo ::
    "('w, 'g) PaymentService \<Rightarrow> go_string \<Rightarrow> int \<Rightarrow> ('w, 'g, PaymentOrder outcome) pay" where
  "VerifyOrderByOutTradeNo s raw userID =
     (case normalizeOrderLookupOutTradeNo raw of
        Inl e \<Rightarrow> ret (Inl e)
      | Inr outTradeNo \<Rightarrow> do {
          c \<leftarrow> order_Only outTradeNo;
          case c of
            Inl _ \<Rightarrow> ret (Inl (NotFound ''NOT_FOUND'' ''order not found''))
          | Inr o' \<Rightarrow>
              if o_UserID o' \<noteq> userID then ret (Inl (Forbidden ''FORBIDDEN'' ''no permission for this order''))
              else if o_Status o' = OrderStatusPending \<or> o_Status o' = OrderStatusExpired then do {
                r \<leftarrow> reconcilePaid s o';
                if r = AlreadyPaid then do {
                  c \<leftarrow> order_Get (o_ID o');
                  ret (case c of Inl e \<Rightarrow> Inl (Wrapped ''reload order: '' e) | Inr o'' \<Rightarrow> Inr o'')
                }
                else ret (Inr o')
              }
              else ret (Inr o')
        })"

definition VerifyOrderPublic :: "go_string \<Rightarrow> ('w, 'g, PaymentOrder outcome) pay" where
  "VerifyOrderPublic raw =
     (case normalizeOrderLookupOutTradeNo raw of
        Inl e \<Rightarrow> ret (Inl e)
      | Inr outTradeNo \<Rightarrow> do {
          c \<leftarrow> order_Only outTradeNo;
          ret (case c of Inl _ \<Rightarrow> Inl (NotFound ''NOT_FOUND'' ''order not found'') | Inr o' \<Rightarrow> Inr o')
        })"

end
