(* ===== verification/DecimalText.thy ===== *)
theory DecimalText
  imports Float64
begin

text \<open>
  Decimal texts of numbers, as \<open>strconv.ParseFloat\<close> reads and \<open>strconv.FormatFloat(f, 'f', -1, 64)\<close>
  writes them, and fixed-point texts. Only decimal literals are read, not the words and hexadecimal
  literals \<open>ParseFloat\<close> knows too.
\<close>

section \<open>Reading\<close>

definition pow10 :: "int \<Rightarrow> rat" where
  "pow10 e = (if 0 \<le> e then 10 ^ nat e else 1 / 10 ^ nat (- e))"

definition read_exponent :: "string \<Rightarrow> int option" where
  "read_exponent x =
     (if x = [] then Some 0
      else if hd x \<noteq> CHR ''e'' \<and> hd x \<noteq> CHR ''E'' then None
      else (let s = tl x; minus = HasPrefix s ''-'';
                ds = (if minus \<or> HasPrefix s ''+'' then tl s else s)
            in if ds = [] \<or> \<not> list_all is_digit ds then None
               else Some (if minus then - int (dec_val ds) else int (dec_val ds))))"

definition parse_decimal :: "string \<Rightarrow> rat option" where
  "parse_decimal s =
     (let minus = HasPrefix s ''-'';
          t = (if minus \<or> HasPrefix s ''+'' then tl s else s);
          ip = takeWhile is_digit t; r = dropWhile is_digit t; dot = HasPrefix r ''.'';
          fp = (if dot then takeWhile is_digit (tl r) else []);
          x = (if dot then dropWhile is_digit (tl r) else r)
      in if ip @ fp = [] then None
         else (case read_exponent x of
                 None \<Rightarrow> None
               | Some e \<Rightarrow>
                   (let v = of_nat (dec_val (ip @ fp)) * pow10 (e - int (length fp))
                    in Some (if minus then - v else v))))"

text \<open>A value out of range is an error.\<close>

definition ParseFloat :: "string \<Rightarrow> float64 option" where
  "ParseFloat s =
     (case parse_decimal s of
        None \<Rightarrow> None
      | Some q \<Rightarrow> (case binary64 q of Finite x \<Rightarrow> Some (Finite x) | _ \<Rightarrow> None))"

section \<open>Writing\<close>

text \<open>The number \<open>m / 10 ^ k\<close> with \<open>k\<close> digits after the point.\<close>

definition fixed_digits :: "nat \<Rightarrow> nat \<Rightarrow> string" where
  "fixed_digits m k =
     (let ds = nat_dec m; all = replicate (Suc k - length ds) CHR ''0'' @ ds; i = length all - k
      in take i all @ (if k = 0 then [] else CHR ''.'' # drop i all))"

definition fixed_text :: "int \<Rightarrow> nat \<Rightarrow> string" where
  "fixed_text m k = (if m < 0 then CHR ''-'' # fixed_digits (nat (- m)) k else fixed_digits (nat m) k)"

text \<open>The exponent of the leading decimal digit of a positive number.\<close>

definition decade :: "rat \<Rightarrow> int" where
  "decade q =
     (case quotient_of q of (a, b) \<Rightarrow>
        let d = int (length (nat_dec (nat a))) - int (length (nat_dec (nat b)))
        in if pow10 d \<le> q then d else d - 1)"

text \<open>The numbers \<open>m * 10 ^ e\<close> of \<open>n\<close> digits next to \<open>q\<close> that are read back as \<open>q\<close>, the closest first.\<close>

definition digit_candidates :: "rat \<Rightarrow> nat \<Rightarrow> (int \<times> int) list" where
  "digit_candidates q n =
     (let e = decade q - int n + 1; m = \<lfloor>q / pow10 e\<rfloor>;
          both = (if q / pow10 e - of_int m \<le> 1 / 2 then [(m, e), (m + 1, e)] else [(m + 1, e), (m, e)])
      in filter (\<lambda>(m, e). binary64 (of_int m * pow10 e) = Finite q) both)"

definition trim_zero :: "int \<times> int \<Rightarrow> int \<times> int" where
  "trim_zero p = (case p of (m, e) \<Rightarrow> if e < 0 \<and> m mod 10 = 0 then (m div 10, e + 1) else (m, e))"

definition shortest_digits :: "rat \<Rightarrow> int \<times> int" where
  "shortest_digits q =
     (case find (\<lambda>n. digit_candidates q n \<noteq> []) [1..<18] of
        None \<Rightarrow> (0, 0) | Some n \<Rightarrow> trim_zero (hd (digit_candidates q n)))"

definition shortest_int :: "rat \<Rightarrow> int \<times> int" where
  "shortest_int q =
     (if q = 0 then (0, 0)
      else (case shortest_digits \<bar>q\<bar> of (m, e) \<Rightarrow> (if q < 0 then - m else m, e)))"

definition shortest :: "rat \<Rightarrow> rat" where
  "shortest q = (case shortest_int q of (m, e) \<Rightarrow> of_int m * pow10 e)"

fun FormatFloat :: "float64 \<Rightarrow> string" where
  "FormatFloat (Finite q) =
     (case shortest_int q of (m, e) \<Rightarrow>
        if 0 \<le> e then fixed_text (m * 10 ^ nat e) 0 else fixed_text m (nat (- e)))"
| "FormatFloat (Infinite neg) = (if neg then ''-Inf'' else ''+Inf'')"
| "FormatFloat NaN = ''NaN''"

section \<open>What is written is read back\<close>

lemma takeWhile_digits:
  "list_all is_digit ds \<Longrightarrow> r = [] \<or> \<not> is_digit (hd r) \<Longrightarrow> takeWhile is_digit (ds @ r) = ds \<and> dropWhile is_digit (ds @ r) = r"
proof -
  assume ds: "list_all is_digit ds" and r: "r = [] \<or> \<not> is_digit (hd r)"
  have "takeWhile is_digit r = []" "dropWhile is_digit r = r" using r by (cases r; simp)+
  with ds show ?thesis
    using takeWhile_append2 [of ds is_digit r] dropWhile_append2 [of ds is_digit r] by (simp add: list_all_iff)
qed

lemma dec_val_zeros: "dec_val (replicate n CHR ''0'' @ s) = dec_val s"
proof -
  have "foldl (\<lambda>n c. 10 * n + digit_val c) 0 (replicate n CHR ''0'') = 0"
    by (induction n) (simp_all add: digit_val_def)
  then show ?thesis by (simp add: dec_val_def)
qed

lemma fixed_digits_parts:
  obtains ip fp where "fixed_digits m k = ip @ (if k = 0 then [] else CHR ''.'' # fp)" "length fp = k"
    "ip \<noteq> []" "list_all is_digit (ip @ fp)" "dec_val (ip @ fp) = m"
proof -
  let ?all = "replicate (Suc k - length (nat_dec m)) CHR ''0'' @ nat_dec m"
  let ?i = "length ?all - k"
  have len: "k < length ?all" by simp
  show thesis
  proof (rule that [of "take ?i ?all" "drop ?i ?all"])
    show "fixed_digits m k = take ?i ?all @ (if k = 0 then [] else CHR ''.'' # drop ?i ?all)"
      by (simp add: fixed_digits_def Let_def)
    show "length (drop ?i ?all) = k" using len by simp
    have "take (length xs - k) xs \<noteq> []" if "k < length xs" for xs :: string using that by auto
    then show "take ?i ?all \<noteq> []" using len by blast
    have "is_digit CHR ''0''" by (simp add: is_digit_def)
    then show "list_all is_digit (take ?i ?all @ drop ?i ?all)"
      unfolding append_take_drop_id using nat_dec_digits [of m] by (auto simp: list_all_iff)
    show "dec_val (take ?i ?all @ drop ?i ?all) = m"
      unfolding append_take_drop_id by (simp add: dec_val_zeros)
  qed
qed

lemma parse_parts:
  assumes "\<not> HasPrefix t ''-''" "\<not> HasPrefix t ''+''" "takeWhile is_digit t = ip" "dropWhile is_digit t = r"
    "(if HasPrefix r ''.'' then takeWhile is_digit (tl r) else []) = fp"
    "read_exponent (if HasPrefix r ''.'' then dropWhile is_digit (tl r) else r) = Some e" "ip \<noteq> []"
  shows "parse_decimal t = Some (of_nat (dec_val (ip @ fp)) * pow10 (e - int (length fp)))
    \<and> parse_decimal (CHR ''-'' # t) = Some (- (of_nat (dec_val (ip @ fp)) * pow10 (e - int (length fp))))"
proof -
  have neg: "HasPrefix (CHR ''-'' # t) ''-''" by (simp add: HasPrefix_def)
  show ?thesis
    using neg assms by (cases "HasPrefix r ''.''") (simp_all add: parse_decimal_def Let_def)
qed

lemma parse_fixed_digits:
  "parse_decimal (fixed_digits m k) = Some (of_nat m / 10 ^ k)
   \<and> parse_decimal (CHR ''-'' # fixed_digits m k) = Some (- (of_nat m / 10 ^ k))"
proof -
  obtain ip fp where d: "fixed_digits m k = ip @ (if k = 0 then [] else CHR ''.'' # fp)" "length fp = k"
    "ip \<noteq> []" "list_all is_digit (ip @ fp)" "dec_val (ip @ fp) = m"
    by (rule fixed_digits_parts)
  define r where "r = (if k = 0 then [] else CHR ''.'' # fp)"
  have digits: "list_all is_digit ip" "list_all is_digit fp" using d(4) by auto
  have r: "r = [] \<or> \<not> is_digit (hd r)" "HasPrefix r ''.'' \<longleftrightarrow> k \<noteq> 0" "k \<noteq> 0 \<Longrightarrow> tl r = fp" "k = 0 \<Longrightarrow> r = []"
    by (simp_all add: r_def is_digit_def HasPrefix_def)
  have ip: "takeWhile is_digit (ip @ r) = ip" "dropWhile is_digit (ip @ r) = r"
    using takeWhile_digits [OF digits(1) r(1)] by auto
  have fp: "takeWhile is_digit fp = fp" "dropWhile is_digit fp = []"
    using takeWhile_digits [OF digits(2), of "[]"] by auto
  have "\<not> HasPrefix (ip @ r) ''-''" "\<not> HasPrefix (ip @ r) ''+''"
    using d(3) digits(1) by (cases ip; auto simp: HasPrefix_def is_digit_def)+
  then have "parse_decimal (ip @ r) = Some (of_nat (dec_val (ip @ fp)) * pow10 (0 - int (length fp)))
    \<and> parse_decimal (CHR ''-'' # ip @ r) = Some (- (of_nat (dec_val (ip @ fp)) * pow10 (0 - int (length fp))))"
    by (rule parse_parts [OF _ _ ip]) (use r fp d(2,3) in \<open>auto simp: read_exponent_def\<close>)
  moreover have "of_nat m * pow10 (0 - int k) = (of_nat m / 10 ^ k :: rat)"
    by (simp add: pow10_def)
  ultimately show ?thesis unfolding d(1) r_def [symmetric] using d(2,5) by simp
qed

lemma parse_fixed_text: "parse_decimal (fixed_text m k) = Some (of_int m / 10 ^ k)"
  using parse_fixed_digits [of "nat (- m)" k] parse_fixed_digits [of "nat m" k]
  by (auto simp: fixed_text_def)

lemma parse_FormatFloat: "parse_decimal (FormatFloat (Finite q)) = Some (shortest q)"
  by (cases "shortest_int q") (auto simp: shortest_def parse_fixed_text pow10_def)

lemma fixed_text_plain: "\<forall>c\<in>set (fixed_text m k). is_digit c \<or> c = CHR ''.'' \<or> c = CHR ''-''"
proof -
  have "\<forall>c\<in>set (fixed_digits n k). is_digit c \<or> c = CHR ''.''" for n
    by (rule fixed_digits_parts [of n k]) (auto simp: list_all_iff)
  then show ?thesis by (auto simp: fixed_text_def)
qed

end
