(* ===== verification/PayAmounts.thy ===== *)
theory PayAmounts
  imports PayTypes DecimalText
begin

text \<open>
  Amounts: \<open>payment/currency.go\<close> (conversion to minor units), \<open>payment/fee.go\<close>, \<open>payment/amount.go\<close>
  and \<open>service/payment_amounts.go\<close>. Decimal numbers are the third-party package
  \<open>shopspring/decimal\<close>: \<open>decimal_lib\<close> is what the code calls of it, \<open>decimal_laws\<close> what its
  documentation says of these calls.
\<close>

section \<open>Decimal numbers\<close>

record 'd decimal_lib =
  NewFromFloat :: "float64 \<Rightarrow> 'd"
  NewFromString :: "go_string \<Rightarrow> 'd option"
  NewFromInt :: "int \<Rightarrow> 'd"
  decimal_New :: "int \<Rightarrow> nat \<Rightarrow> 'd"
  dec_Mul :: "'d \<Rightarrow> 'd \<Rightarrow> 'd"
  dec_Div :: "'d \<Rightarrow> 'd \<Rightarrow> 'd"
  dec_Add :: "'d \<Rightarrow> 'd \<Rightarrow> 'd"
  dec_Round :: "'d \<Rightarrow> nat \<Rightarrow> 'd"
  dec_RoundUp :: "'d \<Rightarrow> nat \<Rightarrow> 'd"
  dec_Truncate :: "'d \<Rightarrow> nat \<Rightarrow> 'd"
  dec_Equal :: "'d \<Rightarrow> 'd \<Rightarrow> bool"
  StringFixed :: "'d \<Rightarrow> nat \<Rightarrow> go_string"
  InexactFloat64 :: "'d \<Rightarrow> float64"
  IntPart :: "'d \<Rightarrow> int"

text \<open>Rounding to \<open>n\<close> digits: half away from zero, away from zero, and towards zero.\<close>

definition towards_zero :: "rat \<Rightarrow> int" where
  "towards_zero q = (if 0 \<le> q then \<lfloor>q\<rfloor> else - \<lfloor>- q\<rfloor>)"

definition away_from_zero :: "rat \<Rightarrow> int" where
  "away_from_zero q = (if 0 \<le> q then \<lceil>q\<rceil> else - \<lceil>- q\<rceil>)"

definition half_away :: "rat \<Rightarrow> int" where
  "half_away q = (if 0 \<le> q then \<lfloor>q + 1 / 2\<rfloor> else - \<lfloor>- q + 1 / 2\<rfloor>)"

definition at_digits :: "(rat \<Rightarrow> int) \<Rightarrow> nat \<Rightarrow> rat \<Rightarrow> rat" where
  "at_digits r n q = of_int (r (q * 10 ^ n)) / 10 ^ n"

text \<open>
  The documented behaviour, with \<open>val\<close> the number a decimal stands for: \<open>NewFromFloat\<close> takes the
  shortest digits that are read back as the float, multiplication and addition are exact, \<open>Div\<close>
  rounds to sixteen digits, a decimal text is read as what it says, and \<open>StringFixed\<close> prints the
  rounded number.
\<close>

definition decimal_laws :: "'d decimal_lib \<Rightarrow> ('d \<Rightarrow> rat) \<Rightarrow> bool" where
  "decimal_laws lib val \<longleftrightarrow>
     (\<forall>q. val (NewFromFloat lib (Finite q)) = shortest q)
     \<and> (\<forall>s q. parse_decimal s = Some q \<longrightarrow> map_option val (NewFromString lib s) = Some q)
     \<and> (\<forall>n. val (NewFromInt lib n) = of_int n)
     \<and> (\<forall>n k. val (decimal_New lib n k) = of_int n * 10 ^ k)
     \<and> (\<forall>x y. val (dec_Mul lib x y) = val x * val y)
     \<and> (\<forall>x y. val (dec_Add lib x y) = val x + val y)
     \<and> (\<forall>x y. val y \<noteq> 0 \<longrightarrow> val (dec_Div lib x y) = at_digits half_away 16 (val x / val y))
     \<and> (\<forall>x n. val (dec_Round lib x n) = at_digits half_away n (val x))
     \<and> (\<forall>x n. val (dec_RoundUp lib x n) = at_digits away_from_zero n (val x))
     \<and> (\<forall>x n. val (dec_Truncate lib x n) = at_digits towards_zero n (val x))
     \<and> (\<forall>x y. dec_Equal lib x y \<longleftrightarrow> val x = val y)
     \<and> (\<forall>x n. parse_decimal (StringFixed lib x n) = Some (at_digits half_away n (val x))
          \<and> TrimSpace (StringFixed lib x n) = StringFixed lib x n)
     \<and> (\<forall>x. InexactFloat64 lib x = binary64 (val x))
     \<and> (\<forall>x. IntPart lib x = towards_zero (val x))"

section \<open>Minor units\<close>

definition AmountToMinorUnit :: "'d decimal_lib \<Rightarrow> go_string \<Rightarrow> go_string \<Rightarrow> int outcome" where
  "AmountToMinorUnit lib amountStr currency =
     (case NewFromString lib (TrimSpace amountStr) of
        None \<Rightarrow> Inl (Plain (''invalid amount: '' @ amountStr))
      | Some d \<Rightarrow>
          (case NormalizePaymentCurrency currency of
             Inl e \<Rightarrow> Inl e
           | Inr normalizedCurrency \<Rightarrow>
               (let amountUnit = paymentCurrencyAmountUnitFor normalizedCurrency;
                    scaled = dec_Mul lib d (decimal_New lib 1 (maxFractionDigits amountUnit))
                in if \<not> dec_Equal lib scaled (dec_Truncate lib scaled 0) then
                     (if maxFractionDigits amountUnit = 0
                      then Inl (Plain (''payment amount for '' @ normalizedCurrency @ '' must be a whole number''))
                      else Inl (Plain (''payment amount for '' @ normalizedCurrency @ '' must not have more than ''
                                       @ Itoa (int (maxFractionDigits amountUnit)) @ '' decimal places'')))
                   else Inr (IntPart lib (dec_Mul lib d (decimal_New lib 1 (apiMinorUnit amountUnit)))))))"

definition MinorUnitToAmount :: "'d decimal_lib \<Rightarrow> int \<Rightarrow> go_string \<Rightarrow> float64" where
  "MinorUnitToAmount lib v currency =
     InexactFloat64 lib (dec_Div lib (NewFromInt lib v) (decimal_New lib 1 (CurrencyMinorUnit currency)))"

definition YuanToFen :: "'d decimal_lib \<Rightarrow> go_string \<Rightarrow> int outcome" where
  "YuanToFen lib yuanStr = AmountToMinorUnit lib yuanStr DefaultPaymentCurrency"

definition FenToYuan :: "'d decimal_lib \<Rightarrow> int \<Rightarrow> float64" where
  "FenToYuan lib fen = MinorUnitToAmount lib fen DefaultPaymentCurrency"

definition FormatAmountForCurrency :: "'d decimal_lib \<Rightarrow> float64 \<Rightarrow> go_string \<Rightarrow> go_string" where
  "FormatAmountForCurrency lib amount currency =
     StringFixed lib (NewFromFloat lib amount) (CurrencyMaxFractionDigits currency)"

section \<open>Fees and multipliers\<close>

definition CalculatePayAmountForCurrency ::
    "'d decimal_lib \<Rightarrow> float64 \<Rightarrow> float64 \<Rightarrow> go_string \<Rightarrow> go_string" where
  "CalculatePayAmountForCurrency lib rechargeAmount feeRate currency =
     (let fractionDigits = CurrencyMaxFractionDigits currency;
          amount = NewFromFloat lib rechargeAmount
      in if f_le feeRate (Finite 0) then StringFixed lib amount fractionDigits
         else (let rate = NewFromFloat lib feeRate;
                   fee = dec_RoundUp lib (dec_Div lib (dec_Mul lib amount rate) (NewFromInt lib 100)) fractionDigits
               in StringFixed lib (dec_Add lib amount fee) fractionDigits))"

definition normalizeBalanceRechargeMultiplier :: "float64 \<Rightarrow> float64" where
  "normalizeBalanceRechargeMultiplier multiplier =
     (if IsNaN multiplier \<or> IsInf multiplier \<or> f_le multiplier (Finite 0) then Finite 1 else multiplier)"

definition calculateCreditedBalance :: "'d decimal_lib \<Rightarrow> float64 \<Rightarrow> float64 \<Rightarrow> float64" where
  "calculateCreditedBalance lib paymentAmount multiplier =
     InexactFloat64 lib (dec_Round lib
       (dec_Mul lib (NewFromFloat lib paymentAmount)
         (NewFromFloat lib (normalizeBalanceRechargeMultiplier multiplier))) 2)"

definition calculateGatewayRefundAmount ::
    "'d decimal_lib \<Rightarrow> float64 \<Rightarrow> float64 \<Rightarrow> float64 \<Rightarrow> go_string \<Rightarrow> float64" where
  "calculateGatewayRefundAmount lib orderAmount payAmount refundAmount currency =
     (if f_le orderAmount (Finite 0) \<or> f_le payAmount (Finite 0) \<or> f_le refundAmount (Finite 0) then Finite 0
      else (let fractionDigits = CurrencyMaxFractionDigits currency in
            if f_le (f_abs (f_sub refundAmount orderAmount)) (paymentAmountToleranceForCurrency currency)
            then InexactFloat64 lib (dec_Round lib (NewFromFloat lib payAmount) fractionDigits)
            else InexactFloat64 lib (dec_Round lib
                   (dec_Div lib (dec_Mul lib (NewFromFloat lib payAmount) (NewFromFloat lib refundAmount))
                     (NewFromFloat lib orderAmount)) fractionDigits)))"

end
