(* ===== verification/PayRefund.thy ===== *)
theory PayRefund
  imports PayLifecycle PayAmounts
begin

text \<open>
  \<open>service/payment_refund.go\<close>: the request of a refund by a user, and its preparation and execution
  by an administrator: the balance or the subscription is reduced, the gateway pays back, and when
  it does not the reduction is undone.
\<close>

section \<open>Plans\<close>

datatype DeductionType = DeductionTypeNone | DeductionTypeBalance | DeductionTypeSubscription

record RefundPlan =
  p_Order :: PaymentOrder
  p_RefundAmount :: float64
  p_GatewayAmount :: float64
  p_Reason :: go_string
  p_Force :: bool
  p_DeductionType :: DeductionType
  p_BalanceToDeduct :: float64
  p_SubDaysToDeduct :: int
  p_SubscriptionID :: int

text \<open>The result of a refund; a warning is the reason a forced refund is needed, or the failure.\<close>

datatype RefundResult =
    Refunded float64 int
  | RequireForce go_string
  | RolledBack pay_error

definition getRefundOrderProviderInstance ::
    "PaymentOrder \<Rightarrow> ('w, 'g, PaymentProviderInstance option outcome) pay" where
  "getRefundOrderProviderInstance o' =
     (case psOrderProviderSnapshot o' of
        Some snapshot \<Rightarrow> resolveSnapshotOrderProviderInstance o' snapshot
      | None \<Rightarrow>
          (let i = TrimSpace (psStringValue (o_ProviderInstanceID o')) in
           if i = [] then ret (Inr None)
           else (case ParseInt64 i of
                   None \<Rightarrow> ret (Inl (order_error o' ('' refund provider instance id is invalid: '' @ i)))
                 | Some n \<Rightarrow> do {
                     c \<leftarrow> instance_Get n;
                     ret (case c of
                       Inl e \<Rightarrow> if IsNotFound e
                         then Inl (order_error o' ('' refund provider instance '' @ i @ '' is missing'')) else Inl e
                     | Inr p \<Rightarrow> Inr (Some p))
                   })))"

section \<open>The request of a user\<close>

definition validateRefundRequest :: "int \<Rightarrow> int \<Rightarrow> ('w, 'g, PaymentOrder outcome) pay" where
  "validateRefundRequest oid uid = do {
     c \<leftarrow> order_Get oid;
     case c of
       Inl _ \<Rightarrow> ret (Inl (NotFound ''NOT_FOUND'' ''order not found''))
     | Inr o' \<Rightarrow>
         if o_UserID o' \<noteq> uid then ret (Inl (Forbidden ''FORBIDDEN'' ''no permission''))
         else if o_OrderType o' \<noteq> OrderTypeBalance then
           ret (Inl (BadRequest ''INVALID_ORDER_TYPE'' ''only balance orders can request refund''))
         else if o_Status o' \<noteq> OrderStatusCompleted then
           ret (Inl (BadRequest ''INVALID_STATUS'' ''only completed orders can request refund''))
         else do {
           inst \<leftarrow> getRefundOrderProviderInstance o';
           ret (case inst of
             Inr (Some p) \<Rightarrow>
               if pi_AllowUserRefund p then Inr o'
               else Inl (Forbidden ''USER_REFUND_DISABLED'' ''user refund is not enabled for this provider'')
           | _ \<Rightarrow> Inl (Forbidden ''USER_REFUND_DISABLED'' ''refund is not available for this order''))
         }
   }"

definition set_requested ::
    "numeric \<Rightarrow> int \<Rightarrow> go_string \<Rightarrow> go_string \<Rightarrow> float64 \<Rightarrow> PaymentOrder \<Rightarrow> PaymentOrder" where
  "set_requested num now reason by amount x =
     (set_status OrderStatusRefundRequested x)
       \<lparr>o_RefundRequestedAt := Some now, o_RefundRequestReason := Some reason,
        o_RefundRequestedBy := Some by, o_RefundAmount := stored num 2 amount\<rparr>"

definition RequestRefund ::
    "('w, 'g) PaymentService \<Rightarrow> int \<Rightarrow> int \<Rightarrow> go_string \<Rightarrow> ('w, 'g, unit outcome) pay" where
  "RequestRefund s oid uid reason = do {
     c \<leftarrow> validateRefundRequest oid uid;
     case c of
       Inl e \<Rightarrow> ret (Inl e)
     | Inr o' \<Rightarrow> do {
         u \<leftarrow> user_GetByID (o_UserID o');
         case u of
           Inl e \<Rightarrow> ret (Inl (Wrapped ''get user: '' e))
         | Inr u \<Rightarrow>
             if f_less (from_column (rs_numeric (ps_redeem s)) 8 (u_Balance u)) (o_Amount o') then
               ret (Inl (BadRequest ''BALANCE_NOT_ENOUGH'' ''refund amount exceeds balance''))
             else do {
               now \<leftarrow> time_Now;
               c \<leftarrow> order_Update
                      (\<lambda>x. o_ID x = oid \<and> o_UserID x = uid \<and> o_Status x = OrderStatusCompleted
                           \<and> o_OrderType x = OrderTypeBalance)
                      (set_requested (rs_numeric (ps_redeem s)) now (TrimSpace reason) (Itoa uid) (o_Amount o'));
               case c of
                 Inl e \<Rightarrow> ret (Inl (Wrapped ''update: '' e))
               | Inr n \<Rightarrow>
                   if n = 0 then ret (Inl (Conflict ''CONFLICT'' ''order status changed''))
                   else do {
                     _ \<leftarrow> writeAuditLog oid ''REFUND_REQUESTED'' (''user:'' @ Itoa uid);
                     ret (Inr ())
                   }
             }
       }
   }"

section \<open>Preparation\<close>

definition prepDeduct ::
    "('w, 'g) PaymentService \<Rightarrow> PaymentOrder \<Rightarrow> RefundPlan \<Rightarrow> bool
      \<Rightarrow> ('w, 'g, RefundResult + RefundPlan) pay" where
  "prepDeduct s o' p force =
     (if o_OrderType o' = OrderTypeSubscription then
        (let p = p\<lparr>p_DeductionType := DeductionTypeSubscription\<rparr> in
         case (o_SubscriptionGroupID o', o_SubscriptionDays o') of
           (Some gid, Some days) \<Rightarrow> do {
             let p = p\<lparr>p_SubDaysToDeduct := days\<rparr>;
             c \<leftarrow> world (sub_GetActive (ps_subs s) (o_UserID o') gid);
             ret (case c of
               Inr (Some sub) \<Rightarrow> Inr (p\<lparr>p_SubscriptionID := sub\<rparr>)
             | _ \<Rightarrow> if force then Inr p
                    else Inl (RequireForce ''cannot find active subscription for deduction, use force''))
           }
         | _ \<Rightarrow> ret (Inr p))
      else do {
        c \<leftarrow> user_GetByID (o_UserID o');
        ret (case c of
          Inl _ \<Rightarrow> if force then Inr p else Inl (RequireForce ''cannot fetch user balance, use force'')
        | Inr u \<Rightarrow>
            Inr (p\<lparr>p_DeductionType := DeductionTypeBalance,
                   p_BalanceToDeduct := f_min (p_RefundAmount p)
                     (from_column (rs_numeric (ps_redeem s)) 8 (u_Balance u))\<rparr>))
      })"

definition refund_reason :: "PaymentOrder \<Rightarrow> go_string \<Rightarrow> go_string" where
  "refund_reason o' reason =
     (let requested = psStringValue (o_RefundRequestReason o') in
      if TrimSpace reason \<noteq> [] then TrimSpace reason
      else if requested \<noteq> [] then requested
      else ''refund order:'' @ Itoa (o_ID o'))"

definition refundable :: "OrderStatus list" where
  "refundable = [OrderStatusCompleted, OrderStatusRefundRequested, OrderStatusRefundFailed]"

text \<open>The checks of the amount: the amount to refund, the whole order when none is given.\<close>

definition refund_amount :: "PaymentOrder \<Rightarrow> float64 \<Rightarrow> float64 outcome" where
  "refund_amount o' amt =
     (if IsNaN amt \<or> IsInf amt then Inl (BadRequest ''INVALID_AMOUNT'' ''invalid refund amount'')
      else
        (let amt = (if f_le amt (Finite 0) then o_Amount o' else amt) in
         if f_less (paymentAmountToleranceForCurrency (PaymentOrderCurrency o')) (f_sub amt (o_Amount o'))
         then Inl (BadRequest ''REFUND_AMOUNT_EXCEEDED'' ''refund amount exceeds recharge'')
         else Inr amt))"

definition refund_plan :: "'d decimal_lib \<Rightarrow> PaymentOrder \<Rightarrow> float64 \<Rightarrow> go_string \<Rightarrow> bool \<Rightarrow> RefundPlan" where
  "refund_plan lib o' amt reason force =
     \<lparr>p_Order = o', p_RefundAmount = amt,
      p_GatewayAmount = calculateGatewayRefundAmount lib (o_Amount o') (o_PayAmount o') amt (PaymentOrderCurrency o'),
      p_Reason = refund_reason o' reason, p_Force = force, p_DeductionType = DeductionTypeNone,
      p_BalanceToDeduct = Finite 0, p_SubDaysToDeduct = 0, p_SubscriptionID = 0\<rparr>"

definition PrepareRefund ::
    "('w, 'g) PaymentService \<Rightarrow> 'd decimal_lib \<Rightarrow> int \<Rightarrow> float64 \<Rightarrow> go_string \<Rightarrow> bool \<Rightarrow> bool
      \<Rightarrow> ('w, 'g, (RefundResult + RefundPlan) outcome) pay" where
  "PrepareRefund s lib oid amt reason force deduct = do {
     c \<leftarrow> order_Get oid;
     case c of
       Inl _ \<Rightarrow> ret (Inl (NotFound ''NOT_FOUND'' ''order not found''))
     | Inr o' \<Rightarrow>
         if o_Status o' \<notin> set refundable then
           ret (Inl (BadRequest ''INVALID_STATUS'' ''order status does not allow refund''))
         else do {
           inst \<leftarrow> getRefundOrderProviderInstance o';
           case inst of
             Inl _ \<Rightarrow> ret (Inl (InternalServer ''PROVIDER_LOOKUP_FAILED''
                               ''failed to look up payment provider for this order''))
           | Inr None \<Rightarrow> ret (Inl (Forbidden ''REFUND_DISABLED'' ''refund is not available for this order''))
           | Inr (Some p) \<Rightarrow>
               if \<not> pi_RefundEnabled p then
                 ret (Inl (Forbidden ''REFUND_DISABLED'' ''refund is not enabled for this provider''))
               else (case refund_amount o' amt of
                       Inl e \<Rightarrow> ret (Inl e)
                     | Inr amt \<Rightarrow>
                         (let plan = refund_plan lib o' amt reason force in
                          if deduct then do { r \<leftarrow> prepDeduct s o' plan force; ret (Inr r) }
                          else ret (Inr (Inr plan))))
         }
   }"

section \<open>Execution\<close>

definition restoreStatus :: "RefundPlan \<Rightarrow> ('w, 'g, unit) pay" where
  "restoreStatus p = do {
     let rs = (if o_Status (p_Order p) = OrderStatusRefundRequested then OrderStatusRefundRequested
               else OrderStatusCompleted);
     _ \<leftarrow> order_UpdateOneID (o_ID (p_Order p)) (set_status rs);
     ret ()
   }"

definition markRefundOk ::
    "('w, 'g) PaymentService \<Rightarrow> RefundPlan \<Rightarrow> ('w, 'g, RefundResult outcome) pay" where
  "markRefundOk s p = do {
     now \<leftarrow> time_Now;
     let fs = (if f_less (p_RefundAmount p) (o_Amount (p_Order p)) then OrderStatusPartiallyRefunded
               else OrderStatusRefunded);
     c \<leftarrow> order_UpdateOneID (o_ID (p_Order p))
            (\<lambda>x. (set_status fs x)\<lparr>o_RefundAmount := stored (rs_numeric (ps_redeem s)) 2 (p_RefundAmount p),
                                    o_RefundReason := Some (p_Reason p), o_RefundAt := Some now, o_ForceRefund := p_Force p\<rparr>);
     case c of
       Inl e \<Rightarrow> ret (Inl (Wrapped ''mark refund: '' e))
     | Inr _ \<Rightarrow> do {
         _ \<leftarrow> writeAuditLog (o_ID (p_Order p)) ''REFUND_SUCCESS'' ''admin'';
         ret (Inr (Refunded (p_BalanceToDeduct p) (p_SubDaysToDeduct p)))
       }
   }"

definition validateRefundProviderResponse :: "RefundResponse option \<Rightarrow> unit outcome" where
  "validateRefundProviderResponse resp =
     (case resp of
        None \<Rightarrow> Inl (Plain ''payment refund response missing'')
      | Some r \<Rightarrow>
          (let st = TrimSpace (rp_Status r) in
           if st = ProviderStatusSuccess \<or> st = ProviderStatusRefunded \<or> st = ProviderStatusPending then Inr ()
           else if st = ProviderStatusFailed then Inl (Plain (''payment refund failed: status '' @ st))
           else Inl (Plain (''payment refund returned unknown status: '' @ st))))"

definition getRefundProvider ::
    "('w, 'g) PaymentService \<Rightarrow> PaymentOrder \<Rightarrow> ('w, 'g, 'g Provider outcome) pay" where
  "getRefundProvider s o' = do {
     inst \<leftarrow> getRefundOrderProviderInstance o';
     ret (case inst of
       Inl e \<Rightarrow> Inl e
     | Inr None \<Rightarrow> Inl (Plain (''refund provider instance is unavailable for order '' @ Itoa (o_ID o')))
     | Inr (Some p) \<Rightarrow> ps_createProvider s p)
   }"

definition gwRefund ::
    "('w, 'g) PaymentService \<Rightarrow> 'd decimal_lib \<Rightarrow> RefundPlan \<Rightarrow> ('w, 'g, unit outcome) pay" where
  "gwRefund s lib p =
     (let o' = p_Order p in
      if o_PaymentTradeNo o' = [] then do {
        _ \<leftarrow> writeAuditLog (o_ID o') ''REFUND_NO_TRADE_NO'' ''admin'';
        ret (Inr ())
      }
      else do {
        c \<leftarrow> getRefundProvider s o';
        case c of
          Inl e \<Rightarrow> ret (Inl (Wrapped ''get refund provider: '' e))
        | Inr prov \<Rightarrow>
            (case validateProviderSnapshotMetadata o' (prov_ProviderKey prov)
                    (case prov_MerchantIdentity prov of None \<Rightarrow> [] | Some md \<Rightarrow> md) of
               Inl e \<Rightarrow> do {
                 _ \<leftarrow> writeAuditLog (o_ID o') ''REFUND_PROVIDER_METADATA_MISMATCH'' ''admin'';
                 ret (Inl e)
               }
             | Inr _ \<Rightarrow> do {
                 r \<leftarrow> outside (prov_Refund prov
                        \<lparr>rr_TradeNo = o_PaymentTradeNo o', rr_OrderID = o_OutTradeNo o',
                         rr_Amount = FormatAmountForCurrency lib (p_GatewayAmount p) (PaymentOrderCurrency o'),
                         rr_Reason = p_Reason p\<rparr>);
                 ret (case r of Inl e \<Rightarrow> Inl e | Inr resp \<Rightarrow> validateRefundProviderResponse resp)
               })
      })"

text \<open>The reduction is undone; \<open>False\<close>: that failed too.\<close>

definition rollback_subscription :: "('w, 'g) PaymentService \<Rightarrow> RefundPlan \<Rightarrow> ('w, 'g, bool) pay" where
  "rollback_subscription s p =
     (if p_DeductionType p = DeductionTypeSubscription \<and> 0 < p_SubDaysToDeduct p \<and> 0 < p_SubscriptionID p then do {
        c \<leftarrow> world (sub_Extend (ps_subs s) (p_SubscriptionID p) (p_SubDaysToDeduct p));
        case c of
          Inl _ \<Rightarrow> do { _ \<leftarrow> writeAuditLog (o_ID (p_Order p)) ''REFUND_ROLLBACK_FAILED'' ''admin''; ret False }
        | Inr _ \<Rightarrow> ret True
      }
      else ret True)"

definition RollbackRefund :: "('w, 'g) PaymentService \<Rightarrow> RefundPlan \<Rightarrow> ('w, 'g, bool) pay" where
  "RollbackRefund s p =
     (if p_DeductionType p = DeductionTypeBalance \<and> f_less (Finite 0) (p_BalanceToDeduct p) then do {
        c \<leftarrow> UpdateBalance (rs_numeric (ps_redeem s)) (o_UserID (p_Order p)) (p_BalanceToDeduct p);
        case c of
          Inl _ \<Rightarrow> do { _ \<leftarrow> writeAuditLog (o_ID (p_Order p)) ''REFUND_ROLLBACK_FAILED'' ''admin''; ret False }
        | Inr _ \<Rightarrow> rollback_subscription s p
      }
      else rollback_subscription s p)"

definition handleGwFail ::
    "('w, 'g) PaymentService \<Rightarrow> RefundPlan \<Rightarrow> pay_error \<Rightarrow> ('w, 'g, RefundResult outcome) pay" where
  "handleGwFail s p gErr = do {
     undone \<leftarrow> RollbackRefund s p;
     if undone then do {
       _ \<leftarrow> restoreStatus p;
       _ \<leftarrow> writeAuditLog (o_ID (p_Order p)) ''REFUND_GATEWAY_FAILED'' ''admin'';
       ret (Inr (RolledBack gErr))
     }
     else do {
       now \<leftarrow> time_Now;
       _ \<leftarrow> order_UpdateOneID (o_ID (p_Order p))
              (\<lambda>x. (set_status OrderStatusRefundFailed x)\<lparr>o_FailedAt := Some now, o_FailedReason := Some gErr\<rparr>);
       _ \<leftarrow> writeAuditLog (o_ID (p_Order p)) ''REFUND_FAILED'' ''admin'';
       ret (Inl (AppText 500 ''REFUND_FAILED'' gErr))
     }
   }"

text \<open>
  The reduction of the balance. After a failed rollback it is not repeated, since it still stands.
\<close>

definition deduct_balance ::
    "('w, 'g) PaymentService \<Rightarrow> RefundPlan \<Rightarrow> ('w, 'g, RefundPlan outcome) pay" where
  "deduct_balance s p =
     (if p_DeductionType p = DeductionTypeBalance \<and> f_less (Finite 0) (p_BalanceToDeduct p) then do {
        failedBefore \<leftarrow> hasAuditLog (o_ID (p_Order p)) ''REFUND_ROLLBACK_FAILED'';
        if failedBefore then ret (Inr (p\<lparr>p_BalanceToDeduct := Finite 0\<rparr>))
        else do {
          c \<leftarrow> DeductBalance (rs_numeric (ps_redeem s)) (o_UserID (p_Order p)) (p_BalanceToDeduct p);
          case c of
            Inl e \<Rightarrow> do { _ \<leftarrow> restoreStatus p; ret (Inl (Wrapped ''deduction: '' e)) }
          | Inr _ \<Rightarrow> ret (Inr p)
        }
      }
      else ret (Inr p))"

definition deduct_subscription ::
    "('w, 'g) PaymentService \<Rightarrow> RefundPlan \<Rightarrow> ('w, 'g, RefundPlan outcome) pay" where
  "deduct_subscription s p =
     (if p_DeductionType p = DeductionTypeSubscription \<and> 0 < p_SubDaysToDeduct p \<and> 0 < p_SubscriptionID p then do {
        failedBefore \<leftarrow> hasAuditLog (o_ID (p_Order p)) ''REFUND_ROLLBACK_FAILED'';
        if failedBefore then ret (Inr (p\<lparr>p_SubDaysToDeduct := 0\<rparr>))
        else do {
          c \<leftarrow> world (sub_Extend (ps_subs s) (p_SubscriptionID p) (- p_SubDaysToDeduct p));
          case c of
            Inr _ \<Rightarrow> ret (Inr p)
          | Inl e \<Rightarrow>
              if errors_Is e ErrAdjustWouldExpire then do {
                r \<leftarrow> world (sub_Revoke (ps_subs s) (p_SubscriptionID p));
                case r of
                  Inl e \<Rightarrow> do { _ \<leftarrow> restoreStatus p; ret (Inl (Wrapped ''revoke subscription: '' e)) }
                | Inr _ \<Rightarrow> ret (Inr p)
              }
              else do { _ \<leftarrow> restoreStatus p; ret (Inl (Wrapped ''deduct subscription days: '' e)) }
        }
      }
      else ret (Inr p))"

definition ExecuteRefund ::
    "('w, 'g) PaymentService \<Rightarrow> 'd decimal_lib \<Rightarrow> RefundPlan \<Rightarrow> ('w, 'g, RefundResult outcome) pay" where
  "ExecuteRefund s lib p = do {
     c \<leftarrow> order_Update (in_status (o_ID (p_Order p)) refundable) (set_status OrderStatusRefunding);
     case c of
       Inl e \<Rightarrow> ret (Inl (Wrapped ''lock: '' e))
     | Inr n \<Rightarrow>
         if n = 0 then ret (Inl (Conflict ''CONFLICT'' ''order status changed''))
         else do {
           d \<leftarrow> deduct_balance s p;
           case d of
             Inl e \<Rightarrow> ret (Inl e)
           | Inr p \<Rightarrow> do {
               d \<leftarrow> deduct_subscription s p;
               case d of
                 Inl e \<Rightarrow> ret (Inl e)
               | Inr p \<Rightarrow> do {
                   g \<leftarrow> gwRefund s lib p;
                   case g of Inl e \<Rightarrow> handleGwFail s p e | Inr _ \<Rightarrow> markRefundOk s p
                 }
             }
         }
   }"

end
