(* ===== verification/PayCalls.thy ===== *)
theory PayCalls
  imports PayGuard PayRefund
begin

text \<open>
  The calls of the payment service, and that every one of them, lifecycle and refunds included, makes
  only steps of \<open>PayStep\<close>. Refunds move balances, so they need the open ledger.
\<close>

section \<open>Lifecycle\<close>

lemma safe_getOrderProvider [safe]:
  assumes "pay.keeps num b P"
  shows "safe num b P (getOrderProvider s o')"
  unfolding getOrderProvider_def webhookRegistryFallbackAllowed_def Let_def
  using assms by (intro safe)

lemma safe_set_trade_no [safe]:
  assumes "pay.keeps num b P"
  shows "safe num b P (order_Update p (set_trade_no n))"
  by (rule safe_order_Update [OF assms])
    (simp add: order_move_def set_trade_no_def status_step.same)

lemma safe_checkPaid [safe]:
  assumes "pay.keeps (rs_numeric (ps_redeem s)) b P"
  shows "safe (rs_numeric (ps_redeem s)) b P (checkPaidWithOptions s o' opt)"
  unfolding checkPaidWithOptions_def upstream_paid_def requeryPaidOrderOnce_def Let_def
  using assms by (intro safe)

lemma safe_close_order:
  assumes "pay.keeps num b P" "fs \<in> {OrderStatusCancelled, OrderStatusExpired}"
  shows "safe num b P (close_order o' fs op)"
proof -
  have "safe num b P (order_Update (in_status (o_ID o') [OrderStatusPending]) (set_status fs))"
    by (rule safe_order_Update [OF assms(1)])
      (use assms(2) in \<open>auto simp: in_status_def order_move_def intro: status_step.close\<close>)
  then show ?thesis
    unfolding close_order_def using assms(1) by (intro safe)
qed

lemma safe_cancelCore:
  assumes "pay.keeps (rs_numeric (ps_redeem s)) b P" "fs \<in> {OrderStatusCancelled, OrderStatusExpired}"
  shows "safe (rs_numeric (ps_redeem s)) b P (cancelCore s o' fs op)"
  unfolding cancelCore_def checkPaid_def using assms by (intro safe safe_close_order)

lemma safe_cancel [safe]:
  assumes "pay.keeps (rs_numeric (ps_redeem s)) b P"
  shows "safe (rs_numeric (ps_redeem s)) b P (CancelOrder s i u)"
    "safe (rs_numeric (ps_redeem s)) b P (AdminCancelOrder s i)"
  unfolding CancelOrder_def AdminCancelOrder_def using assms by (intro safe safe_cancelCore; simp)+

lemma safe_order_Query [safe]:
  assumes "pay.keeps num b P"
  shows "safe num b P (order_Query p)"
  unfolding order_Query_def using assms by (auto intro!: safe safe_step)

lemma safe_sweeps [safe]:
  assumes P: "pay.keeps (rs_numeric (ps_redeem s)) b P"
  shows "safe (rs_numeric (ps_redeem s)) b P (ExpireTimedOutOrders s)"
    "safe (rs_numeric (ps_redeem s)) b P (ReconcilePendingWxpayOrders s)"
proof -
  have "safe (rs_numeric (ps_redeem s)) b P (expire_each s os n)" for os n
    using P by (induction os arbitrary: n) (auto intro!: safe safe_cancelCore)
  then show "safe (rs_numeric (ps_redeem s)) b P (ExpireTimedOutOrders s)"
    unfolding ExpireTimedOutOrders_def using P by (intro safe)
  have "safe (rs_numeric (ps_redeem s)) b P (reconcile_each s os n)" for os n
    using P by (induction os arbitrary: n) (auto intro!: safe simp: reconcilePaid_def)
  then show "safe (rs_numeric (ps_redeem s)) b P (ReconcilePendingWxpayOrders s)"
    unfolding ReconcilePendingWxpayOrders_def using P by (intro safe)
qed

lemma safe_Verify [safe]:
  assumes "pay.keeps (rs_numeric (ps_redeem s)) b P"
  shows "safe (rs_numeric (ps_redeem s)) b P (VerifyOrderByOutTradeNo s raw u)"
  unfolding VerifyOrderByOutTradeNo_def reconcilePaid_def using assms by (intro safe)

section \<open>Refunds\<close>

lemma safe_refund_instance [safe]:
  assumes "pay.keeps num b P"
  shows "safe num b P (getRefundOrderProviderInstance o')"
  unfolding getRefundOrderProviderInstance_def resolveSnapshotOrderProviderInstance_def Let_def
  using assms by (intro safe)

lemma safe_RequestRefund [safe]:
  assumes P: "pay.keeps num b P"
  shows "safe num b P (RequestRefund s oid uid reason)"
proof -
  have "safe num b P (order_Update
      (\<lambda>x. o_ID x = oid \<and> o_UserID x = uid \<and> o_Status x = OrderStatusCompleted \<and> o_OrderType x = OrderTypeBalance)
      (set_requested m now r by amount))" for m now r "by" amount
    by (rule safe_order_Update [OF P])
      (auto simp: order_move_def set_requested_def set_status_def same_order_def settled_def intro!: status_step.refund)
  then show ?thesis
    unfolding RequestRefund_def validateRefundRequest_def using P by (intro safe)
qed

text \<open>An order that has been locked for a refund stays settled.\<close>

definition settled_order :: "int \<Rightarrow> ('w, 'g) pay_db \<Rightarrow> bool" where
  "settled_order i d \<longleftrightarrow> (\<exists>x\<in>set (d_orders d). o_ID x = i \<and> settled (o_Status x))"

lemma status_step_settled: "status_step a b \<Longrightarrow> settled a \<Longrightarrow> settled b"
  by (induction rule: status_step.induct) (auto simp: settled_def)

lemma keeps_settled [simp]: "pay.keeps num b (settled_order i)"
  unfolding pay.keeps_def
proof (intro allI impI)
  fix d :: "('a, 'b) pay_db" and ms d'
  assume "pay_inv d" and old: "settled_order i d" and "pay_step num b d ms d'"
  from this(3) show "settled_order i d'"
  proof cases
    case (orders f)
    then show ?thesis
      using old status_step_settled by (fastforce simp: settled_order_def order_move_def same_order_def)
  qed (use old in \<open>auto simp: settled_order_def\<close>)
qed

lemma settled_row:
  "pay_inv d \<Longrightarrow> settled_order i d \<Longrightarrow> x \<in> set (d_orders d) \<Longrightarrow> o_ID x = i \<Longrightarrow> settled (o_Status x)"
proof -
  assume h: "pay_inv d" "settled_order i d" "x \<in> set (d_orders d)" "o_ID x = i"
  then have "inj_on o_ID (set (d_orders d))" by (simp add: pay_inv_def distinct_map)
  with h show ?thesis unfolding settled_order_def by (metis inj_onD)
qed

lemma touch_simps [simp]: "same_order x (touch t y) = same_order x y" "o_Status (touch t y) = o_Status y"
  by (simp_all add: touch_def same_order_def)

lemma safe_override:
  assumes P: "pay.keeps num b P" and f: "\<And>x. same_order x (f x) \<and> settled (o_Status (f x))"
  shows "safe num b (\<lambda>d. P d \<and> settled_order i d) (order_UpdateOneID i f)"
proof -
  have "order_move d x (touch t (f x))" if "pay_inv d" "settled_order i d" "x \<in> set (d_orders d)" "o_ID x = i"
    for d :: "('a, 'b) pay_db" and x t
    using f settled_row [OF that] by (simp add: order_move_def status_step.refund del: order_move_touch)
  then show ?thesis
    unfolding order_UpdateOneID_def set_orders_def
    by (intro safe_step [where ms = "\<lambda>_. []"]) (auto intro!: pay_step.orders simp: P)
qed

lemma safe_user_update:
  assumes P: "pay.keeps num True P" and g: "\<forall>w. u_ID (g w) = u_ID w \<and> u_Balance (g w) = u_Balance w + n"
  shows "safe num True P (user_update i g)"
  unfolding user_update_def
  by (rule safe_step [OF P, where ms = "\<lambda>_. [Moved i n]"]) (use pay_step.balance [of True g n num] g in auto)

lemma safe_balance [safe]:
  assumes P: "pay.keeps num True P"
  shows "safe num True P (UpdateBalance k i a)" "safe num True P (DeductBalance k i a)"
  unfolding UpdateBalance_def DeductBalance_def
  by (rule safe_user_update [OF P]; simp add: Let_def)+

lemma settled_statuses [simp]:
  "settled OrderStatusRefundRequested" "settled OrderStatusRefunding" "settled OrderStatusPartiallyRefunded"
  "settled OrderStatusRefunded" "settled OrderStatusRefundFailed"
  by (simp_all add: settled_def)

lemma safe_restoreStatus:
  assumes "pay.keeps num b P"
  shows "safe num b (\<lambda>d. P d \<and> settled_order (o_ID (p_Order p)) d) (restoreStatus p)"
  unfolding restoreStatus_def Let_def by (intro safe safe_override assms) auto

lemma same_order_refund [simp]:
  "same_order x (y\<lparr>o_RefundAmount := a\<rparr>) = same_order x y"
  "same_order x (y\<lparr>o_RefundReason := r\<rparr>) = same_order x y"
  "same_order x (y\<lparr>o_RefundAt := t\<rparr>) = same_order x y"
  "same_order x (y\<lparr>o_ForceRefund := b\<rparr>) = same_order x y"
  by (simp_all add: same_order_def)

lemma safe_markRefundOk:
  assumes P: "pay.keeps num b P"
  shows "safe num b (\<lambda>d. P d \<and> settled_order (o_ID (p_Order p)) d) (markRefundOk s p)"
  unfolding markRefundOk_def Let_def using P by (intro safe safe_override) auto

lemma safe_handleGwFail:
  assumes P: "pay.keeps num True P"
  shows "safe num True (\<lambda>d. P d \<and> settled_order (o_ID (p_Order p)) d) (handleGwFail s p e)"
  unfolding handleGwFail_def RollbackRefund_def rollback_subscription_def
  using P by (intro safe safe_override safe_restoreStatus) auto

lemma safe_gwRefund [safe]:
  assumes "pay.keeps num b P"
  shows "safe num b P (gwRefund s lib p)"
  unfolding gwRefund_def getRefundProvider_def Let_def using assms by (intro safe)

text \<open>The reductions hand on a plan for the same order.\<close>

lemma rg_deduct_balance:
  assumes P: "pay.keeps num True P"
  shows "pay.rg num True (\<lambda>d. P d \<and> settled_order (o_ID (p_Order p)) d) (deduct_balance s p)
    (\<lambda>x d. case x of Inl _ \<Rightarrow> P d
       | Inr q \<Rightarrow> (P d \<and> settled_order (o_ID (p_Order p)) d) \<and> p_Order q = p_Order p)"
    (is "pay.rg _ _ ?P _ ?Q")
proof -
  have keeps: "pay.keeps num True ?P" using P by simp
  have stop: "pay.rg num True ?P (do { _ \<leftarrow> restoreStatus p; ret (Inl e) }) ?Q" for e :: pay_error
    by (rule pay.rg_bind [OF safe_restoreStatus [OF P, unfolded safe_def]]) (auto intro: pay.rg_ret)
  have go_on: "pay.rg num True ?P (ret (Inr q)) ?Q" if "p_Order q = p_Order p" for q
    using that by (auto intro: pay.rg_ret)
  show ?thesis
    unfolding deduct_balance_def
    by (intro pay.rg_if go_on pay.rg_bind [OF safe_reads(8) [OF keeps, unfolded safe_def]]
        pay.rg_bind_sum [OF safe_rg [OF safe_balance(2) [OF keeps]], of "\<lambda>_. ?P" "\<lambda>_. ?P"] stop)
      (auto split: sum.splits)
qed

lemma rg_deduct_subscription:
  assumes P: "pay.keeps num b P"
  shows "pay.rg num b (\<lambda>d. P d \<and> settled_order (o_ID (p_Order p)) d) (deduct_subscription s p)
    (\<lambda>x d. case x of Inl _ \<Rightarrow> P d
       | Inr q \<Rightarrow> (P d \<and> settled_order (o_ID (p_Order p)) d) \<and> p_Order q = p_Order p)"
    (is "pay.rg _ _ ?P _ ?Q")
proof -
  have keeps: "pay.keeps num b ?P" using P by simp
  have stop: "pay.rg num b ?P (do { _ \<leftarrow> restoreStatus p; ret (Inl e) }) ?Q" for e :: pay_error
    by (rule pay.rg_bind [OF safe_restoreStatus [OF P, unfolded safe_def]]) (auto intro: pay.rg_ret)
  have go_on: "pay.rg num b ?P (ret (Inr q)) ?Q" if "p_Order q = p_Order p" for q
    using that by (auto intro: pay.rg_ret)
  show ?thesis
    unfolding deduct_subscription_def
    by (intro pay.rg_if go_on pay.rg_bind [OF safe_reads(8) [OF keeps, unfolded safe_def]]
        pay.rg_bind_sum [OF safe_rg [OF safe_elsewhere(2) [OF keeps]], of "\<lambda>_. ?P" "\<lambda>_. ?P"] stop)
      (auto split: sum.splits)
qed

lemma filter_exists: "length (filter p xs) \<noteq> 0 \<Longrightarrow> \<exists>x\<in>set xs. p x"
  by (auto simp: filter_empty_conv)

lemma rg_lock_refund:
  assumes P: "pay.keeps num b P"
  shows "pay.rg num b P (order_Update (in_status i refundable) (set_status OrderStatusRefunding))
    (\<lambda>x d. case x of Inl _ \<Rightarrow> P d | Inr n \<Rightarrow> P d \<and> (n \<noteq> 0 \<longrightarrow> settled_order i d))"
proof -
  let ?p = "in_status i refundable" and ?f = "set_status OrderStatusRefunding"
  have move: "order_move d x (?f x)" if "?p x" for d :: "('a, 'b) pay_db" and x
    using that by (auto simp: in_status_def refundable_def order_move_def intro!: status_step.refund)
  have reach: "pay.reach num b d (set_orders ?p ?f d)" for d :: "('a, 'b) pay_db"
    unfolding set_orders_def by (rule pay.reach_step [OF pay_step.orders]) (simp add: move)
  have "settled_order i (set_orders ?p ?f d)" if some: "length (filter ?p (d_orders d)) \<noteq> 0" for d :: "('a, 'b) pay_db"
  proof -
    obtain x where x: "x \<in> set (d_orders d)" "?p x" using filter_exists [OF some] by blast
    then have "touch (d_clock d) (?f x) \<in> set (d_orders (set_orders ?p ?f d))"
      by (force simp: set_orders_def)
    moreover have "o_ID (touch (d_clock d) (?f x)) = i"
      using x(2) by (simp add: in_status_def set_status_def touch_def)
    moreover have "settled (o_Status (touch (d_clock d) (?f x)))" by simp
    ultimately show ?thesis
      unfolding settled_order_def by blast
  qed
  then show ?thesis
    unfolding order_Update_def
    by (intro pay.rg_stmt [OF P]) (auto simp: reach intro: pay.keeps_reach [OF reach P])
qed

lemma safe_ExecuteRefund [safe]:
  assumes P: "pay.keeps num True P"
  shows "safe num True P (ExecuteRefund s lib p)"
proof -
  let ?P = "\<lambda>d. P d \<and> settled_order (o_ID (p_Order p)) d"
  have keeps: "pay.keeps num True ?P" using P by simp
  have gateway: "pay.rg num True ?P (do { g \<leftarrow> gwRefund s lib q;
      case g of Inl e \<Rightarrow> handleGwFail s q e | Inr _ \<Rightarrow> markRefundOk s q }) (\<lambda>_. P)"
    if "p_Order q = p_Order p" for q
    using safe_handleGwFail [OF P, of q s] safe_markRefundOk [OF P, of q s] that
    by (intro safe_rg [where P = ?P] safe safe_gwRefund keeps) auto
  have main: "pay.rg num True ?P (do { d \<leftarrow> deduct_balance s p;
      case d of Inl e \<Rightarrow> ret (Inl e)
      | Inr p \<Rightarrow> do { d \<leftarrow> deduct_subscription s p;
          case d of Inl e \<Rightarrow> ret (Inl e)
          | Inr p \<Rightarrow> do { g \<leftarrow> gwRefund s lib p;
              case g of Inl e \<Rightarrow> handleGwFail s p e | Inr _ \<Rightarrow> markRefundOk s p } } }) (\<lambda>_. P)"
  proof (rule pay.rg_bind_sum [OF rg_deduct_balance [OF P]])
    show "pay.rg num True P (ret (Inl e)) (\<lambda>_. P)" for e :: pay_error
      by (rule pay.rg_ret)
    show "pay.rg num True (\<lambda>d. ?P d \<and> p_Order q = p_Order p) (do { d \<leftarrow> deduct_subscription s q;
          case d of Inl e \<Rightarrow> ret (Inl e)
          | Inr p \<Rightarrow> do { g \<leftarrow> gwRefund s lib p;
              case g of Inl e \<Rightarrow> handleGwFail s p e | Inr _ \<Rightarrow> markRefundOk s p } }) (\<lambda>_. P)" for q
    proof (rule pay.rg_pure)
      assume q: "p_Order q = p_Order p"
      show "pay.rg num True ?P (do { d \<leftarrow> deduct_subscription s q;
          case d of Inl e \<Rightarrow> ret (Inl e)
          | Inr p \<Rightarrow> do { g \<leftarrow> gwRefund s lib p;
              case g of Inl e \<Rightarrow> handleGwFail s p e | Inr _ \<Rightarrow> markRefundOk s p } }) (\<lambda>_. P)"
        by (rule pay.rg_bind_sum [OF rg_deduct_subscription [OF P, of q, unfolded q]], rule pay.rg_ret, assumption,
            rule pay.rg_pure, rule gateway)
    qed
  qed
  have locked: "pay.rg num True (\<lambda>d. P d \<and> (n \<noteq> 0 \<longrightarrow> settled_order (o_ID (p_Order p)) d))
      (if n = 0 then ret (Inl (Conflict ''CONFLICT'' ''order status changed''))
       else do { d \<leftarrow> deduct_balance s p;
      case d of Inl e \<Rightarrow> ret (Inl e)
      | Inr p \<Rightarrow> do { d \<leftarrow> deduct_subscription s p;
          case d of Inl e \<Rightarrow> ret (Inl e)
          | Inr p \<Rightarrow> do { g \<leftarrow> gwRefund s lib p;
              case g of Inl e \<Rightarrow> handleGwFail s p e | Inr _ \<Rightarrow> markRefundOk s p } } }) (\<lambda>_. P)"
    for n :: nat
    using main by (cases "n = 0") (auto intro: pay.rg_ret)
  show ?thesis
    unfolding safe_def ExecuteRefund_def
    by (rule pay.rg_bind_sum [OF rg_lock_refund [OF P] _ locked]) (rule pay.rg_ret)
qed

lemma safe_PrepareRefund [safe]:
  assumes "pay.keeps num b P"
  shows "safe num b P (PrepareRefund s lib oid amt reason force deduct)"
  unfolding PrepareRefund_def prepDeduct_def Let_def using assms by (intro safe)

section \<open>Calls\<close>

text \<open>What handlers, administrators and the timer ask of the service.\<close>

datatype 'd pay_call =
    Notify PaymentNotification go_string
  | Retry int
  | Cancel int int
  | AdminCancel int
  | Expire
  | ReconcileWxpay
  | Verify go_string int
  | UseCode int go_string
  | AskRefund int int go_string
  | PlanRefund "'d decimal_lib" int float64 go_string bool bool
  | Refund "'d decimal_lib" RefundPlan

definition serve :: "('w, 'g) PaymentService \<Rightarrow> 'd pay_call \<Rightarrow> ('w, 'g, unit) pay" where
  "serve s c =
     (case c of
        Notify n pk \<Rightarrow> do { _ \<leftarrow> HandlePaymentNotification s n pk; ret () }
      | Retry i \<Rightarrow> do { _ \<leftarrow> RetryFulfillment s i; ret () }
      | Cancel i u \<Rightarrow> do { _ \<leftarrow> CancelOrder s i u; ret () }
      | AdminCancel i \<Rightarrow> do { _ \<leftarrow> AdminCancelOrder s i; ret () }
      | Expire \<Rightarrow> do { _ \<leftarrow> ExpireTimedOutOrders s; ret () }
      | ReconcileWxpay \<Rightarrow> do { _ \<leftarrow> ReconcilePendingWxpayOrders s; ret () }
      | Verify n u \<Rightarrow> do { _ \<leftarrow> VerifyOrderByOutTradeNo s n u; ret () }
      | UseCode u k \<Rightarrow> do { _ \<leftarrow> Redeem (ps_redeem s) False u k; ret () }
      | AskRefund i u r \<Rightarrow> do { _ \<leftarrow> RequestRefund s i u r; ret () }
      | PlanRefund lib i a r f b \<Rightarrow> do { _ \<leftarrow> PrepareRefund s lib i a r f b; ret () }
      | Refund lib p \<Rightarrow> do { _ \<leftarrow> ExecuteRefund s lib p; ret () })"

fun refunding :: "'d pay_call \<Rightarrow> bool" where
  "refunding (Refund _ _) = True"
| "refunding _ = False"

lemma safe_Redeem [safe]:
  assumes "pay.keeps (rs_numeric s) b P"
  shows "safe (rs_numeric s) b P (Redeem s skip i c)"
  by (rule rg_safe [OF rg_Redeem [OF assms]])

lemma safe_serve:
  assumes "open_ledger \<or> \<not> refunding c"
  shows "safe (rs_numeric (ps_redeem s)) open_ledger (\<lambda>_. True) (serve s c)"
  using assms unfolding serve_def by (cases c) (auto intro!: safe)

text \<open>So a call is a run of steps, its own and those of the others.\<close>

lemma serve_run:
  assumes "pay_inv (db m)" "pay.polite (rs_numeric (ps_redeem s)) open_ledger (sched m)"
    "open_ledger \<or> \<not> refunding c" "run_state (serve s c) m = (r, m')"
  shows "\<exists>ms. run_of (pay_step (rs_numeric (ps_redeem s)) open_ledger) (db m) ms (db m')"
  using pay.rgD [OF safe_serve [OF assms(3), of s, unfolded safe_def] assms(4,1,2)]
  by (simp add: pay.reach_def)

end
