(* ===== verification/PayFacts.thy ===== *)
theory PayFacts
  imports PayCalls
begin

text \<open>
  What holds of the payment service under interference and faults: money enters a balance only
  through the use of a code, every code at most once; completed orders have been credited; orders
  move only along the state machine.
\<close>

section \<open>Accounting of a run\<close>

definition credits :: "go_string \<Rightarrow> effect list \<Rightarrow> nat" where
  "credits k ms = length (filter (\<lambda>e. case e of Credited c _ _ \<Rightarrow> c = k | Moved _ _ \<Rightarrow> False) ms)"

fun moved_by :: "int \<Rightarrow> effect \<Rightarrow> int" where
  "moved_by i (Credited _ u n) = (if u = i then n else 0)"
| "moved_by i (Moved u n) = (if u = i then n else 0)"

definition moved :: "int \<Rightarrow> effect list \<Rightarrow> int" where
  "moved i ms = sum_list (map (moved_by i) ms)"

definition balance_of :: "int \<Rightarrow> ('w, 'g) pay_db \<Rightarrow> int option" where
  "balance_of i d = map_option u_Balance (find (\<lambda>u. u_ID u = i) (d_users d))"

lemma credits_simps [simp]:
  "credits k [] = 0" "credits k (ms @ ns) = credits k ms + credits k ns"
  "credits k [Credited c u n] = (if c = k then 1 else 0)" "credits k [Moved u n] = 0"
  by (simp_all add: credits_def)

lemma moved_simps [simp]:
  "moved i [] = 0" "moved i (ms @ ns) = moved i ms + moved i ns" "moved i [e] = moved_by i e"
  by (simp_all add: moved_def)

text \<open>A code that is not used is worth one credit at most.\<close>

definition used_count :: "go_string \<Rightarrow> ('w, 'g) pay_db \<Rightarrow> nat" where
  "used_count k d = (if code_used k d then 1 else 0)"

lemma used_once: "code_used k d \<Longrightarrow> r \<in> set (d_codes d) \<Longrightarrow> rc_Code r = k \<Longrightarrow> pay_inv d \<Longrightarrow> rc_Status r = StatusUsed"
proof -
  assume h: "code_used k d" "r \<in> set (d_codes d)" "rc_Code r = k" "pay_inv d"
  then obtain q where q: "q \<in> set (d_codes d)" "rc_Code q = k" "rc_Status q = StatusUsed"
    by (auto simp: code_used_def list_ex_iff)
  have "inj_on rc_Code (set (d_codes d))" using h(4) by (simp add: pay_inv_def distinct_map)
  with h q show ?thesis by (metis inj_onD)
qed

lemma use_code_uses:
  "r \<in> set (d_codes d) \<Longrightarrow> rc_Status r = StatusUnused \<Longrightarrow> code_used (rc_Code r) (use_code (rc_ID r) i d)"
  by (auto simp: code_used_def list_ex_iff use_code_def usable_def bex_map simp del: set_map intro!: bexI [of _ r])

lemma credits_step:
  assumes "pay_step num b d ms d'" "pay_inv d"
  shows "credits k ms + used_count k d \<le> used_count k d'"
  using assms(1)
proof cases
  case (redeem r u v n g)
  have "\<not> code_used (rc_Code r) d"
    using used_once [OF _ redeem(3) refl assms(2)] redeem(4) by (auto simp: code_status_defs)
  moreover have "code_used (rc_Code r) d'"
    using use_code_uses [OF redeem(3,4)] redeem(2) by simp
  ultimately show ?thesis
    using step_keeps_used [OF assms(1)] redeem(1) by (auto simp: used_count_def)
qed (use step_keeps_used [OF assms(1)] in \<open>auto simp: used_count_def\<close>)

lemma credits_run:
  "run_of (pay_step num b) d ms d' \<Longrightarrow> pay_inv d \<Longrightarrow> credits k ms + used_count k d \<le> used_count k d'"
proof (induction rule: run_of.induct)
  case (move d ms d' ns d'')
  have "pay_inv d'" using pay.inv_run [OF move.hyps(1) move.prems] .
  from credits_step [OF move.hyps(2) this, of k] move.IH [OF move.prems] show ?case by simp
qed simp

lemma balance_set_users:
  assumes "\<forall>w. u_ID (g w) = u_ID w \<and> u_Balance (g w) = u_Balance w + n"
  shows "balance_of i (set_users j g d) = map_option (\<lambda>x. x + (if i = j then n else 0)) (balance_of i d)"
proof -
  let ?f = "\<lambda>u. if u_ID u = j then g u else u"
  have "find (\<lambda>u. u_ID u = i) (map ?f (d_users d)) = map_option ?f (find (\<lambda>u. u_ID u = i) (d_users d))"
    by (rule find_map_same) (simp add: assms)
  then show ?thesis
    using assms by (auto simp: balance_of_def set_users_def option.map_comp find_Some_iff intro!: option.map_cong0
        split: option.splits)
qed

lemma balance_of_frame [simp]:
  "balance_of i (use_code j u d) = balance_of i d" "balance_of i (d\<lparr>d_orders := os\<rparr>) = balance_of i d"
  "balance_of i (d\<lparr>d_audits := as\<rparr>) = balance_of i d" "balance_of i (d\<lparr>d_order_seq := n\<rparr>) = balance_of i d"
  "balance_of i (d\<lparr>d_code_seq := q, d_codes := rs\<rparr>) = balance_of i d"
  "balance_of i (d\<lparr>d_code_seq := q\<rparr>) = balance_of i d" "balance_of i (d\<lparr>d_world := w\<rparr>) = balance_of i d"
  "balance_of i (d\<lparr>d_clock := t, d_instances := ps, d_world := w, d_outside := g\<rparr>) = balance_of i d"
  by (simp_all add: balance_of_def use_code_def)

lemma ledger_step:
  assumes "pay_step num b d ms d'"
  shows "balance_of i d' = map_option (\<lambda>x. x + moved i ms) (balance_of i d)"
  using assms
proof cases
  case (redeem_other r g j k w)
  then show ?thesis
    using balance_set_users [of g 0 i k "use_code (rc_ID r) w d"] by (simp add: same_balance_def option.map_ident)
next
  case (user g j)
  then show ?thesis
    using balance_set_users [of g 0 i j d] by (simp add: same_balance_def option.map_ident)
qed (auto simp: balance_set_users option.map_ident intro!: option.map_cong0)

lemma ledger_run:
  "run_of (pay_step num b) d ms d' \<Longrightarrow> balance_of i d' = map_option (\<lambda>x. x + moved i ms) (balance_of i d)"
proof (induction rule: run_of.induct)
  case (move d ms d' ns d'')
  then show ?case
    using ledger_step [OF move.hyps(2), of i]
    by (simp add: option.map_comp comp_def add.assoc)
qed (simp add: option.map_ident)

text \<open>A credit leaves a used code behind that says whom it was for and what it was worth.\<close>

fun receipt :: "numeric \<Rightarrow> ('w, 'g) pay_db \<Rightarrow> effect \<Rightarrow> bool" where
  "receipt num d (Credited k i n) =
     list_ex (\<lambda>r. rc_Code r = k \<and> rc_Status r = StatusUsed \<and> rc_UsedBy r = Some i \<and> rc_Type r = RedeemTypeBalance
       \<and> (\<not> f_less (rc_Value r) (Finite 0) \<longrightarrow> n = to_column num 8 (rc_Value r))) (d_codes d)"
| "receipt num d (Moved i n) = True"

lemma receipt_later: "pay_step num b d ms d' \<Longrightarrow> receipt num d e \<Longrightarrow> receipt num d' e"
proof (cases e)
  case (Credited k i n)
  assume "pay_step num b d ms d'" "receipt num d e"
  then show ?thesis
    unfolding Credited
    by (induction rule: pay_step.induct)
      (auto simp: list_ex_iff use_code_def usable_def code_status_defs set_users_def)
qed simp

lemma receipt_step:
  assumes "pay_step num b d ms d'" "e \<in> set ms"
  shows "receipt num d' e"
  using assms
proof cases
  case (redeem r u v n g)
  let ?q = "r\<lparr>rc_Status := StatusUsed, rc_UsedBy := Some (u_ID u), rc_UsedAt := Some (d_clock d)\<rparr>"
  have "?q \<in> set (d_codes d')"
    using redeem(2,3,4) by (force simp: use_code_def usable_def)
  then show ?thesis
    using redeem assms(2) by (auto simp: list_ex_iff code_worth_def floor_balance_def intro!: bexI [of _ ?q])
qed (use assms(2) in auto)

lemma receipt_run: "run_of (pay_step num b) d ms d' \<Longrightarrow> \<forall>e\<in>set ms. receipt num d' e"
  by (induction rule: run_of.induct) (auto dest: receipt_later receipt_step)

lemma closed_step: "pay_step num False d ms d' \<Longrightarrow> Moved i n \<notin> set ms"
  by (auto elim: pay_stepE)

lemma closed_run: "run_of (pay_step num False) d ms d' \<Longrightarrow> Moved i n \<notin> set ms"
  by (induction rule: run_of.induct) (auto dest: closed_step)

section \<open>The history of an order\<close>

text \<open>Paid, an order is never pending, cancelled or expired again.\<close>

definition committed :: "OrderStatus \<Rightarrow> bool" where
  "committed st \<longleftrightarrow> st \<notin> {OrderStatusPending, OrderStatusCancelled, OrderStatusExpired}"

lemma committed_step: "status_step a b \<Longrightarrow> committed a \<Longrightarrow> committed b"
  by (induction rule: status_step.induct) (auto simp: committed_def settled_def)

lemma status_path:
  assumes "status_step\<^sup>*\<^sup>* a b"
  shows "(settled a \<longrightarrow> settled b) \<and> (committed a \<longrightarrow> committed b)"
  using assms by (induction rule: rtranclp_induct) (auto dest: status_step_settled committed_step)

lemma same_order_refl [simp]: "same_order x x"
  by (simp add: same_order_def)

text \<open>One order of the database and what becomes of it.\<close>

definition follows :: "PaymentOrder \<Rightarrow> PaymentOrder \<Rightarrow> bool" where
  "follows x y \<longleftrightarrow> same_order x y \<and> status_step\<^sup>*\<^sup>* (o_Status x) (o_Status y)"

lemma follows_refl [simp]: "follows x x"
  by (simp add: follows_def)

lemma follows_trans: "follows x y \<Longrightarrow> follows y z \<Longrightarrow> follows x z"
  unfolding follows_def using same_order_trans by (blast intro: rtranclp_trans)

lemma follows_move: "order_move d x y \<Longrightarrow> follows x y"
  by (auto simp: follows_def order_move_def)

lemma follows_step:
  assumes "pay_step num b d ms d'"
  shows "\<forall>x\<in>set (d_orders d). \<exists>y\<in>set (d_orders d'). follows x y"
    "\<forall>y\<in>set (d_orders d'). (\<exists>x\<in>set (d_orders d). follows x y)
      \<or> o_Status y = OrderStatusPending"
proof -
  show "\<forall>x\<in>set (d_orders d). \<exists>y\<in>set (d_orders d'). follows x y"
    using assms
  proof cases
    case (orders f)
    then have "\<forall>x\<in>set (d_orders d). follows x (f x)" using follows_move by blast
    then show ?thesis unfolding orders(2) by auto
  qed (auto intro: follows_refl)
  show "\<forall>y\<in>set (d_orders d'). (\<exists>x\<in>set (d_orders d). follows x y)
      \<or> o_Status y = OrderStatusPending"
    using assms
  proof cases
    case (orders f)
    then have "\<forall>x\<in>set (d_orders d). follows x (f x)" using follows_move by blast
    then show ?thesis unfolding orders(2) by auto
  qed (auto intro: follows_refl)
qed

lemma follows_run:
  "run_of (pay_step num b) d ms d' \<Longrightarrow> \<forall>x\<in>set (d_orders d). \<exists>y\<in>set (d_orders d'). follows x y"
proof (induction rule: run_of.induct)
  case (move d ms d' ns d'')
  then show ?case
    using follows_step(1) [OF move.hyps(2)] by (meson follows_trans)
qed (auto intro: follows_refl)

lemma new_order_run:
  "run_of (pay_step num b) d ms d' \<Longrightarrow> \<forall>y\<in>set (d_orders d'). o_ID y \<in> o_ID ` set (d_orders d)
      \<or> status_step\<^sup>*\<^sup>* OrderStatusPending (o_Status y)"
proof (induction rule: run_of.induct)
  case (move d ms d' ns d'')
  show ?case
  proof
    fix y
    assume "y \<in> set (d_orders d'')"
    then consider (old) x where "x \<in> set (d_orders d')" "follows x y" | (new) "o_Status y = OrderStatusPending"
      using follows_step(2) [OF move.hyps(2)] by blast
    then show "o_ID y \<in> o_ID ` set (d_orders d) \<or> status_step\<^sup>*\<^sup>* OrderStatusPending (o_Status y)"
    proof cases
      case old
      then show ?thesis
        using move.IH by (auto simp: follows_def same_order_def dest: rtranclp_trans)
    qed simp
  qed
qed simp

section \<open>Histories of calls\<close>

primrec serve_all :: "('w, 'g) PaymentService \<Rightarrow> 'd pay_call list \<Rightarrow> ('w, 'g, unit) pay" where
  "serve_all s [] = ret ()"
| "serve_all s (c # cs) = do { _ \<leftarrow> serve s c; serve_all s cs }"

lemma safe_serve_all:
  "open_ledger \<or> list_all (\<lambda>c. \<not> refunding c) cs
    \<Longrightarrow> safe (rs_numeric (ps_redeem s)) open_ledger (\<lambda>_. True) (serve_all s cs)"
  by (induction cs) (auto intro!: safe safe_serve)

lemma history_run:
  assumes "pay_inv (db m)" "pay.polite (rs_numeric (ps_redeem s)) open_ledger (sched m)"
    "open_ledger \<or> list_all (\<lambda>c. \<not> refunding c) cs" "run_state (serve_all s cs) m = (r, m')"
  shows "\<exists>ms. run_of (pay_step (rs_numeric (ps_redeem s)) open_ledger) (db m) ms (db m')"
  using pay.rgD [OF safe_serve_all [OF assms(3), of s, unfolded safe_def] assms(4,1,2)]
  by (simp add: pay.reach_def)

end
