(* ===== verification/PayQuiet.thy ===== *)
theory PayQuiet
  imports PayFacts
begin

text \<open>
  Quiet runs of the payment service, without other processes and without faults: every statement is
  a function of the store. \<open>alone d\<close> is the machine of such a run, and the rules of \<open>quiet\<close> compute
  what a command does from there.
\<close>

section \<open>Statements\<close>

named_theorems quiet

abbreviation alone :: "'d \<Rightarrow> 'd machine" where
  "alone d \<equiv> \<lparr>db = d, sched = []\<rparr>"

lemma quiet_stmt [quiet]: "run_state (stmt e f) (alone d) = (fst (f d), alone (snd (f d)))"
  by (simp add: stmt_def split: prod.splits)

lemma quiet_peek [quiet]: "run_state (peek f) (alone d) = (f d, alone d)"
  by (simp add: peek_def)

lemma quiet_transaction:
  assumes "run_state body (alone d) = (x, m)"
  shows "run_state (transaction undo b c body) (alone d) =
    (x, alone (case x of Inl _ \<Rightarrow> undo d (db m) | Inr _ \<Rightarrow> db m))"
  using assms by (auto simp: transaction_def quiet_stmt settle_def Let_def split: sum.splits)

lemma quiet_time [quiet]: "run_state time_Now (alone d) = (d_clock d, alone d)"
  by (simp add: time_Now_def quiet_peek)

definition log_audit :: "int \<Rightarrow> go_string \<Rightarrow> go_string \<Rightarrow> ('w, 'g) pay_db \<Rightarrow> ('w, 'g) pay_db" where
  "log_audit oid action op d = (if has_audit oid action d then d else add_audit oid action op d)"

lemma quiet_audit [quiet]:
  "run_state (writeAuditLog oid action op) (alone d) = ((), alone (log_audit oid action op d))"
  by (simp add: writeAuditLog_def audit_Create_def quiet_stmt log_audit_def)

lemma log_audit_ex: "\<exists>as. log_audit i a p d = d\<lparr>d_audits := as\<rparr>"
proof (cases "has_audit i a d")
  case True
  then have "log_audit i a p d = d\<lparr>d_audits := d_audits d\<rparr>" by (simp add: log_audit_def)
  then show ?thesis by blast
qed (auto simp: log_audit_def add_audit_def)

lemma same_audits: "\<exists>as. d = d\<lparr>d_audits := as\<rparr>"
  by (rule exI [of _ "d_audits d"]) simp

lemma quiet_hasAudit [quiet]:
  "run_state (hasAuditLog oid action) (alone d) = (has_audit oid action d, alone d)"
  by (simp add: hasAuditLog_def quiet_stmt)

definition order_of :: "int \<Rightarrow> ('w, 'g) pay_db \<Rightarrow> PaymentOrder option" where
  "order_of i d = find (\<lambda>x. o_ID x = i) (d_orders d)"

lemma quiet_order_Get [quiet]:
  "run_state (order_Get i) (alone d) = (case order_of i d of None \<Rightarrow> Inl NotFoundErr | Some x \<Rightarrow> Inr x, alone d)"
  by (simp add: order_Get_def quiet_stmt order_of_def)

lemma quiet_order_Update [quiet]:
  "run_state (order_Update p f) (alone d) = (Inr (length (filter p (d_orders d))), alone (set_orders p f d))"
  by (simp add: order_Update_def quiet_stmt)

lemma quiet_outside [quiet]:
  "run_state (outside f) (alone d) = (fst (f (d_outside d)), alone (d\<lparr>d_outside := snd (f (d_outside d))\<rparr>))"
  by (simp add: outside_def quiet_stmt split: prod.splits)

lemma quiet_world [quiet]:
  "run_state (world f) (alone d) = (fst (f (d_world d)), alone (d\<lparr>d_world := snd (f (d_world d))\<rparr>))"
  by (simp add: world_def quiet_stmt split: prod.splits)

section \<open>Rows\<close>

lemma audit_frame [simp]:
  "d_orders (log_audit i a p d) = d_orders d" "d_codes (log_audit i a p d) = d_codes d"
  "d_users (log_audit i a p d) = d_users d" "d_clock (log_audit i a p d) = d_clock d"
  "d_world (log_audit i a p d) = d_world d" "d_outside (log_audit i a p d) = d_outside d"
  "d_code_seq (log_audit i a p d) = d_code_seq d" "d_instances (log_audit i a p d) = d_instances d"
  "order_of j (log_audit i a p d) = order_of j d"
  by (simp_all add: log_audit_def add_audit_def order_of_def)

lemma has_audit_log [simp]:
  "has_audit i a (log_audit j b p d) \<longleftrightarrow> has_audit i a d \<or> i = j \<and> a = b"
  by (auto simp: log_audit_def add_audit_def has_audit_def)

lemma set_orders_frame [simp]:
  "d_codes (set_orders p f d) = d_codes d" "d_users (set_orders p f d) = d_users d"
  "d_clock (set_orders p f d) = d_clock d" "d_world (set_orders p f d) = d_world d"
  "d_outside (set_orders p f d) = d_outside d" "d_audits (set_orders p f d) = d_audits d"
  "d_code_seq (set_orders p f d) = d_code_seq d" "d_instances (set_orders p f d) = d_instances d"
  "has_audit i a (set_orders p f d) = has_audit i a d"
  by (simp_all add: set_orders_def has_audit_def)

lemma order_of_set:
  assumes "\<And>x. o_ID (f x) = o_ID x"
  shows "order_of i (set_orders p f d) = map_option (\<lambda>x. if p x then touch (d_clock d) (f x) else x) (order_of i d)"
  unfolding order_of_def set_orders_def
  by (simp, rule find_map_same) (simp add: assms touch_def)

lemma order_of_Some: "order_of i d = Some x \<Longrightarrow> x \<in> set (d_orders d) \<and> o_ID x = i"
  by (auto simp: order_of_def find_Some_iff)

lemma order_of_iff:
  assumes "distinct (map o_ID (d_orders d))"
  shows "order_of i d = Some x \<longleftrightarrow> x \<in> set (d_orders d) \<and> o_ID x = i"
proof
  assume h: "x \<in> set (d_orders d) \<and> o_ID x = i"
  then obtain y where y: "order_of i d = Some y"
    unfolding order_of_def by (cases "find (\<lambda>x. o_ID x = i) (d_orders d)") (auto simp: find_None_iff)
  with h assms have "y = x"
    using order_of_Some [OF y] by (metis distinct_map inj_onD)
  with y show "order_of i d = Some x" by simp
qed (rule order_of_Some)

lemma one_row:
  assumes "distinct (map o_ID (d_orders d))" "order_of i d = Some x"
  shows "(length (filter (\<lambda>y. o_ID y = i \<and> q y) (d_orders d)) = 0) = (\<not> q x)"
proof -
  have "\<forall>y\<in>set (d_orders d). o_ID y = i \<longrightarrow> y = x"
    using order_of_iff [OF assms(1)] assms(2) by (metis option.inject)
  moreover have "x \<in> set (d_orders d)" "o_ID x = i" using order_of_Some [OF assms(2)] by auto
  ultimately show ?thesis unfolding length_0_conv filter_empty_conv by blast
qed

lemma set_orders_none: "length (filter p (d_orders d)) = 0 \<Longrightarrow> set_orders p f d = d"
  by (simp add: set_orders_def filter_empty_conv map_idI)

section \<open>The instance of an order\<close>

lemma quiet_instance_Get [quiet]:
  "run_state (instance_Get i) (alone d) =
     (case find (\<lambda>p. pi_ID p = i) (d_instances d) of None \<Rightarrow> Inl NotFoundErr | Some p \<Rightarrow> Inr p, alone d)"
  by (simp add: instance_Get_def quiet_stmt)

lemma quiet_instance_All [quiet]:
  "run_state (instance_All p) (alone d) = (Inr (filter p (d_instances d)), alone d)"
  by (simp add: instance_All_def quiet_stmt)

definition resolved :: "PaymentOrder \<Rightarrow> ('w, 'g) pay_db \<Rightarrow> PaymentProviderInstance option outcome" where
  "resolved o' d = fst (run_state (getOrderProviderInstance o') (alone d))"

lemma quiet_snapshot_instance:
  "snd (run_state (resolveSnapshotOrderProviderInstance o' s) (alone d)) = alone d"
  by (simp add: resolveSnapshotOrderProviderInstance_def Let_def quiet split: option.splits)

lemma quiet_legacy_instance:
  "snd (run_state (resolveUniqueLegacyOrderProviderInstance o') (alone d)) = alone d"
  by (simp add: resolveUniqueLegacyOrderProviderInstance_def Let_def quiet)

lemma quiet_getOrderProviderInstance [quiet]:
  "run_state (getOrderProviderInstance o') (alone d) = (resolved o' d, alone d)"
proof -
  have "snd (run_state (getOrderProviderInstance o') (alone d)) = alone d"
    by (simp add: getOrderProviderInstance_def Let_def quiet quiet_snapshot_instance quiet_legacy_instance
        split: option.splits)
  then show ?thesis unfolding resolved_def by (metis prod.collapse)
qed

definition instance_key :: "PaymentOrder \<Rightarrow> ('w, 'g) pay_db \<Rightarrow> go_string" where
  "instance_key o' d = (case resolved o' d of Inr (Some p) \<Rightarrow> pi_ProviderKey p | _ \<Rightarrow> [])"

lemma quiet_confirmPayment [quiet]:
  "run_state (confirmPayment s i tn paid pk md) (alone d) =
     (case order_of i d of
        None \<Rightarrow> (Inr (), alone d)
      | Some x \<Rightarrow>
          (case notification_check s x (instance_key x d) paid pk md of
             Some (action, e) \<Rightarrow> (Inl e, alone (log_audit i action pk d))
           | None \<Rightarrow> run_state (toPaid s x tn paid pk) (alone d)))"
  using order_of_Some [of i d]
  by (auto simp: confirmPayment_def quiet instance_key_def Let_def split: option.splits)

lemma check_action:
  "notification_check s x k a pk md = Some (action, e) \<Longrightarrow>
    action \<in> {''PAYMENT_PROVIDER_MISMATCH'', ''PAYMENT_PROVIDER_METADATA_MISMATCH'', ''PAYMENT_INVALID_AMOUNT'',
        ''PAYMENT_AMOUNT_MISMATCH''}"
  by (auto simp: notification_check_def Let_def split: sum.splits if_splits)

text \<open>The order a notification names.\<close>

lemma quiet_order_Only:
  assumes "filter (\<lambda>x. o_OutTradeNo x = n) (d_orders d) = [x]"
  shows "run_state (order_Only n) (alone d) = (Inr x, alone d)"
  using assms by (simp add: order_Only_def quiet_stmt)

definition names :: "go_string \<Rightarrow> ('w, 'g) pay_db \<Rightarrow> PaymentOrder \<Rightarrow> bool" where
  "names n d x \<longleftrightarrow> distinct (map o_ID (d_orders d)) \<and> filter (\<lambda>y. o_OutTradeNo y = n) (d_orders d) = [x]"

lemma names_order:
  assumes "names n d x"
  shows "order_of (o_ID x) d = Some x"
proof -
  have "x \<in> set (filter (\<lambda>y. o_OutTradeNo y = n) (d_orders d))" using assms by (simp add: names_def)
  then show ?thesis using assms by (simp add: names_def order_of_iff)
qed

lemma quiet_notification:
  assumes "n_Status n = NotificationStatusSuccess" "names (n_OrderID n) d x"
  shows "run_state (HandlePaymentNotification s n pk) (alone d) =
     (case notification_check s x (instance_key x d) (n_Amount n) pk (n_Metadata n) of
        Some (action, e) \<Rightarrow> (Inl e, alone (log_audit (o_ID x) action pk d))
      | None \<Rightarrow> run_state (toPaid s x (n_TradeNo n) (n_Amount n) pk) (alone d))"
  using assms names_order [OF assms(2)]
  by (simp add: HandlePaymentNotification_def quiet_order_Only quiet names_def)

section \<open>Payment of an order that is not open\<close>

lemma payable_row:
  assumes "distinct (map o_ID (d_orders d))" "order_of i d = Some x" "\<not> payable i g x"
  shows "length (filter (payable i g) (d_orders d)) = 0"
  using one_row [OF assms(1,2), of "\<lambda>y. payable i g y"] assms(3)
  by (auto simp: payable_def filter_empty_conv)

text \<open>Nothing to pay: the order is looked at again.\<close>

lemma quiet_not_payable:
  assumes "distinct (map o_ID (d_orders d))" "order_of (o_ID x) d = Some x"
    "\<not> payable (o_ID x) (d_clock d - paymentGraceMinutes * minute) x"
  shows "run_state (toPaid s x tn paid pk) (alone d) = run_state (alreadyProcessed s x) (alone d)"
  using payable_row [OF assms]
  by (simp add: toPaid_def quiet set_orders_none [OF payable_row [OF assms]])

lemma quiet_alreadyProcessed:
  assumes "order_of (o_ID x) d = Some x" "o_Status x \<noteq> OrderStatusFailed"
  shows "run_state (alreadyProcessed s x) (alone d) =
     (case o_Status x of
        OrderStatusPaid \<Rightarrow> (Inl (order_error x '' is being processed''), alone d)
      | OrderStatusRecharging \<Rightarrow> (Inl (order_error x '' is being processed''), alone d)
      | OrderStatusExpired \<Rightarrow> (Inr (), alone (log_audit (o_ID x) ''PAYMENT_AFTER_EXPIRY'' ''system'' d))
      | _ \<Rightarrow> (Inr (), alone d))"
  using assms by (auto simp: alreadyProcessed_def quiet split: OrderStatus.splits)

section \<open>Fulfilment\<close>

definition code_of :: "go_string \<Rightarrow> ('w, 'g) pay_db \<Rightarrow> RedeemCode option" where
  "code_of k d = find (\<lambda>r. rc_Code r = k) (d_codes d)"

definition user_of :: "int \<Rightarrow> ('w, 'g) pay_db \<Rightarrow> User option" where
  "user_of i d = find (\<lambda>u. u_ID u = i) (d_users d)"

lemma user_of_frame [simp]:
  "user_of i (log_audit j a p d) = user_of i d" "user_of i (set_orders q f d) = user_of i d"
  "user_of i (use_code c j d) = user_of i d"
  "user_of i (d\<lparr>d_code_seq := n, d_codes := rs\<rparr>) = user_of i d"
  by (simp_all add: user_of_def use_code_def)

lemma code_of_frame [simp]:
  "code_of k (log_audit j a p d) = code_of k d" "code_of k (set_orders q f d) = code_of k d"
  "code_of k (set_users i g d) = code_of k d"
  by (simp_all add: code_of_def set_users_def)

lemma order_of_frame [simp]:
  "order_of i (set_users j g d) = order_of i d" "order_of i (use_code c j d) = order_of i d"
  "order_of i (d\<lparr>d_code_seq := n, d_codes := rs\<rparr>) = order_of i d"
  by (simp_all add: order_of_def)

lemma user_of_set:
  assumes "\<And>u. u_ID (g u) = u_ID u"
  shows "user_of i (set_users j g d) = map_option (\<lambda>u. if u_ID u = j then g u else u) (user_of i d)"
  unfolding user_of_def set_users_def by (simp, rule find_map_same) (simp add: assms)

lemma user_of_Some: "user_of i d = Some u \<Longrightarrow> u \<in> set (d_users d) \<and> u_ID u = i"
  by (auto simp: user_of_def find_Some_iff)

lemma code_of_Some: "code_of k d = Some r \<Longrightarrow> r \<in> set (d_codes d) \<and> rc_Code r = k"
  by (auto simp: code_of_def find_Some_iff)

text \<open>The statement of \<open>UpdateBalance\<close>.\<close>

definition credit :: "numeric \<Rightarrow> float64 \<Rightarrow> User \<Rightarrow> User" where
  "credit num amount u =
     (let n = to_column num 8 amount; u = u\<lparr>u_Balance := u_Balance u + n\<rparr> in
      if f_less (Finite 0) amount then u\<lparr>u_TotalRecharged := u_TotalRecharged u + n\<rparr> else u)"

lemma credit_simps [simp]:
  "u_ID (credit num a u) = u_ID u" "u_Balance (credit num a u) = u_Balance u + to_column num 8 a"
  by (simp_all add: credit_def Let_def)

lemma quiet_user_GetByID [quiet]:
  "run_state (user_GetByID i) (alone d) =
     (case user_of i d of None \<Rightarrow> Inl ErrUserNotFound | Some u \<Rightarrow> Inr u, alone d)"
  by (simp add: user_GetByID_def quiet_stmt user_of_def)

lemma quiet_user_update:
  assumes "user_of i d = Some u"
  shows "run_state (user_update i f) (alone d) = (Inr (), alone (set_users i f d))"
  using user_of_Some [OF assms] by (auto simp: user_update_def quiet_stmt list_ex_iff)

lemma quiet_UpdateBalance:
  assumes "user_of i d = Some u"
  shows "run_state (UpdateBalance num i a) (alone d) = (Inr (), alone (set_users i (credit num a) d))"
  unfolding UpdateBalance_def credit_def [abs_def] Let_def by (rule quiet_user_update [OF assms])

lemma quiet_redeem_GetByCode [quiet]:
  "run_state (redeem_GetByCode k) (alone d) =
     (case code_of k d of None \<Rightarrow> Inl ErrRedeemCodeNotFound | Some r \<Rightarrow> Inr r, alone d)"
  by (simp add: redeem_GetByCode_def quiet_stmt code_of_def)

definition paid_codes :: "numeric \<Rightarrow> User \<Rightarrow> RedeemCode \<Rightarrow> ('w, 'g) pay_db \<Rightarrow> ('w, 'g) pay_db" where
  "paid_codes num u r d =
     set_users (u_ID u) (credit num (floor_balance num u (rc_Value r))) (use_code (rc_ID r) (u_ID u) d)"

text \<open>
  What the cache has to say for a redemption: fewer failed attempts of the user than the limit, and the lock.
  A cache that does not answer lets everybody through.
\<close>

definition redeem_passes :: "('w, 'g) RedeemService \<Rightarrow> int \<Rightarrow> go_string \<Rightarrow> 'g \<Rightarrow> bool" where
  "redeem_passes s i k g =
     (case rs_cache s of None \<Rightarrow> True
      | Some cache \<Rightarrow>
          (case GetRedeemAttemptCount cache i g of (count, g1) \<Rightarrow>
             (case count of Inl _ \<Rightarrow> True | Inr n \<Rightarrow> n < redeemMaxErrorsPerHour)
             \<and> (case fst (AcquireRedeemLock cache k g1) of Inl _ \<Rightarrow> True | Inr ok \<Rightarrow> ok)))"

lemma paid_codes_outside [simp]:
  "paid_codes num u r (d\<lparr>d_outside := g\<rparr>) = (paid_codes num u r d)\<lparr>d_outside := g\<rparr>"
  "code_of k (d\<lparr>d_outside := g\<rparr>) = code_of k d" "user_of i (d\<lparr>d_outside := g\<rparr>) = user_of i d"
  by (simp_all add: paid_codes_def use_code_def set_users_def code_of_def user_of_def)

lemma quiet_redeem_locked:
  assumes "code_of k d = Some r" "CanUse (d_clock d) r" "rc_Type r = RedeemTypeBalance"
    "user_of i d = Some u" "skip \<or> \<not> rs_affiliate s"
  shows "\<exists>q. run_state (redeem_locked s skip i k) (alone d) = (Inr q, alone (paid_codes (rs_numeric s) u r d))"
proof -
  let ?d = "paid_codes (rs_numeric s) u r d"
  note r = code_of_Some [OF assms(1)] and u = user_of_Some [OF assms(4)]
  have unused: "usable (rc_ID r) r" using assms(2) by (simp add: usable_def CanUse_def)
  have "run_state (use_and_grant s i u r) (alone d) = (Inr (), alone ?d)"
    using r u unused assms(3,4)
    by (auto simp: use_and_grant_def redeem_Use_def grant_def quiet_stmt quiet_UpdateBalance list_ex_iff
        paid_codes_def)
  then have tx: "run_state (Tx a b (use_and_grant s i u r)) (alone d) = (Inr (), alone ?d)" for a b
    unfolding Tx_def by (simp add: quiet_transaction)
  have "list_ex (\<lambda>q. rc_ID q = rc_ID r) (d_codes ?d)"
    using r by (auto simp: paid_codes_def use_code_def list_ex_iff bex_map simp del: set_map intro!: bexI [of _ r])
  then obtain q where q: "find (\<lambda>q. rc_ID q = rc_ID r) (d_codes ?d) = Some q"
    by (cases "find (\<lambda>q. rc_ID q = rc_ID r) (d_codes ?d)") (auto simp: find_None_iff list_ex_iff)
  have "run_state (redeem_found s skip i r) (alone d) = (Inr q, alone ?d)"
    using assms q by (auto simp: redeem_found_def quiet tx redeem_GetByID_def RedeemTypeBalance_def
        RedeemTypeSubscription_def CanUse_def tryAccrueAffiliateRebateForRedeem_def)
  then show ?thesis using assms by (simp add: redeem_locked_def quiet)
qed

lemma quiet_Redeem:
  assumes "redeem_passes s i k (d_outside d)" "code_of k d = Some r" "CanUse (d_clock d) r" "rc_Type r = RedeemTypeBalance"
    "user_of i d = Some u" "skip \<or> \<not> rs_affiliate s"
  shows "\<exists>q g. run_state (Redeem s skip i k) (alone d) = (Inr q, alone ((paid_codes (rs_numeric s) u r d)\<lparr>d_outside := g\<rparr>))"
proof (cases "rs_cache s")
  case None
  obtain q where "run_state (redeem_locked s skip i k) (alone d) = (Inr q, alone (paid_codes (rs_numeric s) u r d))"
    using quiet_redeem_locked [OF assms(2-6)] by blast
  then have "run_state (Redeem s skip i k) (alone d) =
      (Inr q, alone ((paid_codes (rs_numeric s) u r d)\<lparr>d_outside := d_outside (paid_codes (rs_numeric s) u r d)\<rparr>))"
    using None by (simp add: Redeem_def checkRedeemRateLimit_def acquireRedeemLock_def releaseRedeemLock_def)
  then show ?thesis by blast
next
  case (Some cache)
  obtain n g1 where n: "GetRedeemAttemptCount cache i (d_outside d) = (n, g1)" by (rule prod.exhaust)
  obtain b g2 where b: "AcquireRedeemLock cache k g1 = (b, g2)" by (rule prod.exhaust)
  have pass: "case n of Inl _ \<Rightarrow> True | Inr n \<Rightarrow> n < redeemMaxErrorsPerHour" "case b of Inl _ \<Rightarrow> True | Inr ok \<Rightarrow> ok"
    using assms(1) by (simp_all add: redeem_passes_def Some n b)
  have limit: "run_state (checkRedeemRateLimit s i) (alone d) = (Inr (), alone (d\<lparr>d_outside := g1\<rparr>))"
    using pass(1) by (auto simp: checkRedeemRateLimit_def Some quiet_stmt outside_def n split: sum.splits)
  have lock: "run_state (acquireRedeemLock s k) (alone (d\<lparr>d_outside := g1\<rparr>)) = (True, alone (d\<lparr>d_outside := g2\<rparr>))"
    using pass(2) by (auto simp: acquireRedeemLock_def Some quiet_stmt outside_def b split: sum.splits)
  obtain q where q: "run_state (redeem_locked s skip i k) (alone (d\<lparr>d_outside := g2\<rparr>)) =
      (Inr q, alone (paid_codes (rs_numeric s) u r (d\<lparr>d_outside := g2\<rparr>)))"
    using quiet_redeem_locked [of k "d\<lparr>d_outside := g2\<rparr>" r i u skip s] assms(2-6) by auto
  have "\<exists>g. run_state (releaseRedeemLock s k) (alone ((paid_codes (rs_numeric s) u r d)\<lparr>d_outside := g2\<rparr>)) =
      ((), alone ((paid_codes (rs_numeric s) u r d)\<lparr>d_outside := g\<rparr>))"
    by (auto simp: releaseRedeemLock_def Some quiet_stmt outside_def split: prod.split)
  then show ?thesis using limit lock q by (auto simp: Redeem_def)
qed

section \<open>A balance order\<close>

text \<open>The row \<open>doBalance\<close> creates, and the store after it and the credit.\<close>

definition order_code :: "numeric \<Rightarrow> PaymentOrder \<Rightarrow> ('w, 'g) pay_db \<Rightarrow> RedeemCode" where
  "order_code num x d =
     (recharge_code x)\<lparr>rc_ID := d_code_seq d + 1, rc_Value := stored num 8 (o_Amount x)\<rparr>"

definition with_code :: "numeric \<Rightarrow> PaymentOrder \<Rightarrow> ('w, 'g) pay_db \<Rightarrow> ('w, 'g) pay_db" where
  "with_code num x d =
     d\<lparr>d_code_seq := d_code_seq d + 1, d_codes := d_codes d @ [order_code num x d]\<rparr>"

definition good_code :: "go_string \<Rightarrow> bool" where
  "good_code k \<longleftrightarrow> k \<noteq> [] \<and> length k \<le> 32 \<and> TrimSpace k = k"

text \<open>Nothing outside stops the credit of an order: the cache lets its user through, and the affiliate service does not fail.\<close>

definition rebate_passes :: "('w, 'g) PaymentService \<Rightarrow> PaymentOrder \<Rightarrow> 'w \<Rightarrow> bool" where
  "rebate_passes s x w =
     (case ps_accrue s of None \<Rightarrow> True
      | Some accrue \<Rightarrow> (case fst (accrue (o_UserID x) (o_Amount x) (o_ID x) w) of Inl _ \<Rightarrow> False | Inr _ \<Rightarrow> True))"

lemma rebate_passes_same:
  "o_UserID y = o_UserID x \<Longrightarrow> o_Amount y = o_Amount x \<Longrightarrow> o_ID y = o_ID x \<Longrightarrow> rebate_passes s y w = rebate_passes s x w"
  unfolding rebate_passes_def by metis

definition credit_passes :: "('w, 'g) PaymentService \<Rightarrow> PaymentOrder \<Rightarrow> ('w, 'g) pay_db \<Rightarrow> bool" where
  "credit_passes s x d \<longleftrightarrow>
     redeem_passes (ps_redeem s) (o_UserID x) (o_RechargeCode x) (d_outside d) \<and> rebate_passes s x (d_world d)"

text \<open>The rebate of the order changes the rest of the database and the audit log only.\<close>

lemma audits_twice: "\<exists>as. d\<lparr>d_audits := bs, d_world := w\<rparr> = d\<lparr>d_world := w, d_audits := as\<rparr>"
  by (rule exI [of _ bs]) simp

lemma quiet_rebate_body:
  assumes "fst (accrue (o_UserID x) (o_Amount x) (o_ID x) (d_world d)) = Inr r" "\<not> affiliate_claimed (o_ID x) d"
  shows "\<exists>w as. run_state (rebate_body accrue x) (alone d) = (Inr (), alone (d\<lparr>d_world := w, d_audits := as\<rparr>))"
proof -
  obtain w where w: "accrue (o_UserID x) (o_Amount x) (o_ID x) (d_world d) = (Inr r, w)"
    using assms(1) by (cases "accrue (o_UserID x) (o_Amount x) (o_ID x) (d_world d)") simp
  let ?d = "(add_audit (o_ID x) ''AFFILIATE_REBATE_APPLIED'' ''system'' d)\<lparr>d_world := w\<rparr>"
  have claim: "run_state (tryClaimAffiliateRebateAudit (o_ID x)) (alone d) =
      (Inr True, alone (add_audit (o_ID x) ''AFFILIATE_REBATE_APPLIED'' ''system'' d))"
    using assms(2) by (simp add: tryClaimAffiliateRebateAudit_def quiet_stmt)
  have acc: "run_state (world (accrue (o_UserID x) (o_Amount x) (o_ID x))) (alone (add_audit (o_ID x) a b d)) =
      (Inr r, alone ((add_audit (o_ID x) a b d)\<lparr>d_world := w\<rparr>))" for a b
    by (simp add: world_def quiet_stmt add_audit_def w)
  have "\<exists>as. run_state (updateClaimedAffiliateRebateAudit (o_ID x) action) (alone ?d) = (Inr (), alone (d\<lparr>d_world := w, d_audits := as\<rparr>))"
    for action
    by (auto simp: updateClaimedAffiliateRebateAudit_def quiet_stmt Let_def add_audit_def)
  then obtain f where f: "\<And>action. run_state (updateClaimedAffiliateRebateAudit (o_ID x) action) (alone ?d) =
      (Inr (), alone (d\<lparr>d_world := w, d_audits := f action\<rparr>))"
    by metis
  have "run_state (rebate_body accrue x) (alone d) =
      (Inr (), alone (d\<lparr>d_world := w, d_audits := f (if f_le r (Finite 0) then ''AFFILIATE_REBATE_SKIPPED'' else ''AFFILIATE_REBATE_APPLIED'')\<rparr>))"
    by (simp add: rebate_body_def claim acc f)
  then show ?thesis by blast
qed

lemma quiet_rebate:
  assumes "rebate_passes s x (d_world d)"
  shows "\<exists>w as. run_state (applyAffiliateRebateForOrder s x) (alone d) = (Inr (), alone (d\<lparr>d_world := w, d_audits := as\<rparr>))"
proof -
  have same: "d = d\<lparr>d_world := d_world d, d_audits := d_audits d\<rparr>" by simp
  show ?thesis
  proof (cases "o_OrderType x \<noteq> OrderTypeBalance \<or> f_le (o_Amount x) (Finite 0) \<or> ps_accrue s = None")
    case True
    then have "run_state (applyAffiliateRebateForOrder s x) (alone d) = (Inr (), alone d)"
      by (auto simp: applyAffiliateRebateForOrder_def)
    then show ?thesis using same by metis
  next
    case False
    then obtain accrue where accrue: "ps_accrue s = Some accrue" by auto
    obtain r where r: "fst (accrue (o_UserID x) (o_Amount x) (o_ID x) (d_world d)) = Inr r"
      using assms by (auto simp: rebate_passes_def accrue split: sum.splits)
    show ?thesis
    proof (cases "affiliate_claimed (o_ID x) d")
      case True
      have "run_state (rebate_body accrue x) (alone d) = (Inl None, alone d)"
        using True by (simp add: rebate_body_def tryClaimAffiliateRebateAudit_def quiet_stmt)
      then have "run_state (applyAffiliateRebateForOrder s x) (alone d) = (Inr (), alone (rollback d d))"
        using False by (simp add: applyAffiliateRebateForOrder_def accrue quiet_transaction)
      moreover have "rollback d d = d" by (simp add: rollback_def)
      ultimately show ?thesis using same by metis
    next
      case not_claimed: False
      then obtain w as where "run_state (rebate_body accrue x) (alone d) = (Inr (), alone (d\<lparr>d_world := w, d_audits := as\<rparr>))"
        using quiet_rebate_body [of accrue x d r] r by blast
      then have "run_state (applyAffiliateRebateForOrder s x) (alone d) = (Inr (), alone (d\<lparr>d_world := w, d_audits := as\<rparr>))"
        using False by (simp add: applyAffiliateRebateForOrder_def accrue quiet_transaction)
      then show ?thesis by blast
    qed
  qed
qed

lemma quiet_CreateCode:
  assumes "good_code (o_RechargeCode x)" "code_of (o_RechargeCode x) d = None" "o_Amount x \<noteq> Finite 0"
  shows "run_state (CreateCode s (recharge_code x)) (alone d) =
    (Inr ((recharge_code x)\<lparr>rc_ID := d_code_seq d + 1\<rparr>), alone (with_code (rs_numeric s) x d))"
proof -
  have "\<not> list_ex (\<lambda>r. rc_Code r = o_RechargeCode x) (d_codes d)"
    using assms(2) by (auto simp: code_of_def find_None_iff list_ex_iff)
  then show ?thesis
    using assms(1,3)
    by (simp add: CreateCode_def recharge_code_def redeem_Create_def quiet good_code_def IsExpiredAt_def
        with_code_def order_code_def Let_def RedeemTypeBalance_def RedeemTypeInvitation_def
        code_status_defs)
qed

lemma code_of_with: "code_of (o_RechargeCode x) d = None \<Longrightarrow> code_of (o_RechargeCode x) (with_code num x d) = Some (order_code num x d)"
  by (simp add: code_of_def with_code_def find_append order_code_def recharge_code_def)

text \<open>Orders, users and codes after the credit; the rest of the database, the outside and the audit log vary.\<close>

definition fulfilled :: "numeric \<Rightarrow> PaymentOrder \<Rightarrow> User \<Rightarrow> ('w, 'g) pay_db \<Rightarrow> ('w, 'g) pay_db" where
  "fulfilled num x u d =
     set_orders (in_status (o_ID x) [OrderStatusRecharging])
       (\<lambda>y. (set_status OrderStatusCompleted y)\<lparr>o_CompletedAt := Some (d_clock d)\<rparr>)
       (paid_codes num u (order_code num x d) (with_code num x d))"

abbreviation around_credit :: "'w \<Rightarrow> 'g \<Rightarrow> PaymentAuditLog list \<Rightarrow> ('w, 'g) pay_db \<Rightarrow> ('w, 'g) pay_db" where
  "around_credit w g as d \<equiv> d\<lparr>d_world := w, d_outside := g, d_audits := as\<rparr>"

lemma around_credit_frame [simp]:
  "order_of i (around_credit w g as d) = order_of i d" "user_of i (around_credit w g as d) = user_of i d"
  "code_used k (around_credit w g as d) = code_used k d"
  "set_orders p f (around_credit w g as d) = around_credit w g as (set_orders p f d)"
  by (simp_all add: order_of_def user_of_def code_used_def set_orders_def)

lemma paid_codes_frame [simp]:
  "d_orders (paid_codes num u r d) = d_orders d" "d_clock (paid_codes num u r d) = d_clock d"
  "order_of i (paid_codes num u r d) = order_of i d" "d_world (paid_codes num u r d) = d_world d"
  by (simp_all add: paid_codes_def use_code_def order_of_def set_users_def)

lemma with_code_frame [simp]:
  "d_orders (with_code num x d) = d_orders d" "d_clock (with_code num x d) = d_clock d"
  "order_of i (with_code num x d) = order_of i d" "user_of i (with_code num x d) = user_of i d"
  "d_world (with_code num x d) = d_world d" "d_outside (with_code num x d) = d_outside d"
  by (simp_all add: with_code_def order_of_def user_of_def)

lemma quiet_markCompleted:
  "run_state (markCompleted x action) (alone d) =
     (Inr (), alone (log_audit (o_ID x) action ''system''
        (set_orders (in_status (o_ID x) [OrderStatusRecharging])
           (\<lambda>y. (set_status OrderStatusCompleted y)\<lparr>o_CompletedAt := Some (d_clock d)\<rparr>) d)))"
  by (simp add: markCompleted_def quiet)

lemma quiet_doBalance:
  assumes "credit_passes s x d" "good_code (o_RechargeCode x)" "code_of (o_RechargeCode x) d = None"
    "o_Amount x \<noteq> Finite 0" "user_of (o_UserID x) d = Some u"
  shows "\<exists>w g as. run_state (doBalance s x) (alone d) =
    (Inr (), alone (around_credit w g as (fulfilled (rs_numeric (ps_redeem s)) x u d)))"
proof -
  let ?num = "rs_numeric (ps_redeem s)"
  let ?paid = "paid_codes ?num u (order_code ?num x d) (with_code ?num x d)"
  have r: "CanUse t (order_code ?num x d)" "rc_Type (order_code ?num x d) = RedeemTypeBalance" for t
    by (simp_all add: order_code_def recharge_code_def CanUse_def IsExpiredAt_def code_status_defs)
  obtain q g where redeem: "run_state (Redeem (ps_redeem s) True (o_UserID x) (o_RechargeCode x)) (alone (with_code ?num x d))
      = (Inr q, alone (?paid\<lparr>d_outside := g\<rparr>))"
    using quiet_Redeem [of "ps_redeem s" "o_UserID x" "o_RechargeCode x" "with_code ?num x d" "order_code ?num x d"
        u True] assms code_of_with [OF assms(3)] r by (auto simp: credit_passes_def)
  obtain w as where rebate: "run_state (applyAffiliateRebateForOrder s x) (alone (?paid\<lparr>d_outside := g\<rparr>)) =
      (Inr (), alone (?paid\<lparr>d_outside := g, d_world := w, d_audits := as\<rparr>))"
    using quiet_rebate [of s x "?paid\<lparr>d_outside := g\<rparr>"] assms(1) by (auto simp: credit_passes_def)
  have order: "?paid\<lparr>d_outside := g, d_world := w, d_audits := as\<rparr> = around_credit w g as ?paid" by simp
  have completed: "run_state (markCompleted x action) (alone (around_credit w g as ?paid)) =
      (Inr (), alone (log_audit (o_ID x) action ''system'' (around_credit w g as (fulfilled ?num x u d))))" for action
    by (simp add: quiet_markCompleted fulfilled_def)
  obtain bs where "log_audit (o_ID x) ''RECHARGE_SUCCESS'' ''system'' (around_credit w g as (fulfilled ?num x u d)) =
      around_credit w g bs (fulfilled ?num x u d)"
    using log_audit_ex [of "o_ID x" "''RECHARGE_SUCCESS''" "''system''" "around_credit w g as (fulfilled ?num x u d)"] by auto
  then have "run_state (doBalance s x) (alone d) = (Inr (), alone (around_credit w g bs (fulfilled ?num x u d)))"
    using assms redeem rebate [unfolded order] completed
    by (simp add: doBalance_def GetByCode_def quiet resolveRedeemAction_def quiet_CreateCode
        redeem_balance_def complete_balance_def)
  then show ?thesis by blast
qed

text \<open>The store when the payment of an order has been recorded, and when the order is locked.\<close>

definition recorded :: "numeric \<Rightarrow> PaymentOrder \<Rightarrow> float64 \<Rightarrow> go_string \<Rightarrow> go_string \<Rightarrow> ('w, 'g) pay_db \<Rightarrow> ('w, 'g) pay_db" where
  "recorded num x paid tn pk d =
     (let d1 = set_orders (payable (o_ID x) (d_clock d - paymentGraceMinutes * minute))
                 (set_paid num paid tn (d_clock d)) d
      in log_audit (o_ID x) ''ORDER_PAID'' pk
           (if o_Status x = OrderStatusCancelled \<or> o_Status x = OrderStatusExpired
            then log_audit (o_ID x) ''ORDER_RECOVERED'' pk d1 else d1))"

lemma set_order_ids [simp]:
  "o_ID (set_paid num paid tn now x) = o_ID x" "o_ID (set_status st x) = o_ID x"
  "o_UserID (set_paid num paid tn now x) = o_UserID x" "o_UserID (set_status st x) = o_UserID x"
  "o_RechargeCode (set_paid num paid tn now x) = o_RechargeCode x" "o_RechargeCode (set_status st x) = o_RechargeCode x"
  "o_Amount (set_paid num paid tn now x) = o_Amount x" "o_Amount (set_status st x) = o_Amount x"
  "o_OrderType (set_paid num paid tn now x) = o_OrderType x" "o_OrderType (set_status st x) = o_OrderType x"
  "o_Status (set_paid num paid tn now x) = OrderStatusPaid" "o_Status (set_status st x) = st"
  by (simp_all add: set_paid_def set_status_def)

lemma touch_order [simp]:
  "o_ID (touch t x) = o_ID x" "o_UserID (touch t x) = o_UserID x" "o_RechargeCode (touch t x) = o_RechargeCode x"
  "o_Amount (touch t x) = o_Amount x" "o_OrderType (touch t x) = o_OrderType x"
  by (simp_all add: touch_def)

lemma recorded_frame [simp]:
  "d_clock (recorded num x paid tn pk d) = d_clock d" "user_of i (recorded num x paid tn pk d) = user_of i d"
  "code_of k (recorded num x paid tn pk d) = code_of k d"
  "d_world (recorded num x paid tn pk d) = d_world d" "d_outside (recorded num x paid tn pk d) = d_outside d"
  "distinct (map o_ID (d_orders (recorded num x paid tn pk d))) = distinct (map o_ID (d_orders d))"
proof -
  have ids: "map o_ID (d_orders (set_orders p (set_paid num paid tn t) d)) = map o_ID (d_orders d)" for p t
    by (simp add: set_orders_def)
  show "d_clock (recorded num x paid tn pk d) = d_clock d" "user_of i (recorded num x paid tn pk d) = user_of i d"
    "code_of k (recorded num x paid tn pk d) = code_of k d"
    "d_world (recorded num x paid tn pk d) = d_world d" "d_outside (recorded num x paid tn pk d) = d_outside d"
    "distinct (map o_ID (d_orders (recorded num x paid tn pk d))) = distinct (map o_ID (d_orders d))"
    by (simp_all add: recorded_def Let_def ids)
qed

lemma recorded_order:
  assumes "order_of (o_ID x) d = Some x" "payable (o_ID x) (d_clock d - paymentGraceMinutes * minute) x"
  shows "order_of (o_ID x) (recorded num x paid tn pk d) = Some (touch (d_clock d) (set_paid num paid tn (d_clock d) x))"
  using assms by (simp add: recorded_def Let_def order_of_set)

lemma quiet_toPaid:
  assumes "distinct (map o_ID (d_orders d))" "order_of (o_ID x) d = Some x"
    "payable (o_ID x) (d_clock d - paymentGraceMinutes * minute) x"
  shows "run_state (toPaid s x tn paid pk) (alone d) =
    run_state (executeFulfillment s (o_ID x)) (alone (recorded (rs_numeric (ps_redeem s)) x paid tn pk d))"
proof -
  let ?p = "payable (o_ID x) (d_clock d - paymentGraceMinutes * minute)"
  have "x \<in> set (filter ?p (d_orders d))" using assms(3) order_of_Some [OF assms(2)] by simp
  then have "filter ?p (d_orders d) \<noteq> []" by (metis empty_iff empty_set)
  then show ?thesis
    by (auto simp: toPaid_def quiet recorded_def Let_def)
qed

definition lock_order :: "int \<Rightarrow> ('w, 'g) pay_db \<Rightarrow> ('w, 'g) pay_db" where
  "lock_order i d = set_orders (in_status i [OrderStatusPaid, OrderStatusFailed]) (set_status OrderStatusRecharging) d"

lemma lock_order_frame [simp]:
  "d_clock (lock_order i d) = d_clock d" "d_world (lock_order i d) = d_world d" "d_outside (lock_order i d) = d_outside d"
  "user_of j (lock_order i d) = user_of j d" "code_of k (lock_order i d) = code_of k d"
  by (simp_all add: lock_order_def)

text \<open>A paid or failed balance order whose code does not exist yet.\<close>

lemma quiet_executeFulfillment:
  assumes "order_of (o_ID x) d = Some x" "o_Status x \<in> {OrderStatusPaid, OrderStatusFailed}"
    "o_OrderType x \<noteq> OrderTypeSubscription" "credit_passes s x d" "good_code (o_RechargeCode x)"
    "code_of (o_RechargeCode x) d = None" "o_Amount x \<noteq> Finite 0" "user_of (o_UserID x) d = Some u"
  shows "\<exists>w g as. run_state (executeFulfillment s (o_ID x)) (alone d) =
    (Inr (), alone (around_credit w g as (fulfilled (rs_numeric (ps_redeem s)) x u (lock_order (o_ID x) d))))"
proof -
  have "x \<in> set (filter (in_status (o_ID x) [OrderStatusPaid, OrderStatusFailed]) (d_orders d))"
    using assms(2) order_of_Some [OF assms(1)] by (auto simp: in_status_def)
  then have some: "filter (in_status (o_ID x) [OrderStatusPaid, OrderStatusFailed]) (d_orders d) \<noteq> []"
    by (metis empty_iff empty_set)
  have ready: "fulfillable x = Inr True"
    using assms(2) by (auto simp: fulfillable_def)
  have "credit_passes s x (lock_order (o_ID x) d)" using assms(4) by (simp add: credit_passes_def)
  then obtain w g as where "run_state (doBalance s x) (alone (lock_order (o_ID x) d)) =
      (Inr (), alone (around_credit w g as (fulfilled (rs_numeric (ps_redeem s)) x u (lock_order (o_ID x) d))))"
    using quiet_doBalance [of s x "lock_order (o_ID x) d" u] assms by auto
  then have "run_state (executeFulfillment s (o_ID x)) (alone d) =
      (Inr (), alone (around_credit w g as (fulfilled (rs_numeric (ps_redeem s)) x u (lock_order (o_ID x) d))))"
    using assms(1,3) some ready
    by (simp add: executeFulfillment_def ExecuteBalanceFulfillment_def quiet lock_and_run_def
        lock_order_def [symmetric])
  then show ?thesis by blast
qed

section \<open>What fulfilment leaves behind\<close>

lemma fulfilled_user:
  assumes "user_of (o_UserID x) d = Some u"
  shows "user_of j (fulfilled num x u d) =
    (if j = o_UserID x then Some (credit num (floor_balance num u (stored num 8 (o_Amount x))) u) else user_of j d)"
proof -
  have u: "u_ID u = o_UserID x" using user_of_Some [OF assms] by simp
  have other: "j \<noteq> o_UserID x \<Longrightarrow> user_of j d = Some v \<Longrightarrow> u_ID v \<noteq> o_UserID x" for v
    using user_of_Some [of j d v] by auto
  show ?thesis
    using assms u other
    by (auto simp: fulfilled_def paid_codes_def user_of_set order_code_def split: option.splits)
      (cases "user_of j d"; auto)
qed

lemma fulfilled_order:
  assumes "order_of i d = Some y"
  shows "order_of i (fulfilled num x u d) =
    Some (if in_status (o_ID x) [OrderStatusRecharging] y
          then touch (d_clock d) ((set_status OrderStatusCompleted y)\<lparr>o_CompletedAt := Some (d_clock d)\<rparr>) else y)"
  using assms by (simp add: fulfilled_def order_of_set)

lemma fulfilled_other:
  assumes "j \<noteq> o_ID x"
  shows "order_of j (fulfilled num x u d) = order_of j d"
proof (cases "order_of j d")
  case (Some y)
  with order_of_Some [OF Some] assms show ?thesis
    by (simp add: fulfilled_order in_status_def)
qed (simp add: fulfilled_def order_of_set)

lemma fulfilled_code: "code_used (o_RechargeCode x) (fulfilled num x u d)"
proof -
  let ?r = "order_code num x d"
  have "?r \<in> set (d_codes (with_code num x d))" by (simp add: with_code_def)
  moreover have "rc_Status ?r = StatusUnused" "rc_Code ?r = o_RechargeCode x"
    by (simp_all add: order_code_def recharge_code_def)
  ultimately have "code_used (o_RechargeCode x) (use_code (rc_ID ?r) (u_ID u) (with_code num x d))"
    using use_code_uses by metis
  then show ?thesis
    by (simp add: fulfilled_def log_audit_def add_audit_def paid_codes_def set_orders_def code_used_def)
qed

section \<open>Payment and credit\<close>

lemma notified:
  assumes "n_Status n = NotificationStatusSuccess" "names (n_OrderID n) d x"
    "notification_check s x (instance_key x d) (n_Amount n) pk (n_Metadata n) = None"
    "payable (o_ID x) (d_clock d - paymentGraceMinutes * minute) x" "o_OrderType x \<noteq> OrderTypeSubscription"
    "credit_passes s x d" "good_code (o_RechargeCode x)" "code_of (o_RechargeCode x) d = None"
    "o_Amount x \<noteq> Finite 0" "user_of (o_UserID x) d = Some u"
    "\<not> f_less (stored (rs_numeric (ps_redeem s)) 8 (o_Amount x)) (Finite 0)"
  shows "\<exists>d' y v. run_state (HandlePaymentNotification s n pk) (alone d) = (Inr (), alone d')
    \<and> order_of (o_ID x) d' = Some y \<and> o_Status y = OrderStatusCompleted \<and> o_PaidAt y = Some (d_clock d)
    \<and> o_CompletedAt y = Some (d_clock d) \<and> o_PayAmount y = stored (rs_numeric (ps_redeem s)) 2 (n_Amount n)
    \<and> o_PaymentTradeNo y = n_TradeNo n
    \<and> user_of (o_UserID x) d' = Some v
    \<and> u_Balance v = u_Balance u
        + to_column (rs_numeric (ps_redeem s)) 8 (stored (rs_numeric (ps_redeem s)) 8 (o_Amount x))
    \<and> (\<forall>j. j \<noteq> o_UserID x \<longrightarrow> user_of j d' = user_of j d) \<and> (\<forall>j. j \<noteq> o_ID x \<longrightarrow> order_of j d' = order_of j d)
    \<and> code_used (o_RechargeCode x) d'"
proof -
  let ?num = "rs_numeric (ps_redeem s)" and ?t = "d_clock d"
  let ?x = "touch ?t (set_paid ?num (n_Amount n) (n_TradeNo n) ?t x)"
  let ?d1 = "recorded ?num x (n_Amount n) (n_TradeNo n) pk d"
  let ?d2 = "lock_order (o_ID x) ?d1"
  let ?f = "fulfilled ?num ?x u ?d2"
  note here = names_order [OF assms(2)]
  have ids: "distinct (map o_ID (d_orders d))" using assms(2) by (simp add: names_def)
  note paid = recorded_order [OF here assms(4), of ?num "n_Amount n" "n_TradeNo n" pk]
  have status: "o_Status ?x = OrderStatusPaid" by simp
  have start: "run_state (HandlePaymentNotification s n pk) (alone d) = run_state (executeFulfillment s (o_ID ?x)) (alone ?d1)"
    by (simp add: quiet_notification [OF assms(1,2)] assms(3) quiet_toPaid [OF ids here assms(4)])
  have pass: "credit_passes s ?x ?d1"
    using assms(6) rebate_passes_same [of ?x x s "d_world d"] by (simp add: credit_passes_def)
  obtain w g as where "run_state (executeFulfillment s (o_ID ?x)) (alone ?d1) = (Inr (), alone (around_credit w g as ?f))"
    using quiet_executeFulfillment [of ?x ?d1 s u] pass assms paid status by auto
  then have run: "run_state (HandlePaymentNotification s n pk) (alone d) = (Inr (), alone (around_credit w g as ?f))"
    using start by simp
  let ?y = "touch ?t (set_status OrderStatusRecharging ?x)"
  have locked: "order_of (o_ID x) ?d2 = Some ?y"
    using paid by (simp add: lock_order_def order_of_set in_status_def)
  have other: "order_of j ?d2 = order_of j d" if "j \<noteq> o_ID x" for j
    using that order_of_Some [of j d]
    by (cases "order_of j d") (auto simp: lock_order_def recorded_def Let_def order_of_set payable_def in_status_def)
  have final: "order_of (o_ID x) (around_credit w g as ?f) = Some (touch ?t ((set_status OrderStatusCompleted ?y)\<lparr>o_CompletedAt := Some ?t\<rparr>))"
    using fulfilled_order [OF locked, of ?num ?x u] by (simp add: in_status_def)
  show ?thesis
    by (intro exI [of _ "around_credit w g as ?f"] exI conjI, rule run, rule final)
      (use fulfilled_user [of ?x ?d2 u _ ?num] fulfilled_other [of _ ?x ?num u ?d2] other
        fulfilled_code [of ?x ?num u ?d2] assms(10,11)
       in \<open>auto simp: floor_balance_def Let_def set_paid_def set_status_def touch_def\<close>)
qed

section \<open>Asking the gateway\<close>

text \<open>Its trade number and its time of change do not matter to the checks of an order.\<close>

lemma traded_simps [simp]:
  "notification_check s (touch t (set_trade_no n x)) k a pk md = notification_check s x k a pk md"
  "instance_key (touch t (set_trade_no n x)) d = instance_key x d"
  "o_Status (touch t (set_trade_no n x)) = o_Status x" "o_Amount (set_trade_no n x) = o_Amount x"
  "o_Status (set_trade_no n x) = o_Status x"
  "o_ID (set_trade_no n x) = o_ID x" "o_UserID (set_trade_no n x) = o_UserID x"
  "o_RechargeCode (set_trade_no n x) = o_RechargeCode x" "o_OrderType (set_trade_no n x) = o_OrderType x"
proof -
  let ?y = "touch t (set_trade_no n x)"
  have snap: "psOrderProviderSnapshot ?y = psOrderProviderSnapshot x"
    by (simp add: psOrderProviderSnapshot_def touch_def set_trade_no_def)
  have sel: "o_PaymentType ?y = o_PaymentType x" "o_ProviderKey ?y = o_ProviderKey x"
    "o_ProviderInstanceID ?y = o_ProviderInstanceID x" "o_PayAmount ?y = o_PayAmount x" "o_ID ?y = o_ID x"
    by (simp_all add: touch_def set_trade_no_def)
  show "notification_check s ?y k a pk md = notification_check s x k a pk md"
    unfolding notification_check_def expectedNotificationProviderKeyForOrder_def
      validateProviderSnapshotMetadata_def PaymentOrderCurrency_def snap sel by (rule refl)
  show "instance_key ?y d = instance_key x d"
    unfolding instance_key_def resolved_def getOrderProviderInstance_def resolveSnapshotOrderProviderInstance_def
      resolveUniqueLegacyOrderProviderInstance_def order_error_def snap sel by (rule refl)
qed (simp_all add: touch_def set_trade_no_def)

lemma instance_key_cong: "d_instances d' = d_instances d \<Longrightarrow> instance_key x d' = instance_key x d"
  by (simp add: instance_key_def resolved_def getOrderProviderInstance_def Let_def quiet
      resolveSnapshotOrderProviderInstance_def resolveUniqueLegacyOrderProviderInstance_def split: option.splits)

definition traded :: "go_string \<Rightarrow> PaymentOrder \<Rightarrow> ('w, 'g) pay_db \<Rightarrow> ('w, 'g) pay_db" where
  "traded n x d = set_orders (\<lambda>y. o_ID y = o_ID x) (set_trade_no n) d"

lemma traded_frame [simp]:
  "d_clock (traded n x d) = d_clock d" "user_of j (traded n x d) = user_of j d" "code_of k (traded n x d) = code_of k d"
  "d_instances (traded n x d) = d_instances d" "d_world (traded n x d) = d_world d" "d_outside (traded n x d) = d_outside d"
  by (simp_all add: traded_def)

lemma traded_other: "j \<noteq> o_ID x \<Longrightarrow> order_of j (traded n x d) = order_of j d"
  using order_of_Some [of j d] by (cases "order_of j d") (auto simp: traded_def order_of_set)

lemma traded_names:
  assumes "names k d x"
  shows "names k (traded n x d) (touch (d_clock d) (set_trade_no n x))"
proof -
  let ?f = "\<lambda>y. if o_ID y = o_ID x then touch (d_clock d) (set_trade_no n y) else y"
  have keys: "o_ID (?f y) = o_ID y" "o_OutTradeNo (?f y) = o_OutTradeNo y" for y
    by (simp_all add: touch_def set_trade_no_def)
  have "d_orders (traded n x d) = map ?f (d_orders d)" by (simp add: traded_def set_orders_def)
  then show ?thesis
    using assms by (simp add: names_def filter_map comp_def keys)
qed

lemma outside_frame [simp]:
  "order_of i (d\<lparr>d_outside := g\<rparr>) = order_of i d" "user_of i (d\<lparr>d_outside := g\<rparr>) = user_of i d"
  "code_of k (d\<lparr>d_outside := g\<rparr>) = code_of k d" "names n (d\<lparr>d_outside := g\<rparr>) = names n d"
  "instance_key x (d\<lparr>d_outside := g\<rparr>) = instance_key x d"
  by (simp_all add: order_of_def user_of_def code_of_def names_def fun_eq_iff) (rule instance_key_cong, simp)

text \<open>What every completed payment leaves: the order and its user, the others untouched.\<close>

definition completed_for ::
    "numeric \<Rightarrow> PaymentOrder \<Rightarrow> User \<Rightarrow> ('w, 'g) pay_db \<Rightarrow> ('w, 'g) pay_db \<Rightarrow> bool" where
  "completed_for num x u d d' \<longleftrightarrow>
     (\<exists>y. order_of (o_ID x) d' = Some y \<and> o_Status y = OrderStatusCompleted)
     \<and> (\<exists>v. user_of (o_UserID x) d' = Some v \<and> u_Balance v = u_Balance u + to_column num 8 (stored num 8 (o_Amount x)))
     \<and> (\<forall>j. j \<noteq> o_UserID x \<longrightarrow> user_of j d' = user_of j d) \<and> (\<forall>j. j \<noteq> o_ID x \<longrightarrow> order_of j d' = order_of j d)"

text \<open>A balance order that is ready to be credited.\<close>

definition creditable :: "('w, 'g) PaymentService \<Rightarrow> PaymentOrder \<Rightarrow> User \<Rightarrow> ('w, 'g) pay_db \<Rightarrow> bool" where
  "creditable s x u d \<longleftrightarrow>
     o_OrderType x \<noteq> OrderTypeSubscription \<and> credit_passes s x d \<and> good_code (o_RechargeCode x)
     \<and> code_of (o_RechargeCode x) d = None \<and> o_Amount x \<noteq> Finite 0 \<and> user_of (o_UserID x) d = Some u
     \<and> \<not> f_less (stored (rs_numeric (ps_redeem s)) 8 (o_Amount x)) (Finite 0)"

lemma notified_completes:
  assumes "n_Status n = NotificationStatusSuccess" "names (n_OrderID n) d x"
    "notification_check s x (instance_key x d) (n_Amount n) pk (n_Metadata n) = None"
    "payable (o_ID x) (d_clock d - paymentGraceMinutes * minute) x" "creditable s x u d"
  shows "\<exists>d'. run_state (HandlePaymentNotification s n pk) (alone d) = (Inr (), alone d')
    \<and> completed_for (rs_numeric (ps_redeem s)) x u d d'"
proof -
  have c: "o_OrderType x \<noteq> OrderTypeSubscription" "credit_passes s x d" "good_code (o_RechargeCode x)"
    "code_of (o_RechargeCode x) d = None" "o_Amount x \<noteq> Finite 0" "user_of (o_UserID x) d = Some u"
    "\<not> f_less (stored (rs_numeric (ps_redeem s)) 8 (o_Amount x)) (Finite 0)"
    using assms(5) by (simp_all add: creditable_def)
  show ?thesis
    using notified [OF assms(1-4) c] unfolding completed_for_def by meson
qed

definition persists :: "go_string \<Rightarrow> QueryOrderResponse \<Rightarrow> PaymentOrder \<Rightarrow> bool" where
  "persists ref resp x \<longleftrightarrow>
     paymentOrderShouldPersistUpstreamTradeNo ref (TrimSpace (q_TradeNo resp)) (o_PaymentTradeNo x)"

lemma quiet_upstream_paid:
  assumes "names (o_OutTradeNo x) d x"
    "notification_check s x (instance_key x d) (q_Amount resp) (prov_ProviderKey prov) (q_Metadata resp) = None"
    "creditable s x u d"
    "payable (o_ID x) (d_clock d - paymentGraceMinutes * minute) x
     \<or> persists ref resp x \<and> o_Status x = OrderStatusExpired"
  shows "\<exists>d'. run_state (upstream_paid s x prov ref resp) (alone d) = (AlreadyPaid, alone d')
    \<and> completed_for (rs_numeric (ps_redeem s)) x u d d'"
proof (cases "persists ref resp x")
  case True
  let ?t = "TrimSpace (q_TradeNo resp)"
  let ?n = "\<lparr>n_TradeNo = ?t, n_OrderID = o_OutTradeNo x, n_Amount = q_Amount resp,
      n_Status = ProviderStatusSuccess, n_Metadata = q_Metadata resp\<rparr>"
  let ?d = "traded ?t x d" and ?x = "touch (d_clock d) (set_trade_no ?t x)"
  have upd: "run_state (order_Update (\<lambda>y. o_ID y = o_ID x) (set_trade_no ?t)) (alone d) =
      (Inr (length (filter (\<lambda>y. o_ID y = o_ID x) (d_orders d))), alone ?d)"
    by (simp add: quiet traded_def)
  have "\<exists>d'. run_state (HandlePaymentNotification s ?n (prov_ProviderKey prov)) (alone ?d) = (Inr (), alone d')
      \<and> completed_for (rs_numeric (ps_redeem s)) ?x u ?d d'"
  proof (rule notified_completes)
    show "names (n_OrderID ?n) ?d ?x" using traded_names [OF assms(1)] by simp
    show "notification_check s ?x (instance_key ?x ?d) (n_Amount ?n) (prov_ProviderKey prov) (n_Metadata ?n) = None"
      using assms(2) by (simp add: instance_key_cong [of ?d d])
    show "payable (o_ID ?x) (d_clock ?d - paymentGraceMinutes * minute) ?x"
      using assms(4) by (auto simp: payable_def touch_def paymentGraceMinutes_def minute_def)
    show "creditable s ?x u ?d" using assms(3) rebate_passes_same [of ?x x s "d_world d"] by (simp add: creditable_def credit_passes_def)
  qed (simp add: NotificationStatusSuccess_def ProviderStatusSuccess_def)
  then obtain d' where "run_state (HandlePaymentNotification s ?n (prov_ProviderKey prov)) (alone ?d) = (Inr (), alone d')"
    "completed_for (rs_numeric (ps_redeem s)) ?x u ?d d'" by blast
  then show ?thesis
    using True upd by (auto simp: upstream_paid_def persists_def Let_def completed_for_def traded_other)
next
  case False
  let ?n = "\<lparr>n_TradeNo = o_PaymentTradeNo x, n_OrderID = o_OutTradeNo x, n_Amount = q_Amount resp,
      n_Status = ProviderStatusSuccess, n_Metadata = q_Metadata resp\<rparr>"
  have "\<exists>d'. run_state (HandlePaymentNotification s ?n (prov_ProviderKey prov)) (alone d) = (Inr (), alone d')
      \<and> completed_for (rs_numeric (ps_redeem s)) x u d d'"
    by (rule notified_completes) (use assms False in \<open>auto simp: NotificationStatusSuccess_def ProviderStatusSuccess_def\<close>)
  then show ?thesis
    using False by (auto simp: upstream_paid_def persists_def Let_def)
qed

lemma quiet_getOrderProvider:
  "snd (run_state (getOrderProvider s x) (alone d)) = alone d"
  by (auto simp: getOrderProvider_def webhookRegistryFallbackAllowed_def Let_def quiet split: sum.splits option.splits)

definition provider_for :: "('w, 'g) PaymentService \<Rightarrow> PaymentOrder \<Rightarrow> ('w, 'g) pay_db \<Rightarrow> 'g Provider outcome" where
  "provider_for s x d = fst (run_state (getOrderProvider s x) (alone d))"

lemma quiet_provider [quiet]: "run_state (getOrderProvider s x) (alone d) = (provider_for s x d, alone d)"
  using quiet_getOrderProvider [of s x d] unfolding provider_for_def by (metis prod.collapse)

text \<open>The gateway of an order answers that it was paid.\<close>

definition gateway_paid ::
    "('w, 'g) PaymentService \<Rightarrow> PaymentOrder \<Rightarrow> ('w, 'g) pay_db \<Rightarrow> 'g Provider \<Rightarrow> QueryOrderResponse \<Rightarrow> bool" where
  "gateway_paid s x d prov resp \<longleftrightarrow>
     provider_for s x d = Inr prov \<and> paymentOrderQueryReference x prov \<noteq> []
     \<and> fst (prov_QueryOrder prov (paymentOrderQueryReference x prov) (d_outside d)) = Inr resp
     \<and> q_Status resp = ProviderStatusPaid \<and> isValidProviderAmount (q_Amount resp)
     \<and> notification_check s x (instance_key x d) (q_Amount resp) (prov_ProviderKey prov) (q_Metadata resp) = None"

text \<open>The store when the gateway has answered.\<close>

definition asked :: "'g Provider \<Rightarrow> PaymentOrder \<Rightarrow> ('w, 'g) pay_db \<Rightarrow> ('w, 'g) pay_db" where
  "asked prov x d = d\<lparr>d_outside := snd (prov_QueryOrder prov (paymentOrderQueryReference x prov) (d_outside d))\<rparr>"

lemma quiet_checkPaid:
  assumes "names (o_OutTradeNo x) d x" "gateway_paid s x d prov resp" "creditable s x u (asked prov x d)"
    "payable (o_ID x) (d_clock d - paymentGraceMinutes * minute) x
     \<or> persists (paymentOrderQueryReference x prov) resp x \<and> o_Status x = OrderStatusExpired"
  shows "\<exists>d'. run_state (checkPaidWithOptions s x b) (alone d) = (AlreadyPaid, alone d')
    \<and> completed_for (rs_numeric (ps_redeem s)) x u d d'"
proof -
  let ?ref = "paymentOrderQueryReference x prov"
  let ?d = "d\<lparr>d_outside := snd (prov_QueryOrder prov ?ref (d_outside d))\<rparr>"
  have "\<exists>d'. run_state (upstream_paid s x prov ?ref resp) (alone ?d) = (AlreadyPaid, alone d')
      \<and> completed_for (rs_numeric (ps_redeem s)) x u ?d d'"
    by (rule quiet_upstream_paid) (use assms in \<open>auto simp: gateway_paid_def asked_def\<close>)
  then show ?thesis
    using assms(2) by (auto simp: checkPaidWithOptions_def gateway_paid_def quiet Let_def completed_for_def)
qed

end
