(* ===== verification/PayDemo.thy ===== *)
theory PayDemo
  imports PayQuiet
begin

text \<open>
  A small service and database: the concrete inputs the properties of the payment service are applied
  to, with what their definitions evaluate to.
\<close>

section \<open>A small database\<close>

definition demo_numeric :: numeric where
  "demo_numeric =
     \<lparr>to_column = (\<lambda>s x. case x of Finite q \<Rightarrow> \<lfloor>q * 10 ^ s + 1 / 2\<rfloor> | _ \<Rightarrow> 0),
      from_column = (\<lambda>s n. binary64 (of_int n / 10 ^ s))\<rparr>"

text \<open>A cache that counts nothing and gives every lock, and an affiliate service that grants one unit.\<close>

definition demo_cache :: "'g RedeemCache" where
  "demo_cache =
     \<lparr>GetRedeemAttemptCount = (\<lambda>_ g. (Inr 0, g)), IncrementRedeemAttemptCount = (\<lambda>_ g. (Inr (), g)),
      AcquireRedeemLock = (\<lambda>_ g. (Inr True, g)), ReleaseRedeemLock = (\<lambda>_ g. (Inr (), g))\<rparr>"

definition demo_redeem :: "(nat, unit) RedeemService" where
  "demo_redeem =
     \<lparr>rs_numeric = demo_numeric, rs_cache = Some demo_cache,
      rs_grants = \<lparr>AssignOrExtendSubscription = (\<lambda>_ _ days _ w. (Inr (), w + nat days)),
        reduceOrCancelSubscription = (\<lambda>_ _ days _ w. (Inr (), w - nat days)),
        AccrueInviteRebate = (\<lambda>_ _ w. (Inr (Finite 0), w))\<rparr>,
      rs_affiliate = False\<rparr>"

text \<open>The rest of the database is the number of days of the only subscription.\<close>

definition demo_service :: "(nat, unit) PaymentService" where
  "demo_service =
     \<lparr>ps_redeem = demo_redeem, ps_registry = (\<lambda>_. None), ps_createProvider = (\<lambda>_. Inl Unavailable),
      ps_groupActive = (\<lambda>_ w. (Inr True, w)), ps_accrue = Some (\<lambda>_ _ _ w. (Inr (Finite 1), w)),
      ps_subs = \<lparr>sub_Extend = (\<lambda>_ n w. (Inr (), nat (int w + n))), sub_Revoke = (\<lambda>_ _. (Inr (), 0)),
        sub_GetActive = (\<lambda>_ _ w. (Inr (Some 1), w))\<rparr>\<rparr>"

definition demo_order :: PaymentOrder where
  "demo_order =
     \<lparr>o_ID = 1, o_UserID = 7, o_Amount = Finite 10, o_PayAmount = Finite 10, o_RechargeCode = ''PAY-1-5'',
      o_OutTradeNo = ''sub2_a'', o_PaymentType = ''alipay'', o_PaymentTradeNo = [], o_OrderType = OrderTypeBalance,
      o_SubscriptionGroupID = None, o_SubscriptionDays = None, o_ProviderInstanceID = None, o_ProviderKey = None,
      o_ProviderSnapshot = [], o_Status = OrderStatusPending, o_RefundAmount = Finite 0, o_RefundReason = None,
      o_RefundAt = None, o_ForceRefund = False, o_RefundRequestedAt = None, o_RefundRequestReason = None,
      o_RefundRequestedBy = None, o_ExpiresAt = 100, o_PaidAt = None, o_CompletedAt = None, o_FailedAt = None,
      o_FailedReason = None, o_CreatedAt = 0, o_UpdatedAt = 0\<rparr>"

definition demo_user :: User where
  "demo_user = \<lparr>u_ID = 7, u_Balance = 0, u_TotalRecharged = 0, u_Concurrency = 1, u_Status = ''active''\<rparr>"

definition demo_db :: "(nat, unit) pay_db" where
  "demo_db =
     \<lparr>d_orders = [demo_order], d_order_seq = 1, d_audits = [], d_codes = [], d_code_seq = 0, d_users = [demo_user],
      d_instances = [], d_clock = 50, d_world = 0, d_outside = ()\<rparr>"

definition demo_note :: PaymentNotification where
  "demo_note = \<lparr>n_TradeNo = ''t1'', n_OrderID = ''sub2_a'', n_Amount = Finite 10, n_Status = NotificationStatusSuccess,
     n_Metadata = []\<rparr>"

lemma demo_inv: "pay_inv demo_db"
  by (simp add: pay_inv_def demo_db_def settled_used_def demo_order_def)

lemma tolerance_value: "amountToleranceCNY = Finite (5764607523034235 * pow2 (- 59))"
  unfolding amountToleranceCNY_def
  by (subst binary64_near [where e = "- 59" and n = 5764607523034235]) (simp_all add: pow2_def)

text \<open>A machine on which statements fail at the lock and lose the answer of the credit.\<close>

definition demo_machine :: "(nat, unit) pay_db machine" where
  "demo_machine = \<lparr>db = demo_db, sched = [(id, Works), (id, Works), (id, FailsAfter), (id, FailsBefore)]\<rparr>"

definition demo_calls :: "unit pay_call list" where
  "demo_calls = [Notify demo_note ''alipay'', Notify demo_note ''alipay'', Retry 1, Cancel 1 7]"

lemma demo_polite: "pay.polite num b (sched demo_machine)"
  by (simp add: demo_machine_def pay.polite_def)

lemma demo_pay_start: "pay_inv (db demo_machine)" "False \<or> list_all (\<lambda>c. \<not> refunding c) demo_calls"
  by (simp_all add: demo_machine_def demo_inv demo_calls_def)

lemma demo_names: "names (n_OrderID demo_note) demo_db demo_order"
  by (simp add: names_def demo_note_def demo_db_def demo_order_def)

lemma demo_resolved: "instance_key demo_order demo_db = []"
proof -
  have "GetBasePaymentType (TrimSpace ''alipay'') = ''alipay''" by code_simp
  then have "resolved demo_order demo_db = Inr None"
    by (simp add: resolved_def getOrderProviderInstance_def resolveUniqueLegacyOrderProviderInstance_def
        psStringValue_def psOrderProviderSnapshot_def only_instance_def psFilterLegacyOrderProviderInstances_def
        demo_order_def demo_db_def quiet)
  then show ?thesis by (simp add: instance_key_def)
qed

lemma cny_tolerance: "paymentAmountToleranceForCurrency ''CNY'' = amountToleranceCNY"
proof -
  have "CurrencyMinorUnit ''CNY'' = 2" by code_simp
  then show ?thesis by (simp add: paymentAmountToleranceForCurrency_def)
qed

lemma demo_order_sel [simp]:
  "o_ID demo_order = 1" "o_UserID demo_order = 7" "o_Amount demo_order = Finite 10"
  "o_RechargeCode demo_order = ''PAY-1-5''" "o_OrderType demo_order = OrderTypeBalance"
  "o_Status demo_order = OrderStatusPending" "o_UpdatedAt demo_order = 0" "o_PayAmount demo_order = Finite 10"
  by (simp_all add: demo_order_def)

lemma demo_note_sel [simp]:
  "n_TradeNo demo_note = ''t1''" "n_OrderID demo_note = ''sub2_a''" "n_Amount demo_note = Finite 10"
  "n_Status demo_note = NotificationStatusSuccess" "n_Metadata demo_note = []"
  by (simp_all add: demo_note_def)

lemma check_ok:
  "EqualFold (expectedNotificationProviderKeyForOrder s x k) (TrimSpace pk) \<Longrightarrow>
   validateProviderSnapshotMetadata x pk md = Inr () \<Longrightarrow> isValidProviderAmount a \<Longrightarrow>
   \<not> f_less (paymentAmountToleranceForCurrency (PaymentOrderCurrency x)) (f_abs (f_sub a (o_PayAmount x))) \<Longrightarrow>
   notification_check s x k a pk md = None"
  by (simp add: notification_check_def Let_def)

lemma demo_currency: "PaymentOrderCurrency demo_order = ''CNY''"
  by code_simp

lemma demo_check:
  "notification_check demo_service demo_order [] (Finite 10) ''alipay'' [] = None"
proof (rule check_ok)
  have "TrimSpace ''alipay'' = ''alipay''" by code_simp
  then have "expectedNotificationProviderKeyForOrder demo_service demo_order [] = ''alipay''"
    by (simp add: expectedNotificationProviderKeyForOrder_def expectedNotificationProviderKey_def psStringValue_def
        GetProviderKey_def psOrderProviderSnapshot_def demo_service_def demo_order_def)
  then show "EqualFold (expectedNotificationProviderKeyForOrder demo_service demo_order []) (TrimSpace ''alipay'')"
    using \<open>TrimSpace ''alipay'' = ''alipay''\<close> by (simp add: EqualFold_def)
  show "\<not> f_less (paymentAmountToleranceForCurrency (PaymentOrderCurrency demo_order))
      (f_abs (f_sub (Finite 10) (o_PayAmount demo_order)))"
    by (simp add: demo_currency cny_tolerance tolerance_value f_sub_def binary64_def not_less)
qed (simp_all add: validateProviderSnapshotMetadata_def isValidProviderAmount_def IsNaN_def IsInf_def)

lemma demo_passes:
  "credit_passes demo_service x d" "credit_passes (demo_service\<lparr>ps_registry := r\<rparr>) x d"
  "credit_passes (demo_service\<lparr>ps_createProvider := c\<rparr>) x d"
  by (simp_all add: credit_passes_def redeem_passes_def rebate_passes_def demo_service_def demo_redeem_def demo_cache_def
      redeemMaxErrorsPerHour_def)

lemma demo_code: "good_code ''PAY-1-5''" "code_of k demo_db = None"
proof -
  show "good_code ''PAY-1-5''" by code_simp
qed (simp add: code_of_def demo_db_def)

lemma demo_user_of: "user_of 7 demo_db = Some demo_user"
  by (simp add: user_of_def demo_db_def demo_user_def)

lemma demo_column: "to_column demo_numeric 8 (Finite 10) = 1000000000"
  by (simp add: demo_numeric_def floor_eq_iff)

lemma demo_stored: "stored demo_numeric 8 (Finite 10) = Finite 10"
  unfolding stored_def demo_column using binary64_int [of 10] by (simp add: demo_numeric_def)

lemma demo_num: "rs_numeric (ps_redeem demo_service) = demo_numeric"
  by (simp add: demo_service_def demo_redeem_def)

text \<open>The same order in another status, and a gateway that says it was paid.\<close>

definition demo_in :: "OrderStatus \<Rightarrow> PaymentOrder" where
  "demo_in st = demo_order\<lparr>o_Status := st, o_PaidAt := Some 40\<rparr>"

definition demo_db_in :: "OrderStatus \<Rightarrow> int \<Rightarrow> (nat, unit) pay_db" where
  "demo_db_in st t = demo_db\<lparr>d_orders := [demo_in st], d_clock := t\<rparr>"

lemma demo_names_in: "names (n_OrderID demo_note) (demo_db_in st t) (demo_in st)"
  by (simp add: names_def demo_db_in_def demo_in_def demo_order_def)

lemma demo_in_sel [simp]:
  "o_ID (demo_in st) = 1" "o_UserID (demo_in st) = 7" "o_Status (demo_in st) = st" "o_PaidAt (demo_in st) = Some 40"
  "o_PayAmount (demo_in st) = Finite 10" "o_Amount (demo_in st) = Finite 10" "o_UpdatedAt (demo_in st) = 0"
  "o_RechargeCode (demo_in st) = ''PAY-1-5''" "o_OrderType (demo_in st) = OrderTypeBalance"
  "o_OutTradeNo (demo_in st) = ''sub2_a''" "d_clock (demo_db_in st t) = t"
  "notification_check s (demo_in st) k a pk md = notification_check s demo_order k a pk md"
  "instance_key (demo_in st) d = instance_key demo_order d"
proof -
  have snap: "psOrderProviderSnapshot (demo_in st) = psOrderProviderSnapshot demo_order"
    by (simp add: psOrderProviderSnapshot_def demo_in_def)
  have sel: "o_PaymentType (demo_in st) = o_PaymentType demo_order" "o_ProviderKey (demo_in st) = o_ProviderKey demo_order"
    "o_ProviderInstanceID (demo_in st) = o_ProviderInstanceID demo_order" "o_PayAmount (demo_in st) = o_PayAmount demo_order"
    "o_ID (demo_in st) = o_ID demo_order"
    by (simp_all add: demo_in_def)
  show "notification_check s (demo_in st) k a pk md = notification_check s demo_order k a pk md"
    unfolding notification_check_def expectedNotificationProviderKeyForOrder_def
      validateProviderSnapshotMetadata_def PaymentOrderCurrency_def snap sel by (rule refl)
  show "instance_key (demo_in st) d = instance_key demo_order d"
    unfolding instance_key_def resolved_def getOrderProviderInstance_def resolveSnapshotOrderProviderInstance_def
      resolveUniqueLegacyOrderProviderInstance_def order_error_def snap sel by (rule refl)
qed (simp_all add: demo_in_def demo_db_in_def demo_order_def)

lemma demo_in_key: "instance_key demo_order (demo_db_in st t) = []"
  using instance_key_cong [of "demo_db_in st t" demo_db demo_order] by (simp add: demo_resolved) (simp add: demo_db_in_def)

definition demo_answer :: QueryOrderResponse where
  "demo_answer = \<lparr>q_TradeNo = ''t9'', q_Status = ProviderStatusPaid, q_Amount = Finite 10, q_Metadata = []\<rparr>"

definition demo_gateway :: "unit Provider" where
  "demo_gateway =
     \<lparr>prov_ProviderKey = ''alipay'', prov_CreatePayment = (\<lambda>_ g. (Inl (Plain ''down''), g)),
      prov_QueryOrder = (\<lambda>_ g. (Inr demo_answer, g)),
      prov_VerifyNotification = (\<lambda>_ _ g. (Inr None, g)),
      prov_Refund = (\<lambda>_ g. (Inl (Plain ''down''), g)), prov_CancelPayment = None, prov_MerchantIdentity = None\<rparr>"

definition demo_open_service :: "(nat, unit) PaymentService" where
  "demo_open_service = demo_service\<lparr>ps_registry := (\<lambda>t. if t = ''alipay'' then Some demo_gateway else None)\<rparr>"

lemma demo_plain_texts:
  "TrimSpace ''alipay'' = ''alipay''" "GetBasePaymentType ''alipay'' = ''alipay''" "TrimSpace ''sub2_a'' = ''sub2_a''"
  "TrimSpace ''t9'' = ''t9''"
  by code_simp+

lemma demo_order_texts:
  "psOrderProviderSnapshot (demo_in st) = None" "o_ProviderKey (demo_in st) = None" "o_ProviderInstanceID (demo_in st) = None"
  "o_PaymentType (demo_in st) = ''alipay''" "o_PaymentTradeNo (demo_in st) = []" "psStringValue None = []"
  by (simp_all add: psOrderProviderSnapshot_def demo_in_def demo_order_def psStringValue_def)

lemma demo_gateway_paid: "gateway_paid demo_open_service (demo_in st) (demo_db_in st t) demo_gateway demo_answer"
proof -
  have res: "resolved (demo_in st) (demo_db_in st t) = Inr None"
    by (simp add: resolved_def getOrderProviderInstance_def resolveUniqueLegacyOrderProviderInstance_def demo_order_texts
        demo_plain_texts only_instance_def psFilterLegacyOrderProviderInstances_def quiet)
      (simp add: demo_db_in_def demo_db_def)
  have key: "GetProviderKey demo_open_service ''alipay'' = ''alipay''"
    by (simp add: GetProviderKey_def demo_open_service_def demo_gateway_def)
  have prov: "provider_for demo_open_service (demo_in st) (demo_db_in st t) = Inr demo_gateway"
    by (simp add: provider_for_def getOrderProvider_def quiet res paymentOrderFallbackProviderKey_def demo_order_texts key
        demo_plain_texts paymentOrderAllowsRegistryFallback_def webhookRegistryFallbackAllowed_def GetProvider_def Let_def)
      (simp add: demo_db_in_def demo_db_def demo_open_service_def)
  have ref: "paymentOrderQueryReference (demo_in st) demo_gateway = ''sub2_a''"
    by (simp add: paymentOrderQueryReference_def demo_gateway_def demo_plain_texts TypeAlipay_def)
  have check: "notification_check demo_open_service (demo_in st) [] (Finite 10) ''alipay'' [] = None"
  proof (rule check_ok)
    show "EqualFold (expectedNotificationProviderKeyForOrder demo_open_service (demo_in st) []) (TrimSpace ''alipay'')"
      by (simp add: expectedNotificationProviderKeyForOrder_def expectedNotificationProviderKey_def demo_order_texts key
          demo_plain_texts EqualFold_def)
    have "PaymentOrderCurrency (demo_in st) = ''CNY''"
      by (simp add: PaymentOrderCurrency_def demo_order_texts DefaultPaymentCurrency_def)
    then show "\<not> f_less (paymentAmountToleranceForCurrency (PaymentOrderCurrency (demo_in st)))
        (f_abs (f_sub (Finite 10) (o_PayAmount (demo_in st))))"
      by (simp add: cny_tolerance tolerance_value f_sub_def binary64_def not_less)
  qed (simp_all add: validateProviderSnapshotMetadata_def isValidProviderAmount_def IsNaN_def IsInf_def)
  show ?thesis
    using check by (simp add: gateway_paid_def prov ref demo_in_key)
      (simp add: demo_gateway_def demo_answer_def isValidProviderAmount_def IsNaN_def IsInf_def)
qed

lemma demo_creditable: "creditable demo_open_service (demo_in st) demo_user (demo_db_in st t)"
  using demo_passes(2) demo_code demo_user_of
  by (simp add: creditable_def OrderTypeBalance_def OrderTypeSubscription_def demo_open_service_def demo_db_in_def
      code_of_def user_of_def demo_num demo_stored)

lemma demo_asked: "asked demo_gateway (demo_in st) (demo_db_in st t) = demo_db_in st t"
  by (simp add: asked_def demo_gateway_def)

lemma demo_creditable_asked: "creditable demo_open_service (demo_in st) demo_user (asked demo_gateway (demo_in st) (demo_db_in st t))"
  by (simp add: demo_asked demo_creditable)

lemma demo_persists:
  "persists (paymentOrderQueryReference (demo_in st) demo_gateway) demo_answer (demo_in st)"
proof -
  have "\<not> EqualFold ''t9'' []" "\<not> EqualFold ''t9'' ''sub2_a''" by code_simp+
  then show ?thesis
    by (simp add: persists_def paymentOrderShouldPersistUpstreamTradeNo_def paymentOrderQueryReference_def demo_gateway_def
        demo_answer_def demo_order_texts demo_plain_texts TypeAlipay_def)
qed

end
