(* ===== verification/AmountFacts.thy ===== *)
theory AmountFacts
  imports PayAmounts
begin

text \<open>
  Facts on amounts: decimal numbers as rationals satisfy the laws of the decimal package, amounts are
  converted to minor units and back without loss, and the fee is added rounded up to the currency.
\<close>

section \<open>Decimal numbers as rationals\<close>

definition rational_decimals :: "rat decimal_lib" where
  "rational_decimals =
     \<lparr>NewFromFloat = (\<lambda>f. case f of Finite q \<Rightarrow> shortest q | _ \<Rightarrow> 0), NewFromString = parse_decimal,
      NewFromInt = of_int, decimal_New = (\<lambda>n k. of_int n * 10 ^ k), dec_Mul = (*),
      dec_Div = (\<lambda>x y. at_digits half_away 16 (x / y)), dec_Add = (+),
      dec_Round = (\<lambda>x n. at_digits half_away n x), dec_RoundUp = (\<lambda>x n. at_digits away_from_zero n x),
      dec_Truncate = (\<lambda>x n. at_digits towards_zero n x), dec_Equal = (=),
      StringFixed = (\<lambda>x n. fixed_text (half_away (x * 10 ^ n)) n), InexactFloat64 = binary64,
      IntPart = towards_zero\<rparr>"

lemma TrimSpace_plain:
  assumes "s \<noteq> []" "\<forall>c\<in>set s. is_digit c \<or> c = CHR ''.'' \<or> c = CHR ''-''"
  shows "TrimSpace s = s"
proof -
  have "of_char c < (128 :: nat) \<and> \<not> ascii_space c" if "c \<in> set s" for c
    using assms(2) that by (auto simp: is_digit_def ascii_space_def)
  then show ?thesis using assms(1) by (intro TrimSpace_ascii_ends) simp_all
qed

lemma fixed_text_nonempty: "fixed_text m k \<noteq> []"
proof -
  have "fixed_digits n k \<noteq> []" for n by (rule fixed_digits_parts [of n k]) simp
  then show ?thesis by (simp add: fixed_text_def)
qed

lemma TrimSpace_fixed_text [simp]: "TrimSpace (fixed_text m k) = fixed_text m k"
  by (rule TrimSpace_plain [OF fixed_text_nonempty fixed_text_plain])

lemma rational_laws: "decimal_laws rational_decimals id"
  by (simp add: decimal_laws_def rational_decimals_def parse_fixed_text at_digits_def)

section \<open>Rounding\<close>

definition exact_digits :: "nat \<Rightarrow> rat \<Rightarrow> bool" where
  "exact_digits n q \<longleftrightarrow> q * 10 ^ n \<in> \<int>"

lemma at_digits_exact: "exact_digits n (at_digits r n q)"
  by (simp add: exact_digits_def at_digits_def)

lemma exact_fixed:
  assumes "exact_digits n q"
  shows "at_digits half_away n q = q" "at_digits towards_zero n q = q" "at_digits away_from_zero n q = q"
proof -
  obtain k where k: "q * 10 ^ n = of_int k" using assms by (auto simp: exact_digits_def elim: Ints_cases)
  then have q: "q = of_int k / 10 ^ n" by (simp add: field_simps)
  have "half_away (of_int k) = k"
  proof (cases "0 \<le> k")
    case True
    have "\<lfloor>of_int k + 1 / 2 :: rat\<rfloor> = k" by (simp add: floor_eq_iff)
    with True show ?thesis by (simp add: half_away_def)
  next
    case False
    have "\<lfloor>- of_int k + 1 / 2 :: rat\<rfloor> = - k" by (simp add: floor_eq_iff)
    with False show ?thesis by (simp add: half_away_def)
  qed
  moreover have "towards_zero (of_int k) = k" "away_from_zero (of_int k) = k"
    by (simp_all add: towards_zero_def away_from_zero_def flip: of_int_minus)
  ultimately show "at_digits half_away n q = q" "at_digits towards_zero n q = q" "at_digits away_from_zero n q = q"
    unfolding at_digits_def k using q by simp_all
qed

lemma truncated_iff: "at_digits towards_zero 0 q = q \<longleftrightarrow> q \<in> \<int>"
  using exact_fixed(2) [of 0 q] at_digits_exact [of 0 towards_zero q] by (auto simp: exact_digits_def)

lemma exact_digits_add: "exact_digits n p \<Longrightarrow> exact_digits n q \<Longrightarrow> exact_digits n (p + q)"
  by (simp add: exact_digits_def distrib_right)

lemma exact_digits_mono: "n \<le> m \<Longrightarrow> exact_digits n q \<Longrightarrow> exact_digits m q"
proof -
  assume "n \<le> m" "exact_digits n q"
  then have "q * 10 ^ m = (q * 10 ^ n) * of_int (10 ^ (m - n))" by (simp flip: power_add)
  with \<open>exact_digits n q\<close> show ?thesis unfolding exact_digits_def by (metis Ints_mult Ints_of_int)
qed

lemma round_up_bounds:
  assumes "0 \<le> q"
  shows "q \<le> at_digits away_from_zero n q" "at_digits away_from_zero n q < q + 1 / 10 ^ n"
proof -
  have scaled: "0 \<le> q * 10 ^ n" using assms by simp
  have "q * 10 ^ n \<le> of_int \<lceil>q * 10 ^ n\<rceil>" "of_int \<lceil>q * 10 ^ n\<rceil> < q * 10 ^ n + 1"
    using ceiling_correct [of "q * 10 ^ n"] by linarith+
  then show "q \<le> at_digits away_from_zero n q" "at_digits away_from_zero n q < q + 1 / 10 ^ n"
    using scaled by (simp_all add: at_digits_def away_from_zero_def field_simps)
qed

lemma half_away_bounds: "\<bar>at_digits half_away n q - q\<bar> \<le> 1 / (2 * 10 ^ n)"
proof -
  have near: "\<bar>of_int \<lfloor>y + 1 / 2\<rfloor> - y\<bar> \<le> 1 / 2" for y :: rat
    using floor_correct [of "y + 1 / 2"] by linarith
  have "\<bar>of_int (half_away x) - x\<bar> \<le> 1 / 2" for x :: rat
    using near [of x] near [of "- x"] by (simp add: half_away_def abs_minus_commute add.commute)
  from this [of "q * 10 ^ n"] have "\<bar>of_int (half_away (q * 10 ^ n)) - q * 10 ^ n\<bar> / 10 ^ n \<le> 1 / 2 / 10 ^ n"
    by (rule divide_right_mono) simp
  moreover have "\<bar>at_digits half_away n q - q\<bar> = \<bar>of_int (half_away (q * 10 ^ n)) - q * 10 ^ n\<bar> / 10 ^ n"
    by (simp add: at_digits_def abs_divide [symmetric] field_simps)
  ultimately show ?thesis by (simp add: field_simps)
qed

section \<open>Minor units\<close>

lemma laws:
  assumes "decimal_laws lib val"
  shows "val (NewFromFloat lib (Finite q)) = shortest q"
    "parse_decimal s = Some r \<Longrightarrow> map_option val (NewFromString lib s) = Some r"
    "val (NewFromInt lib k) = of_int k" "val (decimal_New lib k n) = of_int k * 10 ^ n"
    "val (dec_Mul lib x y) = val x * val y" "val (dec_Add lib x y) = val x + val y"
    "val y \<noteq> 0 \<Longrightarrow> val (dec_Div lib x y) = at_digits half_away 16 (val x / val y)"
    "val (dec_Round lib x n) = at_digits half_away n (val x)"
    "val (dec_RoundUp lib x n) = at_digits away_from_zero n (val x)"
    "val (dec_Truncate lib x n) = at_digits towards_zero n (val x)"
    "dec_Equal lib x y \<longleftrightarrow> val x = val y"
    "parse_decimal (StringFixed lib x n) = Some (at_digits half_away n (val x))"
    "TrimSpace (StringFixed lib x n) = StringFixed lib x n"
    "InexactFloat64 lib x = binary64 (val x)" "IntPart lib x = towards_zero (val x)"
  using assms by (simp_all add: decimal_laws_def)

lemma AmountToMinorUnit_value:
  assumes "decimal_laws lib val" "parse_decimal (TrimSpace s) = Some q" "NormalizePaymentCurrency currency = Inr c"
  shows "AmountToMinorUnit lib s currency =
    (if exact_digits (CurrencyMaxFractionDigits c) q then Inr (towards_zero (q * 10 ^ CurrencyMinorUnit c))
     else Inl (Plain (if CurrencyMaxFractionDigits c = 0
            then ''payment amount for '' @ c @ '' must be a whole number''
            else ''payment amount for '' @ c @ '' must not have more than ''
              @ Itoa (int (CurrencyMaxFractionDigits c)) @ '' decimal places'')))"
proof -
  obtain d where d: "NewFromString lib (TrimSpace s) = Some d" "val d = q"
    using laws(2) [OF assms(1,2)] by auto
  have whole: "x = at_digits towards_zero 0 x \<longleftrightarrow> x \<in> \<int>" for x
    using truncated_iff [of x] by auto
  show ?thesis
    using assms(3) d
    by (simp add: AmountToMinorUnit_def Let_def laws [OF assms(1)] whole CurrencyMaxFractionDigits_def
        CurrencyMinorUnit_def exact_digits_def)
qed

text \<open>A currency that has been normalised stays as it is.\<close>

lemma Normalize_idem:
  assumes "NormalizePaymentCurrency currency = Inr c"
  shows "NormalizePaymentCurrency c = Inr c"
proof (cases "ToUpper (TrimSpace currency) = []")
  case True
  with assms have "c = DefaultPaymentCurrency" by (simp add: NormalizePaymentCurrency_def)
  then show ?thesis by simp code_simp
next
  case False
  with assms have c: "length c = 3" "list_all is_upper c"
    by (auto simp: NormalizePaymentCurrency_def Let_def split: if_splits)
  then obtain x y z where xyz: "c = [x, y, z]" "is_upper x" "is_upper y" "is_upper z"
    by (auto simp: length_Suc_conv numeral_3_eq_3)
  have ascii: "of_char b < (128 :: nat)" "\<not> ascii_space b" "to_upper_byte b = b" if "is_upper b" for b
    using that by (auto simp: is_upper_def ascii_space_def to_upper_byte_def)
  have pairs: "[x, y] \<noteq> bytes [n, k]" "[y, z] \<noteq> bytes [n, k]" if "90 < n" "n < 256" for n k
    using that xyz by (auto simp: is_upper_def bytes_def of_char_of)
  have "TrimSpace c = c"
    using xyz ascii by (intro TrimSpace_ascii_ends) auto
  moreover have "ToUpper c = c"
    using xyz ascii pairs by simp
  ultimately show ?thesis
    using c xyz by (simp add: NormalizePaymentCurrency_def Let_def)
qed

lemma unit_normalized:
  assumes "NormalizePaymentCurrency currency = Inr c"
  shows "CurrencyMaxFractionDigits c = CurrencyMaxFractionDigits currency" "CurrencyMinorUnit c = CurrencyMinorUnit currency"
  using assms Normalize_idem [OF assms]
  by (simp_all add: CurrencyMaxFractionDigits_def CurrencyMinorUnit_def paymentCurrencyAmountUnitFor_def)

lemma unit_cases:
  "CurrencyMinorUnit c \<le> 3 \<and> CurrencyMaxFractionDigits c \<le> CurrencyMinorUnit c"
proof -
  have "list_all (\<lambda>(_, u). apiMinorUnit u \<le> 3 \<and> maxFractionDigits u \<le> apiMinorUnit u) paymentCurrencyAmountUnits"
    by code_simp
  then have known: "apiMinorUnit u \<le> 3 \<and> maxFractionDigits u \<le> apiMinorUnit u"
    if "map_of paymentCurrencyAmountUnits k = Some u" for k u
    using map_of_SomeD [OF that] by (auto simp: list_all_iff)
  show ?thesis
    using known by (auto simp: CurrencyMinorUnit_def CurrencyMaxFractionDigits_def paymentCurrencyAmountUnitFor_def
        twoDecimalAmountUnit_def split: sum.splits option.splits)
qed

section \<open>Properties\<close>

text \<open>
C35. The amount to pay is the amount of the order plus a fee that is the rate rounded up to the digits of the
currency: it never has more digits than the currency allows, so the conversion to minor units accepts it;
it is never below the amount, and it exceeds amount and fee by less than one unit of the last digit.
\<close>
theorem pay_amount_bounds:
  assumes "decimal_laws lib val" "NormalizePaymentCurrency currency = Inr c" "0 \<le> shortest q" "0 \<le> shortest r" "0 < r"
    "exact_digits (CurrencyMaxFractionDigits currency) (shortest q)"
  shows "\<exists>p. parse_decimal (CalculatePayAmountForCurrency lib (Finite q) (Finite r) currency) = Some p
    \<and> AmountToMinorUnit lib (CalculatePayAmountForCurrency lib (Finite q) (Finite r) currency) currency =
        Inr (towards_zero (p * 10 ^ CurrencyMinorUnit currency))
    \<and> shortest q \<le> p
    \<and> shortest q + shortest q * shortest r / 100 - 1 / 10 ^ 16 \<le> p
    \<and> p < shortest q + shortest q * shortest r / 100 + 1 / 10 ^ CurrencyMaxFractionDigits currency + 1 / 10 ^ 16"
proof -
  let ?n = "CurrencyMaxFractionDigits currency" and ?x = "shortest q * shortest r / 100"
  let ?fee = "at_digits away_from_zero ?n (at_digits half_away 16 ?x)"
  let ?s = "CalculatePayAmountForCurrency lib (Finite q) (Finite r) currency"
  have x: "0 \<le> ?x" using assms(3,4) by simp
  then have y: "0 \<le> at_digits half_away 16 ?x"
    by (simp add: at_digits_def half_away_def)
  note up = round_up_bounds [OF y, of ?n]
  have near: "\<bar>at_digits half_away 16 ?x - ?x\<bar> \<le> 1 / (2 * 10 ^ 16)" by (rule half_away_bounds)
  have exact: "exact_digits ?n (shortest q + ?fee)"
    by (rule exact_digits_add [OF assms(6) at_digits_exact])
  have parsed: "parse_decimal ?s = Some (shortest q + ?fee)" and trimmed: "TrimSpace ?s = ?s"
    using assms(5) exact_fixed(1) [OF exact]
    by (simp_all add: CalculatePayAmountForCurrency_def Let_def laws [OF assms(1)])
  have minor: "AmountToMinorUnit lib ?s currency =
      Inr (towards_zero ((shortest q + ?fee) * 10 ^ CurrencyMinorUnit currency))"
    using AmountToMinorUnit_value [OF assms(1), of ?s "shortest q + ?fee", unfolded trimmed, OF parsed assms(2)] exact
    by (simp add: unit_normalized [OF assms(2)])
  show ?thesis
    by (intro exI [of _ "shortest q + ?fee"] conjI, rule parsed, rule minor) (use up near y in linarith)+
qed

text \<open>The digits of small round numbers.\<close>

lemma one_digit:
  assumes "digit_candidates \<bar>q\<bar> 1 = p # ps" "q \<noteq> 0"
  shows "shortest_int q = (case trim_zero p of (m, e) \<Rightarrow> (if q < 0 then - m else m, e))"
  using assms by (simp add: shortest_int_def shortest_digits_def upt_conv_Cons)

lemma shortest_values: "shortest 2 = 2" "shortest 10 = 10"
proof -
  have "decade 2 = 0" "decade 10 = 1" by code_simp+
  then have "digit_candidates 2 1 = [(2, 0)]" "digit_candidates 10 1 = [(1, 1)]"
    using binary64_int [of 2] binary64_int [of 3] binary64_int [of 10] binary64_int [of 20]
    by (simp_all add: digit_candidates_def pow10_def)
  then show "shortest 2 = 2" "shortest 10 = 10"
    using one_digit [of 2] one_digit [of 10] by (simp_all add: shortest_def trim_zero_def pow10_def)
qed

theorem pay_amount_bounds_witness:
  "\<exists>p. parse_decimal (CalculatePayAmountForCurrency rational_decimals (Finite 10) (Finite 2) ''CNY'') = Some p
    \<and> 10 \<le> p \<and> p < 10.22"
proof -
  have "NormalizePaymentCurrency ''CNY'' = Inr ''CNY''" "CurrencyMaxFractionDigits ''CNY'' = 2" by code_simp+
  then show ?thesis
    using pay_amount_bounds [OF rational_laws, of "''CNY''" "''CNY''" 10 2]
    by (auto simp: shortest_values exact_digits_def)
qed

text \<open>
Converting an amount to minor units and back loses nothing: an amount with no more digits than its
currency allows comes back as the nearest float of it.
\<close>
theorem minor_unit_roundtrip:
  assumes "decimal_laws lib val" "NormalizePaymentCurrency currency = Inr c" "parse_decimal (TrimSpace s) = Some q"
    "exact_digits (CurrencyMaxFractionDigits currency) q"
  shows "\<exists>n. AmountToMinorUnit lib s currency = Inr n \<and> MinorUnitToAmount lib n currency = binary64 q"
proof -
  let ?k = "CurrencyMinorUnit currency"
  have k: "?k \<le> 3" "CurrencyMaxFractionDigits currency \<le> ?k" using unit_cases by auto
  have exact: "exact_digits ?k q" using exact_digits_mono [OF k(2) assms(4)] .
  then obtain n where n: "q * 10 ^ ?k = of_int n" by (auto simp: exact_digits_def elim: Ints_cases)
  then have q: "q = of_int n / 10 ^ ?k" by (simp add: field_simps)
  have "towards_zero (of_int n) = n" by (simp add: towards_zero_def flip: of_int_minus)
  then have "AmountToMinorUnit lib s currency = Inr n"
    using AmountToMinorUnit_value [OF assms(1,3,2)] assms(4) n by (simp add: unit_normalized [OF assms(2)])
  moreover have "at_digits half_away 16 q = q"
    using exact_fixed(1) [OF exact_digits_mono [OF _ exact, of 16]] k by simp
  ultimately show ?thesis
    using q by (simp add: MinorUnitToAmount_def laws [OF assms(1)])
qed

theorem minor_unit_roundtrip_witness:
  "\<exists>n. AmountToMinorUnit rational_decimals '' 10.5 '' ''CNY'' = Inr n
    \<and> MinorUnitToAmount rational_decimals n ''CNY'' = binary64 (105 / 10)"
proof -
  have "NormalizePaymentCurrency ''CNY'' = Inr ''CNY''" "CurrencyMaxFractionDigits ''CNY'' = 2"
    "parse_decimal (TrimSpace '' 10.5 '') = Some (105 / 10)" by code_simp+
  then show ?thesis
    using minor_unit_roundtrip [OF rational_laws, of "''CNY''" "''CNY''" "'' 10.5 ''"]
    by (simp add: exact_digits_def)
qed

end
