(* ===== verification/PayClaims.thy ===== *)
theory PayClaims
  imports PayDemo AmountFacts
begin

text \<open>
  The properties of the payment service: what holds under interference and faults, what a quiet run
  does, and where the code falls short.
\<close>

section \<open>Money under interference and faults\<close>

text \<open>
C3. In any history of calls, with other processes that keep to the steps of the service and any faults,
each redeem code is credited at most once, and only when it was not used before and is used after; the
balance of every user changes by exactly the credits and the other moves, each credit leaves a used
code of its owner and value behind, and when the ledger is closed there are no other moves.
\<close>
theorem credited_once:
  assumes "pay_inv (db m)" "pay.polite (rs_numeric (ps_redeem s)) open_ledger (sched m)"
    "open_ledger \<or> list_all (\<lambda>c. \<not> refunding c) cs" "run_state (serve_all s cs) m = (r, m')"
  shows "\<exists>ms. run_of (pay_step (rs_numeric (ps_redeem s)) open_ledger) (db m) ms (db m')
    \<and> (\<forall>k. credits k ms \<le> 1) \<and> (\<forall>k. credits k ms = 1 \<longrightarrow> \<not> code_used k (db m) \<and> code_used k (db m'))
    \<and> (\<forall>i. balance_of i (db m') = map_option (\<lambda>x. x + moved i ms) (balance_of i (db m)))
    \<and> (\<forall>e\<in>set ms. receipt (rs_numeric (ps_redeem s)) (db m') e)
    \<and> (\<not> open_ledger \<longrightarrow> (\<forall>i n. Moved i n \<notin> set ms))"
proof -
  obtain ms where run: "run_of (pay_step (rs_numeric (ps_redeem s)) open_ledger) (db m) ms (db m')"
    using history_run [OF assms] by blast
  have "credits k ms \<le> 1 \<and> (credits k ms = 1 \<longrightarrow> \<not> code_used k (db m) \<and> code_used k (db m'))" for k
    using credits_run [OF run assms(1), of k] by (auto simp: used_count_def split: if_splits)
  moreover have "\<not> open_ledger \<Longrightarrow> \<forall>i n. Moved i n \<notin> set ms"
    using run closed_run by (metis (full_types))
  ultimately show ?thesis
    using run ledger_run [OF run] receipt_run [OF run] by blast
qed

theorem credited_once_witness:
  "\<exists>ms. (\<forall>k. credits k ms \<le> 1)
    \<and> balance_of 7 (db (snd (run_state (serve_all demo_service demo_calls) demo_machine))) =
        map_option (\<lambda>x. x + moved 7 ms) (balance_of 7 (db demo_machine))"
  using credited_once [OF demo_pay_start(1) demo_polite demo_pay_start(2) surjective_pairing] by blast

text \<open>
In every state a history of calls reaches, under interference and faults, an order that is completed
or in refund and not for a subscription has its recharge code used.
\<close>
theorem settled_orders_are_credited:
  assumes "pay_inv (db m)" "pay.polite (rs_numeric (ps_redeem s)) open_ledger (sched m)"
    "open_ledger \<or> list_all (\<lambda>c. \<not> refunding c) cs" "run_state (serve_all s cs) m = (r, m')"
    "x \<in> set (d_orders (db m'))" "settled (o_Status x)" "o_OrderType x \<noteq> OrderTypeSubscription"
  shows "code_used (o_RechargeCode x) (db m')"
proof -
  obtain ms where "run_of (pay_step (rs_numeric (ps_redeem s)) open_ledger) (db m) ms (db m')"
    using history_run [OF assms(1-4)] by blast
  from pay.inv_run [OF this assms(1)] show ?thesis
    using assms(5-7) by (simp add: pay_inv_def settled_used_def)
qed

theorem settled_orders_are_credited_witness:
  "\<forall>x. x \<in> set (d_orders (db (snd (run_state (serve_all demo_service demo_calls) demo_machine))))
    \<longrightarrow> settled (o_Status x) \<longrightarrow> o_OrderType x \<noteq> OrderTypeSubscription
    \<longrightarrow> code_used (o_RechargeCode x) (db (snd (run_state (serve_all demo_service demo_calls) demo_machine)))"
  using settled_orders_are_credited [OF demo_pay_start(1) demo_polite demo_pay_start(2) surjective_pairing] by blast

text \<open>
C7. The tables stay well formed in any history of calls, under interference and faults: identifiers of orders,
users and codes and the codes themselves stay unique and below their sequences, and what is settled has
its code used.
\<close>
theorem payment_store_well_formed:
  assumes "pay_inv (db m)" "pay.polite (rs_numeric (ps_redeem s)) open_ledger (sched m)"
    "open_ledger \<or> list_all (\<lambda>c. \<not> refunding c) cs" "run_state (serve_all s cs) m = (r, m')"
  shows "pay_inv (db m')"
  using history_run [OF assms] pay.inv_run assms(1) by blast

theorem payment_store_well_formed_witness:
  "pay_inv (db (snd (run_state (serve_all demo_service demo_calls) demo_machine)))"
  by (rule payment_store_well_formed [OF demo_pay_start(1) demo_polite demo_pay_start(2) surjective_pairing])

text \<open>
C8. Over any history of calls (notifications, fulfilment and its retries, cancelling, expiry, queries, redeemed
codes, refunds), with
other processes around every statement that keep to the steps of these calls and insert pending orders, and with any
faults, every order keeps its user, amount, type and
code and moves along the state machine: paid, it is never pending, cancelled or expired again; completed,
it stays completed or in refund; and an order that is new began pending. \<open>CreateOrder\<close> is not one of the calls, neither
here nor of the others, because of one statement: after a failed call of the gateway it sets its order to \<open>FAILED\<close> whatever
the status is, which is no move of the state machine (\<open>failed_call_overwrites\<close>).
\<close>
theorem order_history:
  assumes "pay_inv (db m)" "pay.polite (rs_numeric (ps_redeem s)) open_ledger (sched m)"
    "open_ledger \<or> list_all (\<lambda>c. \<not> refunding c) cs" "run_state (serve_all s cs) m = (r, m')"
  shows "(\<forall>x\<in>set (d_orders (db m)). \<exists>y\<in>set (d_orders (db m')).
      same_order x y \<and> status_step\<^sup>*\<^sup>* (o_Status x) (o_Status y)
      \<and> (committed (o_Status x) \<longrightarrow> committed (o_Status y)) \<and> (settled (o_Status x) \<longrightarrow> settled (o_Status y)))
    \<and> (\<forall>y\<in>set (d_orders (db m')). o_ID y \<in> o_ID ` set (d_orders (db m))
        \<or> status_step\<^sup>*\<^sup>* OrderStatusPending (o_Status y))"
proof -
  obtain ms where run: "run_of (pay_step (rs_numeric (ps_redeem s)) open_ledger) (db m) ms (db m')"
    using history_run [OF assms] by blast
  show ?thesis
    using follows_run [OF run] new_order_run [OF run] status_path unfolding follows_def by meson
qed

theorem order_history_witness:
  "\<exists>y\<in>set (d_orders (db (snd (run_state (serve_all demo_service demo_calls) demo_machine)))).
     same_order demo_order y \<and> status_step\<^sup>*\<^sup>* OrderStatusPending (o_Status y)"
proof -
  have "demo_order \<in> set (d_orders (db demo_machine))" "o_Status demo_order = OrderStatusPending"
    by (simp_all add: demo_machine_def demo_db_def demo_order_def)
  then show ?thesis
    using order_history [OF demo_pay_start(1) demo_polite demo_pay_start(2) surjective_pairing] by fastforce
qed

section \<open>Payment of an order\<close>

text \<open>
C9. In a quiet run a notification that passes the checks pays and completes a payable balance order whose
recharge code is not taken, if the redeem cache lets its user through (fewer failed attempts than the limit, and
the lock) and the affiliate service does not fail, where there are such: the
order is completed with the paid amount and trade number, its user is credited the amount of the order
as the database stores it, the recharge code is used, and no other user or order changes.
\<close>
theorem payment_completes_balance_order:
  assumes "n_Status n = NotificationStatusSuccess" "names (n_OrderID n) d x"
    "notification_check s x (instance_key x d) (n_Amount n) pk (n_Metadata n) = None"
    "payable (o_ID x) (d_clock d - paymentGraceMinutes * minute) x" "o_OrderType x \<noteq> OrderTypeSubscription"
    "credit_passes s x d" "good_code (o_RechargeCode x)" "code_of (o_RechargeCode x) d = None"
    "o_Amount x \<noteq> Finite 0" "user_of (o_UserID x) d = Some u"
    "\<not> f_less (stored (rs_numeric (ps_redeem s)) 8 (o_Amount x)) (Finite 0)"
  shows "\<exists>d' y v. run_state (HandlePaymentNotification s n pk) (alone d) = (Inr (), alone d')
    \<and> order_of (o_ID x) d' = Some y \<and> o_Status y = OrderStatusCompleted \<and> o_PaidAt y = Some (d_clock d)
    \<and> o_CompletedAt y = Some (d_clock d) \<and> o_PayAmount y = stored (rs_numeric (ps_redeem s)) 2 (n_Amount n)
    \<and> o_PaymentTradeNo y = n_TradeNo n
    \<and> user_of (o_UserID x) d' = Some v
    \<and> u_Balance v = u_Balance u
        + to_column (rs_numeric (ps_redeem s)) 8 (stored (rs_numeric (ps_redeem s)) 8 (o_Amount x))
    \<and> (\<forall>j. j \<noteq> o_UserID x \<longrightarrow> user_of j d' = user_of j d) \<and> (\<forall>j. j \<noteq> o_ID x \<longrightarrow> order_of j d' = order_of j d)
    \<and> code_used (o_RechargeCode x) d'"
  by (rule notified [OF assms])

theorem payment_completes_balance_order_witness:
  "\<exists>d' y v. run_state (HandlePaymentNotification demo_service demo_note ''alipay'') (alone demo_db) = (Inr (), alone d')
    \<and> order_of 1 d' = Some y \<and> o_Status y = OrderStatusCompleted
    \<and> user_of 7 d' = Some v \<and> u_Balance v = 1000000000"
proof -
  have check: "notification_check demo_service demo_order (instance_key demo_order demo_db) (n_Amount demo_note)
      ''alipay'' (n_Metadata demo_note) = None"
    by (simp add: demo_resolved demo_check)
  have open_order: "payable (o_ID demo_order) (d_clock demo_db - paymentGraceMinutes * minute) demo_order"
    by (simp add: payable_def)
  have user: "user_of (o_UserID demo_order) demo_db = Some demo_user" "u_Balance demo_user = 0"
    by (simp_all add: demo_user_of) (simp add: demo_user_def)
  have amount: "o_OrderType demo_order \<noteq> OrderTypeSubscription" "good_code (o_RechargeCode demo_order)"
    "o_Amount demo_order \<noteq> Finite 0"
    "\<not> f_less (stored (rs_numeric (ps_redeem demo_service)) 8 (o_Amount demo_order)) (Finite 0)"
    by (simp_all add: OrderTypeBalance_def OrderTypeSubscription_def demo_code demo_num demo_stored)
  show ?thesis
    using payment_completes_balance_order [OF demo_note_sel(4) demo_names check open_order amount(1) demo_passes(1)
        amount(2) demo_code(2) amount(3) user(1) amount(4)]
    by (simp add: demo_num demo_stored demo_column user(2)) blast
qed

text \<open>
In a quiet run, a notification for an order that is completed or in refund changes nothing, or only the
audit log when it does not pass the checks; a retry and a cancellation of such an order are refused
without effect.
\<close>
theorem settled_order_untouched:
  assumes "n_Status n = NotificationStatusSuccess" "names (n_OrderID n) d x" "settled (o_Status x)"
  shows "(\<exists>r as. run_state (HandlePaymentNotification s n pk) (alone d) = (r, alone (d\<lparr>d_audits := as\<rparr>)))
    \<and> (notification_check s x (instance_key x d) (n_Amount n) pk (n_Metadata n) = None
        \<longrightarrow> run_state (HandlePaymentNotification s n pk) (alone d) = (Inr (), alone d))
    \<and> (\<exists>e. run_state (RetryFulfillment s (o_ID x)) (alone d) = (Inl e, alone d))
    \<and> (\<exists>e. run_state (CancelOrder s (o_ID x) u) (alone d) = (Inl e, alone d))"
proof -
  note here = names_order [OF assms(2)]
  have ids: "distinct (map o_ID (d_orders d))" using assms(2) by (simp add: names_def)
  have closed: "\<not> payable (o_ID x) (d_clock d - paymentGraceMinutes * minute) x" "o_Status x \<noteq> OrderStatusFailed"
    "o_Status x \<noteq> OrderStatusPending" "o_Status x \<noteq> OrderStatusPaid" "o_Status x \<noteq> OrderStatusRecharging"
    "o_Status x \<noteq> OrderStatusExpired"
    using assms(3) by (auto simp: payable_def settled_def)
  have again: "run_state (toPaid s x tn a pk) (alone d) = (Inr (), alone d)" for tn a
    using quiet_not_payable [OF ids here closed(1)] quiet_alreadyProcessed [OF here closed(2)] closed
    by (simp split: OrderStatus.splits)
  have "\<exists>r as. run_state (HandlePaymentNotification s n pk) (alone d) = (r, alone (d\<lparr>d_audits := as\<rparr>))"
    by (auto simp: quiet_notification [OF assms(1,2)] again split: option.splits intro: log_audit_ex same_audits)
  moreover have "\<exists>e. run_state (RetryFulfillment s (o_ID x)) (alone d) = (Inl e, alone d)"
    using assms(3) closed by (auto simp: RetryFulfillment_def quiet here settled_def)
  moreover have "\<exists>e. run_state (CancelOrder s (o_ID x) u) (alone d) = (Inl e, alone d)"
    using closed by (auto simp: CancelOrder_def quiet here)
  ultimately show ?thesis
    by (auto simp: quiet_notification [OF assms(1,2)] again)
qed

theorem settled_order_untouched_witness:
  "run_state (HandlePaymentNotification demo_service demo_note ''alipay'') (alone (demo_db_in OrderStatusCompleted 50)) =
     (Inr (), alone (demo_db_in OrderStatusCompleted 50))"
  using settled_order_untouched [of demo_note "demo_db_in OrderStatusCompleted 50" "demo_in OrderStatusCompleted"
      demo_service "''alipay''", OF demo_note_sel(4) demo_names_in]
  by (simp add: demo_in_key demo_check)

text \<open>
C28. An order that is recharging, because the process that fulfilled it died, stays so: in a quiet run a
notification is answered with an error and changes nothing, a retry is refused as a conflict, and it
can neither be cancelled nor verified into another state nor refunded.
\<close>
theorem recharging_order_stuck:
  assumes "n_Status n = NotificationStatusSuccess" "names (n_OrderID n) d x" "o_Status x = OrderStatusRecharging"
    "notification_check s x (instance_key x d) (n_Amount n) pk (n_Metadata n) = None" "o_PaidAt x \<noteq> None"
  shows "run_state (HandlePaymentNotification s n pk) (alone d) = (Inl (order_error x '' is being processed''), alone d)
    \<and> run_state (RetryFulfillment s (o_ID x)) (alone d) = (Inl (Conflict ''CONFLICT'' ''order is being processed''), alone d)
    \<and> run_state (CancelOrder s (o_ID x) (o_UserID x)) (alone d) =
        (Inl (BadRequest ''INVALID_STATUS'' ''order cannot be cancelled in current status''), alone d)
    \<and> run_state (AdminCancelOrder s (o_ID x)) (alone d) =
        (Inl (BadRequest ''INVALID_STATUS'' ''order cannot be cancelled in current status''), alone d)
    \<and> run_state (PrepareRefund s lib (o_ID x) amt reason force deduct) (alone d) =
        (Inl (BadRequest ''INVALID_STATUS'' ''order status does not allow refund''), alone d)
    \<and> (normalizeOrderLookupOutTradeNo (n_OrderID n) = Inr (n_OrderID n) \<longrightarrow>
        run_state (VerifyOrderByOutTradeNo s (n_OrderID n) (o_UserID x)) (alone d) = (Inr x, alone d))"
proof -
  note here = names_order [OF assms(2)]
  have ids: "distinct (map o_ID (d_orders d))" and only: "filter (\<lambda>y. o_OutTradeNo y = n_OrderID n) (d_orders d) = [x]"
    using assms(2) by (simp_all add: names_def)
  have closed: "\<not> payable (o_ID x) (d_clock d - paymentGraceMinutes * minute) x"
    using assms(3) by (simp add: payable_def)
  have "run_state (HandlePaymentNotification s n pk) (alone d) = (Inl (order_error x '' is being processed''), alone d)"
    using quiet_not_payable [OF ids here closed] quiet_alreadyProcessed [OF here]
    by (simp add: quiet_notification [OF assms(1,2)] assms(3,4))
  moreover have "run_state (PrepareRefund s lib (o_ID x) amt reason force deduct) (alone d) =
      (Inl (BadRequest ''INVALID_STATUS'' ''order status does not allow refund''), alone d)"
    by (simp add: PrepareRefund_def quiet here assms(3) refundable_def)
  ultimately show ?thesis
    using assms(3,5)
    by (simp add: RetryFulfillment_def CancelOrder_def AdminCancelOrder_def VerifyOrderByOutTradeNo_def
        quiet here quiet_order_Only [OF only])
qed

theorem recharging_order_stuck_witness:
  "run_state (HandlePaymentNotification demo_service demo_note ''alipay'') (alone (demo_db_in OrderStatusRecharging 50)) =
     (Inl (order_error (demo_in OrderStatusRecharging) '' is being processed''), alone (demo_db_in OrderStatusRecharging 50))"
  using recharging_order_stuck [of demo_note "demo_db_in OrderStatusRecharging 50" "demo_in OrderStatusRecharging"
      demo_service "''alipay''", OF demo_note_sel(4) demo_names_in, where lib = rational_decimals]
  by (simp add: demo_in_key demo_check)

text \<open>
In a quiet run a notification whose amount is not a positive number, or differs from the amount to pay by
more than the tolerance of the currency, never pays: it is answered with an error and leaves at most an
audit entry that names the reason.
\<close>
theorem wrong_amount_not_paid:
  assumes "n_Status n = NotificationStatusSuccess" "names (n_OrderID n) d x"
    "\<not> isValidProviderAmount (n_Amount n)
     \<or> f_less (paymentAmountToleranceForCurrency (PaymentOrderCurrency x)) (f_abs (f_sub (n_Amount n) (o_PayAmount x)))"
  shows "\<exists>e action. run_state (HandlePaymentNotification s n pk) (alone d) = (Inl e, alone (log_audit (o_ID x) action pk d))
    \<and> action \<in> {''PAYMENT_PROVIDER_MISMATCH'', ''PAYMENT_PROVIDER_METADATA_MISMATCH'', ''PAYMENT_INVALID_AMOUNT'',
        ''PAYMENT_AMOUNT_MISMATCH''}"
proof -
  have "notification_check s x (instance_key x d) (n_Amount n) pk (n_Metadata n) \<noteq> None"
    using assms(3) by (auto simp: notification_check_def Let_def split: sum.split)
  then obtain action e where "notification_check s x (instance_key x d) (n_Amount n) pk (n_Metadata n) = Some (action, e)"
    by auto
  then show ?thesis
    using check_action [of s x _ _ pk _ action e] by (intro exI [of _ e] exI [of _ action]) (auto simp: quiet_notification [OF assms(1,2)])
qed

theorem wrong_amount_not_paid_witness:
  "\<exists>e action. run_state (HandlePaymentNotification demo_service (demo_note\<lparr>n_Amount := Finite 9\<rparr>) ''alipay'') (alone demo_db) =
     (Inl e, alone (log_audit 1 action ''alipay'' demo_db))"
proof -
  have "f_sub (Finite 9) (Finite 10) = Finite (- 1)"
    using binary64_int [of "- 1"] by (simp add: f_sub_def)
  then have "f_less (paymentAmountToleranceForCurrency (PaymentOrderCurrency demo_order))
      (f_abs (f_sub (Finite 9) (o_PayAmount demo_order)))"
    by (simp add: demo_currency cny_tolerance tolerance_value pow2_def)
  then show ?thesis
    using wrong_amount_not_paid [of "demo_note\<lparr>n_Amount := Finite 9\<rparr>" demo_db demo_order demo_service "''alipay''"]
      demo_names by auto
qed

section \<open>Closing an order\<close>

text \<open>
In a quiet run the cancellation or expiry of a payable balance order whose gateway says it was paid does
not close it: the caller is told so, and the order is completed and its user credited.
\<close>
theorem closing_completes_paid_order:
  assumes "names (o_OutTradeNo x) d x" "gateway_paid s x d prov resp" "creditable s x u (asked prov x d)"
    "payable (o_ID x) (d_clock d - paymentGraceMinutes * minute) x" "o_PaymentTradeNo x \<noteq> [] \<or> o_PaymentType x \<noteq> []"
  shows "\<exists>d'. run_state (cancelCore s x fs op) (alone d) = (Inr AlreadyPaid, alone d')
    \<and> completed_for (rs_numeric (ps_redeem s)) x u d d'"
  using quiet_checkPaid [OF assms(1-3), of True] assms(4,5) by (auto simp: cancelCore_def checkPaid_def)

theorem closing_completes_paid_order_witness:
  "\<exists>d'. run_state (cancelCore demo_open_service (demo_in OrderStatusPending) OrderStatusExpired ''system'')
      (alone (demo_db_in OrderStatusPending 50)) = (Inr AlreadyPaid, alone d')
    \<and> completed_for demo_numeric (demo_in OrderStatusPending) demo_user (demo_db_in OrderStatusPending 50) d'"
proof -
  have "rs_numeric (ps_redeem demo_open_service) = demo_numeric" by (simp add: demo_open_service_def demo_num)
  then show ?thesis
    using closing_completes_paid_order [OF _ demo_gateway_paid demo_creditable_asked, of OrderStatusPending 50] demo_names_in
    by (simp add: payable_def demo_order_texts)
qed

text \<open>
C29. Late money: for an order that expired more than five minutes ago a notification of the payment is
answered as handled and leaves an audit entry only, while a user who asks for the order then has it
completed, if the gateway reports a trade number that is not stored yet: storing it renews the time of
change the five minutes are counted from. For the credit the recharge code must not be taken, the redeem cache
must let the user through, and the affiliate service must not fail.
\<close>
theorem late_payment_depends_on_who_asks:
  assumes "n_Status n = NotificationStatusSuccess" "n_OrderID n = o_OutTradeNo x" "names (o_OutTradeNo x) d x"
    "o_Status x = OrderStatusExpired" "o_UpdatedAt x < d_clock d - paymentGraceMinutes * minute"
    "notification_check s x (instance_key x d) (n_Amount n) pk (n_Metadata n) = None"
    "gateway_paid s x d prov resp" "creditable s x u (asked prov x d)" "persists (paymentOrderQueryReference x prov) resp x"
    "normalizeOrderLookupOutTradeNo (o_OutTradeNo x) = Inr (o_OutTradeNo x)"
  shows "run_state (HandlePaymentNotification s n pk) (alone d) =
      (Inr (), alone (log_audit (o_ID x) ''PAYMENT_AFTER_EXPIRY'' ''system'' d))
    \<and> (\<exists>y d'. run_state (VerifyOrderByOutTradeNo s (o_OutTradeNo x) (o_UserID x)) (alone d) = (Inr y, alone d')
        \<and> o_Status y = OrderStatusCompleted \<and> completed_for (rs_numeric (ps_redeem s)) x u d d')"
proof -
  note here = names_order [OF assms(3)]
  have ids: "distinct (map o_ID (d_orders d))" and only: "filter (\<lambda>y. o_OutTradeNo y = o_OutTradeNo x) (d_orders d) = [x]"
    using assms(3) by (simp_all add: names_def)
  have late: "\<not> payable (o_ID x) (d_clock d - paymentGraceMinutes * minute) x"
    using assms(4,5) by (simp add: payable_def)
  have "run_state (HandlePaymentNotification s n pk) (alone d) =
      (Inr (), alone (log_audit (o_ID x) ''PAYMENT_AFTER_EXPIRY'' ''system'' d))"
    using quiet_not_payable [OF ids here late] quiet_alreadyProcessed [OF here] assms(2-4,6)
    by (simp add: quiet_notification [OF assms(1)])
  moreover obtain d' where d': "run_state (checkPaidWithOptions s x False) (alone d) = (AlreadyPaid, alone d')"
    "completed_for (rs_numeric (ps_redeem s)) x u d d'"
    using quiet_checkPaid [OF assms(3,7,8), of False] assms(4,9) by blast
  moreover obtain y where "order_of (o_ID x) d' = Some y" "o_Status y = OrderStatusCompleted"
    using d'(2) by (auto simp: completed_for_def)
  ultimately show ?thesis
    using assms(4,10) by (simp add: VerifyOrderByOutTradeNo_def quiet quiet_order_Only [OF only] reconcilePaid_def)
qed

theorem late_payment_depends_on_who_asks_witness:
  "run_state (HandlePaymentNotification demo_open_service demo_note ''alipay'') (alone (demo_db_in OrderStatusExpired (10 ^ 12))) =
      (Inr (), alone (log_audit 1 ''PAYMENT_AFTER_EXPIRY'' ''system'' (demo_db_in OrderStatusExpired (10 ^ 12))))
    \<and> (\<exists>y d'. run_state (VerifyOrderByOutTradeNo demo_open_service ''sub2_a'' 7) (alone (demo_db_in OrderStatusExpired (10 ^ 12)))
        = (Inr y, alone d') \<and> o_Status y = OrderStatusCompleted)"
proof -
  let ?d = "demo_db_in OrderStatusExpired (10 ^ 12)" and ?x = "demo_in OrderStatusExpired"
  have "normalizeOrderLookupOutTradeNo ''sub2_a'' = Inr ''sub2_a''" by code_simp
  moreover have "notification_check demo_open_service ?x (instance_key ?x ?d) (n_Amount demo_note) ''alipay'' (n_Metadata demo_note) = None"
    using demo_gateway_paid [of OrderStatusExpired "10 ^ 12"]
    by (simp add: gateway_paid_def demo_in_key demo_answer_def demo_gateway_def)
  moreover have "names ''sub2_a'' ?d ?x" using demo_names_in by simp
  ultimately show ?thesis
    using late_payment_depends_on_who_asks [of demo_note ?x ?d demo_open_service "''alipay''" demo_gateway demo_answer demo_user]
      demo_gateway_paid demo_creditable_asked demo_persists
    by (auto simp: paymentGraceMinutes_def minute_def)
qed

section \<open>Payment of a failed order\<close>

text \<open>
An order whose creation failed at the gateway is set to failed; when it is paid all the same, a
notification that passes the checks completes and credits it, but the payment is not recorded: paid
amount, trade number and the time of payment stay as they were, so the daily limit does not count it.
\<close>
theorem failed_order_paid_unrecorded:
  assumes "n_Status n = NotificationStatusSuccess" "names (n_OrderID n) d x"
    "notification_check s x (instance_key x d) (n_Amount n) pk (n_Metadata n) = None"
    "o_Status x = OrderStatusFailed" "creditable s x u d"
  shows "\<exists>d' y. run_state (HandlePaymentNotification s n pk) (alone d) = (Inr (), alone d')
    \<and> completed_for (rs_numeric (ps_redeem s)) x u d d' \<and> order_of (o_ID x) d' = Some y
    \<and> o_PaidAt y = o_PaidAt x \<and> o_PayAmount y = o_PayAmount x \<and> o_PaymentTradeNo y = o_PaymentTradeNo x"
proof -
  let ?num = "rs_numeric (ps_redeem s)" and ?t = "d_clock d"
  let ?d1 = "lock_order (o_ID x) d"
  let ?f = "fulfilled ?num x u ?d1"
  note here = names_order [OF assms(2)]
  have ids: "distinct (map o_ID (d_orders d))" using assms(2) by (simp add: names_def)
  have shut: "\<not> payable (o_ID x) (d_clock d - paymentGraceMinutes * minute) x" using assms(4) by (simp add: payable_def)
  have again: "run_state (alreadyProcessed s x) (alone d) = run_state (executeFulfillment s (o_ID x)) (alone d)"
    using here assms(4) by (simp add: alreadyProcessed_def quiet)
  obtain w g as where "run_state (executeFulfillment s (o_ID x)) (alone d) = (Inr (), alone (around_credit w g as ?f))"
    using quiet_executeFulfillment [of x d s u] assms(4,5) here by (auto simp: creditable_def)
  then have run: "run_state (HandlePaymentNotification s n pk) (alone d) = (Inr (), alone (around_credit w g as ?f))"
    by (simp add: quiet_notification [OF assms(1,2)] assms(3) quiet_not_payable [OF ids here shut] again)
  let ?y = "touch ?t (set_status OrderStatusRecharging x)"
  have locked: "order_of (o_ID x) ?d1 = Some ?y"
    using here assms(4) by (simp add: lock_order_def order_of_set in_status_def)
  have other: "order_of j ?d1 = order_of j d" if "j \<noteq> o_ID x" for j
    using that order_of_Some [of j d]
    by (cases "order_of j d") (auto simp: lock_order_def order_of_set in_status_def)
  have final: "order_of (o_ID x) (around_credit w g as ?f) = Some (touch ?t ((set_status OrderStatusCompleted ?y)\<lparr>o_CompletedAt := Some ?t\<rparr>))"
    using fulfilled_order [OF locked, of ?num x u] by (simp add: in_status_def)
  have "completed_for ?num x u d (around_credit w g as ?f)"
    unfolding completed_for_def
    using final fulfilled_user [of x ?d1 u _ ?num] fulfilled_other [of _ x ?num u ?d1] other assms(5)
    by (auto simp: creditable_def floor_balance_def Let_def)
  with run final show ?thesis by (auto simp: set_status_def touch_def)
qed

theorem failed_order_paid_unrecorded_witness:
  "\<exists>d' y. run_state (HandlePaymentNotification demo_open_service demo_note ''alipay'') (alone (demo_db_in OrderStatusFailed 50)) = (Inr (), alone d')
    \<and> order_of 1 d' = Some y \<and> o_Status y = OrderStatusCompleted \<and> o_PaymentTradeNo y = [] \<and> n_TradeNo demo_note = ''t1''"
proof -
  let ?d = "demo_db_in OrderStatusFailed 50" and ?x = "demo_in OrderStatusFailed"
  have "notification_check demo_open_service ?x (instance_key ?x ?d) (n_Amount demo_note) ''alipay'' (n_Metadata demo_note) = None"
    using demo_gateway_paid [of OrderStatusFailed 50]
    by (simp add: gateway_paid_def demo_in_key demo_answer_def demo_gateway_def)
  from failed_order_paid_unrecorded [OF demo_note_sel(4) demo_names_in this _ demo_creditable] show ?thesis
    by (auto simp: completed_for_def demo_order_texts)
qed

end
