(* ===== verification/RefundFacts.thy ===== *)
theory RefundFacts
  imports PayDemo AmountFacts
begin

text \<open>
  Refunds in quiet runs: what a plan is, what its execution does when the gateway pays back and when it
  does not, and where the code falls short.
\<close>

section \<open>Rows of one order and one user\<close>

lemma quiet_order_UpdateOneID:
  assumes "order_of i d = Some x"
  shows "run_state (order_UpdateOneID i f) (alone d) = (Inr (), alone (set_orders (\<lambda>y. o_ID y = i) f d))"
  using order_of_Some [OF assms] by (auto simp: order_UpdateOneID_def quiet_stmt list_ex_iff)

lemma order_of_one:
  assumes "\<And>x. o_ID (f x) = o_ID x" "order_of i d = Some x"
  shows "order_of j (set_orders (\<lambda>y. o_ID y = i) f d) = (if j = i then Some (touch (d_clock d) (f x)) else order_of j d)"
proof (cases "order_of j d")
  case (Some y)
  then have "o_ID y = j" using order_of_Some by blast
  with Some assms(2) show ?thesis by (auto simp: order_of_set [OF assms(1)])
qed (use assms(2) in \<open>auto simp: order_of_set [OF assms(1)]\<close>)

text \<open>The statement of \<open>DeductBalance\<close>.\<close>

definition debit :: "numeric \<Rightarrow> float64 \<Rightarrow> User \<Rightarrow> User" where
  "debit num a u = u\<lparr>u_Balance := u_Balance u + to_column num 8 (f_neg a)\<rparr>"

lemma debit_simps [simp]:
  "u_ID (debit num a u) = u_ID u" "u_Balance (debit num a u) = u_Balance u + to_column num 8 (f_neg a)"
  "u_TotalRecharged (debit num a u) = u_TotalRecharged u"
  by (simp_all add: debit_def)

lemma quiet_DeductBalance:
  assumes "user_of i d = Some u"
  shows "run_state (DeductBalance num i a) (alone d) = (Inr (), alone (set_users i (debit num a) d))"
  unfolding DeductBalance_def debit_def [abs_def] by (rule quiet_user_update [OF assms])

lemma user_of_one:
  assumes "\<And>u. u_ID (g u) = u_ID u" "user_of i d = Some u"
  shows "user_of j (set_users i g d) = (if j = i then Some (g u) else user_of j d)"
proof (cases "user_of j d")
  case (Some v)
  then have "u_ID v = j" using user_of_Some by blast
  with Some assms(2) show ?thesis by (auto simp: user_of_set [OF assms(1)])
qed (use assms(2) in \<open>auto simp: user_of_set [OF assms(1)]\<close>)

lemma set_users_frame [simp]:
  "d_orders (set_users i g d) = d_orders d" "d_clock (set_users i g d) = d_clock d"
  "d_instances (set_users i g d) = d_instances d" "d_outside (set_users i g d) = d_outside d"
  "d_world (set_users i g d) = d_world d" "has_audit j a (set_users i g d) = has_audit j a d"
  by (simp_all add: set_users_def has_audit_def)

section \<open>The gateway\<close>

lemma quiet_getRefundInstance:
  "snd (run_state (getRefundOrderProviderInstance x) (alone d)) = alone d"
  by (simp add: getRefundOrderProviderInstance_def Let_def quiet quiet_snapshot_instance split: option.splits)

definition refund_instance :: "PaymentOrder \<Rightarrow> ('w, 'g) pay_db \<Rightarrow> PaymentProviderInstance option outcome" where
  "refund_instance x d = fst (run_state (getRefundOrderProviderInstance x) (alone d))"

lemma quiet_refund_instance [quiet]:
  "run_state (getRefundOrderProviderInstance x) (alone d) = (refund_instance x d, alone d)"
  using quiet_getRefundInstance [of x d] unfolding refund_instance_def by (metis prod.collapse)

lemma refund_instance_cong: "d_instances d' = d_instances d \<Longrightarrow> refund_instance x d' = refund_instance x d"
  by (simp add: refund_instance_def getRefundOrderProviderInstance_def Let_def quiet
      resolveSnapshotOrderProviderInstance_def split: option.splits)

text \<open>What the gateway answers to a plan; the store changes outside and in the audit log at most.\<close>

definition refund_answer ::
    "('w, 'g) PaymentService \<Rightarrow> 'd decimal_lib \<Rightarrow> RefundPlan \<Rightarrow> ('w, 'g) pay_db \<Rightarrow> unit outcome" where
  "refund_answer s lib p d = fst (run_state (gwRefund s lib p) (alone d))"

lemma quiet_gwRefund:
  "\<exists>as g. run_state (gwRefund s lib p) (alone d) = (refund_answer s lib p d, alone (d\<lparr>d_audits := as, d_outside := g\<rparr>))"
proof -
  have "\<exists>as g. snd (run_state (gwRefund s lib p) (alone d)) = alone (d\<lparr>d_audits := as, d_outside := g\<rparr>)"
  proof -
    have same: "\<exists>as g. d = d\<lparr>d_audits := as, d_outside := g\<rparr>"
      by (rule exI [of _ "d_audits d"], rule exI [of _ "d_outside d"]) simp
    have logged: "\<exists>as g. log_audit i a op d = d\<lparr>d_audits := as, d_outside := g\<rparr>" for i a op
    proof -
      obtain as where "log_audit i a op d = d\<lparr>d_audits := as\<rparr>" using log_audit_ex by blast
      then have "log_audit i a op d = d\<lparr>d_audits := as, d_outside := d_outside d\<rparr>" by simp
      then show ?thesis by blast
    qed
    have asked: "\<exists>as g'. d\<lparr>d_outside := g\<rparr> = d\<lparr>d_audits := as, d_outside := g'\<rparr>" for g
      by (rule exI [of _ "d_audits d"], rule exI [of _ g]) simp
    show ?thesis
      using same logged asked
      by (simp add: gwRefund_def getRefundProvider_def Let_def quiet split: sum.split option.split)
  qed
  then show ?thesis unfolding refund_answer_def by (metis prod.collapse)
qed

lemma refund_answer_cong:
  assumes "d_instances d' = d_instances d" "d_outside d' = d_outside d"
  shows "refund_answer s lib p d' = refund_answer s lib p d"
  using assms(2) refund_instance_cong [OF assms(1)]
  by (simp add: refund_answer_def gwRefund_def getRefundProvider_def Let_def quiet split: sum.split option.split)

section \<open>Execution\<close>

lemma audits_frame [simp]:
  "order_of i (d\<lparr>d_audits := as\<rparr>) = order_of i d" "user_of i (d\<lparr>d_audits := as\<rparr>) = user_of i d"
  by (simp_all add: order_of_def user_of_def)

abbreviation refunding_order :: "RefundPlan \<Rightarrow> int" where
  "refunding_order p \<equiv> o_ID (p_Order p)"

abbreviation refunded_user :: "RefundPlan \<Rightarrow> int" where
  "refunded_user p \<equiv> o_UserID (p_Order p)"

definition locked :: "RefundPlan \<Rightarrow> ('w, 'g) pay_db \<Rightarrow> ('w, 'g) pay_db" where
  "locked p d = set_orders (in_status (refunding_order p) refundable) (set_status OrderStatusRefunding) d"

lemma locked_frame [simp]:
  "d_clock (locked p d) = d_clock d" "user_of j (locked p d) = user_of j d" "d_instances (locked p d) = d_instances d"
  "d_outside (locked p d) = d_outside d" "has_audit j a (locked p d) = has_audit j a d"
  by (simp_all add: locked_def)

lemma locked_order:
  assumes "order_of (refunding_order p) d = Some x" "o_Status x \<in> set refundable"
  shows "order_of j (locked p d) =
    (if j = refunding_order p then Some (touch (d_clock d) (set_status OrderStatusRefunding x)) else order_of j d)"
proof (cases "order_of j d")
  case (Some y)
  then have "o_ID y = j" using order_of_Some by blast
  with Some assms show ?thesis
    by (cases "j = refunding_order p") (auto simp: locked_def order_of_set in_status_def)
qed (use assms(1) in \<open>auto simp: locked_def order_of_set\<close>)

lemma quiet_lock:
  assumes "order_of (refunding_order p) d = Some x" "o_Status x \<in> set refundable"
  shows "\<exists>n. run_state (order_Update (in_status (refunding_order p) refundable) (set_status OrderStatusRefunding)) (alone d) =
    (Inr (Suc n), alone (locked p d))"
proof -
  have "x \<in> set (filter (in_status (refunding_order p) refundable) (d_orders d))"
    using assms order_of_Some [OF assms(1)] by (auto simp: in_status_def list_ex_iff)
  then obtain n where "length (filter (in_status (refunding_order p) refundable) (d_orders d)) = Suc n"
    by (metis gr0_implies_Suc length_pos_if_in_set)
  then show ?thesis by (simp add: quiet locked_def)
qed

text \<open>A plan that takes an amount from the balance.\<close>

definition takes_balance :: "RefundPlan \<Rightarrow> bool" where
  "takes_balance p \<longleftrightarrow> p_DeductionType p = DeductionTypeBalance \<and> f_less (Finite 0) (p_BalanceToDeduct p)"

definition reduced :: "numeric \<Rightarrow> RefundPlan \<Rightarrow> ('w, 'g) pay_db \<Rightarrow> ('w, 'g) pay_db" where
  "reduced num p d = set_users (refunded_user p) (debit num (p_BalanceToDeduct p)) (locked p d)"

lemma quiet_ExecuteRefund:
  assumes "order_of (refunding_order p) d = Some x" "o_Status x \<in> set refundable" "takes_balance p"
    "\<not> has_audit (refunding_order p) ''REFUND_ROLLBACK_FAILED'' d" "user_of (refunded_user p) d = Some u"
  shows "\<exists>as g. run_state (ExecuteRefund s lib p) (alone d) =
    run_state (case refund_answer s lib p d of Inl e \<Rightarrow> handleGwFail s p e | Inr _ \<Rightarrow> markRefundOk s p)
      (alone (reduced (rs_numeric (ps_redeem s)) p d\<lparr>d_audits := as, d_outside := g\<rparr>))"
proof -
  let ?num = "rs_numeric (ps_redeem s)"
  let ?d = "reduced ?num p d"
  obtain n where lock: "run_state (order_Update (in_status (refunding_order p) refundable)
      (set_status OrderStatusRefunding)) (alone d) = (Inr (Suc n), alone (locked p d))"
    using quiet_lock [OF assms(1,2)] by blast
  have user: "user_of (refunded_user p) (locked p d) = Some u" using assms(5) by simp
  have same: "refund_answer s lib p ?d = refund_answer s lib p d"
    by (rule refund_answer_cong) (simp_all add: reduced_def)
  obtain as g where gate: "run_state (gwRefund s lib p) (alone ?d) =
      (refund_answer s lib p d, alone (?d\<lparr>d_audits := as, d_outside := g\<rparr>))"
    using quiet_gwRefund [of s lib p ?d] unfolding same by blast
  have "run_state (deduct_balance s p) (alone (locked p d)) = (Inr p, alone ?d)"
    using assms(3,4) quiet_DeductBalance [OF user]
    by (simp add: deduct_balance_def takes_balance_def quiet reduced_def)
  moreover have "run_state (deduct_subscription s p) (alone ?d) = (Inr p, alone ?d)"
    using assms(3) by (simp add: deduct_subscription_def takes_balance_def)
  ultimately have "run_state (ExecuteRefund s lib p) (alone d) =
      run_state (case refund_answer s lib p d of Inl e \<Rightarrow> handleGwFail s p e | Inr _ \<Rightarrow> markRefundOk s p)
        (alone (?d\<lparr>d_audits := as, d_outside := g\<rparr>))"
    by (simp add: ExecuteRefund_def lock gate)
  then show ?thesis by blast
qed

lemma reduced_rows:
  assumes "order_of (refunding_order p) d = Some x" "o_Status x \<in> set refundable" "user_of (refunded_user p) d = Some u"
  shows "order_of (refunding_order p) (reduced num p d) = Some (touch (d_clock d) (set_status OrderStatusRefunding x))"
    "\<And>j. j \<noteq> refunding_order p \<Longrightarrow> order_of j (reduced num p d) = order_of j d"
    "user_of (refunded_user p) (reduced num p d) = Some (debit num (p_BalanceToDeduct p) u)"
    "\<And>j. j \<noteq> refunded_user p \<Longrightarrow> user_of j (reduced num p d) = user_of j d"
    "d_clock (reduced num p d) = d_clock d"
  using assms(3) by (simp_all add: reduced_def locked_order [OF assms(1,2)] user_of_one [of "debit num (p_BalanceToDeduct p)" _ _ u])

section \<open>The gateway pays back\<close>

lemma quiet_markRefundOk:
  assumes "order_of (refunding_order p) d = Some x"
  shows "\<exists>d' y. run_state (markRefundOk s p) (alone d) = (Inr (Refunded (p_BalanceToDeduct p) (p_SubDaysToDeduct p)), alone d')
    \<and> order_of (refunding_order p) d' = Some y
    \<and> o_Status y = (if f_less (p_RefundAmount p) (o_Amount (p_Order p)) then OrderStatusPartiallyRefunded else OrderStatusRefunded)
    \<and> o_RefundAmount y = stored (rs_numeric (ps_redeem s)) 2 (p_RefundAmount p) \<and> o_RefundAt y = Some (d_clock d)
    \<and> (\<forall>j. j \<noteq> refunding_order p \<longrightarrow> order_of j d' = order_of j d) \<and> (\<forall>j. user_of j d' = user_of j d)"
proof -
  let ?fs = "if f_less (p_RefundAmount p) (o_Amount (p_Order p)) then OrderStatusPartiallyRefunded else OrderStatusRefunded"
  let ?f = "\<lambda>y. (set_status ?fs y)\<lparr>o_RefundAmount := stored (rs_numeric (ps_redeem s)) 2 (p_RefundAmount p),
      o_RefundReason := Some (p_Reason p), o_RefundAt := Some (d_clock d), o_ForceRefund := p_Force p\<rparr>"
  let ?d = "log_audit (refunding_order p) ''REFUND_SUCCESS'' ''admin'' (set_orders (\<lambda>y. o_ID y = refunding_order p) ?f d)"
  have "run_state (markRefundOk s p) (alone d) = (Inr (Refunded (p_BalanceToDeduct p) (p_SubDaysToDeduct p)), alone ?d)"
    by (simp add: markRefundOk_def Let_def quiet quiet_order_UpdateOneID [OF assms])
  moreover have "order_of j ?d = (if j = refunding_order p then Some (touch (d_clock d) (?f x)) else order_of j d)" for j
    by (simp add: order_of_one [OF _ assms])
  ultimately show ?thesis
    by (intro exI [of _ ?d] exI [of _ "touch (d_clock d) (?f x)"]) (simp add: touch_def)
qed

lemma refund_carried_out:
  assumes "order_of (refunding_order p) d = Some x" "o_Status x \<in> set refundable" "takes_balance p"
    "\<not> has_audit (refunding_order p) ''REFUND_ROLLBACK_FAILED'' d" "user_of (refunded_user p) d = Some u"
    "refund_answer s lib p d = Inr ()"
  shows "\<exists>d' y v. run_state (ExecuteRefund s lib p) (alone d) =
        (Inr (Refunded (p_BalanceToDeduct p) (p_SubDaysToDeduct p)), alone d')
    \<and> order_of (refunding_order p) d' = Some y
    \<and> o_Status y = (if f_less (p_RefundAmount p) (o_Amount (p_Order p)) then OrderStatusPartiallyRefunded else OrderStatusRefunded)
    \<and> o_RefundAmount y = stored (rs_numeric (ps_redeem s)) 2 (p_RefundAmount p) \<and> o_RefundAt y = Some (d_clock d)
    \<and> user_of (refunded_user p) d' = Some v
    \<and> u_Balance v = u_Balance u + to_column (rs_numeric (ps_redeem s)) 8 (f_neg (p_BalanceToDeduct p))
    \<and> u_TotalRecharged v = u_TotalRecharged u
    \<and> (\<forall>j. j \<noteq> refunding_order p \<longrightarrow> order_of j d' = order_of j d)
    \<and> (\<forall>j. j \<noteq> refunded_user p \<longrightarrow> user_of j d' = user_of j d)"
proof -
  let ?d = "reduced (rs_numeric (ps_redeem s)) p d"
  note rows = reduced_rows [OF assms(1,2,5), where num = "rs_numeric (ps_redeem s)"]
  obtain as g where run: "run_state (ExecuteRefund s lib p) (alone d) =
      run_state (markRefundOk s p) (alone (?d\<lparr>d_audits := as, d_outside := g\<rparr>))"
    using quiet_ExecuteRefund [OF assms(1-5), of s lib] assms(6) by auto
  have "order_of (refunding_order p) (?d\<lparr>d_audits := as, d_outside := g\<rparr>) =
      Some (touch (d_clock d) (set_status OrderStatusRefunding x))"
    by (simp add: rows)
  from quiet_markRefundOk [OF this, of s] show ?thesis
    unfolding run by (auto simp: rows)
qed

section \<open>The gateway fails\<close>

lemma quiet_restoreStatus:
  assumes "order_of (refunding_order p) d = Some x"
  shows "run_state (restoreStatus p) (alone d) = ((), alone (set_orders (\<lambda>y. o_ID y = refunding_order p)
    (set_status (if o_Status (p_Order p) = OrderStatusRefundRequested then OrderStatusRefundRequested
                 else OrderStatusCompleted)) d))"
  by (simp add: restoreStatus_def Let_def quiet quiet_order_UpdateOneID [OF assms])

definition back_in_status :: "RefundPlan \<Rightarrow> PaymentOrder \<Rightarrow> bool" where
  "back_in_status p y \<longleftrightarrow>
     o_Status y = (if o_Status (p_Order p) = OrderStatusRefundRequested then OrderStatusRefundRequested
                   else OrderStatusCompleted)"

lemma quiet_restored:
  assumes "order_of (refunding_order p) d = Some x"
  shows "\<exists>d' y. run_state (do {
        _ \<leftarrow> restoreStatus p;
        _ \<leftarrow> writeAuditLog (refunding_order p) ''REFUND_GATEWAY_FAILED'' ''admin'';
        ret (Inr (RolledBack e)) }) (alone d) = (Inr (RolledBack e), alone d')
    \<and> order_of (refunding_order p) d' = Some y \<and> back_in_status p y
    \<and> (\<forall>j. j \<noteq> refunding_order p \<longrightarrow> order_of j d' = order_of j d) \<and> (\<forall>j. user_of j d' = user_of j d)"
  by (simp add: quiet_restoreStatus [OF assms] quiet order_of_one [OF _ assms] back_in_status_def touch_def set_status_def)

lemma refund_rolled_back:
  assumes "order_of (refunding_order p) d = Some x" "o_Status x \<in> set refundable" "takes_balance p"
    "\<not> has_audit (refunding_order p) ''REFUND_ROLLBACK_FAILED'' d" "user_of (refunded_user p) d = Some u"
    "refund_answer s lib p d = Inl e"
  shows "\<exists>d' y. run_state (ExecuteRefund s lib p) (alone d) = (Inr (RolledBack e), alone d')
    \<and> order_of (refunding_order p) d' = Some y \<and> back_in_status p y
    \<and> user_of (refunded_user p) d' =
        Some (credit (rs_numeric (ps_redeem s)) (p_BalanceToDeduct p) (debit (rs_numeric (ps_redeem s)) (p_BalanceToDeduct p) u))
    \<and> (\<forall>j. j \<noteq> refunding_order p \<longrightarrow> order_of j d' = order_of j d)
    \<and> (\<forall>j. j \<noteq> refunded_user p \<longrightarrow> user_of j d' = user_of j d)"
proof -
  let ?num = "rs_numeric (ps_redeem s)"
  let ?d = "reduced ?num p d"
  note rows = reduced_rows [OF assms(1,2,5), where num = ?num]
  obtain as g where run: "run_state (ExecuteRefund s lib p) (alone d) =
      run_state (handleGwFail s p e) (alone (?d\<lparr>d_audits := as, d_outside := g\<rparr>))"
    using quiet_ExecuteRefund [OF assms(1-5), of s lib] assms(6) by auto
  let ?e = "?d\<lparr>d_audits := as, d_outside := g\<rparr>"
  let ?r = "set_users (refunded_user p) (credit ?num (p_BalanceToDeduct p)) ?e"
  have user: "user_of (refunded_user p) ?e = Some (debit ?num (p_BalanceToDeduct p) u)" by (simp add: rows)
  have undone: "run_state (RollbackRefund s p) (alone ?e) = (True, alone ?r)"
    using assms(3) by (simp add: RollbackRefund_def takes_balance_def quiet_UpdateBalance [OF user] rollback_subscription_def)
  have "order_of (refunding_order p) ?r = Some (touch (d_clock d) (set_status OrderStatusRefunding x))"
    by (simp add: rows)
  from quiet_restored [OF this, of e] show ?thesis
    unfolding run
    by (auto simp: handleGwFail_def undone rows user_of_one [OF _ user])
qed

text \<open>A refund whose rollback failed before: the reduction is not repeated, and not undone either.\<close>

lemma refund_after_failed_rollback:
  assumes "order_of (refunding_order p) d = Some x" "o_Status x \<in> set refundable" "takes_balance p"
    "has_audit (refunding_order p) ''REFUND_ROLLBACK_FAILED'' d"
    "refund_answer s lib (p\<lparr>p_BalanceToDeduct := Finite 0\<rparr>) d = Inl e"
  shows "\<exists>d' y. run_state (ExecuteRefund s lib p) (alone d) = (Inr (RolledBack e), alone d')
    \<and> order_of (refunding_order p) d' = Some y \<and> back_in_status p y
    \<and> (\<forall>j. user_of j d' = user_of j d)"
proof -
  let ?p = "p\<lparr>p_BalanceToDeduct := Finite 0\<rparr>" and ?d = "locked p d"
  obtain n where lock: "run_state (order_Update (in_status (refunding_order p) refundable)
      (set_status OrderStatusRefunding)) (alone d) = (Inr (Suc n), alone ?d)"
    using quiet_lock [OF assms(1,2)] by blast
  have same: "refund_answer s lib ?p ?d = Inl e"
    using refund_answer_cong [of ?d d s lib ?p] assms(5) by simp
  obtain as g where gate: "run_state (gwRefund s lib ?p) (alone ?d) = (Inl e, alone (?d\<lparr>d_audits := as, d_outside := g\<rparr>))"
    using quiet_gwRefund [of s lib ?p ?d] unfolding same by blast
  let ?e = "?d\<lparr>d_audits := as, d_outside := g\<rparr>"
  have "run_state (deduct_balance s p) (alone ?d) = (Inr ?p, alone ?d)"
    using assms(3,4) by (simp add: deduct_balance_def takes_balance_def quiet)
  moreover have "run_state (deduct_subscription s ?p) (alone ?d) = (Inr ?p, alone ?d)"
    using assms(3) by (simp add: deduct_subscription_def takes_balance_def)
  moreover have "run_state (RollbackRefund s ?p) (alone ?e) = (True, alone ?e)"
    using assms(3) by (simp add: RollbackRefund_def takes_balance_def rollback_subscription_def)
  ultimately have run: "run_state (ExecuteRefund s lib p) (alone d) = run_state (do {
        _ \<leftarrow> restoreStatus ?p;
        _ \<leftarrow> writeAuditLog (refunding_order ?p) ''REFUND_GATEWAY_FAILED'' ''admin'';
        ret (Inr (RolledBack e)) }) (alone ?e)"
    by (simp add: ExecuteRefund_def lock gate handleGwFail_def)
  have "order_of (refunding_order ?p) ?e = Some (touch (d_clock d) (set_status OrderStatusRefunding x))"
    by (simp add: locked_order [OF assms(1,2)])
  from quiet_restored [OF this, of e] show ?thesis
    unfolding run by (auto simp: back_in_status_def)
qed

section \<open>Plans\<close>

lemma quiet_prepDeduct:
  assumes "run_state (prepDeduct s x q force) (alone d) = (Inr p, m)"
  shows "p_Order p = p_Order q \<and> p_RefundAmount p = p_RefundAmount q \<and> p_GatewayAmount p = p_GatewayAmount q
    \<and> (\<exists>w. m = alone (d\<lparr>d_world := w\<rparr>))
    \<and> (p_DeductionType p = DeductionTypeBalance \<longrightarrow> p_DeductionType q \<noteq> DeductionTypeBalance \<longrightarrow>
        (\<exists>u. user_of (o_UserID x) d = Some u
          \<and> p_BalanceToDeduct p = f_min (p_RefundAmount q) (from_column (rs_numeric (ps_redeem s)) 8 (u_Balance u))))"
proof -
  have same: "\<exists>w. d = d\<lparr>d_world := w\<rparr>" by (rule exI [of _ "d_world d"]) simp
  show ?thesis
    using assms same
    by (auto simp: prepDeduct_def Let_def quiet split: if_splits option.splits sum.splits)
qed

lemma quiet_PrepareRefund:
  assumes "run_state (PrepareRefund s lib oid amt reason force deduct) (alone d) = (Inr (Inr p), m)"
  shows "\<exists>x inst. order_of oid d = Some x \<and> p_Order p = x \<and> o_Status x \<in> set refundable
    \<and> refund_instance x d = Inr (Some inst) \<and> pi_RefundEnabled inst
    \<and> refund_amount x amt = Inr (p_RefundAmount p)
    \<and> p_GatewayAmount p =
        calculateGatewayRefundAmount lib (o_Amount x) (o_PayAmount x) (p_RefundAmount p) (PaymentOrderCurrency x)
    \<and> (p_DeductionType p = DeductionTypeBalance \<longrightarrow>
        (\<exists>u. user_of (o_UserID x) d = Some u
          \<and> p_BalanceToDeduct p = f_min (p_RefundAmount p) (from_column (rs_numeric (ps_redeem s)) 8 (u_Balance u))))
    \<and> (\<exists>w. m = alone (d\<lparr>d_world := w\<rparr>))"
proof -
  from assms obtain x where x: "order_of oid d = Some x" "o_Status x \<in> set refundable"
    by (auto simp: PrepareRefund_def quiet split: option.splits if_splits)
  from assms x obtain inst where inst: "refund_instance x d = Inr (Some inst)" "pi_RefundEnabled inst"
    by (auto simp: PrepareRefund_def quiet split: option.splits sum.splits if_splits)
  from assms x inst obtain a where a: "refund_amount x amt = Inr a"
    by (auto simp: PrepareRefund_def quiet split: sum.splits)
  let ?q = "refund_plan lib x a reason force"
  have q: "p_Order ?q = x" "p_RefundAmount ?q = a" "p_DeductionType ?q = DeductionTypeNone"
    "p_GatewayAmount ?q = calculateGatewayRefundAmount lib (o_Amount x) (o_PayAmount x) a (PaymentOrderCurrency x)"
    by (simp_all add: refund_plan_def)
  show ?thesis
  proof (cases deduct)
    case True
    with assms x inst a have "run_state (prepDeduct s x ?q force) (alone d) = (Inr p, m)"
      by (auto simp: PrepareRefund_def quiet split: prod.splits)
    from quiet_prepDeduct [OF this] show ?thesis using x inst a q by auto
  next
    case False
    with assms x inst a have "p = ?q" and m: "m = alone (d\<lparr>d_world := d_world d\<rparr>)"
      by (auto simp: PrepareRefund_def quiet)
    moreover have "\<exists>w. m = alone (d\<lparr>d_world := w\<rparr>)" using m by (rule exI)
    ultimately show ?thesis using x inst a q by simp
  qed
qed

section \<open>Properties\<close>

text \<open>The concrete plan: the whole of a completed order of ten, whose user has ten.\<close>

definition demo_plan :: "PaymentOrder \<Rightarrow> RefundPlan" where
  "demo_plan x =
     \<lparr>p_Order = x, p_RefundAmount = Finite 10, p_GatewayAmount = Finite 10, p_Reason = ''r'', p_Force = False,
      p_DeductionType = DeductionTypeBalance, p_BalanceToDeduct = Finite 10, p_SubDaysToDeduct = 0, p_SubscriptionID = 0\<rparr>"

definition demo_sold :: PaymentOrder where
  "demo_sold = (demo_in OrderStatusCompleted)\<lparr>o_PaymentTradeNo := ''t1''\<rparr>"

definition demo_rich :: "PaymentOrder \<Rightarrow> (nat, unit) pay_db" where
  "demo_rich x = demo_db\<lparr>d_orders := [x], d_users := [demo_user\<lparr>u_Balance := 1000000000\<rparr>]\<rparr>"

lemma demo_rich_rows:
  assumes "o_ID x = 1"
  shows "order_of 1 (demo_rich x) = Some x"
    "user_of 7 (demo_rich x) = Some (demo_user\<lparr>u_Balance := 1000000000\<rparr>)" "\<not> has_audit 1 a (demo_rich x)"
  using assms by (simp_all add: order_of_def user_of_def demo_rich_def demo_user_def has_audit_def demo_db_def)

lemma demo_plan_sel:
  "p_Order (demo_plan x) = x" "p_BalanceToDeduct (demo_plan x) = Finite 10" "takes_balance (demo_plan x)"
  "p_RefundAmount (demo_plan x) = Finite 10"
  by (simp_all add: demo_plan_def takes_balance_def)

lemma demo_sold_sel:
  "o_ID demo_sold = 1" "o_UserID demo_sold = 7" "o_Status demo_sold = OrderStatusCompleted" "o_Amount demo_sold = Finite 10"
  by (simp_all add: demo_sold_def demo_in_def demo_order_def)

lemma demo_unserved:
  "psOrderProviderSnapshot demo_sold = None" "TrimSpace (psStringValue (o_ProviderInstanceID demo_sold)) = []"
  "o_PaymentTradeNo demo_sold = ''t1''"
proof -
  have "TrimSpace [] = []" by code_simp
  then show "TrimSpace (psStringValue (o_ProviderInstanceID demo_sold)) = []"
    by (simp add: demo_sold_def demo_in_def demo_order_def psStringValue_def)
qed (simp_all add: demo_sold_def psOrderProviderSnapshot_def demo_in_def demo_order_def)

lemma demo_one: "Itoa 1 = ''1''"
  by code_simp

lemma demo_debit: "to_column demo_numeric 8 (Finite (- 10)) = - 1000000000"
  by (simp add: demo_numeric_def floor_eq_iff)

text \<open>The same order served by an instance that allows refunds.\<close>

definition demo_refund_order :: PaymentOrder where
  "demo_refund_order = (demo_in OrderStatusCompleted)\<lparr>o_ProviderInstanceID := Some ''3''\<rparr>"

definition demo_refund_db :: "(nat, unit) pay_db" where
  "demo_refund_db = (demo_rich demo_refund_order)\<lparr>d_instances :=
     [\<lparr>pi_ID = 3, pi_ProviderKey = ''alipay'', pi_Config = [], pi_SupportedTypes = ''alipay'', pi_Enabled = True, pi_PaymentMode = [],
       pi_SortOrder = 0, pi_Limits = [], pi_RefundEnabled = True, pi_AllowUserRefund = True\<rparr>]\<rparr>"

lemma demo_prepared:
  "\<exists>p m. run_state (PrepareRefund demo_service rational_decimals 1 (Finite 0) ''why'' False True) (alone demo_refund_db) =
      (Inr (Inr p), m) \<and> p_RefundAmount p = Finite 10"
proof -
  have three: "TrimSpace ''3'' = ''3''" "ParseInt64 ''3'' = Some 3" by code_simp+
  have order: "order_of 1 demo_refund_db = Some demo_refund_order"
    "user_of 7 demo_refund_db = Some (demo_user\<lparr>u_Balance := 1000000000\<rparr>)"
    by (simp_all add: order_of_def user_of_def demo_refund_db_def demo_rich_def demo_refund_order_def demo_db_def demo_user_def)
  have sel: "o_Status demo_refund_order = OrderStatusCompleted" "o_Amount demo_refund_order = Finite 10"
    "o_OrderType demo_refund_order = OrderTypeBalance" "o_UserID demo_refund_order = 7" "o_ID demo_refund_order = 1"
    "o_ProviderInstanceID demo_refund_order = Some ''3''" "psOrderProviderSnapshot demo_refund_order = None"
    by (simp_all add: demo_refund_order_def psOrderProviderSnapshot_def demo_in_def demo_order_def)
  have "\<exists>i. refund_instance demo_refund_order demo_refund_db = Inr (Some i) \<and> pi_RefundEnabled i"
    by (simp add: refund_instance_def getRefundOrderProviderInstance_def sel three psStringValue_def quiet)
      (simp add: demo_refund_db_def)
  moreover have "refund_amount demo_refund_order (Finite 0) = Inr (Finite 10)"
    using binary64_int [of 0]
    by (simp add: refund_amount_def IsNaN_def IsInf_def sel f_sub_def PaymentOrderCurrency_def DefaultPaymentCurrency_def
        cny_tolerance tolerance_value pow2_def)
  ultimately show ?thesis
    by (auto simp: PrepareRefund_def quiet order sel refundable_def prepDeduct_def OrderTypeBalance_def
        OrderTypeSubscription_def refund_plan_def Let_def)
qed

text \<open>
C30. A prepared refund is for an order that is completed, was asked back or failed to be refunded, whose
provider instance allows refunds; its amount exceeds the order's by no more than the tolerance of the
currency, and when it takes from the balance it takes the smaller of that amount and the balance.
Preparing changes no row.
\<close>
theorem refund_plan_bounds:
  assumes "run_state (PrepareRefund s lib oid amt reason force deduct) (alone d) = (Inr (Inr p), m)"
  shows "\<exists>inst. order_of oid d = Some (p_Order p) \<and> o_Status (p_Order p) \<in> set refundable
    \<and> refund_instance (p_Order p) d = Inr (Some inst) \<and> pi_RefundEnabled inst
    \<and> \<not> f_less (paymentAmountToleranceForCurrency (PaymentOrderCurrency (p_Order p)))
          (f_sub (p_RefundAmount p) (o_Amount (p_Order p)))
    \<and> (p_DeductionType p = DeductionTypeBalance \<longrightarrow>
        (\<exists>u. user_of (refunded_user p) d = Some u
          \<and> p_BalanceToDeduct p = f_min (p_RefundAmount p) (from_column (rs_numeric (ps_redeem s)) 8 (u_Balance u))))
    \<and> (\<exists>w. m = alone (d\<lparr>d_world := w\<rparr>))"
  using quiet_PrepareRefund [OF assms] by (auto simp: refund_amount_def Let_def split: if_splits)

theorem refund_plan_bounds_witness:
  "\<exists>p m. run_state (PrepareRefund demo_service rational_decimals 1 (Finite 0) ''why'' False True) (alone demo_refund_db) = (Inr (Inr p), m)
    \<and> p_RefundAmount p = Finite 10
    \<and> \<not> f_less (paymentAmountToleranceForCurrency (PaymentOrderCurrency (p_Order p)))
          (f_sub (p_RefundAmount p) (o_Amount (p_Order p)))"
proof -
  let ?run = "run_state (PrepareRefund demo_service rational_decimals 1 (Finite 0) ''why'' False True) (alone demo_refund_db)"
  obtain p m where p: "?run = (Inr (Inr p), m)" "p_RefundAmount p = Finite 10"
    using demo_prepared by blast
  from refund_plan_bounds [OF p(1)] p show ?thesis by blast
qed

text \<open>
C31. In a quiet run a refund from the balance that the gateway pays back takes the planned amount from the
user once, and leaves the order refunded, in part when the amount is less than the order's; no other
order or user changes.
\<close>
theorem refund_reduces_balance_once:
  assumes "order_of (refunding_order p) d = Some x" "o_Status x \<in> set refundable" "takes_balance p"
    "\<not> has_audit (refunding_order p) ''REFUND_ROLLBACK_FAILED'' d" "user_of (refunded_user p) d = Some u"
    "refund_answer s lib p d = Inr ()"
  shows "\<exists>d' y v. run_state (ExecuteRefund s lib p) (alone d) =
        (Inr (Refunded (p_BalanceToDeduct p) (p_SubDaysToDeduct p)), alone d')
    \<and> order_of (refunding_order p) d' = Some y
    \<and> o_Status y = (if f_less (p_RefundAmount p) (o_Amount (p_Order p)) then OrderStatusPartiallyRefunded else OrderStatusRefunded)
    \<and> o_RefundAmount y = stored (rs_numeric (ps_redeem s)) 2 (p_RefundAmount p) \<and> o_RefundAt y = Some (d_clock d)
    \<and> user_of (refunded_user p) d' = Some v
    \<and> u_Balance v = u_Balance u + to_column (rs_numeric (ps_redeem s)) 8 (f_neg (p_BalanceToDeduct p))
    \<and> (\<forall>j. j \<noteq> refunding_order p \<longrightarrow> order_of j d' = order_of j d)
    \<and> (\<forall>j. j \<noteq> refunded_user p \<longrightarrow> user_of j d' = user_of j d)"
  using refund_carried_out [OF assms] by blast

theorem refund_reduces_balance_once_witness:
  "\<exists>d' y v. run_state (ExecuteRefund demo_service rational_decimals (demo_plan (demo_in OrderStatusCompleted)))
      (alone (demo_rich (demo_in OrderStatusCompleted))) = (Inr (Refunded (Finite 10) 0), alone d')
    \<and> order_of 1 d' = Some y \<and> o_Status y = OrderStatusRefunded \<and> user_of 7 d' = Some v \<and> u_Balance v = 0"
proof -
  let ?x = "demo_in OrderStatusCompleted"
  have "refund_answer demo_service rational_decimals (demo_plan ?x) (demo_rich ?x) = Inr ()"
    by (simp add: refund_answer_def gwRefund_def demo_plan_sel demo_order_texts quiet)
  then show ?thesis
    using refund_reduces_balance_once [of "demo_plan ?x" "demo_rich ?x" ?x _ demo_service rational_decimals]
    by (simp add: demo_rich_rows demo_plan_sel refundable_def demo_num demo_debit) (simp add: demo_plan_def, blast)
qed

text \<open>
A refund the gateway refuses gives the balance back and puts the order back, but the amount given back
is also counted as recharged: the recharged total of the user grows by it though no money came in.
\<close>
theorem failed_refund_counts_as_recharge:
  assumes "order_of (refunding_order p) d = Some x" "o_Status x \<in> set refundable" "takes_balance p"
    "\<not> has_audit (refunding_order p) ''REFUND_ROLLBACK_FAILED'' d" "user_of (refunded_user p) d = Some u"
    "refund_answer s lib p d = Inl e"
    "to_column (rs_numeric (ps_redeem s)) 8 (f_neg (p_BalanceToDeduct p)) =
       - to_column (rs_numeric (ps_redeem s)) 8 (p_BalanceToDeduct p)"
  shows "\<exists>d' y v. run_state (ExecuteRefund s lib p) (alone d) = (Inr (RolledBack e), alone d')
    \<and> order_of (refunding_order p) d' = Some y \<and> back_in_status p y
    \<and> user_of (refunded_user p) d' = Some v \<and> u_Balance v = u_Balance u
    \<and> u_TotalRecharged v = u_TotalRecharged u + to_column (rs_numeric (ps_redeem s)) 8 (p_BalanceToDeduct p)"
  using refund_rolled_back [OF assms(1-6)] assms(3,7) by (auto simp: takes_balance_def credit_def debit_def Let_def)

lemma demo_refused:
  "refund_answer demo_service rational_decimals (demo_plan demo_sold\<lparr>p_BalanceToDeduct := a\<rparr>) d =
     Inl (Wrapped ''get refund provider: '' (Plain ''refund provider instance is unavailable for order 1''))"
proof -
  have "getRefundProvider demo_service demo_sold =
      ret (Inl (Plain ''refund provider instance is unavailable for order 1''))"
    using demo_one by (simp add: getRefundProvider_def getRefundOrderProviderInstance_def demo_unserved demo_sold_sel)
  then show ?thesis
    by (simp add: refund_answer_def gwRefund_def demo_plan_sel demo_unserved quiet)
qed

theorem failed_refund_counts_as_recharge_witness:
  "\<exists>d' y v. run_state (ExecuteRefund demo_service rational_decimals (demo_plan demo_sold)) (alone (demo_rich demo_sold)) =
      (Inr (RolledBack (Wrapped ''get refund provider: ''
        (Plain ''refund provider instance is unavailable for order 1''))), alone d')
    \<and> order_of 1 d' = Some y \<and> o_Status y = OrderStatusCompleted
    \<and> user_of 7 d' = Some v \<and> u_Balance v = 1000000000 \<and> u_TotalRecharged v = 1000000000"
proof -
  have answer: "refund_answer demo_service rational_decimals (demo_plan demo_sold) (demo_rich demo_sold) =
      Inl (Wrapped ''get refund provider: '' (Plain ''refund provider instance is unavailable for order 1''))"
    using demo_refused [of "p_BalanceToDeduct (demo_plan demo_sold)"] by simp
  show ?thesis
    using failed_refund_counts_as_recharge [of "demo_plan demo_sold" "demo_rich demo_sold" demo_sold _ demo_service
        rational_decimals, OF _ _ _ _ _ answer]
    by (simp add: demo_rich_rows demo_plan_sel demo_sold_sel refundable_def demo_num demo_debit demo_column
        back_in_status_def demo_user_def)
qed

text \<open>
When giving back failed once, it is never made up for: the next refund of the order that the gateway
refuses is reported as rolled back and puts the order back to completed, while the balance keeps the
reduction of the first try.
\<close>
theorem failed_rollback_forgotten:
  assumes "order_of (refunding_order p) d = Some x" "o_Status x \<in> set refundable" "takes_balance p"
    "has_audit (refunding_order p) ''REFUND_ROLLBACK_FAILED'' d"
    "refund_answer s lib (p\<lparr>p_BalanceToDeduct := Finite 0\<rparr>) d = Inl e"
  shows "\<exists>d' y. run_state (ExecuteRefund s lib p) (alone d) = (Inr (RolledBack e), alone d')
    \<and> order_of (refunding_order p) d' = Some y \<and> back_in_status p y \<and> (\<forall>j. user_of j d' = user_of j d)"
  by (rule refund_after_failed_rollback [OF assms])

theorem failed_rollback_forgotten_witness:
  "\<exists>e d' y. run_state (ExecuteRefund demo_service rational_decimals (demo_plan demo_sold))
      (alone (add_audit 1 ''REFUND_ROLLBACK_FAILED'' ''admin'' (demo_rich demo_sold))) = (Inr (RolledBack e), alone d')
    \<and> order_of 1 d' = Some y \<and> o_Status y = OrderStatusCompleted
    \<and> user_of 7 d' = Some (demo_user\<lparr>u_Balance := 1000000000\<rparr>)"
proof -
  let ?d = "add_audit 1 ''REFUND_ROLLBACK_FAILED'' ''admin'' (demo_rich demo_sold)"
  have rows: "order_of 1 ?d = Some demo_sold" "user_of 7 ?d = Some (demo_user\<lparr>u_Balance := 1000000000\<rparr>)"
    "has_audit 1 ''REFUND_ROLLBACK_FAILED'' ?d"
    using demo_rich_rows [OF demo_sold_sel(1)] by (simp_all add: add_audit_def has_audit_def)
  show ?thesis
    using failed_rollback_forgotten [of "demo_plan demo_sold" ?d demo_sold demo_service rational_decimals, OF _ _ _ _ demo_refused]
    by (simp add: rows demo_plan_sel demo_sold_sel refundable_def back_in_status_def) (metis rows(2))
qed

end
