(* ===== verification/SubscriptionFacts.thy ===== *)
theory SubscriptionFacts
  imports PayDemo
begin

text \<open>
  The fulfilment of a subscription order: in a quiet run it grants the days once, and a lost statement
  makes a retry grant them again.
\<close>

section \<open>Statements that work, and one that fails\<close>

lemma works:
  "run_state (stmt e f) \<lparr>db = d, sched = (id, Works) # r\<rparr> = (fst (f d), \<lparr>db = snd (f d), sched = r\<rparr>)"
  by (simp add: stmt_def split: prod.splits)

lemma fails_before:
  "run_state (stmt e f) \<lparr>db = d, sched = (id, FailsBefore) # r\<rparr> = (Inl e, \<lparr>db = d, sched = r\<rparr>)"
  by (simp add: stmt_def)

lemma time_anywhere: "run_state time_Now m = (d_clock (db m), m)"
  by (simp add: time_Now_def peek_def)

text \<open>A service whose groups are active and whose grants succeed: \<open>grant_days\<close> is what one does.\<close>

definition granting :: "('w, 'g) PaymentService \<Rightarrow> (int \<Rightarrow> int \<Rightarrow> int \<Rightarrow> 'w \<Rightarrow> 'w) \<Rightarrow> bool" where
  "granting s grant_days \<longleftrightarrow>
     (\<forall>gid w. ps_groupActive s gid w = (Inr True, w))
     \<and> (\<forall>uid gid days note w. AssignOrExtendSubscription (rs_grants (ps_redeem s)) uid gid days note w =
          (Inr (), grant_days uid gid days w))"

text \<open>A subscription order that is ready to be fulfilled.\<close>

definition subscribed :: "PaymentOrder \<Rightarrow> int \<Rightarrow> int \<Rightarrow> bool" where
  "subscribed x gid days \<longleftrightarrow>
     o_OrderType x = OrderTypeSubscription \<and> o_SubscriptionGroupID x = Some gid \<and> o_SubscriptionDays x = Some days"

lemma subscribed_simps [simp]:
  "subscribed (touch t x) gid days = subscribed x gid days" "subscribed (set_status st x) gid days = subscribed x gid days"
  "subscribed (x\<lparr>o_FailedAt := a\<rparr>) gid days = subscribed x gid days"
  "subscribed (x\<lparr>o_FailedReason := r\<rparr>) gid days = subscribed x gid days"
  "subscribed (x\<lparr>o_CompletedAt := a\<rparr>) gid days = subscribed x gid days"
  by (simp_all add: subscribed_def touch_def set_status_def)

lemma world_frame [simp]:
  "order_of i (d\<lparr>d_world := w\<rparr>) = order_of i d" "has_audit i a (d\<lparr>d_world := w\<rparr>) = has_audit i a d"
  by (simp_all add: order_of_def has_audit_def)

lemma rows_of_order:
  assumes "order_of i d = Some x" "o_Status x \<in> set sts"
  shows "filter (in_status i sts) (d_orders d) \<noteq> []"
proof -
  have "x \<in> set (filter (in_status i sts) (d_orders d))"
    using assms order_of_Some [OF assms(1)] by (auto simp: in_status_def list_ex_iff)
  then show ?thesis by (metis empty_iff empty_set)
qed

section \<open>A quiet fulfilment\<close>

definition granted :: "(int \<Rightarrow> int \<Rightarrow> int \<Rightarrow> 'w \<Rightarrow> 'w) \<Rightarrow> PaymentOrder \<Rightarrow> int \<Rightarrow> int \<Rightarrow> ('w, 'g) pay_db \<Rightarrow> ('w, 'g) pay_db" where
  "granted g x gid days d = d\<lparr>d_world := g (o_UserID x) gid days (d_world d)\<rparr>"

definition completed_sub :: "PaymentOrder \<Rightarrow> ('w, 'g) pay_db \<Rightarrow> ('w, 'g) pay_db" where
  "completed_sub x d =
     log_audit (o_ID x) ''SUBSCRIPTION_SUCCESS'' ''system''
       (set_orders (in_status (o_ID x) [OrderStatusRecharging])
          (\<lambda>y. (set_status OrderStatusCompleted y)\<lparr>o_CompletedAt := Some (d_clock d)\<rparr>) d)"

lemma quiet_sub_markCompleted:
  "run_state (markCompleted x ''SUBSCRIPTION_SUCCESS'') (alone d) = (Inr (), alone (completed_sub x d))"
  by (simp add: quiet_markCompleted completed_sub_def)

lemma quiet_subscription:
  assumes "order_of (o_ID x) d = Some x" "o_Status x \<in> {OrderStatusPaid, OrderStatusFailed}" "subscribed x gid days"
    "granting s g" "\<not> has_audit (o_ID x) ''SUBSCRIPTION_SUCCESS'' d"
  shows "run_state (executeFulfillment s (o_ID x)) (alone d) =
    (Inr (), alone (completed_sub x (granted g x gid days (lock_order (o_ID x) d))))"
proof -
  have rows: "filter (in_status (o_ID x) [OrderStatusPaid, OrderStatusFailed]) (d_orders d) \<noteq> []"
    using rows_of_order [OF assms(1), of "[OrderStatusPaid, OrderStatusFailed]"] assms(2) by simp
  have ready: "fulfillable x = Inr True"
    using assms(2) by (auto simp: fulfillable_def)
  have sub: "run_state (doSub s x gid days) (alone (lock_order (o_ID x) d)) =
      (Inr (), alone (completed_sub x (granted g x gid days (lock_order (o_ID x) d))))"
    using assms(4,5) by (simp add: doSub_def quiet granting_def quiet_sub_markCompleted granted_def lock_order_def)
  show ?thesis
    using assms(1,3) rows ready sub
    by (simp add: executeFulfillment_def ExecuteSubscriptionFulfillment_def quiet lock_and_run_def subscribed_def
        lock_order_def [symmetric])
qed

section \<open>A fulfilment whose last statement is lost\<close>

text \<open>The statements that work until the order is to be marked completed.\<close>

definition lost_completion :: "(('d \<Rightarrow> 'd) \<times> fault) list" where
  "lost_completion = [(id, Works), (id, Works), (id, Works), (id, Works), (id, Works), (id, FailsBefore)]"

definition marked_failed :: "int \<Rightarrow> pay_error \<Rightarrow> ('w, 'g) pay_db \<Rightarrow> ('w, 'g) pay_db" where
  "marked_failed i cause d =
     log_audit i ''FULFILLMENT_FAILED'' ''system''
       (set_orders (in_status i [OrderStatusRecharging])
          (\<lambda>x. (set_status OrderStatusFailed x)\<lparr>o_FailedAt := Some (d_clock d), o_FailedReason := Some cause\<rparr>) d)"

lemma quiet_markFailed:
  assumes "order_of i d = Some x" "o_Status x = OrderStatusRecharging"
  shows "run_state (markFailed i cause) (alone d) = ((), alone (marked_failed i cause d))"
  using rows_of_order [OF assms(1), of "[OrderStatusRecharging]"] assms(2)
  by (simp add: markFailed_def quiet marked_failed_def)

lemma lost_fulfilment:
  assumes "order_of (o_ID x) d = Some x" "o_Status x \<in> {OrderStatusPaid, OrderStatusFailed}" "subscribed x gid days"
    "granting s g" "\<not> has_audit (o_ID x) ''SUBSCRIPTION_SUCCESS'' d"
  shows "run_state (ExecuteSubscriptionFulfillment s (o_ID x)) \<lparr>db = d, sched = lost_completion\<rparr> =
    (Inl (Wrapped ''mark completed: '' Unavailable),
     alone (marked_failed (o_ID x) (Wrapped ''mark completed: '' Unavailable)
       (granted g x gid days (lock_order (o_ID x) d))))"
proof -
  let ?e = "Wrapped ''mark completed: '' Unavailable" and ?l = "lock_order (o_ID x) d"
  have ready: "fulfillable x = Inr True"
    using assms(2) by (auto simp: fulfillable_def)
  have rows: "filter (in_status (o_ID x) [OrderStatusPaid, OrderStatusFailed]) (d_orders d) \<noteq> []"
    using rows_of_order [OF assms(1), of "[OrderStatusPaid, OrderStatusFailed]"] assms(2) by simp
  have "run_state (markCompleted x ''SUBSCRIPTION_SUCCESS'')
      \<lparr>db = granted g x gid days ?l, sched = [(id, FailsBefore)]\<rparr> = (Inl ?e, alone (granted g x gid days ?l))"
    by (simp add: markCompleted_def time_anywhere order_Update_def fails_before)
  then have sub: "run_state (doSub s x gid days)
      \<lparr>db = ?l, sched = [(id, Works), (id, Works), (id, Works), (id, FailsBefore)]\<rparr> = (Inl ?e, alone (granted g x gid days ?l))"
    using assms(4,5) by (simp add: doSub_def world_def hasAuditLog_def works granting_def lock_order_def granted_def)
  have status: "o_Status x = OrderStatusPaid \<or> o_Status x = OrderStatusFailed" using assms(2) by simp
  have "order_of (o_ID x) (granted g x gid days ?l) = Some (touch (d_clock d) (set_status OrderStatusRecharging x))"
    using assms(1) status by (auto simp: granted_def lock_order_def order_of_set in_status_def)
  from quiet_markFailed [OF this] show ?thesis
    using assms(1,3) ready rows sub
    by (simp add: ExecuteSubscriptionFulfillment_def order_Get_def works lost_completion_def order_of_def [symmetric]
        subscribed_def lock_and_run_def order_Update_def lock_order_def [symmetric] touch_def)
qed

lemma quiet_retry_subscription:
  assumes "order_of (o_ID x) d = Some x" "o_Status x = OrderStatusFailed" "o_PaidAt x \<noteq> None" "subscribed x gid days"
    "granting s g" "\<not> has_audit (o_ID x) ''SUBSCRIPTION_SUCCESS'' d"
  shows "\<exists>d' y. run_state (RetryFulfillment s (o_ID x)) (alone d) = (Inr (), alone d')
    \<and> d_world d' = g (o_UserID x) gid days (d_world d) \<and> order_of (o_ID x) d' = Some y \<and> o_Status y = OrderStatusCompleted"
proof -
  let ?f = "\<lambda>x. (set_status OrderStatusPaid x)\<lparr>o_FailedAt := None, o_FailedReason := None\<rparr>"
  let ?y = "touch (d_clock d) (?f x)"
  let ?d = "log_audit (o_ID x) ''RECHARGE_RETRY'' ''admin''
      (set_orders (in_status (o_ID x) [OrderStatusFailed, OrderStatusPaid]) ?f d)"
  have y: "o_ID ?y = o_ID x" "o_UserID ?y = o_UserID x" "o_Status ?y = OrderStatusPaid"
    by (simp_all add: touch_def set_status_def)
  have row: "order_of (o_ID ?y) ?d = Some ?y"
    using assms(1,2) by (simp add: y order_of_set in_status_def)
  let ?e = "completed_sub ?y (granted g ?y gid days (lock_order (o_ID ?y) ?d))"
  have run: "run_state (executeFulfillment s (o_ID ?y)) (alone ?d) = (Inr (), alone ?e)"
    by (rule quiet_subscription [OF row]) (use assms(4-6) y in simp_all)
  have "\<exists>z. order_of (o_ID x) ?e = Some z \<and> o_Status z = OrderStatusCompleted"
    using assms(1,2) by (simp add: completed_sub_def granted_def lock_order_def order_of_set in_status_def y touch_def set_status_def)
  moreover have "run_state (RetryFulfillment s (o_ID x)) (alone d) = (Inr (), alone ?e)"
    using run assms(1-3) by (simp add: RetryFulfillment_def quiet y)
  moreover have "d_world ?e = g (o_UserID x) gid days (d_world d)"
    by (simp add: completed_sub_def granted_def lock_order_def y)
  ultimately show ?thesis by blast
qed

section \<open>Properties\<close>

definition demo_subscription :: PaymentOrder where
  "demo_subscription = demo_order\<lparr>o_OrderType := OrderTypeSubscription, o_SubscriptionGroupID := Some 2,
     o_SubscriptionDays := Some 30, o_Status := OrderStatusPaid, o_PaidAt := Some 40\<rparr>"

definition demo_sub_db :: "(nat, unit) pay_db" where
  "demo_sub_db = demo_db\<lparr>d_orders := [demo_subscription]\<rparr>"

lemma demo_sub_order:
  "order_of 1 demo_sub_db = Some demo_subscription" "o_ID demo_subscription = 1" "o_Status demo_subscription = OrderStatusPaid"
  "subscribed demo_subscription 2 30" "o_PaidAt demo_subscription = Some 40" "d_world demo_sub_db = 0"
  "\<not> has_audit 1 a demo_sub_db"
  by (simp_all add: demo_sub_db_def demo_subscription_def order_of_def subscribed_def demo_order_def demo_db_def has_audit_def)

lemma demo_granting: "granting demo_service (\<lambda>_ _ days w. w + nat days)"
  by (simp add: granting_def demo_service_def demo_redeem_def)

text \<open>
C32. A subscription order is extended twice: when the statement that marks the order completed is lost after
the days were granted, no audit entry says that they were, and the retry of the failed order grants
them again.
\<close>
theorem subscription_extended_twice:
  assumes "order_of (o_ID x) d = Some x" "o_Status x = OrderStatusPaid" "o_PaidAt x \<noteq> None" "subscribed x gid days"
    "granting s g" "\<not> has_audit (o_ID x) ''SUBSCRIPTION_SUCCESS'' d"
  shows "\<exists>e d' d'' y.
      run_state (ExecuteSubscriptionFulfillment s (o_ID x)) \<lparr>db = d, sched = lost_completion\<rparr> = (Inl e, alone d')
    \<and> run_state (RetryFulfillment s (o_ID x)) (alone d') = (Inr (), alone d'')
    \<and> d_world d'' = g (o_UserID x) gid days (g (o_UserID x) gid days (d_world d))
    \<and> order_of (o_ID x) d'' = Some y \<and> o_Status y = OrderStatusCompleted"
proof -
  let ?e = "Wrapped ''mark completed: '' Unavailable"
  let ?d = "marked_failed (o_ID x) ?e (granted g x gid days (lock_order (o_ID x) d))"
  let ?x = "touch (d_clock d) ((set_status OrderStatusFailed (touch (d_clock d) (set_status OrderStatusRecharging x)))
      \<lparr>o_FailedAt := Some (d_clock d), o_FailedReason := Some ?e\<rparr>)"
  have x: "o_ID ?x = o_ID x" "o_UserID ?x = o_UserID x" "o_Status ?x = OrderStatusFailed" "o_PaidAt ?x \<noteq> None"
    "subscribed ?x gid days"
    using assms(3,4) by (simp_all add: touch_def set_status_def subscribed_def)
  have first: "run_state (ExecuteSubscriptionFulfillment s (o_ID x)) \<lparr>db = d, sched = lost_completion\<rparr> = (Inl ?e, alone ?d)"
    by (rule lost_fulfilment [OF assms(1) _ assms(4-6)]) (simp add: assms(2))
  have row: "order_of (o_ID ?x) ?d = Some ?x"
    using assms(1,2) by (simp add: x marked_failed_def granted_def lock_order_def order_of_set in_status_def touch_def set_status_def)
  have world: "d_world ?d = g (o_UserID x) gid days (d_world d)" "\<not> has_audit (o_ID ?x) ''SUBSCRIPTION_SUCCESS'' ?d"
    using assms(6) by (simp_all add: marked_failed_def granted_def lock_order_def x)
  show ?thesis
    using first quiet_retry_subscription [OF row x(3,4,5) assms(5) world(2)] unfolding x world by blast
qed

theorem subscription_extended_twice_witness:
  "\<exists>e d' d''. run_state (ExecuteSubscriptionFulfillment demo_service 1) \<lparr>db = demo_sub_db, sched = lost_completion\<rparr> = (Inl e, alone d')
    \<and> run_state (RetryFulfillment demo_service 1) (alone d') = (Inr (), alone d'') \<and> d_world d'' = 60"
  using subscription_extended_twice [of demo_subscription demo_sub_db 2 30 demo_service, OF _ _ _ _ demo_granting]
  by (simp add: demo_sub_order) blast

end
