(* ===== verification/PayWebhook.thy ===== *)
theory PayWebhook
  imports PayLifecycle GoJson
begin

text \<open>
  Callbacks of the gateways: \<open>service/payment_webhook_provider.go\<close> and
  \<open>handler/payment_webhook_handler.go\<close>. A request is what gin hands over, a reply is the status and
  the body that is written. The registry is walked in the order of \<open>types\<close>, which Go leaves open.
\<close>

section \<open>The providers that may verify a callback\<close>

definition GetProviderByKey ::
    "('w, 'g) PaymentService \<Rightarrow> go_string list \<Rightarrow> go_string \<Rightarrow> 'g Provider outcome" where
  "GetProviderByKey s types key =
     (case find (\<lambda>p. prov_ProviderKey p = key) (List.map_filter (ps_registry s) types) of
        None \<Rightarrow> Inl ErrProviderNotFound | Some p \<Rightarrow> Inr p)"

definition getPinnedOrderProvider ::
    "('w, 'g) PaymentService \<Rightarrow> PaymentOrder \<Rightarrow> ('w, 'g, 'g Provider outcome) pay" where
  "getPinnedOrderProvider s o' = do {
     inst \<leftarrow> getOrderProviderInstance o';
     ret (case inst of
       Inl e \<Rightarrow> Inl (Wrapped ''load order provider instance: '' e)
     | Inr None \<Rightarrow> Inl (order_error o' '' provider instance is missing'')
     | Inr (Some p) \<Rightarrow> ps_createProvider s p)
   }"

text \<open>\<open>ORDER BY sort_order\<close>.\<close>

definition by_sort_order :: "PaymentProviderInstance list \<Rightarrow> PaymentProviderInstance list" where
  "by_sort_order = sort_key pi_SortOrder"

definition getEnabledWebhookProvidersByKey ::
    "('w, 'g) PaymentService \<Rightarrow> go_string \<Rightarrow> ('w, 'g, 'g Provider list outcome) pay" where
  "getEnabledWebhookProvidersByKey s providerKey = do {
     c \<leftarrow> instance_All (\<lambda>p. pi_ProviderKey p = TrimSpace providerKey \<and> pi_Enabled p);
     ret (case c of
       Inl e \<Rightarrow> Inl (Wrapped ''query webhook provider instances: '' e)
     | Inr instances \<Rightarrow>
         (case List.map_filter (\<lambda>p. case ps_createProvider s p of Inl _ \<Rightarrow> None | Inr prov \<Rightarrow> Some prov)
                 (by_sort_order instances) of
            [] \<Rightarrow> Inl ErrProviderNotFound | ps \<Rightarrow> Inr ps))
   }"

text \<open>Without an order: the enabled instances of WeChat Pay, else the registry when it is unambiguous.\<close>

definition fallback_providers ::
    "('w, 'g) PaymentService \<Rightarrow> go_string list \<Rightarrow> go_string \<Rightarrow> ('w, 'g, 'g Provider list outcome) pay" where
  "fallback_providers s types providerKey =
     (if TrimSpace providerKey = TypeWxpay then getEnabledWebhookProvidersByKey s providerKey
      else do {
        allowed \<leftarrow> webhookRegistryFallbackAllowed providerKey;
        ret (if \<not> allowed then Inl (Plain (''webhook provider fallback is ambiguous for '' @ providerKey))
             else (case GetProviderByKey s types providerKey of Inl e \<Rightarrow> Inl e | Inr p \<Rightarrow> Inr [p]))
      })"

definition order_providers ::
    "('w, 'g) PaymentService \<Rightarrow> go_string list \<Rightarrow> go_string \<Rightarrow> PaymentOrder
      \<Rightarrow> ('w, 'g, 'g Provider list outcome) pay" where
  "order_providers s types providerKey order =
     (if psHasPinnedProviderInstance order then do {
        c \<leftarrow> getPinnedOrderProvider s order;
        ret (case c of Inl e \<Rightarrow> Inl e | Inr p \<Rightarrow> Inr [p])
      }
      else do {
        inst \<leftarrow> getOrderProviderInstance order;
        case inst of
          Inl e \<Rightarrow> ret (Inl (Wrapped ''load order provider instance: '' e))
        | Inr (Some p) \<Rightarrow> ret (case ps_createProvider s p of Inl e \<Rightarrow> Inl e | Inr prov \<Rightarrow> Inr [prov])
        | Inr None \<Rightarrow> fallback_providers s types providerKey
      })"

definition GetWebhookProviders ::
    "('w, 'g) PaymentService \<Rightarrow> go_string list \<Rightarrow> go_string \<Rightarrow> go_string
      \<Rightarrow> ('w, 'g, 'g Provider list outcome) pay" where
  "GetWebhookProviders s types providerKey outTradeNo =
     (if outTradeNo = [] then fallback_providers s types providerKey
      else do {
        c \<leftarrow> order_Only outTradeNo;
        case c of
          Inr order \<Rightarrow> order_providers s types providerKey order
        | Inl _ \<Rightarrow> fallback_providers s types providerKey
      })"

definition GetWebhookProvider ::
    "('w, 'g) PaymentService \<Rightarrow> go_string list \<Rightarrow> go_string \<Rightarrow> go_string \<Rightarrow> ('w, 'g, 'g Provider outcome) pay" where
  "GetWebhookProvider s types providerKey outTradeNo = do {
     c \<leftarrow> GetWebhookProviders s types providerKey outTradeNo;
     ret (case c of Inl e \<Rightarrow> Inl e | Inr [] \<Rightarrow> Inl ErrProviderNotFound | Inr (p # _) \<Rightarrow> Inr p)
   }"

section \<open>Requests\<close>

text \<open>\<open>url.QueryUnescape\<close> and \<open>url.ParseQuery\<close>; any error makes the handler ignore the values.\<close>

fun QueryUnescape :: "string \<Rightarrow> string option" where
  "QueryUnescape [] = Some []"
| "QueryUnescape (c # s) =
     (if c = CHR ''%'' then
        (case s of
           a # b # r \<Rightarrow>
             if is_hex a \<and> is_hex b then map_option ((#) (char_of (16 * hex_val a + hex_val b))) (QueryUnescape r)
             else None
         | _ \<Rightarrow> None)
      else map_option ((#) (if c = CHR ''+'' then CHR '' '' else c)) (QueryUnescape s))"

definition query_pair :: "string \<Rightarrow> (go_string \<times> go_string) option" where
  "query_pair kv =
     (let k = takeWhile (\<lambda>c. c \<noteq> CHR ''='') kv; v = drop (Suc (length k)) kv in
      if CHR '';'' \<in> set kv then None
      else (case (QueryUnescape k, QueryUnescape v) of (Some k, Some v) \<Rightarrow> Some (k, v) | _ \<Rightarrow> None))"

definition ParseQuery :: "string \<Rightarrow> (go_string \<times> go_string) list option" where
  "ParseQuery s = mapM_opt query_pair (filter (\<lambda>kv. kv \<noteq> []) (Split s CHR ''&''))"

definition dec_airwallex :: "RawMessage \<Rightarrow> go_string option" where
  "dec_airwallex =
     dec_struct (dec_field (\<lambda>old. dec_struct (dec_field (\<lambda>old. dec_struct
       (dec_field dec_string old ''merchant_order_id'') old) old ''object'') old) [] ''data'') []"

definition extractOutTradeNo :: "go_string \<Rightarrow> go_string \<Rightarrow> go_string" where
  "extractOutTradeNo rawBody providerKey =
     (if providerKey = TypeEasyPay \<or> providerKey = TypeAlipay then
        (case ParseQuery rawBody of
           None \<Rightarrow> []
         | Some values \<Rightarrow> (case map_of values ''out_trade_no'' of None \<Rightarrow> [] | Some v \<Rightarrow> v))
      else if providerKey = TypeAirwallex then
        (case dec_airwallex rawBody of None \<Rightarrow> [] | Some v \<Rightarrow> TrimSpace v)
      else [])"

definition maxWebhookBodySize :: nat where
  "maxWebhookBodySize = 2 ^ 20"

text \<open>\<open>wr_Body\<close> is \<open>None\<close> when reading the body fails.\<close>

record WebhookRequest =
  wr_IsGet :: bool
  wr_RawQuery :: go_string
  wr_Body :: "go_string option"
  wr_Headers :: "(go_string \<times> go_string) list"

datatype reply = Reply int go_string

definition to_lower_byte :: "char \<Rightarrow> char" where
  "to_lower_byte c =
     (let n = of_char c :: nat in if 65 \<le> n \<and> n \<le> 90 then char_of (n + 32) else c)"

definition writeSuccessResponse :: "go_string \<Rightarrow> reply" where
  "writeSuccessResponse providerKey =
     (if providerKey = TypeWxpay then
        Reply 200 (jobj [(''code'', jstr ''SUCCESS''), (''message'', jstr (bytes [0xE6, 0x88, 0x90, 0xE5, 0x8A, 0x9F]))])
      else if providerKey = TypeStripe \<or> providerKey = TypeAirwallex then Reply 200 []
      else Reply 200 ''success'')"

fun verifyNotificationWithProviders ::
    "'g Provider list \<Rightarrow> pay_error option \<Rightarrow> go_string \<Rightarrow> (go_string \<times> go_string) list
      \<Rightarrow> ('w, 'g, (go_string \<times> PaymentNotification option) outcome) pay" where
  "verifyNotificationWithProviders [] lastErr rawBody headers =
     ret (Inl (case lastErr of Some e \<Rightarrow> e | None \<Rightarrow> Plain ''no webhook provider could verify notification''))"
| "verifyNotificationWithProviders (p # ps) lastErr rawBody headers = do {
     c \<leftarrow> outside (prov_VerifyNotification p rawBody headers);
     case c of
       Inl e \<Rightarrow> verifyNotificationWithProviders ps (Some e) rawBody headers
     | Inr n \<Rightarrow> ret (Inr (prov_ProviderKey p, n))
   }"

definition handleVerified ::
    "('w, 'g) PaymentService \<Rightarrow> go_string \<times> PaymentNotification option \<Rightarrow> ('w, 'g, reply) pay" where
  "handleVerified s v =
     (case v of
        (key, None) \<Rightarrow> ret (writeSuccessResponse key)
      | (key, Some n) \<Rightarrow> do {
          c \<leftarrow> HandlePaymentNotification s n key;
          ret (case c of
            Inr _ \<Rightarrow> writeSuccessResponse key
          | Inl e \<Rightarrow>
              if errors_Is e ErrOrderNotFound then writeSuccessResponse key else Reply 500 ''handle failed'')
        })"

definition handleNotify ::
    "('w, 'g) PaymentService \<Rightarrow> go_string list \<Rightarrow> WebhookRequest \<Rightarrow> go_string \<Rightarrow> ('w, 'g, reply) pay" where
  "handleNotify s types req providerKey =
     (case (if wr_IsGet req then Some (wr_RawQuery req) else map_option (take maxWebhookBodySize) (wr_Body req)) of
        None \<Rightarrow> ret (Reply 400 ''failed to read body'')
      | Some rawBody \<Rightarrow> do {
          c \<leftarrow> GetWebhookProviders s types providerKey (extractOutTradeNo rawBody providerKey);
          case c of
            Inl _ \<Rightarrow> ret (if providerKey = TypeWxpay then Reply 400 ''verify failed'' else writeSuccessResponse providerKey)
          | Inr providers \<Rightarrow> do {
              v \<leftarrow> verifyNotificationWithProviders providers None rawBody
                     (map (\<lambda>(k, v). (map to_lower_byte k, v)) (wr_Headers req));
              case v of
                Inl _ \<Rightarrow> ret (Reply 400 ''verify failed'')
              | Inr v \<Rightarrow> handleVerified s v
            }
        })"

end
