(* ===== verification/PayMethods.thy ===== *)
theory PayMethods
  imports PayWebhook DecimalText
begin

text \<open>
  Payment methods as the user sees them: which provider instances serve a method
  (\<open>service/payment_visible_method_instances.go\<close> and the sources of \<open>service/payment_resume_service.go\<close>),
  in which currency (\<open>service/payment_currency.go\<close>) and within which limits
  (\<open>service/payment_config_limits.go\<close>). The setting repository is a parameter, as is the decryption of
  configurations that were stored encrypted.
\<close>

section \<open>Sources of a method\<close>

definition NormalizeVisibleMethod :: "go_string \<Rightarrow> go_string" where
  "NormalizeVisibleMethod method = GetBasePaymentType (TrimSpace method)"

text \<open>\<open>strings.ToLower\<close> as far as an ASCII text can come out of it: U+212A and U+0130 become k and i.\<close>

fun ToLower :: "string \<Rightarrow> string" where
  "ToLower (a # b # c # s) =
     (if [a, b, c] = bytes [0xE2, 0x84, 0xAA] then CHR ''k'' # ToLower s
      else if [a, b] = bytes [0xC4, 0xB0] then CHR ''i'' # ToLower (c # s)
      else to_lower_byte a # ToLower (b # c # s))"
| "ToLower [a, b] =
     (if [a, b] = bytes [0xC4, 0xB0] then ''i'' else [to_lower_byte a, to_lower_byte b])"
| "ToLower [a] = [to_lower_byte a]"
| "ToLower [] = []"

definition NormalizeVisibleMethodSource :: "go_string \<Rightarrow> go_string \<Rightarrow> go_string" where
  "NormalizeVisibleMethodSource method source =
     (let m = NormalizeVisibleMethod method; s = TrimSpace (ToLower source) in
      if m = TypeAlipay then
        (if s \<in> {''official_alipay'', TypeAlipay, TypeAlipayDirect, ''official''} then ''official_alipay''
         else if s \<in> {''easypay_alipay'', TypeEasyPay} then ''easypay_alipay'' else [])
      else if m = TypeWxpay then
        (if s \<in> {''official_wxpay'', TypeWxpay, TypeWxpayDirect, ''wechat'', ''official''} then ''official_wxpay''
         else if s \<in> {''easypay_wxpay'', TypeEasyPay} then ''easypay_wxpay'' else [])
      else [])"

definition VisibleMethodProviderKeyForSource :: "go_string \<Rightarrow> go_string \<Rightarrow> go_string \<times> bool" where
  "VisibleMethodProviderKeyForSource method source =
     (let n = NormalizeVisibleMethodSource method source; m = NormalizeVisibleMethod method in
      if n = ''official_alipay'' then (TypeAlipay, m = TypeAlipay)
      else if n = ''easypay_alipay'' then (TypeEasyPay, m = TypeAlipay)
      else if n = ''official_wxpay'' then (TypeWxpay, m = TypeWxpay)
      else if n = ''easypay_wxpay'' then (TypeEasyPay, m = TypeWxpay)
      else ([], False))"

definition visibleMethodSourceSettingKey :: "go_string \<Rightarrow> go_string" where
  "visibleMethodSourceSettingKey method =
     (let m = NormalizeVisibleMethod method in
      if m = TypeAlipay then ''payment_visible_method_alipay_source''
      else if m = TypeWxpay then ''payment_visible_method_wxpay_source'' else [])"

definition bad_source :: "go_string \<Rightarrow> go_string \<Rightarrow> pay_error" where
  "bad_source method rest = BadRequest ''INVALID_PAYMENT_VISIBLE_METHOD_SOURCE'' (method @ rest)"

definition normalizeVisibleMethodSettingSource :: "go_string \<Rightarrow> go_string \<Rightarrow> go_string outcome" where
  "normalizeVisibleMethodSettingSource method source =
     (if TrimSpace source = [] then Inr []
      else if NormalizeVisibleMethodSource method (TrimSpace source) = []
        then Inl (bad_source method '' source must be one of the supported payment providers'')
      else Inr (NormalizeVisibleMethodSource method (TrimSpace source)))"

section \<open>Instances of a method\<close>

definition splitTypes :: "go_string \<Rightarrow> go_string list" where
  "splitTypes s = (if s = [] then [] else filter (\<lambda>p. p \<noteq> []) (map TrimSpace (Split s CHR '','')))"

definition enabledVisibleMethodsForProvider :: "go_string \<Rightarrow> go_string \<Rightarrow> go_string list" where
  "enabledVisibleMethodsForProvider providerKey supportedTypes =
     (let key = TrimSpace providerKey; supported = map NormalizeVisibleMethod (splitTypes supportedTypes);
          own = (\<lambda>t. if TrimSpace supportedTypes = [] \<or> t \<in> set supported then [t] else []);
          found = (if key = TypeAlipay then own TypeAlipay
                   else if key = TypeWxpay then own TypeWxpay
                   else if key = TypeEasyPay then supported else [])
      in filter (\<lambda>t. t \<in> set found) [TypeAlipay, TypeWxpay])"

definition providerSupportsVisibleMethod :: "PaymentProviderInstance \<Rightarrow> go_string \<Rightarrow> bool" where
  "providerSupportsVisibleMethod inst method \<longleftrightarrow>
     pi_Enabled inst
     \<and> NormalizeVisibleMethod method \<in> set (enabledVisibleMethodsForProvider (pi_ProviderKey inst) (pi_SupportedTypes inst))"

definition filterEnabledVisibleMethodInstances ::
    "PaymentProviderInstance list \<Rightarrow> go_string \<Rightarrow> PaymentProviderInstance list" where
  "filterEnabledVisibleMethodInstances instances method =
     filter (\<lambda>inst. providerSupportsVisibleMethod inst method) instances"

definition filterVisibleMethodInstancesByProviderKey ::
    "PaymentProviderInstance list \<Rightarrow> go_string \<Rightarrow> go_string \<Rightarrow> PaymentProviderInstance list" where
  "filterVisibleMethodInstancesByProviderKey instances method providerKey =
     filter (\<lambda>inst. providerSupportsVisibleMethod inst method
               \<and> EqualFold (TrimSpace (pi_ProviderKey inst)) (TrimSpace providerKey)) instances"

text \<open>The keys in the order they are met, the first spelling of each.\<close>

fun distinct_folded :: "go_string list \<Rightarrow> go_string list \<Rightarrow> go_string list" where
  "distinct_folded seen [] = []"
| "distinct_folded seen (k # ks) =
     (if k = [] \<or> ToLower k \<in> set seen then distinct_folded seen ks
      else k # distinct_folded (ToLower k # seen) ks)"

definition distinctVisibleMethodProviderKeys :: "PaymentProviderInstance list \<Rightarrow> go_string list" where
  "distinctVisibleMethodProviderKeys instances =
     distinct_folded [] (map (\<lambda>inst. TrimSpace (pi_ProviderKey inst)) instances)"

definition selectVisibleMethodInstanceByProviderKey ::
    "PaymentProviderInstance list \<Rightarrow> go_string \<Rightarrow> PaymentProviderInstance option" where
  "selectVisibleMethodInstanceByProviderKey instances providerKey =
     (if TrimSpace providerKey = [] then None
      else find (\<lambda>inst. EqualFold (TrimSpace (pi_ProviderKey inst)) (TrimSpace providerKey)) instances)"

text \<open>\<open>GetValue\<close> of the setting repository; \<open>None\<close> is \<open>ErrSettingNotFound\<close>.\<close>

type_synonym 'w setting_repo = "go_string \<Rightarrow> 'w \<Rightarrow> go_string option outcome \<times> 'w"

definition resolveVisibleMethodSourceProviderKey ::
    "'w setting_repo \<Rightarrow> go_string \<Rightarrow> ('w, 'g, go_string outcome) pay" where
  "resolveVisibleMethodSourceProviderKey getValue rawMethod =
     (let method = NormalizeVisibleMethod rawMethod; sourceKey = visibleMethodSourceSettingKey method in do {
        c \<leftarrow> (if sourceKey = [] then ret (Inr None) else world (getValue sourceKey));
        ret (case c of
          Inl e \<Rightarrow> Inl (Wrapped (''get '' @ sourceKey @ '': '') e)
        | Inr v \<Rightarrow>
            (case normalizeVisibleMethodSettingSource method (case v of None \<Rightarrow> [] | Some s \<Rightarrow> s) of
               Inl e \<Rightarrow> Inl e
             | Inr source \<Rightarrow>
                 if source = [] then Inr []
                 else (case VisibleMethodProviderKeyForSource method source of
                         (k, ok) \<Rightarrow> if ok then Inr k
                           else Inl (bad_source method '' source must be one of the supported payment providers''))))
      })"

definition resolveVisibleMethodProviderKey ::
    "'w setting_repo \<Rightarrow> go_string \<Rightarrow> PaymentProviderInstance list \<Rightarrow> ('w, 'g, go_string outcome) pay" where
  "resolveVisibleMethodProviderKey getValue method matching =
     (case distinctVisibleMethodProviderKeys matching of
        [] \<Rightarrow> ret (Inr [])
      | [k] \<Rightarrow> ret (Inr (TrimSpace k))
      | _ \<Rightarrow> do {
          c \<leftarrow> resolveVisibleMethodSourceProviderKey getValue method;
          ret (case c of
            Inl e \<Rightarrow> Inl e
          | Inr k \<Rightarrow>
              if k = [] then Inr []
              else (case selectVisibleMethodInstanceByProviderKey matching k of
                      None \<Rightarrow> Inl (bad_source method '' source has no enabled provider instance'')
                    | Some inst \<Rightarrow> Inr (TrimSpace (pi_ProviderKey inst))))
        })"

text \<open>
  The provider key of the instance that serves a method, \<open>Some []\<close> when several do and none is
  configured, \<open>None\<close> when none does.
\<close>

definition resolveEnabledVisibleMethodInstance ::
    "'w setting_repo \<Rightarrow> go_string \<Rightarrow> ('w, 'g, go_string option outcome) pay" where
  "resolveEnabledVisibleMethodInstance getValue rawMethod =
     (let method = NormalizeVisibleMethod rawMethod in
      if method \<noteq> TypeAlipay \<and> method \<noteq> TypeWxpay then ret (Inr None)
      else do {
        c \<leftarrow> instance_All pi_Enabled;
        case c of
          Inl e \<Rightarrow> ret (Inl (Wrapped ''query enabled payment providers: '' e))
        | Inr instances \<Rightarrow> do {
            let matching = filterEnabledVisibleMethodInstances (by_sort_order instances) method;
            k \<leftarrow> resolveVisibleMethodProviderKey getValue method matching;
            ret (case k of
              Inl e \<Rightarrow> Inl e
            | Inr k \<Rightarrow>
                if k = [] then Inr (if matching = [] then None else Some [])
                else Inr (map_option pi_ProviderKey (selectVisibleMethodInstanceByProviderKey matching k)))
          }
      })"

section \<open>Configurations and currencies\<close>

text \<open>
  A stored configuration is JSON, or was encrypted: \<open>decrypt\<close> is \<open>Decrypt\<close> with the key of the
  process, when it has one of the right size. What cannot be read counts as empty.
\<close>

definition dec_string_map :: "RawMessage \<Rightarrow> (go_string \<times> go_string) list option" where
  "dec_string_map raw =
     Option.bind (unmarshal_object raw)
       (\<lambda>kvs. map_option rev (mapM_opt (\<lambda>(k, v). map_option (Pair k) (dec_string [] v)) kvs))"

definition decryptConfig :: "(go_string \<Rightarrow> go_string option) \<Rightarrow> go_string \<Rightarrow> (go_string \<times> go_string) list" where
  "decryptConfig decrypt st =
     (if st = [] then []
      else (case dec_string_map st of
              Some config \<Rightarrow> config
            | None \<Rightarrow> (case Option.bind (decrypt st) dec_string_map of Some config \<Rightarrow> config | None \<Rightarrow> [])))"

definition config_value :: "(go_string \<times> go_string) list \<Rightarrow> go_string \<Rightarrow> go_string" where
  "config_value config k = (case map_of config k of None \<Rightarrow> [] | Some v \<Rightarrow> v)"

definition paymentProviderConfigCurrency :: "go_string \<Rightarrow> (go_string \<times> go_string) list \<Rightarrow> go_string" where
  "paymentProviderConfigCurrency providerKey cfg =
     (if TrimSpace providerKey = TypeStripe \<or> TrimSpace providerKey = TypeAirwallex then
        (case NormalizePaymentCurrency (config_value cfg ''currency'') of
           Inr currency \<Rightarrow> currency | Inl _ \<Rightarrow> DefaultPaymentCurrency)
      else DefaultPaymentCurrency)"

definition pcInstancePaymentCurrency :: "(go_string \<Rightarrow> go_string option) \<Rightarrow> PaymentProviderInstance \<Rightarrow> go_string" where
  "pcInstancePaymentCurrency decrypt inst =
     paymentProviderConfigCurrency (pi_ProviderKey inst) (decryptConfig decrypt (pi_Config inst))"

text \<open>The currency all instances agree on.\<close>

fun agreed :: "go_string \<Rightarrow> go_string list \<Rightarrow> go_string option" where
  "agreed currency [] = Some (if currency = [] then DefaultPaymentCurrency else currency)"
| "agreed currency (k # ks) =
     (if k = [] then agreed currency ks
      else if currency = [] then agreed k ks
      else if currency \<noteq> k then None
      else agreed currency ks)"

definition pcAggregateMethodCurrency ::
    "(go_string \<Rightarrow> go_string option) \<Rightarrow> PaymentProviderInstance list \<Rightarrow> go_string option" where
  "pcAggregateMethodCurrency decrypt instances = agreed [] (map (pcInstancePaymentCurrency decrypt) instances)"

definition serves_type :: "go_string \<Rightarrow> PaymentProviderInstance \<Rightarrow> bool" where
  "serves_type t inst \<longleftrightarrow>
     (if pi_ProviderKey inst = TypeStripe then t = TypeStripe else t \<in> set (splitTypes (pi_SupportedTypes inst)))"

text \<open>The instances of a type, each once: the entry of \<open>pcGroupByPaymentType\<close>, when there is one.\<close>

definition pcGroupByPaymentType :: "PaymentProviderInstance list \<Rightarrow> go_string \<Rightarrow> PaymentProviderInstance list" where
  "pcGroupByPaymentType instances t = filter (serves_type t) instances"

definition pcApplyEnabledVisibleMethodInstances ::
    "'w setting_repo \<Rightarrow> (go_string \<Rightarrow> PaymentProviderInstance list) \<Rightarrow> PaymentProviderInstance list
      \<Rightarrow> go_string \<Rightarrow> ('w, 'g, go_string \<Rightarrow> PaymentProviderInstance list) pay" where
  "pcApplyEnabledVisibleMethodInstances getValue filtered instances method = do {
     let matching = filterEnabledVisibleMethodInstances instances method;
     c \<leftarrow> resolveVisibleMethodProviderKey getValue method matching;
     ret (case c of
       Inl _ \<Rightarrow> filtered(method := [])
     | Inr k \<Rightarrow>
         filtered(method := (if k = [] then matching else filterVisibleMethodInstancesByProviderKey instances method k)))
   }"

definition has_types :: "PaymentProviderInstance list \<Rightarrow> bool" where
  "has_types instances \<longleftrightarrow>
     list_ex (\<lambda>p. pi_ProviderKey p = TypeStripe \<or> splitTypes (pi_SupportedTypes p) \<noteq> []) instances"

definition ValidateMethodCurrencyConsistency ::
    "'w setting_repo \<Rightarrow> (go_string \<Rightarrow> go_string option) \<Rightarrow> go_string \<Rightarrow> ('w, 'g, go_string outcome) pay" where
  "ValidateMethodCurrencyConsistency getValue decrypt paymentType =
     (let method = NormalizeVisibleMethod paymentType in
      if method = [] then ret (Inr DefaultPaymentCurrency)
      else do {
        c \<leftarrow> instance_All pi_Enabled;
        case c of
          Inl e \<Rightarrow> ret (Inl (Wrapped ''query provider instances: '' e))
        | Inr instances \<Rightarrow> do {
            groups \<leftarrow> (if \<not> has_types instances then ret (pcGroupByPaymentType instances)
                        else do {
                          g \<leftarrow> pcApplyEnabledVisibleMethodInstances getValue (pcGroupByPaymentType instances) instances TypeAlipay;
                          pcApplyEnabledVisibleMethodInstances getValue g instances TypeWxpay
                        });
            ret (if groups method = [] then Inr DefaultPaymentCurrency
                 else (case pcAggregateMethodCurrency decrypt (groups method) of
                         Some currency \<Rightarrow> Inr currency
                       | None \<Rightarrow> Inl (AppErr 503 ''PAYMENT_METHOD_CURRENCY_CONFLICT''
                                  ''payment method has enabled provider instances with mixed currencies'')))
          }
      })"

end
