(* ===== verification/PayBalancer.thy ===== *)
theory PayBalancer
  imports PayMethods "HOL-Library.Word"
begin

text \<open>
  The choice of a provider instance: \<open>payment/load_balancer.go\<close>, the load balancer of visible methods
  in \<open>service/payment_resume_service.go\<close>, and the limits shown to the user
  (\<open>service/payment_config_limits.go\<close>), without the currency and the fee rate of the answer. The
  round-robin counter is memory of the process.
\<close>

section \<open>Limits\<close>

record ChannelLimits =
  cl_DailyLimit :: float64
  cl_SingleMin :: float64
  cl_SingleMax :: float64

definition no_limits :: ChannelLimits where
  "no_limits = \<lparr>cl_DailyLimit = Finite 0, cl_SingleMin = Finite 0, cl_SingleMax = Finite 0\<rparr>"

definition dec_float :: "float64 \<Rightarrow> RawMessage \<Rightarrow> float64 option" where
  "dec_float old raw =
     (case json_scan raw of Some VNull \<Rightarrow> Some old | Some (VNum s) \<Rightarrow> ParseFloat s | _ \<Rightarrow> None)"

definition dec_ChannelLimits :: "RawMessage \<Rightarrow> ChannelLimits option" where
  "dec_ChannelLimits =
     dec_struct (\<lambda>kvs.
       case (dec_field dec_float (Finite 0) ''dailyLimit'' kvs, dec_field dec_float (Finite 0) ''singleMin'' kvs,
             dec_field dec_float (Finite 0) ''singleMax'' kvs) of
         (Some d, Some a, Some b) \<Rightarrow> Some \<lparr>cl_DailyLimit = d, cl_SingleMin = a, cl_SingleMax = b\<rparr>
       | _ \<Rightarrow> None) no_limits"

definition dec_InstanceLimits :: "RawMessage \<Rightarrow> (go_string \<times> ChannelLimits) list option" where
  "dec_InstanceLimits raw =
     Option.bind (unmarshal_object raw)
       (\<lambda>kvs. map_option rev (mapM_opt (\<lambda>(k, v). map_option (Pair k) (dec_ChannelLimits v)) kvs))"

definition legacyVisibleMethodAlias :: "go_string \<Rightarrow> go_string" where
  "legacyVisibleMethodAlias paymentType =
     (let t = normalizeVisibleMethodSupportType paymentType in
      if t = TypeAlipay then TypeAlipayDirect else if t = TypeWxpay then TypeWxpayDirect else [])"

definition getInstanceChannelLimits :: "PaymentProviderInstance \<Rightarrow> go_string \<Rightarrow> ChannelLimits" where
  "getInstanceChannelLimits inst paymentType =
     (if pi_Limits inst = [] then no_limits
      else (case dec_InstanceLimits (pi_Limits inst) of
              None \<Rightarrow> no_limits
            | Some limits \<Rightarrow>
                (let lookupKey = (if pi_ProviderKey inst = ''stripe'' then ''stripe'' else paymentType);
                     aliasKey = legacyVisibleMethodAlias lookupKey
                 in case map_of limits lookupKey of
                      Some cl \<Rightarrow> cl
                    | None \<Rightarrow>
                        if aliasKey = [] then no_limits
                        else (case map_of limits aliasKey of Some cl \<Rightarrow> cl | None \<Rightarrow> no_limits))))"

definition within_limits :: "ChannelLimits \<Rightarrow> float64 \<Rightarrow> float64 \<Rightarrow> bool" where
  "within_limits cl used amount \<longleftrightarrow>
     \<not> (f_less (Finite 0) (cl_SingleMin cl) \<and> f_less amount (cl_SingleMin cl))
     \<and> \<not> (f_less (Finite 0) (cl_SingleMax cl) \<and> f_less (cl_SingleMax cl) amount)
     \<and> \<not> (f_less (Finite 0) (cl_DailyLimit cl) \<and> f_less (cl_DailyLimit cl) (f_add used amount))"

type_synonym instanceCandidate = "PaymentProviderInstance \<times> float64"

definition filterByLimits :: "instanceCandidate list \<Rightarrow> go_string \<Rightarrow> float64 \<Rightarrow> instanceCandidate list" where
  "filterByLimits candidates paymentType orderAmount =
     filter (\<lambda>(inst, used). within_limits (getInstanceChannelLimits inst paymentType) used orderAmount) candidates"

section \<open>The load balancer\<close>

record InstanceSelection =
  sel_InstanceID :: go_string
  sel_ProviderKey :: go_string
  sel_Config :: "(go_string \<times> go_string) list"
  sel_SupportedTypes :: go_string
  sel_PaymentMode :: go_string

text \<open>
  \<open>lb_startOfDay\<close>: midnight of the zone of the process. \<open>lb_counter\<close> and \<open>lb_set_counter\<close>: the atomic
  counter in the memory of the process.
\<close>

record ('w, 'g) LoadBalancer =
  lb_decrypt :: "go_string \<Rightarrow> go_string option"
  lb_startOfDay :: "int \<Rightarrow> int"
  lb_counter :: "'g \<Rightarrow> 64 word"
  lb_set_counter :: "64 word \<Rightarrow> 'g \<Rightarrow> 'g"
  lb_setting :: "'w setting_repo"
  lb_numeric :: numeric

text \<open>A change of memory that is no statement and cannot fail.\<close>

definition in_memory :: "('g \<Rightarrow> 'a \<times> 'g) \<Rightarrow> ('w, 'g, 'a) pay" where
  "in_memory f =
     State (\<lambda>m. case f (d_outside (db m)) of (x, g) \<Rightarrow> (x, m\<lparr>db := (db m)\<lparr>d_outside := g\<rparr>\<rparr>))"

definition resolveWxpayJSAPIAppID :: "(go_string \<times> go_string) list \<Rightarrow> go_string" where
  "resolveWxpayJSAPIAppID config =
     (if TrimSpace (config_value config ''mpAppId'') \<noteq> [] then TrimSpace (config_value config ''mpAppId'')
      else TrimSpace (config_value config ''appId''))"

definition matches_type ::
    "('w, 'g) LoadBalancer \<Rightarrow> go_string \<Rightarrow> go_string \<Rightarrow> PaymentProviderInstance \<Rightarrow> bool" where
  "matches_type lb jsapiAppID paymentType inst \<longleftrightarrow>
     (if paymentType = TypeStripe then pi_ProviderKey inst = TypeStripe
      else InstanceSupportsType (pi_SupportedTypes inst) paymentType
        \<and> (jsapiAppID \<noteq> [] \<and> normalizeVisibleMethodSupportType paymentType = TypeWxpay
             \<and> pi_ProviderKey inst = TypeWxpay
           \<longrightarrow> resolveWxpayJSAPIAppID (decryptConfig (lb_decrypt lb) (pi_Config inst)) = jsapiAppID))"

definition queryEnabledInstances ::
    "('w, 'g) LoadBalancer \<Rightarrow> go_string \<Rightarrow> go_string \<Rightarrow> go_string
      \<Rightarrow> ('w, 'g, PaymentProviderInstance list outcome) pay" where
  "queryEnabledInstances lb jsapiAppID providerKey paymentType = do {
     c \<leftarrow> instance_All (\<lambda>p. pi_Enabled p \<and> (providerKey \<noteq> [] \<longrightarrow> pi_ProviderKey p = providerKey));
     ret (case c of
       Inl e \<Rightarrow> Inl (Wrapped ''query provider instances: '' e)
     | Inr instances \<Rightarrow>
         (case filter (matches_type lb jsapiAppID paymentType) (by_sort_order instances) of
            [] \<Rightarrow> Inl (Plain (''no enabled instance for payment type '' @ paymentType))
          | matched \<Rightarrow> Inr matched))
   }"

text \<open>\<open>SUM(pay_amount)\<close> of an instance: exact in the column, then read as a float.\<close>

definition sum_pay :: "numeric \<Rightarrow> PaymentOrder list \<Rightarrow> float64" where
  "sum_pay num os = from_column num 2 (sum_list (map (\<lambda>x. to_column num 2 (o_PayAmount x)) os))"

definition usage_status :: "OrderStatus list" where
  "usage_status = [OrderStatusPending, OrderStatusPaid, OrderStatusCompleted, OrderStatusRecharging]"

definition attachDailyUsage ::
    "('w, 'g) LoadBalancer \<Rightarrow> PaymentProviderInstance list \<Rightarrow> ('w, 'g, instanceCandidate list) pay" where
  "attachDailyUsage lb instances = do {
     now \<leftarrow> time_Now;
     c \<leftarrow> order_All (\<lambda>x. list_ex (\<lambda>i. o_ProviderInstanceID x = Some (Itoa (pi_ID i))) instances
            \<and> o_Status x \<in> set usage_status \<and> lb_startOfDay lb now \<le> o_CreatedAt x);
     let rows = (case c of Inl _ \<Rightarrow> [] | Inr os \<Rightarrow> os);
     ret (map (\<lambda>i. (i, case filter (\<lambda>x. o_ProviderInstanceID x = Some (Itoa (pi_ID i))) rows of
                          [] \<Rightarrow> Finite 0 | os \<Rightarrow> sum_pay (lb_numeric lb) os)) instances)
   }"

definition StrategyLeastAmount :: go_string where "StrategyLeastAmount = ''least-amount''"

definition pickLeastAmount :: "instanceCandidate \<Rightarrow> instanceCandidate list \<Rightarrow> instanceCandidate" where
  "pickLeastAmount c cs = foldl (\<lambda>best c. if f_less (snd c) (snd best) then c else best) c cs"

definition pickByStrategy ::
    "('w, 'g) LoadBalancer \<Rightarrow> instanceCandidate list \<Rightarrow> go_string \<Rightarrow> ('w, 'g, instanceCandidate) pay" where
  "pickByStrategy lb candidates strategy =
     (if strategy = StrategyLeastAmount \<and> 1 < length candidates
      then ret (pickLeastAmount (hd candidates) (tl candidates))
      else do {
        n \<leftarrow> in_memory (\<lambda>g. let n = lb_counter lb g + 1 in (n, lb_set_counter lb n g));
        ret (candidates ! (unat n mod length candidates))
      })"

definition buildSelection :: "('w, 'g) LoadBalancer \<Rightarrow> PaymentProviderInstance \<Rightarrow> InstanceSelection" where
  "buildSelection lb p =
     \<lparr>sel_InstanceID = Itoa (pi_ID p), sel_ProviderKey = pi_ProviderKey p,
      sel_Config = (if pi_PaymentMode p \<noteq> [] then [(''paymentMode'', pi_PaymentMode p)] else [])
        @ decryptConfig (lb_decrypt lb) (pi_Config p),
      sel_SupportedTypes = pi_SupportedTypes p, sel_PaymentMode = pi_PaymentMode p\<rparr>"

definition SelectInstance ::
    "('w, 'g) LoadBalancer \<Rightarrow> go_string \<Rightarrow> go_string \<Rightarrow> go_string \<Rightarrow> go_string \<Rightarrow> float64
      \<Rightarrow> ('w, 'g, InstanceSelection outcome) pay" where
  "SelectInstance lb jsapiAppID providerKey paymentType strategy orderAmount = do {
     c \<leftarrow> queryEnabledInstances lb jsapiAppID providerKey paymentType;
     case c of
       Inl e \<Rightarrow> ret (Inl e)
     | Inr instances \<Rightarrow> do {
         candidates \<leftarrow> attachDailyUsage lb instances;
         let available = filterByLimits candidates paymentType orderAmount;
         selected \<leftarrow> pickByStrategy lb (if available = [] then candidates else available) strategy;
         ret (Inr (buildSelection lb (fst selected)))
       }
   }"

text \<open>For a visible method the provider is the configured one.\<close>

definition SelectVisibleInstance ::
    "('w, 'g) LoadBalancer \<Rightarrow> go_string \<Rightarrow> go_string \<Rightarrow> go_string \<Rightarrow> go_string \<Rightarrow> float64
      \<Rightarrow> ('w, 'g, InstanceSelection outcome) pay" where
  "SelectVisibleInstance lb jsapiAppID providerKey paymentType strategy orderAmount =
     (let visibleMethod = NormalizeVisibleMethod paymentType in
      if providerKey \<noteq> [] \<or> visibleMethod \<noteq> TypeAlipay \<and> visibleMethod \<noteq> TypeWxpay
      then SelectInstance lb jsapiAppID providerKey paymentType strategy orderAmount
      else do {
        c \<leftarrow> resolveEnabledVisibleMethodInstance (lb_setting lb) visibleMethod;
        case c of
          Inl e \<Rightarrow> ret (Inl e)
        | Inr None \<Rightarrow> ret (Inl (Plain (''visible payment method '' @ visibleMethod @ '' has no enabled provider instance'')))
        | Inr (Some key) \<Rightarrow> SelectInstance lb jsapiAppID key paymentType strategy orderAmount
      })"

section \<open>The limits that are shown\<close>

record MethodLimits =
  ml_PaymentType :: go_string
  ml_DailyLimit :: float64
  ml_SingleMin :: float64
  ml_SingleMax :: float64

definition pcInstanceTypeLimits :: "PaymentProviderInstance \<Rightarrow> go_string \<Rightarrow> ChannelLimits option" where
  "pcInstanceTypeLimits inst pt =
     (if pi_Limits inst = [] then None
      else Option.bind (dec_InstanceLimits (pi_Limits inst)) (\<lambda>limits. map_of limits pt))"

definition unionFloat :: "float64 \<Rightarrow> bool \<Rightarrow> float64 \<Rightarrow> bool \<Rightarrow> float64 \<times> bool" where
  "unionFloat agg limited v wantMin =
     (if v = Finite 0 then (agg, False)
      else if \<not> limited then (agg, False)
      else if agg = Finite 0 then (v, True)
      else if wantMin \<and> f_less v agg then (v, True)
      else if \<not> wantMin \<and> f_less agg v then (v, True)
      else (agg, True))"

fun union_all :: "bool \<Rightarrow> float64 \<times> bool \<Rightarrow> float64 list \<Rightarrow> float64 \<times> bool" where
  "union_all wantMin (agg, limited) [] = (agg, limited)"
| "union_all wantMin (agg, limited) (v # vs) = union_all wantMin (unionFloat agg limited v wantMin) vs"

definition union_value :: "bool \<Rightarrow> float64 list \<Rightarrow> float64" where
  "union_value wantMin vs = (case union_all wantMin (Finite 0, True) vs of (agg, limited) \<Rightarrow> if limited then agg else Finite 0)"

definition pcAggregateMethodLimits :: "go_string \<Rightarrow> PaymentProviderInstance list \<Rightarrow> MethodLimits" where
  "pcAggregateMethodLimits pt instances =
     (case mapM_opt (\<lambda>inst. pcInstanceTypeLimits inst pt) instances of
        None \<Rightarrow> \<lparr>ml_PaymentType = pt, ml_DailyLimit = Finite 0, ml_SingleMin = Finite 0, ml_SingleMax = Finite 0\<rparr>
      | Some cls \<Rightarrow>
          \<lparr>ml_PaymentType = pt, ml_DailyLimit = union_value False (map cl_DailyLimit cls),
           ml_SingleMin = union_value True (map cl_SingleMin cls),
           ml_SingleMax = union_value False (map cl_SingleMax cls)\<rparr>)"

definition pcComputeGlobalRange :: "MethodLimits list \<Rightarrow> float64 \<times> float64" where
  "pcComputeGlobalRange methods =
     (union_value True (map ml_SingleMin methods), union_value False (map ml_SingleMax methods))"

end
