(* ===== verification/PayOrder.thy ===== *)
theory PayOrder
  imports PayBalancer PayAmounts
begin

text \<open>
  The creation of an order: \<open>service/payment_order.go\<close>, with \<open>checkCancelRateLimit\<close> of
  \<open>service/payment_order_lifecycle.go\<close> and the helpers of \<open>service/payment_service.go\<close>. Parameters are
  the settings (\<open>os_config\<close>), plans and groups, the construction of gateways, the WeChat OAuth
  credential and answer, the return URL with its signed token (\<open>service/payment_resume_service.go\<close>),
  calendar and random numbers. The locale of the user is not remembered.
\<close>

section \<open>Data\<close>

record CreateOrderRequest =
  cq_UserID :: int
  cq_Amount :: float64
  cq_PaymentType :: go_string
  cq_OpenID :: go_string
  cq_ClientIP :: go_string
  cq_IsMobile :: bool
  cq_IsWeChatBrowser :: bool
  cq_SrcHost :: go_string
  cq_SrcURL :: go_string
  cq_ReturnURL :: go_string
  cq_OrderType :: go_string
  cq_PlanID :: int

record PaymentConfig =
  pc_Enabled :: bool
  pc_MinAmount :: float64
  pc_MaxAmount :: float64
  pc_DailyLimit :: float64
  pc_OrderTimeoutMin :: int
  pc_MaxPendingOrders :: int
  pc_BalanceDisabled :: bool
  pc_BalanceRechargeMultiplier :: float64
  pc_RechargeFeeRate :: float64
  pc_LoadBalanceStrategy :: go_string
  pc_ProductNamePrefix :: go_string
  pc_ProductNameSuffix :: go_string
  pc_CancelRateLimitEnabled :: bool
  pc_CancelRateLimitMax :: int
  pc_CancelRateLimitWindow :: int
  pc_CancelRateLimitUnit :: go_string
  pc_CancelRateLimitMode :: go_string

record SubscriptionPlan =
  sp_ID :: int
  sp_GroupID :: int
  sp_Price :: float64
  sp_ValidityDays :: int
  sp_ValidityUnit :: go_string
  sp_ForSale :: bool
  sp_Name :: go_string
  sp_ProductName :: go_string

text \<open>The answer to the user; \<open>co_Payment\<close> is what the gateway returned.\<close>

record CreateOrderResponse =
  co_OrderID :: int
  co_Amount :: float64
  co_PayAmount :: float64
  co_FeeRate :: float64
  co_ResultType :: go_string
  co_PaymentType :: go_string
  co_OutTradeNo :: go_string
  co_Payment :: "CreatePaymentResponse option"
  co_ExpiresAt :: int
  co_PaymentMode :: go_string
  co_ResumeToken :: go_string

text \<open>
  \<open>os_group\<close>: whether the group is active and whether it is for subscriptions. \<open>os_IntN\<close>:
  \<open>rand.IntN\<close>. \<open>os_date\<close>: the local date as eight digits. \<open>os_localDay\<close> and \<open>os_addDays\<close>: local
  midnight and \<open>AddDate\<close>. \<open>os_returnURL\<close>: the URL the gateway sends the user back to, and the token.
\<close>

record ('w, 'g, 'd) OrderService =
  os_pay :: "('w, 'g) PaymentService"
  os_lb :: "('w, 'g) LoadBalancer"
  os_decimal :: "'d decimal_lib"
  os_config :: "'w \<Rightarrow> PaymentConfig outcome \<times> 'w"
  os_plan :: "int \<Rightarrow> 'w \<Rightarrow> SubscriptionPlan outcome \<times> 'w"
  os_group :: "int \<Rightarrow> 'w \<Rightarrow> (bool \<times> bool) outcome \<times> 'w"
  os_createProvider :: "go_string \<Rightarrow> go_string \<Rightarrow> (go_string \<times> go_string) list \<Rightarrow> 'g Provider outcome"
  os_wechatAppID :: "'w \<Rightarrow> go_string outcome \<times> 'w"
  os_oauth :: "CreateOrderRequest \<Rightarrow> 'w \<Rightarrow> unit outcome \<times> 'w"
  os_returnURL :: "CreateOrderRequest \<Rightarrow> InstanceSelection \<Rightarrow> PaymentOrder \<Rightarrow> int \<Rightarrow> (go_string \<times> go_string) outcome"
  os_IntN :: "nat \<Rightarrow> 'g \<Rightarrow> nat \<times> 'g"
  os_date :: "int \<Rightarrow> go_string"
  os_localDay :: "int \<Rightarrow> int"
  os_addDays :: "int \<Rightarrow> int \<Rightarrow> int"

abbreviation os_numeric :: "('w, 'g, 'd) OrderService \<Rightarrow> numeric" where
  "os_numeric s \<equiv> rs_numeric (ps_redeem (os_pay s))"

abbreviation ServiceUnavailable :: "go_string \<Rightarrow> go_string \<Rightarrow> pay_error" where
  "ServiceUnavailable \<equiv> AppErr 503"

definition psNilIfEmpty :: "go_string \<Rightarrow> go_string option" where
  "psNilIfEmpty s = (if s = [] then None else Some s)"

definition psComputeValidityDays :: "int \<Rightarrow> go_string \<Rightarrow> int" where
  "psComputeValidityDays days unit =
     (if unit = ''week'' then wrap64 (days * 7) else if unit = ''month'' then wrap64 (days * 30) else days)"

definition day :: int where "day = 24 * 60 * minute"

definition psStartOfDayUTC :: "int \<Rightarrow> int" where
  "psStartOfDayUTC t = t - t mod day"

section \<open>Checks before the order\<close>

definition cancelRateLimitWindowStart :: "('w, 'g, 'd) OrderService \<Rightarrow> PaymentConfig \<Rightarrow> int \<Rightarrow> int" where
  "cancelRateLimitWindowStart s cfg now =
     (let w = (if pc_CancelRateLimitWindow cfg \<le> 0 then 1 else pc_CancelRateLimitWindow cfg);
          unit = (if pc_CancelRateLimitUnit cfg = [] then ''day'' else pc_CancelRateLimitUnit cfg)
      in if pc_CancelRateLimitMode cfg = ''fixed'' then
           (if unit = ''minute'' then now - now mod minute - (w - 1) * minute
            else if unit = ''day'' then os_addDays s (os_localDay s now) (- (w - 1))
            else now - now mod (60 * minute) - (w - 1) * (60 * minute))
         else
           (if unit = ''minute'' then now - w * minute
            else if unit = ''day'' then os_addDays s now (- w)
            else now - w * (60 * minute)))"

definition audit_Count :: "(PaymentAuditLog \<Rightarrow> bool) \<Rightarrow> ('w, 'g, int outcome) pay" where
  "audit_Count p = stmt Unavailable (\<lambda>d. (Inr (int (length (filter p (d_audits d)))), d))"

definition checkCancelRateLimit ::
    "('w, 'g, 'd) OrderService \<Rightarrow> int \<Rightarrow> PaymentConfig \<Rightarrow> ('w, 'g, unit outcome) pay" where
  "checkCancelRateLimit s uid cfg =
     (if \<not> pc_CancelRateLimitEnabled cfg \<or> pc_CancelRateLimitMax cfg \<le> 0 then ret (Inr ())
      else do {
        now \<leftarrow> time_Now;
        c \<leftarrow> audit_Count (\<lambda>a. a_Action a = ''ORDER_CANCELLED'' \<and> a_Operator a = ''user:'' @ Itoa uid
               \<and> cancelRateLimitWindowStart s cfg now \<le> a_CreatedAt a);
        ret (case c of
          Inl _ \<Rightarrow> Inr ()
        | Inr n \<Rightarrow>
            if pc_CancelRateLimitMax cfg \<le> n then Inl (TooManyRequests ''CANCEL_RATE_LIMITED'' ''cancel rate limited'')
            else Inr ())
      })"

definition validateSubOrder ::
    "('w, 'g, 'd) OrderService \<Rightarrow> CreateOrderRequest \<Rightarrow> ('w, 'g, SubscriptionPlan option outcome) pay" where
  "validateSubOrder s req =
     (if cq_PlanID req = 0 then ret (Inl (BadRequest ''INVALID_INPUT'' ''subscription order requires a plan''))
      else do {
        c \<leftarrow> world (os_plan s (cq_PlanID req));
        case c of
          Inl _ \<Rightarrow> ret (Inl (NotFound ''PLAN_NOT_AVAILABLE'' ''plan not found or not for sale''))
        | Inr plan \<Rightarrow>
            if \<not> sp_ForSale plan then ret (Inl (NotFound ''PLAN_NOT_AVAILABLE'' ''plan not found or not for sale''))
            else do {
              g \<leftarrow> world (os_group s (sp_GroupID plan));
              ret (case g of
                Inr (True, subscription) \<Rightarrow>
                  if subscription then Inr (Some plan)
                  else Inl (BadRequest ''GROUP_TYPE_MISMATCH'' ''group is not a subscription type'')
              | _ \<Rightarrow> Inl (NotFound ''GROUP_NOT_FOUND'' ''subscription group is no longer available''))
            }
      })"

definition amount_in_range :: "PaymentConfig \<Rightarrow> float64 \<Rightarrow> unit outcome" where
  "amount_in_range cfg amount =
     (if IsNaN amount \<or> IsInf amount \<or> f_le amount (Finite 0) then
        Inl (BadRequest ''INVALID_AMOUNT'' ''amount must be a positive number'')
      else if f_less (Finite 0) (pc_MinAmount cfg) \<and> f_less amount (pc_MinAmount cfg)
           \<or> f_less (Finite 0) (pc_MaxAmount cfg) \<and> f_less (pc_MaxAmount cfg) amount then
        Inl (BadRequest ''INVALID_AMOUNT'' ''amount out of range'')
      else Inr ())"

definition validateOrderInput ::
    "('w, 'g, 'd) OrderService \<Rightarrow> CreateOrderRequest \<Rightarrow> PaymentConfig
      \<Rightarrow> ('w, 'g, SubscriptionPlan option outcome) pay" where
  "validateOrderInput s req cfg =
     (if cq_OrderType req = OrderTypeBalance \<and> pc_BalanceDisabled cfg then
        ret (Inl (Forbidden ''BALANCE_PAYMENT_DISABLED'' ''balance recharge has been disabled''))
      else if cq_OrderType req = OrderTypeSubscription then validateSubOrder s req
      else ret (case amount_in_range cfg (cq_Amount req) of Inl e \<Rightarrow> Inl e | Inr _ \<Rightarrow> Inr None))"

section \<open>Amounts\<close>

text \<open>The text of an error becomes the message.\<close>

definition bad_amount :: "pay_error \<Rightarrow> pay_error" where
  "bad_amount e = AppText 400 ''INVALID_AMOUNT'' e"

definition validateCreateOrderAmountCurrency :: "'d decimal_lib \<Rightarrow> float64 \<Rightarrow> go_string \<Rightarrow> unit outcome" where
  "validateCreateOrderAmountCurrency lib amount currency =
     (case AmountToMinorUnit lib (FormatFloat amount) currency of Inl e \<Rightarrow> Inl (bad_amount e) | Inr _ \<Rightarrow> Inr ())"

definition calculateCreateOrderPayAmount ::
    "'d decimal_lib \<Rightarrow> float64 \<Rightarrow> float64 \<Rightarrow> go_string \<Rightarrow> (go_string \<times> float64) outcome" where
  "calculateCreateOrderPayAmount lib limitAmount feeRate currency =
     (case validateCreateOrderAmountCurrency lib limitAmount currency of
        Inl e \<Rightarrow> Inl e
      | Inr _ \<Rightarrow>
          (let payAmountStr = CalculatePayAmountForCurrency lib limitAmount feeRate currency in
           case AmountToMinorUnit lib payAmountStr currency of
             Inl e \<Rightarrow> Inl (bad_amount e)
           | Inr _ \<Rightarrow>
               (case ParseFloat payAmountStr of
                  None \<Rightarrow> Inl (BadRequest ''INVALID_AMOUNT'' ''invalid payment amount'')
                | Some payAmount \<Rightarrow> Inr (payAmountStr, payAmount))))"

definition validateSelectedCreateOrderAmountCurrency ::
    "'d decimal_lib \<Rightarrow> go_string \<Rightarrow> InstanceSelection \<Rightarrow> unit outcome" where
  "validateSelectedCreateOrderAmountCurrency lib payAmount sel =
     (case AmountToMinorUnit lib payAmount (paymentProviderConfigCurrency (sel_ProviderKey sel) (sel_Config sel)) of
        Inl e \<Rightarrow> Inl (bad_amount e) | Inr _ \<Rightarrow> Inr ())"

section \<open>The instance\<close>

definition requestNeedsWeChatJSAPICompatibility :: "CreateOrderRequest \<Rightarrow> bool" where
  "requestNeedsWeChatJSAPICompatibility req \<longleftrightarrow>
     GetBasePaymentType (cq_PaymentType req) = TypeWxpay \<and> (cq_IsWeChatBrowser req \<or> TrimSpace (cq_OpenID req) \<noteq> [])"

definition usesOfficialWxpayVisibleMethod :: "('w, 'g, 'd) OrderService \<Rightarrow> ('w, 'g, bool) pay" where
  "usesOfficialWxpayVisibleMethod s = do {
     c \<leftarrow> resolveEnabledVisibleMethodInstance (lb_setting (os_lb s)) TypeWxpay;
     ret (case c of Inr (Some key) \<Rightarrow> key = TypeWxpay | _ \<Rightarrow> False)
   }"

text \<open>The application the selection must fit, empty when any will do.\<close>

definition prepareCreateOrderSelectionContext ::
    "('w, 'g, 'd) OrderService \<Rightarrow> CreateOrderRequest \<Rightarrow> ('w, 'g, go_string outcome) pay" where
  "prepareCreateOrderSelectionContext s req =
     (if \<not> requestNeedsWeChatJSAPICompatibility req then ret (Inr [])
      else do {
        official \<leftarrow> usesOfficialWxpayVisibleMethod s;
        if \<not> official then ret (Inr [])
        else do {
          c \<leftarrow> world (os_wechatAppID s);
          ret (case c of Inl e \<Rightarrow> Inl e | Inr appID \<Rightarrow> Inr (TrimSpace appID))
        }
      })"

definition selectCreateOrderInstance ::
    "('w, 'g, 'd) OrderService \<Rightarrow> CreateOrderRequest \<Rightarrow> PaymentConfig \<Rightarrow> float64
      \<Rightarrow> ('w, 'g, InstanceSelection outcome) pay" where
  "selectCreateOrderInstance s req cfg payAmount = do {
     c \<leftarrow> prepareCreateOrderSelectionContext s req;
     case c of
       Inl e \<Rightarrow> ret (Inl e)
     | Inr jsapiAppID \<Rightarrow> do {
         sel \<leftarrow> SelectVisibleInstance (os_lb s) jsapiAppID [] (cq_PaymentType req) (pc_LoadBalanceStrategy cfg) payAmount;
         ret (case sel of
           Inl _ \<Rightarrow> Inl (ServiceUnavailable ''PAYMENT_GATEWAY_ERROR'' ''method_not_configured'')
         | Inr sel \<Rightarrow> Inr sel)
       }
   }"

definition requiresWeChatJSAPICompatibleSelection :: "CreateOrderRequest \<Rightarrow> InstanceSelection \<Rightarrow> bool" where
  "requiresWeChatJSAPICompatibleSelection req sel \<longleftrightarrow>
     sel_ProviderKey sel = TypeWxpay \<and> requestNeedsWeChatJSAPICompatibility req"

definition validateSelectedCreateOrderInstance ::
    "('w, 'g, 'd) OrderService \<Rightarrow> CreateOrderRequest \<Rightarrow> InstanceSelection \<Rightarrow> ('w, 'g, unit outcome) pay" where
  "validateSelectedCreateOrderInstance s req sel =
     (if \<not> requiresWeChatJSAPICompatibleSelection req sel then ret (Inr ())
      else do {
        c \<leftarrow> world (os_wechatAppID s);
        ret (case c of
          Inl e \<Rightarrow> Inl e
        | Inr expected \<Rightarrow>
            (let selected = resolveWxpayJSAPIAppID (sel_Config sel) in
             if selected = [] \<or> selected \<noteq> expected then
               Inl (TooManyRequests ''NO_AVAILABLE_INSTANCE''
                 ''selected payment instance is not compatible with the current WeChat OAuth app'')
             else Inr ()))
      })"

section \<open>The snapshot\<close>

definition paymentOrderSnapshotWxpayAppID :: "InstanceSelection \<Rightarrow> CreateOrderRequest \<Rightarrow> go_string" where
  "paymentOrderSnapshotWxpayAppID sel req =
     (if TrimSpace (sel_ProviderKey sel) \<noteq> TypeWxpay then []
      else if TrimSpace (cq_OpenID req) \<noteq> [] then TrimSpace (resolveWxpayJSAPIAppID (sel_Config sel))
      else TrimSpace (config_value (sel_Config sel) ''appId''))"

definition entry :: "go_string \<Rightarrow> go_string \<Rightarrow> (go_string \<times> any_value) list" where
  "entry k v = (if v = [] then [] else [(k, AnyString v)])"

definition buildPaymentOrderProviderSnapshot ::
    "InstanceSelection \<Rightarrow> CreateOrderRequest \<Rightarrow> (go_string \<times> any_value) list" where
  "buildPaymentOrderProviderSnapshot sel req =
     (let providerKey = TrimSpace (sel_ProviderKey sel);
          cfg = (\<lambda>k. TrimSpace (config_value (sel_Config sel) k));
          currency = (''currency'', AnyString (paymentProviderConfigCurrency providerKey (sel_Config sel)));
          snapshot =
            (''schema_version'', AnyInt 2)
            # entry ''provider_instance_id'' (TrimSpace (sel_InstanceID sel))
            @ entry ''provider_key'' providerKey
            @ entry ''payment_mode'' (TrimSpace (sel_PaymentMode sel))
            @ (if providerKey = TypeWxpay then
                 entry ''merchant_app_id'' (paymentOrderSnapshotWxpayAppID sel req)
                 @ entry ''merchant_id'' (cfg ''mchId'') @ [(''currency'', AnyString DefaultPaymentCurrency)]
               else if providerKey = TypeAlipay then entry ''merchant_app_id'' (cfg ''appId'')
               else if providerKey = TypeEasyPay then entry ''merchant_id'' (cfg ''pid'')
               else if providerKey = TypeStripe then [currency]
               else if providerKey = TypeAirwallex then entry ''merchant_id'' (cfg ''accountId'') @ [currency]
               else [])
      in if length snapshot = 1 then [] else snapshot)"

section \<open>The transaction\<close>

definition charset :: string where
  "charset = ''abcdefghijklmnopqrstuvwxyzABCDEFGHIJKLMNOPQRSTUVWXYZ0123456789''"

primrec generateRandomString :: "('w, 'g, 'd) OrderService \<Rightarrow> nat \<Rightarrow> ('w, 'g, string) pay" where
  "generateRandomString s 0 = ret []"
| "generateRandomString s (Suc n) = do {
     i \<leftarrow> in_memory (os_IntN s (length charset));
     r \<leftarrow> generateRandomString s n;
     ret (charset ! i # r)
   }"

definition generateOutTradeNo :: "('w, 'g, 'd) OrderService \<Rightarrow> ('w, 'g, go_string) pay" where
  "generateOutTradeNo s = do {
     now \<leftarrow> time_Now;
     r \<leftarrow> generateRandomString s 8;
     ret (orderIDPrefix @ os_date s now @ r)
   }"

primrec allocateOutTradeNo :: "('w, 'g, 'd) OrderService \<Rightarrow> nat \<Rightarrow> ('w, 'g, go_string outcome) pay" where
  "allocateOutTradeNo s 0 = ret (Inl (Plain ''generate unique out_trade_no: exhausted 5 attempts''))"
| "allocateOutTradeNo s (Suc n) = do {
     candidate \<leftarrow> generateOutTradeNo s;
     c \<leftarrow> order_All (\<lambda>x. o_OutTradeNo x = candidate);
     case c of
       Inl e \<Rightarrow> ret (Inl (Wrapped ''check out_trade_no uniqueness: '' e))
     | Inr [] \<Rightarrow> ret (Inr candidate)
     | Inr _ \<Rightarrow> allocateOutTradeNo s n
   }"

definition maxAttempts :: nat where "maxAttempts = 5"

definition defaultMaxPendingOrders :: int where "defaultMaxPendingOrders = 3"

definition defaultOrderTimeoutMin :: int where "defaultOrderTimeoutMin = 30"

definition checkPendingLimit :: "int \<Rightarrow> int \<Rightarrow> ('w, 'g, unit outcome) pay" where
  "checkPendingLimit uid maxOrders = do {
     c \<leftarrow> order_All (\<lambda>x. o_UserID x = uid \<and> o_Status x = OrderStatusPending);
     ret (case c of
       Inl e \<Rightarrow> Inl (Wrapped ''count pending orders: '' e)
     | Inr os \<Rightarrow>
         if (if maxOrders \<le> 0 then defaultMaxPendingOrders else maxOrders) \<le> int (length os)
         then Inl (TooManyRequests ''TOO_MANY_PENDING'' ''too_many_pending'') else Inr ())
   }"

definition spent_status :: "OrderStatus list" where
  "spent_status = [OrderStatusPaid, OrderStatusRecharging, OrderStatusCompleted]"

definition daily_use :: "PaymentOrder list \<Rightarrow> float64" where
  "daily_use os =
     foldl (\<lambda>used x. f_add used (if o_OrderType x = OrderTypeBalance then o_PayAmount x else o_Amount x)) (Finite 0) os"

definition checkDailyLimit :: "int \<Rightarrow> float64 \<Rightarrow> float64 \<Rightarrow> ('w, 'g, unit outcome) pay" where
  "checkDailyLimit uid amount limit =
     (if f_le limit (Finite 0) then ret (Inr ())
      else do {
        now \<leftarrow> time_Now;
        c \<leftarrow> order_All (\<lambda>x. o_UserID x = uid \<and> o_Status x \<in> set spent_status
               \<and> (case o_PaidAt x of None \<Rightarrow> False | Some t \<Rightarrow> psStartOfDayUTC now \<le> t));
        ret (case c of
          Inl e \<Rightarrow> Inl (Wrapped ''query daily usage: '' e)
        | Inr os \<Rightarrow>
            if f_less limit (f_add (daily_use os) amount)
            then Inl (TooManyRequests ''DAILY_LIMIT_EXCEEDED'' ''daily_limit_exceeded'') else Inr ())
      })"

definition pending_order ::
    "CreateOrderRequest \<Rightarrow> SubscriptionPlan option \<Rightarrow> float64 \<Rightarrow> float64 \<Rightarrow> InstanceSelection \<Rightarrow> go_string
      \<Rightarrow> int \<Rightarrow> PaymentOrder" where
  "pending_order req plan orderAmount payAmount sel outTradeNo expires =
     \<lparr>o_ID = 0, o_UserID = cq_UserID req, o_Amount = orderAmount, o_PayAmount = payAmount, o_RechargeCode = [],
      o_OutTradeNo = outTradeNo, o_PaymentType = cq_PaymentType req, o_PaymentTradeNo = [],
      o_OrderType = cq_OrderType req, o_SubscriptionGroupID = map_option sp_GroupID plan,
      o_SubscriptionDays = map_option (\<lambda>p. psComputeValidityDays (sp_ValidityDays p) (sp_ValidityUnit p)) plan,
      o_ProviderInstanceID = psNilIfEmpty (TrimSpace (sel_InstanceID sel)),
      o_ProviderKey = psNilIfEmpty (TrimSpace (sel_ProviderKey sel)),
      o_ProviderSnapshot = buildPaymentOrderProviderSnapshot sel req, o_Status = OrderStatusPending,
      o_RefundAmount = Finite 0, o_RefundReason = None, o_RefundAt = None, o_ForceRefund = False,
      o_RefundRequestedAt = None, o_RefundRequestReason = None, o_RefundRequestedBy = None, o_ExpiresAt = expires,
      o_PaidAt = None, o_CompletedAt = None, o_FailedAt = None, o_FailedReason = None, o_CreatedAt = 0,
      o_UpdatedAt = 0\<rparr>"

definition recharge_code_text :: "int \<Rightarrow> int \<Rightarrow> go_string" where
  "recharge_code_text oid now = ''PAY-'' @ Itoa oid @ ''-'' @ Itoa (now mod 100000)"

definition insert_order ::
    "('w, 'g, 'd) OrderService \<Rightarrow> PaymentOrder \<Rightarrow> ('w, 'g, PaymentOrder outcome) pay" where
  "insert_order s row = do {
     c \<leftarrow> order_Create (os_numeric s) row;
     case c of
       Inl e \<Rightarrow> ret (Inl (Wrapped ''create order: '' e))
     | Inr order \<Rightarrow> do {
         now \<leftarrow> time_Now;
         c \<leftarrow> order_Save (o_ID order) (\<lambda>x. x\<lparr>o_RechargeCode := recharge_code_text (o_ID order) now\<rparr>);
         ret (case c of Inl e \<Rightarrow> Inl (Wrapped ''set recharge code: '' e) | Inr order \<Rightarrow> Inr order)
       }
   }"

definition create_body ::
    "('w, 'g, 'd) OrderService \<Rightarrow> CreateOrderRequest \<Rightarrow> SubscriptionPlan option \<Rightarrow> PaymentConfig
      \<Rightarrow> float64 \<Rightarrow> float64 \<Rightarrow> float64 \<Rightarrow> InstanceSelection \<Rightarrow> ('w, 'g, PaymentOrder outcome) pay" where
  "create_body s req plan cfg orderAmount limitAmount payAmount sel = do {
     c \<leftarrow> checkPendingLimit (cq_UserID req) (pc_MaxPendingOrders cfg);
     case c of
       Inl e \<Rightarrow> ret (Inl e)
     | Inr _ \<Rightarrow> do {
         c \<leftarrow> checkDailyLimit (cq_UserID req) limitAmount (pc_DailyLimit cfg);
         case c of
           Inl e \<Rightarrow> ret (Inl e)
         | Inr _ \<Rightarrow> do {
             let tm = (if pc_OrderTimeoutMin cfg \<le> 0 then defaultOrderTimeoutMin else pc_OrderTimeoutMin cfg);
             now \<leftarrow> time_Now;
             c \<leftarrow> allocateOutTradeNo s maxAttempts;
             case c of
               Inl e \<Rightarrow> ret (Inl e)
             | Inr outTradeNo \<Rightarrow>
                 insert_order s (pending_order req plan orderAmount payAmount sel outTradeNo (now + tm * minute))
           }
       }
   }"

definition createOrderInTx ::
    "('w, 'g, 'd) OrderService \<Rightarrow> CreateOrderRequest \<Rightarrow> SubscriptionPlan option \<Rightarrow> PaymentConfig
      \<Rightarrow> float64 \<Rightarrow> float64 \<Rightarrow> float64 \<Rightarrow> InstanceSelection \<Rightarrow> ('w, 'g, PaymentOrder outcome) pay" where
  "createOrderInTx s req plan cfg orderAmount limitAmount payAmount sel =
     Tx ''begin transaction: '' ''commit order transaction: ''
       (create_body s req plan cfg orderAmount limitAmount payAmount sel)"

section \<open>The gateway\<close>

definition hasPaymentProductNameAffix :: "PaymentConfig \<Rightarrow> bool" where
  "hasPaymentProductNameAffix cfg \<longleftrightarrow>
     TrimSpace (pc_ProductNamePrefix cfg) \<noteq> [] \<or> TrimSpace (pc_ProductNameSuffix cfg) \<noteq> []"

definition applyPaymentProductNameAffix :: "go_string \<Rightarrow> PaymentConfig \<Rightarrow> go_string" where
  "applyPaymentProductNameAffix productName cfg =
     (if \<not> hasPaymentProductNameAffix cfg then productName
      else TrimSpace (TrimSpace (pc_ProductNamePrefix cfg) @ '' '' @ productName @ '' '' @ TrimSpace (pc_ProductNameSuffix cfg)))"

definition buildPaymentSubject ::
    "'d decimal_lib \<Rightarrow> SubscriptionPlan option \<Rightarrow> float64 \<Rightarrow> PaymentConfig \<Rightarrow> InstanceSelection \<Rightarrow> go_string" where
  "buildPaymentSubject lib plan limitAmount cfg sel =
     (case plan of
        Some p \<Rightarrow>
          applyPaymentProductNameAffix
            (if sp_ProductName p = [] then ''Sub2API Subscription '' @ sp_Name p else sp_ProductName p) cfg
      | None \<Rightarrow>
          (let currency = paymentProviderConfigCurrency (sel_ProviderKey sel) (sel_Config sel);
               amountStr = FormatAmountForCurrency lib limitAmount currency
           in if hasPaymentProductNameAffix cfg then applyPaymentProductNameAffix amountStr cfg
              else ''Sub2API '' @ amountStr @ '' '' @ currency))"

definition buildProviderCreatePaymentRequest ::
    "CreateOrderRequest \<Rightarrow> go_string \<Rightarrow> InstanceSelection \<Rightarrow> go_string \<Rightarrow> go_string \<Rightarrow> go_string
      \<Rightarrow> CreatePaymentRequest" where
  "buildProviderCreatePaymentRequest req returnURL sel orderID amount subject =
     \<lparr>cp_OrderID = orderID, cp_Amount = amount, cp_PaymentType = cq_PaymentType req, cp_Subject = subject,
      cp_ReturnURL = returnURL, cp_OpenID = TrimSpace (cq_OpenID req), cp_ClientIP = cq_ClientIP req,
      cp_IsMobile = cq_IsMobile req, cp_InstanceSubMethods = sel_SupportedTypes sel\<rparr>"

text \<open>\<open>errors.As\<close> for an application error, and the text of the errors that are not.\<close>

fun as_app_error :: "pay_error \<Rightarrow> pay_error option" where
  "as_app_error (AppErr c r m) = Some (AppErr c r m)"
| "as_app_error (AppText c r e) = Some (AppText c r e)"
| "as_app_error (Wrapped p e) = as_app_error e"
| "as_app_error _ = None"

fun plain_text :: "pay_error \<Rightarrow> go_string" where
  "plain_text (Plain s) = s"
| "plain_text (Wrapped p e) = p @ plain_text e"
| "plain_text _ = []"

definition has_text :: "go_string \<Rightarrow> go_string \<Rightarrow> bool" where
  "has_text s t \<longleftrightarrow> list_ex (\<lambda>i. HasPrefix (drop i s) t) [0..<Suc (length s)]"

definition classifyCreatePaymentError :: "CreateOrderRequest \<Rightarrow> go_string \<Rightarrow> pay_error \<Rightarrow> pay_error" where
  "classifyCreatePaymentError req providerKey e =
     (if providerKey = TypeWxpay \<and> GetBasePaymentType (cq_PaymentType req) = TypeWxpay
         \<and> has_text (plain_text e) ''wxpay h5 payments are not authorized for this merchant''
      then ServiceUnavailable ''WECHAT_H5_NOT_AUTHORIZED'' ''wechat h5 payment is not available for this merchant''
      else AppText 503 ''PAYMENT_GATEWAY_ERROR'' (Wrapped ''payment gateway error: '' e))"

definition set_payment_details :: "CreatePaymentResponse \<Rightarrow> InstanceSelection \<Rightarrow> PaymentOrder \<Rightarrow> PaymentOrder" where
  "set_payment_details pr sel x =
     (let x = (if cr_TradeNo pr = [] then x else x\<lparr>o_PaymentTradeNo := cr_TradeNo pr\<rparr>);
          x = (if sel_InstanceID sel = [] then x else x\<lparr>o_ProviderInstanceID := Some (sel_InstanceID sel)\<rparr>)
      in if sel_ProviderKey sel = [] then x else x\<lparr>o_ProviderKey := Some (sel_ProviderKey sel)\<rparr>)"

definition CreatePaymentResultOrderCreated :: go_string where
  "CreatePaymentResultOrderCreated = ''order_created''"

definition buildCreateOrderResponse ::
    "numeric \<Rightarrow> PaymentOrder \<Rightarrow> CreateOrderRequest \<Rightarrow> float64 \<Rightarrow> float64 \<Rightarrow> InstanceSelection
      \<Rightarrow> CreatePaymentResponse \<Rightarrow> go_string \<Rightarrow> CreateOrderResponse" where
  "buildCreateOrderResponse num order req feeRate payAmount sel pr token =
     \<lparr>co_OrderID = o_ID order, co_Amount = o_Amount order, co_PayAmount = payAmount, co_FeeRate = stored num 4 feeRate,
      co_ResultType = (if cr_ResultType pr = [] then CreatePaymentResultOrderCreated else cr_ResultType pr),
      co_PaymentType = cq_PaymentType req, co_OutTradeNo = o_OutTradeNo order, co_Payment = Some pr,
      co_ExpiresAt = o_ExpiresAt order, co_PaymentMode = sel_PaymentMode sel, co_ResumeToken = token\<rparr>"

definition invokeProvider ::
    "('w, 'g, 'd) OrderService \<Rightarrow> PaymentOrder \<Rightarrow> CreateOrderRequest \<Rightarrow> PaymentConfig \<Rightarrow> float64 \<Rightarrow> go_string
      \<Rightarrow> float64 \<Rightarrow> SubscriptionPlan option \<Rightarrow> InstanceSelection \<Rightarrow> ('w, 'g, CreateOrderResponse outcome) pay" where
  "invokeProvider s order req cfg limitAmount payAmountStr payAmount plan sel =
     (case os_createProvider s (sel_ProviderKey sel) (sel_InstanceID sel) (sel_Config sel) of
        Inl e \<Rightarrow>
          ret (Inl (case as_app_error e of
                      Some a \<Rightarrow> a
                    | None \<Rightarrow> ServiceUnavailable ''PAYMENT_PROVIDER_MISCONFIGURED'' ''provider_misconfigured''))
      | Inr prov \<Rightarrow> do {
          now \<leftarrow> time_Now;
          case os_returnURL s req sel order now of
            Inl e \<Rightarrow> ret (Inl e)
          | Inr (returnURL, token) \<Rightarrow> do {
              c \<leftarrow> outside (prov_CreatePayment prov
                     (buildProviderCreatePaymentRequest req returnURL sel (o_OutTradeNo order) payAmountStr
                       (buildPaymentSubject (os_decimal s) plan limitAmount cfg sel)));
              case c of
                Inl e \<Rightarrow>
                  ret (Inl (case as_app_error e of
                              Some a \<Rightarrow> a | None \<Rightarrow> classifyCreatePaymentError req (sel_ProviderKey sel) e))
              | Inr pr \<Rightarrow> do {
                  c \<leftarrow> (if 128 < length (cr_TradeNo pr) then ret (Inl (Plain ''validator failed''))
                        else order_UpdateOneID (o_ID order) (set_payment_details pr sel));
                  case c of
                    Inl e \<Rightarrow> ret (Inl (Wrapped ''update order with payment details: '' e))
                  | Inr _ \<Rightarrow> do {
                      _ \<leftarrow> writeAuditLog (o_ID order) ''ORDER_CREATED'' (''user:'' @ Itoa (cq_UserID req));
                      ret (Inr (buildCreateOrderResponse (os_numeric s) order req (pc_RechargeFeeRate cfg) payAmount sel pr token))
                    }
                }
            }
        })"

section \<open>Creation\<close>

definition needs_oauth :: "CreateOrderRequest \<Rightarrow> InstanceSelection \<Rightarrow> bool" where
  "needs_oauth req sel \<longleftrightarrow>
     \<not> (sel_ProviderKey sel \<noteq> [] \<and> sel_ProviderKey sel \<noteq> TypeWxpay)
     \<and> \<not> (TrimSpace (cq_OpenID req) \<noteq> [] \<or> \<not> cq_IsWeChatBrowser req \<or> GetBasePaymentType (cq_PaymentType req) \<noteq> TypeWxpay)"

definition oauth_response :: "CreateOrderRequest \<Rightarrow> float64 \<Rightarrow> float64 \<Rightarrow> float64 \<Rightarrow> CreateOrderResponse" where
  "oauth_response req amount payAmount feeRate =
     \<lparr>co_OrderID = 0, co_Amount = amount, co_PayAmount = payAmount, co_FeeRate = feeRate,
      co_ResultType = ''oauth_required'', co_PaymentType = cq_PaymentType req, co_OutTradeNo = [], co_Payment = None,
      co_ExpiresAt = 0, co_PaymentMode = [], co_ResumeToken = []\<rparr>"

text \<open>The amount that is credited, and the amount that limits and payment are about.\<close>

definition order_amounts ::
    "'d decimal_lib \<Rightarrow> CreateOrderRequest \<Rightarrow> SubscriptionPlan option \<Rightarrow> PaymentConfig \<Rightarrow> float64 \<times> float64" where
  "order_amounts lib req plan cfg =
     (case plan of
        Some p \<Rightarrow> (sp_Price p, sp_Price p)
      | None \<Rightarrow>
          (if cq_OrderType req = OrderTypeBalance
           then calculateCreditedBalance lib (cq_Amount req) (pc_BalanceRechargeMultiplier cfg) else cq_Amount req,
           cq_Amount req))"

definition normalize_request :: "CreateOrderRequest \<Rightarrow> CreateOrderRequest" where
  "normalize_request req =
     (let req = (if cq_OrderType req = [] then req\<lparr>cq_OrderType := OrderTypeBalance\<rparr> else req);
          normalized = NormalizeVisibleMethod (cq_PaymentType req)
      in if normalized = [] then req else req\<lparr>cq_PaymentType := normalized\<rparr>)"

text \<open>From the selection on: the amount in its currency, the order, and the call of the gateway.\<close>

definition place_order ::
    "('w, 'g, 'd) OrderService \<Rightarrow> CreateOrderRequest \<Rightarrow> PaymentConfig \<Rightarrow> SubscriptionPlan option \<Rightarrow> float64
      \<Rightarrow> float64 \<Rightarrow> go_string \<Rightarrow> float64 \<Rightarrow> InstanceSelection \<Rightarrow> ('w, 'g, CreateOrderResponse outcome) pay" where
  "place_order s req cfg plan orderAmount limitAmount payAmountStr payAmount sel = do {
     c \<leftarrow> createOrderInTx s req plan cfg orderAmount limitAmount payAmount sel;
     case c of
       Inl e \<Rightarrow> ret (Inl e)
     | Inr order \<Rightarrow> do {
         c \<leftarrow> invokeProvider s order req cfg limitAmount payAmountStr payAmount plan sel;
         case c of
           Inl e \<Rightarrow> do {
             _ \<leftarrow> order_UpdateOneID (o_ID order) (set_status OrderStatusFailed);
             ret (Inl e)
           }
         | Inr resp \<Rightarrow> ret (Inr resp)
       }
   }"

definition with_selection ::
    "('w, 'g, 'd) OrderService \<Rightarrow> CreateOrderRequest \<Rightarrow> PaymentConfig \<Rightarrow> SubscriptionPlan option \<Rightarrow> go_string
      \<Rightarrow> go_string \<times> float64 \<Rightarrow> InstanceSelection \<Rightarrow> ('w, 'g, CreateOrderResponse outcome) pay" where
  "with_selection s req cfg plan methodCurrency pay sel =
     (let lib = os_decimal s; feeRate = pc_RechargeFeeRate cfg;
          (orderAmount, limitAmount) = order_amounts lib req plan cfg;
          selectedCurrency = paymentProviderConfigCurrency (sel_ProviderKey sel) (sel_Config sel);
          again = (if selectedCurrency \<noteq> methodCurrency
                   then calculateCreateOrderPayAmount lib limitAmount feeRate selectedCurrency else Inr pay)
      in case again of
           Inl e \<Rightarrow> ret (Inl e)
         | Inr (payAmountStr, payAmount) \<Rightarrow>
             (case validateSelectedCreateOrderAmountCurrency lib payAmountStr sel of
                Inl e \<Rightarrow> ret (Inl e)
              | Inr _ \<Rightarrow>
                  if needs_oauth req sel then do {
                    c \<leftarrow> world (os_oauth s req);
                    ret (case c of Inl e \<Rightarrow> Inl e | Inr _ \<Rightarrow> Inr (oauth_response req limitAmount payAmount feeRate))
                  }
                  else place_order s req cfg plan orderAmount limitAmount payAmountStr payAmount sel))"

definition checked_order ::
    "('w, 'g, 'd) OrderService \<Rightarrow> CreateOrderRequest \<Rightarrow> PaymentConfig \<Rightarrow> SubscriptionPlan option
      \<Rightarrow> ('w, 'g, CreateOrderResponse outcome) pay" where
  "checked_order s req cfg plan = do {
     u \<leftarrow> user_GetByID (cq_UserID req);
     case u of
       Inl e \<Rightarrow> ret (Inl (Wrapped ''get user: '' e))
     | Inr user \<Rightarrow>
         if u_Status user \<noteq> EntityStatusActive then
           ret (Inl (Forbidden ''USER_INACTIVE'' ''user account is disabled''))
         else do {
           c \<leftarrow> ValidateMethodCurrencyConsistency (lb_setting (os_lb s)) (lb_decrypt (os_lb s)) (cq_PaymentType req);
           case c of
             Inl e \<Rightarrow> ret (Inl e)
           | Inr methodCurrency \<Rightarrow>
               (case calculateCreateOrderPayAmount (os_decimal s) (snd (order_amounts (os_decimal s) req plan cfg))
                       (pc_RechargeFeeRate cfg) methodCurrency of
                  Inl e \<Rightarrow> ret (Inl e)
                | Inr pay \<Rightarrow> do {
                    sel \<leftarrow> selectCreateOrderInstance s req cfg (snd pay);
                    case sel of
                      Inl e \<Rightarrow> ret (Inl e)
                    | Inr sel \<Rightarrow> do {
                        c \<leftarrow> validateSelectedCreateOrderInstance s req sel;
                        case c of
                          Inl e \<Rightarrow> ret (Inl e)
                        | Inr _ \<Rightarrow> with_selection s req cfg plan methodCurrency pay sel
                      }
                  })
         }
   }"

definition CreateOrder ::
    "('w, 'g, 'd) OrderService \<Rightarrow> CreateOrderRequest \<Rightarrow> ('w, 'g, CreateOrderResponse outcome) pay" where
  "CreateOrder s rawReq =
     (let req = normalize_request rawReq in do {
        c \<leftarrow> world (os_config s);
        case c of
          Inl e \<Rightarrow> ret (Inl (Wrapped ''get payment config: '' e))
        | Inr cfg \<Rightarrow>
            if \<not> pc_Enabled cfg then ret (Inl (Forbidden ''PAYMENT_DISABLED'' ''payment system is disabled''))
            else do {
              c \<leftarrow> validateOrderInput s req cfg;
              case c of
                Inl e \<Rightarrow> ret (Inl e)
              | Inr plan \<Rightarrow> do {
                  c \<leftarrow> checkCancelRateLimit s (cq_UserID req) cfg;
                  case c of
                    Inl e \<Rightarrow> ret (Inl e)
                  | Inr _ \<Rightarrow> checked_order s req cfg plan
                }
            }
      })"

section \<open>Queries\<close>

definition GetOrder :: "int \<Rightarrow> int \<Rightarrow> ('w, 'g, PaymentOrder outcome) pay" where
  "GetOrder oid uid = do {
     c \<leftarrow> order_Get oid;
     ret (case c of
       Inl _ \<Rightarrow> Inl (NotFound ''NOT_FOUND'' ''order not found'')
     | Inr o' \<Rightarrow> if o_UserID o' \<noteq> uid then Inl (Forbidden ''FORBIDDEN'' ''no permission for this order'') else Inr o')
   }"

definition GetOrderByID :: "int \<Rightarrow> ('w, 'g, PaymentOrder outcome) pay" where
  "GetOrderByID oid = do {
     c \<leftarrow> order_Get oid;
     ret (case c of Inl _ \<Rightarrow> Inl (NotFound ''NOT_FOUND'' ''order not found'') | Inr o' \<Rightarrow> Inr o')
   }"

end
