(* ===== verification/BalancerFacts.thy ===== *)
theory BalancerFacts
  imports PayBalancer PayDemo
begin

text \<open>
  Facts on the choice of a provider instance: the selected instance is enabled, serves the method and
  is within its limits whenever one is; the limits shown to the user cover those of every instance.
\<close>

section \<open>Reading in a quiet run\<close>

lemma quiet_order_All [quiet]:
  "run_state (order_All p) (alone d) = (Inr (filter p (d_orders d)), alone d)"
  by (simp add: order_All_def quiet_stmt)

lemma quiet_in_memory [quiet]:
  "run_state (in_memory f) (alone d) = (fst (f (d_outside d)), alone (d\<lparr>d_outside := snd (f (d_outside d))\<rparr>))"
  by (simp add: in_memory_def split: prod.splits)

text \<open>The use of an instance on the day of the clock.\<close>

definition day_orders :: "('w, 'g) LoadBalancer \<Rightarrow> ('w, 'g) pay_db \<Rightarrow> PaymentProviderInstance \<Rightarrow> PaymentOrder list" where
  "day_orders lb d i =
     filter (\<lambda>x. o_ProviderInstanceID x = Some (Itoa (pi_ID i)) \<and> o_Status x \<in> set usage_status
       \<and> lb_startOfDay lb (d_clock d) \<le> o_CreatedAt x) (d_orders d)"

definition day_use :: "('w, 'g) LoadBalancer \<Rightarrow> ('w, 'g) pay_db \<Rightarrow> PaymentProviderInstance \<Rightarrow> float64" where
  "day_use lb d i = (case day_orders lb d i of [] \<Rightarrow> Finite 0 | os \<Rightarrow> sum_pay (lb_numeric lb) os)"

lemma quiet_attachDailyUsage [quiet]:
  "run_state (attachDailyUsage lb instances) (alone d) = (map (\<lambda>i. (i, day_use lb d i)) instances, alone d)"
proof -
  have "filter (\<lambda>x. o_ProviderInstanceID x = Some (Itoa (pi_ID i)))
      (filter (\<lambda>x. list_ex (\<lambda>i. o_ProviderInstanceID x = Some (Itoa (pi_ID i))) instances
         \<and> o_Status x \<in> set usage_status \<and> lb_startOfDay lb (d_clock d) \<le> o_CreatedAt x) (d_orders d)) = day_orders lb d i"
    if "i \<in> set instances" for i
    using that unfolding day_orders_def filter_filter by (intro filter_cong) (auto simp: list_ex_iff)
  then show ?thesis by (simp add: attachDailyUsage_def quiet Let_def day_use_def)
qed

section \<open>The selected instance\<close>

definition candidate ::
    "('w, 'g) LoadBalancer \<Rightarrow> go_string \<Rightarrow> go_string \<Rightarrow> go_string \<Rightarrow> ('w, 'g) pay_db \<Rightarrow> PaymentProviderInstance \<Rightarrow> bool" where
  "candidate lb app key t d p \<longleftrightarrow>
     p \<in> set (d_instances d) \<and> pi_Enabled p \<and> (key \<noteq> [] \<longrightarrow> pi_ProviderKey p = key) \<and> matches_type lb app t p"

definition accepts ::
    "('w, 'g) LoadBalancer \<Rightarrow> go_string \<Rightarrow> float64 \<Rightarrow> ('w, 'g) pay_db \<Rightarrow> PaymentProviderInstance \<Rightarrow> bool" where
  "accepts lb t amount d p \<longleftrightarrow> within_limits (getInstanceChannelLimits p t) (day_use lb d p) amount"

lemma pickLeastAmount_in: "pickLeastAmount c cs \<in> set (c # cs)"
  unfolding pickLeastAmount_def by (induction cs arbitrary: c) (auto split: if_splits)

lemma pickLeastAmount_least: "x \<in> set (c # cs) \<Longrightarrow> \<not> f_less (snd x) (snd (pickLeastAmount c cs))"
proof (induction cs arbitrary: c x rule: rev_induct)
  case Nil
  then show ?case by (cases "snd x") (auto simp: pickLeastAmount_def)
next
  case (snoc y cs)
  let ?b = "pickLeastAmount c cs"
  have step: "pickLeastAmount c (cs @ [y]) = (if f_less (snd y) (snd ?b) then y else ?b)"
    by (simp add: pickLeastAmount_def)
  have irrefl: "\<not> f_less (snd y) (snd y)" by (cases "snd y") auto
  show ?case
  proof (cases "x = y")
    case True
    then show ?thesis by (simp add: step irrefl)
  next
    case False
    then have "\<not> f_less (snd x) (snd ?b)" using snoc by auto
    then show ?thesis using f_less_trans [of "snd x" "snd y" "snd ?b"] by (auto simp: step)
  qed
qed

lemma quiet_pickByStrategy:
  assumes "cs \<noteq> []"
  shows "\<exists>c g. run_state (pickByStrategy lb cs strategy) (alone d) = (c, alone (d\<lparr>d_outside := g\<rparr>)) \<and> c \<in> set cs
    \<and> (strategy = StrategyLeastAmount \<longrightarrow> (\<forall>x\<in>set cs. \<not> f_less (snd x) (snd c)))"
proof -
  have same: "d = d\<lparr>d_outside := d_outside d\<rparr>" by simp
  obtain c ct where cs: "cs = c # ct" using assms by (cases cs) auto
  consider (least) "strategy = StrategyLeastAmount" "1 < length cs" | (single) "cs = [c]" | (turn) "strategy \<noteq> StrategyLeastAmount"
    using cs by (cases ct) auto
  then show ?thesis
  proof cases
    case least
    then have "run_state (pickByStrategy lb cs strategy) (alone d) = (pickLeastAmount c ct, alone (d\<lparr>d_outside := d_outside d\<rparr>))"
      by (simp add: pickByStrategy_def cs)
    then show ?thesis using pickLeastAmount_in [of c ct] pickLeastAmount_least [of _ c ct] cs by blast
  next
    case single
    have "\<not> f_less (snd c) (snd c)" by (cases "snd c") auto
    then show ?thesis by (auto simp: pickByStrategy_def single quiet Let_def)
  next
    case turn
    have "unat n mod length cs < length cs" for n :: "64 word" using assms by simp
    then show ?thesis using turn by (auto simp: pickByStrategy_def quiet Let_def)
  qed
qed

lemma quiet_queryEnabledInstances:
  "run_state (queryEnabledInstances lb app key t) (alone d) =
     (case filter (matches_type lb app t)
             (by_sort_order (filter (\<lambda>p. pi_Enabled p \<and> (key \<noteq> [] \<longrightarrow> pi_ProviderKey p = key)) (d_instances d))) of
        [] \<Rightarrow> Inl (Plain (''no enabled instance for payment type '' @ t)) | ps \<Rightarrow> Inr ps, alone d)"
  by (simp add: queryEnabledInstances_def quiet)

lemma selected:
  assumes "run_state (SelectInstance lb app key t strategy amount) (alone d) = (Inr sel, m)"
  shows "\<exists>p g. candidate lb app key t d p \<and> sel = buildSelection lb p \<and> m = alone (d\<lparr>d_outside := g\<rparr>)
    \<and> (accepts lb t amount d p \<or> (\<forall>q. candidate lb app key t d q \<longrightarrow> \<not> accepts lb t amount d q))
    \<and> (strategy = StrategyLeastAmount \<longrightarrow>
        (\<forall>q. candidate lb app key t d q \<longrightarrow> accepts lb t amount d p = accepts lb t amount d q \<longrightarrow>
           \<not> f_less (day_use lb d q) (day_use lb d p)))"
proof -
  let ?ps = "filter (matches_type lb app t)
     (by_sort_order (filter (\<lambda>p. pi_Enabled p \<and> (key \<noteq> [] \<longrightarrow> pi_ProviderKey p = key)) (d_instances d)))"
  let ?cs = "map (\<lambda>i. (i, day_use lb d i)) ?ps"
  let ?ok = "filterByLimits ?cs t amount"
  let ?as = "if ?ok = [] then ?cs else ?ok"
  have ps: "set ?ps = {p. candidate lb app key t d p}" by (auto simp: candidate_def by_sort_order_def)
  have ok: "set ?ok = {(p, day_use lb d p) | p. candidate lb app key t d p \<and> accepts lb t amount d p}"
    unfolding filterByLimits_def accepts_def using ps by auto
  have some: "?ps \<noteq> []"
    using assms by (auto simp: SelectInstance_def quiet_queryEnabledInstances split: list.splits)
  then have query: "run_state (queryEnabledInstances lb app key t) (alone d) = (Inr ?ps, alone d)"
    unfolding quiet_queryEnabledInstances by (simp split: list.split)
  from some have "?as \<noteq> []" by simp
  then obtain c g where pick: "run_state (pickByStrategy lb ?as strategy) (alone d) = (c, alone (d\<lparr>d_outside := g\<rparr>))"
    "c \<in> set ?as" "strategy = StrategyLeastAmount \<longrightarrow> (\<forall>x\<in>set ?as. \<not> f_less (snd x) (snd c))"
    using quiet_pickByStrategy [of ?as lb strategy d] by blast
  have "run_state (SelectInstance lb app key t strategy amount) (alone d) =
      (Inr (buildSelection lb (fst c)), alone (d\<lparr>d_outside := g\<rparr>))"
    unfolding SelectInstance_def using pick(1) by (simp add: query quiet Let_def)
  then have sel: "sel = buildSelection lb (fst c)" "m = alone (d\<lparr>d_outside := g\<rparr>)" using assms by auto
  have cs: "set ?cs = {(p, day_use lb d p) | p. candidate lb app key t d p}" using ps by auto
  show ?thesis
  proof (cases "?ok = []")
    case True
    then have "{(p, day_use lb d p) | p. candidate lb app key t d p \<and> accepts lb t amount d p} = {}" unfolding ok [symmetric] by simp
    then have none: "\<forall>q. candidate lb app key t d q \<longrightarrow> \<not> accepts lb t amount d q" by blast
    from pick(2) True cs obtain p where "c = (p, day_use lb d p)" "candidate lb app key t d p" by auto
    moreover from pick(3) True cs have "strategy = StrategyLeastAmount \<longrightarrow>
        (\<forall>q. candidate lb app key t d q \<longrightarrow> \<not> f_less (day_use lb d q) (snd c))" by auto
    ultimately show ?thesis using sel none by auto
  next
    case False
    from pick(2) False ok obtain p where "c = (p, day_use lb d p)" "candidate lb app key t d p" "accepts lb t amount d p" by auto
    moreover from pick(3) False ok have "strategy = StrategyLeastAmount \<longrightarrow>
        (\<forall>q. candidate lb app key t d q \<longrightarrow> accepts lb t amount d q \<longrightarrow> \<not> f_less (day_use lb d q) (snd c))" by auto
    ultimately show ?thesis using sel by auto
  qed
qed

section \<open>The limits that are shown\<close>

text \<open>A limit is a number that is not negative; 0 means none.\<close>

definition limit :: "float64 \<Rightarrow> bool" where
  "limit x \<longleftrightarrow> (\<exists>q \<ge> 0. x = Finite q)"

lemma union_zero: "union_all w (agg, False) vs = (b, l) \<Longrightarrow> \<not> l"
  by (induction vs arbitrary: agg) (auto simp: unionFloat_def split: if_splits)

text \<open>Merged values are all positive and the result is one of the bounds, or some value is 0.\<close>

lemma union_max:
  assumes "union_all False (Finite a, True) (map Finite qs) = (u, True)" "\<forall>q\<in>set qs. 0 \<le> q" "0 \<le> a"
  shows "\<exists>b \<ge> a. u = Finite b \<and> (\<forall>q\<in>set qs. 0 < q \<and> q \<le> b)"
  using assms
proof (induction qs arbitrary: a)
  case (Cons q qs)
  have pos: "0 < q"
    using Cons.prems(1,2) union_zero [of False "Finite a" "map Finite qs" u True] by (cases "q = 0") (auto simp: unionFloat_def)
  then have "union_all False (Finite (max a q), True) (map Finite qs) = (u, True)"
    using Cons.prems(1,3) by (auto simp: unionFloat_def max_def split: if_splits)
  then obtain b where "max a q \<le> b" "u = Finite b" "\<forall>q\<in>set qs. 0 < q \<and> q \<le> b"
    using Cons.IH [of "max a q"] Cons.prems(2,3) by (auto simp: max_def split: if_splits)
  then show ?case using pos by auto
qed auto

lemma union_min:
  assumes "union_all True (Finite a, True) (map Finite qs) = (u, True)" "\<forall>q\<in>set qs. 0 \<le> q" "0 \<le> a"
  shows "\<exists>b. u = Finite b \<and> (0 < a \<longrightarrow> b \<le> a) \<and> (\<forall>q\<in>set qs. b \<le> q)"
  using assms
proof (induction qs arbitrary: a)
  case (Cons q qs)
  have pos: "0 < q"
    using Cons.prems(1,2) union_zero [of True "Finite a" "map Finite qs" u True] by (cases "q = 0") (auto simp: unionFloat_def)
  let ?m = "if a = 0 \<or> q < a then q else a"
  have "union_all True (Finite ?m, True) (map Finite qs) = (u, True)"
    using Cons.prems(1) pos by (auto simp: unionFloat_def split: if_splits)
  moreover have "0 < ?m" using pos Cons.prems(3) by auto
  ultimately obtain b where "u = Finite b" "b \<le> ?m" "\<forall>q\<in>set qs. b \<le> q"
    using Cons.IH [of ?m] Cons.prems by auto
  then show ?case using pos Cons.prems(3) by (auto split: if_splits intro!: exI [of _ b])
qed auto

lemma limits_list: "\<forall>v\<in>set vs. limit v \<Longrightarrow> \<exists>qs. vs = map Finite qs \<and> (\<forall>q\<in>set qs. 0 \<le> q)"
proof (induction vs)
  case (Cons v vs)
  then obtain q qs where "v = Finite q" "0 \<le> q" "vs = map Finite qs" "\<forall>q\<in>set qs. 0 \<le> q" by (auto simp: limit_def)
  then show ?case by (intro exI [of _ "q # qs"]) simp
qed simp

lemma union_value_max:
  assumes "\<forall>v\<in>set vs. limit v" "v \<in> set vs"
  shows "union_value False vs = Finite 0 \<or> (\<exists>b q. union_value False vs = Finite b \<and> v = Finite q \<and> 0 < q \<and> q \<le> b)"
proof -
  obtain qs where qs: "vs = map Finite qs" "\<forall>q\<in>set qs. 0 \<le> q" using limits_list [OF assms(1)] by blast
  obtain u l where ul: "union_all False (Finite 0, True) vs = (u, l)" by fastforce
  show ?thesis
    using ul union_max [of 0 qs u] qs assms(2) by (cases l) (auto simp: union_value_def)
qed

lemma union_value_min:
  assumes "\<forall>v\<in>set vs. limit v" "v \<in> set vs"
  shows "union_value True vs = Finite 0 \<or> (\<exists>b q. union_value True vs = Finite b \<and> v = Finite q \<and> b \<le> q)"
proof -
  obtain qs where qs: "vs = map Finite qs" "\<forall>q\<in>set qs. 0 \<le> q" using limits_list [OF assms(1)] by blast
  obtain u l where ul: "union_all True (Finite 0, True) vs = (u, l)" by fastforce
  show ?thesis
    using ul union_min [of 0 qs u] qs assms(2) by (cases l) (auto simp: union_value_def)
qed

definition proper :: "ChannelLimits \<Rightarrow> bool" where
  "proper cl \<longleftrightarrow> limit (cl_DailyLimit cl) \<and> limit (cl_SingleMin cl) \<and> limit (cl_SingleMax cl)"

definition shown :: "MethodLimits \<Rightarrow> ChannelLimits" where
  "shown ml = \<lparr>cl_DailyLimit = ml_DailyLimit ml, cl_SingleMin = ml_SingleMin ml, cl_SingleMax = ml_SingleMax ml\<rparr>"

lemma f_less_le: "f_less (Finite b) x \<Longrightarrow> q \<le> b \<Longrightarrow> f_less (Finite q) x"
  by (cases x) (auto split: if_splits)

lemma f_less_ge: "f_less x (Finite b) \<Longrightarrow> b \<le> q \<Longrightarrow> f_less x (Finite q)"
  by (cases x) (auto split: if_splits)

lemma mapM_opt_set:
  "mapM_opt f xs = Some ys \<Longrightarrow> (\<forall>x\<in>set xs. \<exists>y\<in>set ys. f x = Some y) \<and> (\<forall>y\<in>set ys. \<exists>x\<in>set xs. f x = Some y)"
  by (induction xs arbitrary: ys) (auto split: option.splits)

lemma shown_covers:
  assumes "mapM_opt (\<lambda>p. pcInstanceTypeLimits p pt) ps = Some cls" "\<forall>cl\<in>set cls. proper cl" "cl \<in> set cls"
    "within_limits cl used amount"
  shows "within_limits (shown (pcAggregateMethodLimits pt ps)) used amount"
proof -
  have d: "\<forall>v\<in>set (map cl_DailyLimit cls). limit v" "cl_DailyLimit cl \<in> set (map cl_DailyLimit cls)"
    and a: "\<forall>v\<in>set (map cl_SingleMin cls). limit v" "cl_SingleMin cl \<in> set (map cl_SingleMin cls)"
    and b: "\<forall>v\<in>set (map cl_SingleMax cls). limit v" "cl_SingleMax cl \<in> set (map cl_SingleMax cls)"
    using assms(2,3) by (auto simp: proper_def)
  have "\<not> (f_less (Finite 0) (union_value True (map cl_SingleMin cls)) \<and> f_less amount (union_value True (map cl_SingleMin cls)))"
    using union_value_min [OF a] assms(4) f_less_ge by (fastforce simp: within_limits_def)
  moreover have "\<not> (f_less (Finite 0) (union_value False (map cl_SingleMax cls)) \<and> f_less (union_value False (map cl_SingleMax cls)) amount)"
    using union_value_max [OF b] assms(4) f_less_le by (fastforce simp: within_limits_def)
  moreover have "\<not> (f_less (Finite 0) (union_value False (map cl_DailyLimit cls))
      \<and> f_less (union_value False (map cl_DailyLimit cls)) (f_add used amount))"
    using union_value_max [OF d] assms(4) f_less_le by (fastforce simp: within_limits_def)
  ultimately show ?thesis
    by (simp add: within_limits_def shown_def pcAggregateMethodLimits_def assms(1))
qed

section \<open>Properties\<close>

text \<open>
C36. In a quiet run the selected instance is in the database and enabled, has the provider key that was asked
for, serves the payment type and fits the WeChat application; it accepts the amount within its limits
whenever some candidate does; with the strategy of the least amount no candidate that is as good was
used less on that day. The selection carries its identifier, key and configuration, and nothing but
the memory of the process changes.
\<close>
theorem selected_instance_allowed:
  assumes "run_state (SelectInstance lb app key t strategy amount) (alone d) = (Inr sel, m)"
  shows "\<exists>p g. candidate lb app key t d p \<and> sel = buildSelection lb p \<and> m = alone (d\<lparr>d_outside := g\<rparr>)
    \<and> (accepts lb t amount d p \<or> (\<forall>q. candidate lb app key t d q \<longrightarrow> \<not> accepts lb t amount d q))
    \<and> (strategy = StrategyLeastAmount \<longrightarrow>
        (\<forall>q. candidate lb app key t d q \<longrightarrow> accepts lb t amount d p = accepts lb t amount d q \<longrightarrow>
           \<not> f_less (day_use lb d q) (day_use lb d p)))"
  by (rule selected [OF assms])

definition demo_instance :: "int \<Rightarrow> PaymentProviderInstance" where
  "demo_instance i =
     \<lparr>pi_ID = i, pi_ProviderKey = TypeStripe, pi_Config = [], pi_SupportedTypes = ''card'', pi_Enabled = True,
      pi_PaymentMode = [], pi_SortOrder = 0, pi_Limits = [], pi_RefundEnabled = True, pi_AllowUserRefund = True\<rparr>"

definition demo_balancer :: "(nat, 64 word) LoadBalancer" where
  "demo_balancer =
     \<lparr>lb_decrypt = (\<lambda>_. None), lb_startOfDay = (\<lambda>t. t - t mod (24 * 60 * minute)), lb_counter = id,
      lb_set_counter = (\<lambda>n _. n), lb_setting = (\<lambda>_ w. (Inr None, w)), lb_numeric = demo_numeric\<rparr>"

definition demo_instances :: "(nat, 64 word) pay_db" where
  "demo_instances =
     \<lparr>d_orders = [demo_order\<lparr>o_ProviderInstanceID := Some (Itoa 3)\<rparr>], d_order_seq = 1, d_audits = [], d_codes = [],
      d_code_seq = 0, d_users = [demo_user], d_instances = [demo_instance 3, demo_instance 4], d_clock = 50,
      d_world = 0, d_outside = 0\<rparr>"

theorem selected_instance_allowed_witness:
  "\<exists>sel p. fst (run_state (SelectInstance demo_balancer [] [] TypeStripe StrategyLeastAmount (Finite 5)) (alone demo_instances)) =
      Inr sel \<and> candidate demo_balancer [] [] TypeStripe demo_instances p \<and> sel = buildSelection demo_balancer p"
proof -
  have "\<exists>sel m. run_state (SelectInstance demo_balancer [] [] TypeStripe StrategyLeastAmount (Finite 5)) (alone demo_instances) = (Inr sel, m)"
    unfolding SelectInstance_def
    by (simp add: quiet_queryEnabledInstances quiet Let_def demo_instances_def demo_instance_def matches_type_def by_sort_order_def)
      (simp add: pickByStrategy_def filterByLimits_def getInstanceChannelLimits_def within_limits_def no_limits_def)
  then obtain sel m where run: "run_state (SelectInstance demo_balancer [] [] TypeStripe StrategyLeastAmount (Finite 5)) (alone demo_instances) = (Inr sel, m)"
    by blast
  show ?thesis using selected_instance_allowed [OF run] run by auto
qed

text \<open>
The limits shown for a method, the widest of its instances, are no obstacle: an amount that some instance
accepts, given what it has taken that day, is within the limits that are shown, when limits are not
negative and a Stripe instance is asked for Stripe.
\<close>
theorem shown_limits_cover:
  assumes "p \<in> set ps" "within_limits (getInstanceChannelLimits p pt) used amount"
    "\<forall>q\<in>set ps. \<forall>cl. pcInstanceTypeLimits q pt = Some cl \<longrightarrow> proper cl" "pi_ProviderKey p = TypeStripe \<longrightarrow> pt = TypeStripe"
  shows "within_limits (shown (pcAggregateMethodLimits pt ps)) used amount"
proof (cases "mapM_opt (\<lambda>q. pcInstanceTypeLimits q pt) ps")
  case None
  then show ?thesis by (simp add: pcAggregateMethodLimits_def shown_def within_limits_def)
next
  case (Some cls)
  then obtain cl where cl: "cl \<in> set cls" "pcInstanceTypeLimits p pt = Some cl"
    using assms(1) mapM_opt_set by blast
  have "getInstanceChannelLimits p pt = cl"
    using cl(2) assms(4)
    by (auto simp: pcInstanceTypeLimits_def getInstanceChannelLimits_def Let_def TypeStripe_def split: if_splits option.splits bind_splits)
  moreover have "\<forall>cl\<in>set cls. proper cl" using Some assms(3) mapM_opt_set by blast
  ultimately show ?thesis using shown_covers [OF Some _ cl(1)] assms(2) by simp
qed

definition demo_limits :: go_string where
  "demo_limits = jobj [(''stripe'', jobj [(''singleMax'', ''50'')])]"

lemma demo_limits: "dec_InstanceLimits demo_limits = Some [(''stripe'', no_limits\<lparr>cl_SingleMax := Finite 50\<rparr>)]"
proof -
  let ?inner = "jobj [(''singleMax'', ''50'')]"
  have scan: "unmarshal_object demo_limits = Some [(''stripe'', ?inner)]"
    "json_scan ?inner = Some (VObj [(''singleMax'', ''50'')])" "json_scan ''50'' = Some (VNum ''50'')"
    "parse_decimal ''50'' = Some 50"
    by code_simp+
  have raws: "field_raws ''dailyLimit'' [(''singleMax'', ''50'')] = []" "field_raws ''singleMin'' [(''singleMax'', ''50'')] = []"
    "field_raws ''singleMax'' [(''singleMax'', ''50'')] = [''50'']"
    by code_simp+
  have "ParseFloat ''50'' = Some (Finite 50)"
    using binary64_int [of 50] by (simp add: ParseFloat_def scan(4))
  then have "dec_float x ''50'' = Some (Finite 50)" for x by (simp add: dec_float_def scan(3))
  then have "dec_ChannelLimits ?inner = Some (no_limits\<lparr>cl_SingleMax := Finite 50\<rparr>)"
    by (simp add: dec_ChannelLimits_def dec_struct_def scan(2) dec_field_def raws no_limits_def)
  then show ?thesis by (simp add: dec_InstanceLimits_def scan(1))
qed

theorem shown_limits_cover_witness:
  "within_limits (shown (pcAggregateMethodLimits TypeStripe [(demo_instance 3)\<lparr>pi_Limits := demo_limits\<rparr>])) (Finite 0) (Finite 20)"
proof -
  let ?p = "(demo_instance 3)\<lparr>pi_Limits := demo_limits\<rparr>"
  let ?cl = "no_limits\<lparr>cl_SingleMax := Finite 50\<rparr>"
  have some: "pi_Limits ?p = demo_limits" "demo_limits \<noteq> []" by (simp_all add: demo_limits_def jobj_def)
  have here: "pcInstanceTypeLimits ?p TypeStripe = Some ?cl"
    by (simp only: pcInstanceTypeLimits_def some if_False demo_limits) (simp add: TypeStripe_def)
  have "getInstanceChannelLimits ?p TypeStripe = ?cl"
    by (simp only: getInstanceChannelLimits_def some if_False demo_limits) (simp add: TypeStripe_def demo_instance_def)
  moreover have "within_limits ?cl (Finite 0) (Finite 20)"
    by (simp add: within_limits_def no_limits_def)
  moreover have "proper ?cl" by (simp add: proper_def limit_def no_limits_def)
  ultimately show ?thesis
    using shown_limits_cover [of ?p "[?p]" TypeStripe "Finite 0" "Finite 20"] here by auto
qed

end
