(* ===== verification/OrderFacts.thy ===== *)
theory OrderFacts
  imports PayOrder BalancerFacts
begin

text \<open>
  Facts on the creation of an order: what a successful creation leaves behind, that the order remembers
  the instance that will be paid, and where the checks of the code are too weak.
\<close>

section \<open>Reading\<close>

text \<open>The database after a command that writes nothing: memory and the rest of the system may change.\<close>

definition around :: "('w, 'g) pay_db \<Rightarrow> ('w, 'g) pay_db \<Rightarrow> bool" where
  "around d d' \<longleftrightarrow> (\<exists>w g. d' = d\<lparr>d_world := w, d_outside := g\<rparr>)"

lemma around_refl [simp]: "around d d"
  unfolding around_def by (rule exI [of _ "d_world d"], rule exI [of _ "d_outside d"]) simp

lemma around_trans: "around d d' \<Longrightarrow> around d' d'' \<Longrightarrow> around d d''"
proof -
  assume "around d d'" "around d' d''"
  then obtain w g where "d'' = d\<lparr>d_world := w, d_outside := g\<rparr>" by (auto simp: around_def)
  then show ?thesis unfolding around_def by blast
qed

lemma around_change [simp]: "around d (d\<lparr>d_outside := g\<rparr>)" "around d (d\<lparr>d_world := w\<rparr>)"
  unfolding around_def
  by (rule exI [of _ "d_world d"], rule exI [of _ g], simp) (rule exI [of _ w], rule exI [of _ "d_outside d"], simp)

lemma around_frame:
  assumes "around d d'"
  shows "d_orders d' = d_orders d" "d_order_seq d' = d_order_seq d" "d_users d' = d_users d" "d_instances d' = d_instances d"
    "d_clock d' = d_clock d" "d_codes d' = d_codes d" "d_audits d' = d_audits d" "d_code_seq d' = d_code_seq d"
    "user_of i d' = user_of i d"
  using assms by (auto simp: around_def user_of_def)

definition reads :: "('w, 'g, 'a) pay \<Rightarrow> bool" where
  "reads c \<longleftrightarrow> (\<forall>d. \<exists>x d'. run_state c (alone d) = (x, alone d') \<and> around d d')"

lemma readsE:
  assumes "reads c"
  obtains x d' where "run_state c (alone d) = (x, alone d')" "around d d'"
  using assms unfolding reads_def by blast

named_theorems reads_intros

lemma reads_ret [reads_intros]: "reads (ret x)"
  unfolding reads_def by (rule allI, rule exI [of _ x]) auto

lemma reads_bind [reads_intros]:
  assumes "reads a" "\<And>x. reads (b x)"
  shows "reads (a \<bind> b)"
  unfolding reads_def
proof
  fix d
  obtain x d1 where a: "run_state a (alone d) = (x, alone d1)" "around d d1" using readsE [OF assms(1)] .
  obtain y d2 where b: "run_state (b x) (alone d1) = (y, alone d2)" "around d1 d2" using readsE [OF assms(2)] .
  show "\<exists>y d'. run_state (a \<bind> b) (alone d) = (y, alone d') \<and> around d d'"
    using a b around_trans by (intro exI [of _ y] exI [of _ d2]) (auto simp: State_Monad.bind_def)
qed

lemma reads_cases [reads_intros]:
  "(b \<Longrightarrow> reads x) \<Longrightarrow> (\<not> b \<Longrightarrow> reads y) \<Longrightarrow> reads (if b then x else y)"
  "(\<And>e. reads (f e)) \<Longrightarrow> (\<And>z. reads (g z)) \<Longrightarrow> reads (case r of Inl e \<Rightarrow> f e | Inr z \<Rightarrow> g z)"
  "reads x \<Longrightarrow> (\<And>z. reads (h z)) \<Longrightarrow> reads (case o' of None \<Rightarrow> x | Some z \<Rightarrow> h z)"
  "reads x \<Longrightarrow> (\<And>z zs. reads (k z zs)) \<Longrightarrow> reads (case l of [] \<Rightarrow> x | z # zs \<Rightarrow> k z zs)"
  "(\<And>u v. reads (p u v)) \<Longrightarrow> reads (case q of (u, v) \<Rightarrow> p u v)"
  by (simp_all split: sum.split option.split list.split prod.split)

lemma quiet_audit_Count [quiet]:
  "run_state (audit_Count p) (alone d) = (Inr (int (length (filter p (d_audits d)))), alone d)"
  by (simp add: audit_Count_def quiet_stmt)

lemma reads_statements [reads_intros]:
  "reads (world f)" "reads (outside h)" "reads (in_memory k)" "reads time_Now" "reads (order_All p)" "reads (instance_All q)"
  "reads (audit_Count r)" "reads (user_GetByID i)" "reads (order_Get i)"
  unfolding reads_def by (auto simp: quiet)

lemma reads_resolve [reads_intros]:
  "reads (resolveVisibleMethodProviderKey v m ps)" "reads (resolveEnabledVisibleMethodInstance v m)"
  unfolding resolveEnabledVisibleMethodInstance_def resolveVisibleMethodProviderKey_def
    resolveVisibleMethodSourceProviderKey_def Let_def
  by (intro reads_intros)+

lemma reads_checks [reads_intros]:
  "reads (checkCancelRateLimit s uid cfg)" "reads (validateOrderInput s req cfg)"
  "reads (ValidateMethodCurrencyConsistency v dec t)" "reads (validateSelectedCreateOrderInstance s req sel)"
  "reads (prepareCreateOrderSelectionContext s req)" "reads (checkPendingLimit uid n)" "reads (checkDailyLimit uid a b)"
  unfolding checkCancelRateLimit_def validateOrderInput_def validateSubOrder_def ValidateMethodCurrencyConsistency_def
    pcApplyEnabledVisibleMethodInstances_def validateSelectedCreateOrderInstance_def
    prepareCreateOrderSelectionContext_def usesOfficialWxpayVisibleMethod_def checkPendingLimit_def checkDailyLimit_def Let_def
  by (intro reads_intros)+

lemma reads_generateRandomString [reads_intros]: "reads (generateRandomString s n)"
  by (induction n) (auto intro!: reads_intros)

lemma reads_allocateOutTradeNo [reads_intros]: "reads (allocateOutTradeNo s n)"
  by (induction n) (auto simp: generateOutTradeNo_def intro!: reads_intros)

text \<open>Following a run that succeeds.\<close>

lemma run_readsE:
  assumes "run_state (a \<bind> b) (alone d) = (y, m)" "reads a"
  obtains x d' where "run_state a (alone d) = (x, alone d')" "around d d'" "run_state (b x) (alone d') = (y, m)"
proof -
  obtain x d' where "run_state a (alone d) = (x, alone d')" "around d d'" using readsE [OF assms(2)] .
  then show thesis using that assms(1) by (simp add: State_Monad.bind_def)
qed

text \<open>The same, when an error ends the command.\<close>

lemma run_okE:
  assumes "run_state (a \<bind> (\<lambda>c. case c of Inl e \<Rightarrow> ret (Inl (g e)) | Inr x \<Rightarrow> k x)) (alone d) = (Inr y, m)" "reads a"
  obtains x d' where "run_state a (alone d) = (Inr x, alone d')" "around d d'" "run_state (k x) (alone d') = (Inr y, m)"
proof -
  obtain c d' where c: "run_state a (alone d) = (c, alone d')" "around d d'"
    "run_state (case c of Inl e \<Rightarrow> ret (Inl (g e)) | Inr x \<Rightarrow> k x) (alone d') = (Inr y, m)"
    using run_readsE [OF assms] .
  then obtain x where "c = Inr x" by (cases c) auto
  then show thesis using c that by simp
qed

section \<open>The selection\<close>

lemma visible_selected:
  assumes "run_state (SelectVisibleInstance lb app key t strategy amount) (alone d) = (Inr sel, m)"
  shows "\<exists>p k d'. candidate lb app k t d p \<and> sel = buildSelection lb p \<and> m = alone d' \<and> around d d'"
proof -
  have sel: "\<exists>p k d'. candidate lb app k t d p \<and> sel = buildSelection lb p \<and> m = alone d' \<and> around d d'"
    if d0: "around d d0" and run: "run_state (SelectInstance lb app k t strategy amount) (alone d0) = (Inr sel, m)" for d0 k
  proof -
    obtain p g where p: "candidate lb app k t d0 p" "sel = buildSelection lb p" "m = alone (d0\<lparr>d_outside := g\<rparr>)"
      using selected [OF run] by blast
    have "candidate lb app k t d p" using p(1) around_frame(4) [OF d0] by (simp add: candidate_def)
    then show ?thesis using p(2,3) around_trans [OF d0 around_change(1)] by blast
  qed
  let ?v = "NormalizeVisibleMethod t"
  show ?thesis
  proof (cases "key \<noteq> [] \<or> ?v \<noteq> TypeAlipay \<and> ?v \<noteq> TypeWxpay")
    case True
    then show ?thesis using assms sel [OF around_refl] by (auto simp: SelectVisibleInstance_def)
  next
    case False
    then have no: "(key \<noteq> [] \<or> ?v \<noteq> TypeAlipay \<and> ?v \<noteq> TypeWxpay) = False" by blast
    have run: "run_state (resolveEnabledVisibleMethodInstance (lb_setting lb) ?v \<bind>
        (\<lambda>c. case c of Inl e \<Rightarrow> ret (Inl e)
          | Inr None \<Rightarrow> ret (Inl (Plain (''visible payment method '' @ ?v @ '' has no enabled provider instance'')))
          | Inr (Some k) \<Rightarrow> SelectInstance lb app k t strategy amount)) (alone d) = (Inr sel, m)"
      using assms by (simp only: SelectVisibleInstance_def Let_def no if_False)
    obtain c d0 where "around d d0"
      "run_state (case c of Inl e \<Rightarrow> ret (Inl e)
          | Inr None \<Rightarrow> ret (Inl (Plain (''visible payment method '' @ ?v @ '' has no enabled provider instance'')))
          | Inr (Some k) \<Rightarrow> SelectInstance lb app k t strategy amount) (alone d0) = (Inr sel, m)"
      by (rule run_readsE [OF run reads_resolve(2)])
    then show ?thesis using sel by (auto split: sum.splits option.splits)
  qed
qed

lemma create_selected:
  assumes "run_state (selectCreateOrderInstance s req cfg amount) (alone d) = (Inr sel, m)"
  shows "\<exists>p d'. p \<in> set (d_instances d) \<and> pi_Enabled p \<and> sel = buildSelection (os_lb s) p \<and> m = alone d' \<and> around d d'"
proof -
  let ?rest = "\<lambda>app. SelectVisibleInstance (os_lb s) app [] (cq_PaymentType req) (pc_LoadBalanceStrategy cfg) amount"
  obtain c d0 where c: "around d d0" "run_state (case c of Inl e \<Rightarrow> ret (Inl e) | Inr app \<Rightarrow> ?rest app \<bind>
      (\<lambda>sel. ret (case sel of Inl _ \<Rightarrow> Inl (ServiceUnavailable ''PAYMENT_GATEWAY_ERROR'' ''method_not_configured'') | Inr sel \<Rightarrow> Inr sel)))
      (alone d0) = (Inr sel, m)"
    using assms unfolding selectCreateOrderInstance_def by (elim run_readsE) (intro reads_intros)
  then obtain app where "run_state (?rest app) (alone d0) = (Inr sel, m)"
    by (auto simp: State_Monad.bind_def split: sum.splits prod.splits)
  from visible_selected [OF this] obtain p k d' where
    "candidate (os_lb s) app k (cq_PaymentType req) d0 p" "sel = buildSelection (os_lb s) p" "m = alone d'" "around d0 d'"
    by blast
  then show ?thesis
    using around_trans [OF c(1)] around_frame(4) [OF c(1)] by (metis candidate_def)
qed

section \<open>The new row\<close>

definition fresh_ids :: "('w, 'g) pay_db \<Rightarrow> bool" where
  "fresh_ids d \<longleftrightarrow> (\<forall>x\<in>set (d_orders d). o_ID x \<le> d_order_seq d)"

definition new_row :: "numeric \<Rightarrow> PaymentOrder \<Rightarrow> int \<Rightarrow> int \<Rightarrow> PaymentOrder" where
  "new_row num x i t = touch t ((stored_order num i t x)\<lparr>o_RechargeCode := recharge_code_text i t\<rparr>)"

definition with_row :: "PaymentOrder \<Rightarrow> ('w, 'g) pay_db \<Rightarrow> ('w, 'g) pay_db" where
  "with_row x d = d\<lparr>d_order_seq := d_order_seq d + 1, d_orders := d_orders d @ [x]\<rparr>"

text \<open>An update by identifier after the insertion changes the new row only.\<close>

lemma set_new_order:
  assumes "fresh_ids d" "o_ID x = d_order_seq d + 1"
  shows "set_orders (\<lambda>y. o_ID y = d_order_seq d + 1) f (with_row x d) = with_row (touch (d_clock d) (f x)) d"
proof -
  have "\<forall>y\<in>set (d_orders d). o_ID y \<noteq> d_order_seq d + 1" using assms(1) by (fastforce simp: fresh_ids_def)
  then show ?thesis using assms(2) by (simp add: set_orders_def with_row_def map_idI)
qed

lemma find_new_order:
  assumes "fresh_ids d" "o_ID x = d_order_seq d + 1"
  shows "find (\<lambda>y. o_ID y = d_order_seq d + 1) (d_orders (with_row x d)) = Some x"
proof -
  have "find (\<lambda>y. o_ID y = d_order_seq d + 1) (d_orders d) = None"
    using assms(1) by (fastforce simp: fresh_ids_def find_None_iff)
  then show ?thesis using assms(2) by (simp add: with_row_def find_append)
qed

lemma insert_runs:
  assumes "storable_order row" "o_OutTradeNo row = [] \<or> o_OutTradeNo row \<notin> o_OutTradeNo ` set (d_orders d)" "fresh_ids d"
  shows "\<exists>o'. o' = new_row (os_numeric s) row (d_order_seq d + 1) (d_clock d)
    \<and> run_state (insert_order s row) (alone d) = (Inr o', alone (with_row o' d))"
proof -
  let ?i = "d_order_seq d + 1"
  let ?r = "stored_order (os_numeric s) ?i (d_clock d) row"
  have "\<not> (o_OutTradeNo row \<noteq> [] \<and> list_ex (\<lambda>y. o_OutTradeNo y = o_OutTradeNo row) (d_orders d))"
    using assms(2) unfolding list_ex_iff by (metis imageI)
  then have create: "run_state (order_Create (os_numeric s) row) (alone d) = (Inr (row\<lparr>o_ID := ?i\<rparr>), alone (with_row ?r d))"
    using assms(1) by (auto simp: order_Create_def quiet_stmt Let_def with_row_def)
  have id: "o_ID ?r = ?i" by (simp add: stored_order_def)
  let ?f = "\<lambda>x. x\<lparr>o_RechargeCode := recharge_code_text ?i (d_clock d)\<rparr>"
  have new: "o_ID (touch (d_clock d) (?f ?r)) = ?i" using id by (simp add: touch_def)
  have save: "run_state (order_Save ?i ?f) (alone (with_row ?r d)) =
      (Inr (touch (d_clock d) (?f ?r)), alone (with_row (touch (d_clock d) (?f ?r)) d))"
    by (simp add: order_Save_def quiet_stmt set_new_order [OF assms(3) id] find_new_order [OF assms(3) new])
  have clock: "d_clock (with_row ?r d) = d_clock d" by (simp add: with_row_def)
  have "run_state (insert_order s row) (alone d) =
      (Inr (touch (d_clock d) (?f ?r)), alone (with_row (touch (d_clock d) (?f ?r)) d))"
    by (simp add: insert_order_def create quiet clock save)
  then show ?thesis by (simp add: new_row_def)
qed

lemma inserted:
  assumes "run_state (insert_order s row) (alone d) = (Inr o', m)" "fresh_ids d"
  shows "o' = new_row (os_numeric s) row (d_order_seq d + 1) (d_clock d) \<and> m = alone (with_row o' d)
    \<and> (o_OutTradeNo row \<noteq> [] \<longrightarrow> o_OutTradeNo row \<notin> o_OutTradeNo ` set (d_orders d))"
proof -
  have free: "storable_order row" "o_OutTradeNo row = [] \<or> o_OutTradeNo row \<notin> o_OutTradeNo ` set (d_orders d)"
    using assms(1) by (auto simp: insert_order_def order_Create_def quiet_stmt Let_def list_ex_iff split: if_splits)
  show ?thesis using insert_runs [OF free assms(2), of s] assms(1) free(2) by auto
qed

lemma allocated:
  assumes "run_state (allocateOutTradeNo s n) (alone d) = (Inr c, m)"
  shows "\<exists>d'. m = alone d' \<and> around d d' \<and> c \<notin> o_OutTradeNo ` set (d_orders d)"
  using assms
proof (induction n arbitrary: d)
  case (Suc n)
  let ?next = "\<lambda>c. order_All (\<lambda>x. o_OutTradeNo x = c) \<bind>
      (\<lambda>r. case r of Inl e \<Rightarrow> ret (Inl (Wrapped ''check out_trade_no uniqueness: '' e))
         | Inr [] \<Rightarrow> ret (Inr c) | Inr (a # as) \<Rightarrow> allocateOutTradeNo s n)"
  have reads: "reads (generateOutTradeNo s)" unfolding generateOutTradeNo_def by (intro reads_intros)
  have run: "run_state (generateOutTradeNo s \<bind> ?next) (alone d) = (Inr c, m)" using Suc.prems by simp
  obtain k d1 where k: "around d d1" "run_state (?next k) (alone d1) = (Inr c, m)"
    using run_readsE [OF run reads] .
  show ?case
  proof (cases "filter (\<lambda>x. o_OutTradeNo x = k) (d_orders d1)")
    case Nil
    then have "c = k" "m = alone d1" using k(2) by (simp_all add: quiet)
    moreover have "k \<notin> o_OutTradeNo ` set (d_orders d)"
      using Nil around_frame(1) [OF k(1)] by (force simp: filter_empty_conv)
    ultimately show ?thesis using k(1) by blast
  next
    case (Cons a as)
    then have "run_state (allocateOutTradeNo s n) (alone d1) = (Inr c, m)" using k(2) by (simp add: quiet)
    from Suc.IH [OF this] show ?thesis using around_trans [OF k(1)] around_frame(1) [OF k(1)] by auto
  qed
qed simp

definition order_limit :: "PaymentConfig \<Rightarrow> int" where
  "order_limit cfg = (if pc_MaxPendingOrders cfg \<le> 0 then defaultMaxPendingOrders else pc_MaxPendingOrders cfg)"

definition order_expiry :: "PaymentConfig \<Rightarrow> int \<Rightarrow> int" where
  "order_expiry cfg t =
     t + (if pc_OrderTimeoutMin cfg \<le> 0 then defaultOrderTimeoutMin else pc_OrderTimeoutMin cfg) * minute"

lemma placed_row:
  assumes "run_state (createOrderInTx s req plan cfg orderAmount limitAmount payAmount sel) (alone d) = (Inr o', m)" "fresh_ids d"
  shows "\<exists>d' n. around d d' \<and> m = alone (with_row o' d') \<and> n \<notin> o_OutTradeNo ` set (d_orders d)
    \<and> o' = new_row (os_numeric s) (pending_order req plan orderAmount payAmount sel n (order_expiry cfg (d_clock d)))
        (d_order_seq d + 1) (d_clock d)
    \<and> int (length (filter (\<lambda>x. o_UserID x = cq_UserID req \<and> o_Status x = OrderStatusPending) (d_orders d))) < order_limit cfg"
proof -
  let ?body = "create_body s req plan cfg orderAmount limitAmount payAmount sel"
  let ?row = "\<lambda>n. pending_order req plan orderAmount payAmount sel n (order_expiry cfg (d_clock d))"
  obtain x m' where run: "run_state ?body (alone d) = (x, m')" by fastforce
  then have body: "run_state ?body (alone d) = (Inr o', m')" and m: "m = alone (db m')"
    using assms(1) quiet_transaction [OF run] by (auto simp: createOrderInTx_def Tx_def split: sum.splits)
  let ?insert = "\<lambda>e. allocateOutTradeNo s maxAttempts \<bind> (\<lambda>c. case c of Inl e \<Rightarrow> ret (Inl e)
      | Inr n \<Rightarrow> insert_order s (pending_order req plan orderAmount payAmount sel n e))"
  let ?daily = "checkDailyLimit (cq_UserID req) limitAmount (pc_DailyLimit cfg) \<bind>
      (\<lambda>c. case c of Inl e \<Rightarrow> ret (Inl e) | Inr _ \<Rightarrow> time_Now \<bind> (\<lambda>now. ?insert (order_expiry cfg now)))"
  have r0: "run_state (checkPendingLimit (cq_UserID req) (pc_MaxPendingOrders cfg) \<bind>
      (\<lambda>c. case c of Inl e \<Rightarrow> ret (Inl e) | Inr _ \<Rightarrow> ?daily)) (alone d) = (Inr o', m')"
    using body by (simp only: create_body_def order_expiry_def Let_def)
  obtain x1 d1 where d1: "run_state (checkPendingLimit (cq_UserID req) (pc_MaxPendingOrders cfg)) (alone d) = (Inr x1, alone d1)"
    "around d d1" and r1: "run_state ?daily (alone d1) = (Inr o', m')"
    using run_okE [OF r0 reads_checks(6)] .
  obtain x2 d2 where d2: "around d1 d2"
    and r2: "run_state (time_Now \<bind> (\<lambda>now. ?insert (order_expiry cfg now))) (alone d2) = (Inr o', m')"
    using run_okE [OF r1 reads_checks(7)] .
  have "d_clock d2 = d_clock d" using around_frame(5) d1(2) d2 by metis
  then have r3: "run_state (?insert (order_expiry cfg (d_clock d))) (alone d2) = (Inr o', m')" using r2 by (simp add: quiet)
  obtain n d3 where d3: "run_state (allocateOutTradeNo s maxAttempts) (alone d2) = (Inr n, alone d3)" "around d2 d3"
    and r3: "run_state (insert_order s (?row n)) (alone d3) = (Inr o', m')"
    using run_okE [OF r3 reads_allocateOutTradeNo] .
  have ar: "around d d2" "around d d3" using around_trans d1(2) d2 d3(2) by blast+
  note f2 = around_frame [OF ar(1)] and f3 = around_frame [OF ar(2)]
  have "fresh_ids d3" using assms(2) by (simp add: fresh_ids_def f3)
  from inserted [OF r3 this] have row: "o' = new_row (os_numeric s) (?row n) (d_order_seq d + 1) (d_clock d)"
    "m = alone (with_row o' d3)" unfolding m f3 by simp_all
  have "n \<notin> o_OutTradeNo ` set (d_orders d)" using allocated [OF d3(1)] by (auto simp: f2)
  moreover have "int (length (filter (\<lambda>x. o_UserID x = cq_UserID req \<and> o_Status x = OrderStatusPending) (d_orders d))) < order_limit cfg"
    using d1(1) by (auto simp: checkPendingLimit_def quiet order_limit_def split: if_splits)
  ultimately show ?thesis using ar(2) row by blast
qed

section \<open>A successful creation\<close>

lemma invoked:
  assumes "run_state (invokeProvider s order req cfg limitAmount str payAmount plan sel) (alone d) = (Inr resp, m)"
  shows "\<exists>pr token g. m = alone (log_audit (o_ID order) ''ORDER_CREATED'' (''user:'' @ Itoa (cq_UserID req))
      (set_orders (\<lambda>y. o_ID y = o_ID order) (set_payment_details pr sel) (d\<lparr>d_outside := g\<rparr>)))
    \<and> resp = buildCreateOrderResponse (os_numeric s) order req (pc_RechargeFeeRate cfg) payAmount sel pr token"
  using assms
  by (auto simp: invokeProvider_def quiet order_UpdateOneID_def quiet_stmt split: sum.splits if_splits; blast)

definition created_row ::
    "('w, 'g, 'd) OrderService \<Rightarrow> CreateOrderRequest \<Rightarrow> SubscriptionPlan option \<Rightarrow> PaymentConfig \<Rightarrow> float64
      \<Rightarrow> float64 \<Rightarrow> InstanceSelection \<Rightarrow> go_string \<Rightarrow> ('w, 'g) pay_db \<Rightarrow> PaymentOrder" where
  "created_row s req plan cfg orderAmount payAmount sel n d =
     new_row (os_numeric s) (pending_order req plan orderAmount payAmount sel n (order_expiry cfg (d_clock d)))
       (d_order_seq d + 1) (d_clock d)"

lemma placed:
  assumes "run_state (place_order s req cfg plan orderAmount limitAmount str payAmount sel) (alone d) = (Inr resp, m)" "fresh_ids d"
  shows "\<exists>d' n pr token as. around d d' \<and> n \<notin> o_OutTradeNo ` set (d_orders d)
    \<and> m = alone ((with_row (touch (d_clock d) (set_payment_details pr sel
        (created_row s req plan cfg orderAmount payAmount sel n d))) d')\<lparr>d_audits := as\<rparr>)
    \<and> resp = buildCreateOrderResponse (os_numeric s) (created_row s req plan cfg orderAmount payAmount sel n d) req
        (pc_RechargeFeeRate cfg) payAmount sel pr token
    \<and> int (length (filter (\<lambda>x. o_UserID x = cq_UserID req \<and> o_Status x = OrderStatusPending) (d_orders d))) < order_limit cfg"
proof -
  obtain c m1 where c: "run_state (createOrderInTx s req plan cfg orderAmount limitAmount payAmount sel) (alone d) = (c, m1)"
    by fastforce
  then obtain o' where o': "c = Inr o'" using assms(1) by (cases c) (auto simp: place_order_def)
  note made = placed_row [OF c [unfolded o'] assms(2)]
  then obtain d1 n where d1: "around d d1" "m1 = alone (with_row o' d1)" "n \<notin> o_OutTradeNo ` set (d_orders d)"
    and row: "o' = created_row s req plan cfg orderAmount payAmount sel n d" by (auto simp: created_row_def)
  obtain r m2 where r: "run_state (invokeProvider s o' req cfg limitAmount str payAmount plan sel) (alone (with_row o' d1)) = (r, m2)"
    by fastforce
  then have "r = Inr resp" "m2 = m"
    using assms(1) by (auto simp: place_order_def c o' d1(2) split: sum.splits prod.splits)
  with invoked [of s o' req cfg limitAmount str payAmount plan sel "with_row o' d1" resp m] r
  obtain pr token g where m: "m = alone (log_audit (o_ID o') ''ORDER_CREATED'' (''user:'' @ Itoa (cq_UserID req))
      (set_orders (\<lambda>y. o_ID y = o_ID o') (set_payment_details pr sel) ((with_row o' d1)\<lparr>d_outside := g\<rparr>)))"
    and resp: "resp = buildCreateOrderResponse (os_numeric s) o' req (pc_RechargeFeeRate cfg) payAmount sel pr token"
    by auto
  let ?d2 = "d1\<lparr>d_outside := g\<rparr>"
  have ar: "around d ?d2" using around_trans [OF d1(1) around_change(1)] .
  note f = around_frame [OF ar]
  have "fresh_ids ?d2" "o_ID o' = d_order_seq ?d2 + 1"
    using assms(2) by (simp_all only: f fresh_ids_def) (simp add: row created_row_def new_row_def touch_def stored_order_def)
  from set_new_order [OF this, of "set_payment_details pr sel"]
  have "set_orders (\<lambda>y. o_ID y = o_ID o') (set_payment_details pr sel) (with_row o' ?d2) =
      with_row (touch (d_clock d) (set_payment_details pr sel o')) ?d2"
    unfolding \<open>o_ID o' = _\<close> f(5) .
  moreover have "(with_row o' d1)\<lparr>d_outside := g\<rparr> = with_row o' ?d2" by (simp add: with_row_def)
  ultimately obtain as where "m = alone ((with_row (touch (d_clock d) (set_payment_details pr sel o')) ?d2)\<lparr>d_audits := as\<rparr>)"
    using m log_audit_ex by metis
  then show ?thesis using ar d1(3) resp made unfolding row by blast
qed

abbreviation pay_currency :: "('w, 'g, 'd) OrderService \<Rightarrow> PaymentProviderInstance \<Rightarrow> go_string" where
  "pay_currency s p \<equiv> paymentProviderConfigCurrency (sel_ProviderKey (buildSelection (os_lb s) p)) (sel_Config (buildSelection (os_lb s) p))"

lemma with_selection_ok:
  assumes "run_state (with_selection s req cfg plan methodCurrency pay sel) (alone d) = (Inr resp, m)" "co_OrderID resp \<noteq> 0"
    "calculateCreateOrderPayAmount (os_decimal s) (snd (order_amounts (os_decimal s) req plan cfg)) (pc_RechargeFeeRate cfg)
       methodCurrency = Inr pay"
  shows "\<exists>str amt. calculateCreateOrderPayAmount (os_decimal s) (snd (order_amounts (os_decimal s) req plan cfg))
       (pc_RechargeFeeRate cfg) (paymentProviderConfigCurrency (sel_ProviderKey sel) (sel_Config sel)) = Inr (str, amt)
    \<and> run_state (place_order s req cfg plan (fst (order_amounts (os_decimal s) req plan cfg))
         (snd (order_amounts (os_decimal s) req plan cfg)) str amt sel) (alone d) = (Inr resp, m)"
proof -
  obtain oa la where amounts: "order_amounts (os_decimal s) req plan cfg = (oa, la)" by fastforce
  let ?again = "if paymentProviderConfigCurrency (sel_ProviderKey sel) (sel_Config sel) \<noteq> methodCurrency
    then calculateCreateOrderPayAmount (os_decimal s) la (pc_RechargeFeeRate cfg)
      (paymentProviderConfigCurrency (sel_ProviderKey sel) (sel_Config sel)) else Inr pay"
  obtain str amt where again: "?again = Inr (str, amt)"
    using assms(1) by (auto simp: with_selection_def Let_def amounts simp del: split_paired_Ex split: sum.splits if_splits)
  then have calc: "calculateCreateOrderPayAmount (os_decimal s) la (pc_RechargeFeeRate cfg)
      (paymentProviderConfigCurrency (sel_ProviderKey sel) (sel_Config sel)) = Inr (str, amt)"
    using assms(3) by (auto simp: amounts split: if_splits)
  have "run_state (place_order s req cfg plan oa la str amt sel) (alone d) = (Inr resp, m)"
    using assms(1,2)
    by (simp only: with_selection_def Let_def amounts prod.case again sum.case)
      (auto simp: quiet oauth_response_def split: sum.splits if_splits)
  then show ?thesis using calc by (auto simp: amounts)
qed

lemma checked_ok:
  assumes "run_state (checked_order s req cfg plan) (alone d) = (Inr resp, m)" "co_OrderID resp \<noteq> 0"
  shows "\<exists>u p d' str amt. user_of (cq_UserID req) d = Some u \<and> u_Status u = EntityStatusActive
    \<and> p \<in> set (d_instances d) \<and> pi_Enabled p \<and> around d d'
    \<and> calculateCreateOrderPayAmount (os_decimal s) (snd (order_amounts (os_decimal s) req plan cfg))
        (pc_RechargeFeeRate cfg) (pay_currency s p) = Inr (str, amt)
    \<and> run_state (place_order s req cfg plan (fst (order_amounts (os_decimal s) req plan cfg))
        (snd (order_amounts (os_decimal s) req plan cfg)) str amt (buildSelection (os_lb s) p)) (alone d') = (Inr resp, m)"
proof -
  let ?calc = "calculateCreateOrderPayAmount (os_decimal s) (snd (order_amounts (os_decimal s) req plan cfg)) (pc_RechargeFeeRate cfg)"
  let ?check = "\<lambda>mc pay sel. validateSelectedCreateOrderInstance s req sel \<bind>
      (\<lambda>c. case c of Inl e \<Rightarrow> ret (Inl e) | Inr _ \<Rightarrow> with_selection s req cfg plan mc pay sel)"
  let ?select = "\<lambda>mc pay. selectCreateOrderInstance s req cfg (snd pay) \<bind>
      (\<lambda>sel. case sel of Inl e \<Rightarrow> ret (Inl e) | Inr sel \<Rightarrow> ?check mc pay sel)"
  let ?valid = "ValidateMethodCurrencyConsistency (lb_setting (os_lb s)) (lb_decrypt (os_lb s)) (cq_PaymentType req)"
  let ?pay = "\<lambda>mc. case ?calc mc of Inl e \<Rightarrow> ret (Inl e) | Inr pay \<Rightarrow> ?select mc pay"
  obtain u where u: "user_of (cq_UserID req) d = Some u" "u_Status u = EntityStatusActive"
    and r1: "run_state (?valid \<bind> (\<lambda>c. case c of Inl e \<Rightarrow> ret (Inl e) | Inr mc \<Rightarrow> ?pay mc)) (alone d) = (Inr resp, m)"
    using assms(1) by (auto simp: checked_order_def quiet split: option.splits if_splits)
  obtain mc d1 where d1: "around d d1" and r2: "run_state (?pay mc) (alone d1) = (Inr resp, m)"
    using run_okE [OF r1 reads_checks(3)] .
  then obtain pay where pay: "?calc mc = Inr pay" and r3: "run_state (?select mc pay) (alone d1) = (Inr resp, m)"
    by (auto split: sum.splits)
  obtain c m2 where c: "run_state (selectCreateOrderInstance s req cfg (snd pay)) (alone d1) = (c, m2)" by fastforce
  with r3 obtain sel where sel: "c = Inr sel" by (cases c) (auto simp: State_Monad.bind_def)
  from create_selected [OF c [unfolded sel]] obtain p d2 where p: "p \<in> set (d_instances d1)" "pi_Enabled p"
    "sel = buildSelection (os_lb s) p" "m2 = alone d2" "around d1 d2" by blast
  have r4: "run_state (?check mc pay sel) (alone d2) = (Inr resp, m)"
    using r3 c by (simp add: sel p(4) State_Monad.bind_def)
  obtain x d3 where d3: "around d2 d3" and r5: "run_state (with_selection s req cfg plan mc pay sel) (alone d3) = (Inr resp, m)"
    using run_okE [OF r4 reads_checks(4)] .
  have ar: "around d d3" using around_trans d1 p(5) d3 by blast
  show ?thesis
    using with_selection_ok [OF r5 assms(2) pay] u p(1,2) ar around_frame(4) [OF d1] unfolding p(3) by metis
qed

text \<open>What the input must satisfy, and the plan it asks for.\<close>

lemma input_ok:
  assumes "run_state (validateOrderInput s req cfg) (alone d) = (Inr plan, m)"
  shows "\<not> (cq_OrderType req = OrderTypeBalance \<and> pc_BalanceDisabled cfg)
    \<and> (plan = None \<longrightarrow> cq_OrderType req \<noteq> OrderTypeSubscription \<and> amount_in_range cfg (cq_Amount req) = Inr ())
    \<and> (plan \<noteq> None \<longrightarrow> cq_OrderType req = OrderTypeSubscription)"
  using assms
  by (auto simp: validateOrderInput_def validateSubOrder_def quiet split: if_splits sum.splits bool.splits prod.splits)

lemma create_ok:
  assumes "run_state (CreateOrder s rawReq) (alone d) = (Inr resp, m)"
  shows "\<exists>cfg plan d'. fst (os_config s (d_world d)) = Inr cfg \<and> pc_Enabled cfg
    \<and> \<not> (cq_OrderType (normalize_request rawReq) = OrderTypeBalance \<and> pc_BalanceDisabled cfg)
    \<and> (plan = None \<longrightarrow> cq_OrderType (normalize_request rawReq) \<noteq> OrderTypeSubscription
        \<and> amount_in_range cfg (cq_Amount (normalize_request rawReq)) = Inr ())
    \<and> (plan \<noteq> None \<longrightarrow> cq_OrderType (normalize_request rawReq) = OrderTypeSubscription)
    \<and> around d d' \<and> run_state (checked_order s (normalize_request rawReq) cfg plan) (alone d') = (Inr resp, m)"
proof -
  let ?req = "normalize_request rawReq"
  let ?rate = "\<lambda>cfg plan. checkCancelRateLimit s (cq_UserID ?req) cfg \<bind>
      (\<lambda>c. case c of Inl e \<Rightarrow> ret (Inl e) | Inr _ \<Rightarrow> checked_order s ?req cfg plan)"
  let ?valid = "\<lambda>cfg. validateOrderInput s ?req cfg \<bind> (\<lambda>c. case c of Inl e \<Rightarrow> ret (Inl e) | Inr plan \<Rightarrow> ?rate cfg plan)"
  let ?rest = "\<lambda>cfg. if \<not> pc_Enabled cfg then ret (Inl (Forbidden ''PAYMENT_DISABLED'' ''payment system is disabled'')) else ?valid cfg"
  have r0: "run_state (world (os_config s) \<bind> (\<lambda>c. case c of Inl e \<Rightarrow> ret (Inl (Wrapped ''get payment config: '' e))
      | Inr cfg \<Rightarrow> ?rest cfg)) (alone d) = (Inr resp, m)"
    using assms by (simp only: CreateOrder_def Let_def)
  obtain cfg d1 where cfg: "run_state (world (os_config s)) (alone d) = (Inr cfg, alone d1)" "around d d1"
    and r1: "run_state (?rest cfg) (alone d1) = (Inr resp, m)"
    using run_okE [OF r0 reads_statements(1)] .
  have on: "pc_Enabled cfg" "fst (os_config s (d_world d)) = Inr cfg"
    using r1 cfg(1) by (auto simp: quiet split: if_splits)
  have r2: "run_state (?valid cfg) (alone d1) = (Inr resp, m)" using r1 on(1) by simp
  obtain plan d2 where plan: "run_state (validateOrderInput s ?req cfg) (alone d1) = (Inr plan, alone d2)" "around d1 d2"
    and r3: "run_state (?rate cfg plan) (alone d2) = (Inr resp, m)"
    using run_okE [OF r2 reads_checks(2)] .
  obtain x d3 where d3: "around d2 d3" and r4: "run_state (checked_order s ?req cfg plan) (alone d3) = (Inr resp, m)"
    using run_okE [OF r3 reads_checks(1)] .
  have "around d d3" using around_trans cfg(2) plan(2) d3 by blast
  then show ?thesis using on input_ok [OF plan(1)] r4 by blast
qed

text \<open>All of it together.\<close>

lemma created:
  assumes "run_state (CreateOrder s rawReq) (alone d) = (Inr resp, m)" "co_OrderID resp \<noteq> 0" "fresh_ids d"
  obtains req cfg plan u p d' n pr token as str amt x where
    "req = normalize_request rawReq" "fst (os_config s (d_world d)) = Inr cfg" "pc_Enabled cfg"
    "\<not> (cq_OrderType req = OrderTypeBalance \<and> pc_BalanceDisabled cfg)"
    "plan = None \<longrightarrow> cq_OrderType req \<noteq> OrderTypeSubscription \<and> amount_in_range cfg (cq_Amount req) = Inr ()"
    "plan \<noteq> None \<longrightarrow> cq_OrderType req = OrderTypeSubscription"
    "user_of (cq_UserID req) d = Some u" "u_Status u = EntityStatusActive" "p \<in> set (d_instances d)" "pi_Enabled p"
    "calculateCreateOrderPayAmount (os_decimal s) (snd (order_amounts (os_decimal s) req plan cfg))
        (pc_RechargeFeeRate cfg) (pay_currency s p) = Inr (str, amt)"
    "n \<notin> o_OutTradeNo ` set (d_orders d)"
    "int (length (filter (\<lambda>y. o_UserID y = cq_UserID req \<and> o_Status y = OrderStatusPending) (d_orders d))) < order_limit cfg"
    "around d d'" "m = alone ((with_row x d')\<lparr>d_audits := as\<rparr>)"
    "x = touch (d_clock d) (set_payment_details pr (buildSelection (os_lb s) p)
        (created_row s req plan cfg (fst (order_amounts (os_decimal s) req plan cfg)) amt (buildSelection (os_lb s) p) n d))"
    "resp = buildCreateOrderResponse (os_numeric s)
        (created_row s req plan cfg (fst (order_amounts (os_decimal s) req plan cfg)) amt (buildSelection (os_lb s) p) n d)
        req (pc_RechargeFeeRate cfg) amt (buildSelection (os_lb s) p) pr token"
proof -
  let ?req = "normalize_request rawReq"
  obtain cfg plan d1 where c: "fst (os_config s (d_world d)) = Inr cfg" "pc_Enabled cfg"
    "\<not> (cq_OrderType ?req = OrderTypeBalance \<and> pc_BalanceDisabled cfg)"
    "plan = None \<longrightarrow> cq_OrderType ?req \<noteq> OrderTypeSubscription \<and> amount_in_range cfg (cq_Amount ?req) = Inr ()"
    "plan \<noteq> None \<longrightarrow> cq_OrderType ?req = OrderTypeSubscription" "around d d1"
    and r1: "run_state (checked_order s ?req cfg plan) (alone d1) = (Inr resp, m)"
    using create_ok [OF assms(1)] by blast
  note f1 = around_frame [OF c(6)]
  let ?amounts = "order_amounts (os_decimal s) ?req plan cfg"
  obtain u p d2 str amt where k: "user_of (cq_UserID ?req) d = Some u" "u_Status u = EntityStatusActive"
    "p \<in> set (d_instances d)" "pi_Enabled p" "around d1 d2"
    "calculateCreateOrderPayAmount (os_decimal s) (snd ?amounts) (pc_RechargeFeeRate cfg) (pay_currency s p) = Inr (str, amt)"
    and r2: "run_state (place_order s ?req cfg plan (fst ?amounts) (snd ?amounts) str amt (buildSelection (os_lb s) p)) (alone d2) = (Inr resp, m)"
    using checked_ok [OF r1 assms(2)] unfolding f1 by blast
  have ar: "around d d2" using around_trans [OF c(6) k(5)] .
  note f2 = around_frame [OF ar]
  have "fresh_ids d2" using assms(3) by (simp add: fresh_ids_def f2)
  have row: "created_row s ?req plan cfg oa a sel n d2 = created_row s ?req plan cfg oa a sel n d" for oa a sel n
    by (simp add: created_row_def f2)
  from placed [OF r2 \<open>fresh_ids d2\<close>, unfolded row f2] obtain d3 n pr token as where e: "around d2 d3"
    "n \<notin> o_OutTradeNo ` set (d_orders d)"
    "m = alone ((with_row (touch (d_clock d) (set_payment_details pr (buildSelection (os_lb s) p)
        (created_row s ?req plan cfg (fst ?amounts) amt (buildSelection (os_lb s) p) n d))) d3)\<lparr>d_audits := as\<rparr>)"
    "resp = buildCreateOrderResponse (os_numeric s) (created_row s ?req plan cfg (fst ?amounts) amt (buildSelection (os_lb s) p) n d)
        ?req (pc_RechargeFeeRate cfg) amt (buildSelection (os_lb s) p) pr token"
    "int (length (filter (\<lambda>y. o_UserID y = cq_UserID ?req \<and> o_Status y = OrderStatusPending) (d_orders d))) < order_limit cfg"
    by blast
  show thesis
    by (rule that [OF refl c(1-5) k(1-4,6) e(2,5) around_trans [OF ar e(1)] e(3) refl e(4)])
qed

end
