(* ===== verification/OrderClaims.thy ===== *)
theory OrderClaims
  imports OrderFacts AmountFacts
begin

text \<open>
  Properties of the creation of orders: what a successful creation leaves, that the order finds the
  instance and the currency it was made for, and three ways in which the checks are too weak.
\<close>

section \<open>Texts\<close>

lemma space_len_TrimLeftSpace: "space_len (TrimLeftSpace s) = 0"
proof (induction s rule: TrimLeftSpace.induct)
  case (1 s)
  show ?case
  proof (cases "s = [] \<or> space_len s = 0")
    case True
    then have "TrimLeftSpace s = s" by (subst TrimLeftSpace.simps) simp
    then show ?thesis using True by (auto simp: space_len_def)
  next
    case False
    then have "TrimLeftSpace s = TrimLeftSpace (drop (space_len s) s)" by (subst TrimLeftSpace.simps) simp
    then show ?thesis using 1 False by simp
  qed
qed

lemma TrimRightSpace_prefix: "\<exists>n. TrimRightSpace s = take n s \<and> space_len_end (TrimRightSpace s) = 0"
proof (induction s rule: TrimRightSpace.induct)
  case (1 s)
  show ?case
  proof (cases "s = [] \<or> space_len_end s = 0")
    case True
    then have "TrimRightSpace s = s" by (subst TrimRightSpace.simps) simp
    moreover have "space_len_end s = 0" using True by (cases s) (simp_all add: space_len_end_def)
    ultimately show ?thesis by (intro exI [of _ "length s"]) simp
  next
    case False
    then have "TrimRightSpace s = TrimRightSpace (take (length s - space_len_end s) s)" by (subst TrimRightSpace.simps) simp
    then show ?thesis using 1 False by (metis take_take)
  qed
qed

lemma wide_spaces_long: "\<forall>w\<in>set wide_spaces. length w \<noteq> 0"
  by (simp add: wide_spaces_def bytes_def)

lemma HasPrefix_of_take: "HasPrefix (take n s) w \<Longrightarrow> HasPrefix s w"
  by (auto simp: HasPrefix_def min_def split: if_splits)

lemma space_len_take:
  assumes "space_len s = 0"
  shows "space_len (take n s) = 0"
proof (cases s)
  case (Cons c r)
  show ?thesis
  proof (cases "find (HasPrefix (take n s)) wide_spaces")
    case (Some w)
    then have w: "w \<in> set wide_spaces" "HasPrefix (take n s) w" by (auto simp: find_Some_iff)
    then have "HasPrefix s w" by (rule_tac HasPrefix_of_take)
    with w(1) obtain v where "find (HasPrefix s) wide_spaces = Some v" "v \<in> set wide_spaces"
      by (cases "find (HasPrefix s) wide_spaces") (auto simp: find_None_iff find_Some_iff)
    then show ?thesis using assms Cons wide_spaces_long by (cases n) (auto simp: space_len_def split: if_splits)
  qed (use assms Cons in \<open>cases n; auto simp: space_len_def split: if_splits\<close>)
qed (simp add: space_len_def)

lemma TrimSpace_TrimSpace [simp]: "TrimSpace (TrimSpace s) = TrimSpace s"
proof (rule TrimSpace_id)
  obtain n where n: "TrimRightSpace (TrimLeftSpace s) = take n (TrimLeftSpace s)"
    "space_len_end (TrimRightSpace (TrimLeftSpace s)) = 0"
    using TrimRightSpace_prefix by blast
  show "space_len (TrimSpace s) = 0"
    using space_len_take [OF space_len_TrimLeftSpace] by (simp add: TrimSpace_def n(1))
  show "space_len_end (TrimSpace s) = 0" using n(2) by (simp add: TrimSpace_def)
qed

lemma TrimSpace_Itoa [simp]: "TrimSpace (Itoa n) = Itoa n"
proof (rule TrimSpace_plain)
  show "Itoa n \<noteq> []" by (simp add: Itoa_def)
  show "\<forall>c\<in>set (Itoa n). is_digit c \<or> c = CHR ''.'' \<or> c = CHR ''-''" using nat_dec_digits by (auto simp: Itoa_def)
qed

lemma ParseInt64_Itoa [simp]: "int64 n \<Longrightarrow> ParseInt64 (Itoa n) = Some n"
proof -
  assume n: "int64 n"
  have "take 1 (nat_dec k) \<noteq> ''-''" "take 1 (nat_dec k) \<noteq> ''+''" for k
    using nat_dec_digits [of k] by (cases "nat_dec k"; auto simp: is_digit_def)+
  moreover have "list_all is_digit (nat_dec k)" "nat_dec k \<noteq> []" for k
    using nat_dec_digits nat_dec_nonempty by (simp_all add: list_all_iff)
  ultimately show ?thesis
    using n by (auto simp: ParseInt64_def Itoa_def Let_def HasPrefix_def)
qed

text \<open>A normalized currency is normalized.\<close>

lemma currency_again:
  assumes "NormalizePaymentCurrency raw = Inr c"
  shows "NormalizePaymentCurrency c = Inr c \<and> TrimSpace c = c"
proof (cases "c = DefaultPaymentCurrency")
  case True
  have "NormalizePaymentCurrency DefaultPaymentCurrency = Inr DefaultPaymentCurrency"
    "TrimSpace DefaultPaymentCurrency = DefaultPaymentCurrency" by code_simp+
  then show ?thesis using True by simp
next
  case False
  then have c: "length c = 3" "list_all is_upper c"
    using assms by (auto simp: NormalizePaymentCurrency_def Let_def split: if_splits)
  then obtain x y z where xyz: "c = [x, y, z]" "is_upper x" "is_upper y" "is_upper z"
    by (auto simp: numeral_3_eq_3 length_Suc_conv)
  have plain: "of_char k < (128 :: nat) \<and> \<not> ascii_space k \<and> to_upper_byte k = k" if "is_upper k" for k
    using that by (auto simp: is_upper_def ascii_space_def to_upper_byte_def Let_def)
  have trim: "TrimSpace c = c" using xyz plain by (intro TrimSpace_ascii_ends) auto
  have "k \<noteq> char_of (0xC5 :: nat) \<and> k \<noteq> char_of (0xC4 :: nat)" if "is_upper k" for k
    using that by (auto simp: is_upper_def)
  then have "ToUpper c = c" using xyz plain by (auto simp: bytes_def)
  moreover have "c \<noteq> []" using xyz(1) by simp
  ultimately show ?thesis using trim c by (simp add: NormalizePaymentCurrency_def Let_def)
qed

section \<open>What the order remembers\<close>

lemma map_of_apsnd: "map_of (map (apsnd f) l) k = map_option f (map_of l k)"
  by (induction l) auto

lemma pay_currency_normal: "NormalizePaymentCurrency (paymentProviderConfigCurrency k c) = Inr (paymentProviderConfigCurrency k c)
    \<and> TrimSpace (paymentProviderConfigCurrency k c) = paymentProviderConfigCurrency k c"
proof -
  have default: "NormalizePaymentCurrency DefaultPaymentCurrency = Inr DefaultPaymentCurrency
      \<and> TrimSpace DefaultPaymentCurrency = DefaultPaymentCurrency"
    by code_simp
  show ?thesis
    using currency_again default by (auto simp: paymentProviderConfigCurrency_def split: sum.splits)
qed

lemma map_of_entry: "map_of (entry k v @ r) j = (if j = k \<and> v \<noteq> [] then Some (AnyString v) else map_of r j)"
  by (simp add: entry_def)

definition merchant_entries :: "InstanceSelection \<Rightarrow> CreateOrderRequest \<Rightarrow> (go_string \<times> any_value) list" where
  "merchant_entries sel req =
     (let providerKey = TrimSpace (sel_ProviderKey sel);
          cfg = (\<lambda>k. TrimSpace (config_value (sel_Config sel) k));
          currency = (''currency'', AnyString (paymentProviderConfigCurrency providerKey (sel_Config sel)))
      in if providerKey = TypeWxpay then
           entry ''merchant_app_id'' (paymentOrderSnapshotWxpayAppID sel req)
           @ entry ''merchant_id'' (cfg ''mchId'') @ [(''currency'', AnyString DefaultPaymentCurrency)]
         else if providerKey = TypeAlipay then entry ''merchant_app_id'' (cfg ''appId'')
         else if providerKey = TypeEasyPay then entry ''merchant_id'' (cfg ''pid'')
         else if providerKey = TypeStripe then [currency]
         else if providerKey = TypeAirwallex then entry ''merchant_id'' (cfg ''accountId'') @ [currency]
         else [])"

lemma snapshot_shape:
  assumes "TrimSpace (sel_InstanceID sel) \<noteq> []"
  shows "buildPaymentOrderProviderSnapshot sel req =
    (''schema_version'', AnyInt 2) # (''provider_instance_id'', AnyString (TrimSpace (sel_InstanceID sel)))
    # entry ''provider_key'' (TrimSpace (sel_ProviderKey sel)) @ entry ''payment_mode'' (TrimSpace (sel_PaymentMode sel))
    @ merchant_entries sel req"
proof -
  have id: "entry ''provider_instance_id'' (TrimSpace (sel_InstanceID sel)) =
      [(''provider_instance_id'', AnyString (TrimSpace (sel_InstanceID sel)))]" using assms by (simp add: entry_def)
  show ?thesis
    by (simp only: buildPaymentOrderProviderSnapshot_def merchant_entries_def [symmetric] Let_def id append_Cons append_Nil
        list.size Suc_eq_plus1 if_False)
      (simp add: merchant_entries_def Let_def)
qed

lemma map_of_entry_only: "map_of (entry k v) j = (if j = k \<and> v \<noteq> [] then Some (AnyString v) else None)"
  by (simp add: entry_def)

lemmas snapshot_entries = snapshot_shape map_of_entry map_of_entry_only

lemma merchant_strings: "map_of (merchant_entries sel req) k \<noteq> Some (AnyInt n)"
  by (simp add: merchant_entries_def Let_def snapshot_entries del: map_of_append)

lemma merchant_keys: "j \<notin> {''merchant_app_id'', ''merchant_id'', ''currency''} \<Longrightarrow> map_of (merchant_entries sel req) j = None"
  by (simp add: merchant_entries_def Let_def snapshot_entries del: map_of_append)

lemma snapshot_strings:
  assumes "k \<noteq> ''schema_version''" "TrimSpace (sel_InstanceID sel) \<noteq> []"
  shows "map_of (buildPaymentOrderProviderSnapshot sel req) k \<noteq> Some (AnyInt n)"
  using assms by (simp add: snapshot_entries merchant_strings del: map_of_append)

lemma selection_id: "TrimSpace (sel_InstanceID (buildSelection lb p)) = Itoa (pi_ID p)" "Itoa i \<noteq> []"
  by (simp_all add: buildSelection_def Itoa_def [of i])

lemma snapshot_lookup:
  "map_of (buildPaymentOrderProviderSnapshot (buildSelection lb p) req) ''provider_instance_id'' = Some (AnyString (Itoa (pi_ID p)))"
  "psSnapshotStringValue (map_of (buildPaymentOrderProviderSnapshot (buildSelection lb p) req) ''provider_key'') = TrimSpace (pi_ProviderKey p)"
proof -
  show "map_of (buildPaymentOrderProviderSnapshot (buildSelection lb p) req) ''provider_instance_id'' = Some (AnyString (Itoa (pi_ID p)))"
    by (simp add: snapshot_entries selection_id merchant_keys del: map_of_append)
  show "psSnapshotStringValue (map_of (buildPaymentOrderProviderSnapshot (buildSelection lb p) req) ''provider_key'') = TrimSpace (pi_ProviderKey p)"
    by (simp add: snapshot_entries selection_id merchant_keys del: map_of_append) (simp add: buildSelection_def)
qed

lemma snapshot_currency:
  assumes "TrimSpace (sel_InstanceID sel) \<noteq> []"
  shows "NormalizePaymentCurrency (psSnapshotStringValue (map_of (buildPaymentOrderProviderSnapshot sel req) ''currency'')) =
     Inr (paymentProviderConfigCurrency (sel_ProviderKey sel) (sel_Config sel))"
proof -
  let ?c = "paymentProviderConfigCurrency (sel_ProviderKey sel) (sel_Config sel)"
  have trim: "?c = paymentProviderConfigCurrency (TrimSpace (sel_ProviderKey sel)) (sel_Config sel)"
    by (simp add: paymentProviderConfigCurrency_def)
  have plain: "NormalizePaymentCurrency [] = Inr DefaultPaymentCurrency"
    "NormalizePaymentCurrency DefaultPaymentCurrency = Inr DefaultPaymentCurrency" "TrimSpace DefaultPaymentCurrency = DefaultPaymentCurrency"
    by code_simp+
  have keys: "TypeWxpay \<noteq> TypeStripe" "TypeWxpay \<noteq> TypeAirwallex" "TypeAlipay \<noteq> TypeStripe" "TypeAlipay \<noteq> TypeAirwallex"
    "TypeEasyPay \<noteq> TypeStripe" "TypeEasyPay \<noteq> TypeAirwallex" "TypeAlipay \<noteq> TypeWxpay" "TypeEasyPay \<noteq> TypeWxpay"
    "TypeEasyPay \<noteq> TypeAlipay" "TypeStripe \<noteq> TypeWxpay" "TypeStripe \<noteq> TypeAlipay" "TypeStripe \<noteq> TypeEasyPay"
    by code_simp+
  consider "TrimSpace (sel_ProviderKey sel) = TypeStripe \<or> TrimSpace (sel_ProviderKey sel) = TypeAirwallex"
    | "TrimSpace (sel_ProviderKey sel) \<noteq> TypeStripe" "TrimSpace (sel_ProviderKey sel) \<noteq> TypeAirwallex" by blast
  then show ?thesis
  proof cases
    case 1
    then have "psSnapshotStringValue (map_of (buildPaymentOrderProviderSnapshot sel req) ''currency'') = ?c"
      using keys pay_currency_normal assms
      by (auto simp: snapshot_entries merchant_entries_def Let_def trim simp del: map_of_append)
    then show ?thesis using pay_currency_normal by simp
  next
    case 2
    then have "?c = DefaultPaymentCurrency" by (simp add: paymentProviderConfigCurrency_def)
    moreover have "psSnapshotStringValue (map_of (buildPaymentOrderProviderSnapshot sel req) ''currency'') \<in> {[], DefaultPaymentCurrency}"
      using 2 plain assms by (simp add: snapshot_entries merchant_entries_def Let_def del: map_of_append)
    ultimately show ?thesis using plain by auto
  qed
qed

text \<open>What is read back from the row.\<close>

lemma snapshot_of_selection:
  assumes "o_ProviderSnapshot x = map (apsnd json_stored) (buildPaymentOrderProviderSnapshot (buildSelection lb p) req)"
  shows "\<exists>sn. psOrderProviderSnapshot x = Some sn \<and> s_ProviderInstanceID sn = Itoa (pi_ID p)
    \<and> s_ProviderKey sn = TrimSpace (pi_ProviderKey p)
    \<and> NormalizePaymentCurrency (s_Currency sn) =
       Inr (paymentProviderConfigCurrency (pi_ProviderKey p) (sel_Config (buildSelection lb p)))"
proof -
  let ?l = "buildPaymentOrderProviderSnapshot (buildSelection lb p) req"
  let ?str = "\<lambda>k. psSnapshotStringValue (map_of (o_ProviderSnapshot x) k)"
  have same: "psSnapshotStringValue (map_option json_stored r) = psSnapshotStringValue r" if "\<And>n. r \<noteq> Some (AnyInt n)" for r
    using that by (cases r rule: psSnapshotStringValue.cases) auto
  have given: "TrimSpace (sel_InstanceID (buildSelection lb p)) \<noteq> []" by (simp add: selection_id)
  have read: "?str k = psSnapshotStringValue (map_of ?l k)" if "k \<noteq> ''schema_version''" for k
    using same [OF snapshot_strings [OF that given]] by (simp only: assms map_of_apsnd)
  have some: "Itoa (pi_ID p) \<noteq> []" by (simp add: Itoa_def)
  have id: "?str ''provider_instance_id'' = Itoa (pi_ID p)" using read [of "''provider_instance_id''"] by (simp add: snapshot_lookup)
  have key: "?str ''provider_key'' = TrimSpace (pi_ProviderKey p)" using read [of "''provider_key''"] by (simp add: snapshot_lookup)
  have currency: "NormalizePaymentCurrency (?str ''currency'') =
      Inr (paymentProviderConfigCurrency (pi_ProviderKey p) (sel_Config (buildSelection lb p)))"
    using read [of "''currency''"] snapshot_currency [of "buildSelection lb p" req] selection_id
    by (simp add: buildSelection_def)
  have "o_ProviderSnapshot x \<noteq> []" using id some by auto
  then show ?thesis
    using some by (simp add: psOrderProviderSnapshot_def Let_def id key currency)
qed

lemma quiet_resolved:
  assumes "psOrderProviderSnapshot x = Some sn" "s_ProviderInstanceID sn = Itoa i" "int64 i"
    "o_ProviderInstanceID x = Some (Itoa i)" "s_ProviderKey sn = TrimSpace (pi_ProviderKey q)"
    "find (\<lambda>p. pi_ID p = i) (d_instances d) = Some q"
  shows "resolved x d = Inr (Some q)"
  using assms selection_id(2) [of i]
  by (simp add: resolved_def getOrderProviderInstance_def resolveSnapshotOrderProviderInstance_def Let_def psStringValue_def
      EqualFold_def quiet)

section \<open>A successful creation\<close>

lemma created_row_fields:
  fixes s req plan cfg oa amt sel n d
  defines "x \<equiv> created_row s req plan cfg oa amt sel n d"
  shows "o_ID x = d_order_seq d + 1" "o_UserID x = cq_UserID req" "o_Amount x = stored (os_numeric s) 2 oa"
    "o_PayAmount x = stored (os_numeric s) 2 amt" "o_OutTradeNo x = n" "o_OrderType x = cq_OrderType req"
    "o_Status x = OrderStatusPending" "o_PaidAt x = None" "o_RefundAmount x = Finite 0"
    "o_ExpiresAt x = order_expiry cfg (d_clock d)" "o_CreatedAt x = d_clock d"
    "o_ProviderSnapshot x = map (apsnd json_stored) (buildPaymentOrderProviderSnapshot sel req)"
    "o_ProviderInstanceID x = psNilIfEmpty (TrimSpace (sel_InstanceID sel))"
    "o_SubscriptionGroupID x = map_option sp_GroupID plan" "o_RechargeCode x = recharge_code_text (d_order_seq d + 1) (d_clock d)"
  by (simp_all add: x_def created_row_def new_row_def touch_def stored_order_def pending_order_def)

lemma details_fields:
  fixes t pr sel x
  defines "y \<equiv> touch t (set_payment_details pr sel x)"
  shows "o_ID y = o_ID x" "o_UserID y = o_UserID x" "o_Amount y = o_Amount x" "o_PayAmount y = o_PayAmount x"
    "o_OutTradeNo y = o_OutTradeNo x" "o_OrderType y = o_OrderType x" "o_Status y = o_Status x" "o_PaidAt y = o_PaidAt x"
    "o_RefundAmount y = o_RefundAmount x" "o_ExpiresAt y = o_ExpiresAt x" "o_CreatedAt y = o_CreatedAt x"
    "o_ProviderSnapshot y = o_ProviderSnapshot x"
    "o_SubscriptionGroupID y = o_SubscriptionGroupID x" "o_RechargeCode y = o_RechargeCode x"
    "sel_InstanceID sel \<noteq> [] \<Longrightarrow> o_ProviderInstanceID y = Some (sel_InstanceID sel)"
  by (simp_all add: y_def touch_def set_payment_details_def Let_def)

text \<open>
C15. A successful creation of an order, with the database working and alone: exactly one row is added, under
the next identifier and an order number no other order has; it is pending, unpaid, with the amounts, the
expiry and the user that were asked for, for an active user with fewer pending orders than the limit; it
names an enabled instance, and its amount is the one calculated in the currency of that instance. Users
and codes are as before.
\<close>
theorem created_order:
  assumes "run_state (CreateOrder s rawReq) (alone d) = (Inr resp, m)" "co_OrderID resp \<noteq> 0" "fresh_ids d"
  shows "\<exists>req cfg plan u p d' x str amt. req = normalize_request rawReq
    \<and> fst (os_config s (d_world d)) = Inr cfg \<and> pc_Enabled cfg
    \<and> m = alone d' \<and> d_orders d' = d_orders d @ [x] \<and> d_order_seq d' = d_order_seq d + 1 \<and> fresh_ids d'
    \<and> d_users d' = d_users d \<and> d_codes d' = d_codes d
    \<and> o_ID x = d_order_seq d + 1 \<and> co_OrderID resp = o_ID x \<and> co_OutTradeNo resp = o_OutTradeNo x
    \<and> o_OutTradeNo x \<notin> o_OutTradeNo ` set (d_orders d)
    \<and> o_Status x = OrderStatusPending \<and> o_PaidAt x = None \<and> o_RefundAmount x = Finite 0
    \<and> o_ExpiresAt x = order_expiry cfg (d_clock d) \<and> co_ExpiresAt resp = o_ExpiresAt x
    \<and> o_UserID x = cq_UserID req \<and> user_of (o_UserID x) d = Some u \<and> u_Status u = EntityStatusActive
    \<and> int (length (filter (\<lambda>y. o_UserID y = o_UserID x \<and> o_Status y = OrderStatusPending) (d_orders d))) < order_limit cfg
    \<and> p \<in> set (d_instances d) \<and> pi_Enabled p \<and> o_ProviderInstanceID x = Some (Itoa (pi_ID p))
    \<and> (plan = None \<longleftrightarrow> o_OrderType x \<noteq> OrderTypeSubscription) \<and> o_SubscriptionGroupID x = map_option sp_GroupID plan
    \<and> o_Amount x = stored (os_numeric s) 2 (fst (order_amounts (os_decimal s) req plan cfg))
    \<and> calculateCreateOrderPayAmount (os_decimal s) (snd (order_amounts (os_decimal s) req plan cfg))
        (pc_RechargeFeeRate cfg) (pay_currency s p) = Inr (str, amt)
    \<and> o_PayAmount x = stored (os_numeric s) 2 amt \<and> co_PayAmount resp = amt"
proof -
  obtain req cfg plan u p d' n pr token as str amt x where
    c: "req = normalize_request rawReq" "fst (os_config s (d_world d)) = Inr cfg" "pc_Enabled cfg"
    and plan: "plan = None \<longrightarrow> cq_OrderType req \<noteq> OrderTypeSubscription \<and> amount_in_range cfg (cq_Amount req) = Inr ()"
      "plan \<noteq> None \<longrightarrow> cq_OrderType req = OrderTypeSubscription"
    and u: "user_of (cq_UserID req) d = Some u" "u_Status u = EntityStatusActive" and p: "p \<in> set (d_instances d)" "pi_Enabled p"
    and pay: "calculateCreateOrderPayAmount (os_decimal s) (snd (order_amounts (os_decimal s) req plan cfg))
        (pc_RechargeFeeRate cfg) (pay_currency s p) = Inr (str, amt)"
    and n: "n \<notin> o_OutTradeNo ` set (d_orders d)"
      "int (length (filter (\<lambda>y. o_UserID y = cq_UserID req \<and> o_Status y = OrderStatusPending) (d_orders d))) < order_limit cfg"
    and d': "around d d'" and m: "m = alone ((with_row x d')\<lparr>d_audits := as\<rparr>)"
    and x: "x = touch (d_clock d) (set_payment_details pr (buildSelection (os_lb s) p)
        (created_row s req plan cfg (fst (order_amounts (os_decimal s) req plan cfg)) amt (buildSelection (os_lb s) p) n d))"
    and resp: "resp = buildCreateOrderResponse (os_numeric s)
        (created_row s req plan cfg (fst (order_amounts (os_decimal s) req plan cfg)) amt (buildSelection (os_lb s) p) n d)
        req (pc_RechargeFeeRate cfg) amt (buildSelection (os_lb s) p) pr token"
    by (rule created [OF assms])
  note f = around_frame [OF d']
  let ?d = "(with_row x d')\<lparr>d_audits := as\<rparr>"
  let ?row = "created_row s req plan cfg (fst (order_amounts (os_decimal s) req plan cfg)) amt (buildSelection (os_lb s) p) n d"
  note row = details_fields(1-14) [where t = "d_clock d" and pr = pr and sel = "buildSelection (os_lb s) p" and x = ?row,
      folded x, unfolded created_row_fields]
  have "sel_InstanceID (buildSelection (os_lb s) p) = Itoa (pi_ID p)" by (simp add: buildSelection_def)
  then have inst: "o_ProviderInstanceID x = Some (Itoa (pi_ID p))"
    unfolding x using selection_id(2) by (simp add: details_fields(15))
  have "fresh_ids ?d" using assms(3) row(1) by (force simp: fresh_ids_def with_row_def f)
  then show ?thesis
    using c plan u p pay n inst m
    by (intro exI [of _ req] exI [of _ cfg] exI [of _ plan] exI [of _ u] exI [of _ p] exI [of _ ?d] exI [of _ x]
        exI [of _ str] exI [of _ amt])
      (auto simp: row resp buildCreateOrderResponse_def with_row_def f created_row_fields)
qed

lemma new_order_of:
  assumes "fresh_ids d" "d_orders d' = d_orders d @ [x]" "o_ID x = d_order_seq d + 1"
  shows "order_of (o_ID x) d' = Some x"
  using find_new_order [OF assms(1,3)] assms(2,3) by (simp add: order_of_def with_row_def)

text \<open>
C16. The order finds what it was created for: it is bound to the instance that was selected, and as long as
that instance keeps its provider, notifications, queries and refunds resolve to it, whatever else changes;
and its currency is the one its amount was calculated in.
\<close>
theorem created_order_knows_instance:
  assumes "run_state (CreateOrder s rawReq) (alone d) = (Inr resp, m)" "co_OrderID resp \<noteq> 0" "fresh_ids d"
    "\<forall>p\<in>set (d_instances d). int64 (pi_ID p)"
  shows "\<exists>p d' x. p \<in> set (d_instances d) \<and> pi_Enabled p \<and> m = alone d' \<and> order_of (co_OrderID resp) d' = Some x
    \<and> psHasPinnedProviderInstance x \<and> PaymentOrderCurrency x = pay_currency s p
    \<and> (\<forall>(d'' :: ('w, 'g) pay_db) q. find (\<lambda>r. pi_ID r = pi_ID p) (d_instances d'') = Some q \<longrightarrow> pi_ProviderKey q = pi_ProviderKey p \<longrightarrow>
         resolved x d'' = Inr (Some q) \<and> instance_key x d'' = pi_ProviderKey p)"
proof -
  obtain req cfg plan p d' n pr token as amt x where
    p: "p \<in> set (d_instances d)" "pi_Enabled p" and d': "around d d'" and m: "m = alone ((with_row x d')\<lparr>d_audits := as\<rparr>)"
    and x: "x = touch (d_clock d) (set_payment_details pr (buildSelection (os_lb s) p)
        (created_row s req plan cfg (fst (order_amounts (os_decimal s) req plan cfg)) amt (buildSelection (os_lb s) p) n d))"
    and resp: "resp = buildCreateOrderResponse (os_numeric s)
        (created_row s req plan cfg (fst (order_amounts (os_decimal s) req plan cfg)) amt (buildSelection (os_lb s) p) n d)
        req (pc_RechargeFeeRate cfg) amt (buildSelection (os_lb s) p) pr token"
    by (rule created [OF assms(1-3)])
  have sel: "sel_InstanceID (buildSelection (os_lb s) p) = Itoa (pi_ID p)" "sel_ProviderKey (buildSelection (os_lb s) p) = pi_ProviderKey p"
    by (simp_all add: buildSelection_def)
  have id: "o_ID x = d_order_seq d + 1" "co_OrderID resp = d_order_seq d + 1"
    by (simp_all only: x resp details_fields created_row_fields buildCreateOrderResponse_def CreateOrderResponse.select_convs)
  have inst: "o_ProviderInstanceID x = Some (Itoa (pi_ID p))"
    unfolding x using selection_id(2) sel by (simp add: details_fields(15))
  have "o_ProviderSnapshot x = map (apsnd json_stored) (buildPaymentOrderProviderSnapshot (buildSelection (os_lb s) p) req)"
    by (simp only: x details_fields created_row_fields)
  from snapshot_of_selection [OF this] obtain sn where sn: "psOrderProviderSnapshot x = Some sn"
    "s_ProviderInstanceID sn = Itoa (pi_ID p)" "s_ProviderKey sn = TrimSpace (pi_ProviderKey p)"
    "NormalizePaymentCurrency (s_Currency sn) = Inr (pay_currency s p)" unfolding sel(2) by blast
  have known: "resolved x d'' = Inr (Some q) \<and> instance_key x d'' = pi_ProviderKey p"
    if q: "find (\<lambda>r. pi_ID r = pi_ID p) (d_instances d'') = Some q" "pi_ProviderKey q = pi_ProviderKey p" for d'' :: "('w, 'g) pay_db" and q
  proof -
    have "resolved x d'' = Inr (Some q)"
      using quiet_resolved [OF sn(1,2) bspec [OF assms(4) p(1)] inst, of q] sn(3) q by simp
    then show ?thesis using q(2) by (simp add: instance_key_def)
  qed
  have "order_of (o_ID x) ((with_row x d')\<lparr>d_audits := as\<rparr>) = Some x"
    using id(1) around_frame [OF d'] by (intro new_order_of [OF assms(3)]) (simp_all add: with_row_def)
  then show ?thesis
    using p m id known sn by (intro exI [of _ p] exI [of _ "(with_row x d')\<lparr>d_audits := as\<rparr>"] exI [of _ x])
      (simp add: psHasPinnedProviderInstance_def PaymentOrderCurrency_def)
qed

section \<open>A concrete creation\<close>

definition demo_pay :: "(nat, 64 word) PaymentService" where
  "demo_pay =
     \<lparr>ps_redeem = \<lparr>rs_numeric = demo_numeric, rs_cache = Some demo_cache, rs_grants = rs_grants demo_redeem, rs_affiliate = False\<rparr>,
      ps_registry = (\<lambda>_. None), ps_createProvider = (\<lambda>_. Inl Unavailable),
      ps_groupActive = (\<lambda>_ w. (Inr True, w)), ps_accrue = Some (\<lambda>_ _ _ w. (Inr (Finite 1), w)), ps_subs = ps_subs demo_service\<rparr>"

definition demo_pay_config :: PaymentConfig where
  "demo_pay_config =
     \<lparr>pc_Enabled = True, pc_MinAmount = Finite 1, pc_MaxAmount = Finite 50, pc_DailyLimit = Finite 0, pc_OrderTimeoutMin = 0,
      pc_MaxPendingOrders = 0, pc_BalanceDisabled = True, pc_BalanceRechargeMultiplier = Finite (1 / 2),
      pc_RechargeFeeRate = Finite 0, pc_LoadBalanceStrategy = StrategyLeastAmount, pc_ProductNamePrefix = [],
      pc_ProductNameSuffix = [], pc_CancelRateLimitEnabled = False, pc_CancelRateLimitMax = 0, pc_CancelRateLimitWindow = 0,
      pc_CancelRateLimitUnit = [], pc_CancelRateLimitMode = []\<rparr>"

definition demo_created :: CreatePaymentResponse where
  "demo_created =
     \<lparr>cr_TradeNo = ''pi_1'', cr_PayURL = [], cr_QRCode = [], cr_ClientSecret = ''secret'', cr_IntentID = [], cr_Currency = ''CNY'',
      cr_CountryCode = [], cr_PaymentEnv = [], cr_ResultType = []\<rparr>"

definition demo_stripe :: "64 word Provider" where
  "demo_stripe =
     \<lparr>prov_ProviderKey = TypeStripe, prov_CreatePayment = (\<lambda>_ g. (Inr demo_created, g)),
      prov_QueryOrder = (\<lambda>_ g. (Inl (Plain ''down''), g)), prov_VerifyNotification = (\<lambda>_ _ g. (Inr None, g)),
      prov_Refund = (\<lambda>_ g. (Inl (Plain ''down''), g)), prov_CancelPayment = None, prov_MerchantIdentity = None\<rparr>"

definition demo_shop :: "(nat, 64 word, rat) OrderService" where
  "demo_shop =
     \<lparr>os_pay = demo_pay, os_lb = demo_balancer, os_decimal = rational_decimals, os_config = (\<lambda>w. (Inr demo_pay_config, w)),
      os_plan = (\<lambda>_ w. (Inl NotFoundErr, w)), os_group = (\<lambda>_ w. (Inl NotFoundErr, w)),
      os_createProvider = (\<lambda>_ _ _. Inr demo_stripe), os_wechatAppID = (\<lambda>w. (Inr [], w)),
      os_oauth = (\<lambda>_ w. (Inr (), w)), os_returnURL = (\<lambda>_ _ _ _. Inr ([], [])), os_IntN = (\<lambda>_ g. (0, g)),
      os_date = (\<lambda>_. ''20260101''), os_localDay = (\<lambda>t. t), os_addDays = (\<lambda>t n. t + n * day)\<rparr>"

definition demo_wish :: CreateOrderRequest where
  "demo_wish =
     \<lparr>cq_UserID = 7, cq_Amount = Finite 10, cq_PaymentType = TypeStripe, cq_OpenID = [], cq_ClientIP = [], cq_IsMobile = False,
      cq_IsWeChatBrowser = False, cq_SrcHost = [], cq_SrcURL = [], cq_ReturnURL = [], cq_OrderType = ''gift'', cq_PlanID = 0\<rparr>"

lemma shop_sel:
  "os_pay demo_shop = demo_pay" "os_lb demo_shop = demo_balancer" "os_decimal demo_shop = rational_decimals"
  "os_config demo_shop w = (Inr demo_pay_config, w)" "os_createProvider demo_shop k i c = Inr demo_stripe"
  "os_returnURL demo_shop q l x t = Inr ([], [])" "os_IntN demo_shop j g = (0, g)" "os_date demo_shop t = ''20260101''"
  by (simp_all add: demo_shop_def)

lemma wish_texts:
  "NormalizeVisibleMethod TypeStripe = TypeStripe" "GetBasePaymentType TypeStripe = TypeStripe" "TypeStripe \<noteq> []"
  "TypeStripe \<noteq> TypeAlipay" "TypeStripe \<noteq> TypeWxpay" "TrimSpace TypeStripe = TypeStripe"
  "OrderTypeBalance \<noteq> ''gift''" "OrderTypeSubscription \<noteq> ''gift''"
  "''gift'' \<noteq> OrderTypeBalance" "''gift'' \<noteq> OrderTypeSubscription"
  by code_simp+

lemma wish_short: "length TypeStripe \<le> 30"
  by code_simp

lemma wish_digits: "Itoa 3 = ''3''" "Itoa 4 = ''4''"
  by code_simp+

lemma wish_normal: "normalize_request demo_wish = demo_wish"
  by (simp add: normalize_request_def demo_wish_def wish_texts)

lemma wish_instances: "filter pi_Enabled (d_instances demo_instances) = [demo_instance 3, demo_instance 4]"
  by (simp add: demo_instances_def demo_instance_def)

lemma wish_groups:
  "has_types [demo_instance 3, demo_instance 4]"
  "filterEnabledVisibleMethodInstances [demo_instance 3, demo_instance 4] TypeAlipay = []"
  "filterEnabledVisibleMethodInstances [demo_instance 3, demo_instance 4] TypeWxpay = []"
  "distinctVisibleMethodProviderKeys [] = []"
  "pcGroupByPaymentType [demo_instance 3, demo_instance 4] TypeStripe = [demo_instance 3, demo_instance 4]"
  "pcAggregateMethodCurrency (\<lambda>_. None) [demo_instance 3, demo_instance 4] = Some ''CNY''"
  by code_simp+

lemma wish_currency:
  "run_state (ValidateMethodCurrencyConsistency (lb_setting demo_balancer) (lb_decrypt demo_balancer) TypeStripe) (alone demo_instances) =
     (Inr ''CNY'', alone demo_instances)"
  by (simp add: ValidateMethodCurrencyConsistency_def wish_texts quiet wish_instances wish_groups
      pcApplyEnabledVisibleMethodInstances_def resolveVisibleMethodProviderKey_def)
    (simp add: demo_balancer_def wish_groups)

lemma TrimSpace_FormatFloat: "TrimSpace (FormatFloat (Finite q)) = FormatFloat (Finite q)"
  by (simp split: prod.split)

lemma wish_ten:
  "NormalizePaymentCurrency ''CNY'' = Inr ''CNY''" "CurrencyMaxFractionDigits ''CNY'' = 2"
  "maxFractionDigits (paymentCurrencyAmountUnitFor ''CNY'') = 2" "half_away 1000 = 1000" "fixed_text 1000 2 = ''10.00''"
  "parse_decimal ''10.00'' = Some 10" "TrimSpace ''10.00'' = ''10.00''" "at_digits towards_zero 0 1000 = 1000"
  by code_simp+

lemma wish_minor:
  "parse_decimal (TrimSpace t) = Some 10 \<Longrightarrow> \<exists>n. AmountToMinorUnit rational_decimals t ''CNY'' = Inr n"
  by (simp add: AmountToMinorUnit_def Let_def rational_decimals_def wish_ten)

lemma wish_amount:
  "calculateCreateOrderPayAmount rational_decimals (Finite 10) (Finite 0) ''CNY'' = Inr (''10.00'', Finite 10)"
proof -
  obtain n where n: "AmountToMinorUnit rational_decimals (FormatFloat (Finite 10)) ''CNY'' = Inr n"
  proof -
    have "parse_decimal (TrimSpace (FormatFloat (Finite 10))) = Some 10"
      by (simp only: TrimSpace_FormatFloat parse_FormatFloat shortest_values)
    then show thesis using wish_minor that by blast
  qed
  have str: "CalculatePayAmountForCurrency rational_decimals (Finite 10) (Finite 0) ''CNY'' = ''10.00''"
    by (simp add: CalculatePayAmountForCurrency_def Let_def rational_decimals_def wish_ten shortest_values)
  obtain k where k: "AmountToMinorUnit rational_decimals ''10.00'' ''CNY'' = Inr k" using wish_minor [of "''10.00''"] by (auto simp: wish_ten)
  show ?thesis
    by (simp only: calculateCreateOrderPayAmount_def validateCreateOrderAmountCurrency_def n str k Let_def sum.case)
      (use binary64_int [of 10] in \<open>simp add: ParseFloat_def wish_ten\<close>)
qed

definition shop_db :: "64 word \<Rightarrow> (nat, 64 word) pay_db" where
  "shop_db g = demo_instances\<lparr>d_outside := g\<rparr>"

lemma wish_selected:
  "\<exists>i\<in>{3, 4}. \<exists>g. run_state (selectCreateOrderInstance demo_shop demo_wish demo_pay_config (Finite 10)) (alone demo_instances) =
     (Inr (buildSelection demo_balancer (demo_instance i)), alone (shop_db g))"
proof -
  have run: "\<exists>sel m. run_state (SelectInstance demo_balancer [] [] TypeStripe StrategyLeastAmount (Finite 10)) (alone demo_instances) = (Inr sel, m)"
    unfolding SelectInstance_def
    by (simp add: quiet_queryEnabledInstances quiet Let_def demo_instances_def demo_instance_def matches_type_def by_sort_order_def)
      (simp add: pickByStrategy_def filterByLimits_def getInstanceChannelLimits_def within_limits_def no_limits_def)
  then obtain sel m where run: "run_state (SelectInstance demo_balancer [] [] TypeStripe StrategyLeastAmount (Finite 10)) (alone demo_instances) = (Inr sel, m)"
    by blast
  from selected [OF run] obtain p g where p: "p \<in> set (d_instances demo_instances)" "sel = buildSelection demo_balancer p" "m = alone (shop_db g)"
    unfolding shop_db_def by (auto simp: candidate_def)
  then have "p = demo_instance 3 \<or> p = demo_instance 4" by (auto simp: demo_instances_def)
  moreover have "requestNeedsWeChatJSAPICompatibility demo_wish = False" "cq_PaymentType demo_wish = TypeStripe"
    by (simp_all add: requestNeedsWeChatJSAPICompatibility_def demo_wish_def wish_texts)
  ultimately show ?thesis
    using run p
    by (auto simp: selectCreateOrderInstance_def prepareCreateOrderSelectionContext_def SelectVisibleInstance_def shop_sel wish_texts
        demo_pay_config_def)
qed

lemma wish_row:
  assumes wish_id: "length (Itoa i) \<le> 64"
  shows "\<exists>row g'. run_state (create_body demo_shop demo_wish None demo_pay_config (Finite 10) (Finite 10) (Finite 10)
      (buildSelection demo_balancer (demo_instance i))) (alone (shop_db g)) = (Inr row, alone (with_row row (shop_db g')))"
proof -
  have pending: "run_state (checkPendingLimit 7 0) (alone (shop_db g)) = (Inr (), alone (shop_db g))"
    by (simp add: checkPendingLimit_def quiet defaultMaxPendingOrders_def) (simp add: shop_db_def demo_instances_def)
  have daily: "run_state (checkDailyLimit 7 a (Finite 0)) (alone (shop_db g)) = (Inr (), alone (shop_db g))" for a
    by (simp add: checkDailyLimit_def)
  let ?n = "''sub2_20260101aaaaaaaa''"
  have random: "run_state (generateRandomString demo_shop 8) (alone d) = (''aaaaaaaa'', alone d)" for d
    by (simp add: numeral_eq_Suc quiet shop_sel charset_def)
  have no: "run_state (allocateOutTradeNo demo_shop maxAttempts) (alone (shop_db g)) = (Inr ?n, alone (shop_db g))"
    using random by (simp add: maxAttempts_def generateOutTradeNo_def quiet shop_sel orderIDPrefix_def numeral_eq_Suc del: generateRandomString.simps)
      (simp add: shop_db_def demo_instances_def demo_order_def)
  let ?row = "\<lambda>t. pending_order demo_wish None (Finite 10) (Finite 10) (buildSelection demo_balancer (demo_instance i)) ?n t"
  have "fresh_ids (shop_db g)" by (simp add: fresh_ids_def shop_db_def demo_instances_def demo_order_def)
  moreover have "storable_order (?row t) \<and> o_OutTradeNo (?row t) \<notin> o_OutTradeNo ` set (d_orders (shop_db g))" for t
    using wish_id wish_short
    by (auto simp: storable_order_def pending_order_def psStringValue_def psNilIfEmpty_def buildSelection_def wish_texts
        shop_db_def demo_instances_def demo_order_def demo_wish_def demo_instance_def)
  ultimately have ins: "\<exists>row. run_state (insert_order demo_shop (?row t)) (alone (shop_db g)) = (Inr row, alone (with_row row (shop_db g)))" for t
    using insert_runs by blast
  show ?thesis
    using pending daily no ins
    by (simp add: create_body_def demo_wish_def demo_pay_config_def quiet) blast
qed

lemma wish_placed:
  assumes "i \<in> {3, 4}"
  shows "\<exists>resp m. run_state (place_order demo_shop demo_wish demo_pay_config None (Finite 10) (Finite 10) ''10.00'' (Finite 10)
      (buildSelection demo_balancer (demo_instance i))) (alone (shop_db g)) = (Inr resp, m) \<and> co_OrderID resp \<noteq> 0"
proof -
  let ?sel = "buildSelection demo_balancer (demo_instance i)"
  have "length (Itoa i) \<le> 64" using assms by (auto simp: wish_digits)
  from wish_row [OF this] obtain row g' where body: "run_state (create_body demo_shop demo_wish None demo_pay_config (Finite 10) (Finite 10) (Finite 10) ?sel)
      (alone (shop_db g)) = (Inr row, alone (with_row row (shop_db g')))" by blast
  have tx: "run_state (createOrderInTx demo_shop demo_wish None demo_pay_config (Finite 10) (Finite 10) (Finite 10) ?sel) (alone (shop_db g)) =
      (Inr row, alone (with_row row (shop_db g')))"
    using quiet_transaction [OF body] by (simp add: createOrderInTx_def Tx_def)
  have fresh: "fresh_ids (shop_db g)" by (simp add: fresh_ids_def shop_db_def demo_instances_def demo_order_def)
  have id: "o_ID row = 2"
    using placed_row [OF tx fresh] by (auto simp: new_row_def touch_def stored_order_def shop_db_def demo_instances_def)
  obtain resp m where inv: "run_state (invokeProvider demo_shop row demo_wish demo_pay_config (Finite 10) ''10.00'' (Finite 10) None ?sel)
      (alone (with_row row (shop_db g'))) = (Inr resp, m)"
    by (auto simp: invokeProvider_def quiet shop_sel demo_stripe_def demo_created_def order_UpdateOneID_def quiet_stmt
        find_new_order with_row_def shop_db_def demo_instances_def id)
  have "co_OrderID resp = 2"
    using invoked [of demo_shop row demo_wish demo_pay_config "Finite 10" "''10.00''" "Finite 10" None ?sel "with_row row (shop_db g')" resp m] inv id
    by (auto simp: buildCreateOrderResponse_def)
  then show ?thesis using tx inv by (auto simp: place_order_def)
qed

lemma wish_pay_currency:
  "paymentProviderConfigCurrency TypeStripe (sel_Config (buildSelection demo_balancer (demo_instance i))) = ''CNY''"
proof -
  have none: "decryptConfig (\<lambda>_. None) [] = []" "NormalizePaymentCurrency (config_value [] ''currency'') = Inr ''CNY''" by code_simp+
  show ?thesis
    by (simp add: paymentProviderConfigCurrency_def wish_texts buildSelection_def demo_instance_def demo_balancer_def none)
qed

lemma wish_made:
  "\<exists>resp m. run_state (CreateOrder demo_shop demo_wish) (alone demo_instances) = (Inr resp, m) \<and> co_OrderID resp \<noteq> 0"
proof -
  obtain i g where i: "i \<in> {3, 4 :: int}" and sel: "run_state (selectCreateOrderInstance demo_shop demo_wish demo_pay_config (Finite 10))
      (alone demo_instances) = (Inr (buildSelection demo_balancer (demo_instance i)), alone (shop_db g))"
    using wish_selected by blast
  obtain resp m where placed: "run_state (place_order demo_shop demo_wish demo_pay_config None (Finite 10) (Finite 10) ''10.00'' (Finite 10)
      (buildSelection demo_balancer (demo_instance i))) (alone (shop_db g)) = (Inr resp, m)" "co_OrderID resp \<noteq> 0"
    using wish_placed [OF i] by blast
  have user: "user_of 7 demo_instances = Some demo_user" "u_Status demo_user = EntityStatusActive"
    by (simp_all add: user_of_def demo_instances_def demo_user_def EntityStatusActive_def)
  have amounts: "order_amounts rational_decimals demo_wish None demo_pay_config = (Finite 10, Finite 10)"
    by (simp add: order_amounts_def demo_wish_def wish_texts)
  have wish: "cq_UserID demo_wish = 7" "cq_PaymentType demo_wish = TypeStripe" "pc_RechargeFeeRate demo_pay_config = Finite 0"
    by (simp_all add: demo_wish_def demo_pay_config_def)
  have key: "sel_ProviderKey (buildSelection demo_balancer (demo_instance i)) = TypeStripe"
    by (simp add: buildSelection_def demo_instance_def)
  note currency = wish_pay_currency [of i]
  have "validateSelectedCreateOrderAmountCurrency rational_decimals ''10.00'' (buildSelection demo_balancer (demo_instance i)) = Inr ()"
    using wish_minor [of "''10.00''"] by (auto simp: validateSelectedCreateOrderAmountCurrency_def key currency wish_ten)
  moreover have "needs_oauth demo_wish (buildSelection demo_balancer (demo_instance i)) = False"
    "requiresWeChatJSAPICompatibleSelection demo_wish (buildSelection demo_balancer (demo_instance i)) = False"
    by (simp_all add: needs_oauth_def requiresWeChatJSAPICompatibleSelection_def key wish_texts)
  ultimately have "run_state (checked_order demo_shop demo_wish demo_pay_config None) (alone demo_instances) = (Inr resp, m)"
    using sel placed(1)
    by (simp add: checked_order_def quiet user wish shop_sel wish_currency amounts wish_amount validateSelectedCreateOrderInstance_def
        with_selection_def Let_def key currency)
  moreover have "validateOrderInput demo_shop demo_wish demo_pay_config = ret (Inr None)"
    by (simp add: validateOrderInput_def amount_in_range_def demo_pay_config_def demo_wish_def wish_texts IsNaN_def IsInf_def)
  moreover have "checkCancelRateLimit demo_shop j demo_pay_config = ret (Inr ())" "pc_Enabled demo_pay_config" for j
    by (simp_all add: checkCancelRateLimit_def demo_pay_config_def)
  ultimately show ?thesis
    using placed(2) by (simp add: CreateOrder_def Let_def wish_normal quiet shop_sel)
qed

lemma wish_fresh: "fresh_ids demo_instances" "\<forall>p\<in>set (d_instances demo_instances). int64 (pi_ID p)"
  by (simp_all add: fresh_ids_def demo_instances_def demo_order_def demo_instance_def int64_def)

theorem created_order_witness:
  "\<exists>resp d' x. run_state (CreateOrder demo_shop demo_wish) (alone demo_instances) = (Inr resp, alone d')
    \<and> d_orders d' = d_orders demo_instances @ [x] \<and> o_ID x = 2 \<and> o_UserID x = 7 \<and> o_Status x = OrderStatusPending
    \<and> o_ProviderInstanceID x \<in> {Some ''3'', Some ''4''}"
proof -
  obtain resp m where run: "run_state (CreateOrder demo_shop demo_wish) (alone demo_instances) = (Inr resp, m)" "co_OrderID resp \<noteq> 0"
    using wish_made by blast
  have "d_order_seq demo_instances = 1" "set (d_instances demo_instances) = {demo_instance 3, demo_instance 4}"
    "pi_ID (demo_instance i) = i" "cq_UserID demo_wish = 7" for i
    by (auto simp: demo_instances_def demo_instance_def demo_wish_def)
  then show ?thesis
    using created_order [OF run wish_fresh(1)] run(1) by (auto simp: wish_normal wish_digits)
qed

theorem created_order_knows_instance_witness:
  "\<exists>resp d' x i. run_state (CreateOrder demo_shop demo_wish) (alone demo_instances) = (Inr resp, alone d')
    \<and> order_of (co_OrderID resp) d' = Some x \<and> resolved x demo_instances = Inr (Some (demo_instance i))"
proof -
  obtain resp m where run: "run_state (CreateOrder demo_shop demo_wish) (alone demo_instances) = (Inr resp, m)" "co_OrderID resp \<noteq> 0"
    using wish_made by blast
  have "d_instances demo_instances = [demo_instance 3, demo_instance 4]" "pi_ID (demo_instance i) = i" for i
    by (auto simp: demo_instances_def demo_instance_def)
  then have "\<exists>i. p = demo_instance i \<and> find (\<lambda>r. pi_ID r = pi_ID p) (d_instances demo_instances) = Some (demo_instance i)"
    if "p \<in> set (d_instances demo_instances)" for p using that by auto
  then show ?thesis
    using created_order_knows_instance [OF run wish_fresh] run(1) by metis
qed

section \<open>A failed call of the gateway\<close>

text \<open>
When the call of the gateway fails, the creation sets its order to \<open>FAILED\<close> whatever its status is by then, completed
or refunded: a notification that came before the failure was known is overwritten.
\<close>
theorem failed_call_overwrites:
  assumes "run_state (createOrderInTx s req plan cfg orderAmount limitAmount payAmount sel) m = (Inr order, m')"
    "run_state (invokeProvider s order req cfg limitAmount payAmountStr payAmount plan sel) m' = (Inl e, alone d)"
    "order_of (o_ID order) d = Some x"
  shows "\<exists>d'. run_state (place_order s req cfg plan orderAmount limitAmount payAmountStr payAmount sel) m = (Inl e, alone d')
    \<and> order_of (o_ID order) d' = Some (touch (d_clock d) (set_status OrderStatusFailed x))"
proof -
  have x: "x \<in> set (d_orders d)" "o_ID x = o_ID order" using order_of_Some [OF assms(3)] by simp_all
  let ?d = "set_orders (\<lambda>y. o_ID y = o_ID order) (set_status OrderStatusFailed) d"
  have "order_of (o_ID order) ?d = Some (touch (d_clock d) (set_status OrderStatusFailed x))"
    using assms(3) x(2) by (simp add: order_of_set set_status_def)
  moreover have "run_state (order_UpdateOneID (o_ID order) (set_status OrderStatusFailed)) (alone d) = (Inr (), alone ?d)"
    using x by (auto simp: order_UpdateOneID_def quiet_stmt list_ex_iff)
  ultimately show ?thesis
    using assms(1,2) by (simp add: place_order_def)
qed

section \<open>The switch for balance orders\<close>

text \<open>
C37. Disabling balance payments does not stop them: an order whose type is neither of the two the code knows is
created all the same, for the plain amount without the recharge multiplier, and a payment of it that passes
the checks is credited to the balance, if nothing outside stops the credit (the recharge code is not taken, the
redeem cache lets the user through, the affiliate service does not fail).
\<close>
theorem order_type_escapes_switch:
  assumes "run_state (CreateOrder s rawReq) (alone d) = (Inr resp, m)" "co_OrderID resp \<noteq> 0" "fresh_ids d"
    "fst (os_config s (d_world d)) = Inr cfg" "pc_BalanceDisabled cfg"
    "cq_OrderType rawReq \<notin> {[], OrderTypeBalance, OrderTypeSubscription}" "distinct (map o_ID (d_orders d))"
  shows "\<exists>d' x. m = alone d' \<and> order_of (co_OrderID resp) d' = Some x \<and> o_OrderType x = cq_OrderType rawReq
    \<and> o_Amount x = stored (os_numeric s) 2 (cq_Amount rawReq)
    \<and> (\<forall>n pk u. n_Status n = NotificationStatusSuccess \<longrightarrow> n_OrderID n = o_OutTradeNo x \<longrightarrow>
         notification_check (os_pay s) x (instance_key x d') (n_Amount n) pk (n_Metadata n) = None \<longrightarrow>
         creditable (os_pay s) x u d' \<longrightarrow>
         (\<exists>d''. run_state (HandlePaymentNotification (os_pay s) n pk) (alone d') = (Inr (), alone d'')
            \<and> completed_for (os_numeric s) x u d' d''))"
proof -
  obtain req cfg' plan p d0 n pr token as amt x where
    req: "req = normalize_request rawReq" and cfg': "fst (os_config s (d_world d)) = Inr cfg'"
    and plan: "plan \<noteq> None \<longrightarrow> cq_OrderType req = OrderTypeSubscription"
    and n: "n \<notin> o_OutTradeNo ` set (d_orders d)"
    and d0: "around d d0" and m: "m = alone ((with_row x d0)\<lparr>d_audits := as\<rparr>)"
    and x: "x = touch (d_clock d) (set_payment_details pr (buildSelection (os_lb s) p)
        (created_row s req plan cfg' (fst (order_amounts (os_decimal s) req plan cfg')) amt (buildSelection (os_lb s) p) n d))"
    and resp: "resp = buildCreateOrderResponse (os_numeric s)
        (created_row s req plan cfg' (fst (order_amounts (os_decimal s) req plan cfg')) amt (buildSelection (os_lb s) p) n d)
        req (pc_RechargeFeeRate cfg') amt (buildSelection (os_lb s) p) pr token"
    by (rule created [OF assms(1-3)])
  let ?d = "(with_row x d0)\<lparr>d_audits := as\<rparr>"
  note f = around_frame [OF d0]
  have kind: "cq_OrderType req = cq_OrderType rawReq" "cq_Amount req = cq_Amount rawReq"
    using assms(6) by (auto simp: req normalize_request_def Let_def)
  then have "plan = None" using plan assms(6) by auto
  then have amount: "fst (order_amounts (os_decimal s) req plan cfg') = cq_Amount rawReq"
    using kind assms(6) by (simp add: order_amounts_def)
  have row: "o_ID x = d_order_seq d + 1" "co_OrderID resp = d_order_seq d + 1" "o_OrderType x = cq_OrderType req" "o_OutTradeNo x = n"
    "o_Amount x = stored (os_numeric s) 2 (fst (order_amounts (os_decimal s) req plan cfg'))" "o_Status x = OrderStatusPending"
    by (simp_all only: x resp details_fields created_row_fields buildCreateOrderResponse_def CreateOrderResponse.select_convs)
  have found: "order_of (o_ID x) ?d = Some x"
    using row(1) f by (intro new_order_of [OF assms(3)]) (simp_all add: with_row_def)
  have "filter (\<lambda>y. o_OutTradeNo y = n) (d_orders d) = []" using n by (auto simp: filter_empty_conv)
  moreover have "\<forall>y\<in>set (d_orders d). o_ID y \<noteq> d_order_seq d + 1" using assms(3) by (force simp: fresh_ids_def)
  ultimately have names: "names (o_OutTradeNo x) ?d x"
    using assms(7) row by (auto simp: names_def with_row_def f)
  have "\<exists>d''. run_state (HandlePaymentNotification (os_pay s) nt pk) (alone ?d) = (Inr (), alone d'')
      \<and> completed_for (os_numeric s) x u ?d d''"
    if "n_Status nt = NotificationStatusSuccess" "n_OrderID nt = o_OutTradeNo x"
      "notification_check (os_pay s) x (instance_key x ?d) (n_Amount nt) pk (n_Metadata nt) = None"
      "creditable (os_pay s) x u ?d" for nt pk u
    using notified_completes [OF that(1) _ that(3) _ that(4)] names that(2) row(6) by (simp add: payable_def)
  then show ?thesis
    using m found row kind amount by (intro exI [of _ ?d] exI [of _ x]) auto
qed

lemma wish_stored: "stored (os_numeric demo_shop) 2 (Finite 10) = Finite 10" "rs_numeric (ps_redeem demo_pay) = demo_numeric"
  "stored demo_numeric 2 (Finite 10) = Finite 10" "stored demo_numeric 8 (Finite 10) = Finite 10"
proof -
  have "to_column demo_numeric 2 (Finite 10) = 1000" by (simp add: demo_numeric_def floor_eq_iff)
  then have "stored demo_numeric 2 (Finite 10) = Finite 10"
    unfolding stored_def using binary64_int [of 10] by (simp add: demo_numeric_def)
  then show "stored (os_numeric demo_shop) 2 (Finite 10) = Finite 10" "rs_numeric (ps_redeem demo_pay) = demo_numeric"
    "stored demo_numeric 2 (Finite 10) = Finite 10"
    by (simp_all add: shop_sel demo_pay_def)
  show "stored demo_numeric 8 (Finite 10) = Finite 10" by (rule demo_stored)
qed

lemma wish_order:
  "\<exists>resp d' x. run_state (CreateOrder demo_shop demo_wish) (alone demo_instances) = (Inr resp, alone d') \<and> co_OrderID resp \<noteq> 0
    \<and> order_of (co_OrderID resp) d' = Some x \<and> o_UserID x = 7 \<and> o_Amount x = Finite 10
    \<and> notification_check demo_pay x (instance_key x d') (Finite 10) TypeStripe [] = None \<and> creditable demo_pay x demo_user d'"
proof -
  obtain resp m where run: "run_state (CreateOrder demo_shop demo_wish) (alone demo_instances) = (Inr resp, m)" "co_OrderID resp \<noteq> 0"
    using wish_made by blast
  obtain req cfg plan u p d0 n pr token as str amt x where
    req: "req = normalize_request demo_wish" and cfg: "fst (os_config demo_shop (d_world demo_instances)) = Inr cfg"
    and plan: "plan \<noteq> None \<longrightarrow> cq_OrderType req = OrderTypeSubscription"
    and p: "p \<in> set (d_instances demo_instances)" "pi_Enabled p"
    and pay: "calculateCreateOrderPayAmount (os_decimal demo_shop) (snd (order_amounts (os_decimal demo_shop) req plan cfg))
        (pc_RechargeFeeRate cfg) (pay_currency demo_shop p) = Inr (str, amt)"
    and d0: "around demo_instances d0" and m: "m = alone ((with_row x d0)\<lparr>d_audits := as\<rparr>)"
    and x: "x = touch (d_clock demo_instances) (set_payment_details pr (buildSelection (os_lb demo_shop) p)
        (created_row demo_shop req plan cfg (fst (order_amounts (os_decimal demo_shop) req plan cfg)) amt
          (buildSelection (os_lb demo_shop) p) n demo_instances))"
    and resp: "resp = buildCreateOrderResponse (os_numeric demo_shop)
        (created_row demo_shop req plan cfg (fst (order_amounts (os_decimal demo_shop) req plan cfg)) amt
          (buildSelection (os_lb demo_shop) p) n demo_instances)
        req (pc_RechargeFeeRate cfg) amt (buildSelection (os_lb demo_shop) p) pr token"
    by (rule created [OF run wish_fresh(1)])
  let ?d = "(with_row x d0)\<lparr>d_audits := as\<rparr>"
  note f = around_frame [OF d0]
  have vals: "req = demo_wish" "cfg = demo_pay_config" "plan = None"
    using req cfg plan by (auto simp: wish_normal shop_sel) (simp_all add: demo_wish_def wish_texts)
  have amounts: "order_amounts rational_decimals demo_wish None demo_pay_config = (Finite 10, Finite 10)"
    by (simp add: order_amounts_def demo_wish_def wish_texts)
  have pkey: "pi_ProviderKey p = TypeStripe" "sel_ProviderKey (buildSelection demo_balancer p) = TypeStripe" "int64 (pi_ID p)"
    "find (\<lambda>r. pi_ID r = pi_ID p) (d_instances ?d) = Some p" "sel_InstanceID (buildSelection demo_balancer p) = Itoa (pi_ID p)"
    "paymentProviderConfigCurrency TypeStripe (sel_Config (buildSelection demo_balancer p)) = ''CNY''"
    using p(1) by (auto simp: demo_instances_def demo_instance_def buildSelection_def with_row_def f int64_def)
      (auto simp: wish_pay_currency [unfolded demo_instance_def buildSelection_def, simplified])
  have rate: "pc_RechargeFeeRate demo_pay_config = Finite 0" by (simp add: demo_pay_config_def)
  have amt: "amt = Finite 10"
    using pay by (simp add: vals shop_sel amounts pkey rate wish_amount)
  have row: "o_ID x = d_order_seq demo_instances + 1" "co_OrderID resp = d_order_seq demo_instances + 1"
    "o_OrderType x = cq_OrderType req" "o_UserID x = cq_UserID req"
    "o_Amount x = stored (os_numeric demo_shop) 2 (fst (order_amounts (os_decimal demo_shop) req plan cfg))"
    "o_PayAmount x = stored (os_numeric demo_shop) 2 amt"
    "o_RechargeCode x = recharge_code_text (d_order_seq demo_instances + 1) (d_clock demo_instances)"
    "o_ProviderSnapshot x = map (apsnd json_stored) (buildPaymentOrderProviderSnapshot (buildSelection (os_lb demo_shop) p) req)"
    by (simp_all only: x resp details_fields created_row_fields buildCreateOrderResponse_def CreateOrderResponse.select_convs)
  have inst: "o_ProviderInstanceID x = Some (Itoa (pi_ID p))"
    unfolding x using selection_id(2) pkey(5) by (simp add: details_fields(15) shop_sel)
  obtain sn where sn: "psOrderProviderSnapshot x = Some sn" "s_ProviderInstanceID sn = Itoa (pi_ID p)"
    "s_ProviderKey sn = TrimSpace (pi_ProviderKey p)" "PaymentOrderCurrency x = ''CNY''"
    using snapshot_of_selection [OF row(8)] by (auto simp: PaymentOrderCurrency_def shop_sel pkey(1,6))
  have "instance_key x ?d = TypeStripe"
    using quiet_resolved [OF sn(1,2) pkey(3) inst sn(3) pkey(4)] pkey(1) by (simp add: instance_key_def)
  then have "notification_check demo_pay x (instance_key x ?d) (Finite 10) TypeStripe [] = None"
    by (intro check_ok) (simp_all add: expectedNotificationProviderKeyForOrder_def expectedNotificationProviderKey_def wish_texts
      EqualFold_def validateProviderSnapshotMetadata_def isValidProviderAmount_def IsNaN_def IsInf_def sn(4) cny_tolerance
      tolerance_value f_sub_def binary64_def not_less row(6) amt wish_stored)
  moreover have "good_code (recharge_code_text 2 50)" by code_simp
  then have "creditable demo_pay x demo_user ?d"
    using row vals amounts
    by (simp add: creditable_def wish_texts credit_passes_def redeem_passes_def rebate_passes_def code_of_def user_of_def with_row_def f wish_stored shop_sel)
      (simp add: demo_pay_def demo_cache_def redeemMaxErrorsPerHour_def demo_instances_def demo_wish_def demo_user_def wish_texts wish_stored)
  moreover have "order_of (o_ID x) ?d = Some x"
    using row(1) f by (intro new_order_of [OF wish_fresh(1)]) (simp_all add: with_row_def)
  ultimately show ?thesis
    using run m row vals amounts
    by (intro exI [of _ resp] exI [of _ ?d] exI [of _ x]) (simp add: shop_sel wish_stored demo_wish_def)
qed

definition wish_note :: "PaymentOrder \<Rightarrow> PaymentNotification" where
  "wish_note x = \<lparr>n_TradeNo = ''pi_1'', n_OrderID = o_OutTradeNo x, n_Amount = Finite 10, n_Status = NotificationStatusSuccess,
     n_Metadata = []\<rparr>"

theorem order_type_escapes_switch_witness:
  "\<exists>resp d' x d''. pc_BalanceDisabled demo_pay_config \<and> cq_OrderType demo_wish = ''gift''
    \<and> run_state (CreateOrder demo_shop demo_wish) (alone demo_instances) = (Inr resp, alone d')
    \<and> order_of (co_OrderID resp) d' = Some x
    \<and> run_state (HandlePaymentNotification demo_pay (wish_note x) TypeStripe) (alone d') = (Inr (), alone d'')
    \<and> (\<exists>v. user_of 7 d'' = Some v \<and> u_Balance v = 1000000000)"
proof -
  obtain resp d1 x where w: "run_state (CreateOrder demo_shop demo_wish) (alone demo_instances) = (Inr resp, alone d1)"
    "co_OrderID resp \<noteq> 0" "order_of (co_OrderID resp) d1 = Some x" "o_UserID x = 7" "o_Amount x = Finite 10"
    "notification_check demo_pay x (instance_key x d1) (Finite 10) TypeStripe [] = None" "creditable demo_pay x demo_user d1"
    using wish_order by blast
  have off: "pc_BalanceDisabled demo_pay_config" "cq_OrderType demo_wish = ''gift''" "u_Balance demo_user = 0"
    "fst (os_config demo_shop (d_world demo_instances)) = Inr demo_pay_config" "distinct (map o_ID (d_orders demo_instances))"
    by (simp_all add: demo_pay_config_def demo_wish_def shop_sel demo_user_def demo_instances_def)
  have nt: "n_Status (wish_note x) = NotificationStatusSuccess" "n_OrderID (wish_note x) = o_OutTradeNo x"
    "n_Amount (wish_note x) = Finite 10" "n_Metadata (wish_note x) = []" by (simp_all add: wish_note_def)
  have "cq_OrderType demo_wish \<notin> {[], OrderTypeBalance, OrderTypeSubscription}" by (simp add: off(2) wish_texts)
  from order_type_escapes_switch [OF w(1,2) wish_fresh(1) off(4,1) this off(5)]
  have pay: "\<forall>n pk u. n_Status n = NotificationStatusSuccess \<longrightarrow> n_OrderID n = o_OutTradeNo x \<longrightarrow>
      notification_check demo_pay x (instance_key x d1) (n_Amount n) pk (n_Metadata n) = None \<longrightarrow> creditable demo_pay x u d1 \<longrightarrow>
      (\<exists>d''. run_state (HandlePaymentNotification demo_pay n pk) (alone d1) = (Inr (), alone d'') \<and> completed_for demo_numeric x u d1 d'')"
    using w(3) by (auto simp: shop_sel wish_stored)
  have "\<exists>d''. run_state (HandlePaymentNotification demo_pay (wish_note x) TypeStripe) (alone d1) = (Inr (), alone d'')
    \<and> completed_for demo_numeric x demo_user d1 d''"
    by (rule pay [rule_format, OF nt(1,2) _ w(7)]) (simp add: nt w(6))
  then show ?thesis
    using w off demo_column by (auto simp: completed_for_def wish_stored)
qed

end
