(* ===== verification/WebhookFacts.thy ===== *)
theory WebhookFacts
  imports PayWebhook PayDemo
begin

text \<open>
  Facts on callbacks of the gateways: the provider of an order verifies them, a verified payment is
  credited, and a callback whose provider cannot be looked up is acknowledged without effect.
\<close>

section \<open>Commands that only read\<close>

definition silent :: "('d, 'a) cmd \<Rightarrow> bool" where
  "silent c \<longleftrightarrow> (\<forall>m. calm m \<longrightarrow> calm (snd (run_state c m)) \<and> db (snd (run_state c m)) = db m)"

named_theorems silent_intros

lemma silent_ret [silent_intros]: "silent (ret x)"
  by (simp add: silent_def)

lemma silent_peek [silent_intros]: "silent (peek f)"
  by (simp add: silent_def peek_def)

lemma silent_bind [silent_intros]: "silent a \<Longrightarrow> (\<And>x. silent (b x)) \<Longrightarrow> silent (a \<bind> b)"
  by (auto simp: silent_def split: prod.splits)
lemma silent_stmt:
  fixes f :: "'d \<Rightarrow> ('e + 'a) \<times> 'd"
  assumes "\<And>d. snd (f d) = d"
  shows "silent (stmt e f)"
  unfolding silent_def
proof (intro allI impI)
  fix m :: "'d machine" assume calm: "calm m"
  show "calm (snd (run_state (stmt e f) m)) \<and> db (snd (run_state (stmt e f) m)) = db m"
    by (rule stmt_calm [OF calm surjective_pairing]) (auto simp: assms)
qed

lemma silent_cases [silent_intros]:
  "(b \<Longrightarrow> silent x) \<Longrightarrow> (\<not> b \<Longrightarrow> silent y) \<Longrightarrow> silent (if b then x else y)"
  "(\<And>e. silent (f e)) \<Longrightarrow> (\<And>z. silent (g z)) \<Longrightarrow> silent (case r of Inl e \<Rightarrow> f e | Inr z \<Rightarrow> g z)"
  "silent x \<Longrightarrow> (\<And>z. silent (h z)) \<Longrightarrow> silent (case o' of None \<Rightarrow> x | Some z \<Rightarrow> h z)"
  by (simp_all split: sum.split option.split)

lemma silent_statements [silent_intros]:
  "silent (order_Only n)" "silent (instance_Get i)" "silent (instance_All p)"
  by (simp_all add: order_Only_def instance_Get_def instance_All_def silent_stmt)

lemma silent_getOrderProviderInstance [silent_intros]: "silent (getOrderProviderInstance x)"
  unfolding getOrderProviderInstance_def resolveSnapshotOrderProviderInstance_def
    resolveUniqueLegacyOrderProviderInstance_def Let_def
  by (intro silent_intros)

lemma silent_GetWebhookProviders: "silent (GetWebhookProviders s types key n)"
  unfolding GetWebhookProviders_def order_providers_def fallback_providers_def getPinnedOrderProvider_def
    getEnabledWebhookProvidersByKey_def webhookRegistryFallbackAllowed_def Let_def
  by (intro silent_intros)

section \<open>Callbacks\<close>

definition body_of :: "WebhookRequest \<Rightarrow> go_string option" where
  "body_of req = (if wr_IsGet req then Some (wr_RawQuery req) else map_option (take maxWebhookBodySize) (wr_Body req))"

definition headers_of :: "WebhookRequest \<Rightarrow> (go_string \<times> go_string) list" where
  "headers_of req = map (\<lambda>(k, v). (map to_lower_byte k, v)) (wr_Headers req)"

text \<open>An order whose instance is known is verified by the provider of that instance.\<close>

lemma quiet_pinned_providers:
  assumes "names n d x" "n \<noteq> []" "psHasPinnedProviderInstance x" "resolved x d = Inr (Some p)" "ps_createProvider s p = Inr prov"
  shows "run_state (GetWebhookProviders s types key n) (alone d) = (Inr [prov], alone d)"
proof -
  have "filter (\<lambda>y. o_OutTradeNo y = n) (d_orders d) = [x]" using assms(1) by (simp add: names_def)
  then show ?thesis
    using assms(2-5)
    by (simp add: GetWebhookProviders_def quiet_order_Only order_providers_def getPinnedOrderProvider_def quiet)
qed

text \<open>
C38. End to end, in a quiet run: a callback that names a payable balance order, is verified by the provider of
the order's own instance as a successful payment of that order and passes the checks, is answered with
success, if nothing outside stops the credit (the recharge code is not taken, the redeem cache lets the user
through, the affiliate service does not fail); the order is completed, its user credited once with its amount, and no other order or user
changes.
\<close>
theorem callback_completes_order:
  assumes "body_of req = Some body" "extractOutTradeNo body key = o_OutTradeNo x" "o_OutTradeNo x \<noteq> []"
    "names (o_OutTradeNo x) d x" "psHasPinnedProviderInstance x" "resolved x d = Inr (Some p)" "ps_createProvider s p = Inr prov"
    "prov_VerifyNotification prov body (headers_of req) (d_outside d) = (Inr (Some n), g)"
    "n_Status n = NotificationStatusSuccess" "n_OrderID n = o_OutTradeNo x"
    "notification_check s x (instance_key x d) (n_Amount n) (prov_ProviderKey prov) (n_Metadata n) = None"
    "payable (o_ID x) (d_clock d - paymentGraceMinutes * minute) x" "creditable s x u (d\<lparr>d_outside := g\<rparr>)"
  shows "\<exists>d'. run_state (handleNotify s types req key) (alone d) = (writeSuccessResponse (prov_ProviderKey prov), alone d')
    \<and> completed_for (rs_numeric (ps_redeem s)) x u d d'"
proof -
  let ?d = "d\<lparr>d_outside := g\<rparr>"
  have "instance_key x ?d = instance_key x d" "creditable s x u ?d" "names (n_OrderID n) ?d x"
    using assms(4,10,13) by simp_all
  then obtain d' where d': "run_state (HandlePaymentNotification s n (prov_ProviderKey prov)) (alone ?d) = (Inr (), alone d')"
    "completed_for (rs_numeric (ps_redeem s)) x u ?d d'"
    using notified_completes [of n ?d x s "prov_ProviderKey prov" u] assms(9,11,12) by auto
  have "run_state (handleNotify s types req key) (alone d) = (writeSuccessResponse (prov_ProviderKey prov), alone d')"
    using d'(1) assms(8)
    by (simp add: quiet handleNotify_def body_of_def [symmetric] headers_of_def [symmetric] assms(1,2)
        quiet_pinned_providers [OF assms(4,3,5-7)] handleVerified_def)
  then show ?thesis using d'(2) by (auto simp: completed_for_def)
qed

text \<open>
C39. A payment that is lost: when the provider of a callback cannot be looked up, for instance because the
database does not answer, every gateway but WeChat Pay is told that the callback was handled, and nothing
has changed; it will not call again. This holds with any faults when no other process interferes.
\<close>
theorem lookup_failure_acknowledged:
  assumes "body_of req = Some body" "key \<noteq> TypeWxpay" "calm m"
    "run_state (GetWebhookProviders s types key (extractOutTradeNo body key)) m = (Inl e, m')"
  shows "\<exists>text. run_state (handleNotify s types req key) m = (Reply 200 text, m') \<and> writeSuccessResponse key = Reply 200 text
    \<and> db m' = db m"
proof -
  have "run_state (handleNotify s types req key) m = (writeSuccessResponse key, m')"
    using assms by (simp add: handleNotify_def body_of_def [symmetric])
  moreover have "db m' = db m"
    using silent_GetWebhookProviders [of s types key "extractOutTradeNo body key"] assms(3,4) by (auto simp: silent_def)
  ultimately show ?thesis
    by (simp add: writeSuccessResponse_def)
qed

section \<open>Concrete callbacks\<close>

definition hook_gateway :: "unit Provider" where
  "hook_gateway = demo_gateway\<lparr>prov_ProviderKey := TypeEasyPay, prov_VerifyNotification := (\<lambda>_ _ g. (Inr (Some demo_note), g))\<rparr>"

definition hook_service :: "(nat, unit) PaymentService" where
  "hook_service = demo_service\<lparr>ps_createProvider := (\<lambda>_. Inr hook_gateway)\<rparr>"

definition hook_instance :: PaymentProviderInstance where
  "hook_instance =
     \<lparr>pi_ID = 3, pi_ProviderKey = TypeEasyPay, pi_Config = [], pi_SupportedTypes = ''alipay'', pi_Enabled = True,
      pi_PaymentMode = [], pi_SortOrder = 0, pi_Limits = [], pi_RefundEnabled = True, pi_AllowUserRefund = True\<rparr>"

definition hook_order :: PaymentOrder where
  "hook_order = demo_order\<lparr>o_ProviderInstanceID := Some ''3''\<rparr>"

definition hook_db :: "(nat, unit) pay_db" where
  "hook_db = demo_db\<lparr>d_orders := [hook_order], d_instances := [hook_instance]\<rparr>"

definition hook_request :: WebhookRequest where
  "hook_request = \<lparr>wr_IsGet = True, wr_RawQuery = ''trade_no=t1&out_trade_no=sub2_a'', wr_Body = None, wr_Headers = []\<rparr>"

lemma hook_sel [simp]:
  "o_ID hook_order = 1" "o_UserID hook_order = 7" "o_Amount hook_order = Finite 10" "o_PayAmount hook_order = Finite 10"
  "o_RechargeCode hook_order = ''PAY-1-5''" "o_OrderType hook_order = OrderTypeBalance" "o_OutTradeNo hook_order = ''sub2_a''"
  "o_Status hook_order = OrderStatusPending" "o_ProviderInstanceID hook_order = Some ''3''"
  "psOrderProviderSnapshot hook_order = None" "o_ProviderKey hook_order = None"
  by (simp_all add: hook_order_def demo_order_def psOrderProviderSnapshot_def)

lemma hook_body: "body_of hook_request = Some ''trade_no=t1&out_trade_no=sub2_a''"
  by (simp add: body_of_def hook_request_def)

lemma hook_trade_no: "extractOutTradeNo ''trade_no=t1&out_trade_no=sub2_a'' TypeEasyPay = ''sub2_a''"
  by code_simp

lemma hook_names: "names ''sub2_a'' hook_db hook_order"
  by (simp add: names_def hook_db_def)

lemma hook_three: "TrimSpace ''3'' = ''3''" "ParseInt64 ''3'' = Some 3"
  by code_simp+

lemma hook_pinned: "psHasPinnedProviderInstance hook_order"
  by (simp add: psHasPinnedProviderInstance_def hook_three)

lemma hook_resolved: "resolved hook_order hook_db = Inr (Some hook_instance)"
  by (simp add: resolved_def getOrderProviderInstance_def psStringValue_def hook_three quiet)
    (simp add: hook_db_def hook_instance_def)

lemma hook_check: "notification_check hook_service hook_order (instance_key hook_order hook_db) (Finite 10) TypeEasyPay [] = None"
proof (rule check_ok)
  have trim: "TrimSpace TypeEasyPay = TypeEasyPay" "TypeEasyPay \<noteq> []" by code_simp+
  have key: "instance_key hook_order hook_db = TypeEasyPay"
    by (simp add: instance_key_def hook_resolved) (simp add: hook_instance_def)
  show "EqualFold (expectedNotificationProviderKeyForOrder hook_service hook_order (instance_key hook_order hook_db)) (TrimSpace TypeEasyPay)"
    by (simp add: key expectedNotificationProviderKeyForOrder_def expectedNotificationProviderKey_def trim EqualFold_def)
  have "PaymentOrderCurrency hook_order = ''CNY''" by (simp add: PaymentOrderCurrency_def DefaultPaymentCurrency_def)
  then show "\<not> f_less (paymentAmountToleranceForCurrency (PaymentOrderCurrency hook_order))
      (f_abs (f_sub (Finite 10) (o_PayAmount hook_order)))"
    by (simp add: cny_tolerance tolerance_value f_sub_def binary64_def not_less)
qed (simp_all add: validateProviderSnapshotMetadata_def isValidProviderAmount_def IsNaN_def IsInf_def)

lemma hook_creditable: "creditable hook_service hook_order demo_user hook_db"
  using demo_passes(3) demo_code demo_user_of
  by (simp add: creditable_def OrderTypeBalance_def OrderTypeSubscription_def hook_service_def hook_db_def
      code_of_def user_of_def demo_num demo_stored)

theorem callback_completes_order_witness:
  "\<exists>d'. run_state (handleNotify hook_service [TypeEasyPay] hook_request TypeEasyPay) (alone hook_db) = (Reply 200 ''success'', alone d')
    \<and> completed_for demo_numeric hook_order demo_user hook_db d'"
proof -
  have gate: "ps_createProvider hook_service p = Inr hook_gateway" "prov_ProviderKey hook_gateway = TypeEasyPay"
    "prov_VerifyNotification hook_gateway b h g = (Inr (Some demo_note), g)" "rs_numeric (ps_redeem hook_service) = demo_numeric"
    for p b h g
    by (simp_all add: hook_service_def hook_gateway_def demo_num)
  have reply: "writeSuccessResponse TypeEasyPay = Reply 200 ''success''"
    by (simp add: writeSuccessResponse_def TypeEasyPay_def TypeWxpay_def TypeStripe_def TypeAirwallex_def)
  have "payable (o_ID hook_order) (d_clock hook_db - paymentGraceMinutes * minute) hook_order" by (simp add: payable_def)
  moreover have "creditable hook_service hook_order demo_user (hook_db\<lparr>d_outside := ()\<rparr>)"
  proof -
    have "hook_db\<lparr>d_outside := ()\<rparr> = hook_db" by simp
    then show ?thesis using hook_creditable by (rule ssubst)
  qed
  ultimately show ?thesis
    using callback_completes_order [of hook_request _ TypeEasyPay hook_order hook_db hook_instance hook_service hook_gateway
        demo_note "d_outside hook_db" demo_user "[TypeEasyPay]", OF hook_body _ _ _ hook_pinned hook_resolved gate(1)]
      hook_trade_no hook_names hook_check hook_creditable
    by (simp add: gate reply)
qed

text \<open>The order is found, but its instance cannot be read.\<close>

definition hook_machine :: "(nat, unit) pay_db machine" where
  "hook_machine = \<lparr>db = hook_db, sched = [(id, Works), (id, FailsBefore)]\<rparr>"

theorem lookup_failure_acknowledged_witness:
  "\<exists>m'. run_state (handleNotify hook_service [TypeEasyPay] hook_request TypeEasyPay) hook_machine = (Reply 200 ''success'', m')
    \<and> d_orders (db m') = [hook_order] \<and> o_Status hook_order = OrderStatusPending"
proof -
  have calm: "calm hook_machine" by (simp add: calm_def hook_machine_def)
  have "filter (\<lambda>y. o_OutTradeNo y = ''sub2_a'') (d_orders hook_db) = [hook_order]" using hook_names by (simp add: names_def)
  then obtain e m' where fail: "run_state (GetWebhookProviders hook_service [TypeEasyPay] TypeEasyPay ''sub2_a'') hook_machine = (Inl e, m')"
    by (auto simp: GetWebhookProviders_def order_providers_def hook_pinned getPinnedOrderProvider_def order_Only_def
        getOrderProviderInstance_def psStringValue_def hook_three instance_Get_def stmt_def hook_machine_def)
  have reply: "writeSuccessResponse TypeEasyPay = Reply 200 ''success''" "TypeEasyPay \<noteq> TypeWxpay"
    by (simp_all add: writeSuccessResponse_def TypeEasyPay_def TypeWxpay_def TypeStripe_def TypeAirwallex_def)
  from lookup_failure_acknowledged [OF hook_body reply(2) calm, of hook_service "[TypeEasyPay]" e m'] fail show ?thesis
    by (simp add: hook_trade_no reply(1)) (simp add: hook_machine_def hook_db_def)
qed

end
