(* ===== verification/SubscriptionDb.thy ===== *)
theory SubscriptionDb
  imports PayDb
begin

text \<open>
  Subscriptions: the type and its checks (\<open>service/user_subscription.go\<close>), the group they are for
  (\<open>service/group.go\<close>) and the statements of \<open>repository/user_subscription_repo.go\<close>. Usage is kept in
  units of the \<open>decimal(20, 10)\<close> columns in the table and read as floats by the service. A deleted row is
  marked and hidden by the soft-delete mixin: the table holds the visible ones. The store also has the
  groups, the clock and the first-level cache of the process.
\<close>

section \<open>Types\<close>

text \<open>\<open>'u\<close>: how the usage is kept.\<close>

record 'u UserSubscription =
  us_ID :: int
  us_UserID :: int
  us_GroupID :: int
  us_StartsAt :: int
  us_ExpiresAt :: int
  us_Status :: go_string
  us_DailyWindowStart :: "int option"
  us_WeeklyWindowStart :: "int option"
  us_MonthlyWindowStart :: "int option"
  us_DailyUsageUSD :: 'u
  us_WeeklyUsageUSD :: 'u
  us_MonthlyUsageUSD :: 'u
  us_AssignedBy :: "int option"
  us_AssignedAt :: int
  us_Notes :: go_string
  us_CreatedAt :: int
  us_UpdatedAt :: int

type_synonym subscription = "float64 UserSubscription"

record Group =
  g_ID :: int
  g_Name :: go_string
  g_SubscriptionType :: go_string
  g_DailyLimitUSD :: "float64 option"
  g_WeeklyLimitUSD :: "float64 option"
  g_MonthlyLimitUSD :: "float64 option"

definition SubscriptionStatusActive :: go_string where "SubscriptionStatusActive = ''active''"
definition SubscriptionStatusExpired :: go_string where "SubscriptionStatusExpired = ''expired''"
definition SubscriptionStatusSuspended :: go_string where "SubscriptionStatusSuspended = ''suspended''"
definition SubscriptionTypeSubscription :: go_string where "SubscriptionTypeSubscription = ''subscription''"

definition IsSubscriptionType :: "Group \<Rightarrow> bool" where
  "IsSubscriptionType g \<longleftrightarrow> g_SubscriptionType g = SubscriptionTypeSubscription"

definition has_limit :: "float64 option \<Rightarrow> bool" where
  "has_limit l \<longleftrightarrow> (case l of None \<Rightarrow> False | Some x \<Rightarrow> f_less (Finite 0) x)"

definition HasDailyLimit :: "Group \<Rightarrow> bool" where "HasDailyLimit g = has_limit (g_DailyLimitUSD g)"
definition HasWeeklyLimit :: "Group \<Rightarrow> bool" where "HasWeeklyLimit g = has_limit (g_WeeklyLimitUSD g)"
definition HasMonthlyLimit :: "Group \<Rightarrow> bool" where "HasMonthlyLimit g = has_limit (g_MonthlyLimitUSD g)"

text \<open>The zero \<open>time.Time\<close>, in nanoseconds from 1970.\<close>

definition zero_time :: int where "zero_time = - 62135596800 * 10 ^ 9"

definition hours :: "int \<Rightarrow> int" where "hours n = n * (3600 * 10 ^ 9)"

text \<open>The calendar: \<open>AddDate(0, 0, n)\<close> and the midnight before, in the zone of the process.\<close>

record calendar =
  AddDays :: "int \<Rightarrow> int \<Rightarrow> int"
  startOfDay :: "int \<Rightarrow> int"

section \<open>Checks of a subscription\<close>

definition IsActive :: "int \<Rightarrow> 'u UserSubscription \<Rightarrow> bool" where
  "IsActive now s \<longleftrightarrow> us_Status s = SubscriptionStatusActive \<and> now < us_ExpiresAt s"

definition IsExpired :: "int \<Rightarrow> 'u UserSubscription \<Rightarrow> bool" where
  "IsExpired now s \<longleftrightarrow> us_ExpiresAt s < now"

definition IsWindowActivated :: "'u UserSubscription \<Rightarrow> bool" where
  "IsWindowActivated s \<longleftrightarrow>
     us_DailyWindowStart s \<noteq> None \<or> us_WeeklyWindowStart s \<noteq> None \<or> us_MonthlyWindowStart s \<noteq> None"

definition HasOneTimeDailyQuota :: "calendar \<Rightarrow> 'u UserSubscription \<Rightarrow> bool" where
  "HasOneTimeDailyQuota cal s \<longleftrightarrow>
     us_StartsAt s \<noteq> zero_time \<and> us_ExpiresAt s \<noteq> zero_time \<and> us_ExpiresAt s \<le> AddDays cal (us_StartsAt s) 1"

definition NeedsDailyResetAt :: "calendar \<Rightarrow> int \<Rightarrow> 'u UserSubscription \<Rightarrow> bool" where
  "NeedsDailyResetAt cal now s \<longleftrightarrow>
     (case us_DailyWindowStart s of None \<Rightarrow> False
      | Some t \<Rightarrow> \<not> HasOneTimeDailyQuota cal s \<and> t + hours 24 \<le> now)"

definition NeedsWeeklyReset :: "int \<Rightarrow> 'u UserSubscription \<Rightarrow> bool" where
  "NeedsWeeklyReset now s \<longleftrightarrow> (case us_WeeklyWindowStart s of None \<Rightarrow> False | Some t \<Rightarrow> hours (7 * 24) \<le> now - t)"

definition NeedsMonthlyReset :: "int \<Rightarrow> 'u UserSubscription \<Rightarrow> bool" where
  "NeedsMonthlyReset now s \<longleftrightarrow> (case us_MonthlyWindowStart s of None \<Rightarrow> False | Some t \<Rightarrow> hours (30 * 24) \<le> now - t)"

definition DailyResetTime :: "calendar \<Rightarrow> 'u UserSubscription \<Rightarrow> int option" where
  "DailyResetTime cal s =
     (case us_DailyWindowStart s of None \<Rightarrow> None
      | Some t \<Rightarrow> Some (if HasOneTimeDailyQuota cal s then us_ExpiresAt s else t + hours 24))"

definition WeeklyResetTime :: "'u UserSubscription \<Rightarrow> int option" where
  "WeeklyResetTime s = map_option (\<lambda>t. t + hours (7 * 24)) (us_WeeklyWindowStart s)"

definition MonthlyResetTime :: "'u UserSubscription \<Rightarrow> int option" where
  "MonthlyResetTime s = map_option (\<lambda>t. t + hours (30 * 24)) (us_MonthlyWindowStart s)"

definition within_limit :: "float64 option \<Rightarrow> float64 \<Rightarrow> float64 \<Rightarrow> bool" where
  "within_limit l used cost \<longleftrightarrow>
     (if \<not> has_limit l then True else (case l of None \<Rightarrow> True | Some x \<Rightarrow> f_le (f_add used cost) x))"

definition CheckDailyLimit :: "subscription \<Rightarrow> Group \<Rightarrow> float64 \<Rightarrow> bool" where
  "CheckDailyLimit s g cost = within_limit (g_DailyLimitUSD g) (us_DailyUsageUSD s) cost"

definition CheckWeeklyLimit :: "subscription \<Rightarrow> Group \<Rightarrow> float64 \<Rightarrow> bool" where
  "CheckWeeklyLimit s g cost = within_limit (g_WeeklyLimitUSD g) (us_WeeklyUsageUSD s) cost"

definition CheckMonthlyLimit :: "subscription \<Rightarrow> Group \<Rightarrow> float64 \<Rightarrow> bool" where
  "CheckMonthlyLimit s g cost = within_limit (g_MonthlyLimitUSD g) (us_MonthlyUsageUSD s) cost"

definition CheckAllLimits :: "subscription \<Rightarrow> Group \<Rightarrow> float64 \<Rightarrow> bool \<times> bool \<times> bool" where
  "CheckAllLimits s g cost = (CheckDailyLimit s g cost, CheckWeeklyLimit s g cost, CheckMonthlyLimit s g cost)"

text \<open>\<open>Duration.Hours() / 24\<close> and \<open>Duration.Seconds()\<close> of the time that is left, truncated.\<close>

definition f_div :: "float64 \<Rightarrow> float64 \<Rightarrow> float64" where
  "f_div x y =
     (case (x, y) of
        (Finite a, Finite b) \<Rightarrow>
          (if b = 0 then (if a = 0 then NaN else Infinite (a < 0)) else binary64 (a / b))
      | (Finite a, Infinite _) \<Rightarrow> Finite 0
      | (Infinite n, Finite b) \<Rightarrow> Infinite (n \<noteq> (b < 0))
      | _ \<Rightarrow> NaN)"

definition f_times :: "float64 \<Rightarrow> rat \<Rightarrow> float64" where
  "f_times x k =
     (case x of Finite a \<Rightarrow> binary64 (a * k) | Infinite n \<Rightarrow> (if k = 0 then NaN else Infinite (n \<noteq> (k < 0))) | NaN \<Rightarrow> NaN)"

text \<open>\<open>time.Until\<close>: the difference, kept within 64 bits.\<close>

definition Until :: "int \<Rightarrow> int \<Rightarrow> int" where
  "Until now t = max (- (2 ^ 63)) (min (2 ^ 63 - 1) (t - now))"

definition go_quot :: "int \<Rightarrow> int \<Rightarrow> int" where
  "go_quot a b = (if a < 0 then - (- a div b) else a div b)"

definition duration_in :: "int \<Rightarrow> int \<Rightarrow> float64" where
  "duration_in unit d =
     (let q = go_quot d unit
      in f_add (binary64 (of_int q)) (f_div (binary64 (of_int (d - q * unit))) (binary64 (of_int unit))))"

definition DaysRemaining :: "int \<Rightarrow> 'u UserSubscription \<Rightarrow> int" where
  "DaysRemaining now s =
     (if IsExpired now s then 0
      else f_trunc (f_div (duration_in (hours 1) (Until now (us_ExpiresAt s))) (Finite 24)))"

section \<open>The store\<close>

type_synonym sub_row = "int UserSubscription"

text \<open>The rows that are not deleted, and the identifiers of those that are.\<close>

record sub_db =
  s_rows :: "sub_row list"
  s_seq :: int
  s_groups :: "Group list"
  s_clock :: int
  s_cache :: "go_string \<Rightarrow> subscription option"
  s_gone :: "int list"

type_synonym 'a sub = "(sub_db, 'a) cmd"

definition ErrSubscriptionNotFound :: pay_error where
  "ErrSubscriptionNotFound = NotFound ''SUBSCRIPTION_NOT_FOUND'' ''subscription not found''"

definition ErrSubscriptionAlreadyExists :: pay_error where
  "ErrSubscriptionAlreadyExists = Conflict ''SUBSCRIPTION_ALREADY_EXISTS'' ''subscription already exists for this user and group''"

definition ErrGroupNotFound :: pay_error where
  "ErrGroupNotFound = NotFound ''GROUP_NOT_FOUND'' ''group not found''"

text \<open>A row as the service sees it.\<close>

definition userSubscriptionEntityToService :: "numeric \<Rightarrow> sub_row \<Rightarrow> subscription" where
  "userSubscriptionEntityToService num r =
     \<lparr>us_ID = us_ID r, us_UserID = us_UserID r, us_GroupID = us_GroupID r, us_StartsAt = us_StartsAt r,
      us_ExpiresAt = us_ExpiresAt r, us_Status = us_Status r, us_DailyWindowStart = us_DailyWindowStart r,
      us_WeeklyWindowStart = us_WeeklyWindowStart r, us_MonthlyWindowStart = us_MonthlyWindowStart r,
      us_DailyUsageUSD = from_column num 10 (us_DailyUsageUSD r), us_WeeklyUsageUSD = from_column num 10 (us_WeeklyUsageUSD r),
      us_MonthlyUsageUSD = from_column num 10 (us_MonthlyUsageUSD r), us_AssignedBy = us_AssignedBy r,
      us_AssignedAt = us_AssignedAt r, us_Notes = us_Notes r, us_CreatedAt = us_CreatedAt r, us_UpdatedAt = us_UpdatedAt r\<rparr>"

definition sub_Now :: "int sub" where
  "sub_Now = peek s_clock"

text \<open>The unique index on user and group.\<close>

definition belongs :: "int \<Rightarrow> int \<Rightarrow> 'u UserSubscription \<Rightarrow> bool" where
  "belongs u g r \<longleftrightarrow> us_UserID r = u \<and> us_GroupID r = g"

section \<open>Queries\<close>

definition group_GetByID :: "int \<Rightarrow> Group outcome sub" where
  "group_GetByID i =
     stmt Unavailable (\<lambda>d.
       (case find (\<lambda>g. g_ID g = i) (s_groups d) of None \<Rightarrow> Inl ErrGroupNotFound | Some g \<Rightarrow> Inr g, d))"

text \<open>\<open>Only\<close>: exactly one row.\<close>

definition sub_Only :: "numeric \<Rightarrow> (sub_row \<Rightarrow> bool) \<Rightarrow> sub_db \<Rightarrow> subscription outcome" where
  "sub_Only num p d =
     (case filter p (s_rows d) of
        [] \<Rightarrow> Inl ErrSubscriptionNotFound
      | [r] \<Rightarrow> Inr (userSubscriptionEntityToService num r)
      | _ \<Rightarrow> Inl (Plain ''not singular''))"

definition subscription_GetByID :: "numeric \<Rightarrow> int \<Rightarrow> subscription outcome sub" where
  "subscription_GetByID num i = stmt Unavailable (\<lambda>d. (sub_Only num (\<lambda>r. us_ID r = i) d, d))"

definition subscription_GetByUserIDAndGroupID :: "numeric \<Rightarrow> int \<Rightarrow> int \<Rightarrow> subscription outcome sub" where
  "subscription_GetByUserIDAndGroupID num u g = stmt Unavailable (\<lambda>d. (sub_Only num (belongs u g) d, d))"

definition subscription_GetActiveByUserIDAndGroupID :: "numeric \<Rightarrow> int \<Rightarrow> int \<Rightarrow> subscription outcome sub" where
  "subscription_GetActiveByUserIDAndGroupID num u g =
     stmt Unavailable (\<lambda>d. (sub_Only num (\<lambda>r. belongs u g r \<and> IsActive (s_clock d) r) d, d))"

definition subscription_ExistsByUserIDAndGroupID :: "int \<Rightarrow> int \<Rightarrow> bool outcome sub" where
  "subscription_ExistsByUserIDAndGroupID u g = stmt Unavailable (\<lambda>d. (Inr (list_ex (belongs u g) (s_rows d)), d))"

text \<open>The newest first; the database leaves the order of rows of the same age open.\<close>

definition newest_first :: "sub_row list \<Rightarrow> sub_row list" where
  "newest_first rs = sort_key (\<lambda>r. - us_CreatedAt r) rs"

definition subscription_ListByUserID :: "numeric \<Rightarrow> int \<Rightarrow> subscription list outcome sub" where
  "subscription_ListByUserID num u =
     stmt Unavailable (\<lambda>d.
       (Inr (map (userSubscriptionEntityToService num) (newest_first (filter (\<lambda>r. us_UserID r = u) (s_rows d)))), d))"

definition subscription_ListActiveByUserID :: "numeric \<Rightarrow> int \<Rightarrow> subscription list outcome sub" where
  "subscription_ListActiveByUserID num u =
     stmt Unavailable (\<lambda>d.
       (Inr (map (userSubscriptionEntityToService num)
          (newest_first (filter (\<lambda>r. us_UserID r = u \<and> IsActive (s_clock d) r) (s_rows d)))), d))"

definition subscription_ListExpired :: "numeric \<Rightarrow> subscription list outcome sub" where
  "subscription_ListExpired num =
     stmt Unavailable (\<lambda>d.
       (Inr (map (userSubscriptionEntityToService num)
          (filter (\<lambda>r. us_Status r = SubscriptionStatusActive \<and> us_ExpiresAt r \<le> s_clock d) (s_rows d))), d))"

definition subscription_CountByGroupID :: "int \<Rightarrow> int outcome sub" where
  "subscription_CountByGroupID g =
     stmt Unavailable (\<lambda>d. (Inr (int (length (filter (\<lambda>r. us_GroupID r = g) (s_rows d)))), d))"

definition subscription_CountActiveByGroupID :: "int \<Rightarrow> int outcome sub" where
  "subscription_CountActiveByGroupID g =
     stmt Unavailable (\<lambda>d. (Inr (int (length (filter (\<lambda>r. us_GroupID r = g \<and> IsActive (s_clock d) r) (s_rows d)))), d))"

section \<open>Changes\<close>

definition set_rows :: "(sub_row \<Rightarrow> bool) \<Rightarrow> (sub_row \<Rightarrow> sub_row) \<Rightarrow> sub_db \<Rightarrow> sub_db" where
  "set_rows p f d =
     d\<lparr>s_rows := map (\<lambda>r. if p r then (f r)\<lparr>us_UpdatedAt := s_clock d\<rparr> else r) (s_rows d)\<rparr>"

text \<open>
  \<open>UpdateOneID\<close>: it is an error when the row is not there. It does not ask whether the row is deleted (the filter of the
  soft deletion is only added to queries): the update of a row in \<open>s_gone\<close> succeeds, and nothing reads that row.
\<close>

definition update_one :: "int \<Rightarrow> (sub_row \<Rightarrow> sub_row) \<Rightarrow> unit outcome sub" where
  "update_one i f =
     stmt Unavailable (\<lambda>d.
       if list_ex (\<lambda>r. us_ID r = i) (s_rows d) then (Inr (), set_rows (\<lambda>r. us_ID r = i) f d)
       else if i \<in> set (s_gone d) then (Inr (), d)
       else (Inl ErrSubscriptionNotFound, d))"

definition subscription_Create :: "numeric \<Rightarrow> subscription \<Rightarrow> int outcome sub" where
  "subscription_Create num s =
     stmt Unavailable (\<lambda>d.
       let i = s_seq d + 1; now = s_clock d; d = d\<lparr>s_seq := i\<rparr>;
           row = \<lparr>us_ID = i, us_UserID = us_UserID s, us_GroupID = us_GroupID s,
             us_StartsAt = (if us_StartsAt s = zero_time then now else us_StartsAt s), us_ExpiresAt = us_ExpiresAt s,
             us_Status = (if us_Status s = [] then SubscriptionStatusActive else us_Status s),
             us_DailyWindowStart = us_DailyWindowStart s, us_WeeklyWindowStart = us_WeeklyWindowStart s,
             us_MonthlyWindowStart = us_MonthlyWindowStart s, us_DailyUsageUSD = to_column num 10 (us_DailyUsageUSD s),
             us_WeeklyUsageUSD = to_column num 10 (us_WeeklyUsageUSD s),
             us_MonthlyUsageUSD = to_column num 10 (us_MonthlyUsageUSD s), us_AssignedBy = us_AssignedBy s,
             us_AssignedAt = (if us_AssignedAt s = zero_time then now else us_AssignedAt s), us_Notes = us_Notes s,
             us_CreatedAt = now, us_UpdatedAt = now\<rparr>
       in if list_ex (belongs (us_UserID s) (us_GroupID s)) (s_rows d) then (Inl ErrSubscriptionAlreadyExists, d)
          else (Inr i, d\<lparr>s_rows := s_rows d @ [row]\<rparr>))"

definition or_old :: "'a option \<Rightarrow> 'a option \<Rightarrow> 'a option" where
  "or_old new old = (case new of None \<Rightarrow> old | Some x \<Rightarrow> Some x)"

text \<open>What \<open>Update\<close> writes; a nil pointer leaves its column alone.\<close>

definition written :: "numeric \<Rightarrow> subscription \<Rightarrow> sub_row \<Rightarrow> sub_row" where
  "written num s r =
     r\<lparr>us_UserID := us_UserID s, us_GroupID := us_GroupID s, us_StartsAt := us_StartsAt s,
       us_ExpiresAt := us_ExpiresAt s, us_Status := us_Status s,
       us_DailyWindowStart := or_old (us_DailyWindowStart s) (us_DailyWindowStart r),
       us_WeeklyWindowStart := or_old (us_WeeklyWindowStart s) (us_WeeklyWindowStart r),
       us_MonthlyWindowStart := or_old (us_MonthlyWindowStart s) (us_MonthlyWindowStart r),
       us_DailyUsageUSD := to_column num 10 (us_DailyUsageUSD s),
       us_WeeklyUsageUSD := to_column num 10 (us_WeeklyUsageUSD s),
       us_MonthlyUsageUSD := to_column num 10 (us_MonthlyUsageUSD s),
       us_AssignedBy := or_old (us_AssignedBy s) (us_AssignedBy r), us_AssignedAt := us_AssignedAt s,
       us_Notes := us_Notes s\<rparr>"

definition subscription_Update :: "numeric \<Rightarrow> subscription \<Rightarrow> unit outcome sub" where
  "subscription_Update num s =
     stmt Unavailable (\<lambda>d.
       if \<not> list_ex (\<lambda>r. us_ID r = us_ID s) (s_rows d)
         then (if us_ID s \<in> set (s_gone d) then Inr () else Inl ErrSubscriptionNotFound, d)
       else if list_ex (\<lambda>r. us_ID r \<noteq> us_ID s \<and> belongs (us_UserID s) (us_GroupID s) r) (s_rows d)
         then (Inl ErrSubscriptionAlreadyExists, d)
       else (Inr (), set_rows (\<lambda>r. us_ID r = us_ID s) (written num s) d))"

definition subscription_Delete :: "int \<Rightarrow> unit outcome sub" where
  "subscription_Delete i =
     stmt Unavailable (\<lambda>d.
       (Inr (), d\<lparr>s_rows := filter (\<lambda>r. us_ID r \<noteq> i) (s_rows d),
                  s_gone := s_gone d @ map us_ID (filter (\<lambda>r. us_ID r = i) (s_rows d))\<rparr>))"

definition subscription_DeleteByGroupID :: "int \<Rightarrow> int outcome sub" where
  "subscription_DeleteByGroupID g =
     stmt Unavailable (\<lambda>d.
       (Inr (int (length (filter (\<lambda>r. us_GroupID r = g) (s_rows d)))),
        d\<lparr>s_rows := filter (\<lambda>r. us_GroupID r \<noteq> g) (s_rows d),
          s_gone := s_gone d @ map us_ID (filter (\<lambda>r. us_GroupID r = g) (s_rows d))\<rparr>))"

definition subscription_ExtendExpiry :: "int \<Rightarrow> int \<Rightarrow> unit outcome sub" where
  "subscription_ExtendExpiry i t = update_one i (\<lambda>r. r\<lparr>us_ExpiresAt := t\<rparr>)"

definition subscription_UpdateStatus :: "int \<Rightarrow> go_string \<Rightarrow> unit outcome sub" where
  "subscription_UpdateStatus i st = update_one i (\<lambda>r. r\<lparr>us_Status := st\<rparr>)"

definition subscription_UpdateNotes :: "int \<Rightarrow> go_string \<Rightarrow> unit outcome sub" where
  "subscription_UpdateNotes i notes = update_one i (\<lambda>r. r\<lparr>us_Notes := notes\<rparr>)"

definition subscription_ActivateWindows :: "int \<Rightarrow> int \<Rightarrow> unit outcome sub" where
  "subscription_ActivateWindows i t =
     update_one i (\<lambda>r. r\<lparr>us_DailyWindowStart := Some t, us_WeeklyWindowStart := Some t, us_MonthlyWindowStart := Some t\<rparr>)"

definition subscription_ResetDailyUsage :: "int \<Rightarrow> int \<Rightarrow> unit outcome sub" where
  "subscription_ResetDailyUsage i t = update_one i (\<lambda>r. r\<lparr>us_DailyUsageUSD := 0, us_DailyWindowStart := Some t\<rparr>)"

definition subscription_ResetWeeklyUsage :: "int \<Rightarrow> int \<Rightarrow> unit outcome sub" where
  "subscription_ResetWeeklyUsage i t = update_one i (\<lambda>r. r\<lparr>us_WeeklyUsageUSD := 0, us_WeeklyWindowStart := Some t\<rparr>)"

definition subscription_ResetMonthlyUsage :: "int \<Rightarrow> int \<Rightarrow> unit outcome sub" where
  "subscription_ResetMonthlyUsage i t = update_one i (\<lambda>r. r\<lparr>us_MonthlyUsageUSD := 0, us_MonthlyWindowStart := Some t\<rparr>)"

definition add_usage :: "int \<Rightarrow> sub_row \<Rightarrow> sub_row" where
  "add_usage c r =
     r\<lparr>us_DailyUsageUSD := us_DailyUsageUSD r + c, us_WeeklyUsageUSD := us_WeeklyUsageUSD r + c,
       us_MonthlyUsageUSD := us_MonthlyUsageUSD r + c\<rparr>"

definition subscription_IncrementUsage :: "numeric \<Rightarrow> int \<Rightarrow> float64 \<Rightarrow> unit outcome sub" where
  "subscription_IncrementUsage num i cost =
     stmt Unavailable (\<lambda>d.
       let p = (\<lambda>r. us_ID r = i \<and> list_ex (\<lambda>g. g_ID g = us_GroupID r) (s_groups d)) in
       if list_ex p (s_rows d) then (Inr (), set_rows p (add_usage (to_column num 10 cost)) d)
       else (Inl ErrSubscriptionNotFound, d))"

definition subscription_BatchUpdateExpiredStatus :: "int outcome sub" where
  "subscription_BatchUpdateExpiredStatus =
     stmt Unavailable (\<lambda>d.
       let p = (\<lambda>r. us_Status r = SubscriptionStatusActive \<and> us_ExpiresAt r \<le> s_clock d) in
       (Inr (int (length (filter p (s_rows d)))), set_rows p (\<lambda>r. r\<lparr>us_Status := SubscriptionStatusExpired\<rparr>) d))"

end
