(* ===== verification/Subscription.thy ===== *)
theory Subscription
  imports SubscriptionDb
begin

text \<open>
  \<open>service/subscription_service.go\<close>: assigning, extending, adjusting and revoking subscriptions, the usage
  windows with their resets, the limits, and the progress that is shown. The first-level cache is memory of
  the process: it may lose an entry at any time. Not modelled: the second cache, which is only told what is
  stale, the queue that runs \<open>doWindowMaintenance\<close> in the background, singleflight and paged lists. A call
  reads the clock once where the source reads it again within the same function.
\<close>

section \<open>The service\<close>

record SubscriptionService =
  ss_numeric :: numeric
  ss_calendar :: calendar
  ss_cache :: bool
  ss_client :: bool

definition MaxExpiresAt :: int where "MaxExpiresAt = 4102444799 * 10 ^ 9"

definition MaxValidityDays :: int where "MaxValidityDays = 36500"

definition ErrSubscriptionExpired :: pay_error where
  "ErrSubscriptionExpired = Forbidden ''SUBSCRIPTION_EXPIRED'' ''subscription has expired''"

definition ErrSubscriptionSuspended :: pay_error where
  "ErrSubscriptionSuspended = Forbidden ''SUBSCRIPTION_SUSPENDED'' ''subscription is suspended''"

definition ErrSubscriptionAssignConflict :: pay_error where
  "ErrSubscriptionAssignConflict =
     Conflict ''SUBSCRIPTION_ASSIGN_CONFLICT'' ''subscription exists but request conflicts with existing assignment semantics''"

definition ErrGroupNotSubscriptionType :: pay_error where
  "ErrGroupNotSubscriptionType = BadRequest ''GROUP_NOT_SUBSCRIPTION_TYPE'' ''group is not a subscription type''"

definition ErrInvalidInput :: pay_error where
  "ErrInvalidInput =
     BadRequest ''INVALID_INPUT'' ''at least one of resetDaily, resetWeekly, or resetMonthly must be true''"

definition ErrDailyLimitExceeded :: pay_error where
  "ErrDailyLimitExceeded = TooManyRequests ''DAILY_LIMIT_EXCEEDED'' ''daily usage limit exceeded''"

definition ErrWeeklyLimitExceeded :: pay_error where
  "ErrWeeklyLimitExceeded = TooManyRequests ''WEEKLY_LIMIT_EXCEEDED'' ''weekly usage limit exceeded''"

definition ErrMonthlyLimitExceeded :: pay_error where
  "ErrMonthlyLimitExceeded = TooManyRequests ''MONTHLY_LIMIT_EXCEEDED'' ''monthly usage limit exceeded''"

definition subCacheKey :: "int \<Rightarrow> int \<Rightarrow> go_string" where
  "subCacheKey u g = ''sub:'' @ Itoa u @ '':'' @ Itoa g"

definition memory :: "(sub_db \<Rightarrow> sub_db) \<Rightarrow> unit sub" where
  "memory f = State (\<lambda>m. ((), m\<lparr>db := f (db m)\<rparr>))"

definition InvalidateSubCache :: "SubscriptionService \<Rightarrow> int \<Rightarrow> int \<Rightarrow> unit sub" where
  "InvalidateSubCache s u g =
     (if \<not> ss_cache s then ret () else memory (\<lambda>d. d\<lparr>s_cache := (s_cache d)(subCacheKey u g := None)\<rparr>))"

section \<open>Assignment\<close>

record AssignSubscriptionInput =
  as_UserID :: int
  as_GroupID :: int
  as_ValidityDays :: int
  as_AssignedBy :: int
  as_Notes :: go_string

definition normalizeAssignValidityDays :: "int \<Rightarrow> int" where
  "normalizeAssignValidityDays days =
     (let days = (if days \<le> 0 then 30 else days) in if MaxValidityDays < days then MaxValidityDays else days)"

definition capped :: "int \<Rightarrow> int" where
  "capped t = (if MaxExpiresAt < t then MaxExpiresAt else t)"

definition appendSubscriptionNotes :: "go_string \<Rightarrow> go_string \<Rightarrow> go_string" where
  "appendSubscriptionNotes old new =
     (if new = [] then old else if old = [] then new else old @ newline @ new)"

definition renewedSubscriptionTerm :: "calendar \<Rightarrow> subscription \<Rightarrow> go_string \<Rightarrow> int \<Rightarrow> int \<Rightarrow> subscription" where
  "renewedSubscriptionTerm cal existing notes startsAt expiresAt =
     (let windowStart = startOfDay cal startsAt in
      existing\<lparr>us_StartsAt := startsAt, us_ExpiresAt := expiresAt, us_Status := SubscriptionStatusActive,
        us_DailyWindowStart := Some windowStart, us_WeeklyWindowStart := Some windowStart,
        us_MonthlyWindowStart := Some windowStart, us_DailyUsageUSD := Finite 0, us_WeeklyUsageUSD := Finite 0,
        us_MonthlyUsageUSD := Finite 0, us_Notes := appendSubscriptionNotes (us_Notes existing) notes\<rparr>)"

definition sub_rollback :: "sub_db \<Rightarrow> sub_db \<Rightarrow> sub_db" where
  "sub_rollback before after = before\<lparr>s_seq := s_seq after\<rparr>"

definition withSubscriptionUpdateTx :: "SubscriptionService \<Rightarrow> unit outcome sub \<Rightarrow> unit outcome sub" where
  "withSubscriptionUpdateTx s body =
     (if \<not> ss_client s then body
      else transaction sub_rollback (Wrapped ''begin transaction: '' Unavailable)
             (Wrapped ''commit transaction: '' Unavailable) body)"

text \<open>Errors of a statement, with a text in front.\<close>

definition wrap :: "go_string \<Rightarrow> unit outcome \<Rightarrow> unit outcome" where
  "wrap p r = (case r of Inl e \<Rightarrow> Inl (Wrapped p e) | Inr _ \<Rightarrow> Inr ())"

definition then_do :: "unit outcome sub \<Rightarrow> 'a outcome sub \<Rightarrow> 'a outcome sub" where
  "then_do a b = do { c \<leftarrow> a; case c of Inl e \<Rightarrow> ret (Inl e) | Inr _ \<Rightarrow> b }"

definition extend_term :: "subscription \<Rightarrow> go_string \<Rightarrow> int \<Rightarrow> unit outcome sub" where
  "extend_term existing notes newExpiresAt = do {
     c \<leftarrow> subscription_ExtendExpiry (us_ID existing) newExpiresAt;
     case c of
       Inl e \<Rightarrow> ret (Inl (Wrapped ''extend subscription: '' e))
     | Inr _ \<Rightarrow> do {
         c \<leftarrow> (if us_Status existing \<noteq> SubscriptionStatusActive
               then subscription_UpdateStatus (us_ID existing) SubscriptionStatusActive else ret (Inr ()));
         case c of
           Inl e \<Rightarrow> ret (Inl (Wrapped ''update subscription status: '' e))
         | Inr _ \<Rightarrow>
             if notes = [] then ret (Inr ())
             else do {
               c \<leftarrow> subscription_UpdateNotes (us_ID existing) (appendSubscriptionNotes (us_Notes existing) notes);
               ret (wrap ''update subscription notes: '' c)
             }
       }
   }"

definition updateExistingSubscriptionTerm ::
    "SubscriptionService \<Rightarrow> subscription \<Rightarrow> go_string \<Rightarrow> int \<Rightarrow> int \<Rightarrow> bool \<Rightarrow> unit outcome sub" where
  "updateExistingSubscriptionTerm s existing notes startsAt newExpiresAt isExpired =
     withSubscriptionUpdateTx s
       (if isExpired then do {
          c \<leftarrow> subscription_Update (ss_numeric s)
                 (renewedSubscriptionTerm (ss_calendar s) existing notes startsAt newExpiresAt);
          ret (wrap ''renew expired subscription: '' c)
        }
        else extend_term existing notes newExpiresAt)"

definition createSubscription :: "SubscriptionService \<Rightarrow> AssignSubscriptionInput \<Rightarrow> subscription outcome sub" where
  "createSubscription s input = do {
     now \<leftarrow> sub_Now;
     let expiresAt = capped (AddDays (ss_calendar s) now (normalizeAssignValidityDays (as_ValidityDays input)));
     c \<leftarrow> subscription_Create (ss_numeric s)
            \<lparr>us_ID = 0, us_UserID = as_UserID input, us_GroupID = as_GroupID input, us_StartsAt = now,
             us_ExpiresAt = expiresAt, us_Status = SubscriptionStatusActive, us_DailyWindowStart = None,
             us_WeeklyWindowStart = None, us_MonthlyWindowStart = None, us_DailyUsageUSD = Finite 0,
             us_WeeklyUsageUSD = Finite 0, us_MonthlyUsageUSD = Finite 0,
             us_AssignedBy = (if 0 < as_AssignedBy input then Some (as_AssignedBy input) else None),
             us_AssignedAt = now, us_Notes = as_Notes input, us_CreatedAt = now, us_UpdatedAt = now\<rparr>;
     case c of Inl e \<Rightarrow> ret (Inl e) | Inr i \<Rightarrow> subscription_GetByID (ss_numeric s) i
   }"

definition extend_existing ::
    "SubscriptionService \<Rightarrow> AssignSubscriptionInput \<Rightarrow> subscription \<Rightarrow> (subscription \<times> bool) outcome sub" where
  "extend_existing s input existing = do {
     let days = normalizeAssignValidityDays (as_ValidityDays input);
     now \<leftarrow> sub_Now;
     let isExpired = (us_ExpiresAt existing \<le> now);
     let newExpiresAt = capped (AddDays (ss_calendar s) (if isExpired then now else us_ExpiresAt existing) days);
     c \<leftarrow> updateExistingSubscriptionTerm s existing (as_Notes input) now newExpiresAt isExpired;
     case c of
       Inl e \<Rightarrow> ret (Inl e)
     | Inr _ \<Rightarrow> do {
         _ \<leftarrow> InvalidateSubCache s (as_UserID input) (as_GroupID input);
         c \<leftarrow> subscription_GetByID (ss_numeric s) (us_ID existing);
         ret (case c of Inl e \<Rightarrow> Inl e | Inr x \<Rightarrow> Inr (x, True))
       }
   }"

definition create_new ::
    "SubscriptionService \<Rightarrow> AssignSubscriptionInput \<Rightarrow> (subscription \<times> bool) outcome sub" where
  "create_new s input = do {
     c \<leftarrow> createSubscription s input;
     case c of
       Inl e \<Rightarrow> ret (Inl e)
     | Inr x \<Rightarrow> do {
         _ \<leftarrow> InvalidateSubCache s (as_UserID input) (as_GroupID input);
         ret (Inr (x, False))
       }
   }"

text \<open>For a subscription group only.\<close>

definition in_group :: "int \<Rightarrow> 'a outcome sub \<Rightarrow> 'a outcome sub" where
  "in_group i k = do {
     c \<leftarrow> group_GetByID i;
     case c of
       Inl e \<Rightarrow> ret (Inl (Wrapped ''group not found: '' e))
     | Inr g \<Rightarrow> if \<not> IsSubscriptionType g then ret (Inl ErrGroupNotSubscriptionType) else k
   }"

text \<open>Any error of the lookup counts as no subscription.\<close>

definition AssignOrExtendSubscription ::
    "SubscriptionService \<Rightarrow> AssignSubscriptionInput \<Rightarrow> (subscription \<times> bool) outcome sub" where
  "AssignOrExtendSubscription s input =
     in_group (as_GroupID input) (do {
       c \<leftarrow> subscription_GetByUserIDAndGroupID (ss_numeric s) (as_UserID input) (as_GroupID input);
       case c of
         Inl _ \<Rightarrow> create_new s input
       | Inr existing \<Rightarrow> extend_existing s input existing
     })"

definition detectAssignSemanticConflict ::
    "calendar \<Rightarrow> subscription \<Rightarrow> AssignSubscriptionInput \<Rightarrow> go_string option" where
  "detectAssignSemanticConflict cal existing input =
     (if us_StartsAt existing \<noteq> zero_time
         \<and> us_ExpiresAt existing
             \<noteq> capped (AddDays cal (us_StartsAt existing) (normalizeAssignValidityDays (as_ValidityDays input)))
      then Some ''validity_days_mismatch''
      else if TrimSpace (us_Notes existing) \<noteq> TrimSpace (as_Notes input) then Some ''notes_mismatch''
      else None)"

definition assignSubscriptionWithReuse ::
    "SubscriptionService \<Rightarrow> AssignSubscriptionInput \<Rightarrow> (subscription \<times> bool) outcome sub" where
  "assignSubscriptionWithReuse s input =
     in_group (as_GroupID input) (do {
       c \<leftarrow> subscription_ExistsByUserIDAndGroupID (as_UserID input) (as_GroupID input);
       case c of
         Inl e \<Rightarrow> ret (Inl e)
       | Inr False \<Rightarrow> create_new s input
       | Inr True \<Rightarrow> do {
           c \<leftarrow> subscription_GetByUserIDAndGroupID (ss_numeric s) (as_UserID input) (as_GroupID input);
           ret (case c of
             Inl e \<Rightarrow> Inl e
           | Inr x \<Rightarrow>
               (case detectAssignSemanticConflict (ss_calendar s) x input of
                  Some _ \<Rightarrow> Inl ErrSubscriptionAssignConflict
                | None \<Rightarrow> Inr (x, True)))
         }
     })"

definition AssignSubscription :: "SubscriptionService \<Rightarrow> AssignSubscriptionInput \<Rightarrow> subscription outcome sub" where
  "AssignSubscription s input = do {
     c \<leftarrow> assignSubscriptionWithReuse s input;
     ret (case c of Inl e \<Rightarrow> Inl e | Inr (x, _) \<Rightarrow> Inr x)
   }"

text \<open>Several users at once; the error of each is kept with the user.\<close>

record BulkAssignResult =
  ba_SuccessCount :: int
  ba_CreatedCount :: int
  ba_ReusedCount :: int
  ba_FailedCount :: int
  ba_Subscriptions :: "subscription list"
  ba_Errors :: "(int \<times> pay_error) list"
  ba_Statuses :: "int \<Rightarrow> go_string option"

definition bulk_result :: "int \<Rightarrow> (subscription \<times> bool) outcome \<Rightarrow> BulkAssignResult \<Rightarrow> BulkAssignResult" where
  "bulk_result u c r =
     (case c of
        Inl e \<Rightarrow>
          r\<lparr>ba_FailedCount := ba_FailedCount r + 1, ba_Errors := ba_Errors r @ [(u, e)],
            ba_Statuses := (ba_Statuses r)(u \<mapsto> ''failed'')\<rparr>
      | Inr (x, reused) \<Rightarrow>
          (let r = r\<lparr>ba_SuccessCount := ba_SuccessCount r + 1, ba_Subscriptions := ba_Subscriptions r @ [x]\<rparr> in
           if reused then r\<lparr>ba_ReusedCount := ba_ReusedCount r + 1, ba_Statuses := (ba_Statuses r)(u \<mapsto> ''reused'')\<rparr>
           else r\<lparr>ba_CreatedCount := ba_CreatedCount r + 1, ba_Statuses := (ba_Statuses r)(u \<mapsto> ''created'')\<rparr>))"

primrec bulk_each ::
    "SubscriptionService \<Rightarrow> AssignSubscriptionInput \<Rightarrow> int list \<Rightarrow> BulkAssignResult \<Rightarrow> BulkAssignResult sub" where
  "bulk_each s input [] r = ret r"
| "bulk_each s input (u # us) r = do {
     c \<leftarrow> assignSubscriptionWithReuse s (input\<lparr>as_UserID := u\<rparr>);
     bulk_each s input us (bulk_result u c r)
   }"

definition BulkAssignSubscription ::
    "SubscriptionService \<Rightarrow> int list \<Rightarrow> AssignSubscriptionInput \<Rightarrow> BulkAssignResult outcome sub" where
  "BulkAssignSubscription s userIDs input = do {
     r \<leftarrow> bulk_each s input userIDs
            \<lparr>ba_SuccessCount = 0, ba_CreatedCount = 0, ba_ReusedCount = 0, ba_FailedCount = 0, ba_Subscriptions = [],
             ba_Errors = [], ba_Statuses = (\<lambda>_. None)\<rparr>;
     ret (Inr r)
   }"

section \<open>Revocation and adjustment\<close>

definition RevokeSubscription :: "SubscriptionService \<Rightarrow> int \<Rightarrow> unit outcome sub" where
  "RevokeSubscription s i = do {
     c \<leftarrow> subscription_GetByID (ss_numeric s) i;
     case c of
       Inl e \<Rightarrow> ret (Inl e)
     | Inr x \<Rightarrow> do {
         c \<leftarrow> subscription_Delete i;
         case c of
           Inl e \<Rightarrow> ret (Inl e)
         | Inr _ \<Rightarrow> do { _ \<leftarrow> InvalidateSubCache s (us_UserID x) (us_GroupID x); ret (Inr ()) }
       }
   }"

definition clamp_days :: "int \<Rightarrow> int" where
  "clamp_days days =
     (let days = (if MaxValidityDays < days then MaxValidityDays else days)
      in if days < - MaxValidityDays then - MaxValidityDays else days)"

definition adjust_to :: "SubscriptionService \<Rightarrow> subscription \<Rightarrow> int \<Rightarrow> subscription outcome sub" where
  "adjust_to s x newExpiresAt = do {
     c \<leftarrow> subscription_ExtendExpiry (us_ID x) newExpiresAt;
     case c of
       Inl e \<Rightarrow> ret (Inl e)
     | Inr _ \<Rightarrow> do {
         c \<leftarrow> (if us_Status x = SubscriptionStatusExpired
               then subscription_UpdateStatus (us_ID x) SubscriptionStatusActive else ret (Inr ()));
         case c of
           Inl e \<Rightarrow> ret (Inl e)
         | Inr _ \<Rightarrow> do {
             _ \<leftarrow> InvalidateSubCache s (us_UserID x) (us_GroupID x);
             subscription_GetByID (ss_numeric s) (us_ID x)
           }
       }
   }"

definition ExtendSubscription :: "SubscriptionService \<Rightarrow> int \<Rightarrow> int \<Rightarrow> subscription outcome sub" where
  "ExtendSubscription s i days = do {
     c \<leftarrow> subscription_GetByID (ss_numeric s) i;
     case c of
       Inl _ \<Rightarrow> ret (Inl ErrSubscriptionNotFound)
     | Inr x \<Rightarrow> do {
         let days = clamp_days days;
         now \<leftarrow> sub_Now;
         let isExpired = (us_ExpiresAt x \<le> now);
         if isExpired \<and> days < 0 then
           ret (Inl (BadRequest ''CANNOT_SHORTEN_EXPIRED'' ''cannot shorten an expired subscription''))
         else (let newExpiresAt = capped (AddDays (ss_calendar s) (if isExpired then now else us_ExpiresAt x) days)
               in if newExpiresAt \<le> now then ret (Inl ErrAdjustWouldExpire) else adjust_to s x newExpiresAt)
       }
   }"

section \<open>Reading\<close>

definition GetActiveSubscription :: "SubscriptionService \<Rightarrow> int \<Rightarrow> int \<Rightarrow> subscription outcome sub" where
  "GetActiveSubscription s u g = do {
     hit \<leftarrow> peek (\<lambda>d. if ss_cache s then s_cache d (subCacheKey u g) else None);
     case hit of
       Some x \<Rightarrow> ret (Inr x)
     | None \<Rightarrow> do {
         c \<leftarrow> subscription_GetActiveByUserIDAndGroupID (ss_numeric s) u g;
         case c of
           Inl e \<Rightarrow> ret (Inl e)
         | Inr x \<Rightarrow> do {
             _ \<leftarrow> (if ss_cache s then memory (\<lambda>d. d\<lparr>s_cache := (s_cache d)(subCacheKey u g \<mapsto> x)\<rparr>) else ret ());
             ret (Inr x)
           }
       }
   }"

text \<open>Windows that are over are shown empty, without a change of the database.\<close>

definition normalizeExpiredWindows :: "calendar \<Rightarrow> int \<Rightarrow> subscription \<Rightarrow> subscription" where
  "normalizeExpiredWindows cal now x =
     (let x = (if NeedsDailyResetAt cal now x then x\<lparr>us_DailyWindowStart := None, us_DailyUsageUSD := Finite 0\<rparr> else x);
          x = (if NeedsWeeklyReset now x then x\<lparr>us_WeeklyWindowStart := None, us_WeeklyUsageUSD := Finite 0\<rparr> else x)
      in if NeedsMonthlyReset now x then x\<lparr>us_MonthlyWindowStart := None, us_MonthlyUsageUSD := Finite 0\<rparr> else x)"

definition normalizeSubscriptionStatus :: "int \<Rightarrow> subscription \<Rightarrow> subscription" where
  "normalizeSubscriptionStatus now x =
     (if us_Status x = SubscriptionStatusActive \<and> us_ExpiresAt x \<le> now then x\<lparr>us_Status := SubscriptionStatusExpired\<rparr> else x)"

definition ListUserSubscriptions :: "SubscriptionService \<Rightarrow> int \<Rightarrow> subscription list outcome sub" where
  "ListUserSubscriptions s u = do {
     c \<leftarrow> subscription_ListByUserID (ss_numeric s) u;
     now \<leftarrow> sub_Now;
     ret (case c of
       Inl e \<Rightarrow> Inl e
     | Inr xs \<Rightarrow> Inr (map (\<lambda>x. normalizeSubscriptionStatus now (normalizeExpiredWindows (ss_calendar s) now x)) xs))
   }"

definition ListActiveUserSubscriptions :: "SubscriptionService \<Rightarrow> int \<Rightarrow> subscription list outcome sub" where
  "ListActiveUserSubscriptions s u = do {
     c \<leftarrow> subscription_ListActiveByUserID (ss_numeric s) u;
     now \<leftarrow> sub_Now;
     ret (case c of Inl e \<Rightarrow> Inl e | Inr xs \<Rightarrow> Inr (map (normalizeExpiredWindows (ss_calendar s) now) xs))
   }"

section \<open>Windows\<close>

definition CheckAndActivateWindow :: "SubscriptionService \<Rightarrow> subscription \<Rightarrow> unit outcome sub" where
  "CheckAndActivateWindow s x =
     (if IsWindowActivated x then ret (Inr ())
      else do { now \<leftarrow> sub_Now; subscription_ActivateWindows (us_ID x) (startOfDay (ss_calendar s) now) })"

definition reset_if :: "bool \<Rightarrow> unit outcome sub \<Rightarrow> unit outcome sub" where
  "reset_if b c = (if b then c else ret (Inr ()))"

definition AdminResetQuota :: "SubscriptionService \<Rightarrow> int \<Rightarrow> bool \<Rightarrow> bool \<Rightarrow> bool \<Rightarrow> subscription outcome sub" where
  "AdminResetQuota s i resetDaily resetWeekly resetMonthly =
     (if \<not> resetDaily \<and> \<not> resetWeekly \<and> \<not> resetMonthly then ret (Inl ErrInvalidInput)
      else do {
        c \<leftarrow> subscription_GetByID (ss_numeric s) i;
        case c of
          Inl e \<Rightarrow> ret (Inl e)
        | Inr x \<Rightarrow> do {
            now \<leftarrow> sub_Now;
            let windowStart = startOfDay (ss_calendar s) now;
            then_do (reset_if resetDaily (subscription_ResetDailyUsage (us_ID x) windowStart))
              (then_do (reset_if resetWeekly (subscription_ResetWeeklyUsage (us_ID x) windowStart))
                (then_do (reset_if resetMonthly (subscription_ResetMonthlyUsage (us_ID x) windowStart)) (do {
                  _ \<leftarrow> InvalidateSubCache s (us_UserID x) (us_GroupID x);
                  subscription_GetByID (ss_numeric s) i
                })))
          }
      })"

definition CheckAndResetWindows :: "SubscriptionService \<Rightarrow> subscription \<Rightarrow> unit outcome sub" where
  "CheckAndResetWindows s x = do {
     now \<leftarrow> sub_Now;
     let windowStart = startOfDay (ss_calendar s) now;
     let daily = NeedsDailyResetAt (ss_calendar s) now x;
     let weekly = NeedsWeeklyReset now x;
     let monthly = NeedsMonthlyReset now x;
     then_do (reset_if daily (subscription_ResetDailyUsage (us_ID x) windowStart))
       (then_do (reset_if weekly (subscription_ResetWeeklyUsage (us_ID x) windowStart))
         (then_do (reset_if monthly (subscription_ResetMonthlyUsage (us_ID x) windowStart)) (do {
           _ \<leftarrow> (if daily \<or> weekly \<or> monthly then InvalidateSubCache s (us_UserID x) (us_GroupID x) else ret ());
           ret (Inr ())
         })))
   }"

definition doWindowMaintenance :: "SubscriptionService \<Rightarrow> subscription \<Rightarrow> unit sub" where
  "doWindowMaintenance s x = do {
     _ \<leftarrow> (if \<not> IsWindowActivated x then CheckAndActivateWindow s x else ret (Inr ()));
     _ \<leftarrow> CheckAndResetWindows s x;
     InvalidateSubCache s (us_UserID x) (us_GroupID x)
   }"

section \<open>Limits\<close>

definition CheckUsageLimits :: "subscription \<Rightarrow> Group \<Rightarrow> float64 \<Rightarrow> unit outcome" where
  "CheckUsageLimits x g cost =
     (if \<not> CheckDailyLimit x g cost then Inl ErrDailyLimitExceeded
      else if \<not> CheckWeeklyLimit x g cost then Inl ErrWeeklyLimitExceeded
      else if \<not> CheckMonthlyLimit x g cost then Inl ErrMonthlyLimitExceeded
      else Inr ())"

text \<open>The subscription with the usage of windows that are over set to zero, and whether something is to be done.\<close>

definition refreshed :: "calendar \<Rightarrow> int \<Rightarrow> subscription \<Rightarrow> subscription \<times> bool" where
  "refreshed cal now x =
     (let daily = NeedsDailyResetAt cal now x; weekly = NeedsWeeklyReset now x; monthly = NeedsMonthlyReset now x;
          x = (if daily then x\<lparr>us_DailyUsageUSD := Finite 0\<rparr> else x);
          x = (if weekly then x\<lparr>us_WeeklyUsageUSD := Finite 0\<rparr> else x);
          x = (if monthly then x\<lparr>us_MonthlyUsageUSD := Finite 0\<rparr> else x)
      in (x, daily \<or> weekly \<or> monthly \<or> \<not> IsWindowActivated x))"

text \<open>The changed subscription is returned with the answer.\<close>

definition ValidateAndCheckLimits ::
    "calendar \<Rightarrow> int \<Rightarrow> subscription \<Rightarrow> Group \<Rightarrow> subscription \<times> bool \<times> unit outcome" where
  "ValidateAndCheckLimits cal now x g =
     (if us_Status x = SubscriptionStatusExpired then (x, False, Inl ErrSubscriptionExpired)
      else if us_Status x = SubscriptionStatusSuspended then (x, False, Inl ErrSubscriptionSuspended)
      else if IsExpired now x then (x, False, Inl ErrSubscriptionExpired)
      else (case refreshed cal now x of (x, needsMaintenance) \<Rightarrow> (x, needsMaintenance, CheckUsageLimits x g (Finite 0))))"

definition ValidateSubscription :: "subscription \<Rightarrow> unit outcome sub" where
  "ValidateSubscription x =
     (if us_Status x = SubscriptionStatusExpired then ret (Inl ErrSubscriptionExpired)
      else if us_Status x = SubscriptionStatusSuspended then ret (Inl ErrSubscriptionSuspended)
      else do {
        now \<leftarrow> sub_Now;
        if IsExpired now x then do {
          _ \<leftarrow> subscription_UpdateStatus (us_ID x) SubscriptionStatusExpired;
          ret (Inl ErrSubscriptionExpired)
        }
        else ret (Inr ())
      })"

definition RecordUsage :: "SubscriptionService \<Rightarrow> int \<Rightarrow> float64 \<Rightarrow> unit outcome sub" where
  "RecordUsage s i cost = subscription_IncrementUsage (ss_numeric s) i cost"

section \<open>Progress\<close>

record UsageWindowProgress =
  wp_LimitUSD :: float64
  wp_UsedUSD :: float64
  wp_RemainingUSD :: float64
  wp_Percentage :: float64
  wp_WindowStart :: int
  wp_ResetsAt :: int
  wp_ResetsInSeconds :: int

record SubscriptionProgress =
  sg_ID :: int
  sg_GroupName :: go_string
  sg_ExpiresAt :: int
  sg_ExpiresInDays :: int
  sg_Daily :: "UsageWindowProgress option"
  sg_Weekly :: "UsageWindowProgress option"
  sg_Monthly :: "UsageWindowProgress option"

definition window_progress :: "int \<Rightarrow> float64 option \<Rightarrow> float64 \<Rightarrow> int option \<Rightarrow> int option \<Rightarrow> UsageWindowProgress option" where
  "window_progress now limit used windowStart resets =
     (case (has_limit limit, limit, windowStart, resets) of
        (True, Some l, Some start, Some resetsAt) \<Rightarrow>
          (let remaining = f_sub l used; percentage = f_times (f_div used l) 100;
               seconds = f_trunc (duration_in (10 ^ 9) (Until now resetsAt))
           in Some \<lparr>wp_LimitUSD = l, wp_UsedUSD = used,
                wp_RemainingUSD = (if f_less remaining (Finite 0) then Finite 0 else remaining),
                wp_Percentage = (if f_less (Finite 100) percentage then Finite 100 else percentage),
                wp_WindowStart = start, wp_ResetsAt = resetsAt,
                wp_ResetsInSeconds = (if seconds < 0 then 0 else seconds)\<rparr>)
      | _ \<Rightarrow> None)"

definition calculateProgress :: "calendar \<Rightarrow> int \<Rightarrow> subscription \<Rightarrow> Group \<Rightarrow> SubscriptionProgress" where
  "calculateProgress cal now x g =
     \<lparr>sg_ID = us_ID x, sg_GroupName = g_Name g, sg_ExpiresAt = us_ExpiresAt x, sg_ExpiresInDays = DaysRemaining now x,
      sg_Daily = window_progress now (g_DailyLimitUSD g) (us_DailyUsageUSD x) (us_DailyWindowStart x) (DailyResetTime cal x),
      sg_Weekly = window_progress now (g_WeeklyLimitUSD g) (us_WeeklyUsageUSD x) (us_WeeklyWindowStart x) (WeeklyResetTime x),
      sg_Monthly =
        window_progress now (g_MonthlyLimitUSD g) (us_MonthlyUsageUSD x) (us_MonthlyWindowStart x) (MonthlyResetTime x)\<rparr>"

text \<open>The group is loaded with the subscription.\<close>

definition group_of :: "subscription \<Rightarrow> sub_db \<Rightarrow> Group option" where
  "group_of x d = find (\<lambda>g. g_ID g = us_GroupID x) (s_groups d)"

definition GetSubscriptionProgress :: "SubscriptionService \<Rightarrow> int \<Rightarrow> SubscriptionProgress outcome sub" where
  "GetSubscriptionProgress s i = do {
     c \<leftarrow> subscription_GetByID (ss_numeric s) i;
     case c of
       Inl _ \<Rightarrow> ret (Inl ErrSubscriptionNotFound)
     | Inr x \<Rightarrow> do {
         loaded \<leftarrow> peek (group_of x);
         g \<leftarrow> (case loaded of Some g \<Rightarrow> ret (Inr g) | None \<Rightarrow> group_GetByID (us_GroupID x));
         now \<leftarrow> sub_Now;
         ret (case g of Inl e \<Rightarrow> Inl e | Inr g \<Rightarrow> Inr (calculateProgress (ss_calendar s) now x g))
       }
   }"

definition GetUserSubscriptionsWithProgress :: "SubscriptionService \<Rightarrow> int \<Rightarrow> SubscriptionProgress list outcome sub" where
  "GetUserSubscriptionsWithProgress s u = do {
     c \<leftarrow> subscription_ListActiveByUserID (ss_numeric s) u;
     groups \<leftarrow> peek (\<lambda>d x. group_of x d);
     now \<leftarrow> sub_Now;
     ret (case c of
       Inl e \<Rightarrow> Inl e
     | Inr xs \<Rightarrow> Inr (List.map_filter (\<lambda>x. map_option (calculateProgress (ss_calendar s) now x) (groups x)) xs))
   }"

end
