(* ===== verification/SubscriptionStep.thy ===== *)
theory SubscriptionStep
  imports Subscription
begin

text \<open>
  What every process keeps of the table of subscriptions: identifiers are not used twice and stay with
  their user and group, there is one subscription for a user and a group, and no term goes past the end of
  2099. \<open>Interference.shared_store\<close> is interpreted on it, and each operation of the service keeps to it.
\<close>

section \<open>The table\<close>

definition table_ok :: "sub_db \<Rightarrow> bool" where
  "table_ok d \<longleftrightarrow>
     distinct (map us_ID (s_rows d)) \<and> distinct (map (\<lambda>r. (us_UserID r, us_GroupID r)) (s_rows d))
     \<and> (\<forall>r\<in>set (s_rows d). us_ID r \<le> s_seq d \<and> us_ExpiresAt r \<le> MaxExpiresAt)"

lemma filter_one:
  assumes "distinct (map f l)" "x \<in> set l"
  shows "filter (\<lambda>y. f y = f x) l = [x]"
  using assms by (induction l) (auto simp: filter_empty_conv, metis imageI)

lemma only_id:
  assumes "table_ok d" "r \<in> set (s_rows d)"
  shows "filter (\<lambda>x. us_ID x = us_ID r) (s_rows d) = [r]"
  using filter_one [of us_ID "s_rows d" r] assms by (simp add: table_ok_def)

lemma same_row:
  "table_ok d \<Longrightarrow> x \<in> set (s_rows d) \<Longrightarrow> y \<in> set (s_rows d) \<Longrightarrow> us_ID x = us_ID y \<Longrightarrow> x = y"
  by (auto simp: table_ok_def distinct_map dest: inj_onD)

lemma same_holder:
  "table_ok d \<Longrightarrow> x \<in> set (s_rows d) \<Longrightarrow> y \<in> set (s_rows d) \<Longrightarrow> us_UserID x = us_UserID y \<Longrightarrow> us_GroupID x = us_GroupID y
    \<Longrightarrow> x = y"
  by (auto simp: table_ok_def distinct_map dest: inj_onD)

definition same_owner :: "'u UserSubscription \<Rightarrow> 'v UserSubscription \<Rightarrow> bool" where
  "same_owner r q \<longleftrightarrow> us_ID r = us_ID q \<and> us_UserID r = us_UserID q \<and> us_GroupID r = us_GroupID q"

lemma same_owner_refl [simp]: "same_owner r r"
  by (simp add: same_owner_def)

lemma own_row: "q \<in> S \<Longrightarrow> \<exists>r\<in>S. same_owner r q"
  using same_owner_refl by blast

section \<open>A step\<close>

definition sub_step :: "sub_db \<Rightarrow> unit list \<Rightarrow> sub_db \<Rightarrow> bool" where
  "sub_step d ms d' \<longleftrightarrow>
     s_seq d \<le> s_seq d' \<and> (table_ok d \<longrightarrow> table_ok d')
     \<and> (\<forall>q\<in>set (s_rows d'). s_seq d < us_ID q \<or> (\<exists>r\<in>set (s_rows d). same_owner r q))"

interpretation subs: shared_store sub_step table_ok
  by unfold_locales (simp add: sub_step_def)

lemma sub_step_trans: "sub_step d ms d' \<Longrightarrow> sub_step d' ns d'' \<Longrightarrow> sub_step d [] d''"
  by (force simp: sub_step_def same_owner_def)

lemma reach_sub_step: "subs.reach d d' \<Longrightarrow> sub_step d [] d'"
  unfolding subs.reach_def
proof (elim exE)
  fix ms assume "run_of sub_step d ms d'"
  then show "sub_step d [] d'"
  proof (induction rule: run_of.induct)
    case (stay d)
    show ?case unfolding sub_step_def using same_owner_refl by blast
  next
    case (move d ms d' ns d'')
    then show ?case using sub_step_trans by blast
  qed
qed

text \<open>The ways a statement changes the table.\<close>

lemma sub_step_other: "s_rows d' = s_rows d \<Longrightarrow> s_seq d \<le> s_seq d' \<Longrightarrow> sub_step d [] d'"
  by (force simp: sub_step_def table_ok_def same_owner_def)

lemma sub_step_rows:
  assumes "\<And>x. x \<in> set (s_rows d) \<Longrightarrow> p x \<Longrightarrow> same_owner x (f x) \<and> (us_ExpiresAt (f x) = us_ExpiresAt x \<or> us_ExpiresAt (f x) \<le> MaxExpiresAt)"
  shows "sub_step d [] (set_rows p f d)"
proof -
  let ?g = "\<lambda>r. if p r then (f r)\<lparr>us_UpdatedAt := s_clock d\<rparr> else r"
  have g: "same_owner x (?g x)" "us_ExpiresAt (?g x) = us_ExpiresAt x \<or> us_ExpiresAt (?g x) \<le> MaxExpiresAt"
    if "x \<in> set (s_rows d)" for x using assms [OF that] by (auto simp: same_owner_def)
  have rows: "s_rows (set_rows p f d) = map ?g (s_rows d)" "s_seq (set_rows p f d) = s_seq d" by (simp_all add: set_rows_def)
  have "map us_ID (map ?g (s_rows d)) = map us_ID (s_rows d)"
    "map (\<lambda>r. (us_UserID r, us_GroupID r)) (map ?g (s_rows d)) = map (\<lambda>r. (us_UserID r, us_GroupID r)) (s_rows d)"
    using g(1) by (auto simp: same_owner_def)
  moreover have "us_ID (?g x) \<le> s_seq d \<and> us_ExpiresAt (?g x) \<le> MaxExpiresAt"
    if "x \<in> set (s_rows d)" "us_ID x \<le> s_seq d" "us_ExpiresAt x \<le> MaxExpiresAt" for x
    using g [OF that(1)] that(2,3) unfolding same_owner_def by force
  ultimately have "table_ok d \<longrightarrow> table_ok (set_rows p f d)"
    unfolding table_ok_def rows by (simp only: set_map) blast
  moreover have "\<exists>r\<in>set (s_rows d). same_owner r q" if "q \<in> set (map ?g (s_rows d))" for q
    using that g(1) unfolding set_map by blast
  ultimately show ?thesis unfolding sub_step_def rows by blast
qed

lemma sub_step_filter: "sub_step d [] (d\<lparr>s_rows := filter p (s_rows d), s_gone := gone\<rparr>)"
proof -
  have "table_ok d \<longrightarrow> table_ok (d\<lparr>s_rows := filter p (s_rows d), s_gone := gone\<rparr>)"
    by (simp add: table_ok_def distinct_map_filter)
  then show ?thesis unfolding sub_step_def by (auto dest: own_row)
qed

lemma sub_step_add:
  assumes "\<not> list_ex (belongs (us_UserID r) (us_GroupID r)) (s_rows d)" "us_ID r = s_seq d + 1" "us_ExpiresAt r \<le> MaxExpiresAt"
  shows "sub_step d [] (d\<lparr>s_seq := s_seq d + 1, s_rows := s_rows d @ [r]\<rparr>)"
proof -
  have "us_ID x \<noteq> s_seq d + 1" if "table_ok d" "x \<in> set (s_rows d)" for x using that by (force simp: table_ok_def)
  moreover have "(us_UserID x, us_GroupID x) \<noteq> (us_UserID r, us_GroupID r)" if "x \<in> set (s_rows d)" for x
    using that assms(1) by (auto simp: list_ex_iff belongs_def)
  ultimately have "table_ok d \<longrightarrow> table_ok (d\<lparr>s_seq := s_seq d + 1, s_rows := s_rows d @ [r]\<rparr>)"
    using assms by (fastforce simp: table_ok_def)
  then show ?thesis using assms(2) unfolding sub_step_def by (auto dest: own_row)
qed

section \<open>What is known of a subscription that was read\<close>

definition sub_known :: "'u UserSubscription \<Rightarrow> sub_db \<Rightarrow> bool" where
  "sub_known x d \<longleftrightarrow> us_ID x \<le> s_seq d \<and> (\<forall>q\<in>set (s_rows d). us_ID q = us_ID x \<longrightarrow> same_owner x q)"

lemma keeps_sub_known [simp]: "subs.keeps (sub_known x)"
  unfolding subs.keeps_def sub_known_def sub_step_def same_owner_def by (metis order.trans leD)

lemma sub_known_row:
  assumes "table_ok d" "r \<in> set (s_rows d)" "same_owner r x"
  shows "sub_known x d"
proof -
  have "same_owner x q" if "q \<in> set (s_rows d)" "us_ID q = us_ID x" for q
    using same_row [OF assms(1) that(1) assms(2)] that(2) assms(3) by (simp add: same_owner_def)
  moreover have "us_ID x \<le> s_seq d" using assms by (auto simp: table_ok_def same_owner_def)
  ultimately show ?thesis by (simp add: sub_known_def)
qed

lemma sub_known_Only:
  assumes "table_ok d" "sub_Only num p d = Inr x"
  shows "sub_known x d"
proof -
  obtain r where r: "filter p (s_rows d) = [r]" "x = userSubscriptionEntityToService num r"
    using assms(2) by (auto simp: sub_Only_def split: list.splits)
  then have "r \<in> set (filter p (s_rows d))" by simp
  then show ?thesis
    using r(2) by (intro sub_known_row [OF assms(1), of r]) (simp_all add: same_owner_def userSubscriptionEntityToService_def)
qed

lemma sub_step_written:
  assumes "sub_known x d" "us_ExpiresAt x \<le> MaxExpiresAt"
  shows "sub_step d [] (set_rows (\<lambda>r. us_ID r = us_ID x) (written num x) d)"
  using assms by (intro sub_step_rows) (auto simp: sub_known_def same_owner_def written_def)

section \<open>Commands that keep to it\<close>

text \<open>\<open>sub_safe P c\<close>: the command keeps to the steps and \<open>P\<close>, with others and faults around.\<close>

definition sub_safe :: "(sub_db \<Rightarrow> bool) \<Rightarrow> 'a sub \<Rightarrow> bool" where
  "sub_safe P c \<longleftrightarrow> subs.rg P c (\<lambda>_. P)"

definition learns :: "(sub_db \<Rightarrow> bool) \<Rightarrow> subscription outcome sub \<Rightarrow> bool" where
  "learns P c \<longleftrightarrow> subs.rg P c (\<lambda>x d. case x of Inl _ \<Rightarrow> P d | Inr s \<Rightarrow> P d \<and> sub_known s d)"

named_theorems sub_safe_intros

lemma learns_safe: "learns P c \<Longrightarrow> sub_safe P c"
  unfolding sub_safe_def learns_def by (erule subs.rg_conseq) (auto split: sum.splits)

lemma sub_safe_ret [sub_safe_intros]: "sub_safe P (ret x)"
  unfolding sub_safe_def by (rule subs.rg_ret) simp

lemma sub_safe_peek [sub_safe_intros]: "sub_safe P (peek f)"
  unfolding sub_safe_def by (rule subs.rg_peek) simp

lemma sub_safe_now [sub_safe_intros]: "sub_safe P sub_Now"
  by (simp add: sub_Now_def sub_safe_peek)

lemma sub_safe_bind [sub_safe_intros]: "sub_safe P c \<Longrightarrow> (\<And>x. sub_safe P (k x)) \<Longrightarrow> sub_safe P (State_Monad.bind c k)"
  unfolding sub_safe_def by (rule subs.rg_bind)

lemma sub_safe_if [sub_safe_intros]: "(b \<Longrightarrow> sub_safe P x) \<Longrightarrow> (\<not> b \<Longrightarrow> sub_safe P y) \<Longrightarrow> sub_safe P (if b then x else y)"
  by simp

lemma sub_safe_sum [sub_safe_intros]:
  "(\<And>e. sub_safe P (f e)) \<Longrightarrow> (\<And>y. sub_safe P (g y)) \<Longrightarrow> sub_safe P (case x of Inl e \<Rightarrow> f e | Inr y \<Rightarrow> g y)"
  by (cases x) auto

lemma sub_safe_option [sub_safe_intros]:
  "sub_safe P f \<Longrightarrow> (\<And>y. sub_safe P (g y)) \<Longrightarrow> sub_safe P (case x of None \<Rightarrow> f | Some y \<Rightarrow> g y)"
  by (cases x) auto

lemma sub_safe_learnt:
  assumes "learns P c" "\<And>e. sub_safe P (f e)" "\<And>s. sub_safe (\<lambda>d. P d \<and> sub_known s d) (g s)"
  shows "sub_safe P (do { x \<leftarrow> c; case x of Inl e \<Rightarrow> f e | Inr s \<Rightarrow> g s })"
  unfolding sub_safe_def
proof (rule subs.rg_bind_sum)
  show "subs.rg P c (\<lambda>x d. case x of Inl e \<Rightarrow> P d | Inr s \<Rightarrow> P d \<and> sub_known s d)" using assms(1) by (simp add: learns_def)
  show "subs.rg P (f e) (\<lambda>_. P)" for e using assms(2) by (simp add: sub_safe_def)
  show "subs.rg (\<lambda>d. P d \<and> sub_known s d) (g s) (\<lambda>_. P)" for s
    using assms(3) [of s] unfolding sub_safe_def by (rule subs.rg_conseq) auto
qed

lemma sub_safe_stmt:
  assumes "subs.keeps P" "\<And>d. table_ok d \<Longrightarrow> P d \<Longrightarrow> sub_step d [] (snd (f d))"
  shows "sub_safe P (stmt e f)"
proof -
  have "P (snd (f d))" if "table_ok d" "P d" for d using that assms unfolding subs.keeps_def by blast
  then show ?thesis unfolding sub_safe_def using assms by (intro subs.rg_stmt) (auto intro: subs.reach_step)
qed

lemma learns_Only:
  assumes "subs.keeps P"
  shows "learns P (stmt e (\<lambda>d. (sub_Only num (p d) d, d)))"
  unfolding learns_def using assms sub_known_Only by (intro subs.rg_stmt) (auto split: sum.splits)

lemma sub_safe_memory:
  assumes P: "subs.keeps P" and f: "\<And>d. s_rows (f d) = s_rows d \<and> s_seq (f d) = s_seq d"
  shows "sub_safe P (memory f)"
proof -
  have step: "sub_step d [] (f d)" for d using f [of d] by (intro sub_step_other) auto
  then have "P (f d)" if "table_ok d" "P d" for d using that P unfolding subs.keeps_def by blast
  with step show ?thesis unfolding sub_safe_def subs.rg_def memory_def by (auto intro: subs.reach_step)
qed

text \<open>A transaction whose body is sub_safe.\<close>

lemma sub_safe_transaction:
  assumes P: "subs.keeps P" and body: "sub_safe P body"
  shows "sub_safe P (transaction sub_rollback b c body)"
  unfolding sub_safe_def
proof (rule subs.rg_transaction [OF P])
  fix m x m'
  assume h: "table_ok (db m)" "P (db m)" "calm m" "run_state body m = (x, m')"
  have "subs.polite (sched m)" using h(3) by (auto simp: calm_def list_all_iff subs.polite_def)
  then have r: "subs.reach (db m) (db m')" "P (db m')" using body h unfolding sub_safe_def subs.rg_def by blast+
  have "s_seq (db m) \<le> s_seq (db m')" using reach_sub_step [OF r(1)] by (simp add: sub_step_def)
  then have "sub_step (db m) [] (sub_rollback (db m) (db m'))" by (intro sub_step_other) (simp_all add: sub_rollback_def)
  then show "subs.reach (db m) (sub_rollback (db m) (db m')) \<and> (\<forall>y. x = Inr y \<longrightarrow> subs.reach (db m) (db m') \<and> P (db m'))"
    using r subs.reach_step by blast
qed (use P in auto)

section \<open>The statements\<close>

lemma sub_safe_reads [sub_safe_intros]:
  assumes "subs.keeps P"
  shows "sub_safe P (group_GetByID i)" "sub_safe P (subscription_GetByID num i)"
    "sub_safe P (subscription_GetByUserIDAndGroupID num u g)" "sub_safe P (subscription_GetActiveByUserIDAndGroupID num u g)"
    "sub_safe P (subscription_ExistsByUserIDAndGroupID u g)" "sub_safe P (subscription_ListByUserID num u)"
    "sub_safe P (subscription_ListActiveByUserID num u)"
proof -
  have still: "sub_step d [] d" for d by (rule sub_step_other) simp_all
  show "sub_safe P (group_GetByID i)" "sub_safe P (subscription_GetByID num i)"
    "sub_safe P (subscription_GetByUserIDAndGroupID num u g)" "sub_safe P (subscription_GetActiveByUserIDAndGroupID num u g)"
    "sub_safe P (subscription_ExistsByUserIDAndGroupID u g)" "sub_safe P (subscription_ListByUserID num u)"
    "sub_safe P (subscription_ListActiveByUserID num u)"
    by (auto simp: group_GetByID_def subscription_GetByID_def subscription_GetByUserIDAndGroupID_def
        subscription_GetActiveByUserIDAndGroupID_def subscription_ExistsByUserIDAndGroupID_def subscription_ListByUserID_def
        subscription_ListActiveByUserID_def intro!: sub_safe_stmt assms still)
qed

lemma learns_reads:
  assumes "subs.keeps P"
  shows "learns P (subscription_GetByID num i)" "learns P (subscription_GetByUserIDAndGroupID num u g)"
  unfolding subscription_GetByID_def subscription_GetByUserIDAndGroupID_def by (rule learns_Only [OF assms])+

lemma sub_safe_update_one:
  assumes "subs.keeps P" "\<And>x. same_owner x (f x)" "\<And>x. us_ExpiresAt (f x) = us_ExpiresAt x \<or> us_ExpiresAt (f x) \<le> MaxExpiresAt"
  shows "sub_safe P (update_one i f)"
proof -
  have "sub_step d [] (set_rows (\<lambda>r. us_ID r = i) f d)" for d using assms(2,3) by (intro sub_step_rows) auto
  moreover have "sub_step d [] d" for d by (rule sub_step_other) simp_all
  ultimately show ?thesis unfolding update_one_def by (intro sub_safe_stmt assms(1)) auto
qed

lemma sub_safe_writes [sub_safe_intros]:
  assumes "subs.keeps P"
  shows "sub_safe P (subscription_UpdateStatus i st)" "sub_safe P (subscription_UpdateNotes i n)"
    "sub_safe P (subscription_ActivateWindows i t)" "sub_safe P (subscription_ResetDailyUsage i t)"
    "sub_safe P (subscription_ResetWeeklyUsage i t)" "sub_safe P (subscription_ResetMonthlyUsage i t)"
  unfolding subscription_UpdateStatus_def subscription_UpdateNotes_def subscription_ActivateWindows_def
    subscription_ResetDailyUsage_def subscription_ResetWeeklyUsage_def subscription_ResetMonthlyUsage_def
  by (rule sub_safe_update_one [OF assms]; simp add: same_owner_def)+

lemma sub_safe_expiry:
  "subs.keeps P \<Longrightarrow> t \<le> MaxExpiresAt \<Longrightarrow> sub_safe P (subscription_ExtendExpiry i t)"
  unfolding subscription_ExtendExpiry_def by (rule sub_safe_update_one) (simp_all add: same_owner_def)

lemma sub_safe_sets [sub_safe_intros]:
  assumes "subs.keeps P"
  shows "sub_safe P (subscription_IncrementUsage num i cost)" "sub_safe P subscription_BatchUpdateExpiredStatus"
proof -
  have still: "sub_step d [] d" for d by (rule sub_step_other) simp_all
  have "sub_step d [] (set_rows p (add_usage k) d)" "sub_step d [] (set_rows p (us_Status_update (\<lambda>_. st)) d)" for d p k st
    by (rule sub_step_rows; simp add: add_usage_def same_owner_def)+
  with still show "sub_safe P (subscription_IncrementUsage num i cost)" "sub_safe P subscription_BatchUpdateExpiredStatus"
    unfolding subscription_IncrementUsage_def subscription_BatchUpdateExpiredStatus_def Let_def
    by (auto intro!: sub_safe_stmt assms)
qed

lemma sub_safe_deletes [sub_safe_intros]:
  assumes "subs.keeps P"
  shows "sub_safe P (subscription_Delete i)" "sub_safe P (subscription_DeleteByGroupID g)"
  unfolding subscription_Delete_def subscription_DeleteByGroupID_def
  by (auto intro!: sub_safe_stmt assms sub_step_filter)

lemma sub_safe_Create:
  assumes "subs.keeps P" "us_ExpiresAt x \<le> MaxExpiresAt"
  shows "sub_safe P (subscription_Create num x)"
  unfolding subscription_Create_def Let_def
proof (rule sub_safe_stmt [OF assms(1)], goal_cases)
  case (1 d)
  show ?case
  proof (cases "list_ex (belongs (us_UserID x) (us_GroupID x)) (s_rows d)")
    case True
    then show ?thesis by simp (rule sub_step_other; simp)
  next
    case False
    then show ?thesis using assms(2) by (auto intro!: sub_step_add)
  qed
qed

lemma sub_safe_Update:
  assumes "subs.keeps P" "us_ExpiresAt x \<le> MaxExpiresAt"
  shows "sub_safe (\<lambda>d. P d \<and> sub_known x d) (subscription_Update num x)"
proof -
  have "sub_step d [] d" for d by (rule sub_step_other) simp_all
  then show ?thesis
    unfolding subscription_Update_def using assms sub_step_written [of x _ num]
    by (intro sub_safe_stmt) (auto intro: subs.keeps_conj)
qed

end
