(* ===== verification/SubscriptionCalls.thy ===== *)
theory SubscriptionCalls
  imports SubscriptionStep
begin

text \<open>
  Every operation of the subscription service keeps to the steps of \<open>SubscriptionStep\<close>, and so does any
  sequence of calls.
\<close>

lemma sub_safe_invalidate [sub_safe_intros]: "subs.keeps P \<Longrightarrow> sub_safe P (InvalidateSubCache s u g)"
  unfolding InvalidateSubCache_def by (auto intro!: sub_safe_intros sub_safe_memory)

lemma sub_safe_then [sub_safe_intros]: "sub_safe P a \<Longrightarrow> sub_safe P b \<Longrightarrow> sub_safe P (then_do a b)"
  unfolding then_do_def by (intro sub_safe_intros)

lemma sub_safe_reset [sub_safe_intros]: "sub_safe P c \<Longrightarrow> sub_safe P (reset_if b c)"
  unfolding reset_if_def by (intro sub_safe_intros)

lemma sub_safe_pair [sub_safe_intros]: "(\<And>x y. sub_safe P (f x y)) \<Longrightarrow> sub_safe P (case p of (x, y) \<Rightarrow> f x y)"
  by (cases p) auto

lemma sub_safe_tx: "subs.keeps P \<Longrightarrow> sub_safe P body \<Longrightarrow> sub_safe P (withSubscriptionUpdateTx s body)"
  unfolding withSubscriptionUpdateTx_def by (intro sub_safe_if sub_safe_transaction)

lemma capped_le [simp]: "capped t \<le> MaxExpiresAt"
  by (simp add: capped_def)

lemma sub_safe_conj: "sub_safe P c \<Longrightarrow> subs.keeps R \<Longrightarrow> sub_safe (\<lambda>d. P d \<and> R d) c"
  unfolding sub_safe_def by (rule subs.rg_frame)

section \<open>Assignment\<close>

lemma sub_safe_extend_term:
  "subs.keeps P \<Longrightarrow> e \<le> MaxExpiresAt \<Longrightarrow> sub_safe P (extend_term x notes e)"
  unfolding extend_term_def by (intro sub_safe_intros sub_safe_expiry)

lemma sub_safe_renew:
  assumes "subs.keeps P" "e \<le> MaxExpiresAt"
  shows "sub_safe (\<lambda>d. P d \<and> sub_known x d) (subscription_Update num (renewedSubscriptionTerm cal x notes t e))"
proof -
  have "sub_known (renewedSubscriptionTerm cal x notes t e) = sub_known x" "us_ExpiresAt (renewedSubscriptionTerm cal x notes t e) = e"
    by (simp_all add: renewedSubscriptionTerm_def Let_def sub_known_def same_owner_def fun_eq_iff)
  then show ?thesis using sub_safe_Update [of P "renewedSubscriptionTerm cal x notes t e"] assms by simp
qed

lemma sub_safe_term:
  assumes "subs.keeps P" "e \<le> MaxExpiresAt"
  shows "sub_safe (\<lambda>d. P d \<and> sub_known x d) (updateExistingSubscriptionTerm s x notes t e b)"
  unfolding updateExistingSubscriptionTerm_def using assms
  by (intro sub_safe_tx sub_safe_if sub_safe_bind sub_safe_renew sub_safe_ret sub_safe_extend_term subs.keeps_conj keeps_sub_known)

lemma sub_safe_extend_existing:
  assumes "subs.keeps P"
  shows "sub_safe (\<lambda>d. P d \<and> sub_known x d) (extend_existing s input x)"
  unfolding extend_existing_def Let_def using subs.keeps_conj [OF assms keeps_sub_known [of x]]
  by (intro sub_safe_bind sub_safe_now sub_safe_sum sub_safe_ret sub_safe_term sub_safe_invalidate sub_safe_reads assms) simp

lemma sub_safe_createSubscription [sub_safe_intros]:
  "subs.keeps P \<Longrightarrow> sub_safe P (createSubscription s input)"
  unfolding createSubscription_def Let_def by (intro sub_safe_intros sub_safe_Create) simp_all

lemma sub_safe_create_new [sub_safe_intros]: "subs.keeps P \<Longrightarrow> sub_safe P (create_new s input)"
  unfolding create_new_def by (intro sub_safe_intros)

lemma sub_safe_in_group [sub_safe_intros]: "subs.keeps P \<Longrightarrow> sub_safe P c \<Longrightarrow> sub_safe P (in_group i c)"
  unfolding in_group_def by (intro sub_safe_intros)

lemma sub_safe_AssignOrExtend [sub_safe_intros]:
  "subs.keeps P \<Longrightarrow> sub_safe P (AssignOrExtendSubscription s input)"
  unfolding AssignOrExtendSubscription_def
  by (intro sub_safe_in_group sub_safe_learnt learns_reads sub_safe_create_new sub_safe_extend_existing)

lemma sub_safe_bool [sub_safe_intros]:
  "sub_safe P a \<Longrightarrow> sub_safe P b \<Longrightarrow> sub_safe P (case y of True \<Rightarrow> a | False \<Rightarrow> b)"
  by (cases y) auto

lemma sub_safe_reuse [sub_safe_intros]: "subs.keeps P \<Longrightarrow> sub_safe P (assignSubscriptionWithReuse s input)"
  unfolding assignSubscriptionWithReuse_def by (intro sub_safe_intros)

lemma sub_safe_bulk: "subs.keeps P \<Longrightarrow> sub_safe P (bulk_each s input us r)"
  by (induction us arbitrary: r) (auto intro!: sub_safe_intros)

section \<open>The other operations\<close>

lemma sub_safe_adjust:
  "subs.keeps P \<Longrightarrow> t \<le> MaxExpiresAt \<Longrightarrow> sub_safe P (adjust_to s x t)"
  unfolding adjust_to_def by (intro sub_safe_intros sub_safe_expiry)

lemma sub_safe_operations:
  assumes "subs.keeps P"
  shows "sub_safe P (AssignSubscription s input)" "sub_safe P (BulkAssignSubscription s us input)"
    "sub_safe P (RevokeSubscription s i)" "sub_safe P (ExtendSubscription s i n)" "sub_safe P (GetActiveSubscription s u g)"
    "sub_safe P (AdminResetQuota s i b1 b2 b3)" "sub_safe P (CheckAndActivateWindow s x)" "sub_safe P (CheckAndResetWindows s x)"
    "sub_safe P (RecordUsage s i cost)" "sub_safe P (ValidateSubscription x)"
proof -
  show "sub_safe P (AssignSubscription s input)" unfolding AssignSubscription_def by (intro sub_safe_intros assms)
  show "sub_safe P (BulkAssignSubscription s us input)"
    unfolding BulkAssignSubscription_def by (intro sub_safe_intros sub_safe_bulk assms)
  show "sub_safe P (RevokeSubscription s i)" unfolding RevokeSubscription_def by (intro sub_safe_intros assms)
  show "sub_safe P (ExtendSubscription s i n)"
    unfolding ExtendSubscription_def Let_def by (intro sub_safe_intros sub_safe_adjust assms capped_le)
  show "sub_safe P (GetActiveSubscription s u g)"
    unfolding GetActiveSubscription_def by (intro sub_safe_intros sub_safe_memory assms) simp_all
  show "sub_safe P (AdminResetQuota s i b1 b2 b3)" unfolding AdminResetQuota_def Let_def by (intro sub_safe_intros assms)
  show "sub_safe P (CheckAndActivateWindow s x)" unfolding CheckAndActivateWindow_def by (intro sub_safe_intros assms)
  show "sub_safe P (CheckAndResetWindows s x)" unfolding CheckAndResetWindows_def Let_def by (intro sub_safe_intros assms)
  show "sub_safe P (RecordUsage s i cost)" unfolding RecordUsage_def by (intro sub_safe_intros assms)
  show "sub_safe P (ValidateSubscription x)" unfolding ValidateSubscription_def by (intro sub_safe_intros assms)
qed

lemma sub_safe_maintenance: "subs.keeps P \<Longrightarrow> sub_safe P (doWindowMaintenance s x)"
  unfolding doWindowMaintenance_def by (intro sub_safe_intros sub_safe_operations)

lemma sub_safe_progress:
  "subs.keeps P \<Longrightarrow> sub_safe P (GetSubscriptionProgress s i)"
  "subs.keeps P \<Longrightarrow> sub_safe P (GetUserSubscriptionsWithProgress s u)"
  unfolding GetSubscriptionProgress_def GetUserSubscriptionsWithProgress_def by (intro sub_safe_intros; assumption)+

section \<open>Calls\<close>

datatype sub_call =
    SAssign AssignSubscriptionInput
  | SAssignOrExtend AssignSubscriptionInput
  | SBulkAssign "int list" AssignSubscriptionInput
  | SRevoke int
  | SExtend int int
  | SGetActive int int
  | SResetQuota int bool bool bool
  | SMaintain subscription
  | SRecordUsage int float64
  | SValidate subscription
  | SProgress int
  | SExpireDue
  | SDropGroup int

text \<open>The answer is the caller's business; what counts here is the store.\<close>

definition done_with :: "'a sub \<Rightarrow> unit sub" where
  "done_with c = do { _ \<leftarrow> c; ret () }"

fun sub_serve :: "SubscriptionService \<Rightarrow> sub_call \<Rightarrow> unit sub" where
  "sub_serve s (SAssign input) = done_with (AssignSubscription s input)"
| "sub_serve s (SAssignOrExtend input) = done_with (AssignOrExtendSubscription s input)"
| "sub_serve s (SBulkAssign us input) = done_with (BulkAssignSubscription s us input)"
| "sub_serve s (SRevoke i) = done_with (RevokeSubscription s i)"
| "sub_serve s (SExtend i n) = done_with (ExtendSubscription s i n)"
| "sub_serve s (SGetActive u g) = done_with (GetActiveSubscription s u g)"
| "sub_serve s (SResetQuota i b1 b2 b3) = done_with (AdminResetQuota s i b1 b2 b3)"
| "sub_serve s (SMaintain x) = doWindowMaintenance s x"
| "sub_serve s (SRecordUsage i cost) = done_with (RecordUsage s i cost)"
| "sub_serve s (SValidate x) = done_with (ValidateSubscription x)"
| "sub_serve s (SProgress i) = done_with (GetSubscriptionProgress s i)"
| "sub_serve s SExpireDue = done_with subscription_BatchUpdateExpiredStatus"
| "sub_serve s (SDropGroup g) = done_with (subscription_DeleteByGroupID g)"

primrec sub_serve_all :: "SubscriptionService \<Rightarrow> sub_call list \<Rightarrow> unit sub" where
  "sub_serve_all s [] = ret ()"
| "sub_serve_all s (c # cs) = do { _ \<leftarrow> sub_serve s c; sub_serve_all s cs }"

lemma sub_safe_done [sub_safe_intros]: "sub_safe P c \<Longrightarrow> sub_safe P (done_with c)"
  unfolding done_with_def by (intro sub_safe_intros)

lemma sub_safe_serve [sub_safe_intros]: "subs.keeps P \<Longrightarrow> sub_safe P (sub_serve s c)"
  by (cases c) (auto intro!: sub_safe_intros sub_safe_operations sub_safe_maintenance sub_safe_progress)

lemma sub_safe_serve_all: "subs.keeps P \<Longrightarrow> sub_safe P (sub_serve_all s cs)"
  by (induction cs) (auto intro!: sub_safe_intros)

lemma sub_history:
  assumes "table_ok (db m)" "subs.polite (sched m)" "run_state (sub_serve_all s cs) m = (r, m')"
  shows "subs.reach (db m) (db m')"
  using sub_safe_serve_all [OF subs.keeps_True(1)] assms unfolding sub_safe_def subs.rg_def by blast

end
