(* ===== verification/SubscriptionClaims.thy ===== *)
theory SubscriptionClaims
  imports PayDemo SubscriptionCalls
begin

text \<open>
  Properties of subscriptions: what assigning or extending one does, which usage the limits are about, and
  two races that lose what was paid for or what was used.
\<close>

section \<open>Quiet runs\<close>

lemma quiet_sub_Now [quiet]: "run_state sub_Now (alone d) = (s_clock d, alone d)"
  by (simp add: sub_Now_def quiet_peek)

lemma quiet_memory [quiet]: "run_state (memory f) (alone d) = ((), alone (f d))"
  by (simp add: memory_def)

text \<open>The table is as it was, whatever the cache belongs.\<close>

definition same_table :: "sub_db \<Rightarrow> sub_db \<Rightarrow> bool" where
  "same_table d d' \<longleftrightarrow> (\<exists>c. d' = d\<lparr>s_cache := c\<rparr>)"

lemma quiet_InvalidateSubCache:
  "\<exists>c. run_state (InvalidateSubCache s u g) (alone d) = ((), alone (d\<lparr>s_cache := c\<rparr>))"
  by (auto simp: InvalidateSubCache_def quiet intro: exI [of _ "s_cache d"])

lemma only_holder:
  assumes "table_ok d" "r \<in> set (s_rows d)" "belongs u g r"
  shows "filter (belongs u g) (s_rows d) = [r]"
proof -
  have "filter (\<lambda>x. (us_UserID x, us_GroupID x) = (us_UserID r, us_GroupID r)) (s_rows d) = [r]"
    using filter_one [of "\<lambda>x. (us_UserID x, us_GroupID x)" "s_rows d" r] assms by (simp add: table_ok_def)
  then show ?thesis using assms(3) by (simp add: belongs_def cong: filter_cong)
qed

lemma sub_Only_id:
  assumes "table_ok d" "r \<in> set (s_rows d)"
  shows "sub_Only num (\<lambda>x. us_ID x = us_ID r) d = Inr (userSubscriptionEntityToService num r)"
  using only_id [OF assms] by (simp add: sub_Only_def)

lemma sub_Only_holder:
  assumes "table_ok d" "r \<in> set (s_rows d)" "belongs u g r"
  shows "sub_Only num (belongs u g) d = Inr (userSubscriptionEntityToService num r)"
  using only_holder [OF assms] by (simp add: sub_Only_def)

lemma quiet_queries [quiet]:
  "run_state (group_GetByID i) (alone d) =
     (case find (\<lambda>g. g_ID g = i) (s_groups d) of None \<Rightarrow> Inl ErrGroupNotFound | Some g \<Rightarrow> Inr g, alone d)"
  "run_state (subscription_GetByID num i) (alone d) = (sub_Only num (\<lambda>r. us_ID r = i) d, alone d)"
  "run_state (subscription_GetByUserIDAndGroupID num u g) (alone d) = (sub_Only num (belongs u g) d, alone d)"
  "run_state (subscription_ExistsByUserIDAndGroupID u g) (alone d) = (Inr (list_ex (belongs u g) (s_rows d)), alone d)"
  by (simp_all add: group_GetByID_def subscription_GetByID_def subscription_GetByUserIDAndGroupID_def
      subscription_ExistsByUserIDAndGroupID_def quiet_stmt)

lemma quiet_update_one [quiet]:
  "run_state (update_one i f) (alone d) =
     (if list_ex (\<lambda>r. us_ID r = i) (s_rows d) then (Inr (), alone (set_rows (\<lambda>r. us_ID r = i) f d))
      else (if i \<in> set (s_gone d) then Inr () else Inl ErrSubscriptionNotFound, alone d))"
  by (simp add: update_one_def quiet_stmt)

lemma present: "r \<in> set (s_rows d) \<Longrightarrow> list_ex (\<lambda>x. us_ID x = us_ID r) (s_rows d)"
  by (auto simp: list_ex_iff)

text \<open>An update of one row.\<close>

definition put :: "sub_row \<Rightarrow> sub_db \<Rightarrow> sub_db" where
  "put r d = d\<lparr>s_rows := map (\<lambda>x. if us_ID x = us_ID r then r else x) (s_rows d)\<rparr>"

lemma set_rows_put:
  assumes "table_ok d" "r \<in> set (s_rows d)" "\<And>x. us_ID (f x) = us_ID x"
  shows "set_rows (\<lambda>x. us_ID x = us_ID r) f d = put ((f r)\<lparr>us_UpdatedAt := s_clock d\<rparr>) d"
proof -
  have "x = r" if "x \<in> set (s_rows d)" "us_ID x = us_ID r" for x
    using that assms(1,2) by (auto simp: table_ok_def distinct_map dest: inj_onD)
  then have "map (\<lambda>x. if us_ID x = us_ID r then (f x)\<lparr>us_UpdatedAt := s_clock d\<rparr> else x) (s_rows d) =
      map (\<lambda>x. if us_ID x = us_ID r then (f r)\<lparr>us_UpdatedAt := s_clock d\<rparr> else x) (s_rows d)" by auto
  then show ?thesis using assms(3) by (simp add: set_rows_def put_def)
qed

lemma put_put:
  "us_ID r = us_ID q \<Longrightarrow> put r (put q d) = put r d"
  by (auto simp: put_def)

lemma put_in:
  assumes "q \<in> set (s_rows d)" "us_ID r = us_ID q"
  shows "r \<in> set (s_rows (put r d))"
  using assms by (force simp: put_def)

lemma put_ok:
  assumes "table_ok d" "q \<in> set (s_rows d)" "us_ID r = us_ID q" "us_UserID r = us_UserID q" "us_GroupID r = us_GroupID q"
    "us_ExpiresAt r \<le> MaxExpiresAt"
  shows "table_ok (put r d)"
proof -
  have same: "x = q" if "x \<in> set (s_rows d)" "us_ID x = us_ID q" for x
    using that assms(1,2) by (auto simp: table_ok_def distinct_map dest: inj_onD)
  have "map us_ID (s_rows (put r d)) = map us_ID (s_rows d)"
    "map (\<lambda>x. (us_UserID x, us_GroupID x)) (s_rows (put r d)) = map (\<lambda>x. (us_UserID x, us_GroupID x)) (s_rows d)"
    using same assms(3-5) by (auto simp: put_def)
  moreover have "us_ID x \<le> s_seq (put r d) \<and> us_ExpiresAt x \<le> MaxExpiresAt" if "x \<in> set (s_rows (put r d))" for x
    using that assms by (auto simp: put_def table_ok_def split: if_splits)
  ultimately show ?thesis using assms(1) by (simp add: table_ok_def)
qed

lemma put_frame [simp]:
  "s_clock (put r d) = s_clock d" "s_groups (put r d) = s_groups d" "s_seq (put r d) = s_seq d" "s_cache (put r d) = s_cache d"
  by (simp_all add: put_def)

lemma update_put:
  assumes "table_ok d" "r \<in> set (s_rows d)" "\<And>x. us_ID (f x) = us_ID x" "i = us_ID r"
  shows "run_state (update_one i f) (alone d) = (Inr (), alone (put ((f r)\<lparr>us_UpdatedAt := s_clock d\<rparr>) d))"
  using set_rows_put [of d r f, OF assms(1-3)] present [OF assms(2)] by (simp add: quiet_update_one assms(4))

section \<open>Assigning and extending\<close>

text \<open>
  A row whose term goes on, by a service that has seen \<open>x\<close>, and a row whose term begins again.
\<close>

definition prolonged :: "'u UserSubscription \<Rightarrow> go_string \<Rightarrow> int \<Rightarrow> int \<Rightarrow> sub_row \<Rightarrow> sub_row" where
  "prolonged x notes now e r =
     r\<lparr>us_ExpiresAt := e,
       us_Status := (if us_Status x \<noteq> SubscriptionStatusActive then SubscriptionStatusActive else us_Status r),
       us_Notes := (if notes = [] then us_Notes r else appendSubscriptionNotes (us_Notes x) notes), us_UpdatedAt := now\<rparr>"

definition renewed :: "numeric \<Rightarrow> calendar \<Rightarrow> go_string \<Rightarrow> int \<Rightarrow> int \<Rightarrow> sub_row \<Rightarrow> sub_row" where
  "renewed num cal notes now e r =
     r\<lparr>us_StartsAt := now, us_ExpiresAt := e, us_Status := SubscriptionStatusActive,
       us_DailyWindowStart := Some (startOfDay cal now), us_WeeklyWindowStart := Some (startOfDay cal now),
       us_MonthlyWindowStart := Some (startOfDay cal now), us_DailyUsageUSD := to_column num 10 (Finite 0),
       us_WeeklyUsageUSD := to_column num 10 (Finite 0), us_MonthlyUsageUSD := to_column num 10 (Finite 0),
       us_Notes := appendSubscriptionNotes (us_Notes r) notes, us_UpdatedAt := now\<rparr>"

lemma quiet_extend_term:
  assumes "table_ok d" "r \<in> set (s_rows d)" "e \<le> MaxExpiresAt" "us_ID x = us_ID r"
  shows "run_state (extend_term x notes e) (alone d) = (Inr (), alone (put (prolonged x notes (s_clock d) e r) d))"
proof -
  let ?t = "s_clock d" and ?st = "if us_Status x \<noteq> SubscriptionStatusActive then SubscriptionStatusActive else us_Status r"
  let ?r1 = "r\<lparr>us_ExpiresAt := e, us_UpdatedAt := ?t\<rparr>"
  let ?r2 = "r\<lparr>us_ExpiresAt := e, us_Status := ?st, us_UpdatedAt := ?t\<rparr>"
  have ok: "table_ok (put q d)" "q \<in> set (s_rows (put q d))" if "q \<in> {?r1, ?r2}" for q
    using that put_ok [OF assms(1,2), of q] put_in [OF assms(2), of q] assms(3) by auto
  have ok1: "table_ok (put ?r1 d)" "?r1 \<in> set (s_rows (put ?r1 d))" by (rule ok, simp)+
  have ok2: "table_ok (put ?r2 d)" "?r2 \<in> set (s_rows (put ?r2 d))" by (rule ok, simp)+
  have one: "run_state (subscription_ExtendExpiry (us_ID x) e) (alone d) = (Inr (), alone (put ?r1 d))"
    using update_put [OF assms(1,2), of "\<lambda>y. y\<lparr>us_ExpiresAt := e\<rparr>"] by (simp add: subscription_ExtendExpiry_def assms(4))
  have two: "run_state (if us_Status x \<noteq> SubscriptionStatusActive
      then subscription_UpdateStatus (us_ID x) SubscriptionStatusActive else ret (Inr ())) (alone (put ?r1 d)) = (Inr (), alone (put ?r2 d))"
  proof (cases "us_Status x = SubscriptionStatusActive")
    case True
    then have eq: "?r1 = ?r2" by (cases r) simp
    show ?thesis unfolding eq using True by simp
  next
    case False
    then show ?thesis
      using update_put [OF ok1, of "\<lambda>y. y\<lparr>us_Status := SubscriptionStatusActive\<rparr>" "us_ID r"]
      by (simp add: subscription_UpdateStatus_def assms(4) put_put)
  qed
  have three: "run_state (if notes = [] then ret (Inr ()) else do {
      c \<leftarrow> subscription_UpdateNotes (us_ID x) (appendSubscriptionNotes (us_Notes x) notes);
      ret (wrap ''update subscription notes: '' c) }) (alone (put ?r2 d)) = (Inr (), alone (put (prolonged x notes ?t e r) d))"
  proof (cases "notes = []")
    case True
    then show ?thesis by (simp add: prolonged_def)
  next
    case False
    then show ?thesis
      using update_put [OF ok2, of "\<lambda>y. y\<lparr>us_Notes := appendSubscriptionNotes (us_Notes x) notes\<rparr>" "us_ID r"]
      by (simp add: subscription_UpdateNotes_def assms(4) put_put wrap_def prolonged_def)
  qed
  show ?thesis
    unfolding extend_term_def by (simp only: run_state_bind one sum.case prod.case two three)
qed

lemma quiet_renew:
  assumes "table_ok d" "r \<in> set (s_rows d)"
  shows "run_state (subscription_Update num (renewedSubscriptionTerm cal (userSubscriptionEntityToService num r) notes (s_clock d) e)) (alone d) =
    (Inr (), alone (put (renewed num cal notes (s_clock d) e r) d))"
proof -
  let ?s = "renewedSubscriptionTerm cal (userSubscriptionEntityToService num r) notes (s_clock d) e"
  have id: "us_ID ?s = us_ID r" "us_UserID ?s = us_UserID r" "us_GroupID ?s = us_GroupID r"
    by (simp_all add: renewedSubscriptionTerm_def Let_def userSubscriptionEntityToService_def)
  have "x = r" if "x \<in> set (s_rows d)" "belongs (us_UserID r) (us_GroupID r) x" for x
    using that assms by (auto simp: table_ok_def belongs_def distinct_map dest: inj_onD)
  then have free: "\<not> list_ex (\<lambda>x. us_ID x \<noteq> us_ID r \<and> belongs (us_UserID r) (us_GroupID r) x) (s_rows d)"
    by (auto simp: list_ex_iff)
  have "(written num ?s r)\<lparr>us_UpdatedAt := s_clock d\<rparr> = renewed num cal notes (s_clock d) e r"
    by (cases r) (simp add: written_def renewedSubscriptionTerm_def Let_def userSubscriptionEntityToService_def renewed_def or_old_def
        split: option.split)
  moreover have "us_ID (written num ?s x) = us_ID x" for x by (simp add: written_def)
  ultimately have "set_rows (\<lambda>x. us_ID x = us_ID r) (written num ?s) d = put (renewed num cal notes (s_clock d) e r) d"
    using set_rows_put [OF assms, of "written num ?s"] by simp
  then show ?thesis
    using present [OF assms(2)] free by (simp add: subscription_Update_def quiet_stmt id)
qed

lemma quiet_tx:
  assumes "run_state body (alone d) = (Inr (), alone d')"
  shows "run_state (withSubscriptionUpdateTx s body) (alone d) = (Inr (), alone d')"
  using assms quiet_transaction [OF assms] by (simp add: withSubscriptionUpdateTx_def)

abbreviation view :: "SubscriptionService \<Rightarrow> sub_row \<Rightarrow> subscription" where
  "view s r \<equiv> userSubscriptionEntityToService (ss_numeric s) r"

lemma view_fields [simp]:
  "us_ID (view s r) = us_ID r" "us_UserID (view s r) = us_UserID r" "us_GroupID (view s r) = us_GroupID r"
  "us_StartsAt (view s r) = us_StartsAt r" "us_ExpiresAt (view s r) = us_ExpiresAt r" "us_Status (view s r) = us_Status r"
  "us_Notes (view s r) = us_Notes r" "us_DailyWindowStart (view s r) = us_DailyWindowStart r"
  "us_WeeklyWindowStart (view s r) = us_WeeklyWindowStart r" "us_MonthlyWindowStart (view s r) = us_MonthlyWindowStart r"
  by (simp_all add: userSubscriptionEntityToService_def)

lemma quiet_term:
  assumes "table_ok d" "r \<in> set (s_rows d)" "e \<le> MaxExpiresAt"
  shows "run_state (updateExistingSubscriptionTerm s (view s r) notes (s_clock d) e b) (alone d) =
    (Inr (), alone (put (if b then renewed (ss_numeric s) (ss_calendar s) notes (s_clock d) e r
      else prolonged (view s r) notes (s_clock d) e r) d))"
  unfolding updateExistingSubscriptionTerm_def
  using quiet_extend_term [OF assms, of "view s r"] quiet_renew [OF assms(1,2)]
  by (intro quiet_tx) (simp add: wrap_def)

definition new_term :: "SubscriptionService \<Rightarrow> AssignSubscriptionInput \<Rightarrow> int \<Rightarrow> int \<Rightarrow> int" where
  "new_term s input now old =
     capped (AddDays (ss_calendar s) (if old \<le> now then now else old) (normalizeAssignValidityDays (as_ValidityDays input)))"

definition next_term :: "SubscriptionService \<Rightarrow> AssignSubscriptionInput \<Rightarrow> int \<Rightarrow> sub_row \<Rightarrow> sub_row" where
  "next_term s input now r =
     (let e = new_term s input now (us_ExpiresAt r) in
      if us_ExpiresAt r \<le> now then renewed (ss_numeric s) (ss_calendar s) (as_Notes input) now e r
      else prolonged (view s r) (as_Notes input) now e r)"

lemma next_term_id [simp]:
  "us_ID (next_term s input now r) = us_ID r" "us_UserID (next_term s input now r) = us_UserID r"
  "us_GroupID (next_term s input now r) = us_GroupID r"
  "us_ExpiresAt (next_term s input now r) = new_term s input now (us_ExpiresAt r)"
  "us_Status (next_term s input now r) = SubscriptionStatusActive"
  by (simp_all add: next_term_def Let_def renewed_def prolonged_def)

lemma quiet_extend_existing:
  assumes "table_ok d" "r \<in> set (s_rows d)"
  shows "\<exists>c. run_state (extend_existing s input (view s r)) (alone d) =
    (Inr (view s (next_term s input (s_clock d) r), True),
     alone ((put (next_term s input (s_clock d) r) d)\<lparr>s_cache := c\<rparr>))"
proof -
  let ?x = "view s r" and ?t = "s_clock d" and ?q = "next_term s input (s_clock d) r"
  let ?e = "new_term s input ?t (us_ExpiresAt r)"
  have put: "run_state (updateExistingSubscriptionTerm s ?x (as_Notes input) ?t ?e (us_ExpiresAt r \<le> ?t)) (alone d) =
      (Inr (), alone (put ?q d))"
    using quiet_term [OF assms, of ?e s "as_Notes input" "us_ExpiresAt r \<le> ?t"]
    by (simp add: next_term_def Let_def new_term_def)
  obtain c where c: "run_state (InvalidateSubCache s (as_UserID input) (as_GroupID input)) (alone (put ?q d)) =
      ((), alone ((put ?q d)\<lparr>s_cache := c\<rparr>))" using quiet_InvalidateSubCache by blast
  have "table_ok (put ?q d)" "?q \<in> set (s_rows (put ?q d))"
    using put_ok [OF assms, of ?q] put_in [OF assms(2), of ?q] by (simp_all add: new_term_def)
  then have "sub_Only (ss_numeric s) (\<lambda>y. us_ID y = us_ID r) ((put ?q d)\<lparr>s_cache := c\<rparr>) =
      Inr (userSubscriptionEntityToService (ss_numeric s) ?q)"
    using sub_Only_id [of "(put ?q d)\<lparr>s_cache := c\<rparr>" ?q] by (simp add: table_ok_def)
  then show ?thesis
    unfolding extend_existing_def Let_def view_fields new_term_def [symmetric]
    using c by (simp add: quiet put) blast
qed

definition first_term :: "SubscriptionService \<Rightarrow> AssignSubscriptionInput \<Rightarrow> sub_db \<Rightarrow> sub_row" where
  "first_term s input d =
     \<lparr>us_ID = s_seq d + 1, us_UserID = as_UserID input, us_GroupID = as_GroupID input, us_StartsAt = s_clock d,
      us_ExpiresAt = new_term s input (s_clock d) (s_clock d), us_Status = SubscriptionStatusActive,
      us_DailyWindowStart = None, us_WeeklyWindowStart = None, us_MonthlyWindowStart = None,
      us_DailyUsageUSD = to_column (ss_numeric s) 10 (Finite 0), us_WeeklyUsageUSD = to_column (ss_numeric s) 10 (Finite 0),
      us_MonthlyUsageUSD = to_column (ss_numeric s) 10 (Finite 0),
      us_AssignedBy = (if 0 < as_AssignedBy input then Some (as_AssignedBy input) else None), us_AssignedAt = s_clock d,
      us_Notes = as_Notes input, us_CreatedAt = s_clock d, us_UpdatedAt = s_clock d\<rparr>"

definition with_sub :: "sub_row \<Rightarrow> sub_db \<Rightarrow> sub_db" where
  "with_sub r d = d\<lparr>s_seq := s_seq d + 1, s_rows := s_rows d @ [r]\<rparr>"

lemma with_sub_ok:
  assumes "table_ok d" "\<not> list_ex (belongs (us_UserID r) (us_GroupID r)) (s_rows d)" "us_ID r = s_seq d + 1" "us_ExpiresAt r \<le> MaxExpiresAt"
  shows "table_ok (with_sub r d)"
proof -
  have "us_ID x \<noteq> s_seq d + 1" if "x \<in> set (s_rows d)" for x using that assms(1) by (force simp: table_ok_def)
  moreover have "(us_UserID x, us_GroupID x) \<noteq> (us_UserID r, us_GroupID r)" if "x \<in> set (s_rows d)" for x
    using that assms(2) by (auto simp: list_ex_iff belongs_def)
  ultimately show ?thesis
    using assms by (fastforce simp: table_ok_def with_sub_def)
qed

lemma quiet_create_new:
  assumes "table_ok d" "\<not> list_ex (belongs (as_UserID input) (as_GroupID input)) (s_rows d)" "s_clock d \<noteq> zero_time"
  shows "\<exists>c. run_state (create_new s input) (alone d) =
    (Inr (view s (first_term s input d), False), alone ((with_sub (first_term s input d) d)\<lparr>s_cache := c\<rparr>))"
proof -
  let ?r = "first_term s input d"
  have ok: "table_ok (with_sub ?r d)"
    using assms by (intro with_sub_ok) (simp_all add: first_term_def new_term_def)
  have "?r \<in> set (s_rows (with_sub ?r d))" by (simp add: with_sub_def)
  from sub_Only_id [OF ok this] have again: "sub_Only (ss_numeric s) (\<lambda>x. us_ID x = s_seq d + 1) (with_sub ?r d) = Inr (view s ?r)"
    by (simp add: first_term_def)
  have made: "run_state (createSubscription s input) (alone d) = (Inr (view s ?r), alone (with_sub ?r d))"
    using assms(2,3) again
    by (simp add: createSubscription_def subscription_Create_def quiet Let_def with_sub_def first_term_def new_term_def
        SubscriptionStatusActive_def)
  obtain c where "run_state (InvalidateSubCache s (as_UserID input) (as_GroupID input)) (alone (with_sub ?r d)) =
      ((), alone ((with_sub ?r d)\<lparr>s_cache := c\<rparr>))" using quiet_InvalidateSubCache by blast
  then show ?thesis using made by (simp add: create_new_def) blast
qed

definition open_group :: "int \<Rightarrow> sub_db \<Rightarrow> bool" where
  "open_group i d \<longleftrightarrow> (\<exists>g. find (\<lambda>g. g_ID g = i) (s_groups d) = Some g \<and> IsSubscriptionType g)"

lemma quiet_in_group:
  "open_group i d \<Longrightarrow> run_state (in_group i k) (alone d) = run_state k (alone d)"
  by (auto simp: in_group_def quiet open_group_def)

lemma none_holds:
  assumes "\<not> list_ex (belongs u g) (s_rows d)"
  shows "sub_Only num (belongs u g) d = Inl ErrSubscriptionNotFound"
proof -
  have "filter (belongs u g) (s_rows d) = []" using assms by (auto simp: list_ex_iff filter_empty_conv)
  then show ?thesis by (simp add: sub_Only_def)
qed

lemma quiet_AssignOrExtend:
  assumes "table_ok d" "open_group (as_GroupID input) d" "s_clock d \<noteq> zero_time"
  shows "\<exists>c. run_state (AssignOrExtendSubscription s input) (alone d) =
    (Inr (case find (belongs (as_UserID input) (as_GroupID input)) (s_rows d) of
        None \<Rightarrow> (view s (first_term s input d), False) | Some r \<Rightarrow> (view s (next_term s input (s_clock d) r), True)),
     alone ((case find (belongs (as_UserID input) (as_GroupID input)) (s_rows d) of
        None \<Rightarrow> with_sub (first_term s input d) d | Some r \<Rightarrow> put (next_term s input (s_clock d) r) d)\<lparr>s_cache := c\<rparr>))"
proof (cases "find (belongs (as_UserID input) (as_GroupID input)) (s_rows d)")
  case None
  then have no: "\<not> list_ex (belongs (as_UserID input) (as_GroupID input)) (s_rows d)" by (auto simp: find_None_iff list_ex_iff)
  show ?thesis
    using quiet_create_new [OF assms(1) no assms(3), of s] None
    by (auto simp: AssignOrExtendSubscription_def quiet_in_group [OF assms(2)] quiet none_holds [OF no])
next
  case (Some r)
  then have r: "r \<in> set (s_rows d)" "belongs (as_UserID input) (as_GroupID input) r" by (auto simp: find_Some_iff)
  show ?thesis
    using quiet_extend_existing [OF assms(1) r(1), of s input] Some
    by (auto simp: AssignOrExtendSubscription_def quiet_in_group [OF assms(2)] quiet sub_Only_holder [OF assms(1) r])
qed

text \<open>
C18. Assigning or extending a subscription, with the database working and alone: a user without one for the
group gets a row of its own, active, from now for the days; a running one goes on for the days from its end,
its windows and usage as they are; one that is over begins again now, with all usage gone. No term goes past
the end of 2099, no other row changes, and the table stays well formed.
\<close>
theorem assign_or_extend:
  assumes "table_ok d" "open_group (as_GroupID input) d" "s_clock d \<noteq> zero_time"
  shows "\<exists>x b q d'. run_state (AssignOrExtendSubscription s input) (alone d) = (Inr (x, b), alone d') \<and> table_ok d'
    \<and> q \<in> set (s_rows d') \<and> belongs (as_UserID input) (as_GroupID input) q \<and> us_Status q = SubscriptionStatusActive
    \<and> x = userSubscriptionEntityToService (ss_numeric s) q
    \<and> (b \<longleftrightarrow> list_ex (belongs (as_UserID input) (as_GroupID input)) (s_rows d))
    \<and> (\<not> b \<longrightarrow> s_rows d' = s_rows d @ [q] \<and> us_StartsAt q = s_clock d
        \<and> us_ExpiresAt q = capped (AddDays (ss_calendar s) (s_clock d) (normalizeAssignValidityDays (as_ValidityDays input))))
    \<and> (\<forall>r\<in>set (s_rows d). \<not> belongs (as_UserID input) (as_GroupID input) r \<longrightarrow> r \<in> set (s_rows d'))
    \<and> (\<forall>r\<in>set (s_rows d). belongs (as_UserID input) (as_GroupID input) r \<longrightarrow> us_ID q = us_ID r
        \<and> us_ExpiresAt q = capped (AddDays (ss_calendar s) (if us_ExpiresAt r \<le> s_clock d then s_clock d else us_ExpiresAt r)
             (normalizeAssignValidityDays (as_ValidityDays input)))
        \<and> (s_clock d < us_ExpiresAt r \<longrightarrow> us_StartsAt q = us_StartsAt r \<and> us_DailyUsageUSD q = us_DailyUsageUSD r
             \<and> us_WeeklyUsageUSD q = us_WeeklyUsageUSD r \<and> us_MonthlyUsageUSD q = us_MonthlyUsageUSD r
             \<and> us_DailyWindowStart q = us_DailyWindowStart r)
        \<and> (us_ExpiresAt r \<le> s_clock d \<longrightarrow> us_StartsAt q = s_clock d
             \<and> us_DailyUsageUSD q = to_column (ss_numeric s) 10 (Finite 0)
             \<and> us_MonthlyUsageUSD q = to_column (ss_numeric s) 10 (Finite 0)))"
proof (cases "find (belongs (as_UserID input) (as_GroupID input)) (s_rows d)")
  case None
  then have no: "\<not> list_ex (belongs (as_UserID input) (as_GroupID input)) (s_rows d)" by (auto simp: find_None_iff list_ex_iff)
  let ?q = "first_term s input d"
  obtain c where run: "run_state (AssignOrExtendSubscription s input) (alone d) =
      (Inr (view s ?q, False), alone ((with_sub ?q d)\<lparr>s_cache := c\<rparr>))" using quiet_AssignOrExtend [OF assms, of s] None by auto
  have "table_ok (with_sub ?q d)"
    using no by (intro with_sub_ok [OF assms(1)]) (simp_all add: first_term_def new_term_def)
  then show ?thesis
    using run no
    by (intro exI [of _ "view s ?q"] exI [of _ False] exI [of _ ?q] exI [of _ "(with_sub ?q d)\<lparr>s_cache := c\<rparr>"])
      (auto simp: with_sub_def table_ok_def first_term_def belongs_def new_term_def list_ex_iff)
next
  case (Some r)
  then have r: "r \<in> set (s_rows d)" "belongs (as_UserID input) (as_GroupID input) r" by (auto simp: find_Some_iff)
  let ?q = "next_term s input (s_clock d) r"
  obtain c where run: "run_state (AssignOrExtendSubscription s input) (alone d) =
      (Inr (view s ?q, True), alone ((put ?q d)\<lparr>s_cache := c\<rparr>))" using quiet_AssignOrExtend [OF assms, of s] Some by auto
  have ok: "table_ok (put ?q d)" "?q \<in> set (s_rows (put ?q d))"
    using put_ok [OF assms(1) r(1), of ?q] put_in [OF r(1), of ?q] by (simp_all add: new_term_def)
  have mine: "x = r" if "x \<in> set (s_rows d)" "belongs (as_UserID input) (as_GroupID input) x" for x
    using only_holder [OF assms(1) that(1,2)] only_holder [OF assms(1) r] by simp
  have other: "x \<in> set (s_rows (put ?q d))" if x: "x \<in> set (s_rows d)" "\<not> belongs (as_UserID input) (as_GroupID input) x" for x
  proof -
    have "us_ID x \<noteq> us_ID r" using x r assms(1) by (auto simp: table_ok_def distinct_map dest: inj_onD)
    then show ?thesis using x(1) by (force simp: put_def)
  qed
  have "table_ok ((put ?q d)\<lparr>s_cache := c\<rparr>)" using ok(1) by (simp add: table_ok_def)
  moreover have "list_ex (belongs (as_UserID input) (as_GroupID input)) (s_rows d)" "belongs (as_UserID input) (as_GroupID input) ?q"
    using r by (auto simp: list_ex_iff) (simp add: belongs_def)
  moreover have "us_ExpiresAt ?q = capped (AddDays (ss_calendar s) (if us_ExpiresAt r \<le> s_clock d then s_clock d else us_ExpiresAt r)
      (normalizeAssignValidityDays (as_ValidityDays input)))" by (simp add: new_term_def)
  moreover have "s_clock d < us_ExpiresAt r \<longrightarrow> us_StartsAt ?q = us_StartsAt r \<and> us_DailyUsageUSD ?q = us_DailyUsageUSD r
      \<and> us_WeeklyUsageUSD ?q = us_WeeklyUsageUSD r \<and> us_MonthlyUsageUSD ?q = us_MonthlyUsageUSD r
      \<and> us_DailyWindowStart ?q = us_DailyWindowStart r" by (simp add: next_term_def Let_def prolonged_def)
  moreover have "us_ExpiresAt r \<le> s_clock d \<longrightarrow> us_StartsAt ?q = s_clock d
      \<and> us_DailyUsageUSD ?q = to_column (ss_numeric s) 10 (Finite 0)
      \<and> us_MonthlyUsageUSD ?q = to_column (ss_numeric s) 10 (Finite 0)" by (simp add: next_term_def Let_def renewed_def)
  moreover have "s_rows ((put ?q d)\<lparr>s_cache := c\<rparr>) = s_rows (put ?q d)" by simp
  ultimately show ?thesis
    using run ok(2) other mine next_term_id(1,5)
    by (intro exI [of _ "view s ?q"] exI [of _ True] exI [of _ ?q] exI [of _ "(put ?q d)\<lparr>s_cache := c\<rparr>"] conjI ballI impI)
      (blast+ | metis)+
qed

definition demo_calendar :: calendar where
  "demo_calendar = \<lparr>AddDays = (\<lambda>t n. t + n * hours 24), startOfDay = (\<lambda>t. t - t mod hours 24)\<rparr>"

definition demo_subs :: SubscriptionService where
  "demo_subs = \<lparr>ss_numeric = demo_numeric, ss_calendar = demo_calendar, ss_cache = True, ss_client = True\<rparr>"

definition demo_group :: Group where
  "demo_group =
     \<lparr>g_ID = 1, g_Name = ''pro'', g_SubscriptionType = SubscriptionTypeSubscription, g_DailyLimitUSD = Some (Finite 5),
      g_WeeklyLimitUSD = None, g_MonthlyLimitUSD = None\<rparr>"

definition demo_sub :: sub_row where
  "demo_sub =
     \<lparr>us_ID = 1, us_UserID = 7, us_GroupID = 1, us_StartsAt = 0, us_ExpiresAt = hours (24 * 30), us_Status = SubscriptionStatusActive,
      us_DailyWindowStart = Some 0, us_WeeklyWindowStart = Some 0, us_MonthlyWindowStart = Some 0, us_DailyUsageUSD = 4 * 10 ^ 10,
      us_WeeklyUsageUSD = 4 * 10 ^ 10, us_MonthlyUsageUSD = 4 * 10 ^ 10, us_AssignedBy = None, us_AssignedAt = 0, us_Notes = [],
      us_CreatedAt = 0, us_UpdatedAt = 0\<rparr>"

definition demo_sub_store :: sub_db where
  "demo_sub_store = \<lparr>s_rows = [demo_sub], s_seq = 1, s_groups = [demo_group], s_clock = hours 30, s_cache = (\<lambda>_. None), s_gone = []\<rparr>"

definition demo_days :: "int \<Rightarrow> AssignSubscriptionInput" where
  "demo_days n = \<lparr>as_UserID = 7, as_GroupID = 1, as_ValidityDays = n, as_AssignedBy = 0, as_Notes = ''code''\<rparr>"

lemma demo_sub_start:
  "table_ok demo_sub_store" "open_group 1 demo_sub_store" "s_clock demo_sub_store \<noteq> zero_time" "demo_sub \<in> set (s_rows demo_sub_store)"
  "belongs 7 1 demo_sub" "us_ExpiresAt demo_sub = hours 720" "s_clock demo_sub_store = hours 30"
  by (simp_all add: table_ok_def demo_sub_store_def demo_sub_def open_group_def demo_group_def IsSubscriptionType_def zero_time_def
      hours_def MaxExpiresAt_def belongs_def)

lemma demo_days_sel [simp]:
  "as_UserID (demo_days n) = 7" "as_GroupID (demo_days n) = 1" "as_ValidityDays (demo_days n) = n" "as_Notes (demo_days n) = ''code''"
  by (simp_all add: demo_days_def)

lemma demo_terms:
  "capped (AddDays (ss_calendar demo_subs) (hours 720) (normalizeAssignValidityDays 30)) = hours 1440"
  "capped (AddDays (ss_calendar demo_subs) (hours 720) (normalizeAssignValidityDays 365)) = hours 9480"
  "capped (AddDays (ss_calendar demo_subs) (hours 9480) (normalizeAssignValidityDays 30)) = hours 10200"
  by (simp_all add: demo_subs_def demo_calendar_def capped_def normalizeAssignValidityDays_def Let_def hours_def MaxExpiresAt_def
      MaxValidityDays_def)

theorem assign_or_extend_witness:
  "\<exists>x d' q. run_state (AssignOrExtendSubscription demo_subs (demo_days 30)) (alone demo_sub_store) = (Inr (x, True), alone d')
    \<and> q \<in> set (s_rows d') \<and> us_ID q = 1 \<and> us_ExpiresAt q = hours 1440 \<and> us_DailyUsageUSD q = 4 * 10 ^ 10"
proof -
  have "list_ex (belongs 7 1) (s_rows demo_sub_store)" "us_ID demo_sub = 1" "us_DailyUsageUSD demo_sub = 4 * 10 ^ 10" "hours 30 < hours 720"
    using demo_sub_start(4,5) by (auto simp: list_ex_iff) (simp_all add: demo_sub_def hours_def)
  then show ?thesis
    using assign_or_extend [of demo_sub_store "demo_days 30" demo_subs] demo_sub_start demo_terms(1) by fastforce
qed

section \<open>Two extensions at once\<close>

lemma run_others:
  "run_state (stmt e f) \<lparr>db = d, sched = (o', Works) # r\<rparr> = (fst (f (o' d)), \<lparr>db = snd (f (o' d)), sched = r\<rparr>)"
  by (simp add: stmt_def split: prod.splits)

lemma transaction_after:
  "run_state (transaction undo b c body) \<lparr>db = d, sched = [(o', Works)]\<rparr> = run_state (transaction undo b c body) (alone (o' d))"
  by (simp add: transaction_def run_others) (simp add: stmt_def)

lemma filter_find: "filter p l = [y] \<Longrightarrow> find p l = Some y"
  by (induction l) (auto split: if_splits)

lemma extended_row:
  assumes "table_ok d" "r \<in> set (s_rows d)" "belongs u g r" "us_ID q = us_ID r" "us_UserID q = us_UserID r" "us_GroupID q = us_GroupID r"
    "us_ExpiresAt q \<le> MaxExpiresAt"
  shows "table_ok ((put q d)\<lparr>s_cache := c\<rparr>)" "q \<in> set (s_rows ((put q d)\<lparr>s_cache := c\<rparr>))"
    "filter (belongs u g) (s_rows ((put q d)\<lparr>s_cache := c\<rparr>)) = [q]"
proof -
  have ok: "table_ok (put q d)" "q \<in> set (s_rows (put q d))" using put_ok [OF assms(1,2,4-7)] put_in [OF assms(2,4)] by auto
  have "belongs u g q" using assms(3,5,6) by (simp add: belongs_def)
  from only_holder [OF ok this] ok show "table_ok ((put q d)\<lparr>s_cache := c\<rparr>)" "q \<in> set (s_rows ((put q d)\<lparr>s_cache := c\<rparr>))"
    "filter (belongs u g) (s_rows ((put q d)\<lparr>s_cache := c\<rparr>)) = [q]"
    by (simp_all add: table_ok_def)
qed

text \<open>What another process does that runs a whole call.\<close>

definition meanwhile :: "SubscriptionService \<Rightarrow> AssignSubscriptionInput \<Rightarrow> sub_db \<Rightarrow> sub_db" where
  "meanwhile s input d = db (snd (run_state (AssignOrExtendSubscription s input) (alone d)))"

text \<open>
C33. A lost extension: the end of a term is read before the transaction that writes it, and written without a
condition. When another call extends the same subscription in between, both report success, but the
subscription ends as if only the second had been made, while one after the other adds up both. The order
of the writes decides, so the end of a term can even move back.
\<close>
theorem concurrent_extension_lost:
  assumes "table_ok d" "open_group g d" "s_clock d \<noteq> zero_time" "r \<in> set (s_rows d)" "belongs u g r" "s_clock d < us_ExpiresAt r"
    "ss_client s" "as_UserID a = u" "as_GroupID a = g" "as_UserID b = u" "as_GroupID b = g"
    "s_clock d < new_term s b (s_clock d) (us_ExpiresAt r)"
  shows "(\<exists>x d' q. run_state (AssignOrExtendSubscription s a)
        \<lparr>db = d, sched = [(id, Works), (id, Works), (meanwhile s b, Works)]\<rparr> = (Inr (x, True), alone d')
      \<and> fst (run_state (AssignOrExtendSubscription s b) (alone d)) \<in> range Inr
      \<and> filter (belongs u g) (s_rows d') = [q] \<and> us_ExpiresAt q = new_term s a (s_clock d) (us_ExpiresAt r))
    \<and> (\<exists>x d' q. run_state (AssignOrExtendSubscription s a) (alone (meanwhile s b d)) = (Inr (x, True), alone d')
      \<and> filter (belongs u g) (s_rows d') = [q]
      \<and> us_ExpiresAt q = new_term s a (s_clock d) (new_term s b (s_clock d) (us_ExpiresAt r)))"
proof -
  let ?t = "s_clock d" and ?E = "new_term s a (s_clock d) (us_ExpiresAt r)" and ?p = "next_term s b (s_clock d) r"
  note one = filter_find [OF only_holder [OF assms(1,4,5)]]
  obtain c where other: "run_state (AssignOrExtendSubscription s b) (alone d) = (Inr (view s ?p, True), alone ((put ?p d)\<lparr>s_cache := c\<rparr>))"
    using quiet_AssignOrExtend [of d b s] assms(1-3,10,11) one by auto
  let ?d1 = "(put ?p d)\<lparr>s_cache := c\<rparr>"
  have between: "meanwhile s b d = ?d1" by (simp add: meanwhile_def other)
  have p: "belongs u g ?p" using assms(5) by (simp add: belongs_def)
  have open1: "open_group g ?d1" using assms(2) by (simp add: open_group_def)
  have ok1: "table_ok ?d1" "?p \<in> set (s_rows ?d1)" "filter (belongs u g) (s_rows ?d1) = [?p]"
    using extended_row [OF assms(1,4,5), of ?p c] by (simp_all add: new_term_def)
  let ?q = "next_term s a ?t ?p"
  obtain c2 where second: "run_state (AssignOrExtendSubscription s a) (alone ?d1) = (Inr (view s ?q, True), alone ((put ?q ?d1)\<lparr>s_cache := c2\<rparr>))"
    using quiet_AssignOrExtend [OF ok1(1), of a s] assms(3,8,9) open1 filter_find [OF ok1(3)] by auto
  have row2: "filter (belongs u g) (s_rows ((put ?q ?d1)\<lparr>s_cache := c2\<rparr>)) = [?q]"
    using extended_row [OF ok1(1,2) p, of ?q c2] by (simp add: new_term_def)
  have sequential: "\<exists>x d' q. run_state (AssignOrExtendSubscription s a) (alone (meanwhile s b d)) = (Inr (x, True), alone d')
      \<and> filter (belongs u g) (s_rows d') = [q] \<and> us_ExpiresAt q = new_term s a ?t (new_term s b ?t (us_ExpiresAt r))"
    unfolding between using second row2 by (intro exI [of _ "view s ?q"] exI exI [of _ ?q]) auto
  let ?w = "prolonged (view s r) (as_Notes a) ?t ?E ?p"
  have w: "us_ID ?w = us_ID ?p" "us_UserID ?w = us_UserID ?p" "us_GroupID ?w = us_GroupID ?p" "us_ExpiresAt ?w = ?E" "?E \<le> MaxExpiresAt"
    by (simp_all add: prolonged_def) (simp add: new_term_def)
  have body: "run_state (extend_term (view s r) (as_Notes a) ?E) (alone ?d1) = (Inr (), alone (put ?w ?d1))"
    using quiet_extend_term [OF ok1(1,2) w(5), of "view s r" "as_Notes a"] by simp
  have stored: "run_state (updateExistingSubscriptionTerm s (view s r) (as_Notes a) ?t ?E False) \<lparr>db = d, sched = [(meanwhile s b, Works)]\<rparr> =
      (Inr (), alone (put ?w ?d1))"
    using quiet_transaction [OF body] assms(7)
    by (simp add: updateExistingSubscriptionTerm_def withSubscriptionUpdateTx_def transaction_after between)
  obtain c3 where c3: "run_state (InvalidateSubCache s u g) (alone (put ?w ?d1)) = ((), alone ((put ?w ?d1)\<lparr>s_cache := c3\<rparr>))"
    using quiet_InvalidateSubCache by blast
  note row3 = extended_row [OF ok1(1,2) p w(1-3), of c3, unfolded w(4), OF w(5)]
  have again: "sub_Only (ss_numeric s) (\<lambda>y. us_ID y = us_ID r) ((put ?w ?d1)\<lparr>s_cache := c3\<rparr>) = Inr (view s ?w)"
    using sub_Only_id [OF row3(1,2)] w(1) by simp
  have ext: "run_state (extend_existing s a (view s r)) \<lparr>db = d, sched = [(meanwhile s b, Works)]\<rparr> =
      (Inr (view s ?w, True), alone ((put ?w ?d1)\<lparr>s_cache := c3\<rparr>))"
    using stored c3 again assms(6,8,9)
    by (simp add: extend_existing_def Let_def new_term_def sub_Now_def peek_def quiet)
  obtain gr where gr: "find (\<lambda>g'. g_ID g' = g) (s_groups d) = Some gr" "IsSubscriptionType gr" using assms(2) by (auto simp: open_group_def)
  have "run_state (AssignOrExtendSubscription s a) \<lparr>db = d, sched = [(id, Works), (id, Works), (meanwhile s b, Works)]\<rparr> =
      (Inr (view s ?w, True), alone ((put ?w ?d1)\<lparr>s_cache := c3\<rparr>))"
    using gr ext assms(8,9) sub_Only_holder [OF assms(1,4,5)]
    by (simp add: AssignOrExtendSubscription_def in_group_def group_GetByID_def subscription_GetByUserIDAndGroupID_def run_others)
  moreover have "fst (run_state (AssignOrExtendSubscription s b) (alone d)) \<in> range Inr" by (simp add: other)
  ultimately have "\<exists>x d' q. run_state (AssignOrExtendSubscription s a)
        \<lparr>db = d, sched = [(id, Works), (id, Works), (meanwhile s b, Works)]\<rparr> = (Inr (x, True), alone d')
      \<and> fst (run_state (AssignOrExtendSubscription s b) (alone d)) \<in> range Inr
      \<and> filter (belongs u g) (s_rows d') = [q] \<and> us_ExpiresAt q = ?E"
    using row3(3) w(4) by blast
  then show ?thesis using sequential by (rule conjI)
qed

theorem concurrent_extension_lost_witness:
  "(\<exists>x d' q. run_state (AssignOrExtendSubscription demo_subs (demo_days 30))
        \<lparr>db = demo_sub_store, sched = [(id, Works), (id, Works), (meanwhile demo_subs (demo_days 365), Works)]\<rparr> = (Inr (x, True), alone d')
      \<and> filter (belongs 7 1) (s_rows d') = [q] \<and> us_ExpiresAt q = hours 1440)
    \<and> (\<exists>x d' q. run_state (AssignOrExtendSubscription demo_subs (demo_days 30)) (alone (meanwhile demo_subs (demo_days 365) demo_sub_store)) =
        (Inr (x, True), alone d')
      \<and> filter (belongs 7 1) (s_rows d') = [q] \<and> us_ExpiresAt q = hours 10200)"
proof -
  note start = demo_sub_start
  have terms: "new_term demo_subs (demo_days 30) (hours 30) (hours 720) = hours 1440"
    "new_term demo_subs (demo_days 365) (hours 30) (hours 720) = hours 9480"
    "new_term demo_subs (demo_days 30) (hours 30) (hours 9480) = hours 10200"
    "hours 30 < hours 720" "hours 30 < hours 9480" "ss_client demo_subs"
    using demo_terms by (simp_all add: new_term_def) (simp_all add: hours_def demo_subs_def)
  show ?thesis
    using concurrent_extension_lost [OF start(1-5), of demo_subs "demo_days 30" "demo_days 365"] start(6,7) terms by auto
qed

section \<open>Limits and windows\<close>

lemma limits_iff: "CheckUsageLimits x g c = Inr () \<longleftrightarrow> CheckAllLimits x g c = (True, True, True)"
  by (simp add: CheckUsageLimits_def CheckAllLimits_def)

lemma limits_usage:
  "us_DailyUsageUSD x = us_DailyUsageUSD y \<Longrightarrow> us_WeeklyUsageUSD x = us_WeeklyUsageUSD y \<Longrightarrow>
   us_MonthlyUsageUSD x = us_MonthlyUsageUSD y \<Longrightarrow> CheckAllLimits x g c = CheckAllLimits y g c"
  by (simp add: CheckAllLimits_def CheckDailyLimit_def CheckWeeklyLimit_def CheckMonthlyLimit_def)

lemma refreshed_asks:
  "snd (refreshed cal now x) \<longleftrightarrow>
     \<not> IsWindowActivated x \<or> NeedsDailyResetAt cal now x \<or> NeedsWeeklyReset now x \<or> NeedsMonthlyReset now x"
  by (auto simp: refreshed_def Let_def IsWindowActivated_def)

lemma refreshed_usage:
  "us_DailyUsageUSD (fst (refreshed cal now x)) = us_DailyUsageUSD (normalizeExpiredWindows cal now x)"
  "us_WeeklyUsageUSD (fst (refreshed cal now x)) = us_WeeklyUsageUSD (normalizeExpiredWindows cal now x)"
  "us_MonthlyUsageUSD (fst (refreshed cal now x)) = us_MonthlyUsageUSD (normalizeExpiredWindows cal now x)"
  by (simp_all add: refreshed_def normalizeExpiredWindows_def Let_def NeedsDailyResetAt_def NeedsWeeklyReset_def
      NeedsMonthlyReset_def HasOneTimeDailyQuota_def)

text \<open>
C19. A request is let through exactly when the subscription is neither expired, suspended nor past its end and
the usage the listing shows, with windows that are over counted as empty, is within every limit of the
group; the answer asks for maintenance exactly when some window is over or none is activated.
\<close>
theorem limits_decide:
  "(snd (snd (ValidateAndCheckLimits cal now x g)) = Inr () \<longleftrightarrow>
      us_Status x \<noteq> SubscriptionStatusExpired \<and> us_Status x \<noteq> SubscriptionStatusSuspended \<and> \<not> IsExpired now x
      \<and> CheckAllLimits (normalizeExpiredWindows cal now x) g (Finite 0) = (True, True, True))
   \<and> (fst (snd (ValidateAndCheckLimits cal now x g)) \<longleftrightarrow>
      us_Status x \<noteq> SubscriptionStatusExpired \<and> us_Status x \<noteq> SubscriptionStatusSuspended \<and> \<not> IsExpired now x
      \<and> \<not> (IsWindowActivated x \<and> \<not> NeedsDailyResetAt cal now x \<and> \<not> NeedsWeeklyReset now x
           \<and> \<not> NeedsMonthlyReset now x))"
  using limits_usage [OF refreshed_usage, of cal now x g "Finite 0"]
  by (simp add: ValidateAndCheckLimits_def limits_iff refreshed_asks case_prod_beta)

section \<open>Maintenance that comes late\<close>

lemma view_once [simp]: "HasOneTimeDailyQuota cal (view s r) = HasOneTimeDailyQuota cal r"
  by (simp add: HasOneTimeDailyQuota_def)

lemma view_windows [simp]:
  "NeedsDailyResetAt cal now (view s r) = NeedsDailyResetAt cal now r" "NeedsWeeklyReset now (view s r) = NeedsWeeklyReset now r"
  "NeedsMonthlyReset now (view s r) = NeedsMonthlyReset now r" "IsWindowActivated (view s r) = IsWindowActivated r"
  by (simp_all add: NeedsDailyResetAt_def NeedsWeeklyReset_def NeedsMonthlyReset_def IsWindowActivated_def
      split: option.split)

definition day_begun :: "calendar \<Rightarrow> int \<Rightarrow> sub_row \<Rightarrow> sub_row" where
  "day_begun cal now r = r\<lparr>us_DailyUsageUSD := 0, us_DailyWindowStart := Some (startOfDay cal now), us_UpdatedAt := now\<rparr>"

lemma quiet_maintenance:
  assumes "table_ok d" "q \<in> set (s_rows d)" "us_ID q = us_ID r" "NeedsDailyResetAt (ss_calendar s) (s_clock d) r"
    "\<not> NeedsWeeklyReset (s_clock d) r" "\<not> NeedsMonthlyReset (s_clock d) r"
  shows "\<exists>c. run_state (doWindowMaintenance s (view s r)) (alone d) =
    ((), alone ((put (day_begun (ss_calendar s) (s_clock d) q) d)\<lparr>s_cache := c\<rparr>))"
proof -
  let ?d = "put (day_begun (ss_calendar s) (s_clock d) q) d"
  have on: "IsWindowActivated r" using assms(4) by (auto simp: NeedsDailyResetAt_def IsWindowActivated_def)
  have reset: "run_state (subscription_ResetDailyUsage (us_ID r) (startOfDay (ss_calendar s) (s_clock d))) (alone d) = (Inr (), alone ?d)"
    using update_put [OF assms(1,2), of "\<lambda>y. y\<lparr>us_DailyUsageUSD := 0, us_DailyWindowStart := Some (startOfDay (ss_calendar s) (s_clock d))\<rparr>"]
    by (simp add: subscription_ResetDailyUsage_def assms(3) day_begun_def)
  obtain c1 where c1: "run_state (InvalidateSubCache s (us_UserID r) (us_GroupID r)) (alone ?d) = ((), alone (?d\<lparr>s_cache := c1\<rparr>))"
    using quiet_InvalidateSubCache by blast
  obtain c2 where c2: "run_state (InvalidateSubCache s (us_UserID r) (us_GroupID r)) (alone (?d\<lparr>s_cache := c1\<rparr>)) =
      ((), alone (?d\<lparr>s_cache := c1, s_cache := c2\<rparr>))"
    using quiet_InvalidateSubCache by blast
  have "run_state (CheckAndResetWindows s (view s r)) (alone d) = (Inr (), alone (?d\<lparr>s_cache := c1\<rparr>))"
    by (simp add: CheckAndResetWindows_def Let_def then_do_def reset_if_def quiet assms(4-6) reset c1)
  then show ?thesis
    using c2 by (simp add: doWindowMaintenance_def on) blast
qed

lemma quiet_usage:
  assumes "table_ok d" "q \<in> set (s_rows d)" "list_ex (\<lambda>g. g_ID g = us_GroupID q) (s_groups d)"
  shows "run_state (RecordUsage s (us_ID q) cost) (alone d) =
    (Inr (), alone (put ((add_usage (to_column (ss_numeric s) 10 cost) q)\<lparr>us_UpdatedAt := s_clock d\<rparr>) d))"
proof -
  let ?p = "\<lambda>x. us_ID x = us_ID q \<and> list_ex (\<lambda>g. g_ID g = us_GroupID x) (s_groups d)"
  let ?f = "add_usage (to_column (ss_numeric s) 10 cost)"
  have "?p x \<longleftrightarrow> us_ID x = us_ID q" if "x \<in> set (s_rows d)" for x
    using that assms by (auto simp: table_ok_def distinct_map dest: inj_onD)
  then have "set_rows ?p ?f d = set_rows (\<lambda>x. us_ID x = us_ID q) ?f d" by (auto simp: set_rows_def)
  moreover have "us_ID (?f x) = us_ID x" for x by (simp add: add_usage_def)
  ultimately have "set_rows ?p ?f d = put ((?f q)\<lparr>us_UpdatedAt := s_clock d\<rparr>) d"
    using set_rows_put [OF assms(1,2), of ?f] by simp
  moreover have "list_ex ?p (s_rows d)" using assms(2,3) by (auto simp: list_ex_iff)
  ultimately show ?thesis by (simp add: RecordUsage_def subscription_IncrementUsage_def quiet_stmt Let_def)
qed

text \<open>
C34. Maintenance is queued with the subscription as a request has seen it, and resets without asking whether the
window is still over. When two requests see the same old daily window and the cost of the first is recorded
before the second maintenance runs, that cost is gone from the daily usage, but not from the weekly one:
the daily limit can be passed. Without the second maintenance the cost would count.
\<close>
theorem stale_maintenance_erases_usage:
  assumes "table_ok d" "r \<in> set (s_rows d)" "list_ex (\<lambda>g. g_ID g = us_GroupID r) (s_groups d)"
    "NeedsDailyResetAt (ss_calendar s) (s_clock d) r" "\<not> NeedsWeeklyReset (s_clock d) r" "\<not> NeedsMonthlyReset (s_clock d) r"
    "x = userSubscriptionEntityToService (ss_numeric s) r"
  shows "\<exists>d1 d2 q1 q2.
      run_state (do { _ \<leftarrow> doWindowMaintenance s x; RecordUsage s (us_ID r) cost }) (alone d) = (Inr (), alone d1)
    \<and> run_state (doWindowMaintenance s x) (alone d1) = ((), alone d2)
    \<and> filter (\<lambda>y. us_ID y = us_ID r) (s_rows d1) = [q1] \<and> filter (\<lambda>y. us_ID y = us_ID r) (s_rows d2) = [q2]
    \<and> us_DailyUsageUSD q1 = to_column (ss_numeric s) 10 cost \<and> us_DailyUsageUSD q2 = 0
    \<and> us_WeeklyUsageUSD q2 = us_WeeklyUsageUSD r + to_column (ss_numeric s) 10 cost"
proof -
  let ?t = "s_clock d" and ?k = "to_column (ss_numeric s) 10 cost"
  let ?p = "day_begun (ss_calendar s) ?t r"
  let ?q1 = "(add_usage ?k ?p)\<lparr>us_UpdatedAt := ?t\<rparr>"
  let ?q2 = "day_begun (ss_calendar s) ?t ?q1"
  have keep: "us_ID ?p = us_ID r" "us_UserID ?p = us_UserID r" "us_GroupID ?p = us_GroupID r" "us_ExpiresAt ?p = us_ExpiresAt r"
    "us_ID ?q1 = us_ID r" "us_UserID ?q1 = us_UserID r" "us_GroupID ?q1 = us_GroupID r" "us_ExpiresAt ?q1 = us_ExpiresAt r"
    "us_ID ?q2 = us_ID r" "us_UserID ?q2 = us_UserID r" "us_GroupID ?q2 = us_GroupID r" "us_ExpiresAt ?q2 = us_ExpiresAt r"
    by (simp_all add: day_begun_def add_usage_def)
  have end_ok: "us_ExpiresAt r \<le> MaxExpiresAt" using assms(1,2) by (simp add: table_ok_def)
  have grow: "table_ok ((put b e)\<lparr>s_cache := c\<rparr>)" "b \<in> set (s_rows ((put b e)\<lparr>s_cache := c\<rparr>))"
    if "table_ok e" "a \<in> set (s_rows e)" "us_ID b = us_ID a" "us_UserID b = us_UserID a" "us_GroupID b = us_GroupID a"
      "us_ExpiresAt b \<le> MaxExpiresAt" for a b e c
    using extended_row(1,2) [of e a "us_UserID a" "us_GroupID a" b c] that by (simp_all add: belongs_def)
  obtain c where one: "run_state (doWindowMaintenance s (view s r)) (alone d) = ((), alone ((put ?p d)\<lparr>s_cache := c\<rparr>))"
    using quiet_maintenance [OF assms(1,2) refl assms(4-6)] by blast
  let ?d1 = "(put ?p d)\<lparr>s_cache := c\<rparr>"
  note ok1 = grow [OF assms(1,2) keep(1-3) end_ok [folded keep(4)], of c]
  let ?d2 = "put ?q1 ?d1"
  have two: "run_state (RecordUsage s (us_ID r) cost) (alone ?d1) = (Inr (), alone ?d2)"
    using quiet_usage [OF ok1, of s cost] assms(3) by (simp add: keep)
  have ok2: "table_ok ?d2" "?q1 \<in> set (s_rows ?d2)"
    using put_ok [OF ok1, of ?q1] put_in [OF ok1(2), of ?q1] end_ok by (simp_all add: keep)
  obtain c2 where three: "run_state (doWindowMaintenance s (view s r)) (alone ?d2) = ((), alone ((put ?q2 ?d2)\<lparr>s_cache := c2\<rparr>))"
    using quiet_maintenance [OF ok2 keep(5), of s] assms(4-6) by auto
  let ?d3 = "(put ?q2 ?d2)\<lparr>s_cache := c2\<rparr>"
  have ok3: "table_ok ?d3" "?q2 \<in> set (s_rows ?d3)" using grow [OF ok2, of ?q2 c2] end_ok by (simp_all add: keep)
  have rows: "filter (\<lambda>y. us_ID y = us_ID r) (s_rows ?d2) = [?q1]" "filter (\<lambda>y. us_ID y = us_ID r) (s_rows ?d3) = [?q2]"
    using only_id [OF ok2] only_id [OF ok3] by (simp_all only: keep)
  have first: "run_state (do { _ \<leftarrow> doWindowMaintenance s x; RecordUsage s (us_ID r) cost }) (alone d) = (Inr (), alone ?d2)"
    unfolding assms(7) by (simp only: run_state_bind one prod.case two)
  have "us_DailyUsageUSD ?q1 = ?k" "us_DailyUsageUSD ?q2 = 0" "us_WeeklyUsageUSD ?q2 = us_WeeklyUsageUSD r + ?k"
    by (simp_all add: day_begun_def add_usage_def)
  then show ?thesis using first three [folded assms(7)] rows by blast
qed

theorem stale_maintenance_erases_usage_witness:
  "\<exists>d1 d2 q1 q2.
      run_state (do { _ \<leftarrow> doWindowMaintenance demo_subs (view demo_subs demo_sub); RecordUsage demo_subs 1 (Finite 2) })
        (alone demo_sub_store) = (Inr (), alone d1)
    \<and> run_state (doWindowMaintenance demo_subs (view demo_subs demo_sub)) (alone d1) = ((), alone d2)
    \<and> filter (\<lambda>y. us_ID y = 1) (s_rows d1) = [q1] \<and> filter (\<lambda>y. us_ID y = 1) (s_rows d2) = [q2]
    \<and> us_DailyUsageUSD q1 = 2 * 10 ^ 10 \<and> us_DailyUsageUSD q2 = 0 \<and> us_WeeklyUsageUSD q2 = 6 * 10 ^ 10"
proof -
  have old: "NeedsDailyResetAt (ss_calendar demo_subs) (s_clock demo_sub_store) demo_sub" "\<not> NeedsWeeklyReset (s_clock demo_sub_store) demo_sub"
    "\<not> NeedsMonthlyReset (s_clock demo_sub_store) demo_sub" "list_ex (\<lambda>g. g_ID g = us_GroupID demo_sub) (s_groups demo_sub_store)"
    by (simp_all add: NeedsDailyResetAt_def NeedsWeeklyReset_def NeedsMonthlyReset_def HasOneTimeDailyQuota_def demo_subs_def
        demo_calendar_def demo_sub_store_def demo_sub_def demo_group_def hours_def zero_time_def)
  have cost: "to_column (ss_numeric demo_subs) 10 (Finite 2) = 2 * 10 ^ 10" "us_WeeklyUsageUSD demo_sub = 4 * 10 ^ 10" "us_ID demo_sub = 1"
    by (simp_all add: demo_subs_def demo_sub_def demo_numeric_def floor_eq_iff)
  show ?thesis
    using stale_maintenance_erases_usage [OF demo_sub_start(1,4) old(4,1-3) refl, of "Finite 2"] cost by simp
qed

section \<open>A lookup that fails\<close>

text \<open>
When the lookup of the subscription fails, whatever the error, the user counts as one without: the insert
that follows runs into the unique index, and the caller, who could have tried again, is told that the
subscription already exists, which is what a second assignment would be told. Nothing is extended.
\<close>
theorem lookup_error_counts_as_absent:
  assumes "r \<in> set (s_rows d)" "belongs (as_UserID input) (as_GroupID input) r" "open_group (as_GroupID input) d"
  shows "run_state (AssignOrExtendSubscription s input) \<lparr>db = d, sched = [(id, Works), (id, FailsBefore)]\<rparr> =
    (Inl ErrSubscriptionAlreadyExists, alone (d\<lparr>s_seq := s_seq d + 1\<rparr>))"
proof -
  obtain gr where gr: "find (\<lambda>g. g_ID g = as_GroupID input) (s_groups d) = Some gr" "IsSubscriptionType gr"
    using assms(3) by (auto simp: open_group_def)
  have there: "list_ex (belongs (as_UserID input) (as_GroupID input)) (s_rows d)" using assms(1,2) by (auto simp: list_ex_iff)
  have lost: "run_state (subscription_GetByUserIDAndGroupID num u g) \<lparr>db = d, sched = [(id, FailsBefore)]\<rparr> = (Inl Unavailable, alone d)"
    for num u g by (simp add: subscription_GetByUserIDAndGroupID_def stmt_def)
  have "run_state (create_new s input) (alone d) = (Inl ErrSubscriptionAlreadyExists, alone (d\<lparr>s_seq := s_seq d + 1\<rparr>))"
    using there by (simp add: create_new_def createSubscription_def subscription_Create_def quiet Let_def)
  then show ?thesis
    using gr lost by (simp add: AssignOrExtendSubscription_def in_group_def group_GetByID_def run_others)
qed

theorem lookup_error_counts_as_absent_witness:
  "run_state (AssignOrExtendSubscription demo_subs (demo_days 30)) \<lparr>db = demo_sub_store, sched = [(id, Works), (id, FailsBefore)]\<rparr> =
    (Inl ErrSubscriptionAlreadyExists, alone (demo_sub_store\<lparr>s_seq := 2\<rparr>))"
proof -
  have "s_seq demo_sub_store + 1 = 2" by (simp add: demo_sub_store_def)
  then show ?thesis
    using lookup_error_counts_as_absent [OF demo_sub_start(4), of "demo_days 30" demo_subs] demo_sub_start(2,5) by simp
qed

section \<open>Any history\<close>

text \<open>
C17. Over any history of calls of the service, with other processes that do the same around every statement and
statements that fail or lose their answer, there is never more than one subscription for a user and a group
and no term past the end of 2099; a subscription that is still there keeps its user and group, and one that
is new has an identifier never used before.
\<close>
theorem one_subscription_per_group:
  assumes "table_ok (db m)" "subs.polite (sched m)" "run_state (sub_serve_all s cs) m = (r, m')"
  shows "table_ok (db m')
    \<and> (\<forall>q\<in>set (s_rows (db m')). length (filter (belongs (us_UserID q) (us_GroupID q)) (s_rows (db m'))) = 1
        \<and> us_ExpiresAt q \<le> MaxExpiresAt)
    \<and> (\<forall>q\<in>set (s_rows (db m')). s_seq (db m) < us_ID q
        \<or> (\<exists>p\<in>set (s_rows (db m)). us_ID p = us_ID q \<and> us_UserID p = us_UserID q \<and> us_GroupID p = us_GroupID q))"
proof -
  have step: "sub_step (db m) [] (db m')" by (rule reach_sub_step [OF sub_history [OF assms]])
  then have ok: "table_ok (db m')" using assms(1) by (simp add: sub_step_def)
  have "length (filter (belongs (us_UserID q) (us_GroupID q)) (s_rows (db m'))) = 1" if "q \<in> set (s_rows (db m'))" for q
    using only_holder [OF ok that, of "us_UserID q" "us_GroupID q"] by (simp add: belongs_def)
  moreover have "us_ExpiresAt q \<le> MaxExpiresAt" if "q \<in> set (s_rows (db m'))" for q using ok that by (simp add: table_ok_def)
  ultimately show ?thesis using ok step unfolding sub_step_def same_owner_def by blast
qed

lemma served_alone:
  assumes "table_ok d"
  shows "subs.reach d (db (snd (run_state (sub_serve s c) (alone d))))"
proof -
  obtain x m' where run: "run_state (sub_serve s c) (alone d) = (x, m')" by (rule prod.exhaust)
  have "subs.reach d (db m')"
    using subs.rgD [OF sub_safe_serve [OF subs.keeps_True(1), of s c, unfolded sub_safe_def] run] assms by (simp add: subs.polite_def)
  then show ?thesis by (simp add: run)
qed

text \<open>Two processes assign, one statement loses its answer, and usage and maintenance come between.\<close>

definition demo_sub_machine :: "sub_db machine" where
  "demo_sub_machine =
     \<lparr>db = demo_sub_store,
      sched = [(\<lambda>d. db (snd (run_state (sub_serve demo_subs (SRevoke 1)) (alone d))), Works), (id, Works),
        (\<lambda>d. db (snd (run_state (sub_serve demo_subs (SAssign (demo_days 30))) (alone d))), FailsAfter)]\<rparr>"

theorem one_subscription_per_group_witness:
  "table_ok (db (snd (run_state (sub_serve_all demo_subs [SAssignOrExtend (demo_days 30), SRecordUsage 1 (Finite 2)]) demo_sub_machine)))"
proof -
  have "subs.polite (sched demo_sub_machine)" using served_alone by (simp add: demo_sub_machine_def subs.polite_def del: sub_serve.simps)
  moreover have "table_ok (db demo_sub_machine)" by (simp add: demo_sub_machine_def demo_sub_start(1))
  ultimately show ?thesis using one_subscription_per_group [OF _ _ surjective_pairing] by blast
qed

end
