(* ===== verification/UsageBilling.thy ===== *)
theory UsageBilling
  imports IdempotencyRepo SubscriptionDb PayAmounts
begin

text \<open>
  Charging a request to its user: the command (\<open>service/usage_billing.go\<close>, with its construction in
  \<open>service/gateway_service.go\<close>), the transaction that applies it at most once
  (\<open>repository/usage_billing_repo.go\<close>), and the cleanup that moves old keys into the archive
  (\<open>repository/dashboard_aggregation_repo.go\<close>). Money in columns is in units of the last decimal. The quota of
  an account is in a JSON column: \<open>AccountExtra\<close> has the entries the statement reads, which are taken to be of
  their type. The caches that are told afterwards and the way without a repository are left out.
\<close>

section \<open>The command\<close>

record UsageBillingCommand =
  ub_RequestID :: go_string
  ub_APIKeyID :: int
  ub_RequestFingerprint :: go_string
  ub_RequestPayloadHash :: go_string
  ub_UserID :: int
  ub_AccountID :: int
  ub_SubscriptionID :: "int option"
  ub_AccountType :: go_string
  ub_Model :: go_string
  ub_ServiceTier :: go_string
  ub_ReasoningEffort :: go_string
  ub_BillingType :: int
  ub_InputTokens :: int
  ub_OutputTokens :: int
  ub_CacheCreationTokens :: int
  ub_CacheReadTokens :: int
  ub_ImageCount :: int
  ub_MediaType :: go_string
  ub_BalanceCost :: float64
  ub_SubscriptionCost :: float64
  ub_APIKeyQuotaCost :: float64
  ub_APIKeyRateLimitCost :: float64
  ub_AccountQuotaCost :: float64

definition zero_UsageBillingCommand :: UsageBillingCommand where
  "zero_UsageBillingCommand =
     \<lparr>ub_RequestID = [], ub_APIKeyID = 0, ub_RequestFingerprint = [], ub_RequestPayloadHash = [], ub_UserID = 0,
      ub_AccountID = 0, ub_SubscriptionID = None, ub_AccountType = [], ub_Model = [], ub_ServiceTier = [],
      ub_ReasoningEffort = [], ub_BillingType = 0, ub_InputTokens = 0, ub_OutputTokens = 0,
      ub_CacheCreationTokens = 0, ub_CacheReadTokens = 0, ub_ImageCount = 0, ub_MediaType = [],
      ub_BalanceCost = Finite 0, ub_SubscriptionCost = Finite 0, ub_APIKeyQuotaCost = Finite 0,
      ub_APIKeyRateLimitCost = Finite 0, ub_AccountQuotaCost = Finite 0\<rparr>"

text \<open>The verb \<open>%0.10f\<close>.\<close>

definition fixed10 :: "float64 \<Rightarrow> string" where
  "fixed10 x =
     (case x of
        Finite q \<Rightarrow>
          (let m = round_half_even (q * 10 ^ 10)
           in if q < 0 \<and> m = 0 then CHR ''-'' # fixed_digits 0 10 else fixed_text m 10)
      | _ \<Rightarrow> FormatFloat x)"

definition valueOrZero :: "int option \<Rightarrow> int" where
  "valueOrZero v = (case v of None \<Rightarrow> 0 | Some n \<Rightarrow> n)"

definition buildUsageBillingFingerprint :: "(string \<Rightarrow> string) \<Rightarrow> UsageBillingCommand \<Rightarrow> go_string" where
  "buildUsageBillingFingerprint sha256 c =
     (let raw = Join [Itoa (ub_UserID c), Itoa (ub_AccountID c), Itoa (ub_APIKeyID c), TrimSpace (ub_AccountType c),
            TrimSpace (ub_Model c), TrimSpace (ub_ServiceTier c), TrimSpace (ub_ReasoningEffort c),
            Itoa (ub_BillingType c), Itoa (ub_InputTokens c), Itoa (ub_OutputTokens c), Itoa (ub_CacheCreationTokens c),
            Itoa (ub_CacheReadTokens c), Itoa (ub_ImageCount c), TrimSpace (ub_MediaType c),
            Itoa (valueOrZero (ub_SubscriptionID c)), fixed10 (ub_BalanceCost c), fixed10 (ub_SubscriptionCost c),
            fixed10 (ub_APIKeyQuotaCost c), fixed10 (ub_APIKeyRateLimitCost c), fixed10 (ub_AccountQuotaCost c)] ''|'';
          payloadHash = TrimSpace (ub_RequestPayloadHash c);
          raw = (if payloadHash \<noteq> [] then raw @ ''|'' @ payloadHash else raw)
      in hex_encode (sha256 raw))"

definition Normalize :: "(string \<Rightarrow> string) \<Rightarrow> UsageBillingCommand \<Rightarrow> UsageBillingCommand" where
  "Normalize sha256 c =
     (let c = c\<lparr>ub_RequestID := TrimSpace (ub_RequestID c)\<rparr>
      in if TrimSpace (ub_RequestFingerprint c) = []
         then c\<lparr>ub_RequestFingerprint := buildUsageBillingFingerprint sha256 c\<rparr> else c)"

definition HashUsageRequestPayload :: "(string \<Rightarrow> string) \<Rightarrow> go_string \<Rightarrow> go_string" where
  "HashUsageRequestPayload sha256 payload = (if payload = [] then [] else hex_encode (sha256 payload))"

section \<open>The command of a request\<close>

text \<open>The identifiers in the context of a request; a value that is missing is empty.\<close>

record request_ctx =
  ctx_ClientRequestID :: go_string
  ctx_RequestID :: go_string

definition resolveUsageBillingRequestID :: "request_ctx option \<Rightarrow> go_string \<Rightarrow> go_string \<Rightarrow> go_string" where
  "resolveUsageBillingRequestID ctx upstreamRequestID generated =
     (let client = (case ctx of None \<Rightarrow> [] | Some c \<Rightarrow> TrimSpace (ctx_ClientRequestID c));
          local = (case ctx of None \<Rightarrow> [] | Some c \<Rightarrow> TrimSpace (ctx_RequestID c))
      in if client \<noteq> [] then ''client:'' @ client
         else if local \<noteq> [] then ''local:'' @ local
         else if TrimSpace upstreamRequestID \<noteq> [] then TrimSpace upstreamRequestID
         else ''generated:'' @ generated)"

definition resolveUsageBillingPayloadFingerprint :: "request_ctx option \<Rightarrow> go_string \<Rightarrow> go_string" where
  "resolveUsageBillingPayloadFingerprint ctx requestPayloadHash =
     (let client = (case ctx of None \<Rightarrow> [] | Some c \<Rightarrow> TrimSpace (ctx_ClientRequestID c));
          local = (case ctx of None \<Rightarrow> [] | Some c \<Rightarrow> TrimSpace (ctx_RequestID c))
      in if TrimSpace requestPayloadHash \<noteq> [] then TrimSpace requestPayloadHash
         else if client \<noteq> [] then ''client:'' @ client
         else if local \<noteq> [] then ''local:'' @ local
         else [])"

text \<open>What the construction reads of the log entry, the key, the account and the costs.\<close>

record UsageLog =
  ul_Model :: go_string
  ul_BillingType :: int
  ul_InputTokens :: int
  ul_OutputTokens :: int
  ul_CacheCreationTokens :: int
  ul_CacheReadTokens :: int
  ul_ImageCount :: int
  ul_ServiceTier :: "go_string option"
  ul_ReasoningEffort :: "go_string option"
  ul_SubscriptionID :: "int option"

record APIKey =
  ak_ID :: int
  ak_Quota :: float64
  ak_RateLimit5h :: float64
  ak_RateLimit1d :: float64
  ak_RateLimit7d :: float64

record Account =
  ac_ID :: int
  ac_Type :: go_string
  ac_QuotaLimit :: float64
  ac_QuotaDailyLimit :: float64
  ac_QuotaWeeklyLimit :: float64

record postUsageBillingParams =
  pb_TotalCost :: float64
  pb_ActualCost :: float64
  pb_UserID :: int
  pb_APIKey :: APIKey
  pb_Account :: Account
  pb_SubscriptionID :: "int option"
  pb_RequestPayloadHash :: go_string
  pb_IsSubscriptionBill :: bool
  pb_AccountRateMultiplier :: float64
  pb_HasAPIKeyService :: bool

definition AccountTypeAPIKey :: go_string where "AccountTypeAPIKey = ''apikey''"
definition AccountTypeBedrock :: go_string where "AccountTypeBedrock = ''bedrock''"

definition positive :: "float64 \<Rightarrow> bool" where
  "positive x \<longleftrightarrow> f_less (Finite 0) x"

definition HasRateLimits :: "APIKey \<Rightarrow> bool" where
  "HasRateLimits k \<longleftrightarrow> positive (ak_RateLimit5h k) \<or> positive (ak_RateLimit1d k) \<or> positive (ak_RateLimit7d k)"

definition IsAPIKeyOrBedrock :: "Account \<Rightarrow> bool" where
  "IsAPIKeyOrBedrock a \<longleftrightarrow> ac_Type a = AccountTypeAPIKey \<or> ac_Type a = AccountTypeBedrock"

definition HasAnyQuotaLimit :: "Account \<Rightarrow> bool" where
  "HasAnyQuotaLimit a \<longleftrightarrow>
     positive (ac_QuotaLimit a) \<or> positive (ac_QuotaDailyLimit a) \<or> positive (ac_QuotaWeeklyLimit a)"

definition shouldDeductAPIKeyQuota :: "postUsageBillingParams \<Rightarrow> bool" where
  "shouldDeductAPIKeyQuota p \<longleftrightarrow>
     positive (pb_ActualCost p) \<and> positive (ak_Quota (pb_APIKey p)) \<and> pb_HasAPIKeyService p"

definition shouldUpdateRateLimits :: "postUsageBillingParams \<Rightarrow> bool" where
  "shouldUpdateRateLimits p \<longleftrightarrow> positive (pb_ActualCost p) \<and> HasRateLimits (pb_APIKey p) \<and> pb_HasAPIKeyService p"

definition shouldUpdateAccountQuota :: "postUsageBillingParams \<Rightarrow> bool" where
  "shouldUpdateAccountQuota p \<longleftrightarrow>
     positive (pb_TotalCost p) \<and> IsAPIKeyOrBedrock (pb_Account p) \<and> HasAnyQuotaLimit (pb_Account p)"

fun f_mul :: "float64 \<Rightarrow> float64 \<Rightarrow> float64" where
  "f_mul (Finite a) (Finite b) = binary64 (a * b)"
| "f_mul (Infinite n) (Infinite m) = Infinite (n \<noteq> m)"
| "f_mul (Infinite n) (Finite b) = (if b = 0 then NaN else Infinite (n \<noteq> (b < 0)))"
| "f_mul (Finite a) (Infinite m) = (if a = 0 then NaN else Infinite (m \<noteq> (a < 0)))"
| "f_mul _ _ = NaN"

text \<open>What the log entry adds; without one nothing is added.\<close>

definition with_log :: "UsageLog option \<Rightarrow> UsageBillingCommand \<Rightarrow> UsageBillingCommand" where
  "with_log usageLog c =
     (case usageLog of None \<Rightarrow> c
      | Some l \<Rightarrow>
          c\<lparr>ub_Model := ul_Model l, ub_BillingType := ul_BillingType l, ub_InputTokens := ul_InputTokens l,
            ub_OutputTokens := ul_OutputTokens l, ub_CacheCreationTokens := ul_CacheCreationTokens l,
            ub_CacheReadTokens := ul_CacheReadTokens l, ub_ImageCount := ul_ImageCount l,
            ub_ServiceTier := (case ul_ServiceTier l of None \<Rightarrow> [] | Some t \<Rightarrow> t),
            ub_ReasoningEffort := (case ul_ReasoningEffort l of None \<Rightarrow> [] | Some t \<Rightarrow> t),
            ub_SubscriptionID := ul_SubscriptionID l\<rparr>)"

text \<open>Either the subscription or the balance is charged.\<close>

definition with_cost :: "postUsageBillingParams \<Rightarrow> UsageBillingCommand \<Rightarrow> UsageBillingCommand" where
  "with_cost p c =
     (if pb_IsSubscriptionBill p \<and> pb_SubscriptionID p \<noteq> None \<and> positive (pb_TotalCost p)
      then c\<lparr>ub_SubscriptionID := pb_SubscriptionID p, ub_SubscriptionCost := pb_ActualCost p\<rparr>
      else if positive (pb_ActualCost p) then c\<lparr>ub_BalanceCost := pb_ActualCost p\<rparr> else c)"

definition buildUsageBillingCommand ::
    "(string \<Rightarrow> string) \<Rightarrow> go_string \<Rightarrow> UsageLog option \<Rightarrow> postUsageBillingParams \<Rightarrow> UsageBillingCommand" where
  "buildUsageBillingCommand sha256 requestID usageLog p =
     (let c = zero_UsageBillingCommand\<lparr>ub_RequestID := requestID, ub_APIKeyID := ak_ID (pb_APIKey p),
            ub_UserID := pb_UserID p, ub_AccountID := ac_ID (pb_Account p), ub_AccountType := ac_Type (pb_Account p),
            ub_RequestPayloadHash := TrimSpace (pb_RequestPayloadHash p)\<rparr>;
          c = with_cost p (with_log usageLog c);
          c = (if shouldDeductAPIKeyQuota p then c\<lparr>ub_APIKeyQuotaCost := pb_ActualCost p\<rparr> else c);
          c = (if shouldUpdateRateLimits p then c\<lparr>ub_APIKeyRateLimitCost := pb_ActualCost p\<rparr> else c);
          c = (if shouldUpdateAccountQuota p
               then c\<lparr>ub_AccountQuotaCost := f_mul (pb_TotalCost p) (pb_AccountRateMultiplier p)\<rparr> else c)
      in Normalize sha256 c)"

section \<open>Tables\<close>

record DedupRow =
  dd_RequestID :: go_string
  dd_APIKeyID :: int
  dd_Fingerprint :: go_string
  dd_CreatedAt :: int

record key_row =
  kr_ID :: int
  kr_Quota :: int
  kr_QuotaUsed :: int
  kr_Status :: go_string
  kr_Usage5h :: int
  kr_Usage1d :: int
  kr_Usage7d :: int
  kr_Window5hStart :: "int option"
  kr_Window1dStart :: "int option"
  kr_Window7dStart :: "int option"

record AccountExtra =
  ex_QuotaUsed :: "rat option"
  ex_QuotaLimit :: "rat option"
  ex_DailyUsed :: "rat option"
  ex_DailyLimit :: "rat option"
  ex_DailyStart :: "int option"
  ex_DailyResetMode :: "go_string option"
  ex_DailyResetAt :: "int option"
  ex_DailyResetHour :: "int option"
  ex_WeeklyUsed :: "rat option"
  ex_WeeklyLimit :: "rat option"
  ex_WeeklyStart :: "int option"
  ex_WeeklyResetMode :: "go_string option"
  ex_WeeklyResetAt :: "int option"
  ex_WeeklyResetDay :: "int option"
  ex_WeeklyResetHour :: "int option"
  ex_ResetTimezone :: "go_string option"

record account_row =
  ar_ID :: int
  ar_Extra :: AccountExtra

text \<open>The subscriptions come with the groups and the clock; the outbox has accounts and times.\<close>

record bill_db =
  b_dedup :: "DedupRow list"
  b_archive :: "DedupRow list"
  b_subs :: sub_db
  b_users :: "User list"
  b_keys :: "key_row list"
  b_accounts :: "account_row list"
  b_outbox :: "(int \<times> int) list"

type_synonym 'a bill = "(bill_db, 'a) cmd"

abbreviation bill_now :: "bill_db \<Rightarrow> int" where
  "bill_now d \<equiv> s_clock (b_subs d)"

text \<open>
  The zones of the session and of accounts: \<open>AT TIME ZONE\<close> both ways and \<open>date_trunc('day', NOW())\<close>.
\<close>

record zones =
  local_time :: "go_string \<Rightarrow> int \<Rightarrow> int"
  global_time :: "go_string \<Rightarrow> int \<Rightarrow> int"
  this_day :: "int \<Rightarrow> int"

text \<open>
  A \<open>float64\<close> parameter reaches the database as its shortest decimal; a column of \<open>decimal(20, s)\<close> rounds half
  away from zero and takes 20 digits.
\<close>

definition sql_param :: "float64 \<Rightarrow> rat option" where
  "sql_param x = (case x of Finite q \<Rightarrow> Some (shortest q) | _ \<Rightarrow> None)"

definition column :: "nat \<Rightarrow> rat \<Rightarrow> int option" where
  "column s q = (let n = half_away (q * 10 ^ s) in if \<bar>n\<bar> < 10 ^ 20 then Some n else None)"

definition from_units :: "nat \<Rightarrow> int \<Rightarrow> rat" where
  "from_units s n = of_int n / 10 ^ s"

definition StatusAPIKeyActive :: go_string where "StatusAPIKeyActive = ''active''"
definition StatusAPIKeyQuotaExhausted :: go_string where "StatusAPIKeyQuotaExhausted = ''quota_exhausted''"

definition ErrUsageBillingRequestIDRequired :: pay_error where
  "ErrUsageBillingRequestIDRequired = Plain ''usage billing request_id is required''"

definition ErrUsageBillingRequestConflict :: pay_error where
  "ErrUsageBillingRequestConflict = Plain ''usage billing request fingerprint conflict''"

definition ErrUserNotFound :: pay_error where
  "ErrUserNotFound = NotFound ''USER_NOT_FOUND'' ''user not found''"

definition ErrAPIKeyNotFound :: pay_error where
  "ErrAPIKeyNotFound = NotFound ''API_KEY_NOT_FOUND'' ''api key not found''"

definition ErrAccountNotFound :: pay_error where
  "ErrAccountNotFound = NotFound ''ACCOUNT_NOT_FOUND'' ''account not found''"

section \<open>The key of a request\<close>

definition row_of :: "go_string \<Rightarrow> int \<Rightarrow> DedupRow \<Rightarrow> bool" where
  "row_of r k x \<longleftrightarrow> dd_RequestID x = r \<and> dd_APIKeyID x = k"

definition dedup_insert :: "UsageBillingCommand \<Rightarrow> bool outcome bill" where
  "dedup_insert c =
     stmt Unavailable (\<lambda>d.
       if \<not> varchar 255 (ub_RequestID c) \<or> \<not> varchar 64 (ub_RequestFingerprint c) then (Inl Unavailable, d)
       else if list_ex (row_of (ub_RequestID c) (ub_APIKeyID c)) (b_dedup d) then (Inr False, d)
       else (Inr True, d\<lparr>b_dedup := b_dedup d @
              [\<lparr>dd_RequestID = ub_RequestID c, dd_APIKeyID = ub_APIKeyID c, dd_Fingerprint = ub_RequestFingerprint c,
                dd_CreatedAt = bill_now d\<rparr>]\<rparr>))"

definition dedup_select :: "(bill_db \<Rightarrow> DedupRow list) \<Rightarrow> UsageBillingCommand \<Rightarrow> go_string option outcome bill" where
  "dedup_select table c =
     stmt Unavailable (\<lambda>d.
       (Inr (map_option dd_Fingerprint (find (row_of (ub_RequestID c) (ub_APIKeyID c)) (table d))), d))"

text \<open>The fingerprint of the same key, when there is one, must be the same.\<close>

definition compare_fingerprint :: "UsageBillingCommand \<Rightarrow> bool outcome \<Rightarrow> go_string option outcome \<Rightarrow> bool outcome" where
  "compare_fingerprint c none old =
     (case old of
        Inl e \<Rightarrow> Inl e
      | Inr None \<Rightarrow> none
      | Inr (Some fp) \<Rightarrow>
          if TrimSpace fp \<noteq> TrimSpace (ub_RequestFingerprint c) then Inl ErrUsageBillingRequestConflict else Inr False)"

definition claimUsageBillingKey :: "UsageBillingCommand \<Rightarrow> bool outcome bill" where
  "claimUsageBillingKey c = do {
     inserted \<leftarrow> dedup_insert c;
     case inserted of
       Inl e \<Rightarrow> ret (Inl e)
     | Inr False \<Rightarrow> do { old \<leftarrow> dedup_select b_dedup c; ret (compare_fingerprint c (Inl Unavailable) old) }
     | Inr True \<Rightarrow> do { old \<leftarrow> dedup_select b_archive c; ret (compare_fingerprint c (Inr True) old) }
   }"

section \<open>Subscription, balance and key\<close>

text \<open>A statement that updates rows in place, with all new values in range.\<close>

definition update_all :: "('r \<Rightarrow> bool) \<Rightarrow> ('r \<Rightarrow> 'r option) \<Rightarrow> 'r list \<Rightarrow> 'r list option" where
  "update_all p f xs = mapM_opt (\<lambda>x. if p x then f x else Some x) xs"

definition more_usage :: "rat \<Rightarrow> int \<Rightarrow> sub_row \<Rightarrow> sub_row option" where
  "more_usage c now r =
     (let add = (\<lambda>u. column 10 (from_units 10 u + c)) in
      case (add (us_DailyUsageUSD r), add (us_WeeklyUsageUSD r), add (us_MonthlyUsageUSD r)) of
        (Some x, Some y, Some z) \<Rightarrow>
          Some (r\<lparr>us_DailyUsageUSD := x, us_WeeklyUsageUSD := y, us_MonthlyUsageUSD := z, us_UpdatedAt := now\<rparr>)
      | _ \<Rightarrow> None)"

definition incrementUsageBillingSubscription :: "int \<Rightarrow> float64 \<Rightarrow> unit outcome bill" where
  "incrementUsageBillingSubscription i cost =
     stmt Unavailable (\<lambda>d.
       let s = b_subs d; p = (\<lambda>r. us_ID r = i \<and> list_ex (\<lambda>g. g_ID g = us_GroupID r) (s_groups s)) in
       case sql_param cost of
         None \<Rightarrow> (Inl Unavailable, d)
       | Some c \<Rightarrow>
           (case update_all p (more_usage c (bill_now d)) (s_rows s) of
              None \<Rightarrow> (Inl Unavailable, d)
            | Some rows \<Rightarrow>
                if list_ex p (s_rows s) then (Inr (), d\<lparr>b_subs := s\<lparr>s_rows := rows\<rparr>\<rparr>)
                else (Inl ErrSubscriptionNotFound, d)))"

definition less_balance :: "rat \<Rightarrow> User \<Rightarrow> User option" where
  "less_balance c u = map_option (\<lambda>b. u\<lparr>u_Balance := b\<rparr>) (column 8 (from_units 8 (u_Balance u) - c))"

definition deductUsageBillingBalance :: "int \<Rightarrow> float64 \<Rightarrow> float64 outcome bill" where
  "deductUsageBillingBalance i amount =
     stmt Unavailable (\<lambda>d.
       case sql_param amount of
         None \<Rightarrow> (Inl Unavailable, d)
       | Some c \<Rightarrow>
           (case update_all (\<lambda>u. u_ID u = i) (less_balance c) (b_users d) of
              None \<Rightarrow> (Inl Unavailable, d)
            | Some us \<Rightarrow>
                (case find (\<lambda>u. u_ID u = i) us of
                   None \<Rightarrow> (Inl ErrUserNotFound, d)
                 | Some u \<Rightarrow> (Inr (binary64 (from_units 8 (u_Balance u))), d\<lparr>b_users := us\<rparr>))))"

text \<open>The status is decided on the exact sum, the answer on the row as it is stored.\<close>

definition more_quota :: "rat \<Rightarrow> key_row \<Rightarrow> key_row option" where
  "more_quota c k =
     map_option (\<lambda>used.
       k\<lparr>kr_QuotaUsed := used,
         kr_Status :=
           (if 0 < kr_Quota k \<and> kr_Status k = StatusAPIKeyActive \<and> kr_QuotaUsed k < kr_Quota k
               \<and> from_units 8 (kr_Quota k) \<le> from_units 8 (kr_QuotaUsed k) + c
            then StatusAPIKeyQuotaExhausted else kr_Status k)\<rparr>)
       (column 8 (from_units 8 (kr_QuotaUsed k) + c))"

definition just_exhausted :: "rat \<Rightarrow> key_row \<Rightarrow> bool" where
  "just_exhausted c k \<longleftrightarrow>
     0 < kr_Quota k \<and> kr_Quota k \<le> kr_QuotaUsed k \<and> from_units 8 (kr_QuotaUsed k) - c < from_units 8 (kr_Quota k)"

definition update_key :: "int \<Rightarrow> float64 \<Rightarrow> (bill_db \<Rightarrow> rat \<Rightarrow> key_row \<Rightarrow> key_row option) \<Rightarrow> (rat \<Rightarrow> key_row \<Rightarrow> 'a)
    \<Rightarrow> 'a outcome bill" where
  "update_key i amount f answer =
     stmt Unavailable (\<lambda>d.
       case sql_param amount of
         None \<Rightarrow> (Inl Unavailable, d)
       | Some c \<Rightarrow>
           (case update_all (\<lambda>k. kr_ID k = i) (f d c) (b_keys d) of
              None \<Rightarrow> (Inl Unavailable, d)
            | Some ks \<Rightarrow>
                (case find (\<lambda>k. kr_ID k = i) ks of
                   None \<Rightarrow> (Inl ErrAPIKeyNotFound, d)
                 | Some k \<Rightarrow> (Inr (answer c k), d\<lparr>b_keys := ks\<rparr>))))"

definition incrementUsageBillingAPIKeyQuota :: "int \<Rightarrow> float64 \<Rightarrow> bool outcome bill" where
  "incrementUsageBillingAPIKeyQuota i amount = update_key i amount (\<lambda>_. more_quota) just_exhausted"

text \<open>A window that is over begins again with this cost; one that never began only begins.\<close>

definition window_usage :: "int \<Rightarrow> int \<Rightarrow> rat \<Rightarrow> int option \<Rightarrow> int \<Rightarrow> int option" where
  "window_usage now len c start used =
     (case start of
        Some t \<Rightarrow> if t + len \<le> now then column 8 c else column 8 (from_units 8 used + c)
      | None \<Rightarrow> column 8 (from_units 8 used + c))"

definition window_start :: "int \<Rightarrow> int \<Rightarrow> int \<Rightarrow> int option \<Rightarrow> int option" where
  "window_start now len begin start =
     (case start of None \<Rightarrow> Some begin | Some t \<Rightarrow> if t + len \<le> now then Some begin else Some t)"

definition more_rate :: "zones \<Rightarrow> int \<Rightarrow> rat \<Rightarrow> key_row \<Rightarrow> key_row option" where
  "more_rate z now c k =
     (case (window_usage now (hours 5) c (kr_Window5hStart k) (kr_Usage5h k),
            window_usage now (hours 24) c (kr_Window1dStart k) (kr_Usage1d k),
            window_usage now (hours (7 * 24)) c (kr_Window7dStart k) (kr_Usage7d k)) of
        (Some u5, Some u1, Some u7) \<Rightarrow>
          Some (k\<lparr>kr_Usage5h := u5, kr_Usage1d := u1, kr_Usage7d := u7,
            kr_Window5hStart := window_start now (hours 5) now (kr_Window5hStart k),
            kr_Window1dStart := window_start now (hours 24) (this_day z now) (kr_Window1dStart k),
            kr_Window7dStart := window_start now (hours (7 * 24)) (this_day z now) (kr_Window7dStart k)\<rparr>)
      | _ \<Rightarrow> None)"

definition incrementUsageBillingAPIKeyRateLimit :: "zones \<Rightarrow> int \<Rightarrow> float64 \<Rightarrow> unit outcome bill" where
  "incrementUsageBillingAPIKeyRateLimit z i cost = update_key i cost (\<lambda>d. more_rate z (bill_now d)) (\<lambda>_ _. ())"

section \<open>The quota of an account\<close>

definition or0 :: "rat option \<Rightarrow> rat" where
  "or0 x = (case x of None \<Rightarrow> 0 | Some q \<Rightarrow> q)"

definition is_fixed :: "go_string option \<Rightarrow> bool" where
  "is_fixed mode \<longleftrightarrow> mode = Some ''fixed''"

definition period_expired :: "int \<Rightarrow> int \<Rightarrow> go_string option \<Rightarrow> int option \<Rightarrow> int option \<Rightarrow> bool" where
  "period_expired now len mode resetAt start =
     (if is_fixed mode then (case resetAt of None \<Rightarrow> 0 | Some t \<Rightarrow> t) \<le> now
      else (case start of None \<Rightarrow> 0 | Some t \<Rightarrow> t) + len \<le> now)"

definition dailyExpiredExpr :: "int \<Rightarrow> AccountExtra \<Rightarrow> bool" where
  "dailyExpiredExpr now x = period_expired now (hours 24) (ex_DailyResetMode x) (ex_DailyResetAt x) (ex_DailyStart x)"

definition weeklyExpiredExpr :: "int \<Rightarrow> AccountExtra \<Rightarrow> bool" where
  "weeklyExpiredExpr now x =
     period_expired now (hours 168) (ex_WeeklyResetMode x) (ex_WeeklyResetAt x) (ex_WeeklyStart x)"

definition zone_of :: "AccountExtra \<Rightarrow> go_string" where
  "zone_of x = (case ex_ResetTimezone x of None \<Rightarrow> ''UTC'' | Some z \<Rightarrow> z)"

text \<open>The reset hour of the day that it is in the zone of the account, in local time.\<close>

definition reset_point :: "zones \<Rightarrow> int \<Rightarrow> int option \<Rightarrow> AccountExtra \<Rightarrow> int" where
  "reset_point z now hour x =
     (let t = local_time z (zone_of x) now
      in t - t mod hours 24 + hours (case hour of None \<Rightarrow> 0 | Some h \<Rightarrow> h))"

definition nextDailyResetAtExpr :: "zones \<Rightarrow> int \<Rightarrow> AccountExtra \<Rightarrow> int option" where
  "nextDailyResetAtExpr z now x =
     (if is_fixed (ex_DailyResetMode x) then
        (let p = reset_point z now (ex_DailyResetHour x) x; back = global_time z (zone_of x)
         in Some (if back p \<le> now then back (p + hours 24) else back p))
      else None)"

text \<open>\<open>EXTRACT(DOW ...)\<close>: the first of January 1970 was a Thursday. The remainder has the sign of the dividend.\<close>

definition day_of_week :: "int \<Rightarrow> int" where
  "day_of_week t = (t div hours 24 + 4) mod 7"

definition days_forward :: "zones \<Rightarrow> int \<Rightarrow> AccountExtra \<Rightarrow> int" where
  "days_forward z now x =
     (let n = (case ex_WeeklyResetDay x of None \<Rightarrow> 1 | Some d \<Rightarrow> d) - day_of_week (local_time z (zone_of x) now) + 7
      in n - 7 * go_quot n 7)"

definition nextWeeklyResetAtExpr :: "zones \<Rightarrow> int \<Rightarrow> AccountExtra \<Rightarrow> int option" where
  "nextWeeklyResetAtExpr z now x =
     (if is_fixed (ex_WeeklyResetMode x) then
        (let p = reset_point z now (ex_WeeklyResetHour x) x; back = global_time z (zone_of x); n = days_forward z now x
         in Some (if n = 0 \<and> back p \<le> now then back (p + hours (7 * 24)) else back (p + hours (n * 24))))
      else None)"

text \<open>The three parts of the new value all read the old one.\<close>

definition daily_part :: "zones \<Rightarrow> int \<Rightarrow> rat \<Rightarrow> AccountExtra \<Rightarrow> AccountExtra \<Rightarrow> AccountExtra" where
  "daily_part z now c x y =
     (if \<not> 0 < or0 (ex_DailyLimit x) then y
      else let over = dailyExpiredExpr now x; next = nextDailyResetAtExpr z now x in
        y\<lparr>ex_DailyUsed := Some (if over then c else or0 (ex_DailyUsed x) + c),
          ex_DailyStart := (if over then Some now else or_old (ex_DailyStart x) (Some now)),
          ex_DailyResetAt := (if over then or_old next (ex_DailyResetAt y) else ex_DailyResetAt y)\<rparr>)"

definition weekly_part :: "zones \<Rightarrow> int \<Rightarrow> rat \<Rightarrow> AccountExtra \<Rightarrow> AccountExtra \<Rightarrow> AccountExtra" where
  "weekly_part z now c x y =
     (if \<not> 0 < or0 (ex_WeeklyLimit x) then y
      else let over = weeklyExpiredExpr now x; next = nextWeeklyResetAtExpr z now x in
        y\<lparr>ex_WeeklyUsed := Some (if over then c else or0 (ex_WeeklyUsed x) + c),
          ex_WeeklyStart := (if over then Some now else or_old (ex_WeeklyStart x) (Some now)),
          ex_WeeklyResetAt := (if over then or_old next (ex_WeeklyResetAt y) else ex_WeeklyResetAt y)\<rparr>)"

definition more_extra :: "zones \<Rightarrow> int \<Rightarrow> rat \<Rightarrow> AccountExtra \<Rightarrow> AccountExtra" where
  "more_extra z now c x =
     weekly_part z now c x (daily_part z now c x (x\<lparr>ex_QuotaUsed := Some (or0 (ex_QuotaUsed x) + c)\<rparr>))"

record AccountQuotaState =
  qs_TotalUsed :: float64
  qs_TotalLimit :: float64
  qs_DailyUsed :: float64
  qs_DailyLimit :: float64
  qs_WeeklyUsed :: float64
  qs_WeeklyLimit :: float64

definition quota_state :: "AccountExtra \<Rightarrow> AccountQuotaState" where
  "quota_state x =
     \<lparr>qs_TotalUsed = binary64 (or0 (ex_QuotaUsed x)), qs_TotalLimit = binary64 (or0 (ex_QuotaLimit x)),
      qs_DailyUsed = binary64 (or0 (ex_DailyUsed x)), qs_DailyLimit = binary64 (or0 (ex_DailyLimit x)),
      qs_WeeklyUsed = binary64 (or0 (ex_WeeklyUsed x)), qs_WeeklyLimit = binary64 (or0 (ex_WeeklyLimit x))\<rparr>"

definition crossed :: "float64 \<Rightarrow> float64 \<Rightarrow> float64 \<Rightarrow> bool" where
  "crossed limit used amount \<longleftrightarrow> positive limit \<and> f_le limit used \<and> f_less (f_sub used amount) limit"

text \<open>An event of the same account within the last second is not repeated.\<close>

definition enqueueSchedulerOutbox :: "int \<Rightarrow> unit outcome bill" where
  "enqueueSchedulerOutbox i =
     stmt Unavailable (\<lambda>d.
       (Inr (), if list_ex (\<lambda>(j, t). j = i \<and> bill_now d - 10 ^ 9 \<le> t) (b_outbox d) then d
                else d\<lparr>b_outbox := b_outbox d @ [(i, bill_now d)]\<rparr>))"

definition account_update :: "zones \<Rightarrow> int \<Rightarrow> float64 \<Rightarrow> AccountQuotaState outcome bill" where
  "account_update z i amount =
     stmt Unavailable (\<lambda>d.
       case sql_param amount of
         None \<Rightarrow> (Inl Unavailable, d)
       | Some c \<Rightarrow>
           (let as = map (\<lambda>a. if ar_ID a = i then a\<lparr>ar_Extra := more_extra z (bill_now d) c (ar_Extra a)\<rparr> else a) (b_accounts d)
            in case find (\<lambda>a. ar_ID a = i) as of
                 None \<Rightarrow> (Inl ErrAccountNotFound, d)
               | Some a \<Rightarrow> (Inr (quota_state (ar_Extra a)), d\<lparr>b_accounts := as\<rparr>)))"

definition incrementUsageBillingAccountQuota :: "zones \<Rightarrow> int \<Rightarrow> float64 \<Rightarrow> AccountQuotaState outcome bill" where
  "incrementUsageBillingAccountQuota z i amount = do {
     c \<leftarrow> account_update z i amount;
     case c of
       Inl e \<Rightarrow> ret (Inl e)
     | Inr q \<Rightarrow>
         if crossed (qs_TotalLimit q) (qs_TotalUsed q) amount \<or> crossed (qs_DailyLimit q) (qs_DailyUsed q) amount
            \<or> crossed (qs_WeeklyLimit q) (qs_WeeklyUsed q) amount
         then do {
           c \<leftarrow> enqueueSchedulerOutbox i;
           ret (case c of Inl e \<Rightarrow> Inl e | Inr _ \<Rightarrow> Inr q)
         }
         else ret (Inr q)
   }"

section \<open>The transaction\<close>

record UsageBillingApplyResult =
  br_Applied :: bool
  br_APIKeyQuotaExhausted :: bool
  br_NewBalance :: "float64 option"
  br_QuotaState :: "AccountQuotaState option"

definition not_applied :: UsageBillingApplyResult where
  "not_applied = \<lparr>br_Applied = False, br_APIKeyQuotaExhausted = False, br_NewBalance = None, br_QuotaState = None\<rparr>"

text \<open>An effect that applies only if its cost is positive and keeps its answer.\<close>

definition when_due :: "bool \<Rightarrow> 'a outcome bill \<Rightarrow> ('a \<Rightarrow> 'r \<Rightarrow> 'r) \<Rightarrow> 'r outcome \<Rightarrow> 'r outcome bill" where
  "when_due b c keep r =
     (case r of
        Inl e \<Rightarrow> ret (Inl e)
      | Inr x \<Rightarrow>
          if \<not> b then ret (Inr x)
          else do { y \<leftarrow> c; ret (case y of Inl e \<Rightarrow> Inl e | Inr a \<Rightarrow> Inr (keep a x)) })"

definition applyUsageBillingEffects ::
    "zones \<Rightarrow> UsageBillingCommand \<Rightarrow> UsageBillingApplyResult outcome \<Rightarrow> UsageBillingApplyResult outcome bill" where
  "applyUsageBillingEffects z c r = do {
     r \<leftarrow> when_due (positive (ub_SubscriptionCost c) \<and> ub_SubscriptionID c \<noteq> None)
            (incrementUsageBillingSubscription (valueOrZero (ub_SubscriptionID c)) (ub_SubscriptionCost c)) (\<lambda>_ x. x) r;
     r \<leftarrow> when_due (positive (ub_BalanceCost c)) (deductUsageBillingBalance (ub_UserID c) (ub_BalanceCost c))
            (\<lambda>b x. x\<lparr>br_NewBalance := Some b\<rparr>) r;
     r \<leftarrow> when_due (positive (ub_APIKeyQuotaCost c)) (incrementUsageBillingAPIKeyQuota (ub_APIKeyID c) (ub_APIKeyQuotaCost c))
            (\<lambda>e x. x\<lparr>br_APIKeyQuotaExhausted := e\<rparr>) r;
     r \<leftarrow> when_due (positive (ub_APIKeyRateLimitCost c))
            (incrementUsageBillingAPIKeyRateLimit z (ub_APIKeyID c) (ub_APIKeyRateLimitCost c)) (\<lambda>_ x. x) r;
     when_due (positive (ub_AccountQuotaCost c)
         \<and> (EqualFold (ub_AccountType c) AccountTypeAPIKey \<or> EqualFold (ub_AccountType c) AccountTypeBedrock))
       (incrementUsageBillingAccountQuota z (ub_AccountID c) (ub_AccountQuotaCost c)) (\<lambda>q x. x\<lparr>br_QuotaState := Some q\<rparr>) r
   }"

text \<open>What ends the transaction without a commit: an error, or a request that was billed before (\<open>None\<close>).\<close>

definition apply_body :: "zones \<Rightarrow> UsageBillingCommand \<Rightarrow> (pay_error option + UsageBillingApplyResult) bill" where
  "apply_body z c = do {
     claimed \<leftarrow> claimUsageBillingKey c;
     case claimed of
       Inl e \<Rightarrow> ret (Inl (Some e))
     | Inr False \<Rightarrow> ret (Inl None)
     | Inr True \<Rightarrow> do {
         r \<leftarrow> applyUsageBillingEffects z c (Inr (not_applied\<lparr>br_Applied := True\<rparr>));
         ret (case r of Inl e \<Rightarrow> Inl (Some e) | Inr x \<Rightarrow> Inr x)
       }
   }"

definition Apply :: "(string \<Rightarrow> string) \<Rightarrow> zones \<Rightarrow> UsageBillingCommand \<Rightarrow> UsageBillingApplyResult outcome bill" where
  "Apply sha256 z cmd =
     (let c = Normalize sha256 cmd in
      if ub_RequestID c = [] then ret (Inl ErrUsageBillingRequestIDRequired)
      else do {
        r \<leftarrow> transaction (\<lambda>before after. before) (Some Unavailable) (Some Unavailable) (apply_body z c);
        ret (case r of Inl None \<Rightarrow> Inr not_applied | Inl (Some e) \<Rightarrow> Inl e | Inr x \<Rightarrow> Inr x)
      })"

section \<open>The archive\<close>

text \<open>
  One batch: the victims go to the archive unless their key is there already. Which old rows a batch takes is
  left open by the statement; here it takes the first ones.
\<close>

definition archive_rows :: "DedupRow list \<Rightarrow> DedupRow list \<Rightarrow> DedupRow list" where
  "archive_rows victims archive =
     fold (\<lambda>x a. if list_ex (row_of (dd_RequestID x) (dd_APIKeyID x)) a then a else a @ [x]) victims archive"

definition archive_batch :: "int \<Rightarrow> nat \<Rightarrow> nat outcome bill" where
  "archive_batch cutoff n =
     stmt Unavailable (\<lambda>d.
       let victims = take n (filter (\<lambda>x. dd_CreatedAt x < cutoff) (b_dedup d)) in
       (Inr (length victims),
        d\<lparr>b_archive := archive_rows victims (b_archive d), b_dedup := filter (\<lambda>x. x \<notin> set victims) (b_dedup d)\<rparr>))"

definition usageBillingDedupCleanupBatchSize :: nat where "usageBillingDedupCleanupBatchSize = 10000"

text \<open>The loop, for at most \<open>fuel\<close> batches.\<close>

fun CleanupUsageBillingDedup :: "nat \<Rightarrow> int \<Rightarrow> unit outcome option bill" where
  "CleanupUsageBillingDedup 0 cutoff = ret None"
| "CleanupUsageBillingDedup (Suc fuel) cutoff = do {
     c \<leftarrow> archive_batch cutoff usageBillingDedupCleanupBatchSize;
     case c of
       Inl e \<Rightarrow> ret (Some (Inl e))
     | Inr n \<Rightarrow>
         if n < usageBillingDedupCleanupBatchSize then ret (Some (Inr ()))
         else CleanupUsageBillingDedup fuel cutoff
   }"

end
