(* ===== verification/UsageBillingFacts.thy ===== *)
theory UsageBillingFacts
  imports PayQuiet UsageBilling
begin

text \<open>
  The charging of requests as steps on the shared store: \<open>bill_step\<close> says what a process may do, with the commands
  it bills, and the transaction that applies a command and the cleanup of old keys keep to it.
\<close>

section \<open>Steps\<close>

definition key_of :: "UsageBillingCommand \<Rightarrow> go_string \<times> int" where
  "key_of c = (ub_RequestID c, ub_APIKeyID c)"

abbreviation row_key :: "DedupRow \<Rightarrow> go_string \<times> int" where
  "row_key x \<equiv> (dd_RequestID x, dd_APIKeyID x)"

definition bill_keys :: "bill_db \<Rightarrow> (go_string \<times> int) set" where
  "bill_keys d = row_key ` set (b_dedup d) \<union> row_key ` set (b_archive d)"

text \<open>The keys with their fingerprints.\<close>

type_synonym bill_mark = "(go_string \<times> int) \<times> go_string"

definition mark_of :: "UsageBillingCommand \<Rightarrow> bill_mark" where
  "mark_of c = (key_of c, ub_RequestFingerprint c)"

abbreviation row_mark :: "DedupRow \<Rightarrow> bill_mark" where
  "row_mark x \<equiv> (row_key x, dd_Fingerprint x)"

definition bill_marks :: "bill_db \<Rightarrow> bill_mark set" where
  "bill_marks d = row_mark ` set (b_dedup d) \<union> row_mark ` set (b_archive d)"

lemma fst_marks [simp]: "fst ` bill_marks d = bill_keys d"
  by (simp add: bill_marks_def bill_keys_def image_Un image_image)

definition bill_ok :: "bill_db \<Rightarrow> bool" where
  "bill_ok d \<longleftrightarrow>
     distinct (map row_key (b_dedup d)) \<and> distinct (map row_key (b_archive d)) \<and> distinct (map u_ID (b_users d))
     \<and> row_key ` set (b_dedup d) \<inter> row_key ` set (b_archive d) = {}"

text \<open>The balance after a charge, and the cost in units of the column.\<close>

definition charge :: "UsageBillingCommand \<Rightarrow> int \<Rightarrow> int option" where
  "charge c b = (case sql_param (ub_BalanceCost c) of None \<Rightarrow> None | Some q \<Rightarrow> column 8 (from_units 8 b - q))"

definition costs :: "int \<Rightarrow> UsageBillingCommand \<Rightarrow> bool" where
  "costs i c \<longleftrightarrow> ub_UserID c = i \<and> positive (ub_BalanceCost c)"

definition cost_of :: "int \<Rightarrow> UsageBillingCommand \<Rightarrow> rat" where
  "cost_of i c =
     (if costs i c then (case ub_BalanceCost c of Finite r \<Rightarrow> shortest r * 10 ^ 8 | _ \<Rightarrow> 0) else 0)"

definition charged :: "UsageBillingCommand \<Rightarrow> bill_db \<Rightarrow> bill_db \<Rightarrow> bool" where
  "charged c d d' \<longleftrightarrow>
     (\<forall>u\<in>set (b_users d). \<exists>v\<in>set (b_users d'). u_ID v = u_ID u
        \<and> (if costs (u_ID u) c then charge c (u_Balance u) = Some (u_Balance v) else u_Balance v = u_Balance u))"

text \<open>
  A process bills one of the commands \<open>C\<close>, or it does something else, and then it moves only the balances of the
  users \<open>D\<close>. The label of a step is what it bills.
\<close>

definition balances_kept :: "int set \<Rightarrow> bill_db \<Rightarrow> bill_db \<Rightarrow> bool" where
  "balances_kept D d d' \<longleftrightarrow>
     (\<forall>u\<in>set (b_users d). \<exists>v\<in>set (b_users d'). u_ID v = u_ID u \<and> (u_ID u \<in> D \<or> u_Balance v = u_Balance u))"

inductive bill_step :: "UsageBillingCommand set \<Rightarrow> int set \<Rightarrow> bill_db \<Rightarrow> UsageBillingCommand list \<Rightarrow> bill_db \<Rightarrow> bool"
  for C :: "UsageBillingCommand set" and D :: "int set" where
  billed: "c \<in> C \<Longrightarrow> key_of c \<notin> bill_keys d \<Longrightarrow> bill_marks d' = insert (mark_of c) (bill_marks d) \<Longrightarrow> charged c d d' \<Longrightarrow>
     bill_ok d' \<Longrightarrow> bill_step C D d [c] d'"
| other: "bill_marks d' = bill_marks d \<Longrightarrow> balances_kept D d d' \<Longrightarrow> bill_ok d' \<Longrightarrow> bill_step C D d [] d'"

inductive_cases bill_stepE: "bill_step C D d bs d'"

interpretation bills: shared_store "bill_step C D" bill_ok for C D
  by unfold_locales (auto elim: bill_stepE)

section \<open>What a run amounts to\<close>

lemma marks_run: "run_of (bill_step C D) d bs d' \<Longrightarrow> bill_marks d' = bill_marks d \<union> mark_of ` set bs \<and> set bs \<subseteq> C"
  by (induction rule: run_of.induct) (auto elim!: bill_stepE)

lemma keys_run: "run_of (bill_step C D) d bs d' \<Longrightarrow> bill_keys d' = bill_keys d \<union> key_of ` set bs"
  using marks_run [of C D d bs d'] by (auto simp: image_Un image_image mark_of_def simp flip: fst_marks)

lemma billed_new:
  "run_of (bill_step C D) d bs d' \<Longrightarrow> distinct (map key_of bs) \<and> key_of ` set bs \<inter> bill_keys d = {}"
proof (induction rule: run_of.induct)
  case (move d bs d' es d'')
  from move(2,3) keys_run [OF move(1)] show ?case by (cases rule: bill_step.cases) auto
qed simp

lemma half_away_near: "\<bar>of_int (half_away x) - x\<bar> \<le> (1 / 2 :: rat)"
proof -
  have near: "\<bar>of_int \<lfloor>y + 1 / 2\<rfloor> - y\<bar> \<le> 1 / 2" for y :: rat by linarith
  show ?thesis using near [of x] near [of "- x"] by (simp add: half_away_def abs_minus_commute add.commute)
qed

lemma charge_near:
  assumes "charge c b = Some b'" "costs i c"
  shows "\<bar>of_int (b' - b) + cost_of i c\<bar> \<le> (1 / 2 :: rat)"
proof -
  obtain r where r: "ub_BalanceCost c = Finite r" "column 8 (from_units 8 b - shortest r) = Some b'"
    using assms(1) by (auto simp: charge_def sql_param_def split: option.splits float64.splits)
  have x: "(from_units 8 b - shortest r) * 10 ^ 8 = of_int b - shortest r * 10 ^ 8" by (simp add: from_units_def left_diff_distrib)
  have "b' = half_away (of_int b - shortest r * 10 ^ 8)" using r(2) unfolding column_def x Let_def by (simp split: if_splits)
  then show ?thesis
    using half_away_near [of "of_int b - shortest r * 10 ^ 8"] assms(2) r(1) by (simp add: cost_of_def algebra_simps)
qed

abbreviation balance_account :: "int \<Rightarrow> UsageBillingCommand list \<Rightarrow> int \<Rightarrow> int \<Rightarrow> bool" where
  "balance_account i bs b b' \<equiv>
     \<bar>of_int (b' - b) + sum_list (map (cost_of i) bs)\<bar> \<le> (of_nat (length (filter (costs i) bs)) / 2 :: rat)"

lemma balance_step:
  assumes "bill_step C D d es d'" "v \<in> set (b_users d)" "u_ID v \<notin> D"
  shows "\<exists>w\<in>set (b_users d'). u_ID w = u_ID v \<and> balance_account (u_ID v) es (u_Balance v) (u_Balance w)"
  using assms(1)
proof (cases rule: bill_step.cases)
  case (billed c)
  obtain w where w: "w \<in> set (b_users d')" "u_ID w = u_ID v"
    "if costs (u_ID v) c then charge c (u_Balance v) = Some (u_Balance w) else u_Balance w = u_Balance v"
    using billed(5) assms(2) unfolding charged_def by blast
  then show ?thesis
    using charge_near [of c "u_Balance v" "u_Balance w" "u_ID v"] billed(1)
    by (intro bexI [of _ w]) (auto simp: cost_of_def split: if_splits)
next
  case other
  then show ?thesis using assms(2,3) unfolding balances_kept_def by fastforce
qed

lemma balance_run:
  "run_of (bill_step C D) d bs d' \<Longrightarrow> u \<in> set (b_users d) \<Longrightarrow> u_ID u \<notin> D \<Longrightarrow>
   \<exists>v\<in>set (b_users d'). u_ID v = u_ID u \<and> balance_account (u_ID u) bs (u_Balance u) (u_Balance v)"
proof (induction rule: run_of.induct)
  case (stay d)
  then show ?case by auto
next
  case (move d bs d' es d'')
  then obtain v where v: "v \<in> set (b_users d')" "u_ID v = u_ID u" "balance_account (u_ID u) bs (u_Balance u) (u_Balance v)"
    by blast
  obtain w where w: "w \<in> set (b_users d'')" "u_ID w = u_ID u" "balance_account (u_ID u) es (u_Balance v) (u_Balance w)"
    using balance_step [OF move(2) v(1)] v(2) move.prems(2) by auto
  have "of_int (u_Balance w - u_Balance u) + sum_list (map (cost_of (u_ID u)) (bs @ es)) =
      (of_int (u_Balance v - u_Balance u) + sum_list (map (cost_of (u_ID u)) bs))
      + (of_int (u_Balance w - u_Balance v) + sum_list (map (cost_of (u_ID u)) es))" by simp
  also have "\<bar>\<dots>\<bar> \<le> of_nat (length (filter (costs (u_ID u)) bs)) / 2 + of_nat (length (filter (costs (u_ID u)) es)) / 2"
    by (rule order_trans [OF abs_triangle_ineq add_mono [OF v(3) w(3)]])
  finally show ?case using w(1,2) by (intro bexI [of _ w]) (simp_all add: add_divide_distrib)
qed

section \<open>Inside the transaction\<close>

text \<open>\<open>worked c R\<close>: with nobody else around, a success relates the store before and after by \<open>R\<close>.\<close>

definition worked :: "('e + 'a) bill \<Rightarrow> (bill_db \<Rightarrow> bill_db \<Rightarrow> bool) \<Rightarrow> bool" where
  "worked c R \<longleftrightarrow>
     (\<forall>m x m'. calm m \<longrightarrow> run_state c m = (x, m') \<longrightarrow> calm m' \<and> (\<forall>y. x = Inr y \<longrightarrow> R (db m) (db m')))"

lemma worked_stmt:
  assumes "\<And>d y. fst (f d) = Inr y \<Longrightarrow> R d (snd (f d))"
  shows "worked (stmt e f) R"
  unfolding worked_def
proof (intro allI impI)
  fix m x m' assume h: "calm m" "run_state (stmt e f) m = (x, m')"
  from h show "calm m' \<and> (\<forall>y. x = Inr y \<longrightarrow> R (db m) (db m'))"
    by (cases rule: stmt_calm) (use assms in auto)
qed

lemma worked_conseq: "worked c R \<Longrightarrow> (\<And>d d'. R d d' \<Longrightarrow> S d d') \<Longrightarrow> worked c S"
  unfolding worked_def by blast

lemma worked_bind:
  assumes "worked c R" "\<And>e. worked (f e) (\<lambda>_ _. False)" "\<And>y. worked (g y) S"
  shows "worked (State_Monad.bind c (\<lambda>x. case x of Inl e \<Rightarrow> f e | Inr y \<Rightarrow> g y)) (R OO S)"
  unfolding worked_def
proof (intro allI impI)
  fix m z m'' assume h: "calm m" "run_state (State_Monad.bind c (\<lambda>x. case x of Inl e \<Rightarrow> f e | Inr y \<Rightarrow> g y)) m = (z, m'')"
  obtain x m' where x: "run_state c m = (x, m')" by fastforce
  have one: "calm m'" "\<And>y. x = Inr y \<Longrightarrow> R (db m) (db m')" using assms(1) h(1) x unfolding worked_def by blast+
  show "calm m'' \<and> (\<forall>y. z = Inr y \<longrightarrow> (R OO S) (db m) (db m''))"
  proof (cases x)
    case (Inl e)
    then have "run_state (f e) m' = (z, m'')" using h(2) x by simp
    then show ?thesis using assms(2) one(1) unfolding worked_def by blast
  next
    case (Inr y)
    then have "run_state (g y) m' = (z, m'')" using h(2) x by simp
    then show ?thesis using assms(3) one Inr unfolding worked_def by blast
  qed
qed

lemma worked_ret: "(\<And>y d. x = Inr y \<Longrightarrow> R d d) \<Longrightarrow> worked (ret x) R"
  by (simp add: worked_def)

text \<open>A continuation that hands errors on.\<close>

definition passes :: "('e + 'a \<Rightarrow> ('e + 'b) bill) \<Rightarrow> (bill_db \<Rightarrow> bill_db \<Rightarrow> bool) \<Rightarrow> bool" where
  "passes f R \<longleftrightarrow> (\<forall>e. worked (f (Inl e)) (\<lambda>_ _. False)) \<and> (\<forall>x. worked (f (Inr x)) R)"

lemma passes_due:
  assumes "worked c S"
  shows "passes (when_due b c keep) (if b then S else (=))"
proof -
  have "worked (when_due b c keep (Inr x)) (if b then S else (=))" for x
  proof (cases b)
    case True
    have eq: "(\<lambda>y. ret (case y of Inl e \<Rightarrow> Inl e | Inr a \<Rightarrow> Inr (keep a x))) = (\<lambda>y. case y of Inl e \<Rightarrow> ret (Inl e) | Inr a \<Rightarrow> ret (Inr (keep a x)))"
      by (rule ext) (simp split: sum.split)
    have due: "when_due b c keep (Inr x) = State_Monad.bind c (\<lambda>y. ret (case y of Inl e \<Rightarrow> Inl e | Inr a \<Rightarrow> Inr (keep a x)))"
      using True by (simp add: when_due_def)
    have "worked (State_Monad.bind c (\<lambda>y. case y of Inl e \<Rightarrow> ret (Inl e) | Inr a \<Rightarrow> ret (Inr (keep a x)))) S"
      by (rule worked_conseq [OF worked_bind [OF assms, where S = "(=)"]]; auto intro: worked_ret simp: OO_eq)
    then show ?thesis unfolding due eq using True by simp
  qed (simp add: when_due_def worked_ret)
  moreover have "worked (when_due b c keep (Inl e)) (\<lambda>_ _. False)" for e by (auto simp: when_due_def worked_def)
  ultimately show ?thesis by (simp add: passes_def)
qed

lemma passes_bind:
  assumes "passes f R" "passes g S"
  shows "passes (\<lambda>r. State_Monad.bind (f r) g) (R OO S)"
proof -
  have "worked (State_Monad.bind c g) (Q OO S)" if "worked c Q" for c Q
  proof -
    have "g = (\<lambda>x. case x of Inl e \<Rightarrow> g (Inl e) | Inr y \<Rightarrow> g (Inr y))" by (rule ext) (simp split: sum.split)
    then show ?thesis
      using worked_bind [OF that, of "\<lambda>e. g (Inl e)" "\<lambda>y. g (Inr y)" S] assms(2) by (simp add: passes_def)
  qed
  then show ?thesis
    using assms(1) worked_conseq [where R = "(\<lambda>_ _. False) OO S" and S = "\<lambda>_ _. False"] unfolding passes_def by blast
qed

text \<open>A table whose rows with \<open>p\<close> are updated with a cost that is due.\<close>

definition stepped :: "bool \<Rightarrow> float64 \<Rightarrow> ('r \<Rightarrow> bool) \<Rightarrow> (rat \<Rightarrow> 'r \<Rightarrow> 'r option) \<Rightarrow> 'r list \<Rightarrow> 'r list \<Rightarrow> bool" where
  "stepped due cost p f xs ys \<longleftrightarrow>
     (if due then \<exists>q. sql_param cost = Some q \<and> list_ex p xs \<and> list_all2 (\<lambda>x y. (if p x then f q x else Some x) = Some y) xs ys
      else ys = xs)"

lemma stepped_False [simp]: "stepped False cost p f xs ys \<longleftrightarrow> ys = xs"
  by (simp add: stepped_def)

lemma update_all_Some:
  "update_all p f xs = Some ys \<Longrightarrow> list_all2 (\<lambda>x y. (if p x then f x else Some x) = Some y) xs ys"
  unfolding update_all_def by (induction xs arbitrary: ys) (auto split: option.splits)

lemma find_in_updated:
  assumes "list_all2 (\<lambda>x y. (if p x then f x else Some x) = Some y) xs ys" "y \<in> set ys" "p y" "\<And>x y. f x = Some y \<Longrightarrow> p x = p y"
  shows "list_ex p xs"
  using assms(1-3) by (induction rule: list_all2_induct) (auto simp: assms(4) split: if_splits)

lemma stepped_found:
  assumes "sql_param cost = Some q" "update_all p (f q) xs = Some ys" "find p ys = Some y" "\<And>x y. f q x = Some y \<Longrightarrow> p x = p y"
  shows "stepped True cost p f xs ys"
  using assms(1) update_all_Some [OF assms(2)] find_in_updated [OF update_all_Some [OF assms(2)] _ _ assms(4), of y] assms(3)
  by (auto simp: stepped_def find_Some_iff)

definition sub_p :: "int \<Rightarrow> sub_db \<Rightarrow> sub_row \<Rightarrow> bool" where
  "sub_p i s r \<longleftrightarrow> us_ID r = i \<and> list_ex (\<lambda>g. g_ID g = us_GroupID r) (s_groups s)"

lemma sub_p_eq: "(\<lambda>r. us_ID r = i \<and> list_ex (\<lambda>g. g_ID g = us_GroupID r) (s_groups s)) = sub_p i s"
  by (simp add: sub_p_def fun_eq_iff)

definition sub_done :: "int \<Rightarrow> float64 \<Rightarrow> bool \<Rightarrow> bill_db \<Rightarrow> bill_db \<Rightarrow> bool" where
  "sub_done i cost due d d' \<longleftrightarrow>
     (\<exists>rows. d' = d\<lparr>b_subs := (b_subs d)\<lparr>s_rows := rows\<rparr>\<rparr>
        \<and> stepped due cost (sub_p i (b_subs d)) (\<lambda>q. more_usage q (bill_now d)) (s_rows (b_subs d)) rows)"

definition user_done :: "int \<Rightarrow> float64 \<Rightarrow> bool \<Rightarrow> bill_db \<Rightarrow> bill_db \<Rightarrow> bool" where
  "user_done i cost due d d' \<longleftrightarrow>
     (\<exists>us. d' = d\<lparr>b_users := us\<rparr> \<and> stepped due cost (\<lambda>u. u_ID u = i) less_balance (b_users d) us)"

definition key_done :: "(int \<Rightarrow> rat \<Rightarrow> key_row \<Rightarrow> key_row option) \<Rightarrow> int \<Rightarrow> float64 \<Rightarrow> bool \<Rightarrow> bill_db \<Rightarrow> bill_db \<Rightarrow> bool" where
  "key_done f i cost due d d' \<longleftrightarrow>
     (\<exists>ks. d' = d\<lparr>b_keys := ks\<rparr> \<and> stepped due cost (\<lambda>k. kr_ID k = i) (f (bill_now d)) (b_keys d) ks)"

definition add_extra :: "zones \<Rightarrow> int \<Rightarrow> rat \<Rightarrow> account_row \<Rightarrow> account_row option" where
  "add_extra z now q a = Some (a\<lparr>ar_Extra := more_extra z now q (ar_Extra a)\<rparr>)"

definition account_done :: "zones \<Rightarrow> int \<Rightarrow> float64 \<Rightarrow> bool \<Rightarrow> bill_db \<Rightarrow> bill_db \<Rightarrow> bool" where
  "account_done z i cost due d d' \<longleftrightarrow>
     (\<exists>as ob. d' = d\<lparr>b_accounts := as, b_outbox := ob\<rparr> \<and> set (b_outbox d) \<subseteq> set ob
        \<and> stepped due cost (\<lambda>a. ar_ID a = i) (add_extra z (bill_now d)) (b_accounts d) as)"

lemma passes_when:
  assumes "worked c (S True)" "\<And>d. S False d d"
  shows "passes (when_due b c keep) (S b)"
proof (cases b)
  case False
  then show ?thesis using assms(2) by (auto simp: passes_def when_due_def worked_def)
qed (use passes_due [OF assms(1), of True keep] in simp)

lemma nothing_done [simp]:
  "sub_done i cost False d d" "user_done i cost False d d" "key_done f i cost False d d" "account_done z i cost False d d"
proof -
  show "sub_done i cost False d d" unfolding sub_done_def by (rule exI [of _ "s_rows (b_subs d)"]) simp
  show "user_done i cost False d d" unfolding user_done_def by (rule exI [of _ "b_users d"]) simp
  show "key_done f i cost False d d" unfolding key_done_def by (rule exI [of _ "b_keys d"]) simp
  show "account_done z i cost False d d"
    unfolding account_done_def by (rule exI [of _ "b_accounts d"], rule exI [of _ "b_outbox d"]) simp
qed

lemma worked_sub: "worked (incrementUsageBillingSubscription i cost) (sub_done i cost True)"
  unfolding incrementUsageBillingSubscription_def Let_def sub_p_eq
  by (rule worked_stmt) (auto simp: sub_done_def stepped_def intro!: update_all_Some split: option.splits if_splits)

lemma worked_user: "worked (deductUsageBillingBalance i cost) (user_done i cost True)"
  unfolding deductUsageBillingBalance_def
  by (rule worked_stmt) (auto simp: user_done_def less_balance_def split: option.splits intro!: exI stepped_found)

lemma worked_key:
  assumes "\<And>d q x y. f d q x = Some y \<Longrightarrow> kr_ID y = kr_ID x" "\<And>d. f d = g (bill_now d)"
  shows "worked (update_key i cost f answer) (key_done g i cost True)"
  unfolding update_key_def
proof (rule worked_stmt)
  fix d y
  assume "fst (case sql_param cost of None \<Rightarrow> (Inl Unavailable, d)
       | Some c \<Rightarrow> (case update_all (\<lambda>k. kr_ID k = i) (f d c) (b_keys d) of None \<Rightarrow> (Inl Unavailable, d)
            | Some ks \<Rightarrow> (case find (\<lambda>k. kr_ID k = i) ks of None \<Rightarrow> (Inl ErrAPIKeyNotFound, d)
                 | Some k \<Rightarrow> (Inr (answer c k), d\<lparr>b_keys := ks\<rparr>)))) = Inr y"
  then obtain q ks k where q: "sql_param cost = Some q" "update_all (\<lambda>k. kr_ID k = i) (f d q) (b_keys d) = Some ks"
    "find (\<lambda>k. kr_ID k = i) ks = Some k" by (auto split: option.splits)
  have "stepped True cost (\<lambda>k. kr_ID k = i) (f d) (b_keys d) ks" by (rule stepped_found [where f = "f d", OF q]) (auto dest: assms(1))
  then show "key_done g i cost True d (snd (case sql_param cost of None \<Rightarrow> (Inl Unavailable, d)
       | Some c \<Rightarrow> (case update_all (\<lambda>k. kr_ID k = i) (f d c) (b_keys d) of None \<Rightarrow> (Inl Unavailable, d)
            | Some ks \<Rightarrow> (case find (\<lambda>k. kr_ID k = i) ks of None \<Rightarrow> (Inl ErrAPIKeyNotFound, d)
                 | Some k \<Rightarrow> (Inr (answer c k), d\<lparr>b_keys := ks\<rparr>)))))"
    unfolding key_done_def using q assms(2) by auto
qed

lemma worked_quota: "worked (incrementUsageBillingAPIKeyQuota i cost) (key_done (\<lambda>_. more_quota) i cost True)"
  unfolding incrementUsageBillingAPIKeyQuota_def by (rule worked_key) (auto simp: more_quota_def)

lemma worked_rate: "worked (incrementUsageBillingAPIKeyRateLimit z i cost) (key_done (more_rate z) i cost True)"
  unfolding incrementUsageBillingAPIKeyRateLimit_def by (rule worked_key) (auto simp: more_rate_def split: option.splits)

definition out_more :: "bill_db \<Rightarrow> bill_db \<Rightarrow> bool" where
  "out_more d d' \<longleftrightarrow> (\<exists>ob. d' = d\<lparr>b_outbox := ob\<rparr> \<and> set (b_outbox d) \<subseteq> set ob)"

lemma out_more_refl [simp]: "out_more d d"
  unfolding out_more_def by (rule exI [of _ "b_outbox d"]) simp

lemma worked_outbox: "worked (enqueueSchedulerOutbox i) out_more"
  unfolding enqueueSchedulerOutbox_def
proof (rule worked_stmt)
  fix d :: bill_db
  let ?b = "list_ex (\<lambda>(j, t). j = i \<and> bill_now d - 10 ^ 9 \<le> t) (b_outbox d)"
  have "out_more d (d\<lparr>b_outbox := b_outbox d @ [(i, bill_now d)]\<rparr>)" unfolding out_more_def by auto
  then show "out_more d (snd (Inr () :: 'b + unit, if ?b then d else d\<lparr>b_outbox := b_outbox d @ [(i, bill_now d)]\<rparr>))"
    by (cases ?b) simp_all
qed

lemma found_in: "find p xs = Some y \<Longrightarrow> y \<in> set xs" "find p xs = Some y \<Longrightarrow> p y"
  by (auto simp: find_Some_iff)

lemma map_list_all2: "list_all2 (\<lambda>x y. (if p x then Some (f x) else Some x) = Some y) xs (map (\<lambda>x. if p x then f x else x) xs)"
  by (induction xs) auto

lemma worked_account:
  "worked (incrementUsageBillingAccountQuota z i cost) (account_done z i cost True)"
proof -
  have row: "worked (account_update z i cost) (\<lambda>d d'. \<exists>as. d' = d\<lparr>b_accounts := as\<rparr>
      \<and> stepped True cost (\<lambda>a. ar_ID a = i) (add_extra z (bill_now d)) (b_accounts d) as)"
    unfolding account_update_def
  proof (rule worked_stmt, goal_cases)
    case (1 d y)
    let ?as = "\<lambda>q. map (\<lambda>a. if ar_ID a = i then a\<lparr>ar_Extra := more_extra z (bill_now d) q (ar_Extra a)\<rparr> else a) (b_accounts d)"
    from 1 obtain q a where q: "sql_param cost = Some q" "find (\<lambda>a. ar_ID a = i) (?as q) = Some a"
      by (auto simp: Let_def split: option.splits)
    have all: "list_all2 (\<lambda>x y. (if ar_ID x = i then add_extra z (bill_now d) q x else Some x) = Some y) (b_accounts d) (?as q)"
      unfolding add_extra_def by (rule map_list_all2)
    have "list_ex (\<lambda>a. ar_ID a = i) (b_accounts d)"
    proof (rule find_in_updated [OF all])
      show "a \<in> set (?as q)" "ar_ID a = i" by (rule found_in [OF q(2)])+
    qed (auto simp: add_extra_def)
    then have "stepped True cost (\<lambda>a. ar_ID a = i) (add_extra z (bill_now d)) (b_accounts d) (?as q)"
      using q(1) all by (simp add: stepped_def)
    then show ?case using q by (intro exI [of _ "?as q"]) (simp add: Let_def)
  qed
  have pass: "worked (State_Monad.bind (enqueueSchedulerOutbox i) (\<lambda>c. ret (case c of Inl e \<Rightarrow> Inl e | Inr _ \<Rightarrow> Inr q))) out_more"
    for q :: AccountQuotaState
  proof -
    have eq: "(\<lambda>c. ret (case c of Inl e \<Rightarrow> Inl e | Inr _ \<Rightarrow> Inr q)) = (\<lambda>c. case c of Inl e \<Rightarrow> ret (Inl e) | Inr _ \<Rightarrow> ret (Inr q))"
      by (rule ext) (simp split: sum.split)
    show ?thesis
      unfolding eq by (rule worked_conseq [OF worked_bind [OF worked_outbox, where S = "(=)"]]; auto intro: worked_ret simp: OO_eq)
  qed
  show ?thesis
    unfolding incrementUsageBillingAccountQuota_def
  proof (rule worked_conseq [OF worked_bind [OF row, where S = out_more]])
    fix d d'
    assume "((\<lambda>d d'. \<exists>as. d' = d\<lparr>b_accounts := as\<rparr>
      \<and> stepped True cost (\<lambda>a. ar_ID a = i) (add_extra z (bill_now d)) (b_accounts d) as) OO out_more) d d'"
    then show "account_done z i cost True d d'" unfolding account_done_def out_more_def by (elim relcomppE exE conjE) (intro exI conjI, simp_all)
  qed (auto intro: pass worked_ret)
qed

text \<open>All effects of a command, table by table.\<close>

definition account_due :: "UsageBillingCommand \<Rightarrow> bool" where
  "account_due c \<longleftrightarrow> positive (ub_AccountQuotaCost c)
     \<and> (EqualFold (ub_AccountType c) AccountTypeAPIKey \<or> EqualFold (ub_AccountType c) AccountTypeBedrock)"

definition effects_done :: "zones \<Rightarrow> UsageBillingCommand \<Rightarrow> bill_db \<Rightarrow> bill_db \<Rightarrow> bool" where
  "effects_done z c d d' \<longleftrightarrow>
     (\<exists>rows us ks ks' as ob.
        d' = d\<lparr>b_subs := (b_subs d)\<lparr>s_rows := rows\<rparr>, b_users := us, b_keys := ks', b_accounts := as, b_outbox := ob\<rparr>
        \<and> stepped (positive (ub_SubscriptionCost c) \<and> ub_SubscriptionID c \<noteq> None) (ub_SubscriptionCost c)
            (sub_p (valueOrZero (ub_SubscriptionID c)) (b_subs d)) (\<lambda>q. more_usage q (bill_now d)) (s_rows (b_subs d)) rows
        \<and> stepped (positive (ub_BalanceCost c)) (ub_BalanceCost c) (\<lambda>u. u_ID u = ub_UserID c) less_balance (b_users d) us
        \<and> stepped (positive (ub_APIKeyQuotaCost c)) (ub_APIKeyQuotaCost c) (\<lambda>k. kr_ID k = ub_APIKeyID c) more_quota (b_keys d) ks
        \<and> stepped (positive (ub_APIKeyRateLimitCost c)) (ub_APIKeyRateLimitCost c) (\<lambda>k. kr_ID k = ub_APIKeyID c)
            (more_rate z (bill_now d)) ks ks'
        \<and> stepped (account_due c) (ub_AccountQuotaCost c) (\<lambda>a. ar_ID a = ub_AccountID c)
            (add_extra z (bill_now d)) (b_accounts d) as
        \<and> set (b_outbox d) \<subseteq> set ob)"

lemma worked_effects: "worked (applyUsageBillingEffects z c (Inr x)) (effects_done z c)"
proof -
  let ?R = "sub_done (valueOrZero (ub_SubscriptionID c)) (ub_SubscriptionCost c) (positive (ub_SubscriptionCost c) \<and> ub_SubscriptionID c \<noteq> None) OO
     user_done (ub_UserID c) (ub_BalanceCost c) (positive (ub_BalanceCost c)) OO
     key_done (\<lambda>_. more_quota) (ub_APIKeyID c) (ub_APIKeyQuotaCost c) (positive (ub_APIKeyQuotaCost c)) OO
     key_done (more_rate z) (ub_APIKeyID c) (ub_APIKeyRateLimitCost c) (positive (ub_APIKeyRateLimitCost c)) OO
     account_done z (ub_AccountID c) (ub_AccountQuotaCost c) (account_due c)"
  have "passes (applyUsageBillingEffects z c) ?R"
    unfolding applyUsageBillingEffects_def [abs_def] account_due_def
    by (intro passes_bind passes_when worked_sub worked_user worked_quota worked_rate worked_account nothing_done)
  then have "worked (applyUsageBillingEffects z c (Inr x)) ?R" unfolding passes_def by (elim conjE allE)
  then show ?thesis
  proof (rule worked_conseq)
    fix d d' assume "?R d d'"
    then obtain d1 d2 d3 d4 where s:
      "sub_done (valueOrZero (ub_SubscriptionID c)) (ub_SubscriptionCost c) (positive (ub_SubscriptionCost c) \<and> ub_SubscriptionID c \<noteq> None) d d1"
      "user_done (ub_UserID c) (ub_BalanceCost c) (positive (ub_BalanceCost c)) d1 d2"
      "key_done (\<lambda>_. more_quota) (ub_APIKeyID c) (ub_APIKeyQuotaCost c) (positive (ub_APIKeyQuotaCost c)) d2 d3"
      "key_done (more_rate z) (ub_APIKeyID c) (ub_APIKeyRateLimitCost c) (positive (ub_APIKeyRateLimitCost c)) d3 d4"
      "account_done z (ub_AccountID c) (ub_AccountQuotaCost c) (account_due c) d4 d'" by blast
    from s(1) obtain rows where d1: "d1 = d\<lparr>b_subs := (b_subs d)\<lparr>s_rows := rows\<rparr>\<rparr>"
      and sub: "stepped (positive (ub_SubscriptionCost c) \<and> ub_SubscriptionID c \<noteq> None) (ub_SubscriptionCost c)
            (sub_p (valueOrZero (ub_SubscriptionID c)) (b_subs d)) (\<lambda>q. more_usage q (bill_now d)) (s_rows (b_subs d)) rows"
      unfolding sub_done_def by blast
    from s(2) obtain us where d2: "d2 = d1\<lparr>b_users := us\<rparr>"
      and user: "stepped (positive (ub_BalanceCost c)) (ub_BalanceCost c) (\<lambda>u. u_ID u = ub_UserID c) less_balance (b_users d) us"
      unfolding user_done_def d1 by auto
    from s(3) obtain ks where d3: "d3 = d2\<lparr>b_keys := ks\<rparr>"
      and quota: "stepped (positive (ub_APIKeyQuotaCost c)) (ub_APIKeyQuotaCost c) (\<lambda>k. kr_ID k = ub_APIKeyID c) more_quota (b_keys d) ks"
      unfolding key_done_def d2 d1 by auto
    from s(4) obtain ks' where d4: "d4 = d3\<lparr>b_keys := ks'\<rparr>"
      and rate: "stepped (positive (ub_APIKeyRateLimitCost c)) (ub_APIKeyRateLimitCost c) (\<lambda>k. kr_ID k = ub_APIKeyID c)
            (more_rate z (bill_now d)) ks ks'"
      unfolding key_done_def d3 d2 d1 by auto
    from s(5) obtain as ob where d': "d' = d4\<lparr>b_accounts := as, b_outbox := ob\<rparr>"
      and account: "stepped (account_due c) (ub_AccountQuotaCost c) (\<lambda>a. ar_ID a = ub_AccountID c)
            (add_extra z (bill_now d)) (b_accounts d) as" "set (b_outbox d) \<subseteq> set ob"
      unfolding account_done_def d4 d3 d2 d1 by auto
    have "d' = d\<lparr>b_subs := (b_subs d)\<lparr>s_rows := rows\<rparr>, b_users := us, b_keys := ks', b_accounts := as, b_outbox := ob\<rparr>"
      unfolding d' d4 d3 d2 d1 by simp
    then show "effects_done z c d d'" unfolding effects_done_def using sub user quota rate account by blast
  qed
qed

lemma stepped_balance:
  assumes "stepped (positive (ub_BalanceCost c)) (ub_BalanceCost c) (\<lambda>u. u_ID u = ub_UserID c) less_balance xs us"
  shows "list_all2 (\<lambda>x y. u_ID y = u_ID x \<and> (if costs (u_ID x) c
      then charge c (u_Balance x) = Some (u_Balance y) else u_Balance y = u_Balance x)) xs us"
proof (cases "positive (ub_BalanceCost c)")
  case True
  then obtain q where q: "sql_param (ub_BalanceCost c) = Some q"
    "list_all2 (\<lambda>x y. (if u_ID x = ub_UserID c then less_balance q x else Some x) = Some y) xs us"
    using assms by (auto simp: stepped_def)
  from q(2) show ?thesis
    by (rule list_all2_mono) (auto simp: True less_balance_def charge_def costs_def q(1) split: if_splits)
next
  case False
  then show ?thesis using assms by (simp add: list_all2_refl costs_def)
qed

lemma effects_charged:
  assumes "effects_done z c d d'"
  shows "b_dedup d' = b_dedup d \<and> b_archive d' = b_archive d \<and> map u_ID (b_users d') = map u_ID (b_users d) \<and> charged c d d'"
proof -
  obtain us where us: "stepped (positive (ub_BalanceCost c)) (ub_BalanceCost c) (\<lambda>u. u_ID u = ub_UserID c) less_balance (b_users d) us"
    and d': "b_dedup d' = b_dedup d" "b_archive d' = b_archive d" "b_users d' = us"
    using assms unfolding effects_done_def by fastforce
  note row = stepped_balance [OF us]
  then have "map u_ID us = map u_ID (b_users d)" by (auto simp: list_all2_conv_all_nth intro: nth_equalityI)
  moreover have "\<exists>v\<in>set us. u_ID v = u_ID u \<and> (if costs (u_ID u) c
      then charge c (u_Balance u) = Some (u_Balance v) else u_Balance v = u_Balance u)"
    if "u \<in> set (b_users d)" for u using row that by (fastforce simp: list_all2_conv_all_nth in_set_conv_nth)
  ultimately show ?thesis using d' by (simp add: charged_def)
qed

section \<open>A call\<close>

text \<open>What a command leaves when nobody else is around, with its result.\<close>

definition ends :: "'a bill \<Rightarrow> (bill_db \<Rightarrow> 'a \<Rightarrow> bill_db \<Rightarrow> bool) \<Rightarrow> bool" where
  "ends c R \<longleftrightarrow> (\<forall>m x m'. calm m \<longrightarrow> run_state c m = (x, m') \<longrightarrow> calm m' \<and> R (db m) x (db m'))"

lemma endsD: "ends c R \<Longrightarrow> calm m \<Longrightarrow> run_state c m = (x, m') \<Longrightarrow> R (db m) x (db m')"
  by (simp add: ends_def)

lemma ends_stmt:
  assumes "\<And>d. R d (Inl e) d" "\<And>d. R d (Inl e) (snd (f d))" "\<And>d. R d (fst (f d)) (snd (f d))"
  shows "ends (stmt e f) R"
  unfolding ends_def
proof (intro allI impI)
  fix m x m' assume h: "calm m" "run_state (stmt e f) m = (x, m')"
  from h show "calm m' \<and> R (db m) x (db m')" by (cases rule: stmt_calm) (use assms in auto)
qed

lemma ends_ret: "(\<And>d. R d x d) \<Longrightarrow> ends (ret x) R"
  by (simp add: ends_def)

lemma ends_bind:
  assumes "ends c R" "\<And>x. ends (k x) (S x)" "\<And>d x d' y d''. R d x d' \<Longrightarrow> S x d' y d'' \<Longrightarrow> T d y d''"
  shows "ends (State_Monad.bind c k) T"
  unfolding ends_def
proof (intro allI impI)
  fix m z m'' assume h: "calm m" "run_state (State_Monad.bind c k) m = (z, m'')"
  obtain x m' where x: "run_state c m = (x, m')" by fastforce
  with h(2) have "run_state (k x) m' = (z, m'')" by simp
  then show "calm m'' \<and> T (db m) z (db m'')"
    using assms(1) assms(2) [of x] assms(3) h(1) x unfolding ends_def by blast
qed

lemma ends_conseq: "ends c R \<Longrightarrow> (\<And>d x d'. R d x d' \<Longrightarrow> S d x d') \<Longrightarrow> ends c S"
  unfolding ends_def by blast

lemma ends_worked: "worked c R \<Longrightarrow> ends c (\<lambda>d x d'. \<forall>y. x = Inr y \<longrightarrow> R d d')"
  by (auto simp: worked_def ends_def)

definition new_key :: "UsageBillingCommand \<Rightarrow> bill_db \<Rightarrow> bill_db \<Rightarrow> bool" where
  "new_key c d d' \<longleftrightarrow>
     key_of c \<notin> row_key ` set (b_dedup d) \<and> (\<exists>x. row_key x = key_of c \<and> dd_Fingerprint x = ub_RequestFingerprint c
        \<and> d' = d\<lparr>b_dedup := b_dedup d @ [x]\<rparr>)"

lemma new_key_row:
  "key_of c \<notin> row_key ` set (b_dedup d) \<Longrightarrow> row_key x = key_of c \<Longrightarrow> dd_Fingerprint x = ub_RequestFingerprint c \<Longrightarrow>
   new_key c d (d\<lparr>b_dedup := b_dedup d @ [x]\<rparr>)"
  unfolding new_key_def by blast

lemma row_of_key: "list_ex (row_of r k) xs \<longleftrightarrow> (r, k) \<in> row_key ` set xs"
  by (auto simp: list_ex_iff row_of_def)

lemma find_row: "find (row_of r k) xs = None \<longleftrightarrow> (r, k) \<notin> row_key ` set xs"
  by (auto simp: find_None_iff row_of_def)

lemma insert_ends: "ends (dedup_insert c) (\<lambda>d x d'. x = Inr True \<longrightarrow> new_key c d d')"
  unfolding dedup_insert_def
  by (rule ends_stmt) (auto intro!: new_key_row simp: key_of_def row_of_key)

lemma select_ends:
  "ends (dedup_select t c) (\<lambda>d x d'. d' = d \<and> (x = Inr None \<longrightarrow> key_of c \<notin> row_key ` set (t d)))"
  unfolding dedup_select_def by (rule ends_stmt) (simp_all add: key_of_def find_row)

lemma compare_True:
  "compare_fingerprint c none old = Inr True \<longleftrightarrow> old = Inr None \<and> none = Inr True"
  by (auto simp: compare_fingerprint_def split: sum.split option.split)

lemma looked:
  "ends (State_Monad.bind (dedup_select t c) (\<lambda>old. ret (compare_fingerprint c none old)))
     (\<lambda>d x d'. d' = d \<and> (x = Inr True \<longrightarrow> none = Inr True \<and> key_of c \<notin> row_key ` set (t d)))"
  by (rule ends_bind [OF select_ends, where S = "\<lambda>x d y d'. d' = d \<and> y = compare_fingerprint c none x"])
    (auto intro!: ends_ret simp: compare_True)

lemma claim_ends:
  "ends (claimUsageBillingKey c) (\<lambda>d x d'. x = Inr True \<longrightarrow> new_key c d d' \<and> key_of c \<notin> row_key ` set (b_archive d'))"
proof -
  have after: "ends (case x of Inl e \<Rightarrow> ret (Inl e)
      | Inr False \<Rightarrow> State_Monad.bind (dedup_select b_dedup c) (\<lambda>old. ret (compare_fingerprint c (Inl Unavailable) old))
      | Inr True \<Rightarrow> State_Monad.bind (dedup_select b_archive c) (\<lambda>old. ret (compare_fingerprint c (Inr True) old)))
      (\<lambda>d y d'. y = Inr True \<longrightarrow> x = Inr True \<and> d' = d \<and> key_of c \<notin> row_key ` set (b_archive d))" (is "ends _ ?S") for x
  proof (cases x)
    case (Inl e)
    then show ?thesis by (simp add: ends_ret)
  next
    case (Inr new)
    then show ?thesis
      by (cases new) (auto intro: ends_conseq [OF looked [of b_dedup c "Inl Unavailable"]]
        ends_conseq [OF looked [of b_archive c "Inr True"]])
  qed
  show ?thesis
    unfolding claimUsageBillingKey_def
    by (rule ends_bind [OF insert_ends], rule after) simp
qed

lemma effects_end:
  "ends (State_Monad.bind (applyUsageBillingEffects z c (Inr x)) (\<lambda>r. ret (case r of Inl e \<Rightarrow> Inl (Some e) | Inr y \<Rightarrow> Inr y)))
     (\<lambda>d y d'. \<forall>v. y = Inr v \<longrightarrow> b_dedup d' = b_dedup d \<and> b_archive d' = b_archive d
        \<and> map u_ID (b_users d') = map u_ID (b_users d) \<and> charged c d d')"
proof (rule ends_bind [OF ends_worked [OF worked_conseq [OF worked_effects effects_charged]]])
  show "ends (ret (case r of Inl e \<Rightarrow> Inl (Some e) | Inr y \<Rightarrow> Inr y)) (\<lambda>d y d'. d' = d \<and> (\<forall>v. y = Inr v \<longrightarrow> r = Inr v))"
    for r :: "pay_error + UsageBillingApplyResult"
    by (cases r) (simp_all add: ends_def)
next
  fix d d' d'' :: bill_db and r :: "pay_error + UsageBillingApplyResult" and y :: "pay_error option + UsageBillingApplyResult"
  assume "\<forall>y. r = Inr y \<longrightarrow> b_dedup d' = b_dedup d \<and> b_archive d' = b_archive d \<and> map u_ID (b_users d') = map u_ID (b_users d) \<and> charged c d d'"
    and y: "d'' = d' \<and> (\<forall>v. y = Inr v \<longrightarrow> r = Inr v)"
  then have "r = Inr v \<Longrightarrow> b_dedup d' = b_dedup d \<and> b_archive d' = b_archive d \<and> map u_ID (b_users d') = map u_ID (b_users d) \<and> charged c d d'" for v
    by simp
  then show "\<forall>v. y = Inr v \<longrightarrow> b_dedup d'' = b_dedup d \<and> b_archive d'' = b_archive d
        \<and> map u_ID (b_users d'') = map u_ID (b_users d) \<and> charged c d d''" using y by (cases y) simp_all
qed

lemma body_ends:
  "ends (case x of Inl e \<Rightarrow> ret (Inl (Some e)) | Inr False \<Rightarrow> ret (Inl None)
      | Inr True \<Rightarrow> State_Monad.bind (applyUsageBillingEffects z c (Inr y)) (\<lambda>r. ret (case r of Inl e \<Rightarrow> Inl (Some e) | Inr y \<Rightarrow> Inr y)))
     (\<lambda>d y d'. \<forall>v. y = Inr v \<longrightarrow> x = Inr True \<and> b_dedup d' = b_dedup d \<and> b_archive d' = b_archive d
        \<and> map u_ID (b_users d') = map u_ID (b_users d) \<and> charged c d d')"
proof (cases x)
  case (Inl e)
  then show ?thesis by (simp add: ends_ret)
next
  case (Inr new)
  then show ?thesis by (cases new) (auto intro: ends_ret ends_conseq [OF effects_end])
qed

lemma claimed_bills:
  assumes "new_key c d d'" "key_of c \<notin> row_key ` set (b_archive d')" "b_dedup d'' = b_dedup d'" "b_archive d'' = b_archive d'"
    "map u_ID (b_users d'') = map u_ID (b_users d')" "charged c d' d''" "bill_ok d" "c \<in> C"
  shows "bill_step C D d [c] d''"
proof -
  obtain x where x: "row_key x = key_of c" "dd_Fingerprint x = ub_RequestFingerprint c" "d' = d\<lparr>b_dedup := b_dedup d @ [x]\<rparr>"
    "key_of c \<notin> row_key ` set (b_dedup d)"
    using assms(1) by (auto simp: new_key_def)
  have "key_of c \<notin> bill_keys d" using assms(2) x(3,4) by (simp add: bill_keys_def)
  moreover have "bill_marks d'' = insert (mark_of c) (bill_marks d)"
    using assms(3,4) x(1-3) by (auto simp: bill_marks_def mark_of_def)
  moreover have "charged c d d''" using assms(6) x(3) unfolding charged_def by simp
  moreover have "bill_ok d''" using assms(2-5,7) x by (simp add: bill_ok_def)
  ultimately show ?thesis using assms(8) by (intro bill_step.billed)
qed

lemma body_works:
  assumes "c \<in> C"
  shows "worked (apply_body z c) (\<lambda>d d'. bill_ok d \<longrightarrow> bill_step C D d [c] d')"
proof -
  have "ends (apply_body z c) (\<lambda>d y d'. \<forall>v. y = Inr v \<longrightarrow> bill_ok d \<longrightarrow> bill_step C D d [c] d')"
    unfolding apply_body_def
  proof (rule ends_bind [OF claim_ends body_ends], intro allI impI)
    fix d x d' y d'' v
    assume "x = Inr True \<longrightarrow> new_key c d d' \<and> key_of c \<notin> row_key ` set (b_archive d')"
      "\<forall>v. y = Inr v \<longrightarrow> x = Inr True \<and> b_dedup d'' = b_dedup d' \<and> b_archive d'' = b_archive d'
        \<and> map u_ID (b_users d'') = map u_ID (b_users d') \<and> charged c d' d''" "y = Inr v" "bill_ok d"
    then show "bill_step C D d [c] d''" using claimed_bills [of c d d' d''] assms by simp
  qed
  then show ?thesis by (simp add: ends_def worked_def)
qed

section \<open>The transaction\<close>

definition cmd_key :: "UsageBillingCommand \<Rightarrow> go_string \<times> int" where
  "cmd_key c = (TrimSpace (ub_RequestID c), ub_APIKeyID c)"

lemma key_of_Normalize [simp]: "key_of (Normalize sha256 c) = cmd_key c"
  by (simp add: Normalize_def key_of_def cmd_key_def Let_def)

text \<open>An answer that the request was applied.\<close>

definition applied :: "(pay_error + UsageBillingApplyResult) \<Rightarrow> bool" where
  "applied x \<longleftrightarrow> (case x of Inl e \<Rightarrow> False | Inr r \<Rightarrow> br_Applied r)"

lemma applied_not [simp]: "\<not> applied (Inl e)" "\<not> applied (Inr not_applied)"
  by (simp_all add: applied_def not_applied_def)

text \<open>The marks \<open>ms\<close> are new with respect to \<open>M\<close> and known now.\<close>

definition newly :: "bill_mark set \<Rightarrow> bill_mark list \<Rightarrow> bill_db \<Rightarrow> bool" where
  "newly M ms d \<longleftrightarrow> M \<union> set ms \<subseteq> bill_marks d \<and> distinct (map fst ms) \<and> fst ` set ms \<inter> fst ` M = {}"

lemma newly_Nil [simp]: "newly M [] d \<longleftrightarrow> M \<subseteq> bill_marks d"
  by (simp add: newly_def)

lemma newly_after: "newly (M \<union> set ms) ns d \<Longrightarrow> newly M ms d' \<Longrightarrow> newly M (ms @ ns) d"
  by (auto simp: newly_def)

lemma keeps_marks: "bills.keeps C D (\<lambda>d. M \<subseteq> bill_marks d)"
  by (auto simp: bills.keeps_def elim!: bill_stepE)

lemma billed_newly:
  assumes "bill_step C D d [c] d'" "M \<subseteq> bill_marks d"
  shows "newly M [mark_of c] d'"
  using assms(1)
proof (cases rule: bill_step.cases)
  case billed
  have "fst ` M \<subseteq> bill_keys d" unfolding fst_marks [symmetric] using assms(2) by (rule image_mono)
  then show ?thesis using billed assms(2) by (auto simp: newly_def mark_of_def)
qed

lemma rg_apply:
  assumes "c \<in> C"
  shows "bills.rg C D (\<lambda>d. M \<subseteq> bill_marks d) (transaction (\<lambda>before after. before) (Some Unavailable) (Some Unavailable) (apply_body z c))
     (\<lambda>x d. M \<subseteq> bill_marks d \<and> (\<forall>y. x = Inr y \<longrightarrow> newly M [mark_of c] d))"
proof (rule bills.rg_transaction [OF keeps_marks])
  fix m :: "bill_db machine" and x :: "pay_error option + UsageBillingApplyResult" and m'
  assume h: "bill_ok (db m)" "M \<subseteq> bill_marks (db m)" "calm m" "run_state (apply_body z c) m = (x, m')"
  have one: "bill_step C D (db m) [c] (db m')" if "x = Inr y" for y
    using body_works [OF assms, of z D] h(1,3,4) that unfolding worked_def by blast
  have new: "newly M [mark_of c] (db m')" "M \<subseteq> bill_marks (db m')" if "x = Inr y" for y
    using billed_newly [OF one [OF that] h(2)] by (simp_all add: newly_def)
  show "bills.reach C D (db m) (db m) \<and> (\<forall>y. x = Inr y \<longrightarrow> bills.reach C D (db m) (db m')
      \<and> M \<subseteq> bill_marks (db m') \<and> (\<forall>w. Inr y = (Inr w :: pay_error option + UsageBillingApplyResult) \<longrightarrow> newly M [mark_of c] (db m')))"
    using new by (auto dest!: one intro: bills.reach_step)
qed (simp_all add: keeps_marks)

lemma rg_Apply:
  assumes "Normalize sha256 c \<in> C"
  shows "bills.rg C D (\<lambda>d. M \<subseteq> bill_marks d) (Apply sha256 z c)
     (\<lambda>x d. newly M (if applied x then [mark_of (Normalize sha256 c)] else []) d)"
  unfolding Apply_def Let_def
  by (intro bills.rg_if bills.rg_ret bills.rg_bind [OF rg_apply [OF assms]])
    (auto simp: applied_not split: sum.splits option.splits)

section \<open>The cleanup\<close>

lemma archived:
  "distinct (map row_key a) \<Longrightarrow>
   distinct (map row_key (archive_rows vs a)) \<and> row_key ` set (archive_rows vs a) = row_key ` set vs \<union> row_key ` set a"
proof (induction vs arbitrary: a)
  case (Cons v vs)
  show ?case
  proof (cases "row_key v \<in> row_key ` set a")
    case True
    then have "archive_rows (v # vs) a = archive_rows vs a" by (simp add: archive_rows_def row_of_key)
    then show ?thesis using Cons True by auto
  next
    case False
    then have "archive_rows (v # vs) a = archive_rows vs (a @ [v])" by (simp add: archive_rows_def row_of_key)
    then show ?thesis using Cons.IH [of "a @ [v]"] Cons.prems False by simp
  qed
qed (simp add: archive_rows_def)

text \<open>With keys that are not there yet, the archive takes all rows.\<close>

lemma archived_all: "distinct (map row_key (a @ vs)) \<Longrightarrow> archive_rows vs a = a @ vs"
proof (induction vs arbitrary: a)
  case (Cons v vs)
  then have "archive_rows (v # vs) a = archive_rows vs (a @ [v])" by (auto simp: archive_rows_def row_of_key)
  then show ?case using Cons.IH [of "a @ [v]"] Cons.prems by simp
qed (simp add: archive_rows_def)

definition archive_at :: "int \<Rightarrow> nat \<Rightarrow> bill_db \<Rightarrow> bill_db" where
  "archive_at cutoff n d =
     (let victims = take n (filter (\<lambda>x. dd_CreatedAt x < cutoff) (b_dedup d)) in
      d\<lparr>b_archive := archive_rows victims (b_archive d), b_dedup := filter (\<lambda>x. x \<notin> set victims) (b_dedup d)\<rparr>)"

lemma archive_at_ok:
  assumes "bill_ok d"
  shows "bill_ok (archive_at cutoff n d)" "bill_keys (archive_at cutoff n d) = bill_keys d" "b_users (archive_at cutoff n d) = b_users d"
    "bill_marks (archive_at cutoff n d) = bill_marks d"
proof -
  define vs where "vs = take n (filter (\<lambda>x. dd_CreatedAt x < cutoff) (b_dedup d))"
  have vs: "set vs \<subseteq> set (b_dedup d)" unfolding vs_def by (auto dest: in_set_takeD)
  have at: "archive_at cutoff n d = d\<lparr>b_archive := archive_rows vs (b_archive d), b_dedup := filter (\<lambda>x. x \<notin> set vs) (b_dedup d)\<rparr>"
    by (simp add: archive_at_def vs_def Let_def)
  have arch: "distinct (map row_key (archive_rows vs (b_archive d)))"
    "row_key ` set (archive_rows vs (b_archive d)) = row_key ` set vs \<union> row_key ` set (b_archive d)"
    using archived [of "b_archive d" vs] assms by (auto simp: bill_ok_def)
  have inj: "inj_on row_key (set (b_dedup d))" using assms by (simp add: bill_ok_def distinct_map)
  have "row_key ` (set (b_dedup d) - set vs) \<inter> row_key ` set vs = {}"
    using inj_on_image_set_diff [OF inj, of "set (b_dedup d)" "set vs"] vs by auto
  moreover have "row_key ` (set (b_dedup d) - set vs) \<inter> row_key ` set (b_archive d) = {}"
    using assms unfolding bill_ok_def by blast
  moreover have rest: "set (filter (\<lambda>x. x \<notin> set vs) (b_dedup d)) = set (b_dedup d) - set vs" by auto
  moreover have "distinct (map row_key (filter (\<lambda>x. x \<notin> set vs) (b_dedup d)))"
    using assms by (simp add: bill_ok_def distinct_map_filter)
  ultimately show "bill_ok (archive_at cutoff n d)"
    using assms arch unfolding at bill_ok_def by (simp add: Int_Un_distrib del: set_filter)
  show "bill_keys (archive_at cutoff n d) = bill_keys d"
    using vs arch(2) unfolding at bill_keys_def by (auto simp: image_iff)
  show "b_users (archive_at cutoff n d) = b_users d" by (simp add: at)
  have "distinct (map row_key vs)" using assms by (simp add: bill_ok_def vs_def take_map [symmetric] distinct_map_filter)
  moreover have "row_key ` set (b_archive d) \<inter> row_key ` set vs = {}" using assms vs unfolding bill_ok_def by blast
  ultimately have "archive_rows vs (b_archive d) = b_archive d @ vs" using assms archived_all by (simp add: bill_ok_def)
  then show "bill_marks (archive_at cutoff n d) = bill_marks d"
    using vs unfolding at bill_marks_def by auto
qed

lemma archive_batch_at:
  "archive_batch cutoff n = stmt Unavailable (\<lambda>d. (Inr (length (take n (filter (\<lambda>x. dd_CreatedAt x < cutoff) (b_dedup d)))), archive_at cutoff n d))"
  by (simp add: archive_batch_def archive_at_def Let_def)

lemma rg_archive: "bills.rg C D (\<lambda>d. M \<subseteq> bill_marks d) (archive_batch cutoff n) (\<lambda>_ d. M \<subseteq> bill_marks d)"
  unfolding archive_batch_at
proof (rule bills.rg_stmt [OF keeps_marks])
  fix d assume d: "bill_ok d" "M \<subseteq> bill_marks d"
  note at = archive_at_ok [OF d(1), of cutoff n]
  have "bill_step C D d [] (archive_at cutoff n d)"
    by (rule bill_step.other) (auto simp: at balances_kept_def)
  then show "bills.reach C D d (snd (Inr (length (take n (filter (\<lambda>x. dd_CreatedAt x < cutoff) (b_dedup d)))), archive_at cutoff n d))
      \<and> M \<subseteq> bill_marks (snd (Inr (length (take n (filter (\<lambda>x. dd_CreatedAt x < cutoff) (b_dedup d)))), archive_at cutoff n d))"
    using d(2) at(4) bills.reach_step by simp
qed (simp add: archive_at_ok(4))

lemma rg_Cleanup: "bills.rg C D (\<lambda>d. M \<subseteq> bill_marks d) (CleanupUsageBillingDedup fuel cutoff) (\<lambda>_ d. M \<subseteq> bill_marks d)"
proof (induction fuel)
  case (Suc fuel)
  show ?case
    unfolding CleanupUsageBillingDedup.simps
    by (intro bills.rg_bind [OF rg_archive]) (auto intro!: bills.rg_ret Suc split: sum.splits)
qed (auto intro: bills.rg_ret)

end
