(* ===== verification/UsageBillingClaims.thy ===== *)
theory UsageBillingClaims
  imports UsageBillingFacts PayDemo
begin

text \<open>
  Properties of the charging of requests: over any history, with others and faults, a request is billed at most
  once and balances move by what was billed; a charge happens with all its effects or not at all; a request that
  was billed changes nothing when it is repeated; the cleanup ends and forgets no key.
\<close>

section \<open>Histories\<close>

datatype bill_call = BApply UsageBillingCommand | BCleanup nat int

text \<open>A call with the marks of the requests it reports as billed.\<close>

fun bill_serve :: "(string \<Rightarrow> string) \<Rightarrow> zones \<Rightarrow> bill_call \<Rightarrow> bill_mark list bill" where
  "bill_serve sha256 z (BApply c) = do { x \<leftarrow> Apply sha256 z c; ret (if applied x then [mark_of (Normalize sha256 c)] else []) }"
| "bill_serve sha256 z (BCleanup fuel cutoff) = do { _ \<leftarrow> CleanupUsageBillingDedup fuel cutoff; ret [] }"

primrec bill_serve_all :: "(string \<Rightarrow> string) \<Rightarrow> zones \<Rightarrow> bill_call list \<Rightarrow> bill_mark list bill" where
  "bill_serve_all sha256 z [] = ret []"
| "bill_serve_all sha256 z (c # cs) = do { ms \<leftarrow> bill_serve sha256 z c; ms' \<leftarrow> bill_serve_all sha256 z cs; ret (ms @ ms') }"

text \<open>The commands a history submits, as the transaction sees them.\<close>

definition submitted :: "(string \<Rightarrow> string) \<Rightarrow> bill_call list \<Rightarrow> UsageBillingCommand set" where
  "submitted sha256 cs = {Normalize sha256 c |c. BApply c \<in> set cs}"

lemma rg_serve:
  assumes "submitted sha256 [c] \<subseteq> C"
  shows "bills.rg C D (\<lambda>d. M \<subseteq> bill_marks d) (bill_serve sha256 z c) (newly M)"
proof (cases c)
  case (BApply cmd)
  then have "Normalize sha256 cmd \<in> C" using assms by (auto simp: submitted_def)
  then show ?thesis
    unfolding BApply bill_serve.simps by (intro bills.rg_bind [OF rg_Apply] bills.rg_ret)
next
  case (BCleanup fuel cutoff)
  show ?thesis
    unfolding BCleanup bill_serve.simps by (rule bills.rg_bind [OF rg_Cleanup]) (auto intro: bills.rg_ret)
qed

lemma rg_serve_all:
  "submitted sha256 cs \<subseteq> C \<Longrightarrow> bills.rg C D (\<lambda>d. M \<subseteq> bill_marks d) (bill_serve_all sha256 z cs) (newly M)"
proof (induction cs arbitrary: M)
  case (Cons c cs)
  have C: "submitted sha256 [c] \<subseteq> C" "submitted sha256 cs \<subseteq> C" using Cons.prems by (auto simp: submitted_def)
  have rest: "bills.rg C D (newly M ms) (State_Monad.bind (bill_serve_all sha256 z cs) (\<lambda>ms'. ret (ms @ ms'))) (newly M)" for ms
  proof (cases "distinct (map fst ms) \<and> fst ` set ms \<inter> fst ` M = {}")
    case True
    have "bills.rg C D (\<lambda>d. M \<union> set ms \<subseteq> bill_marks d) (State_Monad.bind (bill_serve_all sha256 z cs) (\<lambda>ms'. ret (ms @ ms'))) (newly M)"
      by (rule bills.rg_bind [OF Cons.IH [OF C(2)]]) (rule bills.rg_ret, use True in \<open>auto simp: newly_def\<close>)
    then show ?thesis by (rule bills.rg_conseq) (auto simp: newly_def)
  next
    case False
    then have "\<not> newly M ms d" for d by (auto simp: newly_def)
    then show ?thesis unfolding bills.rg_def by blast
  qed
  show ?case unfolding bill_serve_all.simps by (rule bills.rg_bind [OF rg_serve [OF C(1)] rest])
qed (simp add: bills.rg_ret)

text \<open>
C4. Over any history of charges and cleanups, with other processes that charge commands and clean up around
  every statement, and with statements that fail or lose their answer: let \<open>C\<close> be the commands that the history and
  the others submit. Then there is a list of the commands of \<open>C\<close> that were billed, no two of them with the same
  identifier and key and none with one that was known before; the keys and fingerprints known at the end are those
  from before and theirs. No two calls report the same request as billed, and what is reported, by key and
  fingerprint, is one of them. The balance of every user, except those (\<open>D\<close>) whose balance other code moves meanwhile
  by other means than a charge, changed by minus the costs of the billed commands of that user and nothing else, up
  to half a unit of the last decimal for each of these commands.
\<close>
theorem billed_once:
  assumes "bill_ok (db m)" "bills.polite C D (sched m)" "submitted sha256 cs \<subseteq> C"
    "run_state (bill_serve_all sha256 z cs) m = (ms, m')"
  shows "\<exists>bs. set bs \<subseteq> C \<and> distinct (map key_of bs) \<and> key_of ` set bs \<inter> bill_keys (db m) = {}
    \<and> bill_marks (db m') = bill_marks (db m) \<union> mark_of ` set bs
    \<and> distinct (map fst ms) \<and> set ms \<subseteq> mark_of ` set bs
    \<and> (\<forall>u\<in>set (b_users (db m)). u_ID u \<notin> D \<longrightarrow> (\<exists>v\<in>set (b_users (db m')). u_ID v = u_ID u
        \<and> \<bar>of_int (u_Balance v - u_Balance u) + sum_list (map (cost_of (u_ID u)) bs)\<bar>
           \<le> (of_nat (length (filter (costs (u_ID u)) bs)) / 2 :: rat)))"
proof -
  have new: "bills.reach C D (db m) (db m')" "newly (bill_marks (db m)) ms (db m')"
    using bills.rgD [OF rg_serve_all [OF assms(3)] assms(4,1,2) order_refl] by auto
  then obtain bs where run: "run_of (bill_step C D) (db m) bs (db m')" unfolding bills.reach_def by blast
  have "set ms \<subseteq> mark_of ` set bs"
  proof
    fix a assume "a \<in> set ms"
    then have "a \<in> bill_marks (db m) \<union> mark_of ` set bs" "a \<notin> bill_marks (db m)"
      using new(2) marks_run [OF run] unfolding newly_def by blast+
    then show "a \<in> mark_of ` set bs" by blast
  qed
  then show ?thesis
    using marks_run [OF run] billed_new [OF run] balance_run [OF run] new(2) by (intro exI [of _ bs]) (simp add: newly_def)
qed

text \<open>A store with one user, whose request was billed to another key before.\<close>

definition demo_row :: DedupRow where
  "demo_row = \<lparr>dd_RequestID = ''client:1'', dd_APIKeyID = 3, dd_Fingerprint = ''f'', dd_CreatedAt = 5\<rparr>"

definition demo_bill_store :: "User \<Rightarrow> sub_db \<Rightarrow> bill_db" where
  "demo_bill_store u s = \<lparr>b_dedup = [demo_row], b_archive = [demo_row\<lparr>dd_APIKeyID := 4\<rparr>], b_subs = s, b_users = [u], b_keys = [],
     b_accounts = [], b_outbox = []\<rparr>"

definition demo_command :: UsageBillingCommand where
  "demo_command = zero_UsageBillingCommand\<lparr>ub_RequestID := ''client:1'', ub_APIKeyID := 2, ub_UserID := 7,
     ub_RequestFingerprint := ''f'', ub_BalanceCost := Finite 1\<rparr>"

lemma demo_bill_ok: "bill_ok (demo_bill_store u s)"
  by (simp add: bill_ok_def demo_bill_store_def demo_row_def)

lemma served_bill:
  assumes "bill_ok d" "submitted sha256 [c] \<subseteq> C"
  shows "bills.reach C D d (db (snd (run_state (bill_serve sha256 z c) (alone d))))"
proof -
  obtain x m' where run: "run_state (bill_serve sha256 z c) (alone d) = (x, m')" by (rule prod.exhaust)
  have "bills.reach C D d (db m')"
    using bills.rgD [OF rg_serve [of _ _ C D "{}", OF assms(2)] run] assms(1) by (simp add: bills.polite_def)
  then show ?thesis by (simp add: run)
qed

text \<open>Another process bills the same request before the transaction, and the commit of the second call is lost.\<close>

definition demo_bill_machine :: "(string \<Rightarrow> string) \<Rightarrow> zones \<Rightarrow> User \<Rightarrow> sub_db \<Rightarrow> bill_db machine" where
  "demo_bill_machine sha256 z u s =
     \<lparr>db = demo_bill_store u s,
      sched = [(\<lambda>d. db (snd (run_state (bill_serve sha256 z (BApply demo_command)) (alone d))), Works),
        (id, Works), (id, Works), (\<lambda>d. db (snd (run_state (bill_serve sha256 z (BCleanup 1 9)) (alone d))), Works), (id, FailsAfter)]\<rparr>"

abbreviation demo_bill_calls :: "bill_call list" where
  "demo_bill_calls \<equiv> [BApply demo_command, BApply demo_command, BCleanup 1 7]"

lemma demo_submitted: "submitted sha256 [BApply demo_command] = {demo_command}" "submitted sha256 [BCleanup n k] = {}"
  "submitted sha256 demo_bill_calls = {demo_command}"
proof -
  have "TrimSpace ''client:1'' = ''client:1''" "TrimSpace ''f'' = ''f''" by code_simp+
  then have "Normalize sha256 demo_command = demo_command" by (simp add: demo_command_def Normalize_def Let_def)
  then show "submitted sha256 [BApply demo_command] = {demo_command}" "submitted sha256 [BCleanup n k] = {}"
    "submitted sha256 demo_bill_calls = {demo_command}"
    by (auto simp: submitted_def)
qed

theorem billed_once_witness:
  "\<forall>sha256 z u s. \<exists>bs. set bs \<subseteq> {demo_command} \<and> distinct (map key_of bs)
     \<and> distinct (map fst (fst (run_state (bill_serve_all sha256 z demo_bill_calls) (demo_bill_machine sha256 z u s))))"
proof (intro allI)
  fix sha256 z u s
  let ?m = "demo_bill_machine sha256 z u s"
  have polite: "bills.polite {demo_command} {} (sched ?m)"
    using served_bill [of _ sha256 _ "{demo_command}" "{}" z]
    by (simp add: demo_bill_machine_def bills.polite_def demo_submitted del: bill_serve.simps)
  have ok: "bill_ok (db ?m)" by (simp add: demo_bill_machine_def demo_bill_ok)
  have calls: "submitted sha256 demo_bill_calls \<subseteq> {demo_command}" by (rule eq_refl [OF demo_submitted(3)])
  obtain ms m' where run: "run_state (bill_serve_all sha256 z demo_bill_calls) ?m = (ms, m')" by (rule prod.exhaust)
  show "\<exists>bs. set bs \<subseteq> {demo_command} \<and> distinct (map key_of bs)
     \<and> distinct (map fst (fst (run_state (bill_serve_all sha256 z demo_bill_calls) ?m)))"
    using billed_once [OF ok polite calls run] unfolding run fst_conv by - (elim exE conjE, intro exI conjI)
qed

section \<open>All or nothing\<close>

definition reports :: "(pay_error + UsageBillingApplyResult) \<Rightarrow> bool" where
  "reports r \<longleftrightarrow> (\<forall>x. r = Inr x \<longrightarrow> br_Applied x)"

definition keeps_reporting :: "(pay_error + UsageBillingApplyResult \<Rightarrow> (pay_error + UsageBillingApplyResult) bill) \<Rightarrow> bool" where
  "keeps_reporting f \<longleftrightarrow> (\<forall>r m r' m'. reports r \<longrightarrow> run_state (f r) m = (r', m') \<longrightarrow> reports r')"

lemma due_reports:
  assumes "\<And>a x. br_Applied (keep a x) = br_Applied x"
  shows "keeps_reporting (when_due b c keep)"
  unfolding keeps_reporting_def
proof (intro allI impI)
  fix r m r' m' assume h: "reports r" "run_state (when_due b c keep r) m = (r', m')"
  show "reports r'"
  proof (cases r)
    case (Inr x)
    then show ?thesis using h assms by (auto simp: when_due_def reports_def split: sum.splits if_splits prod.splits)
  qed (use h in \<open>simp add: when_due_def\<close>)
qed

lemma bind_reports:
  assumes "keeps_reporting f" "keeps_reporting g"
  shows "keeps_reporting (\<lambda>r. State_Monad.bind (f r) g)"
  unfolding keeps_reporting_def
proof (intro allI impI)
  fix r m r' m' assume h: "reports r" "run_state (State_Monad.bind (f r) g) m = (r', m')"
  obtain q n where q: "run_state (f r) m = (q, n)" by (rule prod.exhaust)
  then have "run_state (g q) n = (r', m')" using h(2) by simp
  then show "reports r'" using assms q h(1) unfolding keeps_reporting_def by blast
qed

lemma effects_report: "keeps_reporting (applyUsageBillingEffects z c)"
  unfolding applyUsageBillingEffects_def [abs_def]
  by (intro bind_reports due_reports) simp_all

lemma body_ends_full:
  "ends (apply_body z c) (\<lambda>d y d'. \<forall>r. y = Inr r \<longrightarrow> br_Applied r
     \<and> (\<exists>d1. new_key c d d1 \<and> key_of c \<notin> row_key ` set (b_archive d1) \<and> effects_done z c d1 d'))"
proof -
  let ?r = "not_applied\<lparr>br_Applied := True\<rparr>"
  have ran: "ends (applyUsageBillingEffects z c (Inr ?r)) (\<lambda>d y d'. reports y \<and> (\<forall>r. y = Inr r \<longrightarrow> effects_done z c d d'))"
    unfolding ends_def
  proof (intro allI impI)
    fix m y m' assume h: "calm m" "run_state (applyUsageBillingEffects z c (Inr ?r)) m = (y, m')"
    have "reports (Inr ?r)" by (simp add: reports_def)
    then have "reports y" using effects_report [of z c] h(2) unfolding keeps_reporting_def by blast
    then show "calm m' \<and> reports y \<and> (\<forall>r. y = Inr r \<longrightarrow> effects_done z c (db m) (db m'))"
      using worked_effects [of z c ?r] h unfolding worked_def by blast
  qed
  have rest: "ends (case x of Inl e \<Rightarrow> ret (Inl (Some e)) | Inr False \<Rightarrow> ret (Inl None)
      | Inr True \<Rightarrow> State_Monad.bind (applyUsageBillingEffects z c (Inr ?r)) (\<lambda>r. ret (case r of Inl e \<Rightarrow> Inl (Some e) | Inr y \<Rightarrow> Inr y)))
     (\<lambda>d y d'. \<forall>r. y = Inr r \<longrightarrow> x = Inr True \<and> br_Applied r \<and> effects_done z c d d')" for x
  proof (cases "x = Inr True")
    case True
    have "ends (State_Monad.bind (applyUsageBillingEffects z c (Inr ?r)) (\<lambda>r. ret (case r of Inl e \<Rightarrow> Inl (Some e) | Inr y \<Rightarrow> Inr y)))
       (\<lambda>d y d'. \<forall>r. y = Inr r \<longrightarrow> br_Applied r \<and> effects_done z c d d')"
      by (rule ends_bind [OF ran, where S = "\<lambda>r d y d'. d' = d \<and> y = (case r of Inl e \<Rightarrow> Inl (Some e) | Inr y \<Rightarrow> Inr y)"])
        (auto intro: ends_ret simp: reports_def split: sum.splits)
    then show ?thesis using True by simp
  qed (auto intro: ends_ret split: sum.split bool.split)
  show ?thesis
    unfolding apply_body_def
    by (rule ends_bind [OF claim_ends rest]) blast
qed

text \<open>
  What a charge promises of the rows, without the functions of the statements: the cost is the shortest decimal of the
  \<open>float64\<close>, columns of money are rounded half away from zero.
\<close>

definition amount :: "float64 \<Rightarrow> rat" where
  "amount x = (case x of Finite r \<Rightarrow> shortest r | _ \<Rightarrow> 0)"

definition rows_charged :: "bool \<Rightarrow> ('r \<Rightarrow> bool) \<Rightarrow> ('r \<Rightarrow> 'r \<Rightarrow> bool) \<Rightarrow> 'r list \<Rightarrow> 'r list \<Rightarrow> bool" where
  "rows_charged due p spec xs ys \<longleftrightarrow>
     (if due then (\<exists>x\<in>set xs. p x) \<and> list_all2 (\<lambda>x y. if p x then spec x y else y = x) xs ys else ys = xs)"

definition usage_charged :: "rat \<Rightarrow> int \<Rightarrow> sub_row \<Rightarrow> sub_row \<Rightarrow> bool" where
  "usage_charged q now r r' \<longleftrightarrow>
     r' = r\<lparr>us_DailyUsageUSD := half_away (of_int (us_DailyUsageUSD r) + q * 10 ^ 10),
            us_WeeklyUsageUSD := half_away (of_int (us_WeeklyUsageUSD r) + q * 10 ^ 10),
            us_MonthlyUsageUSD := half_away (of_int (us_MonthlyUsageUSD r) + q * 10 ^ 10), us_UpdatedAt := now\<rparr>"

definition balance_charged :: "rat \<Rightarrow> User \<Rightarrow> User \<Rightarrow> bool" where
  "balance_charged q u u' \<longleftrightarrow> u' = u\<lparr>u_Balance := half_away (of_int (u_Balance u) - q * 10 ^ 8)\<rparr>"

definition quota_charged :: "rat \<Rightarrow> key_row \<Rightarrow> key_row \<Rightarrow> bool" where
  "quota_charged q k k' \<longleftrightarrow>
     k' = k\<lparr>kr_QuotaUsed := half_away (of_int (kr_QuotaUsed k) + q * 10 ^ 8),
       kr_Status := (if kr_Status k = ''active'' \<and> 0 < kr_Quota k \<and> kr_QuotaUsed k < kr_Quota k
           \<and> of_int (kr_Quota k) \<le> of_int (kr_QuotaUsed k) + q * 10 ^ 8
         then ''quota_exhausted'' else kr_Status k)\<rparr>"

definition window_over :: "int \<Rightarrow> int \<Rightarrow> int option \<Rightarrow> bool" where
  "window_over now len start \<longleftrightarrow> (\<exists>t. start = Some t \<and> t + len \<le> now)"

definition window_charged :: "rat \<Rightarrow> int \<Rightarrow> int \<Rightarrow> int \<Rightarrow> int \<times> int option \<Rightarrow> int \<times> int option" where
  "window_charged q now begin len w =
     (case w of (used, start) \<Rightarrow>
        (half_away (of_int (if window_over now len start then 0 else used) + q * 10 ^ 8),
         if start = None \<or> window_over now len start then Some begin else start))"

definition rate_charged :: "zones \<Rightarrow> int \<Rightarrow> rat \<Rightarrow> key_row \<Rightarrow> key_row \<Rightarrow> bool" where
  "rate_charged z now q k k' \<longleftrightarrow>
     (let w5 = window_charged q now now (hours 5) (kr_Usage5h k, kr_Window5hStart k);
          w1 = window_charged q now (this_day z now) (hours 24) (kr_Usage1d k, kr_Window1dStart k);
          w7 = window_charged q now (this_day z now) (hours 168) (kr_Usage7d k, kr_Window7dStart k)
      in k' = k\<lparr>kr_Usage5h := fst w5, kr_Usage1d := fst w1, kr_Usage7d := fst w7,
           kr_Window5hStart := snd w5, kr_Window1dStart := snd w1, kr_Window7dStart := snd w7\<rparr>)"

text \<open>A period with a limit: what is used, since when, and when a fixed one is reset next, at \<open>next\<close>.\<close>

definition period_charged :: "rat \<Rightarrow> int \<Rightarrow> int \<Rightarrow> rat option \<Rightarrow> go_string option \<Rightarrow> int option
    \<Rightarrow> rat option \<times> int option \<times> int option \<Rightarrow> rat option \<times> int option \<times> int option" where
  "period_charged q now len limit mode next w =
     (case w of (used, start, reset) \<Rightarrow>
        let over = (if mode = Some ''fixed'' then (case reset of None \<Rightarrow> 0 | Some t \<Rightarrow> t) \<le> now
                    else (case start of None \<Rightarrow> 0 | Some t \<Rightarrow> t) + len \<le> now)
        in if limit = None \<or> the limit \<le> 0 then w
           else (Some ((if over \<or> used = None then 0 else the used) + q),
                 if over \<or> start = None then Some now else start,
                 if over \<and> mode = Some ''fixed'' then next else reset))"

definition account_charged :: "zones \<Rightarrow> int \<Rightarrow> rat \<Rightarrow> account_row \<Rightarrow> account_row \<Rightarrow> bool" where
  "account_charged z now q a a' \<longleftrightarrow>
     (let x = ar_Extra a;
          d = period_charged q now (hours 24) (ex_DailyLimit x) (ex_DailyResetMode x) (nextDailyResetAtExpr z now x)
                (ex_DailyUsed x, ex_DailyStart x, ex_DailyResetAt x);
          w = period_charged q now (hours 168) (ex_WeeklyLimit x) (ex_WeeklyResetMode x) (nextWeeklyResetAtExpr z now x)
                (ex_WeeklyUsed x, ex_WeeklyStart x, ex_WeeklyResetAt x)
      in a' = a\<lparr>ar_Extra := x\<lparr>ex_QuotaUsed := Some ((case ex_QuotaUsed x of None \<Rightarrow> 0 | Some u \<Rightarrow> u) + q),
           ex_DailyUsed := fst d, ex_DailyStart := fst (snd d), ex_DailyResetAt := snd (snd d),
           ex_WeeklyUsed := fst w, ex_WeeklyStart := fst (snd w), ex_WeeklyResetAt := snd (snd w)\<rparr>\<rparr>)"

definition all_charged :: "zones \<Rightarrow> UsageBillingCommand \<Rightarrow> bill_db \<Rightarrow> bill_db \<Rightarrow> bool" where
  "all_charged z c d d' \<longleftrightarrow>
     rows_charged (positive (ub_SubscriptionCost c) \<and> ub_SubscriptionID c \<noteq> None)
       (\<lambda>r. ub_SubscriptionID c = Some (us_ID r) \<and> (\<exists>g\<in>set (s_groups (b_subs d)). g_ID g = us_GroupID r))
       (usage_charged (amount (ub_SubscriptionCost c)) (bill_now d)) (s_rows (b_subs d)) (s_rows (b_subs d'))
     \<and> rows_charged (positive (ub_BalanceCost c)) (\<lambda>u. u_ID u = ub_UserID c)
         (balance_charged (amount (ub_BalanceCost c))) (b_users d) (b_users d')
     \<and> (\<exists>ks. rows_charged (positive (ub_APIKeyQuotaCost c)) (\<lambda>k. kr_ID k = ub_APIKeyID c)
              (quota_charged (amount (ub_APIKeyQuotaCost c))) (b_keys d) ks
          \<and> rows_charged (positive (ub_APIKeyRateLimitCost c)) (\<lambda>k. kr_ID k = ub_APIKeyID c)
              (rate_charged z (bill_now d) (amount (ub_APIKeyRateLimitCost c))) ks (b_keys d'))
     \<and> rows_charged (account_due c) (\<lambda>a. ar_ID a = ub_AccountID c)
         (account_charged z (bill_now d) (amount (ub_AccountQuotaCost c))) (b_accounts d) (b_accounts d')
     \<and> (\<exists>ob. d' = d\<lparr>b_subs := (b_subs d)\<lparr>s_rows := s_rows (b_subs d')\<rparr>, b_users := b_users d', b_keys := b_keys d',
           b_accounts := b_accounts d', b_outbox := ob\<rparr> \<and> set (b_outbox d) \<subseteq> set ob)"

lemma stepped_charged:
  assumes "stepped due cost p f xs ys" "\<And>q x y. sql_param cost = Some q \<Longrightarrow> p x \<Longrightarrow> f q x = Some y \<Longrightarrow> spec x y"
  shows "rows_charged due p spec xs ys"
proof (cases due)
  case True
  then obtain q where q: "sql_param cost = Some q" "list_ex p xs" "list_all2 (\<lambda>x y. (if p x then f q x else Some x) = Some y) xs ys"
    using assms(1) by (auto simp: stepped_def)
  have "list_all2 (\<lambda>x y. if p x then spec x y else y = x) xs ys"
    by (rule list_all2_mono [OF q(3)]) (use assms(2) [OF q(1)] in \<open>auto split: if_splits\<close>)
  then show ?thesis using True q(2) by (auto simp: rows_charged_def list_ex_iff)
qed (use assms(1) in \<open>simp add: rows_charged_def\<close>)

lemma amount_param: "sql_param x = Some q \<Longrightarrow> amount x = q"
  by (simp add: sql_param_def amount_def split: float64.splits)

lemma column_half: "column s q = Some n \<Longrightarrow> n = half_away (q * 10 ^ s)"
  by (simp add: column_def Let_def split: if_splits)

lemma units: "from_units s n * 10 ^ s = of_int n"
  by (simp add: from_units_def)

lemma column_plus: "column s (from_units s n + q) = Some m \<Longrightarrow> m = half_away (of_int n + q * 10 ^ s)"
  "column s (from_units s n - q) = Some m \<Longrightarrow> m = half_away (of_int n - q * 10 ^ s)"
  using column_half [of s "from_units s n + q" m] column_half [of s "from_units s n - q" m]
  by (simp_all add: distrib_right left_diff_distrib units)

lemma usage_row: "more_usage q now r = Some r' \<Longrightarrow> usage_charged q now r r'"
  by (auto simp: more_usage_def usage_charged_def Let_def dest!: column_plus split: option.splits)

lemma balance_row: "less_balance q u = Some u' \<Longrightarrow> balance_charged q u u'"
  by (auto simp: less_balance_def balance_charged_def dest!: column_plus)

lemma quota_row:
  assumes "more_quota q k = Some k'"
  shows "quota_charged q k k'"
proof -
  have "from_units 8 a \<le> from_units 8 b + q \<longleftrightarrow> of_int a \<le> of_int b + q * 10 ^ 8" for a b
    by (simp add: from_units_def field_simps)
  then show ?thesis
    using assms column_plus(1) [of 8 "kr_QuotaUsed k" q]
    by (auto simp: more_quota_def quota_charged_def StatusAPIKeyActive_def StatusAPIKeyQuotaExhausted_def)
qed

lemma window_row:
  "window_usage now len q start used = Some u \<Longrightarrow>
   window_charged q now begin len (used, start) = (u, window_start now len begin start)"
  by (auto simp: window_usage_def window_start_def window_charged_def window_over_def from_units_def distrib_right
      dest!: column_half split: option.splits if_splits)

lemma rate_row: "more_rate z now q k = Some k' \<Longrightarrow> rate_charged z now q k k'"
  by (auto simp: more_rate_def rate_charged_def Let_def window_row split: option.splits)

lemma next_resets:
  "nextDailyResetAtExpr z now x = (if ex_DailyResetMode x = Some ''fixed'' then Some (the (nextDailyResetAtExpr z now x)) else None)"
  "nextWeeklyResetAtExpr z now x = (if ex_WeeklyResetMode x = Some ''fixed'' then Some (the (nextWeeklyResetAtExpr z now x)) else None)"
  by (simp_all add: nextDailyResetAtExpr_def nextWeeklyResetAtExpr_def is_fixed_def Let_def)

definition period_over :: "int \<Rightarrow> int \<Rightarrow> go_string option \<Rightarrow> int option \<Rightarrow> int option \<Rightarrow> bool" where
  "period_over now len mode reset start \<longleftrightarrow>
     (if mode = Some ''fixed'' then (case reset of None \<Rightarrow> 0 | Some t \<Rightarrow> t) \<le> now
      else (case start of None \<Rightarrow> 0 | Some t \<Rightarrow> t) + len \<le> now)"

lemma over_expired: "dailyExpiredExpr now x = period_over now (hours 24) (ex_DailyResetMode x) (ex_DailyResetAt x) (ex_DailyStart x)"
  "weeklyExpiredExpr now x = period_over now (hours 168) (ex_WeeklyResetMode x) (ex_WeeklyResetAt x) (ex_WeeklyStart x)"
  by (simp_all add: dailyExpiredExpr_def weeklyExpiredExpr_def period_expired_def period_over_def is_fixed_def)

lemma no_limit: "limit = None \<or> the limit \<le> 0 \<longleftrightarrow> \<not> 0 < or0 limit"
  by (cases limit) (auto simp: or0_def)

lemma new_use: "(if over then q else or0 u + q) = (if over \<or> u = None then 0 else the u) + q"
  by (cases u) (auto simp: or0_def)

lemma new_start: "(if over then Some now else or_old start (Some now)) = (if over \<or> start = None then Some now else start)"
  by (cases start) (auto simp: or_old_def)

lemma daily_row:
  assumes "ex_DailyUsed y = ex_DailyUsed x" "ex_DailyStart y = ex_DailyStart x" "ex_DailyResetAt y = ex_DailyResetAt x"
    "d = period_charged q now (hours 24) (ex_DailyLimit x) (ex_DailyResetMode x) (nextDailyResetAtExpr z now x)
       (ex_DailyUsed x, ex_DailyStart x, ex_DailyResetAt x)"
  shows "daily_part z now q x y = y\<lparr>ex_DailyUsed := fst d, ex_DailyStart := fst (snd d), ex_DailyResetAt := snd (snd d)\<rparr>"
proof -
  have "or_old (nextDailyResetAtExpr z now x) (ex_DailyResetAt x) =
      (if ex_DailyResetMode x = Some ''fixed'' then nextDailyResetAtExpr z now x else ex_DailyResetAt x)"
    by (subst (1 2) next_resets(1)) (simp add: or_old_def)
  then show ?thesis
    unfolding assms(4) daily_part_def over_expired period_charged_def prod.case Let_def no_limit new_use new_start
      period_over_def [symmetric]
    using assms(1-3) by (cases "period_over now (hours 24) (ex_DailyResetMode x) (ex_DailyResetAt x) (ex_DailyStart x)";
      cases "0 < or0 (ex_DailyLimit x)"; cases "ex_DailyResetMode x = Some ''fixed''") (simp_all del: option.simps not_None_eq)
qed

lemma weekly_row:
  assumes "ex_WeeklyUsed y = ex_WeeklyUsed x" "ex_WeeklyStart y = ex_WeeklyStart x" "ex_WeeklyResetAt y = ex_WeeklyResetAt x"
    "d = period_charged q now (hours 168) (ex_WeeklyLimit x) (ex_WeeklyResetMode x) (nextWeeklyResetAtExpr z now x)
       (ex_WeeklyUsed x, ex_WeeklyStart x, ex_WeeklyResetAt x)"
  shows "weekly_part z now q x y = y\<lparr>ex_WeeklyUsed := fst d, ex_WeeklyStart := fst (snd d), ex_WeeklyResetAt := snd (snd d)\<rparr>"
proof -
  have "or_old (nextWeeklyResetAtExpr z now x) (ex_WeeklyResetAt x) =
      (if ex_WeeklyResetMode x = Some ''fixed'' then nextWeeklyResetAtExpr z now x else ex_WeeklyResetAt x)"
    by (subst (1 2) next_resets(2)) (simp add: or_old_def)
  then show ?thesis
    unfolding assms(4) weekly_part_def over_expired period_charged_def prod.case Let_def no_limit new_use new_start
      period_over_def [symmetric]
    using assms(1-3) by (cases "period_over now (hours 168) (ex_WeeklyResetMode x) (ex_WeeklyResetAt x) (ex_WeeklyStart x)";
      cases "0 < or0 (ex_WeeklyLimit x)"; cases "ex_WeeklyResetMode x = Some ''fixed''") (simp_all del: option.simps not_None_eq)
qed

lemma account_row_charged:
  assumes "add_extra z now q a = Some a'"
  shows "account_charged z now q a a'"
proof -
  have base: "more_extra z now q x = weekly_part z now q x (daily_part z now q x (x\<lparr>ex_QuotaUsed := Some ((case ex_QuotaUsed x of None \<Rightarrow> 0 | Some u \<Rightarrow> u) + q)\<rparr>))" for x
    by (simp add: more_extra_def or0_def)
  have a': "a' = a\<lparr>ar_Extra := more_extra z now q (ar_Extra a)\<rparr>" using assms by (simp add: add_extra_def)
  show ?thesis
    unfolding a' base account_charged_def Let_def
    by (subst weekly_row [OF _ _ _ refl], (subst daily_row [OF _ _ _ refl], simp_all)+)
qed

lemma effects_all_charged:
  assumes "effects_done z c d d'"
  shows "all_charged z c d d'"
proof -
  obtain rows us ks ks' as ob where d': "d' = d\<lparr>b_subs := (b_subs d)\<lparr>s_rows := rows\<rparr>, b_users := us, b_keys := ks',
        b_accounts := as, b_outbox := ob\<rparr>"
    and sub: "stepped (positive (ub_SubscriptionCost c) \<and> ub_SubscriptionID c \<noteq> None) (ub_SubscriptionCost c)
        (sub_p (valueOrZero (ub_SubscriptionID c)) (b_subs d)) (\<lambda>q. more_usage q (bill_now d)) (s_rows (b_subs d)) rows"
    and user: "stepped (positive (ub_BalanceCost c)) (ub_BalanceCost c) (\<lambda>u. u_ID u = ub_UserID c) less_balance (b_users d) us"
    and quota: "stepped (positive (ub_APIKeyQuotaCost c)) (ub_APIKeyQuotaCost c) (\<lambda>k. kr_ID k = ub_APIKeyID c) more_quota (b_keys d) ks"
    and rate: "stepped (positive (ub_APIKeyRateLimitCost c)) (ub_APIKeyRateLimitCost c) (\<lambda>k. kr_ID k = ub_APIKeyID c)
        (more_rate z (bill_now d)) ks ks'"
    and account: "stepped (account_due c) (ub_AccountQuotaCost c) (\<lambda>a. ar_ID a = ub_AccountID c)
        (add_extra z (bill_now d)) (b_accounts d) as" and out: "set (b_outbox d) \<subseteq> set ob"
    using assms unfolding effects_done_def by blast
  let ?p = "\<lambda>r. ub_SubscriptionID c = Some (us_ID r) \<and> (\<exists>g\<in>set (s_groups (b_subs d)). g_ID g = us_GroupID r)"
  let ?spec = "usage_charged (amount (ub_SubscriptionCost c)) (bill_now d)"
  have p: "sub_p (valueOrZero (ub_SubscriptionID c)) (b_subs d) = ?p" if "ub_SubscriptionID c \<noteq> None"
    using that by (auto simp: sub_p_def fun_eq_iff valueOrZero_def list_ex_iff)
  have "rows_charged (positive (ub_SubscriptionCost c) \<and> ub_SubscriptionID c \<noteq> None)
       (sub_p (valueOrZero (ub_SubscriptionID c)) (b_subs d)) ?spec (s_rows (b_subs d)) rows"
    by (rule stepped_charged [OF sub]) (auto dest: amount_param intro: usage_row)
  then have "rows_charged (positive (ub_SubscriptionCost c) \<and> ub_SubscriptionID c \<noteq> None) ?p ?spec (s_rows (b_subs d)) rows"
  proof (cases "ub_SubscriptionID c = None")
    case True
    with \<open>rows_charged _ _ _ _ _\<close> show ?thesis by (simp add: rows_charged_def)
  next
    case False
    from \<open>rows_charged _ _ _ _ _\<close> show ?thesis unfolding p [OF False] .
  qed
  moreover have "rows_charged (positive (ub_BalanceCost c)) (\<lambda>u. u_ID u = ub_UserID c)
      (balance_charged (amount (ub_BalanceCost c))) (b_users d) us"
    by (rule stepped_charged [OF user]) (auto dest: amount_param intro: balance_row)
  moreover have "rows_charged (positive (ub_APIKeyQuotaCost c)) (\<lambda>k. kr_ID k = ub_APIKeyID c)
      (quota_charged (amount (ub_APIKeyQuotaCost c))) (b_keys d) ks"
    by (rule stepped_charged [OF quota]) (auto dest: amount_param intro: quota_row)
  moreover have "rows_charged (positive (ub_APIKeyRateLimitCost c)) (\<lambda>k. kr_ID k = ub_APIKeyID c)
      (rate_charged z (bill_now d) (amount (ub_APIKeyRateLimitCost c))) ks ks'"
    by (rule stepped_charged [OF rate]) (auto dest: amount_param intro: rate_row)
  moreover have "rows_charged (account_due c) (\<lambda>a. ar_ID a = ub_AccountID c)
      (account_charged z (bill_now d) (amount (ub_AccountQuotaCost c))) (b_accounts d) as"
    by (rule stepped_charged [OF account]) (auto dest: amount_param intro: account_row_charged)
  ultimately show ?thesis unfolding all_charged_def d' using out by auto
qed

text \<open>
C5. Charging a request, alone and with the database working: either the answer is an error, or it says that
  nothing was applied, and then nothing has changed; or it says that the request was applied, and then its key was in
  neither table, its row is new, and subscription, balance, key quota, rate limit and account quota are updated
  in their rows by exactly the costs that are due, and nothing else but the queue of notices has changed. Usage and used
  quota grow by the cost, the balance falls by it, in the last decimal of their columns; a window or period that is over
  begins again with the cost alone; an active key that reaches its quota is exhausted. (When a fixed period that is over
  is reset next is taken from the expression of the code.)
\<close>
theorem all_or_nothing:
  "case run_state (Apply sha256 z cmd) (alone d) of
     (Inl e, m) \<Rightarrow> db m = d
   | (Inr r, m) \<Rightarrow>
       (if br_Applied r then cmd_key cmd \<notin> bill_keys d
          \<and> (\<exists>row. row_key row = cmd_key cmd \<and> dd_Fingerprint row = ub_RequestFingerprint (Normalize sha256 cmd)
              \<and> all_charged z (Normalize sha256 cmd) (d\<lparr>b_dedup := b_dedup d @ [row]\<rparr>) (db m))
        else r = not_applied \<and> db m = d)"
proof (cases "ub_RequestID (Normalize sha256 cmd) = []")
  case True
  then show ?thesis by (simp add: Apply_def)
next
  case False
  let ?c = "Normalize sha256 cmd"
  obtain y n where body: "run_state (apply_body z ?c) (alone d) = (y, n)" by (rule prod.exhaust)
  have run: "run_state (Apply sha256 z cmd) (alone d) =
      (case y of Inl None \<Rightarrow> Inr not_applied | Inl (Some e) \<Rightarrow> Inl e | Inr r \<Rightarrow> Inr r,
       alone (case y of Inl e \<Rightarrow> d | Inr r \<Rightarrow> db n))"
    using False by (simp add: Apply_def Let_def quiet_transaction [OF body])
  show ?thesis
  proof (cases y)
    case (Inl e)
    then show ?thesis unfolding run by (cases e) (simp_all add: not_applied_def)
  next
    case (Inr r)
    then obtain d1 where d1: "br_Applied r" "new_key ?c d d1" "key_of ?c \<notin> row_key ` set (b_archive d1)" "effects_done z ?c d1 (db n)"
      using endsD [OF body_ends_full _ body] by (auto simp: calm_def)
    then obtain row where row: "row_key row = key_of ?c" "dd_Fingerprint row = ub_RequestFingerprint ?c" "d1 = d\<lparr>b_dedup := b_dedup d @ [row]\<rparr>"
      unfolding new_key_def by blast
    moreover have "cmd_key cmd \<notin> bill_keys d" using d1(2,3) row(3) by (simp add: new_key_def bill_keys_def)
    ultimately show ?thesis unfolding run using d1(1) effects_all_charged [OF d1(4)] Inr by auto
  qed
qed

section \<open>Again\<close>

lemma find_key:
  assumes "distinct (map row_key xs)" "x \<in> set xs" "row_key x = (r, k)"
  shows "find (row_of r k) xs = Some x"
proof -
  obtain y where y: "find (row_of r k) xs = Some y"
    using assms(2,3) find_row [of r k xs] by (cases "find (row_of r k) xs") (auto intro: rev_image_eqI)
  then have "y \<in> set xs" "row_key y = row_key x" using found_in [OF y] assms(3) by (simp_all add: row_of_def)
  then show ?thesis using y assms(1,2) by (simp add: distinct_map inj_on_def)
qed

text \<open>
C6. A request that was billed, be its row in the table or in the archive, is not billed again: with the same
  fingerprint the answer says that nothing was applied, with another one it is the error for a conflict, and
  in both cases the whole store is as before.
\<close>
theorem repeat_changes_nothing:
  assumes "bill_ok d" "x \<in> set (b_dedup d) \<union> set (b_archive d)" "row_key x = cmd_key cmd" "TrimSpace (ub_RequestID cmd) \<noteq> []"
    "varchar 255 (ub_RequestID (Normalize sha256 cmd))" "varchar 64 (ub_RequestFingerprint (Normalize sha256 cmd))"
  shows "run_state (Apply sha256 z cmd) (alone d) =
    (if TrimSpace (dd_Fingerprint x) = TrimSpace (ub_RequestFingerprint (Normalize sha256 cmd)) then Inr not_applied
     else Inl ErrUsageBillingRequestConflict, alone d)"
proof -
  let ?c = "Normalize sha256 cmd"
  let ?same = "TrimSpace (dd_Fingerprint x) = TrimSpace (ub_RequestFingerprint ?c)"
  have key: "row_key x = (ub_RequestID ?c, ub_APIKeyID ?c)" using assms(3) key_of_Normalize [of sha256 cmd] by (simp add: key_of_def)
  have id: "ub_RequestID ?c \<noteq> []" using assms(4) key_of_Normalize [of sha256 cmd] by (simp add: key_of_def cmd_key_def)
  have "\<exists>n. run_state (claimUsageBillingKey ?c) (alone d) = (if ?same then Inr False else Inl ErrUsageBillingRequestConflict, n)"
  proof (cases "row_key x \<in> row_key ` set (b_dedup d)")
    case True
    then have "x \<in> set (b_dedup d)" using assms(1,2) unfolding bill_ok_def by blast
    then have "find (row_of (ub_RequestID ?c) (ub_APIKeyID ?c)) (b_dedup d) = Some x"
      using find_key [OF _ _ key] assms(1) by (simp add: bill_ok_def)
    then show ?thesis
      using True assms(5,6) unfolding key
      by (simp add: claimUsageBillingKey_def dedup_insert_def dedup_select_def compare_fingerprint_def quiet row_of_key)
  next
    case False
    then have "x \<in> set (b_archive d)" using assms(2) by blast
    then have "find (row_of (ub_RequestID ?c) (ub_APIKeyID ?c)) (b_archive d) = Some x"
      using find_key [OF _ _ key] assms(1) by (simp add: bill_ok_def)
    then show ?thesis
      using False assms(5,6) unfolding key
      by (simp add: claimUsageBillingKey_def dedup_insert_def dedup_select_def compare_fingerprint_def quiet row_of_key)
  qed
  then obtain n where claim: "run_state (claimUsageBillingKey ?c) (alone d) = (if ?same then Inr False else Inl ErrUsageBillingRequestConflict, n)" ..
  have body: "run_state (apply_body z ?c) (alone d) = (if ?same then Inl None else Inl (Some ErrUsageBillingRequestConflict), n)"
    by (simp add: apply_body_def claim)
  show ?thesis
    using id by (simp add: Apply_def Let_def quiet_transaction [OF body])
qed

lemma demo_again:
  "Normalize sha256 (demo_command\<lparr>ub_APIKeyID := 4\<rparr>) = demo_command\<lparr>ub_APIKeyID := 4\<rparr>"
  "cmd_key (demo_command\<lparr>ub_APIKeyID := 4\<rparr>) = (''client:1'', 4)" "TrimSpace (ub_RequestID (demo_command\<lparr>ub_APIKeyID := 4\<rparr>)) = ''client:1''"
  "ub_RequestID (demo_command\<lparr>ub_APIKeyID := 4\<rparr>) = ''client:1''" "ub_RequestFingerprint (demo_command\<lparr>ub_APIKeyID := 4\<rparr>) = ''f''"
proof -
  have t: "TrimSpace ''client:1'' = ''client:1''" "TrimSpace ''f'' = ''f''" by code_simp+
  show "Normalize sha256 (demo_command\<lparr>ub_APIKeyID := 4\<rparr>) = demo_command\<lparr>ub_APIKeyID := 4\<rparr>"
    "cmd_key (demo_command\<lparr>ub_APIKeyID := 4\<rparr>) = (''client:1'', 4)" "TrimSpace (ub_RequestID (demo_command\<lparr>ub_APIKeyID := 4\<rparr>)) = ''client:1''"
    "ub_RequestID (demo_command\<lparr>ub_APIKeyID := 4\<rparr>) = ''client:1''" "ub_RequestFingerprint (demo_command\<lparr>ub_APIKeyID := 4\<rparr>) = ''f''"
    by (simp_all add: demo_command_def cmd_key_def Normalize_def Let_def t)
qed

lemma demo_archived:
  "demo_row\<lparr>dd_APIKeyID := 4\<rparr> \<in> set (b_dedup (demo_bill_store u s)) \<union> set (b_archive (demo_bill_store u s))"
  "row_key (demo_row\<lparr>dd_APIKeyID := 4\<rparr>) = (''client:1'', 4)" "dd_Fingerprint (demo_row\<lparr>dd_APIKeyID := 4\<rparr>) = ''f''"
  by (simp_all add: demo_bill_store_def demo_row_def)

theorem repeat_changes_nothing_witness:
  "\<forall>sha256 z u s. run_state (Apply sha256 z (demo_command\<lparr>ub_APIKeyID := 4\<rparr>)) (alone (demo_bill_store u s))
     = (Inr not_applied, alone (demo_bill_store u s))"
proof (intro allI)
  fix sha256 z u s
  have "varchar 255 ''client:1''" "varchar 64 ''f''" "TrimSpace ''client:1'' \<noteq> []" by code_simp+
  then show "run_state (Apply sha256 z (demo_command\<lparr>ub_APIKeyID := 4\<rparr>)) (alone (demo_bill_store u s))
     = (Inr not_applied, alone (demo_bill_store u s))"
    using repeat_changes_nothing [of "demo_bill_store u s" "demo_row\<lparr>dd_APIKeyID := 4\<rparr>" "demo_command\<lparr>ub_APIKeyID := 4\<rparr>" sha256 z,
        OF demo_bill_ok demo_archived(1)]
    by (simp only: demo_again demo_archived) simp
qed

section \<open>The cleanup\<close>

lemma taken_apart:
  assumes "distinct xs"
  shows "filter P (filter (\<lambda>x. x \<notin> set (take n (filter P xs))) xs) = drop n (filter P xs)"
    "filter (\<lambda>x. \<not> P x) (filter (\<lambda>x. x \<notin> set (take n (filter P xs))) xs) = filter (\<lambda>x. \<not> P x) xs"
proof -
  have "filter (\<lambda>x. x \<notin> set (take n ys)) ys = drop n ys" if "distinct ys" for ys :: "'a list"
  proof -
    have "distinct (take n ys @ drop n ys)" using that by simp
    then have "filter (\<lambda>x. x \<notin> set (take n ys)) (take n ys @ drop n ys) = drop n ys"
      by (simp only: filter_append distinct_append) (auto simp: filter_empty_conv filter_id_conv)
    then show ?thesis by simp
  qed
  from this [of "filter P xs"] assms
  show "filter P (filter (\<lambda>x. x \<notin> set (take n (filter P xs))) xs) = drop n (filter P xs)"
    by (simp add: conj_commute)
  show "filter (\<lambda>x. \<not> P x) (filter (\<lambda>x. x \<notin> set (take n (filter P xs))) xs) = filter (\<lambda>x. \<not> P x) xs"
    by (auto simp: intro!: filter_cong dest: in_set_takeD)
qed

lemma frame_trans:
  "d' = a\<lparr>b_dedup := x, b_archive := y\<rparr> \<Longrightarrow> a = d\<lparr>b_dedup := x', b_archive := y'\<rparr> \<Longrightarrow> d' = d\<lparr>b_dedup := x, b_archive := y\<rparr>"
  by simp

text \<open>
C14. The cleanup ends, once it may do more batches than there are full ones among the old rows: no row from
  before the cutoff is left in the table, the others are there in their order, every key that was known is
  known, so that no request can be billed again, and nothing but the two tables has changed.
\<close>
theorem cleanup_forgets_nothing:
  assumes "bill_ok d" "length (filter (\<lambda>x. dd_CreatedAt x < cutoff) (b_dedup d)) < fuel * usageBillingDedupCleanupBatchSize"
  shows "\<exists>d'. run_state (CleanupUsageBillingDedup fuel cutoff) (alone d) = (Some (Inr ()), alone d') \<and> bill_ok d'
    \<and> bill_keys d' = bill_keys d \<and> b_dedup d' = filter (\<lambda>x. cutoff \<le> dd_CreatedAt x) (b_dedup d)
    \<and> d' = d\<lparr>b_dedup := b_dedup d', b_archive := b_archive d'\<rparr>"
  using assms
proof (induction fuel arbitrary: d)
  case (Suc fuel)
  let ?n = usageBillingDedupCleanupBatchSize and ?old = "\<lambda>x. dd_CreatedAt x < cutoff"
  let ?d = "archive_at cutoff ?n d"
  have dedup: "b_dedup ?d = filter (\<lambda>x. x \<notin> set (take ?n (filter ?old (b_dedup d)))) (b_dedup d)"
    and frame: "?d = d\<lparr>b_dedup := b_dedup ?d, b_archive := b_archive ?d\<rparr>" by (simp_all add: archive_at_def Let_def)
  have "distinct (b_dedup d)" using Suc.prems(1) by (simp add: bill_ok_def distinct_map)
  note parts = taken_apart [OF this, of ?old ?n, folded dedup]
  have run: "run_state (CleanupUsageBillingDedup (Suc fuel) cutoff) (alone d) =
      (if length (filter ?old (b_dedup d)) < ?n then (Some (Inr ()), alone ?d) else run_state (CleanupUsageBillingDedup fuel cutoff) (alone ?d))"
    by (simp add: archive_batch_at quiet)
  show ?case
  proof (cases "length (filter ?old (b_dedup d)) < ?n")
    case True
    then have "filter ?old (b_dedup ?d) = []" using parts(1) by simp
    then have "b_dedup ?d = filter (\<lambda>x. \<not> ?old x) (b_dedup ?d)" by (metis (mono_tags, lifting) filter_True filter_empty_conv)
    then have "b_dedup ?d = filter (\<lambda>x. cutoff \<le> dd_CreatedAt x) (b_dedup d)" using parts(2) by (simp add: not_less)
    then show ?thesis using True run archive_at_ok [OF Suc.prems(1)] frame by auto
  next
    case False
    have "length (filter ?old (b_dedup ?d)) < fuel * ?n" using Suc.prems(2) False unfolding parts(1) by simp
    from Suc.IH [OF archive_at_ok(1) [OF Suc.prems(1)] this] obtain d' where d':
      "run_state (CleanupUsageBillingDedup fuel cutoff) (alone ?d) = (Some (Inr ()), alone d')" "bill_ok d'" "bill_keys d' = bill_keys ?d"
      "b_dedup d' = filter (\<lambda>x. cutoff \<le> dd_CreatedAt x) (b_dedup ?d)" "d' = ?d\<lparr>b_dedup := b_dedup d', b_archive := b_archive d'\<rparr>" by blast
    have "d' = d\<lparr>b_dedup := b_dedup d', b_archive := b_archive d'\<rparr>" using d'(5) frame by (rule frame_trans)
    then show ?thesis
      using run False d'(1-4) parts(2) archive_at_ok(2) [OF Suc.prems(1)] by (intro exI [of _ d']) (simp add: not_less)
  qed
qed simp

theorem cleanup_forgets_nothing_witness:
  "\<forall>u s. \<exists>d'. run_state (CleanupUsageBillingDedup 1 9) (alone (demo_bill_store u s)) = (Some (Inr ()), alone d') \<and> b_dedup d' = []"
proof (intro allI)
  fix u s
  show "\<exists>d'. run_state (CleanupUsageBillingDedup 1 9) (alone (demo_bill_store u s)) = (Some (Inr ()), alone d') \<and> b_dedup d' = []"
    using cleanup_forgets_nothing [OF demo_bill_ok, of 9 u s 1]
    by (fastforce simp: demo_bill_store_def demo_row_def usageBillingDedupCleanupBatchSize_def)
qed

end
