(* ===== verification/Spec2Isabelle.thy ===== *)
theory Spec2Isabelle
  imports RespToAnthFacts AnthToRespRespFacts AnthToRespRespTrip RequestFacts ChatFacts ChatBridgeFacts
    ChatToResp IdempotencyFacts PayClaims RefundFacts SubscriptionFacts OrderClaims WebhookFacts
    SubscriptionClaims UsageBillingClaims
begin

text \<open>
  A verification library for the Go backend of an AI API gateway (\<open>src/backend\<close>): the conversions between
  the three wire formats of model providers, the idempotency layer of its write requests, the payment
  system, the subscriptions of its users, and the charging of what they use.

  \<^bold>\<open>The program.\<close> The gateway takes requests in the Anthropic Messages, the OpenAI Responses or the
  OpenAI Chat Completions format and forwards them to upstream accounts that may speak another of the
  three. \<open>internal/pkg/apicompat\<close> converts requests one way and answers, whole or as a stream of
  server-sent events, the other way. Management requests that move money or change accounts run through
  \<open>internal/service/idempotency.go\<close>, which executes a request with a key once and replays its answer.
  Users pay for a balance or a subscription: \<open>service/payment_order.go\<close> checks the request, chooses an
  instance of a payment provider (\<open>payment/load_balancer.go\<close>) and stores an order;
  the gateway calls back (\<open>handler/payment_webhook_handler.go\<close>) or is asked
  (\<open>payment_order_lifecycle.go\<close>), and \<open>payment_fulfillment.go\<close> credits the order by a redeem code of its own
  (\<open>redeem_service.go\<close>) or an extension of a subscription (\<open>subscription_service.go\<close>); \<open>payment_refund.go\<close> takes it
  back. The daily, weekly and monthly usage of a subscription limits the requests it lets through. What a
  request costs is charged to the subscription or the balance, and counted for the key and the account, in one
  transaction that a request passes at most once (\<open>service/usage_billing.go\<close>,
  \<open>repository/usage_billing_repo.go\<close>).

  \<^bold>\<open>Support.\<close>
  \<^item> \<open>Prelude\<close>: results, Go strings as byte lists, 64-bit wrap-around, decimal and hexadecimal text, lists.
  \<^item> \<open>GoJson\<close>: \<open>encoding/json\<close>: the scanner of the standard library as a push-down automaton, one
    level of decoding (a raw message is its text), strings with UTF-8 and escapes, struct fields with
    case folding, \<open>omitempty\<close>, compaction and key order of maps. \<open>GoJsonFacts\<close>, \<open>GoJsonTrip\<close>: what is
    written is valid and reads back; the locale \<open>json_codec\<close> states this of an encoder and its decoder.
  \<^item> \<open>ApiTypes\<close>: the structs of \<open>types.go\<close> with their encoders and decoders; \<open>ApiCodec\<close>: the
    interpretations of \<open>json_codec\<close> for content parts, input items and content blocks.
  \<^item> \<open>Float64\<close>, \<open>DecimalText\<close>: \<open>float64\<close> as rationals with every result rounded to the nearest representable
    value, and the decimal texts that \<open>strconv\<close> reads and writes.
  \<^item> \<open>Interference\<close>: code on a store that other processes share, as a state monad whose statements take
    what the others do and whether the statement works, fails, or loses its answer from a schedule;
    transactions; rely/guarantee reasoning as the locale \<open>shared_store\<close>.

  \<^bold>\<open>Models\<close>, one theory for each source file, one definition for each function, named as in the source;
  the body of a loop or of a long case is a definition of its own.
  \<^item> \<open>AnthToResp\<close>: \<open>anthropic_to_responses.go\<close> (requests).
  \<^item> \<open>RespToAnthReq\<close>: \<open>responses_to_anthropic_request.go\<close> (requests).
  \<^item> \<open>RespToAnth\<close>: \<open>responses_to_anthropic.go\<close> (answers and streams).
  \<^item> \<open>AnthToRespResp\<close>: \<open>anthropic_to_responses_response.go\<close> (answers and streams).
  \<^item> \<open>ChatToResp\<close>: \<open>chatcompletions_to_responses.go\<close> (requests).
  \<^item> \<open>RespToChat\<close>: \<open>responses_to_chatcompletions.go\<close> (answers, streams, the buffered accumulator).
  \<^item> \<open>ChatBridge\<close>: \<open>chatcompletions_responses_bridge.go\<close> (requests, answers, streams).
  \<^item> \<open>Idempotency\<close>: \<open>service/idempotency.go\<close> over a repository given as a record of operations;
    \<open>IdempotencyRepo\<close>: that repository as statements on the table \<open>idempotency_records\<close>.
  \<^item> \<open>PayTypes\<close>, \<open>PayAmounts\<close>: the data of the payment system, currencies, minor units, fees and refunds in
    proportion; \<open>PayDb\<close>: its tables and the statements on them.
  \<^item> \<open>PayRedeem\<close>: \<open>redeem_service.go\<close>; \<open>PayFulfill\<close>: \<open>payment_fulfillment.go\<close>; \<open>PayLifecycle\<close>:
    \<open>payment_order_lifecycle.go\<close>; \<open>PayRefund\<close>: \<open>payment_refund.go\<close>; \<open>PayWebhook\<close>: the handler of callbacks
    with \<open>payment_webhook_provider.go\<close>.
  \<^item> \<open>PayMethods\<close>, \<open>PayBalancer\<close>: which instances serve a method, their limits, and the choice of one;
    \<open>PayOrder\<close>: \<open>payment_order.go\<close>.
  \<^item> \<open>SubscriptionDb\<close>: \<open>user_subscription.go\<close> with the statements of \<open>user_subscription_repo.go\<close>;
    \<open>Subscription\<close>: \<open>subscription_service.go\<close>.
  \<^item> \<open>UsageBilling\<close>: \<open>usage_billing.go\<close> with the construction of a command in \<open>gateway_service.go\<close>, the
    transaction of \<open>usage_billing_repo.go\<close>, and the cleanup of old keys in \<open>dashboard_aggregation_repo.go\<close>.

  \<^bold>\<open>Properties.\<close>
  \<^item> \<open>RespToAnthFacts\<close>: the Anthropic stream nests for every sequence of upstream events; one start and
    one stop; text, deltas, tool arguments, usage; streaming agrees with the whole answer.
  \<^item> \<open>AnthToRespRespFacts\<close>, \<open>AnthToRespRespTrip\<close>: sequence numbers, one created and one completed event,
    deltas, output items; the round trip of an answer.
  \<^item> \<open>RequestFacts\<close>: merged messages alternate; round trips of conversations, tool choices and requests;
    limits and errors of the request conversion; the JSON round trip.
  \<^item> \<open>ChatFacts\<close>, \<open>ChatBridgeFacts\<close>: texts, tool calls and finish of Chat Completions streams, the accumulator, the
    bridge.
  \<^item> \<open>IdempotencyRace\<close>: the contract of a repository as the locale \<open>idempotency_store\<close>, interpreted on the
    SQL statements, and callers that race for a key as the step relation \<open>race_step\<close>: at most one caller
    at a time, at most one success while nothing expires, and the race that executes twice when a record
    has expired.
  \<^item> \<open>IdempotencyFacts\<close>: \<open>Execute\<close> decides in five repository calls; replay of a stored answer, also of a
    truncated or blank one; a record whose caller has died.
  \<^item> \<open>PayStep\<close>: the life of an order as the step relation \<open>status_step\<close>, what any process may do to the
    tables as \<open>pay_step\<close>, and \<open>shared_store\<close> interpreted on them; \<open>PayGuard\<close>, \<open>PayCalls\<close>: every call of the
    service but \<open>CreateOrder\<close> makes only such steps (that one sets its order to \<open>FAILED\<close> whatever its status is
    when the call of the gateway fails: \<open>failed_call_overwrites\<close> in \<open>OrderClaims\<close>); \<open>PayFacts\<close>: what follows for codes, balances and orders.
  \<^item> \<open>PayQuiet\<close>: runs without others and without faults computed as functions of the tables, with
    \<open>credit_passes\<close> for what the redeem cache and the affiliate service have to let through; \<open>PayDemo\<close>: a concrete
    service with both.
  \<^item> \<open>PayClaims\<close>: a code is credited once under any interleaving and faults; well-formed tables; the history
    of an order; a notification completes a balance order; orders that get stuck or lose their payment.
  \<^item> \<open>RefundFacts\<close>, \<open>SubscriptionFacts\<close>, \<open>WebhookFacts\<close>: refunds, subscription orders, callbacks.
  \<^item> \<open>AmountFacts\<close>, \<open>BalancerFacts\<close>: bounds of the amount to pay; a selected instance is enabled and within its
    limits.
  \<^item> \<open>OrderFacts\<close>, \<open>OrderClaims\<close>: what the creation of an order checks and leaves, and what its snapshot is
    good for.
  \<^item> \<open>SubscriptionStep\<close>, \<open>SubscriptionCalls\<close>: \<open>shared_store\<close> interpreted on the table of subscriptions, and
    every operation keeps to it; \<open>SubscriptionClaims\<close>: one subscription for a user and a group, what an
    extension does, what the limits decide, and the extensions and usage that are lost in a race.
  \<^item> \<open>UsageBillingFacts\<close>: what a process may do to keys and balances as \<open>bill_step\<close>, labelled with
    the commands it bills, \<open>shared_store\<close> interpreted on it, and that charges and cleanups keep to it;
    \<open>UsageBillingClaims\<close>: a request is billed once under any interleaving and faults and balances move by the costs of
    what was billed; what a charge does to every row, or nothing; the cleanup forgets no key.

  Some properties state defects: what the code does where it does not do what it means to.

  \<^bold>\<open>Conventions.\<close> A pointer is an option, a nil slice the empty list, a machine integer an \<open>int\<close> with
  \<open>wrap64\<close> at every sum that may overflow, a string the list of its bytes. Random ids are read from an
  entropy source, a function from the number of reads; the clock is an argument or part of the store. A
  panic is \<open>None\<close>. Error texts of \<open>encoding/json\<close> are one opaque string. A statement of the database is
  atomic; \<open>alone d\<close> is a store with an empty schedule. Every loop is structural or has a measure, but for
  two: \<open>claim\<close> makes five steps, and every path of the source makes at most five calls; the cleanup of keys makes as
  many batches as it is given, and \<open>cleanup_forgets_nothing\<close> says how many are enough.

  \<^bold>\<open>Parameters.\<close> The package \<open>shopspring/decimal\<close> is \<open>decimal_lib\<close>, with its documented behaviour as
  \<open>decimal_laws\<close> and the rationals as an instance; the conversion between floats and columns is
  \<open>numeric\<close>; a payment gateway is a \<open>Provider\<close> with its state; settings, plans, the cache, days of the
  calendar and the affiliate service are fields of the service records. To the payment theories the
  subscription service is a parameter too, the grants of a redeem code.

  \<^bold>\<open>Not modelled.\<close> HTTP forwarding, account selection and scheduling, the clients of payment gateways and
  the administration of their configuration, paged lists, mails and statistics, most settings and user
  management, the generated database client and the web front end.
\<close>

end
